(* ===== verification/Yield_Prelude.thy ===== *)
theory Yield_Prelude
  imports Main "HOL-Library.Word" "HOL-Library.Char_ord" "HOL-Library.List_Lexorder"
begin

text \<open>
  Shared vocabulary of the development: Go errors and their text, results that may fail or
  panic, host effects as a trace that every operation extends, nil-able big integers,
  big-endian byte strings, and the ASCII string functions the sources call.

  A Go function that returns \<open>(T, error)\<close> is a value of \<open>'a outcome\<close>: \<open>Ok\<close> for a nil error,
  \<open>Err\<close> for a returned error and \<open>Panic\<close> for a run-time panic (nil dereference, slice out of
  range, explicit panic). A function that talks to its host takes the trace of host calls made
  so far and returns its outcome with the longer trace.
\<close>

named_theorems outcome_simps \<open>evaluation of outcomes and effectful programs\<close>
named_theorems handler_defs \<open>definitions of the workflow handlers\<close>

section \<open>Formatting and errors\<close>

datatype fmt_arg = FInt int | FStr string | FHex "8 word list"

definition digit_char :: "nat \<Rightarrow> char" where
  "digit_char d = char_of (if d < 10 then 48 + d else 87 + d)"

fun show_nat :: "nat \<Rightarrow> string" where
  "show_nat n =
     (if n < 10 then [digit_char n] else show_nat (n div 10) @ [digit_char (n mod 10)])"

declare show_nat.simps [simp del]

definition show_int :: "int \<Rightarrow> string" where
  "show_int i = (if i < 0 then CHR ''-'' # show_nat (nat (- i)) else show_nat (nat i))"

definition hex_byte :: "8 word \<Rightarrow> string" where
  "hex_byte b = [digit_char (unat b div 16), digit_char (unat b mod 16)]"

definition hex_bytes :: "8 word list \<Rightarrow> string" where
  "hex_bytes bs = concat (map hex_byte bs)"

definition quote_char :: "char \<Rightarrow> string" where
  "quote_char c =
     (if c = CHR 0x22 \<or> c = CHR 0x5C then [CHR 0x5C, c]
      else if c = CHR 0x0A then [CHR 0x5C, CHR ''n'']
      else if c = CHR 0x09 then [CHR 0x5C, CHR ''t'']
      else if c = CHR 0x0D then [CHR 0x5C, CHR ''r'']
      else if 32 \<le> (of_char c :: nat) \<and> (of_char c :: nat) < 127 then [c]
      else [CHR 0x5C, CHR ''x''] @ hex_byte (of_char c))"

definition go_quote :: "string \<Rightarrow> string" where
  "go_quote s = CHR 0x22 # concat (map quote_char s) @ [CHR 0x22]"

fun fmt_verb :: "char \<Rightarrow> fmt_arg \<Rightarrow> string" where
  "fmt_verb v (FInt i) = show_int i"
| "fmt_verb v (FStr s) = (if v = CHR ''q'' then go_quote s else s)"
| "fmt_verb v (FHex bs) = hex_bytes bs"

text \<open>
  \<open>fmt.Sprintf\<close> for the verbs the sources use. A format that ends in a lone percent sign or has
  more verbs than arguments prints Go's diagnostic.
\<close>

fun sprintf :: "string \<Rightarrow> fmt_arg list \<Rightarrow> string" where
  "sprintf [] args = []"
| "sprintf (c # cs) args =
     (if c = CHR ''%'' then
        (case cs of
           [] \<Rightarrow> ''%!(NOVERB)''
         | v # cs' \<Rightarrow>
             (case args of
                [] \<Rightarrow> ''%!'' @ [v] @ ''(MISSING)'' @ sprintf cs' []
              | a # rest \<Rightarrow> fmt_verb v a @ sprintf cs' rest))
      else c # sprintf cs args)"

datatype go_error =
    Errorf string "fmt_arg list"
  | Wrapf string "fmt_arg list" go_error
  | Foreign string

fun err_text :: "go_error \<Rightarrow> string" where
  "err_text (Errorf f args) = sprintf f args"
| "err_text (Wrapf f args e) = sprintf f (args @ [FStr (err_text e)])"
| "err_text (Foreign s) = s"

section \<open>Outcomes\<close>

datatype 'a outcome = Ok 'a | Err go_error | Panic string

fun bindO :: "'a outcome \<Rightarrow> ('a \<Rightarrow> 'b outcome) \<Rightarrow> 'b outcome" where
  "bindO (Ok a) f = f a"
| "bindO (Err e) f = Err e"
| "bindO (Panic s) f = Panic s"

fun wrapO :: "string \<Rightarrow> fmt_arg list \<Rightarrow> 'a outcome \<Rightarrow> 'a outcome" where
  "wrapO f args (Ok a) = Ok a"
| "wrapO f args (Err e) = Err (Wrapf f args e)"
| "wrapO f args (Panic s) = Panic s"

fun is_panic :: "'a outcome \<Rightarrow> bool" where
  "is_panic (Panic s) = True"
| "is_panic _ = False"

lemma bindO_Ok_iff: "bindO m f = Ok b \<longleftrightarrow> (\<exists>a. m = Ok a \<and> f a = Ok b)"
  by (cases m) auto

lemma wrapO_Ok_iff [simp]: "wrapO f args m = Ok b \<longleftrightarrow> m = Ok b"
  by (cases m) auto

lemma is_panic_bindO: "is_panic (bindO m f) \<longleftrightarrow> is_panic m \<or> (\<exists>a. m = Ok a \<and> is_panic (f a))"
  by (cases m) auto

lemma is_panic_wrapO [simp]: "is_panic (wrapO f args m) = is_panic m"
  by (cases m) auto

lemma not_panic_iff: "\<not> is_panic m \<longleftrightarrow> (\<exists>a. m = Ok a) \<or> (\<exists>e. m = Err e)"
  by (cases m) auto

section \<open>Effects: host calls on a trace\<close>

type_synonym ('c, 'a) io = "'c list \<Rightarrow> 'a outcome \<times> 'c list"

definition retI :: "'a \<Rightarrow> ('c, 'a) io" where
  "retI a = (\<lambda>tr. (Ok a, tr))"

definition liftO :: "'a outcome \<Rightarrow> ('c, 'a) io" where
  "liftO m = (\<lambda>tr. (m, tr))"

definition bindI :: "('c, 'a) io \<Rightarrow> ('a \<Rightarrow> ('c, 'b) io) \<Rightarrow> ('c, 'b) io" where
  "bindI m f = (\<lambda>tr.
     (case m tr of
        (Ok a, tr') \<Rightarrow> f a tr'
      | (Err e, tr') \<Rightarrow> (Err e, tr')
      | (Panic s, tr') \<Rightarrow> (Panic s, tr')))"

definition wrapI :: "string \<Rightarrow> fmt_arg list \<Rightarrow> ('c, 'a) io \<Rightarrow> ('c, 'a) io" where
  "wrapI f args m = (\<lambda>tr. case m tr of (r, tr') \<Rightarrow> (wrapO f args r, tr'))"

text \<open>A host call: the host's answer may depend on everything asked before.\<close>

definition callI :: "'c \<Rightarrow> ('c list \<Rightarrow> 'a outcome) \<Rightarrow> ('c, 'a) io" where
  "callI c respond = (\<lambda>tr. (respond tr, tr @ [c]))"

lemmas io_defs = retI_def liftO_def bindI_def wrapI_def callI_def

lemma bindI_retI [simp]: "bindI (retI a) f = f a"
  by (simp add: io_defs)

lemma bindI_liftO_Ok [simp]: "bindI (liftO (Ok a)) f = f a"
  by (simp add: io_defs)

lemma bindI_liftO_Err [simp]: "bindI (liftO (Err e)) f = liftO (Err e)"
  by (simp add: io_defs)

lemma bindI_liftO_Panic [simp]: "bindI (liftO (Panic e)) f = liftO (Panic e)"
  by (simp add: io_defs)

lemma bindI_assoc: "bindI (bindI m f) g = bindI m (\<lambda>a. bindI (f a) g)"
  by (rule ext) (simp add: bindI_def split: prod.splits outcome.splits)

text \<open>
  \<open>spec_io m Q\<close>: from every trace, \<open>m\<close> only appends calls, and its outcome and the calls it
  appended satisfy \<open>Q\<close>. It is the specification form used for every effectful operation.
\<close>

definition spec_io :: "('c, 'a) io \<Rightarrow> ('a outcome \<Rightarrow> 'c list \<Rightarrow> bool) \<Rightarrow> bool" where
  "spec_io m Q \<longleftrightarrow> (\<forall>tr. \<exists>cs. snd (m tr) = tr @ cs \<and> Q (fst (m tr)) cs)"

lemma spec_ioI:
  assumes "\<And>tr. \<exists>cs. snd (m tr) = tr @ cs \<and> Q (fst (m tr)) cs"
  shows "spec_io m Q"
  using assms by (simp add: spec_io_def)

lemma spec_io_mono: "spec_io m Q \<Longrightarrow> (\<And>r cs. Q r cs \<Longrightarrow> R r cs) \<Longrightarrow> spec_io m R"
  unfolding spec_io_def by blast

lemma spec_ioD:
  assumes "spec_io m Q" and "m tr = (r, tr')"
  shows "\<exists>cs. tr' = tr @ cs \<and> Q r cs"
proof -
  from assms(1) obtain cs where "snd (m tr) = tr @ cs \<and> Q (fst (m tr)) cs"
    unfolding spec_io_def by blast
  with assms(2) show ?thesis by auto
qed

lemma spec_io_retI: "Q (Ok a) [] \<Longrightarrow> spec_io (retI a) Q"
  by (simp add: spec_io_def retI_def)

lemma spec_io_liftO: "Q r [] \<Longrightarrow> spec_io (liftO r) Q"
  by (simp add: spec_io_def liftO_def)

lemma spec_io_callI: "(\<And>tr. Q (respond tr) [c]) \<Longrightarrow> spec_io (callI c respond) Q"
  by (simp add: spec_io_def callI_def)

lemma spec_io_wrapI: "spec_io m (\<lambda>r cs. Q (wrapO f args r) cs) \<Longrightarrow> spec_io (wrapI f args m) Q"
  unfolding spec_io_def wrapI_def by (simp add: case_prod_beta)

text \<open>
  The sequencing rule: the calls of a sequence are the calls of its first part, followed by
  those of the continuation when the first part succeeded.
\<close>

lemma spec_io_bindI:
  assumes m: "spec_io m Q"
    and f: "\<And>a cs. Q (Ok a) cs \<Longrightarrow> spec_io (f a) (\<lambda>r cs'. R r (cs @ cs'))"
    and err: "\<And>e cs. Q (Err e) cs \<Longrightarrow> R (Err e) cs"
    and pan: "\<And>s cs. Q (Panic s) cs \<Longrightarrow> R (Panic s) cs"
  shows "spec_io (bindI m f) R"
proof (rule spec_ioI)
  fix tr
  obtain r tr' where m_eq: "m tr = (r, tr')" by fastforce
  with m obtain cs where cs: "tr' = tr @ cs" "Q r cs"
    by (blast dest: spec_ioD)
  show "\<exists>cs. snd (bindI m f tr) = tr @ cs \<and> R (fst (bindI m f tr)) cs"
  proof (cases r)
    case (Ok a)
    with cs(2) have "spec_io (f a) (\<lambda>r cs'. R r (cs @ cs'))" by (auto intro: f)
    then obtain cs' where "snd (f a tr') = tr' @ cs'" "R (fst (f a tr')) (cs @ cs')"
      unfolding spec_io_def by blast
    with Ok cs m_eq show ?thesis by (auto simp: bindI_def)
  qed (use cs m_eq err pan in \<open>auto simp: bindI_def\<close>)
qed

lemma bindI_wrapI_liftO [simp]:
  "bindI (wrapI s args (liftO (Ok a))) f = f a"
  "bindI (wrapI s args (liftO (Err e))) f = liftO (Err (Wrapf s args e))"
  "bindI (wrapI s args (liftO (Panic p))) f = liftO (Panic p)"
  by (simp_all add: io_defs)

lemma spec_io_wrap_ret:
  assumes "spec_io m Q"
    and "\<And>a cs. Q (Ok a) cs \<Longrightarrow> R (Ok (f a)) cs"
    and "\<And>e cs. Q (Err e) cs \<Longrightarrow> R (Err (Wrapf s args e)) cs"
    and "\<And>p cs. Q (Panic p) cs \<Longrightarrow> R (Panic p) cs"
  shows "spec_io (bindI (wrapI s args m) (\<lambda>a. retI (f a))) R"
proof (rule spec_io_bindI)
  show "spec_io (wrapI s args m) (\<lambda>r cs. \<exists>r0. r = wrapO s args r0 \<and> Q r0 cs)"
    by (rule spec_io_wrapI, rule spec_io_mono [OF assms(1)]) blast
next
  fix a cs
  assume "\<exists>r0. Ok a = wrapO s args r0 \<and> Q r0 cs"
  then have "Q (Ok a) cs" by (metis wrapO_Ok_iff)
  then show "spec_io (retI (f a)) (\<lambda>r cs'. R r (cs @ cs'))"
    by (intro spec_io_retI) (simp add: assms(2))
next
  fix e cs
  assume "\<exists>r0. Err e = wrapO s args r0 \<and> Q r0 cs"
  then obtain r0 where "Err e = wrapO s args r0" "Q r0 cs" by blast
  then show "R (Err e) cs" by (cases r0) (auto intro: assms(3))
next
  fix p cs
  assume "\<exists>r0. Panic p = wrapO s args r0 \<and> Q r0 cs"
  then obtain r0 where "Panic p = wrapO s args r0" "Q r0 cs" by blast
  then show "R (Panic p) cs" by (cases r0) (auto intro: assms(4))
qed

section \<open>Integers\<close>

text \<open>A \<open>*big.Int\<close>: \<open>None\<close> is the nil pointer. Methods on nil dereference it and panic.\<close>

type_synonym bigptr = "int option"
type_synonym byte = "8 word"
type_synonym bytes32 = "byte list"
type_synonym uint8 = "8 word"
type_synonym uint64 = "64 word"
type_synonym address = "160 word"

fun deref :: "bigptr \<Rightarrow> int outcome" where
  "deref None = Panic ''nil pointer dereference''"
| "deref (Some v) = Ok v"

text \<open>\<open>(*big.Int).Cmp\<close> compares the pointers first, so that two nil pointers are equal.\<close>

definition big_Cmp :: "bigptr \<Rightarrow> bigptr \<Rightarrow> int outcome" where
  "big_Cmp x y =
     (if x = None \<and> y = None then Ok 0
      else bindO (deref x) (\<lambda>a. bindO (deref y) (\<lambda>b. Ok (sgn (a - b)))))"

definition big_Sign :: "bigptr \<Rightarrow> int outcome" where
  "big_Sign x = bindO (deref x) (\<lambda>a. Ok (sgn a))"

text \<open>\<open>BitLen\<close> of a big integer: the length of its absolute value in bits.\<close>

definition fits_bits :: "nat \<Rightarrow> int \<Rightarrow> bool" where
  "fits_bits n v \<longleftrightarrow> \<bar>v\<bar> < 2 ^ n"

lemma big_Cmp_Some [simp]: "big_Cmp (Some a) (Some b) = Ok (sgn (a - b))"
  by (simp add: big_Cmp_def)

lemma big_Sign_Some [simp]: "big_Sign (Some a) = Ok (sgn a)"
  by (simp add: big_Sign_def)

lemma sgn_diff_simps [simp]:
  fixes a b :: int
  shows "sgn (a - b) = 0 \<longleftrightarrow> a = b"
    and "sgn (a - b) \<le> 0 \<longleftrightarrow> a \<le> b"
    and "0 < sgn (a - b) \<longleftrightarrow> b < a"
    and "0 \<le> sgn (a - b) \<longleftrightarrow> b \<le> a"
    and "sgn (a - b) < 0 \<longleftrightarrow> a < b"
  by (auto simp: sgn_if)

lemma sgn_int_simps [simp]:
  fixes a :: int
  shows "sgn a \<le> 0 \<longleftrightarrow> a \<le> 0" and "0 < sgn a \<longleftrightarrow> 0 < a"
    and "0 \<le> sgn a \<longleftrightarrow> 0 \<le> a" and "sgn a < 0 \<longleftrightarrow> a < 0"
  by (auto simp: sgn_if)

section \<open>Big-endian byte strings\<close>

fun be_bytes :: "nat \<Rightarrow> nat \<Rightarrow> byte list" where
  "be_bytes 0 v = []"
| "be_bytes (Suc n) v = be_bytes n (v div 256) @ [of_nat (v mod 256)]"

definition be_nat :: "byte list \<Rightarrow> nat" where
  "be_nat bs = foldl (\<lambda>acc b. acc * 256 + unat b) 0 bs"

lemma length_be_bytes [simp]: "length (be_bytes n v) = n"
  by (induction n arbitrary: v) auto

lemma be_nat_snoc [simp]: "be_nat (bs @ [b]) = be_nat bs * 256 + unat b"
  by (simp add: be_nat_def)

lemma be_nat_be_bytes: "be_nat (be_bytes n v) = v mod 256 ^ n"
proof (induction n arbitrary: v)
  case 0
  then show ?case by (simp add: be_nat_def)
next
  case (Suc n)
  have "unat (of_nat (v mod 256) :: byte) = v mod 256"
    by (simp add: unat_of_nat)
  with Suc show ?case by (simp add: mod_mult2_eq)
qed

section \<open>ASCII strings\<close>

text \<open>
  Go strings are byte strings. \<open>strings.ToLower\<close> and \<open>strings.TrimSpace\<close> are modelled on the
  ASCII range, which is the range of the configured identifiers; a byte above 127 is kept.
\<close>

definition is_space :: "char \<Rightarrow> bool" where
  "is_space c \<longleftrightarrow> c \<in> {CHR 0x09, CHR 0x0A, CHR 0x0B, CHR 0x0C, CHR 0x0D, CHR '' ''}"

definition lower_char :: "char \<Rightarrow> char" where
  "lower_char c =
     (if 65 \<le> (of_char c :: nat) \<and> (of_char c :: nat) \<le> 90 then char_of ((of_char c :: nat) + 32) else c)"

definition ToLower :: "string \<Rightarrow> string" where
  "ToLower s = map lower_char s"

definition TrimSpace :: "string \<Rightarrow> string" where
  "TrimSpace s = rev (dropWhile is_space (rev (dropWhile is_space s)))"

definition EqualFold :: "string \<Rightarrow> string \<Rightarrow> bool" where
  "EqualFold s t \<longleftrightarrow> ToLower s = ToLower t"

definition string_bytes :: "string \<Rightarrow> byte list" where
  "string_bytes s = map of_char s"

lemma lower_char_idem [simp]: "lower_char (lower_char c) = lower_char c"
  by (auto simp: lower_char_def)

lemma ToLower_idem [simp]: "ToLower (ToLower s) = ToLower s"
  by (simp add: ToLower_def)

section \<open>Lists\<close>

lemma filter_singleton_unique:
  assumes "length (filter P xs) = 1" and "x \<in> set xs" "P x" "y \<in> set xs" "P y"
  shows "x = y"
proof -
  from assms(1) obtain z where "filter P xs = [z]" by (auto simp: length_Suc_conv)
  then have "{a \<in> set xs. P a} = {z}" by (metis list.set(1) list.set(2) set_filter)
  with assms(2-5) show ?thesis by (metis (mono_tags, lifting) mem_Collect_eq singletonD)
qed

end
