(* ===== verification/Go_Float.thy ===== *)
theory Go_Float
  imports Complex_Main Yield_Prelude "HOL-Library.Log_Nat"
begin

text \<open>
  Go's \<open>float64\<close> (IEEE 754 binary64, round to nearest, ties to even): a NaN, two infinities, or
  a finite value, which is kept as the rational number it denotes. The two zeros are one
  value; no comparison or sum in the workflow tells them apart. \<open>round64\<close> is the rounding of an
  exact rational, which gives both the correctly rounded subtraction and the correctly rounded
  decimal conversion of \<open>strconv.ParseFloat\<close>.
\<close>

datatype float64 = F_NaN | F_Inf bool | F_Fin rat

definition pow2 :: "int \<Rightarrow> rat" where
  "pow2 k = 2 powi k"

text \<open>The binary exponent of a positive rational: \<open>pow2 (ilog2 q) \<le> q < pow2 (ilog2 q + 1)\<close>.\<close>

definition ilog2 :: "rat \<Rightarrow> int" where
  "ilog2 q =
     (if 1 \<le> q then int (floorlog 2 (nat \<lfloor>q\<rfloor>)) - 1
      else - int (floorlog 2 (nat (\<lceil>1 / q\<rceil> - 1))))"

definition round_half_even :: "rat \<Rightarrow> int" where
  "round_half_even q =
     (let f = \<lfloor>q\<rfloor>; d = q - of_int f
      in if d < 1 / 2 then f else if 1 / 2 < d then f + 1 else if even f then f else f + 1)"

definition ulp_exp :: "rat \<Rightarrow> int" where
  "ulp_exp q = max (ilog2 \<bar>q\<bar> - 52) (- 1074)"

definition round64 :: "rat \<Rightarrow> float64" where
  "round64 q =
     (if q = 0 then F_Fin 0
      else let u = ulp_exp q; v = of_int (round_half_even (q / pow2 u)) * pow2 u
           in if pow2 1024 \<le> \<bar>v\<bar> then F_Inf (v < 0) else F_Fin v)"

fun fsub :: "float64 \<Rightarrow> float64 \<Rightarrow> float64" where
  "fsub F_NaN y = F_NaN"
| "fsub x F_NaN = F_NaN"
| "fsub (F_Inf s) (F_Inf t) = (if s = t then F_NaN else F_Inf s)"
| "fsub (F_Inf s) (F_Fin b) = F_Inf s"
| "fsub (F_Fin a) (F_Inf t) = F_Inf (\<not> t)"
| "fsub (F_Fin a) (F_Fin b) = round64 (a - b)"

text \<open>The ordered comparison \<open>x <= y\<close>; it is false when an operand is a NaN.\<close>

fun fle :: "float64 \<Rightarrow> float64 \<Rightarrow> bool" where
  "fle F_NaN y = False"
| "fle x F_NaN = False"
| "fle (F_Inf s) y = (s \<or> y = F_Inf False)"
| "fle x (F_Inf t) = (\<not> t)"
| "fle (F_Fin a) (F_Fin b) = (a \<le> b)"

definition feq :: "float64 \<Rightarrow> float64 \<Rightarrow> bool" where
  "feq x y \<longleftrightarrow> fle x y \<and> fle y x"

definition flt :: "float64 \<Rightarrow> float64 \<Rightarrow> bool" where
  "flt x y \<longleftrightarrow> fle x y \<and> \<not> fle y x"

definition IsNaN :: "float64 \<Rightarrow> bool" where
  "IsNaN x \<longleftrightarrow> x = F_NaN"

definition IsInf :: "float64 \<Rightarrow> bool" where
  "IsInf x \<longleftrightarrow> x = F_Inf True \<or> x = F_Inf False"

lemma fle_Fin [simp]: "fle (F_Fin a) (F_Fin b) \<longleftrightarrow> a \<le> b"
  and feq_Fin [simp]: "feq (F_Fin a) (F_Fin b) \<longleftrightarrow> a = b"
  and flt_Fin [simp]: "flt (F_Fin a) (F_Fin b) \<longleftrightarrow> a < b"
  by (auto simp: feq_def flt_def)

section \<open>Powers of two and the binary exponent\<close>

lemma pow2_pos [simp]: "0 < pow2 k" and pow2_nonzero [simp]: "pow2 k \<noteq> 0"
  by (simp_all add: pow2_def)

lemma pow2_0 [simp]: "pow2 0 = 1"
  by (simp add: pow2_def)

lemma pow2_add: "pow2 (j + k) = pow2 j * pow2 k"
  by (simp add: pow2_def power_int_add)

lemma pow2_Suc: "pow2 (k + 1) = 2 * pow2 k"
  by (simp add: pow2_add) (simp add: pow2_def)

lemma pow2_of_nat: "pow2 (int n) = 2 ^ n"
  by (simp add: pow2_def)

lemma pow2_mono: "j \<le> k \<Longrightarrow> pow2 j \<le> pow2 k"
  by (simp add: pow2_def power_int_increasing)

lemma pow2_ratio:
  assumes "j \<le> k"
  shows "pow2 k / pow2 j = of_int (2 ^ nat (k - j))"
proof -
  from assms obtain n where k: "k = j + int n" by (metis zle_iff_zadd)
  then have "pow2 k / pow2 j = 2 ^ n" by (simp add: pow2_add pow2_of_nat)
  with k show ?thesis by simp
qed

lemma floorlog2_bounds:
  assumes "0 < (n::nat)"
  shows "2 ^ (floorlog 2 n - 1) \<le> n" and "n < 2 ^ floorlog 2 n" and "1 \<le> floorlog 2 n"
  using assms floorlog_bounds [of n 2] by (auto simp: floorlog_def)

lemma ilog2_bounds_ge1:
  assumes "1 \<le> q"
  shows "pow2 (ilog2 q) \<le> q" and "q < pow2 (ilog2 q + 1)"
proof -
  define n where "n = nat \<lfloor>q\<rfloor>"
  have n: "0 < n" and nq: "of_nat n \<le> q" "q < of_nat n + 1"
    using assms unfolding n_def by (auto simp: le_floor_iff) linarith+
  define k where "k = floorlog 2 n"
  note b = floorlog2_bounds [OF n, folded k_def]
  have il: "ilog2 q = int (k - 1)"
    using assms b(3) by (simp add: ilog2_def n_def k_def)
  have "pow2 (ilog2 q) = of_nat (2 ^ (k - 1))"
    using il by (simp add: pow2_of_nat)
  also have "\<dots> \<le> of_nat n" using b(1) by (simp only: of_nat_le_iff)
  finally show "pow2 (ilog2 q) \<le> q" using nq by linarith
  have "ilog2 q + 1 = int k" using il b(3) by simp
  then have p: "pow2 (ilog2 q + 1) = of_nat (2 ^ k)" by (simp add: pow2_of_nat)
  have "of_nat n + 1 \<le> (of_nat (2 ^ k) :: rat)"
    using b(2) by (metis Suc_leI of_nat_Suc of_nat_le_iff add.commute)
  with nq p show "q < pow2 (ilog2 q + 1)" by linarith
qed

lemma ilog2_bounds_lt1:
  assumes "0 < q" and "q < 1"
  shows "pow2 (ilog2 q) \<le> q" and "q < pow2 (ilog2 q + 1)"
proof -
  define c where "c = nat (\<lceil>1 / q\<rceil> - 1)"
  have q1: "1 < 1 / q" using assms by (simp add: field_simps)
  then have c1: "1 < \<lceil>1 / q\<rceil>" by (simp only: less_ceiling_iff of_int_1)
  then have c0: "0 < c" unfolding c_def by simp
  have c_lo: "of_nat c < 1 / q" and c_hi: "1 / q \<le> of_nat c + 1"
  proof -
    from c1 have "0 \<le> \<lceil>1 / q\<rceil> - 1" by linarith
    then have "of_nat c = (of_int (\<lceil>1 / q\<rceil> - 1) :: rat)"
      unfolding c_def by (rule of_nat_nat)
    then show "of_nat c < 1 / q" and "1 / q \<le> of_nat c + 1"
      using ceiling_correct [of "1 / q"] by (auto simp: field_simps)
  qed
  define k where "k = floorlog 2 c"
  note b = floorlog2_bounds [OF c0, folded k_def]
  have il: "ilog2 q = - int k" using assms by (simp add: ilog2_def c_def k_def)
  have p: "pow2 (ilog2 q) * 2 ^ k = 1"
    using il by (metis add.left_inverse pow2_0 pow2_add pow2_of_nat)
  have "of_nat c + 1 \<le> (of_nat (2 ^ k) :: rat)"
    using b(2) by (metis Suc_leI of_nat_Suc of_nat_le_iff add.commute)
  with c_hi have "1 / q \<le> 2 ^ k" by simp
  then have "1 \<le> q * 2 ^ k" using assms by (simp add: field_simps)
  with p have "pow2 (ilog2 q) * 2 ^ k \<le> q * 2 ^ k" by simp
  then show "pow2 (ilog2 q) \<le> q" by simp
  have "of_nat (2 ^ (k - 1)) \<le> (of_nat c :: rat)" using b(1) by (simp only: of_nat_le_iff)
  with c_lo have "of_nat (2 ^ (k - 1)) < 1 / q" by linarith
  then have "2 ^ (k - 1) < 1 / q" by simp
  then have lt: "q * 2 ^ (k - 1) < 1" using assms by (simp add: field_simps)
  have "2 ^ k = 2 * (2 ^ (k - 1) :: rat)" using b(3) by (metis Suc_diff_1 less_eq_Suc_le power_Suc One_nat_def)
  with p have "pow2 (ilog2 q + 1) * 2 ^ (k - 1) = 1" by (simp add: pow2_Suc)
  with lt have "q * 2 ^ (k - 1) < pow2 (ilog2 q + 1) * 2 ^ (k - 1)" by simp
  then show "q < pow2 (ilog2 q + 1)" by simp
qed

lemma ilog2_bounds:
  assumes "0 < q"
  shows "pow2 (ilog2 q) \<le> q" and "q < pow2 (ilog2 q + 1)"
  using assms ilog2_bounds_ge1 [of q] ilog2_bounds_lt1 [of q] by (cases "1 \<le> q"; simp)+

lemma ilog2_nonneg_iff:
  assumes "0 < q"
  shows "0 \<le> ilog2 q \<longleftrightarrow> 1 \<le> q"
proof
  assume "0 \<le> ilog2 q"
  then have "pow2 0 \<le> pow2 (ilog2 q)" by (rule pow2_mono)
  with ilog2_bounds(1) [OF assms] show "1 \<le> q" by simp
next
  assume "1 \<le> q"
  show "0 \<le> ilog2 q"
  proof (rule ccontr)
    assume "\<not> 0 \<le> ilog2 q"
    then have "ilog2 q + 1 \<le> 0" by simp
    then have "pow2 (ilog2 q + 1) \<le> pow2 0" by (rule pow2_mono)
    with ilog2_bounds(2) [OF assms] \<open>1 \<le> q\<close> show False by simp
  qed
qed

section \<open>Rounding\<close>

lemma round_half_even_of_int [simp]: "round_half_even (of_int n) = n"
  by (simp add: round_half_even_def)

lemma round_half_even_bounds:
  "of_int (round_half_even q) \<le> q + 1 / 2" and "q - 1 / 2 \<le> of_int (round_half_even q)"
proof -
  have "of_int \<lfloor>q\<rfloor> \<le> q" and "q < of_int \<lfloor>q\<rfloor> + 1" using floor_correct [of q] by auto
  then show "of_int (round_half_even q) \<le> q + 1 / 2" and "q - 1 / 2 \<le> of_int (round_half_even q)"
    unfolding round_half_even_def Let_def
    by (cases "q - of_int \<lfloor>q\<rfloor> < 1 / 2"; cases "1 / 2 < q - of_int \<lfloor>q\<rfloor>"; simp; linarith)+
qed

lemma round_half_even_ge: "of_int n \<le> q \<Longrightarrow> n \<le> round_half_even q"
proof -
  assume "of_int n \<le> q"
  then have "n \<le> \<lfloor>q\<rfloor>" by (simp add: le_floor_iff)
  then show ?thesis by (auto simp: round_half_even_def Let_def)
qed

lemma round_half_even_le:
  assumes "q \<le> of_int n"
  shows "round_half_even q \<le> n"
proof (cases "q = of_int n")
  case True
  then show ?thesis by simp
next
  case False
  with assms have "\<lfloor>q\<rfloor> < n" by (simp add: floor_less_iff)
  then show ?thesis by (auto simp: round_half_even_def Let_def)
qed

text \<open>An even integer is reached exactly from the closed interval of half a unit around it.\<close>

lemma round_half_even_reaches_even:
  assumes "even n" and "q \<le> of_int n"
  shows "round_half_even q = n \<longleftrightarrow> of_int n - 1 / 2 \<le> q"
proof
  assume "round_half_even q = n"
  then show "of_int n - 1 / 2 \<le> q" using round_half_even_bounds(1) [of q] by simp
next
  assume h: "of_int n - 1 / 2 \<le> q"
  show "round_half_even q = n"
  proof (cases "q = of_int n")
    case True
    then show ?thesis by simp
  next
    case False
    with assms h have f: "\<lfloor>q\<rfloor> = n - 1" by (simp add: floor_eq_iff)
    with h assms(1) show ?thesis by (auto simp: round_half_even_def Let_def)
  qed
qed

text \<open>
  The test \<open>x - y >= 1.0\<close> on rounded values: a difference below one still passes when it is within
  half a unit in the last place, that is from \<open>1 - 2 ^ -54\<close> on.
\<close>

definition round_value :: "rat \<Rightarrow> rat" where
  "round_value q = of_int (round_half_even (q / pow2 (ulp_exp q))) * pow2 (ulp_exp q)"

lemma round64_alt:
  "round64 q = (if q = 0 then F_Fin 0
     else if pow2 1024 \<le> \<bar>round_value q\<bar> then F_Inf (round_value q < 0) else F_Fin (round_value q))"
  by (simp add: round64_def round_value_def Let_def)

lemma round_value_nonpos:
  assumes "q \<le> 0"
  shows "round_value q \<le> 0"
proof -
  have "q / pow2 (ulp_exp q) \<le> of_int 0"
    using assms by (simp add: divide_nonpos_pos)
  then have "round_half_even (q / pow2 (ulp_exp q)) \<le> 0" by (rule round_half_even_le)
  then show ?thesis by (simp add: round_value_def mult_nonpos_nonneg less_imp_le)
qed

lemma round_value_ge1:
  assumes "1 \<le> q"
  shows "1 \<le> round_value q"
proof -
  let ?u = "ulp_exp q" and ?e = "ilog2 q"
  have q0: "0 < q" using assms by simp
  then have e: "0 \<le> ?e" using assms by (simp add: ilog2_nonneg_iff)
  then have u: "?u \<le> ?e" using q0 by (simp add: ulp_exp_def)
  have "of_int (2 ^ nat (?e - ?u)) = pow2 ?e / pow2 ?u" by (simp only: pow2_ratio [OF u])
  also have "\<dots> \<le> q / pow2 ?u" using ilog2_bounds(1) [OF q0] by (simp add: divide_right_mono less_imp_le)
  finally have "2 ^ nat (?e - ?u) \<le> round_half_even (q / pow2 ?u)" by (rule round_half_even_ge)
  then have "of_int (2 ^ nat (?e - ?u)) \<le> (of_int (round_half_even (q / pow2 ?u)) :: rat)"
    by (simp only: of_int_le_iff)
  then have "pow2 ?e / pow2 ?u \<le> of_int (round_half_even (q / pow2 ?u))"
    by (simp only: pow2_ratio [OF u])
  then have "pow2 ?e \<le> round_value q" by (simp add: round_value_def divide_le_eq)
  moreover have "1 \<le> pow2 ?e" using pow2_mono [OF e] by simp
  ultimately show ?thesis by linarith
qed

lemma round_value_lt_half:
  assumes "0 < q" and "q < 1 / 2"
  shows "round_value q < 1"
proof -
  let ?u = "ulp_exp q"
  have e: "ilog2 q \<le> - 2"
  proof (rule ccontr)
    assume "\<not> ?thesis"
    then have "pow2 (- 1) \<le> pow2 (ilog2 q)" by (intro pow2_mono) simp
    with ilog2_bounds(1) [OF assms(1)] assms(2) show False by (simp add: pow2_def)
  qed
  have u: "?u \<le> - 1" using e assms(1) by (simp add: ulp_exp_def)
  have "q \<le> pow2 (- 1)" using assms(2) by (simp add: pow2_def)
  then have "q / pow2 ?u \<le> pow2 (- 1) / pow2 ?u"
    by (simp add: divide_right_mono less_imp_le)
  also have "\<dots> = of_int (2 ^ nat (- 1 - ?u))" by (rule pow2_ratio [OF u])
  finally have "round_half_even (q / pow2 ?u) \<le> 2 ^ nat (- 1 - ?u)" by (rule round_half_even_le)
  then have "of_int (round_half_even (q / pow2 ?u)) \<le> (of_int (2 ^ nat (- 1 - ?u)) :: rat)"
    by (simp only: of_int_le_iff)
  then have "round_value q \<le> pow2 (- 1)"
    by (simp only: pow2_ratio [OF u, symmetric] round_value_def pos_le_divide_eq pow2_pos)
  then show ?thesis by (simp add: pow2_def)
qed

lemma round_value_half_to_one:
  assumes "1 / 2 \<le> q" and "q < 1"
  shows "1 \<le> round_value q \<longleftrightarrow> 1 - 1 / 2 ^ 54 \<le> q"
proof -
  have q0: "0 < q" using assms by simp
  have "ilog2 q = - 1"
  proof (rule antisym)
    show "ilog2 q \<le> - 1" using ilog2_nonneg_iff [OF q0] assms(2) by simp
    show "- 1 \<le> ilog2 q"
    proof (rule ccontr)
      assume "\<not> ?thesis"
      then have "pow2 (ilog2 q + 1) \<le> pow2 (- 1)" by (intro pow2_mono) simp
      with ilog2_bounds(2) [OF q0] assms(1) show False by (simp add: pow2_def)
    qed
  qed
  then have u: "ulp_exp q = - 53" using q0 by (simp add: ulp_exp_def)
  have p: "pow2 (- 53) = 1 / 2 ^ 53" by (simp add: pow2_def power_int_minus inverse_eq_divide)
  have le: "q * 2 ^ 53 \<le> of_int (2 ^ 53)" using assms(2) by simp
  have rv: "round_value q = of_int (round_half_even (q * 2 ^ 53)) / 2 ^ 53"
    by (simp add: round_value_def u p)
  have "1 \<le> round_value q \<longleftrightarrow> of_int (2 ^ 53) \<le> (of_int (round_half_even (q * 2 ^ 53)) :: rat)"
    by (simp add: rv le_divide_eq)
  also have "\<dots> \<longleftrightarrow> round_half_even (q * 2 ^ 53) = 2 ^ 53"
    using round_half_even_le [OF le] by (simp only: of_int_le_iff) linarith
  also have "\<dots> \<longleftrightarrow> of_int (2 ^ 53) - 1 / 2 \<le> q * 2 ^ 53"
    by (rule round_half_even_reaches_even [OF _ le]) simp
  also have "\<dots> \<longleftrightarrow> 1 - 1 / 2 ^ 54 \<le> q" by (simp add: field_simps)
  finally show ?thesis .
qed

lemma one_le_round_value_iff: "q \<noteq> 0 \<Longrightarrow> 1 \<le> round_value q \<longleftrightarrow> 1 - 1 / 2 ^ 54 \<le> q"
proof -
  assume "q \<noteq> 0"
  then consider "q < 0" | "0 < q" "q < 1 / 2" | "1 / 2 \<le> q" "q < 1" | "1 \<le> q" by linarith
  then show ?thesis
  proof cases
    case 1
    then have "\<not> 1 \<le> round_value q" using round_value_nonpos [of q] by simp
    moreover have "\<not> 1 - 1 / 2 ^ 54 \<le> q" using 1 by simp
    ultimately show ?thesis by simp
  next
    case 2
    then have "\<not> 1 \<le> round_value q" using round_value_lt_half [of q] by simp
    moreover have "\<not> 1 - 1 / 2 ^ 54 \<le> q" using 2 by simp
    ultimately show ?thesis by simp
  next
    case 3
    then show ?thesis by (rule round_value_half_to_one)
  next
    case 4
    then have "1 \<le> round_value q" by (rule round_value_ge1)
    moreover have "1 - 1 / 2 ^ 54 \<le> q" using 4 by simp
    ultimately show ?thesis by simp
  qed
qed

lemma fle_one_round64: "fle (F_Fin 1) (round64 q) \<longleftrightarrow> 1 - 1 / 2 ^ 54 \<le> q"
proof (cases "q = 0")
  case False
  moreover have "1 \<le> pow2 1024" using pow2_mono [of 0 1024] by simp
  ultimately show ?thesis using one_le_round_value_iff [of q] by (auto simp: round64_alt)
qed (simp add: round64_alt)

end
