(* ===== verification/Go_Json.thy ===== *)
theory Go_Json
  imports Go_Float
begin

text \<open>
  The parts of Go's \<open>encoding/json\<close> and \<open>strconv\<close> that the workflow uses: scanning a byte string
  into lexemes, the streaming \<open>Decoder\<close> with its token state machine (\<open>Token\<close>, \<open>More\<close>, \<open>Decode\<close>),
  the parser behind \<open>Unmarshal\<close> with its nesting limit, and number conversion. A scanning error is
  the lexeme \<open>LBad\<close>, which ends the stream, so that an error is met when the reader gets there
  and not before. Strings are byte strings, assumed to be valid UTF-8.
\<close>

datatype lexeme = LLBrace | LRBrace | LLBrack | LRBrack | LComma | LColon
  | LStr string | LNum string | LTrue | LFalse | LNull | LBad

datatype json = JNull | JBool bool | JNum string | JStr string
  | JArr "json list" | JObj "(string \<times> json) list"

section \<open>Numbers\<close>

definition is_digit :: "char \<Rightarrow> bool" where
  "is_digit c \<longleftrightarrow> 48 \<le> (of_char c :: nat) \<and> (of_char c :: nat) \<le> 57"

definition digits_val :: "string \<Rightarrow> nat" where
  "digits_val s = foldl (\<lambda>acc c. acc * 10 + ((of_char c :: nat) - 48)) 0 s"

text \<open>
  A number literal in its parts: sign, integer digits, fraction digits, exponent sign and
  exponent digits, with what follows it. \<open>None\<close> when the text does not start with a number.
\<close>

definition lex_int_part :: "string \<Rightarrow> (string \<times> string) option" where
  "lex_int_part s =
     (case s of
        [] \<Rightarrow> None
      | c # cs \<Rightarrow> if c = CHR ''0'' then Some ([c], cs)
          else if is_digit c then Some (takeWhile is_digit s, dropWhile is_digit s)
          else None)"

definition lex_frac_part :: "string \<Rightarrow> (string \<times> string) option" where
  "lex_frac_part s =
     (case s of
        [] \<Rightarrow> Some ([], [])
      | c # cs \<Rightarrow> if c \<noteq> CHR ''.'' then Some ([], s)
          else if takeWhile is_digit cs = [] then None
          else Some (c # takeWhile is_digit cs, dropWhile is_digit cs))"

definition lex_exp_part :: "string \<Rightarrow> (string \<times> string) option" where
  "lex_exp_part s =
     (case s of
        [] \<Rightarrow> Some ([], [])
      | c # cs \<Rightarrow> if c \<noteq> CHR ''e'' \<and> c \<noteq> CHR ''E'' then Some ([], s)
          else (let sgn = (case cs of d # ds \<Rightarrow> if d = CHR ''+'' \<or> d = CHR ''-'' then [d] else [] | [] \<Rightarrow> []);
                    ds = drop (length sgn) cs
                in if takeWhile is_digit ds = [] then None
                   else Some (c # sgn @ takeWhile is_digit ds, dropWhile is_digit ds)))"

definition lex_number :: "string \<Rightarrow> (string \<times> string) option" where
  "lex_number s =
     (let sgn = (case s of c # _ \<Rightarrow> if c = CHR ''-'' then [c] else [] | [] \<Rightarrow> [])
      in case lex_int_part (drop (length sgn) s) of
           None \<Rightarrow> None
         | Some (ip, s1) \<Rightarrow>
             (case lex_frac_part s1 of
                None \<Rightarrow> None
              | Some (fp, s2) \<Rightarrow>
                  (case lex_exp_part s2 of
                     None \<Rightarrow> None
                   | Some (ep, s3) \<Rightarrow> Some (sgn @ ip @ fp @ ep, s3))))"

text \<open>The exact value of a number literal, and \<open>strconv.ParseFloat(s, 64)\<close> on it.\<close>

definition exp_val :: "string \<Rightarrow> int" where
  "exp_val ep =
     (case ep of
        [] \<Rightarrow> 0
      | e # r \<Rightarrow> (case r of
            [] \<Rightarrow> 0
          | c # ds \<Rightarrow> if c = CHR ''-'' then - int (digits_val ds)
              else if c = CHR ''+'' then int (digits_val ds) else int (digits_val r)))"

definition number_val :: "string \<Rightarrow> rat" where
  "number_val s =
     (let neg = (case s of c # _ \<Rightarrow> c = CHR ''-'' | [] \<Rightarrow> False);
          t = (if neg then tl s else s);
          ip = takeWhile is_digit t; r = dropWhile is_digit t;
          fp = (case r of c # cs \<Rightarrow> if c = CHR ''.'' then takeWhile is_digit cs else [] | [] \<Rightarrow> []);
          ep = (if fp = [] then r else drop (Suc (length fp)) r);
          v = of_nat (digits_val (ip @ fp)) * (10 powi (exp_val ep - int (length fp)))
      in if neg then - v else v)"

definition ParseFloat :: "string \<Rightarrow> float64 option" where
  "ParseFloat s = (case round64 (number_val s) of F_Fin v \<Rightarrow> Some (F_Fin v) | _ \<Rightarrow> None)"

text \<open>\<open>strconv.ParseInt(s, 10, 64)\<close> on a number literal: digits with an optional minus sign.\<close>

definition parse_int :: "string \<Rightarrow> int option" where
  "parse_int s =
     (let neg = (case s of c # _ \<Rightarrow> c = CHR ''-'' | [] \<Rightarrow> False);
          t = (if neg then tl s else s)
      in if t \<noteq> [] \<and> list_all is_digit t
         then Some (if neg then - int (digits_val t) else int (digits_val t)) else None)"

definition ParseInt64 :: "string \<Rightarrow> int option" where
  "ParseInt64 s =
     (case parse_int s of
        None \<Rightarrow> None
      | Some v \<Rightarrow> if - (2 ^ 63) \<le> v \<and> v < 2 ^ 63 then Some v else None)"

section \<open>Strings\<close>

definition hex_val :: "char \<Rightarrow> nat option" where
  "hex_val c =
     (let n = (of_char c :: nat)
      in if 48 \<le> n \<and> n \<le> 57 then Some (n - 48)
         else if 97 \<le> n \<and> n \<le> 102 then Some (n - 87)
         else if 65 \<le> n \<and> n \<le> 70 then Some (n - 55) else None)"

definition hex4 :: "string \<Rightarrow> nat option" where
  "hex4 s =
     (case map hex_val s of
        [Some a, Some b, Some c, Some d] \<Rightarrow> Some (((a * 16 + b) * 16 + c) * 16 + d)
      | _ \<Rightarrow> None)"

definition utf8 :: "nat \<Rightarrow> string" where
  "utf8 n =
     (if n < 128 then [char_of n]
      else if n < 2048 then [char_of (192 + n div 64), char_of (128 + n mod 64)]
      else if n < 65536 then
        [char_of (224 + n div 4096), char_of (128 + n div 64 mod 64), char_of (128 + n mod 64)]
      else [char_of (240 + n div 262144), char_of (128 + n div 4096 mod 64),
            char_of (128 + n div 64 mod 64), char_of (128 + n mod 64)])"

definition simple_escape :: "char \<Rightarrow> char option" where
  "simple_escape c =
     (if c = CHR 0x22 \<or> c = CHR 0x5C \<or> c = CHR ''/'' then Some c
      else if c = CHR ''b'' then Some (CHR 0x08) else if c = CHR ''f'' then Some (CHR 0x0C)
      else if c = CHR ''n'' then Some (CHR 0x0A) else if c = CHR ''r'' then Some (CHR 0x0D)
      else if c = CHR ''t'' then Some (CHR 0x09) else None)"

text \<open>
  An escape \<open>\u\<close> of a surrogate pair is one code point; a lone surrogate is U+FFFD. Returns the
  bytes and how much of the text after the first four digits was consumed.
\<close>

definition unicode_escape :: "nat \<Rightarrow> string \<Rightarrow> string \<times> nat" where
  "unicode_escape n rest =
     (if 55296 \<le> n \<and> n < 57344 then
        (case (take 2 rest = [CHR 0x5C, CHR ''u''], hex4 (take 4 (drop 2 rest))) of
           (True, Some m) \<Rightarrow>
             if n < 56320 \<and> 56320 \<le> m \<and> m < 57344
             then (utf8 (65536 + (n - 55296) * 1024 + (m - 56320)), 6) else (utf8 65533, 0)
         | _ \<Rightarrow> (utf8 65533, 0))
      else (utf8 n, 0))"

function lex_string :: "string \<Rightarrow> string \<Rightarrow> (string \<times> string) option" where
  "lex_string acc [] = None"
| "lex_string acc (c # cs) =
     (if c = CHR 0x22 then Some (rev acc, cs)
      else if c = CHR 0x5C then
        (case cs of
           [] \<Rightarrow> None
         | e # rest \<Rightarrow>
             if e = CHR ''u'' then
               (case hex4 (take 4 rest) of
                  None \<Rightarrow> None
                | Some n \<Rightarrow>
                    lex_string (rev (fst (unicode_escape n (drop 4 rest))) @ acc)
                      (drop (snd (unicode_escape n (drop 4 rest))) (drop 4 rest)))
             else (case simple_escape e of
                     None \<Rightarrow> None
                   | Some x \<Rightarrow> lex_string (x # acc) rest))
      else if (of_char c :: nat) < 32 then None
      else lex_string (c # acc) cs)"
  by pat_completeness auto
termination
  by (relation "measure (\<lambda>(acc, s). length s)") auto

section \<open>Lexemes\<close>

definition json_space :: "char \<Rightarrow> bool" where
  "json_space c \<longleftrightarrow> c = CHR '' '' \<or> c = CHR 0x09 \<or> c = CHR 0x0A \<or> c = CHR 0x0D"

definition lex_one :: "string \<Rightarrow> (lexeme \<times> string) option" where
  "lex_one s =
     (case s of
        [] \<Rightarrow> None
      | c # cs \<Rightarrow>
          if c = CHR ''{'' then Some (LLBrace, cs) else if c = CHR ''}'' then Some (LRBrace, cs)
          else if c = CHR ''['' then Some (LLBrack, cs) else if c = CHR '']'' then Some (LRBrack, cs)
          else if c = CHR '','' then Some (LComma, cs) else if c = CHR '':'' then Some (LColon, cs)
          else if c = CHR 0x22 then map_option (apfst LStr) (lex_string [] cs)
          else if take 4 s = ''true'' then Some (LTrue, drop 4 s)
          else if take 5 s = ''false'' then Some (LFalse, drop 5 s)
          else if take 4 s = ''null'' then Some (LNull, drop 4 s)
          else map_option (apfst LNum) (lex_number s))"

lemma lex_string_shorter: "lex_string acc s = Some (t, r) \<Longrightarrow> length r < length s"
proof (induction acc s rule: lex_string.induct)
  case (2 acc c cs)
  consider (quote) "c = CHR 0x22" | (escape) "c \<noteq> CHR 0x22" "c = CHR 0x5C"
    | (plain) "c \<noteq> CHR 0x22" "c \<noteq> CHR 0x5C" by blast
  then show ?case
  proof cases
    case escape
    then obtain e rest where cs: "cs = e # rest" using "2.prems" by (cases cs) simp_all
    show ?thesis
    proof (cases "e = CHR ''u''")
      case True
      then obtain n where n: "hex4 (take 4 rest) = Some n"
        using "2.prems" cs escape by (cases "hex4 (take 4 rest)") simp_all
      have "length r < length (drop (snd (unicode_escape n (drop 4 rest))) (drop 4 rest))"
        using "2.prems" True cs escape n by (intro "2.IH"(1) [OF escape cs True n]) simp
      then show ?thesis using cs by simp
    next
      case False
      then obtain x where x: "simple_escape e = Some x"
        using "2.prems" cs escape by (cases "simple_escape e") simp_all
      have "length r < length rest"
        using "2.prems" False cs escape x by (intro "2.IH"(2) [OF escape cs False x]) simp
      then show ?thesis using cs by simp
    qed
  next
    case plain
    with "2.prems" have ge: "\<not> (of_char c :: nat) < 32" by (simp split: if_splits)
    have "length r < length cs"
      using "2.prems" plain ge by (intro "2.IH"(3) [OF plain ge]) simp
    then show ?thesis by simp
  qed (use "2.prems" in simp)
qed simp

lemma lex_int_part_shorter: "lex_int_part s = Some (t, r) \<Longrightarrow> length r < length s"
  using length_dropWhile_le [of is_digit "tl s"]
  by (auto simp: lex_int_part_def less_Suc_eq_le split: list.splits if_splits)

lemma lex_frac_part_shorter: "lex_frac_part s = Some (t, r) \<Longrightarrow> length r \<le> length s"
  using length_dropWhile_le [of is_digit "tl s"]
  by (auto simp: lex_frac_part_def split: list.splits if_splits)

lemma lex_exp_part_shorter:
  assumes "lex_exp_part s = Some (t, r)"
  shows "length r \<le> length s"
proof (cases s)
  case (Cons c cs)
  have "length (dropWhile is_digit (drop n cs)) \<le> length cs" for n
    using length_dropWhile_le [of is_digit "drop n cs"] by simp
  with Cons assms show ?thesis
    by (auto simp: lex_exp_part_def Let_def le_SucI split: if_splits)
qed (use assms in \<open>simp add: lex_exp_part_def\<close>)

lemma lex_number_shorter:
  assumes "lex_number s = Some (t, r)"
  shows "length r < length s"
proof -
  define sg where "sg = (case s of c # _ \<Rightarrow> if c = CHR ''-'' then [c] else [] | [] \<Rightarrow> [])"
  from assms obtain ip s1 fp s2 ep s3 where
    "lex_int_part (drop (length sg) s) = Some (ip, s1)" "lex_frac_part s1 = Some (fp, s2)"
    "lex_exp_part s2 = Some (ep, s3)" "r = s3"
    unfolding lex_number_def sg_def [symmetric] Let_def
    by (auto split: option.splits prod.splits)
  then have "length r < length (drop (length sg) s)"
    using lex_int_part_shorter lex_frac_part_shorter lex_exp_part_shorter by fastforce
  then show ?thesis by simp
qed

lemma lex_one_shorter: "lex_one s = Some (l, r) \<Longrightarrow> length r < length s"
  by (auto simp: lex_one_def split: list.splits if_splits dest!: lex_string_shorter lex_number_shorter)

function json_lex :: "string \<Rightarrow> lexeme list" where
  "json_lex s =
     (let t = dropWhile json_space s
      in if t = [] then []
         else (case lex_one t of None \<Rightarrow> [LBad] | Some (l, r) \<Rightarrow> l # json_lex r))"
  by pat_completeness auto
termination
proof (relation "measure length")
  fix s t :: string and y l r
  assume "t = dropWhile json_space s" and "lex_one t = Some y" and "(l, r) = y"
  then have "length r < length t" and "length t \<le> length s"
    by (auto dest: lex_one_shorter simp: length_dropWhile_le)
  then show "(r, s) \<in> measure length" by simp
qed simp

declare json_lex.simps [simp del]

section \<open>Parsing a value\<close>

text \<open>
  The scanner behind \<open>Unmarshal\<close> and \<open>Decode\<close> refuses more than \<open>maxNestingDepth\<close> open containers.
  The first argument of the parser is fuel: twice the number of lexemes is enough, as
  \<open>parse_value_complete\<close> shows.
\<close>

definition max_nesting_depth :: nat where
  "max_nesting_depth = 10000"

definition starts_with :: "'a \<Rightarrow> 'a list \<Rightarrow> bool" where
  "starts_with x xs = (case xs of [] \<Rightarrow> False | y # _ \<Rightarrow> x = y)"

lemma starts_with_simps [simp]:
  "\<not> starts_with x []" "starts_with x (y # ys) \<longleftrightarrow> x = y"
  by (auto simp: starts_with_def)

lemma starts_withE: "starts_with x xs \<Longrightarrow> (\<And>ys. xs = x # ys \<Longrightarrow> P) \<Longrightarrow> P"
  by (cases xs) auto

definition member_start :: "lexeme list \<Rightarrow> (string \<times> lexeme list) option" where
  "member_start ls = (case ls of LStr k # LColon # r \<Rightarrow> Some (k, r) | _ \<Rightarrow> None)"

lemma member_start_Some: "member_start ls = Some (k, r) \<longleftrightarrow> ls = LStr k # LColon # r"
  by (auto simp: member_start_def split: list.splits lexeme.splits)

lemma member_start_Cons [simp]: "member_start (LStr k # LColon # r) = Some (k, r)"
  by (simp add: member_start_def)

fun parse_value :: "nat \<Rightarrow> nat \<Rightarrow> lexeme list \<Rightarrow> (json \<times> lexeme list) option"
  and parse_elems :: "nat \<Rightarrow> nat \<Rightarrow> lexeme list \<Rightarrow> (json list \<times> lexeme list) option"
  and parse_members :: "nat \<Rightarrow> nat \<Rightarrow> lexeme list \<Rightarrow> ((string \<times> json) list \<times> lexeme list) option"
where
  "parse_value 0 d ls = None"
| "parse_value (Suc n) d ls =
     (case ls of
        LNull # r \<Rightarrow> Some (JNull, r)
      | LTrue # r \<Rightarrow> Some (JBool True, r)
      | LFalse # r \<Rightarrow> Some (JBool False, r)
      | LNum s # r \<Rightarrow> Some (JNum s, r)
      | LStr s # r \<Rightarrow> Some (JStr s, r)
      | LLBrack # r \<Rightarrow>
          if max_nesting_depth \<le> d then None
          else if starts_with LRBrack r then Some (JArr [], tl r)
          else map_option (apfst JArr) (parse_elems n (Suc d) r)
      | LLBrace # r \<Rightarrow>
          if max_nesting_depth \<le> d then None
          else if starts_with LRBrace r then Some (JObj [], tl r)
          else map_option (apfst JObj) (parse_members n (Suc d) r)
      | _ \<Rightarrow> None)"
| "parse_elems 0 d ls = None"
| "parse_elems (Suc n) d ls =
     (case parse_value n d ls of
        Some (v, LComma # r) \<Rightarrow> map_option (apfst (\<lambda>vs. v # vs)) (parse_elems n d r)
      | Some (v, LRBrack # r) \<Rightarrow> Some ([v], r)
      | _ \<Rightarrow> None)"
| "parse_members 0 d ls = None"
| "parse_members (Suc n) d ls =
     (case member_start ls of
        Some (k, r0) \<Rightarrow>
          (case parse_value n d r0 of
             Some (v, LComma # r) \<Rightarrow> map_option (apfst (\<lambda>kvs. (k, v) # kvs)) (parse_members n d r)
           | Some (v, LRBrace # r) \<Rightarrow> Some ([(k, v)], r)
           | _ \<Rightarrow> None)
      | None \<Rightarrow> None)"

definition read_value :: "lexeme list \<Rightarrow> (json \<times> lexeme list) option" where
  "read_value ls = parse_value (2 * length ls) 0 ls"

text \<open>\<open>json.Unmarshal\<close> first checks that the whole input is one value.\<close>

definition json_parse :: "string \<Rightarrow> json option" where
  "json_parse body =
     (case read_value (json_lex body) of Some (v, []) \<Rightarrow> Some v | _ \<Rightarrow> None)"

text \<open>The lexemes of a value, and the nesting it needs: the specification of the parser.\<close>

fun commas :: "lexeme list list \<Rightarrow> lexeme list" where
  "commas [] = []"
| "commas [x] = x"
| "commas (x # y # ys) = x @ LComma # commas (y # ys)"

fun lexemes :: "json \<Rightarrow> lexeme list" where
  "lexemes JNull = [LNull]"
| "lexemes (JBool b) = [if b then LTrue else LFalse]"
| "lexemes (JNum s) = [LNum s]"
| "lexemes (JStr s) = [LStr s]"
| "lexemes (JArr vs) = LLBrack # commas (map lexemes vs) @ [LRBrack]"
| "lexemes (JObj kvs) = LLBrace # commas (map (\<lambda>kv. LStr (fst kv) # LColon # lexemes (snd kv)) kvs) @ [LRBrace]"

fun depth_ok :: "nat \<Rightarrow> nat \<Rightarrow> json \<Rightarrow> bool" where
  "depth_ok m d (JArr vs) = (d < m \<and> list_all (depth_ok m (Suc d)) vs)"
| "depth_ok m d (JObj kvs) = (d < m \<and> list_all (\<lambda>kv. depth_ok m (Suc d) (snd kv)) kvs)"
| "depth_ok m d _ = True"

definition member_lexemes :: "string \<times> json \<Rightarrow> lexeme list" where
  "member_lexemes kv = LStr (fst kv) # LColon # lexemes (snd kv)"

lemma member_lexemes_Pair [simp]: "member_lexemes (k, v) = LStr k # LColon # lexemes v"
  by (simp add: member_lexemes_def)

lemma lexemes_JObj [simp]: "lexemes (JObj kvs) = LLBrace # commas (map member_lexemes kvs) @ [LRBrace]"
  by (simp add: member_lexemes_def [abs_def])

declare lexemes.simps(6) [simp del]

lemma commas_Cons: "commas (x # xs) = (if xs = [] then x else x @ LComma # commas xs)"
  by (cases xs) auto

lemma lexemes_nonempty [simp]: "lexemes v \<noteq> []"
  by (cases v) auto

lemma lexemes_hd: "lexemes v = l # r \<Longrightarrow> l \<noteq> LRBrack \<and> l \<noteq> LRBrace \<and> l \<noteq> LComma \<and> l \<noteq> LColon \<and> l \<noteq> LBad"
  by (cases v) (auto split: if_splits)

subsection \<open>The parser is sound and complete for the grammar\<close>

lemma parse_sound_aux:
  "parse_value n d ls = Some (v, r) \<Longrightarrow> ls = lexemes v @ r \<and> depth_ok max_nesting_depth d v"
  "parse_elems n d ls = Some (vs, r) \<Longrightarrow> vs \<noteq> [] \<and> ls = commas (map lexemes vs) @ LRBrack # r \<and>
     list_all (depth_ok max_nesting_depth d) vs"
  "parse_members n d ls = Some (kvs, r) \<Longrightarrow> kvs \<noteq> [] \<and>
     ls = commas (map member_lexemes kvs) @ LRBrace # r \<and>
     list_all (\<lambda>kv. depth_ok max_nesting_depth d (snd kv)) kvs"
proof (induction n d ls and n d ls and n d ls arbitrary: v r and vs r and kvs r
    rule: parse_value_parse_elems_parse_members.induct)
  case (2 n d ls)
  then show ?case
    by (auto split: list.splits lexeme.splits if_splits elim!: starts_withE)
next
  case (4 n d ls)
  then show ?case
    by (fastforce simp: commas_Cons split: option.splits prod.splits list.splits lexeme.splits)
next
  case (6 n d ls)
  then show ?case
    by (cases "member_start ls")
      (fastforce simp: commas_Cons member_start_Some split: option.splits prod.splits list.splits lexeme.splits)+
qed auto

lemma parse_elems_complete:
  assumes "\<And>v n r. v \<in> set vs \<Longrightarrow> 2 * length (lexemes v) \<le> n \<Longrightarrow>
      parse_value n d (lexemes v @ r) = Some (v, r)"
    and "vs \<noteq> []" and "2 * length (commas (map lexemes vs)) + 1 \<le> n"
  shows "parse_elems n d (commas (map lexemes vs) @ LRBrack # r) = Some (vs, r)"
  using assms
proof (induction vs arbitrary: n)
  case (Cons v vs)
  then obtain m where n: "n = Suc m" by (cases n) auto
  have v: "parse_value m d (lexemes v @ s) = Some (v, s)" for s
    using Cons.prems(3) n by (intro Cons.prems(1)) (auto simp: commas_Cons split: if_splits)
  show ?case
  proof (cases "vs = []")
    case True
    then show ?thesis using n v by simp
  next
    case False
    have "parse_elems m d (commas (map lexemes vs) @ LRBrack # r) = Some (vs, r)"
      using Cons.prems(1,3) n False by (intro Cons.IH) (auto simp: commas_Cons)
    then show ?thesis using n v False by (simp add: commas_Cons)
  qed
qed simp

lemma parse_members_complete:
  assumes "\<And>kv n r. kv \<in> set kvs \<Longrightarrow> 2 * length (lexemes (snd kv)) \<le> n \<Longrightarrow>
      parse_value n d (lexemes (snd kv) @ r) = Some (snd kv, r)"
    and "kvs \<noteq> []" and "2 * length (commas (map member_lexemes kvs)) + 1 \<le> n"
  shows "parse_members n d (commas (map member_lexemes kvs) @ LRBrace # r) = Some (kvs, r)"
  using assms
proof (induction kvs arbitrary: n)
  case (Cons kv kvs)
  obtain k v where kv: "kv = (k, v)" by fastforce
  obtain m where n: "n = Suc m" using Cons.prems(3) by (cases n) auto
  have v: "parse_value m d (lexemes v @ s) = Some (v, s)" for s
    using Cons.prems(1) [of kv m s] Cons.prems(3) n kv
    by (auto simp: commas_Cons split: if_splits)
  show ?case
  proof (cases "kvs = []")
    case True
    then show ?thesis using n v kv by simp
  next
    case False
    have "parse_members m d (commas (map member_lexemes kvs) @ LRBrace # r) = Some (kvs, r)"
      using Cons.prems(1,3) n False by (intro Cons.IH) (auto simp: commas_Cons)
    then show ?thesis using n v False kv by (simp add: commas_Cons)
  qed
qed simp

lemma commas_starts_with:
  assumes "vs \<noteq> []"
  shows "\<not> starts_with LRBrack (commas (map lexemes vs) @ r)"
proof -
  obtain v ws where vs: "vs = v # ws" using assms by (cases vs) auto
  obtain l s where "lexemes v = l # s" by (cases "lexemes v") auto
  moreover from this have "l \<noteq> LRBrack" using lexemes_hd by blast
  ultimately show ?thesis using vs by (simp add: commas_Cons)
qed

lemma members_start_with:
  assumes "kvs \<noteq> []"
  shows "\<not> starts_with LRBrace (commas (map member_lexemes kvs) @ r)"
  using assms by (cases kvs) (auto simp: commas_Cons)

lemma parse_value_complete:
  "depth_ok max_nesting_depth d v \<Longrightarrow> 2 * length (lexemes v) \<le> n \<Longrightarrow>
     parse_value n d (lexemes v @ r) = Some (v, r)"
proof (induction v arbitrary: d n r)
  case (JArr vs)
  from JArr.prems obtain m where n: "n = Suc m" by (cases n) auto
  show ?case
  proof (cases "vs = []")
    case True
    then show ?thesis using n JArr.prems by simp
  next
    case False
    have "parse_elems m (Suc d) (commas (map lexemes vs) @ LRBrack # r) = Some (vs, r)"
      using JArr n False by (intro parse_elems_complete) (auto simp: list_all_iff)
    then show ?thesis using JArr.prems n False commas_starts_with [OF False, of "LRBrack # r"] by simp
  qed
next
  case (JObj kvs)
  from JObj.prems obtain m where n: "n = Suc m" by (cases n) auto
  show ?case
  proof (cases "kvs = []")
    case True
    then show ?thesis using n JObj.prems by simp
  next
    case False
    have "parse_members m (Suc d) (commas (map member_lexemes kvs) @ LRBrace # r) = Some (kvs, r)"
    proof (rule parse_members_complete [OF _ False])
      fix kv n r
      assume "kv \<in> set kvs" and "2 * length (lexemes (snd kv)) \<le> n"
      with JObj.prems(1) show "parse_value n (Suc d) (lexemes (snd kv) @ r) = Some (snd kv, r)"
        by (intro JObj.IH [of kv "snd kv"]) (auto simp: list_all_iff snds.simps)
    qed (use JObj.prems n in simp)
    then show ?thesis using JObj.prems n False members_start_with [OF False, of "LRBrace # r"] by simp
  qed
next
  case (JBool b)
  then show ?case by (cases n; cases b) auto
next
  case JNull
  then show ?case by (cases n) auto
next
  case (JNum s)
  then show ?case by (cases n) auto
next
  case (JStr s)
  then show ?case by (cases n) auto
qed

theorem read_value_iff:
  "read_value ls = Some (v, r) \<longleftrightarrow> ls = lexemes v @ r \<and> depth_ok max_nesting_depth 0 v"
  unfolding read_value_def by (auto dest: parse_sound_aux(1) intro: parse_value_complete)

section \<open>The streaming decoder\<close>

datatype token_state = TopValue | ArrayStart | ArrayValue | ArrayComma
  | ObjectStart | ObjectKey | ObjectColon | ObjectValue | ObjectComma

datatype token = TkDelim char | TkStr string | TkNum float64 | TkBool bool | TkNull

record decoder =
  d_input :: "lexeme list"
  d_state :: token_state
  d_stack :: "token_state list"

definition NewDecoder :: "string \<Rightarrow> decoder" where
  "NewDecoder body = \<lparr>d_input = json_lex body, d_state = TopValue, d_stack = []\<rparr>"

definition value_allowed :: "token_state \<Rightarrow> bool" where
  "value_allowed s \<longleftrightarrow> s = TopValue \<or> s = ArrayStart \<or> s = ArrayValue \<or> s = ObjectValue"

fun value_end :: "token_state \<Rightarrow> token_state" where
  "value_end ArrayStart = ArrayComma"
| "value_end ArrayValue = ArrayComma"
| "value_end ObjectValue = ObjectComma"
| "value_end s = s"

definition syntax_error :: "'a outcome" where
  "syntax_error = Err (Foreign ''json: syntax error'')"

definition eof_error :: "'a outcome" where
  "eof_error = Err (Foreign ''EOF'')"

text \<open>A literal in value position: consumed when the state allows a value.\<close>

definition literal_token ::
    "lexeme list \<Rightarrow> token_state \<Rightarrow> token_state list \<Rightarrow> token \<Rightarrow> (token \<times> decoder) outcome" where
  "literal_token r st stk tk =
     (if value_allowed st then Ok (tk, \<lparr>d_input = r, d_state = value_end st, d_stack = stk\<rparr>)
      else syntax_error)"

definition close_token ::
    "lexeme list \<Rightarrow> token_state list \<Rightarrow> char \<Rightarrow> (token \<times> decoder) outcome" where
  "close_token r stk c =
     (case stk of
        [] \<Rightarrow> Panic ''index out of range''
      | s # rest \<Rightarrow> Ok (TkDelim c, \<lparr>d_input = r, d_state = value_end s, d_stack = rest\<rparr>))"

fun dec_token :: "lexeme list \<Rightarrow> token_state \<Rightarrow> token_state list \<Rightarrow> (token \<times> decoder) outcome" where
  "dec_token [] st stk = eof_error"
| "dec_token (LLBrack # r) st stk =
     (if value_allowed st
      then Ok (TkDelim (CHR ''[''), \<lparr>d_input = r, d_state = ArrayStart, d_stack = st # stk\<rparr>)
      else syntax_error)"
| "dec_token (LRBrack # r) st stk =
     (if st = ArrayStart \<or> st = ArrayComma then close_token r stk (CHR '']'') else syntax_error)"
| "dec_token (LLBrace # r) st stk =
     (if value_allowed st
      then Ok (TkDelim (CHR ''{''), \<lparr>d_input = r, d_state = ObjectStart, d_stack = st # stk\<rparr>)
      else syntax_error)"
| "dec_token (LRBrace # r) st stk =
     (if st = ObjectStart \<or> st = ObjectComma then close_token r stk (CHR ''}'') else syntax_error)"
| "dec_token (LColon # r) st stk =
     (if st = ObjectColon then dec_token r ObjectValue stk else syntax_error)"
| "dec_token (LComma # r) st stk =
     (if st = ArrayComma then dec_token r ArrayValue stk
      else if st = ObjectComma then dec_token r ObjectKey stk
      else syntax_error)"
| "dec_token (LStr s # r) st stk =
     (if st = ObjectStart \<or> st = ObjectKey
      then Ok (TkStr s, \<lparr>d_input = r, d_state = ObjectColon, d_stack = stk\<rparr>)
      else literal_token r st stk (TkStr s))"
| "dec_token (LNum s # r) st stk =
     (if value_allowed st then
        (case ParseFloat s of
           None \<Rightarrow> Err (Foreign ''json: cannot unmarshal number into Go value of type float64'')
         | Some f \<Rightarrow> literal_token r st stk (TkNum f))
      else syntax_error)"
| "dec_token (LTrue # r) st stk = literal_token r st stk (TkBool True)"
| "dec_token (LFalse # r) st stk = literal_token r st stk (TkBool False)"
| "dec_token (LNull # r) st stk = literal_token r st stk TkNull"
| "dec_token (LBad # r) st stk = syntax_error"

definition dec_Token :: "decoder \<Rightarrow> (token \<times> decoder) outcome" where
  "dec_Token d = dec_token (d_input d) (d_state d) (d_stack d)"

definition dec_More :: "decoder \<Rightarrow> bool" where
  "dec_More d = (case d_input d of [] \<Rightarrow> False | l # _ \<Rightarrow> l \<noteq> LRBrack \<and> l \<noteq> LRBrace)"

text \<open>\<open>Decode\<close> into a \<open>RawMessage\<close>: the raw bytes of one value, represented by the value.\<close>

definition dec_Decode :: "decoder \<Rightarrow> (json \<times> decoder) outcome" where
  "dec_Decode d =
     bindO (if d_state d = ArrayComma then
              (if starts_with LComma (d_input d) then Ok (tl (d_input d), ArrayValue) else syntax_error)
            else if d_state d = ObjectColon then
              (if starts_with LColon (d_input d) then Ok (tl (d_input d), ObjectValue) else syntax_error)
            else Ok (d_input d, d_state d))
       (\<lambda>(ls, st).
          if \<not> value_allowed st then syntax_error
          else (case read_value ls of
                  None \<Rightarrow> syntax_error
                | Some (v, r) \<Rightarrow>
                    Ok (v, \<lparr>d_input = r, d_state = value_end st, d_stack = d_stack d\<rparr>)))"

text \<open>Every token consumes input: the measure of the loops that read a stream.\<close>

lemma dec_token_shorter:
  "dec_token ls st stk = Ok (tk, d) \<Longrightarrow> length (d_input d) < length ls"
  by (induction ls st stk rule: dec_token.induct)
    (auto simp: literal_token_def close_token_def syntax_error_def eof_error_def
      split: if_splits option.splits list.splits)

lemma dec_Token_shorter: "dec_Token d = Ok (tk, d') \<Longrightarrow> length (d_input d') < length (d_input d)"
  by (simp add: dec_Token_def dec_token_shorter)

lemma read_value_shorter: "read_value ls = Some (v, r) \<Longrightarrow> length r < length ls"
  by (auto simp: read_value_iff)

lemma dec_Decode_shorter: "dec_Decode d = Ok (v, d') \<Longrightarrow> length (d_input d') < length (d_input d)"
  by (auto simp: dec_Decode_def bindO_Ok_iff syntax_error_def split: if_splits option.splits
      elim!: starts_withE dest!: read_value_shorter)

end
