(* ===== verification/Host_Env.thy ===== *)
theory Host_Env
  imports Go_Json
begin

text \<open>
  What the workflow's code finds outside the repository, as one record of parameters: the
  go-ethereum address, hash and ABI functions, and the CRE host (\<open>cre.Runtime\<close> and the EVM
  capability client). A host function answers from the trace of calls made so far, so nothing is
  assumed about how the host behaves. Theorems that need documented behaviour of a parameter name
  it as a hypothesis.
\<close>

section \<open>Values that cross the ABI\<close>

datatype gval = GBig bigptr | GU8 uint8 | GU64 uint64 | GBool bool | GAddr address
  | GFix "byte list" | GBytes "byte list" | GStr string | GStruct "(string \<times> gval) list" | GList "gval list"

datatype gotype = TBig | TU8 | TU64 | TBool | TAddr | TFix nat | TBytes | TStr
  | TStruct "(string \<times> gotype) list" | TList gotype

type_synonym gstruct = "(string \<times> gval) list"

datatype abi_ty = TupleTy | BytesTy | ElementaryTy string

record abi_arg =
  arg_name :: string
  arg_indexed :: bool
  arg_type :: abi_ty

text \<open>The contracts whose ABI literal the generated packages hold.\<close>

datatype contract = ParentVaultMetaData | ChildVaultMetaData | BaseVaultMetaData | WorkflowRouterMetaData

text \<open>A parsed \<open>abi.ABI\<close>: packing, unpacking, and its event and error tables.\<close>

record abi =
  abi_Pack :: "string \<Rightarrow> gval list \<Rightarrow> byte list outcome"
  abi_OutputsUnpack :: "string \<Rightarrow> byte list \<Rightarrow> gval list outcome"
  abi_EventID :: "string \<Rightarrow> byte list"
  abi_EventInputs :: "string \<Rightarrow> abi_arg list"
  abi_UnpackIntoInterface :: "gstruct \<Rightarrow> string \<Rightarrow> byte list \<Rightarrow> gstruct outcome"
  abi_ErrorID :: "string \<Rightarrow> byte list"
  abi_ErrorUnpack :: "string \<Rightarrow> byte list \<Rightarrow> gval list outcome"
  abi_MethodID :: "string \<Rightarrow> byte list"
  abi_InputsUnpack :: "string \<Rightarrow> byte list \<Rightarrow> gval list outcome"
  abi_OutputsPack :: "string \<Rightarrow> gval list \<Rightarrow> byte list outcome"

text \<open>An entry of the event table, and a rule for one topic: a hash, or an argument's value.\<close>

record abi_event =
  ev_ID :: "byte list"
  ev_Inputs :: "abi_arg list"

datatype topic_rule = RuleHash bytes32 | RuleArg gval

text \<open>The type of a tuple as \<open>abi.NewType\<close> makes it, known by the components it was made of.\<close>

datatype tuple_type = TupleType "(string \<times> string) list"

section \<open>Host requests and replies\<close>

type_synonym report_handle = "byte list"

record report_request =
  rq_EncodedPayload :: "byte list"
  rq_EncoderName :: string
  rq_SigningAlgo :: string
  rq_HashingAlgo :: string

record write_request =
  wq_Receiver :: "byte list"
  wq_Report :: "report_handle option"
  wq_GasConfig :: "uint64 option"

text \<open>Transaction and receiver statuses: success, or another status by its printed name.\<close>

datatype tx_status = TX_STATUS_SUCCESS | TxStatus string
datatype exec_status = EXECUTION_STATUS_SUCCESS | ExecStatus string

record write_reply =
  wr_TxStatus :: tx_status
  wr_ExecutionStatus :: "exec_status option"
  wr_TxHash :: "byte list"
  wr_ErrorMessage :: "string option"

record call_request =
  cq_To :: "byte list"
  cq_Data :: "byte list"
  cq_BlockNumber :: int

text \<open>A log query: addresses, topics by position, and the range of blocks (or one block).\<close>

record filter_query =
  fq_Addresses :: "byte list list"
  fq_Topics :: "byte list list list"
  fq_BlockHash :: "byte list"
  fq_FromBlock :: bigptr
  fq_ToBlock :: bigptr

record http_request =
  hr_Url :: string
  hr_Method :: string
  hr_Headers :: "(string \<times> string) list"
  hr_TimeoutSeconds :: nat

record http_response =
  hp_StatusCode :: nat
  hp_Body :: string

record evm_log =
  lg_Address :: "byte list"
  lg_Topics :: "byte list list"
  lg_Data :: "byte list"

datatype host_call =
    HGenerateReport report_request
  | HWriteReport uint64 write_request
  | HCallContract uint64 call_request
  | HGetSecret string
  | HHttp http_request
  | HFilterLogs uint64 filter_query
  | HLog string

type_synonym trace = "host_call list"
type_synonym 'a prog = "(host_call, 'a) io"

record env =
  IsHexAddress :: "string \<Rightarrow> bool"
  HexToAddress :: "string \<Rightarrow> address"
  BytesToAddress :: "byte list \<Rightarrow> address"
  BytesToHash :: "byte list \<Rightarrow> bytes32"
  Keccak256 :: "byte list \<Rightarrow> byte list"
  AddressText :: "address \<Rightarrow> string"
  ParseAddressText :: "string \<Rightarrow> address option"
  abi_JSON :: "contract \<Rightarrow> abi outcome"
  ParseTopics :: "gstruct \<Rightarrow> abi_arg list \<Rightarrow> bytes32 list \<Rightarrow> gstruct outcome"
  MakeTopics :: "topic_rule list list \<Rightarrow> bytes32 list list outcome"
  PrepareTopicArg :: "abi_arg \<Rightarrow> gval \<Rightarrow> topic_rule outcome"
  PrepareTopics :: "bytes32 list list \<Rightarrow> byte list \<Rightarrow> byte list list list"
  NewTupleType :: "(string \<times> string) list \<Rightarrow> tuple_type outcome"
  TuplePack :: "string \<Rightarrow> tuple_type \<Rightarrow> gval \<Rightarrow> byte list outcome"
  FinalizedBlockNumber :: int
  host_Now :: "trace \<Rightarrow> int"
  host_GenerateReport :: "trace \<Rightarrow> report_request \<Rightarrow> report_handle option outcome"
  host_WriteReport :: "trace \<Rightarrow> uint64 \<Rightarrow> write_request \<Rightarrow> write_reply option outcome"
  host_CallContract :: "trace \<Rightarrow> uint64 \<Rightarrow> call_request \<Rightarrow> byte list option outcome"
  host_GetSecret :: "trace \<Rightarrow> string \<Rightarrow> string option outcome"
  host_FilterLogs :: "trace \<Rightarrow> uint64 \<Rightarrow> filter_query \<Rightarrow> evm_log list option outcome"

section \<open>Host operations\<close>

definition Now :: "env \<Rightarrow> int prog" where
  "Now E = (\<lambda>tr. (Ok (host_Now E tr), tr))"

definition log_Info :: "string \<Rightarrow> unit prog" where
  "log_Info msg = callI (HLog msg) (\<lambda>_. Ok ())"

definition GenerateReport :: "env \<Rightarrow> report_request \<Rightarrow> report_handle option prog" where
  "GenerateReport E rq = callI (HGenerateReport rq) (\<lambda>tr. host_GenerateReport E tr rq)"

definition client_WriteReport :: "env \<Rightarrow> uint64 \<Rightarrow> write_request \<Rightarrow> write_reply option prog" where
  "client_WriteReport E chain wq = callI (HWriteReport chain wq) (\<lambda>tr. host_WriteReport E tr chain wq)"

definition client_CallContract :: "env \<Rightarrow> uint64 \<Rightarrow> call_request \<Rightarrow> byte list option prog" where
  "client_CallContract E chain cq = callI (HCallContract chain cq) (\<lambda>tr. host_CallContract E tr chain cq)"

definition client_FilterLogs :: "env \<Rightarrow> uint64 \<Rightarrow> filter_query \<Rightarrow> evm_log list option prog" where
  "client_FilterLogs E chain fq = callI (HFilterLogs chain fq) (\<lambda>tr. host_FilterLogs E tr chain fq)"

definition GetSecret :: "env \<Rightarrow> string \<Rightarrow> string option prog" where
  "GetSecret E key = callI (HGetSecret key) (\<lambda>tr. host_GetSecret E tr key)"

text \<open>\<open>common.Address\<close> is a 20-byte array; \<open>Bytes\<close> is the slice of it.\<close>

definition address_Bytes :: "address \<Rightarrow> byte list" where
  "address_Bytes a = be_bytes 20 (unat a)"

text \<open>The writes of a trace: the only host call that changes a chain.\<close>

definition is_write :: "host_call \<Rightarrow> bool" where
  "is_write c \<longleftrightarrow> (case c of HWriteReport _ _ \<Rightarrow> True | _ \<Rightarrow> False)"

definition writes :: "trace \<Rightarrow> host_call list" where
  "writes tr = filter is_write tr"

lemma is_write_simps [simp]:
  "is_write (HWriteReport ch wq)" "\<not> is_write (HGenerateReport rq)" "\<not> is_write (HCallContract ch cq)"
  "\<not> is_write (HGetSecret s)" "\<not> is_write (HHttp r)" "\<not> is_write (HFilterLogs ch fq)" "\<not> is_write (HLog m)"
  by (simp_all add: is_write_def)

lemma writes_simps [simp]:
  "writes [] = []" "writes (c # cs) = (if is_write c then c # writes cs else writes cs)"
  "writes (cs @ ds) = writes cs @ writes ds"
  by (simp_all add: writes_def)

lemma length_address_Bytes [simp]: "length (address_Bytes a) = 20"
  by (simp add: address_Bytes_def)

lemma spec_io_bind_Now:
  assumes "\<And>tr. spec_io (f (host_Now E tr)) Q"
  shows "spec_io (bindI (Now E) f) Q"
  using assms by (auto simp: spec_io_def bindI_def Now_def)

section \<open>JSON of ABI values\<close>

text \<open>
  The generated decoders convert an unpacked value to a declared Go type by marshalling it to JSON
  and unmarshalling that. The tuple types of the ABI library carry the Solidity names as JSON
  tags, the declared structs have Go field names, and \<open>Unmarshal\<close> matches them without regard to
  case. The object read here is the one just written, so its keys are distinct.
\<close>

text \<open>A byte slice travels as a base64 string; a byte array as an array of numbers.\<close>

definition base64_char :: "nat \<Rightarrow> char" where
  "base64_char n =
     (if n < 26 then char_of (65 + n) else if n < 52 then char_of (71 + n)
      else if n < 62 then char_of (n - 4) else if n = 62 then CHR ''+'' else CHR ''/'')"

fun base64_encode :: "byte list \<Rightarrow> string" where
  "base64_encode [] = []"
| "base64_encode [a] =
     [base64_char (unat a div 4), base64_char (unat a mod 4 * 16), CHR ''='', CHR ''='']"
| "base64_encode [a, b] =
     [base64_char (unat a div 4), base64_char (unat a mod 4 * 16 + unat b div 16), base64_char (unat b mod 16 * 4), CHR ''='']"
| "base64_encode (a # b # c # bs) =
     [base64_char (unat a div 4), base64_char (unat a mod 4 * 16 + unat b div 16),
      base64_char (unat b mod 16 * 4 + unat c div 64), base64_char (unat c mod 64)] @ base64_encode bs"

definition base64_val :: "char \<Rightarrow> nat option" where
  "base64_val c =
     (let n = of_char c :: nat
      in if 65 \<le> n \<and> n \<le> 90 then Some (n - 65) else if 97 \<le> n \<and> n \<le> 122 then Some (n - 71)
         else if 48 \<le> n \<and> n \<le> 57 then Some (n + 4) else if n = 43 then Some 62 else if n = 47 then Some 63 else None)"

fun base64_decode :: "string \<Rightarrow> byte list option" where
  "base64_decode [] = Some []"
| "base64_decode (p # q # r # s # cs) =
     (case (base64_val p, base64_val q) of
        (Some a, Some b) \<Rightarrow>
          if r = CHR ''='' then (if s = CHR ''='' \<and> cs = [] then Some [of_nat (a * 4 + b div 16)] else None)
          else (case base64_val r of
              None \<Rightarrow> None
            | Some c \<Rightarrow>
                if s = CHR ''='' then (if cs = [] then Some [of_nat (a * 4 + b div 16), of_nat (b mod 16 * 16 + c div 4)] else None)
                else (case (base64_val s, base64_decode cs) of
                    (Some d, Some bs) \<Rightarrow>
                      Some ([of_nat (a * 4 + b div 16), of_nat (b mod 16 * 16 + c div 4), of_nat (c mod 4 * 64 + d)] @ bs)
                  | _ \<Rightarrow> None))
      | _ \<Rightarrow> None)"
| "base64_decode _ = None"

definition json_of_nat :: "nat \<Rightarrow> json" where
  "json_of_nat n = JNum (show_nat n)"

fun marshal :: "env \<Rightarrow> gval \<Rightarrow> json" where
  "marshal E (GBig None) = JNull"
| "marshal E (GBig (Some v)) = JNum (show_int v)"
| "marshal E (GU8 w) = json_of_nat (unat w)"
| "marshal E (GU64 w) = json_of_nat (unat w)"
| "marshal E (GBool b) = JBool b"
| "marshal E (GAddr a) = JStr (AddressText E a)"
| "marshal E (GFix bs) = JArr (map (\<lambda>b. json_of_nat (unat b)) bs)"
| "marshal E (GBytes bs) = JStr (base64_encode bs)"
| "marshal E (GStr s) = JStr s"
| "marshal E (GStruct fs) = JObj (map (\<lambda>f. (fst f, marshal E (snd f))) fs)"
| "marshal E (GList vs) = JArr (map (marshal E) vs)"

fun zero_value :: "gotype \<Rightarrow> gval" where
  "zero_value TBig = GBig None"
| "zero_value TU8 = GU8 0"
| "zero_value TU64 = GU64 0"
| "zero_value TBool = GBool False"
| "zero_value TAddr = GAddr 0"
| "zero_value (TFix n) = GFix (replicate n 0)"
| "zero_value TBytes = GBytes []"
| "zero_value TStr = GStr []"
| "zero_value (TStruct fs) = GStruct (map (\<lambda>f. (fst f, zero_value (snd f))) fs)"
| "zero_value (TList t) = GList []"

definition type_error :: "'a outcome" where
  "type_error = Err (Foreign ''json: cannot unmarshal value'')"

definition unmarshal_uint :: "nat \<Rightarrow> string \<Rightarrow> nat outcome" where
  "unmarshal_uint bits s =
     (case parse_int s of
        Some v \<Rightarrow> if 0 \<le> v \<and> v < 2 ^ bits then Ok (nat v) else type_error
      | None \<Rightarrow> type_error)"

fun unmarshal_byte :: "json \<Rightarrow> byte outcome" where
  "unmarshal_byte (JNum s) = bindO (unmarshal_uint 8 s) (\<lambda>n. Ok (of_nat n))"
| "unmarshal_byte JNull = Ok 0"
| "unmarshal_byte _ = type_error"

fun sequenceO :: "'a outcome list \<Rightarrow> 'a list outcome" where
  "sequenceO [] = Ok []"
| "sequenceO (m # ms) = bindO m (\<lambda>a. bindO (sequenceO ms) (\<lambda>as. Ok (a # as)))"

fun find_member :: "string \<Rightarrow> (string \<times> json) list \<Rightarrow> json option" where
  "find_member name [] = None"
| "find_member name (kv # kvs) = (if EqualFold (fst kv) name then Some (snd kv) else find_member name kvs)"

fun unmarshal :: "env \<Rightarrow> gotype \<Rightarrow> json \<Rightarrow> gval outcome" where
  "unmarshal E TBig j =
     (case j of
        JNull \<Rightarrow> Ok (GBig None)
      | JNum s \<Rightarrow> (case parse_int s of Some v \<Rightarrow> Ok (GBig (Some v)) | None \<Rightarrow> type_error)
      | _ \<Rightarrow> type_error)"
| "unmarshal E TU8 j =
     (case j of JNull \<Rightarrow> Ok (GU8 0) | JNum s \<Rightarrow> bindO (unmarshal_uint 8 s) (\<lambda>n. Ok (GU8 (of_nat n)))
      | _ \<Rightarrow> type_error)"
| "unmarshal E TU64 j =
     (case j of JNull \<Rightarrow> Ok (GU64 0) | JNum s \<Rightarrow> bindO (unmarshal_uint 64 s) (\<lambda>n. Ok (GU64 (of_nat n)))
      | _ \<Rightarrow> type_error)"
| "unmarshal E TBool j =
     (case j of JNull \<Rightarrow> Ok (GBool False) | JBool b \<Rightarrow> Ok (GBool b) | _ \<Rightarrow> type_error)"
| "unmarshal E TAddr j =
     (case j of
        JNull \<Rightarrow> Ok (GAddr 0)
      | JStr s \<Rightarrow> (case ParseAddressText E s of Some a \<Rightarrow> Ok (GAddr a) | None \<Rightarrow> type_error)
      | _ \<Rightarrow> type_error)"
| "unmarshal E (TFix n) j =
     (case j of
        JNull \<Rightarrow> Ok (GFix (replicate n 0))
      | JArr vs \<Rightarrow> bindO (sequenceO (map unmarshal_byte vs)) (\<lambda>bs. Ok (GFix (take n (bs @ replicate n 0))))
      | _ \<Rightarrow> type_error)"
| "unmarshal E TBytes j =
     (case j of
        JNull \<Rightarrow> Ok (GBytes [])
      | JStr s \<Rightarrow> (case base64_decode s of Some bs \<Rightarrow> Ok (GBytes bs) | None \<Rightarrow> type_error)
      | _ \<Rightarrow> type_error)"
| "unmarshal E TStr j = (case j of JNull \<Rightarrow> Ok (GStr []) | JStr s \<Rightarrow> Ok (GStr s) | _ \<Rightarrow> type_error)"
| "unmarshal E (TStruct fs) j =
     (case j of
        JNull \<Rightarrow> Ok (zero_value (TStruct fs))
      | JObj kvs \<Rightarrow>
          bindO (sequenceO (map (\<lambda>f. bindO
             (case find_member (fst f) kvs of None \<Rightarrow> Ok (zero_value (snd f)) | Some v \<Rightarrow> unmarshal E (snd f) v)
             (\<lambda>g. Ok (fst f, g))) fs)) (\<lambda>gs. Ok (GStruct gs))
      | _ \<Rightarrow> type_error)"
| "unmarshal E (TList t) j =
     (case j of
        JNull \<Rightarrow> Ok (GList [])
      | JArr vs \<Rightarrow> bindO (sequenceO (map (unmarshal E t) vs)) (\<lambda>gs. Ok (GList gs))
      | _ \<Rightarrow> type_error)"

end
