(* ===== verification/Vault_Bindings.thy ===== *)
theory Vault_Bindings
  imports Host_Env
begin

text \<open>
  The generated contract bindings (\<open>cre/contracts/evm/src/generated\<close>) as far as the workflow calls
  them: the structs read from the vaults, the inputs of the vault calls, the codec methods that
  pack calls and decode outputs and events, and the contract reads. Everything goes through the
  parsed ABI, which is a parameter.
\<close>

section \<open>Structs\<close>

record TypesStrategy =
  st_ProtocolId :: bytes32
  st_ChainSelector :: uint64

record TypesRebalance =
  rb_Nonce :: bigptr
  rb_State :: uint8
  rb_ActiveStrategy :: TypesStrategy
  rb_PendingStrategy :: TypesStrategy
  rb_LastRebalanceCompletedTimestamp :: bigptr

record TypesEpoch =
  ep_TotalDepositAmount :: bigptr
  ep_TotalShareBurnAmount :: bigptr
  ep_TotalWithdrawClaimAmount :: bigptr
  ep_RemainingDepositClaimAmount :: bigptr
  ep_RemainingShareMintAmount :: bigptr
  ep_RemainingShareBurnAmount :: bigptr
  ep_RemainingWithdrawClaimAmount :: bigptr
  ep_OpenedAtTimestamp :: bigptr
  ep_Status :: uint8

record TypesParentOperationalState =
  ps_Paused :: bool
  ps_RecoveryMode :: uint8
  ps_CurrentEpochNonce :: bigptr
  ps_CurrentEpoch :: TypesEpoch
  ps_PreviousEpoch :: TypesEpoch
  ps_Rebalance :: TypesRebalance
  ps_TotalShares :: bigptr
  ps_Tvl :: bigptr

record TypesChildOperationalState =
  cs_Paused :: bool
  cs_RecoveryMode :: uint8
  cs_LastHandledEpochNonce :: bigptr
  cs_LastHandledRebalanceNonce :: bigptr
  cs_Tvl :: bigptr

record CloseEpochInput =
  ce_ExpectedEpochNonce :: bigptr
  ce_Tvl :: bigptr

record CompleteEpochDepositInput =
  cd_ExpectedEpochNonce :: bigptr
  cd_ActualDepositAmount :: bigptr

record CompleteRebalanceInput =
  cr_ExpectedRebalanceNonce :: bigptr

record InitiateRebalanceInput =
  ir_ExpectedRebalanceNonce :: bigptr
  ir_NewStrategy :: TypesStrategy

record ExecuteRebalanceInput =
  er_RebalanceNonce :: bigptr
  er_NewStrategy :: TypesStrategy

record ExecuteEpochWithdrawInput =
  ew_EpochNonce :: bigptr
  ew_Amount :: bigptr

record RebalanceInitiatedDecoded =
  ri_RebalanceNonce :: bigptr
  ri_ProtocolId :: bytes32
  ri_ChainSelector :: uint64

record RebalanceDepositSuccessDecoded =
  rd_RebalanceNonce :: bigptr
  rd_Amount :: bigptr

record EpochWithdrawExecutingDecoded =
  we_EpochNonce :: bigptr
  we_Amount :: bigptr

record EpochDepositToStrategySuccessDecoded =
  ds_EpochNonce :: bigptr
  ds_Amount :: bigptr

section \<open>Reading a decoded Go struct\<close>

fun as_big :: "gval option \<Rightarrow> bigptr" where
  "as_big (Some (GBig p)) = p"
| "as_big _ = None"

fun as_u8 :: "gval option \<Rightarrow> uint8" where
  "as_u8 (Some (GU8 w)) = w"
| "as_u8 _ = 0"

fun as_u64 :: "gval option \<Rightarrow> uint64" where
  "as_u64 (Some (GU64 w)) = w"
| "as_u64 _ = 0"

fun as_bool :: "gval option \<Rightarrow> bool" where
  "as_bool (Some (GBool b)) = b"
| "as_bool _ = False"

fun as_fix :: "nat \<Rightarrow> gval option \<Rightarrow> byte list" where
  "as_fix n (Some (GFix bs)) = bs"
| "as_fix n _ = replicate n 0"

fun as_struct :: "gval option \<Rightarrow> gstruct" where
  "as_struct (Some (GStruct fs)) = fs"
| "as_struct _ = []"

definition strategy_of :: "gstruct \<Rightarrow> TypesStrategy" where
  "strategy_of s = \<lparr>st_ProtocolId = as_fix 32 (map_of s ''ProtocolId''),
     st_ChainSelector = as_u64 (map_of s ''ChainSelector'')\<rparr>"

definition rebalance_of :: "gstruct \<Rightarrow> TypesRebalance" where
  "rebalance_of s = \<lparr>rb_Nonce = as_big (map_of s ''Nonce''), rb_State = as_u8 (map_of s ''State''),
     rb_ActiveStrategy = strategy_of (as_struct (map_of s ''ActiveStrategy'')),
     rb_PendingStrategy = strategy_of (as_struct (map_of s ''PendingStrategy'')),
     rb_LastRebalanceCompletedTimestamp = as_big (map_of s ''LastRebalanceCompletedTimestamp'')\<rparr>"

definition epoch_of :: "gstruct \<Rightarrow> TypesEpoch" where
  "epoch_of s = \<lparr>ep_TotalDepositAmount = as_big (map_of s ''TotalDepositAmount''),
     ep_TotalShareBurnAmount = as_big (map_of s ''TotalShareBurnAmount''),
     ep_TotalWithdrawClaimAmount = as_big (map_of s ''TotalWithdrawClaimAmount''),
     ep_RemainingDepositClaimAmount = as_big (map_of s ''RemainingDepositClaimAmount''),
     ep_RemainingShareMintAmount = as_big (map_of s ''RemainingShareMintAmount''),
     ep_RemainingShareBurnAmount = as_big (map_of s ''RemainingShareBurnAmount''),
     ep_RemainingWithdrawClaimAmount = as_big (map_of s ''RemainingWithdrawClaimAmount''),
     ep_OpenedAtTimestamp = as_big (map_of s ''OpenedAtTimestamp''), ep_Status = as_u8 (map_of s ''Status'')\<rparr>"

definition parent_state_of :: "gstruct \<Rightarrow> TypesParentOperationalState" where
  "parent_state_of s = \<lparr>ps_Paused = as_bool (map_of s ''Paused''),
     ps_RecoveryMode = as_u8 (map_of s ''RecoveryMode''),
     ps_CurrentEpochNonce = as_big (map_of s ''CurrentEpochNonce''),
     ps_CurrentEpoch = epoch_of (as_struct (map_of s ''CurrentEpoch'')),
     ps_PreviousEpoch = epoch_of (as_struct (map_of s ''PreviousEpoch'')),
     ps_Rebalance = rebalance_of (as_struct (map_of s ''Rebalance'')),
     ps_TotalShares = as_big (map_of s ''TotalShares''), ps_Tvl = as_big (map_of s ''Tvl'')\<rparr>"

definition child_state_of :: "gstruct \<Rightarrow> TypesChildOperationalState" where
  "child_state_of s = \<lparr>cs_Paused = as_bool (map_of s ''Paused''),
     cs_RecoveryMode = as_u8 (map_of s ''RecoveryMode''),
     cs_LastHandledEpochNonce = as_big (map_of s ''LastHandledEpochNonce''),
     cs_LastHandledRebalanceNonce = as_big (map_of s ''LastHandledRebalanceNonce''),
     cs_Tvl = as_big (map_of s ''Tvl'')\<rparr>"

text \<open>The Go struct types, field by field.\<close>

definition strategy_type :: gotype where
  "strategy_type = TStruct [(''ProtocolId'', TFix 32), (''ChainSelector'', TU64)]"

definition rebalance_type :: gotype where
  "rebalance_type = TStruct [(''Nonce'', TBig), (''State'', TU8), (''ActiveStrategy'', strategy_type),
     (''PendingStrategy'', strategy_type), (''LastRebalanceCompletedTimestamp'', TBig)]"

definition epoch_type :: gotype where
  "epoch_type = TStruct [(''TotalDepositAmount'', TBig), (''TotalShareBurnAmount'', TBig),
     (''TotalWithdrawClaimAmount'', TBig), (''RemainingDepositClaimAmount'', TBig),
     (''RemainingShareMintAmount'', TBig), (''RemainingShareBurnAmount'', TBig),
     (''RemainingWithdrawClaimAmount'', TBig), (''OpenedAtTimestamp'', TBig), (''Status'', TU8)]"

definition parent_state_type :: gotype where
  "parent_state_type = TStruct [(''Paused'', TBool), (''RecoveryMode'', TU8), (''CurrentEpochNonce'', TBig),
     (''CurrentEpoch'', epoch_type), (''PreviousEpoch'', epoch_type), (''Rebalance'', rebalance_type),
     (''TotalShares'', TBig), (''Tvl'', TBig)]"

definition child_state_type :: gotype where
  "child_state_type = TStruct [(''Paused'', TBool), (''RecoveryMode'', TU8),
     (''LastHandledEpochNonce'', TBig), (''LastHandledRebalanceNonce'', TBig), (''Tvl'', TBig)]"

section \<open>Codecs\<close>

record codec =
  codec_abi :: abi

definition parent_NewCodec :: "env \<Rightarrow> codec outcome" where
  "parent_NewCodec E = bindO (abi_JSON E ParentVaultMetaData) (\<lambda>parsed. Ok \<lparr>codec_abi = parsed\<rparr>)"

definition child_NewCodec :: "env \<Rightarrow> codec outcome" where
  "child_NewCodec E = bindO (abi_JSON E ChildVaultMetaData) (\<lambda>parsed. Ok \<lparr>codec_abi = parsed\<rparr>)"

definition strategy_arg :: "TypesStrategy \<Rightarrow> gval" where
  "strategy_arg s = GStruct [(''ProtocolId'', GFix (st_ProtocolId s)), (''ChainSelector'', GU64 (st_ChainSelector s))]"

definition EncodeCloseEpochMethodCall :: "codec \<Rightarrow> CloseEpochInput \<Rightarrow> byte list outcome" where
  "EncodeCloseEpochMethodCall c inp =
     abi_Pack (codec_abi c) ''closeEpoch'' [GBig (ce_ExpectedEpochNonce inp), GBig (ce_Tvl inp)]"

definition EncodeCompleteEpochDepositMethodCall :: "codec \<Rightarrow> CompleteEpochDepositInput \<Rightarrow> byte list outcome" where
  "EncodeCompleteEpochDepositMethodCall c inp =
     abi_Pack (codec_abi c) ''completeEpochDeposit''
       [GBig (cd_ExpectedEpochNonce inp), GBig (cd_ActualDepositAmount inp)]"

definition EncodeCompleteRebalanceMethodCall :: "codec \<Rightarrow> CompleteRebalanceInput \<Rightarrow> byte list outcome" where
  "EncodeCompleteRebalanceMethodCall c inp =
     abi_Pack (codec_abi c) ''completeRebalance'' [GBig (cr_ExpectedRebalanceNonce inp)]"

definition EncodeInitiateRebalanceMethodCall :: "codec \<Rightarrow> InitiateRebalanceInput \<Rightarrow> byte list outcome" where
  "EncodeInitiateRebalanceMethodCall c inp =
     abi_Pack (codec_abi c) ''initiateRebalance''
       [GBig (ir_ExpectedRebalanceNonce inp), strategy_arg (ir_NewStrategy inp)]"

definition EncodeExecuteRebalanceMethodCall :: "codec \<Rightarrow> ExecuteRebalanceInput \<Rightarrow> byte list outcome" where
  "EncodeExecuteRebalanceMethodCall c inp =
     abi_Pack (codec_abi c) ''executeRebalance''
       [GBig (er_RebalanceNonce inp), strategy_arg (er_NewStrategy inp)]"

definition EncodeExecuteEpochWithdrawMethodCall :: "codec \<Rightarrow> ExecuteEpochWithdrawInput \<Rightarrow> byte list outcome" where
  "EncodeExecuteEpochWithdrawMethodCall c inp =
     abi_Pack (codec_abi c) ''executeEpochWithdraw'' [GBig (ew_EpochNonce inp), GBig (ew_Amount inp)]"

text \<open>
  The shape shared by every output decoder: unpack, take the first value (an empty list is an
  index panic), and convert it to the declared type through JSON.
\<close>

definition decode_output :: "env \<Rightarrow> codec \<Rightarrow> string \<Rightarrow> gotype \<Rightarrow> string \<Rightarrow> byte list \<Rightarrow> gval outcome" where
  "decode_output E c method ty tyname data =
     bindO (abi_OutputsUnpack (codec_abi c) method data) (\<lambda>vals.
       (case vals of
          [] \<Rightarrow> Panic ''index out of range''
        | v # _ \<Rightarrow> wrapO (''failed to unmarshal to '' @ tyname @ '': %w'') [] (unmarshal E ty (marshal E v))))"

definition DecodeGetParentOperationalStateMethodOutput ::
    "env \<Rightarrow> codec \<Rightarrow> byte list \<Rightarrow> TypesParentOperationalState outcome" where
  "DecodeGetParentOperationalStateMethodOutput E c data =
     bindO (decode_output E c ''getParentOperationalState'' parent_state_type ''TypesParentOperationalState'' data)
       (\<lambda>g. Ok (parent_state_of (as_struct (Some g))))"

definition DecodeGetChildOperationalStateMethodOutput ::
    "env \<Rightarrow> codec \<Rightarrow> byte list \<Rightarrow> TypesChildOperationalState outcome" where
  "DecodeGetChildOperationalStateMethodOutput E c data =
     bindO (decode_output E c ''getChildOperationalState'' child_state_type ''TypesChildOperationalState'' data)
       (\<lambda>g. Ok (child_state_of (as_struct (Some g))))"

definition EncodeGetParentOperationalStateMethodCall :: "codec \<Rightarrow> byte list outcome" where
  "EncodeGetParentOperationalStateMethodCall c = abi_Pack (codec_abi c) ''getParentOperationalState'' []"

definition EncodeGetChildOperationalStateMethodCall :: "codec \<Rightarrow> byte list outcome" where
  "EncodeGetChildOperationalStateMethodCall c = abi_Pack (codec_abi c) ''getChildOperationalState'' []"

text \<open>
  The shape shared by every event decoder: unpack the data, collect the indexed arguments (a tuple
  is read back as bytes), convert the topics to hashes and parse all but the first of them. A nil
  log is a nil dereference; a log without topics is a slice out of range.
\<close>

definition retype_tuple :: "abi_arg \<Rightarrow> abi_arg" where
  "retype_tuple a = (if arg_type a = TupleTy then a\<lparr>arg_type := BytesTy\<rparr> else a)"

definition decode_event :: "env \<Rightarrow> codec \<Rightarrow> gstruct \<Rightarrow> string \<Rightarrow> evm_log option \<Rightarrow> gstruct outcome" where
  "decode_event E c zero name lg =
     (case lg of
        None \<Rightarrow> Panic ''nil pointer dereference''
      | Some l \<Rightarrow>
          bindO (abi_UnpackIntoInterface (codec_abi c) zero name (lg_Data l)) (\<lambda>event.
            let indexed = map retype_tuple (filter arg_indexed (abi_EventInputs (codec_abi c) name));
                topics = map (BytesToHash E) (lg_Topics l)
            in if topics = [] then Panic ''slice bounds out of range''
               else ParseTopics E event indexed (tl topics)))"

definition DecodeRebalanceInitiated :: "env \<Rightarrow> codec \<Rightarrow> evm_log option \<Rightarrow> RebalanceInitiatedDecoded outcome" where
  "DecodeRebalanceInitiated E c lg =
     bindO (decode_event E c [(''RebalanceNonce'', GBig None), (''ProtocolId'', GFix (replicate 32 0)),
              (''ChainSelector'', GU64 0)] ''RebalanceInitiated'' lg)
       (\<lambda>s. Ok \<lparr>ri_RebalanceNonce = as_big (map_of s ''RebalanceNonce''),
          ri_ProtocolId = as_fix 32 (map_of s ''ProtocolId''), ri_ChainSelector = as_u64 (map_of s ''ChainSelector'')\<rparr>)"

definition DecodeRebalanceDepositSuccess ::
    "env \<Rightarrow> codec \<Rightarrow> evm_log option \<Rightarrow> RebalanceDepositSuccessDecoded outcome" where
  "DecodeRebalanceDepositSuccess E c lg =
     bindO (decode_event E c [(''RebalanceNonce'', GBig None), (''Amount'', GBig None)] ''RebalanceDepositSuccess'' lg)
       (\<lambda>s. Ok \<lparr>rd_RebalanceNonce = as_big (map_of s ''RebalanceNonce''), rd_Amount = as_big (map_of s ''Amount'')\<rparr>)"

definition DecodeEpochWithdrawExecuting ::
    "env \<Rightarrow> codec \<Rightarrow> evm_log option \<Rightarrow> EpochWithdrawExecutingDecoded outcome" where
  "DecodeEpochWithdrawExecuting E c lg =
     bindO (decode_event E c [(''EpochNonce'', GBig None), (''Amount'', GBig None)] ''EpochWithdrawExecuting'' lg)
       (\<lambda>s. Ok \<lparr>we_EpochNonce = as_big (map_of s ''EpochNonce''), we_Amount = as_big (map_of s ''Amount'')\<rparr>)"

definition DecodeEpochDepositToStrategySuccess ::
    "env \<Rightarrow> codec \<Rightarrow> evm_log option \<Rightarrow> EpochDepositToStrategySuccessDecoded outcome" where
  "DecodeEpochDepositToStrategySuccess E c lg =
     bindO (decode_event E c [(''EpochNonce'', GBig None), (''Amount'', GBig None)]
              ''EpochDepositToStrategySuccess'' lg)
       (\<lambda>s. Ok \<lparr>ds_EpochNonce = as_big (map_of s ''EpochNonce''), ds_Amount = as_big (map_of s ''Amount'')\<rparr>)"

definition RebalanceInitiatedLogHash :: "codec \<Rightarrow> byte list" where
  "RebalanceInitiatedLogHash c = abi_EventID (codec_abi c) ''RebalanceInitiated''"

definition EpochWithdrawExecutingLogHash :: "codec \<Rightarrow> byte list" where
  "EpochWithdrawExecutingLogHash c = abi_EventID (codec_abi c) ''EpochWithdrawExecuting''"

definition RebalanceDepositSuccessLogHash :: "codec \<Rightarrow> byte list" where
  "RebalanceDepositSuccessLogHash c = abi_EventID (codec_abi c) ''RebalanceDepositSuccess''"

definition EpochDepositToStrategySuccessLogHash :: "codec \<Rightarrow> byte list" where
  "EpochDepositToStrategySuccessLogHash c = abi_EventID (codec_abi c) ''EpochDepositToStrategySuccess''"

section \<open>Contract reads\<close>

record vault_binding =
  vb_Address :: address
  vb_ABI :: abi
  vb_ChainSelector :: uint64
  vb_Codec :: codec

definition NewParentVault :: "env \<Rightarrow> uint64 \<Rightarrow> address \<Rightarrow> vault_binding outcome" where
  "NewParentVault E chain addr =
     bindO (abi_JSON E ParentVaultMetaData) (\<lambda>parsed. bindO (parent_NewCodec E) (\<lambda>c.
       Ok \<lparr>vb_Address = addr, vb_ABI = parsed, vb_ChainSelector = chain, vb_Codec = c\<rparr>))"

definition NewChildVault :: "env \<Rightarrow> uint64 \<Rightarrow> address \<Rightarrow> vault_binding outcome" where
  "NewChildVault E chain addr =
     bindO (abi_JSON E ChildVaultMetaData) (\<lambda>parsed. bindO (child_NewCodec E) (\<lambda>c.
       Ok \<lparr>vb_Address = addr, vb_ABI = parsed, vb_ChainSelector = chain, vb_Codec = c\<rparr>))"

text \<open>
  The shape shared by every contract read: encode the call, default the block to the finalized one,
  call, and decode the reply's data.
\<close>

definition read_contract ::
    "env \<Rightarrow> vault_binding \<Rightarrow> byte list outcome \<Rightarrow> bigptr \<Rightarrow> (byte list \<Rightarrow> 'a outcome) \<Rightarrow> 'a prog" where
  "read_contract E v encoded block decode =
     bindI (liftO encoded) (\<lambda>calldata.
       bindI (client_CallContract E (vb_ChainSelector v)
                \<lparr>cq_To = address_Bytes (vb_Address v), cq_Data = calldata,
                 cq_BlockNumber = (case block of None \<Rightarrow> FinalizedBlockNumber E | Some b \<Rightarrow> b)\<rparr>)
         (\<lambda>response. liftO (case response of
              None \<Rightarrow> Panic ''nil pointer dereference''
            | Some data \<Rightarrow> decode data)))"

definition GetParentOperationalState ::
    "env \<Rightarrow> vault_binding \<Rightarrow> bigptr \<Rightarrow> TypesParentOperationalState prog" where
  "GetParentOperationalState E v block =
     read_contract E v (EncodeGetParentOperationalStateMethodCall (vb_Codec v)) block
       (DecodeGetParentOperationalStateMethodOutput E (vb_Codec v))"

definition GetChildOperationalState ::
    "env \<Rightarrow> vault_binding \<Rightarrow> bigptr \<Rightarrow> TypesChildOperationalState prog" where
  "GetChildOperationalState E v block =
     read_contract E v (EncodeGetChildOperationalStateMethodCall (vb_Codec v)) block
       (DecodeGetChildOperationalStateMethodOutput E (vb_Codec v))"

end
