(* ===== verification/Config_Model.thy ===== *)
theory Config_Model
  imports Vault_Bindings
begin

text \<open>
  \<open>cre/workflow/internal/helper/config.go\<close>: the configuration records, \<open>ValidateConfig\<close> with every
  one of its checks in the source's order, and the two lookups the handlers use. The second part
  states what a configuration must satisfy and proves that \<open>ValidateConfig\<close> accepts exactly that.
\<close>

record DefiLlama =
  dl_PoolIDs :: "string list"
  dl_Projects :: "string list"
  dl_Symbols :: "string list"

record EvmConfig =
  ec_IsParent :: bool
  ec_ChainName :: string
  ec_DefiLlamaChainName :: string
  ec_ChainSelector :: uint64
  ec_VaultAddress :: string
  ec_WorkflowRouterAddress :: string
  ec_GasLimit :: uint64

record Config =
  cf_RebalanceSchedule :: string
  cf_EpochSchedule :: string
  cf_AssetDecimals :: "uint8 option"
  cf_BlockNumber :: "int option"
  cf_DefiLlama :: DefiLlama
  cf_Evms :: "EvmConfig list"

section \<open>Lookups\<close>

fun FindEvmConfigByChainSelector :: "EvmConfig list \<Rightarrow> uint64 \<Rightarrow> EvmConfig outcome" where
  "FindEvmConfigByChainSelector [] target =
     Err (Errorf ''no evm config found for chainSelector %d'' [FInt (uint target)])"
| "FindEvmConfigByChainSelector (e # es) target =
     (if ec_ChainSelector e = target then Ok e else FindEvmConfigByChainSelector es target)"

fun FindParent :: "EvmConfig list \<Rightarrow> EvmConfig outcome" where
  "FindParent [] = Err (Errorf ''no parent chain configured'' [])"
| "FindParent (e # es) = (if ec_IsParent e then Ok e else FindParent es)"

section \<open>Validation\<close>

definition canonicalDefiLlamaValue :: "string \<Rightarrow> string" where
  "canonicalDefiLlamaValue v = ToLower (TrimSpace v)"

definition TriggerCount :: "int \<Rightarrow> int" where
  "TriggerCount n = n + 2"

definition isRequiredAddress :: "env \<Rightarrow> string \<Rightarrow> bool" where
  "isRequiredAddress E v \<longleftrightarrow> \<not> (v = [] \<or> \<not> IsHexAddress E v) \<and> HexToAddress E v \<noteq> 0"

fun unique_loop :: "string \<Rightarrow> nat \<Rightarrow> string list \<Rightarrow> string list \<Rightarrow> unit outcome" where
  "unique_loop field i seen [] = Ok ()"
| "unique_loop field i seen (v # vs) =
     (let c = canonicalDefiLlamaValue v
      in if c = [] then Err (Errorf ''%s[%d]: value must be non-empty'' [FStr field, FInt (int i)])
         else if c \<in> set seen then Err (Errorf ''%s[%d]: duplicate value %q'' [FStr field, FInt (int i), FStr v])
         else unique_loop field (Suc i) (c # seen) vs)"

definition validateUniqueNonEmptyStrings :: "string \<Rightarrow> string list \<Rightarrow> unit outcome" where
  "validateUniqueNonEmptyStrings field vs =
     (if vs = [] then Err (Errorf ''%s must contain at least one value'' [FStr field])
      else unique_loop field 0 [] vs)"

definition supported_projects :: "string list" where
  "supported_projects = [''aave-v3'', ''aave-v4'', ''compound-v3'']"

fun validate_projects :: "string list \<Rightarrow> unit outcome" where
  "validate_projects [] = Ok ()"
| "validate_projects (p # ps) =
     (if p \<in> set supported_projects then validate_projects ps
      else Err (Errorf ''unsupported defiLlama project %q: expected aave-v3, aave-v4, or compound-v3'' [FStr p]))"

definition validateDefiLlamaConfig :: "DefiLlama \<Rightarrow> unit outcome" where
  "validateDefiLlamaConfig cfg =
     bindO (validateUniqueNonEmptyStrings ''defiLlama.poolIds'' (dl_PoolIDs cfg)) (\<lambda>_.
     bindO (validateUniqueNonEmptyStrings ''defiLlama.projects'' (dl_Projects cfg)) (\<lambda>_.
     bindO (validate_projects (dl_Projects cfg)) (\<lambda>_.
     validateUniqueNonEmptyStrings ''defiLlama.symbols'' (dl_Symbols cfg))))"

text \<open>
  The loop over the chains: index, selectors seen, canonical chain names seen, parents counted.
\<close>

fun validate_evms ::
    "env \<Rightarrow> nat \<Rightarrow> uint64 list \<Rightarrow> string list \<Rightarrow> int \<Rightarrow> EvmConfig list \<Rightarrow> int outcome" where
  "validate_evms E i sels names parents [] = Ok parents"
| "validate_evms E i sels names parents (e # es) =
     (if ec_ChainSelector e = 0 then Err (Errorf ''evms[%d]: chainSelector must be non-zero'' [FInt (int i)])
      else if ec_ChainSelector e \<in> set sels then
        Err (Errorf ''evms[%d]: duplicate chainSelector %d'' [FInt (int i), FInt (uint (ec_ChainSelector e))])
      else if \<not> isRequiredAddress E (ec_VaultAddress e) then
        Err (Errorf ''evms[%d] (chain %d): invalid vaultAddress %q''
          [FInt (int i), FInt (uint (ec_ChainSelector e)), FStr (ec_VaultAddress e)])
      else if \<not> isRequiredAddress E (ec_WorkflowRouterAddress e) then
        Err (Errorf ''evms[%d] (chain %d): invalid workflowRouterAddress %q''
          [FInt (int i), FInt (uint (ec_ChainSelector e)), FStr (ec_WorkflowRouterAddress e)])
      else if ec_GasLimit e = 0 then
        Err (Errorf ''evms[%d] (chain %d): gasLimit must be non-zero'' [FInt (int i), FInt (uint (ec_ChainSelector e))])
      else if 5000000 < ec_GasLimit e then
        Err (Errorf ''evms[%d]: gasLimit exceeds CRE's 5,000,000 quota'' [FInt (int i)])
      else if ec_DefiLlamaChainName e \<noteq> [] \<and> canonicalDefiLlamaValue (ec_DefiLlamaChainName e) \<in> set names then
        Err (Errorf ''evms[%d] (chain %d): duplicate defiLlamaChainName %q''
          [FInt (int i), FInt (uint (ec_ChainSelector e)), FStr (ec_DefiLlamaChainName e)])
      else validate_evms E (Suc i) (ec_ChainSelector e # sels)
             (if ec_DefiLlamaChainName e \<noteq> [] then canonicalDefiLlamaValue (ec_DefiLlamaChainName e) # names else names)
             (if ec_IsParent e then parents + 1 else parents) es)"

definition ValidateConfig :: "env \<Rightarrow> Config option \<Rightarrow> unit outcome" where
  "ValidateConfig E c =
     (case c of
        None \<Rightarrow> Err (Errorf ''no EVM configs provided'' [])
      | Some cfg \<Rightarrow>
          if cf_Evms cfg = [] then Err (Errorf ''no EVM configs provided'' [])
          else
            bindO (validateDefiLlamaConfig (cf_DefiLlama cfg)) (\<lambda>_.
            bindO (validate_evms E 0 [] [] 0 (cf_Evms cfg)) (\<lambda>parentCount.
              if parentCount \<noteq> 1 then
                Err (Errorf ''expected exactly one parent chain (IsParent=true), got %d'' [FInt parentCount])
              else if 10 < TriggerCount (int (length (cf_Evms cfg))) then
                Err (Errorf ''%d chains require %d triggers; CRE permits 10''
                  [FInt (int (length (cf_Evms cfg))), FInt (TriggerCount (int (length (cf_Evms cfg))))])
              else if (case cf_AssetDecimals cfg of None \<Rightarrow> True | Some d \<Rightarrow> 77 < d) then
                Err (Errorf ''assetDecimals must be specified and between 0 and 77'' [])
              else if cf_BlockNumber cfg = None then Err (Errorf ''blockNumber must be specified'' [])
              else if TrimSpace (cf_EpochSchedule cfg) = [] \<or> TrimSpace (cf_RebalanceSchedule cfg) = [] then
                Err (Errorf ''epochSchedule and rebalanceSchedule must be specified'' [])
              else Ok ())))"

section \<open>What a valid configuration is\<close>

definition unique_nonempty :: "string list \<Rightarrow> bool" where
  "unique_nonempty vs \<longleftrightarrow> vs \<noteq> [] \<and> distinct (map canonicalDefiLlamaValue vs) \<and>
     (\<forall>v\<in>set vs. canonicalDefiLlamaValue v \<noteq> [])"

definition valid_chain :: "env \<Rightarrow> EvmConfig \<Rightarrow> bool" where
  "valid_chain E e \<longleftrightarrow> ec_ChainSelector e \<noteq> 0 \<and> isRequiredAddress E (ec_VaultAddress e) \<and>
     isRequiredAddress E (ec_WorkflowRouterAddress e) \<and> 0 < ec_GasLimit e \<and> ec_GasLimit e \<le> 5000000"

definition named_chains :: "EvmConfig list \<Rightarrow> string list" where
  "named_chains es =
     map (\<lambda>e. canonicalDefiLlamaValue (ec_DefiLlamaChainName e)) (filter (\<lambda>e. ec_DefiLlamaChainName e \<noteq> []) es)"

definition valid_chains :: "env \<Rightarrow> EvmConfig list \<Rightarrow> bool" where
  "valid_chains E es \<longleftrightarrow> (\<forall>e\<in>set es. valid_chain E e) \<and> distinct (map ec_ChainSelector es) \<and>
     distinct (named_chains es)"

definition valid_config :: "env \<Rightarrow> Config \<Rightarrow> bool" where
  "valid_config E cfg \<longleftrightarrow>
     valid_chains E (cf_Evms cfg) \<and> length (filter ec_IsParent (cf_Evms cfg)) = 1 \<and>
     length (cf_Evms cfg) \<le> 8 \<and>
     unique_nonempty (dl_PoolIDs (cf_DefiLlama cfg)) \<and> unique_nonempty (dl_Projects (cf_DefiLlama cfg)) \<and>
     unique_nonempty (dl_Symbols (cf_DefiLlama cfg)) \<and>
     set (dl_Projects (cf_DefiLlama cfg)) \<subseteq> set supported_projects \<and>
     (\<exists>d. cf_AssetDecimals cfg = Some d \<and> d \<le> 77) \<and> cf_BlockNumber cfg \<noteq> None \<and>
     TrimSpace (cf_EpochSchedule cfg) \<noteq> [] \<and> TrimSpace (cf_RebalanceSchedule cfg) \<noteq> []"

lemma unique_loop_Ok:
  "unique_loop field i seen vs = Ok () \<longleftrightarrow>
     distinct (map canonicalDefiLlamaValue vs) \<and> (\<forall>v\<in>set vs. canonicalDefiLlamaValue v \<noteq> []) \<and>
     canonicalDefiLlamaValue ` set vs \<inter> set seen = {}"
  by (induction field i seen vs rule: unique_loop.induct) (auto simp: Let_def)

lemma validateUniqueNonEmptyStrings_Ok:
  "validateUniqueNonEmptyStrings field vs = Ok () \<longleftrightarrow> unique_nonempty vs"
  by (auto simp: validateUniqueNonEmptyStrings_def unique_nonempty_def unique_loop_Ok)

lemma validate_projects_Ok: "validate_projects ps = Ok () \<longleftrightarrow> set ps \<subseteq> set supported_projects"
  by (induction ps) auto

lemma validateDefiLlamaConfig_Ok:
  "validateDefiLlamaConfig cfg = Ok () \<longleftrightarrow>
     unique_nonempty (dl_PoolIDs cfg) \<and> unique_nonempty (dl_Projects cfg) \<and>
     set (dl_Projects cfg) \<subseteq> set supported_projects \<and> unique_nonempty (dl_Symbols cfg)"
  by (simp add: validateDefiLlamaConfig_def bindO_Ok_iff validateUniqueNonEmptyStrings_Ok validate_projects_Ok)

lemma nonzero_word_gt_0: "(x :: 'a::len word) \<noteq> 0 \<longleftrightarrow> 0 < x"
  by (simp add: word_gt_0)

lemma named_chains_Cons:
  "named_chains (e # es) =
     (if ec_DefiLlamaChainName e \<noteq> [] then canonicalDefiLlamaValue (ec_DefiLlamaChainName e) # named_chains es
      else named_chains es)"
  by (simp add: named_chains_def)

lemma validate_evms_Ok:
  "validate_evms E i sels names p es = Ok n \<longleftrightarrow>
     valid_chains E es \<and> ec_ChainSelector ` set es \<inter> set sels = {} \<and> set (named_chains es) \<inter> set names = {} \<and>
     n = p + int (length (filter ec_IsParent es))"
proof (induction es arbitrary: i sels names p)
  case Nil
  show ?case by (auto simp: valid_chains_def named_chains_def)
next
  case (Cons e es)
  show ?case
  proof (cases "valid_chain E e \<and> ec_ChainSelector e \<notin> set sels \<and>
      (ec_DefiLlamaChainName e \<noteq> [] \<longrightarrow> canonicalDefiLlamaValue (ec_DefiLlamaChainName e) \<notin> set names)")
    case True
    then have "validate_evms E i sels names p (e # es) =
        validate_evms E (Suc i) (ec_ChainSelector e # sels)
          (if ec_DefiLlamaChainName e \<noteq> [] then canonicalDefiLlamaValue (ec_DefiLlamaChainName e) # names else names)
          (if ec_IsParent e then p + 1 else p) es"
      by (auto simp: valid_chain_def not_less)
    then show ?thesis using True
      by (auto simp: Cons.IH valid_chains_def named_chains_Cons)
  next
    case False
    then have "validate_evms E i sels names p (e # es) \<noteq> Ok n"
      by (auto simp: valid_chain_def nonzero_word_gt_0 not_less)
    then show ?thesis using False by (auto simp: valid_chains_def named_chains_Cons)
  qed
qed

lemma validate_evms_no_panic: "\<not> is_panic (validate_evms E i sels names p es)"
  by (induction es arbitrary: i sels names p) (auto simp: Let_def)

lemma ValidateConfig_Ok: "ValidateConfig E (Some cfg) = Ok () \<longleftrightarrow> valid_config E cfg"
proof -
  have "valid_config E cfg \<Longrightarrow> cf_Evms cfg \<noteq> []" by (auto simp: valid_config_def)
  then show ?thesis
    by (auto simp: ValidateConfig_def valid_config_def bindO_Ok_iff validateDefiLlamaConfig_Ok validate_evms_Ok
        TriggerCount_def split: option.splits)
qed

section \<open>Lookups in a valid configuration\<close>

lemma FindEvmConfigByChainSelector_Ok:
  "FindEvmConfigByChainSelector es s = Ok e \<Longrightarrow> e \<in> set es \<and> ec_ChainSelector e = s"
  by (induction es) (auto split: if_splits)

lemma FindEvmConfigByChainSelector_unique:
  "distinct (map ec_ChainSelector es) \<Longrightarrow> e \<in> set es \<Longrightarrow> FindEvmConfigByChainSelector es (ec_ChainSelector e) = Ok e"
  by (induction es) auto

lemma FindEvmConfigByChainSelector_Err:
  "FindEvmConfigByChainSelector es s = Err x \<Longrightarrow> s \<notin> ec_ChainSelector ` set es"
  by (induction es) (auto split: if_splits)

lemma FindEvmConfigByChainSelector_no_panic [simp]: "\<not> is_panic (FindEvmConfigByChainSelector es s)"
  by (induction es) auto

lemma FindParent_Ok: "FindParent es = Ok e \<Longrightarrow> e \<in> set es \<and> ec_IsParent e"
  by (induction es) (auto split: if_splits)

lemma FindParent_no_panic [simp]: "\<not> is_panic (FindParent es)"
  by (induction es) auto

lemma FindParent_filter: "FindParent es = (case filter ec_IsParent es of [] \<Rightarrow> FindParent [] | e # _ \<Rightarrow> Ok e)"
  by (induction es) auto

lemma valid_config_parent:
  assumes "valid_config E cfg"
  obtains p where "FindParent (cf_Evms cfg) = Ok p" "p \<in> set (cf_Evms cfg)" "ec_IsParent p"
    and "\<And>e. e \<in> set (cf_Evms cfg) \<Longrightarrow> ec_IsParent e \<Longrightarrow> e = p"
proof -
  from assms have one: "length (filter ec_IsParent (cf_Evms cfg)) = 1" by (simp add: valid_config_def)
  then obtain p where p: "FindParent (cf_Evms cfg) = Ok p"
    by (auto simp: FindParent_filter [of "cf_Evms cfg"] length_Suc_conv)
  moreover have "p \<in> set (cf_Evms cfg)" "ec_IsParent p" using FindParent_Ok [OF p] by auto
  ultimately show ?thesis using filter_singleton_unique [OF one] that by blast
qed

end
