(* ===== verification/Onchain_State.thy ===== *)
theory Onchain_State
  imports Config_Model
begin

text \<open>
  \<open>cre/workflow/internal/onchain/state.go\<close>, \<open>bindings.go\<close>, \<open>interfaces.go\<close> and
  \<open>workflowtypes/result.go\<close>: the operational snapshot that every execution reads once from every
  configured chain, its validation, and the questions the handlers ask of it.
\<close>

section \<open>Execution results\<close>

record ExecutionResult =
  xr_Result :: string

definition Noop :: "string \<Rightarrow> ExecutionResult prog" where
  "Noop reason = bindI (log_Info ''Workflow skipped'') (\<lambda>_. retI \<lparr>xr_Result = ''no-op: '' @ reason\<rparr>)"

section \<open>The snapshot\<close>

definition RebalanceNone :: uint8 where "RebalanceNone = 0"
definition Rebalancing :: uint8 where "Rebalancing = 1"
definition EpochOpen :: uint8 where "EpochOpen = 1"
definition EpochExecuting :: uint8 where "EpochExecuting = 2"
definition EpochClaimable :: uint8 where "EpochClaimable = 3"

lemmas status_defs = RebalanceNone_def Rebalancing_def EpochOpen_def EpochExecuting_def EpochClaimable_def

record Snapshot =
  sn_ObservedAt :: int
  sn_Parent :: TypesParentOperationalState
  sn_Children :: "uint64 \<rightharpoonup> TypesChildOperationalState"

text \<open>The zero value of the parent struct and of a child struct (a missing map entry).\<close>

definition zero_parent_state :: TypesParentOperationalState where
  "zero_parent_state = parent_state_of []"

definition zero_child_state :: TypesChildOperationalState where
  "zero_child_state = child_state_of []"

definition child_of :: "Snapshot \<Rightarrow> uint64 \<Rightarrow> TypesChildOperationalState" where
  "child_of s chain = (case sn_Children s chain of None \<Rightarrow> zero_child_state | Some c \<Rightarrow> c)"

definition Uint256 :: "bigptr \<Rightarrow> bool" where
  "Uint256 v = (case v of None \<Rightarrow> False | Some x \<Rightarrow> 0 \<le> sgn x \<and> fits_bits 256 x)"

definition PeriodElapsed :: "bigptr \<Rightarrow> int \<Rightarrow> int \<Rightarrow> bool" where
  "PeriodElapsed openedAt now period =
     (Uint256 openedAt \<and> 0 \<le> now \<and> (case openedAt of None \<Rightarrow> False | Some o' \<Rightarrow> o' + period \<le> now))"

definition epoch_integers :: "TypesEpoch \<Rightarrow> bigptr list" where
  "epoch_integers e = [ep_TotalDepositAmount e, ep_TotalShareBurnAmount e, ep_TotalWithdrawClaimAmount e,
     ep_RemainingDepositClaimAmount e, ep_RemainingShareMintAmount e, ep_RemainingShareBurnAmount e,
     ep_RemainingWithdrawClaimAmount e, ep_OpenedAtTimestamp e]"

fun validate_epochs :: "TypesEpoch list \<Rightarrow> unit outcome" where
  "validate_epochs [] = Ok ()"
| "validate_epochs (e # es) =
     (if \<not> list_all Uint256 (epoch_integers e) then Err (Errorf ''invalid epoch integer'' [])
      else if EpochClaimable < ep_Status e then Err (Errorf ''invalid epoch status'' [])
      else validate_epochs es)"

fun validate_children :: "Snapshot \<Rightarrow> EvmConfig list \<Rightarrow> unit outcome" where
  "validate_children s [] = Ok ()"
| "validate_children s (cfg # es) =
     (if ec_IsParent cfg then validate_children s es
      else (case sn_Children s (ec_ChainSelector cfg) of
              None \<Rightarrow> Err (Errorf ''invalid child operational state on %s'' [FStr (ec_ChainName cfg)])
            | Some c \<Rightarrow>
                if \<not> Uint256 (cs_LastHandledEpochNonce c) \<or> \<not> Uint256 (cs_LastHandledRebalanceNonce c) \<or>
                   \<not> Uint256 (cs_Tvl c) \<or> 5 < cs_RecoveryMode c
                then Err (Errorf ''invalid child operational state on %s'' [FStr (ec_ChainName cfg)])
                else validate_children s es))"

definition is_zero :: "bigptr \<Rightarrow> bool" where
  "is_zero v \<longleftrightarrow> v = Some 0"

definition Validate :: "Snapshot option \<Rightarrow> Config \<Rightarrow> unit outcome" where
  "Validate sp config =
     (case sp of
        None \<Rightarrow> Err (Errorf ''invalid operational snapshot'' [])
      | Some s \<Rightarrow>
          let p = sn_Parent s; rb = ps_Rebalance p
          in if sn_ObservedAt s < 0 then Err (Errorf ''invalid operational snapshot'' [])
             else if \<not> Uint256 (ps_CurrentEpochNonce p) \<or> is_zero (ps_CurrentEpochNonce p)
             then Err (Errorf ''invalid parent epoch nonce'' [])
             else if \<not> Uint256 (rb_Nonce rb) \<or> is_zero (rb_Nonce rb) \<or>
                \<not> Uint256 (rb_LastRebalanceCompletedTimestamp rb) \<or> Rebalancing < rb_State rb \<or> 5 < ps_RecoveryMode p
             then Err (Errorf ''invalid parent rebalance or recovery state'' [])
             else if \<not> Uint256 (ps_TotalShares p) \<or> \<not> Uint256 (ps_Tvl p)
             then Err (Errorf ''invalid parent total shares or TVL'' [])
             else bindO (validate_epochs [ps_CurrentEpoch p, ps_PreviousEpoch p]) (\<lambda>_.
                    validate_children s (cf_Evms config)))"

fun blocked_loop :: "Snapshot \<Rightarrow> EvmConfig list \<Rightarrow> string" where
  "blocked_loop s [] = []"
| "blocked_loop s (cfg # es) =
     (let paused = (if ec_IsParent cfg then ps_Paused (sn_Parent s) else cs_Paused (child_of s (ec_ChainSelector cfg)));
          recovery = (if ec_IsParent cfg then ps_RecoveryMode (sn_Parent s)
                      else cs_RecoveryMode (child_of s (ec_ChainSelector cfg)))
      in if paused then sprintf ''vault paused on %s'' [FStr (ec_ChainName cfg)]
         else if recovery \<noteq> 0
         then sprintf ''recovery active on %s (mode %d)'' [FStr (ec_ChainName cfg), FInt (uint recovery)]
         else blocked_loop s es)"

definition BlockedReason :: "Snapshot \<Rightarrow> Config \<Rightarrow> string" where
  "BlockedReason s config = blocked_loop s (cf_Evms config)"

definition ActiveTVL :: "Snapshot \<Rightarrow> uint64 \<Rightarrow> bigptr outcome" where
  "ActiveTVL s parentChain =
     (let chain = st_ChainSelector (rb_ActiveStrategy (ps_Rebalance (sn_Parent s)))
      in if chain = parentChain then Ok (ps_Tvl (sn_Parent s))
         else (case sn_Children s chain of
                 None \<Rightarrow> Err (Errorf ''active strategy chain %d is not configured'' [FInt (uint chain)])
               | Some c \<Rightarrow> Ok (cs_Tvl c)))"

definition MatchSource :: "env \<Rightarrow> Config \<Rightarrow> evm_log option \<Rightarrow> uint64 \<Rightarrow> uint64 \<Rightarrow> bool" where
  "MatchSource E config lg source expected =
     (case FindEvmConfigByChainSelector (cf_Evms config) source of
        Ok cfg \<Rightarrow> source = expected \<and>
          (case lg of
             None \<Rightarrow> False
           | Some l \<Rightarrow> length (lg_Address l) = 20 \<and> BytesToAddress E (lg_Address l) = HexToAddress E (ec_VaultAddress cfg))
      | _ \<Rightarrow> False)"

section \<open>Reading the chains\<close>

text \<open>An interface value with one method is that method.\<close>

type_synonym parent_vault_if = "bigptr \<Rightarrow> TypesParentOperationalState prog"
type_synonym child_vault_if = "bigptr \<Rightarrow> TypesChildOperationalState prog"
type_synonym parent_factory = "uint64 \<Rightarrow> string \<Rightarrow> parent_vault_if outcome"
type_synonym child_factory = "uint64 \<Rightarrow> string \<Rightarrow> child_vault_if outcome"

definition NewParentVaultBinding :: "env \<Rightarrow> parent_factory" where
  "NewParentVaultBinding E client addr =
     (if \<not> IsHexAddress E addr then Err (Errorf ''invalid ParentVault address: %s'' [FStr addr])
      else bindO (NewParentVault E client (HexToAddress E addr)) (\<lambda>v. Ok (GetParentOperationalState E v)))"

definition NewChildVaultBinding :: "env \<Rightarrow> child_factory" where
  "NewChildVaultBinding E client addr =
     (if \<not> IsHexAddress E addr then Err (Errorf ''invalid ChildVault address: %s'' [FStr addr])
      else bindO (NewChildVault E client (HexToAddress E addr)) (\<lambda>v. Ok (GetChildOperationalState E v)))"

definition read_chain :: "bigptr \<Rightarrow> parent_factory \<Rightarrow> child_factory \<Rightarrow> EvmConfig \<Rightarrow> Snapshot \<Rightarrow> Snapshot prog" where
  "read_chain block newParent newChild cfg s =
     (if ec_IsParent cfg then
        bindI (wrapI ''bind parent on %s: %w'' [FStr (ec_ChainName cfg)]
                 (liftO (newParent (ec_ChainSelector cfg) (ec_VaultAddress cfg)))) (\<lambda>vault.
        bindI (wrapI ''read parent on %s: %w'' [FStr (ec_ChainName cfg)] (vault block)) (\<lambda>state.
          retI (s\<lparr>sn_Parent := state\<rparr>)))
      else
        bindI (wrapI ''bind child on %s: %w'' [FStr (ec_ChainName cfg)]
                 (liftO (newChild (ec_ChainSelector cfg) (ec_VaultAddress cfg)))) (\<lambda>vault.
        bindI (wrapI ''read child on %s: %w'' [FStr (ec_ChainName cfg)] (vault block)) (\<lambda>state.
          retI (s\<lparr>sn_Children := (sn_Children s)(ec_ChainSelector cfg \<mapsto> state)\<rparr>))))"

text \<open>The block number is read inside the loop, so a nil one panics at the first chain.\<close>

fun read_chains ::
    "int option \<Rightarrow> parent_factory \<Rightarrow> child_factory \<Rightarrow> EvmConfig list \<Rightarrow> Snapshot \<Rightarrow> Snapshot prog" where
  "read_chains block newParent newChild [] s = retI s"
| "read_chains block newParent newChild (cfg # es) s =
     bindI (liftO (deref block)) (\<lambda>b.
     bindI (read_chain (Some b) newParent newChild cfg s) (\<lambda>s'. read_chains block newParent newChild es s'))"

definition readSnapshot :: "env \<Rightarrow> Config \<Rightarrow> parent_factory \<Rightarrow> child_factory \<Rightarrow> Snapshot prog" where
  "readSnapshot E config newParent newChild =
     bindI (Now E) (\<lambda>now.
       if now < 0 then liftO (Err (Errorf ''negative observation timestamp'' []))
       else bindI (read_chains (cf_BlockNumber config) newParent newChild (cf_Evms config)
                    \<lparr>sn_ObservedAt = now, sn_Parent = zero_parent_state, sn_Children = Map.empty\<rparr>) (\<lambda>s.
              bindI (liftO (Validate (Some s) config)) (\<lambda>_. retI s)))"

definition ReadSnapshot :: "env \<Rightarrow> Config \<Rightarrow> Snapshot prog" where
  "ReadSnapshot E config = readSnapshot E config (NewParentVaultBinding E) (NewChildVaultBinding E)"

section \<open>Specification of the pure questions\<close>

lemma Uint256_iff: "Uint256 v \<longleftrightarrow> (\<exists>x. v = Some x \<and> 0 \<le> x \<and> x < 2 ^ 256)"
  by (auto simp: Uint256_def fits_bits_def split: option.splits)

lemma Uint256_Some [simp]: "Uint256 (Some x) \<longleftrightarrow> 0 \<le> x \<and> x < 2 ^ 256"
  by (simp add: Uint256_iff)

lemma Uint256_None [simp]: "\<not> Uint256 None"
  by (simp add: Uint256_iff)

lemma Uint256E:
  assumes "Uint256 v"
  obtains x where "v = Some x" "0 \<le> x" "x < 2 ^ 256"
  using assms by (auto simp: Uint256_iff)

definition valid_epoch :: "TypesEpoch \<Rightarrow> bool" where
  "valid_epoch e \<longleftrightarrow> list_all Uint256 (epoch_integers e) \<and> ep_Status e \<le> EpochClaimable"

definition valid_child :: "TypesChildOperationalState \<Rightarrow> bool" where
  "valid_child c \<longleftrightarrow> Uint256 (cs_LastHandledEpochNonce c) \<and> Uint256 (cs_LastHandledRebalanceNonce c) \<and>
     Uint256 (cs_Tvl c) \<and> cs_RecoveryMode c \<le> 5"

definition positive256 :: "bigptr \<Rightarrow> bool" where
  "positive256 v \<longleftrightarrow> (\<exists>x. v = Some x \<and> 0 < x \<and> x < 2 ^ 256)"

definition valid_snapshot :: "Config \<Rightarrow> Snapshot \<Rightarrow> bool" where
  "valid_snapshot config s \<longleftrightarrow>
     0 \<le> sn_ObservedAt s \<and> positive256 (ps_CurrentEpochNonce (sn_Parent s)) \<and>
     positive256 (rb_Nonce (ps_Rebalance (sn_Parent s))) \<and>
     Uint256 (rb_LastRebalanceCompletedTimestamp (ps_Rebalance (sn_Parent s))) \<and>
     rb_State (ps_Rebalance (sn_Parent s)) \<le> Rebalancing \<and> ps_RecoveryMode (sn_Parent s) \<le> 5 \<and>
     Uint256 (ps_TotalShares (sn_Parent s)) \<and> Uint256 (ps_Tvl (sn_Parent s)) \<and>
     valid_epoch (ps_CurrentEpoch (sn_Parent s)) \<and> valid_epoch (ps_PreviousEpoch (sn_Parent s)) \<and>
     (\<forall>e\<in>set (cf_Evms config). \<not> ec_IsParent e \<longrightarrow>
        (\<exists>c. sn_Children s (ec_ChainSelector e) = Some c \<and> valid_child c))"

lemma validate_epochs_Ok: "validate_epochs es = Ok () \<longleftrightarrow> (\<forall>e\<in>set es. valid_epoch e)"
  by (induction es) (auto simp: valid_epoch_def not_less)

lemma validate_children_Ok:
  "validate_children s es = Ok () \<longleftrightarrow>
     (\<forall>e\<in>set es. \<not> ec_IsParent e \<longrightarrow> (\<exists>c. sn_Children s (ec_ChainSelector e) = Some c \<and> valid_child c))"
  by (induction es) (auto simp: valid_child_def not_less split: option.splits)

lemma positive256_iff: "positive256 v \<longleftrightarrow> Uint256 v \<and> \<not> is_zero v"
  by (auto simp: positive256_def Uint256_iff is_zero_def)

lemma Validate_Ok: "Validate (Some s) config = Ok () \<longleftrightarrow> valid_snapshot config s"
  by (auto simp: Validate_def valid_snapshot_def positive256_iff bindO_Ok_iff validate_epochs_Ok validate_children_Ok
      Let_def not_less simp del: validate_epochs.simps)

lemma sprintf_nonempty: "c \<noteq> CHR ''%'' \<Longrightarrow> sprintf (c # cs) args \<noteq> []"
  by simp

definition vault_blocked :: "Snapshot \<Rightarrow> EvmConfig \<Rightarrow> bool" where
  "vault_blocked s e \<longleftrightarrow>
     (if ec_IsParent e then ps_Paused (sn_Parent s) \<or> ps_RecoveryMode (sn_Parent s) \<noteq> 0
      else cs_Paused (child_of s (ec_ChainSelector e)) \<or> cs_RecoveryMode (child_of s (ec_ChainSelector e)) \<noteq> 0)"

lemma blocked_loop_empty: "blocked_loop s es = [] \<longleftrightarrow> (\<forall>e\<in>set es. \<not> vault_blocked s e)"
  by (induction es) (auto simp: Let_def vault_blocked_def)

lemma BlockedReason_empty: "BlockedReason s config = [] \<longleftrightarrow> (\<forall>e\<in>set (cf_Evms config). \<not> vault_blocked s e)"
  by (simp add: BlockedReason_def blocked_loop_empty)

lemma PeriodElapsed_iff:
  "PeriodElapsed v now period \<longleftrightarrow> (\<exists>x. v = Some x \<and> 0 \<le> x \<and> x < 2 ^ 256 \<and> 0 \<le> now \<and> x + period \<le> now)"
  by (auto simp: PeriodElapsed_def Uint256_iff split: option.splits)

lemma MatchSource_iff:
  assumes "valid_chains E (cf_Evms config)"
  shows "MatchSource E config lg source expected \<longleftrightarrow>
     source = expected \<and> (\<exists>e l. e \<in> set (cf_Evms config) \<and> ec_ChainSelector e = source \<and> lg = Some l \<and>
        length (lg_Address l) = 20 \<and> BytesToAddress E (lg_Address l) = HexToAddress E (ec_VaultAddress e))"
proof -
  from assms have d: "distinct (map ec_ChainSelector (cf_Evms config))" by (simp add: valid_chains_def)
  show ?thesis
  proof (cases "FindEvmConfigByChainSelector (cf_Evms config) source")
    case (Ok e)
    then have e: "e \<in> set (cf_Evms config)" "ec_ChainSelector e = source"
      using FindEvmConfigByChainSelector_Ok by blast+
    have uniq: "e' \<in> set (cf_Evms config) \<and> ec_ChainSelector e' = source \<longleftrightarrow> e' = e" for e'
      by (metis FindEvmConfigByChainSelector_unique [OF d] Ok e outcome.inject(1))
    have "MatchSource E config lg source expected \<longleftrightarrow>
        source = expected \<and> (\<exists>e' l. (e' \<in> set (cf_Evms config) \<and> ec_ChainSelector e' = source) \<and> lg = Some l \<and>
        length (lg_Address l) = 20 \<and> BytesToAddress E (lg_Address l) = HexToAddress E (ec_VaultAddress e'))"
      unfolding uniq using Ok by (cases lg) (simp_all add: MatchSource_def)
    then show ?thesis by (simp only: conj_assoc)
  next
    case (Err x)
    then show ?thesis using FindEvmConfigByChainSelector_Err [OF Err] by (auto simp: MatchSource_def)
  next
    case (Panic x)
    then show ?thesis using FindEvmConfigByChainSelector_no_panic [of "cf_Evms config" source] by simp
  qed
qed

section \<open>What reading a snapshot does\<close>

text \<open>
  A vault reader makes one contract call per read, on the chain and to the vault it was bound to.
\<close>

definition reads_vault :: "env \<Rightarrow> uint64 \<Rightarrow> string \<Rightarrow> 'a outcome \<Rightarrow> trace \<Rightarrow> bool" where
  "reads_vault E chain addr r cs \<longleftrightarrow>
     (\<exists>cq. cs = [HCallContract chain cq] \<and> cq_To cq = address_Bytes (HexToAddress E addr)) \<or>
     cs = [] \<and> (\<forall>a. r \<noteq> Ok a)"

definition vault_call :: "env \<Rightarrow> EvmConfig \<Rightarrow> host_call \<Rightarrow> bool" where
  "vault_call E cfg c \<longleftrightarrow> (\<exists>cq. c = HCallContract (ec_ChainSelector cfg) cq \<and>
     cq_To cq = address_Bytes (HexToAddress E (ec_VaultAddress cfg)))"

definition child_selectors :: "EvmConfig list \<Rightarrow> uint64 set" where
  "child_selectors es = ec_ChainSelector ` {e \<in> set es. \<not> ec_IsParent e}"

lemma child_selectors_simps [simp]:
  "child_selectors [] = {}"
  "child_selectors (e # es) = (if ec_IsParent e then child_selectors es
     else insert (ec_ChainSelector e) (child_selectors es))"
  by (auto simp: child_selectors_def)

locale vault_reader =
  fixes E :: env
    and newParent :: parent_factory
    and newChild :: child_factory
  assumes parent_reads: "newParent chain addr = Ok v \<Longrightarrow> spec_io (v block) (reads_vault E chain addr)"
    and child_reads: "newChild chain addr = Ok w \<Longrightarrow> spec_io (w block) (reads_vault E chain addr)"
begin

lemma read_chain_spec:
  "spec_io (read_chain block newParent newChild cfg s) (\<lambda>r cs.
     (case r of
        Ok s' \<Rightarrow> (\<exists>c. cs = [c] \<and> vault_call E cfg c) \<and> sn_ObservedAt s' = sn_ObservedAt s \<and>
          dom (sn_Children s') = dom (sn_Children s) \<union> (if ec_IsParent cfg then {} else {ec_ChainSelector cfg})
      | _ \<Rightarrow> cs = [] \<or> (\<exists>c. cs = [c] \<and> vault_call E cfg c)))"
proof (cases "ec_IsParent cfg")
  case True
  show ?thesis
  proof (cases "newParent (ec_ChainSelector cfg) (ec_VaultAddress cfg)")
    case (Ok v)
    then show ?thesis using True
      by (auto simp: read_chain_def reads_vault_def vault_call_def
          intro!: spec_io_wrap_ret [OF parent_reads [OF Ok]])
  qed (use True in \<open>auto simp: read_chain_def intro!: spec_io_liftO\<close>)
next
  case False
  show ?thesis
  proof (cases "newChild (ec_ChainSelector cfg) (ec_VaultAddress cfg)")
    case (Ok v)
    then show ?thesis using False
      by (auto simp: read_chain_def reads_vault_def vault_call_def
          intro!: spec_io_wrap_ret [OF child_reads [OF Ok]])
  qed (use False in \<open>auto simp: read_chain_def intro!: spec_io_liftO\<close>)
qed

text \<open>Reading chains calls each configured vault once, in order; a failure stops early.\<close>

lemma read_chains_spec:
  "spec_io (read_chains (Some b) newParent newChild es s) (\<lambda>r cs.
     (case r of
        Ok s' \<Rightarrow> list_all2 (vault_call E) es cs \<and> sn_ObservedAt s' = sn_ObservedAt s \<and>
          dom (sn_Children s') = dom (sn_Children s) \<union> child_selectors es
      | _ \<Rightarrow> \<exists>n. n \<le> length es \<and> list_all2 (vault_call E) (take n es) cs))"
proof (induction es arbitrary: s)
  case Nil
  show ?case by (auto intro!: spec_io_retI)
next
  case (Cons cfg es)
  show ?case
    unfolding read_chains.simps deref.simps bindI_liftO_Ok
  proof (rule spec_io_bindI [OF read_chain_spec], goal_cases)
    case (1 s' cs)
    then obtain c where c: "cs = [c]" "vault_call E cfg c" "sn_ObservedAt s' = sn_ObservedAt s"
      and d: "dom (sn_Children s') = dom (sn_Children s) \<union> (if ec_IsParent cfg then {} else {ec_ChainSelector cfg})"
      by auto
    show ?case
      by (rule spec_io_mono [OF Cons.IH]) (use c d in \<open>auto split: outcome.splits intro: exI [of _ "Suc _"]\<close>)
  next
    case (2 e cs)
    then show ?case by (auto intro: exI [of _ 0] exI [of _ 1])
  next
    case (3 p cs)
    then show ?case by (auto intro: exI [of _ 0] exI [of _ 1])
  qed
qed

lemma readSnapshot_spec:
  assumes "cf_BlockNumber config = Some b"
  shows "spec_io (readSnapshot E config newParent newChild) (\<lambda>r cs.
     (case r of
        Ok s \<Rightarrow> list_all2 (vault_call E) (cf_Evms config) cs \<and> valid_snapshot config s \<and>
          dom (sn_Children s) = child_selectors (cf_Evms config)
      | _ \<Rightarrow> \<exists>n. n \<le> length (cf_Evms config) \<and> list_all2 (vault_call E) (take n (cf_Evms config)) cs))"
  unfolding readSnapshot_def assms
proof (rule spec_io_bind_Now, goal_cases)
  case (1 tr)
  show ?case
  proof (cases "host_Now E tr < 0")
    case True
    then show ?thesis by (auto intro!: spec_io_liftO exI [of _ 0])
  next
    case False
    have *: "spec_io (bindI (liftO (Validate (Some s) config)) (\<lambda>_. retI s)) (\<lambda>r cs'.
        (case r of Ok s' \<Rightarrow> s' = s \<and> valid_snapshot config s | _ \<Rightarrow> True) \<and> cs' = [])" for s
      by (cases "Validate (Some s) config") (auto intro!: spec_io_liftO spec_io_retI simp: Validate_Ok [symmetric])
    show ?thesis using False
      by (auto intro!: spec_io_bindI [OF read_chains_spec] spec_io_mono [OF *] split: outcome.splits
          intro: exI [of _ "length (cf_Evms config)"] del: equalityI)
  qed
qed

end

lemma read_contract_spec:
  "spec_io (read_contract E v encoded block decode) (\<lambda>r cs.
     (\<exists>cq. cs = [HCallContract (vb_ChainSelector v) cq] \<and> cq_To cq = address_Bytes (vb_Address v)) \<or>
     cs = [] \<and> (\<forall>a. r \<noteq> Ok a))"
  by (cases encoded)
    (auto simp: read_contract_def client_CallContract_def io_defs spec_io_def split: outcome.splits option.splits)

interpretation vaults: vault_reader E "NewParentVaultBinding E" "NewChildVaultBinding E" for E
proof unfold_locales
  fix chain addr v block
  assume "NewParentVaultBinding E chain addr = Ok v"
  then obtain parsed where "v = GetParentOperationalState E
      \<lparr>vb_Address = HexToAddress E addr, vb_ABI = parsed, vb_ChainSelector = chain, vb_Codec = \<lparr>codec_abi = parsed\<rparr>\<rparr>"
    by (auto simp: NewParentVaultBinding_def NewParentVault_def parent_NewCodec_def bindO_Ok_iff split: if_splits)
  then show "spec_io (v block) (reads_vault E chain addr)"
    using read_contract_spec [of E "\<lparr>vb_Address = HexToAddress E addr, vb_ABI = parsed, vb_ChainSelector = chain, vb_Codec = \<lparr>codec_abi = parsed\<rparr>\<rparr>"]
    by (simp add: GetParentOperationalState_def reads_vault_def [abs_def])
next
  fix chain addr v block
  assume "NewChildVaultBinding E chain addr = Ok v"
  then obtain parsed where "v = GetChildOperationalState E
      \<lparr>vb_Address = HexToAddress E addr, vb_ABI = parsed, vb_ChainSelector = chain, vb_Codec = \<lparr>codec_abi = parsed\<rparr>\<rparr>"
    by (auto simp: NewChildVaultBinding_def NewChildVault_def child_NewCodec_def bindO_Ok_iff split: if_splits)
  then show "spec_io (v block) (reads_vault E chain addr)"
    using read_contract_spec [of E "\<lparr>vb_Address = HexToAddress E addr, vb_ABI = parsed, vb_ChainSelector = chain, vb_Codec = \<lparr>codec_abi = parsed\<rparr>\<rparr>"]
    by (simp add: GetChildOperationalState_def reads_vault_def [abs_def])
qed

end
