(* ===== verification/Epoch_Accounting.thy ===== *)
theory Epoch_Accounting
  imports Onchain_State
begin

text \<open>
  \<open>cre/workflow/internal/epoch/accounting.go\<close>: the preflight of the epoch close and of the deposit
  reconciliation, and the Solidity they mirror
  (\<open>evm/src/libraries/vaults/ParentVaultEpochLib.sol\<close>, \<open>_closeEpoch\<close> and \<open>_completeEpochDeposit\<close>).
  The Go side works on unbounded integers and tests for 256 bits; the Solidity side has checked
  256-bit arithmetic whose overflow reverts. The theorems show that the two agree on every input.
\<close>

section \<open>The Go preflight\<close>

definition sharePrecision :: int where
  "sharePrecision = 10 ^ 18"

definition asset_precision :: "uint8 \<Rightarrow> int" where
  "asset_precision d = 10 ^ unat d"

record epochAccounting =
  ea_TotalWithdraw :: int
  ea_NewShares :: int
  ea_NetFlow :: int
  ea_TotalShares :: int

text \<open>\<open>(*big.Int).Quo\<close> truncates toward zero.\<close>

definition quo_trunc :: "int \<Rightarrow> int \<Rightarrow> int" where
  "quo_trunc a b = sgn a * sgn b * (\<bar>a\<bar> div \<bar>b\<bar>)"

definition mulDivDown :: "int \<Rightarrow> int \<Rightarrow> int \<Rightarrow> int outcome" where
  "mulDivDown x y denominator =
     (if denominator = 0 then Err (Errorf ''division by zero'' [])
      else let result = quo_trunc (x * y) denominator
           in if \<not> Uint256 (Some result) then Err (Errorf ''mulDiv result overflows uint256'' [])
              else Ok result)"

text \<open>Withdraw total and new shares at the given share count and TVL.\<close>

definition close_amounts :: "int \<Rightarrow> int \<Rightarrow> int \<Rightarrow> int \<Rightarrow> int \<Rightarrow> (int \<times> int) outcome" where
  "close_amounts deposit burn totalShares tvl assetPrecision =
     (if totalShares \<noteq> 0 then
        (if tvl = 0 then Err (Errorf ''zero TVL with outstanding shares'' [])
         else bindO (mulDivDown tvl sharePrecision totalShares) (\<lambda>price.
           if price = 0 then Err (Errorf ''zero price per share'' [])
           else bindO (mulDivDown burn tvl totalShares) (\<lambda>totalWithdraw.
                bindO (mulDivDown deposit totalShares tvl) (\<lambda>newShares. Ok (totalWithdraw, newShares)))))
      else if burn \<noteq> 0 then Err (Errorf ''share burn with zero total shares'' [])
      else bindO (mulDivDown deposit sharePrecision assetPrecision) (\<lambda>newShares. Ok (0, newShares)))"

text \<open>The checks after the amounts are known, in the source's order.\<close>

definition close_checks :: "int \<Rightarrow> int \<Rightarrow> int \<Rightarrow> int \<Rightarrow> bool \<Rightarrow> int \<times> int \<Rightarrow> epochAccounting outcome" where
  "close_checks deposit burn totalShares assetPrecision isLocal = (\<lambda>(totalWithdraw, newShares).
     if \<not> fits_bits 255 deposit \<or> \<not> fits_bits 255 totalWithdraw
     then Err (Errorf ''epoch net flow exceeds int256'' [])
     else let netFlow = deposit - totalWithdraw
          in if deposit \<noteq> 0 \<and> \<not> Uint256 (Some (newShares * assetPrecision))
             then Err (Errorf ''minimum deposit share calculation overflows'' [])
             else if deposit \<noteq> 0 \<and> newShares * assetPrecision < deposit
             then Err (Errorf ''deposit would mint zero shares'' [])
             else if \<not> isLocal \<and> netFlow < 0 \<and> - netFlow < assetPrecision
             then Err (Errorf ''remote withdrawal below minimum asset amount'' [])
             else if \<not> Uint256 (Some (totalShares + newShares)) then Err (Errorf ''total shares overflow'' [])
             else if totalShares + newShares - burn < 0 then Err (Errorf ''total shares underflow'' [])
             else Ok \<lparr>ea_TotalWithdraw = totalWithdraw, ea_NewShares = newShares, ea_NetFlow = netFlow,
                      ea_TotalShares = totalShares + newShares - burn\<rparr>)"

definition calculateEpochClose ::
    "TypesEpoch \<Rightarrow> bigptr \<Rightarrow> bigptr \<Rightarrow> uint8 \<Rightarrow> bool \<Rightarrow> epochAccounting outcome" where
  "calculateEpochClose epoch totalShares tvl assetDecimals isLocal =
     (if \<not> Uint256 (ep_TotalDepositAmount epoch) \<or> \<not> Uint256 (ep_TotalShareBurnAmount epoch) \<or>
         \<not> Uint256 totalShares \<or> \<not> Uint256 tvl \<or> 77 < assetDecimals
      then Err (Errorf ''invalid epoch accounting input'' [])
      else
        bindO (deref (ep_TotalDepositAmount epoch)) (\<lambda>deposit.
        bindO (deref (ep_TotalShareBurnAmount epoch)) (\<lambda>burn.
        bindO (deref totalShares) (\<lambda>shares.
        bindO (deref tvl) (\<lambda>value.
          if deposit = 0 \<and> burn = 0 then Err (Errorf ''no epoch activity'' [])
          else bindO (close_amounts deposit burn shares value (asset_precision assetDecimals))
                 (close_checks deposit burn shares (asset_precision assetDecimals) isLocal))))))"

definition reconcileEpochDeposit :: "TypesEpoch \<Rightarrow> bigptr \<Rightarrow> bigptr \<Rightarrow> int outcome" where
  "reconcileEpochDeposit epoch totalShares actualAmount =
     (if \<not> list_all Uint256 [ep_TotalDepositAmount epoch, ep_TotalWithdrawClaimAmount epoch,
            ep_RemainingShareMintAmount epoch, totalShares, actualAmount]
      then Err (Errorf ''invalid deposit reconciliation input'' [])
      else
        bindO (deref (ep_TotalDepositAmount epoch)) (\<lambda>deposit.
        bindO (deref (ep_TotalWithdrawClaimAmount epoch)) (\<lambda>withdraw.
        bindO (deref (ep_RemainingShareMintAmount epoch)) (\<lambda>mint.
        bindO (deref totalShares) (\<lambda>shares.
        bindO (deref actualAmount) (\<lambda>actual.
          let expected = deposit - withdraw
          in if expected \<le> 0 then Err (Errorf ''epoch is not a net deposit'' [])
             else if actual = 0 \<or> expected < actual then Err (Errorf ''invalid actual deposit amount'' [])
             else if actual = expected then Ok mint
             else let shortfall = expected - actual; effectiveDeposit = deposit - shortfall;
                      adjusted = quo_trunc (mint * effectiveDeposit) deposit
                  in if adjusted = 0 then Err (Errorf ''deposit would mint zero shares'' [])
                     else if shares < mint - adjusted
                     then Err (Errorf ''deposit reconciliation underflows total shares'' [])
                     else Ok adjusted))))))"

section \<open>The Solidity settlement\<close>

datatype sol_error = InvalidEpochNonce int | RebalanceInProgress | EpochNotClaimable int | EpochNotOpen int
  | EpochTooShort int | EmptyEpoch int | ZeroTvlWithOutstandingShares | ZeroPricePerShare
  | ShareBurnWithZeroTotalShares | DepositWouldMintZeroShares | RemoteWithdrawAmountTooSmall int
  | NoCompletedEpoch | EpochNotNetDeposit int | InvalidActualDepositAmount int int | EpochNotExecuting int
  | ArithmeticPanic | LibraryRevert

record sol_epoch =
  se_totalDepositAmount :: int
  se_totalShareBurnAmount :: int
  se_totalWithdrawClaimAmount :: int
  se_remainingDepositClaimAmount :: int
  se_remainingShareMintAmount :: int
  se_remainingShareBurnAmount :: int
  se_remainingWithdrawClaimAmount :: int
  se_openedAtTimestamp :: int
  se_status :: uint8

record vault_store =
  vs_epochNonce :: int
  vs_epochs :: "int \<Rightarrow> sol_epoch"
  vs_totalShares :: int
  vs_rebalanceState :: uint8

datatype external_action = NONE | DEPOSIT_TO_LOCAL_STRATEGY | SEND_DEPOSIT_TO_REMOTE_STRATEGY
  | WITHDRAW_FROM_LOCAL_STRATEGY | WAIT_FOR_REMOTE_WITHDRAW

record close_action =
  ca_epochNonce :: int
  ca_action :: external_action
  ca_amount :: int
  ca_totalDepositAmount :: int

fun bindS :: "'e + 'a \<Rightarrow> ('a \<Rightarrow> 'e + 'b) \<Rightarrow> 'e + 'b" where
  "bindS (Inl e) f = Inl e"
| "bindS (Inr a) f = f a"

lemma bindS_Inr_iff: "bindS m f = Inr b \<longleftrightarrow> (\<exists>a. m = Inr a \<and> f a = Inr b)"
  by (cases m) auto

text \<open>Checked 256-bit arithmetic, and a library call that reverts on \<open>None\<close>.\<close>

definition add256 :: "int \<Rightarrow> int \<Rightarrow> sol_error + int" where
  "add256 a b = (if 2 ^ 256 \<le> a + b then Inl ArithmeticPanic else Inr (a + b))"

definition sub256 :: "int \<Rightarrow> int \<Rightarrow> sol_error + int" where
  "sub256 a b = (if a < b then Inl ArithmeticPanic else Inr (a - b))"

definition mul256 :: "int \<Rightarrow> int \<Rightarrow> sol_error + int" where
  "mul256 a b = (if 2 ^ 256 \<le> a * b then Inl ArithmeticPanic else Inr (a * b))"

definition lib_call :: "int option \<Rightarrow> sol_error + int" where
  "lib_call r = (case r of None \<Rightarrow> Inl LibraryRevert | Some v \<Rightarrow> Inr v)"

text \<open>
  \<open>fmd\<close> is Solady's \<open>fullMulDiv\<close> and \<open>toInt\<close> its \<open>toInt256\<close>. \<open>sp\<close>, \<open>ap\<close> and \<open>minA\<close> are the share and
  asset precisions and the minimum asset amount.
\<close>

definition sol_amounts ::
    "(int \<Rightarrow> int \<Rightarrow> int \<Rightarrow> int option) \<Rightarrow> int \<Rightarrow> int \<Rightarrow> int \<Rightarrow> int \<Rightarrow> int \<Rightarrow> int \<Rightarrow> sol_error + (int \<times> int)" where
  "sol_amounts fmd sp ap deposit burn totalShares tvl =
     (if totalShares \<noteq> 0 then
        (if tvl = 0 then Inl ZeroTvlWithOutstandingShares
         else bindS (lib_call (fmd tvl sp totalShares)) (\<lambda>price.
           if price = 0 then Inl ZeroPricePerShare
           else bindS (lib_call (fmd burn tvl totalShares)) (\<lambda>totalWithdraw.
                bindS (lib_call (fmd deposit totalShares tvl)) (\<lambda>newShares. Inr (totalWithdraw, newShares)))))
      else if burn \<noteq> 0 then Inl ShareBurnWithZeroTotalShares
      else bindS (lib_call (fmd deposit sp ap)) (\<lambda>newShares. Inr (0, newShares)))"

definition sol_checks ::
    "(int \<Rightarrow> int option) \<Rightarrow> int \<Rightarrow> int \<Rightarrow> int \<Rightarrow> int \<Rightarrow> bool \<Rightarrow> int \<times> int \<Rightarrow> sol_error + (int \<times> int)" where
  "sol_checks toInt minA deposit burn totalShares isLocal = (\<lambda>(totalWithdraw, newShares).
     bindS (lib_call (toInt deposit)) (\<lambda>d. bindS (lib_call (toInt totalWithdraw)) (\<lambda>w.
       let netFlow = d - w
       in bindS (if deposit = 0 then Inr () else
                   bindS (mul256 newShares minA) (\<lambda>m. if m < deposit then Inl DepositWouldMintZeroShares else Inr ()))
            (\<lambda>_. if \<not> isLocal \<and> netFlow < 0 \<and> - netFlow < minA then Inl (RemoteWithdrawAmountTooSmall (- netFlow))
                 else bindS (add256 totalShares newShares) (\<lambda>s. bindS (sub256 s burn) (\<lambda>shares'.
                   Inr (netFlow, shares')))))))"

text \<open>The storage writes and the action of a settled epoch.\<close>

definition settle ::
    "vault_store \<Rightarrow> int \<Rightarrow> bool \<Rightarrow> int \<Rightarrow> int \<Rightarrow> int \<Rightarrow> int \<Rightarrow> vault_store \<times> close_action" where
  "settle s nonce isLocal totalWithdraw newShares netFlow shares' =
     (let e = vs_epochs s nonce;
          e1 = e\<lparr>se_remainingDepositClaimAmount := se_totalDepositAmount e,
                 se_remainingShareMintAmount := newShares,
                 se_remainingShareBurnAmount := se_totalShareBurnAmount e\<rparr>;
          e2 = (if isLocal \<and> netFlow < 0 then e1
                else e1\<lparr>se_totalWithdrawClaimAmount := totalWithdraw, se_remainingWithdrawClaimAmount := totalWithdraw\<rparr>);
          e3 = (if 0 \<le> netFlow then
                  e2\<lparr>se_status := (if netFlow = 0 \<or> isLocal then EpochClaimable else EpochExecuting)\<rparr>
                else if isLocal then e2 else e2\<lparr>se_status := EpochExecuting\<rparr>);
          act = (if netFlow = 0 then NONE
                 else if 0 < netFlow then (if isLocal then DEPOSIT_TO_LOCAL_STRATEGY else SEND_DEPOSIT_TO_REMOTE_STRATEGY)
                 else if isLocal then WITHDRAW_FROM_LOCAL_STRATEGY else WAIT_FOR_REMOTE_WITHDRAW)
      in (s\<lparr>vs_totalShares := shares', vs_epochs := (vs_epochs s)(nonce := e3)\<rparr>,
          \<lparr>ca_epochNonce = nonce, ca_action = act, ca_amount = \<bar>netFlow\<bar>,
           ca_totalDepositAmount = se_totalDepositAmount e\<rparr>))"

definition sol_closeEpoch ::
    "(int \<Rightarrow> int \<Rightarrow> int \<Rightarrow> int option) \<Rightarrow> (int \<Rightarrow> int option) \<Rightarrow> int \<Rightarrow> int \<Rightarrow> int \<Rightarrow>
     vault_store \<Rightarrow> int \<Rightarrow> int \<Rightarrow> int \<Rightarrow> bool \<Rightarrow> sol_error + (vault_store \<times> close_action)" where
  "sol_closeEpoch fmd toInt sp ap minA s timestamp expectedNonce tvl isLocal =
     (let nonce = vs_epochNonce s
      in if expectedNonce \<noteq> nonce then Inl (InvalidEpochNonce expectedNonce)
         else if vs_rebalanceState s \<noteq> RebalanceNone then Inl RebalanceInProgress
         else bindS (sub256 nonce 1) (\<lambda>previous.
           if previous \<noteq> 0 \<and> se_status (vs_epochs s previous) \<noteq> EpochClaimable then Inl (EpochNotClaimable previous)
           else let e = vs_epochs s nonce
           in if se_status e \<noteq> EpochOpen then Inl (EpochNotOpen nonce)
           else bindS (add256 (se_openedAtTimestamp e) 3600) (\<lambda>due.
             if timestamp < due then Inl (EpochTooShort nonce)
             else if se_totalDepositAmount e = 0 \<and> se_totalShareBurnAmount e = 0 then Inl (EmptyEpoch nonce)
             else bindS (sol_amounts fmd sp ap (se_totalDepositAmount e) (se_totalShareBurnAmount e) (vs_totalShares s) tvl)
               (\<lambda>(totalWithdraw, newShares).
                 bindS (sol_checks toInt minA (se_totalDepositAmount e) (se_totalShareBurnAmount e) (vs_totalShares s)
                          isLocal (totalWithdraw, newShares))
                   (\<lambda>(netFlow, shares'). Inr (settle s nonce isLocal totalWithdraw newShares netFlow shares'))))))"

definition sol_completeEpochDeposit ::
    "(int \<Rightarrow> int \<Rightarrow> int \<Rightarrow> int option) \<Rightarrow> vault_store \<Rightarrow> int \<Rightarrow> int \<Rightarrow> sol_error + vault_store" where
  "sol_completeEpochDeposit fmd s expectedNonce actual =
     bindS (sub256 (vs_epochNonce s) 1) (\<lambda>nonce.
       if expectedNonce \<noteq> nonce then Inl (InvalidEpochNonce expectedNonce)
       else if vs_epochNonce s = 1 then Inl NoCompletedEpoch
       else let e = vs_epochs s nonce
       in if se_totalDepositAmount e \<le> se_totalWithdrawClaimAmount e then Inl (EpochNotNetDeposit nonce)
       else bindS (sub256 (se_totalDepositAmount e) (se_totalWithdrawClaimAmount e)) (\<lambda>expected.
         if actual = 0 \<or> expected < actual then Inl (InvalidActualDepositAmount actual expected)
         else bindS
           (if actual < expected then
              bindS (sub256 expected actual) (\<lambda>shortfall.
              bindS (sub256 (se_totalDepositAmount e) shortfall) (\<lambda>effective.
              bindS (lib_call (fmd (se_remainingShareMintAmount e) effective (se_totalDepositAmount e))) (\<lambda>adjusted.
                if adjusted = 0 then Inl DepositWouldMintZeroShares
                else bindS (sub256 (se_remainingShareMintAmount e) adjusted) (\<lambda>reduction.
                     bindS (sub256 (vs_totalShares s) reduction) (\<lambda>shares'.
                       Inr (e\<lparr>se_remainingShareMintAmount := adjusted\<rparr>, shares'))))))
            else Inr (e, vs_totalShares s))
           (\<lambda>(e', shares').
              if se_status e' \<noteq> EpochExecuting then Inl (EpochNotExecuting nonce)
              else Inr (s\<lparr>vs_totalShares := shares',
                          vs_epochs := (vs_epochs s)(nonce := e'\<lparr>se_status := EpochClaimable\<rparr>)\<rparr>))))"

text \<open>
  \<open>getParentOperationalState\<close> (\<open>ParentVault.sol\<close>): the view of the storage that the workflow reads. Pause
  flag, recovery mode, strategies and TVL are kept outside \<open>vault_store\<close>.
\<close>

definition epoch_of_storage :: "sol_epoch \<Rightarrow> TypesEpoch" where
  "epoch_of_storage e =
     \<lparr>ep_TotalDepositAmount = Some (se_totalDepositAmount e), ep_TotalShareBurnAmount = Some (se_totalShareBurnAmount e),
      ep_TotalWithdrawClaimAmount = Some (se_totalWithdrawClaimAmount e),
      ep_RemainingDepositClaimAmount = Some (se_remainingDepositClaimAmount e),
      ep_RemainingShareMintAmount = Some (se_remainingShareMintAmount e),
      ep_RemainingShareBurnAmount = Some (se_remainingShareBurnAmount e),
      ep_RemainingWithdrawClaimAmount = Some (se_remainingWithdrawClaimAmount e),
      ep_OpenedAtTimestamp = Some (se_openedAtTimestamp e), ep_Status = se_status e\<rparr>"

definition sol_getParentOperationalState ::
    "bool \<Rightarrow> uint8 \<Rightarrow> TypesRebalance \<Rightarrow> int \<Rightarrow> vault_store \<Rightarrow> TypesParentOperationalState" where
  "sol_getParentOperationalState paused recovery rb tvl s =
     \<lparr>ps_Paused = paused, ps_RecoveryMode = recovery, ps_CurrentEpochNonce = Some (vs_epochNonce s),
      ps_CurrentEpoch = epoch_of_storage (vs_epochs s (vs_epochNonce s)),
      ps_PreviousEpoch = epoch_of_storage (vs_epochs s (vs_epochNonce s - 1)),
      ps_Rebalance = rb\<lparr>rb_State := vs_rebalanceState s\<rparr>,
      ps_TotalShares = Some (vs_totalShares s), ps_Tvl = Some tvl\<rparr>"

text \<open>The documented behaviour of the two library functions on 256-bit values.\<close>

definition fullMulDiv_doc :: "(int \<Rightarrow> int \<Rightarrow> int \<Rightarrow> int option) \<Rightarrow> bool" where
  "fullMulDiv_doc fmd \<longleftrightarrow>
     (\<forall>x y d. 0 \<le> x \<and> x < 2 ^ 256 \<and> 0 \<le> y \<and> y < 2 ^ 256 \<and> 0 \<le> d \<and> d < 2 ^ 256 \<longrightarrow>
        fmd x y d = (if d = 0 \<or> 2 ^ 256 \<le> x * y div d then None else Some (x * y div d)))"

definition toInt256_doc :: "(int \<Rightarrow> int option) \<Rightarrow> bool" where
  "toInt256_doc toInt \<longleftrightarrow>
     (\<forall>x. 0 \<le> x \<and> x < 2 ^ 256 \<longrightarrow> toInt x = (if 2 ^ 255 \<le> x then None else Some x))"

section \<open>Agreement\<close>

abbreviation u256 :: "int \<Rightarrow> bool" where
  "u256 x \<equiv> 0 \<le> x \<and> x < 2 ^ 256"

lemma quo_trunc_nonneg: "0 \<le> a \<Longrightarrow> 0 < b \<Longrightarrow> quo_trunc a b = a div b"
  by (cases "a = 0") (simp_all add: quo_trunc_def)

lemma mulDivDown_eq:
  assumes "u256 x" "u256 y" "u256 d"
  shows "mulDivDown x y d =
     (if d = 0 then Err (Errorf ''division by zero'' [])
      else if 2 ^ 256 \<le> x * y div d then Err (Errorf ''mulDiv result overflows uint256'' [])
      else Ok (x * y div d))"
proof (cases "d = 0")
  case False
  with assms have "0 < d" by simp
  moreover have "0 \<le> x * y" using assms by simp
  ultimately show ?thesis using False
    by (simp add: mulDivDown_def quo_trunc_nonneg Let_def not_less pos_imp_zdiv_nonneg_iff)
qed (simp add: mulDivDown_def)

lemma mulDivDown_fmd:
  assumes "fullMulDiv_doc fmd" "u256 x" "u256 y" "u256 d"
  shows "mulDivDown x y d = Ok r \<longleftrightarrow> lib_call (fmd x y d) = Inr r"
  using assms by (auto simp: mulDivDown_eq fullMulDiv_doc_def lib_call_def)

lemma mulDivDown_Ok_u256: "mulDivDown x y d = Ok r \<Longrightarrow> u256 r"
  by (auto simp: mulDivDown_def Let_def split: if_splits)

lemma sharePrecision_u256: "u256 sharePrecision"
  by (simp add: sharePrecision_def)

lemma asset_precision_bounds:
  assumes "d \<le> 77"
  shows "0 < asset_precision d" and "u256 (asset_precision d)"
proof -
  from assms have "unat d \<le> 77" by (simp add: word_le_nat_alt)
  then have "(10::int) ^ unat d \<le> 10 ^ 77" by (rule power_increasing) simp
  also have "(10::int) ^ 77 < 2 ^ 256" by simp
  finally show "0 < asset_precision d" "u256 (asset_precision d)" by (simp_all add: asset_precision_def)
qed

lemma close_amounts_sol:
  assumes "fullMulDiv_doc fmd" "u256 deposit" "u256 burn" "u256 shares" "u256 tvl" "u256 ap"
  shows "close_amounts deposit burn shares tvl ap = Ok r \<longleftrightarrow>
    sol_amounts fmd sharePrecision ap deposit burn shares tvl = Inr r"
  using assms sharePrecision_u256
  by (auto simp: close_amounts_def sol_amounts_def bindO_Ok_iff bindS_Inr_iff mulDivDown_fmd [OF assms(1)])

lemma close_amounts_u256:
  assumes "close_amounts deposit burn shares tvl ap = Ok (w, n)"
  shows "u256 w" and "u256 n"
  using assms by (auto simp: close_amounts_def bindO_Ok_iff dest: mulDivDown_Ok_u256 split: if_splits)

text \<open>What the checks require, once for both sides.\<close>

definition close_admissible :: "int \<Rightarrow> int \<Rightarrow> int \<Rightarrow> int \<Rightarrow> bool \<Rightarrow> int \<Rightarrow> int \<Rightarrow> bool" where
  "close_admissible deposit burn shares ap isLocal w n \<longleftrightarrow>
     deposit < 2 ^ 255 \<and> w < 2 ^ 255 \<and> (deposit \<noteq> 0 \<longrightarrow> n * ap < 2 ^ 256 \<and> deposit \<le> n * ap) \<and>
     (isLocal \<or> w \<le> deposit \<or> ap \<le> w - deposit) \<and> shares + n < 2 ^ 256 \<and> burn \<le> shares + n"

lemma close_checks_Ok:
  assumes "0 \<le> deposit" "0 \<le> shares" "0 \<le> w" "0 \<le> n" "0 < ap"
  shows "close_checks deposit burn shares ap isLocal (w, n) = Ok a \<longleftrightarrow>
    close_admissible deposit burn shares ap isLocal w n \<and>
    a = \<lparr>ea_TotalWithdraw = w, ea_NewShares = n, ea_NetFlow = deposit - w, ea_TotalShares = shares + n - burn\<rparr>"
proof -
  have "0 \<le> n * ap" "0 \<le> shares + n" using assms by simp_all
  then show ?thesis using assms
    by (simp add: close_checks_def close_admissible_def Let_def fits_bits_def not_le not_less) argo
qed

lemma sol_checks_Inr:
  assumes "toInt256_doc toInt" "u256 deposit" "u256 w"
  shows "sol_checks toInt ap deposit burn shares isLocal (w, n) = Inr r \<longleftrightarrow>
    close_admissible deposit burn shares ap isLocal w n \<and> r = (deposit - w, shares + n - burn)"
proof -
  have to: "toInt deposit = (if 2 ^ 255 \<le> deposit then None else Some deposit)"
    "toInt w = (if 2 ^ 255 \<le> w then None else Some w)"
    using assms by (simp_all add: toInt256_doc_def)
  show ?thesis
    by (simp add: sol_checks_def close_admissible_def to lib_call_def Let_def mul256_def add256_def
        sub256_def not_le not_less) argo
qed

section \<open>The settlement happens exactly when the preflight passes\<close>

definition wf_epoch :: "sol_epoch \<Rightarrow> bool" where
  "wf_epoch e \<longleftrightarrow> u256 (se_totalDepositAmount e) \<and> u256 (se_totalShareBurnAmount e) \<and>
     u256 (se_totalWithdrawClaimAmount e) \<and> u256 (se_remainingShareMintAmount e) \<and> u256 (se_openedAtTimestamp e)"

text \<open>Storage words are 256 bits wide, and initialisation opens epoch one.\<close>

definition wf_store :: "vault_store \<Rightarrow> bool" where
  "wf_store s \<longleftrightarrow> 1 \<le> vs_epochNonce s \<and> vs_epochNonce s < 2 ^ 256 \<and> u256 (vs_totalShares s) \<and>
     wf_epoch (vs_epochs s (vs_epochNonce s)) \<and> wf_epoch (vs_epochs s (vs_epochNonce s - 1))"

text \<open>The guards of \<open>_closeEpoch\<close> that come before the accounting.\<close>

definition close_guards :: "vault_store \<Rightarrow> int \<Rightarrow> int \<Rightarrow> bool" where
  "close_guards s timestamp expectedNonce \<longleftrightarrow>
     expectedNonce = vs_epochNonce s \<and> vs_rebalanceState s = RebalanceNone \<and>
     (vs_epochNonce s = 1 \<or> se_status (vs_epochs s (vs_epochNonce s - 1)) = EpochClaimable) \<and>
     se_status (vs_epochs s (vs_epochNonce s)) = EpochOpen \<and>
     se_openedAtTimestamp (vs_epochs s (vs_epochNonce s)) + 3600 < 2 ^ 256 \<and>
     se_openedAtTimestamp (vs_epochs s (vs_epochNonce s)) + 3600 \<le> timestamp"

definition preflight_close :: "vault_store \<Rightarrow> int \<Rightarrow> uint8 \<Rightarrow> bool \<Rightarrow> epochAccounting outcome" where
  "preflight_close s tvl d isLocal =
     calculateEpochClose (epoch_of_storage (vs_epochs s (vs_epochNonce s))) (Some (vs_totalShares s)) (Some tvl) d isLocal"

definition settled :: "vault_store \<Rightarrow> bool \<Rightarrow> epochAccounting \<Rightarrow> vault_store \<times> close_action" where
  "settled s isLocal a = settle s (vs_epochNonce s) isLocal (ea_TotalWithdraw a) (ea_NewShares a) (ea_NetFlow a) (ea_TotalShares a)"

text \<open>The accounting of a close: the amounts it computes and the checks they pass.\<close>

definition close_accounting ::
    "int \<Rightarrow> int \<Rightarrow> int \<Rightarrow> int \<Rightarrow> int \<Rightarrow> bool \<Rightarrow> int \<Rightarrow> int \<Rightarrow> epochAccounting \<Rightarrow> bool" where
  "close_accounting deposit burn shares tvl ap isLocal w n a \<longleftrightarrow>
     (deposit \<noteq> 0 \<or> burn \<noteq> 0) \<and> close_amounts deposit burn shares tvl ap = Ok (w, n) \<and>
     close_admissible deposit burn shares ap isLocal w n \<and>
     a = \<lparr>ea_TotalWithdraw = w, ea_NewShares = n, ea_NetFlow = deposit - w, ea_TotalShares = shares + n - burn\<rparr>"

lemma amounts_checks_Ok:
  assumes "0 \<le> deposit" "0 \<le> shares" "0 < ap"
  shows "bindO (close_amounts deposit burn shares tvl ap) (close_checks deposit burn shares ap isLocal) = Ok a \<longleftrightarrow>
    (\<exists>w n. close_amounts deposit burn shares tvl ap = Ok (w, n) \<and> close_admissible deposit burn shares ap isLocal w n \<and>
       a = \<lparr>ea_TotalWithdraw = w, ea_NewShares = n, ea_NetFlow = deposit - w, ea_TotalShares = shares + n - burn\<rparr>)"
proof (cases "close_amounts deposit burn shares tvl ap")
  case (Ok p)
  obtain w n where p: "p = (w, n)" by fastforce
  have "0 \<le> w" "0 \<le> n" using close_amounts_u256 [OF Ok [unfolded p]] by simp_all
  then show ?thesis using Ok p assms by (simp add: close_checks_Ok)
qed simp_all

lemma calculateEpochClose_Ok:
  assumes "ep_TotalDepositAmount e = Some deposit" "ep_TotalShareBurnAmount e = Some burn"
    and "u256 deposit" "u256 burn" "u256 shares" "u256 tvl" "d \<le> 77"
  shows "calculateEpochClose e (Some shares) (Some tvl) d isLocal = Ok a \<longleftrightarrow>
    (\<exists>w n. close_accounting deposit burn shares tvl (asset_precision d) isLocal w n a)"
proof -
  have nd: "\<not> 77 < d" using assms(7) by (simp add: not_less)
  have "bindO (close_amounts deposit burn shares tvl (asset_precision d))
      (close_checks deposit burn shares (asset_precision d) isLocal) = Ok a \<longleftrightarrow>
    (\<exists>w n. close_amounts deposit burn shares tvl (asset_precision d) = Ok (w, n) \<and>
       close_admissible deposit burn shares (asset_precision d) isLocal w n \<and>
       a = \<lparr>ea_TotalWithdraw = w, ea_NewShares = n, ea_NetFlow = deposit - w, ea_TotalShares = shares + n - burn\<rparr>)"
    by (rule amounts_checks_Ok) (use assms asset_precision_bounds(1) [OF assms(7)] in simp_all)
  then show ?thesis using assms nd by (simp add: calculateEpochClose_def close_accounting_def)
qed

lemma preflight_close_Ok:
  assumes "wf_store s" "u256 tvl" "d \<le> 77"
  shows "preflight_close s tvl d isLocal = Ok a \<longleftrightarrow>
    (\<exists>w n. close_accounting (se_totalDepositAmount (vs_epochs s (vs_epochNonce s)))
       (se_totalShareBurnAmount (vs_epochs s (vs_epochNonce s))) (vs_totalShares s) tvl (asset_precision d) isLocal w n a)"
  unfolding preflight_close_def
  by (rule calculateEpochClose_Ok) (use assms in \<open>simp_all add: epoch_of_storage_def wf_store_def wf_epoch_def\<close>)

lemma sol_closeEpoch_guarded:
  assumes "1 \<le> vs_epochNonce s"
  shows "sol_closeEpoch fmd toInt sp ap minA s ts nonce tvl isLocal = Inr r \<longleftrightarrow> close_guards s ts nonce \<and>
    (let e = vs_epochs s (vs_epochNonce s)
     in (se_totalDepositAmount e \<noteq> 0 \<or> se_totalShareBurnAmount e \<noteq> 0) \<and>
        (\<exists>w n f s'. sol_amounts fmd sp ap (se_totalDepositAmount e) (se_totalShareBurnAmount e) (vs_totalShares s) tvl = Inr (w, n) \<and>
           sol_checks toInt minA (se_totalDepositAmount e) (se_totalShareBurnAmount e) (vs_totalShares s) isLocal (w, n) = Inr (f, s') \<and>
           r = settle s (vs_epochNonce s) isLocal w n f s'))"
  using assms
  by (auto simp: sol_closeEpoch_def Let_def bindS_Inr_iff sub256_def add256_def close_guards_def not_less not_le)

lemma sol_closeEpoch_Inr:
  assumes "fullMulDiv_doc fmd" "toInt256_doc toInt" "wf_store s" "u256 tvl" "d \<le> 77"
  shows "sol_closeEpoch fmd toInt sharePrecision (asset_precision d) (asset_precision d) s ts nonce tvl isLocal = Inr r \<longleftrightarrow>
    close_guards s ts nonce \<and> (\<exists>a. preflight_close s tvl d isLocal = Ok a \<and> r = settled s isLocal a)"
proof -
  define e where "e = vs_epochs s (vs_epochNonce s)"
  define dep burn shares ap where "dep = se_totalDepositAmount e" "burn = se_totalShareBurnAmount e"
    "shares = vs_totalShares s" "ap = asset_precision d"
  note defs = e_def dep_burn_shares_ap_def
  have wf: "u256 dep" "u256 burn" "u256 shares" and one: "1 \<le> vs_epochNonce s"
    using assms(3) by (simp_all add: wf_store_def wf_epoch_def defs)
  have ap: "u256 ap" using asset_precision_bounds [OF assms(5)] by (simp add: defs)
  have amounts: "sol_amounts fmd sharePrecision ap dep burn shares tvl = Inr p \<longleftrightarrow>
      close_amounts dep burn shares tvl ap = Ok p" for p
    by (rule close_amounts_sol [symmetric]) (use assms wf ap in simp_all)
  have checks: "close_amounts dep burn shares tvl ap = Ok (w, n) \<Longrightarrow>
      sol_checks toInt ap dep burn shares isLocal (w, n) = Inr q \<longleftrightarrow>
      close_admissible dep burn shares ap isLocal w n \<and> q = (dep - w, shares + n - burn)" for w n q
    by (rule sol_checks_Inr [OF assms(2)]) (use wf in \<open>auto dest: close_amounts_u256\<close>)
  show ?thesis
    unfolding preflight_close_Ok [OF assms(3-5)] sol_closeEpoch_guarded [OF one] Let_def settled_def
    unfolding defs(1) [symmetric] defs(2-5) [symmetric] amounts close_accounting_def
    by (auto simp: checks)
qed

section \<open>Rounding\<close>

lemma mulDivDown_floor:
  assumes "mulDivDown x y d = Ok r" "0 \<le> x" "0 \<le> y" "0 < d"
  shows "r * d \<le> x * y" and "x * y < (r + 1) * d"
proof -
  have r: "r = x * y div d"
    using assms by (auto simp: mulDivDown_def Let_def quo_trunc_nonneg split: if_splits)
  have "d * r + x * y mod d = x * y" unfolding r by (rule mult_div_mod_eq)
  moreover have "0 \<le> x * y mod d" "x * y mod d < d" using assms(4) by simp_all
  ultimately show "r * d \<le> x * y" "x * y < (r + 1) * d" by (simp_all add: algebra_simps)
qed

text \<open>With shares outstanding, both roundings leave the remainder to the vault.\<close>

lemma close_amounts_floor:
  assumes "close_amounts deposit burn shares tvl ap = Ok (w, n)" "shares \<noteq> 0"
    and "0 \<le> deposit" "0 \<le> burn" "0 \<le> shares" "0 \<le> tvl"
  shows "0 < tvl" "w * shares \<le> burn * tvl" "n * tvl \<le> deposit * shares"
proof -
  show "0 < tvl" using assms by (auto simp: close_amounts_def split: if_splits)
  then show "w * shares \<le> burn * tvl" "n * tvl \<le> deposit * shares"
    using assms mulDivDown_floor(1) by (auto simp: close_amounts_def bindO_Ok_iff split: if_splits)
qed

section \<open>Reconciliation of a remote deposit\<close>

text \<open>The reduction never exceeds the recorded mint amount.\<close>

lemma scaled_down:
  fixes m e d :: int
  assumes "0 \<le> m" "0 \<le> e" "e \<le> d" "0 < d"
  shows "0 \<le> m * e div d" and "m * e div d \<le> m"
proof -
  show "0 \<le> m * e div d" using assms by (simp add: pos_imp_zdiv_nonneg_iff)
  have "m * e div d \<le> m * d div d"
    using assms by (intro zdiv_mono1) (auto intro: mult_left_mono)
  then show "m * e div d \<le> m" using assms by simp
qed

definition reconcile_admissible :: "int \<Rightarrow> int \<Rightarrow> int \<Rightarrow> int \<Rightarrow> int \<Rightarrow> int \<Rightarrow> bool" where
  "reconcile_admissible deposit withdraw mint shares actual adjusted \<longleftrightarrow>
     withdraw < deposit \<and> 0 < actual \<and> actual \<le> deposit - withdraw \<and>
     (if actual = deposit - withdraw then adjusted = mint
      else adjusted = mint * (withdraw + actual) div deposit \<and> adjusted \<noteq> 0 \<and> mint - adjusted \<le> shares)"

lemma reconcileEpochDeposit_Ok:
  assumes "ep_TotalDepositAmount e = Some deposit" "ep_TotalWithdrawClaimAmount e = Some withdraw"
    and "ep_RemainingShareMintAmount e = Some mint"
    and "u256 deposit" "u256 withdraw" "u256 mint" "u256 shares" "u256 actual"
  shows "reconcileEpochDeposit e (Some shares) (Some actual) = Ok adjusted \<longleftrightarrow>
    reconcile_admissible deposit withdraw mint shares actual adjusted"
proof -
  have eff: "deposit - (deposit - withdraw - actual) = withdraw + actual" by simp
  have quo: "withdraw < deposit \<Longrightarrow> quo_trunc (mint * (withdraw + actual)) deposit = mint * (withdraw + actual) div deposit"
    using assms(4-8) by (intro quo_trunc_nonneg) auto
  show ?thesis
    using assms
    by (simp add: reconcileEpochDeposit_def Let_def eff quo reconcile_admissible_def not_le not_less) (auto simp: quo)
qed

definition completed :: "vault_store \<Rightarrow> int \<Rightarrow> vault_store" where
  "completed s adjusted =
     (let nonce = vs_epochNonce s - 1; e = vs_epochs s nonce
      in s\<lparr>vs_totalShares := vs_totalShares s - (se_remainingShareMintAmount e - adjusted),
           vs_epochs := (vs_epochs s)(nonce := e\<lparr>se_remainingShareMintAmount := adjusted, se_status := EpochClaimable\<rparr>)\<rparr>)"

definition preflight_complete :: "vault_store \<Rightarrow> int \<Rightarrow> int outcome" where
  "preflight_complete s actual =
     reconcileEpochDeposit (epoch_of_storage (vs_epochs s (vs_epochNonce s - 1))) (Some (vs_totalShares s)) (Some actual)"

lemma sol_completeEpochDeposit_Inr:
  assumes doc: "fullMulDiv_doc fmd" and wf: "wf_store s" "u256 actual"
  shows "sol_completeEpochDeposit fmd s nonce actual = Inr s' \<longleftrightarrow>
    nonce = vs_epochNonce s - 1 \<and> 1 < vs_epochNonce s \<and> se_status (vs_epochs s nonce) = EpochExecuting \<and>
    (\<exists>adjusted. preflight_complete s actual = Ok adjusted \<and> s' = completed s adjusted)"
proof -
  define e where "e = vs_epochs s (vs_epochNonce s - 1)"
  define dep wd mint where "dep = se_totalDepositAmount e" "wd = se_totalWithdrawClaimAmount e"
    "mint = se_remainingShareMintAmount e"
  note dep_def = this(1) and wd_def = this(2) and mint_def = this(3)
  have u: "u256 dep" "u256 wd" "u256 mint" "1 \<le> vs_epochNonce s" "u256 (vs_totalShares s)"
    using wf by (simp_all add: wf_store_def wf_epoch_def e_def dep_def wd_def mint_def)
  have pre: "preflight_complete s actual = Ok adjusted \<longleftrightarrow>
      reconcile_admissible dep wd mint (vs_totalShares s) actual adjusted" for adjusted
    unfolding preflight_complete_def
    by (rule reconcileEpochDeposit_Ok)
      (use u wf(2) in \<open>simp_all add: epoch_of_storage_def e_def dep_def wd_def mint_def\<close>)
  have eff: "dep - (dep - wd - actual) = wd + actual" by simp
  have fmd: "fmd mint (wd + actual) dep = Some (mint * (wd + actual) div dep)"
      "mint * (wd + actual) div dep \<le> mint"
    if "wd < dep" "actual < dep - wd"
  proof -
    have "0 \<le> mint" "0 \<le> wd + actual" "wd + actual \<le> dep" "0 < dep" using that u wf(2) by simp_all
    note sd = scaled_down [OF this]
    then show "mint * (wd + actual) div dep \<le> mint" by simp
    have "fmd mint (wd + actual) dep = (if dep = 0 \<or> 2 ^ 256 \<le> mint * (wd + actual) div dep then None
        else Some (mint * (wd + actual) div dep))"
      using doc [unfolded fullMulDiv_doc_def] that u wf(2) by auto
    then show "fmd mint (wd + actual) dep = Some (mint * (wd + actual) div dep)" using sd u that by simp
  qed
  have same: "e\<lparr>se_remainingShareMintAmount := mint, se_status := st\<rparr> = e\<lparr>se_status := st\<rparr>" for st
    by (simp add: mint_def)
  show ?thesis
  proof (cases "wd < dep \<and> 0 < actual \<and> actual \<le> dep - wd \<and> nonce = vs_epochNonce s - 1")
    case False
    then show ?thesis using u wf(2)
      by (auto simp: sol_completeEpochDeposit_def Let_def bindS_Inr_iff pre reconcile_admissible_def sub256_def
          e_def [symmetric] dep_def [symmetric] wd_def [symmetric] not_le)
  next
    case True
    show ?thesis
    proof (cases "actual = dep - wd")
      case exact: True
      have "preflight_complete s (dep - wd) = Ok adjusted \<longleftrightarrow> adjusted = mint" for adjusted
        unfolding exact [symmetric] pre using exact True by (simp add: reconcile_admissible_def)
      then show ?thesis using exact True u
        by (auto simp: same sol_completeEpochDeposit_def Let_def sub256_def completed_def
            e_def [symmetric] dep_def [symmetric] wd_def [symmetric] mint_def [symmetric])
    next
      case False
      then show ?thesis using True u fmd eff
        by (auto simp: sol_completeEpochDeposit_def Let_def pre reconcile_admissible_def sub256_def completed_def lib_call_def
            e_def [symmetric] dep_def [symmetric] wd_def [symmetric] mint_def [symmetric])
    qed
  qed
qed

end
