(* ===== verification/Vault_Lifecycle.thy ===== *)
theory Vault_Lifecycle
  imports Epoch_Accounting
begin

text \<open>
  The parent vault's life from initialisation on, as the workflow meets it
  (\<open>evm/src/vaults/ParentVault.sol\<close> and its libraries \<open>ParentVaultUserEpochLib\<close>, \<open>ParentVaultEpochLib\<close>,
  \<open>ParentVaultCcipLib\<close>, \<open>ParentVaultRebalanceLib\<close>, \<open>ParentVaultFeesLib\<close>, \<open>ParentVaultConfigLib\<close>). Each operation
  takes the storage and returns the new storage or the revert. Token transfers, mints, adapters and
  bridge messages are outside: what they return is an argument, and a step relation lets the operations
  follow each other in any order. Roles, the pause flag, the recovery mode, the allowlist and the checks of a bridge
  message's sender, source and token only remove steps, so they are not part of it.
\<close>

section \<open>Storage\<close>

datatype vault_error = Settlement sol_error | AmountTooSmall int | NoZeroAmount | NoDeposit address int
  | NoWithdraw address int | EpochNotNetWithdraw int | InvalidRebalanceNonce int | RebalanceTooSoon int
  | SameStrategy | InvalidChainSelector uint64 | InvalidProtocolId bytes32 | EpochStillExecuting int
  | NoRebalanceInProgress | InvalidPendingProtocolId bytes32 | CannotCompleteLocalRebalance
  | InitialActiveProtocolAdapterAlreadySet | NoZeroProtocolId | CannotRemoveActiveProtocol bytes32 | CannotRemovePendingProtocol bytes32

text \<open>The rebalance struct; its \<open>state\<close> field is \<open>vs_rebalanceState\<close> of the settlement's storage.\<close>

record sol_rebalance =
  sr_nonce :: int
  sr_activeStrategy :: TypesStrategy
  sr_pendingStrategy :: TypesStrategy
  sr_lastRebalanceCompletedTimestamp :: int

record parent_storage =
  pv_store :: vault_store
  pv_deposits :: "address \<Rightarrow> int \<Rightarrow> int"
  pv_withdraws :: "address \<Rightarrow> int \<Rightarrow> int"
  pv_rebalance :: sol_rebalance
  pv_supportedProtocol :: "bytes32 \<Rightarrow> bool"
  pv_initialActiveProtocolAdapterSet :: bool

text \<open>The immutables of the deployment and the two library divisions.\<close>

record vault_params =
  vp_fullMulDiv :: "int \<Rightarrow> int \<Rightarrow> int \<Rightarrow> int option"
  vp_fullMulDivUp :: "int \<Rightarrow> int \<Rightarrow> int \<Rightarrow> int option"
  vp_toInt256 :: "int \<Rightarrow> int option"
  vp_assetDecimals :: uint8
  vp_thisChainSelector :: uint64

definition checked :: "sol_error + 'a \<Rightarrow> vault_error + 'a" where
  "checked m = map_sum Settlement id m"

definition set_entry :: "(address \<Rightarrow> int \<Rightarrow> int) \<Rightarrow> address \<Rightarrow> int \<Rightarrow> int \<Rightarrow> address \<Rightarrow> int \<Rightarrow> int" where
  "set_entry f user nonce v = f(user := (f user)(nonce := v))"

definition put_epoch :: "parent_storage \<Rightarrow> int \<Rightarrow> sol_epoch \<Rightarrow> parent_storage" where
  "put_epoch s nonce e = s\<lparr>pv_store := (pv_store s)\<lparr>vs_epochs := (vs_epochs (pv_store s))(nonce := e)\<rparr>\<rparr>"

definition blank_epoch :: sol_epoch where
  "blank_epoch = \<lparr>se_totalDepositAmount = 0, se_totalShareBurnAmount = 0, se_totalWithdrawClaimAmount = 0,
     se_remainingDepositClaimAmount = 0, se_remainingShareMintAmount = 0, se_remainingShareBurnAmount = 0,
     se_remainingWithdrawClaimAmount = 0, se_openedAtTimestamp = 0, se_status = 0\<rparr>"

definition no_strategy :: TypesStrategy where
  "no_strategy = \<lparr>st_ProtocolId = replicate 32 0, st_ChainSelector = 0\<rparr>"

definition sol_initialize :: "int \<Rightarrow> parent_storage" where
  "sol_initialize timestamp =
     \<lparr>pv_store = \<lparr>vs_epochNonce = 1,
        vs_epochs = (\<lambda>_. blank_epoch)(1 := blank_epoch\<lparr>se_openedAtTimestamp := timestamp, se_status := EpochOpen\<rparr>),
        vs_totalShares = 0, vs_rebalanceState = RebalanceNone\<rparr>,
      pv_deposits = (\<lambda>_ _. 0), pv_withdraws = (\<lambda>_ _. 0),
      pv_rebalance = \<lparr>sr_nonce = 1, sr_activeStrategy = no_strategy, sr_pendingStrategy = no_strategy,
        sr_lastRebalanceCompletedTimestamp = timestamp\<rparr>,
      pv_supportedProtocol = (\<lambda>_. False), pv_initialActiveProtocolAdapterSet = False\<rparr>"

section \<open>User operations\<close>

definition sol_deposit :: "int \<Rightarrow> address \<Rightarrow> int \<Rightarrow> parent_storage \<Rightarrow> vault_error + parent_storage" where
  "sol_deposit minAssetAmount beneficiary amount s =
     (if amount < minAssetAmount then Inl (AmountTooSmall amount)
      else let nonce = vs_epochNonce (pv_store s); e = vs_epochs (pv_store s) nonce
      in if se_status e \<noteq> EpochOpen then Inl (Settlement (EpochNotOpen nonce))
         else bindS (checked (add256 (pv_deposits s beneficiary nonce) amount)) (\<lambda>entry.
              bindS (checked (add256 (se_totalDepositAmount e) amount)) (\<lambda>total.
                Inr (put_epoch (s\<lparr>pv_deposits := set_entry (pv_deposits s) beneficiary nonce entry\<rparr>) nonce
                       (e\<lparr>se_totalDepositAmount := total\<rparr>)))))"

definition sol_withdraw :: "address \<Rightarrow> int \<Rightarrow> parent_storage \<Rightarrow> vault_error + parent_storage" where
  "sol_withdraw beneficiary shareBurnAmount s =
     (if shareBurnAmount = 0 then Inl NoZeroAmount
      else let nonce = vs_epochNonce (pv_store s); e = vs_epochs (pv_store s) nonce
      in if se_status e \<noteq> EpochOpen then Inl (Settlement (EpochNotOpen nonce))
         else bindS (checked (add256 (pv_withdraws s beneficiary nonce) shareBurnAmount)) (\<lambda>entry.
              bindS (checked (add256 (se_totalShareBurnAmount e) shareBurnAmount)) (\<lambda>total.
                Inr (put_epoch (s\<lparr>pv_withdraws := set_entry (pv_withdraws s) beneficiary nonce entry\<rparr>) nonce
                       (e\<lparr>se_totalShareBurnAmount := total\<rparr>)))))"

definition sol_cancelDeposit :: "address \<Rightarrow> parent_storage \<Rightarrow> vault_error + parent_storage" where
  "sol_cancelDeposit user s =
     (let nonce = vs_epochNonce (pv_store s); e = vs_epochs (pv_store s) nonce; depositAmount = pv_deposits s user nonce
      in if se_status e \<noteq> EpochOpen then Inl (Settlement (EpochNotOpen nonce))
         else if depositAmount = 0 then Inl (NoDeposit user nonce)
         else bindS (checked (sub256 (se_totalDepositAmount e) depositAmount)) (\<lambda>total.
                Inr (put_epoch (s\<lparr>pv_deposits := set_entry (pv_deposits s) user nonce 0\<rparr>) nonce
                       (e\<lparr>se_totalDepositAmount := total\<rparr>))))"

definition sol_cancelWithdraw :: "address \<Rightarrow> parent_storage \<Rightarrow> vault_error + parent_storage" where
  "sol_cancelWithdraw user s =
     (let nonce = vs_epochNonce (pv_store s); e = vs_epochs (pv_store s) nonce; shareBurnAmount = pv_withdraws s user nonce
      in if se_status e \<noteq> EpochOpen then Inl (Settlement (EpochNotOpen nonce))
         else if shareBurnAmount = 0 then Inl (NoWithdraw user nonce)
         else bindS (checked (sub256 (se_totalShareBurnAmount e) shareBurnAmount)) (\<lambda>total.
                Inr (put_epoch (s\<lparr>pv_withdraws := set_entry (pv_withdraws s) user nonce 0\<rparr>) nonce
                       (e\<lparr>se_totalShareBurnAmount := total\<rparr>))))"

text \<open>The two claims return the amount that is minted or paid out.\<close>

definition sol_claimShares ::
    "vault_params \<Rightarrow> address \<Rightarrow> int \<Rightarrow> parent_storage \<Rightarrow> vault_error + (parent_storage \<times> int)" where
  "sol_claimShares P user nonce s =
     (let e = vs_epochs (pv_store s) nonce; depositAmount = pv_deposits s user nonce;
          remaining = se_remainingDepositClaimAmount e; shares = se_remainingShareMintAmount e
      in if se_status e \<noteq> EpochClaimable then Inl (Settlement (EpochNotClaimable nonce))
         else if depositAmount = 0 then Inl (NoDeposit user nonce)
         else bindS (if depositAmount \<noteq> remaining then checked (lib_call (vp_fullMulDiv P depositAmount shares remaining))
                     else Inr shares) (\<lambda>shareMintAmount.
              bindS (checked (sub256 remaining depositAmount)) (\<lambda>left.
              bindS (checked (sub256 shares shareMintAmount)) (\<lambda>leftShares.
                Inr (put_epoch (s\<lparr>pv_deposits := set_entry (pv_deposits s) user nonce 0\<rparr>) nonce
                       (e\<lparr>se_remainingDepositClaimAmount := left, se_remainingShareMintAmount := leftShares\<rparr>),
                     shareMintAmount)))))"

definition sol_claimAsset ::
    "vault_params \<Rightarrow> address \<Rightarrow> int \<Rightarrow> parent_storage \<Rightarrow> vault_error + (parent_storage \<times> int)" where
  "sol_claimAsset P user nonce s =
     (let e = vs_epochs (pv_store s) nonce; shareBurnAmount = pv_withdraws s user nonce;
          remaining = se_remainingShareBurnAmount e; assets = se_remainingWithdrawClaimAmount e
      in if se_status e \<noteq> EpochClaimable then Inl (Settlement (EpochNotClaimable nonce))
         else if shareBurnAmount = 0 then Inl (NoWithdraw user nonce)
         else bindS (if shareBurnAmount \<noteq> remaining then checked (lib_call (vp_fullMulDiv P shareBurnAmount assets remaining))
                     else Inr assets) (\<lambda>withdrawAmount.
              bindS (checked (sub256 remaining shareBurnAmount)) (\<lambda>left.
              bindS (checked (sub256 assets withdrawAmount)) (\<lambda>leftAssets.
                Inr (put_epoch (s\<lparr>pv_withdraws := set_entry (pv_withdraws s) user nonce 0\<rparr>) nonce
                       (e\<lparr>se_remainingShareBurnAmount := left, se_remainingWithdrawClaimAmount := leftAssets\<rparr>),
                     withdrawAmount)))))"

section \<open>Settlement\<close>

definition sol_finalizeLocalNetWithdraw :: "int \<Rightarrow> int \<Rightarrow> int \<Rightarrow> parent_storage \<Rightarrow> vault_error + parent_storage" where
  "sol_finalizeLocalNetWithdraw nonce totalDepositAmount amountOut s =
     bindS (checked (add256 totalDepositAmount amountOut)) (\<lambda>total.
       Inr (put_epoch s nonce ((vs_epochs (pv_store s) nonce)\<lparr>se_totalWithdrawClaimAmount := total,
              se_remainingWithdrawClaimAmount := total, se_status := EpochClaimable\<rparr>)))"

definition sol_openNextEpoch :: "int \<Rightarrow> int \<Rightarrow> parent_storage \<Rightarrow> vault_error + parent_storage" where
  "sol_openNextEpoch timestamp nonce s =
     bindS (checked (add256 nonce 1)) (\<lambda>next.
       Inr (put_epoch (s\<lparr>pv_store := (pv_store s)\<lparr>vs_epochNonce := next\<rparr>\<rparr>) next
              ((vs_epochs (pv_store s) next)\<lparr>se_status := EpochOpen, se_openedAtTimestamp := timestamp\<rparr>)))"

text \<open>
  \<open>ParentVault.closeEpoch\<close>. \<open>isLocal\<close> says whether an adapter is active here and \<open>amountOut\<close> is what the adapter pays
  out when the net flow is a local withdrawal.
\<close>

definition sol_vaultCloseEpoch ::
    "vault_params \<Rightarrow> int \<Rightarrow> int \<Rightarrow> int \<Rightarrow> bool \<Rightarrow> int \<Rightarrow> parent_storage \<Rightarrow> vault_error + parent_storage" where
  "sol_vaultCloseEpoch P timestamp expectedNonce tvl isLocal amountOut s =
     bindS (checked (sol_closeEpoch (vp_fullMulDiv P) (vp_toInt256 P) sharePrecision (asset_precision (vp_assetDecimals P))
              (asset_precision (vp_assetDecimals P)) (pv_store s) timestamp expectedNonce tvl isLocal))
       (\<lambda>(store, act).
         bindS (if ca_action act = WITHDRAW_FROM_LOCAL_STRATEGY
                then sol_finalizeLocalNetWithdraw (ca_epochNonce act) (ca_totalDepositAmount act) amountOut (s\<lparr>pv_store := store\<rparr>)
                else Inr (s\<lparr>pv_store := store\<rparr>))
           (sol_openNextEpoch timestamp (ca_epochNonce act)))"

definition sol_vaultCompleteEpochDeposit ::
    "vault_params \<Rightarrow> int \<Rightarrow> int \<Rightarrow> parent_storage \<Rightarrow> vault_error + parent_storage" where
  "sol_vaultCompleteEpochDeposit P expectedNonce actual s =
     bindS (checked (sol_completeEpochDeposit (vp_fullMulDiv P) (pv_store s) expectedNonce actual))
       (\<lambda>store. Inr (s\<lparr>pv_store := store\<rparr>))"

definition sol_handleEpochNetWithdraw :: "int \<Rightarrow> int \<Rightarrow> parent_storage \<Rightarrow> vault_error + parent_storage" where
  "sol_handleEpochNetWithdraw nonce received s =
     bindS (checked (sub256 (vs_epochNonce (pv_store s)) 1)) (\<lambda>previous.
       if nonce \<noteq> previous then Inl (Settlement (InvalidEpochNonce nonce))
       else let e = vs_epochs (pv_store s) nonce
       in if se_totalWithdrawClaimAmount e \<le> se_totalDepositAmount e then Inl (EpochNotNetWithdraw nonce)
          else bindS (checked (add256 (se_totalDepositAmount e) received)) (\<lambda>total.
            if se_status e \<noteq> EpochExecuting then Inl (Settlement (EpochNotExecuting nonce))
            else Inr (put_epoch s nonce (e\<lparr>se_totalWithdrawClaimAmount := total,
                        se_remainingWithdrawClaimAmount := total, se_status := EpochClaimable\<rparr>))))"

section \<open>Rebalancing\<close>

datatype rebalance_action = RB_NONE | WITHDRAW_LOCAL_TO_LOCAL | WITHDRAW_LOCAL_TO_REMOTE

definition sol_initiateRebalance ::
    "vault_params \<Rightarrow> int \<Rightarrow> int \<Rightarrow> TypesStrategy \<Rightarrow> bool \<Rightarrow> parent_storage \<Rightarrow>
     vault_error + (parent_storage \<times> rebalance_action)" where
  "sol_initiateRebalance P timestamp expectedNonce new isSupportedChain s =
     (let r = pv_rebalance s; nonce = sr_nonce r; store = pv_store s; active = sr_activeStrategy r
      in if expectedNonce \<noteq> nonce then Inl (InvalidRebalanceNonce expectedNonce)
         else if vs_rebalanceState store \<noteq> RebalanceNone then Inl (Settlement RebalanceInProgress)
         else bindS (checked (add256 (sr_lastRebalanceCompletedTimestamp r) 3600)) (\<lambda>due.
           if timestamp < due then Inl (RebalanceTooSoon nonce)
           else if active = new then Inl SameStrategy
           else if \<not> isSupportedChain then Inl (InvalidChainSelector (st_ChainSelector new))
           else if \<not> pv_supportedProtocol s (st_ProtocolId new) then Inl (InvalidProtocolId (st_ProtocolId new))
           else if vs_epochNonce store = 1 then Inl (Settlement NoCompletedEpoch)
           else bindS (checked (sub256 (vs_epochNonce store) 1)) (\<lambda>previous.
             if se_status (vs_epochs store previous) = EpochExecuting then Inl (EpochStillExecuting previous)
             else let here = vp_thisChainSelector P; isLocalActive = st_ChainSelector active = here
             in if isLocalActive \<and> st_ChainSelector new = here then Inr (s, WITHDRAW_LOCAL_TO_LOCAL)
                else Inr (s\<lparr>pv_store := store\<lparr>vs_rebalanceState := Rebalancing\<rparr>,
                            pv_rebalance := r\<lparr>sr_pendingStrategy := new\<rparr>\<rparr>,
                          if isLocalActive then WITHDRAW_LOCAL_TO_REMOTE else RB_NONE))))"

definition sol_collectManagementFee ::
    "vault_params \<Rightarrow> int \<Rightarrow> int \<Rightarrow> parent_storage \<Rightarrow> vault_error + parent_storage" where
  "sol_collectManagementFee P timestamp lastCompleted s =
     bindS (checked (sub256 timestamp lastCompleted)) (\<lambda>elapsed0.
       let elapsed = min elapsed0 (365 * 86400); totalShares = vs_totalShares (pv_store s)
       in bindS (checked (lib_call (vp_fullMulDivUp P totalShares (100 * elapsed) (10000 * (365 * 86400))))) (\<lambda>feeShares.
            if feeShares = 0 then Inr s
            else bindS (checked (add256 totalShares feeShares)) (\<lambda>total.
              Inr (s\<lparr>pv_store := (pv_store s)\<lparr>vs_totalShares := total\<rparr>\<rparr>))))"

definition sol_finalizeRebalance ::
    "vault_params \<Rightarrow> int \<Rightarrow> int \<Rightarrow> TypesStrategy \<Rightarrow> bool \<Rightarrow> parent_storage \<Rightarrow> vault_error + parent_storage" where
  "sol_finalizeRebalance P timestamp expectedNonce new isLocalToLocal s =
     (let r = pv_rebalance s; nonce = sr_nonce r
      in if expectedNonce \<noteq> nonce then Inl (InvalidRebalanceNonce expectedNonce)
         else if \<not> isLocalToLocal \<and> vs_rebalanceState (pv_store s) \<noteq> Rebalancing then Inl NoRebalanceInProgress
         else bindS (checked (add256 nonce 1)) (\<lambda>next.
           sol_collectManagementFee P timestamp (sr_lastRebalanceCompletedTimestamp r)
             (s\<lparr>pv_store := (if isLocalToLocal then pv_store s else (pv_store s)\<lparr>vs_rebalanceState := RebalanceNone\<rparr>),
                pv_rebalance := \<lparr>sr_nonce = next, sr_activeStrategy = new,
                  sr_pendingStrategy = (if isLocalToLocal then sr_pendingStrategy r else no_strategy),
                  sr_lastRebalanceCompletedTimestamp = timestamp\<rparr>\<rparr>)))"

text \<open>
  \<open>ParentVault.initiateRebalance\<close>. With a local active strategy the adapter pays out \<open>amountOut\<close>, which must not be
  zero, and a local destination finishes in the same transaction.
\<close>

definition sol_vaultInitiateRebalance ::
    "vault_params \<Rightarrow> int \<Rightarrow> int \<Rightarrow> TypesStrategy \<Rightarrow> bool \<Rightarrow> int \<Rightarrow> parent_storage \<Rightarrow> vault_error + parent_storage" where
  "sol_vaultInitiateRebalance P timestamp expectedNonce new isSupportedChain amountOut s =
     bindS (sol_initiateRebalance P timestamp expectedNonce new isSupportedChain s) (\<lambda>(s', act).
       if act = RB_NONE then Inr s'
       else if amountOut = 0 then Inl NoZeroAmount
       else if act = WITHDRAW_LOCAL_TO_LOCAL
       then sol_finalizeRebalance P timestamp (sr_nonce (pv_rebalance s)) new True s'
       else Inr s')"

definition sol_completeRebalance :: "vault_params \<Rightarrow> int \<Rightarrow> int \<Rightarrow> parent_storage \<Rightarrow> vault_error + parent_storage" where
  "sol_completeRebalance P timestamp expectedNonce s =
     (let pending = sr_pendingStrategy (pv_rebalance s)
      in if st_ChainSelector pending = vp_thisChainSelector P then Inl CannotCompleteLocalRebalance
         else sol_finalizeRebalance P timestamp expectedNonce pending False s)"

text \<open>A rebalance message from another chain; \<open>deposited\<close> says whether the deposit into the new strategy succeeded.\<close>

definition sol_receiveRebalance ::
    "vault_params \<Rightarrow> int \<Rightarrow> int \<Rightarrow> bytes32 \<Rightarrow> bool \<Rightarrow> parent_storage \<Rightarrow> vault_error + parent_storage" where
  "sol_receiveRebalance P timestamp nonce protocolId deposited s =
     (if vs_rebalanceState (pv_store s) \<noteq> Rebalancing then Inl NoRebalanceInProgress
      else if sr_nonce (pv_rebalance s) \<noteq> nonce then Inl (InvalidRebalanceNonce nonce)
      else if st_ProtocolId (sr_pendingStrategy (pv_rebalance s)) \<noteq> protocolId then Inl (InvalidPendingProtocolId protocolId)
      else if nonce \<noteq> 0 \<and> deposited
      then sol_finalizeRebalance P timestamp nonce \<lparr>st_ProtocolId = protocolId, st_ChainSelector = vp_thisChainSelector P\<rparr> False s
      else Inr s)"

text \<open>The last step of \<open>executeRecovery\<close>: the retried deposit succeeded and the rebalance is finished.\<close>

definition sol_finishRecovery :: "vault_params \<Rightarrow> int \<Rightarrow> parent_storage \<Rightarrow> vault_error + parent_storage" where
  "sol_finishRecovery P timestamp s =
     sol_finalizeRebalance P timestamp (sr_nonce (pv_rebalance s)) (sr_pendingStrategy (pv_rebalance s)) False s"

definition sol_setSupportedProtocol :: "bytes32 \<Rightarrow> bool \<Rightarrow> parent_storage \<Rightarrow> vault_error + parent_storage" where
  "sol_setSupportedProtocol protocolId isSupported s =
     (if protocolId = replicate 32 0 then Inl NoZeroProtocolId
      else if \<not> isSupported \<and> protocolId = st_ProtocolId (sr_activeStrategy (pv_rebalance s))
      then Inl (CannotRemoveActiveProtocol protocolId)
      else if \<not> isSupported \<and> protocolId = st_ProtocolId (sr_pendingStrategy (pv_rebalance s))
      then Inl (CannotRemovePendingProtocol protocolId)
      else Inr (s\<lparr>pv_supportedProtocol := (pv_supportedProtocol s)(protocolId := isSupported)\<rparr>))"

text \<open>Called when the adapter of the protocol is registered for this vault.\<close>

definition sol_setInitialActiveProtocolAdapter ::
    "vault_params \<Rightarrow> bytes32 \<Rightarrow> parent_storage \<Rightarrow> vault_error + parent_storage" where
  "sol_setInitialActiveProtocolAdapter P protocolId s =
     (if pv_initialActiveProtocolAdapterSet s then Inl InitialActiveProtocolAdapterAlreadySet
      else Inr (s\<lparr>pv_initialActiveProtocolAdapterSet := True,
                  pv_rebalance := (pv_rebalance s)\<lparr>sr_activeStrategy :=
                    \<lparr>st_ProtocolId = protocolId, st_ChainSelector = vp_thisChainSelector P\<rparr>\<rparr>\<rparr>))"

end
