(* ===== verification/Lifecycle_Invariant.thy ===== *)
theory Lifecycle_Invariant
  imports Vault_Lifecycle
begin

text \<open>
  The parent vault as a state machine: the operations of \<open>Vault_Lifecycle\<close> in any order and interleaving, the
  states they reach from initialisation, and what holds in all of them. The invariant is proved by rule
  induction, one lemma per operation.
\<close>

section \<open>The state machine\<close>

datatype vault_op = Op_Deposit address int | Op_Withdraw address int | Op_CancelDeposit address | Op_CancelWithdraw address
  | Op_ClaimShares address int | Op_ClaimAsset address int | Op_CloseEpoch int int int bool int
  | Op_CompleteEpochDeposit int int | Op_NetWithdrawArrived int int
  | Op_InitiateRebalance int int TypesStrategy bool int | Op_CompleteRebalance int int
  | Op_RebalanceArrived int int bytes32 bool | Op_FinishRecovery int | Op_SetSupportedProtocol bytes32 bool
  | Op_SetInitialStrategy bytes32

fun exec :: "vault_params \<Rightarrow> vault_op \<Rightarrow> parent_storage \<Rightarrow> vault_error + parent_storage" where
  "exec P (Op_Deposit user amount) s = sol_deposit (asset_precision (vp_assetDecimals P)) user amount s"
| "exec P (Op_Withdraw user amount) s = sol_withdraw user amount s"
| "exec P (Op_CancelDeposit user) s = sol_cancelDeposit user s"
| "exec P (Op_CancelWithdraw user) s = sol_cancelWithdraw user s"
| "exec P (Op_ClaimShares user nonce) s = map_sum id fst (sol_claimShares P user nonce s)"
| "exec P (Op_ClaimAsset user nonce) s = map_sum id fst (sol_claimAsset P user nonce s)"
| "exec P (Op_CloseEpoch ts nonce tvl isLocal amountOut) s = sol_vaultCloseEpoch P ts nonce tvl isLocal amountOut s"
| "exec P (Op_CompleteEpochDeposit nonce actual) s = sol_vaultCompleteEpochDeposit P nonce actual s"
| "exec P (Op_NetWithdrawArrived nonce received) s = sol_handleEpochNetWithdraw nonce received s"
| "exec P (Op_InitiateRebalance ts nonce new supported amountOut) s =
     sol_vaultInitiateRebalance P ts nonce new supported amountOut s"
| "exec P (Op_CompleteRebalance ts nonce) s = sol_completeRebalance P ts nonce s"
| "exec P (Op_RebalanceArrived ts nonce protocolId deposited) s = sol_receiveRebalance P ts nonce protocolId deposited s"
| "exec P (Op_FinishRecovery ts) s = sol_finishRecovery P ts s"
| "exec P (Op_SetSupportedProtocol protocolId supported) s = sol_setSupportedProtocol protocolId supported s"
| "exec P (Op_SetInitialStrategy protocolId) s = sol_setInitialActiveProtocolAdapter P protocolId s"

text \<open>The numbers of a call are 256-bit words.\<close>

fun wf_op :: "vault_op \<Rightarrow> bool" where
  "wf_op (Op_Deposit user amount) \<longleftrightarrow> u256 amount"
| "wf_op (Op_Withdraw user amount) \<longleftrightarrow> u256 amount"
| "wf_op (Op_CancelDeposit user) \<longleftrightarrow> True"
| "wf_op (Op_CancelWithdraw user) \<longleftrightarrow> True"
| "wf_op (Op_ClaimShares user nonce) \<longleftrightarrow> u256 nonce"
| "wf_op (Op_ClaimAsset user nonce) \<longleftrightarrow> u256 nonce"
| "wf_op (Op_CloseEpoch ts nonce tvl isLocal amountOut) \<longleftrightarrow> u256 ts \<and> u256 nonce \<and> u256 tvl \<and> u256 amountOut"
| "wf_op (Op_CompleteEpochDeposit nonce actual) \<longleftrightarrow> u256 nonce \<and> u256 actual"
| "wf_op (Op_NetWithdrawArrived nonce received) \<longleftrightarrow> u256 nonce \<and> u256 received"
| "wf_op (Op_InitiateRebalance ts nonce new supported amountOut) \<longleftrightarrow> u256 ts \<and> u256 nonce \<and> u256 amountOut"
| "wf_op (Op_CompleteRebalance ts nonce) \<longleftrightarrow> u256 ts \<and> u256 nonce"
| "wf_op (Op_RebalanceArrived ts nonce protocolId deposited) \<longleftrightarrow> u256 ts \<and> u256 nonce"
| "wf_op (Op_FinishRecovery ts) \<longleftrightarrow> u256 ts"
| "wf_op (Op_SetSupportedProtocol protocolId supported) \<longleftrightarrow> True"
| "wf_op (Op_SetInitialStrategy protocolId) \<longleftrightarrow> True"

inductive vault_steps :: "vault_params \<Rightarrow> parent_storage \<Rightarrow> parent_storage \<Rightarrow> bool" for P where
  steps_refl: "vault_steps P s s"
| steps_step: "vault_steps P s t \<Longrightarrow> wf_op op \<Longrightarrow> exec P op t = Inr t' \<Longrightarrow> vault_steps P s t'"

definition vault_reachable :: "vault_params \<Rightarrow> parent_storage \<Rightarrow> bool" where
  "vault_reachable P s \<longleftrightarrow> (\<exists>ts. u256 ts \<and> vault_steps P (sol_initialize ts) s)"

text \<open>Solady's two divisions, checked to 256 bits, and a supported number of decimals.\<close>

definition fullMulDivUp_doc :: "(int \<Rightarrow> int \<Rightarrow> int \<Rightarrow> int option) \<Rightarrow> bool" where
  "fullMulDivUp_doc fmu \<longleftrightarrow>
     (\<forall>x y d. u256 x \<and> u256 y \<and> u256 d \<longrightarrow>
        fmu x y d = (if d = 0 \<or> 2 ^ 256 \<le> (x * y + d - 1) div d then None else Some ((x * y + d - 1) div d)))"

definition params_doc :: "vault_params \<Rightarrow> bool" where
  "params_doc P \<longleftrightarrow> fullMulDiv_doc (vp_fullMulDiv P) \<and> fullMulDivUp_doc (vp_fullMulDivUp P) \<and>
     toInt256_doc (vp_toInt256 P) \<and> vp_assetDecimals P \<le> 77"

section \<open>The invariant\<close>

definition pending_deposits :: "parent_storage \<Rightarrow> int \<Rightarrow> int" where
  "pending_deposits s n = (\<Sum>u\<in>UNIV. pv_deposits s u n)"

definition pending_burns :: "parent_storage \<Rightarrow> int \<Rightarrow> int" where
  "pending_burns s n = (\<Sum>u\<in>UNIV. pv_withdraws s u n)"

definition epoch_u256 :: "sol_epoch \<Rightarrow> bool" where
  "epoch_u256 e \<longleftrightarrow> wf_epoch e \<and> u256 (se_remainingDepositClaimAmount e) \<and> u256 (se_remainingShareBurnAmount e) \<and>
     u256 (se_remainingWithdrawClaimAmount e)"

text \<open>An open epoch collects intents; a settled one still owes what was not claimed, and nothing else.\<close>

definition open_epoch :: "sol_epoch \<Rightarrow> int \<Rightarrow> int \<Rightarrow> bool" where
  "open_epoch e dep burn \<longleftrightarrow> se_status e = EpochOpen \<and> dep = se_totalDepositAmount e \<and> burn = se_totalShareBurnAmount e \<and>
     se_totalWithdrawClaimAmount e = 0 \<and> se_remainingWithdrawClaimAmount e = 0"

definition owing_epoch :: "sol_epoch \<Rightarrow> int \<Rightarrow> int \<Rightarrow> bool" where
  "owing_epoch e dep burn \<longleftrightarrow> dep = se_remainingDepositClaimAmount e \<and> burn = se_remainingShareBurnAmount e \<and>
     (dep = 0 \<longrightarrow> se_remainingShareMintAmount e = 0) \<and> (burn = 0 \<longrightarrow> se_remainingWithdrawClaimAmount e = 0) \<and>
     (se_status e = EpochExecuting \<longrightarrow> se_totalWithdrawClaimAmount e = se_remainingWithdrawClaimAmount e \<and>
        se_totalDepositAmount e = se_remainingDepositClaimAmount e)"

definition epoch_ok :: "int \<Rightarrow> int \<Rightarrow> sol_epoch \<Rightarrow> int \<Rightarrow> int \<Rightarrow> bool" where
  "epoch_ok cur n e dep burn \<longleftrightarrow> epoch_u256 e \<and>
     (if n \<le> 0 \<or> cur < n then e = blank_epoch \<and> dep = 0 \<and> burn = 0
      else if n = cur then open_epoch e dep burn
      else owing_epoch e dep burn \<and> (se_status e = EpochClaimable \<or> n = cur - 1 \<and> se_status e = EpochExecuting))"

definition entries_nonneg :: "parent_storage \<Rightarrow> bool" where
  "entries_nonneg s \<longleftrightarrow> (\<forall>u n. 0 \<le> pv_deposits s u n \<and> 0 \<le> pv_withdraws s u n)"

definition exclusive :: "vault_store \<Rightarrow> bool" where
  "exclusive st \<longleftrightarrow> vs_rebalanceState st = RebalanceNone \<or>
     vs_rebalanceState st = Rebalancing \<and> 1 < vs_epochNonce st \<and> se_status (vs_epochs st (vs_epochNonce st - 1)) = EpochClaimable"

definition lifecycle_ok :: "parent_storage \<Rightarrow> bool" where
  "lifecycle_ok s \<longleftrightarrow> 1 \<le> vs_epochNonce (pv_store s) \<and> vs_epochNonce (pv_store s) < 2 ^ 256 \<and> u256 (vs_totalShares (pv_store s)) \<and>
     entries_nonneg s \<and> exclusive (pv_store s) \<and>
     (\<forall>n. epoch_ok (vs_epochNonce (pv_store s)) n (vs_epochs (pv_store s) n) (pending_deposits s n) (pending_burns s n))"

section \<open>Sums over users\<close>

lemma sum_set_entry:
  "(\<Sum>u\<in>UNIV. set_entry f v n x u m) = (\<Sum>u\<in>UNIV. f u m) + (if m = n then x - f v n else 0)"
proof -
  have "(\<Sum>u\<in>UNIV. g u) = g v + (\<Sum>u\<in>UNIV - {v}. g u)" for g :: "address \<Rightarrow> int"
    by (rule sum.remove) simp_all
  moreover have "(\<Sum>u\<in>UNIV - {v}. set_entry f v n x u m) = (\<Sum>u\<in>UNIV - {v}. f u m)"
    by (rule sum.cong) (auto simp: set_entry_def)
  moreover have "set_entry f v n x v m = (if m = n then x else f v m)" by (simp add: set_entry_def)
  ultimately show ?thesis by simp
qed

lemma entry_le_sum:
  fixes f :: "address \<Rightarrow> int \<Rightarrow> int"
  assumes "\<And>u. 0 \<le> f u n"
  shows "f v n \<le> (\<Sum>u\<in>UNIV. f u n)"
  using assms by (intro member_le_sum) simp_all

lemma pending_put [simp]:
  "pending_deposits (put_epoch s n e) m = pending_deposits s m"
  "pending_burns (put_epoch s n e) m = pending_burns s m"
  by (simp_all add: pending_deposits_def pending_burns_def put_epoch_def)

lemma pending_set_entry:
  "pending_deposits (s\<lparr>pv_deposits := set_entry (pv_deposits s) v n x\<rparr>) m =
     pending_deposits s m + (if m = n then x - pv_deposits s v n else 0)"
  "pending_burns (s\<lparr>pv_withdraws := set_entry (pv_withdraws s) v n x\<rparr>) m =
     pending_burns s m + (if m = n then x - pv_withdraws s v n else 0)"
  "pending_burns (s\<lparr>pv_deposits := d\<rparr>) m = pending_burns s m"
  "pending_deposits (s\<lparr>pv_withdraws := w\<rparr>) m = pending_deposits s m"
  by (simp_all add: pending_deposits_def pending_burns_def sum_set_entry)

lemma pending_store [simp]:
  "pending_deposits (s\<lparr>pv_store := st\<rparr>) m = pending_deposits s m" "pending_burns (s\<lparr>pv_store := st\<rparr>) m = pending_burns s m"
  "pending_deposits (s\<lparr>pv_rebalance := r\<rparr>) m = pending_deposits s m" "pending_burns (s\<lparr>pv_rebalance := r\<rparr>) m = pending_burns s m"
  by (simp_all add: pending_deposits_def pending_burns_def)

lemma entries_store [simp]: "entries_nonneg (s\<lparr>pv_store := st\<rparr>) = entries_nonneg s"
  by (simp add: entries_nonneg_def)

lemma entries_set_entry:
  assumes "entries_nonneg s" "0 \<le> x"
  shows "entries_nonneg (s\<lparr>pv_deposits := set_entry (pv_deposits s) v n x\<rparr>)"
    "entries_nonneg (s\<lparr>pv_withdraws := set_entry (pv_withdraws s) v n x\<rparr>)"
  using assms by (auto simp: entries_nonneg_def set_entry_def)

lemma entry_le_pending:
  assumes "entries_nonneg s"
  shows "pv_deposits s u n \<le> pending_deposits s n" "pv_withdraws s u n \<le> pending_burns s n"
  using assms by (auto simp: entries_nonneg_def pending_deposits_def pending_burns_def intro!: entry_le_sum)

lemma checked_Inr [simp]: "checked m = Inr a \<longleftrightarrow> m = Inr a"
  by (cases m) (auto simp: checked_def)

lemma checked_simps [simp]: "checked (Inl e) = Inl (Settlement e)" "checked (Inr a) = Inr a"
  by (simp_all add: checked_def)

lemma checked_arith:
  "add256 a b = Inr c \<longleftrightarrow> a + b < 2 ^ 256 \<and> c = a + b" "sub256 a b = Inr c \<longleftrightarrow> b \<le> a \<and> c = a - b"
  "lib_call r = Inr v \<longleftrightarrow> r = Some v"
  by (auto simp: add256_def sub256_def lib_call_def split: option.splits)

lemma status_distinct [simp]:
  "EpochOpen \<noteq> EpochClaimable" "EpochOpen \<noteq> EpochExecuting" "EpochClaimable \<noteq> EpochExecuting" "EpochExecuting \<noteq> EpochClaimable"
  "EpochClaimable \<noteq> EpochOpen" "EpochExecuting \<noteq> EpochOpen" "RebalanceNone \<noteq> Rebalancing" "Rebalancing \<noteq> RebalanceNone"
  by (simp_all add: status_defs)

section \<open>Changing one epoch\<close>

lemma lifecycle_put:
  assumes ok: "lifecycle_ok s" and st: "pv_store t = pv_store s" and nonneg: "entries_nonneg t"
    and same: "\<And>m. m \<noteq> n \<Longrightarrow> pending_deposits t m = pending_deposits s m \<and> pending_burns t m = pending_burns s m"
    and new: "epoch_ok (vs_epochNonce (pv_store s)) n e (pending_deposits t n) (pending_burns t n)"
    and claim: "se_status (vs_epochs (pv_store s) n) = EpochClaimable \<Longrightarrow> se_status e = EpochClaimable"
  shows "lifecycle_ok (put_epoch t n e)"
proof -
  have "entries_nonneg (put_epoch t n e)" using nonneg by (simp add: entries_nonneg_def put_epoch_def)
  moreover have "exclusive (pv_store (put_epoch t n e))"
    using ok claim by (auto simp: lifecycle_ok_def exclusive_def put_epoch_def st)
  moreover have "epoch_ok (vs_epochNonce (pv_store s)) m (((vs_epochs (pv_store s))(n := e)) m)
      (pending_deposits t m) (pending_burns t m)" for m
    using ok new same [of m] by (auto simp: lifecycle_ok_def)
  ultimately show ?thesis
    using ok unfolding lifecycle_ok_def pending_put by (simp add: put_epoch_def st)
qed

lemma current_epoch:
  assumes "lifecycle_ok s"
  shows "open_epoch (vs_epochs (pv_store s) (vs_epochNonce (pv_store s))) (pending_deposits s (vs_epochNonce (pv_store s)))
      (pending_burns s (vs_epochNonce (pv_store s)))"
    "epoch_u256 (vs_epochs (pv_store s) n)"
  using assms by (auto simp: lifecycle_ok_def epoch_ok_def)

lemma settled_epoch:
  assumes "lifecycle_ok s" "se_status (vs_epochs (pv_store s) n) = EpochClaimable \<or> se_status (vs_epochs (pv_store s) n) = EpochExecuting"
  shows "0 < n" "n < vs_epochNonce (pv_store s)"
    "owing_epoch (vs_epochs (pv_store s) n) (pending_deposits s n) (pending_burns s n)"
    "se_status (vs_epochs (pv_store s) n) = EpochExecuting \<Longrightarrow> n = vs_epochNonce (pv_store s) - 1"
proof -
  have e: "epoch_ok (vs_epochNonce (pv_store s)) n (vs_epochs (pv_store s) n) (pending_deposits s n) (pending_burns s n)"
    using assms(1) by (simp add: lifecycle_ok_def)
  then show "0 < n" "n < vs_epochNonce (pv_store s)"
      "owing_epoch (vs_epochs (pv_store s) n) (pending_deposits s n) (pending_burns s n)"
      "se_status (vs_epochs (pv_store s) n) = EpochExecuting \<Longrightarrow> n = vs_epochNonce (pv_store s) - 1"
    using assms(2) by (auto simp: epoch_ok_def open_epoch_def blank_epoch_def status_defs split: if_splits)
qed

section \<open>User operations keep it\<close>

text \<open>Changing the intents of the open epoch, or what a claimable epoch still owes.\<close>

lemma put_open:
  assumes ok: "lifecycle_ok s" and st: "pv_store t = pv_store s" and nonneg: "entries_nonneg t"
    and same: "\<And>m. m \<noteq> vs_epochNonce (pv_store s) \<Longrightarrow> pending_deposits t m = pending_deposits s m \<and> pending_burns t m = pending_burns s m"
    and e: "epoch_u256 e" "open_epoch e (pending_deposits t (vs_epochNonce (pv_store s))) (pending_burns t (vs_epochNonce (pv_store s)))"
  shows "lifecycle_ok (put_epoch t (vs_epochNonce (pv_store s)) e)"
proof (rule lifecycle_put [OF ok st nonneg same])
  show "epoch_ok (vs_epochNonce (pv_store s)) (vs_epochNonce (pv_store s)) e
      (pending_deposits t (vs_epochNonce (pv_store s))) (pending_burns t (vs_epochNonce (pv_store s)))"
    using ok e by (simp add: epoch_ok_def lifecycle_ok_def)
  show "se_status e = EpochClaimable" if "se_status (vs_epochs (pv_store s) (vs_epochNonce (pv_store s))) = EpochClaimable"
    using current_epoch(1) [OF ok] that by (simp add: open_epoch_def)
qed simp_all

lemma put_claimed:
  assumes ok: "lifecycle_ok s" and st: "pv_store t = pv_store s" and nonneg: "entries_nonneg t"
    and same: "\<And>m. m \<noteq> n \<Longrightarrow> pending_deposits t m = pending_deposits s m \<and> pending_burns t m = pending_burns s m"
    and old: "se_status (vs_epochs (pv_store s) n) = EpochClaimable \<or> se_status (vs_epochs (pv_store s) n) = EpochExecuting"
    and e: "epoch_u256 e" "owing_epoch e (pending_deposits t n) (pending_burns t n)" "se_status e = EpochClaimable"
  shows "lifecycle_ok (put_epoch t n e)"
  using settled_epoch(1,2) [OF ok old] e
  by (intro lifecycle_put [OF ok st nonneg same]) (simp_all add: epoch_ok_def)

lemma put_open_deposits:
  assumes ok: "lifecycle_ok s" and x: "0 \<le> x"
    and new: "v = se_totalDepositAmount (vs_epochs (pv_store s) (vs_epochNonce (pv_store s))) + x -
      pv_deposits s user (vs_epochNonce (pv_store s))" "u256 v"
  shows "lifecycle_ok (put_epoch (s\<lparr>pv_deposits := set_entry (pv_deposits s) user (vs_epochNonce (pv_store s)) x\<rparr>)
    (vs_epochNonce (pv_store s)) ((vs_epochs (pv_store s) (vs_epochNonce (pv_store s)))\<lparr>se_totalDepositAmount := v\<rparr>))"
proof (rule put_open [OF ok])
  show "entries_nonneg (s\<lparr>pv_deposits := set_entry (pv_deposits s) user (vs_epochNonce (pv_store s)) x\<rparr>)"
    using ok x by (intro entries_set_entry) (simp_all add: lifecycle_ok_def)
qed (use current_epoch(1) [OF ok] current_epoch(2) [OF ok, of "vs_epochNonce (pv_store s)"] new in
  \<open>simp_all add: pending_set_entry open_epoch_def epoch_u256_def wf_epoch_def\<close>)

lemma put_open_burns:
  assumes ok: "lifecycle_ok s" and x: "0 \<le> x"
    and new: "v = se_totalShareBurnAmount (vs_epochs (pv_store s) (vs_epochNonce (pv_store s))) + x -
      pv_withdraws s user (vs_epochNonce (pv_store s))" "u256 v"
  shows "lifecycle_ok (put_epoch (s\<lparr>pv_withdraws := set_entry (pv_withdraws s) user (vs_epochNonce (pv_store s)) x\<rparr>)
    (vs_epochNonce (pv_store s)) ((vs_epochs (pv_store s) (vs_epochNonce (pv_store s)))\<lparr>se_totalShareBurnAmount := v\<rparr>))"
proof (rule put_open [OF ok])
  show "entries_nonneg (s\<lparr>pv_withdraws := set_entry (pv_withdraws s) user (vs_epochNonce (pv_store s)) x\<rparr>)"
    using ok x by (intro entries_set_entry) (simp_all add: lifecycle_ok_def)
qed (use current_epoch(1) [OF ok] current_epoch(2) [OF ok, of "vs_epochNonce (pv_store s)"] new in
  \<open>simp_all add: pending_set_entry open_epoch_def epoch_u256_def wf_epoch_def\<close>)

lemma current_totals:
  assumes "lifecycle_ok s"
  shows "u256 (se_totalDepositAmount (vs_epochs (pv_store s) n))" "u256 (se_totalShareBurnAmount (vs_epochs (pv_store s) n))"
    "0 \<le> pv_deposits s u n" "0 \<le> pv_withdraws s u n"
  using assms current_epoch(2) [OF assms, of n]
  by (auto simp: lifecycle_ok_def entries_nonneg_def epoch_u256_def wf_epoch_def)

lemma user_intents_keep:
  assumes ok: "lifecycle_ok s"
  shows "0 \<le> amount \<Longrightarrow> sol_deposit m user amount s = Inr s' \<Longrightarrow> lifecycle_ok s'"
    and "0 \<le> amount \<Longrightarrow> sol_withdraw user amount s = Inr s' \<Longrightarrow> lifecycle_ok s'"
    and "sol_cancelDeposit user s = Inr s' \<Longrightarrow> lifecycle_ok s'"
    and "sol_cancelWithdraw user s = Inr s' \<Longrightarrow> lifecycle_ok s'"
  using current_totals(1,2) [OF ok, of "vs_epochNonce (pv_store s)"] current_totals(3,4) [OF ok, of user "vs_epochNonce (pv_store s)"]
  by (auto simp: sol_deposit_def sol_withdraw_def sol_cancelDeposit_def sol_cancelWithdraw_def Let_def bindS_Inr_iff checked_arith
      intro!: put_open_deposits put_open_burns ok split: if_splits)

text \<open>A claim takes its part of what is left, and the last one takes the rest.\<close>

definition claim_part :: "int \<Rightarrow> int \<Rightarrow> int \<Rightarrow> int" where
  "claim_part amount pool remaining = (if amount \<noteq> remaining then amount * pool div remaining else pool)"

lemma claim_part_bounds:
  assumes "0 \<le> pool" "0 \<le> amount" "amount \<le> remaining" "0 < remaining"
  shows "0 \<le> claim_part amount pool remaining" "claim_part amount pool remaining \<le> pool"
  using scaled_down [of pool amount remaining] assms by (auto simp: claim_part_def mult.commute)

lemma claim_part_computed:
  assumes doc: "fullMulDiv_doc fmd" and "u256 pool" "u256 remaining" "0 \<le> amount" "amount \<le> remaining" "amount \<noteq> 0"
  shows "(if amount \<noteq> remaining then checked (lib_call (fmd amount pool remaining)) else Inr pool) =
    Inr (claim_part amount pool remaining)"
proof -
  have "fmd amount pool remaining = (if remaining = 0 \<or> 2 ^ 256 \<le> amount * pool div remaining then None
      else Some (amount * pool div remaining))"
    using doc [unfolded fullMulDiv_doc_def] assms(2-5) by auto
  moreover have "amount * pool div remaining \<le> pool" "0 < remaining"
    using scaled_down [of pool amount remaining] assms(2-6) by (auto simp: mult.commute)
  ultimately show ?thesis using assms(2) by (auto simp: claim_part_def lib_call_def checked_def)
qed

lemma owing_entries:
  assumes ok: "lifecycle_ok s" and "se_status (vs_epochs (pv_store s) n) = EpochClaimable"
  shows "0 \<le> pv_deposits s u n" "pv_deposits s u n \<le> se_remainingDepositClaimAmount (vs_epochs (pv_store s) n)"
    "u256 (se_remainingDepositClaimAmount (vs_epochs (pv_store s) n))" "u256 (se_remainingShareMintAmount (vs_epochs (pv_store s) n))"
    "0 \<le> pv_withdraws s u n" "pv_withdraws s u n \<le> se_remainingShareBurnAmount (vs_epochs (pv_store s) n)"
    "u256 (se_remainingShareBurnAmount (vs_epochs (pv_store s) n))" "u256 (se_remainingWithdrawClaimAmount (vs_epochs (pv_store s) n))"
  using settled_epoch(3) [OF ok, of n] assms(2) current_epoch(2) [OF ok, of n] current_totals(3,4) [OF ok, of u n]
    entry_le_pending [of s u n] ok
  by (auto simp: owing_epoch_def epoch_u256_def wf_epoch_def lifecycle_ok_def)

definition shares_claimed :: "parent_storage \<Rightarrow> address \<Rightarrow> int \<Rightarrow> int" where
  "shares_claimed s user n = (let e = vs_epochs (pv_store s) n
     in claim_part (pv_deposits s user n) (se_remainingShareMintAmount e) (se_remainingDepositClaimAmount e))"

definition assets_claimed :: "parent_storage \<Rightarrow> address \<Rightarrow> int \<Rightarrow> int" where
  "assets_claimed s user n = (let e = vs_epochs (pv_store s) n
     in claim_part (pv_withdraws s user n) (se_remainingWithdrawClaimAmount e) (se_remainingShareBurnAmount e))"

lemma claimShares_succeeds:
  assumes doc: "fullMulDiv_doc (vp_fullMulDiv P)" and ok: "lifecycle_ok s"
    and st: "se_status (vs_epochs (pv_store s) n) = EpochClaimable" and d: "pv_deposits s user n \<noteq> 0"
  shows "sol_claimShares P user n s = Inr (put_epoch (s\<lparr>pv_deposits := set_entry (pv_deposits s) user n 0\<rparr>) n
     ((vs_epochs (pv_store s) n)
       \<lparr>se_remainingDepositClaimAmount := se_remainingDepositClaimAmount (vs_epochs (pv_store s) n) - pv_deposits s user n,
        se_remainingShareMintAmount := se_remainingShareMintAmount (vs_epochs (pv_store s) n) - shares_claimed s user n\<rparr>),
     shares_claimed s user n)"
proof -
  note o = owing_entries(1,2) [OF ok st, of user] owing_entries(3,4) [OF ok st]
    owing_entries(5,6) [OF ok st, of user] owing_entries(7,8) [OF ok st]
  note c = claim_part_computed [OF doc o(4) o(3) o(1,2) d] claim_part_bounds(2) [of "se_remainingShareMintAmount (vs_epochs (pv_store s) n)"
      "pv_deposits s user n" "se_remainingDepositClaimAmount (vs_epochs (pv_store s) n)"]
  show ?thesis using o st d c(2) unfolding sol_claimShares_def Let_def c(1) by (simp add: sub256_def shares_claimed_def Let_def not_less)
qed

lemma claimAsset_succeeds:
  assumes doc: "fullMulDiv_doc (vp_fullMulDiv P)" and ok: "lifecycle_ok s"
    and st: "se_status (vs_epochs (pv_store s) n) = EpochClaimable" and d: "pv_withdraws s user n \<noteq> 0"
  shows "sol_claimAsset P user n s = Inr (put_epoch (s\<lparr>pv_withdraws := set_entry (pv_withdraws s) user n 0\<rparr>) n
     ((vs_epochs (pv_store s) n)
       \<lparr>se_remainingShareBurnAmount := se_remainingShareBurnAmount (vs_epochs (pv_store s) n) - pv_withdraws s user n,
        se_remainingWithdrawClaimAmount := se_remainingWithdrawClaimAmount (vs_epochs (pv_store s) n) - assets_claimed s user n\<rparr>),
     assets_claimed s user n)"
proof -
  note o = owing_entries(1,2) [OF ok st, of user] owing_entries(3,4) [OF ok st]
    owing_entries(5,6) [OF ok st, of user] owing_entries(7,8) [OF ok st]
  note c = claim_part_computed [OF doc o(8) o(7) o(5,6) d] claim_part_bounds(2) [of "se_remainingWithdrawClaimAmount (vs_epochs (pv_store s) n)"
      "pv_withdraws s user n" "se_remainingShareBurnAmount (vs_epochs (pv_store s) n)"]
  show ?thesis using o st d c(2) unfolding sol_claimAsset_def Let_def c(1) by (simp add: sub256_def assets_claimed_def Let_def not_less)
qed

lemma claimed_owing:
  assumes "epoch_u256 e" "owing_epoch e dep burn" "se_status e = EpochClaimable" "0 \<le> x" "0 \<le> m"
  shows "x \<le> se_remainingDepositClaimAmount e \<Longrightarrow> m \<le> se_remainingShareMintAmount e \<Longrightarrow>
      (x = se_remainingDepositClaimAmount e \<Longrightarrow> m = se_remainingShareMintAmount e) \<Longrightarrow>
      owing_epoch (e\<lparr>se_remainingDepositClaimAmount := se_remainingDepositClaimAmount e - x,
        se_remainingShareMintAmount := se_remainingShareMintAmount e - m\<rparr>) (dep - x) burn \<and>
      epoch_u256 (e\<lparr>se_remainingDepositClaimAmount := se_remainingDepositClaimAmount e - x,
        se_remainingShareMintAmount := se_remainingShareMintAmount e - m\<rparr>)"
    and "x \<le> se_remainingShareBurnAmount e \<Longrightarrow> m \<le> se_remainingWithdrawClaimAmount e \<Longrightarrow>
      (x = se_remainingShareBurnAmount e \<Longrightarrow> m = se_remainingWithdrawClaimAmount e) \<Longrightarrow>
      owing_epoch (e\<lparr>se_remainingShareBurnAmount := se_remainingShareBurnAmount e - x,
        se_remainingWithdrawClaimAmount := se_remainingWithdrawClaimAmount e - m\<rparr>) dep (burn - x) \<and>
      epoch_u256 (e\<lparr>se_remainingShareBurnAmount := se_remainingShareBurnAmount e - x,
        se_remainingWithdrawClaimAmount := se_remainingWithdrawClaimAmount e - m\<rparr>)"
  using assms by (simp_all add: owing_epoch_def epoch_u256_def wf_epoch_def)

lemma claimShares_keeps:
  assumes doc: "fullMulDiv_doc (vp_fullMulDiv P)" and ok: "lifecycle_ok s" and run: "sol_claimShares P user n s = Inr (s', m)"
  shows "lifecycle_ok s'"
proof -
  from run have st: "se_status (vs_epochs (pv_store s) n) = EpochClaimable" and d: "pv_deposits s user n \<noteq> 0"
    by (auto simp: sol_claimShares_def Let_def split: if_splits)
  note o = owing_entries(1,2) [OF ok st, of user] owing_entries(3,4) [OF ok st]
  have b: "0 \<le> shares_claimed s user n" "shares_claimed s user n \<le> se_remainingShareMintAmount (vs_epochs (pv_store s) n)"
    unfolding shares_claimed_def Let_def by (rule claim_part_bounds; use o d in simp)+
  have all: "pv_deposits s user n = se_remainingDepositClaimAmount (vs_epochs (pv_store s) n) \<Longrightarrow>
      shares_claimed s user n = se_remainingShareMintAmount (vs_epochs (pv_store s) n)"
    by (simp add: shares_claimed_def claim_part_def Let_def)
  note c = claimed_owing(1) [OF current_epoch(2) [OF ok] settled_epoch(3) [OF ok disjI1 [OF st]] st o(1) b(1) o(2) b(2) all]
  have nn: "entries_nonneg s" using ok by (simp add: lifecycle_ok_def)
  have "s' = put_epoch (s\<lparr>pv_deposits := set_entry (pv_deposits s) user n 0\<rparr>) n ((vs_epochs (pv_store s) n)
       \<lparr>se_remainingDepositClaimAmount := se_remainingDepositClaimAmount (vs_epochs (pv_store s) n) - pv_deposits s user n,
        se_remainingShareMintAmount := se_remainingShareMintAmount (vs_epochs (pv_store s) n) - shares_claimed s user n\<rparr>)"
    using run unfolding claimShares_succeeds [OF doc ok st d] by auto
  also have "lifecycle_ok \<dots>"
    by (rule put_claimed [OF ok _ entries_set_entry(1) [OF nn]]) (use c st in \<open>simp_all add: pending_set_entry\<close>)
  finally show ?thesis .
qed

lemma claimAsset_keeps:
  assumes doc: "fullMulDiv_doc (vp_fullMulDiv P)" and ok: "lifecycle_ok s" and run: "sol_claimAsset P user n s = Inr (s', m)"
  shows "lifecycle_ok s'"
proof -
  from run have st: "se_status (vs_epochs (pv_store s) n) = EpochClaimable" and d: "pv_withdraws s user n \<noteq> 0"
    by (auto simp: sol_claimAsset_def Let_def split: if_splits)
  note o = owing_entries(5,6) [OF ok st, of user] owing_entries(7,8) [OF ok st]
  have b: "0 \<le> assets_claimed s user n" "assets_claimed s user n \<le> se_remainingWithdrawClaimAmount (vs_epochs (pv_store s) n)"
    unfolding assets_claimed_def Let_def by (rule claim_part_bounds; use o d in simp)+
  have all: "pv_withdraws s user n = se_remainingShareBurnAmount (vs_epochs (pv_store s) n) \<Longrightarrow>
      assets_claimed s user n = se_remainingWithdrawClaimAmount (vs_epochs (pv_store s) n)"
    by (simp add: assets_claimed_def claim_part_def Let_def)
  note c = claimed_owing(2) [OF current_epoch(2) [OF ok] settled_epoch(3) [OF ok disjI1 [OF st]] st o(1) b(1) o(2) b(2) all]
  have nn: "entries_nonneg s" using ok by (simp add: lifecycle_ok_def)
  have "s' = put_epoch (s\<lparr>pv_withdraws := set_entry (pv_withdraws s) user n 0\<rparr>) n ((vs_epochs (pv_store s) n)
       \<lparr>se_remainingShareBurnAmount := se_remainingShareBurnAmount (vs_epochs (pv_store s) n) - pv_withdraws s user n,
        se_remainingWithdrawClaimAmount := se_remainingWithdrawClaimAmount (vs_epochs (pv_store s) n) - assets_claimed s user n\<rparr>)"
    using run unfolding claimAsset_succeeds [OF doc ok st d] by auto
  also have "lifecycle_ok \<dots>"
    by (rule put_claimed [OF ok _ entries_set_entry(2) [OF nn]]) (use c st in \<open>simp_all add: pending_set_entry\<close>)
  finally show ?thesis .
qed

section \<open>Settlement keeps it\<close>

lemma lifecycle_wf_store: "lifecycle_ok s \<Longrightarrow> wf_store (pv_store s)"
  using current_epoch(2) by (simp add: wf_store_def lifecycle_ok_def epoch_u256_def)

lemma advance_keeps:
  assumes ok: "lifecycle_ok s" and none: "vs_rebalanceState (pv_store s) = RebalanceNone"
    and prev: "vs_epochNonce (pv_store s) = 1 \<or> se_status (vs_epochs (pv_store s) (vs_epochNonce (pv_store s) - 1)) = EpochClaimable"
    and bounds: "vs_epochNonce (pv_store s) + 1 < 2 ^ 256" "u256 ts" "u256 shares'"
    and e: "epoch_u256 e" "owing_epoch e (pending_deposits s (vs_epochNonce (pv_store s))) (pending_burns s (vs_epochNonce (pv_store s)))"
      "se_status e = EpochClaimable \<or> se_status e = EpochExecuting"
  shows "lifecycle_ok (s\<lparr>pv_store := (pv_store s)\<lparr>vs_totalShares := shares', vs_epochNonce := vs_epochNonce (pv_store s) + 1,
    vs_epochs := (vs_epochs (pv_store s))(vs_epochNonce (pv_store s) := e,
      vs_epochNonce (pv_store s) + 1 := blank_epoch\<lparr>se_status := EpochOpen, se_openedAtTimestamp := ts\<rparr>)\<rparr>\<rparr>)"
proof -
  let ?cur = "vs_epochNonce (pv_store s)"
  let ?new = "blank_epoch\<lparr>se_status := EpochOpen, se_openedAtTimestamp := ts\<rparr>"
  have old: "epoch_ok ?cur m (vs_epochs (pv_store s) m) (pending_deposits s m) (pending_burns s m)" for m
    using ok by (simp add: lifecycle_ok_def)
  have one: "1 \<le> ?cur" using ok by (simp add: lifecycle_ok_def)
  have "epoch_ok (?cur + 1) m (((vs_epochs (pv_store s))(?cur := e, ?cur + 1 := ?new)) m) (pending_deposits s m) (pending_burns s m)"
    for m
  proof -
    consider "m = ?cur + 1" | "m = ?cur" | "m \<le> 0 \<or> ?cur + 1 < m" | "0 < m" "m < ?cur" by linarith
    then show ?thesis
    proof cases
      case 1
      then show ?thesis using old [of m] bounds(2) one
        by (simp add: epoch_ok_def open_epoch_def epoch_u256_def wf_epoch_def blank_epoch_def)
    next
      case 4
      then show ?thesis using old [of m] prev by (auto simp: epoch_ok_def)
    qed (use old [of m] one e in \<open>auto simp: epoch_ok_def\<close>)
  qed
  then show ?thesis
    using ok bounds none by (simp add: lifecycle_ok_def exclusive_def entries_nonneg_def)
qed

lemma close_amounts_zero:
  assumes "close_amounts deposit burn shares tvl ap = Ok (w, n)"
  shows "deposit = 0 \<Longrightarrow> n = 0" "burn = 0 \<Longrightarrow> w = 0"
  using assms by (auto simp: close_amounts_def mulDivDown_def quo_trunc_def bindO_Ok_iff Let_def split: if_splits)

text \<open>What a successful close leaves behind: the settled epoch and the next one, open.\<close>

definition closed_epoch :: "sol_epoch \<Rightarrow> int \<Rightarrow> int \<Rightarrow> bool \<Rightarrow> int \<Rightarrow> sol_epoch" where
  "closed_epoch e w n isLocal amountOut =
     (let e1 = e\<lparr>se_remainingDepositClaimAmount := se_totalDepositAmount e, se_remainingShareMintAmount := n,
                 se_remainingShareBurnAmount := se_totalShareBurnAmount e\<rparr>;
          local = isLocal \<and> se_totalDepositAmount e < w;
          paid = (if local then se_totalDepositAmount e + amountOut else w)
      in e1\<lparr>se_totalWithdrawClaimAmount := paid, se_remainingWithdrawClaimAmount := paid,
            se_status := (if local \<or> w = se_totalDepositAmount e \<or> isLocal then EpochClaimable else EpochExecuting)\<rparr>)"

lemma close_Inr:
  assumes doc: "params_doc P" and wf: "wf_store (pv_store s)" and tvl: "u256 tvl"
    and blank: "vs_epochs (pv_store s) (vs_epochNonce (pv_store s) + 1) = blank_epoch"
    and cur_def: "cur = vs_epochNonce (pv_store s)" and e_def: "e = vs_epochs (pv_store s) cur"
    and run: "sol_vaultCloseEpoch P ts nonce tvl isLocal amountOut s = Inr s'"
  shows "close_guards (pv_store s) ts nonce \<and> cur + 1 < 2 ^ 256 \<and> (\<exists>w n.
    close_amounts (se_totalDepositAmount e) (se_totalShareBurnAmount e) (vs_totalShares (pv_store s)) tvl
      (asset_precision (vp_assetDecimals P)) = Ok (w, n) \<and>
    close_admissible (se_totalDepositAmount e) (se_totalShareBurnAmount e) (vs_totalShares (pv_store s))
      (asset_precision (vp_assetDecimals P)) isLocal w n \<and>
    (isLocal \<and> se_totalDepositAmount e < w \<longrightarrow> se_totalDepositAmount e + amountOut < 2 ^ 256) \<and>
    s' = s\<lparr>pv_store := (pv_store s)\<lparr>vs_totalShares := vs_totalShares (pv_store s) + n - se_totalShareBurnAmount e,
      vs_epochNonce := cur + 1,
      vs_epochs := (vs_epochs (pv_store s))(cur := closed_epoch e w n isLocal amountOut,
        cur + 1 := blank_epoch\<lparr>se_status := EpochOpen, se_openedAtTimestamp := ts\<rparr>)\<rparr>\<rparr>)"
proof -
  have docs: "fullMulDiv_doc (vp_fullMulDiv P)" "toInt256_doc (vp_toInt256 P)" "vp_assetDecimals P \<le> 77"
    using doc by (simp_all add: params_doc_def)
  from run obtain store act where c: "sol_closeEpoch (vp_fullMulDiv P) (vp_toInt256 P) sharePrecision
      (asset_precision (vp_assetDecimals P)) (asset_precision (vp_assetDecimals P)) (pv_store s) ts nonce tvl isLocal = Inr (store, act)"
    and rest: "bindS (if ca_action act = WITHDRAW_FROM_LOCAL_STRATEGY
                then sol_finalizeLocalNetWithdraw (ca_epochNonce act) (ca_totalDepositAmount act) amountOut (s\<lparr>pv_store := store\<rparr>)
                else Inr (s\<lparr>pv_store := store\<rparr>)) (sol_openNextEpoch ts (ca_epochNonce act)) = Inr s'"
    by (auto simp: sol_vaultCloseEpoch_def bindS_Inr_iff [of "checked _"] split: prod.splits)
  from c [unfolded sol_closeEpoch_Inr [OF docs(1,2) wf tvl docs(3)] preflight_close_Ok [OF wf tvl docs(3)]] obtain w n a where
    g: "close_guards (pv_store s) ts nonce" and
    acc: "close_accounting (se_totalDepositAmount e) (se_totalShareBurnAmount e) (vs_totalShares (pv_store s)) tvl
      (asset_precision (vp_assetDecimals P)) isLocal w n a" and sa: "(store, act) = settled (pv_store s) isLocal a"
    unfolding e_def cur_def by blast
  have a: "a = \<lparr>ea_TotalWithdraw = w, ea_NewShares = n, ea_NetFlow = se_totalDepositAmount e - w,
      ea_TotalShares = vs_totalShares (pv_store s) + n - se_totalShareBurnAmount e\<rparr>"
    using acc by (simp add: close_accounting_def)
  show ?thesis
    using rest sa g acc blank unfolding cur_def [symmetric]
    by (simp add: settled_def settle_def a Let_def e_def [symmetric] cur_def [symmetric] close_accounting_def)
      (auto simp: e_def [symmetric] sol_finalizeLocalNetWithdraw_def sol_openNextEpoch_def bindS_Inr_iff checked_arith put_epoch_def
        closed_epoch_def Let_def split: if_splits)
qed

lemma closed_epoch_owes:
  assumes e: "epoch_u256 e" "open_epoch e dep burn" and out: "0 \<le> amountOut"
    and am: "close_amounts dep burn shares tvl ap = Ok (w, n)"
    and fits: "isLocal \<and> dep < w \<longrightarrow> dep + amountOut < 2 ^ 256"
  shows "epoch_u256 (closed_epoch e w n isLocal amountOut)" "owing_epoch (closed_epoch e w n isLocal amountOut) dep burn"
    "se_status (closed_epoch e w n isLocal amountOut) = EpochClaimable \<or> se_status (closed_epoch e w n isLocal amountOut) = EpochExecuting"
  using e out close_amounts_u256 [OF am] fits close_amounts_zero [OF am]
  by (auto simp: closed_epoch_def Let_def epoch_u256_def wf_epoch_def open_epoch_def owing_epoch_def)

lemma close_keeps:
  assumes doc: "params_doc P" and ok: "lifecycle_ok s" and u: "u256 tvl" "u256 ts" "0 \<le> amountOut"
    and run: "sol_vaultCloseEpoch P ts nonce tvl isLocal amountOut s = Inr s'"
  shows "lifecycle_ok s'"
proof -
  define cur where "cur = vs_epochNonce (pv_store s)"
  define e where "e = vs_epochs (pv_store s) cur"
  have blank: "vs_epochs (pv_store s) (vs_epochNonce (pv_store s) + 1) = blank_epoch"
    using ok by (simp add: lifecycle_ok_def epoch_ok_def)
  note o = current_epoch(1) [OF ok, folded cur_def, folded e_def] current_epoch(2) [OF ok, of cur, folded e_def]
  have de: "pending_deposits s cur = se_totalDepositAmount e" "pending_burns s cur = se_totalShareBurnAmount e"
    using o(1) by (simp_all add: open_epoch_def)
  from close_Inr [OF doc lifecycle_wf_store [OF ok] u(1) blank cur_def e_def run] obtain w n where
    g: "close_guards (pv_store s) ts nonce" "cur + 1 < 2 ^ 256" and
    am: "close_amounts (pending_deposits s cur) (pending_burns s cur) (vs_totalShares (pv_store s)) tvl
      (asset_precision (vp_assetDecimals P)) = Ok (w, n)" and
    adm: "close_admissible (pending_deposits s cur) (pending_burns s cur) (vs_totalShares (pv_store s))
      (asset_precision (vp_assetDecimals P)) isLocal w n" and
    fits: "isLocal \<and> pending_deposits s cur < w \<longrightarrow> pending_deposits s cur + amountOut < 2 ^ 256" and
    s': "s' = s\<lparr>pv_store := (pv_store s)\<lparr>vs_totalShares := vs_totalShares (pv_store s) + n - se_totalShareBurnAmount e,
      vs_epochNonce := cur + 1,
      vs_epochs := (vs_epochs (pv_store s))(cur := closed_epoch e w n isLocal amountOut,
        cur + 1 := blank_epoch\<lparr>se_status := EpochOpen, se_openedAtTimestamp := ts\<rparr>)\<rparr>\<rparr>"
    unfolding de by blast
  note c = closed_epoch_owes [OF o(2,1) u(3) am fits]
  have "0 \<le> se_totalShareBurnAmount e" "u256 (vs_totalShares (pv_store s))"
    using o(2) ok by (simp_all add: epoch_u256_def wf_epoch_def lifecycle_ok_def)
  then have "u256 (vs_totalShares (pv_store s) + n - se_totalShareBurnAmount e)"
    using adm unfolding close_admissible_def de by linarith
  then show ?thesis
    unfolding s' unfolding cur_def
    by (intro advance_keeps [OF ok]) (use g u c in \<open>auto simp: close_guards_def cur_def\<close>)
qed

lemma replace_store:
  assumes "lifecycle_ok s" "vs_epochNonce st = vs_epochNonce (pv_store s)" "vs_epochs st = vs_epochs (pv_store s)"
    "u256 (vs_totalShares st)" "exclusive st"
  shows "lifecycle_ok (s\<lparr>pv_store := st\<rparr>)"
  using assms by (simp add: lifecycle_ok_def)

lemma set_shares_keeps:
  assumes "lifecycle_ok s" "u256 v"
  shows "lifecycle_ok (s\<lparr>pv_store := (pv_store s)\<lparr>vs_totalShares := v\<rparr>\<rparr>)"
  using assms by (intro replace_store) (simp_all add: lifecycle_ok_def exclusive_def)

lemma reconcile_reduces:
  assumes "reconcile_admissible deposit withdraw mint shares actual adjusted" "0 \<le> withdraw" "0 \<le> mint" "0 \<le> shares"
  shows "0 \<le> adjusted" "adjusted \<le> mint" "0 < deposit" "mint - adjusted \<le> shares"
  using assms scaled_down [of mint "withdraw + actual" deposit] by (auto simp: reconcile_admissible_def split: if_splits)

lemma complete_keeps:
  assumes doc: "params_doc P" and ok: "lifecycle_ok s" and u: "u256 actual"
    and run: "sol_vaultCompleteEpochDeposit P nonce actual s = Inr s'"
  shows "lifecycle_ok s'"
proof -
  define n where "n = vs_epochNonce (pv_store s) - 1"
  define e where "e = vs_epochs (pv_store s) n"
  have wf: "wf_store (pv_store s)" by (rule lifecycle_wf_store [OF ok])
  have fmd: "fullMulDiv_doc (vp_fullMulDiv P)" using doc by (simp add: params_doc_def)
  from run obtain store where "sol_completeEpochDeposit (vp_fullMulDiv P) (pv_store s) nonce actual = Inr store"
    and s': "s' = s\<lparr>pv_store := store\<rparr>"
    by (auto simp: sol_vaultCompleteEpochDeposit_def bindS_Inr_iff)
  from this(1) [unfolded sol_completeEpochDeposit_Inr [OF fmd wf u]] obtain adjusted where
    st: "se_status e = EpochExecuting" and pre: "preflight_complete (pv_store s) actual = Ok adjusted"
    and store: "store = completed (pv_store s) adjusted"
    by (auto simp: n_def e_def)
  have ue: "epoch_u256 e" unfolding e_def by (rule current_epoch(2) [OF ok])
  have adm: "reconcile_admissible (se_totalDepositAmount e) (se_totalWithdrawClaimAmount e) (se_remainingShareMintAmount e)
      (vs_totalShares (pv_store s)) actual adjusted"
    using pre [unfolded preflight_complete_def] wf u
    by (subst (asm) reconcileEpochDeposit_Ok [where deposit = "se_totalDepositAmount e" and withdraw = "se_totalWithdrawClaimAmount e"
          and mint = "se_remainingShareMintAmount e"])
      (simp_all add: epoch_of_storage_def e_def n_def wf_store_def wf_epoch_def)
  have bounds: "0 \<le> adjusted" "adjusted \<le> se_remainingShareMintAmount e" "0 < se_totalDepositAmount e"
      "se_remainingShareMintAmount e - adjusted \<le> vs_totalShares (pv_store s)"
    by (rule reconcile_reduces [OF adm]; use ue ok in \<open>simp add: epoch_u256_def wf_epoch_def lifecycle_ok_def\<close>)+
  have "lifecycle_ok (put_epoch s n (e\<lparr>se_remainingShareMintAmount := adjusted, se_status := EpochClaimable\<rparr>))"
    by (rule put_claimed [OF ok])
      (use settled_epoch(3) [OF ok, of n] st ue ok bounds in
        \<open>auto simp: e_def [symmetric] epoch_u256_def wf_epoch_def owing_epoch_def lifecycle_ok_def\<close>)
  moreover have "s' = (put_epoch s n (e\<lparr>se_remainingShareMintAmount := adjusted, se_status := EpochClaimable\<rparr>))
      \<lparr>pv_store := (pv_store (put_epoch s n (e\<lparr>se_remainingShareMintAmount := adjusted, se_status := EpochClaimable\<rparr>)))
        \<lparr>vs_totalShares := vs_totalShares (pv_store s) - (se_remainingShareMintAmount e - adjusted)\<rparr>\<rparr>"
    by (simp add: s' store completed_def put_epoch_def Let_def e_def n_def)
  moreover have "u256 (vs_totalShares (pv_store s) - (se_remainingShareMintAmount e - adjusted))"
    using ok bounds by (simp add: lifecycle_ok_def)
  ultimately show ?thesis using set_shares_keeps by simp
qed

lemma net_withdraw_keeps:
  assumes ok: "lifecycle_ok s" and u: "0 \<le> received" and run: "sol_handleEpochNetWithdraw nonce received s = Inr s'"
  shows "lifecycle_ok s'"
proof -
  define e where "e = vs_epochs (pv_store s) nonce"
  from run have st: "se_status e = EpochExecuting" and net: "se_totalDepositAmount e < se_totalWithdrawClaimAmount e"
    and fits: "se_totalDepositAmount e + received < 2 ^ 256" and
    s': "s' = put_epoch s nonce (e\<lparr>se_totalWithdrawClaimAmount := se_totalDepositAmount e + received,
      se_remainingWithdrawClaimAmount := se_totalDepositAmount e + received, se_status := EpochClaimable\<rparr>)"
    by (auto simp: sol_handleEpochNetWithdraw_def bindS_Inr_iff checked_arith Let_def e_def split: if_splits)
  have ue: "epoch_u256 e" unfolding e_def by (rule current_epoch(2) [OF ok])
  show ?thesis
    unfolding s'
    by (rule put_claimed [OF ok])
      (use settled_epoch(3) [OF ok, of nonce] st ue ok u fits net in
        \<open>auto simp: e_def [symmetric] epoch_u256_def wf_epoch_def owing_epoch_def lifecycle_ok_def\<close>)
qed

section \<open>Rebalancing keeps it\<close>

lemma fee_keeps:
  assumes doc: "params_doc P" and ok: "lifecycle_ok s" and run: "sol_collectManagementFee P ts last0 s = Inr s'"
  shows "lifecycle_ok s'"
proof -
  let ?n = "vs_totalShares (pv_store s)"
  have u: "u256 ?n" using ok by (simp add: lifecycle_ok_def)
  define elapsed where "elapsed = min (ts - last0) 31536000"
  from run obtain fee where "last0 \<le> ts" and f: "vp_fullMulDivUp P ?n (100 * elapsed) 315360000000 = Some fee"
    and s': "s' = s \<or> ?n + fee < 2 ^ 256 \<and> s' = s\<lparr>pv_store := (pv_store s)\<lparr>vs_totalShares := ?n + fee\<rparr>\<rparr>"
    by (auto simp: sol_collectManagementFee_def bindS_Inr_iff checked_arith Let_def elapsed_def [symmetric] split: if_splits)
  then have el: "0 \<le> elapsed" "elapsed \<le> 31536000" by (simp_all add: elapsed_def)
  have "vp_fullMulDivUp P ?n (100 * elapsed) 315360000000 =
      (if (315360000000 :: int) = 0 \<or> 2 ^ 256 \<le> (?n * (100 * elapsed) + 315360000000 - 1) div 315360000000
       then None else Some ((?n * (100 * elapsed) + 315360000000 - 1) div 315360000000))"
    using doc u el by (simp add: params_doc_def fullMulDivUp_doc_def)
  then have "fee = (?n * (100 * elapsed) + 315360000000 - 1) div 315360000000"
    using f by (auto split: if_splits)
  moreover have "0 \<le> ?n * (100 * elapsed)" using u el by simp
  ultimately have "0 \<le> fee" by (simp add: pos_imp_zdiv_nonneg_iff)
  then show ?thesis using s' ok u set_shares_keeps [OF ok, of "?n + fee"] by auto
qed

lemma lifecycle_rebalance [simp]: "lifecycle_ok (s\<lparr>pv_rebalance := r\<rparr>) = lifecycle_ok s"
  "lifecycle_ok (s\<lparr>pv_supportedProtocol := p\<rparr>) = lifecycle_ok s"
  "lifecycle_ok (s\<lparr>pv_initialActiveProtocolAdapterSet := b\<rparr>) = lifecycle_ok s"
  by (simp_all add: lifecycle_ok_def entries_nonneg_def pending_deposits_def pending_burns_def)

lemma finalize_keeps:
  assumes doc: "params_doc P" and ok: "lifecycle_ok s" and run: "sol_finalizeRebalance P ts nonce new local s = Inr s'"
  shows "lifecycle_ok s'"
proof -
  have "lifecycle_ok (s\<lparr>pv_store := (pv_store s)\<lparr>vs_rebalanceState := RebalanceNone\<rparr>\<rparr>)"
    using ok by (intro replace_store) (auto simp: lifecycle_ok_def exclusive_def)
  then have "lifecycle_ok (s\<lparr>pv_store := (if local then pv_store s else (pv_store s)\<lparr>vs_rebalanceState := RebalanceNone\<rparr>),
      pv_rebalance := r\<rparr>)" for r
    using ok by simp
  moreover have "sol_collectManagementFee P ts (sr_lastRebalanceCompletedTimestamp (pv_rebalance s))
      (s\<lparr>pv_store := (if local then pv_store s else (pv_store s)\<lparr>vs_rebalanceState := RebalanceNone\<rparr>),
         pv_rebalance := \<lparr>sr_nonce = sr_nonce (pv_rebalance s) + 1, sr_activeStrategy = new,
           sr_pendingStrategy = (if local then sr_pendingStrategy (pv_rebalance s) else no_strategy),
           sr_lastRebalanceCompletedTimestamp = ts\<rparr>\<rparr>) = Inr s'"
    using run by (simp add: sol_finalizeRebalance_def Let_def bindS_Inr_iff checked_arith split: if_split_asm)
  ultimately show ?thesis using fee_keeps [OF doc] by blast
qed

lemma initiate_keeps:
  assumes ok: "lifecycle_ok s" and run: "sol_initiateRebalance P ts nonce new supported s = Inr (s', act)"
  shows "lifecycle_ok s'"
proof -
  let ?st = "pv_store s"
  have "s' = s \<or> 1 < vs_epochNonce ?st \<and> se_status (vs_epochs ?st (vs_epochNonce ?st - 1)) \<noteq> EpochExecuting \<and>
      s' = s\<lparr>pv_store := ?st\<lparr>vs_rebalanceState := Rebalancing\<rparr>, pv_rebalance := (pv_rebalance s)\<lparr>sr_pendingStrategy := new\<rparr>\<rparr>"
    using run ok by (auto simp: sol_initiateRebalance_def Let_def bindS_Inr_iff checked_arith lifecycle_ok_def split: if_splits)
  moreover have "exclusive (?st\<lparr>vs_rebalanceState := Rebalancing\<rparr>)"
    if "1 < vs_epochNonce ?st" "se_status (vs_epochs ?st (vs_epochNonce ?st - 1)) \<noteq> EpochExecuting"
    using ok [unfolded lifecycle_ok_def] that spec [of "\<lambda>n. epoch_ok (vs_epochNonce ?st) n (vs_epochs ?st n) (pending_deposits s n)
        (pending_burns s n)" "vs_epochNonce ?st - 1"]
    by (simp add: exclusive_def epoch_ok_def)
  ultimately show ?thesis
    using ok replace_store [OF ok, of "?st\<lparr>vs_rebalanceState := Rebalancing\<rparr>"] by (auto simp: lifecycle_ok_def [of s])
qed

section \<open>Every reachable state\<close>

lemma exec_keeps:
  assumes doc: "params_doc P" and ok: "lifecycle_ok s" and op: "wf_op op" and run: "exec P op s = Inr s'"
  shows "lifecycle_ok s'"
proof -
  have fmd: "fullMulDiv_doc (vp_fullMulDiv P)" using doc by (simp add: params_doc_def)
  note fin = finalize_keeps [OF doc]
  show ?thesis
  proof (cases op)
    case (Op_InitiateRebalance ts nonce new supported amountOut)
    with run obtain s1 act where i: "sol_initiateRebalance P ts nonce new supported s = Inr (s1, act)"
      and "s' = s1 \<or> sol_finalizeRebalance P ts (sr_nonce (pv_rebalance s)) new True s1 = Inr s'"
      by (auto simp: sol_vaultInitiateRebalance_def bindS_Inr_iff split: if_splits)
    with initiate_keeps [OF ok i] fin show ?thesis by blast
  next
    case (Op_RebalanceArrived ts nonce protocolId deposited)
    with run ok show ?thesis by (auto simp: sol_receiveRebalance_def intro: fin split: if_splits)
  next
    case (Op_CompleteRebalance ts nonce)
    with run ok show ?thesis by (auto simp: sol_completeRebalance_def Let_def intro: fin split: if_splits)
  next
    case (Op_FinishRecovery ts)
    with run ok show ?thesis by (auto simp: sol_finishRecovery_def intro: fin)
  next
    case (Op_SetSupportedProtocol protocolId supported)
    with run ok show ?thesis by (auto simp: sol_setSupportedProtocol_def split: if_splits)
  next
    case (Op_ClaimShares user nonce)
    with run claimShares_keeps [OF fmd ok] show ?thesis by (cases "sol_claimShares P user nonce s") auto
  next
    case (Op_ClaimAsset user nonce)
    with run claimAsset_keeps [OF fmd ok] show ?thesis by (cases "sol_claimAsset P user nonce s") auto
  next
    case (Op_CloseEpoch ts nonce tvl isLocal amountOut)
    with run op show ?thesis by (intro close_keeps [OF doc ok]) simp_all
  next
    case (Op_CompleteEpochDeposit nonce actual)
    with run op show ?thesis by (intro complete_keeps [OF doc ok]) simp_all
  next
    case (Op_NetWithdrawArrived nonce received)
    with run op show ?thesis by (intro net_withdraw_keeps [OF ok]) simp_all
  next
    case (Op_Deposit user amount)
    with run op show ?thesis by (intro user_intents_keep(1) [OF ok]) simp_all
  next
    case (Op_Withdraw user amount)
    with run op show ?thesis by (intro user_intents_keep(2) [OF ok]) simp_all
  qed (use run ok user_intents_keep(3,4) [OF ok] in \<open>auto simp: sol_setInitialActiveProtocolAdapter_def split: if_splits\<close>)
qed

lemma steps_keep:
  assumes "params_doc P" "vault_steps P s t" "lifecycle_ok s"
  shows "lifecycle_ok t"
  using assms(2,3) by induction (auto intro: exec_keeps [OF assms(1)])

lemma initialize_ok: "u256 ts \<Longrightarrow> lifecycle_ok (sol_initialize ts)"
  by (simp add: lifecycle_ok_def sol_initialize_def entries_nonneg_def exclusive_def pending_deposits_def pending_burns_def epoch_ok_def
      open_epoch_def epoch_u256_def wf_epoch_def blank_epoch_def)

lemma reachable_ok: "params_doc P \<Longrightarrow> vault_reachable P s \<Longrightarrow> lifecycle_ok s"
  unfolding vault_reachable_def using steps_keep initialize_ok by blast

section \<open>The epoch nonce only grows\<close>

lemma put_epoch_nonce [simp]: "vs_epochNonce (pv_store (put_epoch s n e)) = vs_epochNonce (pv_store s)"
  by (simp add: put_epoch_def)

lemma fee_nonce: "sol_collectManagementFee P ts last0 s = Inr s' \<Longrightarrow> vs_epochNonce (pv_store s') = vs_epochNonce (pv_store s)"
  by (auto simp: sol_collectManagementFee_def bindS_Inr_iff Let_def split: if_splits)

lemma finalize_nonce:
  "sol_finalizeRebalance P ts nonce new local s = Inr s' \<Longrightarrow> vs_epochNonce (pv_store s') = vs_epochNonce (pv_store s)"
  by (auto simp: sol_finalizeRebalance_def bindS_Inr_iff Let_def dest!: fee_nonce split: if_splits)

lemma initiate_nonce:
  "sol_initiateRebalance P ts nonce new supported s = Inr (s', act) \<Longrightarrow> vs_epochNonce (pv_store s') = vs_epochNonce (pv_store s)"
  by (auto simp: sol_initiateRebalance_def bindS_Inr_iff Let_def split: if_splits)

lemma complete_nonce:
  "sol_vaultCompleteEpochDeposit P nonce actual s = Inr s' \<Longrightarrow> vs_epochNonce (pv_store s') = vs_epochNonce (pv_store s)"
  by (auto simp: sol_vaultCompleteEpochDeposit_def sol_completeEpochDeposit_def bindS_Inr_iff Let_def split: if_splits)

lemma close_advances:
  assumes doc: "params_doc P" and ok: "lifecycle_ok s" and "u256 tvl"
    and run: "sol_vaultCloseEpoch P ts nonce tvl isLocal amountOut s = Inr s'"
  shows "nonce = vs_epochNonce (pv_store s)" "vs_epochNonce (pv_store s') = nonce + 1"
proof -
  have blank: "vs_epochs (pv_store s) (vs_epochNonce (pv_store s) + 1) = blank_epoch"
    using ok by (simp add: lifecycle_ok_def epoch_ok_def)
  note c = close_Inr [OF doc lifecycle_wf_store [OF ok] assms(3) blank refl refl run]
  then show n: "nonce = vs_epochNonce (pv_store s)" by (simp add: close_guards_def)
  show "vs_epochNonce (pv_store s') = nonce + 1" using c unfolding n by auto
qed

lemma exec_nonce:
  assumes "params_doc P" "lifecycle_ok s" "wf_op op" "exec P op s = Inr s'"
  shows "vs_epochNonce (pv_store s) \<le> vs_epochNonce (pv_store s')"
proof (cases op)
  case (Op_CloseEpoch ts nonce tvl isLocal amountOut)
  with close_advances [OF assms(1,2), of tvl ts nonce isLocal amountOut s'] assms(3,4) show ?thesis by simp
next
  case (Op_InitiateRebalance ts nonce new supported amountOut)
  with assms(4) show ?thesis
    by (auto simp: sol_vaultInitiateRebalance_def bindS_Inr_iff dest!: initiate_nonce finalize_nonce split: if_splits)
next
  case (Op_ClaimShares user nonce)
  with assms(4) show ?thesis
    by (cases "sol_claimShares P user nonce s") (auto simp: sol_claimShares_def Let_def bindS_Inr_iff split: if_splits)
next
  case (Op_ClaimAsset user nonce)
  with assms(4) show ?thesis
    by (cases "sol_claimAsset P user nonce s") (auto simp: sol_claimAsset_def Let_def bindS_Inr_iff split: if_splits)
next
  case (Op_CompleteEpochDeposit nonce actual)
  with assms(4) complete_nonce show ?thesis by simp
qed (use assms(4) in \<open>auto simp: sol_deposit_def sol_withdraw_def sol_cancelDeposit_def sol_cancelWithdraw_def sol_handleEpochNetWithdraw_def
    sol_receiveRebalance_def sol_completeRebalance_def sol_finishRecovery_def sol_setSupportedProtocol_def sol_setInitialActiveProtocolAdapter_def
    Let_def bindS_Inr_iff dest!: finalize_nonce split: if_splits\<close>)

lemma steps_nonce:
  assumes "params_doc P" "vault_steps P s t" "lifecycle_ok s"
  shows "vs_epochNonce (pv_store s) \<le> vs_epochNonce (pv_store t)"
  using assms(2,3)
proof induction
  case (steps_step s t op t')
  have "lifecycle_ok t" by (rule steps_keep [OF assms(1) steps_step(1,5)])
  from exec_nonce [OF assms(1) this steps_step(2,3)] steps_step(4,5) show ?case by simp
qed simp

lemma steps_trans: "vault_steps P t u \<Longrightarrow> vault_steps P s t \<Longrightarrow> vault_steps P s u"
  by (induction rule: vault_steps.induct) (auto intro: vault_steps.intros)

lemma reachable_step: "vault_reachable P s \<Longrightarrow> wf_op op \<Longrightarrow> exec P op s = Inr s' \<Longrightarrow> vault_reachable P s'"
  unfolding vault_reachable_def by (blast intro: vault_steps.intros)

text \<open>The transaction around a settlement only fails when a number leaves 256 bits.\<close>

lemma close_completes:
  assumes doc: "params_doc P" and ok: "lifecycle_ok s" and u: "u256 tvl"
    and c: "sol_closeEpoch (vp_fullMulDiv P) (vp_toInt256 P) sharePrecision (asset_precision (vp_assetDecimals P))
      (asset_precision (vp_assetDecimals P)) (pv_store s) ts nonce tvl isLocal = Inr r"
    and room: "vs_epochNonce (pv_store s) + 1 < 2 ^ 256"
      "se_totalDepositAmount (vs_epochs (pv_store s) (vs_epochNonce (pv_store s))) + amountOut < 2 ^ 256"
  shows "\<exists>s'. sol_vaultCloseEpoch P ts nonce tvl isLocal amountOut s = Inr s'"
proof -
  have docs: "fullMulDiv_doc (vp_fullMulDiv P)" "toInt256_doc (vp_toInt256 P)" "vp_assetDecimals P \<le> 77"
    using doc by (simp_all add: params_doc_def)
  from c [unfolded sol_closeEpoch_Inr [OF docs(1,2) lifecycle_wf_store [OF ok] u docs(3)]] obtain a where
    "r = settled (pv_store s) isLocal a" by blast
  then obtain store act where r: "r = (store, act)" "ca_epochNonce act = vs_epochNonce (pv_store s)"
    "ca_totalDepositAmount act = se_totalDepositAmount (vs_epochs (pv_store s) (vs_epochNonce (pv_store s)))"
    by (simp add: settled_def settle_def Let_def)
  show ?thesis
    using room unfolding sol_vaultCloseEpoch_def c r(1)
    by (simp add: r(2,3) sol_finalizeLocalNetWithdraw_def sol_openNextEpoch_def add256_def not_le [symmetric])
qed

end
