(* ===== verification/Report_Model.thy ===== *)
theory Report_Model
  imports Config_Model
begin

text \<open>
  \<open>cre/workflow/internal/onchain/report.go\<close>: the signed report envelope (\<open>EncodeReport\<close>) and its
  submission (\<open>submitReport\<close>), together with the contract at the other end,
  \<open>evm/src/modules/WorkflowRouter.sol\<close>, whose \<open>onReport\<close> takes the envelope apart and forwards the
  vault call. The locales state what the envelope's fields promise to their reader and what a
  submitter promises to the handlers.
\<close>

section \<open>Fixed-width fields\<close>

locale fixed_width_codec =
  fixes width :: nat
    and enc :: "'v \<Rightarrow> byte list"
    and dec :: "byte list \<Rightarrow> 'v"
  assumes length_enc: "length (enc v) = width"
    and dec_enc: "dec (enc v) = v"
begin

lemma dec_take: "dec (take width (enc v @ rest)) = v"
  by (simp add: length_enc dec_enc)

lemma drop_enc: "drop width (enc v @ rest) = rest"
  by (simp add: length_enc)

lemma dec_slice: "length pre = n \<Longrightarrow> dec (take width (drop n (pre @ enc v @ rest))) = v"
  by (simp add: length_enc dec_enc)

end

definition u64_bytes :: "uint64 \<Rightarrow> byte list" where
  "u64_bytes v = be_bytes 8 (unat v)"

definition bytes_u64 :: "byte list \<Rightarrow> uint64" where
  "bytes_u64 bs = of_nat (be_nat bs)"

definition bytes_address :: "byte list \<Rightarrow> address" where
  "bytes_address bs = of_nat (be_nat bs)"

definition u256_bytes :: "256 word \<Rightarrow> byte list" where
  "u256_bytes v = be_bytes 32 (unat v)"

definition bytes_u256 :: "byte list \<Rightarrow> 256 word" where
  "bytes_u256 bs = of_nat (be_nat bs)"

lemma unat_mod_256_pow:
  fixes v :: "'a::len word"
  assumes "LENGTH('a) = 8 * n"
  shows "unat v mod 256 ^ n = unat v"
proof -
  have "unat v < 2 ^ LENGTH('a)" by (rule unsigned_less)
  also have "(2::nat) ^ LENGTH('a) = 256 ^ n" by (simp add: assms power_mult)
  finally show ?thesis by simp
qed

lemma word_be_roundtrip:
  fixes v :: "'a::len word"
  assumes "LENGTH('a) = 8 * n"
  shows "of_nat (be_nat (be_bytes n (unat v))) = v"
  by (simp add: be_nat_be_bytes unat_mod_256_pow [OF assms] del: be_bytes.simps)

interpretation u64: fixed_width_codec 8 u64_bytes bytes_u64
  by unfold_locales (simp_all add: u64_bytes_def bytes_u64_def word_be_roundtrip)

interpretation addr: fixed_width_codec 20 address_Bytes bytes_address
  by unfold_locales (simp_all add: address_Bytes_def bytes_address_def word_be_roundtrip)

interpretation u256: fixed_width_codec 32 u256_bytes bytes_u256
  by unfold_locales (simp_all add: u256_bytes_def bytes_u256_def word_be_roundtrip)

section \<open>The report\<close>

text \<open>\<open>(*big.Int).FillBytes\<close>: the absolute value, big endian, zero extended; a panic if it does not fit.\<close>

definition big_FillBytes :: "nat \<Rightarrow> int \<Rightarrow> byte list outcome" where
  "big_FillBytes n v =
     (if 256 ^ n \<le> nat \<bar>v\<bar> then Panic ''math/big: buffer too small to fit value'' else Ok (be_bytes n (nat \<bar>v\<bar>)))"

definition EncodeReport :: "env \<Rightarrow> EvmConfig \<Rightarrow> int \<Rightarrow> byte list \<Rightarrow> byte list outcome" where
  "EncodeReport E target observedAt calldata =
     (if ec_ChainSelector target = 0 \<or> \<not> IsHexAddress E (ec_WorkflowRouterAddress target) \<or>
         HexToAddress E (ec_WorkflowRouterAddress target) = 0
      then Err (Errorf ''invalid report destination'' [])
      else if observedAt < 0 then Err (Errorf ''negative observation timestamp'' [])
      else if length calldata < 4 \<or> 5 * 1024 < length calldata + 60
      then Err (Errorf ''invalid report calldata length'' [])
      else bindO (big_FillBytes 32 observedAt) (\<lambda>stamp.
        Ok (u64_bytes (ec_ChainSelector target) @
            address_Bytes (HexToAddress E (ec_WorkflowRouterAddress target)) @ stamp @ calldata)))"

definition unknown_error :: "string option \<Rightarrow> string" where
  "unknown_error e = (case e of None \<Rightarrow> ''unknown error'' | Some s \<Rightarrow> s)"

fun tx_status_name :: "tx_status \<Rightarrow> string" where
  "tx_status_name TX_STATUS_SUCCESS = ''TX_STATUS_SUCCESS''"
| "tx_status_name (TxStatus s) = s"

fun exec_status_name :: "exec_status \<Rightarrow> string" where
  "exec_status_name EXECUTION_STATUS_SUCCESS = ''RECEIVER_CONTRACT_EXECUTION_STATUS_SUCCESS''"
| "exec_status_name (ExecStatus s) = s"

definition check_reply :: "write_reply \<Rightarrow> unit outcome" where
  "check_reply resp =
     (if wr_TxStatus resp \<noteq> TX_STATUS_SUCCESS then
        Err (Errorf ''tx not success: status=%s txHash=0x%x err=%s''
          [FStr (tx_status_name (wr_TxStatus resp)), FHex (wr_TxHash resp), FStr (unknown_error (wr_ErrorMessage resp))])
      else (case wr_ExecutionStatus resp of
              None \<Rightarrow> Err (Errorf ''contract execution status missing'' [])
            | Some s \<Rightarrow>
                if s \<noteq> EXECUTION_STATUS_SUCCESS then
                  Err (Errorf ''contract execution failed: status=%s txHash=0x%x err=%s''
                    [FStr (exec_status_name s), FHex (wr_TxHash resp), FStr (unknown_error (wr_ErrorMessage resp))])
                else Ok ()))"

definition report_request_of :: "byte list \<Rightarrow> report_request" where
  "report_request_of payload = \<lparr>rq_EncodedPayload = payload, rq_EncoderName = ''evm'',
     rq_SigningAlgo = ''ecdsa'', rq_HashingAlgo = ''keccak256''\<rparr>"

definition write_request_of :: "env \<Rightarrow> EvmConfig \<Rightarrow> report_handle \<Rightarrow> write_request" where
  "write_request_of E target report =
     \<lparr>wq_Receiver = address_Bytes (HexToAddress E (ec_WorkflowRouterAddress target)), wq_Report = Some report,
      wq_GasConfig = Some (ec_GasLimit target)\<rparr>"

text \<open>Signing and writing an encoded payload: the part of \<open>submitReport\<close> that talks to the host.\<close>

definition send_report :: "env \<Rightarrow> uint64 \<Rightarrow> EvmConfig \<Rightarrow> byte list \<Rightarrow> unit prog" where
  "send_report E client target payload =
     bindI (wrapI ''generate report: %w'' [] (GenerateReport E (report_request_of payload))) (\<lambda>report.
       case report of
         None \<Rightarrow> liftO (Err (Errorf ''generate report: nil report'' []))
       | Some r \<Rightarrow>
           bindI (wrapI ''write report: %w'' [] (client_WriteReport E client (write_request_of E target r))) (\<lambda>resp.
             case resp of
               None \<Rightarrow> liftO (Err (Errorf ''write report: nil response'' []))
             | Some reply \<Rightarrow>
                 bindI (liftO (check_reply reply)) (\<lambda>_. log_Info ''CRE write succeeded'')))"

definition submitReport :: "env \<Rightarrow> uint64 \<Rightarrow> EvmConfig \<Rightarrow> int \<Rightarrow> byte list \<Rightarrow> unit prog" where
  "submitReport E client target observedAt calldata =
     bindI (liftO (EncodeReport E target observedAt calldata)) (\<lambda>payload.
       if ec_GasLimit target = 0 \<or> 5000000 < ec_GasLimit target
       then liftO (Err (Errorf ''invalid report gas limit'' []))
       else bindI (Now E) (\<lambda>now.
         if now < observedAt \<or> 1800 < now - observedAt
         then liftO (Err (Errorf ''report observation outside 30-minute window'' []))
         else send_report E client target payload))"

definition SubmitReport :: "env \<Rightarrow> EvmConfig \<Rightarrow> int \<Rightarrow> byte list \<Rightarrow> unit prog" where
  "SubmitReport E target observedAt calldata = submitReport E (ec_ChainSelector target) target observedAt calldata"

section \<open>The router\<close>

datatype router_error = EnforcedPause | Unauthorized address | InvalidMetadataLength nat
  | MetadataZero "byte list" "byte list" "byte list" | MetadataMismatch "byte list" "byte list" "byte list"
  | ReportTooShort nat | InvalidReportDomain uint64 address | ReportFromFuture nat nat
  | ReportExpired nat nat | SelectorNotAllowlisted "byte list" "byte list" | CallFailed "byte list"
  | RouterNoZeroAddress | RouterNoZeroChainSelector | InvalidDefaultAdmin address | ExpectedPause | RouterOverflow
  | NoZeroWorkflowId | NoSelectors | MetadataUnchanged "byte list" "byte list" "byte list" | WorkflowNotRegistered "byte list"

text \<open>Router storage and immutables; a workflow's registered name and owner are zero when absent.\<close>

record router =
  ro_paused :: bool
  ro_forwarders :: "address list"
  ro_metadata :: "byte list \<Rightarrow> byte list \<times> byte list"
  ro_generations :: "byte list \<Rightarrow> nat"
  ro_selectors :: "byte list \<Rightarrow> nat \<Rightarrow> byte list \<Rightarrow> bool"
  ro_thisChainSelector :: uint64
  ro_address :: address

definition decodeMetadata :: "byte list \<Rightarrow> router_error + (byte list \<times> byte list \<times> byte list)" where
  "decodeMetadata metadata =
     (if length metadata \<noteq> 64 then Inl (InvalidMetadataLength (length metadata))
      else Inr (take 32 metadata, take 10 (drop 32 metadata), take 20 (drop 42 metadata)))"

definition all_zero :: "byte list \<Rightarrow> bool" where
  "all_zero bs \<longleftrightarrow> list_all (\<lambda>b. b = 0) bs"

text \<open>The envelope checks of \<open>onReport\<close>, from the length check to the vault call it extracts.\<close>

definition open_envelope :: "router \<Rightarrow> nat \<Rightarrow> byte list \<Rightarrow> router_error + byte list" where
  "open_envelope R timestamp report =
     (if length report < 60 + 4 then Inl (ReportTooShort (length report))
      else let chain = bytes_u64 (take 8 report); target = bytes_address (take 20 (drop 8 report));
               observedAt = unat (bytes_u256 (take 32 (drop 28 report)))
           in if chain \<noteq> ro_thisChainSelector R \<or> target \<noteq> ro_address R
              then Inl (InvalidReportDomain chain target)
              else if timestamp < observedAt then Inl (ReportFromFuture observedAt timestamp)
              else if 1800 < timestamp - observedAt then Inl (ReportExpired observedAt timestamp)
              else Inr (drop 60 report))"

text \<open>\<open>onReport\<close>: the call forwarded to the vault, or the revert. The vault's reply is a parameter.\<close>

definition onReport ::
    "(byte list \<Rightarrow> bool \<times> byte list) \<Rightarrow> router \<Rightarrow> address \<Rightarrow> nat \<Rightarrow> byte list \<Rightarrow> byte list \<Rightarrow> router_error + byte list" where
  "onReport vault_call R sender timestamp metadata report =
     (if ro_paused R then Inl EnforcedPause
      else if sender \<notin> set (ro_forwarders R) then Inl (Unauthorized sender)
      else (case decodeMetadata metadata of
        Inl e \<Rightarrow> Inl e
      | Inr (wid, name, owner) \<Rightarrow>
          if all_zero wid \<or> all_zero name \<or> all_zero owner then Inl (MetadataZero wid name owner)
          else if ro_metadata R wid \<noteq> (name, owner) then Inl (MetadataMismatch wid name owner)
          else (case open_envelope R timestamp report of
            Inl e \<Rightarrow> Inl e
          | Inr call \<Rightarrow>
              if \<not> ro_selectors R wid (ro_generations R wid) (take 4 call)
              then Inl (SelectorNotAllowlisted wid (take 4 call))
              else if fst (vault_call call) then Inr call else Inl (CallFailed (snd (vault_call call))))))"

section \<open>What a submission does\<close>

text \<open>
  \<open>submits E t obs cd r cs\<close>: the calls \<open>cs\<close> and the result \<open>r\<close> are those of one submission. Success
  means one signed report over the encoded envelope and one write of it to the target's router;
  a failure stops at a prefix of that.
\<close>

definition submits :: "env \<Rightarrow> EvmConfig \<Rightarrow> int \<Rightarrow> byte list \<Rightarrow> unit outcome \<Rightarrow> trace \<Rightarrow> bool" where
  "submits E t obs cd r cs \<longleftrightarrow>
     cs = [] \<and> r \<noteq> Ok () \<or>
     (\<exists>payload. EncodeReport E t obs cd = Ok payload \<and>
        (cs = [HGenerateReport (report_request_of payload)] \<and> r \<noteq> Ok () \<or>
         (\<exists>rep. cs = [HGenerateReport (report_request_of payload),
                      HWriteReport (ec_ChainSelector t) (write_request_of E t rep)] \<and> r \<noteq> Ok () \<or>
                cs = [HGenerateReport (report_request_of payload),
                      HWriteReport (ec_ChainSelector t) (write_request_of E t rep),
                      HLog ''CRE write succeeded''] \<and> r = Ok ())))"

locale submitter =
  fixes E :: env
    and submit :: "EvmConfig \<Rightarrow> int \<Rightarrow> byte list \<Rightarrow> unit prog"
  assumes submit_spec: "spec_io (submit t obs cd) (submits E t obs cd)"
begin

lemma submit_writes:
  "spec_io (submit t obs cd) (\<lambda>r cs. length (writes cs) \<le> 1 \<and>
     (\<forall>c\<in>set (writes cs). \<exists>rep. c = HWriteReport (ec_ChainSelector t) (write_request_of E t rep)) \<and>
     (r = Ok () \<longrightarrow> length (writes cs) = 1))"
  by (rule spec_io_mono [OF submit_spec]) (auto simp: submits_def)

end

lemma send_report_spec:
  assumes "EncodeReport E t obs cd = Ok p"
  shows "spec_io (send_report E (ec_ChainSelector t) t p) (submits E t obs cd)"
  using assms
  by (auto simp: send_report_def spec_io_def io_defs GenerateReport_def client_WriteReport_def log_Info_def submits_def
      split: outcome.splits option.splits prod.splits)

lemma SubmitReport_spec: "spec_io (SubmitReport E t obs cd) (submits E t obs cd)"
proof (cases "EncodeReport E t obs cd")
  case (Ok p)
  have err: "spec_io (liftO (Err e)) (submits E t obs cd)" for e
    by (rule spec_io_liftO) (simp add: submits_def)
  show ?thesis
    unfolding SubmitReport_def submitReport_def Ok bindI_liftO_Ok
    by (auto intro: err send_report_spec [OF Ok] intro!: spec_io_bind_Now)
qed (auto simp: SubmitReport_def submitReport_def submits_def intro!: spec_io_liftO)

interpretation report: submitter E "SubmitReport E" for E
  by unfold_locales (rule SubmitReport_spec)

section \<open>The envelope between workflow and router\<close>

lemma EncodeReport_Ok:
  "EncodeReport E t obs cd = Ok p \<longleftrightarrow>
     ec_ChainSelector t \<noteq> 0 \<and> IsHexAddress E (ec_WorkflowRouterAddress t) \<and>
     HexToAddress E (ec_WorkflowRouterAddress t) \<noteq> 0 \<and> 0 \<le> obs \<and> nat obs < 256 ^ 32 \<and>
     4 \<le> length cd \<and> length cd \<le> 5060 \<and>
     p = u64_bytes (ec_ChainSelector t) @ address_Bytes (HexToAddress E (ec_WorkflowRouterAddress t)) @
         be_bytes 32 (nat obs) @ cd"
  by (auto simp: EncodeReport_def big_FillBytes_def bindO_Ok_iff not_le not_less)

lemma unat_stamp: "nat obs < 256 ^ 32 \<Longrightarrow> unat (of_nat (nat obs) :: 256 word) = nat obs"
  by (simp add: unat_of_nat)

lemma stamp_bytes: "nat obs < 256 ^ 32 \<Longrightarrow> be_bytes 32 (nat obs) = u256_bytes (of_nat (nat obs))"
  by (simp only: u256_bytes_def unat_stamp)

lemma open_envelope_EncodeReport:
  assumes p: "EncodeReport E t obs cd = Ok p"
  shows "open_envelope R ts p =
     (if ec_ChainSelector t \<noteq> ro_thisChainSelector R \<or>
         HexToAddress E (ec_WorkflowRouterAddress t) \<noteq> ro_address R
      then Inl (InvalidReportDomain (ec_ChainSelector t) (HexToAddress E (ec_WorkflowRouterAddress t)))
      else if ts < nat obs then Inl (ReportFromFuture (nat obs) ts)
      else if 1800 < ts - nat obs then Inl (ReportExpired (nat obs) ts)
      else Inr cd)"
proof -
  let ?s = "ec_ChainSelector t" and ?a = "HexToAddress E (ec_WorkflowRouterAddress t)"
  let ?w = "of_nat (nat obs) :: 256 word"
  from p have fits: "nat obs < 256 ^ 32" and len: "4 \<le> length cd"
    and p_eq: "p = u64_bytes ?s @ address_Bytes ?a @ u256_bytes ?w @ cd"
    by (auto simp: EncodeReport_Ok stamp_bytes)
  have "bytes_u64 (take 8 p) = ?s" unfolding p_eq by (rule u64.dec_take)
  moreover have "bytes_address (take 20 (drop 8 p)) = ?a"
    unfolding p_eq by (rule addr.dec_slice) (rule u64.length_enc)
  moreover have "bytes_u256 (take 32 (drop 28 p)) = ?w"
    using u256.dec_slice [of "u64_bytes ?s @ address_Bytes ?a" 28 ?w cd]
    by (simp add: p_eq u64.length_enc)
  moreover have "drop 60 p = cd" "\<not> length p < 64"
    using len by (simp_all add: p_eq u64.length_enc u256.length_enc)
  ultimately show ?thesis using fits unfolding open_envelope_def by (simp add: unat_stamp Let_def)
qed

end
