(* ===== verification/Handler_Contract.thy ===== *)
theory Handler_Contract
  imports Report_Model Onchain_State
begin

text \<open>
  What every handler of the workflow promises to the entry point that runs it
  (\<open>cre/workflow/workflow.go\<close>): it skips with a reason, fails, or submits one report to a configured
  chain, encoded at the snapshot's time. The contract is the locale \<open>handler_contract\<close>; the lemmas
  of \<open>submitter\<close> give it for the two ways in which handlers end.
\<close>

section \<open>The two endings of a handler\<close>

text \<open>The tail shared by the handlers: encode the vault call, submit it, log, and return.\<close>

definition report_call ::
    "(EvmConfig \<Rightarrow> int \<Rightarrow> byte list \<Rightarrow> unit prog) \<Rightarrow> EvmConfig \<Rightarrow> int \<Rightarrow> string \<Rightarrow> byte list outcome \<Rightarrow>
     string \<Rightarrow> string \<Rightarrow> string \<Rightarrow> ExecutionResult prog" where
  "report_call submit target observedAt encodeErr encoded submitErr msg result =
     bindI (wrapI encodeErr [] (liftO encoded)) (\<lambda>calldata.
     bindI (wrapI submitErr [] (submit target observedAt calldata)) (\<lambda>_.
     bindI (log_Info msg) (\<lambda>_. retI \<lparr>xr_Result = result\<rparr>)))"

text \<open>One submission of \<open>cd\<close> to \<open>t\<close>, with the handler's log entry after a success.\<close>

definition reports ::
    "env \<Rightarrow> EvmConfig \<Rightarrow> int \<Rightarrow> byte list \<Rightarrow> string \<Rightarrow> string \<Rightarrow> ExecutionResult outcome \<Rightarrow> trace \<Rightarrow> bool" where
  "reports E t obs cd msg result r cs \<longleftrightarrow>
     (\<exists>cs0. submits E t obs cd (Ok ()) cs0 \<and> cs = cs0 @ [HLog msg] \<and> r = Ok \<lparr>xr_Result = result\<rparr>) \<or>
     (\<exists>r0. r0 \<noteq> Ok () \<and> submits E t obs cd r0 cs \<and> (\<forall>x. r \<noteq> Ok x))"

definition skips :: "string \<Rightarrow> ExecutionResult outcome \<Rightarrow> trace \<Rightarrow> bool" where
  "skips reason r cs \<longleftrightarrow> r = Ok \<lparr>xr_Result = ''no-op: '' @ reason\<rparr> \<and> cs = [HLog ''Workflow skipped'']"

definition fails :: "'a outcome \<Rightarrow> trace \<Rightarrow> bool" where
  "fails r cs \<longleftrightarrow> (\<forall>x. r \<noteq> Ok x) \<and> cs = []"

lemma Noop_spec: "spec_io (Noop reason) (skips reason)"
  by (simp add: Noop_def spec_io_def io_defs log_Info_def skips_def)

section \<open>Acting within the configuration\<close>

text \<open>
  \<open>acts E config obs r cs\<close>: the calls write nothing and the result is an error or a skip, or they write
  once, to the router of a configured chain, a report generated over the envelope of some vault call
  at time \<open>obs\<close>.
\<close>

definition one_write :: "env \<Rightarrow> Config \<Rightarrow> int \<Rightarrow> trace \<Rightarrow> bool" where
  "one_write E config obs cs \<longleftrightarrow>
     (\<exists>t cd payload rep. t \<in> set (cf_Evms config) \<and> EncodeReport E t obs cd = Ok payload \<and>
        HGenerateReport (report_request_of payload) \<in> set cs \<and>
        writes cs = [HWriteReport (ec_ChainSelector t) (write_request_of E t rep)])"

definition is_noop :: "ExecutionResult \<Rightarrow> bool" where
  "is_noop x \<longleftrightarrow> take 7 (xr_Result x) = ''no-op: ''"

definition acts :: "env \<Rightarrow> Config \<Rightarrow> int \<Rightarrow> ExecutionResult outcome \<Rightarrow> trace \<Rightarrow> bool" where
  "acts E config obs r cs \<longleftrightarrow> writes cs = [] \<and> (\<forall>x. r = Ok x \<longrightarrow> is_noop x) \<or> one_write E config obs cs"

lemma skips_acts: "skips reason r cs \<Longrightarrow> acts E config obs r cs"
  by (simp add: skips_def acts_def is_noop_def)

lemma fails_acts: "fails r cs \<Longrightarrow> acts E config obs r cs"
  by (simp add: fails_def acts_def)

lemma submits_writes:
  assumes "submits E t obs cd r cs" "writes cs \<noteq> []"
  obtains payload rep where "EncodeReport E t obs cd = Ok payload" "HGenerateReport (report_request_of payload) \<in> set cs"
    and "writes cs = [HWriteReport (ec_ChainSelector t) (write_request_of E t rep)]"
  using assms by (auto simp: submits_def)

lemma submits_Ok_writes: "submits E t obs cd (Ok ()) cs \<Longrightarrow> writes cs \<noteq> []"
  by (auto simp: submits_def)

lemma submits_one_write:
  "submits E t obs cd r cs \<Longrightarrow> writes cs \<noteq> [] \<Longrightarrow> t \<in> set (cf_Evms config) \<Longrightarrow> one_write E config obs cs"
  unfolding one_write_def by (erule submits_writes) blast+

lemma one_write_append: "one_write E config obs cs \<Longrightarrow> writes ds = [] \<Longrightarrow> one_write E config obs (cs @ ds)"
  unfolding one_write_def by auto

lemma one_write_prefix: "one_write E config obs cs \<Longrightarrow> writes ds = [] \<Longrightarrow> one_write E config obs (ds @ cs)"
  unfolding one_write_def by auto

lemma reports_acts:
  "reports E t obs cd msg result r cs \<Longrightarrow> t \<in> set (cf_Evms config) \<Longrightarrow> acts E config obs r cs"
proof -
  assume r: "reports E t obs cd msg result r cs" and t: "t \<in> set (cf_Evms config)"
  have "one_write E config obs (cs0 @ [HLog msg])" if "submits E t obs cd (Ok ()) cs0" for cs0
    by (intro one_write_append submits_one_write [OF that submits_Ok_writes [OF that] t]) simp
  then show ?thesis using r t unfolding reports_def acts_def by (auto intro: submits_one_write)
qed

lemma acts_quiet_prefix: "writes pre = [] \<Longrightarrow> acts E config obs r cs \<Longrightarrow> acts E config obs r (pre @ cs)"
  by (auto simp: acts_def intro: one_write_prefix)

lemma acts_at_most_one_write: "acts E config obs r cs \<Longrightarrow> length (writes cs) \<le> 1"
  by (auto simp: acts_def one_write_def)

section \<open>What is sent\<close>

text \<open>The one write of the calls carries the envelope of the encoded vault call to \<open>t\<close>.\<close>

definition sends :: "env \<Rightarrow> EvmConfig \<Rightarrow> int \<Rightarrow> byte list outcome \<Rightarrow> trace \<Rightarrow> bool" where
  "sends E t obs encoded cs \<longleftrightarrow>
     (\<exists>cd payload rep. encoded = Ok cd \<and> EncodeReport E t obs cd = Ok payload \<and>
        HGenerateReport (report_request_of payload) \<in> set cs \<and>
        writes cs = [HWriteReport (ec_ChainSelector t) (write_request_of E t rep)])"

lemma submits_sends: "submits E t obs cd r cs \<Longrightarrow> writes cs \<noteq> [] \<Longrightarrow> sends E t obs (Ok cd) cs"
  unfolding sends_def by (erule submits_writes) blast+

lemma sends_append: "sends E t obs e cs \<Longrightarrow> writes ds = [] \<Longrightarrow> sends E t obs e (cs @ ds)"
  unfolding sends_def by auto

lemma sends_prefix: "sends E t obs e cs \<Longrightarrow> writes ds = [] \<Longrightarrow> sends E t obs e (ds @ cs)"
  unfolding sends_def by auto

lemma reports_sends:
  assumes "reports E t obs cd msg result r cs" "writes cs \<noteq> []"
  shows "sends E t obs (Ok cd) cs"
  using assms unfolding reports_def by (auto intro!: sends_append intro: submits_sends)

lemma reports_Ok:
  assumes "reports E t obs cd msg result (Ok x) cs"
  shows "writes cs = [] \<Longrightarrow> False" and "xr_Result x = result"
  using assms by (auto simp: reports_def dest: submits_Ok_writes)

text \<open>A run that makes no submission: a skip, or an error before any host call.\<close>

definition idle :: "ExecutionResult prog \<Rightarrow> bool" where
  "idle m \<longleftrightarrow> (\<exists>reason. m = Noop reason) \<or> (\<exists>e. m = liftO (Err e))"

lemma idle_intros [intro!]: "idle (Noop reason)" "idle (liftO (Err e))"
  by (auto simp: idle_def)

lemma idle_spec: "idle m \<Longrightarrow> spec_io m (\<lambda>r cs. writes cs = [])"
  by (auto simp: idle_def skips_def intro!: spec_io_liftO spec_io_mono [OF Noop_spec])

locale handler_contract =
  fixes E :: env
    and config :: Config
    and handle :: "Snapshot \<Rightarrow> ExecutionResult prog"
  assumes handle_acts: "spec_io (handle s) (acts E config (sn_ObservedAt s))"

context submitter
begin

lemma report_call_spec:
  "spec_io (report_call submit t obs encErr encoded subErr msg result) (\<lambda>r cs.
     (case encoded of
        Ok cd \<Rightarrow> reports E t obs cd msg result r cs
      | _ \<Rightarrow> fails r cs))"
proof (cases encoded)
  case (Ok cd)
  have log: "spec_io (bindI (log_Info msg) (\<lambda>_. retI \<lparr>xr_Result = result\<rparr>))
      (\<lambda>r cs. r = Ok \<lparr>xr_Result = result\<rparr> \<and> cs = [HLog msg])"
    by (simp add: spec_io_def io_defs log_Info_def)
  have sub: "spec_io (wrapI subErr [] (submit t obs cd)) (\<lambda>r cs. \<exists>r0. r = wrapO subErr [] r0 \<and> submits E t obs cd r0 cs)"
    by (rule spec_io_wrapI, rule spec_io_mono [OF submit_spec]) blast
  show ?thesis
    unfolding report_call_def Ok bindI_wrapI_liftO outcome.case
  proof (rule spec_io_bindI [OF sub], goal_cases)
    case (1 a cs)
    then have "submits E t obs cd (Ok ()) cs" by (metis wrapO_Ok_iff old.unit.exhaust)
    then show ?case by (auto simp: reports_def intro: spec_io_mono [OF log])
  next
    case (2 e cs)
    then obtain r0 where "Err e = wrapO subErr [] r0" "submits E t obs cd r0 cs" by blast
    then show ?case unfolding reports_def by (cases r0) auto
  next
    case (3 p cs)
    then obtain r0 where "Panic p = wrapO subErr [] r0" "submits E t obs cd r0 cs" by blast
    then show ?case unfolding reports_def by (cases r0) auto
  qed
qed (auto simp: report_call_def fails_def intro!: spec_io_liftO)

lemma report_call_sends:
  "spec_io (report_call submit t obs encErr encoded subErr msg result) (\<lambda>r cs.
     (writes cs \<noteq> [] \<longrightarrow> sends E t obs encoded cs) \<and> (\<forall>x. r = Ok x \<longrightarrow> writes cs \<noteq> [] \<and> xr_Result x = result))"
  by (rule spec_io_mono [OF report_call_spec])
    (auto split: outcome.splits simp: fails_def intro: reports_sends reports_Ok)

lemma report_call_acts:
  assumes "t \<in> set (cf_Evms config)"
  shows "spec_io (report_call submit t obs encErr encoded subErr msg result) (acts E config obs)"
  by (rule spec_io_mono [OF report_call_spec])
    (use assms in \<open>auto split: outcome.splits intro: reports_acts fails_acts\<close>)

end

lemma Noop_acts: "spec_io (Noop reason) (acts E config obs)"
  by (rule spec_io_mono [OF Noop_spec]) (rule skips_acts)

lemma liftO_acts:
  "spec_io (liftO (Err e)) (acts E config obs)" "spec_io (liftO (Panic p)) (acts E config obs)"
  by (rule spec_io_liftO; simp add: acts_def)+

text \<open>Sequencing after a pure step: only the success needs a proof.\<close>

lemma bind_liftO_acts:
  assumes "\<And>a. m = Ok a \<Longrightarrow> spec_io (f a) (acts E config obs)"
  shows "spec_io (bindI (liftO m) f) (acts E config obs)"
  using assms by (cases m) (simp_all add: liftO_acts)

lemma bind_wrap_liftO_acts:
  assumes "\<And>a. m = Ok a \<Longrightarrow> spec_io (f a) (acts E config obs)"
  shows "spec_io (bindI (wrapI s args (liftO m)) f) (acts E config obs)"
  using assms by (cases m) (simp_all add: liftO_acts)

lemmas acts_intros = bind_liftO_acts bind_wrap_liftO_acts Noop_acts liftO_acts


end
