(* ===== verification/Epoch_Handlers.thy ===== *)
theory Epoch_Handlers
  imports Handler_Contract Epoch_Accounting
begin

text \<open>
  \<open>cre/workflow/internal/epoch/handlers.go\<close>: the cron handler that closes an epoch, the handler that
  forwards a remote withdrawal to the active child, and the handler that completes a remote deposit.
  Each definition follows the source's statement order; \<open>submit\<close> is the injected \<open>onchain.Submitter\<close>.
\<close>

section \<open>The handlers\<close>

definition minEpochPeriod :: int where
  "minEpochPeriod = 3600"

fun deref_u8 :: "uint8 option \<Rightarrow> uint8 outcome" where
  "deref_u8 None = Panic ''nil pointer dereference''"
| "deref_u8 (Some d) = Ok d"

type_synonym submitter_fn = "EvmConfig \<Rightarrow> int \<Rightarrow> byte list \<Rightarrow> unit prog"

definition onEpochCronTriggerWithDeps :: "env \<Rightarrow> Config \<Rightarrow> Snapshot \<Rightarrow> submitter_fn \<Rightarrow> ExecutionResult prog" where
  "onEpochCronTriggerWithDeps E config snapshot submit =
     bindI (wrapI ''init parent vault codec: %w'' [] (liftO (parent_NewCodec E))) (\<lambda>pvCodec.
     bindI (liftO (FindParent (cf_Evms config))) (\<lambda>parentCfg.
       let parent = sn_Parent snapshot; epoch = ps_CurrentEpoch parent; epochNonce = ps_CurrentEpochNonce parent
       in if rb_State (ps_Rebalance parent) \<noteq> RebalanceNone then Noop ''rebalance in progress''
          else bindI (liftO (big_Cmp epochNonce (Some 1))) (\<lambda>c.
            if 0 < c \<and> ep_Status (ps_PreviousEpoch parent) \<noteq> EpochClaimable then Noop ''previous epoch not claimable''
            else if ep_Status epoch \<noteq> EpochOpen then Noop ''epoch not open''
            else if \<not> PeriodElapsed (ep_OpenedAtTimestamp epoch) (sn_ObservedAt snapshot) minEpochPeriod
            then Noop ''epoch too young''
            else bindI (liftO (ActiveTVL snapshot (ec_ChainSelector parentCfg))) (\<lambda>tvl.
              let isLocal = st_ChainSelector (rb_ActiveStrategy (ps_Rebalance parent)) = ec_ChainSelector parentCfg
              in bindI (liftO (deref_u8 (cf_AssetDecimals config))) (\<lambda>d.
                case calculateEpochClose epoch (ps_TotalShares parent) tvl d isLocal of
                  Err e \<Rightarrow> Noop (err_text e)
                | Panic m \<Rightarrow> liftO (Panic m)
                | Ok _ \<Rightarrow>
                    bindI (wrapI ''encode closeEpoch: %w'' [] (liftO (EncodeCloseEpochMethodCall pvCodec
                             \<lparr>ce_ExpectedEpochNonce = epochNonce, ce_Tvl = tvl\<rparr>))) (\<lambda>calldata.
                    bindI (wrapI ''submit closeEpoch: %w'' [] (submit parentCfg (sn_ObservedAt snapshot) calldata)) (\<lambda>_.
                    bindI (log_Info ''Closed epoch'') (\<lambda>_.
                      retI \<lparr>xr_Result = ''closed epoch''\<rparr>))))))))"

definition OnEpochCronTrigger :: "env \<Rightarrow> Config \<Rightarrow> Snapshot \<Rightarrow> ExecutionResult prog" where
  "OnEpochCronTrigger E config snapshot = onEpochCronTriggerWithDeps E config snapshot (SubmitReport E)"

definition matchesExecutingEpoch :: "TypesParentOperationalState \<Rightarrow> bigptr \<Rightarrow> bool outcome" where
  "matchesExecutingEpoch parent eventNonce =
     bindO (deref (ps_CurrentEpochNonce parent)) (\<lambda>current.
       if \<not> 0 < sgn (current - 1) then Ok False
       else bindO (big_Cmp (Some (current - 1)) eventNonce) (\<lambda>c.
         Ok (c = 0 \<and> ep_Status (ps_PreviousEpoch parent) = EpochExecuting)))"

text \<open>\<open>expected <= 0 || evt.Amount.Sign() <= 0 || expected.Cmp(evt.Amount) != 0\<close>, left to right.\<close>

definition withdraw_mismatch :: "TypesParentOperationalState \<Rightarrow> bigptr \<Rightarrow> bool outcome" where
  "withdraw_mismatch parent amount =
     bindO (deref (ep_TotalWithdrawClaimAmount (ps_PreviousEpoch parent))) (\<lambda>w.
     bindO (deref (ep_TotalDepositAmount (ps_PreviousEpoch parent))) (\<lambda>d.
       let expectedAmount = w - d
       in if sgn expectedAmount \<le> 0 then Ok True
          else bindO (big_Sign amount) (\<lambda>sg.
            if sg \<le> 0 then Ok True
            else bindO (big_Cmp (Some expectedAmount) amount) (\<lambda>c. Ok (c \<noteq> 0)))))"

definition onEpochWithdrawExecutingWithDeps ::
    "env \<Rightarrow> Config \<Rightarrow> evm_log option \<Rightarrow> Snapshot \<Rightarrow> uint64 \<Rightarrow> submitter_fn \<Rightarrow> ExecutionResult prog" where
  "onEpochWithdrawExecutingWithDeps E config lg snapshot sourceChain submit =
     bindI (wrapI ''init parent vault codec: %w'' [] (liftO (parent_NewCodec E))) (\<lambda>pvCodec.
     bindI (wrapI ''decode EpochWithdrawExecuting: %w'' [] (liftO (DecodeEpochWithdrawExecuting E pvCodec lg))) (\<lambda>evt.
     bindI (liftO (FindParent (cf_Evms config))) (\<lambda>parentCfg.
       if \<not> MatchSource E config lg sourceChain (ec_ChainSelector parentCfg) then Noop ''wrong epoch event source''
       else let parent = sn_Parent snapshot; rebalance = ps_Rebalance parent
       in if rb_State rebalance \<noteq> RebalanceNone then Noop ''rebalance in progress''
          else bindI (liftO (matchesExecutingEpoch parent (we_EpochNonce evt))) (\<lambda>executing.
            if \<not> executing then Noop ''stale epoch event''
            else bindI (liftO (withdraw_mismatch parent (we_Amount evt))) (\<lambda>mismatch.
              if mismatch then Noop ''epoch withdrawal amount mismatch''
              else if st_ChainSelector (rb_ActiveStrategy rebalance) = ec_ChainSelector parentCfg
              then Noop ''active strategy on parent; no action required''
              else
                bindI (wrapI ''init child vault codec: %w'' [] (liftO (child_NewCodec E))) (\<lambda>cvCodec.
                bindI (wrapI ''find strategy chain: %w'' [] (liftO
                         (FindEvmConfigByChainSelector (cf_Evms config) (st_ChainSelector (rb_ActiveStrategy rebalance)))))
                  (\<lambda>stratCfg.
                bindI (liftO (big_Cmp (we_EpochNonce evt)
                         (cs_LastHandledEpochNonce (child_of snapshot (ec_ChainSelector stratCfg))))) (\<lambda>c.
                  if c \<le> 0 then Noop ''epoch already handled''
                  else
                    bindI (wrapI ''encode executeEpochWithdraw: %w'' [] (liftO (EncodeExecuteEpochWithdrawMethodCall cvCodec
                             \<lparr>ew_EpochNonce = we_EpochNonce evt, ew_Amount = we_Amount evt\<rparr>))) (\<lambda>calldata.
                    bindI (wrapI ''submit executeEpochWithdraw: %w'' []
                             (submit stratCfg (sn_ObservedAt snapshot) calldata)) (\<lambda>_.
                    bindI (log_Info ''Submitted executeEpochWithdraw'') (\<lambda>_.
                      retI \<lparr>xr_Result = ''submitted executeEpochWithdraw''\<rparr>)))))))))))"

definition OnEpochWithdrawExecuting ::
    "env \<Rightarrow> Config \<Rightarrow> evm_log option \<Rightarrow> Snapshot \<Rightarrow> uint64 \<Rightarrow> ExecutionResult prog" where
  "OnEpochWithdrawExecuting E config lg snapshot sourceChain =
     onEpochWithdrawExecutingWithDeps E config lg snapshot sourceChain (SubmitReport E)"

definition onEpochDepositToStrategySuccessWithDeps ::
    "env \<Rightarrow> Config \<Rightarrow> evm_log option \<Rightarrow> Snapshot \<Rightarrow> uint64 \<Rightarrow> submitter_fn \<Rightarrow> ExecutionResult prog" where
  "onEpochDepositToStrategySuccessWithDeps E config lg snapshot sourceChain submit =
     bindI (wrapI ''init child vault codec: %w'' [] (liftO (child_NewCodec E))) (\<lambda>cvCodec.
     bindI (wrapI ''decode EpochDepositToStrategySuccess: %w'' []
              (liftO (DecodeEpochDepositToStrategySuccess E cvCodec lg))) (\<lambda>evt.
     bindI (liftO (FindParent (cf_Evms config))) (\<lambda>parentCfg.
       let parent = sn_Parent snapshot; active = st_ChainSelector (rb_ActiveStrategy (ps_Rebalance parent))
       in if active = ec_ChainSelector parentCfg \<or> \<not> MatchSource E config lg sourceChain active
          then Noop ''wrong epoch deposit destination''
          else bindI (liftO (matchesExecutingEpoch parent (ds_EpochNonce evt))) (\<lambda>executing.
            if \<not> executing then Noop ''stale epoch event''
            else (case reconcileEpochDeposit (ps_PreviousEpoch parent) (ps_TotalShares parent) (ds_Amount evt) of
                Err e \<Rightarrow> Noop (err_text e)
              | Panic m \<Rightarrow> liftO (Panic m)
              | Ok _ \<Rightarrow>
                  bindI (wrapI ''init parent vault codec: %w'' [] (liftO (parent_NewCodec E))) (\<lambda>pvCodec.
                  bindI (wrapI ''encode completeEpochDeposit: %w'' [] (liftO (EncodeCompleteEpochDepositMethodCall pvCodec
                           \<lparr>cd_ExpectedEpochNonce = ds_EpochNonce evt, cd_ActualDepositAmount = ds_Amount evt\<rparr>))) (\<lambda>calldata.
                  bindI (wrapI ''submit completeEpochDeposit: %w'' []
                           (submit parentCfg (sn_ObservedAt snapshot) calldata)) (\<lambda>_.
                  bindI (log_Info ''Completed epoch deposit'') (\<lambda>_.
                    retI \<lparr>xr_Result = ''completed epoch deposit''\<rparr>)))))))))"

definition OnEpochDepositToStrategySuccess ::
    "env \<Rightarrow> Config \<Rightarrow> evm_log option \<Rightarrow> Snapshot \<Rightarrow> uint64 \<Rightarrow> ExecutionResult prog" where
  "OnEpochDepositToStrategySuccess E config lg snapshot sourceChain =
     onEpochDepositToStrategySuccessWithDeps E config lg snapshot sourceChain (SubmitReport E)"

section \<open>Every handler keeps the contract\<close>

context submitter
begin

lemma epoch_cron_acts:
  "spec_io (onEpochCronTriggerWithDeps E config s submit) (acts E config (sn_ObservedAt s))"
  unfolding onEpochCronTriggerWithDeps_def Let_def
  by (auto intro!: acts_intros report_call_acts [unfolded report_call_def] dest!: FindParent_Ok split: outcome.splits)

lemma epoch_withdraw_acts:
  "spec_io (onEpochWithdrawExecutingWithDeps E config lg s src submit) (acts E config (sn_ObservedAt s))"
  unfolding onEpochWithdrawExecutingWithDeps_def Let_def
  by (auto intro!: acts_intros report_call_acts [unfolded report_call_def] dest!: FindEvmConfigByChainSelector_Ok)

lemma epoch_deposit_acts:
  "spec_io (onEpochDepositToStrategySuccessWithDeps E config lg s src submit) (acts E config (sn_ObservedAt s))"
  unfolding onEpochDepositToStrategySuccessWithDeps_def Let_def
  by (auto intro!: acts_intros report_call_acts [unfolded report_call_def] dest!: FindParent_Ok split: outcome.splits)

end

interpretation epoch_cron: handler_contract E config "OnEpochCronTrigger E config" for E config
  by unfold_locales (simp add: OnEpochCronTrigger_def report.epoch_cron_acts)

interpretation epoch_withdraw: handler_contract E config "\<lambda>s. OnEpochWithdrawExecuting E config lg s src" for E config lg src
  by unfold_locales (simp add: OnEpochWithdrawExecuting_def report.epoch_withdraw_acts)

interpretation epoch_deposit: handler_contract E config "\<lambda>s. OnEpochDepositToStrategySuccess E config lg s src"
  for E config lg src
  by unfold_locales (simp add: OnEpochDepositToStrategySuccess_def report.epoch_deposit_acts)

section \<open>When each handler submits\<close>

text \<open>The conditions under which the current epoch is closed, with the TVL that is sent.\<close>

definition close_due :: "Config \<Rightarrow> EvmConfig \<Rightarrow> Snapshot \<Rightarrow> bigptr \<Rightarrow> bool" where
  "close_due config p s tvl \<longleftrightarrow>
     (let parent = sn_Parent s; epoch = ps_CurrentEpoch parent
      in rb_State (ps_Rebalance parent) = RebalanceNone \<and>
         (ps_CurrentEpochNonce parent = Some 1 \<or> ep_Status (ps_PreviousEpoch parent) = EpochClaimable) \<and>
         ep_Status epoch = EpochOpen \<and> PeriodElapsed (ep_OpenedAtTimestamp epoch) (sn_ObservedAt s) 3600 \<and>
         ActiveTVL s (ec_ChainSelector p) = Ok tvl \<and>
         (\<exists>d a. cf_AssetDecimals config = Some d \<and>
            calculateEpochClose epoch (ps_TotalShares parent) tvl d
              (st_ChainSelector (rb_ActiveStrategy (ps_Rebalance parent)) = ec_ChainSelector p) = Ok a))"

definition close_report :: "codec \<Rightarrow> EvmConfig \<Rightarrow> Snapshot \<Rightarrow> bigptr \<Rightarrow> submitter_fn \<Rightarrow> ExecutionResult prog" where
  "close_report c p s tvl submit =
     report_call submit p (sn_ObservedAt s) ''encode closeEpoch: %w''
       (EncodeCloseEpochMethodCall c \<lparr>ce_ExpectedEpochNonce = ps_CurrentEpochNonce (sn_Parent s), ce_Tvl = tvl\<rparr>)
       ''submit closeEpoch: %w'' ''Closed epoch'' ''closed epoch''"

lemma calculateEpochClose_no_panic [simp]: "\<not> is_panic (calculateEpochClose e shares tvl d isLocal)"
proof -
  have "\<not> is_panic (mulDivDown x y z)" for x y z by (simp add: mulDivDown_def Let_def)
  then have amounts: "\<not> is_panic (close_amounts dep burn sh v ap)" for dep burn sh v ap
    by (auto simp: close_amounts_def is_panic_bindO)
  have "\<not> is_panic (close_checks dep burn sh ap isLocal p)" for dep burn sh ap p
    by (cases p) (simp add: close_checks_def Let_def)
  then show ?thesis by (auto simp: calculateEpochClose_def is_panic_bindO amounts elim!: Uint256E)
qed

lemma reconcileEpochDeposit_no_panic [simp]: "\<not> is_panic (reconcileEpochDeposit e shares actual)"
  by (auto simp: reconcileEpochDeposit_def Let_def elim!: Uint256E split: if_splits)

lemma ActiveTVL_no_panic [simp]: "\<not> is_panic (ActiveTVL s chain)"
  by (auto simp: ActiveTVL_def Let_def split: option.splits)

lemma no_panic_eq: "\<not> is_panic m \<Longrightarrow> m \<noteq> Panic x"
  by auto

lemmas no_panics [simp] = no_panic_eq [OF calculateEpochClose_no_panic] no_panic_eq [OF reconcileEpochDeposit_no_panic]
  no_panic_eq [OF ActiveTVL_no_panic] no_panic_eq [OF FindEvmConfigByChainSelector_no_panic]

text \<open>What the entry point guarantees before a handler runs, and a codec that parses.\<close>

definition ready :: "env \<Rightarrow> Config \<Rightarrow> Snapshot \<Rightarrow> EvmConfig \<Rightarrow> bool" where
  "ready E config s p \<longleftrightarrow> valid_config E config \<and> valid_snapshot config s \<and> FindParent (cf_Evms config) = Ok p"

lemma readyE:
  assumes "ready E config s p"
  obtains n d where "FindParent (cf_Evms config) = Ok p" "ps_CurrentEpochNonce (sn_Parent s) = Some n" "0 < n"
    and "cf_AssetDecimals config = Some d" "d \<le> 77"
  using assms by (auto simp: ready_def valid_config_def valid_snapshot_def positive256_def)

lemma epoch_cron_due:
  assumes "ready E config s p" "parent_NewCodec E = Ok c" "close_due config p s tvl"
  shows "onEpochCronTriggerWithDeps E config s submit = close_report c p s tvl submit"
  using assms(1)
proof (rule readyE)
  fix n d
  assume "FindParent (cf_Evms config) = Ok p" "ps_CurrentEpochNonce (sn_Parent s) = Some n" "0 < n"
  then show ?thesis using assms(2,3)
    by (auto simp: onEpochCronTriggerWithDeps_def close_due_def close_report_def report_call_def Let_def minEpochPeriod_def
        split: outcome.splits)
qed

lemma epoch_cron_not_due:
  assumes "ready E config s p" "parent_NewCodec E = Ok c" "\<And>tvl. \<not> close_due config p s tvl"
  shows "idle (onEpochCronTriggerWithDeps E config s submit)"
  using assms(1)
proof (rule readyE)
  fix n d
  assume "FindParent (cf_Evms config) = Ok p" "ps_CurrentEpochNonce (sn_Parent s) = Some n" "0 < n"
    "cf_AssetDecimals config = Some d"
  then show ?thesis using assms(2,3)
    by (cases "ActiveTVL s (ec_ChainSelector p)")
      (auto simp: onEpochCronTriggerWithDeps_def close_due_def Let_def minEpochPeriod_def split: outcome.splits)
qed

text \<open>The executing epoch an event refers to: the one before the current one.\<close>

definition executing_epoch :: "TypesParentOperationalState \<Rightarrow> int \<Rightarrow> bool" where
  "executing_epoch parent n \<longleftrightarrow> 0 < n \<and> ps_CurrentEpochNonce parent = Some (n + 1) \<and>
     ep_Status (ps_PreviousEpoch parent) = EpochExecuting"

lemma matchesExecutingEpoch_eq:
  assumes "ps_CurrentEpochNonce parent = Some m"
  shows "matchesExecutingEpoch parent (Some n) = Ok (executing_epoch parent n)"
  using assms by (auto simp: matchesExecutingEpoch_def executing_epoch_def)

lemma strategy_child:
  assumes "ready E config s p" "FindEvmConfigByChainSelector (cf_Evms config) chain = Ok t" "chain \<noteq> ec_ChainSelector p"
  obtains "t \<in> set (cf_Evms config)" "\<not> ec_IsParent t" "ec_ChainSelector t = chain" "valid_child (child_of s chain)"
proof -
  have t: "t \<in> set (cf_Evms config)" "ec_ChainSelector t = chain"
    using FindEvmConfigByChainSelector_Ok [OF assms(2)] by auto
  have "\<not> ec_IsParent t"
  proof
    assume "ec_IsParent t"
    then have "t = p" using assms(1) t(1)
      by (metis ready_def valid_config_parent outcome.inject(1))
    then show False using t assms(3) by simp
  qed
  moreover have "valid_child (child_of s chain)"
    using assms(1) t \<open>\<not> ec_IsParent t\<close> by (fastforce simp: ready_def valid_snapshot_def child_of_def)
  ultimately show ?thesis using t that by blast
qed

definition withdraw_due ::
    "env \<Rightarrow> Config \<Rightarrow> EvmConfig \<Rightarrow> Snapshot \<Rightarrow> evm_log option \<Rightarrow> uint64 \<Rightarrow> int \<Rightarrow> int \<Rightarrow> EvmConfig \<Rightarrow> bool" where
  "withdraw_due E config p s lg src n amount t \<longleftrightarrow>
     (let parent = sn_Parent s; active = st_ChainSelector (rb_ActiveStrategy (ps_Rebalance parent))
      in MatchSource E config lg src (ec_ChainSelector p) \<and> rb_State (ps_Rebalance parent) = RebalanceNone \<and>
         executing_epoch parent n \<and> 0 < amount \<and>
         (\<exists>w d. ep_TotalWithdrawClaimAmount (ps_PreviousEpoch parent) = Some w \<and>
            ep_TotalDepositAmount (ps_PreviousEpoch parent) = Some d \<and> amount = w - d) \<and>
         active \<noteq> ec_ChainSelector p \<and> FindEvmConfigByChainSelector (cf_Evms config) active = Ok t \<and>
         (\<exists>h. cs_LastHandledEpochNonce (child_of s active) = Some h \<and> h < n))"

definition withdraw_report :: "codec \<Rightarrow> EvmConfig \<Rightarrow> Snapshot \<Rightarrow> int \<Rightarrow> int \<Rightarrow> submitter_fn \<Rightarrow> ExecutionResult prog" where
  "withdraw_report c t s n amount submit =
     report_call submit t (sn_ObservedAt s) ''encode executeEpochWithdraw: %w''
       (EncodeExecuteEpochWithdrawMethodCall c \<lparr>ew_EpochNonce = Some n, ew_Amount = Some amount\<rparr>)
       ''submit executeEpochWithdraw: %w'' ''Submitted executeEpochWithdraw'' ''submitted executeEpochWithdraw''"

lemma previous_epoch_amounts:
  assumes "ready E config s p"
  obtains w d where "ep_TotalWithdrawClaimAmount (ps_PreviousEpoch (sn_Parent s)) = Some w"
    "ep_TotalDepositAmount (ps_PreviousEpoch (sn_Parent s)) = Some d" "0 \<le> w" "0 \<le> d"
  using assms by (auto simp: ready_def valid_snapshot_def valid_epoch_def epoch_integers_def elim!: Uint256E)

lemma epoch_withdraw_due:
  assumes r: "ready E config s p" and c: "parent_NewCodec E = Ok c" "child_NewCodec E = Ok cc"
    and evt: "DecodeEpochWithdrawExecuting E c lg = Ok \<lparr>we_EpochNonce = Some n, we_Amount = Some amount\<rparr>"
    and due: "withdraw_due E config p s lg src n amount t"
  shows "onEpochWithdrawExecutingWithDeps E config lg s src submit = withdraw_report cc t s n amount submit"
  using r
proof (rule readyE)
  fix m d
  assume pr: "FindParent (cf_Evms config) = Ok p" "ps_CurrentEpochNonce (sn_Parent s) = Some m"
  have "t \<in> set (cf_Evms config) \<and> ec_ChainSelector t = st_ChainSelector (rb_ActiveStrategy (ps_Rebalance (sn_Parent s)))"
    using due FindEvmConfigByChainSelector_Ok by (force simp: withdraw_due_def Let_def)
  then show ?thesis using due pr c evt
    by (auto simp: onEpochWithdrawExecutingWithDeps_def withdraw_due_def Let_def matchesExecutingEpoch_eq withdraw_mismatch_def
        withdraw_report_def report_call_def)
qed

lemma epoch_withdraw_not_due:
  assumes r: "ready E config s p" and c: "parent_NewCodec E = Ok c" "child_NewCodec E = Ok cc"
    and evt: "DecodeEpochWithdrawExecuting E c lg = Ok \<lparr>we_EpochNonce = Some n, we_Amount = Some amount\<rparr>"
    and due: "\<And>t. \<not> withdraw_due E config p s lg src n amount t"
  shows "idle (onEpochWithdrawExecutingWithDeps E config lg s src submit)"
  using r
proof (rule readyE)
  fix m d
  let ?active = "st_ChainSelector (rb_ActiveStrategy (ps_Rebalance (sn_Parent s)))"
  assume pr: "FindParent (cf_Evms config) = Ok p" "ps_CurrentEpochNonce (sn_Parent s) = Some m"
  obtain w v where wv: "ep_TotalWithdrawClaimAmount (ps_PreviousEpoch (sn_Parent s)) = Some w"
    "ep_TotalDepositAmount (ps_PreviousEpoch (sn_Parent s)) = Some v"
    using previous_epoch_amounts [OF r] by blast
  show ?thesis
  proof (cases "FindEvmConfigByChainSelector (cf_Evms config) ?active")
    case (Ok t)
    have "?active \<noteq> ec_ChainSelector p \<Longrightarrow>
        ec_ChainSelector t = ?active \<and> (\<exists>h. cs_LastHandledEpochNonce (child_of s ?active) = Some h)"
      by (rule strategy_child [OF r Ok]) (auto simp: valid_child_def elim!: Uint256E)
    then show ?thesis using due [of t] pr c evt wv Ok
      by (auto simp: onEpochWithdrawExecutingWithDeps_def withdraw_due_def Let_def matchesExecutingEpoch_eq withdraw_mismatch_def)
  qed (use pr c evt wv in \<open>auto simp: onEpochWithdrawExecutingWithDeps_def Let_def matchesExecutingEpoch_eq withdraw_mismatch_def\<close>)
qed

definition deposit_due ::
    "env \<Rightarrow> Config \<Rightarrow> EvmConfig \<Rightarrow> Snapshot \<Rightarrow> evm_log option \<Rightarrow> uint64 \<Rightarrow> int \<Rightarrow> bigptr \<Rightarrow> bool" where
  "deposit_due E config p s lg src n amount \<longleftrightarrow>
     (let parent = sn_Parent s; active = st_ChainSelector (rb_ActiveStrategy (ps_Rebalance parent))
      in active \<noteq> ec_ChainSelector p \<and> MatchSource E config lg src active \<and> executing_epoch parent n \<and>
         (\<exists>adjusted. reconcileEpochDeposit (ps_PreviousEpoch parent) (ps_TotalShares parent) amount = Ok adjusted))"

definition deposit_report :: "codec \<Rightarrow> EvmConfig \<Rightarrow> Snapshot \<Rightarrow> int \<Rightarrow> bigptr \<Rightarrow> submitter_fn \<Rightarrow> ExecutionResult prog" where
  "deposit_report c p s n amount submit =
     report_call submit p (sn_ObservedAt s) ''encode completeEpochDeposit: %w''
       (EncodeCompleteEpochDepositMethodCall c \<lparr>cd_ExpectedEpochNonce = Some n, cd_ActualDepositAmount = amount\<rparr>)
       ''submit completeEpochDeposit: %w'' ''Completed epoch deposit'' ''completed epoch deposit''"

lemma epoch_deposit_exact:
  assumes "ready E config s p" "parent_NewCodec E = Ok c" "child_NewCodec E = Ok cc"
    and "DecodeEpochDepositToStrategySuccess E cc lg = Ok \<lparr>ds_EpochNonce = Some n, ds_Amount = amount\<rparr>"
  shows "if deposit_due E config p s lg src n amount
    then onEpochDepositToStrategySuccessWithDeps E config lg s src submit = deposit_report c p s n amount submit
    else idle (onEpochDepositToStrategySuccessWithDeps E config lg s src submit)"
  using assms(1)
proof (rule readyE)
  fix m d
  assume "FindParent (cf_Evms config) = Ok p" "ps_CurrentEpochNonce (sn_Parent s) = Some m"
  then show ?thesis using assms(2-)
    by (auto simp: onEpochDepositToStrategySuccessWithDeps_def deposit_due_def Let_def matchesExecutingEpoch_eq
        deposit_report_def report_call_def split: outcome.splits)
qed

section \<open>The handlers' conditions are the contract's\<close>

text \<open>The snapshot of a store: what \<open>getParentOperationalState\<close> returns for it.\<close>

definition observes :: "Snapshot \<Rightarrow> vault_store \<Rightarrow> bool" where
  "observes s st \<longleftrightarrow>
     (\<exists>paused recovery rb tvl. sn_Parent s = sol_getParentOperationalState paused recovery rb tvl st)"

lemma observes_fields:
  assumes "observes s st"
  shows "ps_CurrentEpochNonce (sn_Parent s) = Some (vs_epochNonce st)"
    and "ps_CurrentEpoch (sn_Parent s) = epoch_of_storage (vs_epochs st (vs_epochNonce st))"
    and "ps_PreviousEpoch (sn_Parent s) = epoch_of_storage (vs_epochs st (vs_epochNonce st - 1))"
    and "rb_State (ps_Rebalance (sn_Parent s)) = vs_rebalanceState st"
    and "ps_TotalShares (sn_Parent s) = Some (vs_totalShares st)"
  using assms by (auto simp: observes_def sol_getParentOperationalState_def)

lemma epoch_of_storage_simps [simp]:
  "ep_TotalDepositAmount (epoch_of_storage e) = Some (se_totalDepositAmount e)"
  "ep_TotalWithdrawClaimAmount (epoch_of_storage e) = Some (se_totalWithdrawClaimAmount e)"
  "ep_OpenedAtTimestamp (epoch_of_storage e) = Some (se_openedAtTimestamp e)"
  "ep_Status (epoch_of_storage e) = se_status e"
  by (simp_all add: epoch_of_storage_def)

definition strategy_is_local :: "Snapshot \<Rightarrow> EvmConfig \<Rightarrow> bool" where
  "strategy_is_local s p \<longleftrightarrow> st_ChainSelector (rb_ActiveStrategy (ps_Rebalance (sn_Parent s))) = ec_ChainSelector p"

lemma close_due_iff_guards:
  assumes obs: "observes s st" and wf: "wf_store st" and now: "0 \<le> sn_ObservedAt s" "sn_ObservedAt s < 2 ^ 256"
    and tvl: "ActiveTVL s (ec_ChainSelector p) = Ok (Some tvl)" and d: "cf_AssetDecimals config = Some d"
  shows "close_due config p s (Some tvl) \<longleftrightarrow>
    close_guards st (sn_ObservedAt s) (vs_epochNonce st) \<and> (\<exists>a. preflight_close st tvl d (strategy_is_local s p) = Ok a)"
proof -
  have "0 \<le> se_openedAtTimestamp (vs_epochs st (vs_epochNonce st))"
      "se_openedAtTimestamp (vs_epochs st (vs_epochNonce st)) < 2 ^ 256"
    using wf by (simp_all add: wf_store_def wf_epoch_def)
  then show ?thesis using now tvl d
    by (auto simp: close_due_def Let_def close_guards_def observes_fields [OF obs] preflight_close_def
        strategy_is_local_def PeriodElapsed_iff)
qed

lemma close_due_settles:
  assumes doc: "fullMulDiv_doc fmd" "toInt256_doc toInt"
    and obs: "observes s st" and wf: "wf_store st" and now: "0 \<le> sn_ObservedAt s" "sn_ObservedAt s < 2 ^ 256"
    and tvl: "ActiveTVL s (ec_ChainSelector p) = Ok (Some tvl)" "u256 tvl" and d: "cf_AssetDecimals config = Some d" "d \<le> 77"
  shows "close_due config p s (Some tvl) \<longleftrightarrow>
    (\<exists>r. sol_closeEpoch fmd toInt sharePrecision (asset_precision d) (asset_precision d) st (sn_ObservedAt s)
       (vs_epochNonce st) tvl (strategy_is_local s p) = Inr r)"
  unfolding close_due_iff_guards [OF obs wf now tvl(1) d(1)] sol_closeEpoch_Inr [OF doc wf tvl(2) d(2)] by blast

text \<open>A close that the guards admit is still admitted when the transaction is mined later.\<close>

lemma close_guards_later: "close_guards st ts n \<Longrightarrow> ts \<le> ts' \<Longrightarrow> close_guards st ts' n"
  by (auto simp: close_guards_def)

lemma deposit_due_settles:
  assumes doc: "fullMulDiv_doc fmd" and obs: "observes s st" and wf: "wf_store st" "u256 actual"
  shows "deposit_due E config p s lg src n (Some actual) \<longleftrightarrow>
    \<not> strategy_is_local s p \<and>
    MatchSource E config lg src (st_ChainSelector (rb_ActiveStrategy (ps_Rebalance (sn_Parent s)))) \<and>
    (\<exists>st'. sol_completeEpochDeposit fmd st n actual = Inr st')"
  unfolding sol_completeEpochDeposit_Inr [OF doc wf]
  by (auto simp: deposit_due_def Let_def strategy_is_local_def executing_epoch_def observes_fields [OF obs] preflight_complete_def)

end
