(* ===== verification/Offchain_Pools.thy ===== *)
theory Offchain_Pools
  imports Report_Model "HOL-Library.Multiset"
begin

text \<open>
  \<open>cre/workflow/internal/offchain/defillama.go\<close>: fetching the pool feed from the relay, checking its
  age, streaming through its JSON, and selecting the best approved pool and the current one.

  A response body is a byte string. The nodes of the network and the aggregation of their results
  are parameters (\<open>don\<close>), as is the order in which Go visits a map.
\<close>

section \<open>Data\<close>

record ChainConfig =
  cc_ChainSelector :: uint64
  cc_DefiLlamaChainName :: string

record PoolConfig =
  pc_PoolIDs :: "string list"
  pc_Chains :: "ChainConfig list"
  pc_Projects :: "string list"
  pc_Symbols :: "string list"

record Pool =
  po_Pool :: string
  po_Chain :: string
  po_Project :: string
  po_Symbol :: string
  po_Apy :: float64

record poolJSON =
  pj_Pool :: string
  pj_Chain :: string
  pj_Project :: string
  pj_Symbol :: string
  pj_Apy :: "float64 option"

record fetchParams =
  fp_Config :: PoolConfig
  fp_ActiveProtocolId :: bytes32
  fp_ActiveChainName :: string
  fp_BearerToken :: string
  fp_ObservedAt :: int

record fetchResult =
  fr_BestPool :: Pool
  fr_HasBest :: bool
  fr_CurrentPool :: Pool
  fr_HasCurrent :: bool

definition zero_pool :: Pool where
  "zero_pool = \<lparr>po_Pool = [], po_Chain = [], po_Project = [], po_Symbol = [], po_Apy = F_Fin 0\<rparr>"

definition zero_result :: fetchResult where
  "zero_result = \<lparr>fr_BestPool = zero_pool, fr_HasBest = False, fr_CurrentPool = zero_pool, fr_HasCurrent = False\<rparr>"

definition defiLlamaRelayURL :: string where
  "defiLlamaRelayURL = ''https://yield-v2-defillama-relay.contractlevel.workers.dev/v1/defillama/pools''"

definition defiLlamaRelayBearerTokenSecret :: string where
  "defiLlamaRelayBearerTokenSecret = ''DEFILLAMA_RELAY_BEARER_TOKEN''"

definition defiLlamaMaxResponseBytes :: nat where "defiLlamaMaxResponseBytes = 102400"
definition defiLlamaMaxSnapshotAgeSeconds :: int where "defiLlamaMaxSnapshotAgeSeconds = 900"
definition maxJSONNestingDepth :: nat where "maxJSONNestingDepth = 256"
definition minPoolAPY :: float64 where "minPoolAPY = F_Fin 0"
definition maxPoolAPY :: float64 where "maxPoolAPY = F_Fin 1000"

section \<open>Approved values\<close>

fun chainSelectorToName_from :: "(uint64 \<rightharpoonup> string) \<Rightarrow> ChainConfig list \<Rightarrow> (uint64 \<rightharpoonup> string)" where
  "chainSelectorToName_from m [] = m"
| "chainSelectorToName_from m (c # cs) =
     (if cc_DefiLlamaChainName c = [] then chainSelectorToName_from m cs
      else chainSelectorToName_from (m(cc_ChainSelector c \<mapsto> cc_DefiLlamaChainName c)) cs)"

definition chainSelectorToName :: "PoolConfig \<Rightarrow> (uint64 \<rightharpoonup> string)" where
  "chainSelectorToName cfg = chainSelectorToName_from Map.empty (pc_Chains cfg)"

fun allowedChains_from :: "(string \<rightharpoonup> string) \<Rightarrow> ChainConfig list \<Rightarrow> (string \<rightharpoonup> string)" where
  "allowedChains_from m [] = m"
| "allowedChains_from m (c # cs) =
     (if cc_DefiLlamaChainName c = [] then allowedChains_from m cs
      else allowedChains_from (m(canonicalDefiLlamaValue (cc_DefiLlamaChainName c) \<mapsto> cc_DefiLlamaChainName c)) cs)"

definition allowedChains :: "PoolConfig \<Rightarrow> (string \<rightharpoonup> string)" where
  "allowedChains cfg = allowedChains_from Map.empty (pc_Chains cfg)"

fun allowedValues_from :: "(string \<rightharpoonup> string) \<Rightarrow> string list \<Rightarrow> (string \<rightharpoonup> string)" where
  "allowedValues_from m [] = m"
| "allowedValues_from m (v # vs) = allowedValues_from (m(canonicalDefiLlamaValue v \<mapsto> v)) vs"

definition allowedValues :: "string list \<Rightarrow> (string \<rightharpoonup> string)" where
  "allowedValues vs = allowedValues_from Map.empty vs"

definition PoolToProtocolId :: "env \<Rightarrow> string \<Rightarrow> bytes32" where
  "PoolToProtocolId E project = take 32 (Keccak256 E (string_bytes project) @ replicate 32 0)"

text \<open>\<open>iter\<close> lists a map's entries in the order in which \<open>range\<close> visits them.\<close>

definition PoolToChainSelector :: "((uint64 \<rightharpoonup> string) \<Rightarrow> (uint64 \<times> string) list) \<Rightarrow> PoolConfig \<Rightarrow> string \<Rightarrow> uint64 outcome" where
  "PoolToChainSelector iter cfg chain =
     (case find (\<lambda>(sel, name). canonicalDefiLlamaValue name = canonicalDefiLlamaValue chain)
             (iter (chainSelectorToName cfg)) of
        Some (sel, _) \<Rightarrow> Ok sel
      | None \<Rightarrow> Err (Errorf ''no chain selector for DefiLlama chain %q'' [FStr chain]))"

definition ValidPoolAPY :: "float64 \<Rightarrow> bool" where
  "ValidPoolAPY apy \<longleftrightarrow> \<not> IsNaN apy \<and> \<not> IsInf apy \<and> fle minPoolAPY apy \<and> fle apy maxPoolAPY"

section \<open>Sorting\<close>

definition pool_less :: "Pool \<Rightarrow> Pool \<Rightarrow> bool" where
  "pool_less left right =
     (if \<not> feq (po_Apy left) (po_Apy right) then flt (po_Apy right) (po_Apy left)
      else if po_Chain left \<noteq> po_Chain right then po_Chain left < po_Chain right
      else if po_Project left \<noteq> po_Project right then po_Project left < po_Project right
      else if po_Symbol left \<noteq> po_Symbol right then po_Symbol left < po_Symbol right
      else po_Pool left < po_Pool right)"

text \<open>\<open>sort.SliceStable\<close>: an element goes behind every element that is less than it.\<close>

fun stable_insert :: "('a \<Rightarrow> 'a \<Rightarrow> bool) \<Rightarrow> 'a \<Rightarrow> 'a list \<Rightarrow> 'a list" where
  "stable_insert lt x [] = [x]"
| "stable_insert lt x (y # ys) = (if lt y x then y # stable_insert lt x ys else x # y # ys)"

fun SliceStable :: "('a \<Rightarrow> 'a \<Rightarrow> bool) \<Rightarrow> 'a list \<Rightarrow> 'a list" where
  "SliceStable lt [] = []"
| "SliceStable lt (x # xs) = stable_insert lt x (SliceStable lt xs)"

definition sortPools :: "Pool list \<Rightarrow> Pool list" where
  "sortPools pools = SliceStable pool_less pools"

section \<open>Streaming\<close>

text \<open>
  \<open>skipJSONValueDepth\<close> and its two loops. The fuel bounds the nesting of calls and the length of
  the loops; \<open>skipJSONValue\<close> starts with the length of the input, which suffices
  (\<open>skip_enough_fuel\<close>), so that the out-of-fuel value is never returned.
\<close>

definition out_of_fuel :: "'a outcome" where
  "out_of_fuel = Panic ''out of fuel''"

fun skipJSONValueDepth :: "nat \<Rightarrow> nat \<Rightarrow> decoder \<Rightarrow> decoder outcome"
  and skip_members :: "nat \<Rightarrow> nat \<Rightarrow> decoder \<Rightarrow> decoder outcome"
  and skip_elements :: "nat \<Rightarrow> nat \<Rightarrow> decoder \<Rightarrow> decoder outcome" where
  "skipJSONValueDepth 0 depth d = out_of_fuel"
| "skipJSONValueDepth (Suc n) depth d =
     (if maxJSONNestingDepth < depth then Err (Errorf ''maximum JSON nesting depth exceeded'' [])
      else bindO (dec_Token d) (\<lambda>(t, d').
        if t = TkDelim (CHR ''{'') then
          bindO (skip_members n depth d') (\<lambda>d''. bindO (dec_Token d'') (\<lambda>(_, d3). Ok d3))
        else if t = TkDelim (CHR ''['') then
          bindO (skip_elements n depth d') (\<lambda>d''. bindO (dec_Token d'') (\<lambda>(_, d3). Ok d3))
        else Ok d'))"
| "skip_members 0 depth d = out_of_fuel"
| "skip_members (Suc n) depth d =
     (if \<not> dec_More d then Ok d
      else bindO (dec_Token d) (\<lambda>(_, d'). bindO (skipJSONValueDepth n (depth + 1) d') (skip_members n depth)))"
| "skip_elements 0 depth d = out_of_fuel"
| "skip_elements (Suc n) depth d =
     (if \<not> dec_More d then Ok d
      else bindO (skipJSONValueDepth n (depth + 1) d) (skip_elements n depth))"

definition skipJSONValue :: "decoder \<Rightarrow> decoder outcome" where
  "skipJSONValue d = skipJSONValueDepth (2 * length (d_input d) + 2) 0 d"

text \<open>What a skip consumes, and that its fuel suffices.\<close>

lemma skip_shorter:
  "skipJSONValueDepth n depth d = Ok d' \<Longrightarrow> length (d_input d') < length (d_input d)"
  "skip_members n depth d = Ok d' \<Longrightarrow> length (d_input d') \<le> length (d_input d)"
  "skip_elements n depth d = Ok d' \<Longrightarrow> length (d_input d') \<le> length (d_input d)"
proof (induction n depth d and n depth d and n depth d arbitrary: d' and d' and d'
    rule: skipJSONValueDepth_skip_members_skip_elements.induct)
  case (2 n depth d)
  then show ?case
    by (fastforce simp: bindO_Ok_iff split: if_splits prod.splits dest!: dec_Token_shorter)
next
  case (4 n depth d)
  then show ?case
    by (fastforce simp: bindO_Ok_iff split: if_splits prod.splits dest!: dec_Token_shorter)
next
  case (6 n depth d)
  then show ?case
    by (fastforce simp: bindO_Ok_iff split: if_splits prod.splits)
qed (simp_all add: out_of_fuel_def)

definition fuel_ok :: "'a outcome \<Rightarrow> bool" where
  "fuel_ok m \<longleftrightarrow> m \<noteq> out_of_fuel"

lemma fuel_ok_bindO: "fuel_ok m \<Longrightarrow> (\<And>a. m = Ok a \<Longrightarrow> fuel_ok (f a)) \<Longrightarrow> fuel_ok (bindO m f)"
  by (cases m) (auto simp: fuel_ok_def out_of_fuel_def)

lemma fuel_ok_simps [simp]: "fuel_ok (Ok a)" "fuel_ok (Err e)"
  by (simp_all add: fuel_ok_def out_of_fuel_def)

lemma fuel_ok_dec_Token [simp]: "fuel_ok (dec_Token d)"
proof -
  have "fuel_ok (dec_token ls st stk)" for ls st stk
    by (induction ls st stk rule: dec_token.induct)
      (auto simp: fuel_ok_def out_of_fuel_def literal_token_def close_token_def syntax_error_def eof_error_def
        split: list.splits option.splits)
  then show ?thesis by (simp add: dec_Token_def)
qed

lemma skip_enough_fuel:
  "2 * length (d_input d) < n \<Longrightarrow> fuel_ok (skipJSONValueDepth n depth d)"
  "2 * length (d_input d) + 1 < n \<Longrightarrow> fuel_ok (skip_members n depth d)"
  "2 * length (d_input d) + 1 < n \<Longrightarrow> fuel_ok (skip_elements n depth d)"
proof (induction n depth d and n depth d and n depth d
    rule: skipJSONValueDepth_skip_members_skip_elements.induct)
  case (2 n depth d)
  then show ?case
    by (fastforce intro!: fuel_ok_bindO split: prod.splits dest!: dec_Token_shorter)
next
  case (4 n depth d)
  then show ?case
    by (fastforce intro!: fuel_ok_bindO split: prod.splits dest!: dec_Token_shorter dest: skip_shorter(1))
next
  case (6 n depth d)
  then show ?case
    by (fastforce intro!: fuel_ok_bindO dest: skip_shorter(1))
qed simp_all

lemma skipJSONValue_shorter: "skipJSONValue d = Ok d' \<Longrightarrow> length (d_input d') < length (d_input d)"
  unfolding skipJSONValue_def by (rule skip_shorter(1))

section \<open>Parsing the feed\<close>

text \<open>\<open>json.Unmarshal\<close> into \<open>poolJSON\<close>: members in order, keys without regard to case, null leaves a
  string as it is and clears the pointer; any other type mismatch is an error.\<close>

fun set_string :: "json \<Rightarrow> string \<Rightarrow> string option" where
  "set_string (JStr s) old = Some s"
| "set_string JNull old = Some old"
| "set_string _ old = None"

fun set_float :: "json \<Rightarrow> float64 option option" where
  "set_float JNull = Some None"
| "set_float (JNum s) = map_option Some (ParseFloat s)"
| "set_float _ = None"

fun set_int64 :: "json \<Rightarrow> int option option" where
  "set_int64 JNull = Some None"
| "set_int64 (JNum s) = map_option Some (ParseInt64 s)"
| "set_int64 _ = None"

definition assign_pool :: "string \<times> json \<Rightarrow> poolJSON \<Rightarrow> poolJSON option" where
  "assign_pool kv p =
     (if EqualFold (fst kv) ''pool'' then map_option (\<lambda>s. p\<lparr>pj_Pool := s\<rparr>) (set_string (snd kv) (pj_Pool p))
      else if EqualFold (fst kv) ''chain'' then map_option (\<lambda>s. p\<lparr>pj_Chain := s\<rparr>) (set_string (snd kv) (pj_Chain p))
      else if EqualFold (fst kv) ''project'' then map_option (\<lambda>s. p\<lparr>pj_Project := s\<rparr>) (set_string (snd kv) (pj_Project p))
      else if EqualFold (fst kv) ''symbol'' then map_option (\<lambda>s. p\<lparr>pj_Symbol := s\<rparr>) (set_string (snd kv) (pj_Symbol p))
      else if EqualFold (fst kv) ''apyBase'' then map_option (\<lambda>f. p\<lparr>pj_Apy := f\<rparr>) (set_float (snd kv))
      else Some p)"

fun assign_all :: "('m \<Rightarrow> 'r \<Rightarrow> 'r option) \<Rightarrow> 'm list \<Rightarrow> 'r \<Rightarrow> 'r option" where
  "assign_all f [] r = Some r"
| "assign_all f (m # ms) r = Option.bind (f m r) (assign_all f ms)"

definition unmarshal_pool :: "json \<Rightarrow> poolJSON option" where
  "unmarshal_pool j =
     (let zero = \<lparr>pj_Pool = [], pj_Chain = [], pj_Project = [], pj_Symbol = [], pj_Apy = None\<rparr>
      in case j of JNull \<Rightarrow> Some zero | JObj kvs \<Rightarrow> assign_all assign_pool kvs zero | _ \<Rightarrow> None)"

definition assign_refreshed :: "string \<times> json \<Rightarrow> int option \<Rightarrow> int option option" where
  "assign_refreshed kv r = (if EqualFold (fst kv) ''refreshedAt'' then set_int64 (snd kv) else Some r)"

text \<open>The metadata struct of \<open>validateSnapshotFreshness\<close>.\<close>

definition unmarshal_metadata :: "string \<Rightarrow> int option option" where
  "unmarshal_metadata body =
     (case json_parse body of
        Some JNull \<Rightarrow> Some None
      | Some (JObj kvs) \<Rightarrow> assign_all assign_refreshed kvs None
      | _ \<Rightarrow> None)"

definition validateSnapshotFreshness :: "string \<Rightarrow> int \<Rightarrow> unit outcome" where
  "validateSnapshotFreshness body observedAt =
     (case unmarshal_metadata body of
        None \<Rightarrow> Err (Wrapf ''decode snapshot metadata: %w'' [] (Foreign ''json: cannot unmarshal''))
      | Some refreshedAt \<Rightarrow>
          (case refreshedAt of
             None \<Rightarrow> Err (Errorf ''invalid snapshot refresh timestamp'' [])
           | Some r \<Rightarrow>
               if observedAt < 0 \<or> r < 0 then Err (Errorf ''invalid snapshot refresh timestamp'' [])
               else if observedAt < r then Err (Errorf ''snapshot refresh timestamp is in the future'' [])
               else if defiLlamaMaxSnapshotAgeSeconds < observedAt - r
               then Err (Errorf ''snapshot is older than 15 minutes'' [])
               else Ok ()))"

text \<open>One element of the data array: a candidate, or skipped.\<close>

definition pool_candidate :: "PoolConfig \<Rightarrow> json \<Rightarrow> Pool option" where
  "pool_candidate cfg raw =
     (case unmarshal_pool raw of
        None \<Rightarrow> None
      | Some pj \<Rightarrow>
          (case pj_Apy pj of
             None \<Rightarrow> None
           | Some apy \<Rightarrow>
               (case (allowedValues (pc_PoolIDs cfg) (canonicalDefiLlamaValue (pj_Pool pj)),
                      allowedChains cfg (canonicalDefiLlamaValue (pj_Chain pj)),
                      allowedValues (pc_Projects cfg) (canonicalDefiLlamaValue (pj_Project pj)),
                      allowedValues (pc_Symbols cfg) (canonicalDefiLlamaValue (pj_Symbol pj))) of
                  (Some poolID, Some chainName, Some projectName, Some symbolName) \<Rightarrow>
                    if \<not> ValidPoolAPY apy then None
                    else Some \<lparr>po_Pool = poolID, po_Chain = chainName, po_Project = projectName,
                               po_Symbol = symbolName, po_Apy = apy\<rparr>
                | _ \<Rightarrow> None)))"

text \<open>The loop over the top-level keys: whether a data key was found, and the decoder after it.\<close>

function find_data :: "decoder \<Rightarrow> (bool \<times> decoder) outcome" where
  "find_data d =
     (if \<not> dec_More d then Ok (False, d)
      else (case wrapO ''read top-level key: %w'' [] (dec_Token d) of
              Err e \<Rightarrow> Err e
            | Panic m \<Rightarrow> Panic m
            | Ok (t, d1) \<Rightarrow>
                (case t of
                   TkStr key \<Rightarrow>
                     if \<not> EqualFold key ''data'' then
                       (case wrapO ''skip top-level key %q: %w'' [FStr key] (skipJSONValue d1) of
                          Err e \<Rightarrow> Err e
                        | Panic m \<Rightarrow> Panic m
                        | Ok d2 \<Rightarrow> find_data d2)
                     else Ok (True, d1)
                 | _ \<Rightarrow> Panic ''interface conversion'')))"
  by pat_completeness auto

termination find_data
  by (relation "measure (\<lambda>d. length (d_input d))")
    (auto dest!: dec_Token_shorter skipJSONValue_shorter)

declare find_data.simps [simp del]

function collect_pools :: "PoolConfig \<Rightarrow> decoder \<Rightarrow> Pool list outcome" where
  "collect_pools cfg d =
     (if \<not> dec_More d then Ok []
      else (case wrapO ''read pool element: %w'' [] (dec_Decode d) of
              Err e \<Rightarrow> Err e
            | Panic m \<Rightarrow> Panic m
            | Ok (raw, d') \<Rightarrow>
                bindO (collect_pools cfg d') (\<lambda>rest.
                  Ok (case pool_candidate cfg raw of None \<Rightarrow> rest | Some p \<Rightarrow> p # rest))))"
  by pat_completeness auto

termination collect_pools
  by (relation "measure (\<lambda>(cfg, d). length (d_input d))") (auto dest!: dec_Decode_shorter)

declare collect_pools.simps [simp del]

definition select_pools :: "env \<Rightarrow> bytes32 \<Rightarrow> string \<Rightarrow> Pool list \<Rightarrow> fetchResult" where
  "select_pools E activeProtocolId activeChainName candidates =
     (let sorted = sortPools candidates;
          r1 = (case sorted of [] \<Rightarrow> zero_result | p # _ \<Rightarrow> zero_result\<lparr>fr_BestPool := p, fr_HasBest := True\<rparr>)
      in case find (\<lambda>p. po_Chain p = activeChainName \<and> PoolToProtocolId E (po_Project p) = activeProtocolId) sorted of
           None \<Rightarrow> r1
         | Some p \<Rightarrow> r1\<lparr>fr_CurrentPool := p, fr_HasCurrent := True\<rparr>)"

definition parsePools :: "env \<Rightarrow> string \<Rightarrow> PoolConfig \<Rightarrow> bytes32 \<Rightarrow> string \<Rightarrow> fetchResult outcome" where
  "parsePools E body cfg activeProtocolId activeChainName =
     bindO (wrapO ''read object start: %w'' [] (dec_Token (NewDecoder body))) (\<lambda>(t, d).
       if t \<noteq> TkDelim (CHR ''{'') then Err (Errorf ''expected top-level object'' [])
       else bindO (find_data d) (\<lambda>(foundData, d1).
         if \<not> foundData then Err (Errorf (CHR 0x27 # ''data'' @ CHR 0x27 # '' key not found in response'') [])
         else bindO (wrapO ''read array start: %w'' [] (dec_Token d1)) (\<lambda>(t, d2).
           if t \<noteq> TkDelim (CHR ''['') then
             Err (Errorf (''expected '' @ CHR 0x27 # ''['' @ CHR 0x27 # '' after '' @ CHR 0x27 # ''data'' @ CHR 0x27 # '' key'') [])
           else bindO (collect_pools cfg d2) (\<lambda>candidates.
             Ok (select_pools E activeProtocolId activeChainName candidates)))))"

section \<open>Fetching\<close>

definition relay_request :: "fetchParams \<Rightarrow> http_request" where
  "relay_request params = \<lparr>hr_Url = defiLlamaRelayURL, hr_Method = ''GET'',
     hr_Headers = [(''Accept'', ''application/json''), (''Authorization'', ''Bearer '' @ fp_BearerToken params)],
     hr_TimeoutSeconds = 10\<rparr>"

definition fetchAndParseWithRequester ::
    "env \<Rightarrow> fetchParams \<Rightarrow> (http_request \<Rightarrow> http_response option outcome) \<Rightarrow> fetchResult outcome" where
  "fetchAndParseWithRequester E params SendRequest =
     bindO (wrapO ''do request: %w'' [] (SendRequest (relay_request params))) (\<lambda>resp.
       case resp of
         None \<Rightarrow> Err (Errorf ''do request: nil response'' [])
       | Some r \<Rightarrow>
           if hp_StatusCode r \<noteq> 200 then Err (Errorf ''unexpected status %d'' [FInt (int (hp_StatusCode r))])
           else if defiLlamaMaxResponseBytes < length (hp_Body r)
           then Err (Errorf ''relay response body exceeds %d bytes'' [FInt (int defiLlamaMaxResponseBytes)])
           else bindO (validateSnapshotFreshness (hp_Body r) (fp_ObservedAt params)) (\<lambda>_.
             parsePools E (hp_Body r) (fp_Config params) (fp_ActiveProtocolId params) (fp_ActiveChainName params)))"

definition fetchResultToPools :: "fetchResult \<Rightarrow> Pool option \<times> Pool option" where
  "fetchResultToPools raw =
     (if fr_HasBest raw then Some (fr_BestPool raw) else None,
      if fr_HasCurrent raw then Some (fr_CurrentPool raw) else None)"

text \<open>
  The oracle network behind \<open>crehttp.SendRequest\<close>: each node sends the request and runs the callback on
  its own response; the aggregation turns the nodes' results into one.
\<close>

record don =
  dn_nodes :: "trace \<Rightarrow> (http_request \<Rightarrow> http_response option outcome) list"
  dn_consensus :: "fetchResult outcome list \<Rightarrow> fetchResult outcome"

definition crehttp_SendRequest :: "env \<Rightarrow> don \<Rightarrow> fetchParams \<Rightarrow> fetchResult prog" where
  "crehttp_SendRequest E net params =
     callI (HHttp (relay_request params))
       (\<lambda>tr. dn_consensus net (map (fetchAndParseWithRequester E params) (dn_nodes net tr)))"

definition FetchAndSelectPools ::
    "env \<Rightarrow> don \<Rightarrow> PoolConfig \<Rightarrow> bytes32 \<Rightarrow> uint64 \<Rightarrow> (Pool option \<times> Pool option) prog" where
  "FetchAndSelectPools E net cfg activeProtocolId activeChainSelector =
     (let activeChainName = (case chainSelectorToName cfg activeChainSelector of None \<Rightarrow> [] | Some n \<Rightarrow> n)
      in bindI (wrapI ''get relay bearer token: %w'' [] (GetSecret E defiLlamaRelayBearerTokenSecret)) (\<lambda>secret.
           case secret of
             None \<Rightarrow> liftO (Err (Errorf ''get relay bearer token: empty secret'' []))
           | Some v \<Rightarrow>
               if TrimSpace v = [] then liftO (Err (Errorf ''get relay bearer token: empty secret'' []))
               else bindI (Now E) (\<lambda>now.
                 bindI (wrapI ''fetch pools: %w'' [] (crehttp_SendRequest E net
                          \<lparr>fp_Config = cfg, fp_ActiveProtocolId = activeProtocolId, fp_ActiveChainName = activeChainName,
                           fp_BearerToken = v, fp_ObservedAt = now\<rparr>)) (\<lambda>raw.
                   retI (fetchResultToPools raw)))))"

section \<open>The order of the pools\<close>

text \<open>A strict linear order on a carrier: what makes a stable sort canonical.\<close>

locale strict_linear_on =
  fixes S :: "'a set"
    and lt :: "'a \<Rightarrow> 'a \<Rightarrow> bool"
  assumes lt_irrefl: "x \<in> S \<Longrightarrow> \<not> lt x x"
    and lt_trans: "x \<in> S \<Longrightarrow> y \<in> S \<Longrightarrow> z \<in> S \<Longrightarrow> lt x y \<Longrightarrow> lt y z \<Longrightarrow> lt x z"
    and lt_total: "x \<in> S \<Longrightarrow> y \<in> S \<Longrightarrow> lt x y \<or> x = y \<or> lt y x"
begin

lemma lt_asym: "x \<in> S \<Longrightarrow> y \<in> S \<Longrightarrow> lt x y \<Longrightarrow> \<not> lt y x"
  using lt_irrefl lt_trans by blast

lemma not_lt_trans: "x \<in> S \<Longrightarrow> y \<in> S \<Longrightarrow> z \<in> S \<Longrightarrow> \<not> lt y x \<Longrightarrow> \<not> lt z y \<Longrightarrow> \<not> lt z x"
  using lt_total lt_trans by blast

lemma stable_insert_sorted:
  assumes "x \<in> S" "set ys \<subseteq> S" "sorted_wrt (\<lambda>a b. \<not> lt b a) ys"
  shows "sorted_wrt (\<lambda>a b. \<not> lt b a) (stable_insert lt x ys)"
  using assms
proof (induction ys)
  case (Cons y ys)
  show ?case
  proof (cases "lt y x")
    case True
    have set_ins: "set (stable_insert lt x ys) = insert x (set ys)"
      by (induction ys) auto
    from True Cons show ?thesis by (auto simp: set_ins lt_asym)
  next
    case False
    have "\<not> lt z x" if "z \<in> set ys" for z
      by (rule not_lt_trans [of x y z]) (use that False Cons.prems in auto)
    with False Cons.prems show ?thesis by auto
  qed
qed simp

lemma SliceStable_mset [simp]: "mset (SliceStable lt xs) = mset xs"
proof -
  have "mset (stable_insert lt x ys) = add_mset x (mset ys)" for x ys
    by (induction ys) auto
  then show ?thesis by (induction xs) auto
qed

lemma SliceStable_set [simp]: "set (SliceStable lt xs) = set xs"
  by (metis SliceStable_mset set_mset_mset)

lemma SliceStable_sorted: "set xs \<subseteq> S \<Longrightarrow> sorted_wrt (\<lambda>a b. \<not> lt b a) (SliceStable lt xs)"
  by (induction xs) (auto intro!: stable_insert_sorted)

lemma sorted_unique:
  assumes "set xs \<subseteq> S" "mset xs = mset ys"
    and "sorted_wrt (\<lambda>a b. \<not> lt b a) xs" "sorted_wrt (\<lambda>a b. \<not> lt b a) ys"
  shows "xs = ys"
  using assms
proof (induction xs arbitrary: ys)
  case (Cons x xs)
  then obtain y ys' where ys: "ys = y # ys'" by (cases ys) auto
  have "x \<in> set ys" "y \<in> set (x # xs)"
    using Cons.prems(2) ys by (metis list.set_intros(1) set_mset_mset)+
  then have "x = y" using Cons.prems ys lt_total [of x y] by auto
  then show ?case using Cons ys by auto
qed simp

text \<open>The sorted list depends on the elements only, not on their order.\<close>

lemma SliceStable_canonical: "set xs \<subseteq> S \<Longrightarrow> mset xs = mset ys \<Longrightarrow> SliceStable lt xs = SliceStable lt ys"
  by (rule sorted_unique) (auto intro!: SliceStable_sorted dest: mset_eq_setD)

lemma SliceStable_hd:
  assumes "set xs \<subseteq> S" "SliceStable lt xs = b # rest" "x \<in> set xs"
  shows "\<not> lt x b"
proof -
  have "x = b \<or> x \<in> set rest" using assms(2,3) SliceStable_set [of xs] by auto
  moreover have "\<not> lt b b"
    using lt_irrefl assms(1,2) SliceStable_set [of xs] by auto
  ultimately show ?thesis using SliceStable_sorted [OF assms(1)] assms(2) by auto
qed

end

definition finite_pools :: "Pool set" where
  "finite_pools = {p. \<exists>q. po_Apy p = F_Fin q}"

interpretation pools: strict_linear_on finite_pools pool_less
proof
  fix x y z :: Pool
  assume "x \<in> finite_pools" "y \<in> finite_pools"
  then obtain q r where q: "po_Apy x = F_Fin q" "po_Apy y = F_Fin r" by (auto simp: finite_pools_def)
  show "pool_less x y \<or> x = y \<or> pool_less y x"
    using q by (cases x, cases y) (auto simp: pool_less_def neq_iff)
  assume "z \<in> finite_pools" "pool_less x y" "pool_less y z"
  then show "pool_less x z"
    using q by (auto simp: finite_pools_def pool_less_def split: if_splits)
qed (auto simp: finite_pools_def pool_less_def)

end
