(* ===== verification/Pool_Feed.thy ===== *)
theory Pool_Feed
  imports Offchain_Pools
begin

text \<open>
  The streaming parser of the pool feed against the feed's grammar. Skipping a value consumes exactly
  that value; the loops of \<open>parsePools\<close> find the data array of a document and decode its elements; and
  on every document that the freshness check accepts, the stream computes what reading the parsed
  document would.
\<close>

section \<open>Skipping a value\<close>

text \<open>Values within the nesting bound from a given depth, whose numbers fit a float64.\<close>

fun skippable :: "nat \<Rightarrow> json \<Rightarrow> bool" where
  "skippable k (JNum s) = (k \<le> maxJSONNestingDepth \<and> ParseFloat s \<noteq> None)"
| "skippable k (JArr vs) = (k \<le> maxJSONNestingDepth \<and> list_all (skippable (Suc k)) vs)"
| "skippable k (JObj kvs) = (k \<le> maxJSONNestingDepth \<and> list_all (\<lambda>kv. skippable (Suc k) (snd kv)) kvs)"
| "skippable k _ = (k \<le> maxJSONNestingDepth)"

text \<open>The decoder is about to read \<open>v\<close>: in a value position, or before the comma or colon that leads to one.\<close>

definition before_value :: "decoder \<Rightarrow> json \<Rightarrow> token_state \<Rightarrow> lexeme list \<Rightarrow> bool" where
  "before_value d v st rest \<longleftrightarrow> value_allowed st \<and>
     (d_state d = st \<and> d_input d = lexemes v @ rest \<or>
      d_state d = ObjectColon \<and> st = ObjectValue \<and> d_input d = LColon # lexemes v @ rest \<or>
      d_state d = ArrayComma \<and> st = ArrayValue \<and> d_input d = LComma # lexemes v @ rest)"

definition after_value :: "decoder \<Rightarrow> token_state \<Rightarrow> lexeme list \<Rightarrow> decoder" where
  "after_value d st rest = \<lparr>d_input = rest, d_state = value_end st, d_stack = d_stack d\<rparr>"

lemma before_value_Token:
  "before_value d v st rest \<Longrightarrow> dec_Token d = dec_token (lexemes v @ rest) st (d_stack d) \<and> value_allowed st \<and>
     length (lexemes v @ rest) \<le> length (d_input d)"
  by (auto simp: before_value_def dec_Token_def)

lemma lexemes_length: "1 \<le> length (lexemes v)"
  by (cases "lexemes v") auto

lemma dec_More_lexemes: "d_input d = lexemes v @ rest \<Longrightarrow> dec_More d"
  using lexemes_hd [of v] by (cases "lexemes v") (auto simp: dec_More_def)

lemma dec_More_before: "before_value d v st rest \<Longrightarrow> dec_More d"
  by (auto simp: before_value_def dec_More_lexemes) (auto simp: dec_More_def)

text \<open>Every skip of the given values at the given depth succeeds with enough fuel.\<close>

definition skips_value :: "nat \<Rightarrow> json \<Rightarrow> bool" where
  "skips_value depth v \<longleftrightarrow> (\<forall>n d st rest. before_value d v st rest \<longrightarrow> 2 * length (d_input d) < n \<longrightarrow>
     skipJSONValueDepth n depth d = Ok (after_value d st rest))"

fun array_tail :: "json list \<Rightarrow> lexeme list" where
  "array_tail [] = []"
| "array_tail (v # vs) = LComma # lexemes v @ array_tail vs"

fun object_tail :: "(string \<times> json) list \<Rightarrow> lexeme list" where
  "object_tail [] = []"
| "object_tail (kv # kvs) = LComma # member_lexemes kv @ object_tail kvs"

lemma commas_array_tail: "commas (map lexemes (v # vs)) = lexemes v @ array_tail vs"
  by (induction vs arbitrary: v) (auto simp: commas_Cons)

lemma commas_object_tail: "commas (map member_lexemes (kv # kvs)) = member_lexemes kv @ object_tail kvs"
  by (induction kvs arbitrary: kv) (auto simp: commas_Cons)

lemma skip_elements_tail:
  assumes "\<forall>v\<in>set vs. skips_value (Suc depth) v"
    and "2 * length (array_tail vs @ LRBrack # rest) + 1 < n"
  shows "skip_elements n depth \<lparr>d_input = array_tail vs @ LRBrack # rest, d_state = ArrayComma, d_stack = stk\<rparr> =
    Ok \<lparr>d_input = LRBrack # rest, d_state = ArrayComma, d_stack = stk\<rparr>"
  using assms
proof (induction vs arbitrary: n)
  case Nil
  then show ?case by (cases n) (simp_all add: dec_More_def)
next
  case (Cons v vs)
  let ?d = "\<lparr>d_input = array_tail (v # vs) @ LRBrack # rest, d_state = ArrayComma, d_stack = stk\<rparr>"
  obtain m where n: "n = Suc m" using Cons.prems by (cases n) auto
  have b: "before_value ?d v ArrayValue (array_tail vs @ LRBrack # rest)"
    by (simp add: before_value_def value_allowed_def)
  have "skipJSONValueDepth m (Suc depth) ?d = Ok (after_value ?d ArrayValue (array_tail vs @ LRBrack # rest))"
    using Cons.prems n b by (simp add: skips_value_def)
  moreover have "skip_elements m depth (after_value ?d ArrayValue (array_tail vs @ LRBrack # rest)) =
      Ok \<lparr>d_input = LRBrack # rest, d_state = ArrayComma, d_stack = stk\<rparr>"
    using Cons.IH [of m] Cons.prems n by (simp add: after_value_def)
  ultimately show ?case using n dec_More_before [OF b] by simp
qed

lemma skip_elements_all:
  assumes "\<forall>v\<in>set vs. skips_value (Suc depth) v"
    and "2 * length (commas (map lexemes vs) @ LRBrack # rest) + 1 < n"
  shows "\<exists>st. skip_elements n depth \<lparr>d_input = commas (map lexemes vs) @ LRBrack # rest, d_state = ArrayStart, d_stack = stk\<rparr> =
    Ok \<lparr>d_input = LRBrack # rest, d_state = st, d_stack = stk\<rparr> \<and> (st = ArrayStart \<or> st = ArrayComma)"
proof (cases vs)
  case Nil
  then show ?thesis using assms(2) by (cases n) (simp_all add: dec_More_def)
next
  case (Cons v ws)
  let ?d = "\<lparr>d_input = commas (map lexemes vs) @ LRBrack # rest, d_state = ArrayStart, d_stack = stk\<rparr>"
  obtain m where n: "n = Suc m" using assms(2) by (cases n) auto
  have b: "before_value ?d v ArrayStart (array_tail ws @ LRBrack # rest)"
    unfolding Cons commas_array_tail by (simp add: before_value_def value_allowed_def)
  have "skipJSONValueDepth m (Suc depth) ?d = Ok (after_value ?d ArrayStart (array_tail ws @ LRBrack # rest))"
    using assms Cons n b by (simp add: skips_value_def)
  moreover have "skip_elements m depth (after_value ?d ArrayStart (array_tail ws @ LRBrack # rest)) =
      Ok \<lparr>d_input = LRBrack # rest, d_state = ArrayComma, d_stack = stk\<rparr>"
    unfolding after_value_def
    using skip_elements_tail [of ws depth rest m stk] assms n lexemes_length [of v]
    unfolding Cons commas_array_tail by simp
  ultimately show ?thesis using n dec_More_before [OF b] by simp
qed

text \<open>Reading a key: the first one, or one behind a comma.\<close>

lemma skip_members_tail:
  assumes "\<forall>kv\<in>set kvs. skips_value (Suc depth) (snd kv)"
    and "2 * length (object_tail kvs @ LRBrace # rest) + 1 < n"
  shows "skip_members n depth \<lparr>d_input = object_tail kvs @ LRBrace # rest, d_state = ObjectComma, d_stack = stk\<rparr> =
    Ok \<lparr>d_input = LRBrace # rest, d_state = ObjectComma, d_stack = stk\<rparr>"
  using assms
proof (induction kvs arbitrary: n)
  case Nil
  then show ?case by (cases n) (simp_all add: dec_More_def)
next
  case (Cons kv kvs)
  let ?r = "object_tail kvs @ LRBrace # rest"
  let ?d = "\<lparr>d_input = LColon # lexemes (snd kv) @ ?r, d_state = ObjectColon, d_stack = stk\<rparr>"
  obtain m where n: "n = Suc m" using Cons.prems by (cases n) auto
  have b: "before_value ?d (snd kv) ObjectValue ?r"
    by (simp add: before_value_def value_allowed_def)
  have "skipJSONValueDepth m (Suc depth) ?d = Ok (after_value ?d ObjectValue ?r)"
    using Cons.prems n b by (simp add: skips_value_def member_lexemes_def)
  moreover have "skip_members m depth (after_value ?d ObjectValue ?r) =
      Ok \<lparr>d_input = LRBrace # rest, d_state = ObjectComma, d_stack = stk\<rparr>"
    using Cons.IH [of m] Cons.prems n by (simp add: after_value_def member_lexemes_def)
  ultimately show ?case using n by (simp add: dec_More_def dec_Token_def member_lexemes_def)
qed

lemma skip_members_all:
  assumes "\<forall>kv\<in>set kvs. skips_value (Suc depth) (snd kv)"
    and "2 * length (commas (map member_lexemes kvs) @ LRBrace # rest) + 1 < n"
  shows "\<exists>st. skip_members n depth \<lparr>d_input = commas (map member_lexemes kvs) @ LRBrace # rest, d_state = ObjectStart, d_stack = stk\<rparr> =
    Ok \<lparr>d_input = LRBrace # rest, d_state = st, d_stack = stk\<rparr> \<and> (st = ObjectStart \<or> st = ObjectComma)"
proof (cases kvs)
  case Nil
  then show ?thesis using assms(2) by (cases n) (simp_all add: dec_More_def)
next
  case (Cons kv ws)
  let ?r = "object_tail ws @ LRBrace # rest"
  let ?d = "\<lparr>d_input = LColon # lexemes (snd kv) @ ?r, d_state = ObjectColon, d_stack = stk\<rparr>"
  obtain m where n: "n = Suc m" using assms(2) by (cases n) auto
  have b: "before_value ?d (snd kv) ObjectValue ?r"
    by (simp add: before_value_def value_allowed_def)
  have len: "2 * (length (lexemes (snd kv)) + length ?r) + 4 < n"
    using assms(2) unfolding Cons commas_object_tail by (simp add: member_lexemes_def)
  have "skipJSONValueDepth m (Suc depth) ?d = Ok (after_value ?d ObjectValue ?r)"
    using assms(1) len Cons n b by (simp add: skips_value_def)
  moreover have "skip_members m depth (after_value ?d ObjectValue ?r) =
      Ok \<lparr>d_input = LRBrace # rest, d_state = ObjectComma, d_stack = stk\<rparr>"
    unfolding after_value_def using skip_members_tail [of ws depth rest m stk] assms(1) len n Cons by simp
  ultimately show ?thesis
    unfolding Cons commas_object_tail using n by (simp add: dec_More_def dec_Token_def member_lexemes_def)
qed

lemma skippable_skips_value: "skippable depth v \<Longrightarrow> skips_value depth v"
proof (induction v arbitrary: depth)
  case (JArr vs)
  have el: "\<forall>v\<in>set vs. skips_value (Suc depth) v" using JArr by (auto simp: list_all_iff)
  show ?case
    unfolding skips_value_def
  proof (intro allI impI)
    fix n d st rest
    assume b: "before_value d (JArr vs) st rest" and n: "2 * length (d_input d) < n"
    obtain m where m: "n = Suc m" using n by (cases n) auto
    note tok = before_value_Token [OF b]
    have "2 * length (commas (map lexemes vs) @ LRBrack # rest) + 1 < m" using tok n m by simp
    then obtain st' where "skip_elements m depth
        \<lparr>d_input = commas (map lexemes vs) @ LRBrack # rest, d_state = ArrayStart, d_stack = st # d_stack d\<rparr> =
        Ok \<lparr>d_input = LRBrack # rest, d_state = st', d_stack = st # d_stack d\<rparr>" "st' = ArrayStart \<or> st' = ArrayComma"
      using skip_elements_all [OF el] by blast
    then show "skipJSONValueDepth n depth d = Ok (after_value d st rest)"
      using tok m JArr.prems by (auto simp: dec_Token_def close_token_def after_value_def)
  qed
next
  case (JObj kvs)
  have el: "\<forall>kv\<in>set kvs. skips_value (Suc depth) (snd kv)"
  proof
    fix kv
    assume "kv \<in> set kvs"
    then show "skips_value (Suc depth) (snd kv)"
      using JObj.prems by (intro JObj.IH [of kv]) (auto simp: list_all_iff snds.simps)
  qed
  show ?case
    unfolding skips_value_def
  proof (intro allI impI)
    fix n d st rest
    assume b: "before_value d (JObj kvs) st rest" and n: "2 * length (d_input d) < n"
    obtain m where m: "n = Suc m" using n by (cases n) auto
    note tok = before_value_Token [OF b]
    have "2 * length (commas (map member_lexemes kvs) @ LRBrace # rest) + 1 < m" using tok n m by simp
    then obtain st' where "skip_members m depth
        \<lparr>d_input = commas (map member_lexemes kvs) @ LRBrace # rest, d_state = ObjectStart, d_stack = st # d_stack d\<rparr> =
        Ok \<lparr>d_input = LRBrace # rest, d_state = st', d_stack = st # d_stack d\<rparr>" "st' = ObjectStart \<or> st' = ObjectComma"
      using skip_members_all [OF el] by blast
    then show "skipJSONValueDepth n depth d = Ok (after_value d st rest)"
      using tok m JObj.prems by (auto simp: dec_Token_def close_token_def after_value_def)
  qed
qed (auto simp: skips_value_def literal_token_def value_allowed_def after_value_def gr0_conv_Suc dest!: before_value_Token less_imp_Suc_add)

lemma skipJSONValue_consumes:
  assumes "before_value d v st rest" "skippable 0 v"
  shows "skipJSONValue d = Ok (after_value d st rest)"
  unfolding skipJSONValue_def
  by (rule skippable_skips_value [OF assms(2), unfolded skips_value_def, rule_format]) (use assms in auto)

section \<open>Finding the data array\<close>

definition at_members :: "decoder \<Rightarrow> (string \<times> json) list \<Rightarrow> lexeme list \<Rightarrow> bool" where
  "at_members d kvs rest \<longleftrightarrow>
     d_state d = ObjectStart \<and> d_input d = commas (map member_lexemes kvs) @ LRBrace # rest \<or>
     d_state d = ObjectComma \<and> d_input d = object_tail kvs @ LRBrace # rest"

text \<open>The decoder behind a key: at the colon before the member's value.\<close>

definition at_colon :: "decoder \<Rightarrow> json \<Rightarrow> (string \<times> json) list \<Rightarrow> lexeme list \<Rightarrow> decoder" where
  "at_colon d v kvs rest =
     \<lparr>d_input = LColon # lexemes v @ object_tail kvs @ LRBrace # rest, d_state = ObjectColon, d_stack = d_stack d\<rparr>"

lemma at_members_Cons:
  assumes "at_members d ((k, v) # kvs) rest"
  shows "dec_More d" and "dec_Token d = Ok (TkStr k, at_colon d v kvs rest)"
  using assms unfolding at_members_def commas_object_tail
  by (auto simp: dec_More_def dec_Token_def at_colon_def)

lemma at_members_Nil: "at_members d [] rest \<Longrightarrow> \<not> dec_More d"
  by (auto simp: at_members_def dec_More_def)

lemma skip_member:
  assumes "skippable 0 v"
  shows "\<exists>d2. skipJSONValue (at_colon d v kvs rest) = Ok d2 \<and> at_members d2 kvs rest \<and> d_stack d2 = d_stack d"
proof -
  have "before_value (at_colon d v kvs rest) v ObjectValue (object_tail kvs @ LRBrace # rest)"
    by (simp add: before_value_def at_colon_def value_allowed_def)
  from skipJSONValue_consumes [OF this assms] show ?thesis
    by (simp add: at_members_def after_value_def at_colon_def)
qed

definition other_key :: "string \<times> json \<Rightarrow> bool" where
  "other_key kv \<longleftrightarrow> \<not> EqualFold (fst kv) ''data'' \<and> skippable 0 (snd kv)"

lemma find_data_skip:
  assumes "at_members d (kv # kvs) rest" "other_key kv"
  shows "\<exists>d2. find_data d = find_data d2 \<and> at_members d2 kvs rest \<and> d_stack d2 = d_stack d"
proof -
  obtain k v where kv: "kv = (k, v)" by fastforce
  from assms(2) have "skippable 0 v" by (simp add: kv other_key_def)
  from skip_member [OF this] obtain d2 where
    "skipJSONValue (at_colon d v kvs rest) = Ok d2" "at_members d2 kvs rest" "d_stack d2 = d_stack d" by blast
  then show ?thesis
    using at_members_Cons [OF assms(1) [unfolded kv]] assms(2)
    by (auto simp: kv other_key_def find_data.simps [of d])
qed

lemma find_data_found:
  assumes "at_members d (pre @ (k, v) # post) rest" "list_all other_key pre" "EqualFold k ''data''"
  shows "find_data d = Ok (True, at_colon d v post rest)"
  using assms(1,2)
proof (induction pre arbitrary: d)
  case Nil
  then show ?case
    using at_members_Cons [of d k v post rest] assms(3) by (simp add: find_data.simps [of d])
next
  case (Cons kv pre)
  then obtain d2 where "find_data d = find_data d2" "at_members d2 (pre @ (k, v) # post) rest" "d_stack d2 = d_stack d"
    using find_data_skip [of d kv "pre @ (k, v) # post" rest] by auto
  then show ?case using Cons by (simp add: at_colon_def)
qed

lemma find_data_missing:
  assumes "at_members d kvs rest" "list_all other_key kvs"
  shows "\<exists>d2. find_data d = Ok (False, d2)"
  using assms
proof (induction kvs arbitrary: d)
  case Nil
  then show ?case by (auto simp: find_data.simps [of d] dest: at_members_Nil)
next
  case (Cons kv kvs)
  then obtain d2 where "find_data d = find_data d2" "at_members d2 kvs rest"
    using find_data_skip [of d kv kvs rest] by auto
  then show ?case using Cons by simp
qed

section \<open>Decoding the elements\<close>

definition at_elements :: "decoder \<Rightarrow> json list \<Rightarrow> lexeme list \<Rightarrow> bool" where
  "at_elements d vs rest \<longleftrightarrow>
     d_state d = ArrayStart \<and> d_input d = commas (map lexemes vs) @ LRBrack # rest \<or>
     d_state d = ArrayComma \<and> d_input d = array_tail vs @ LRBrack # rest"

lemma depth_ok_less: "depth_ok m (Suc k) v \<Longrightarrow> depth_ok m k v"
proof (induction v arbitrary: k)
  case (JObj kvs)
  have "depth_ok m (Suc k) (snd kv)" if "kv \<in> set kvs" for kv
    by (rule JObj.IH [of kv]) (use JObj.prems that in \<open>auto simp: list_all_iff snds.simps\<close>)
  then show ?case using JObj.prems by (simp add: list_all_iff)
qed (auto simp: list_all_iff)

lemma dec_Decode_element:
  assumes "at_elements d (v # vs) rest" "depth_ok max_nesting_depth 0 v"
  shows "dec_More d" and "\<exists>d'. dec_Decode d = Ok (v, d') \<and> at_elements d' vs rest"
proof -
  have "read_value (lexemes v @ r) = Some (v, r)" for r using assms(2) by (simp add: read_value_iff)
  then show "\<exists>d'. dec_Decode d = Ok (v, d') \<and> at_elements d' vs rest"
    using assms(1) unfolding at_elements_def commas_array_tail
    by (auto simp: dec_Decode_def value_allowed_def)
  show "dec_More d"
    using assms(1) dec_More_lexemes [of d v "array_tail vs @ LRBrack # rest"]
    unfolding at_elements_def commas_array_tail by (auto simp: dec_More_def)
qed

lemma collect_pools_elements:
  assumes "at_elements d vs rest" "list_all (depth_ok max_nesting_depth 0) vs"
  shows "collect_pools cfg d = Ok (List.map_filter (pool_candidate cfg) vs)"
  using assms
proof (induction vs arbitrary: d)
  case Nil
  then show ?case
    by (auto simp: collect_pools.simps [of cfg d] at_elements_def dec_More_def)
next
  case (Cons v vs)
  then obtain d' where "dec_Decode d = Ok (v, d')" "at_elements d' vs rest" "dec_More d"
    using dec_Decode_element [of d v vs rest] by auto
  then show ?case
    using Cons by (simp add: collect_pools.simps [of cfg d] split: option.splits)
qed

section \<open>The stream and the document\<close>

text \<open>Reading the pools from the parsed document.\<close>

definition document_pools :: "PoolConfig \<Rightarrow> json list \<Rightarrow> Pool list" where
  "document_pools cfg vs = List.map_filter (pool_candidate cfg) vs"

lemma json_parse_lexemes:
  "json_parse body = Some v \<longleftrightarrow> json_lex body = lexemes v \<and> depth_ok max_nesting_depth 0 v"
proof -
  have "json_parse body = Some v \<longleftrightarrow> read_value (json_lex body) = Some (v, [])"
    by (auto simp: json_parse_def split: option.splits list.splits)
  then show ?thesis by (simp add: read_value_iff)
qed

lemma document_start:
  assumes "json_parse body = Some (JObj kvs)"
  shows "\<exists>d. dec_Token (NewDecoder body) = Ok (TkDelim (CHR ''{''), d) \<and> at_members d kvs []"
  using assms
  by (simp add: json_parse_lexemes NewDecoder_def dec_Token_def value_allowed_def at_members_def)

lemma parsePools_document:
  assumes doc: "json_parse body = Some (JObj (pre @ (k, JArr vs) # post))"
    and pre: "list_all other_key pre" and k: "EqualFold k ''data''"
  shows "parsePools E body cfg ap an = Ok (select_pools E ap an (document_pools cfg vs))"
proof -
  obtain d where d: "dec_Token (NewDecoder body) = Ok (TkDelim (CHR ''{''), d)"
      "at_members d (pre @ (k, JArr vs) # post) []"
    using document_start [OF doc] by blast
  let ?d1 = "at_colon d (JArr vs) post []"
  let ?d2 = "\<lparr>d_input = commas (map lexemes vs) @ LRBrack # object_tail post @ [LRBrace], d_state = ArrayStart,
    d_stack = ObjectValue # d_stack d\<rparr>"
  have found: "find_data d = Ok (True, ?d1)" by (rule find_data_found [OF d(2) pre k])
  have bracket: "dec_Token ?d1 = Ok (TkDelim (CHR ''[''), ?d2)"
    by (simp add: dec_Token_def at_colon_def value_allowed_def)
  have "\<forall>v\<in>set vs. depth_ok max_nesting_depth (Suc (Suc 0)) v"
    using doc by (simp add: json_parse_lexemes list_all_iff)
  then have "list_all (depth_ok max_nesting_depth 0) vs" by (metis depth_ok_less list_all_iff)
  then have "collect_pools cfg ?d2 = Ok (List.map_filter (pool_candidate cfg) vs)"
    by (intro collect_pools_elements) (simp_all add: at_elements_def)
  then show ?thesis by (simp add: parsePools_def d(1) found bracket document_pools_def)
qed

lemma parsePools_no_data:
  assumes doc: "json_parse body = Some (JObj kvs)" and "list_all other_key kvs"
  shows "\<exists>e. parsePools E body cfg ap an = Err e"
proof -
  obtain d where d: "dec_Token (NewDecoder body) = Ok (TkDelim (CHR ''{''), d)" "at_members d kvs []"
    using document_start [OF doc] by blast
  then show ?thesis using find_data_missing [OF d(2) assms(2)] by (auto simp: parsePools_def)
qed

section \<open>Approved pools\<close>

lemma ValidPoolAPY_iff: "ValidPoolAPY a \<longleftrightarrow> (\<exists>q. a = F_Fin q \<and> 0 \<le> q \<and> q \<le> 1000)"
  by (cases a) (auto simp: ValidPoolAPY_def IsNaN_def IsInf_def minPoolAPY_def maxPoolAPY_def)

text \<open>A pool under the configuration's own spelling of approved identifiers, with an APY in range.\<close>

definition approved :: "PoolConfig \<Rightarrow> Pool \<Rightarrow> bool" where
  "approved cfg p \<longleftrightarrow> po_Pool p \<in> set (pc_PoolIDs cfg) \<and> po_Project p \<in> set (pc_Projects cfg) \<and>
     po_Symbol p \<in> set (pc_Symbols cfg) \<and> po_Chain p \<noteq> [] \<and>
     po_Chain p \<in> cc_DefiLlamaChainName ` set (pc_Chains cfg) \<and> ValidPoolAPY (po_Apy p)"

lemma allowedValues_from_Some: "allowedValues_from m vs k = Some v \<Longrightarrow> v \<in> set vs \<or> m k = Some v"
  by (induction m vs rule: allowedValues_from.induct) (auto split: if_splits)

lemma allowedValues_Some: "allowedValues vs k = Some v \<Longrightarrow> v \<in> set vs"
  using allowedValues_from_Some [of Map.empty vs k v] by (simp add: allowedValues_def)

lemma allowedChains_from_Some:
  "allowedChains_from m cs k = Some v \<Longrightarrow> (v \<noteq> [] \<and> v \<in> cc_DefiLlamaChainName ` set cs) \<or> m k = Some v"
  by (induction m cs rule: allowedChains_from.induct) (auto split: if_splits)

lemma allowedChains_Some:
  "allowedChains cfg k = Some v \<Longrightarrow> v \<noteq> [] \<and> v \<in> cc_DefiLlamaChainName ` set (pc_Chains cfg)"
  using allowedChains_from_Some [of Map.empty "pc_Chains cfg" k v] by (simp add: allowedChains_def)

lemma pool_candidate_approved: "pool_candidate cfg j = Some p \<Longrightarrow> approved cfg p"
  by (auto simp: pool_candidate_def approved_def split: option.splits if_splits dest: allowedValues_Some allowedChains_Some)

lemma document_pools_approved: "p \<in> set (document_pools cfg vs) \<Longrightarrow> approved cfg p"
  by (induction vs) (auto simp: document_pools_def intro: pool_candidate_approved split: option.splits)

lemma approved_finite: "approved cfg p \<Longrightarrow> p \<in> finite_pools"
  by (auto simp: approved_def ValidPoolAPY_iff finite_pools_def)

section \<open>Selection\<close>

text \<open>\<open>p\<close> has the highest APY among the pools that satisfy \<open>Q\<close>.\<close>

definition best_of :: "(Pool \<Rightarrow> bool) \<Rightarrow> Pool list \<Rightarrow> Pool \<Rightarrow> bool" where
  "best_of Q ps p \<longleftrightarrow> p \<in> set ps \<and> Q p \<and> (\<forall>x\<in>set ps. Q x \<longrightarrow> fle (po_Apy x) (po_Apy p))"

definition is_current :: "env \<Rightarrow> bytes32 \<Rightarrow> string \<Rightarrow> Pool \<Rightarrow> bool" where
  "is_current E ap an p \<longleftrightarrow> po_Chain p = an \<and> PoolToProtocolId E (po_Project p) = ap"

lemma not_pool_less_apy:
  assumes "x \<in> finite_pools" "p \<in> finite_pools" "\<not> pool_less x p"
  shows "fle (po_Apy x) (po_Apy p)"
  using assms by (auto simp: finite_pools_def pool_less_def feq_def flt_def split: if_splits)

lemma find_sorted_best:
  assumes "set ps \<subseteq> finite_pools" "find Q (sortPools ps) = Some p"
  shows "best_of Q ps p"
proof -
  obtain i where i: "i < length (sortPools ps)" "sortPools ps ! i = p" "Q p" "\<forall>j<i. \<not> Q (sortPools ps ! j)"
    using assms(2) by (auto simp: find_Some_iff)
  have set_eq: "set (sortPools ps) = set ps" by (simp add: sortPools_def)
  have "fle (po_Apy x) (po_Apy p)" if x: "x \<in> set ps" "Q x" for x
  proof -
    from x(1) set_eq obtain j where j: "j < length (sortPools ps)" "sortPools ps ! j = x"
      by (metis in_set_conv_nth)
    have "\<not> j < i" using i(4) j x(2) by auto
    moreover have "\<not> pool_less x p" if "i < j"
      using pools.SliceStable_sorted [OF assms(1)] i j that
      by (auto simp: sortPools_def sorted_wrt_iff_nth_less)
    moreover have "x \<in> finite_pools" "p \<in> finite_pools" using assms(1) x i set_eq by (auto dest: nth_mem)
    ultimately show ?thesis using i j pools.lt_irrefl [of p]
      by (cases "j = i") (auto intro: not_pool_less_apy)
  qed
  then show ?thesis using i set_eq by (auto simp: best_of_def dest: nth_mem)
qed

lemma find_sorted_None: "find Q (sortPools ps) = None \<longleftrightarrow> (\<forall>x\<in>set ps. \<not> Q x)"
  by (auto simp: find_None_iff sortPools_def)

lemma select_pools_results:
  "fetchResultToPools (select_pools E ap an cs) =
     (find (\<lambda>_. True) (sortPools cs), find (is_current E ap an) (sortPools cs))"
  unfolding select_pools_def fetchResultToPools_def Let_def is_current_def [abs_def]
  by (cases "sortPools cs") (auto simp: zero_result_def split: option.splits)

lemma select_pools_permutation:
  assumes "set cs \<subseteq> finite_pools" "mset cs = mset ds"
  shows "select_pools E ap an cs = select_pools E ap an ds"
  using pools.SliceStable_canonical [OF assms] by (simp add: select_pools_def sortPools_def)

section \<open>Freshness\<close>

lemma validateSnapshotFreshness_Ok:
  "validateSnapshotFreshness body observedAt = Ok () \<longleftrightarrow>
     (\<exists>r. unmarshal_metadata body = Some (Some r) \<and> 0 \<le> r \<and> r \<le> observedAt \<and> observedAt - r \<le> 900)"
  by (auto simp: validateSnapshotFreshness_def defiLlamaMaxSnapshotAgeSeconds_def split: option.splits)

lemma unmarshal_metadata_object:
  "unmarshal_metadata body = Some (Some r) \<Longrightarrow> \<exists>kvs. json_parse body = Some (JObj kvs)"
  by (auto simp: unmarshal_metadata_def split: option.splits json.splits)

section \<open>Chain names\<close>

text \<open>What Go promises of \<open>range\<close> over a map: every entry once, in some order.\<close>

definition map_order :: "(('k \<rightharpoonup> 'v) \<Rightarrow> ('k \<times> 'v) list) \<Rightarrow> bool" where
  "map_order iter \<longleftrightarrow>
     (\<forall>m. finite (dom m) \<longrightarrow> distinct (map fst (iter m)) \<and> set (iter m) = {(k, v). m k = Some v})"

lemma chainSelectorToName_from_eq:
  assumes "distinct (map cc_ChainSelector cs)" "\<forall>c\<in>set cs. m (cc_ChainSelector c) = None"
  shows "chainSelectorToName_from m cs s = Some n \<longleftrightarrow>
    m s = Some n \<or> (\<exists>c\<in>set cs. cc_ChainSelector c = s \<and> cc_DefiLlamaChainName c = n \<and> n \<noteq> [])"
  using assms
proof (induction cs arbitrary: m)
  case (Cons c cs)
  show ?case
  proof (cases "cc_DefiLlamaChainName c = []")
    case True
    then show ?thesis using Cons by auto
  next
    case False
    have "chainSelectorToName_from (m(cc_ChainSelector c \<mapsto> cc_DefiLlamaChainName c)) cs s = Some n \<longleftrightarrow>
        (m(cc_ChainSelector c \<mapsto> cc_DefiLlamaChainName c)) s = Some n \<or>
        (\<exists>c\<in>set cs. cc_ChainSelector c = s \<and> cc_DefiLlamaChainName c = n \<and> n \<noteq> [])"
      by (rule Cons.IH) (use Cons.prems in \<open>auto simp: image_iff\<close>)
    then show ?thesis using False Cons.prems by (cases "s = cc_ChainSelector c") auto
  qed
qed simp

definition pool_chains_ok :: "PoolConfig \<Rightarrow> bool" where
  "pool_chains_ok cfg \<longleftrightarrow> distinct (map cc_ChainSelector (pc_Chains cfg)) \<and>
     distinct (map (\<lambda>c. canonicalDefiLlamaValue (cc_DefiLlamaChainName c))
       (filter (\<lambda>c. cc_DefiLlamaChainName c \<noteq> []) (pc_Chains cfg)))"

lemma chainSelectorToName_Some:
  assumes "pool_chains_ok cfg"
  shows "chainSelectorToName cfg s = Some n \<longleftrightarrow>
    (\<exists>c\<in>set (pc_Chains cfg). cc_ChainSelector c = s \<and> cc_DefiLlamaChainName c = n \<and> n \<noteq> [])"
  using assms chainSelectorToName_from_eq [of "pc_Chains cfg" Map.empty s n]
  by (simp add: chainSelectorToName_def pool_chains_ok_def)

lemma finite_chainSelectorToName: "finite (dom (chainSelectorToName cfg))"
proof -
  have "finite (dom m) \<Longrightarrow> finite (dom (chainSelectorToName_from m cs))" for m cs
    by (induction m cs rule: chainSelectorToName_from.induct) auto
  then show ?thesis by (simp add: chainSelectorToName_def)
qed

lemma canonical_name_unique:
  assumes "pool_chains_ok cfg" "c \<in> set (pc_Chains cfg)" "c' \<in> set (pc_Chains cfg)"
    and "cc_DefiLlamaChainName c \<noteq> []" "cc_DefiLlamaChainName c' \<noteq> []"
    and "canonicalDefiLlamaValue (cc_DefiLlamaChainName c) = canonicalDefiLlamaValue (cc_DefiLlamaChainName c')"
  shows "c = c'"
  using assms by (auto simp: pool_chains_ok_def distinct_map inj_on_def)

lemma PoolToChainSelector_eq:
  assumes iter: "map_order iter" and ok: "pool_chains_ok cfg"
  shows "PoolToChainSelector iter cfg chain = Ok sel \<longleftrightarrow>
    (\<exists>c\<in>set (pc_Chains cfg). cc_DefiLlamaChainName c \<noteq> [] \<and> cc_ChainSelector c = sel \<and>
       canonicalDefiLlamaValue (cc_DefiLlamaChainName c) = canonicalDefiLlamaValue chain)"
    (is "?L \<longleftrightarrow> ?R")
proof -
  let ?Q = "\<lambda>(sel :: uint64, name). canonicalDefiLlamaValue name = canonicalDefiLlamaValue chain"
  let ?es = "iter (chainSelectorToName cfg)"
  have es: "(s, n) \<in> set ?es \<longleftrightarrow>
      (\<exists>c\<in>set (pc_Chains cfg). cc_ChainSelector c = s \<and> cc_DefiLlamaChainName c = n \<and> n \<noteq> [])" for s n
    using iter finite_chainSelectorToName [of cfg] chainSelectorToName_Some [OF ok] by (auto simp: map_order_def)
  show ?thesis
  proof
    assume ?L
    then obtain s n where "find ?Q ?es = Some (s, n)" "s = sel"
      by (auto simp: PoolToChainSelector_def split: option.splits)
    then have "(sel, n) \<in> set ?es" "?Q (sel, n)" by (auto simp: find_Some_iff dest: nth_mem)
    then show ?R using es by auto
  next
    assume ?R
    then obtain c where c: "c \<in> set (pc_Chains cfg)" "cc_DefiLlamaChainName c \<noteq> []" "cc_ChainSelector c = sel"
      "canonicalDefiLlamaValue (cc_DefiLlamaChainName c) = canonicalDefiLlamaValue chain" by blast
    then have "(sel, cc_DefiLlamaChainName c) \<in> set ?es" using es by blast
    then have "find ?Q ?es \<noteq> None" using c(4) by (auto simp: find_None_iff)
    then obtain s n where sn: "find ?Q ?es = Some (s, n)" by auto
    then have "(s, n) \<in> set ?es" "?Q (s, n)" by (auto simp: find_Some_iff dest: nth_mem)
    then have "s = sel" using es c canonical_name_unique [OF ok] by auto metis
    then show ?L using sn by (simp add: PoolToChainSelector_def)
  qed
qed

section \<open>Fetching\<close>

text \<open>Identical aggregation returns a value that a node reported.\<close>

definition consensus_doc :: "don \<Rightarrow> bool" where
  "consensus_doc net \<longleftrightarrow> (\<forall>rs r. dn_consensus net rs = Ok r \<longrightarrow> Ok r \<in> set rs)"

definition selected :: "env \<Rightarrow> PoolConfig \<Rightarrow> bytes32 \<Rightarrow> string \<Rightarrow> Pool option \<Rightarrow> Pool option \<Rightarrow> bool" where
  "selected E cfg ap an best current \<longleftrightarrow>
     (\<exists>cs. (\<forall>p\<in>set cs. approved cfg p) \<and> best = find (\<lambda>_. True) (sortPools cs) \<and>
        current = find (is_current E ap an) (sortPools cs))"

lemma selected_best:
  assumes "selected E cfg ap an (Some b) current"
  shows "approved cfg b"
    and "current = Some c \<Longrightarrow> approved cfg c \<and> is_current E ap an c \<and> fle (po_Apy c) (po_Apy b)"
proof -
  obtain cs where cs: "\<forall>p\<in>set cs. approved cfg p" "Some b = find (\<lambda>_. True) (sortPools cs)"
    "current = find (is_current E ap an) (sortPools cs)"
    using assms by (auto simp: selected_def)
  have fin: "set cs \<subseteq> finite_pools" using cs(1) approved_finite by blast
  have b: "best_of (\<lambda>_. True) cs b" using find_sorted_best [OF fin] cs(2) by metis
  then show "approved cfg b" using cs(1) by (simp add: best_of_def)
  assume "current = Some c"
  then have "best_of (is_current E ap an) cs c" using find_sorted_best [OF fin] cs(3) by metis
  then show "approved cfg c \<and> is_current E ap an c \<and> fle (po_Apy c) (po_Apy b)"
    using cs(1) b by (simp add: best_of_def)
qed

lemma collect_pools_approved: "collect_pools cfg d = Ok cs \<Longrightarrow> p \<in> set cs \<Longrightarrow> approved cfg p"
proof (induction cfg d arbitrary: cs rule: collect_pools.induct)
  case (1 cfg d)
  show ?case
  proof (cases "dec_More d")
    case True
    with "1.prems"(1) obtain raw d' rest where rest: "wrapO ''read pool element: %w'' [] (dec_Decode d) = Ok (raw, d')"
      "collect_pools cfg d' = Ok rest" "cs = (case pool_candidate cfg raw of None \<Rightarrow> rest | Some q \<Rightarrow> q # rest)"
      by (auto simp: collect_pools.simps [of cfg d] bindO_Ok_iff split: outcome.splits)
    then show ?thesis
      using "1.IH" [OF _ rest(1) refl rest(2)] True "1.prems"(2)
      by (auto intro: pool_candidate_approved split: option.splits)
  qed (use 1 in \<open>auto simp: collect_pools.simps [of cfg d]\<close>)
qed

lemma parsePools_selected:
  assumes "parsePools E body cfg ap an = Ok r"
  shows "\<exists>best current. fetchResultToPools r = (best, current) \<and> selected E cfg ap an best current"
proof -
  obtain d2 cs where "collect_pools cfg d2 = Ok cs" "r = select_pools E ap an cs"
    using assms by (auto simp: parsePools_def bindO_Ok_iff split: if_splits prod.splits)
  then show ?thesis
    using collect_pools_approved [of cfg d2 cs] by (auto simp: select_pools_results selected_def)
qed

lemma fetchAndParse_Ok:
  assumes "fetchAndParseWithRequester E params send = Ok r"
  shows "\<exists>resp. send (relay_request params) = Ok (Some resp) \<and> hp_StatusCode resp = 200 \<and> length (hp_Body resp) \<le> 102400 \<and>
    validateSnapshotFreshness (hp_Body resp) (fp_ObservedAt params) = Ok () \<and>
    parsePools E (hp_Body resp) (fp_Config params) (fp_ActiveProtocolId params) (fp_ActiveChainName params) = Ok r"
  using assms
  by (auto simp: fetchAndParseWithRequester_def bindO_Ok_iff defiLlamaMaxResponseBytes_def not_less
      split: option.splits if_splits)

definition active_chain_name :: "PoolConfig \<Rightarrow> uint64 \<Rightarrow> string" where
  "active_chain_name cfg sel = (case chainSelectorToName cfg sel of None \<Rightarrow> [] | Some n \<Rightarrow> n)"

lemma SendRequest_spec:
  assumes "consensus_doc net"
  shows "spec_io (crehttp_SendRequest E net params) (\<lambda>r cs. cs = [HHttp (relay_request params)] \<and>
    (\<forall>raw. r = Ok raw \<longrightarrow> (\<exists>send. fetchAndParseWithRequester E params send = Ok raw)))"
  unfolding crehttp_SendRequest_def
proof (rule spec_io_callI, intro conjI allI impI refl)
  fix tr raw
  assume "dn_consensus net (map (fetchAndParseWithRequester E params) (dn_nodes net tr)) = Ok raw"
  then have "Ok raw \<in> fetchAndParseWithRequester E params ` set (dn_nodes net tr)"
    using assms by (fastforce simp: consensus_doc_def)
  then show "\<exists>send. fetchAndParseWithRequester E params send = Ok raw" by auto
qed

lemma FetchAndSelectPools_spec:
  assumes "consensus_doc net"
  shows "spec_io (FetchAndSelectPools E net cfg ap sel) (\<lambda>r cs. writes cs = [] \<and>
    (\<forall>best current. r = Ok (best, current) \<longrightarrow> selected E cfg ap (active_chain_name cfg sel) best current))"
  unfolding FetchAndSelectPools_def Let_def active_chain_name_def [symmetric]
proof (rule spec_io_bindI [where Q = "\<lambda>r cs. writes cs = []"], goal_cases)
  case 1
  show ?case by (auto intro!: spec_io_wrapI spec_io_callI simp: GetSecret_def)
next
  case (2 secret cs)
  show ?case
  proof (cases secret)
    case (Some v)
    show ?thesis
      unfolding Some option.case
      by (cases "TrimSpace v = []")
        (use 2 in \<open>auto intro!: spec_io_liftO spec_io_bind_Now spec_io_wrap_ret [OF SendRequest_spec [OF assms]]
           dest!: fetchAndParse_Ok parsePools_selected\<close>)
  qed (use 2 in \<open>auto intro!: spec_io_liftO\<close>)
qed auto

end
