(* ===== verification/Rebalance_Handlers.thy ===== *)
theory Rebalance_Handlers
  imports Epoch_Handlers Pool_Feed
begin

text \<open>
  \<open>cre/workflow/internal/rebalance/policy.go\<close> and \<open>handlers.go\<close>: the threshold policy, the cron handler
  that starts a rebalance towards the best approved pool, and the two event handlers that carry it
  out. The pool source and the submitter are the two injected dependencies (\<open>CronDeps\<close>).
\<close>

section \<open>Policy\<close>

definition DifferentialThreshold :: float64 where
  "DifferentialThreshold = F_Fin 1"

definition minRebalanceIntervalSeconds :: int where
  "minRebalanceIntervalSeconds = 1 * 60 * 60"

definition NeedRebalance :: "Pool option \<Rightarrow> Pool option \<Rightarrow> bool" where
  "NeedRebalance optimal current =
     (case optimal of
        None \<Rightarrow> False
      | Some o' \<Rightarrow>
          (case current of
             None \<Rightarrow> False
           | Some c \<Rightarrow>
               if \<not> ValidPoolAPY (po_Apy o') \<or> \<not> ValidPoolAPY (po_Apy c) then False
               else fle DifferentialThreshold (fsub (po_Apy o') (po_Apy c))))"

section \<open>The handlers\<close>

definition newDefiLlamaConfig :: "Config \<Rightarrow> PoolConfig" where
  "newDefiLlamaConfig config =
     \<lparr>pc_PoolIDs = dl_PoolIDs (cf_DefiLlama config),
      pc_Chains = map (\<lambda>e. \<lparr>cc_ChainSelector = ec_ChainSelector e, cc_DefiLlamaChainName = ec_DefiLlamaChainName e\<rparr>)
        (cf_Evms config),
      pc_Projects = dl_Projects (cf_DefiLlama config), pc_Symbols = dl_Symbols (cf_DefiLlama config)\<rparr>"

type_synonym pool_source_fn = "PoolConfig \<Rightarrow> bytes32 \<Rightarrow> uint64 \<Rightarrow> (Pool option \<times> Pool option) prog"
type_synonym map_order_fn = "(uint64 \<rightharpoonup> string) \<Rightarrow> (uint64 \<times> string) list"

record CronDeps =
  dep_FetchAndSelectPools :: pool_source_fn
  dep_SubmitReport :: submitter_fn

text \<open>The decision after the pools are known.\<close>

definition choose_strategy ::
    "env \<Rightarrow> map_order_fn \<Rightarrow> Config \<Rightarrow> Snapshot \<Rightarrow> CronDeps \<Rightarrow> codec \<Rightarrow> EvmConfig \<Rightarrow> Pool option \<times> Pool option \<Rightarrow>
     ExecutionResult prog" where
  "choose_strategy E iter config snapshot deps pvCodec parentCfg = (\<lambda>(bestPool, currentPool).
     (let rebalance = ps_Rebalance (sn_Parent snapshot); activeStrategy = rb_ActiveStrategy rebalance
      in case bestPool of
           None \<Rightarrow> Noop ''no approved pool''
         | Some best \<Rightarrow>
             (let bestProtocolId = PoolToProtocolId E (po_Project best)
              in bindI (wrapI ''map best pool chain: %w'' []
                          (liftO (PoolToChainSelector iter (newDefiLlamaConfig config) (po_Chain best)))) (\<lambda>bestChainSelector.
                   if st_ProtocolId activeStrategy = bestProtocolId \<and> st_ChainSelector activeStrategy = bestChainSelector
                   then Noop ''already on optimal strategy; no action required''
                   else if currentPool = None then Noop ''current pool missing''
                   else if \<not> NeedRebalance (Some best) currentPool
                   then Noop ''APY delta below threshold; no action required''
                   else
                     bindI (wrapI ''encode initiateRebalance: %w'' [] (liftO (EncodeInitiateRebalanceMethodCall pvCodec
                              \<lparr>ir_ExpectedRebalanceNonce = rb_Nonce rebalance,
                               ir_NewStrategy = \<lparr>st_ProtocolId = bestProtocolId, st_ChainSelector = bestChainSelector\<rparr>\<rparr>)))
                       (\<lambda>calldata.
                     bindI (wrapI ''submit initiateRebalance: %w'' []
                              (dep_SubmitReport deps parentCfg (sn_ObservedAt snapshot) calldata)) (\<lambda>_.
                     bindI (log_Info ''Initiated rebalance'') (\<lambda>_.
                       retI \<lparr>xr_Result = ''initiated rebalance''\<rparr>)))))))"

definition onRebalanceCronTriggerWithDeps ::
    "env \<Rightarrow> map_order_fn \<Rightarrow> Config \<Rightarrow> Snapshot \<Rightarrow> CronDeps \<Rightarrow> ExecutionResult prog" where
  "onRebalanceCronTriggerWithDeps E iter config snapshot deps =
     bindI (wrapI ''init parent vault codec: %w'' [] (liftO (parent_NewCodec E))) (\<lambda>pvCodec.
     bindI (liftO (FindParent (cf_Evms config))) (\<lambda>parentCfg.
       let parent = sn_Parent snapshot; rebalance = ps_Rebalance parent; activeStrategy = rb_ActiveStrategy rebalance
       in if rb_State rebalance \<noteq> RebalanceNone then Noop ''rebalance in progress''
          else bindI (liftO (big_Cmp (ps_CurrentEpochNonce parent) (Some 1))) (\<lambda>c.
            if c \<le> 0 then Noop ''no completed epoch''
            else if ep_Status (ps_PreviousEpoch parent) = EpochExecuting then Noop ''epoch executing''
            else if \<not> PeriodElapsed (rb_LastRebalanceCompletedTimestamp rebalance) (sn_ObservedAt snapshot)
                       minRebalanceIntervalSeconds
            then Noop ''rebalance cooldown active''
            else bindI (liftO (if st_ChainSelector activeStrategy = ec_ChainSelector parentCfg
                               then bindO (big_Sign (ps_Tvl parent)) (\<lambda>sg. Ok (sg = 0)) else Ok False)) (\<lambda>zeroLocal.
              if zeroLocal then Noop ''zero local strategy TVL''
              else bindI (wrapI ''fetch pools: %w'' [] (dep_FetchAndSelectPools deps (newDefiLlamaConfig config)
                            (st_ProtocolId activeStrategy) (st_ChainSelector activeStrategy)))
                     (choose_strategy E iter config snapshot deps pvCodec parentCfg)))))"

definition defaultCronDeps :: "env \<Rightarrow> don \<Rightarrow> CronDeps" where
  "defaultCronDeps E net = \<lparr>dep_FetchAndSelectPools = FetchAndSelectPools E net, dep_SubmitReport = SubmitReport E\<rparr>"

definition OnRebalanceCronTrigger ::
    "env \<Rightarrow> map_order_fn \<Rightarrow> don \<Rightarrow> Config \<Rightarrow> Snapshot \<Rightarrow> ExecutionResult prog" where
  "OnRebalanceCronTrigger E iter net config snapshot =
     onRebalanceCronTriggerWithDeps E iter config snapshot (defaultCronDeps E net)"

definition onRebalanceInitiatedWithDeps ::
    "env \<Rightarrow> Config \<Rightarrow> evm_log option \<Rightarrow> Snapshot \<Rightarrow> uint64 \<Rightarrow> submitter_fn \<Rightarrow> ExecutionResult prog" where
  "onRebalanceInitiatedWithDeps E config lg snapshot sourceChain submit =
     bindI (wrapI ''init parent vault codec: %w'' [] (liftO (parent_NewCodec E))) (\<lambda>pvCodec.
     bindI (wrapI ''init child vault codec: %w'' [] (liftO (child_NewCodec E))) (\<lambda>cvCodec.
     bindI (liftO (FindParent (cf_Evms config))) (\<lambda>parentCfg.
     bindI (wrapI ''decode RebalanceInitiated: %w'' [] (liftO (DecodeRebalanceInitiated E pvCodec lg))) (\<lambda>evt.
       if \<not> MatchSource E config lg sourceChain (ec_ChainSelector parentCfg) then Noop ''wrong rebalance event source''
       else let rebalance = ps_Rebalance (sn_Parent snapshot)
       in bindI (liftO (big_Cmp (rb_Nonce rebalance) (ri_RebalanceNonce evt))) (\<lambda>c.
            if c \<noteq> 0 then Noop ''stale rebalance event''
            else if rb_State rebalance = Rebalancing \<and>
                    (st_ProtocolId (rb_PendingStrategy rebalance) \<noteq> ri_ProtocolId evt \<or>
                     st_ChainSelector (rb_PendingStrategy rebalance) \<noteq> ri_ChainSelector evt)
            then Noop ''rebalance destination mismatch''
            else if st_ChainSelector (rb_ActiveStrategy rebalance) = ec_ChainSelector parentCfg
            then Noop ''active strategy on parent; no action required''
            else
              bindI (wrapI ''find prev strategy chain: %w'' [] (liftO
                       (FindEvmConfigByChainSelector (cf_Evms config) (st_ChainSelector (rb_ActiveStrategy rebalance)))))
                (\<lambda>prevChainCfg.
              bindI (liftO (big_Cmp (ri_RebalanceNonce evt)
                       (cs_LastHandledRebalanceNonce (child_of snapshot (ec_ChainSelector prevChainCfg))))) (\<lambda>h.
                if h \<le> 0 then Noop ''rebalance already handled''
                else
                  bindI (liftO (FindEvmConfigByChainSelector (cf_Evms config) (ri_ChainSelector evt))) (\<lambda>_.
                  bindI (wrapI ''encode executeRebalance: %w'' [] (liftO (EncodeExecuteRebalanceMethodCall cvCodec
                           \<lparr>er_RebalanceNonce = ri_RebalanceNonce evt,
                            er_NewStrategy = \<lparr>st_ProtocolId = ri_ProtocolId evt, st_ChainSelector = ri_ChainSelector evt\<rparr>\<rparr>)))
                    (\<lambda>calldata.
                  bindI (wrapI ''submit executeRebalance: %w'' []
                           (submit prevChainCfg (sn_ObservedAt snapshot) calldata)) (\<lambda>_.
                  bindI (log_Info ''Submitted executeRebalance'') (\<lambda>_.
                    retI \<lparr>xr_Result = ''submitted executeRebalance''\<rparr>)))))))))))"

definition OnRebalanceInitiated ::
    "env \<Rightarrow> Config \<Rightarrow> evm_log option \<Rightarrow> Snapshot \<Rightarrow> uint64 \<Rightarrow> ExecutionResult prog" where
  "OnRebalanceInitiated E config lg snapshot sourceChain =
     onRebalanceInitiatedWithDeps E config lg snapshot sourceChain (SubmitReport E)"

definition onRebalanceDepositSuccessWithDeps ::
    "env \<Rightarrow> Config \<Rightarrow> evm_log option \<Rightarrow> Snapshot \<Rightarrow> uint64 \<Rightarrow> submitter_fn \<Rightarrow> ExecutionResult prog" where
  "onRebalanceDepositSuccessWithDeps E config lg snapshot sourceChain submit =
     bindI (wrapI ''init parent vault codec: %w'' [] (liftO (parent_NewCodec E))) (\<lambda>pvCodec.
     bindI (liftO (FindParent (cf_Evms config))) (\<lambda>parentCfg.
     bindI (wrapI ''decode RebalanceDepositSuccess: %w'' [] (liftO (DecodeRebalanceDepositSuccess E pvCodec lg))) (\<lambda>evt.
       let rebalance = ps_Rebalance (sn_Parent snapshot)
       in bindI (liftO (if rb_State rebalance \<noteq> Rebalancing then Ok True
                        else bindO (big_Cmp (rb_Nonce rebalance) (rd_RebalanceNonce evt)) (\<lambda>c. Ok (c \<noteq> 0)))) (\<lambda>stale.
            if stale then Noop ''stale rebalance event''
            else if st_ChainSelector (rb_PendingStrategy rebalance) = ec_ChainSelector parentCfg \<or>
                    \<not> MatchSource E config lg sourceChain (st_ChainSelector (rb_PendingStrategy rebalance))
            then Noop ''wrong rebalance destination''
            else
              bindI (wrapI ''encode completeRebalance: %w'' [] (liftO (EncodeCompleteRebalanceMethodCall pvCodec
                       \<lparr>cr_ExpectedRebalanceNonce = rd_RebalanceNonce evt\<rparr>))) (\<lambda>calldata.
              bindI (wrapI ''submit completeRebalance: %w'' []
                       (submit parentCfg (sn_ObservedAt snapshot) calldata)) (\<lambda>_.
              bindI (log_Info ''Submitted completeRebalance'') (\<lambda>_.
                retI \<lparr>xr_Result = ''submitted completeRebalance''\<rparr>)))))))"

definition OnRebalanceDepositSuccess ::
    "env \<Rightarrow> Config \<Rightarrow> evm_log option \<Rightarrow> Snapshot \<Rightarrow> uint64 \<Rightarrow> ExecutionResult prog" where
  "OnRebalanceDepositSuccess E config lg snapshot sourceChain =
     onRebalanceDepositSuccessWithDeps E config lg snapshot sourceChain (SubmitReport E)"

section \<open>Every handler keeps the contract\<close>

text \<open>A pool source asks questions only: it never writes.\<close>

locale rebalancer = submitter E submit
  for E :: env and submit :: submitter_fn +
  fixes fetch :: pool_source_fn
  assumes fetch_quiet: "spec_io (fetch cfg ap sel) (\<lambda>r cs. writes cs = [])"
begin

lemma choose_strategy_acts:
  assumes "parentCfg \<in> set (cf_Evms config)"
  shows "spec_io (choose_strategy E iter config s \<lparr>dep_FetchAndSelectPools = fetch, dep_SubmitReport = submit\<rparr>
    c parentCfg pools) (acts E config (sn_ObservedAt s))"
  unfolding choose_strategy_def Let_def
  by (auto intro!: acts_intros report_call_acts [unfolded report_call_def] assms split: option.splits prod.splits)

lemma fetch_then_acts:
  assumes "\<And>pools. spec_io (f pools) (acts E config obs)"
  shows "spec_io (bindI (wrapI msg [] (fetch cfg ap sel)) f) (acts E config obs)"
proof (rule spec_io_bindI [where Q = "\<lambda>r cs. writes cs = []"], goal_cases)
  case 1
  show ?case by (rule spec_io_wrapI) (rule fetch_quiet)
next
  case (2 a cs)
  then show ?case by (intro spec_io_mono [OF assms]) (rule acts_quiet_prefix)
qed (auto simp: acts_def)

lemma rebalance_cron_acts:
  "spec_io (onRebalanceCronTriggerWithDeps E iter config s \<lparr>dep_FetchAndSelectPools = fetch, dep_SubmitReport = submit\<rparr>)
     (acts E config (sn_ObservedAt s))"
  unfolding onRebalanceCronTriggerWithDeps_def Let_def CronDeps.simps
  by (auto intro!: acts_intros fetch_then_acts choose_strategy_acts dest!: FindParent_Ok)

end

context submitter
begin

lemma rebalance_initiated_acts:
  "spec_io (onRebalanceInitiatedWithDeps E config lg s src submit) (acts E config (sn_ObservedAt s))"
  unfolding onRebalanceInitiatedWithDeps_def Let_def
  by (auto intro!: acts_intros report_call_acts [unfolded report_call_def] dest!: FindEvmConfigByChainSelector_Ok)

lemma rebalance_deposit_acts:
  "spec_io (onRebalanceDepositSuccessWithDeps E config lg s src submit) (acts E config (sn_ObservedAt s))"
  unfolding onRebalanceDepositSuccessWithDeps_def Let_def
  by (auto intro!: acts_intros report_call_acts [unfolded report_call_def] dest!: FindParent_Ok)

end

lemma FetchAndSelectPools_quiet: "spec_io (FetchAndSelectPools E net cfg ap sel) (\<lambda>r cs. writes cs = [])"
  by (auto simp: FetchAndSelectPools_def Let_def spec_io_def io_defs GetSecret_def Now_def crehttp_SendRequest_def
      split: outcome.splits option.splits prod.splits)

interpretation rebalancing: rebalancer E "SubmitReport E" "FetchAndSelectPools E net" for E net
  by unfold_locales (rule FetchAndSelectPools_quiet)

interpretation rebalance_cron: handler_contract E config "OnRebalanceCronTrigger E iter net config" for E iter net config
  by unfold_locales (simp add: OnRebalanceCronTrigger_def defaultCronDeps_def rebalancing.rebalance_cron_acts)

interpretation rebalance_initiated: handler_contract E config "\<lambda>s. OnRebalanceInitiated E config lg s src"
  for E config lg src
  by unfold_locales (simp add: OnRebalanceInitiated_def report.rebalance_initiated_acts)

interpretation rebalance_deposit: handler_contract E config "\<lambda>s. OnRebalanceDepositSuccess E config lg s src"
  for E config lg src
  by unfold_locales (simp add: OnRebalanceDepositSuccess_def report.rebalance_deposit_acts)

section \<open>When each handler submits\<close>

lemma NeedRebalance_iff:
  "NeedRebalance (Some b) (Some c) \<longleftrightarrow>
     (\<exists>q r. po_Apy b = F_Fin q \<and> po_Apy c = F_Fin r \<and> 0 \<le> q \<and> q \<le> 1000 \<and> 0 \<le> r \<and> r \<le> 1000 \<and>
        1 - 1 / 2 ^ 54 \<le> q - r)"
  by (auto simp: NeedRebalance_def ValidPoolAPY_iff DifferentialThreshold_def fle_one_round64)

definition rebalance_window :: "EvmConfig \<Rightarrow> Snapshot \<Rightarrow> bool" where
  "rebalance_window p s \<longleftrightarrow>
     (let parent = sn_Parent s; rebalance = ps_Rebalance parent
      in rb_State rebalance = RebalanceNone \<and> ps_CurrentEpochNonce parent \<noteq> Some 1 \<and>
         ep_Status (ps_PreviousEpoch parent) \<noteq> EpochExecuting \<and>
         PeriodElapsed (rb_LastRebalanceCompletedTimestamp rebalance) (sn_ObservedAt s) 3600 \<and>
         (st_ChainSelector (rb_ActiveStrategy rebalance) = ec_ChainSelector p \<longrightarrow> ps_Tvl parent \<noteq> Some 0))"

lemma sgn_int_zero: "sgn (t :: int) = 0 \<longleftrightarrow> t = 0"
  by (simp add: sgn_if)

lemma rebalance_cron_exact:
  assumes "ready E config s p" "parent_NewCodec E = Ok c"
  shows "if rebalance_window p s
    then onRebalanceCronTriggerWithDeps E iter config s deps =
      bindI (wrapI ''fetch pools: %w'' [] (dep_FetchAndSelectPools deps (newDefiLlamaConfig config)
          (st_ProtocolId (rb_ActiveStrategy (ps_Rebalance (sn_Parent s))))
          (st_ChainSelector (rb_ActiveStrategy (ps_Rebalance (sn_Parent s))))))
        (choose_strategy E iter config s deps c p)
    else idle (onRebalanceCronTriggerWithDeps E iter config s deps)"
  using assms(1)
proof (rule readyE)
  fix n d
  assume *: "FindParent (cf_Evms config) = Ok p" "ps_CurrentEpochNonce (sn_Parent s) = Some n" "0 < n"
  obtain t where "ps_Tvl (sn_Parent s) = Some t"
    using assms(1) by (auto simp: ready_def valid_snapshot_def elim!: Uint256E)
  then show ?thesis using * assms(2)
    by (auto simp: onRebalanceCronTriggerWithDeps_def Let_def rebalance_window_def minRebalanceIntervalSeconds_def sgn_int_zero)
qed

text \<open>The strategy the best pool stands for, and when switching to it is worthwhile.\<close>

definition switch_due :: "env \<Rightarrow> map_order_fn \<Rightarrow> Config \<Rightarrow> Snapshot \<Rightarrow> Pool \<Rightarrow> Pool option \<Rightarrow> uint64 \<Rightarrow> bool" where
  "switch_due E iter config s best current sel \<longleftrightarrow>
     (let active = rb_ActiveStrategy (ps_Rebalance (sn_Parent s))
      in PoolToChainSelector iter (newDefiLlamaConfig config) (po_Chain best) = Ok sel \<and>
         \<not> (st_ProtocolId active = PoolToProtocolId E (po_Project best) \<and> st_ChainSelector active = sel) \<and>
         NeedRebalance (Some best) current)"

definition initiate_call :: "env \<Rightarrow> codec \<Rightarrow> Snapshot \<Rightarrow> Pool \<Rightarrow> uint64 \<Rightarrow> byte list outcome" where
  "initiate_call E c s best sel =
     EncodeInitiateRebalanceMethodCall c \<lparr>ir_ExpectedRebalanceNonce = rb_Nonce (ps_Rebalance (sn_Parent s)),
       ir_NewStrategy = \<lparr>st_ProtocolId = PoolToProtocolId E (po_Project best), st_ChainSelector = sel\<rparr>\<rparr>"

lemma choose_strategy_due:
  assumes "switch_due E iter config s best current sel"
  shows "choose_strategy E iter config s deps c p (Some best, current) =
    report_call (dep_SubmitReport deps) p (sn_ObservedAt s) ''encode initiateRebalance: %w'' (initiate_call E c s best sel)
      ''submit initiateRebalance: %w'' ''Initiated rebalance'' ''initiated rebalance''"
  using assms by (auto simp: choose_strategy_def switch_due_def initiate_call_def Let_def report_call_def NeedRebalance_def)

lemma PoolToChainSelector_no_panic [simp]: "PoolToChainSelector iter cfg chain \<noteq> Panic m"
  by (auto simp: PoolToChainSelector_def split: option.splits)

lemma choose_strategy_not_due:
  assumes "\<And>b sel. best = Some b \<Longrightarrow> \<not> switch_due E iter config s b current sel"
  shows "idle (choose_strategy E iter config s deps c p (best, current))"
proof (cases best)
  case (Some b)
  then show ?thesis using assms
    by (cases "PoolToChainSelector iter (newDefiLlamaConfig config) (po_Chain b)")
      (auto simp: choose_strategy_def switch_due_def Let_def)
qed (auto simp: choose_strategy_def)

text \<open>What an initiated rebalance carries: an approved pool that beats the current one.\<close>

definition improving_switch :: "env \<Rightarrow> map_order_fn \<Rightarrow> Config \<Rightarrow> Snapshot \<Rightarrow> codec \<Rightarrow> EvmConfig \<Rightarrow> trace \<Rightarrow> bool" where
  "improving_switch E iter config s c p cs \<longleftrightarrow>
     (let active = rb_ActiveStrategy (ps_Rebalance (sn_Parent s)); cfg = newDefiLlamaConfig config
      in \<exists>best current sel. approved cfg best \<and> approved cfg current \<and>
           is_current E (st_ProtocolId active) (active_chain_name cfg (st_ChainSelector active)) current \<and>
           switch_due E iter config s best (Some current) sel \<and>
           sends E p (sn_ObservedAt s) (initiate_call E c s best sel) cs)"

lemma choose_strategy_sends:
  assumes sel: "selected E (newDefiLlamaConfig config) (st_ProtocolId (rb_ActiveStrategy (ps_Rebalance (sn_Parent s))))
      (active_chain_name (newDefiLlamaConfig config) (st_ChainSelector (rb_ActiveStrategy (ps_Rebalance (sn_Parent s)))))
      best current"
    and deps: "dep_SubmitReport deps = SubmitReport E"
  shows "spec_io (choose_strategy E iter config s deps c p (best, current))
    (\<lambda>r cs. writes cs \<noteq> [] \<longrightarrow> improving_switch E iter config s c p cs)"
proof (cases "\<exists>b sel. best = Some b \<and> switch_due E iter config s b current sel")
  case True
  then obtain b k where b: "best = Some b" "switch_due E iter config s b current k" by blast
  then obtain cur where cur: "current = Some cur"
    by (cases current) (auto simp: switch_due_def Let_def NeedRebalance_def)
  note best = selected_best [OF sel [unfolded b(1)]]
  show ?thesis
    unfolding b(1) choose_strategy_due [OF b(2)] deps
    by (rule spec_io_mono [OF report.report_call_sends])
      (use best b(2) cur in \<open>auto simp: improving_switch_def Let_def\<close>)
next
  case False
  then show ?thesis by (intro spec_io_mono [OF idle_spec [OF choose_strategy_not_due]]) auto
qed

lemma improving_switch_prefix:
  "improving_switch E iter config s c p cs \<Longrightarrow> writes ds = [] \<Longrightarrow> improving_switch E iter config s c p (ds @ cs)"
  by (auto simp: improving_switch_def Let_def intro: sends_prefix)

lemma OnRebalanceCronTrigger_sends:
  assumes r: "ready E config s p" "parent_NewCodec E = Ok c" and net: "consensus_doc net"
  shows "spec_io (OnRebalanceCronTrigger E iter net config s)
    (\<lambda>r cs. writes cs \<noteq> [] \<longrightarrow> rebalance_window p s \<and> improving_switch E iter config s c p cs)"
proof (cases "rebalance_window p s")
  case True
  let ?active = "rb_ActiveStrategy (ps_Rebalance (sn_Parent s))" and ?cfg = "newDefiLlamaConfig config"
  let ?Q = "\<lambda>r cs. writes cs = [] \<and> (\<forall>best current. r = Ok (best, current) \<longrightarrow>
    selected E ?cfg (st_ProtocolId ?active) (active_chain_name ?cfg (st_ChainSelector ?active)) best current)"
  have eq: "OnRebalanceCronTrigger E iter net config s =
      bindI (wrapI ''fetch pools: %w'' [] (FetchAndSelectPools E net ?cfg (st_ProtocolId ?active) (st_ChainSelector ?active)))
        (choose_strategy E iter config s (defaultCronDeps E net) c p)"
    using rebalance_cron_exact [OF r, of iter "defaultCronDeps E net"] True
    by (simp add: OnRebalanceCronTrigger_def defaultCronDeps_def)
  have "spec_io (wrapI ''fetch pools: %w'' [] (FetchAndSelectPools E net ?cfg (st_ProtocolId ?active) (st_ChainSelector ?active))) ?Q"
    by (rule spec_io_wrapI, rule spec_io_mono [OF FetchAndSelectPools_spec [OF net]]) auto
  then show ?thesis
    unfolding eq
  proof (rule spec_io_bindI, goal_cases)
    case (1 pools cs)
    obtain best current where pools: "pools = (best, current)" by fastforce
    show ?case
      unfolding pools
      by (rule spec_io_mono [OF choose_strategy_sends])
        (use 1 True pools in \<open>auto simp: defaultCronDeps_def intro: improving_switch_prefix\<close>)
  qed auto
next
  case False
  then have "idle (OnRebalanceCronTrigger E iter net config s)"
    using rebalance_cron_exact [OF r, of iter "defaultCronDeps E net"] by (simp add: OnRebalanceCronTrigger_def)
  then show ?thesis by (intro spec_io_mono [OF idle_spec]) auto
qed

text \<open>A valid configuration names its chains unambiguously.\<close>

lemma newDefiLlamaConfig_ok: "valid_config E config \<Longrightarrow> pool_chains_ok (newDefiLlamaConfig config)"
  by (simp add: valid_config_def valid_chains_def named_chains_def pool_chains_ok_def newDefiLlamaConfig_def
      filter_map comp_def)

lemma switch_target_configured:
  assumes "valid_config E config" "map_order iter" "switch_due E iter config s best current sel"
  shows "sel \<in> ec_ChainSelector ` set (cf_Evms config)"
  using assms PoolToChainSelector_eq [OF assms(2) newDefiLlamaConfig_ok [OF assms(1)], of "po_Chain best" sel]
  by (auto simp: switch_due_def Let_def newDefiLlamaConfig_def)

definition execute_due ::
    "env \<Rightarrow> Config \<Rightarrow> EvmConfig \<Rightarrow> Snapshot \<Rightarrow> evm_log option \<Rightarrow> uint64 \<Rightarrow> int \<Rightarrow> TypesStrategy \<Rightarrow> EvmConfig \<Rightarrow> bool" where
  "execute_due E config p s lg src n dest t \<longleftrightarrow>
     (let rebalance = ps_Rebalance (sn_Parent s); active = st_ChainSelector (rb_ActiveStrategy rebalance)
      in MatchSource E config lg src (ec_ChainSelector p) \<and> rb_Nonce rebalance = Some n \<and>
         (rb_State rebalance = Rebalancing \<longrightarrow> rb_PendingStrategy rebalance = dest) \<and>
         active \<noteq> ec_ChainSelector p \<and> FindEvmConfigByChainSelector (cf_Evms config) active = Ok t \<and>
         (\<exists>h. cs_LastHandledRebalanceNonce (child_of s active) = Some h \<and> h < n) \<and>
         st_ChainSelector dest \<in> ec_ChainSelector ` set (cf_Evms config))"

definition execute_report :: "codec \<Rightarrow> EvmConfig \<Rightarrow> Snapshot \<Rightarrow> int \<Rightarrow> TypesStrategy \<Rightarrow> submitter_fn \<Rightarrow> ExecutionResult prog" where
  "execute_report cc t s n dest submit =
     report_call submit t (sn_ObservedAt s) ''encode executeRebalance: %w''
       (EncodeExecuteRebalanceMethodCall cc \<lparr>er_RebalanceNonce = Some n, er_NewStrategy = dest\<rparr>)
       ''submit executeRebalance: %w'' ''Submitted executeRebalance'' ''submitted executeRebalance''"

lemma find_config_cases:
  obtains e where "FindEvmConfigByChainSelector es k = Ok e" "k \<in> ec_ChainSelector ` set es"
  | x where "FindEvmConfigByChainSelector es k = Err x" "k \<notin> ec_ChainSelector ` set es"
  using FindEvmConfigByChainSelector_Ok [of es k] FindEvmConfigByChainSelector_Err [of es k]
  by (cases "FindEvmConfigByChainSelector es k") auto

lemma rebalance_initiated_exact:
  assumes r: "ready E config s p" and c: "parent_NewCodec E = Ok c" "child_NewCodec E = Ok cc"
    and evt: "DecodeRebalanceInitiated E c lg = Ok \<lparr>ri_RebalanceNonce = Some n, ri_ProtocolId = st_ProtocolId dest,
      ri_ChainSelector = st_ChainSelector dest\<rparr>"
  shows "if \<exists>t. execute_due E config p s lg src n dest t
    then \<exists>t. execute_due E config p s lg src n dest t \<and>
      onRebalanceInitiatedWithDeps E config lg s src submit = execute_report cc t s n dest submit
    else idle (onRebalanceInitiatedWithDeps E config lg s src submit)"
  using r
proof (rule readyE)
  fix m d
  let ?active = "st_ChainSelector (rb_ActiveStrategy (ps_Rebalance (sn_Parent s)))"
  assume p: "FindParent (cf_Evms config) = Ok p"
  obtain k where k: "rb_Nonce (ps_Rebalance (sn_Parent s)) = Some k"
    using r by (auto simp: ready_def valid_snapshot_def positive256_def)
  obtain pid ch where dest: "dest = \<lparr>st_ProtocolId = pid, st_ChainSelector = ch\<rparr>" by (cases dest)
  have pending: "st = dest \<longleftrightarrow> st_ProtocolId st = pid \<and> st_ChainSelector st = ch" for st
    by (cases st) (simp add: dest)
  note sim = p k c evt onRebalanceInitiatedWithDeps_def execute_due_def Let_def pending
  show ?thesis
  proof (cases rule: find_config_cases [of "cf_Evms config" ?active])
    case (1 t)
    have t: "ec_ChainSelector t = ?active" using FindEvmConfigByChainSelector_Ok [OF 1(1)] by simp
    have child: "?active \<noteq> ec_ChainSelector p \<Longrightarrow> \<exists>h. cs_LastHandledRebalanceNonce (child_of s ?active) = Some h"
      by (rule strategy_child [OF r 1(1)]) (auto simp: valid_child_def elim!: Uint256E)
    show ?thesis
      by (cases rule: find_config_cases [of "cf_Evms config" "st_ChainSelector dest"])
        (use 1(1) t child in \<open>auto simp: sim execute_report_def report_call_def dest\<close>)
  qed (auto simp: sim dest)
qed

definition complete_due :: "env \<Rightarrow> Config \<Rightarrow> EvmConfig \<Rightarrow> Snapshot \<Rightarrow> evm_log option \<Rightarrow> uint64 \<Rightarrow> int \<Rightarrow> bool" where
  "complete_due E config p s lg src n \<longleftrightarrow>
     (let rebalance = ps_Rebalance (sn_Parent s); pending = st_ChainSelector (rb_PendingStrategy rebalance)
      in rb_State rebalance = Rebalancing \<and> rb_Nonce rebalance = Some n \<and> pending \<noteq> ec_ChainSelector p \<and>
         MatchSource E config lg src pending)"

definition complete_report :: "codec \<Rightarrow> EvmConfig \<Rightarrow> Snapshot \<Rightarrow> int \<Rightarrow> submitter_fn \<Rightarrow> ExecutionResult prog" where
  "complete_report c p s n submit =
     report_call submit p (sn_ObservedAt s) ''encode completeRebalance: %w''
       (EncodeCompleteRebalanceMethodCall c \<lparr>cr_ExpectedRebalanceNonce = Some n\<rparr>)
       ''submit completeRebalance: %w'' ''Submitted completeRebalance'' ''submitted completeRebalance''"

lemma rebalance_deposit_exact:
  assumes r: "ready E config s p" and c: "parent_NewCodec E = Ok c"
    and evt: "DecodeRebalanceDepositSuccess E c lg = Ok \<lparr>rd_RebalanceNonce = Some n, rd_Amount = amount\<rparr>"
  shows "if complete_due E config p s lg src n
    then onRebalanceDepositSuccessWithDeps E config lg s src submit = complete_report c p s n submit
    else idle (onRebalanceDepositSuccessWithDeps E config lg s src submit)"
  using r
proof (rule readyE)
  fix m d
  assume "FindParent (cf_Evms config) = Ok p"
  moreover obtain k where "rb_Nonce (ps_Rebalance (sn_Parent s)) = Some k"
    using r by (auto simp: ready_def valid_snapshot_def positive256_def)
  ultimately show ?thesis using c evt
    by (auto simp: onRebalanceDepositSuccessWithDeps_def complete_due_def Let_def complete_report_def report_call_def)
qed

end
