(* ===== verification/Workflow_Model.thy ===== *)
theory Workflow_Model
  imports Rebalance_Handlers
begin

text \<open>
  \<open>cre/workflow/workflow.go\<close>: the registration of the triggers, the operational guard in front of every
  handler, and the dispatch of vault events by their signature. The lemmas put the pieces together:
  whatever triggers the workflow, it reads the operational state once, and writes at most one report,
  only when every vault of that state is neither paused nor in recovery.
\<close>

section \<open>Entry points\<close>

definition withOperationalGuard ::
    "(Config \<Rightarrow> Snapshot option prog) \<Rightarrow> (Config \<Rightarrow> 'p \<Rightarrow> Snapshot \<Rightarrow> ExecutionResult prog) \<Rightarrow>
     Config \<Rightarrow> 'p \<Rightarrow> ExecutionResult prog" where
  "withOperationalGuard reader handler config payload =
     bindI (wrapI ''read operational state: %w'' [] (reader config)) (\<lambda>snapshot.
       case snapshot of
         None \<Rightarrow> liftO (Err (Errorf ''read operational state: nil snapshot'' []))
       | Some s \<Rightarrow>
           let reason = BlockedReason s config
           in if reason \<noteq> [] then Noop reason else handler config payload s)"

record log_filter =
  lf_Addresses :: "byte list list"
  lf_Topics :: "byte list list"
  lf_Finalized :: bool

datatype workflow_handler =
    CronHandler string "Config \<Rightarrow> unit \<Rightarrow> ExecutionResult prog"
  | LogHandler uint64 log_filter "Config \<Rightarrow> evm_log option \<Rightarrow> ExecutionResult prog"

definition log_signatures :: "codec \<Rightarrow> codec \<Rightarrow> bool \<Rightarrow> byte list list" where
  "log_signatures parentCodec childCodec isParent =
     (if isParent then [RebalanceInitiatedLogHash parentCodec, EpochWithdrawExecutingLogHash parentCodec]
      else [RebalanceDepositSuccessLogHash childCodec, EpochDepositToStrategySuccessLogHash childCodec])"

text \<open>The closure registered for one chain's vault.\<close>

definition onLog ::
    "env \<Rightarrow> codec \<Rightarrow> codec \<Rightarrow> bool \<Rightarrow> uint64 \<Rightarrow> Config \<Rightarrow> evm_log option \<Rightarrow> Snapshot \<Rightarrow> ExecutionResult prog" where
  "onLog E parentCodec childCodec isParent sourceChain config lg snapshot =
     (let unexpected = liftO (Err (Errorf ''unexpected event signature on chain %d'' [FInt (uint sourceChain)]))
      in case lg of
           None \<Rightarrow> liftO (Err (Errorf ''event has no signature topic'' []))
         | Some l \<Rightarrow>
             (case lg_Topics l of
                [] \<Rightarrow> liftO (Err (Errorf ''event has no signature topic'' []))
              | topic # _ \<Rightarrow>
                  if isParent then
                    (if topic = RebalanceInitiatedLogHash parentCodec
                     then OnRebalanceInitiated E config lg snapshot sourceChain
                     else if topic = EpochWithdrawExecutingLogHash parentCodec
                     then OnEpochWithdrawExecuting E config lg snapshot sourceChain
                     else unexpected)
                  else
                    (if topic = RebalanceDepositSuccessLogHash childCodec
                     then OnRebalanceDepositSuccess E config lg snapshot sourceChain
                     else if topic = EpochDepositToStrategySuccessLogHash childCodec
                     then OnEpochDepositToStrategySuccess E config lg snapshot sourceChain
                     else unexpected)))"

definition chain_handler ::
    "env \<Rightarrow> codec \<Rightarrow> codec \<Rightarrow> (Config \<Rightarrow> Snapshot option prog) \<Rightarrow> EvmConfig \<Rightarrow> workflow_handler" where
  "chain_handler E parentCodec childCodec reader chainConfig =
     LogHandler (ec_ChainSelector chainConfig)
       \<lparr>lf_Addresses = [address_Bytes (HexToAddress E (ec_VaultAddress chainConfig))],
        lf_Topics = log_signatures parentCodec childCodec (ec_IsParent chainConfig), lf_Finalized = True\<rparr>
       (withOperationalGuard reader
          (onLog E parentCodec childCodec (ec_IsParent chainConfig) (ec_ChainSelector chainConfig)))"

definition initWorkflow ::
    "env \<Rightarrow> map_order_fn \<Rightarrow> don \<Rightarrow> Config option \<Rightarrow> (Config \<Rightarrow> Snapshot option prog) \<Rightarrow> workflow_handler list outcome" where
  "initWorkflow E iter net cp reader =
     bindO (ValidateConfig E cp) (\<lambda>_.
     bindO (wrapO ''init parent vault codec: %w'' [] (parent_NewCodec E)) (\<lambda>parentCodec.
     bindO (wrapO ''init child vault codec: %w'' [] (child_NewCodec E)) (\<lambda>childCodec.
       case cp of
         None \<Rightarrow> Panic ''nil pointer dereference''
       | Some config \<Rightarrow>
           Ok ([CronHandler (cf_EpochSchedule config)
                  (withOperationalGuard reader (\<lambda>cfg _ s. OnEpochCronTrigger E cfg s)),
                CronHandler (cf_RebalanceSchedule config)
                  (withOperationalGuard reader (\<lambda>cfg _ s. OnRebalanceCronTrigger E iter net cfg s))] @
               map (chain_handler E parentCodec childCodec reader) (cf_Evms config)))))"

text \<open>\<open>onchain.ReadSnapshot\<close> as a reader: on success its pointer is not nil.\<close>

definition ReadSnapshot_ptr :: "env \<Rightarrow> Config \<Rightarrow> Snapshot option prog" where
  "ReadSnapshot_ptr E config = bindI (ReadSnapshot E config) (\<lambda>s. retI (Some s))"

definition InitWorkflow :: "env \<Rightarrow> map_order_fn \<Rightarrow> don \<Rightarrow> Config option \<Rightarrow> workflow_handler list outcome" where
  "InitWorkflow E iter net cp = initWorkflow E iter net cp (ReadSnapshot_ptr E)"

section \<open>The guard\<close>

text \<open>
  \<open>guarded E config r cs\<close>: the calls begin with reads of the configured vaults, in order. Without a write
  the result is an error or a skip; with one, the reads covered every vault, the snapshot was valid and
  nothing was paused or in recovery, and the write is the only one.
\<close>

definition unblocked :: "Config \<Rightarrow> Snapshot \<Rightarrow> bool" where
  "unblocked config s \<longleftrightarrow> (\<forall>e\<in>set (cf_Evms config). \<not> vault_blocked s e)"

definition guarded :: "env \<Rightarrow> Config \<Rightarrow> ExecutionResult outcome \<Rightarrow> trace \<Rightarrow> bool" where
  "guarded E config r cs \<longleftrightarrow>
     (\<exists>reads rest n. cs = reads @ rest \<and> n \<le> length (cf_Evms config) \<and>
        list_all2 (vault_call E) (take n (cf_Evms config)) reads \<and>
        (writes cs = [] \<and> (\<forall>x. r = Ok x \<longrightarrow> is_noop x) \<or>
         n = length (cf_Evms config) \<and>
         (\<exists>s. valid_snapshot config s \<and> unblocked config s \<and> one_write E config (sn_ObservedAt s) rest)))"

lemma guarded_quiet:
  assumes "n \<le> length (cf_Evms config)" "list_all2 (vault_call E) (take n (cf_Evms config)) reads"
    and "writes (reads @ rest) = []" "\<And>x. r = Ok x \<Longrightarrow> is_noop x"
  shows "guarded E config r (reads @ rest)"
  using assms unfolding guarded_def by blast

lemma guarded_write:
  assumes "list_all2 (vault_call E) (cf_Evms config) reads" "valid_snapshot config s" "unblocked config s"
    and "one_write E config (sn_ObservedAt s) rest"
  shows "guarded E config r (reads @ rest)"
  unfolding guarded_def
  by (intro exI [of _ reads] exI [of _ rest] exI [of _ "length (cf_Evms config)"]) (use assms in auto)

locale operational_guard = handler_contract E config handle
  for E :: env and config :: Config and handle :: "Snapshot \<Rightarrow> ExecutionResult prog" +
  fixes reader :: "Config \<Rightarrow> Snapshot option prog"
  assumes reads: "spec_io (reader config) (\<lambda>r cs.
    (case r of
       Ok (Some s) \<Rightarrow> list_all2 (vault_call E) (cf_Evms config) cs \<and> valid_snapshot config s
     | _ \<Rightarrow> \<exists>n. n \<le> length (cf_Evms config) \<and> list_all2 (vault_call E) (take n (cf_Evms config)) cs))"
begin

lemma reads_quiet: "list_all2 (vault_call E) es cs \<Longrightarrow> writes cs = []"
  by (induction rule: list_all2_induct) (auto simp: vault_call_def)

lemma run_snapshot:
  assumes "valid_snapshot config s" "list_all2 (vault_call E) (cf_Evms config) cs"
  shows "spec_io (let reason = BlockedReason s config in if reason \<noteq> [] then Noop reason else handle s)
    (\<lambda>r cs'. guarded E config r (cs @ cs'))"
proof (cases "BlockedReason s config = []")
  case True
  then have u: "unblocked config s" by (simp add: unblocked_def BlockedReason_empty)
  have "guarded E config r (cs @ cs')" if "acts E config (sn_ObservedAt s) r cs'" for r cs'
    using that unfolding acts_def
    by (rule disjE) (use assms u guarded_quiet [of "length (cf_Evms config)" config E cs cs' r] in
        \<open>auto intro: guarded_write simp: reads_quiet\<close>)
  then show ?thesis using True by (simp add: Let_def spec_io_mono [OF handle_acts])
next
  case False
  have "guarded E config r (cs @ cs')" if "skips (BlockedReason s config) r cs'" for r cs'
    by (rule guarded_quiet [of "length (cf_Evms config)"])
      (use assms that in \<open>auto simp: skips_def is_noop_def reads_quiet\<close>)
  then show ?thesis using False by (simp add: Let_def spec_io_mono [OF Noop_spec])
qed

lemma guarded_run:
  "spec_io (withOperationalGuard reader (\<lambda>cfg payload s. handle s) config payload) (guarded E config)"
proof -
  let ?Q = "\<lambda>r cs. (case r of
       Ok (Some s) \<Rightarrow> list_all2 (vault_call E) (cf_Evms config) cs \<and> valid_snapshot config s
     | _ \<Rightarrow> \<exists>n. n \<le> length (cf_Evms config) \<and> list_all2 (vault_call E) (take n (cf_Evms config)) cs)"
  have stop: "guarded E config r cs"
    if "\<exists>n. n \<le> length (cf_Evms config) \<and> list_all2 (vault_call E) (take n (cf_Evms config)) cs" "\<forall>x. r \<noteq> Ok x" for r cs
    using that guarded_quiet [of _ config E cs "[]" r] by (auto simp: reads_quiet)
  have "spec_io (wrapI ''read operational state: %w'' [] (reader config)) ?Q"
    by (rule spec_io_wrapI, rule spec_io_mono [OF reads]) (auto split: outcome.splits option.splits)
  then show ?thesis
    unfolding withOperationalGuard_def
  proof (rule spec_io_bindI, goal_cases)
    case (1 sp cs)
    then show ?case
      by (cases sp) (auto intro!: spec_io_liftO stop run_snapshot)
  qed (auto intro: stop)
qed

end

section \<open>The production entry points\<close>

lemma read_chains_no_block:
  "read_chains None np nc es s = (if es = [] then retI s else liftO (Panic ''nil pointer dereference''))"
  by (cases es) simp_all

lemma ReadSnapshot_spec:
  "spec_io (ReadSnapshot E config) (\<lambda>r cs.
     (case r of
        Ok s \<Rightarrow> list_all2 (vault_call E) (cf_Evms config) cs \<and> valid_snapshot config s
      | _ \<Rightarrow> \<exists>n. n \<le> length (cf_Evms config) \<and> list_all2 (vault_call E) (take n (cf_Evms config)) cs))"
proof (cases "cf_BlockNumber config")
  case None
  show ?thesis
    unfolding ReadSnapshot_def readSnapshot_def None read_chains_no_block
  proof (rule spec_io_bind_Now, goal_cases)
    case (1 tr)
    let ?s = "\<lparr>sn_ObservedAt = host_Now E tr, sn_Parent = zero_parent_state, sn_Children = Map.empty\<rparr>"
    show ?case
      by (cases "Validate (Some ?s) config")
        (auto intro!: spec_io_liftO spec_io_retI exI [of _ 0] simp: Validate_Ok [symmetric])
  qed
next
  case (Some b)
  show ?thesis
    unfolding ReadSnapshot_def
    by (rule spec_io_mono [OF vaults.readSnapshot_spec [OF Some]]) (auto split: outcome.splits)
qed

lemma ReadSnapshot_ptr_spec:
  "spec_io (ReadSnapshot_ptr E config) (\<lambda>r cs.
     (case r of
        Ok (Some s) \<Rightarrow> list_all2 (vault_call E) (cf_Evms config) cs \<and> valid_snapshot config s
      | _ \<Rightarrow> \<exists>n. n \<le> length (cf_Evms config) \<and> list_all2 (vault_call E) (take n (cf_Evms config)) cs))"
  unfolding ReadSnapshot_ptr_def
  by (rule spec_io_bindI [OF ReadSnapshot_spec]) (auto intro!: spec_io_retI)

lemma onLog_acts: "spec_io (onLog E pc cc isP src config lg s) (acts E config (sn_ObservedAt s))"
  unfolding onLog_def Let_def
  by (auto intro: liftO_acts rebalance_initiated.handle_acts epoch_withdraw.handle_acts
      rebalance_deposit.handle_acts epoch_deposit.handle_acts split: option.splits list.splits)

interpretation guarded_epoch_cron: operational_guard E config "OnEpochCronTrigger E config" "ReadSnapshot_ptr E" for E config
  by unfold_locales (rule ReadSnapshot_ptr_spec)

interpretation guarded_rebalance_cron: operational_guard E config "OnRebalanceCronTrigger E iter net config" "ReadSnapshot_ptr E"
  for E config iter net
  by unfold_locales (rule ReadSnapshot_ptr_spec)

interpretation guarded_log: operational_guard E config "onLog E pc cc isP src config lg" "ReadSnapshot_ptr E"
  for E config pc cc isP src lg
  by unfold_locales (rule onLog_acts, rule ReadSnapshot_ptr_spec)

lemma withOperationalGuard_at:
  "withOperationalGuard reader handler config payload =
   withOperationalGuard reader (\<lambda>_ _ s. handler config payload s) config payload"
  by (simp add: withOperationalGuard_def)

text \<open>Running a registered handler on its trigger's payload.\<close>

fun run_handler :: "workflow_handler \<Rightarrow> Config \<Rightarrow> evm_log option \<Rightarrow> ExecutionResult prog" where
  "run_handler (CronHandler schedule f) config lg = f config ()"
| "run_handler (LogHandler chain req f) config lg = f config lg"

lemma InitWorkflow_Ok:
  "InitWorkflow E iter net (Some config) = Ok hs \<longleftrightarrow>
     valid_config E config \<and>
     (\<exists>pc cc. parent_NewCodec E = Ok pc \<and> child_NewCodec E = Ok cc \<and>
        hs = [CronHandler (cf_EpochSchedule config)
                (withOperationalGuard (ReadSnapshot_ptr E) (\<lambda>cfg _ s. OnEpochCronTrigger E cfg s)),
              CronHandler (cf_RebalanceSchedule config)
                (withOperationalGuard (ReadSnapshot_ptr E) (\<lambda>cfg _ s. OnRebalanceCronTrigger E iter net cfg s))] @
             map (chain_handler E pc cc (ReadSnapshot_ptr E)) (cf_Evms config))"
  by (auto simp: InitWorkflow_def initWorkflow_def bindO_Ok_iff ValidateConfig_Ok)

lemma run_handler_guarded:
  assumes "InitWorkflow E iter net (Some config) = Ok hs" "h \<in> set hs"
  shows "spec_io (run_handler h config lg) (guarded E config)"
proof -
  have "spec_io (withOperationalGuard (ReadSnapshot_ptr E) (\<lambda>cfg _ s. OnEpochCronTrigger E cfg s) config ()) (guarded E config)"
    by (subst withOperationalGuard_at) (rule guarded_epoch_cron.guarded_run)
  moreover have "spec_io (withOperationalGuard (ReadSnapshot_ptr E) (\<lambda>cfg _ s. OnRebalanceCronTrigger E iter net cfg s)
      config ()) (guarded E config)"
    by (subst withOperationalGuard_at) (rule guarded_rebalance_cron.guarded_run)
  moreover have "spec_io (withOperationalGuard (ReadSnapshot_ptr E) (onLog E pc cc isP src) config lg) (guarded E config)"
    for pc cc isP src
    by (subst withOperationalGuard_at) (rule guarded_log.guarded_run)
  ultimately show ?thesis using assms by (auto simp: InitWorkflow_Ok chain_handler_def)
qed

end
