(* ===== verification/Example_Deployment.thy ===== *)
theory Example_Deployment
  imports Workflow_Model
begin

text \<open>
  A concrete deployment for the witnesses: the first two chains of
  \<open>cre/workflow/config.production.json\<close> (the parent on Base, a child on Arbitrum), an environment whose
  address functions are the hexadecimal ones and whose host answers every request, and a snapshot with
  an epoch that is due. The ABI of this environment packs a call to eight bytes and reads two event
  shapes; nothing but the witnesses depends on it.
\<close>

definition ex_hex :: "string \<Rightarrow> address" where
  "ex_hex s = of_nat (foldl (\<lambda>a c. a * 16 + (case hex_val c of None \<Rightarrow> 0 | Some d \<Rightarrow> d)) 0 (drop 2 s))"

definition ex_event :: "gstruct \<Rightarrow> string \<Rightarrow> gstruct" where
  "ex_event zero name =
     (if name = ''RebalanceInitiated'' then
        [(''RebalanceNonce'', GBig (Some 4)), (''ProtocolId'', GFix (replicate 32 1)),
         (''ChainSelector'', GU64 15971525489660198786)]
      else if name = ''RebalanceDepositSuccess'' then [(''RebalanceNonce'', GBig (Some 4)), (''Amount'', GBig (Some 70))]
      else [(''EpochNonce'', GBig (Some 2)), (''Amount'', GBig (Some 600000))])"

definition ex_abi :: abi where
  "ex_abi =
     \<lparr>abi_Pack = (\<lambda>name args. Ok (replicate 8 (of_nat (length name)))),
      abi_OutputsUnpack = (\<lambda>name data. Ok []),
      abi_EventID = (\<lambda>name. take 32 (string_bytes name @ replicate 32 0)),
      abi_EventInputs = (\<lambda>name. []),
      abi_UnpackIntoInterface = (\<lambda>zero name data. Ok (ex_event zero name)),
      abi_ErrorID = (\<lambda>name. be_bytes 4 (length name)),
      abi_ErrorUnpack = (\<lambda>name data. Ok [GBig (Some (int (be_nat data)))]),
      abi_MethodID = (\<lambda>name. replicate 4 (of_nat (length name))),
      abi_InputsUnpack = (\<lambda>name data. Ok []), abi_OutputsPack = (\<lambda>name vals. Ok [])\<rparr>"

definition ex_env :: env where
  "ex_env =
     \<lparr>IsHexAddress = (\<lambda>s. length s = 42 \<and> take 2 s = ''0x'' \<and> list_all (\<lambda>c. hex_val c \<noteq> None) (drop 2 s)),
      HexToAddress = ex_hex, BytesToAddress = (\<lambda>bs. of_nat (be_nat bs)),
      BytesToHash = (\<lambda>bs. replicate (32 - length bs) 0 @ bs), Keccak256 = (\<lambda>bs. take 32 (bs @ replicate 32 0)),
      AddressText = (\<lambda>a. ''0x'' @ hex_bytes (address_Bytes a)), ParseAddressText = (\<lambda>s. Some (ex_hex s)),
      abi_JSON = (\<lambda>c. Ok ex_abi), ParseTopics = (\<lambda>event args topics. Ok event),
      MakeTopics = (\<lambda>rules. Ok (map (map (\<lambda>r. replicate 32 0)) rules)), PrepareTopicArg = (\<lambda>arg v. Ok (RuleArg v)),
      PrepareTopics = (\<lambda>raw sig. [sig] # raw), NewTupleType = (\<lambda>cs. Ok (TupleType cs)),
      TuplePack = (\<lambda>name ty v. Ok []), FinalizedBlockNumber = -3,
      host_Now = (\<lambda>tr. 10000), host_GenerateReport = (\<lambda>tr rq. Ok (Some (rq_EncodedPayload rq))),
      host_WriteReport = (\<lambda>tr chain wq. Ok (Some \<lparr>wr_TxStatus = TX_STATUS_SUCCESS,
         wr_ExecutionStatus = Some EXECUTION_STATUS_SUCCESS, wr_TxHash = [], wr_ErrorMessage = None\<rparr>)),
      host_CallContract = (\<lambda>tr chain cq. Ok (Some [])), host_GetSecret = (\<lambda>tr key. Ok (Some ''token'')),
      host_FilterLogs = (\<lambda>tr chain fq. Ok (Some []))\<rparr>"

definition ex_parent :: EvmConfig where
  "ex_parent = \<lparr>ec_IsParent = True, ec_ChainName = ''ethereum-mainnet-base-1'', ec_DefiLlamaChainName = ''Base'',
     ec_ChainSelector = 15971525489660198786, ec_VaultAddress = ''0x664EFe3859165011b811d8AFc127872520e97079'',
     ec_WorkflowRouterAddress = ''0xAAac2c5e99cBf3dBb8d9c1fe96F968ce9cC7518b'', ec_GasLimit = 1500000\<rparr>"

definition ex_child :: EvmConfig where
  "ex_child = \<lparr>ec_IsParent = False, ec_ChainName = ''ethereum-mainnet-arbitrum-1'', ec_DefiLlamaChainName = ''Arbitrum'',
     ec_ChainSelector = 4949039107694359620, ec_VaultAddress = ''0xd2F0E776312567e3157577B429bB210a4656Fa04'',
     ec_WorkflowRouterAddress = ''0xf5A044C79d1cfD1128ea082AccE8DaEd9d631045'', ec_GasLimit = 1500000\<rparr>"

definition ex_config :: Config where
  "ex_config = \<lparr>cf_RebalanceSchedule = ''0 0 18 * * *'', cf_EpochSchedule = ''0 0 12 * * 3'', cf_AssetDecimals = Some 6,
     cf_BlockNumber = Some (-3),
     cf_DefiLlama = \<lparr>dl_PoolIDs = [''aa70268e-4b52-42bf-a116-608b370f9501'', ''7da72d09-56ca-4ec5-a45f-59114353e487''],
       dl_Projects = [''aave-v3'', ''compound-v3''], dl_Symbols = [''USDC'']\<rparr>,
     cf_Evms = [ex_parent, ex_child]\<rparr>"

lemmas ex_canonical_defs = canonicalDefiLlamaValue_def ToLower_def TrimSpace_def is_space_def lower_char_def

lemma ex_addresses:
  "isRequiredAddress ex_env (ec_VaultAddress ex_parent)" "isRequiredAddress ex_env (ec_WorkflowRouterAddress ex_parent)"
  "isRequiredAddress ex_env (ec_VaultAddress ex_child)" "isRequiredAddress ex_env (ec_WorkflowRouterAddress ex_child)"
  by (simp_all add: isRequiredAddress_def ex_env_def ex_parent_def ex_child_def ex_hex_def hex_val_def Let_def)

lemma ex_chains_valid: "valid_chains ex_env [ex_parent, ex_child]"
  using ex_addresses
  by (simp add: valid_chains_def valid_chain_def named_chains_def)
    (simp add: ex_parent_def ex_child_def ex_canonical_defs)

lemma ex_config_valid: "valid_config ex_env ex_config"
  using ex_chains_valid
  by (simp add: valid_config_def ex_config_def unique_nonempty_def supported_projects_def)
    (simp add: ex_parent_def ex_child_def ex_canonical_defs)

lemma ex_selectors [simp]:
  "ec_ChainSelector ex_parent = 15971525489660198786" "ec_ChainSelector ex_child = 4949039107694359620"
  "ec_IsParent ex_parent" "\<not> ec_IsParent ex_child"
  by (simp_all add: ex_parent_def ex_child_def)

lemma ex_evms [simp]: "cf_Evms ex_config = [ex_parent, ex_child]" "cf_AssetDecimals ex_config = Some 6"
  by (simp_all add: ex_config_def)

lemma ex_find_parent: "FindParent (cf_Evms ex_config) = Ok ex_parent"
  by simp

lemma ex_find_child: "FindEvmConfigByChainSelector (cf_Evms ex_config) 4949039107694359620 = Ok ex_child"
  by simp

lemma ex_codecs: "parent_NewCodec ex_env = Ok \<lparr>codec_abi = ex_abi\<rparr>" "child_NewCodec ex_env = Ok \<lparr>codec_abi = ex_abi\<rparr>"
  by (simp_all add: parent_NewCodec_def child_NewCodec_def ex_env_def)

section \<open>Stores and snapshots\<close>

definition ex_epoch :: "int \<Rightarrow> int \<Rightarrow> int \<Rightarrow> int \<Rightarrow> uint8 \<Rightarrow> sol_epoch" where
  "ex_epoch deposit burn withdraw mint status =
     \<lparr>se_totalDepositAmount = deposit, se_totalShareBurnAmount = burn, se_totalWithdrawClaimAmount = withdraw,
      se_remainingDepositClaimAmount = deposit, se_remainingShareMintAmount = mint, se_remainingShareBurnAmount = burn,
      se_remainingWithdrawClaimAmount = withdraw, se_openedAtTimestamp = 1000, se_status = status\<rparr>"

definition ex_store :: "sol_epoch \<Rightarrow> sol_epoch \<Rightarrow> uint8 \<Rightarrow> vault_store" where
  "ex_store previous current rebalanceState =
     \<lparr>vs_epochNonce = 3, vs_epochs = (\<lambda>n. if n = 2 then previous else current), vs_totalShares = 100000000000000000000,
      vs_rebalanceState = rebalanceState\<rparr>"

definition ex_strategy :: "uint64 \<Rightarrow> TypesStrategy" where
  "ex_strategy chain = \<lparr>st_ProtocolId = replicate 32 1, st_ChainSelector = chain\<rparr>"

definition ex_child_state :: TypesChildOperationalState where
  "ex_child_state = \<lparr>cs_Paused = False, cs_RecoveryMode = 0, cs_LastHandledEpochNonce = Some 1,
     cs_LastHandledRebalanceNonce = Some 3, cs_Tvl = Some 100000000\<rparr>"

definition ex_snapshot :: "vault_store \<Rightarrow> uint64 \<Rightarrow> uint64 \<Rightarrow> Snapshot" where
  "ex_snapshot st active pending =
     \<lparr>sn_ObservedAt = 10000,
      sn_Parent = sol_getParentOperationalState False 0
        \<lparr>rb_Nonce = Some 4, rb_State = 0, rb_ActiveStrategy = ex_strategy active, rb_PendingStrategy = ex_strategy pending,
         rb_LastRebalanceCompletedTimestamp = Some 1000\<rparr> 100000000 st,
      sn_Children = [4949039107694359620 \<mapsto> ex_child_state]\<rparr>"

text \<open>An open epoch that is due, an executing withdrawal, an executing deposit, and a running rebalance.\<close>

definition ex_due_store :: vault_store where
  "ex_due_store = ex_store (ex_epoch 0 0 0 0 EpochClaimable) (ex_epoch 5000000 0 0 0 EpochOpen) RebalanceNone"

definition ex_withdraw_store :: vault_store where
  "ex_withdraw_store = ex_store (ex_epoch 400000 1000000000000000000 1000000 400000000000000000 EpochExecuting)
     (ex_epoch 0 0 0 0 EpochOpen) RebalanceNone"

definition ex_deposit_store :: vault_store where
  "ex_deposit_store = ex_store (ex_epoch 1000000 400000000000000000 400000 1000000000000000000 EpochExecuting)
     (ex_epoch 0 0 0 0 EpochOpen) RebalanceNone"

definition ex_rebalance_store :: vault_store where
  "ex_rebalance_store = ex_store (ex_epoch 0 0 0 0 EpochClaimable) (ex_epoch 0 0 0 0 EpochOpen) Rebalancing"

lemmas ex_store_defs = ex_due_store_def ex_withdraw_store_def ex_deposit_store_def ex_rebalance_store_def ex_store_def
  ex_epoch_def

lemmas ex_snapshot_defs = ex_snapshot_def ex_strategy_def ex_child_state_def sol_getParentOperationalState_def
  epoch_of_storage_def

lemma ex_snapshot_valid:
  assumes "st \<in> {ex_due_store, ex_withdraw_store, ex_deposit_store, ex_rebalance_store}"
  shows "ready ex_env ex_config (ex_snapshot st active pending) ex_parent"
proof -
  have "valid_snapshot ex_config (ex_snapshot st active pending)"
    using assms
    by (auto simp: valid_snapshot_def positive256_def valid_epoch_def epoch_integers_def valid_child_def ex_snapshot_defs
        ex_store_defs status_defs)
  then show ?thesis using ex_config_valid ex_find_parent by (simp add: ready_def)
qed

lemma ex_stores_wf: "wf_store ex_due_store" "wf_store ex_deposit_store"
  by (simp_all add: wf_store_def wf_epoch_def ex_store_defs)

lemma ex_observes: "observes (ex_snapshot st active pending) st"
  unfolding observes_def ex_snapshot_def by (simp only: Snapshot.simps) blast

text \<open>The library functions of the contract, on unbounded integers with the 256-bit test.\<close>

definition ex_fmd :: "int \<Rightarrow> int \<Rightarrow> int \<Rightarrow> int option" where
  "ex_fmd x y d = (if d = 0 \<or> 2 ^ 256 \<le> x * y div d then None else Some (x * y div d))"

definition ex_toInt :: "int \<Rightarrow> int option" where
  "ex_toInt x = (if 2 ^ 255 \<le> x then None else Some x)"

lemma ex_library: "fullMulDiv_doc ex_fmd" "toInt256_doc ex_toInt"
  by (simp_all add: fullMulDiv_doc_def toInt256_doc_def ex_fmd_def ex_toInt_def)

text \<open>Logs of the two vaults.\<close>

definition ex_log :: "EvmConfig \<Rightarrow> string \<Rightarrow> evm_log" where
  "ex_log e name = \<lparr>lg_Address = address_Bytes (HexToAddress ex_env (ec_VaultAddress e)),
     lg_Topics = [abi_EventID ex_abi name], lg_Data = []\<rparr>"

lemma ex_match_source:
  assumes "e \<in> {ex_parent, ex_child}"
  shows "MatchSource ex_env ex_config (Some (ex_log e name)) (ec_ChainSelector e) (ec_ChainSelector e)"
proof -
  have "FindEvmConfigByChainSelector (cf_Evms ex_config) (ec_ChainSelector e) = Ok e"
    using assms by auto
  moreover have "BytesToAddress ex_env (address_Bytes a) = a" for a
    using addr.dec_enc [of a] by (simp add: ex_env_def bytes_address_def)
  ultimately show ?thesis by (simp add: MatchSource_def ex_log_def)
qed

lemma ex_decoders:
  "DecodeEpochWithdrawExecuting ex_env \<lparr>codec_abi = ex_abi\<rparr> (Some (ex_log e name)) =
     Ok \<lparr>we_EpochNonce = Some 2, we_Amount = Some 600000\<rparr>"
  "DecodeEpochDepositToStrategySuccess ex_env \<lparr>codec_abi = ex_abi\<rparr> (Some (ex_log e name)) =
     Ok \<lparr>ds_EpochNonce = Some 2, ds_Amount = Some 600000\<rparr>"
  "DecodeRebalanceInitiated ex_env \<lparr>codec_abi = ex_abi\<rparr> (Some (ex_log e name)) =
     Ok \<lparr>ri_RebalanceNonce = Some 4, ri_ProtocolId = replicate 32 1, ri_ChainSelector = 15971525489660198786\<rparr>"
  "DecodeRebalanceDepositSuccess ex_env \<lparr>codec_abi = ex_abi\<rparr> (Some (ex_log e name)) =
     Ok \<lparr>rd_RebalanceNonce = Some 4, rd_Amount = Some 70\<rparr>"
  by (simp_all add: DecodeEpochWithdrawExecuting_def DecodeEpochDepositToStrategySuccess_def DecodeRebalanceInitiated_def
      DecodeRebalanceDepositSuccess_def decode_event_def ex_log_def ex_abi_def ex_env_def ex_event_def)

section \<open>Submissions\<close>

definition ex_calls :: "EvmConfig \<Rightarrow> byte list \<Rightarrow> trace" where
  "ex_calls t payload = [HGenerateReport (report_request_of payload),
     HWriteReport (ec_ChainSelector t) (write_request_of ex_env t payload), HLog ''CRE write succeeded'']"

definition ex_payload :: "EvmConfig \<Rightarrow> byte list \<Rightarrow> byte list" where
  "ex_payload t cd = u64_bytes (ec_ChainSelector t) @ address_Bytes (HexToAddress ex_env (ec_WorkflowRouterAddress t)) @
     be_bytes 32 10000 @ cd"

lemma ex_encode:
  assumes "t \<in> {ex_parent, ex_child}" "length cd = 8"
  shows "EncodeReport ex_env t 10000 cd = Ok (ex_payload t cd)"
proof -
  have "isRequiredAddress ex_env (ec_WorkflowRouterAddress t)" "ec_ChainSelector t \<noteq> 0"
    using assms(1) ex_addresses by auto
  then show ?thesis using assms(2) by (simp add: EncodeReport_Ok ex_payload_def isRequiredAddress_def del: be_bytes.simps)
qed

lemma ex_host [simp]:
  "host_Now ex_env tr = 10000" "host_GenerateReport ex_env tr rq = Ok (Some (rq_EncodedPayload rq))"
  "host_WriteReport ex_env tr chain wq = Ok (Some \<lparr>wr_TxStatus = TX_STATUS_SUCCESS,
     wr_ExecutionStatus = Some EXECUTION_STATUS_SUCCESS, wr_TxHash = [], wr_ErrorMessage = None\<rparr>)"
  by (simp_all add: ex_env_def)

lemma ex_submit:
  assumes "t \<in> {ex_parent, ex_child}" "length cd = 8"
  shows "SubmitReport ex_env t 10000 cd tr = (Ok (), tr @ ex_calls t (ex_payload t cd))"
proof -
  have gas: "\<not> (ec_GasLimit t = 0 \<or> 5000000 < ec_GasLimit t)" using assms(1) by (auto simp: ex_parent_def ex_child_def)
  show ?thesis
    unfolding SubmitReport_def submitReport_def ex_encode [OF assms] if_not_P [OF gas] bindI_liftO_Ok
    by (simp add: send_report_def io_defs Now_def GenerateReport_def client_WriteReport_def log_Info_def check_reply_def
        report_request_of_def ex_calls_def)
qed

lemma ex_report:
  assumes "t \<in> {ex_parent, ex_child}" "length cd = 8"
  shows "report_call (SubmitReport ex_env) t 10000 e1 (Ok cd) e2 msg result tr =
    (Ok \<lparr>xr_Result = result\<rparr>, tr @ ex_calls t (ex_payload t cd) @ [HLog msg])"
  using ex_submit [OF assms] by (simp add: report_call_def io_defs log_Info_def)

lemma ex_calls_writes: "writes (ex_calls t payload @ rest) \<noteq> []"
  by (simp add: ex_calls_def)

lemma ex_pack [simp]: "abi_Pack ex_abi name args = Ok (replicate 8 (of_nat (length name)))"
  by (simp add: ex_abi_def)

lemma ex_due:
  "close_due ex_config ex_parent (ex_snapshot ex_due_store 15971525489660198786 15971525489660198786) (Some 100000000)"
proof -
  have "calculateEpochClose (epoch_of_storage (ex_epoch 5000000 0 0 0 EpochOpen)) (Some 100000000000000000000) (Some 100000000) 6 True =
    Ok \<lparr>ea_TotalWithdraw = 0, ea_NewShares = 5000000000000000000, ea_NetFlow = 5000000, ea_TotalShares = 105000000000000000000\<rparr>"
    by (simp add: calculateEpochClose_def epoch_of_storage_def ex_epoch_def close_amounts_def mulDivDown_def quo_trunc_def
        sharePrecision_def asset_precision_def close_checks_def fits_bits_def Let_def)
  then show ?thesis
    by (simp add: close_due_def Let_def ex_snapshot_def sol_getParentOperationalState_def ex_due_store_def ex_store_def
        ex_strategy_def ActiveTVL_def PeriodElapsed_iff status_defs)
      (simp add: epoch_of_storage_def ex_epoch_def)
qed

end
