(* ===== verification/Lifecycle_Properties.thy ===== *)
theory Lifecycle_Properties
  imports Lifecycle_Invariant Example_Deployment
begin

text \<open>
  The properties of the parent vault as a state machine, over every state that its operations reach in any order
  from initialisation: what the workflow's snapshot can rely on, what the users can rely on, and why
  delivering a report twice does no harm.
\<close>

section \<open>A reachable example\<close>

definition ex_fmu :: "int \<Rightarrow> int \<Rightarrow> int \<Rightarrow> int option" where
  "ex_fmu x y d = (if d = 0 \<or> 2 ^ 256 \<le> (x * y + d - 1) div d then None else Some ((x * y + d - 1) div d))"

definition ex_params :: vault_params where
  "ex_params = \<lparr>vp_fullMulDiv = ex_fmd, vp_fullMulDivUp = ex_fmu, vp_toInt256 = ex_toInt, vp_assetDecimals = 6,
     vp_thisChainSelector = 15971525489660198786\<rparr>"

lemma ex_params_doc: "params_doc ex_params"
  using ex_library by (simp add: params_doc_def ex_params_def fullMulDivUp_doc_def ex_fmu_def)

text \<open>A first deposit of five units, and the close of its epoch an hour later.\<close>

definition ex_first :: parent_storage where
  "ex_first = put_epoch ((sol_initialize 5000)\<lparr>pv_deposits := set_entry (\<lambda>_ _. 0) 7 1 5000000\<rparr>) 1
     (blank_epoch\<lparr>se_totalDepositAmount := 5000000, se_status := EpochOpen, se_openedAtTimestamp := 5000\<rparr>)"

lemma ex_first_deposit: "exec ex_params (Op_Deposit 7 5000000) (sol_initialize 5000) = Inr ex_first"
  by (simp add: sol_deposit_def sol_initialize_def ex_params_def asset_precision_def add256_def checked_def ex_first_def
      put_epoch_def blank_epoch_def set_entry_def)

lemma ex_first_reachable: "vault_reachable ex_params ex_first"
  unfolding vault_reachable_def
  by (intro exI [of _ 5000] conjI steps_step [OF steps_refl _ ex_first_deposit]) simp_all

definition ex_first_snapshot :: Snapshot where
  "ex_first_snapshot = ex_snapshot (pv_store ex_first) 15971525489660198786 15971525489660198786"

lemmas ex_first_defs = ex_first_snapshot_def ex_first_def put_epoch_def sol_initialize_def blank_epoch_def

lemma ex_first_ready: "ready ex_env ex_config ex_first_snapshot ex_parent"
proof -
  have "valid_snapshot ex_config ex_first_snapshot"
    by (auto simp: ex_first_defs valid_snapshot_def positive256_def valid_epoch_def epoch_integers_def valid_child_def
        ex_snapshot_defs status_defs)
  then show ?thesis using ex_config_valid ex_find_parent by (simp add: ready_def)
qed

lemma ex_first_due: "close_due ex_config ex_parent ex_first_snapshot (Some 100000000)"
proof -
  have "calculateEpochClose (epoch_of_storage (blank_epoch\<lparr>se_totalDepositAmount := 5000000, se_status := EpochOpen,
      se_openedAtTimestamp := 5000\<rparr>)) (Some 0) (Some 100000000) 6 True =
    Ok \<lparr>ea_TotalWithdraw = 0, ea_NewShares = 5000000000000000000, ea_NetFlow = 5000000, ea_TotalShares = 5000000000000000000\<rparr>"
    by (simp add: calculateEpochClose_def epoch_of_storage_def blank_epoch_def close_amounts_def mulDivDown_def quo_trunc_def
        sharePrecision_def asset_precision_def close_checks_def fits_bits_def Let_def)
  then show ?thesis
    by (simp add: close_due_def Let_def ex_first_snapshot_def ex_first_def put_epoch_def sol_initialize_def ex_snapshot_def
        sol_getParentOperationalState_def ex_strategy_def ActiveTVL_def PeriodElapsed_iff status_defs epoch_of_storage_def blank_epoch_def)
qed

definition ex_settled :: parent_storage where
  "ex_settled = ex_first\<lparr>pv_store := (pv_store ex_first)\<lparr>vs_totalShares := 5000000000000000000, vs_epochNonce := 2,
     vs_epochs := (vs_epochs (pv_store ex_first))
       (1 := closed_epoch (vs_epochs (pv_store ex_first) 1) 0 5000000000000000000 True 0,
        2 := blank_epoch\<lparr>se_status := EpochOpen, se_openedAtTimestamp := 10000\<rparr>)\<rparr>\<rparr>"

lemma ex_first_close: "exec ex_params (Op_CloseEpoch 10000 1 0 True 0) ex_first = Inr ex_settled"
  by (simp add: sol_vaultCloseEpoch_def sol_closeEpoch_def ex_first_def ex_settled_def ex_params_def put_epoch_def sol_initialize_def
      blank_epoch_def Let_def sub256_def add256_def mul256_def sol_amounts_def sol_checks_def lib_call_def ex_fmd_def ex_toInt_def
      settle_def sol_openNextEpoch_def closed_epoch_def sharePrecision_def asset_precision_def)

lemma ex_settled_reachable: "vault_reachable ex_params ex_settled"
  by (rule reachable_step [OF ex_first_reachable _ ex_first_close]) simp

section \<open>Reachable states\<close>

text \<open>
  C6: In every reachable state of the vault the numbers fit 256 bits, the current epoch is open and later ones are
  untouched, every earlier epoch is claimable except that the last one may still be executing, and never while a
  rebalance runs. The users' recorded deposits and share burns add up to the open epoch's totals, and
  for each settled epoch to what is still to be claimed.
\<close>

theorem epoch_lifecycle_invariant:
  assumes "params_doc P" "vault_reachable P s"
  shows "wf_store (pv_store s) \<and>
    (let st = pv_store s; cur = vs_epochNonce st
     in se_status (vs_epochs st cur) = EpochOpen \<and> (\<forall>n > cur. vs_epochs st n = blank_epoch) \<and>
        (\<Sum>u\<in>UNIV. pv_deposits s u cur) = se_totalDepositAmount (vs_epochs st cur) \<and>
        (\<Sum>u\<in>UNIV. pv_withdraws s u cur) = se_totalShareBurnAmount (vs_epochs st cur) \<and>
        (\<forall>n. 0 < n \<and> n < cur \<longrightarrow>
           (se_status (vs_epochs st n) = EpochClaimable \<or>
            n = cur - 1 \<and> se_status (vs_epochs st n) = EpochExecuting \<and> vs_rebalanceState st = RebalanceNone) \<and>
           (\<Sum>u\<in>UNIV. pv_deposits s u n) = se_remainingDepositClaimAmount (vs_epochs st n) \<and>
           (\<Sum>u\<in>UNIV. pv_withdraws s u n) = se_remainingShareBurnAmount (vs_epochs st n)))"
proof -
  let ?st = "pv_store s" let ?cur = "vs_epochNonce ?st"
  have ok: "lifecycle_ok s" by (rule reachable_ok [OF assms])
  have e: "epoch_ok ?cur n (vs_epochs ?st n) (pending_deposits s n) (pending_burns s n)" for n
    using ok by (simp add: lifecycle_ok_def)
  have x: "exclusive ?st" using ok by (simp add: lifecycle_ok_def)
  have "se_status (vs_epochs ?st n) = EpochClaimable \<or>
      n = ?cur - 1 \<and> se_status (vs_epochs ?st n) = EpochExecuting \<and> vs_rebalanceState ?st = RebalanceNone"
    if "0 < n" "n < ?cur" for n
    using e [of n] x that by (auto simp: epoch_ok_def exclusive_def)
  moreover have "pending_deposits s n = se_remainingDepositClaimAmount (vs_epochs ?st n) \<and>
      pending_burns s n = se_remainingShareBurnAmount (vs_epochs ?st n)" if "0 < n" "n < ?cur" for n
    using e [of n] that by (simp add: epoch_ok_def owing_epoch_def)
  moreover have "\<forall>n > ?cur. vs_epochs ?st n = blank_epoch" using e by (simp add: epoch_ok_def)
  ultimately show ?thesis
    using lifecycle_wf_store [OF ok] current_epoch(1) [OF ok]
    unfolding Let_def pending_deposits_def [symmetric] pending_burns_def [symmetric] open_epoch_def by simp
qed

theorem epoch_lifecycle_invariant_witness:
  "wf_store (pv_store ex_settled) \<and> (\<Sum>u\<in>UNIV. pv_deposits ex_settled u 1) = 5000000"
proof -
  have c: "vs_epochNonce (pv_store ex_settled) = 2" "se_remainingDepositClaimAmount (vs_epochs (pv_store ex_settled) 1) = 5000000"
    by (simp_all add: ex_settled_def closed_epoch_def Let_def ex_first_def put_epoch_def blank_epoch_def)
  from epoch_lifecycle_invariant [OF ex_params_doc ex_settled_reachable] show ?thesis unfolding Let_def c(1) using c(2) by simp
qed

text \<open>One claim from a reachable state.\<close>

lemma claimShares_pays:
  assumes "params_doc P" "vault_reachable P s" "se_status (vs_epochs (pv_store s) n) = EpochClaimable" and d: "pv_deposits s user n \<noteq> 0"
  shows "\<exists>s' minted. sol_claimShares P user n s = Inr (s', minted) \<and> 0 \<le> minted \<and> pv_deposits s' user n = 0 \<and> vault_reachable P s' \<and>
      se_remainingShareMintAmount (vs_epochs (pv_store s') n) = se_remainingShareMintAmount (vs_epochs (pv_store s) n) - minted \<and>
      ((\<forall>u. pv_deposits s' u n = 0) \<longrightarrow> se_remainingShareMintAmount (vs_epochs (pv_store s') n) = 0)"
proof -
  have ok: "lifecycle_ok s" and fmd: "fullMulDiv_doc (vp_fullMulDiv P)"
    using reachable_ok [OF assms(1,2)] assms(1) by (simp_all add: params_doc_def)
  have op: "wf_op (Op_ClaimShares user n)" using settled_epoch(1,2) [OF ok] assms(3) ok by (force simp: lifecycle_ok_def)
  note run = claimShares_succeeds [OF fmd ok assms(3) d]
  have m: "0 \<le> shares_claimed s user n"
    unfolding shares_claimed_def Let_def
    by (rule claim_part_bounds) (use owing_entries(1,2) [OF ok assms(3), of user] owing_entries(3,4) [OF ok assms(3)] d in simp_all)
  have r: "vault_reachable P (fst (projr (sol_claimShares P user n s)))"
    by (rule reachable_step [OF assms(2) op]) (simp add: run)
  note l = settled_epoch(3) [OF claimShares_keeps [OF fmd ok run], of n]
  show ?thesis
    by (rule exI, rule exI, rule conjI [OF run])
      (use m l r assms(3) in \<open>simp add: put_epoch_def set_entry_def run owing_epoch_def pending_deposits_def\<close>)
qed

lemma claimAsset_pays:
  assumes "params_doc P" "vault_reachable P s" "se_status (vs_epochs (pv_store s) n) = EpochClaimable" and d: "pv_withdraws s user n \<noteq> 0"
  shows "\<exists>s' paid. sol_claimAsset P user n s = Inr (s', paid) \<and> 0 \<le> paid \<and> pv_withdraws s' user n = 0 \<and> vault_reachable P s' \<and>
      se_remainingWithdrawClaimAmount (vs_epochs (pv_store s') n) = se_remainingWithdrawClaimAmount (vs_epochs (pv_store s) n) - paid \<and>
      ((\<forall>u. pv_withdraws s' u n = 0) \<longrightarrow> se_remainingWithdrawClaimAmount (vs_epochs (pv_store s') n) = 0)"
proof -
  have ok: "lifecycle_ok s" and fmd: "fullMulDiv_doc (vp_fullMulDiv P)"
    using reachable_ok [OF assms(1,2)] assms(1) by (simp_all add: params_doc_def)
  have op: "wf_op (Op_ClaimAsset user n)" using settled_epoch(1,2) [OF ok] assms(3) ok by (force simp: lifecycle_ok_def)
  note run = claimAsset_succeeds [OF fmd ok assms(3) d]
  have m: "0 \<le> assets_claimed s user n"
    unfolding assets_claimed_def Let_def
    by (rule claim_part_bounds) (use owing_entries(5,6) [OF ok assms(3), of user] owing_entries(7,8) [OF ok assms(3)] d in simp_all)
  have r: "vault_reachable P (fst (projr (sol_claimAsset P user n s)))"
    by (rule reachable_step [OF assms(2) op]) (simp add: run)
  note l = settled_epoch(3) [OF claimAsset_keeps [OF fmd ok run], of n]
  show ?thesis
    by (rule exI, rule exI, rule conjI [OF run])
      (use m l r assms(3) in \<open>simp add: put_epoch_def set_entry_def run owing_epoch_def pending_burns_def\<close>)
qed

text \<open>
  What is claimable can be claimed. In every reachable state, a user with a recorded deposit in a claimable
  epoch can claim shares and a user with recorded burns can claim assets: the claim never reverts in the
  accounting, clears the record, takes the amount out of what the epoch still owes, and once all records
  of the epoch are cleared nothing is left over.
\<close>

theorem claims_always_payable:
  assumes "params_doc P" "vault_reachable P s" "se_status (vs_epochs (pv_store s) n) = EpochClaimable"
  shows "(pv_deposits s user n \<noteq> 0 \<longrightarrow> (\<exists>s' minted. sol_claimShares P user n s = Inr (s', minted) \<and> 0 \<le> minted \<and>
      pv_deposits s' user n = 0 \<and> vault_reachable P s' \<and>
      se_remainingShareMintAmount (vs_epochs (pv_store s') n) = se_remainingShareMintAmount (vs_epochs (pv_store s) n) - minted \<and>
      ((\<forall>u. pv_deposits s' u n = 0) \<longrightarrow> se_remainingShareMintAmount (vs_epochs (pv_store s') n) = 0))) \<and>
    (pv_withdraws s user n \<noteq> 0 \<longrightarrow> (\<exists>s' paid. sol_claimAsset P user n s = Inr (s', paid) \<and> 0 \<le> paid \<and>
      pv_withdraws s' user n = 0 \<and> vault_reachable P s' \<and>
      se_remainingWithdrawClaimAmount (vs_epochs (pv_store s') n) = se_remainingWithdrawClaimAmount (vs_epochs (pv_store s) n) - paid \<and>
      ((\<forall>u. pv_withdraws s' u n = 0) \<longrightarrow> se_remainingWithdrawClaimAmount (vs_epochs (pv_store s') n) = 0)))"
  using claimShares_pays [OF assms] claimAsset_pays [OF assms] by blast

theorem claims_always_payable_witness:
  "\<exists>s' minted. sol_claimShares ex_params 7 1 ex_settled = Inr (s', minted) \<and> 0 \<le> minted \<and> pv_deposits s' 7 1 = 0"
proof -
  have "se_status (vs_epochs (pv_store ex_settled) 1) = EpochClaimable" "pv_deposits ex_settled 7 1 \<noteq> 0"
    by (simp_all add: ex_settled_def closed_epoch_def Let_def ex_first_def put_epoch_def blank_epoch_def set_entry_def)
  with claims_always_payable [OF ex_params_doc ex_settled_reachable this(1), of 7] show ?thesis by blast
qed

text \<open>
  C7: An epoch is closed at most once. After a close with some nonce, in whatever state the vault comes to be later,
  every further close with that nonce reverts with the nonce error, whatever TVL it carries. A report
  that is delivered twice is refused the second time.
\<close>

theorem epoch_closed_once:
  assumes "params_doc P" "vault_reachable P s" "u256 ts" "u256 tvl" "u256 amountOut"
    and "sol_vaultCloseEpoch P ts nonce tvl isLocal amountOut s = Inr s'" "vault_steps P s' t"
  shows "sol_vaultCloseEpoch P ts' nonce tvl' isLocal' amountOut' t = Inl (Settlement (InvalidEpochNonce nonce))"
proof -
  have ok: "lifecycle_ok s" by (rule reachable_ok [OF assms(1,2)])
  note c = close_advances [OF assms(1) ok assms(4,6)]
  have "lifecycle_ok s'" by (rule close_keeps [OF assms(1) ok assms(4,3) _ assms(6)]) (use assms(5) in simp)
  from steps_nonce [OF assms(1,7) this] have "nonce \<noteq> vs_epochNonce (pv_store t)" unfolding c(2) by simp
  then show ?thesis by (simp add: sol_vaultCloseEpoch_def sol_closeEpoch_def Let_def)
qed

theorem epoch_closed_once_witness:
  "sol_vaultCloseEpoch ex_params 20000 1 0 True 0 ex_settled = Inl (Settlement (InvalidEpochNonce 1))"
  by (rule epoch_closed_once [OF ex_params_doc ex_first_reachable _ _ _ ex_first_close [unfolded exec.simps] steps_refl]) simp_all

end
