(* ===== verification/Composition.thy ===== *)
theory Composition
  imports Workflow_Model
begin

text \<open>
  Lemmas that join components: the close handler with the contract it calls, the envelope with the
  router that opens it, the pool selection with the threshold policy.
\<close>

section \<open>The close handler and the settlement\<close>

lemma calculateEpochClose_tvl: "calculateEpochClose e shares tvl d isLocal = Ok a \<Longrightarrow> \<exists>v. tvl = Some v \<and> u256 v"
  by (cases tvl) (auto simp: calculateEpochClose_def split: if_splits)

lemma close_due_tvl: "close_due config p s tvl \<Longrightarrow> \<exists>v. tvl = Some v \<and> u256 v \<and> ActiveTVL s (ec_ChainSelector p) = Ok tvl"
  by (auto simp: close_due_def Let_def dest: calculateEpochClose_tvl)

lemma OnEpochCronTrigger_writes:
  assumes r: "ready E config s p" "parent_NewCodec E = Ok c"
  shows "spec_io (OnEpochCronTrigger E config s) (\<lambda>r cs. writes cs \<noteq> [] \<longrightarrow>
    (\<exists>tvl. close_due config p s (Some tvl) \<and> u256 tvl \<and>
       sends E p (sn_ObservedAt s) (EncodeCloseEpochMethodCall c
         \<lparr>ce_ExpectedEpochNonce = ps_CurrentEpochNonce (sn_Parent s), ce_Tvl = Some tvl\<rparr>) cs))"
proof (cases "\<exists>tvl. close_due config p s tvl")
  case True
  then obtain tvl where due: "close_due config p s (Some tvl)" "u256 tvl" using close_due_tvl by blast
  show ?thesis
    unfolding OnEpochCronTrigger_def epoch_cron_due [OF r due(1)] close_report_def
    by (rule spec_io_mono [OF report.report_call_sends]) (use due in blast)
next
  case False
  then have "idle (OnEpochCronTrigger E config s)"
    unfolding OnEpochCronTrigger_def by (intro epoch_cron_not_due [OF r]) blast
  then show ?thesis by (intro spec_io_mono [OF idle_spec]) auto
qed

lemma close_due_settles_later:
  assumes doc: "fullMulDiv_doc fmd" "toInt256_doc toInt" and obs: "observes s st" and wf: "wf_store st"
    and due: "close_due config p s (Some tvl)" and now: "0 \<le> sn_ObservedAt s" "sn_ObservedAt s \<le> ts" "ts < 2 ^ 256"
    and d: "cf_AssetDecimals config = Some d" "d \<le> 77"
  shows "\<exists>r. sol_closeEpoch fmd toInt sharePrecision (asset_precision d) (asset_precision d) st ts (vs_epochNonce st) tvl
    (strategy_is_local s p) = Inr r"
proof -
  have tvl: "ActiveTVL s (ec_ChainSelector p) = Ok (Some tvl)" "u256 tvl" using close_due_tvl [OF due] by auto
  have "sn_ObservedAt s < 2 ^ 256" using now by linarith
  from due [unfolded close_due_iff_guards [OF obs wf now(1) this tvl(1) d(1)]]
  show ?thesis
    unfolding sol_closeEpoch_Inr [OF doc wf tvl(2) d(2)] using close_guards_later [OF _ now(2)] by blast
qed

section \<open>Writes of a run\<close>

lemma vault_calls_quiet: "list_all2 (vault_call E) es cs \<Longrightarrow> writes cs = []"
  by (induction rule: list_all2_induct) (auto simp: vault_call_def)

lemma guarded_one_write: "guarded E config r cs \<Longrightarrow> length (writes cs) \<le> 1"
  by (auto simp: guarded_def one_write_def vault_calls_quiet)

text \<open>A specification at a given run.\<close>

lemma spec_io_run: "spec_io m Q \<Longrightarrow> m tr = (r, tr @ cs) \<Longrightarrow> Q r cs"
  by (drule (1) spec_ioD) auto

end
