(* ===== verification/Epoch_Properties.thy ===== *)
theory Epoch_Properties
  imports Composition Example_Deployment
begin

text \<open>
  The properties of the epoch component (\<open>cre/workflow/internal/epoch\<close>): the preflight agrees with the
  contract's settlement, its amounts are bounded and favour the remaining shareholders, and each of
  the three handlers acts exactly when its condition holds.
\<close>

section \<open>The preflight and the contract\<close>

text \<open>
  C3: The Go preflight and the Solidity settlement agree on every well-formed store. The contract's
  \<open>_closeEpoch\<close> succeeds exactly when its guards hold and \<open>calculateEpochClose\<close> accepts the stored epoch,
  and the storage it leaves is the one computed from the preflight's amounts.
\<close>

theorem close_preflight_agrees:
  assumes "fullMulDiv_doc fmd" "toInt256_doc toInt" "wf_store st" "u256 tvl" "d \<le> 77"
  shows "sol_closeEpoch fmd toInt sharePrecision (asset_precision d) (asset_precision d) st ts nonce tvl isLocal = Inr r \<longleftrightarrow>
    close_guards st ts nonce \<and>
    (\<exists>a. calculateEpochClose (epoch_of_storage (vs_epochs st (vs_epochNonce st))) (Some (vs_totalShares st)) (Some tvl) d isLocal = Ok a \<and>
       r = settle st (vs_epochNonce st) isLocal (ea_TotalWithdraw a) (ea_NewShares a) (ea_NetFlow a) (ea_TotalShares a))"
  using sol_closeEpoch_Inr [OF assms] by (simp add: preflight_close_def settled_def)

theorem close_preflight_agrees_witness:
  "\<exists>a. calculateEpochClose (epoch_of_storage (vs_epochs ex_due_store 3)) (Some 100000000000000000000) (Some 100000000) 6 True = Ok a \<and>
     sol_closeEpoch ex_fmd ex_toInt sharePrecision (asset_precision 6) (asset_precision 6) ex_due_store 5000 3 100000000 True =
       Inr (settle ex_due_store 3 True (ea_TotalWithdraw a) (ea_NewShares a) (ea_NetFlow a) (ea_TotalShares a))"
proof -
  have st: "vs_epochNonce ex_due_store = 3" "vs_totalShares ex_due_store = 100000000000000000000"
    by (simp_all add: ex_store_defs)
  have g: "close_guards ex_due_store 5000 3" by (simp add: close_guards_def ex_store_defs status_defs)
  obtain a where "calculateEpochClose (epoch_of_storage (vs_epochs ex_due_store 3)) (Some (vs_totalShares ex_due_store))
      (Some 100000000) 6 True = Ok a"
    by (auto simp: calculateEpochClose_def epoch_of_storage_def ex_store_defs close_amounts_def mulDivDown_def
        quo_trunc_def sharePrecision_def asset_precision_def close_checks_def fits_bits_def Let_def)
  with close_preflight_agrees [OF ex_library ex_stores_wf(1), of 100000000 6 5000 3 True] g
  show ?thesis unfolding st by fastforce
qed

text \<open>
  C17: The same for a remote deposit. \<open>_completeEpochDeposit\<close> succeeds exactly when the nonce is the one
  before the current epoch, that epoch is executing, and \<open>reconcileEpochDeposit\<close> accepts the amount; the
  contract then mints the preflight's share amount.
\<close>

theorem complete_preflight_agrees:
  assumes "fullMulDiv_doc fmd" "wf_store st" "u256 actual"
  shows "sol_completeEpochDeposit fmd st nonce actual = Inr st' \<longleftrightarrow>
    nonce = vs_epochNonce st - 1 \<and> 1 < vs_epochNonce st \<and> se_status (vs_epochs st nonce) = EpochExecuting \<and>
    (\<exists>adjusted. reconcileEpochDeposit (epoch_of_storage (vs_epochs st (vs_epochNonce st - 1))) (Some (vs_totalShares st))
        (Some actual) = Ok adjusted \<and> st' = completed st adjusted)"
  using sol_completeEpochDeposit_Inr [OF assms] by (simp add: preflight_complete_def)

theorem complete_preflight_agrees_witness:
  "sol_completeEpochDeposit ex_fmd ex_deposit_store 2 600000 = Inr (completed ex_deposit_store 1000000000000000000)"
proof -
  have "vs_epochNonce ex_deposit_store = 3" "se_status (vs_epochs ex_deposit_store 2) = EpochExecuting"
    by (simp_all add: ex_store_defs)
  moreover have "reconcileEpochDeposit (epoch_of_storage (vs_epochs ex_deposit_store 2)) (Some (vs_totalShares ex_deposit_store))
      (Some 600000) = Ok 1000000000000000000"
    by (simp add: reconcileEpochDeposit_def epoch_of_storage_def ex_store_defs)
  ultimately show ?thesis
    using complete_preflight_agrees [OF ex_library(1) ex_stores_wf(2), of 600000 2 "completed ex_deposit_store 1000000000000000000"]
    by simp
qed

section \<open>Amounts\<close>

lemma div_floor_bounds:
  fixes m d :: int
  assumes "0 < d"
  shows "m div d * d \<le> m" and "m < (m div d + 1) * d"
proof -
  have "d * (m div d) + m mod d = m" by (rule mult_div_mod_eq)
  moreover have "0 \<le> m mod d" "m mod d < d" using assms by simp_all
  ultimately have "d * (m div d) \<le> m" "m < d * (m div d) + d" by linarith+
  then show "m div d * d \<le> m" "m < (m div d + 1) * d" by (simp_all add: mult.commute distrib_left)
qed

text \<open>
  C5: Closing never dilutes the remaining shareholders. When shares are outstanding, the value per share
  after the close, with the net flow added to the TVL, is at least the value per share before it: both
  roundings leave the remainder in the vault.
\<close>

theorem close_share_price_kept:
  assumes "calculateEpochClose e (Some shares) (Some tvl) d isLocal = Ok a" "shares \<noteq> 0"
  shows "tvl * ea_TotalShares a \<le> (tvl + ea_NetFlow a) * shares"
proof -
  from assms(1) obtain deposit burn where e: "ep_TotalDepositAmount e = Some deposit" "ep_TotalShareBurnAmount e = Some burn"
    and u: "u256 deposit" "u256 burn" "u256 shares" "u256 tvl" "d \<le> 77"
    by (auto simp: calculateEpochClose_def not_less elim!: Uint256E split: if_splits)
  from assms(1) [unfolded calculateEpochClose_Ok [OF e u]] obtain w n where
    amounts: "close_amounts deposit burn shares tvl (asset_precision d) = Ok (w, n)"
    and a: "ea_NetFlow a = deposit - w" "ea_TotalShares a = shares + n - burn"
    by (auto simp: close_accounting_def)
  have "w * shares \<le> burn * tvl" "n * tvl \<le> deposit * shares"
    using close_amounts_floor [OF amounts assms(2)] u by simp_all
  then show ?thesis by (simp add: a algebra_simps)
qed

theorem close_share_price_kept_witness:
  "\<exists>a. calculateEpochClose (epoch_of_storage (ex_epoch 5000000 1000000000000000007 0 0 EpochOpen)) (Some 100000000000000000000)
      (Some 100000003) 6 True = Ok a \<and>
     100000003 * ea_TotalShares a \<le> (100000003 + ea_NetFlow a) * 100000000000000000000"
proof -
  let ?e = "epoch_of_storage (ex_epoch 5000000 1000000000000000007 0 0 EpochOpen)"
  obtain a where a: "calculateEpochClose ?e (Some 100000000000000000000) (Some 100000003) 6 True = Ok a"
    by (auto simp: calculateEpochClose_def epoch_of_storage_def ex_epoch_def close_amounts_def mulDivDown_def
        quo_trunc_def sharePrecision_def asset_precision_def close_checks_def fits_bits_def Let_def)
  with close_share_price_kept [OF a] show ?thesis by auto
qed

text \<open>
  Every amount of an accepted close fits the contract's types: the withdrawal total and the net
  flow fit a signed 256-bit word, the share counts an unsigned one. A deposit mints at least one share,
  and when the burned shares exist, the withdrawals are covered by the TVL.
\<close>

theorem close_amounts_bounded:
  assumes "calculateEpochClose e (Some shares) (Some tvl) d isLocal = Ok a"
  shows "0 \<le> ea_TotalWithdraw a \<and> \<bar>ea_NetFlow a\<bar> < 2 ^ 255 \<and> u256 (ea_NewShares a) \<and> u256 (ea_TotalShares a) \<and>
    (ep_TotalDepositAmount e \<noteq> Some 0 \<longrightarrow> 0 < ea_NewShares a) \<and>
    (\<forall>burn. ep_TotalShareBurnAmount e = Some burn \<and> burn \<le> shares \<longrightarrow> ea_TotalWithdraw a \<le> tvl)"
proof -
  from assms obtain deposit burn where e: "ep_TotalDepositAmount e = Some deposit" "ep_TotalShareBurnAmount e = Some burn"
    and u: "u256 deposit" "u256 burn" "u256 shares" "u256 tvl" "d \<le> 77"
    by (auto simp: calculateEpochClose_def not_less elim!: Uint256E split: if_splits)
  from assms [unfolded calculateEpochClose_Ok [OF e u]] obtain w n where
    amounts: "close_amounts deposit burn shares tvl (asset_precision d) = Ok (w, n)"
    and ok: "close_admissible deposit burn shares (asset_precision d) isLocal w n"
    and a: "a = \<lparr>ea_TotalWithdraw = w, ea_NewShares = n, ea_NetFlow = deposit - w, ea_TotalShares = shares + n - burn\<rparr>"
    by (auto simp: close_accounting_def)
  have wn: "u256 w" "u256 n" using close_amounts_u256 [OF amounts] by simp_all
  have "w \<le> tvl" if "burn \<le> shares"
  proof (cases "shares = 0")
    case True
    then show ?thesis using amounts u by (auto simp: close_amounts_def bindO_Ok_iff split: if_splits)
  next
    case False
    from close_amounts_floor(2) [OF amounts False] u have "w * shares \<le> burn * tvl" by simp
    also have "burn * tvl \<le> tvl * shares" using that u by (simp add: mult.commute [of tvl] mult_right_mono)
    finally show ?thesis using False u by simp
  qed
  moreover have "deposit \<noteq> 0 \<Longrightarrow> 0 < n"
    using ok u wn by (cases "n = 0") (auto simp: close_admissible_def)
  moreover have "\<bar>deposit - w\<bar> < 2 ^ 255"
    using ok wn u unfolding close_admissible_def by (simp only: abs_less_iff) linarith
  ultimately show ?thesis using ok wn u e by (simp add: a close_admissible_def)
qed

theorem close_amounts_bounded_witness:
  "\<exists>a. calculateEpochClose (epoch_of_storage (ex_epoch 5000000 1000000000000000007 0 0 EpochOpen)) (Some 100000000000000000000)
      (Some 100000003) 6 True = Ok a \<and> 0 < ea_NewShares a \<and> ea_TotalWithdraw a \<le> 100000003"
proof -
  let ?e = "epoch_of_storage (ex_epoch 5000000 1000000000000000007 0 0 EpochOpen)"
  obtain a where a: "calculateEpochClose ?e (Some 100000000000000000000) (Some 100000003) 6 True = Ok a"
    by (auto simp: calculateEpochClose_def epoch_of_storage_def ex_epoch_def close_amounts_def mulDivDown_def
        quo_trunc_def sharePrecision_def asset_precision_def close_checks_def fits_bits_def Let_def)
  have "ep_TotalShareBurnAmount ?e = Some 1000000000000000007" "ep_TotalDepositAmount ?e = Some 5000000"
    by (simp_all add: epoch_of_storage_def ex_epoch_def)
  with close_amounts_bounded [OF a] a show ?thesis by auto
qed

text \<open>
  A reconciled deposit never mints more than was recorded at the close, and mints the share of it that
  the received assets pay for, rounded down: the full amount when nothing was lost on the way, and
  otherwise a positive amount in proportion to the assets that arrived.
\<close>

theorem reconcile_bounded:
  assumes "reconcileEpochDeposit e (Some shares) (Some actual) = Ok adjusted"
    and "ep_TotalDepositAmount e = Some deposit" "ep_TotalWithdrawClaimAmount e = Some withdraw"
    and "ep_RemainingShareMintAmount e = Some mint"
  shows "0 \<le> adjusted \<and> adjusted \<le> mint \<and> 0 < actual \<and> actual \<le> deposit - withdraw \<and>
    (if actual = deposit - withdraw then adjusted = mint
     else 0 < adjusted \<and> adjusted * deposit \<le> mint * (withdraw + actual) \<and>
          mint * (withdraw + actual) < (adjusted + 1) * deposit \<and> mint - adjusted \<le> shares)"
proof -
  have u: "u256 deposit" "u256 withdraw" "u256 mint" "u256 shares" "u256 actual"
    using assms by (auto simp: reconcileEpochDeposit_def split: if_splits)
  from assms(1) [unfolded reconcileEpochDeposit_Ok [OF assms(2-4) u]]
  have ok: "reconcile_admissible deposit withdraw mint shares actual adjusted" .
  then have pos: "0 < deposit" "withdraw + actual \<le> deposit" using u by (auto simp: reconcile_admissible_def)
  let ?m = "mint * (withdraw + actual)"
  have sd: "0 \<le> ?m div deposit" "?m div deposit \<le> mint" by (rule scaled_down; use u pos in simp)+
  with ok u div_floor_bounds [OF pos(1), of ?m] show ?thesis by (auto simp: reconcile_admissible_def)
qed

theorem reconcile_bounded_witness:
  "\<exists>adjusted. reconcileEpochDeposit (epoch_of_storage (ex_epoch 1000000 400000000000000000 400000 1000000000000000000 EpochExecuting))
      (Some 100000000000000000000) (Some 599999) = Ok adjusted \<and> 0 < adjusted \<and> adjusted \<le> 1000000000000000000 \<and>
      adjusted * 1000000 \<le> 1000000000000000000 * 999999"
proof -
  let ?e = "epoch_of_storage (ex_epoch 1000000 400000000000000000 400000 1000000000000000000 EpochExecuting)"
  have f: "ep_TotalDepositAmount ?e = Some 1000000" "ep_TotalWithdrawClaimAmount ?e = Some 400000"
    "ep_RemainingShareMintAmount ?e = Some 1000000000000000000"
    by (simp_all add: epoch_of_storage_def ex_epoch_def)
  obtain adjusted where a: "reconcileEpochDeposit ?e (Some 100000000000000000000) (Some 599999) = Ok adjusted"
    by (simp add: reconcileEpochDeposit_def epoch_of_storage_def ex_epoch_def quo_trunc_def)
  with reconcile_bounded [OF a f] show ?thesis by auto
qed

text \<open>
  The two preflights never panic, whatever the snapshot's pointers are: nil and out-of-range
  integers are rejected as errors before anything is dereferenced.
\<close>

theorem preflights_never_panic:
  "\<not> is_panic (calculateEpochClose e shares tvl d isLocal) \<and> \<not> is_panic (reconcileEpochDeposit e shares actual)"
  by simp

section \<open>The handlers\<close>

text \<open>
  C4: The close handler follows the contract exactly. On a valid snapshot that shows the contract's
  storage, it submits \<open>closeEpoch\<close> with the current nonce and the active TVL when the contract's settlement
  would succeed at the snapshot's time, and otherwise submits nothing.
\<close>

theorem epoch_cron_follows_contract:
  assumes "fullMulDiv_doc fmd" "toInt256_doc toInt" "ready E config s p" "parent_NewCodec E = Ok c"
    and "observes s st" "wf_store st" "sn_ObservedAt s < 2 ^ 256" "cf_AssetDecimals config = Some d"
    and "ActiveTVL s (ec_ChainSelector p) = Ok (Some tvl)" "u256 tvl"
  shows "if \<exists>r. sol_closeEpoch fmd toInt sharePrecision (asset_precision d) (asset_precision d) st (sn_ObservedAt s)
        (vs_epochNonce st) tvl (strategy_is_local s p) = Inr r
    then OnEpochCronTrigger E config s = close_report c p s (Some tvl) (SubmitReport E)
    else idle (OnEpochCronTrigger E config s)"
proof -
  have now: "0 \<le> sn_ObservedAt s" "d \<le> 77"
    using assms(3,8) by (auto simp: ready_def valid_snapshot_def valid_config_def)
  note iff = close_due_settles [OF assms(1,2,5,6) now(1) assms(7,9,10,8) now(2)]
  have only: "close_due config p s t \<Longrightarrow> t = Some tvl" for t
    using assms(9) by (simp add: close_due_def Let_def)
  show ?thesis
  proof (cases "close_due config p s (Some tvl)")
    case True
    then show ?thesis
      unfolding iff [symmetric] OnEpochCronTrigger_def by (simp only: epoch_cron_due [OF assms(3,4)] if_True)
  next
    case False
    then have "\<And>t. \<not> close_due config p s t" using only by blast
    then show ?thesis
      using False unfolding iff [symmetric] OnEpochCronTrigger_def
      by (simp only: epoch_cron_not_due [OF assms(3,4)] if_False not_False_eq_True)
  qed
qed

theorem epoch_cron_follows_contract_witness:
  "OnEpochCronTrigger ex_env ex_config (ex_snapshot ex_due_store 15971525489660198786 15971525489660198786) =
     close_report \<lparr>codec_abi = ex_abi\<rparr> ex_parent (ex_snapshot ex_due_store 15971525489660198786 15971525489660198786)
       (Some 100000000) (SubmitReport ex_env)"
proof -
  let ?s = "ex_snapshot ex_due_store 15971525489660198786 15971525489660198786"
  have rd: "ready ex_env ex_config ?s ex_parent" by (rule ex_snapshot_valid) simp
  have obs: "sn_ObservedAt ?s = 10000" "ActiveTVL ?s (ec_ChainSelector ex_parent) = Ok (Some 100000000)"
    by (simp_all add: ex_snapshot_defs ActiveTVL_def)
  have "\<exists>r. sol_closeEpoch ex_fmd ex_toInt sharePrecision (asset_precision 6) (asset_precision 6) ex_due_store
      (sn_ObservedAt ?s) (vs_epochNonce ex_due_store) 100000000 (strategy_is_local ?s ex_parent) = Inr r"
    by (subst close_due_settles [symmetric, OF ex_library ex_observes ex_stores_wf(1) _ _ obs(2) _ ex_evms(2)])
      (simp_all add: obs ex_due)
  then show ?thesis
    using epoch_cron_follows_contract [OF ex_library rd ex_codecs(1) ex_observes ex_stores_wf(1) _ ex_evms(2) obs(2)]
    by (simp add: obs)
qed

text \<open>
  C19: The withdrawal handler submits \<open>executeEpochWithdraw\<close> with the event's nonce and amount to the active
  strategy's child exactly when the event comes from the parent vault, no rebalance runs, the event names
  the executing epoch and its net withdrawal, the strategy is remote, and the child has not handled the
  nonce. In every other case it submits nothing.
\<close>

theorem epoch_withdraw_exact:
  assumes "ready E config s p" "parent_NewCodec E = Ok c" "child_NewCodec E = Ok cc"
    and "DecodeEpochWithdrawExecuting E c lg = Ok \<lparr>we_EpochNonce = Some n, we_Amount = Some amount\<rparr>"
  shows "if \<exists>t. withdraw_due E config p s lg src n amount t
    then \<exists>t. withdraw_due E config p s lg src n amount t \<and>
      OnEpochWithdrawExecuting E config lg s src = withdraw_report cc t s n amount (SubmitReport E)
    else idle (OnEpochWithdrawExecuting E config lg s src)"
proof (cases "\<exists>t. withdraw_due E config p s lg src n amount t")
  case True
  then obtain t where "withdraw_due E config p s lg src n amount t" by blast
  with epoch_withdraw_due [OF assms this] show ?thesis by (auto simp: OnEpochWithdrawExecuting_def)
next
  case False
  then show ?thesis using epoch_withdraw_not_due [OF assms] by (auto simp: OnEpochWithdrawExecuting_def)
qed

theorem epoch_withdraw_exact_witness:
  "OnEpochWithdrawExecuting ex_env ex_config (Some (ex_log ex_parent ''EpochWithdrawExecuting''))
       (ex_snapshot ex_withdraw_store 4949039107694359620 4949039107694359620) 15971525489660198786 =
     withdraw_report \<lparr>codec_abi = ex_abi\<rparr> ex_child (ex_snapshot ex_withdraw_store 4949039107694359620 4949039107694359620)
       2 600000 (SubmitReport ex_env)"
proof -
  let ?s = "ex_snapshot ex_withdraw_store 4949039107694359620 4949039107694359620"
  let ?lg = "Some (ex_log ex_parent ''EpochWithdrawExecuting'')"
  have rd: "ready ex_env ex_config ?s ex_parent" by (rule ex_snapshot_valid) simp
  have src: "MatchSource ex_env ex_config ?lg 15971525489660198786 15971525489660198786"
    using ex_match_source [of ex_parent] by simp
  have due: "withdraw_due ex_env ex_config ex_parent ?s ?lg 15971525489660198786 2 600000 t \<longleftrightarrow> t = ex_child" for t
    using src by (auto simp: withdraw_due_def Let_def executing_epoch_def ex_snapshot_defs ex_store_defs child_of_def)
  show ?thesis
    using epoch_withdraw_exact [OF rd ex_codecs ex_decoders(1), of ex_parent "''EpochWithdrawExecuting''" 15971525489660198786]
    by (simp add: due)
qed

text \<open>
  A withdrawal event is executed at most once. When the active child's state shows that it has handled
  the event's nonce or a later one, a redelivered event causes no write.
\<close>

theorem epoch_withdraw_replay_ignored:
  assumes "ready E config s p" "parent_NewCodec E = Ok c" "child_NewCodec E = Ok cc"
    and "DecodeEpochWithdrawExecuting E c lg = Ok \<lparr>we_EpochNonce = Some n, we_Amount = Some amount\<rparr>"
    and "cs_LastHandledEpochNonce (child_of s (st_ChainSelector (rb_ActiveStrategy (ps_Rebalance (sn_Parent s))))) = Some h" "n \<le> h"
    and "OnEpochWithdrawExecuting E config lg s src tr = (r, tr')"
  shows "writes tr' = writes tr"
proof -
  have "\<And>t. \<not> withdraw_due E config p s lg src n amount t"
    using assms(5,6) by (auto simp: withdraw_due_def Let_def)
  then have "spec_io (OnEpochWithdrawExecuting E config lg s src) (\<lambda>r cs. writes cs = [])"
    unfolding OnEpochWithdrawExecuting_def by (intro idle_spec epoch_withdraw_not_due [OF assms(1-4)])
  from spec_ioD [OF this assms(7)] show ?thesis by auto
qed

theorem epoch_withdraw_replay_ignored_witness:
  "writes (snd (OnEpochWithdrawExecuting ex_env ex_config (Some (ex_log ex_parent ''EpochWithdrawExecuting''))
       ((ex_snapshot ex_withdraw_store 4949039107694359620 4949039107694359620)
          \<lparr>sn_Children := [4949039107694359620 \<mapsto> ex_child_state\<lparr>cs_LastHandledEpochNonce := Some 2\<rparr>]\<rparr>)
       15971525489660198786 [])) = []"
proof -
  let ?s = "(ex_snapshot ex_withdraw_store 4949039107694359620 4949039107694359620)
          \<lparr>sn_Children := [4949039107694359620 \<mapsto> ex_child_state\<lparr>cs_LastHandledEpochNonce := Some 2\<rparr>]\<rparr>"
  have "ready ex_env ex_config (ex_snapshot ex_withdraw_store 4949039107694359620 4949039107694359620) ex_parent"
    by (rule ex_snapshot_valid) simp
  then have rd: "ready ex_env ex_config ?s ex_parent"
    by (simp add: ready_def valid_snapshot_def) (simp add: valid_child_def ex_child_state_def)
  have h: "cs_LastHandledEpochNonce (child_of ?s (st_ChainSelector (rb_ActiveStrategy (ps_Rebalance (sn_Parent ?s))))) = Some 2"
    by (simp add: child_of_def ex_snapshot_defs)
  show ?thesis
    using epoch_withdraw_replay_ignored [OF rd ex_codecs ex_decoders(1) h _ prod.collapse [symmetric], where tr = "[]"] by simp
qed

text \<open>
  C18: The deposit handler follows the contract exactly. On a valid snapshot that shows the contract's
  storage, it submits \<open>completeEpochDeposit\<close> with the event's nonce and amount when the strategy is remote,
  the event comes from the active child, and the contract would accept the completion; otherwise it
  submits nothing.
\<close>

theorem epoch_deposit_follows_contract:
  assumes "fullMulDiv_doc fmd" "ready E config s p" "parent_NewCodec E = Ok c" "child_NewCodec E = Ok cc"
    and "DecodeEpochDepositToStrategySuccess E cc lg = Ok \<lparr>ds_EpochNonce = Some n, ds_Amount = Some actual\<rparr>"
    and "observes s st" "wf_store st" "u256 actual"
  shows "if \<not> strategy_is_local s p \<and>
      MatchSource E config lg src (st_ChainSelector (rb_ActiveStrategy (ps_Rebalance (sn_Parent s)))) \<and>
      (\<exists>st'. sol_completeEpochDeposit fmd st n actual = Inr st')
    then OnEpochDepositToStrategySuccess E config lg s src = deposit_report c p s n (Some actual) (SubmitReport E)
    else idle (OnEpochDepositToStrategySuccess E config lg s src)"
  unfolding deposit_due_settles [OF assms(1,6-8), of E config p lg src n, symmetric] OnEpochDepositToStrategySuccess_def
  by (rule epoch_deposit_exact [OF assms(2-5)])

theorem epoch_deposit_follows_contract_witness:
  "OnEpochDepositToStrategySuccess ex_env ex_config (Some (ex_log ex_child ''EpochDepositToStrategySuccess''))
       (ex_snapshot ex_deposit_store 4949039107694359620 4949039107694359620) 4949039107694359620 =
     deposit_report \<lparr>codec_abi = ex_abi\<rparr> ex_parent (ex_snapshot ex_deposit_store 4949039107694359620 4949039107694359620)
       2 (Some 600000) (SubmitReport ex_env)"
proof -
  let ?s = "ex_snapshot ex_deposit_store 4949039107694359620 4949039107694359620"
  let ?lg = "Some (ex_log ex_child ''EpochDepositToStrategySuccess'')"
  have rd: "ready ex_env ex_config ?s ex_parent" by (rule ex_snapshot_valid) simp
  have active: "st_ChainSelector (rb_ActiveStrategy (ps_Rebalance (sn_Parent ?s))) = 4949039107694359620"
    by (simp add: ex_snapshot_defs)
  have src: "MatchSource ex_env ex_config ?lg 4949039107694359620 4949039107694359620"
    using ex_match_source [of ex_child] by simp
  have "\<exists>st'. sol_completeEpochDeposit ex_fmd ex_deposit_store 2 600000 = Inr st'"
    by (simp add: sol_completeEpochDeposit_def sub256_def Let_def ex_store_defs)
  then show ?thesis
    using epoch_deposit_follows_contract [OF ex_library(1) rd ex_codecs ex_decoders(2) ex_observes ex_stores_wf(2),
        of ex_child "''EpochDepositToStrategySuccess''" 4949039107694359620] src
    by (simp add: active strategy_is_local_def)
qed

end
