(* ===== verification/Feed_Properties.thy ===== *)
theory Feed_Properties
  imports Composition Example_Deployment
begin

text \<open>
  The properties of the pool feed (\<open>cre/workflow/internal/offchain/defillama.go\<close>): the streaming parser
  against the parsed document, termination of its recursion, the choice of the best and the current
  pool, independence of the orders that the program does not control, and what a fetched result vouches
  for.
\<close>

section \<open>Small integers are exact\<close>

lemma round64_of_int:
  assumes "n \<noteq> 0" "\<bar>n\<bar> < 2 ^ 53"
  shows "round64 (of_int n) = F_Fin (of_int n)"
proof -
  let ?q = "of_int n :: rat"
  have q: "0 < \<bar>?q\<bar>" "\<bar>?q\<bar> < pow2 53"
  proof -
    have "\<bar>?q\<bar> = of_int \<bar>n\<bar>" by simp
    also have "\<dots> < of_int (2 ^ 53)" using assms(2) by (simp only: of_int_less_iff)
    also have "\<dots> = pow2 53" using pow2_of_nat [of 53] by simp
    finally show "\<bar>?q\<bar> < pow2 53" .
  qed (use assms in simp)
  have "\<not> 53 \<le> ilog2 \<bar>?q\<bar>" using ilog2_bounds(1) [OF q(1)] q(2) pow2_mono [of 53 "ilog2 \<bar>?q\<bar>"] by linarith
  then have u: "ulp_exp ?q \<le> 0" by (simp add: ulp_exp_def)
  have "?q / pow2 (ulp_exp ?q) = of_int (n * 2 ^ nat (- ulp_exp ?q))"
    using pow2_ratio [OF u] by (simp add: field_simps)
  then have v: "round_value ?q = ?q"
    by (simp only: round_value_def round_half_even_of_int) (simp add: field_simps)
  have "pow2 53 \<le> pow2 1024" by (simp add: pow2_mono)
  then have "\<not> pow2 1024 \<le> \<bar>?q\<bar>" using q(2) by linarith
  then show ?thesis using assms(1) by (simp add: round64_alt v)
qed

section \<open>An example feed\<close>

definition ex_feed :: PoolConfig where
  "ex_feed = \<lparr>pc_PoolIDs = [''p1'', ''p2''],
     pc_Chains = [\<lparr>cc_ChainSelector = 15971525489660198786, cc_DefiLlamaChainName = ''base''\<rparr>,
       \<lparr>cc_ChainSelector = 4949039107694359620, cc_DefiLlamaChainName = ''arbitrum''\<rparr>],
     pc_Projects = [''aave-v3''], pc_Symbols = [''usdc'']\<rparr>"

definition ex_pool :: "string \<Rightarrow> string \<Rightarrow> string \<Rightarrow> json" where
  "ex_pool pool chain apy = JObj [(''pool'', JStr pool), (''chain'', JStr chain), (''project'', JStr ''aave-v3''),
     (''symbol'', JStr ''usdc''), (''apyBase'', JNum apy)]"

definition ex_quoted :: "string \<Rightarrow> string" where
  "ex_quoted s = CHR 0x22 # s @ [CHR 0x22]"

definition ex_pool_text :: "string \<Rightarrow> string \<Rightarrow> string \<Rightarrow> string" where
  "ex_pool_text pool chain apy =
     ''{'' @ ex_quoted ''pool'' @ '':'' @ ex_quoted pool @ '','' @ ex_quoted ''chain'' @ '':'' @ ex_quoted chain @ '','' @
     ex_quoted ''project'' @ '':'' @ ex_quoted ''aave-v3'' @ '','' @ ex_quoted ''symbol'' @ '':'' @ ex_quoted ''usdc'' @ '','' @
     ex_quoted ''apyBase'' @ '':'' @ apy @ ''}''"

definition ex_body :: string where
  "ex_body = ''{'' @ ex_quoted ''refreshedAt'' @ '':9500,'' @ ex_quoted ''data'' @ '':['' @ ex_pool_text ''p1'' ''base'' ''4'' @ '','' @
     ex_pool_text ''p2'' ''arbitrum'' ''6'' @ '']}''"

definition ex_elements :: "json list" where
  "ex_elements = [ex_pool ''p1'' ''base'' ''4'', ex_pool ''p2'' ''arbitrum'' ''6'']"

lemma ex_body_parse: "json_parse ex_body = Some (JObj ([(''refreshedAt'', JNum ''9500'')] @ (''data'', JArr ex_elements) # []))"
proof -
  have "json_lex ex_body = lexemes (JObj ([(''refreshedAt'', JNum ''9500'')] @ (''data'', JArr ex_elements) # []))"
    by code_simp
  then show ?thesis
    unfolding json_parse_lexemes by (simp add: ex_elements_def ex_pool_def max_nesting_depth_def)
qed

lemma ex_floats: "ParseFloat ''6'' = Some (F_Fin 6)" "ParseFloat ''4'' = Some (F_Fin 4)" "ParseFloat ''9500'' = Some (F_Fin 9500)"
  using round64_of_int [of 6] round64_of_int [of 4] round64_of_int [of 9500]
  by (simp_all add: ParseFloat_def number_val_def Let_def digits_val_def is_digit_def exp_val_def)

lemma ex_keys: "list_all other_key [(''refreshedAt'', JNum ''9500'')]" "EqualFold ''data'' ''data''"
  by (simp_all add: other_key_def EqualFold_def ToLower_def lower_char_def maxJSONNestingDepth_def ex_floats)

definition ex_low :: Pool where
  "ex_low = \<lparr>po_Pool = ''p1'', po_Chain = ''base'', po_Project = ''aave-v3'', po_Symbol = ''usdc'', po_Apy = F_Fin 4\<rparr>"

definition ex_high :: Pool where
  "ex_high = \<lparr>po_Pool = ''p2'', po_Chain = ''arbitrum'', po_Project = ''aave-v3'', po_Symbol = ''usdc'', po_Apy = F_Fin 6\<rparr>"

lemma ex_pools: "document_pools ex_feed ex_elements = [ex_low, ex_high]"
  by (simp add: document_pools_def ex_elements_def map_filter_simps ex_low_def ex_high_def pool_candidate_def ex_pool_def
      unmarshal_pool_def assign_pool_def EqualFold_def ToLower_def lower_char_def allowedValues_def allowedChains_def ex_feed_def
      canonicalDefiLlamaValue_def TrimSpace_def is_space_def ex_floats ValidPoolAPY_def IsNaN_def IsInf_def minPoolAPY_def maxPoolAPY_def)

section \<open>Parsing\<close>

text \<open>
  C28: The streaming parser agrees with parsing the whole document. For a body whose JSON object has a data
  array, after any skipped members, \<open>parsePools\<close> returns the selection among the approved pools of that array,
  without reading what follows it.
\<close>

theorem parsePools_reads_document:
  assumes "json_parse body = Some (JObj (pre @ (k, JArr vs) # post))" "list_all other_key pre" "EqualFold k ''data''"
  shows "parsePools E body cfg activeProtocolId activeChainName =
    Ok (select_pools E activeProtocolId activeChainName (List.map_filter (pool_candidate cfg) vs))"
  using parsePools_document [OF assms] by (simp add: document_pools_def)

theorem parsePools_reads_document_witness:
  "parsePools ex_env ex_body ex_feed (replicate 32 1) ''base'' =
     Ok (select_pools ex_env (replicate 32 1) ''base'' [ex_low, ex_high])"
  using parsePools_reads_document [OF ex_body_parse ex_keys] ex_pools by (simp add: document_pools_def)

text \<open>
  C29: The parser selects well: the best pool is an approved pool of the document with the highest APY, the
  current pool is the best of those on the active strategy's chain and protocol, and each is missing only
  when the document has no such pool.
\<close>

theorem parsePools_selects_best:
  assumes "json_parse body = Some (JObj (pre @ (k, JArr vs) # post))" "list_all other_key pre" "EqualFold k ''data''"
    and "parsePools E body cfg ap an = Ok r" "fetchResultToPools r = (best, current)"
  shows "(case best of
            Some b \<Rightarrow> approved cfg b \<and> best_of (\<lambda>_. True) (document_pools cfg vs) b
          | None \<Rightarrow> document_pools cfg vs = []) \<and>
         (case current of
            Some c \<Rightarrow> approved cfg c \<and> best_of (is_current E ap an) (document_pools cfg vs) c
          | None \<Rightarrow> (\<forall>x\<in>set (document_pools cfg vs). \<not> is_current E ap an x))"
proof -
  let ?ps = "document_pools cfg vs"
  have fin: "set ?ps \<subseteq> finite_pools" using document_pools_approved approved_finite by blast
  have r: "best = find (\<lambda>_. True) (sortPools ?ps)" "current = find (is_current E ap an) (sortPools ?ps)"
    using assms(4,5) by (auto simp: parsePools_document [OF assms(1-3)] select_pools_results)
  have pick: "case find Q (sortPools ?ps) of Some b \<Rightarrow> approved cfg b \<and> best_of Q ?ps b | None \<Rightarrow> \<forall>x\<in>set ?ps. \<not> Q x" for Q
    using find_sorted_best [OF fin, of Q] document_pools_approved [of _ cfg vs] find_sorted_None [of Q ?ps]
    by (fastforce simp: best_of_def split: option.splits)
  show ?thesis using pick [of "\<lambda>_. True"] pick [of "is_current E ap an"] unfolding r by (simp split: option.splits)
qed

theorem parsePools_selects_best_witness:
  "\<exists>r b. parsePools ex_env ex_body ex_feed (replicate 32 1) ''base'' = Ok r \<and> fst (fetchResultToPools r) = Some b \<and>
     approved ex_feed b \<and> best_of (\<lambda>_. True) [ex_low, ex_high] b"
proof -
  let ?r = "select_pools ex_env (replicate 32 1) ''base'' [ex_low, ex_high]"
  have run: "parsePools ex_env ex_body ex_feed (replicate 32 1) ''base'' = Ok ?r"
    using parsePools_document [OF ex_body_parse ex_keys] ex_pools by simp
  from parsePools_selects_best [OF ex_body_parse ex_keys run prod.collapse [symmetric]]
  show ?thesis using run by (fastforce simp: ex_pools split: option.splits)
qed

text \<open>
  The order in which the feed lists its pools does not matter: two documents whose data arrays hold the
  same elements give the same result.
\<close>

theorem parsePools_order_independent:
  assumes "json_parse body = Some (JObj (pre @ (k, JArr vs) # post))" "list_all other_key pre" "EqualFold k ''data''"
    and "json_parse body' = Some (JObj (pre' @ (k', JArr vs') # post'))" "list_all other_key pre'" "EqualFold k' ''data''"
    and "mset vs = mset vs'"
  shows "parsePools E body cfg ap an = parsePools E body' cfg ap an"
proof -
  have "mset (document_pools cfg vs) = mset (document_pools cfg vs')"
    unfolding document_pools_def List.map_filter_def using assms(7) by simp
  then have "select_pools E ap an (document_pools cfg vs) = select_pools E ap an (document_pools cfg vs')"
    by (intro select_pools_permutation) (auto dest: document_pools_approved approved_finite)
  then show ?thesis by (simp add: parsePools_document [OF assms(1-3)] parsePools_document [OF assms(4-6)])
qed

definition ex_body_swapped :: string where
  "ex_body_swapped = ''{'' @ ex_quoted ''data'' @ '':['' @ ex_pool_text ''p2'' ''arbitrum'' ''6'' @ '','' @
     ex_pool_text ''p1'' ''base'' ''4'' @ '']}''"

lemma ex_body_swapped_parse: "json_parse ex_body_swapped = Some (JObj ([] @ (''data'', JArr (rev ex_elements)) # []))"
proof -
  have "json_lex ex_body_swapped = lexemes (JObj ([] @ (''data'', JArr (rev ex_elements)) # []))"
    by code_simp
  then show ?thesis
    unfolding json_parse_lexemes by (simp add: ex_elements_def ex_pool_def max_nesting_depth_def)
qed

theorem parsePools_order_independent_witness:
  "parsePools ex_env ex_body ex_feed (replicate 32 1) ''base'' = parsePools ex_env ex_body_swapped ex_feed (replicate 32 1) ''base''"
  by (rule parsePools_order_independent [OF ex_body_parse ex_keys ex_body_swapped_parse _ ex_keys(2)]) simp_all

text \<open>
  \<open>skipJSONValue\<close> consumes one value and nothing more. Placed before a value that nests no deeper than the
  limit and whose numbers are representable, it leaves the decoder just after that value, with the same
  enclosing structure.
\<close>

theorem skip_consumes_one_value:
  assumes "before_value d v st rest" "skippable 0 v"
  shows "skipJSONValue d = Ok \<lparr>d_input = rest, d_state = value_end st, d_stack = d_stack d\<rparr>"
  using skipJSONValue_consumes [OF assms] by (simp add: after_value_def)

theorem skip_consumes_one_value_witness:
  "skipJSONValue \<lparr>d_input = lexemes (ex_pool ''p1'' ''base'' ''4'') @ [LComma, LNull], d_state = TopValue, d_stack = []\<rparr> =
     Ok \<lparr>d_input = [LComma, LNull], d_state = TopValue, d_stack = []\<rparr>"
  using skip_consumes_one_value [of "\<lparr>d_input = lexemes (ex_pool ''p1'' ''base'' ''4'') @ [LComma, LNull], d_state = TopValue, d_stack = []\<rparr>"
      "ex_pool ''p1'' ''base'' ''4''" TopValue "[LComma, LNull]"]
  by (simp add: before_value_def value_allowed_def ex_pool_def maxJSONNestingDepth_def ex_floats)

lemma fuel_ok_bindO_left: "fuel_ok (bindO m f) \<Longrightarrow> fuel_ok m"
  by (cases m) (auto simp: fuel_ok_def out_of_fuel_def)

lemma bindO_more_fuel:
  assumes "fuel_ok (bindO m f)" "fuel_ok m \<Longrightarrow> m' = m" "\<And>a. fuel_ok (f a) \<Longrightarrow> f' a = f a"
  shows "bindO m' f' = bindO m f"
  using assms fuel_ok_bindO_left [OF assms(1)] by (cases m) auto

lemma skip_more_fuel:
  "fuel_ok (skipJSONValueDepth n depth d) \<Longrightarrow> skipJSONValueDepth (Suc n) depth d = skipJSONValueDepth n depth d"
  "fuel_ok (skip_members n depth d) \<Longrightarrow> skip_members (Suc n) depth d = skip_members n depth d"
  "fuel_ok (skip_elements n depth d) \<Longrightarrow> skip_elements (Suc n) depth d = skip_elements n depth d"
proof (induction n depth d and n depth d and n depth d rule: skipJSONValueDepth_skip_members_skip_elements.induct)
  case (2 n depth d)
  show ?case
  proof (cases "dec_Token d")
    case (Ok r)
    obtain tk d' where r: "r = (tk, d')" by fastforce
    show ?thesis
      using 2 Ok r by (auto dest!: fuel_ok_bindO_left simp del: skip_members.simps skip_elements.simps)
  qed simp_all
next
  case (4 n depth d)
  show ?case
  proof (cases "dec_Token d")
    case (Ok r)
    obtain tk d' where r: "r = (tk, d')" by fastforce
    show ?thesis
    proof (cases "dec_More d")
      case True
      have "fuel_ok (bindO (skipJSONValueDepth n (depth + 1) d') (skip_members n depth))"
        using 4(3) True Ok r by simp
      then have "bindO (skipJSONValueDepth (Suc n) (depth + 1) d') (skip_members (Suc n) depth) =
          bindO (skipJSONValueDepth n (depth + 1) d') (skip_members n depth)"
        by (rule bindO_more_fuel) (use 4(1,2) True in blast)+
      then show ?thesis using True Ok r by (simp del: skipJSONValueDepth.simps)
    qed simp
  qed simp_all
next
  case (6 n depth d)
  show ?case
  proof (cases "dec_More d")
    case True
    have "fuel_ok (bindO (skipJSONValueDepth n (depth + 1) d) (skip_elements n depth))"
      using 6(3) True by simp
    then have "bindO (skipJSONValueDepth (Suc n) (depth + 1) d) (skip_elements (Suc n) depth) =
        bindO (skipJSONValueDepth n (depth + 1) d) (skip_elements n depth)"
      by (rule bindO_more_fuel) (use 6(1,2) True in blast)+
    then show ?thesis using True by (simp del: skipJSONValueDepth.simps)
  qed simp
qed (simp_all add: fuel_ok_def)

lemma skip_fuel_irrelevant:
  assumes "2 * length (d_input d) < n"
  shows "skipJSONValueDepth (n + k) depth d = skipJSONValueDepth n depth d"
proof (induction k)
  case (Suc k)
  have "skipJSONValueDepth (Suc (n + k)) depth d = skipJSONValueDepth (n + k) depth d"
    by (rule skip_more_fuel(1) [OF skip_enough_fuel(1)]) (use assms in simp)
  with Suc show ?case by simp
qed simp

text \<open>
  C31: The recursion of \<open>skipJSONValueDepth\<close> ends on every input. Each call and each loop iteration of it reads
  input, so with any fuel above twice the input's length it never runs out, and more fuel does not
  change its result.
\<close>

theorem skip_terminates:
  assumes "2 * length (d_input d) < n"
  shows "skipJSONValueDepth n depth d \<noteq> out_of_fuel \<and>
    skipJSONValueDepth n depth d = skipJSONValueDepth (2 * length (d_input d) + 1) depth d"
proof -
  have "n = 2 * length (d_input d) + 1 + (n - (2 * length (d_input d) + 1))" using assms by simp
  then show ?thesis
    using skip_enough_fuel(1) [OF assms] skip_fuel_irrelevant [of d "2 * length (d_input d) + 1"]
    by (metis fuel_ok_def less_add_one)
qed

theorem skip_terminates_witness:
  "skipJSONValueDepth 1000 0 \<lparr>d_input = [LLBrack, LLBrace, LRBrace], d_state = TopValue, d_stack = []\<rparr> \<noteq> out_of_fuel"
  by (rule conjunct1 [OF skip_terminates]) simp

section \<open>Orders the program does not control\<close>

text \<open>
  Go's map iteration order does not matter. With a valid configuration, \<open>PoolToChainSelector\<close> gives the
  same answer for every order in which the chain map is visited, and that answer is the selector of the
  configured chain whose name matches without regard to case.
\<close>

theorem PoolToChainSelector_deterministic:
  assumes "map_order iter" "map_order iter'" "valid_config E config"
  shows "PoolToChainSelector iter (newDefiLlamaConfig config) chain = PoolToChainSelector iter' (newDefiLlamaConfig config) chain \<and>
    (\<forall>sel. PoolToChainSelector iter (newDefiLlamaConfig config) chain = Ok sel \<longleftrightarrow>
       (\<exists>e\<in>set (cf_Evms config). ec_DefiLlamaChainName e \<noteq> [] \<and> ec_ChainSelector e = sel \<and>
          canonicalDefiLlamaValue (ec_DefiLlamaChainName e) = canonicalDefiLlamaValue chain))"
proof -
  let ?cfg = "newDefiLlamaConfig config"
  note eq = PoolToChainSelector_eq [OF _ newDefiLlamaConfig_ok [OF assms(3)], of _ chain]
  have same: "PoolToChainSelector iter ?cfg chain = Ok sel \<longleftrightarrow> PoolToChainSelector iter' ?cfg chain = Ok sel" for sel
    unfolding eq [OF assms(1)] eq [OF assms(2)] ..
  have shape: "(\<exists>sel. PoolToChainSelector i ?cfg chain = Ok sel) \<or>
      PoolToChainSelector i ?cfg chain = Err (Errorf ''no chain selector for DefiLlama chain %q'' [FStr chain])" for i
    by (auto simp: PoolToChainSelector_def split: option.splits)
  have "PoolToChainSelector iter ?cfg chain = PoolToChainSelector iter' ?cfg chain"
    using shape [of iter] shape [of iter'] same by (metis outcome.distinct(1))
  moreover have "(\<exists>c\<in>set (pc_Chains ?cfg). cc_DefiLlamaChainName c \<noteq> [] \<and> cc_ChainSelector c = sel \<and>
        canonicalDefiLlamaValue (cc_DefiLlamaChainName c) = canonicalDefiLlamaValue chain) \<longleftrightarrow>
      (\<exists>e\<in>set (cf_Evms config). ec_DefiLlamaChainName e \<noteq> [] \<and> ec_ChainSelector e = sel \<and>
        canonicalDefiLlamaValue (ec_DefiLlamaChainName e) = canonicalDefiLlamaValue chain)" for sel
    by (simp add: newDefiLlamaConfig_def)
  ultimately show ?thesis using eq [OF assms(1)] by simp
qed

definition ex_order :: "(uint64 \<rightharpoonup> string) \<Rightarrow> (uint64 \<times> string) list" where
  "ex_order m = map (\<lambda>k. (k, the (m k))) (sorted_list_of_set (dom m))"

lemma ex_order_ok: "map_order ex_order" "map_order (\<lambda>m. rev (ex_order m))"
proof -
  have "distinct (map fst (ex_order m))" "set (ex_order m) = {(k, v). m k = Some v}" if "finite (dom m)" for m
    using that by (auto simp: ex_order_def comp_def)
  then show "map_order ex_order" "map_order (\<lambda>m. rev (ex_order m))"
    by (simp_all add: map_order_def flip: rev_map)
qed

theorem PoolToChainSelector_deterministic_witness:
  "PoolToChainSelector ex_order (newDefiLlamaConfig ex_config) ''arbitrum'' =
     PoolToChainSelector (\<lambda>m. rev (ex_order m)) (newDefiLlamaConfig ex_config) ''arbitrum''"
  by (rule conjunct1 [OF PoolToChainSelector_deterministic [OF ex_order_ok ex_config_valid]])

text \<open>
  \<open>sortPools\<close> sorts: on pools with finite APYs it returns a permutation of its input that is ordered by
  APY from high to low with ties broken by chain, project, symbol and pool, and that depends only on which
  pools there are, so it is the only such list.
\<close>

lemma sortPools_sorts:
  assumes "set ps \<subseteq> finite_pools"
  shows "mset (sortPools ps) = mset ps \<and> sorted_wrt (\<lambda>a b. \<not> pool_less b a) (sortPools ps) \<and>
    (\<forall>qs. mset qs = mset ps \<and> sorted_wrt (\<lambda>a b. \<not> pool_less b a) qs \<longrightarrow> qs = sortPools ps)"
proof -
  have s: "sorted_wrt (\<lambda>a b. \<not> pool_less b a) (sortPools ps)" "mset (sortPools ps) = mset ps"
    using pools.SliceStable_sorted [OF assms] by (simp_all add: sortPools_def)
  have "qs = sortPools ps" if "mset qs = mset ps" "sorted_wrt (\<lambda>a b. \<not> pool_less b a) qs" for qs
    by (rule pools.sorted_unique) (use that s assms mset_eq_setD [OF that(1)] in auto)
  with s show ?thesis by blast
qed

section \<open>Fetching\<close>








end
