(* ===== verification/Rebalance_Properties.thy ===== *)
theory Rebalance_Properties
  imports Feed_Properties
begin

text \<open>
  The properties of the rebalance component (\<open>cre/workflow/internal/rebalance\<close>): a rebalance is started
  only towards an approved pool that beats the current one, the threshold is the one of the rounded
  difference, and the two event handlers act exactly when their conditions hold.
\<close>

section \<open>The decision\<close>



















text \<open>
  C22: The policy compares the rounded difference of two valid APYs with one. It asks for a rebalance exactly
  when both APYs lie between 0 and 1000 and their exact difference is at least one minus two to the
  minus 54: closer than that, the floating-point difference rounds up to the threshold.
\<close>

theorem NeedRebalance_exact:
  "NeedRebalance (Some optimal) (Some current) \<longleftrightarrow>
     (\<exists>q r. po_Apy optimal = F_Fin q \<and> po_Apy current = F_Fin r \<and> 0 \<le> q \<and> q \<le> 1000 \<and> 0 \<le> r \<and> r \<le> 1000 \<and>
        1 - 1 / 2 ^ 54 \<le> q - r)"
  by (rule NeedRebalance_iff)

section \<open>The event handlers\<close>

text \<open>
  The executor submits \<open>executeRebalance\<close> with the event's nonce and destination to the child that holds the
  funds exactly when the event comes from the parent vault, names the current rebalance and its pending
  strategy, the funds are remote, the child has not handled the nonce and the destination chain is
  configured. In every other case it submits nothing.
\<close>

theorem rebalance_execute_exact:
  assumes "ready E config s p" "parent_NewCodec E = Ok c" "child_NewCodec E = Ok cc"
    and "DecodeRebalanceInitiated E c lg = Ok \<lparr>ri_RebalanceNonce = Some n, ri_ProtocolId = st_ProtocolId dest,
      ri_ChainSelector = st_ChainSelector dest\<rparr>"
  shows "if \<exists>t. execute_due E config p s lg src n dest t
    then \<exists>t. execute_due E config p s lg src n dest t \<and>
      OnRebalanceInitiated E config lg s src = execute_report cc t s n dest (SubmitReport E)
    else idle (OnRebalanceInitiated E config lg s src)"
  unfolding OnRebalanceInitiated_def by (rule rebalance_initiated_exact [OF assms])

theorem rebalance_execute_exact_witness:
  "OnRebalanceInitiated ex_env ex_config (Some (ex_log ex_parent ''RebalanceInitiated''))
       (ex_snapshot ex_rebalance_store 4949039107694359620 15971525489660198786) 15971525489660198786 =
     execute_report \<lparr>codec_abi = ex_abi\<rparr> ex_child (ex_snapshot ex_rebalance_store 4949039107694359620 15971525489660198786)
       4 (ex_strategy 15971525489660198786) (SubmitReport ex_env)"
proof -
  let ?s = "ex_snapshot ex_rebalance_store 4949039107694359620 15971525489660198786"
  let ?lg = "Some (ex_log ex_parent ''RebalanceInitiated'')" and ?dest = "ex_strategy 15971525489660198786"
  have rd: "ready ex_env ex_config ?s ex_parent" by (rule ex_snapshot_valid) simp
  have src: "MatchSource ex_env ex_config ?lg 15971525489660198786 15971525489660198786"
    using ex_match_source [of ex_parent] by simp
  have due: "execute_due ex_env ex_config ex_parent ?s ?lg 15971525489660198786 4 ?dest t \<longleftrightarrow> t = ex_child" for t
    using src by (auto simp: execute_due_def Let_def ex_snapshot_defs ex_store_defs child_of_def)
  have evt: "DecodeRebalanceInitiated ex_env \<lparr>codec_abi = ex_abi\<rparr> ?lg =
      Ok \<lparr>ri_RebalanceNonce = Some 4, ri_ProtocolId = st_ProtocolId ?dest, ri_ChainSelector = st_ChainSelector ?dest\<rparr>"
    by (simp add: ex_decoders ex_strategy_def)
  show ?thesis
    using rebalance_execute_exact [OF rd ex_codecs evt, of 15971525489660198786] by (simp add: due)
qed

text \<open>
  A rebalance event is executed at most once. When the child that holds the funds has handled the
  event's nonce or a later one, a redelivered event causes no write.
\<close>

theorem rebalance_replay_ignored:
  assumes "ready E config s p" "parent_NewCodec E = Ok c" "child_NewCodec E = Ok cc"
    and "DecodeRebalanceInitiated E c lg = Ok \<lparr>ri_RebalanceNonce = Some n, ri_ProtocolId = pid, ri_ChainSelector = chain\<rparr>"
    and "cs_LastHandledRebalanceNonce (child_of s (st_ChainSelector (rb_ActiveStrategy (ps_Rebalance (sn_Parent s))))) = Some h" "n \<le> h"
    and "OnRebalanceInitiated E config lg s src tr = (r, tr')"
  shows "writes tr' = writes tr"
proof -
  let ?dest = "\<lparr>st_ProtocolId = pid, st_ChainSelector = chain\<rparr>"
  have "\<not> (\<exists>t. execute_due E config p s lg src n ?dest t)"
    using assms(5,6) by (auto simp: execute_due_def Let_def)
  with rebalance_initiated_exact [OF assms(1-3), of lg n ?dest src "SubmitReport E"] assms(4)
  have "idle (OnRebalanceInitiated E config lg s src)" by (simp add: OnRebalanceInitiated_def)
  from spec_ioD [OF idle_spec [OF this] assms(7)] show ?thesis by auto
qed

theorem rebalance_replay_ignored_witness:
  "writes (snd (OnRebalanceInitiated ex_env ex_config (Some (ex_log ex_parent ''RebalanceInitiated''))
       ((ex_snapshot ex_rebalance_store 4949039107694359620 15971525489660198786)
          \<lparr>sn_Children := [4949039107694359620 \<mapsto> ex_child_state\<lparr>cs_LastHandledRebalanceNonce := Some 4\<rparr>]\<rparr>)
       15971525489660198786 [])) = []"
proof -
  let ?s = "(ex_snapshot ex_rebalance_store 4949039107694359620 15971525489660198786)
          \<lparr>sn_Children := [4949039107694359620 \<mapsto> ex_child_state\<lparr>cs_LastHandledRebalanceNonce := Some 4\<rparr>]\<rparr>"
  have "ready ex_env ex_config (ex_snapshot ex_rebalance_store 4949039107694359620 15971525489660198786) ex_parent"
    by (rule ex_snapshot_valid) simp
  then have rd: "ready ex_env ex_config ?s ex_parent"
    by (simp add: ready_def valid_snapshot_def) (simp add: valid_child_def ex_child_state_def)
  have h: "cs_LastHandledRebalanceNonce (child_of ?s (st_ChainSelector (rb_ActiveStrategy (ps_Rebalance (sn_Parent ?s))))) = Some 4"
    by (simp add: child_of_def ex_snapshot_defs)
  show ?thesis
    using rebalance_replay_ignored [OF rd ex_codecs ex_decoders(3) h _ prod.collapse [symmetric], where tr = "[]"] by simp
qed

text \<open>
  C21: The completer submits \<open>completeRebalance\<close> with the event's nonce to the parent exactly when a rebalance
  with that nonce runs, its destination is a child, and the event comes from that child's vault. In every
  other case it submits nothing.
\<close>

theorem rebalance_complete_exact:
  assumes "ready E config s p" "parent_NewCodec E = Ok c"
    and "DecodeRebalanceDepositSuccess E c lg = Ok \<lparr>rd_RebalanceNonce = Some n, rd_Amount = amount\<rparr>"
  shows "if complete_due E config p s lg src n
    then OnRebalanceDepositSuccess E config lg s src = complete_report c p s n (SubmitReport E)
    else idle (OnRebalanceDepositSuccess E config lg s src)"
  unfolding OnRebalanceDepositSuccess_def by (rule rebalance_deposit_exact [OF assms])

theorem rebalance_complete_exact_witness:
  "OnRebalanceDepositSuccess ex_env ex_config (Some (ex_log ex_child ''RebalanceDepositSuccess''))
       (ex_snapshot ex_rebalance_store 15971525489660198786 4949039107694359620) 4949039107694359620 =
     complete_report \<lparr>codec_abi = ex_abi\<rparr> ex_parent (ex_snapshot ex_rebalance_store 15971525489660198786 4949039107694359620)
       4 (SubmitReport ex_env)"
proof -
  let ?s = "ex_snapshot ex_rebalance_store 15971525489660198786 4949039107694359620"
  let ?lg = "Some (ex_log ex_child ''RebalanceDepositSuccess'')"
  have rd: "ready ex_env ex_config ?s ex_parent" by (rule ex_snapshot_valid) simp
  have src: "MatchSource ex_env ex_config ?lg 4949039107694359620 4949039107694359620"
    using ex_match_source [of ex_child] by simp
  have "complete_due ex_env ex_config ex_parent ?s ?lg 4949039107694359620 4"
    using src by (simp add: complete_due_def Let_def ex_snapshot_defs ex_store_defs)
  then show ?thesis
    using rebalance_complete_exact [OF rd ex_codecs(1) ex_decoders(4), of ex_child "''RebalanceDepositSuccess''" 4949039107694359620]
    by simp
qed

end
