(* ===== verification/Vault_Codec.thy ===== *)
theory Vault_Codec
  imports Vault_Bindings
begin

text \<open>
  The JSON hop of the generated output decoders loses nothing. A decoder unpacks the ABI reply into the ABI
  library's own struct type, marshals that to JSON and unmarshals the text into the declared Go struct; the
  lemmas show that every value of the two operational states survives the way there and back.
\<close>

section \<open>Decimal numbers\<close>

lemma of_char_digit: "d < 10 \<Longrightarrow> (of_char (digit_char d) :: nat) = 48 + d"
  by (simp add: digit_char_def)

lemma is_digit_digit: "d < 10 \<Longrightarrow> is_digit (digit_char d)"
  by (simp add: is_digit_def of_char_digit)

lemma digits_val_snoc: "digits_val (s @ [c]) = digits_val s * 10 + ((of_char c :: nat) - 48)"
  by (simp add: digits_val_def)

lemma show_nat_digits: "list_all is_digit (show_nat n) \<and> show_nat n \<noteq> [] \<and> digits_val (show_nat n) = n"
proof (induction n rule: show_nat.induct)
  case (1 n)
  show ?case
  proof (cases "n < 10")
    case True
    then show ?thesis by (subst (1 2 3) show_nat.simps) (simp add: is_digit_digit of_char_digit digits_val_def)
  next
    case False
    have "n div 10 * 10 + n mod 10 = n" by simp
    then show ?thesis using 1 [OF False] False
      by (subst (1 2 3) show_nat.simps) (simp add: is_digit_digit of_char_digit digits_val_snoc)
  qed
qed

lemma parse_show_nat: "parse_int (show_nat n) = Some (int n)"
proof -
  have d: "list_all is_digit (show_nat n)" "show_nat n \<noteq> []" "digits_val (show_nat n) = n"
    using show_nat_digits [of n] by simp_all
  then obtain c cs where c: "show_nat n = c # cs" "is_digit c" by (cases "show_nat n") auto
  then have "c \<noteq> CHR ''-''" by (auto simp: is_digit_def)
  then show ?thesis using d c(1) by (simp add: parse_int_def)
qed

lemma parse_show_int: "parse_int (show_int i) = Some i"
proof (cases "i < 0")
  case True
  then show ?thesis using show_nat_digits [of "nat (- i)"] by (simp add: show_int_def parse_int_def)
next
  case False
  then show ?thesis by (simp add: show_int_def parse_show_nat)
qed

lemma unmarshal_uint_show: "n < 2 ^ bits \<Longrightarrow> unmarshal_uint bits (show_nat n) = Ok n"
  by (simp add: unmarshal_uint_def parse_show_nat flip: of_nat_power)

section \<open>Values\<close>

lemma unmarshal_byte_marshal: "unmarshal_byte (json_of_nat (unat (b :: byte))) = Ok b"
proof -
  have "unat b < 2 ^ 8" using unsigned_less [of b] by simp
  then show ?thesis by (simp add: json_of_nat_def unmarshal_uint_show)
qed

lemma sequenceO_Ok: "(\<And>x. x \<in> set xs \<Longrightarrow> f x = Ok (g x)) \<Longrightarrow> sequenceO (map f xs) = Ok (map g xs)"
  by (induction xs) auto

lemma unmarshal_marshal_simps [simp]:
  "unmarshal E TBig (marshal E (GBig p)) = Ok (GBig p)"
  "unmarshal E TU8 (marshal E (GU8 w)) = Ok (GU8 w)"
  "unmarshal E TU64 (marshal E (GU64 v)) = Ok (GU64 v)"
  "unmarshal E TBool (marshal E (GBool b)) = Ok (GBool b)"
  "length bs = n \<Longrightarrow> unmarshal E (TFix n) (marshal E (GFix bs)) = Ok (GFix bs)"
proof -
  have "unat w < 2 ^ 8" "unat v < 2 ^ 64" using unsigned_less [of w] unsigned_less [of v] by simp_all
  then show "unmarshal E TU8 (marshal E (GU8 w)) = Ok (GU8 w)" "unmarshal E TU64 (marshal E (GU64 v)) = Ok (GU64 v)"
    by (simp_all add: json_of_nat_def unmarshal_uint_show)
  show "unmarshal E TBig (marshal E (GBig p)) = Ok (GBig p)" by (cases p) (simp_all add: parse_show_int)
  show "unmarshal E TBool (marshal E (GBool b)) = Ok (GBool b)" by simp
  have "sequenceO (map (unmarshal_byte \<circ> (\<lambda>b. json_of_nat (unat b))) bs) = Ok (map (\<lambda>b. b) bs)"
    by (rule sequenceO_Ok) (simp add: unmarshal_byte_marshal)
  then show "length bs = n \<Longrightarrow> unmarshal E (TFix n) (marshal E (GFix bs)) = Ok (GFix bs)" by simp
qed

text \<open>Members are found by their name without regard to case.\<close>

lemma find_member_map_of: "find_member name kvs = map_of (map (\<lambda>kv. (ToLower (fst kv), snd kv)) kvs) (ToLower name)"
  by (induction kvs) (auto simp: EqualFold_def)

text \<open>
  A struct travels field by field: the field \<open>i\<close> of the declared type is found under the ABI's name for it, and
  the ABI's names are distinct without regard to case.
\<close>

lemma unmarshal_struct:
  assumes "map (ToLower \<circ> fst) ws = map (ToLower \<circ> fst) fs" "distinct (map (ToLower \<circ> fst) fs)"
    and "list_all2 (\<lambda>f (w, g). unmarshal E (snd f) (marshal E (snd w)) = Ok g) fs (zip ws gs)" "length gs = length ws"
  shows "unmarshal E (TStruct fs) (marshal E (GStruct ws)) = Ok (GStruct (zip (map fst fs) gs))"
proof -
  have len: "length ws = length fs" using assms(1) map_eq_imp_length_eq by blast
  let ?kvs = "map (\<lambda>f. (fst f, marshal E (snd f))) ws"
  have find: "find_member (fst (fs ! i)) ?kvs = Some (marshal E (snd (ws ! i)))" if "i < length fs" for i
  proof -
    have eq: "ToLower (fst (fs ! i)) = ToLower (fst (ws ! i))"
      using arg_cong [OF assms(1), of "\<lambda>xs. xs ! i"] that len by simp
    have "distinct (map fst (map (\<lambda>kv. (ToLower (fst kv), snd kv)) ?kvs))"
      using assms(2) unfolding assms(1) [symmetric] by (simp add: comp_def)
    moreover have "(ToLower (fst (fs ! i)), marshal E (snd (ws ! i))) \<in> set (map (\<lambda>kv. (ToLower (fst kv), snd kv)) ?kvs)"
      unfolding eq using that len by (force simp: in_set_conv_nth)
    ultimately show ?thesis unfolding find_member_map_of by (rule map_of_is_SomeI)
  qed
  have val: "unmarshal E (snd (fs ! i)) (marshal E (snd (ws ! i))) = Ok (gs ! i)" if "i < length fs" for i
    using assms(3,4) that len by (auto simp: list_all2_conv_all_nth)
  let ?step = "\<lambda>f. bindO (case find_member (fst f) ?kvs of None \<Rightarrow> Ok (zero_value (snd f)) | Some v \<Rightarrow> unmarshal E (snd f) v)
      (\<lambda>g. Ok (fst f, g))"
  have "sequenceO (map ?step fs) = Ok (zip (map fst fs) gs)"
  proof -
    have "map ?step fs = map Ok (zip (map fst fs) gs)"
      by (rule nth_equalityI) (use len assms(4) find val in \<open>simp_all\<close>)
    moreover have "sequenceO (map Ok xs) = Ok xs" for xs :: "(string \<times> gval) list" by (induction xs) auto
    ultimately show ?thesis by simp
  qed
  then show ?thesis by simp
qed

section \<open>The operational states\<close>

text \<open>The unpacked ABI values of the states, under the names the contract's ABI gives their fields.\<close>

definition strategy_value :: "TypesStrategy \<Rightarrow> gval" where
  "strategy_value s = GStruct [(''protocolId'', GFix (st_ProtocolId s)), (''chainSelector'', GU64 (st_ChainSelector s))]"

definition rebalance_value :: "TypesRebalance \<Rightarrow> gval" where
  "rebalance_value r = GStruct [(''nonce'', GBig (rb_Nonce r)), (''state'', GU8 (rb_State r)),
     (''activeStrategy'', strategy_value (rb_ActiveStrategy r)), (''pendingStrategy'', strategy_value (rb_PendingStrategy r)),
     (''lastRebalanceCompletedTimestamp'', GBig (rb_LastRebalanceCompletedTimestamp r))]"

definition epoch_value :: "TypesEpoch \<Rightarrow> gval" where
  "epoch_value e = GStruct [(''totalDepositAmount'', GBig (ep_TotalDepositAmount e)),
     (''totalShareBurnAmount'', GBig (ep_TotalShareBurnAmount e)),
     (''totalWithdrawClaimAmount'', GBig (ep_TotalWithdrawClaimAmount e)),
     (''remainingDepositClaimAmount'', GBig (ep_RemainingDepositClaimAmount e)),
     (''remainingShareMintAmount'', GBig (ep_RemainingShareMintAmount e)),
     (''remainingShareBurnAmount'', GBig (ep_RemainingShareBurnAmount e)),
     (''remainingWithdrawClaimAmount'', GBig (ep_RemainingWithdrawClaimAmount e)),
     (''openedAtTimestamp'', GBig (ep_OpenedAtTimestamp e)), (''status'', GU8 (ep_Status e))]"

definition parent_value :: "TypesParentOperationalState \<Rightarrow> gval" where
  "parent_value s = GStruct [(''paused'', GBool (ps_Paused s)), (''recoveryMode'', GU8 (ps_RecoveryMode s)),
     (''currentEpochNonce'', GBig (ps_CurrentEpochNonce s)), (''currentEpoch'', epoch_value (ps_CurrentEpoch s)),
     (''previousEpoch'', epoch_value (ps_PreviousEpoch s)), (''rebalance'', rebalance_value (ps_Rebalance s)),
     (''totalShares'', GBig (ps_TotalShares s)), (''tvl'', GBig (ps_Tvl s))]"

definition child_value :: "TypesChildOperationalState \<Rightarrow> gval" where
  "child_value s = GStruct [(''paused'', GBool (cs_Paused s)), (''recoveryMode'', GU8 (cs_RecoveryMode s)),
     (''lastHandledEpochNonce'', GBig (cs_LastHandledEpochNonce s)),
     (''lastHandledRebalanceNonce'', GBig (cs_LastHandledRebalanceNonce s)), (''tvl'', GBig (cs_Tvl s))]"

definition wf_strategy :: "TypesStrategy \<Rightarrow> bool" where
  "wf_strategy s \<longleftrightarrow> length (st_ProtocolId s) = 32"

text \<open>The declared fields and the ABI's fields have the same names up to case, and they are distinct.\<close>

definition same_names :: "string list \<Rightarrow> string list \<Rightarrow> bool" where
  "same_names abi go \<longleftrightarrow> map ToLower abi = map ToLower go \<and> distinct (map ToLower go)"

lemma struct_roundtrip:
  assumes "same_names (map fst ws) (map fst fs)" "length gs = length ws"
    and "list_all2 (\<lambda>f (w, g). unmarshal E (snd f) (marshal E (snd w)) = Ok g) fs (zip ws gs)"
  shows "unmarshal E (TStruct fs) (marshal E (GStruct ws)) = Ok (GStruct (zip (map fst fs) gs))"
  using assms by (intro unmarshal_struct) (simp_all add: same_names_def)

lemma lower_letters:
  "map lower_char ''ABCDEFGHIJKLMNOPQRSTUVWXYZ'' = ''abcdefghijklmnopqrstuvwxyz''"
  "map lower_char ''abcdefghijklmnopqrstuvwxyz'' = ''abcdefghijklmnopqrstuvwxyz''"
  by code_simp+

lemma names_ok:
  "same_names [''protocolId'', ''chainSelector''] [''ProtocolId'', ''ChainSelector'']"
  "same_names [''nonce'', ''state'', ''activeStrategy'', ''pendingStrategy'', ''lastRebalanceCompletedTimestamp'']
     [''Nonce'', ''State'', ''ActiveStrategy'', ''PendingStrategy'', ''LastRebalanceCompletedTimestamp'']"
  "same_names [''totalDepositAmount'', ''totalShareBurnAmount'', ''totalWithdrawClaimAmount'', ''remainingDepositClaimAmount'',
       ''remainingShareMintAmount'', ''remainingShareBurnAmount'', ''remainingWithdrawClaimAmount'', ''openedAtTimestamp'', ''status'']
     [''TotalDepositAmount'', ''TotalShareBurnAmount'', ''TotalWithdrawClaimAmount'', ''RemainingDepositClaimAmount'',
       ''RemainingShareMintAmount'', ''RemainingShareBurnAmount'', ''RemainingWithdrawClaimAmount'', ''OpenedAtTimestamp'', ''Status'']"
  "same_names [''paused'', ''recoveryMode'', ''currentEpochNonce'', ''currentEpoch'', ''previousEpoch'', ''rebalance'', ''totalShares'', ''tvl'']
     [''Paused'', ''RecoveryMode'', ''CurrentEpochNonce'', ''CurrentEpoch'', ''PreviousEpoch'', ''Rebalance'', ''TotalShares'', ''Tvl'']"
  "same_names [''paused'', ''recoveryMode'', ''lastHandledEpochNonce'', ''lastHandledRebalanceNonce'', ''tvl'']
     [''Paused'', ''RecoveryMode'', ''LastHandledEpochNonce'', ''LastHandledRebalanceNonce'', ''Tvl'']"
  using lower_letters by (simp_all add: same_names_def ToLower_def)

text \<open>The fields of the declared structs as the decoder finds them after the hop.\<close>

definition strategy_fields :: "TypesStrategy \<Rightarrow> gstruct" where
  "strategy_fields s = zip [''ProtocolId'', ''ChainSelector''] [GFix (st_ProtocolId s), GU64 (st_ChainSelector s)]"

definition rebalance_fields :: "TypesRebalance \<Rightarrow> gstruct" where
  "rebalance_fields r = zip [''Nonce'', ''State'', ''ActiveStrategy'', ''PendingStrategy'', ''LastRebalanceCompletedTimestamp'']
     [GBig (rb_Nonce r), GU8 (rb_State r), GStruct (strategy_fields (rb_ActiveStrategy r)),
      GStruct (strategy_fields (rb_PendingStrategy r)), GBig (rb_LastRebalanceCompletedTimestamp r)]"

definition epoch_fields :: "TypesEpoch \<Rightarrow> gstruct" where
  "epoch_fields e = zip [''TotalDepositAmount'', ''TotalShareBurnAmount'', ''TotalWithdrawClaimAmount'', ''RemainingDepositClaimAmount'',
       ''RemainingShareMintAmount'', ''RemainingShareBurnAmount'', ''RemainingWithdrawClaimAmount'', ''OpenedAtTimestamp'', ''Status'']
     [GBig (ep_TotalDepositAmount e), GBig (ep_TotalShareBurnAmount e), GBig (ep_TotalWithdrawClaimAmount e),
      GBig (ep_RemainingDepositClaimAmount e), GBig (ep_RemainingShareMintAmount e), GBig (ep_RemainingShareBurnAmount e),
      GBig (ep_RemainingWithdrawClaimAmount e), GBig (ep_OpenedAtTimestamp e), GU8 (ep_Status e)]"

definition parent_fields :: "TypesParentOperationalState \<Rightarrow> gstruct" where
  "parent_fields s = zip [''Paused'', ''RecoveryMode'', ''CurrentEpochNonce'', ''CurrentEpoch'', ''PreviousEpoch'', ''Rebalance'',
       ''TotalShares'', ''Tvl'']
     [GBool (ps_Paused s), GU8 (ps_RecoveryMode s), GBig (ps_CurrentEpochNonce s), GStruct (epoch_fields (ps_CurrentEpoch s)),
      GStruct (epoch_fields (ps_PreviousEpoch s)), GStruct (rebalance_fields (ps_Rebalance s)), GBig (ps_TotalShares s),
      GBig (ps_Tvl s)]"

definition child_fields :: "TypesChildOperationalState \<Rightarrow> gstruct" where
  "child_fields s = zip [''Paused'', ''RecoveryMode'', ''LastHandledEpochNonce'', ''LastHandledRebalanceNonce'', ''Tvl'']
     [GBool (cs_Paused s), GU8 (cs_RecoveryMode s), GBig (cs_LastHandledEpochNonce s), GBig (cs_LastHandledRebalanceNonce s),
      GBig (cs_Tvl s)]"

lemma strategy_roundtrip:
  "wf_strategy s \<Longrightarrow> unmarshal E strategy_type (marshal E (strategy_value s)) = Ok (GStruct (strategy_fields s))"
  unfolding strategy_type_def strategy_value_def
  by (subst struct_roundtrip [where gs = "[GFix (st_ProtocolId s), GU64 (st_ChainSelector s)]"])
    (simp_all add: names_ok strategy_fields_def wf_strategy_def del: unmarshal.simps marshal.simps)

lemma rebalance_roundtrip:
  "wf_strategy (rb_ActiveStrategy r) \<Longrightarrow> wf_strategy (rb_PendingStrategy r) \<Longrightarrow>
     unmarshal E rebalance_type (marshal E (rebalance_value r)) = Ok (GStruct (rebalance_fields r))"
  unfolding rebalance_type_def rebalance_value_def
  by (subst struct_roundtrip [where gs = "[GBig (rb_Nonce r), GU8 (rb_State r), GStruct (strategy_fields (rb_ActiveStrategy r)),
        GStruct (strategy_fields (rb_PendingStrategy r)), GBig (rb_LastRebalanceCompletedTimestamp r)]"])
    (simp_all add: names_ok rebalance_fields_def strategy_roundtrip del: unmarshal.simps marshal.simps)

lemma epoch_roundtrip: "unmarshal E epoch_type (marshal E (epoch_value e)) = Ok (GStruct (epoch_fields e))"
  unfolding epoch_type_def epoch_value_def
  by (subst struct_roundtrip [where gs = "[GBig (ep_TotalDepositAmount e), GBig (ep_TotalShareBurnAmount e), GBig (ep_TotalWithdrawClaimAmount e),
        GBig (ep_RemainingDepositClaimAmount e), GBig (ep_RemainingShareMintAmount e), GBig (ep_RemainingShareBurnAmount e),
        GBig (ep_RemainingWithdrawClaimAmount e), GBig (ep_OpenedAtTimestamp e), GU8 (ep_Status e)]"])
    (simp_all add: names_ok epoch_fields_def del: unmarshal.simps marshal.simps)

lemma parent_roundtrip:
  "wf_strategy (rb_ActiveStrategy (ps_Rebalance s)) \<Longrightarrow> wf_strategy (rb_PendingStrategy (ps_Rebalance s)) \<Longrightarrow>
     unmarshal E parent_state_type (marshal E (parent_value s)) = Ok (GStruct (parent_fields s))"
  unfolding parent_state_type_def parent_value_def
  by (subst struct_roundtrip [where gs = "[GBool (ps_Paused s), GU8 (ps_RecoveryMode s), GBig (ps_CurrentEpochNonce s),
        GStruct (epoch_fields (ps_CurrentEpoch s)), GStruct (epoch_fields (ps_PreviousEpoch s)),
        GStruct (rebalance_fields (ps_Rebalance s)), GBig (ps_TotalShares s), GBig (ps_Tvl s)]"])
    (simp_all add: names_ok parent_fields_def epoch_roundtrip rebalance_roundtrip del: unmarshal.simps marshal.simps)

lemma child_roundtrip: "unmarshal E child_state_type (marshal E (child_value s)) = Ok (GStruct (child_fields s))"
  unfolding child_state_type_def child_value_def
  by (subst struct_roundtrip [where gs = "[GBool (cs_Paused s), GU8 (cs_RecoveryMode s), GBig (cs_LastHandledEpochNonce s),
        GBig (cs_LastHandledRebalanceNonce s), GBig (cs_Tvl s)]"])
    (simp_all add: names_ok child_fields_def del: unmarshal.simps marshal.simps)

text \<open>Reading the fields back gives the state.\<close>

lemma state_of_fields:
  "parent_state_of (parent_fields s) = s" "child_state_of (child_fields c) = c"
  by (simp_all add: parent_state_of_def parent_fields_def epoch_of_def epoch_fields_def rebalance_of_def rebalance_fields_def
      strategy_of_def strategy_fields_def child_state_of_def child_fields_def)

lemma decode_parent_state:
  assumes "abi_OutputsUnpack (codec_abi c) ''getParentOperationalState'' data = Ok (parent_value s # rest)"
    and "wf_strategy (rb_ActiveStrategy (ps_Rebalance s))" "wf_strategy (rb_PendingStrategy (ps_Rebalance s))"
  shows "DecodeGetParentOperationalStateMethodOutput E c data = Ok s"
  using assms by (simp add: DecodeGetParentOperationalStateMethodOutput_def decode_output_def parent_roundtrip state_of_fields)

lemma decode_child_state:
  assumes "abi_OutputsUnpack (codec_abi c) ''getChildOperationalState'' data = Ok (child_value s # rest)"
  shows "DecodeGetChildOperationalStateMethodOutput E c data = Ok s"
  using assms by (simp add: DecodeGetChildOperationalStateMethodOutput_def decode_output_def child_roundtrip state_of_fields)

end
