(* ===== verification/Snapshot_World.thy ===== *)
theory Snapshot_World
  imports Config_Model Onchain_State Vault_Codec
begin

text \<open>
  What \<open>ReadSnapshot\<close> reads when every configured vault answers: \<open>serves E config P C\<close> says that the parent vault's
  reply decodes to \<open>P\<close> and the reply of the child on chain \<open>k\<close> to \<open>C k\<close>. The snapshot then holds exactly those
  states, each under its own chain.
\<close>

definition serves ::
    "env \<Rightarrow> Config \<Rightarrow> TypesParentOperationalState \<Rightarrow> (uint64 \<Rightarrow> TypesChildOperationalState) \<Rightarrow> bool" where
  "serves E config P C \<longleftrightarrow>
     (\<exists>pc cc pd cd. parent_NewCodec E = Ok pc \<and> child_NewCodec E = Ok cc \<and>
        EncodeGetParentOperationalStateMethodCall pc = Ok pd \<and> EncodeGetChildOperationalStateMethodCall cc = Ok cd \<and>
        (\<forall>e\<in>set (cf_Evms config). \<forall>tr cq. \<exists>data. host_CallContract E tr (ec_ChainSelector e) cq = Ok (Some data) \<and>
           (if ec_IsParent e then DecodeGetParentOperationalStateMethodOutput E pc data = Ok P
            else DecodeGetChildOperationalStateMethodOutput E cc data = Ok (C (ec_ChainSelector e)))))"

definition world_children :: "EvmConfig list \<Rightarrow> (uint64 \<Rightarrow> TypesChildOperationalState) \<Rightarrow> (uint64 \<rightharpoonup> TypesChildOperationalState)" where
  "world_children es C = (\<lambda>k. if k \<in> child_selectors es then Some (C k) else None)"

lemma read_contract_Ok:
  assumes "encoded = Ok cd" "\<And>tr cq. \<exists>data. host_CallContract E tr (vb_ChainSelector v) cq = Ok (Some data) \<and> decode data = Ok a"
  shows "\<exists>cs. read_contract E v encoded block decode tr = (Ok a, tr @ cs)"
proof -
  let ?cq = "\<lparr>cq_To = address_Bytes (vb_Address v), cq_Data = cd,
    cq_BlockNumber = (case block of None \<Rightarrow> FinalizedBlockNumber E | Some b \<Rightarrow> b)\<rparr>"
  obtain data where "host_CallContract E tr (vb_ChainSelector v) ?cq = Ok (Some data)" "decode data = Ok a"
    using assms(2) by blast
  then show ?thesis using assms(1) by (simp add: read_contract_def client_CallContract_def io_defs)
qed

lemma read_chain_world:
  assumes "serves E config P C" "e \<in> set (cf_Evms config)" "IsHexAddress E (ec_VaultAddress e)"
  shows "\<exists>cs. read_chain (Some b) (NewParentVaultBinding E) (NewChildVaultBinding E) e s tr =
    (Ok (if ec_IsParent e then s\<lparr>sn_Parent := P\<rparr>
         else s\<lparr>sn_Children := (sn_Children s)(ec_ChainSelector e \<mapsto> C (ec_ChainSelector e))\<rparr>), tr @ cs)"
proof -
  obtain pc cc pd cd where w: "parent_NewCodec E = Ok pc" "child_NewCodec E = Ok cc"
      "EncodeGetParentOperationalStateMethodCall pc = Ok pd" "EncodeGetChildOperationalStateMethodCall cc = Ok cd"
    and host: "\<And>tr cq. \<exists>data. host_CallContract E tr (ec_ChainSelector e) cq = Ok (Some data) \<and>
      (if ec_IsParent e then DecodeGetParentOperationalStateMethodOutput E pc data = Ok P
       else DecodeGetChildOperationalStateMethodOutput E cc data = Ok (C (ec_ChainSelector e)))"
    using assms(1,2) unfolding serves_def by blast
  let ?v = "\<lambda>c. \<lparr>vb_Address = HexToAddress E (ec_VaultAddress e), vb_ABI = codec_abi c, vb_ChainSelector = ec_ChainSelector e, vb_Codec = c\<rparr>"
  show ?thesis
  proof (cases "ec_IsParent e")
    case True
    then have "\<exists>cs. GetParentOperationalState E (?v pc) (Some b) tr = (Ok P, tr @ cs)"
      unfolding GetParentOperationalState_def using w host by (intro read_contract_Ok) simp_all
    moreover have "NewParentVaultBinding E (ec_ChainSelector e) (ec_VaultAddress e) = Ok (GetParentOperationalState E (?v pc))"
      using w assms(3) by (auto simp: NewParentVaultBinding_def NewParentVault_def parent_NewCodec_def bindO_Ok_iff)
    ultimately show ?thesis using True by (auto simp: read_chain_def io_defs)
  next
    case False
    then have "\<exists>cs. GetChildOperationalState E (?v cc) (Some b) tr = (Ok (C (ec_ChainSelector e)), tr @ cs)"
      unfolding GetChildOperationalState_def using w host by (intro read_contract_Ok) simp_all
    moreover have "NewChildVaultBinding E (ec_ChainSelector e) (ec_VaultAddress e) = Ok (GetChildOperationalState E (?v cc))"
      using w assms(3) by (auto simp: NewChildVaultBinding_def NewChildVault_def child_NewCodec_def bindO_Ok_iff)
    ultimately show ?thesis using False by (auto simp: read_chain_def io_defs)
  qed
qed

lemma read_chains_world:
  assumes "serves E config P C" "set es \<subseteq> set (cf_Evms config)" "\<forall>e\<in>set es. IsHexAddress E (ec_VaultAddress e)"
  shows "\<exists>cs. read_chains (Some b) (NewParentVaultBinding E) (NewChildVaultBinding E) es s tr =
    (Ok (s\<lparr>sn_Parent := (if \<exists>e\<in>set es. ec_IsParent e then P else sn_Parent s),
           sn_Children := sn_Children s ++ world_children es C\<rparr>), tr @ cs)"
  using assms(2,3)
proof (induction es arbitrary: s tr)
  case Nil
  then show ?case by (auto simp: world_children_def io_defs intro!: arg_cong [where f = "\<lambda>m. sn_Children_update (\<lambda>_. m) s"])
next
  case (Cons e es)
  let ?s1 = "if ec_IsParent e then s\<lparr>sn_Parent := P\<rparr>
         else s\<lparr>sn_Children := (sn_Children s)(ec_ChainSelector e \<mapsto> C (ec_ChainSelector e))\<rparr>"
  obtain cs where 1: "read_chain (Some b) (NewParentVaultBinding E) (NewChildVaultBinding E) e s tr = (Ok ?s1, tr @ cs)"
    using read_chain_world [OF assms(1), of e b s tr] Cons.prems by auto
  obtain cs' where 2: "read_chains (Some b) (NewParentVaultBinding E) (NewChildVaultBinding E) es ?s1 (tr @ cs) =
    (Ok (?s1\<lparr>sn_Parent := (if \<exists>e\<in>set es. ec_IsParent e then P else sn_Parent ?s1),
           sn_Children := sn_Children ?s1 ++ world_children es C\<rparr>), (tr @ cs) @ cs')"
    using Cons.IH [of ?s1 "tr @ cs"] Cons.prems by auto
  have m: "(m(k \<mapsto> C k)) ++ (\<lambda>a. if a \<in> S then Some (C a) else None) = m ++ (\<lambda>a. if a = k \<or> a \<in> S then Some (C a) else None)" for m k S
    by (rule ext) (simp add: map_add_def)
  have "read_chains (Some b) (NewParentVaultBinding E) (NewChildVaultBinding E) (e # es) s tr =
    read_chains (Some b) (NewParentVaultBinding E) (NewChildVaultBinding E) es ?s1 (tr @ cs)"
    using 1 by (simp add: bindI_def liftO_def)
  then show ?case
    unfolding 2 by (auto simp: m world_children_def)
qed

lemma ReadSnapshot_world:
  assumes "serves E config P C" "valid_config E config" "0 \<le> host_Now E tr"
    and "valid_snapshot config \<lparr>sn_ObservedAt = host_Now E tr, sn_Parent = P, sn_Children = world_children (cf_Evms config) C\<rparr>"
  shows "\<exists>cs. ReadSnapshot E config tr =
    (Ok \<lparr>sn_ObservedAt = host_Now E tr, sn_Parent = P, sn_Children = world_children (cf_Evms config) C\<rparr>, tr @ cs)"
proof -
  obtain b where b: "cf_BlockNumber config = Some b" using assms(2) by (auto simp: valid_config_def)
  have hex: "\<forall>e\<in>set (cf_Evms config). IsHexAddress E (ec_VaultAddress e)"
    using assms(2) by (auto simp: valid_config_def valid_chains_def valid_chain_def isRequiredAddress_def)
  have par: "\<exists>e\<in>set (cf_Evms config). ec_IsParent e" using valid_config_parent [OF assms(2)] by blast
  let ?s0 = "\<lparr>sn_ObservedAt = host_Now E tr, sn_Parent = zero_parent_state, sn_Children = Map.empty\<rparr>"
  obtain cs where "read_chains (Some b) (NewParentVaultBinding E) (NewChildVaultBinding E) (cf_Evms config) ?s0 tr =
      (Ok \<lparr>sn_ObservedAt = host_Now E tr, sn_Parent = P, sn_Children = world_children (cf_Evms config) C\<rparr>, tr @ cs)"
    using read_chains_world [OF assms(1) subset_refl hex, of b ?s0 tr] par by auto
  moreover have "Validate (Some \<lparr>sn_ObservedAt = host_Now E tr, sn_Parent = P, sn_Children = world_children (cf_Evms config) C\<rparr>) config = Ok ()"
    using assms(4) by (simp add: Validate_Ok)
  ultimately show ?thesis
    using assms(3) b by (simp add: ReadSnapshot_def readSnapshot_def io_defs Now_def)
qed

end
