(* ===== verification/State_Properties.thy ===== *)
theory State_Properties
  imports Composition Example_Deployment Snapshot_World
begin

text \<open>
  The properties of configuration, snapshot, report submission and registration
  (\<open>cre/workflow/internal/helper\<close>, \<open>internal/onchain\<close> and \<open>workflow.go\<close>).
\<close>

section \<open>Reports\<close>

text \<open>
  C23: A report reaches the vault as it was encoded. The router of the target chain, unpaused and called by a
  registered forwarder with the metadata of a workflow whose selectors allow the call, forwards exactly the
  encoded vault call when the block time is at most 30 minutes after the observation; earlier it reverts
  as a report from the future, later as expired, and another chain or router rejects its domain.
\<close>

theorem report_roundtrip:
  assumes "EncodeReport E t obs cd = Ok payload"
    and "\<not> ro_paused R" "sender \<in> set (ro_forwarders R)" "decodeMetadata metadata = Inr (wid, name, owner)"
    and "\<not> all_zero wid" "\<not> all_zero name" "\<not> all_zero owner" "ro_metadata R wid = (name, owner)"
    and "ro_selectors R wid (ro_generations R wid) (take 4 cd)" "fst (vault cd)"
  shows "onReport vault R sender timestamp metadata payload =
    (if ec_ChainSelector t \<noteq> ro_thisChainSelector R \<or> HexToAddress E (ec_WorkflowRouterAddress t) \<noteq> ro_address R
     then Inl (InvalidReportDomain (ec_ChainSelector t) (HexToAddress E (ec_WorkflowRouterAddress t)))
     else if timestamp < nat obs then Inl (ReportFromFuture (nat obs) timestamp)
     else if 1800 < timestamp - nat obs then Inl (ReportExpired (nat obs) timestamp)
     else Inr cd)"
  unfolding onReport_def open_envelope_EncodeReport [OF assms(1)] using assms(2-) by simp

definition ex_metadata :: "byte list" where
  "ex_metadata = replicate 32 7 @ replicate 10 8 @ replicate 20 9 @ [0, 0]"

definition ex_router :: router where
  "ex_router = \<lparr>ro_paused = False, ro_forwarders = [5], ro_metadata = (\<lambda>wid. (replicate 10 8, replicate 20 9)),
     ro_generations = (\<lambda>wid. 1), ro_selectors = (\<lambda>wid g sel. True), ro_thisChainSelector = 15971525489660198786,
     ro_address = HexToAddress ex_env (ec_WorkflowRouterAddress ex_parent)\<rparr>"

theorem report_roundtrip_witness:
  "onReport (\<lambda>call. (True, [])) ex_router 5 10100 ex_metadata (ex_payload ex_parent (replicate 8 10)) = Inr (replicate 8 10)"
proof -
  have m: "decodeMetadata ex_metadata = Inr (replicate 32 7, replicate 10 8, replicate 20 9)"
    by (simp add: decodeMetadata_def ex_metadata_def)
  have p: "EncodeReport ex_env ex_parent 10000 (replicate 8 10) = Ok (ex_payload ex_parent (replicate 8 10))"
    by (rule ex_encode) simp_all
  show ?thesis
    by (subst report_roundtrip [OF p _ _ m]) (simp_all add: ex_router_def all_zero_def list_all_iff)
qed

text \<open>
  A submission is one signed write or nothing. Whatever the host answers, \<open>SubmitReport\<close> makes at most one
  write, to the router of its target and with the target's gas limit, of a report generated over the
  encoded envelope, and it succeeds only after that write.
\<close>

theorem submit_writes_once:
  assumes "SubmitReport E t obs cd tr = (r, tr')"
  shows "\<exists>cs. tr' = tr @ cs \<and>
    (writes cs = [] \<and> r \<noteq> Ok () \<or>
     (\<exists>payload rep rest. EncodeReport E t obs cd = Ok payload \<and>
        cs = [HGenerateReport (report_request_of payload),
              HWriteReport (ec_ChainSelector t) \<lparr>wq_Receiver = address_Bytes (HexToAddress E (ec_WorkflowRouterAddress t)),
                wq_Report = Some rep, wq_GasConfig = Some (ec_GasLimit t)\<rparr>] @ rest \<and> writes rest = []))"
proof -
  from spec_ioD [OF SubmitReport_spec assms] obtain cs where cs: "tr' = tr @ cs" "submits E t obs cd r cs" by blast
  from cs(2) show ?thesis
    unfolding cs(1) submits_def write_request_of_def by (elim disjE exE conjE) (auto intro: exI [of _ "[]"])
qed

theorem submit_writes_once_witness:
  "\<exists>cs. SubmitReport ex_env ex_parent 10000 (replicate 8 10) [] = (Ok (), [] @ cs) \<and> writes cs \<noteq> []"
proof -
  have run: "SubmitReport ex_env ex_parent 10000 (replicate 8 10) [] =
      (Ok (), [] @ ex_calls ex_parent (ex_payload ex_parent (replicate 8 10)))"
    by (rule ex_submit) simp_all
  from submit_writes_once [OF this] run show ?thesis by auto
qed

text \<open>
  C26: A submission that can succeed does. When the call encodes, the gas limit is within the quota, the host's
  clock is at most 30 minutes past the observation, the host signs the report and the write is reported
  as successful by the chain and by the receiver, \<open>SubmitReport\<close> returns without an error.
\<close>

theorem submit_succeeds:
  assumes "EncodeReport E t obs cd = Ok payload" "ec_GasLimit t \<noteq> 0" "ec_GasLimit t \<le> 5000000"
    and "obs \<le> host_Now E tr" "host_Now E tr - obs \<le> 1800"
    and "host_GenerateReport E tr (report_request_of payload) = Ok (Some rep)"
    and "host_WriteReport E (tr @ [HGenerateReport (report_request_of payload)]) (ec_ChainSelector t) (write_request_of E t rep) = Ok (Some reply)"
    and "wr_TxStatus reply = TX_STATUS_SUCCESS" "wr_ExecutionStatus reply = Some EXECUTION_STATUS_SUCCESS"
  shows "SubmitReport E t obs cd tr = (Ok (), tr @ [HGenerateReport (report_request_of payload),
    HWriteReport (ec_ChainSelector t) (write_request_of E t rep), HLog ''CRE write succeeded''])"
proof -
  have "\<not> (ec_GasLimit t = 0 \<or> 5000000 < ec_GasLimit t)" using assms(2,3) by (simp add: not_less)
  then show ?thesis
    using assms
    by (simp add: SubmitReport_def submitReport_def send_report_def io_defs Now_def GenerateReport_def client_WriteReport_def
        log_Info_def check_reply_def)
qed

theorem submit_succeeds_witness:
  "fst (SubmitReport ex_env ex_child 10000 (replicate 8 10) []) = Ok ()"
proof -
  have p: "EncodeReport ex_env ex_child 10000 (replicate 8 10) = Ok (ex_payload ex_child (replicate 8 10))"
    by (rule ex_encode) simp_all
  have g: "ec_GasLimit ex_child \<noteq> 0" "ec_GasLimit ex_child \<le> 5000000" by (simp_all add: ex_child_def)
  show ?thesis
    using submit_succeeds [OF p g, where tr = "[]" and rep = "ex_payload ex_child (replicate 8 10)" and
        reply = "\<lparr>wr_TxStatus = TX_STATUS_SUCCESS, wr_ExecutionStatus = Some EXECUTION_STATUS_SUCCESS, wr_TxHash = [], wr_ErrorMessage = None\<rparr>"]
    by (simp add: report_request_of_def)
qed

section \<open>Configuration\<close>

lemma validateDefiLlamaConfig_no_panic: "\<not> is_panic (validateDefiLlamaConfig d)"
proof -
  have "\<not> is_panic (unique_loop field i seen vs)" for field i seen vs
    by (induction vs arbitrary: i seen) (simp_all add: Let_def)
  moreover have "\<not> is_panic (validate_projects ps)" for ps by (induction ps) simp_all
  ultimately show ?thesis
    by (simp add: validateDefiLlamaConfig_def is_panic_bindO validateUniqueNonEmptyStrings_def)
qed

text \<open>
  C39: The validator accepts exactly the valid configurations and never panics. A valid configuration has at
  most eight chains with distinct selectors and names, addresses that are set and gas limits within the
  quota, exactly one parent, unique non-empty pool filters over supported projects, decimals up to 77, a
  block number and both schedules.
\<close>

theorem ValidateConfig_exact:
  "(ValidateConfig E cp = Ok () \<longleftrightarrow> (\<exists>cfg. cp = Some cfg \<and> valid_config E cfg)) \<and> \<not> is_panic (ValidateConfig E cp)"
proof (cases cp)
  case (Some cfg)
  then show ?thesis
    by (auto simp: ValidateConfig_Ok)
      (auto simp: ValidateConfig_def is_panic_bindO validate_evms_no_panic validateDefiLlamaConfig_no_panic split: if_splits)
qed (simp add: ValidateConfig_def)

text \<open>
  Lookups in a validated configuration are total and consistent: there is exactly one parent and
  \<open>FindParent\<close> returns it, and every chain is found under its own selector.
\<close>

lemma validated_lookups:
  assumes "ValidateConfig E (Some cfg) = Ok ()"
  shows "\<exists>p. FindParent (cf_Evms cfg) = Ok p \<and> {e \<in> set (cf_Evms cfg). ec_IsParent e} = {p} \<and>
    (\<forall>e\<in>set (cf_Evms cfg). FindEvmConfigByChainSelector (cf_Evms cfg) (ec_ChainSelector e) = Ok e)"
proof -
  from assms have v: "valid_config E cfg" by (simp add: ValidateConfig_Ok)
  obtain p where p: "FindParent (cf_Evms cfg) = Ok p" "p \<in> set (cf_Evms cfg)" "ec_IsParent p"
    and only: "\<And>e. e \<in> set (cf_Evms cfg) \<Longrightarrow> ec_IsParent e \<Longrightarrow> e = p"
    using valid_config_parent [OF v] by blast
  have "distinct (map ec_ChainSelector (cf_Evms cfg))" using v by (simp add: valid_config_def valid_chains_def)
  then have "\<forall>e\<in>set (cf_Evms cfg). FindEvmConfigByChainSelector (cf_Evms cfg) (ec_ChainSelector e) = Ok e"
    using FindEvmConfigByChainSelector_unique by blast
  with p only show ?thesis by blast
qed

section \<open>The snapshot\<close>

text \<open>
  A snapshot is complete and valid. When \<open>ReadSnapshot\<close> returns one, it has made exactly one call per
  configured chain, in the order of the configuration and each to that chain's vault, it has an entry for
  exactly the configured children, every integer of it fits 256 bits, and its nonces are positive and its
  enumerations in range.
\<close>

theorem snapshot_complete:
  assumes "ReadSnapshot E config tr = (Ok s, tr')" "cf_BlockNumber config = Some b"
  shows "\<exists>cs. tr' = tr @ cs \<and> list_all2 (vault_call E) (cf_Evms config) cs \<and> valid_snapshot config s \<and>
    dom (sn_Children s) = ec_ChainSelector ` {e \<in> set (cf_Evms config). \<not> ec_IsParent e}"
  using spec_ioD [OF vaults.readSnapshot_spec [OF assms(2)] assms(1) [unfolded ReadSnapshot_def]]
  by (auto simp: child_selectors_def)

definition ex_world_env :: env where
  "ex_world_env = ex_env\<lparr>abi_JSON := (\<lambda>c. Ok (ex_abi\<lparr>abi_OutputsUnpack := (\<lambda>name data.
     Ok [if name = ''getParentOperationalState''
         then parent_value (sn_Parent (ex_snapshot ex_due_store 15971525489660198786 15971525489660198786))
         else child_value ex_child_state])\<rparr>))\<rparr>"

lemma ex_world_config: "valid_config ex_world_env ex_config"
proof -
  have "IsHexAddress ex_world_env = IsHexAddress ex_env" "HexToAddress ex_world_env = HexToAddress ex_env"
    by (simp_all add: ex_world_env_def)
  then show ?thesis using ex_config_valid
    by (simp add: valid_config_def valid_chains_def valid_chain_def isRequiredAddress_def)
qed

lemma ex_world_serves:
  "serves ex_world_env ex_config (sn_Parent (ex_snapshot ex_due_store 15971525489660198786 15971525489660198786)) (\<lambda>k. ex_child_state)"
proof -
  let ?abi = "ex_abi\<lparr>abi_OutputsUnpack := (\<lambda>name data.
     Ok [if name = ''getParentOperationalState''
         then parent_value (sn_Parent (ex_snapshot ex_due_store 15971525489660198786 15971525489660198786))
         else child_value ex_child_state])\<rparr>"
  have c: "parent_NewCodec ex_world_env = Ok \<lparr>codec_abi = ?abi\<rparr>" "child_NewCodec ex_world_env = Ok \<lparr>codec_abi = ?abi\<rparr>"
    by (simp_all add: parent_NewCodec_def child_NewCodec_def ex_world_env_def)
  have e: "EncodeGetParentOperationalStateMethodCall \<lparr>codec_abi = ?abi\<rparr> = Ok (replicate 8 25)"
    "EncodeGetChildOperationalStateMethodCall \<lparr>codec_abi = ?abi\<rparr> = Ok (replicate 8 24)"
    by (simp_all add: EncodeGetParentOperationalStateMethodCall_def EncodeGetChildOperationalStateMethodCall_def ex_abi_def)
  have h: "host_CallContract ex_world_env tr chain cq = Ok (Some [])" for tr chain cq
    by (simp add: ex_world_env_def ex_env_def)
  have d: "DecodeGetParentOperationalStateMethodOutput ex_world_env \<lparr>codec_abi = ?abi\<rparr> [] =
      Ok (sn_Parent (ex_snapshot ex_due_store 15971525489660198786 15971525489660198786))"
    by (rule decode_parent_state [where rest = "[]"]) (simp_all add: wf_strategy_def ex_snapshot_defs)
  have dc: "DecodeGetChildOperationalStateMethodOutput ex_world_env \<lparr>codec_abi = ?abi\<rparr> [] = Ok ex_child_state"
    by (rule decode_child_state [where rest = "[]"]) simp
  show ?thesis unfolding serves_def using c e h d dc by auto
qed

lemma ex_world_snapshot:
  "\<lparr>sn_ObservedAt = 10000, sn_Parent = sn_Parent (ex_snapshot ex_due_store 15971525489660198786 15971525489660198786),
     sn_Children = world_children (cf_Evms ex_config) (\<lambda>k. ex_child_state)\<rparr> =
   ex_snapshot ex_due_store 15971525489660198786 15971525489660198786"
  by (auto simp: ex_snapshot_def world_children_def)

lemma ex_world_valid: "valid_snapshot ex_config (ex_snapshot ex_due_store 15971525489660198786 15971525489660198786)"
  using ex_snapshot_valid [of ex_due_store] by (simp add: ready_def)

lemma ex_world_now: "host_Now ex_world_env tr = 10000"
  by (simp add: ex_world_env_def ex_env_def)

lemma ex_world_read:
  "\<exists>cs. ReadSnapshot ex_world_env ex_config [] = (Ok (ex_snapshot ex_due_store 15971525489660198786 15971525489660198786), [] @ cs)"
  using ReadSnapshot_world [OF ex_world_serves ex_world_config, of "[]"] ex_world_valid
  unfolding ex_world_now ex_world_snapshot by simp

theorem snapshot_complete_witness:
  "\<exists>cs. list_all2 (vault_call ex_world_env) [ex_parent, ex_child] cs \<and>
     dom (sn_Children (ex_snapshot ex_due_store 15971525489660198786 15971525489660198786)) = {4949039107694359620}"
proof -
  obtain cs where run: "ReadSnapshot ex_world_env ex_config [] =
      (Ok (ex_snapshot ex_due_store 15971525489660198786 15971525489660198786), [] @ cs)"
    using ex_world_read by blast
  have "cf_BlockNumber ex_config = Some (-3)" by (simp add: ex_config_def)
  from snapshot_complete [OF run this] obtain ds where "list_all2 (vault_call ex_world_env) [ex_parent, ex_child] ds"
    "dom (sn_Children (ex_snapshot ex_due_store 15971525489660198786 15971525489660198786)) =
      ec_ChainSelector ` {e \<in> set [ex_parent, ex_child]. \<not> ec_IsParent e}" by auto
  moreover have "{e \<in> set [ex_parent, ex_child]. \<not> ec_IsParent e} = {ex_child}" by auto
  ultimately show ?thesis by (metis ex_selectors(2) image_empty image_insert)
qed



text \<open>
  The decoder of the parent's operational state is lossless. When the ABI unpacks the reply to the tuple of
  a state, with the contract's field names, the generated decoder returns that state, through JSON and back;
  integers of any size, nil pointers and byte arrays survive.
\<close>

theorem operational_state_roundtrip:
  assumes "abi_OutputsUnpack (codec_abi c) ''getParentOperationalState'' data = Ok (parent_value s # rest)"
    and "length (st_ProtocolId (rb_ActiveStrategy (ps_Rebalance s))) = 32"
    and "length (st_ProtocolId (rb_PendingStrategy (ps_Rebalance s))) = 32"
  shows "DecodeGetParentOperationalStateMethodOutput E c data = Ok s"
  by (rule decode_parent_state) (use assms in \<open>simp_all add: wf_strategy_def\<close>)

theorem operational_state_roundtrip_witness:
  "DecodeGetParentOperationalStateMethodOutput ex_env \<lparr>codec_abi = ex_abi\<lparr>abi_OutputsUnpack := (\<lambda>name data.
       Ok [parent_value (sn_Parent (ex_snapshot ex_due_store 15971525489660198786 15971525489660198786))])\<rparr>\<rparr> [] =
     Ok (sn_Parent (ex_snapshot ex_due_store 15971525489660198786 15971525489660198786))"
  by (rule operational_state_roundtrip [where rest = "[]"]) (simp_all add: ex_snapshot_defs)

section \<open>The operational guard and the registration\<close>

text \<open>
  Nothing runs while a vault is blocked. When the snapshot shows any configured vault paused or in
  recovery, a guarded handler is not called: the run ends as a skip that names the first blocked vault, and
  the only calls are those of the read and one log entry.
\<close>

theorem guard_blocks:
  assumes "reader config tr = (Ok (Some s), tr1)" "e \<in> set (cf_Evms config)" "vault_blocked s e"
  shows "BlockedReason s config \<noteq> [] \<and> withOperationalGuard reader handler config payload tr =
    (Ok \<lparr>xr_Result = ''no-op: '' @ BlockedReason s config\<rparr>, tr1 @ [HLog ''Workflow skipped''])"
proof -
  have b: "BlockedReason s config \<noteq> []" using assms(2,3) BlockedReason_empty by blast
  then show ?thesis
    using assms(1) by (simp add: withOperationalGuard_def bindI_def wrapI_def Let_def Noop_def log_Info_def retI_def callI_def)
qed

theorem guard_blocks_witness:
  "\<exists>reason. reason \<noteq> [] \<and>
     withOperationalGuard (\<lambda>cfg. retI (Some ((ex_snapshot ex_due_store 15971525489660198786 15971525489660198786)
         \<lparr>sn_Children := [4949039107694359620 \<mapsto> ex_child_state\<lparr>cs_Paused := True\<rparr>]\<rparr>))) (\<lambda>cfg _ s. OnEpochCronTrigger ex_env cfg s) ex_config () [] =
       (Ok \<lparr>xr_Result = ''no-op: '' @ reason\<rparr>, [HLog ''Workflow skipped''])"
proof -
  let ?s = "(ex_snapshot ex_due_store 15971525489660198786 15971525489660198786)
         \<lparr>sn_Children := [4949039107694359620 \<mapsto> ex_child_state\<lparr>cs_Paused := True\<rparr>]\<rparr>"
  have b: "vault_blocked ?s ex_child" "ex_child \<in> set (cf_Evms ex_config)" by (simp_all add: vault_blocked_def child_of_def)
  have r: "retI (Some ?s) [] = (Ok (Some ?s), [])" by (simp add: retI_def)
  from guard_blocks [where reader = "\<lambda>cfg. retI (Some ?s)" and config = ex_config and tr = "[]" and
      handler = "\<lambda>cfg _ s. OnEpochCronTrigger ex_env cfg s" and payload = "()", OF r b(2,1)] show ?thesis
    by (intro exI [of _ "BlockedReason ?s ex_config"]) simp
qed



end
