(* ===== verification/Revert_Errors.thy ===== *)
theory Revert_Errors
  imports Vault_Bindings
begin

text \<open>
  The revert data of the parent vault (\<open>cre/contracts/evm/src/generated/parent_vault/ParentVault.go\<close>): one
  decoder per custom error, and \<open>UnpackError\<close>, which picks the decoder by the four-byte selector. A decoded
  error is its Go struct: the type's name and its fields in order.
\<close>

section \<open>The shape of a decoder\<close>

record go_struct =
  gs_Type :: string
  gs_Fields :: gstruct

text \<open>The dynamic type test \<open>values[i].(T)\<close>.\<close>

fun has_type :: "gotype \<Rightarrow> gval \<Rightarrow> bool" where
  "has_type TBig v = (case v of GBig _ \<Rightarrow> True | _ \<Rightarrow> False)"
| "has_type TU8 v = (case v of GU8 _ \<Rightarrow> True | _ \<Rightarrow> False)"
| "has_type TU64 v = (case v of GU64 _ \<Rightarrow> True | _ \<Rightarrow> False)"
| "has_type TBool v = (case v of GBool _ \<Rightarrow> True | _ \<Rightarrow> False)"
| "has_type TAddr v = (case v of GAddr _ \<Rightarrow> True | _ \<Rightarrow> False)"
| "has_type (TFix n) v = (case v of GFix bs \<Rightarrow> length bs = n | _ \<Rightarrow> False)"
| "has_type TBytes v = (case v of GBytes _ \<Rightarrow> True | _ \<Rightarrow> False)"
| "has_type TStr v = (case v of GStr _ \<Rightarrow> True | _ \<Rightarrow> False)"
| "has_type (TStruct fs) v =
     (case v of GStruct gs \<Rightarrow> map fst gs = map fst fs \<and> list_all2 (\<lambda>f. has_type (snd f)) fs (map snd gs) | _ \<Rightarrow> False)"
| "has_type (TList t) v = (case v of GList vs \<Rightarrow> list_all (has_type t) vs | _ \<Rightarrow> False)"

text \<open>A field: the parameter's name in messages, the struct's field, and its type.\<close>

type_synonym error_field = "string \<times> string \<times> gotype"

fun typed_values :: "string \<Rightarrow> error_field list \<Rightarrow> gval list \<Rightarrow> gstruct outcome" where
  "typed_values name ((param, field, t) # fs) (v # vs) =
     (if has_type t v then bindO (typed_values name fs vs) (\<lambda>r. Ok ((field, v) # r))
      else Err (Errorf (''unexpected type for '' @ param @ '' in '' @ name @ '' error'') []))"
| "typed_values name _ _ = Ok []"

definition decode_error :: "string \<Rightarrow> string \<Rightarrow> error_field list \<Rightarrow> abi \<Rightarrow> byte list \<Rightarrow> go_struct outcome" where
  "decode_error abiName goName flds c data =
     (if length data < 4 then Panic ''slice bounds out of range''
      else bindO (wrapO ''failed to unpack error: %w'' [] (abi_ErrorUnpack c abiName (drop 4 data))) (\<lambda>values.
        if length values \<noteq> length flds
        then Err (Errorf (''expected '' @ show_nat (length flds) @ '' values, got %d'') [FInt (int (length values))])
        else bindO (typed_values goName flds values) (\<lambda>fs. Ok \<lparr>gs_Type = goName, gs_Fields = fs\<rparr>)))"

section \<open>The decoders\<close>

definition DecodeAccessControlBadConfirmationError :: "abi \<Rightarrow> byte list \<Rightarrow> go_struct outcome" where
  "DecodeAccessControlBadConfirmationError =
     decode_error ''AccessControlBadConfirmation'' ''AccessControlBadConfirmation''
       []"

definition DecodeAccessControlEnforcedDefaultAdminDelayError :: "abi \<Rightarrow> byte list \<Rightarrow> go_struct outcome" where
  "DecodeAccessControlEnforcedDefaultAdminDelayError =
     decode_error ''AccessControlEnforcedDefaultAdminDelay'' ''AccessControlEnforcedDefaultAdminDelay''
       [(''schedule'', ''Schedule'', TBig)]"

definition DecodeAccessControlEnforcedDefaultAdminRulesError :: "abi \<Rightarrow> byte list \<Rightarrow> go_struct outcome" where
  "DecodeAccessControlEnforcedDefaultAdminRulesError =
     decode_error ''AccessControlEnforcedDefaultAdminRules'' ''AccessControlEnforcedDefaultAdminRules''
       []"

definition DecodeAccessControlInvalidDefaultAdminError :: "abi \<Rightarrow> byte list \<Rightarrow> go_struct outcome" where
  "DecodeAccessControlInvalidDefaultAdminError =
     decode_error ''AccessControlInvalidDefaultAdmin'' ''AccessControlInvalidDefaultAdmin''
       [(''defaultAdmin'', ''DefaultAdmin'', TAddr)]"

definition DecodeAccessControlUnauthorizedAccountError :: "abi \<Rightarrow> byte list \<Rightarrow> go_struct outcome" where
  "DecodeAccessControlUnauthorizedAccountError =
     decode_error ''AccessControlUnauthorizedAccount'' ''AccessControlUnauthorizedAccount''
       [(''account'', ''Account'', TAddr), (''neededRole'', ''NeededRole'', TFix 32)]"

definition DecodeAddressEmptyCodeError :: "abi \<Rightarrow> byte list \<Rightarrow> go_struct outcome" where
  "DecodeAddressEmptyCodeError =
     decode_error ''AddressEmptyCode'' ''AddressEmptyCode''
       [(''target'', ''Target'', TAddr)]"

definition DecodeAllowlistUserNotAllowlistedError :: "abi \<Rightarrow> byte list \<Rightarrow> go_struct outcome" where
  "DecodeAllowlistUserNotAllowlistedError =
     decode_error ''Allowlist__UserNotAllowlisted'' ''AllowlistUserNotAllowlisted''
       [(''user'', ''User'', TAddr)]"

definition DecodeBaseVaultDepositFailedError :: "abi \<Rightarrow> byte list \<Rightarrow> go_struct outcome" where
  "DecodeBaseVaultDepositFailedError =
     decode_error ''BaseVault__DepositFailed'' ''BaseVaultDepositFailed''
       [(''amount'', ''Amount'', TBig)]"

definition DecodeBaseVaultDestinationVaultNotSetError :: "abi \<Rightarrow> byte list \<Rightarrow> go_struct outcome" where
  "DecodeBaseVaultDestinationVaultNotSetError =
     decode_error ''BaseVault__DestinationVaultNotSet'' ''BaseVaultDestinationVaultNotSet''
       [(''destinationChainSelector'', ''DestinationChainSelector'', TU64)]"

definition DecodeBaseVaultEmptyInputError :: "abi \<Rightarrow> byte list \<Rightarrow> go_struct outcome" where
  "DecodeBaseVaultEmptyInputError = decode_error ''BaseVault__EmptyInput'' ''BaseVaultEmptyInput'' []"

definition DecodeBaseVaultInvalidAdapterVaultError :: "abi \<Rightarrow> byte list \<Rightarrow> go_struct outcome" where
  "DecodeBaseVaultInvalidAdapterVaultError =
     decode_error ''BaseVault__InvalidAdapterVault'' ''BaseVaultInvalidAdapterVault''
       [(''adapter'', ''Adapter'', TAddr), (''actualVault'', ''ActualVault'', TAddr), (''expectedVault'', ''ExpectedVault'', TAddr)]"

definition DecodeBaseVaultInvalidDestinationChainSelectorError :: "abi \<Rightarrow> byte list \<Rightarrow> go_struct outcome" where
  "DecodeBaseVaultInvalidDestinationChainSelectorError =
     decode_error ''BaseVault__InvalidDestinationChainSelector'' ''BaseVaultInvalidDestinationChainSelector''
       [(''destinationChainSelector'', ''DestinationChainSelector'', TU64)]"

definition DecodeBaseVaultInvalidInputLengthsError :: "abi \<Rightarrow> byte list \<Rightarrow> go_struct outcome" where
  "DecodeBaseVaultInvalidInputLengthsError =
     decode_error ''BaseVault__InvalidInputLengths'' ''BaseVaultInvalidInputLengths''
       []"

definition DecodeBaseVaultInvalidReceivedTokenError :: "abi \<Rightarrow> byte list \<Rightarrow> go_struct outcome" where
  "DecodeBaseVaultInvalidReceivedTokenError =
     decode_error ''BaseVault__InvalidReceivedToken'' ''BaseVaultInvalidReceivedToken''
       [(''receivedToken'', ''ReceivedToken'', TAddr), (''expectedToken'', ''ExpectedToken'', TAddr)]"

definition DecodeBaseVaultInvalidSenderError :: "abi \<Rightarrow> byte list \<Rightarrow> go_struct outcome" where
  "DecodeBaseVaultInvalidSenderError =
     decode_error ''BaseVault__InvalidSender'' ''BaseVaultInvalidSender''
       [(''sender'', ''Sender'', TAddr), (''srcChainSelector'', ''SrcChainSelector'', TU64)]"

definition DecodeBaseVaultInvalidSourceChainSelectorError :: "abi \<Rightarrow> byte list \<Rightarrow> go_struct outcome" where
  "DecodeBaseVaultInvalidSourceChainSelectorError =
     decode_error ''BaseVault__InvalidSourceChainSelector'' ''BaseVaultInvalidSourceChainSelector''
       [(''sourceChainSelector'', ''SourceChainSelector'', TU64), (''expectedSourceChainSelector'', ''ExpectedSourceChainSelector'', TU64)]"

definition DecodeBaseVaultInvalidTokenAmountsLengthError :: "abi \<Rightarrow> byte list \<Rightarrow> go_struct outcome" where
  "DecodeBaseVaultInvalidTokenAmountsLengthError =
     decode_error ''BaseVault__InvalidTokenAmountsLength'' ''BaseVaultInvalidTokenAmountsLength''
       [(''receivedLength'', ''ReceivedLength'', TBig), (''expectedLength'', ''ExpectedLength'', TBig)]"

definition DecodeBaseVaultInvalidTxTypeError :: "abi \<Rightarrow> byte list \<Rightarrow> go_struct outcome" where
  "DecodeBaseVaultInvalidTxTypeError =
     decode_error ''BaseVault__InvalidTxType'' ''BaseVaultInvalidTxType''
       [(''ccipTxType'', ''CcipTxType'', TU8)]"

definition DecodeBaseVaultNoActiveAdapterError :: "abi \<Rightarrow> byte list \<Rightarrow> go_struct outcome" where
  "DecodeBaseVaultNoActiveAdapterError = decode_error ''BaseVault__NoActiveAdapter'' ''BaseVaultNoActiveAdapter'' []"

definition DecodeBaseVaultNoAdapterRegisteredError :: "abi \<Rightarrow> byte list \<Rightarrow> go_struct outcome" where
  "DecodeBaseVaultNoAdapterRegisteredError =
     decode_error ''BaseVault__NoAdapterRegistered'' ''BaseVaultNoAdapterRegistered''
       [(''protocolId'', ''ProtocolId'', TFix 32)]"

definition DecodeBaseVaultNoPendingRecoveryError :: "abi \<Rightarrow> byte list \<Rightarrow> go_struct outcome" where
  "DecodeBaseVaultNoPendingRecoveryError =
     decode_error ''BaseVault__NoPendingRecovery'' ''BaseVaultNoPendingRecovery''
       []"

definition DecodeBaseVaultNoZeroAddressError :: "abi \<Rightarrow> byte list \<Rightarrow> go_struct outcome" where
  "DecodeBaseVaultNoZeroAddressError = decode_error ''BaseVault__NoZeroAddress'' ''BaseVaultNoZeroAddress'' []"

definition DecodeBaseVaultNoZeroAmountError :: "abi \<Rightarrow> byte list \<Rightarrow> go_struct outcome" where
  "DecodeBaseVaultNoZeroAmountError = decode_error ''BaseVault__NoZeroAmount'' ''BaseVaultNoZeroAmount'' []"

definition DecodeBaseVaultNoZeroChainSelectorError :: "abi \<Rightarrow> byte list \<Rightarrow> go_struct outcome" where
  "DecodeBaseVaultNoZeroChainSelectorError =
     decode_error ''BaseVault__NoZeroChainSelector'' ''BaseVaultNoZeroChainSelector''
       []"

definition DecodeBaseVaultOnlySelfError :: "abi \<Rightarrow> byte list \<Rightarrow> go_struct outcome" where
  "DecodeBaseVaultOnlySelfError = decode_error ''BaseVault__OnlySelf'' ''BaseVaultOnlySelf'' []"

definition DecodeBaseVaultRecoveryAlreadyPendingError :: "abi \<Rightarrow> byte list \<Rightarrow> go_struct outcome" where
  "DecodeBaseVaultRecoveryAlreadyPendingError =
     decode_error ''BaseVault__RecoveryAlreadyPending'' ''BaseVaultRecoveryAlreadyPending''
       []"

definition DecodeBaseVaultWithdrawFailedError :: "abi \<Rightarrow> byte list \<Rightarrow> go_struct outcome" where
  "DecodeBaseVaultWithdrawFailedError =
     decode_error ''BaseVault__WithdrawFailed'' ''BaseVaultWithdrawFailed''
       [(''amount'', ''Amount'', TBig)]"

definition DecodeBaseVaultZeroRecoveryAmountError :: "abi \<Rightarrow> byte list \<Rightarrow> go_struct outcome" where
  "DecodeBaseVaultZeroRecoveryAmountError =
     decode_error ''BaseVault__ZeroRecoveryAmount'' ''BaseVaultZeroRecoveryAmount''
       []"

definition DecodeERC1967InvalidImplementationError :: "abi \<Rightarrow> byte list \<Rightarrow> go_struct outcome" where
  "DecodeERC1967InvalidImplementationError =
     decode_error ''ERC1967InvalidImplementation'' ''ERC1967InvalidImplementation''
       [(''implementation'', ''Implementation'', TAddr)]"

definition DecodeERC1967NonPayableError :: "abi \<Rightarrow> byte list \<Rightarrow> go_struct outcome" where
  "DecodeERC1967NonPayableError = decode_error ''ERC1967NonPayable'' ''ERC1967NonPayable'' []"

definition DecodeEnforcedPauseError :: "abi \<Rightarrow> byte list \<Rightarrow> go_struct outcome" where
  "DecodeEnforcedPauseError = decode_error ''EnforcedPause'' ''EnforcedPause'' []"

definition DecodeExpectedPauseError :: "abi \<Rightarrow> byte list \<Rightarrow> go_struct outcome" where
  "DecodeExpectedPauseError = decode_error ''ExpectedPause'' ''ExpectedPause'' []"

definition DecodeFailedCallError :: "abi \<Rightarrow> byte list \<Rightarrow> go_struct outcome" where
  "DecodeFailedCallError = decode_error ''FailedCall'' ''FailedCall'' []"

definition DecodeInvalidInitializationError :: "abi \<Rightarrow> byte list \<Rightarrow> go_struct outcome" where
  "DecodeInvalidInitializationError = decode_error ''InvalidInitialization'' ''InvalidInitialization'' []"

definition DecodeInvalidRouterError :: "abi \<Rightarrow> byte list \<Rightarrow> go_struct outcome" where
  "DecodeInvalidRouterError = decode_error ''InvalidRouter'' ''InvalidRouter'' [(''router'', ''Router'', TAddr)]"

definition DecodeNotInitializingError :: "abi \<Rightarrow> byte list \<Rightarrow> go_struct outcome" where
  "DecodeNotInitializingError = decode_error ''NotInitializing'' ''NotInitializing'' []"

definition DecodeParentVaultAmountTooSmallError :: "abi \<Rightarrow> byte list \<Rightarrow> go_struct outcome" where
  "DecodeParentVaultAmountTooSmallError =
     decode_error ''ParentVault__AmountTooSmall'' ''ParentVaultAmountTooSmall''
       [(''amount'', ''Amount'', TBig)]"

definition DecodeParentVaultCannotCompleteLocalRebalanceError :: "abi \<Rightarrow> byte list \<Rightarrow> go_struct outcome" where
  "DecodeParentVaultCannotCompleteLocalRebalanceError =
     decode_error ''ParentVault__CannotCompleteLocalRebalance'' ''ParentVaultCannotCompleteLocalRebalance''
       []"

definition DecodeParentVaultCannotRemoveActiveProtocolError :: "abi \<Rightarrow> byte list \<Rightarrow> go_struct outcome" where
  "DecodeParentVaultCannotRemoveActiveProtocolError =
     decode_error ''ParentVault__CannotRemoveActiveProtocol'' ''ParentVaultCannotRemoveActiveProtocol''
       [(''protocolId'', ''ProtocolId'', TFix 32)]"

definition DecodeParentVaultCannotRemovePendingProtocolError :: "abi \<Rightarrow> byte list \<Rightarrow> go_struct outcome" where
  "DecodeParentVaultCannotRemovePendingProtocolError =
     decode_error ''ParentVault__CannotRemovePendingProtocol'' ''ParentVaultCannotRemovePendingProtocol''
       [(''protocolId'', ''ProtocolId'', TFix 32)]"

definition DecodeParentVaultDepositWouldMintZeroSharesError :: "abi \<Rightarrow> byte list \<Rightarrow> go_struct outcome" where
  "DecodeParentVaultDepositWouldMintZeroSharesError =
     decode_error ''ParentVault__DepositWouldMintZeroShares'' ''ParentVaultDepositWouldMintZeroShares''
       []"

definition DecodeParentVaultEmptyEpochError :: "abi \<Rightarrow> byte list \<Rightarrow> go_struct outcome" where
  "DecodeParentVaultEmptyEpochError =
     decode_error ''ParentVault__EmptyEpoch'' ''ParentVaultEmptyEpoch''
       [(''epochNonce'', ''EpochNonce'', TBig)]"

definition DecodeParentVaultEpochExecutingError :: "abi \<Rightarrow> byte list \<Rightarrow> go_struct outcome" where
  "DecodeParentVaultEpochExecutingError =
     decode_error ''ParentVault__EpochExecuting'' ''ParentVaultEpochExecuting''
       [(''epochNonce'', ''EpochNonce'', TBig)]"

definition DecodeParentVaultEpochNotClaimableError :: "abi \<Rightarrow> byte list \<Rightarrow> go_struct outcome" where
  "DecodeParentVaultEpochNotClaimableError =
     decode_error ''ParentVault__EpochNotClaimable'' ''ParentVaultEpochNotClaimable''
       [(''epochNonce'', ''EpochNonce'', TBig)]"

definition DecodeParentVaultEpochNotExecutingError :: "abi \<Rightarrow> byte list \<Rightarrow> go_struct outcome" where
  "DecodeParentVaultEpochNotExecutingError =
     decode_error ''ParentVault__EpochNotExecuting'' ''ParentVaultEpochNotExecuting''
       [(''epochNonce'', ''EpochNonce'', TBig)]"

definition DecodeParentVaultEpochNotNetDepositError :: "abi \<Rightarrow> byte list \<Rightarrow> go_struct outcome" where
  "DecodeParentVaultEpochNotNetDepositError =
     decode_error ''ParentVault__EpochNotNetDeposit'' ''ParentVaultEpochNotNetDeposit''
       [(''epochNonce'', ''EpochNonce'', TBig)]"

definition DecodeParentVaultEpochNotNetWithdrawError :: "abi \<Rightarrow> byte list \<Rightarrow> go_struct outcome" where
  "DecodeParentVaultEpochNotNetWithdrawError =
     decode_error ''ParentVault__EpochNotNetWithdraw'' ''ParentVaultEpochNotNetWithdraw''
       [(''epochNonce'', ''EpochNonce'', TBig)]"

definition DecodeParentVaultEpochNotOpenError :: "abi \<Rightarrow> byte list \<Rightarrow> go_struct outcome" where
  "DecodeParentVaultEpochNotOpenError =
     decode_error ''ParentVault__EpochNotOpen'' ''ParentVaultEpochNotOpen''
       [(''epochNonce'', ''EpochNonce'', TBig)]"

definition DecodeParentVaultEpochTooShortError :: "abi \<Rightarrow> byte list \<Rightarrow> go_struct outcome" where
  "DecodeParentVaultEpochTooShortError =
     decode_error ''ParentVault__EpochTooShort'' ''ParentVaultEpochTooShort''
       [(''epochNonce'', ''EpochNonce'', TBig)]"

definition DecodeParentVaultInitialActiveProtocolAdapterAlreadySetError :: "abi \<Rightarrow> byte list \<Rightarrow> go_struct outcome" where
  "DecodeParentVaultInitialActiveProtocolAdapterAlreadySetError =
     decode_error ''ParentVault__InitialActiveProtocolAdapterAlreadySet'' ''ParentVaultInitialActiveProtocolAdapterAlreadySet''
       []"

definition DecodeParentVaultInvalidActualDepositAmountError :: "abi \<Rightarrow> byte list \<Rightarrow> go_struct outcome" where
  "DecodeParentVaultInvalidActualDepositAmountError =
     decode_error ''ParentVault__InvalidActualDepositAmount'' ''ParentVaultInvalidActualDepositAmount''
       [(''actualDepositAmount'', ''ActualDepositAmount'', TBig), (''expectedDepositAmount'', ''ExpectedDepositAmount'', TBig)]"

definition DecodeParentVaultInvalidBeneficiaryError :: "abi \<Rightarrow> byte list \<Rightarrow> go_struct outcome" where
  "DecodeParentVaultInvalidBeneficiaryError =
     decode_error ''ParentVault__InvalidBeneficiary'' ''ParentVaultInvalidBeneficiary''
       []"

definition DecodeParentVaultInvalidChainSelectorError :: "abi \<Rightarrow> byte list \<Rightarrow> go_struct outcome" where
  "DecodeParentVaultInvalidChainSelectorError =
     decode_error ''ParentVault__InvalidChainSelector'' ''ParentVaultInvalidChainSelector''
       [(''chainSelector'', ''ChainSelector'', TU64)]"

definition DecodeParentVaultInvalidEpochNonceError :: "abi \<Rightarrow> byte list \<Rightarrow> go_struct outcome" where
  "DecodeParentVaultInvalidEpochNonceError =
     decode_error ''ParentVault__InvalidEpochNonce'' ''ParentVaultInvalidEpochNonce''
       [(''epochNonce'', ''EpochNonce'', TBig)]"

definition DecodeParentVaultInvalidPendingProtocolIdError :: "abi \<Rightarrow> byte list \<Rightarrow> go_struct outcome" where
  "DecodeParentVaultInvalidPendingProtocolIdError =
     decode_error ''ParentVault__InvalidPendingProtocolId'' ''ParentVaultInvalidPendingProtocolId''
       [(''protocolId'', ''ProtocolId'', TFix 32)]"

definition DecodeParentVaultInvalidProtocolIdError :: "abi \<Rightarrow> byte list \<Rightarrow> go_struct outcome" where
  "DecodeParentVaultInvalidProtocolIdError =
     decode_error ''ParentVault__InvalidProtocolId'' ''ParentVaultInvalidProtocolId''
       [(''protocolId'', ''ProtocolId'', TFix 32)]"

definition DecodeParentVaultInvalidRebalanceNonceError :: "abi \<Rightarrow> byte list \<Rightarrow> go_struct outcome" where
  "DecodeParentVaultInvalidRebalanceNonceError =
     decode_error ''ParentVault__InvalidRebalanceNonce'' ''ParentVaultInvalidRebalanceNonce''
       [(''rebalanceNonce'', ''RebalanceNonce'', TBig)]"

definition DecodeParentVaultNoCompletedEpochError :: "abi \<Rightarrow> byte list \<Rightarrow> go_struct outcome" where
  "DecodeParentVaultNoCompletedEpochError =
     decode_error ''ParentVault__NoCompletedEpoch'' ''ParentVaultNoCompletedEpoch''
       []"

definition DecodeParentVaultNoDepositError :: "abi \<Rightarrow> byte list \<Rightarrow> go_struct outcome" where
  "DecodeParentVaultNoDepositError =
     decode_error ''ParentVault__NoDeposit'' ''ParentVaultNoDeposit''
       [(''depositor'', ''Depositor'', TAddr), (''epochNonce'', ''EpochNonce'', TBig)]"

definition DecodeParentVaultNoRebalanceInProgressError :: "abi \<Rightarrow> byte list \<Rightarrow> go_struct outcome" where
  "DecodeParentVaultNoRebalanceInProgressError =
     decode_error ''ParentVault__NoRebalanceInProgress'' ''ParentVaultNoRebalanceInProgress''
       []"

definition DecodeParentVaultNoWithdrawError :: "abi \<Rightarrow> byte list \<Rightarrow> go_struct outcome" where
  "DecodeParentVaultNoWithdrawError =
     decode_error ''ParentVault__NoWithdraw'' ''ParentVaultNoWithdraw''
       [(''withdrawer'', ''Withdrawer'', TAddr), (''epochNonce'', ''EpochNonce'', TBig)]"

definition DecodeParentVaultNoZeroAmountError :: "abi \<Rightarrow> byte list \<Rightarrow> go_struct outcome" where
  "DecodeParentVaultNoZeroAmountError = decode_error ''ParentVault__NoZeroAmount'' ''ParentVaultNoZeroAmount'' []"

definition DecodeParentVaultNoZeroProtocolIdError :: "abi \<Rightarrow> byte list \<Rightarrow> go_struct outcome" where
  "DecodeParentVaultNoZeroProtocolIdError =
     decode_error ''ParentVault__NoZeroProtocolId'' ''ParentVaultNoZeroProtocolId''
       []"

definition DecodeParentVaultRebalanceInProgressError :: "abi \<Rightarrow> byte list \<Rightarrow> go_struct outcome" where
  "DecodeParentVaultRebalanceInProgressError =
     decode_error ''ParentVault__RebalanceInProgress'' ''ParentVaultRebalanceInProgress''
       []"

definition DecodeParentVaultRebalanceTooSoonError :: "abi \<Rightarrow> byte list \<Rightarrow> go_struct outcome" where
  "DecodeParentVaultRebalanceTooSoonError =
     decode_error ''ParentVault__RebalanceTooSoon'' ''ParentVaultRebalanceTooSoon''
       [(''rebalanceNonce'', ''RebalanceNonce'', TBig)]"

definition DecodeParentVaultRemoteWithdrawAmountTooSmallError :: "abi \<Rightarrow> byte list \<Rightarrow> go_struct outcome" where
  "DecodeParentVaultRemoteWithdrawAmountTooSmallError =
     decode_error ''ParentVault__RemoteWithdrawAmountTooSmall'' ''ParentVaultRemoteWithdrawAmountTooSmall''
       [(''amount'', ''Amount'', TBig)]"

definition DecodeParentVaultSameStrategyError :: "abi \<Rightarrow> byte list \<Rightarrow> go_struct outcome" where
  "DecodeParentVaultSameStrategyError = decode_error ''ParentVault__SameStrategy'' ''ParentVaultSameStrategy'' []"

definition DecodeParentVaultShareBurnWithZeroTotalSharesError :: "abi \<Rightarrow> byte list \<Rightarrow> go_struct outcome" where
  "DecodeParentVaultShareBurnWithZeroTotalSharesError =
     decode_error ''ParentVault__ShareBurnWithZeroTotalShares'' ''ParentVaultShareBurnWithZeroTotalShares''
       []"

definition DecodeParentVaultZeroPricePerShareError :: "abi \<Rightarrow> byte list \<Rightarrow> go_struct outcome" where
  "DecodeParentVaultZeroPricePerShareError =
     decode_error ''ParentVault__ZeroPricePerShare'' ''ParentVaultZeroPricePerShare''
       []"

definition DecodeParentVaultZeroTvlWithOutstandingSharesError :: "abi \<Rightarrow> byte list \<Rightarrow> go_struct outcome" where
  "DecodeParentVaultZeroTvlWithOutstandingSharesError =
     decode_error ''ParentVault__ZeroTvlWithOutstandingShares'' ''ParentVaultZeroTvlWithOutstandingShares''
       []"

definition DecodeReentrancyGuardReentrantCallError :: "abi \<Rightarrow> byte list \<Rightarrow> go_struct outcome" where
  "DecodeReentrancyGuardReentrantCallError =
     decode_error ''ReentrancyGuardReentrantCall'' ''ReentrancyGuardReentrantCall''
       []"

definition DecodeSafeCastOverflowedUintDowncastError :: "abi \<Rightarrow> byte list \<Rightarrow> go_struct outcome" where
  "DecodeSafeCastOverflowedUintDowncastError =
     decode_error ''SafeCastOverflowedUintDowncast'' ''SafeCastOverflowedUintDowncast''
       [(''bits'', ''Bits'', TU8), (''value'', ''Value'', TBig)]"

definition DecodeSafeERC20FailedOperationError :: "abi \<Rightarrow> byte list \<Rightarrow> go_struct outcome" where
  "DecodeSafeERC20FailedOperationError =
     decode_error ''SafeERC20FailedOperation'' ''SafeERC20FailedOperation''
       [(''token'', ''Token'', TAddr)]"

definition DecodeUUPSUnauthorizedCallContextError :: "abi \<Rightarrow> byte list \<Rightarrow> go_struct outcome" where
  "DecodeUUPSUnauthorizedCallContextError =
     decode_error ''UUPSUnauthorizedCallContext'' ''UUPSUnauthorizedCallContext''
       []"

definition DecodeUUPSUnsupportedProxiableUUIDError :: "abi \<Rightarrow> byte list \<Rightarrow> go_struct outcome" where
  "DecodeUUPSUnsupportedProxiableUUIDError =
     decode_error ''UUPSUnsupportedProxiableUUID'' ''UUPSUnsupportedProxiableUUID''
       [(''slot'', ''Slot'', TFix 32)]"

lemmas decoder_defs =
  DecodeAccessControlBadConfirmationError_def
  DecodeAccessControlEnforcedDefaultAdminDelayError_def
  DecodeAccessControlEnforcedDefaultAdminRulesError_def
  DecodeAccessControlInvalidDefaultAdminError_def
  DecodeAccessControlUnauthorizedAccountError_def
  DecodeAddressEmptyCodeError_def
  DecodeAllowlistUserNotAllowlistedError_def
  DecodeBaseVaultDepositFailedError_def
  DecodeBaseVaultDestinationVaultNotSetError_def
  DecodeBaseVaultEmptyInputError_def
  DecodeBaseVaultInvalidAdapterVaultError_def
  DecodeBaseVaultInvalidDestinationChainSelectorError_def
  DecodeBaseVaultInvalidInputLengthsError_def
  DecodeBaseVaultInvalidReceivedTokenError_def
  DecodeBaseVaultInvalidSenderError_def
  DecodeBaseVaultInvalidSourceChainSelectorError_def
  DecodeBaseVaultInvalidTokenAmountsLengthError_def
  DecodeBaseVaultInvalidTxTypeError_def
  DecodeBaseVaultNoActiveAdapterError_def
  DecodeBaseVaultNoAdapterRegisteredError_def
  DecodeBaseVaultNoPendingRecoveryError_def
  DecodeBaseVaultNoZeroAddressError_def
  DecodeBaseVaultNoZeroAmountError_def
  DecodeBaseVaultNoZeroChainSelectorError_def
  DecodeBaseVaultOnlySelfError_def
  DecodeBaseVaultRecoveryAlreadyPendingError_def
  DecodeBaseVaultWithdrawFailedError_def
  DecodeBaseVaultZeroRecoveryAmountError_def
  DecodeERC1967InvalidImplementationError_def
  DecodeERC1967NonPayableError_def
  DecodeEnforcedPauseError_def
  DecodeExpectedPauseError_def
  DecodeFailedCallError_def
  DecodeInvalidInitializationError_def
  DecodeInvalidRouterError_def
  DecodeNotInitializingError_def
  DecodeParentVaultAmountTooSmallError_def
  DecodeParentVaultCannotCompleteLocalRebalanceError_def
  DecodeParentVaultCannotRemoveActiveProtocolError_def
  DecodeParentVaultCannotRemovePendingProtocolError_def
  DecodeParentVaultDepositWouldMintZeroSharesError_def
  DecodeParentVaultEmptyEpochError_def
  DecodeParentVaultEpochExecutingError_def
  DecodeParentVaultEpochNotClaimableError_def
  DecodeParentVaultEpochNotExecutingError_def
  DecodeParentVaultEpochNotNetDepositError_def
  DecodeParentVaultEpochNotNetWithdrawError_def
  DecodeParentVaultEpochNotOpenError_def
  DecodeParentVaultEpochTooShortError_def
  DecodeParentVaultInitialActiveProtocolAdapterAlreadySetError_def
  DecodeParentVaultInvalidActualDepositAmountError_def
  DecodeParentVaultInvalidBeneficiaryError_def
  DecodeParentVaultInvalidChainSelectorError_def
  DecodeParentVaultInvalidEpochNonceError_def
  DecodeParentVaultInvalidPendingProtocolIdError_def
  DecodeParentVaultInvalidProtocolIdError_def
  DecodeParentVaultInvalidRebalanceNonceError_def
  DecodeParentVaultNoCompletedEpochError_def
  DecodeParentVaultNoDepositError_def
  DecodeParentVaultNoRebalanceInProgressError_def
  DecodeParentVaultNoWithdrawError_def
  DecodeParentVaultNoZeroAmountError_def
  DecodeParentVaultNoZeroProtocolIdError_def
  DecodeParentVaultRebalanceInProgressError_def
  DecodeParentVaultRebalanceTooSoonError_def
  DecodeParentVaultRemoteWithdrawAmountTooSmallError_def
  DecodeParentVaultSameStrategyError_def
  DecodeParentVaultShareBurnWithZeroTotalSharesError_def
  DecodeParentVaultZeroPricePerShareError_def
  DecodeParentVaultZeroTvlWithOutstandingSharesError_def
  DecodeReentrancyGuardReentrantCallError_def
  DecodeSafeCastOverflowedUintDowncastError_def
  DecodeSafeERC20FailedOperationError_def
  DecodeUUPSUnauthorizedCallContextError_def
  DecodeUUPSUnsupportedProxiableUUIDError_def

section \<open>Dispatch\<close>

text \<open>The cases of the switch, in the source's order.\<close>

definition parent_error_cases :: "(string \<times> (abi \<Rightarrow> byte list \<Rightarrow> go_struct outcome)) list" where
  "parent_error_cases =
     [(''AccessControlBadConfirmation'', DecodeAccessControlBadConfirmationError),
      (''AccessControlEnforcedDefaultAdminDelay'', DecodeAccessControlEnforcedDefaultAdminDelayError),
      (''AccessControlEnforcedDefaultAdminRules'', DecodeAccessControlEnforcedDefaultAdminRulesError),
      (''AccessControlInvalidDefaultAdmin'', DecodeAccessControlInvalidDefaultAdminError),
      (''AccessControlUnauthorizedAccount'', DecodeAccessControlUnauthorizedAccountError),
      (''AddressEmptyCode'', DecodeAddressEmptyCodeError),
      (''Allowlist__UserNotAllowlisted'', DecodeAllowlistUserNotAllowlistedError),
      (''BaseVault__DepositFailed'', DecodeBaseVaultDepositFailedError),
      (''BaseVault__DestinationVaultNotSet'', DecodeBaseVaultDestinationVaultNotSetError),
      (''BaseVault__EmptyInput'', DecodeBaseVaultEmptyInputError),
      (''BaseVault__InvalidAdapterVault'', DecodeBaseVaultInvalidAdapterVaultError),
      (''BaseVault__InvalidDestinationChainSelector'', DecodeBaseVaultInvalidDestinationChainSelectorError),
      (''BaseVault__InvalidInputLengths'', DecodeBaseVaultInvalidInputLengthsError),
      (''BaseVault__InvalidReceivedToken'', DecodeBaseVaultInvalidReceivedTokenError),
      (''BaseVault__InvalidSender'', DecodeBaseVaultInvalidSenderError),
      (''BaseVault__InvalidSourceChainSelector'', DecodeBaseVaultInvalidSourceChainSelectorError),
      (''BaseVault__InvalidTokenAmountsLength'', DecodeBaseVaultInvalidTokenAmountsLengthError),
      (''BaseVault__InvalidTxType'', DecodeBaseVaultInvalidTxTypeError),
      (''BaseVault__NoActiveAdapter'', DecodeBaseVaultNoActiveAdapterError),
      (''BaseVault__NoAdapterRegistered'', DecodeBaseVaultNoAdapterRegisteredError),
      (''BaseVault__NoPendingRecovery'', DecodeBaseVaultNoPendingRecoveryError),
      (''BaseVault__NoZeroAddress'', DecodeBaseVaultNoZeroAddressError),
      (''BaseVault__NoZeroAmount'', DecodeBaseVaultNoZeroAmountError),
      (''BaseVault__NoZeroChainSelector'', DecodeBaseVaultNoZeroChainSelectorError),
      (''BaseVault__OnlySelf'', DecodeBaseVaultOnlySelfError),
      (''BaseVault__RecoveryAlreadyPending'', DecodeBaseVaultRecoveryAlreadyPendingError),
      (''BaseVault__WithdrawFailed'', DecodeBaseVaultWithdrawFailedError),
      (''BaseVault__ZeroRecoveryAmount'', DecodeBaseVaultZeroRecoveryAmountError),
      (''ERC1967InvalidImplementation'', DecodeERC1967InvalidImplementationError),
      (''ERC1967NonPayable'', DecodeERC1967NonPayableError),
      (''EnforcedPause'', DecodeEnforcedPauseError),
      (''ExpectedPause'', DecodeExpectedPauseError),
      (''FailedCall'', DecodeFailedCallError),
      (''InvalidInitialization'', DecodeInvalidInitializationError),
      (''InvalidRouter'', DecodeInvalidRouterError),
      (''NotInitializing'', DecodeNotInitializingError),
      (''ParentVault__AmountTooSmall'', DecodeParentVaultAmountTooSmallError),
      (''ParentVault__CannotCompleteLocalRebalance'', DecodeParentVaultCannotCompleteLocalRebalanceError),
      (''ParentVault__CannotRemoveActiveProtocol'', DecodeParentVaultCannotRemoveActiveProtocolError),
      (''ParentVault__CannotRemovePendingProtocol'', DecodeParentVaultCannotRemovePendingProtocolError),
      (''ParentVault__DepositWouldMintZeroShares'', DecodeParentVaultDepositWouldMintZeroSharesError),
      (''ParentVault__EmptyEpoch'', DecodeParentVaultEmptyEpochError),
      (''ParentVault__EpochExecuting'', DecodeParentVaultEpochExecutingError),
      (''ParentVault__EpochNotClaimable'', DecodeParentVaultEpochNotClaimableError),
      (''ParentVault__EpochNotExecuting'', DecodeParentVaultEpochNotExecutingError),
      (''ParentVault__EpochNotNetDeposit'', DecodeParentVaultEpochNotNetDepositError),
      (''ParentVault__EpochNotNetWithdraw'', DecodeParentVaultEpochNotNetWithdrawError),
      (''ParentVault__EpochNotOpen'', DecodeParentVaultEpochNotOpenError),
      (''ParentVault__EpochTooShort'', DecodeParentVaultEpochTooShortError),
      (''ParentVault__InitialActiveProtocolAdapterAlreadySet'', DecodeParentVaultInitialActiveProtocolAdapterAlreadySetError),
      (''ParentVault__InvalidActualDepositAmount'', DecodeParentVaultInvalidActualDepositAmountError),
      (''ParentVault__InvalidBeneficiary'', DecodeParentVaultInvalidBeneficiaryError),
      (''ParentVault__InvalidChainSelector'', DecodeParentVaultInvalidChainSelectorError),
      (''ParentVault__InvalidEpochNonce'', DecodeParentVaultInvalidEpochNonceError),
      (''ParentVault__InvalidPendingProtocolId'', DecodeParentVaultInvalidPendingProtocolIdError),
      (''ParentVault__InvalidProtocolId'', DecodeParentVaultInvalidProtocolIdError),
      (''ParentVault__InvalidRebalanceNonce'', DecodeParentVaultInvalidRebalanceNonceError),
      (''ParentVault__NoCompletedEpoch'', DecodeParentVaultNoCompletedEpochError),
      (''ParentVault__NoDeposit'', DecodeParentVaultNoDepositError),
      (''ParentVault__NoRebalanceInProgress'', DecodeParentVaultNoRebalanceInProgressError),
      (''ParentVault__NoWithdraw'', DecodeParentVaultNoWithdrawError),
      (''ParentVault__NoZeroAmount'', DecodeParentVaultNoZeroAmountError),
      (''ParentVault__NoZeroProtocolId'', DecodeParentVaultNoZeroProtocolIdError),
      (''ParentVault__RebalanceInProgress'', DecodeParentVaultRebalanceInProgressError),
      (''ParentVault__RebalanceTooSoon'', DecodeParentVaultRebalanceTooSoonError),
      (''ParentVault__RemoteWithdrawAmountTooSmall'', DecodeParentVaultRemoteWithdrawAmountTooSmallError),
      (''ParentVault__SameStrategy'', DecodeParentVaultSameStrategyError),
      (''ParentVault__ShareBurnWithZeroTotalShares'', DecodeParentVaultShareBurnWithZeroTotalSharesError),
      (''ParentVault__ZeroPricePerShare'', DecodeParentVaultZeroPricePerShareError),
      (''ParentVault__ZeroTvlWithOutstandingShares'', DecodeParentVaultZeroTvlWithOutstandingSharesError),
      (''ReentrancyGuardReentrantCall'', DecodeReentrancyGuardReentrantCallError),
      (''SafeCastOverflowedUintDowncast'', DecodeSafeCastOverflowedUintDowncastError),
      (''SafeERC20FailedOperation'', DecodeSafeERC20FailedOperationError),
      (''UUPSUnauthorizedCallContext'', DecodeUUPSUnauthorizedCallContextError),
      (''UUPSUnsupportedProxiableUUID'', DecodeUUPSUnsupportedProxiableUUIDError)]"

definition error_selector :: "abi \<Rightarrow> string \<Rightarrow> byte list" where
  "error_selector c name = take 4 (abi_ErrorID c name)"

fun switch_error ::
    "abi \<Rightarrow> byte list \<Rightarrow> (string \<times> (abi \<Rightarrow> byte list \<Rightarrow> go_struct outcome)) list \<Rightarrow> go_struct outcome" where
  "switch_error c data [] = Err (Errorf ''unknown error selector'' [])"
| "switch_error c data ((name, decode) # cs) =
     (if take 4 data = error_selector c name then decode c data else switch_error c data cs)"

definition UnpackError :: "abi \<Rightarrow> byte list \<Rightarrow> go_struct outcome" where
  "UnpackError c data =
     (if length data < 4 then Panic ''slice bounds out of range'' else switch_error c data parent_error_cases)"

section \<open>What a decoded error is\<close>

text \<open>The errors of the contract: ABI name, Go struct, fields.\<close>

definition parent_error_table :: "(string \<times> string \<times> error_field list) list" where
  "parent_error_table =
     [(''AccessControlBadConfirmation'', ''AccessControlBadConfirmation'', []),
      (''AccessControlEnforcedDefaultAdminDelay'', ''AccessControlEnforcedDefaultAdminDelay'', [(''schedule'', ''Schedule'', TBig)]),
      (''AccessControlEnforcedDefaultAdminRules'', ''AccessControlEnforcedDefaultAdminRules'', []),
      (''AccessControlInvalidDefaultAdmin'', ''AccessControlInvalidDefaultAdmin'', [(''defaultAdmin'', ''DefaultAdmin'', TAddr)]),
      (''AccessControlUnauthorizedAccount'', ''AccessControlUnauthorizedAccount'', [(''account'', ''Account'', TAddr), (''neededRole'', ''NeededRole'', TFix 32)]),
      (''AddressEmptyCode'', ''AddressEmptyCode'', [(''target'', ''Target'', TAddr)]),
      (''Allowlist__UserNotAllowlisted'', ''AllowlistUserNotAllowlisted'', [(''user'', ''User'', TAddr)]),
      (''BaseVault__DepositFailed'', ''BaseVaultDepositFailed'', [(''amount'', ''Amount'', TBig)]),
      (''BaseVault__DestinationVaultNotSet'', ''BaseVaultDestinationVaultNotSet'', [(''destinationChainSelector'', ''DestinationChainSelector'', TU64)]),
      (''BaseVault__EmptyInput'', ''BaseVaultEmptyInput'', []),
      (''BaseVault__InvalidAdapterVault'', ''BaseVaultInvalidAdapterVault'', [(''adapter'', ''Adapter'', TAddr), (''actualVault'', ''ActualVault'', TAddr), (''expectedVault'', ''ExpectedVault'', TAddr)]),
      (''BaseVault__InvalidDestinationChainSelector'', ''BaseVaultInvalidDestinationChainSelector'', [(''destinationChainSelector'', ''DestinationChainSelector'', TU64)]),
      (''BaseVault__InvalidInputLengths'', ''BaseVaultInvalidInputLengths'', []),
      (''BaseVault__InvalidReceivedToken'', ''BaseVaultInvalidReceivedToken'', [(''receivedToken'', ''ReceivedToken'', TAddr), (''expectedToken'', ''ExpectedToken'', TAddr)]),
      (''BaseVault__InvalidSender'', ''BaseVaultInvalidSender'', [(''sender'', ''Sender'', TAddr), (''srcChainSelector'', ''SrcChainSelector'', TU64)]),
      (''BaseVault__InvalidSourceChainSelector'', ''BaseVaultInvalidSourceChainSelector'', [(''sourceChainSelector'', ''SourceChainSelector'', TU64), (''expectedSourceChainSelector'', ''ExpectedSourceChainSelector'', TU64)]),
      (''BaseVault__InvalidTokenAmountsLength'', ''BaseVaultInvalidTokenAmountsLength'', [(''receivedLength'', ''ReceivedLength'', TBig), (''expectedLength'', ''ExpectedLength'', TBig)]),
      (''BaseVault__InvalidTxType'', ''BaseVaultInvalidTxType'', [(''ccipTxType'', ''CcipTxType'', TU8)]),
      (''BaseVault__NoActiveAdapter'', ''BaseVaultNoActiveAdapter'', []),
      (''BaseVault__NoAdapterRegistered'', ''BaseVaultNoAdapterRegistered'', [(''protocolId'', ''ProtocolId'', TFix 32)]),
      (''BaseVault__NoPendingRecovery'', ''BaseVaultNoPendingRecovery'', []),
      (''BaseVault__NoZeroAddress'', ''BaseVaultNoZeroAddress'', []),
      (''BaseVault__NoZeroAmount'', ''BaseVaultNoZeroAmount'', []),
      (''BaseVault__NoZeroChainSelector'', ''BaseVaultNoZeroChainSelector'', []),
      (''BaseVault__OnlySelf'', ''BaseVaultOnlySelf'', []),
      (''BaseVault__RecoveryAlreadyPending'', ''BaseVaultRecoveryAlreadyPending'', []),
      (''BaseVault__WithdrawFailed'', ''BaseVaultWithdrawFailed'', [(''amount'', ''Amount'', TBig)]),
      (''BaseVault__ZeroRecoveryAmount'', ''BaseVaultZeroRecoveryAmount'', []),
      (''ERC1967InvalidImplementation'', ''ERC1967InvalidImplementation'', [(''implementation'', ''Implementation'', TAddr)]),
      (''ERC1967NonPayable'', ''ERC1967NonPayable'', []),
      (''EnforcedPause'', ''EnforcedPause'', []),
      (''ExpectedPause'', ''ExpectedPause'', []),
      (''FailedCall'', ''FailedCall'', []),
      (''InvalidInitialization'', ''InvalidInitialization'', []),
      (''InvalidRouter'', ''InvalidRouter'', [(''router'', ''Router'', TAddr)]),
      (''NotInitializing'', ''NotInitializing'', []),
      (''ParentVault__AmountTooSmall'', ''ParentVaultAmountTooSmall'', [(''amount'', ''Amount'', TBig)]),
      (''ParentVault__CannotCompleteLocalRebalance'', ''ParentVaultCannotCompleteLocalRebalance'', []),
      (''ParentVault__CannotRemoveActiveProtocol'', ''ParentVaultCannotRemoveActiveProtocol'', [(''protocolId'', ''ProtocolId'', TFix 32)]),
      (''ParentVault__CannotRemovePendingProtocol'', ''ParentVaultCannotRemovePendingProtocol'', [(''protocolId'', ''ProtocolId'', TFix 32)]),
      (''ParentVault__DepositWouldMintZeroShares'', ''ParentVaultDepositWouldMintZeroShares'', []),
      (''ParentVault__EmptyEpoch'', ''ParentVaultEmptyEpoch'', [(''epochNonce'', ''EpochNonce'', TBig)]),
      (''ParentVault__EpochExecuting'', ''ParentVaultEpochExecuting'', [(''epochNonce'', ''EpochNonce'', TBig)]),
      (''ParentVault__EpochNotClaimable'', ''ParentVaultEpochNotClaimable'', [(''epochNonce'', ''EpochNonce'', TBig)]),
      (''ParentVault__EpochNotExecuting'', ''ParentVaultEpochNotExecuting'', [(''epochNonce'', ''EpochNonce'', TBig)]),
      (''ParentVault__EpochNotNetDeposit'', ''ParentVaultEpochNotNetDeposit'', [(''epochNonce'', ''EpochNonce'', TBig)]),
      (''ParentVault__EpochNotNetWithdraw'', ''ParentVaultEpochNotNetWithdraw'', [(''epochNonce'', ''EpochNonce'', TBig)]),
      (''ParentVault__EpochNotOpen'', ''ParentVaultEpochNotOpen'', [(''epochNonce'', ''EpochNonce'', TBig)]),
      (''ParentVault__EpochTooShort'', ''ParentVaultEpochTooShort'', [(''epochNonce'', ''EpochNonce'', TBig)]),
      (''ParentVault__InitialActiveProtocolAdapterAlreadySet'', ''ParentVaultInitialActiveProtocolAdapterAlreadySet'', []),
      (''ParentVault__InvalidActualDepositAmount'', ''ParentVaultInvalidActualDepositAmount'', [(''actualDepositAmount'', ''ActualDepositAmount'', TBig), (''expectedDepositAmount'', ''ExpectedDepositAmount'', TBig)]),
      (''ParentVault__InvalidBeneficiary'', ''ParentVaultInvalidBeneficiary'', []),
      (''ParentVault__InvalidChainSelector'', ''ParentVaultInvalidChainSelector'', [(''chainSelector'', ''ChainSelector'', TU64)]),
      (''ParentVault__InvalidEpochNonce'', ''ParentVaultInvalidEpochNonce'', [(''epochNonce'', ''EpochNonce'', TBig)]),
      (''ParentVault__InvalidPendingProtocolId'', ''ParentVaultInvalidPendingProtocolId'', [(''protocolId'', ''ProtocolId'', TFix 32)]),
      (''ParentVault__InvalidProtocolId'', ''ParentVaultInvalidProtocolId'', [(''protocolId'', ''ProtocolId'', TFix 32)]),
      (''ParentVault__InvalidRebalanceNonce'', ''ParentVaultInvalidRebalanceNonce'', [(''rebalanceNonce'', ''RebalanceNonce'', TBig)]),
      (''ParentVault__NoCompletedEpoch'', ''ParentVaultNoCompletedEpoch'', []),
      (''ParentVault__NoDeposit'', ''ParentVaultNoDeposit'', [(''depositor'', ''Depositor'', TAddr), (''epochNonce'', ''EpochNonce'', TBig)]),
      (''ParentVault__NoRebalanceInProgress'', ''ParentVaultNoRebalanceInProgress'', []),
      (''ParentVault__NoWithdraw'', ''ParentVaultNoWithdraw'', [(''withdrawer'', ''Withdrawer'', TAddr), (''epochNonce'', ''EpochNonce'', TBig)]),
      (''ParentVault__NoZeroAmount'', ''ParentVaultNoZeroAmount'', []),
      (''ParentVault__NoZeroProtocolId'', ''ParentVaultNoZeroProtocolId'', []),
      (''ParentVault__RebalanceInProgress'', ''ParentVaultRebalanceInProgress'', []),
      (''ParentVault__RebalanceTooSoon'', ''ParentVaultRebalanceTooSoon'', [(''rebalanceNonce'', ''RebalanceNonce'', TBig)]),
      (''ParentVault__RemoteWithdrawAmountTooSmall'', ''ParentVaultRemoteWithdrawAmountTooSmall'', [(''amount'', ''Amount'', TBig)]),
      (''ParentVault__SameStrategy'', ''ParentVaultSameStrategy'', []),
      (''ParentVault__ShareBurnWithZeroTotalShares'', ''ParentVaultShareBurnWithZeroTotalShares'', []),
      (''ParentVault__ZeroPricePerShare'', ''ParentVaultZeroPricePerShare'', []),
      (''ParentVault__ZeroTvlWithOutstandingShares'', ''ParentVaultZeroTvlWithOutstandingShares'', []),
      (''ReentrancyGuardReentrantCall'', ''ReentrancyGuardReentrantCall'', []),
      (''SafeCastOverflowedUintDowncast'', ''SafeCastOverflowedUintDowncast'', [(''bits'', ''Bits'', TU8), (''value'', ''Value'', TBig)]),
      (''SafeERC20FailedOperation'', ''SafeERC20FailedOperation'', [(''token'', ''Token'', TAddr)]),
      (''UUPSUnauthorizedCallContext'', ''UUPSUnauthorizedCallContext'', []),
      (''UUPSUnsupportedProxiableUUID'', ''UUPSUnsupportedProxiableUUID'', [(''slot'', ''Slot'', TFix 32)])]"

definition table_decoder :: "string \<times> string \<times> error_field list \<Rightarrow> string \<times> (abi \<Rightarrow> byte list \<Rightarrow> go_struct outcome)" where
  "table_decoder = (\<lambda>(abiName, goName, flds). (abiName, decode_error abiName goName flds))"

lemma parent_error_cases_table: "parent_error_cases = map table_decoder parent_error_table"
  by (simp add: parent_error_cases_def parent_error_table_def table_decoder_def decoder_defs)

definition typed_fields :: "error_field list \<Rightarrow> gval list \<Rightarrow> bool" where
  "typed_fields flds vs = list_all2 (\<lambda>f v. has_type (snd (snd f)) v) flds vs"

definition field_names :: "error_field list \<Rightarrow> string list" where
  "field_names flds = map (\<lambda>f. fst (snd f)) flds"

lemma typed_values_Ok:
  "length vs = length flds \<Longrightarrow>
     typed_values name flds vs = Ok r \<longleftrightarrow> typed_fields flds vs \<and> r = zip (field_names flds) vs"
  by (induction name flds vs arbitrary: r rule: typed_values.induct)
    (auto simp: typed_fields_def field_names_def bindO_Ok_iff)

lemma decode_error_Ok:
  "decode_error abiName goName flds c data = Ok e \<longleftrightarrow>
     4 \<le> length data \<and>
     (\<exists>vs. abi_ErrorUnpack c abiName (drop 4 data) = Ok vs \<and> length vs = length flds \<and> typed_fields flds vs \<and>
        e = \<lparr>gs_Type = goName, gs_Fields = zip (field_names flds) vs\<rparr>)"
  by (auto simp: decode_error_def bindO_Ok_iff typed_values_Ok)

lemma switch_error_map:
  "switch_error c data (map table_decoder ts) =
     (case find (\<lambda>t. take 4 data = error_selector c (fst t)) ts of
        None \<Rightarrow> Err (Errorf ''unknown error selector'' [])
      | Some (abiName, goName, flds) \<Rightarrow> decode_error abiName goName flds c data)"
  by (induction ts) (auto simp: table_decoder_def split: option.splits)

text \<open>Selectors that tell the errors of a table apart.\<close>

definition selectors_distinct :: "(string \<times> string \<times> error_field list) list \<Rightarrow> abi \<Rightarrow> bool" where
  "selectors_distinct ts c \<longleftrightarrow> distinct (map (\<lambda>t. error_selector c (fst t)) ts)"

lemma find_by_key:
  assumes "distinct (map k ts)" "t \<in> set ts"
  shows "find (\<lambda>x. k t = k x) ts = Some t"
  using assms by (induction ts) (auto simp: image_iff)

text \<open>
  What a dispatch over a table of errors does, whichever contract the table belongs to: \<open>unpack\<close> panics on data
  shorter than a selector and otherwise tries the decoders of the table in order.
\<close>

locale error_dispatch =
  fixes ts :: "(string \<times> string \<times> error_field list) list"
    and unpack :: "abi \<Rightarrow> byte list \<Rightarrow> go_struct outcome"
  assumes short: "length data < 4 \<Longrightarrow> unpack c data = Panic ''slice bounds out of range''"
    and dispatch: "4 \<le> length data \<Longrightarrow> unpack c data = switch_error c data (map table_decoder ts)"
begin

lemma at_table:
  assumes "selectors_distinct ts c" "(abiName, goName, flds) \<in> set ts" "length (error_selector c abiName) = 4"
  shows "unpack c (error_selector c abiName @ args) = decode_error abiName goName flds c (error_selector c abiName @ args)"
  using assms find_by_key [of "\<lambda>t. error_selector c (fst t)" ts "(abiName, goName, flds)"]
  by (simp add: dispatch switch_error_map selectors_distinct_def)

lemma roundtrip:
  assumes "selectors_distinct ts c" "(abiName, goName, flds) \<in> set ts" "length (error_selector c abiName) = 4"
    and "abi_ErrorUnpack c abiName args = Ok vs" "typed_fields flds vs"
  shows "unpack c (error_selector c abiName @ args) = Ok \<lparr>gs_Type = goName, gs_Fields = zip (field_names flds) vs\<rparr>"
proof -
  have "length vs = length flds" using assms(5) by (simp add: typed_fields_def list_all2_lengthD)
  then show ?thesis unfolding at_table [OF assms(1-3)] decode_error_Ok using assms(3-5) by simp
qed

lemma typed:
  assumes "unpack c data = Ok e"
  shows "\<exists>abiName flds vs. (abiName, gs_Type e, flds) \<in> set ts \<and> take 4 data = error_selector c abiName \<and>
    typed_fields flds vs \<and> gs_Fields e = zip (field_names flds) vs"
proof -
  have "4 \<le> length data" using assms short [of data c] by (cases "length data < 4") auto
  with assms show ?thesis
    by (auto simp: dispatch switch_error_map decode_error_Ok find_Some_iff split: option.splits dest: nth_mem)
      (metis fst_conv nth_mem)
qed

lemma unplaced:
  assumes "4 \<le> length data" "\<forall>t\<in>set ts. take 4 data \<noteq> error_selector c (fst t)"
  shows "unpack c data = Err (Errorf ''unknown error selector'' [])"
proof -
  have "find (\<lambda>t. take 4 data = error_selector c (fst t)) ts = None" using assms(2) unfolding find_None_iff by blast
  then show ?thesis by (simp add: dispatch [OF assms(1)] switch_error_map)
qed

end

interpretation parent_errors: error_dispatch parent_error_table UnpackError
  by unfold_locales (simp_all add: UnpackError_def parent_error_cases_table)

end
