(* ===== verification/Vault_Events.thy ===== *)
theory Vault_Events
  imports Vault_Bindings
begin

text \<open>
  The remaining events of the parent vault
  (\<open>cre/contracts/evm/src/generated/parent_vault/ParentVault.go\<close>): the decoder and the signature hash of
  each event that the workflow does not subscribe to. The four subscribed events are in
  \<open>Vault_Bindings\<close>. A decoded event is its Go struct, field by field; the struct starts at its zero value.
\<close>

section \<open>Decoders and signatures\<close>

definition DecodeActiveProtocolAdapterCleared :: "env \<Rightarrow> codec \<Rightarrow> evm_log option \<Rightarrow> gstruct outcome" where
  "DecodeActiveProtocolAdapterCleared E c lg =
     decode_event E c [(''Adapter'', GAddr 0)]
       ''ActiveProtocolAdapterCleared'' lg"

definition ActiveProtocolAdapterClearedLogHash :: "codec \<Rightarrow> byte list" where
  "ActiveProtocolAdapterClearedLogHash c = abi_EventID (codec_abi c) ''ActiveProtocolAdapterCleared''"

definition DecodeActiveProtocolAdapterSet :: "env \<Rightarrow> codec \<Rightarrow> evm_log option \<Rightarrow> gstruct outcome" where
  "DecodeActiveProtocolAdapterSet E c lg =
     decode_event E c [(''ProtocolId'', GFix (replicate 32 0)), (''Adapter'', GAddr 0)]
       ''ActiveProtocolAdapterSet'' lg"

definition ActiveProtocolAdapterSetLogHash :: "codec \<Rightarrow> byte list" where
  "ActiveProtocolAdapterSetLogHash c = abi_EventID (codec_abi c) ''ActiveProtocolAdapterSet''"

definition DecodeAllowlistEnabledSet :: "env \<Rightarrow> codec \<Rightarrow> evm_log option \<Rightarrow> gstruct outcome" where
  "DecodeAllowlistEnabledSet E c lg = decode_event E c [(''Enabled'', GBool False)] ''AllowlistEnabledSet'' lg"

definition AllowlistEnabledSetLogHash :: "codec \<Rightarrow> byte list" where
  "AllowlistEnabledSetLogHash c = abi_EventID (codec_abi c) ''AllowlistEnabledSet''"

definition DecodeAllowlistedUserSet :: "env \<Rightarrow> codec \<Rightarrow> evm_log option \<Rightarrow> gstruct outcome" where
  "DecodeAllowlistedUserSet E c lg =
     decode_event E c [(''User'', GAddr 0), (''Allowed'', GBool False)]
       ''AllowlistedUserSet'' lg"

definition AllowlistedUserSetLogHash :: "codec \<Rightarrow> byte list" where
  "AllowlistedUserSetLogHash c = abi_EventID (codec_abi c) ''AllowlistedUserSet''"

definition DecodeCCIPBridged :: "env \<Rightarrow> codec \<Rightarrow> evm_log option \<Rightarrow> gstruct outcome" where
  "DecodeCCIPBridged E c lg =
     decode_event E c [(''CcipMessageId'', GFix (replicate 32 0)), (''DestinationChainSelector'', GU64 0), (''CcipTxType'', GU8 0)]
       ''CCIPBridged'' lg"

definition CCIPBridgedLogHash :: "codec \<Rightarrow> byte list" where
  "CCIPBridgedLogHash c = abi_EventID (codec_abi c) ''CCIPBridged''"

definition DecodeCCIPReceived :: "env \<Rightarrow> codec \<Rightarrow> evm_log option \<Rightarrow> gstruct outcome" where
  "DecodeCCIPReceived E c lg =
     decode_event E c [(''CcipMessageId'', GFix (replicate 32 0)), (''SourceChainSelector'', GU64 0), (''CcipTxType'', GU8 0)]
       ''CCIPReceived'' lg"

definition CCIPReceivedLogHash :: "codec \<Rightarrow> byte list" where
  "CCIPReceivedLogHash c = abi_EventID (codec_abi c) ''CCIPReceived''"

definition DecodeCcipGasLimitSet :: "env \<Rightarrow> codec \<Rightarrow> evm_log option \<Rightarrow> gstruct outcome" where
  "DecodeCcipGasLimitSet E c lg =
     decode_event E c [(''ChainSelector'', GU64 0), (''GasLimit'', GBig None)]
       ''CcipGasLimitSet'' lg"

definition CcipGasLimitSetLogHash :: "codec \<Rightarrow> byte list" where
  "CcipGasLimitSetLogHash c = abi_EventID (codec_abi c) ''CcipGasLimitSet''"

definition DecodeCrosschainVaultSet :: "env \<Rightarrow> codec \<Rightarrow> evm_log option \<Rightarrow> gstruct outcome" where
  "DecodeCrosschainVaultSet E c lg =
     decode_event E c [(''ChainSelector'', GU64 0), (''Vault'', GAddr 0)]
       ''CrosschainVaultSet'' lg"

definition CrosschainVaultSetLogHash :: "codec \<Rightarrow> byte list" where
  "CrosschainVaultSetLogHash c = abi_EventID (codec_abi c) ''CrosschainVaultSet''"

definition DecodeDefaultAdminDelayChangeCanceled :: "env \<Rightarrow> codec \<Rightarrow> evm_log option \<Rightarrow> gstruct outcome" where
  "DecodeDefaultAdminDelayChangeCanceled E c lg = decode_event E c [] ''DefaultAdminDelayChangeCanceled'' lg"

definition DefaultAdminDelayChangeCanceledLogHash :: "codec \<Rightarrow> byte list" where
  "DefaultAdminDelayChangeCanceledLogHash c = abi_EventID (codec_abi c) ''DefaultAdminDelayChangeCanceled''"

definition DecodeDefaultAdminDelayChangeScheduled :: "env \<Rightarrow> codec \<Rightarrow> evm_log option \<Rightarrow> gstruct outcome" where
  "DecodeDefaultAdminDelayChangeScheduled E c lg =
     decode_event E c [(''NewDelay'', GBig None), (''EffectSchedule'', GBig None)]
       ''DefaultAdminDelayChangeScheduled'' lg"

definition DefaultAdminDelayChangeScheduledLogHash :: "codec \<Rightarrow> byte list" where
  "DefaultAdminDelayChangeScheduledLogHash c = abi_EventID (codec_abi c) ''DefaultAdminDelayChangeScheduled''"

definition DecodeDefaultAdminTransferCanceled :: "env \<Rightarrow> codec \<Rightarrow> evm_log option \<Rightarrow> gstruct outcome" where
  "DecodeDefaultAdminTransferCanceled E c lg = decode_event E c [] ''DefaultAdminTransferCanceled'' lg"

definition DefaultAdminTransferCanceledLogHash :: "codec \<Rightarrow> byte list" where
  "DefaultAdminTransferCanceledLogHash c = abi_EventID (codec_abi c) ''DefaultAdminTransferCanceled''"

definition DecodeDefaultAdminTransferScheduled :: "env \<Rightarrow> codec \<Rightarrow> evm_log option \<Rightarrow> gstruct outcome" where
  "DecodeDefaultAdminTransferScheduled E c lg =
     decode_event E c [(''NewAdmin'', GAddr 0), (''AcceptSchedule'', GBig None)]
       ''DefaultAdminTransferScheduled'' lg"

definition DefaultAdminTransferScheduledLogHash :: "codec \<Rightarrow> byte list" where
  "DefaultAdminTransferScheduledLogHash c = abi_EventID (codec_abi c) ''DefaultAdminTransferScheduled''"

definition DecodeDefaultCcipGasLimitSet :: "env \<Rightarrow> codec \<Rightarrow> evm_log option \<Rightarrow> gstruct outcome" where
  "DecodeDefaultCcipGasLimitSet E c lg = decode_event E c [(''GasLimit'', GBig None)] ''DefaultCcipGasLimitSet'' lg"

definition DefaultCcipGasLimitSetLogHash :: "codec \<Rightarrow> byte list" where
  "DefaultCcipGasLimitSetLogHash c = abi_EventID (codec_abi c) ''DefaultCcipGasLimitSet''"

definition DecodeDepositCancelled :: "env \<Rightarrow> codec \<Rightarrow> evm_log option \<Rightarrow> gstruct outcome" where
  "DecodeDepositCancelled E c lg =
     decode_event E c [(''EpochNonce'', GBig None), (''Depositor'', GAddr 0), (''Amount'', GBig None)]
       ''DepositCancelled'' lg"

definition DepositCancelledLogHash :: "codec \<Rightarrow> byte list" where
  "DepositCancelledLogHash c = abi_EventID (codec_abi c) ''DepositCancelled''"

definition DecodeDepositClaimed :: "env \<Rightarrow> codec \<Rightarrow> evm_log option \<Rightarrow> gstruct outcome" where
  "DecodeDepositClaimed E c lg =
     decode_event E c [(''EpochNonce'', GBig None), (''Depositor'', GAddr 0), (''ShareMintAmount'', GBig None)]
       ''DepositClaimed'' lg"

definition DepositClaimedLogHash :: "codec \<Rightarrow> byte list" where
  "DepositClaimedLogHash c = abi_EventID (codec_abi c) ''DepositClaimed''"

definition DecodeDepositForceCancelled :: "env \<Rightarrow> codec \<Rightarrow> evm_log option \<Rightarrow> gstruct outcome" where
  "DecodeDepositForceCancelled E c lg =
     decode_event E c [(''EpochNonce'', GBig None), (''Depositor'', GAddr 0), (''Amount'', GBig None)]
       ''DepositForceCancelled'' lg"

definition DepositForceCancelledLogHash :: "codec \<Rightarrow> byte list" where
  "DepositForceCancelledLogHash c = abi_EventID (codec_abi c) ''DepositForceCancelled''"

definition DecodeDepositSubmitted :: "env \<Rightarrow> codec \<Rightarrow> evm_log option \<Rightarrow> gstruct outcome" where
  "DecodeDepositSubmitted E c lg =
     decode_event E c [(''EpochNonce'', GBig None), (''Depositor'', GAddr 0), (''Amount'', GBig None)]
       ''DepositSubmitted'' lg"

definition DepositSubmittedLogHash :: "codec \<Rightarrow> byte list" where
  "DepositSubmittedLogHash c = abi_EventID (codec_abi c) ''DepositSubmitted''"

definition DecodeEpochClaimable :: "env \<Rightarrow> codec \<Rightarrow> evm_log option \<Rightarrow> gstruct outcome" where
  "DecodeEpochClaimable E c lg = decode_event E c [(''EpochNonce'', GBig None)] ''EpochClaimable'' lg"

definition EpochClaimableLogHash :: "codec \<Rightarrow> byte list" where
  "EpochClaimableLogHash c = abi_EventID (codec_abi c) ''EpochClaimable''"

definition DecodeEpochDepositExecuting :: "env \<Rightarrow> codec \<Rightarrow> evm_log option \<Rightarrow> gstruct outcome" where
  "DecodeEpochDepositExecuting E c lg =
     decode_event E c [(''EpochNonce'', GBig None), (''Amount'', GBig None)]
       ''EpochDepositExecuting'' lg"

definition EpochDepositExecutingLogHash :: "codec \<Rightarrow> byte list" where
  "EpochDepositExecutingLogHash c = abi_EventID (codec_abi c) ''EpochDepositExecuting''"

definition DecodeEpochDepositReconciled :: "env \<Rightarrow> codec \<Rightarrow> evm_log option \<Rightarrow> gstruct outcome" where
  "DecodeEpochDepositReconciled E c lg =
     decode_event E c [(''EpochNonce'', GBig None), (''ActualDepositAmount'', GBig None), (''ShareReduction'', GBig None)]
       ''EpochDepositReconciled'' lg"

definition EpochDepositReconciledLogHash :: "codec \<Rightarrow> byte list" where
  "EpochDepositReconciledLogHash c = abi_EventID (codec_abi c) ''EpochDepositReconciled''"

definition DecodeEpochOpen :: "env \<Rightarrow> codec \<Rightarrow> evm_log option \<Rightarrow> gstruct outcome" where
  "DecodeEpochOpen E c lg = decode_event E c [(''EpochNonce'', GBig None)] ''EpochOpen'' lg"

definition EpochOpenLogHash :: "codec \<Rightarrow> byte list" where
  "EpochOpenLogHash c = abi_EventID (codec_abi c) ''EpochOpen''"

definition DecodeEpochWithdrawAmountShort :: "env \<Rightarrow> codec \<Rightarrow> evm_log option \<Rightarrow> gstruct outcome" where
  "DecodeEpochWithdrawAmountShort E c lg =
     decode_event E c [(''EpochNonce'', GBig None), (''ExpectedAmount'', GBig None), (''ActualAmount'', GBig None)]
       ''EpochWithdrawAmountShort'' lg"

definition EpochWithdrawAmountShortLogHash :: "codec \<Rightarrow> byte list" where
  "EpochWithdrawAmountShortLogHash c = abi_EventID (codec_abi c) ''EpochWithdrawAmountShort''"

definition DecodeEpochWithdrawFromStrategySuccess :: "env \<Rightarrow> codec \<Rightarrow> evm_log option \<Rightarrow> gstruct outcome" where
  "DecodeEpochWithdrawFromStrategySuccess E c lg =
     decode_event E c [(''EpochNonce'', GBig None), (''Amount'', GBig None)]
       ''EpochWithdrawFromStrategySuccess'' lg"

definition EpochWithdrawFromStrategySuccessLogHash :: "codec \<Rightarrow> byte list" where
  "EpochWithdrawFromStrategySuccessLogHash c = abi_EventID (codec_abi c) ''EpochWithdrawFromStrategySuccess''"

definition DecodeInitialActiveProtocolAdapterSet :: "env \<Rightarrow> codec \<Rightarrow> evm_log option \<Rightarrow> gstruct outcome" where
  "DecodeInitialActiveProtocolAdapterSet E c lg =
     decode_event E c [(''ProtocolId'', GFix (replicate 32 0)), (''Adapter'', GAddr 0)]
       ''InitialActiveProtocolAdapterSet'' lg"

definition InitialActiveProtocolAdapterSetLogHash :: "codec \<Rightarrow> byte list" where
  "InitialActiveProtocolAdapterSetLogHash c = abi_EventID (codec_abi c) ''InitialActiveProtocolAdapterSet''"

definition DecodeInitialized :: "env \<Rightarrow> codec \<Rightarrow> evm_log option \<Rightarrow> gstruct outcome" where
  "DecodeInitialized E c lg = decode_event E c [(''Version'', GU64 0)] ''Initialized'' lg"

definition InitializedLogHash :: "codec \<Rightarrow> byte list" where
  "InitializedLogHash c = abi_EventID (codec_abi c) ''Initialized''"

definition DecodeLinkWithdrawn :: "env \<Rightarrow> codec \<Rightarrow> evm_log option \<Rightarrow> gstruct outcome" where
  "DecodeLinkWithdrawn E c lg =
     decode_event E c [(''Operator'', GAddr 0), (''Amount'', GBig None)]
       ''LinkWithdrawn'' lg"

definition LinkWithdrawnLogHash :: "codec \<Rightarrow> byte list" where
  "LinkWithdrawnLogHash c = abi_EventID (codec_abi c) ''LinkWithdrawn''"

definition DecodeManagementFeeCollected :: "env \<Rightarrow> codec \<Rightarrow> evm_log option \<Rightarrow> gstruct outcome" where
  "DecodeManagementFeeCollected E c lg =
     decode_event E c [(''RebalanceNonce'', GBig None), (''FeeShares'', GBig None)]
       ''ManagementFeeCollected'' lg"

definition ManagementFeeCollectedLogHash :: "codec \<Rightarrow> byte list" where
  "ManagementFeeCollectedLogHash c = abi_EventID (codec_abi c) ''ManagementFeeCollected''"

definition DecodePaused :: "env \<Rightarrow> codec \<Rightarrow> evm_log option \<Rightarrow> gstruct outcome" where
  "DecodePaused E c lg = decode_event E c [(''Account'', GAddr 0)] ''Paused'' lg"

definition PausedLogHash :: "codec \<Rightarrow> byte list" where
  "PausedLogHash c = abi_EventID (codec_abi c) ''Paused''"

definition DecodeRebalanceCompleted :: "env \<Rightarrow> codec \<Rightarrow> evm_log option \<Rightarrow> gstruct outcome" where
  "DecodeRebalanceCompleted E c lg =
     decode_event E c [(''RebalanceNonce'', GBig None), (''NewProtocolId'', GFix (replicate 32 0)), (''NewChainSelector'', GU64 0)]
       ''RebalanceCompleted'' lg"

definition RebalanceCompletedLogHash :: "codec \<Rightarrow> byte list" where
  "RebalanceCompletedLogHash c = abi_EventID (codec_abi c) ''RebalanceCompleted''"

definition DecodeRebalanceDepositFailure :: "env \<Rightarrow> codec \<Rightarrow> evm_log option \<Rightarrow> gstruct outcome" where
  "DecodeRebalanceDepositFailure E c lg =
     decode_event E c [(''RebalanceNonce'', GBig None), (''Amount'', GBig None)]
       ''RebalanceDepositFailure'' lg"

definition RebalanceDepositFailureLogHash :: "codec \<Rightarrow> byte list" where
  "RebalanceDepositFailureLogHash c = abi_EventID (codec_abi c) ''RebalanceDepositFailure''"

definition DecodeRebalanceDepositRecoveryCleared :: "env \<Rightarrow> codec \<Rightarrow> evm_log option \<Rightarrow> gstruct outcome" where
  "DecodeRebalanceDepositRecoveryCleared E c lg =
     decode_event E c [(''RebalanceNonce'', GBig None)]
       ''RebalanceDepositRecoveryCleared'' lg"

definition RebalanceDepositRecoveryClearedLogHash :: "codec \<Rightarrow> byte list" where
  "RebalanceDepositRecoveryClearedLogHash c = abi_EventID (codec_abi c) ''RebalanceDepositRecoveryCleared''"

definition DecodeRebalanceDepositRecoveryStored :: "env \<Rightarrow> codec \<Rightarrow> evm_log option \<Rightarrow> gstruct outcome" where
  "DecodeRebalanceDepositRecoveryStored E c lg =
     decode_event E c [(''RebalanceNonce'', GBig None), (''Amount'', GBig None)]
       ''RebalanceDepositRecoveryStored'' lg"

definition RebalanceDepositRecoveryStoredLogHash :: "codec \<Rightarrow> byte list" where
  "RebalanceDepositRecoveryStoredLogHash c = abi_EventID (codec_abi c) ''RebalanceDepositRecoveryStored''"

definition DecodeRebalanceWithdrawSuccess :: "env \<Rightarrow> codec \<Rightarrow> evm_log option \<Rightarrow> gstruct outcome" where
  "DecodeRebalanceWithdrawSuccess E c lg =
     decode_event E c [(''RebalanceNonce'', GBig None), (''Amount'', GBig None)]
       ''RebalanceWithdrawSuccess'' lg"

definition RebalanceWithdrawSuccessLogHash :: "codec \<Rightarrow> byte list" where
  "RebalanceWithdrawSuccessLogHash c = abi_EventID (codec_abi c) ''RebalanceWithdrawSuccess''"

definition DecodeRoleAdminChanged :: "env \<Rightarrow> codec \<Rightarrow> evm_log option \<Rightarrow> gstruct outcome" where
  "DecodeRoleAdminChanged E c lg =
     decode_event E c [(''Role'', GFix (replicate 32 0)), (''PreviousAdminRole'', GFix (replicate 32 0)), (''NewAdminRole'', GFix (replicate 32 0))]
       ''RoleAdminChanged'' lg"

definition RoleAdminChangedLogHash :: "codec \<Rightarrow> byte list" where
  "RoleAdminChangedLogHash c = abi_EventID (codec_abi c) ''RoleAdminChanged''"

definition DecodeRoleGranted :: "env \<Rightarrow> codec \<Rightarrow> evm_log option \<Rightarrow> gstruct outcome" where
  "DecodeRoleGranted E c lg =
     decode_event E c [(''Role'', GFix (replicate 32 0)), (''Account'', GAddr 0), (''Sender'', GAddr 0)]
       ''RoleGranted'' lg"

definition RoleGrantedLogHash :: "codec \<Rightarrow> byte list" where
  "RoleGrantedLogHash c = abi_EventID (codec_abi c) ''RoleGranted''"

definition DecodeRoleRevoked :: "env \<Rightarrow> codec \<Rightarrow> evm_log option \<Rightarrow> gstruct outcome" where
  "DecodeRoleRevoked E c lg =
     decode_event E c [(''Role'', GFix (replicate 32 0)), (''Account'', GAddr 0), (''Sender'', GAddr 0)]
       ''RoleRevoked'' lg"

definition RoleRevokedLogHash :: "codec \<Rightarrow> byte list" where
  "RoleRevokedLogHash c = abi_EventID (codec_abi c) ''RoleRevoked''"

definition DecodeSupportedProtocolSet :: "env \<Rightarrow> codec \<Rightarrow> evm_log option \<Rightarrow> gstruct outcome" where
  "DecodeSupportedProtocolSet E c lg =
     decode_event E c [(''ProtocolId'', GFix (replicate 32 0)), (''IsSupported'', GBool False)]
       ''SupportedProtocolSet'' lg"

definition SupportedProtocolSetLogHash :: "codec \<Rightarrow> byte list" where
  "SupportedProtocolSetLogHash c = abi_EventID (codec_abi c) ''SupportedProtocolSet''"

definition DecodeTreasurySet :: "env \<Rightarrow> codec \<Rightarrow> evm_log option \<Rightarrow> gstruct outcome" where
  "DecodeTreasurySet E c lg = decode_event E c [(''Treasury'', GAddr 0)] ''TreasurySet'' lg"

definition TreasurySetLogHash :: "codec \<Rightarrow> byte list" where
  "TreasurySetLogHash c = abi_EventID (codec_abi c) ''TreasurySet''"

definition DecodeUnpaused :: "env \<Rightarrow> codec \<Rightarrow> evm_log option \<Rightarrow> gstruct outcome" where
  "DecodeUnpaused E c lg = decode_event E c [(''Account'', GAddr 0)] ''Unpaused'' lg"

definition UnpausedLogHash :: "codec \<Rightarrow> byte list" where
  "UnpausedLogHash c = abi_EventID (codec_abi c) ''Unpaused''"

definition DecodeUpgraded :: "env \<Rightarrow> codec \<Rightarrow> evm_log option \<Rightarrow> gstruct outcome" where
  "DecodeUpgraded E c lg = decode_event E c [(''Implementation'', GAddr 0)] ''Upgraded'' lg"

definition UpgradedLogHash :: "codec \<Rightarrow> byte list" where
  "UpgradedLogHash c = abi_EventID (codec_abi c) ''Upgraded''"

definition DecodeWithdrawCancelled :: "env \<Rightarrow> codec \<Rightarrow> evm_log option \<Rightarrow> gstruct outcome" where
  "DecodeWithdrawCancelled E c lg =
     decode_event E c [(''EpochNonce'', GBig None), (''Withdrawer'', GAddr 0), (''ShareBurnAmount'', GBig None)]
       ''WithdrawCancelled'' lg"

definition WithdrawCancelledLogHash :: "codec \<Rightarrow> byte list" where
  "WithdrawCancelledLogHash c = abi_EventID (codec_abi c) ''WithdrawCancelled''"

definition DecodeWithdrawClaimed :: "env \<Rightarrow> codec \<Rightarrow> evm_log option \<Rightarrow> gstruct outcome" where
  "DecodeWithdrawClaimed E c lg =
     decode_event E c [(''EpochNonce'', GBig None), (''Withdrawer'', GAddr 0), (''Amount'', GBig None)]
       ''WithdrawClaimed'' lg"

definition WithdrawClaimedLogHash :: "codec \<Rightarrow> byte list" where
  "WithdrawClaimedLogHash c = abi_EventID (codec_abi c) ''WithdrawClaimed''"

definition DecodeWithdrawSubmitted :: "env \<Rightarrow> codec \<Rightarrow> evm_log option \<Rightarrow> gstruct outcome" where
  "DecodeWithdrawSubmitted E c lg =
     decode_event E c [(''EpochNonce'', GBig None), (''Withdrawer'', GAddr 0), (''ShareBurnAmount'', GBig None)]
       ''WithdrawSubmitted'' lg"

definition WithdrawSubmittedLogHash :: "codec \<Rightarrow> byte list" where
  "WithdrawSubmittedLogHash c = abi_EventID (codec_abi c) ''WithdrawSubmitted''"

lemmas event_decoder_defs =
  DecodeActiveProtocolAdapterCleared_def
  DecodeActiveProtocolAdapterSet_def
  DecodeAllowlistEnabledSet_def
  DecodeAllowlistedUserSet_def
  DecodeCCIPBridged_def
  DecodeCCIPReceived_def
  DecodeCcipGasLimitSet_def
  DecodeCrosschainVaultSet_def
  DecodeDefaultAdminDelayChangeCanceled_def
  DecodeDefaultAdminDelayChangeScheduled_def
  DecodeDefaultAdminTransferCanceled_def
  DecodeDefaultAdminTransferScheduled_def
  DecodeDefaultCcipGasLimitSet_def
  DecodeDepositCancelled_def
  DecodeDepositClaimed_def
  DecodeDepositForceCancelled_def
  DecodeDepositSubmitted_def
  DecodeEpochClaimable_def
  DecodeEpochDepositExecuting_def
  DecodeEpochDepositReconciled_def
  DecodeEpochOpen_def
  DecodeEpochWithdrawAmountShort_def
  DecodeEpochWithdrawFromStrategySuccess_def
  DecodeInitialActiveProtocolAdapterSet_def
  DecodeInitialized_def
  DecodeLinkWithdrawn_def
  DecodeManagementFeeCollected_def
  DecodePaused_def
  DecodeRebalanceCompleted_def
  DecodeRebalanceDepositFailure_def
  DecodeRebalanceDepositRecoveryCleared_def
  DecodeRebalanceDepositRecoveryStored_def
  DecodeRebalanceWithdrawSuccess_def
  DecodeRoleAdminChanged_def
  DecodeRoleGranted_def
  DecodeRoleRevoked_def
  DecodeSupportedProtocolSet_def
  DecodeTreasurySet_def
  DecodeUnpaused_def
  DecodeUpgraded_def
  DecodeWithdrawCancelled_def
  DecodeWithdrawClaimed_def
  DecodeWithdrawSubmitted_def

section \<open>What the decoders require\<close>

definition parent_event_decoders :: "(string \<times> (env \<Rightarrow> codec \<Rightarrow> evm_log option \<Rightarrow> gstruct outcome)) list" where
  "parent_event_decoders =
     [(''ActiveProtocolAdapterCleared'', DecodeActiveProtocolAdapterCleared),
      (''ActiveProtocolAdapterSet'', DecodeActiveProtocolAdapterSet),
      (''AllowlistEnabledSet'', DecodeAllowlistEnabledSet),
      (''AllowlistedUserSet'', DecodeAllowlistedUserSet),
      (''CCIPBridged'', DecodeCCIPBridged),
      (''CCIPReceived'', DecodeCCIPReceived),
      (''CcipGasLimitSet'', DecodeCcipGasLimitSet),
      (''CrosschainVaultSet'', DecodeCrosschainVaultSet),
      (''DefaultAdminDelayChangeCanceled'', DecodeDefaultAdminDelayChangeCanceled),
      (''DefaultAdminDelayChangeScheduled'', DecodeDefaultAdminDelayChangeScheduled),
      (''DefaultAdminTransferCanceled'', DecodeDefaultAdminTransferCanceled),
      (''DefaultAdminTransferScheduled'', DecodeDefaultAdminTransferScheduled),
      (''DefaultCcipGasLimitSet'', DecodeDefaultCcipGasLimitSet),
      (''DepositCancelled'', DecodeDepositCancelled),
      (''DepositClaimed'', DecodeDepositClaimed),
      (''DepositForceCancelled'', DecodeDepositForceCancelled),
      (''DepositSubmitted'', DecodeDepositSubmitted),
      (''EpochClaimable'', DecodeEpochClaimable),
      (''EpochDepositExecuting'', DecodeEpochDepositExecuting),
      (''EpochDepositReconciled'', DecodeEpochDepositReconciled),
      (''EpochOpen'', DecodeEpochOpen),
      (''EpochWithdrawAmountShort'', DecodeEpochWithdrawAmountShort),
      (''EpochWithdrawFromStrategySuccess'', DecodeEpochWithdrawFromStrategySuccess),
      (''InitialActiveProtocolAdapterSet'', DecodeInitialActiveProtocolAdapterSet),
      (''Initialized'', DecodeInitialized),
      (''LinkWithdrawn'', DecodeLinkWithdrawn),
      (''ManagementFeeCollected'', DecodeManagementFeeCollected),
      (''Paused'', DecodePaused),
      (''RebalanceCompleted'', DecodeRebalanceCompleted),
      (''RebalanceDepositFailure'', DecodeRebalanceDepositFailure),
      (''RebalanceDepositRecoveryCleared'', DecodeRebalanceDepositRecoveryCleared),
      (''RebalanceDepositRecoveryStored'', DecodeRebalanceDepositRecoveryStored),
      (''RebalanceWithdrawSuccess'', DecodeRebalanceWithdrawSuccess),
      (''RoleAdminChanged'', DecodeRoleAdminChanged),
      (''RoleGranted'', DecodeRoleGranted),
      (''RoleRevoked'', DecodeRoleRevoked),
      (''SupportedProtocolSet'', DecodeSupportedProtocolSet),
      (''TreasurySet'', DecodeTreasurySet),
      (''Unpaused'', DecodeUnpaused),
      (''Upgraded'', DecodeUpgraded),
      (''WithdrawCancelled'', DecodeWithdrawCancelled),
      (''WithdrawClaimed'', DecodeWithdrawClaimed),
      (''WithdrawSubmitted'', DecodeWithdrawSubmitted)]"

text \<open>An event decoder for the given event: some zero value of the struct, and the shared steps.\<close>

definition decodes_event :: "string \<times> (env \<Rightarrow> codec \<Rightarrow> evm_log option \<Rightarrow> gstruct outcome) \<Rightarrow> bool" where
  "decodes_event nd \<longleftrightarrow> (\<exists>zero. snd nd = (\<lambda>E c lg. decode_event E c zero (fst nd) lg))"

lemma parent_event_decoders_ok: "list_all decodes_event parent_event_decoders"
  by (auto simp: parent_event_decoders_def decodes_event_def event_decoder_defs fun_eq_iff)

lemma decode_event_Ok:
  assumes "decode_event E c zero name lg = Ok s"
  shows "\<exists>l topic rest event. lg = Some l \<and> lg_Topics l = topic # rest \<and>
    abi_UnpackIntoInterface (codec_abi c) zero name (lg_Data l) = Ok event \<and>
    ParseTopics E event (map retype_tuple (filter arg_indexed (abi_EventInputs (codec_abi c) name)))
      (map (BytesToHash E) rest) = Ok s"
  using assms
  by (cases lg; cases "lg_Topics (the lg)")
    (auto simp: decode_event_def bindO_Ok_iff Let_def split: if_splits)

lemma decode_event_no_topics:
  assumes "lg_Topics l = []" "\<not> is_panic (abi_UnpackIntoInterface (codec_abi c) zero name (lg_Data l))"
  shows "decode_event E c zero name (Some l) \<noteq> Ok s"
  using assms by (auto simp: decode_event_def bindO_Ok_iff Let_def)

end
