(* ===== verification/Child_Decoders.thy ===== *)
theory Child_Decoders
  imports Revert_Errors Vault_Events
begin

text \<open>
  The revert data and the events of the child vault
  (\<open>cre/contracts/evm/src/generated/child_vault/ChildVault.go\<close>): one decoder per custom error with the dispatch over
  them, and the decoder and signature hash of each event. The steps of a decoder are those of the parent's binding,
  \<open>decode_error\<close> and \<open>decode_event\<close>. Names that the parent's binding has too carry the prefix \<open>child_\<close>.
\<close>

section \<open>Errors\<close>

definition child_DecodeAccessControlBadConfirmationError :: "abi \<Rightarrow> byte list \<Rightarrow> go_struct outcome" where
  "child_DecodeAccessControlBadConfirmationError =
     decode_error ''AccessControlBadConfirmation'' ''AccessControlBadConfirmation''
       []"

definition child_DecodeAccessControlEnforcedDefaultAdminDelayError :: "abi \<Rightarrow> byte list \<Rightarrow> go_struct outcome" where
  "child_DecodeAccessControlEnforcedDefaultAdminDelayError =
     decode_error ''AccessControlEnforcedDefaultAdminDelay'' ''AccessControlEnforcedDefaultAdminDelay''
       [(''schedule'', ''Schedule'', TBig)]"

definition child_DecodeAccessControlEnforcedDefaultAdminRulesError :: "abi \<Rightarrow> byte list \<Rightarrow> go_struct outcome" where
  "child_DecodeAccessControlEnforcedDefaultAdminRulesError =
     decode_error ''AccessControlEnforcedDefaultAdminRules'' ''AccessControlEnforcedDefaultAdminRules''
       []"

definition child_DecodeAccessControlInvalidDefaultAdminError :: "abi \<Rightarrow> byte list \<Rightarrow> go_struct outcome" where
  "child_DecodeAccessControlInvalidDefaultAdminError =
     decode_error ''AccessControlInvalidDefaultAdmin'' ''AccessControlInvalidDefaultAdmin''
       [(''defaultAdmin'', ''DefaultAdmin'', TAddr)]"

definition child_DecodeAccessControlUnauthorizedAccountError :: "abi \<Rightarrow> byte list \<Rightarrow> go_struct outcome" where
  "child_DecodeAccessControlUnauthorizedAccountError =
     decode_error ''AccessControlUnauthorizedAccount'' ''AccessControlUnauthorizedAccount''
       [(''account'', ''Account'', TAddr), (''neededRole'', ''NeededRole'', TFix 32)]"

definition child_DecodeAddressEmptyCodeError :: "abi \<Rightarrow> byte list \<Rightarrow> go_struct outcome" where
  "child_DecodeAddressEmptyCodeError =
     decode_error ''AddressEmptyCode'' ''AddressEmptyCode''
       [(''target'', ''Target'', TAddr)]"

definition child_DecodeBaseVaultDepositFailedError :: "abi \<Rightarrow> byte list \<Rightarrow> go_struct outcome" where
  "child_DecodeBaseVaultDepositFailedError =
     decode_error ''BaseVault__DepositFailed'' ''BaseVaultDepositFailed''
       [(''amount'', ''Amount'', TBig)]"

definition child_DecodeBaseVaultDestinationVaultNotSetError :: "abi \<Rightarrow> byte list \<Rightarrow> go_struct outcome" where
  "child_DecodeBaseVaultDestinationVaultNotSetError =
     decode_error ''BaseVault__DestinationVaultNotSet'' ''BaseVaultDestinationVaultNotSet''
       [(''destinationChainSelector'', ''DestinationChainSelector'', TU64)]"

definition child_DecodeBaseVaultEmptyInputError :: "abi \<Rightarrow> byte list \<Rightarrow> go_struct outcome" where
  "child_DecodeBaseVaultEmptyInputError =
     decode_error ''BaseVault__EmptyInput'' ''BaseVaultEmptyInput''
       []"

definition child_DecodeBaseVaultInvalidAdapterVaultError :: "abi \<Rightarrow> byte list \<Rightarrow> go_struct outcome" where
  "child_DecodeBaseVaultInvalidAdapterVaultError =
     decode_error ''BaseVault__InvalidAdapterVault'' ''BaseVaultInvalidAdapterVault''
       [(''adapter'', ''Adapter'', TAddr), (''actualVault'', ''ActualVault'', TAddr), (''expectedVault'', ''ExpectedVault'', TAddr)]"

definition child_DecodeBaseVaultInvalidDestinationChainSelectorError :: "abi \<Rightarrow> byte list \<Rightarrow> go_struct outcome" where
  "child_DecodeBaseVaultInvalidDestinationChainSelectorError =
     decode_error ''BaseVault__InvalidDestinationChainSelector'' ''BaseVaultInvalidDestinationChainSelector''
       [(''destinationChainSelector'', ''DestinationChainSelector'', TU64)]"

definition child_DecodeBaseVaultInvalidInputLengthsError :: "abi \<Rightarrow> byte list \<Rightarrow> go_struct outcome" where
  "child_DecodeBaseVaultInvalidInputLengthsError =
     decode_error ''BaseVault__InvalidInputLengths'' ''BaseVaultInvalidInputLengths''
       []"

definition child_DecodeBaseVaultInvalidReceivedTokenError :: "abi \<Rightarrow> byte list \<Rightarrow> go_struct outcome" where
  "child_DecodeBaseVaultInvalidReceivedTokenError =
     decode_error ''BaseVault__InvalidReceivedToken'' ''BaseVaultInvalidReceivedToken''
       [(''receivedToken'', ''ReceivedToken'', TAddr), (''expectedToken'', ''ExpectedToken'', TAddr)]"

definition child_DecodeBaseVaultInvalidSenderError :: "abi \<Rightarrow> byte list \<Rightarrow> go_struct outcome" where
  "child_DecodeBaseVaultInvalidSenderError =
     decode_error ''BaseVault__InvalidSender'' ''BaseVaultInvalidSender''
       [(''sender'', ''Sender'', TAddr), (''srcChainSelector'', ''SrcChainSelector'', TU64)]"

definition child_DecodeBaseVaultInvalidSourceChainSelectorError :: "abi \<Rightarrow> byte list \<Rightarrow> go_struct outcome" where
  "child_DecodeBaseVaultInvalidSourceChainSelectorError =
     decode_error ''BaseVault__InvalidSourceChainSelector'' ''BaseVaultInvalidSourceChainSelector''
       [(''sourceChainSelector'', ''SourceChainSelector'', TU64), (''expectedSourceChainSelector'', ''ExpectedSourceChainSelector'', TU64)]"

definition child_DecodeBaseVaultInvalidTokenAmountsLengthError :: "abi \<Rightarrow> byte list \<Rightarrow> go_struct outcome" where
  "child_DecodeBaseVaultInvalidTokenAmountsLengthError =
     decode_error ''BaseVault__InvalidTokenAmountsLength'' ''BaseVaultInvalidTokenAmountsLength''
       [(''receivedLength'', ''ReceivedLength'', TBig), (''expectedLength'', ''ExpectedLength'', TBig)]"

definition child_DecodeBaseVaultInvalidTxTypeError :: "abi \<Rightarrow> byte list \<Rightarrow> go_struct outcome" where
  "child_DecodeBaseVaultInvalidTxTypeError =
     decode_error ''BaseVault__InvalidTxType'' ''BaseVaultInvalidTxType''
       [(''ccipTxType'', ''CcipTxType'', TU8)]"

definition child_DecodeBaseVaultNoActiveAdapterError :: "abi \<Rightarrow> byte list \<Rightarrow> go_struct outcome" where
  "child_DecodeBaseVaultNoActiveAdapterError =
     decode_error ''BaseVault__NoActiveAdapter'' ''BaseVaultNoActiveAdapter''
       []"

definition child_DecodeBaseVaultNoAdapterRegisteredError :: "abi \<Rightarrow> byte list \<Rightarrow> go_struct outcome" where
  "child_DecodeBaseVaultNoAdapterRegisteredError =
     decode_error ''BaseVault__NoAdapterRegistered'' ''BaseVaultNoAdapterRegistered''
       [(''protocolId'', ''ProtocolId'', TFix 32)]"

definition child_DecodeBaseVaultNoPendingRecoveryError :: "abi \<Rightarrow> byte list \<Rightarrow> go_struct outcome" where
  "child_DecodeBaseVaultNoPendingRecoveryError =
     decode_error ''BaseVault__NoPendingRecovery'' ''BaseVaultNoPendingRecovery''
       []"

definition child_DecodeBaseVaultNoZeroAddressError :: "abi \<Rightarrow> byte list \<Rightarrow> go_struct outcome" where
  "child_DecodeBaseVaultNoZeroAddressError =
     decode_error ''BaseVault__NoZeroAddress'' ''BaseVaultNoZeroAddress''
       []"

definition child_DecodeBaseVaultNoZeroAmountError :: "abi \<Rightarrow> byte list \<Rightarrow> go_struct outcome" where
  "child_DecodeBaseVaultNoZeroAmountError =
     decode_error ''BaseVault__NoZeroAmount'' ''BaseVaultNoZeroAmount''
       []"

definition child_DecodeBaseVaultNoZeroChainSelectorError :: "abi \<Rightarrow> byte list \<Rightarrow> go_struct outcome" where
  "child_DecodeBaseVaultNoZeroChainSelectorError =
     decode_error ''BaseVault__NoZeroChainSelector'' ''BaseVaultNoZeroChainSelector''
       []"

definition child_DecodeBaseVaultOnlySelfError :: "abi \<Rightarrow> byte list \<Rightarrow> go_struct outcome" where
  "child_DecodeBaseVaultOnlySelfError =
     decode_error ''BaseVault__OnlySelf'' ''BaseVaultOnlySelf''
       []"

definition child_DecodeBaseVaultRecoveryAlreadyPendingError :: "abi \<Rightarrow> byte list \<Rightarrow> go_struct outcome" where
  "child_DecodeBaseVaultRecoveryAlreadyPendingError =
     decode_error ''BaseVault__RecoveryAlreadyPending'' ''BaseVaultRecoveryAlreadyPending''
       []"

definition child_DecodeBaseVaultWithdrawFailedError :: "abi \<Rightarrow> byte list \<Rightarrow> go_struct outcome" where
  "child_DecodeBaseVaultWithdrawFailedError =
     decode_error ''BaseVault__WithdrawFailed'' ''BaseVaultWithdrawFailed''
       [(''amount'', ''Amount'', TBig)]"

definition child_DecodeBaseVaultZeroRecoveryAmountError :: "abi \<Rightarrow> byte list \<Rightarrow> go_struct outcome" where
  "child_DecodeBaseVaultZeroRecoveryAmountError =
     decode_error ''BaseVault__ZeroRecoveryAmount'' ''BaseVaultZeroRecoveryAmount''
       []"

definition child_DecodeChildVaultInvalidEpochNonceError :: "abi \<Rightarrow> byte list \<Rightarrow> go_struct outcome" where
  "child_DecodeChildVaultInvalidEpochNonceError =
     decode_error ''ChildVault__InvalidEpochNonce'' ''ChildVaultInvalidEpochNonce''
       [(''providedNonce'', ''ProvidedNonce'', TBig), (''lastHandledNonce'', ''LastHandledNonce'', TBig)]"

definition child_DecodeChildVaultInvalidParentChainSelectorError :: "abi \<Rightarrow> byte list \<Rightarrow> go_struct outcome" where
  "child_DecodeChildVaultInvalidParentChainSelectorError =
     decode_error ''ChildVault__InvalidParentChainSelector'' ''ChildVaultInvalidParentChainSelector''
       []"

definition child_DecodeChildVaultInvalidRebalanceNonceError :: "abi \<Rightarrow> byte list \<Rightarrow> go_struct outcome" where
  "child_DecodeChildVaultInvalidRebalanceNonceError =
     decode_error ''ChildVault__InvalidRebalanceNonce'' ''ChildVaultInvalidRebalanceNonce''
       [(''providedNonce'', ''ProvidedNonce'', TBig), (''lastHandledNonce'', ''LastHandledNonce'', TBig)]"

definition child_DecodeChildVaultInvalidRecoveryStrategyError :: "abi \<Rightarrow> byte list \<Rightarrow> go_struct outcome" where
  "child_DecodeChildVaultInvalidRecoveryStrategyError =
     decode_error ''ChildVault__InvalidRecoveryStrategy'' ''ChildVaultInvalidRecoveryStrategy''
       []"

definition child_DecodeChildVaultOnlySelfError :: "abi \<Rightarrow> byte list \<Rightarrow> go_struct outcome" where
  "child_DecodeChildVaultOnlySelfError =
     decode_error ''ChildVault__OnlySelf'' ''ChildVaultOnlySelf''
       []"

definition child_DecodeERC1967InvalidImplementationError :: "abi \<Rightarrow> byte list \<Rightarrow> go_struct outcome" where
  "child_DecodeERC1967InvalidImplementationError =
     decode_error ''ERC1967InvalidImplementation'' ''ERC1967InvalidImplementation''
       [(''implementation'', ''Implementation'', TAddr)]"

definition child_DecodeERC1967NonPayableError :: "abi \<Rightarrow> byte list \<Rightarrow> go_struct outcome" where
  "child_DecodeERC1967NonPayableError =
     decode_error ''ERC1967NonPayable'' ''ERC1967NonPayable''
       []"

definition child_DecodeEnforcedPauseError :: "abi \<Rightarrow> byte list \<Rightarrow> go_struct outcome" where
  "child_DecodeEnforcedPauseError =
     decode_error ''EnforcedPause'' ''EnforcedPause''
       []"

definition child_DecodeExpectedPauseError :: "abi \<Rightarrow> byte list \<Rightarrow> go_struct outcome" where
  "child_DecodeExpectedPauseError =
     decode_error ''ExpectedPause'' ''ExpectedPause''
       []"

definition child_DecodeFailedCallError :: "abi \<Rightarrow> byte list \<Rightarrow> go_struct outcome" where
  "child_DecodeFailedCallError =
     decode_error ''FailedCall'' ''FailedCall''
       []"

definition child_DecodeInvalidInitializationError :: "abi \<Rightarrow> byte list \<Rightarrow> go_struct outcome" where
  "child_DecodeInvalidInitializationError =
     decode_error ''InvalidInitialization'' ''InvalidInitialization''
       []"

definition child_DecodeInvalidRouterError :: "abi \<Rightarrow> byte list \<Rightarrow> go_struct outcome" where
  "child_DecodeInvalidRouterError =
     decode_error ''InvalidRouter'' ''InvalidRouter''
       [(''router'', ''Router'', TAddr)]"

definition child_DecodeNotInitializingError :: "abi \<Rightarrow> byte list \<Rightarrow> go_struct outcome" where
  "child_DecodeNotInitializingError =
     decode_error ''NotInitializing'' ''NotInitializing''
       []"

definition child_DecodeReentrancyGuardReentrantCallError :: "abi \<Rightarrow> byte list \<Rightarrow> go_struct outcome" where
  "child_DecodeReentrancyGuardReentrantCallError =
     decode_error ''ReentrancyGuardReentrantCall'' ''ReentrancyGuardReentrantCall''
       []"

definition child_DecodeSafeCastOverflowedUintDowncastError :: "abi \<Rightarrow> byte list \<Rightarrow> go_struct outcome" where
  "child_DecodeSafeCastOverflowedUintDowncastError =
     decode_error ''SafeCastOverflowedUintDowncast'' ''SafeCastOverflowedUintDowncast''
       [(''bits'', ''Bits'', TU8), (''value'', ''Value'', TBig)]"

definition child_DecodeSafeERC20FailedOperationError :: "abi \<Rightarrow> byte list \<Rightarrow> go_struct outcome" where
  "child_DecodeSafeERC20FailedOperationError =
     decode_error ''SafeERC20FailedOperation'' ''SafeERC20FailedOperation''
       [(''token'', ''Token'', TAddr)]"

definition child_DecodeUUPSUnauthorizedCallContextError :: "abi \<Rightarrow> byte list \<Rightarrow> go_struct outcome" where
  "child_DecodeUUPSUnauthorizedCallContextError =
     decode_error ''UUPSUnauthorizedCallContext'' ''UUPSUnauthorizedCallContext''
       []"

definition child_DecodeUUPSUnsupportedProxiableUUIDError :: "abi \<Rightarrow> byte list \<Rightarrow> go_struct outcome" where
  "child_DecodeUUPSUnsupportedProxiableUUIDError =
     decode_error ''UUPSUnsupportedProxiableUUID'' ''UUPSUnsupportedProxiableUUID''
       [(''slot'', ''Slot'', TFix 32)]"

lemmas child_decoder_defs =
  child_DecodeAccessControlBadConfirmationError_def
  child_DecodeAccessControlEnforcedDefaultAdminDelayError_def
  child_DecodeAccessControlEnforcedDefaultAdminRulesError_def
  child_DecodeAccessControlInvalidDefaultAdminError_def
  child_DecodeAccessControlUnauthorizedAccountError_def
  child_DecodeAddressEmptyCodeError_def
  child_DecodeBaseVaultDepositFailedError_def
  child_DecodeBaseVaultDestinationVaultNotSetError_def
  child_DecodeBaseVaultEmptyInputError_def
  child_DecodeBaseVaultInvalidAdapterVaultError_def
  child_DecodeBaseVaultInvalidDestinationChainSelectorError_def
  child_DecodeBaseVaultInvalidInputLengthsError_def
  child_DecodeBaseVaultInvalidReceivedTokenError_def
  child_DecodeBaseVaultInvalidSenderError_def
  child_DecodeBaseVaultInvalidSourceChainSelectorError_def
  child_DecodeBaseVaultInvalidTokenAmountsLengthError_def
  child_DecodeBaseVaultInvalidTxTypeError_def
  child_DecodeBaseVaultNoActiveAdapterError_def
  child_DecodeBaseVaultNoAdapterRegisteredError_def
  child_DecodeBaseVaultNoPendingRecoveryError_def
  child_DecodeBaseVaultNoZeroAddressError_def
  child_DecodeBaseVaultNoZeroAmountError_def
  child_DecodeBaseVaultNoZeroChainSelectorError_def
  child_DecodeBaseVaultOnlySelfError_def
  child_DecodeBaseVaultRecoveryAlreadyPendingError_def
  child_DecodeBaseVaultWithdrawFailedError_def
  child_DecodeBaseVaultZeroRecoveryAmountError_def
  child_DecodeChildVaultInvalidEpochNonceError_def
  child_DecodeChildVaultInvalidParentChainSelectorError_def
  child_DecodeChildVaultInvalidRebalanceNonceError_def
  child_DecodeChildVaultInvalidRecoveryStrategyError_def
  child_DecodeChildVaultOnlySelfError_def
  child_DecodeERC1967InvalidImplementationError_def
  child_DecodeERC1967NonPayableError_def
  child_DecodeEnforcedPauseError_def
  child_DecodeExpectedPauseError_def
  child_DecodeFailedCallError_def
  child_DecodeInvalidInitializationError_def
  child_DecodeInvalidRouterError_def
  child_DecodeNotInitializingError_def
  child_DecodeReentrancyGuardReentrantCallError_def
  child_DecodeSafeCastOverflowedUintDowncastError_def
  child_DecodeSafeERC20FailedOperationError_def
  child_DecodeUUPSUnauthorizedCallContextError_def
  child_DecodeUUPSUnsupportedProxiableUUIDError_def

text \<open>The cases of the switch in \<open>UnpackError\<close>, in the source's order.\<close>

definition child_error_cases :: "(string \<times> (abi \<Rightarrow> byte list \<Rightarrow> go_struct outcome)) list" where
  "child_error_cases =
     [(''AccessControlBadConfirmation'', child_DecodeAccessControlBadConfirmationError),
      (''AccessControlEnforcedDefaultAdminDelay'', child_DecodeAccessControlEnforcedDefaultAdminDelayError),
      (''AccessControlEnforcedDefaultAdminRules'', child_DecodeAccessControlEnforcedDefaultAdminRulesError),
      (''AccessControlInvalidDefaultAdmin'', child_DecodeAccessControlInvalidDefaultAdminError),
      (''AccessControlUnauthorizedAccount'', child_DecodeAccessControlUnauthorizedAccountError),
      (''AddressEmptyCode'', child_DecodeAddressEmptyCodeError),
      (''BaseVault__DepositFailed'', child_DecodeBaseVaultDepositFailedError),
      (''BaseVault__DestinationVaultNotSet'', child_DecodeBaseVaultDestinationVaultNotSetError),
      (''BaseVault__EmptyInput'', child_DecodeBaseVaultEmptyInputError),
      (''BaseVault__InvalidAdapterVault'', child_DecodeBaseVaultInvalidAdapterVaultError),
      (''BaseVault__InvalidDestinationChainSelector'', child_DecodeBaseVaultInvalidDestinationChainSelectorError),
      (''BaseVault__InvalidInputLengths'', child_DecodeBaseVaultInvalidInputLengthsError),
      (''BaseVault__InvalidReceivedToken'', child_DecodeBaseVaultInvalidReceivedTokenError),
      (''BaseVault__InvalidSender'', child_DecodeBaseVaultInvalidSenderError),
      (''BaseVault__InvalidSourceChainSelector'', child_DecodeBaseVaultInvalidSourceChainSelectorError),
      (''BaseVault__InvalidTokenAmountsLength'', child_DecodeBaseVaultInvalidTokenAmountsLengthError),
      (''BaseVault__InvalidTxType'', child_DecodeBaseVaultInvalidTxTypeError),
      (''BaseVault__NoActiveAdapter'', child_DecodeBaseVaultNoActiveAdapterError),
      (''BaseVault__NoAdapterRegistered'', child_DecodeBaseVaultNoAdapterRegisteredError),
      (''BaseVault__NoPendingRecovery'', child_DecodeBaseVaultNoPendingRecoveryError),
      (''BaseVault__NoZeroAddress'', child_DecodeBaseVaultNoZeroAddressError),
      (''BaseVault__NoZeroAmount'', child_DecodeBaseVaultNoZeroAmountError),
      (''BaseVault__NoZeroChainSelector'', child_DecodeBaseVaultNoZeroChainSelectorError),
      (''BaseVault__OnlySelf'', child_DecodeBaseVaultOnlySelfError),
      (''BaseVault__RecoveryAlreadyPending'', child_DecodeBaseVaultRecoveryAlreadyPendingError),
      (''BaseVault__WithdrawFailed'', child_DecodeBaseVaultWithdrawFailedError),
      (''BaseVault__ZeroRecoveryAmount'', child_DecodeBaseVaultZeroRecoveryAmountError),
      (''ChildVault__InvalidEpochNonce'', child_DecodeChildVaultInvalidEpochNonceError),
      (''ChildVault__InvalidParentChainSelector'', child_DecodeChildVaultInvalidParentChainSelectorError),
      (''ChildVault__InvalidRebalanceNonce'', child_DecodeChildVaultInvalidRebalanceNonceError),
      (''ChildVault__InvalidRecoveryStrategy'', child_DecodeChildVaultInvalidRecoveryStrategyError),
      (''ChildVault__OnlySelf'', child_DecodeChildVaultOnlySelfError),
      (''ERC1967InvalidImplementation'', child_DecodeERC1967InvalidImplementationError),
      (''ERC1967NonPayable'', child_DecodeERC1967NonPayableError),
      (''EnforcedPause'', child_DecodeEnforcedPauseError),
      (''ExpectedPause'', child_DecodeExpectedPauseError),
      (''FailedCall'', child_DecodeFailedCallError),
      (''InvalidInitialization'', child_DecodeInvalidInitializationError),
      (''InvalidRouter'', child_DecodeInvalidRouterError),
      (''NotInitializing'', child_DecodeNotInitializingError),
      (''ReentrancyGuardReentrantCall'', child_DecodeReentrancyGuardReentrantCallError),
      (''SafeCastOverflowedUintDowncast'', child_DecodeSafeCastOverflowedUintDowncastError),
      (''SafeERC20FailedOperation'', child_DecodeSafeERC20FailedOperationError),
      (''UUPSUnauthorizedCallContext'', child_DecodeUUPSUnauthorizedCallContextError),
      (''UUPSUnsupportedProxiableUUID'', child_DecodeUUPSUnsupportedProxiableUUIDError)]"

definition child_UnpackError :: "abi \<Rightarrow> byte list \<Rightarrow> go_struct outcome" where
  "child_UnpackError c data =
     (if length data < 4 then Panic ''slice bounds out of range'' else switch_error c data child_error_cases)"

definition child_error_table :: "(string \<times> string \<times> error_field list) list" where
  "child_error_table =
     [(''AccessControlBadConfirmation'', ''AccessControlBadConfirmation'', []),
      (''AccessControlEnforcedDefaultAdminDelay'', ''AccessControlEnforcedDefaultAdminDelay'', [(''schedule'', ''Schedule'', TBig)]),
      (''AccessControlEnforcedDefaultAdminRules'', ''AccessControlEnforcedDefaultAdminRules'', []),
      (''AccessControlInvalidDefaultAdmin'', ''AccessControlInvalidDefaultAdmin'', [(''defaultAdmin'', ''DefaultAdmin'', TAddr)]),
      (''AccessControlUnauthorizedAccount'', ''AccessControlUnauthorizedAccount'', [(''account'', ''Account'', TAddr), (''neededRole'', ''NeededRole'', TFix 32)]),
      (''AddressEmptyCode'', ''AddressEmptyCode'', [(''target'', ''Target'', TAddr)]),
      (''BaseVault__DepositFailed'', ''BaseVaultDepositFailed'', [(''amount'', ''Amount'', TBig)]),
      (''BaseVault__DestinationVaultNotSet'', ''BaseVaultDestinationVaultNotSet'', [(''destinationChainSelector'', ''DestinationChainSelector'', TU64)]),
      (''BaseVault__EmptyInput'', ''BaseVaultEmptyInput'', []),
      (''BaseVault__InvalidAdapterVault'', ''BaseVaultInvalidAdapterVault'', [(''adapter'', ''Adapter'', TAddr), (''actualVault'', ''ActualVault'', TAddr), (''expectedVault'', ''ExpectedVault'', TAddr)]),
      (''BaseVault__InvalidDestinationChainSelector'', ''BaseVaultInvalidDestinationChainSelector'', [(''destinationChainSelector'', ''DestinationChainSelector'', TU64)]),
      (''BaseVault__InvalidInputLengths'', ''BaseVaultInvalidInputLengths'', []),
      (''BaseVault__InvalidReceivedToken'', ''BaseVaultInvalidReceivedToken'', [(''receivedToken'', ''ReceivedToken'', TAddr), (''expectedToken'', ''ExpectedToken'', TAddr)]),
      (''BaseVault__InvalidSender'', ''BaseVaultInvalidSender'', [(''sender'', ''Sender'', TAddr), (''srcChainSelector'', ''SrcChainSelector'', TU64)]),
      (''BaseVault__InvalidSourceChainSelector'', ''BaseVaultInvalidSourceChainSelector'', [(''sourceChainSelector'', ''SourceChainSelector'', TU64), (''expectedSourceChainSelector'', ''ExpectedSourceChainSelector'', TU64)]),
      (''BaseVault__InvalidTokenAmountsLength'', ''BaseVaultInvalidTokenAmountsLength'', [(''receivedLength'', ''ReceivedLength'', TBig), (''expectedLength'', ''ExpectedLength'', TBig)]),
      (''BaseVault__InvalidTxType'', ''BaseVaultInvalidTxType'', [(''ccipTxType'', ''CcipTxType'', TU8)]),
      (''BaseVault__NoActiveAdapter'', ''BaseVaultNoActiveAdapter'', []),
      (''BaseVault__NoAdapterRegistered'', ''BaseVaultNoAdapterRegistered'', [(''protocolId'', ''ProtocolId'', TFix 32)]),
      (''BaseVault__NoPendingRecovery'', ''BaseVaultNoPendingRecovery'', []),
      (''BaseVault__NoZeroAddress'', ''BaseVaultNoZeroAddress'', []),
      (''BaseVault__NoZeroAmount'', ''BaseVaultNoZeroAmount'', []),
      (''BaseVault__NoZeroChainSelector'', ''BaseVaultNoZeroChainSelector'', []),
      (''BaseVault__OnlySelf'', ''BaseVaultOnlySelf'', []),
      (''BaseVault__RecoveryAlreadyPending'', ''BaseVaultRecoveryAlreadyPending'', []),
      (''BaseVault__WithdrawFailed'', ''BaseVaultWithdrawFailed'', [(''amount'', ''Amount'', TBig)]),
      (''BaseVault__ZeroRecoveryAmount'', ''BaseVaultZeroRecoveryAmount'', []),
      (''ChildVault__InvalidEpochNonce'', ''ChildVaultInvalidEpochNonce'', [(''providedNonce'', ''ProvidedNonce'', TBig), (''lastHandledNonce'', ''LastHandledNonce'', TBig)]),
      (''ChildVault__InvalidParentChainSelector'', ''ChildVaultInvalidParentChainSelector'', []),
      (''ChildVault__InvalidRebalanceNonce'', ''ChildVaultInvalidRebalanceNonce'', [(''providedNonce'', ''ProvidedNonce'', TBig), (''lastHandledNonce'', ''LastHandledNonce'', TBig)]),
      (''ChildVault__InvalidRecoveryStrategy'', ''ChildVaultInvalidRecoveryStrategy'', []),
      (''ChildVault__OnlySelf'', ''ChildVaultOnlySelf'', []),
      (''ERC1967InvalidImplementation'', ''ERC1967InvalidImplementation'', [(''implementation'', ''Implementation'', TAddr)]),
      (''ERC1967NonPayable'', ''ERC1967NonPayable'', []),
      (''EnforcedPause'', ''EnforcedPause'', []),
      (''ExpectedPause'', ''ExpectedPause'', []),
      (''FailedCall'', ''FailedCall'', []),
      (''InvalidInitialization'', ''InvalidInitialization'', []),
      (''InvalidRouter'', ''InvalidRouter'', [(''router'', ''Router'', TAddr)]),
      (''NotInitializing'', ''NotInitializing'', []),
      (''ReentrancyGuardReentrantCall'', ''ReentrancyGuardReentrantCall'', []),
      (''SafeCastOverflowedUintDowncast'', ''SafeCastOverflowedUintDowncast'', [(''bits'', ''Bits'', TU8), (''value'', ''Value'', TBig)]),
      (''SafeERC20FailedOperation'', ''SafeERC20FailedOperation'', [(''token'', ''Token'', TAddr)]),
      (''UUPSUnauthorizedCallContext'', ''UUPSUnauthorizedCallContext'', []),
      (''UUPSUnsupportedProxiableUUID'', ''UUPSUnsupportedProxiableUUID'', [(''slot'', ''Slot'', TFix 32)])]"

lemma child_error_cases_table: "child_error_cases = map table_decoder child_error_table"
  by (simp add: child_error_cases_def child_error_table_def table_decoder_def child_decoder_defs)

interpretation child_errors: error_dispatch child_error_table child_UnpackError
  by unfold_locales (simp_all add: child_UnpackError_def child_error_cases_table)

section \<open>Events\<close>

definition child_DecodeActiveProtocolAdapterCleared :: "env \<Rightarrow> codec \<Rightarrow> evm_log option \<Rightarrow> gstruct outcome" where
  "child_DecodeActiveProtocolAdapterCleared E c lg =
     decode_event E c [(''Adapter'', GAddr 0)]
       ''ActiveProtocolAdapterCleared'' lg"

definition child_ActiveProtocolAdapterClearedLogHash :: "codec \<Rightarrow> byte list" where
  "child_ActiveProtocolAdapterClearedLogHash c = abi_EventID (codec_abi c) ''ActiveProtocolAdapterCleared''"

definition child_DecodeActiveProtocolAdapterCleared0 :: "env \<Rightarrow> codec \<Rightarrow> evm_log option \<Rightarrow> gstruct outcome" where
  "child_DecodeActiveProtocolAdapterCleared0 E c lg =
     decode_event E c [(''Adapter'', GAddr 0)]
       ''ActiveProtocolAdapterCleared0'' lg"

definition child_ActiveProtocolAdapterCleared0LogHash :: "codec \<Rightarrow> byte list" where
  "child_ActiveProtocolAdapterCleared0LogHash c = abi_EventID (codec_abi c) ''ActiveProtocolAdapterCleared0''"

definition child_DecodeActiveProtocolAdapterSet :: "env \<Rightarrow> codec \<Rightarrow> evm_log option \<Rightarrow> gstruct outcome" where
  "child_DecodeActiveProtocolAdapterSet E c lg =
     decode_event E c [(''ProtocolId'', GFix (replicate 32 0)), (''Adapter'', GAddr 0)]
       ''ActiveProtocolAdapterSet'' lg"

definition child_ActiveProtocolAdapterSetLogHash :: "codec \<Rightarrow> byte list" where
  "child_ActiveProtocolAdapterSetLogHash c = abi_EventID (codec_abi c) ''ActiveProtocolAdapterSet''"

definition child_DecodeActiveProtocolAdapterSet0 :: "env \<Rightarrow> codec \<Rightarrow> evm_log option \<Rightarrow> gstruct outcome" where
  "child_DecodeActiveProtocolAdapterSet0 E c lg =
     decode_event E c [(''ProtocolId'', GFix (replicate 32 0)), (''Adapter'', GAddr 0)]
       ''ActiveProtocolAdapterSet0'' lg"

definition child_ActiveProtocolAdapterSet0LogHash :: "codec \<Rightarrow> byte list" where
  "child_ActiveProtocolAdapterSet0LogHash c = abi_EventID (codec_abi c) ''ActiveProtocolAdapterSet0''"

definition child_DecodeCCIPBridged :: "env \<Rightarrow> codec \<Rightarrow> evm_log option \<Rightarrow> gstruct outcome" where
  "child_DecodeCCIPBridged E c lg =
     decode_event E c [(''CcipMessageId'', GFix (replicate 32 0)), (''DestinationChainSelector'', GU64 0), (''CcipTxType'', GU8 0)]
       ''CCIPBridged'' lg"

definition child_CCIPBridgedLogHash :: "codec \<Rightarrow> byte list" where
  "child_CCIPBridgedLogHash c = abi_EventID (codec_abi c) ''CCIPBridged''"

definition child_DecodeCCIPBridged0 :: "env \<Rightarrow> codec \<Rightarrow> evm_log option \<Rightarrow> gstruct outcome" where
  "child_DecodeCCIPBridged0 E c lg =
     decode_event E c [(''CcipMessageId'', GFix (replicate 32 0)), (''DestinationChainSelector'', GU64 0), (''CcipTxType'', GU8 0)]
       ''CCIPBridged0'' lg"

definition child_CCIPBridged0LogHash :: "codec \<Rightarrow> byte list" where
  "child_CCIPBridged0LogHash c = abi_EventID (codec_abi c) ''CCIPBridged0''"

definition child_DecodeCCIPReceived :: "env \<Rightarrow> codec \<Rightarrow> evm_log option \<Rightarrow> gstruct outcome" where
  "child_DecodeCCIPReceived E c lg =
     decode_event E c [(''CcipMessageId'', GFix (replicate 32 0)), (''SourceChainSelector'', GU64 0), (''CcipTxType'', GU8 0)]
       ''CCIPReceived'' lg"

definition child_CCIPReceivedLogHash :: "codec \<Rightarrow> byte list" where
  "child_CCIPReceivedLogHash c = abi_EventID (codec_abi c) ''CCIPReceived''"

definition child_DecodeCcipGasLimitSet :: "env \<Rightarrow> codec \<Rightarrow> evm_log option \<Rightarrow> gstruct outcome" where
  "child_DecodeCcipGasLimitSet E c lg =
     decode_event E c [(''ChainSelector'', GU64 0), (''GasLimit'', GBig None)]
       ''CcipGasLimitSet'' lg"

definition child_CcipGasLimitSetLogHash :: "codec \<Rightarrow> byte list" where
  "child_CcipGasLimitSetLogHash c = abi_EventID (codec_abi c) ''CcipGasLimitSet''"

definition child_DecodeCcipGasLimitSet0 :: "env \<Rightarrow> codec \<Rightarrow> evm_log option \<Rightarrow> gstruct outcome" where
  "child_DecodeCcipGasLimitSet0 E c lg =
     decode_event E c [(''ChainSelector'', GU64 0), (''GasLimit'', GBig None)]
       ''CcipGasLimitSet0'' lg"

definition child_CcipGasLimitSet0LogHash :: "codec \<Rightarrow> byte list" where
  "child_CcipGasLimitSet0LogHash c = abi_EventID (codec_abi c) ''CcipGasLimitSet0''"

definition child_DecodeCcipSendRecoveryCleared :: "env \<Rightarrow> codec \<Rightarrow> evm_log option \<Rightarrow> gstruct outcome" where
  "child_DecodeCcipSendRecoveryCleared E c lg =
     decode_event E c [(''CcipTxType'', GU8 0), (''DestinationChainSelector'', GU64 0), (''Amount'', GBig None)]
       ''CcipSendRecoveryCleared'' lg"

definition child_CcipSendRecoveryClearedLogHash :: "codec \<Rightarrow> byte list" where
  "child_CcipSendRecoveryClearedLogHash c = abi_EventID (codec_abi c) ''CcipSendRecoveryCleared''"

definition child_DecodeCcipSendRecoveryStored :: "env \<Rightarrow> codec \<Rightarrow> evm_log option \<Rightarrow> gstruct outcome" where
  "child_DecodeCcipSendRecoveryStored E c lg =
     decode_event E c [(''CcipTxType'', GU8 0), (''DestinationChainSelector'', GU64 0), (''Amount'', GBig None)]
       ''CcipSendRecoveryStored'' lg"

definition child_CcipSendRecoveryStoredLogHash :: "codec \<Rightarrow> byte list" where
  "child_CcipSendRecoveryStoredLogHash c = abi_EventID (codec_abi c) ''CcipSendRecoveryStored''"

definition child_DecodeCrosschainVaultSet :: "env \<Rightarrow> codec \<Rightarrow> evm_log option \<Rightarrow> gstruct outcome" where
  "child_DecodeCrosschainVaultSet E c lg =
     decode_event E c [(''ChainSelector'', GU64 0), (''Vault'', GAddr 0)]
       ''CrosschainVaultSet'' lg"

definition child_CrosschainVaultSetLogHash :: "codec \<Rightarrow> byte list" where
  "child_CrosschainVaultSetLogHash c = abi_EventID (codec_abi c) ''CrosschainVaultSet''"

definition child_DecodeCrosschainVaultSet0 :: "env \<Rightarrow> codec \<Rightarrow> evm_log option \<Rightarrow> gstruct outcome" where
  "child_DecodeCrosschainVaultSet0 E c lg =
     decode_event E c [(''ChainSelector'', GU64 0), (''Vault'', GAddr 0)]
       ''CrosschainVaultSet0'' lg"

definition child_CrosschainVaultSet0LogHash :: "codec \<Rightarrow> byte list" where
  "child_CrosschainVaultSet0LogHash c = abi_EventID (codec_abi c) ''CrosschainVaultSet0''"

definition child_DecodeDefaultAdminDelayChangeCanceled :: "env \<Rightarrow> codec \<Rightarrow> evm_log option \<Rightarrow> gstruct outcome" where
  "child_DecodeDefaultAdminDelayChangeCanceled E c lg =
     decode_event E c []
       ''DefaultAdminDelayChangeCanceled'' lg"

definition child_DefaultAdminDelayChangeCanceledLogHash :: "codec \<Rightarrow> byte list" where
  "child_DefaultAdminDelayChangeCanceledLogHash c = abi_EventID (codec_abi c) ''DefaultAdminDelayChangeCanceled''"

definition child_DecodeDefaultAdminDelayChangeScheduled :: "env \<Rightarrow> codec \<Rightarrow> evm_log option \<Rightarrow> gstruct outcome" where
  "child_DecodeDefaultAdminDelayChangeScheduled E c lg =
     decode_event E c [(''NewDelay'', GBig None), (''EffectSchedule'', GBig None)]
       ''DefaultAdminDelayChangeScheduled'' lg"

definition child_DefaultAdminDelayChangeScheduledLogHash :: "codec \<Rightarrow> byte list" where
  "child_DefaultAdminDelayChangeScheduledLogHash c = abi_EventID (codec_abi c) ''DefaultAdminDelayChangeScheduled''"

definition child_DecodeDefaultAdminTransferCanceled :: "env \<Rightarrow> codec \<Rightarrow> evm_log option \<Rightarrow> gstruct outcome" where
  "child_DecodeDefaultAdminTransferCanceled E c lg =
     decode_event E c []
       ''DefaultAdminTransferCanceled'' lg"

definition child_DefaultAdminTransferCanceledLogHash :: "codec \<Rightarrow> byte list" where
  "child_DefaultAdminTransferCanceledLogHash c = abi_EventID (codec_abi c) ''DefaultAdminTransferCanceled''"

definition child_DecodeDefaultAdminTransferScheduled :: "env \<Rightarrow> codec \<Rightarrow> evm_log option \<Rightarrow> gstruct outcome" where
  "child_DecodeDefaultAdminTransferScheduled E c lg =
     decode_event E c [(''NewAdmin'', GAddr 0), (''AcceptSchedule'', GBig None)]
       ''DefaultAdminTransferScheduled'' lg"

definition child_DefaultAdminTransferScheduledLogHash :: "codec \<Rightarrow> byte list" where
  "child_DefaultAdminTransferScheduledLogHash c = abi_EventID (codec_abi c) ''DefaultAdminTransferScheduled''"

definition child_DecodeDefaultCcipGasLimitSet :: "env \<Rightarrow> codec \<Rightarrow> evm_log option \<Rightarrow> gstruct outcome" where
  "child_DecodeDefaultCcipGasLimitSet E c lg =
     decode_event E c [(''GasLimit'', GBig None)]
       ''DefaultCcipGasLimitSet'' lg"

definition child_DefaultCcipGasLimitSetLogHash :: "codec \<Rightarrow> byte list" where
  "child_DefaultCcipGasLimitSetLogHash c = abi_EventID (codec_abi c) ''DefaultCcipGasLimitSet''"

definition child_DecodeDefaultCcipGasLimitSet0 :: "env \<Rightarrow> codec \<Rightarrow> evm_log option \<Rightarrow> gstruct outcome" where
  "child_DecodeDefaultCcipGasLimitSet0 E c lg =
     decode_event E c [(''GasLimit'', GBig None)]
       ''DefaultCcipGasLimitSet0'' lg"

definition child_DefaultCcipGasLimitSet0LogHash :: "codec \<Rightarrow> byte list" where
  "child_DefaultCcipGasLimitSet0LogHash c = abi_EventID (codec_abi c) ''DefaultCcipGasLimitSet0''"

definition child_DecodeEpochDepositRecoveryCleared :: "env \<Rightarrow> codec \<Rightarrow> evm_log option \<Rightarrow> gstruct outcome" where
  "child_DecodeEpochDepositRecoveryCleared E c lg =
     decode_event E c [(''EpochNonce'', GBig None)]
       ''EpochDepositRecoveryCleared'' lg"

definition child_EpochDepositRecoveryClearedLogHash :: "codec \<Rightarrow> byte list" where
  "child_EpochDepositRecoveryClearedLogHash c = abi_EventID (codec_abi c) ''EpochDepositRecoveryCleared''"

definition child_DecodeEpochDepositRecoveryStored :: "env \<Rightarrow> codec \<Rightarrow> evm_log option \<Rightarrow> gstruct outcome" where
  "child_DecodeEpochDepositRecoveryStored E c lg =
     decode_event E c [(''EpochNonce'', GBig None), (''Amount'', GBig None)]
       ''EpochDepositRecoveryStored'' lg"

definition child_EpochDepositRecoveryStoredLogHash :: "codec \<Rightarrow> byte list" where
  "child_EpochDepositRecoveryStoredLogHash c = abi_EventID (codec_abi c) ''EpochDepositRecoveryStored''"

definition child_DecodeEpochDepositToStrategyFailure :: "env \<Rightarrow> codec \<Rightarrow> evm_log option \<Rightarrow> gstruct outcome" where
  "child_DecodeEpochDepositToStrategyFailure E c lg =
     decode_event E c [(''EpochNonce'', GBig None), (''Amount'', GBig None)]
       ''EpochDepositToStrategyFailure'' lg"

definition child_EpochDepositToStrategyFailureLogHash :: "codec \<Rightarrow> byte list" where
  "child_EpochDepositToStrategyFailureLogHash c = abi_EventID (codec_abi c) ''EpochDepositToStrategyFailure''"

definition child_DecodeEpochWithdrawFromStrategyFailure :: "env \<Rightarrow> codec \<Rightarrow> evm_log option \<Rightarrow> gstruct outcome" where
  "child_DecodeEpochWithdrawFromStrategyFailure E c lg =
     decode_event E c [(''EpochNonce'', GBig None), (''Amount'', GBig None)]
       ''EpochWithdrawFromStrategyFailure'' lg"

definition child_EpochWithdrawFromStrategyFailureLogHash :: "codec \<Rightarrow> byte list" where
  "child_EpochWithdrawFromStrategyFailureLogHash c = abi_EventID (codec_abi c) ''EpochWithdrawFromStrategyFailure''"

definition child_DecodeEpochWithdrawFromStrategySuccess :: "env \<Rightarrow> codec \<Rightarrow> evm_log option \<Rightarrow> gstruct outcome" where
  "child_DecodeEpochWithdrawFromStrategySuccess E c lg =
     decode_event E c [(''EpochNonce'', GBig None), (''Amount'', GBig None)]
       ''EpochWithdrawFromStrategySuccess'' lg"

definition child_EpochWithdrawFromStrategySuccessLogHash :: "codec \<Rightarrow> byte list" where
  "child_EpochWithdrawFromStrategySuccessLogHash c = abi_EventID (codec_abi c) ''EpochWithdrawFromStrategySuccess''"

definition child_DecodeEpochWithdrawRecoveryCleared :: "env \<Rightarrow> codec \<Rightarrow> evm_log option \<Rightarrow> gstruct outcome" where
  "child_DecodeEpochWithdrawRecoveryCleared E c lg =
     decode_event E c [(''EpochNonce'', GBig None)]
       ''EpochWithdrawRecoveryCleared'' lg"

definition child_EpochWithdrawRecoveryClearedLogHash :: "codec \<Rightarrow> byte list" where
  "child_EpochWithdrawRecoveryClearedLogHash c = abi_EventID (codec_abi c) ''EpochWithdrawRecoveryCleared''"

definition child_DecodeEpochWithdrawRecoveryStored :: "env \<Rightarrow> codec \<Rightarrow> evm_log option \<Rightarrow> gstruct outcome" where
  "child_DecodeEpochWithdrawRecoveryStored E c lg =
     decode_event E c [(''EpochNonce'', GBig None), (''Amount'', GBig None)]
       ''EpochWithdrawRecoveryStored'' lg"

definition child_EpochWithdrawRecoveryStoredLogHash :: "codec \<Rightarrow> byte list" where
  "child_EpochWithdrawRecoveryStoredLogHash c = abi_EventID (codec_abi c) ''EpochWithdrawRecoveryStored''"

definition child_DecodeInitialized :: "env \<Rightarrow> codec \<Rightarrow> evm_log option \<Rightarrow> gstruct outcome" where
  "child_DecodeInitialized E c lg =
     decode_event E c [(''Version'', GU64 0)]
       ''Initialized'' lg"

definition child_InitializedLogHash :: "codec \<Rightarrow> byte list" where
  "child_InitializedLogHash c = abi_EventID (codec_abi c) ''Initialized''"

definition child_DecodeLinkWithdrawn :: "env \<Rightarrow> codec \<Rightarrow> evm_log option \<Rightarrow> gstruct outcome" where
  "child_DecodeLinkWithdrawn E c lg =
     decode_event E c [(''Operator'', GAddr 0), (''Amount'', GBig None)]
       ''LinkWithdrawn'' lg"

definition child_LinkWithdrawnLogHash :: "codec \<Rightarrow> byte list" where
  "child_LinkWithdrawnLogHash c = abi_EventID (codec_abi c) ''LinkWithdrawn''"

definition child_DecodePaused :: "env \<Rightarrow> codec \<Rightarrow> evm_log option \<Rightarrow> gstruct outcome" where
  "child_DecodePaused E c lg =
     decode_event E c [(''Account'', GAddr 0)]
       ''Paused'' lg"

definition child_PausedLogHash :: "codec \<Rightarrow> byte list" where
  "child_PausedLogHash c = abi_EventID (codec_abi c) ''Paused''"

definition child_DecodeRebalanceDepositFailure :: "env \<Rightarrow> codec \<Rightarrow> evm_log option \<Rightarrow> gstruct outcome" where
  "child_DecodeRebalanceDepositFailure E c lg =
     decode_event E c [(''RebalanceNonce'', GBig None), (''Amount'', GBig None)]
       ''RebalanceDepositFailure'' lg"

definition child_RebalanceDepositFailureLogHash :: "codec \<Rightarrow> byte list" where
  "child_RebalanceDepositFailureLogHash c = abi_EventID (codec_abi c) ''RebalanceDepositFailure''"

definition child_DecodeRebalanceDepositRecoveryCleared :: "env \<Rightarrow> codec \<Rightarrow> evm_log option \<Rightarrow> gstruct outcome" where
  "child_DecodeRebalanceDepositRecoveryCleared E c lg =
     decode_event E c [(''RebalanceNonce'', GBig None)]
       ''RebalanceDepositRecoveryCleared'' lg"

definition child_RebalanceDepositRecoveryClearedLogHash :: "codec \<Rightarrow> byte list" where
  "child_RebalanceDepositRecoveryClearedLogHash c = abi_EventID (codec_abi c) ''RebalanceDepositRecoveryCleared''"

definition child_DecodeRebalanceDepositRecoveryStored :: "env \<Rightarrow> codec \<Rightarrow> evm_log option \<Rightarrow> gstruct outcome" where
  "child_DecodeRebalanceDepositRecoveryStored E c lg =
     decode_event E c [(''RebalanceNonce'', GBig None), (''Amount'', GBig None)]
       ''RebalanceDepositRecoveryStored'' lg"

definition child_RebalanceDepositRecoveryStoredLogHash :: "codec \<Rightarrow> byte list" where
  "child_RebalanceDepositRecoveryStoredLogHash c = abi_EventID (codec_abi c) ''RebalanceDepositRecoveryStored''"

definition child_DecodeRebalanceDepositSuccess :: "env \<Rightarrow> codec \<Rightarrow> evm_log option \<Rightarrow> gstruct outcome" where
  "child_DecodeRebalanceDepositSuccess E c lg =
     decode_event E c [(''RebalanceNonce'', GBig None), (''Amount'', GBig None)]
       ''RebalanceDepositSuccess'' lg"

definition child_DecodeRebalanceWithdrawFailure :: "env \<Rightarrow> codec \<Rightarrow> evm_log option \<Rightarrow> gstruct outcome" where
  "child_DecodeRebalanceWithdrawFailure E c lg =
     decode_event E c [(''RebalanceNonce'', GBig None)]
       ''RebalanceWithdrawFailure'' lg"

definition child_RebalanceWithdrawFailureLogHash :: "codec \<Rightarrow> byte list" where
  "child_RebalanceWithdrawFailureLogHash c = abi_EventID (codec_abi c) ''RebalanceWithdrawFailure''"

definition child_DecodeRebalanceWithdrawRecoveryCleared :: "env \<Rightarrow> codec \<Rightarrow> evm_log option \<Rightarrow> gstruct outcome" where
  "child_DecodeRebalanceWithdrawRecoveryCleared E c lg =
     decode_event E c [(''RebalanceNonce'', GBig None)]
       ''RebalanceWithdrawRecoveryCleared'' lg"

definition child_RebalanceWithdrawRecoveryClearedLogHash :: "codec \<Rightarrow> byte list" where
  "child_RebalanceWithdrawRecoveryClearedLogHash c = abi_EventID (codec_abi c) ''RebalanceWithdrawRecoveryCleared''"

definition child_DecodeRebalanceWithdrawRecoveryStored :: "env \<Rightarrow> codec \<Rightarrow> evm_log option \<Rightarrow> gstruct outcome" where
  "child_DecodeRebalanceWithdrawRecoveryStored E c lg =
     decode_event E c [(''RebalanceNonce'', GBig None), (''ProtocolId'', GFix (replicate 32 0)), (''ChainSelector'', GU64 0)]
       ''RebalanceWithdrawRecoveryStored'' lg"

definition child_RebalanceWithdrawRecoveryStoredLogHash :: "codec \<Rightarrow> byte list" where
  "child_RebalanceWithdrawRecoveryStoredLogHash c = abi_EventID (codec_abi c) ''RebalanceWithdrawRecoveryStored''"

definition child_DecodeRebalanceWithdrawSuccess :: "env \<Rightarrow> codec \<Rightarrow> evm_log option \<Rightarrow> gstruct outcome" where
  "child_DecodeRebalanceWithdrawSuccess E c lg =
     decode_event E c [(''RebalanceNonce'', GBig None), (''Amount'', GBig None)]
       ''RebalanceWithdrawSuccess'' lg"

definition child_RebalanceWithdrawSuccessLogHash :: "codec \<Rightarrow> byte list" where
  "child_RebalanceWithdrawSuccessLogHash c = abi_EventID (codec_abi c) ''RebalanceWithdrawSuccess''"

definition child_DecodeRoleAdminChanged :: "env \<Rightarrow> codec \<Rightarrow> evm_log option \<Rightarrow> gstruct outcome" where
  "child_DecodeRoleAdminChanged E c lg =
     decode_event E c [(''Role'', GFix (replicate 32 0)), (''PreviousAdminRole'', GFix (replicate 32 0)), (''NewAdminRole'', GFix (replicate 32 0))]
       ''RoleAdminChanged'' lg"

definition child_RoleAdminChangedLogHash :: "codec \<Rightarrow> byte list" where
  "child_RoleAdminChangedLogHash c = abi_EventID (codec_abi c) ''RoleAdminChanged''"

definition child_DecodeRoleGranted :: "env \<Rightarrow> codec \<Rightarrow> evm_log option \<Rightarrow> gstruct outcome" where
  "child_DecodeRoleGranted E c lg =
     decode_event E c [(''Role'', GFix (replicate 32 0)), (''Account'', GAddr 0), (''Sender'', GAddr 0)]
       ''RoleGranted'' lg"

definition child_RoleGrantedLogHash :: "codec \<Rightarrow> byte list" where
  "child_RoleGrantedLogHash c = abi_EventID (codec_abi c) ''RoleGranted''"

definition child_DecodeRoleRevoked :: "env \<Rightarrow> codec \<Rightarrow> evm_log option \<Rightarrow> gstruct outcome" where
  "child_DecodeRoleRevoked E c lg =
     decode_event E c [(''Role'', GFix (replicate 32 0)), (''Account'', GAddr 0), (''Sender'', GAddr 0)]
       ''RoleRevoked'' lg"

definition child_RoleRevokedLogHash :: "codec \<Rightarrow> byte list" where
  "child_RoleRevokedLogHash c = abi_EventID (codec_abi c) ''RoleRevoked''"

definition child_DecodeUnpaused :: "env \<Rightarrow> codec \<Rightarrow> evm_log option \<Rightarrow> gstruct outcome" where
  "child_DecodeUnpaused E c lg =
     decode_event E c [(''Account'', GAddr 0)]
       ''Unpaused'' lg"

definition child_UnpausedLogHash :: "codec \<Rightarrow> byte list" where
  "child_UnpausedLogHash c = abi_EventID (codec_abi c) ''Unpaused''"

definition child_DecodeUpgraded :: "env \<Rightarrow> codec \<Rightarrow> evm_log option \<Rightarrow> gstruct outcome" where
  "child_DecodeUpgraded E c lg =
     decode_event E c [(''Implementation'', GAddr 0)]
       ''Upgraded'' lg"

definition child_UpgradedLogHash :: "codec \<Rightarrow> byte list" where
  "child_UpgradedLogHash c = abi_EventID (codec_abi c) ''Upgraded''"

lemmas child_event_decoder_defs =
  child_DecodeActiveProtocolAdapterCleared_def
  child_DecodeActiveProtocolAdapterCleared0_def
  child_DecodeActiveProtocolAdapterSet_def
  child_DecodeActiveProtocolAdapterSet0_def
  child_DecodeCCIPBridged_def
  child_DecodeCCIPBridged0_def
  child_DecodeCCIPReceived_def
  child_DecodeCcipGasLimitSet_def
  child_DecodeCcipGasLimitSet0_def
  child_DecodeCcipSendRecoveryCleared_def
  child_DecodeCcipSendRecoveryStored_def
  child_DecodeCrosschainVaultSet_def
  child_DecodeCrosschainVaultSet0_def
  child_DecodeDefaultAdminDelayChangeCanceled_def
  child_DecodeDefaultAdminDelayChangeScheduled_def
  child_DecodeDefaultAdminTransferCanceled_def
  child_DecodeDefaultAdminTransferScheduled_def
  child_DecodeDefaultCcipGasLimitSet_def
  child_DecodeDefaultCcipGasLimitSet0_def
  child_DecodeEpochDepositRecoveryCleared_def
  child_DecodeEpochDepositRecoveryStored_def
  child_DecodeEpochDepositToStrategyFailure_def
  child_DecodeEpochWithdrawFromStrategyFailure_def
  child_DecodeEpochWithdrawFromStrategySuccess_def
  child_DecodeEpochWithdrawRecoveryCleared_def
  child_DecodeEpochWithdrawRecoveryStored_def
  child_DecodeInitialized_def
  child_DecodeLinkWithdrawn_def
  child_DecodePaused_def
  child_DecodeRebalanceDepositFailure_def
  child_DecodeRebalanceDepositRecoveryCleared_def
  child_DecodeRebalanceDepositRecoveryStored_def
  child_DecodeRebalanceDepositSuccess_def
  child_DecodeRebalanceWithdrawFailure_def
  child_DecodeRebalanceWithdrawRecoveryCleared_def
  child_DecodeRebalanceWithdrawRecoveryStored_def
  child_DecodeRebalanceWithdrawSuccess_def
  child_DecodeRoleAdminChanged_def
  child_DecodeRoleGranted_def
  child_DecodeRoleRevoked_def
  child_DecodeUnpaused_def
  child_DecodeUpgraded_def

definition child_event_decoders :: "(string \<times> (env \<Rightarrow> codec \<Rightarrow> evm_log option \<Rightarrow> gstruct outcome)) list" where
  "child_event_decoders =
     [(''ActiveProtocolAdapterCleared'', child_DecodeActiveProtocolAdapterCleared),
      (''ActiveProtocolAdapterCleared0'', child_DecodeActiveProtocolAdapterCleared0),
      (''ActiveProtocolAdapterSet'', child_DecodeActiveProtocolAdapterSet),
      (''ActiveProtocolAdapterSet0'', child_DecodeActiveProtocolAdapterSet0),
      (''CCIPBridged'', child_DecodeCCIPBridged),
      (''CCIPBridged0'', child_DecodeCCIPBridged0),
      (''CCIPReceived'', child_DecodeCCIPReceived),
      (''CcipGasLimitSet'', child_DecodeCcipGasLimitSet),
      (''CcipGasLimitSet0'', child_DecodeCcipGasLimitSet0),
      (''CcipSendRecoveryCleared'', child_DecodeCcipSendRecoveryCleared),
      (''CcipSendRecoveryStored'', child_DecodeCcipSendRecoveryStored),
      (''CrosschainVaultSet'', child_DecodeCrosschainVaultSet),
      (''CrosschainVaultSet0'', child_DecodeCrosschainVaultSet0),
      (''DefaultAdminDelayChangeCanceled'', child_DecodeDefaultAdminDelayChangeCanceled),
      (''DefaultAdminDelayChangeScheduled'', child_DecodeDefaultAdminDelayChangeScheduled),
      (''DefaultAdminTransferCanceled'', child_DecodeDefaultAdminTransferCanceled),
      (''DefaultAdminTransferScheduled'', child_DecodeDefaultAdminTransferScheduled),
      (''DefaultCcipGasLimitSet'', child_DecodeDefaultCcipGasLimitSet),
      (''DefaultCcipGasLimitSet0'', child_DecodeDefaultCcipGasLimitSet0),
      (''EpochDepositRecoveryCleared'', child_DecodeEpochDepositRecoveryCleared),
      (''EpochDepositRecoveryStored'', child_DecodeEpochDepositRecoveryStored),
      (''EpochDepositToStrategyFailure'', child_DecodeEpochDepositToStrategyFailure),
      (''EpochWithdrawFromStrategyFailure'', child_DecodeEpochWithdrawFromStrategyFailure),
      (''EpochWithdrawFromStrategySuccess'', child_DecodeEpochWithdrawFromStrategySuccess),
      (''EpochWithdrawRecoveryCleared'', child_DecodeEpochWithdrawRecoveryCleared),
      (''EpochWithdrawRecoveryStored'', child_DecodeEpochWithdrawRecoveryStored),
      (''Initialized'', child_DecodeInitialized),
      (''LinkWithdrawn'', child_DecodeLinkWithdrawn),
      (''Paused'', child_DecodePaused),
      (''RebalanceDepositFailure'', child_DecodeRebalanceDepositFailure),
      (''RebalanceDepositRecoveryCleared'', child_DecodeRebalanceDepositRecoveryCleared),
      (''RebalanceDepositRecoveryStored'', child_DecodeRebalanceDepositRecoveryStored),
      (''RebalanceDepositSuccess'', child_DecodeRebalanceDepositSuccess),
      (''RebalanceWithdrawFailure'', child_DecodeRebalanceWithdrawFailure),
      (''RebalanceWithdrawRecoveryCleared'', child_DecodeRebalanceWithdrawRecoveryCleared),
      (''RebalanceWithdrawRecoveryStored'', child_DecodeRebalanceWithdrawRecoveryStored),
      (''RebalanceWithdrawSuccess'', child_DecodeRebalanceWithdrawSuccess),
      (''RoleAdminChanged'', child_DecodeRoleAdminChanged),
      (''RoleGranted'', child_DecodeRoleGranted),
      (''RoleRevoked'', child_DecodeRoleRevoked),
      (''Unpaused'', child_DecodeUnpaused),
      (''Upgraded'', child_DecodeUpgraded)]"

lemma child_event_decoders_ok: "list_all decodes_event child_event_decoders"
  by (auto simp: child_event_decoders_def decodes_event_def child_event_decoder_defs fun_eq_iff)

end
