(* ===== verification/Base_Decoders.thy ===== *)
theory Base_Decoders
  imports Revert_Errors Vault_Events
begin

text \<open>
  The revert data and the events of the generated BaseVault package (\<open>cre/contracts/evm/generated/base_vault/BaseVault.go\<close>):
  one decoder per custom error with the dispatch over them, and the decoder and signature hash of each event. The steps are
  \<open>decode_error\<close> and \<open>decode_event\<close>. Names that other packages have too carry the prefix \<open>base_\<close>.
\<close>

section \<open>Errors\<close>

definition base_DecodeAccessControlBadConfirmationError :: "abi \<Rightarrow> byte list \<Rightarrow> go_struct outcome" where
  "base_DecodeAccessControlBadConfirmationError =
     decode_error ''AccessControlBadConfirmation'' ''AccessControlBadConfirmation''
       []"

definition base_DecodeAccessControlEnforcedDefaultAdminDelayError :: "abi \<Rightarrow> byte list \<Rightarrow> go_struct outcome" where
  "base_DecodeAccessControlEnforcedDefaultAdminDelayError =
     decode_error ''AccessControlEnforcedDefaultAdminDelay'' ''AccessControlEnforcedDefaultAdminDelay''
       [(''schedule'', ''Schedule'', TBig)]"

definition base_DecodeAccessControlEnforcedDefaultAdminRulesError :: "abi \<Rightarrow> byte list \<Rightarrow> go_struct outcome" where
  "base_DecodeAccessControlEnforcedDefaultAdminRulesError =
     decode_error ''AccessControlEnforcedDefaultAdminRules'' ''AccessControlEnforcedDefaultAdminRules''
       []"

definition base_DecodeAccessControlInvalidDefaultAdminError :: "abi \<Rightarrow> byte list \<Rightarrow> go_struct outcome" where
  "base_DecodeAccessControlInvalidDefaultAdminError =
     decode_error ''AccessControlInvalidDefaultAdmin'' ''AccessControlInvalidDefaultAdmin''
       [(''defaultAdmin'', ''DefaultAdmin'', TAddr)]"

definition base_DecodeAccessControlUnauthorizedAccountError :: "abi \<Rightarrow> byte list \<Rightarrow> go_struct outcome" where
  "base_DecodeAccessControlUnauthorizedAccountError =
     decode_error ''AccessControlUnauthorizedAccount'' ''AccessControlUnauthorizedAccount''
       [(''account'', ''Account'', TAddr), (''neededRole'', ''NeededRole'', TFix 32)]"

definition base_DecodeAddressEmptyCodeError :: "abi \<Rightarrow> byte list \<Rightarrow> go_struct outcome" where
  "base_DecodeAddressEmptyCodeError =
     decode_error ''AddressEmptyCode'' ''AddressEmptyCode''
       [(''target'', ''Target'', TAddr)]"

definition base_DecodeBaseVaultDepositFailedError :: "abi \<Rightarrow> byte list \<Rightarrow> go_struct outcome" where
  "base_DecodeBaseVaultDepositFailedError =
     decode_error ''BaseVault__DepositFailed'' ''BaseVaultDepositFailed''
       [(''amount'', ''Amount'', TBig)]"

definition base_DecodeBaseVaultDestinationVaultNotSetError :: "abi \<Rightarrow> byte list \<Rightarrow> go_struct outcome" where
  "base_DecodeBaseVaultDestinationVaultNotSetError =
     decode_error ''BaseVault__DestinationVaultNotSet'' ''BaseVaultDestinationVaultNotSet''
       [(''destinationChainSelector'', ''DestinationChainSelector'', TU64)]"

definition base_DecodeBaseVaultEmptyInputError :: "abi \<Rightarrow> byte list \<Rightarrow> go_struct outcome" where
  "base_DecodeBaseVaultEmptyInputError =
     decode_error ''BaseVault__EmptyInput'' ''BaseVaultEmptyInput''
       []"

definition base_DecodeBaseVaultInvalidAdapterVaultError :: "abi \<Rightarrow> byte list \<Rightarrow> go_struct outcome" where
  "base_DecodeBaseVaultInvalidAdapterVaultError =
     decode_error ''BaseVault__InvalidAdapterVault'' ''BaseVaultInvalidAdapterVault''
       [(''adapter'', ''Adapter'', TAddr), (''actualVault'', ''ActualVault'', TAddr),
       (''expectedVault'', ''ExpectedVault'', TAddr)]"

definition base_DecodeBaseVaultInvalidDestinationChainSelectorError :: "abi \<Rightarrow> byte list \<Rightarrow> go_struct outcome" where
  "base_DecodeBaseVaultInvalidDestinationChainSelectorError =
     decode_error ''BaseVault__InvalidDestinationChainSelector'' ''BaseVaultInvalidDestinationChainSelector''
       [(''destinationChainSelector'', ''DestinationChainSelector'', TU64)]"

definition base_DecodeBaseVaultInvalidInputLengthsError :: "abi \<Rightarrow> byte list \<Rightarrow> go_struct outcome" where
  "base_DecodeBaseVaultInvalidInputLengthsError =
     decode_error ''BaseVault__InvalidInputLengths'' ''BaseVaultInvalidInputLengths''
       []"

definition base_DecodeBaseVaultInvalidReceivedTokenError :: "abi \<Rightarrow> byte list \<Rightarrow> go_struct outcome" where
  "base_DecodeBaseVaultInvalidReceivedTokenError =
     decode_error ''BaseVault__InvalidReceivedToken'' ''BaseVaultInvalidReceivedToken''
       [(''receivedToken'', ''ReceivedToken'', TAddr), (''expectedToken'', ''ExpectedToken'', TAddr)]"

definition base_DecodeBaseVaultInvalidSenderError :: "abi \<Rightarrow> byte list \<Rightarrow> go_struct outcome" where
  "base_DecodeBaseVaultInvalidSenderError =
     decode_error ''BaseVault__InvalidSender'' ''BaseVaultInvalidSender''
       [(''sender'', ''Sender'', TAddr), (''srcChainSelector'', ''SrcChainSelector'', TU64)]"

definition base_DecodeBaseVaultInvalidSourceChainSelectorError :: "abi \<Rightarrow> byte list \<Rightarrow> go_struct outcome" where
  "base_DecodeBaseVaultInvalidSourceChainSelectorError =
     decode_error ''BaseVault__InvalidSourceChainSelector'' ''BaseVaultInvalidSourceChainSelector''
       [(''sourceChainSelector'', ''SourceChainSelector'', TU64),
       (''expectedSourceChainSelector'', ''ExpectedSourceChainSelector'', TU64)]"

definition base_DecodeBaseVaultInvalidTokenAmountsLengthError :: "abi \<Rightarrow> byte list \<Rightarrow> go_struct outcome" where
  "base_DecodeBaseVaultInvalidTokenAmountsLengthError =
     decode_error ''BaseVault__InvalidTokenAmountsLength'' ''BaseVaultInvalidTokenAmountsLength''
       [(''receivedLength'', ''ReceivedLength'', TBig), (''expectedLength'', ''ExpectedLength'', TBig)]"

definition base_DecodeBaseVaultInvalidTxTypeError :: "abi \<Rightarrow> byte list \<Rightarrow> go_struct outcome" where
  "base_DecodeBaseVaultInvalidTxTypeError =
     decode_error ''BaseVault__InvalidTxType'' ''BaseVaultInvalidTxType''
       [(''ccipTxType'', ''CcipTxType'', TU8)]"

definition base_DecodeBaseVaultNoActiveAdapterError :: "abi \<Rightarrow> byte list \<Rightarrow> go_struct outcome" where
  "base_DecodeBaseVaultNoActiveAdapterError =
     decode_error ''BaseVault__NoActiveAdapter'' ''BaseVaultNoActiveAdapter''
       []"

definition base_DecodeBaseVaultNoAdapterRegisteredError :: "abi \<Rightarrow> byte list \<Rightarrow> go_struct outcome" where
  "base_DecodeBaseVaultNoAdapterRegisteredError =
     decode_error ''BaseVault__NoAdapterRegistered'' ''BaseVaultNoAdapterRegistered''
       [(''protocolId'', ''ProtocolId'', TFix 32)]"

definition base_DecodeBaseVaultNoPendingRecoveryError :: "abi \<Rightarrow> byte list \<Rightarrow> go_struct outcome" where
  "base_DecodeBaseVaultNoPendingRecoveryError =
     decode_error ''BaseVault__NoPendingRecovery'' ''BaseVaultNoPendingRecovery''
       []"

definition base_DecodeBaseVaultNoZeroAddressError :: "abi \<Rightarrow> byte list \<Rightarrow> go_struct outcome" where
  "base_DecodeBaseVaultNoZeroAddressError =
     decode_error ''BaseVault__NoZeroAddress'' ''BaseVaultNoZeroAddress''
       []"

definition base_DecodeBaseVaultNoZeroAmountError :: "abi \<Rightarrow> byte list \<Rightarrow> go_struct outcome" where
  "base_DecodeBaseVaultNoZeroAmountError =
     decode_error ''BaseVault__NoZeroAmount'' ''BaseVaultNoZeroAmount''
       []"

definition base_DecodeBaseVaultNoZeroChainSelectorError :: "abi \<Rightarrow> byte list \<Rightarrow> go_struct outcome" where
  "base_DecodeBaseVaultNoZeroChainSelectorError =
     decode_error ''BaseVault__NoZeroChainSelector'' ''BaseVaultNoZeroChainSelector''
       []"

definition base_DecodeBaseVaultOnlySelfError :: "abi \<Rightarrow> byte list \<Rightarrow> go_struct outcome" where
  "base_DecodeBaseVaultOnlySelfError =
     decode_error ''BaseVault__OnlySelf'' ''BaseVaultOnlySelf''
       []"

definition base_DecodeBaseVaultRecoveryAlreadyPendingError :: "abi \<Rightarrow> byte list \<Rightarrow> go_struct outcome" where
  "base_DecodeBaseVaultRecoveryAlreadyPendingError =
     decode_error ''BaseVault__RecoveryAlreadyPending'' ''BaseVaultRecoveryAlreadyPending''
       []"

definition base_DecodeBaseVaultWithdrawFailedError :: "abi \<Rightarrow> byte list \<Rightarrow> go_struct outcome" where
  "base_DecodeBaseVaultWithdrawFailedError =
     decode_error ''BaseVault__WithdrawFailed'' ''BaseVaultWithdrawFailed''
       [(''amount'', ''Amount'', TBig)]"

definition base_DecodeBaseVaultZeroRecoveryAmountError :: "abi \<Rightarrow> byte list \<Rightarrow> go_struct outcome" where
  "base_DecodeBaseVaultZeroRecoveryAmountError =
     decode_error ''BaseVault__ZeroRecoveryAmount'' ''BaseVaultZeroRecoveryAmount''
       []"

definition base_DecodeERC1967InvalidImplementationError :: "abi \<Rightarrow> byte list \<Rightarrow> go_struct outcome" where
  "base_DecodeERC1967InvalidImplementationError =
     decode_error ''ERC1967InvalidImplementation'' ''ERC1967InvalidImplementation''
       [(''implementation'', ''Implementation'', TAddr)]"

definition base_DecodeERC1967NonPayableError :: "abi \<Rightarrow> byte list \<Rightarrow> go_struct outcome" where
  "base_DecodeERC1967NonPayableError =
     decode_error ''ERC1967NonPayable'' ''ERC1967NonPayable''
       []"

definition base_DecodeEnforcedPauseError :: "abi \<Rightarrow> byte list \<Rightarrow> go_struct outcome" where
  "base_DecodeEnforcedPauseError =
     decode_error ''EnforcedPause'' ''EnforcedPause''
       []"

definition base_DecodeExpectedPauseError :: "abi \<Rightarrow> byte list \<Rightarrow> go_struct outcome" where
  "base_DecodeExpectedPauseError =
     decode_error ''ExpectedPause'' ''ExpectedPause''
       []"

definition base_DecodeFailedCallError :: "abi \<Rightarrow> byte list \<Rightarrow> go_struct outcome" where
  "base_DecodeFailedCallError =
     decode_error ''FailedCall'' ''FailedCall''
       []"

definition base_DecodeInvalidInitializationError :: "abi \<Rightarrow> byte list \<Rightarrow> go_struct outcome" where
  "base_DecodeInvalidInitializationError =
     decode_error ''InvalidInitialization'' ''InvalidInitialization''
       []"

definition base_DecodeInvalidRouterError :: "abi \<Rightarrow> byte list \<Rightarrow> go_struct outcome" where
  "base_DecodeInvalidRouterError =
     decode_error ''InvalidRouter'' ''InvalidRouter''
       [(''router'', ''Router'', TAddr)]"

definition base_DecodeNotInitializingError :: "abi \<Rightarrow> byte list \<Rightarrow> go_struct outcome" where
  "base_DecodeNotInitializingError =
     decode_error ''NotInitializing'' ''NotInitializing''
       []"

definition base_DecodeReentrancyGuardReentrantCallError :: "abi \<Rightarrow> byte list \<Rightarrow> go_struct outcome" where
  "base_DecodeReentrancyGuardReentrantCallError =
     decode_error ''ReentrancyGuardReentrantCall'' ''ReentrancyGuardReentrantCall''
       []"

definition base_DecodeSafeCastOverflowedUintDowncastError :: "abi \<Rightarrow> byte list \<Rightarrow> go_struct outcome" where
  "base_DecodeSafeCastOverflowedUintDowncastError =
     decode_error ''SafeCastOverflowedUintDowncast'' ''SafeCastOverflowedUintDowncast''
       [(''bits'', ''Bits'', TU8), (''value'', ''Value'', TBig)]"

definition base_DecodeSafeERC20FailedOperationError :: "abi \<Rightarrow> byte list \<Rightarrow> go_struct outcome" where
  "base_DecodeSafeERC20FailedOperationError =
     decode_error ''SafeERC20FailedOperation'' ''SafeERC20FailedOperation''
       [(''token'', ''Token'', TAddr)]"

definition base_DecodeUUPSUnauthorizedCallContextError :: "abi \<Rightarrow> byte list \<Rightarrow> go_struct outcome" where
  "base_DecodeUUPSUnauthorizedCallContextError =
     decode_error ''UUPSUnauthorizedCallContext'' ''UUPSUnauthorizedCallContext''
       []"

definition base_DecodeUUPSUnsupportedProxiableUUIDError :: "abi \<Rightarrow> byte list \<Rightarrow> go_struct outcome" where
  "base_DecodeUUPSUnsupportedProxiableUUIDError =
     decode_error ''UUPSUnsupportedProxiableUUID'' ''UUPSUnsupportedProxiableUUID''
       [(''slot'', ''Slot'', TFix 32)]"

lemmas base_decoder_defs =
  base_DecodeAccessControlBadConfirmationError_def
  base_DecodeAccessControlEnforcedDefaultAdminDelayError_def
  base_DecodeAccessControlEnforcedDefaultAdminRulesError_def
  base_DecodeAccessControlInvalidDefaultAdminError_def
  base_DecodeAccessControlUnauthorizedAccountError_def
  base_DecodeAddressEmptyCodeError_def
  base_DecodeBaseVaultDepositFailedError_def
  base_DecodeBaseVaultDestinationVaultNotSetError_def
  base_DecodeBaseVaultEmptyInputError_def
  base_DecodeBaseVaultInvalidAdapterVaultError_def
  base_DecodeBaseVaultInvalidDestinationChainSelectorError_def
  base_DecodeBaseVaultInvalidInputLengthsError_def
  base_DecodeBaseVaultInvalidReceivedTokenError_def
  base_DecodeBaseVaultInvalidSenderError_def
  base_DecodeBaseVaultInvalidSourceChainSelectorError_def
  base_DecodeBaseVaultInvalidTokenAmountsLengthError_def
  base_DecodeBaseVaultInvalidTxTypeError_def
  base_DecodeBaseVaultNoActiveAdapterError_def
  base_DecodeBaseVaultNoAdapterRegisteredError_def
  base_DecodeBaseVaultNoPendingRecoveryError_def
  base_DecodeBaseVaultNoZeroAddressError_def
  base_DecodeBaseVaultNoZeroAmountError_def
  base_DecodeBaseVaultNoZeroChainSelectorError_def
  base_DecodeBaseVaultOnlySelfError_def
  base_DecodeBaseVaultRecoveryAlreadyPendingError_def
  base_DecodeBaseVaultWithdrawFailedError_def
  base_DecodeBaseVaultZeroRecoveryAmountError_def
  base_DecodeERC1967InvalidImplementationError_def
  base_DecodeERC1967NonPayableError_def
  base_DecodeEnforcedPauseError_def
  base_DecodeExpectedPauseError_def
  base_DecodeFailedCallError_def
  base_DecodeInvalidInitializationError_def
  base_DecodeInvalidRouterError_def
  base_DecodeNotInitializingError_def
  base_DecodeReentrancyGuardReentrantCallError_def
  base_DecodeSafeCastOverflowedUintDowncastError_def
  base_DecodeSafeERC20FailedOperationError_def
  base_DecodeUUPSUnauthorizedCallContextError_def
  base_DecodeUUPSUnsupportedProxiableUUIDError_def

text \<open>The cases of the switch in \<open>UnpackError\<close>, in the source's order.\<close>

definition base_error_cases :: "(string \<times> (abi \<Rightarrow> byte list \<Rightarrow> go_struct outcome)) list" where
  "base_error_cases =
     [(''AccessControlBadConfirmation'', base_DecodeAccessControlBadConfirmationError),
      (''AccessControlEnforcedDefaultAdminDelay'', base_DecodeAccessControlEnforcedDefaultAdminDelayError),
      (''AccessControlEnforcedDefaultAdminRules'', base_DecodeAccessControlEnforcedDefaultAdminRulesError),
      (''AccessControlInvalidDefaultAdmin'', base_DecodeAccessControlInvalidDefaultAdminError),
      (''AccessControlUnauthorizedAccount'', base_DecodeAccessControlUnauthorizedAccountError),
      (''AddressEmptyCode'', base_DecodeAddressEmptyCodeError),
      (''BaseVault__DepositFailed'', base_DecodeBaseVaultDepositFailedError),
      (''BaseVault__DestinationVaultNotSet'', base_DecodeBaseVaultDestinationVaultNotSetError),
      (''BaseVault__EmptyInput'', base_DecodeBaseVaultEmptyInputError),
      (''BaseVault__InvalidAdapterVault'', base_DecodeBaseVaultInvalidAdapterVaultError),
      (''BaseVault__InvalidDestinationChainSelector'', base_DecodeBaseVaultInvalidDestinationChainSelectorError),
      (''BaseVault__InvalidInputLengths'', base_DecodeBaseVaultInvalidInputLengthsError),
      (''BaseVault__InvalidReceivedToken'', base_DecodeBaseVaultInvalidReceivedTokenError),
      (''BaseVault__InvalidSender'', base_DecodeBaseVaultInvalidSenderError),
      (''BaseVault__InvalidSourceChainSelector'', base_DecodeBaseVaultInvalidSourceChainSelectorError),
      (''BaseVault__InvalidTokenAmountsLength'', base_DecodeBaseVaultInvalidTokenAmountsLengthError),
      (''BaseVault__InvalidTxType'', base_DecodeBaseVaultInvalidTxTypeError),
      (''BaseVault__NoActiveAdapter'', base_DecodeBaseVaultNoActiveAdapterError),
      (''BaseVault__NoAdapterRegistered'', base_DecodeBaseVaultNoAdapterRegisteredError),
      (''BaseVault__NoPendingRecovery'', base_DecodeBaseVaultNoPendingRecoveryError),
      (''BaseVault__NoZeroAddress'', base_DecodeBaseVaultNoZeroAddressError),
      (''BaseVault__NoZeroAmount'', base_DecodeBaseVaultNoZeroAmountError),
      (''BaseVault__NoZeroChainSelector'', base_DecodeBaseVaultNoZeroChainSelectorError),
      (''BaseVault__OnlySelf'', base_DecodeBaseVaultOnlySelfError),
      (''BaseVault__RecoveryAlreadyPending'', base_DecodeBaseVaultRecoveryAlreadyPendingError),
      (''BaseVault__WithdrawFailed'', base_DecodeBaseVaultWithdrawFailedError),
      (''BaseVault__ZeroRecoveryAmount'', base_DecodeBaseVaultZeroRecoveryAmountError),
      (''ERC1967InvalidImplementation'', base_DecodeERC1967InvalidImplementationError),
      (''ERC1967NonPayable'', base_DecodeERC1967NonPayableError),
      (''EnforcedPause'', base_DecodeEnforcedPauseError),
      (''ExpectedPause'', base_DecodeExpectedPauseError),
      (''FailedCall'', base_DecodeFailedCallError),
      (''InvalidInitialization'', base_DecodeInvalidInitializationError),
      (''InvalidRouter'', base_DecodeInvalidRouterError),
      (''NotInitializing'', base_DecodeNotInitializingError),
      (''ReentrancyGuardReentrantCall'', base_DecodeReentrancyGuardReentrantCallError),
      (''SafeCastOverflowedUintDowncast'', base_DecodeSafeCastOverflowedUintDowncastError),
      (''SafeERC20FailedOperation'', base_DecodeSafeERC20FailedOperationError),
      (''UUPSUnauthorizedCallContext'', base_DecodeUUPSUnauthorizedCallContextError),
      (''UUPSUnsupportedProxiableUUID'', base_DecodeUUPSUnsupportedProxiableUUIDError)]"

definition base_UnpackError :: "abi \<Rightarrow> byte list \<Rightarrow> go_struct outcome" where
  "base_UnpackError c data =
     (if length data < 4 then Panic ''slice bounds out of range'' else switch_error c data base_error_cases)"

definition base_error_table :: "(string \<times> string \<times> error_field list) list" where
  "base_error_table =
     [(''AccessControlBadConfirmation'', ''AccessControlBadConfirmation'', []),
      (''AccessControlEnforcedDefaultAdminDelay'', ''AccessControlEnforcedDefaultAdminDelay'', [(''schedule'',
        ''Schedule'', TBig)]),
      (''AccessControlEnforcedDefaultAdminRules'', ''AccessControlEnforcedDefaultAdminRules'', []),
      (''AccessControlInvalidDefaultAdmin'', ''AccessControlInvalidDefaultAdmin'', [(''defaultAdmin'', ''DefaultAdmin'',
        TAddr)]),
      (''AccessControlUnauthorizedAccount'', ''AccessControlUnauthorizedAccount'', [(''account'', ''Account'', TAddr),
        (''neededRole'', ''NeededRole'', TFix 32)]),
      (''AddressEmptyCode'', ''AddressEmptyCode'', [(''target'', ''Target'', TAddr)]),
      (''BaseVault__DepositFailed'', ''BaseVaultDepositFailed'', [(''amount'', ''Amount'', TBig)]),
      (''BaseVault__DestinationVaultNotSet'', ''BaseVaultDestinationVaultNotSet'', [(''destinationChainSelector'',
        ''DestinationChainSelector'', TU64)]),
      (''BaseVault__EmptyInput'', ''BaseVaultEmptyInput'', []),
      (''BaseVault__InvalidAdapterVault'', ''BaseVaultInvalidAdapterVault'', [(''adapter'', ''Adapter'', TAddr),
        (''actualVault'', ''ActualVault'', TAddr), (''expectedVault'', ''ExpectedVault'', TAddr)]),
      (''BaseVault__InvalidDestinationChainSelector'', ''BaseVaultInvalidDestinationChainSelector'',
        [(''destinationChainSelector'', ''DestinationChainSelector'', TU64)]),
      (''BaseVault__InvalidInputLengths'', ''BaseVaultInvalidInputLengths'', []),
      (''BaseVault__InvalidReceivedToken'', ''BaseVaultInvalidReceivedToken'', [(''receivedToken'', ''ReceivedToken'',
        TAddr), (''expectedToken'', ''ExpectedToken'', TAddr)]),
      (''BaseVault__InvalidSender'', ''BaseVaultInvalidSender'', [(''sender'', ''Sender'', TAddr),
        (''srcChainSelector'', ''SrcChainSelector'', TU64)]),
      (''BaseVault__InvalidSourceChainSelector'', ''BaseVaultInvalidSourceChainSelector'', [(''sourceChainSelector'',
        ''SourceChainSelector'', TU64), (''expectedSourceChainSelector'', ''ExpectedSourceChainSelector'', TU64)]),
      (''BaseVault__InvalidTokenAmountsLength'', ''BaseVaultInvalidTokenAmountsLength'', [(''receivedLength'',
        ''ReceivedLength'', TBig), (''expectedLength'', ''ExpectedLength'', TBig)]),
      (''BaseVault__InvalidTxType'', ''BaseVaultInvalidTxType'', [(''ccipTxType'', ''CcipTxType'', TU8)]),
      (''BaseVault__NoActiveAdapter'', ''BaseVaultNoActiveAdapter'', []),
      (''BaseVault__NoAdapterRegistered'', ''BaseVaultNoAdapterRegistered'', [(''protocolId'', ''ProtocolId'', TFix 32)]),
      (''BaseVault__NoPendingRecovery'', ''BaseVaultNoPendingRecovery'', []),
      (''BaseVault__NoZeroAddress'', ''BaseVaultNoZeroAddress'', []),
      (''BaseVault__NoZeroAmount'', ''BaseVaultNoZeroAmount'', []),
      (''BaseVault__NoZeroChainSelector'', ''BaseVaultNoZeroChainSelector'', []),
      (''BaseVault__OnlySelf'', ''BaseVaultOnlySelf'', []),
      (''BaseVault__RecoveryAlreadyPending'', ''BaseVaultRecoveryAlreadyPending'', []),
      (''BaseVault__WithdrawFailed'', ''BaseVaultWithdrawFailed'', [(''amount'', ''Amount'', TBig)]),
      (''BaseVault__ZeroRecoveryAmount'', ''BaseVaultZeroRecoveryAmount'', []),
      (''ERC1967InvalidImplementation'', ''ERC1967InvalidImplementation'', [(''implementation'', ''Implementation'',
        TAddr)]),
      (''ERC1967NonPayable'', ''ERC1967NonPayable'', []),
      (''EnforcedPause'', ''EnforcedPause'', []),
      (''ExpectedPause'', ''ExpectedPause'', []),
      (''FailedCall'', ''FailedCall'', []),
      (''InvalidInitialization'', ''InvalidInitialization'', []),
      (''InvalidRouter'', ''InvalidRouter'', [(''router'', ''Router'', TAddr)]),
      (''NotInitializing'', ''NotInitializing'', []),
      (''ReentrancyGuardReentrantCall'', ''ReentrancyGuardReentrantCall'', []),
      (''SafeCastOverflowedUintDowncast'', ''SafeCastOverflowedUintDowncast'', [(''bits'', ''Bits'', TU8),
        (''value'', ''Value'', TBig)]),
      (''SafeERC20FailedOperation'', ''SafeERC20FailedOperation'', [(''token'', ''Token'', TAddr)]),
      (''UUPSUnauthorizedCallContext'', ''UUPSUnauthorizedCallContext'', []),
      (''UUPSUnsupportedProxiableUUID'', ''UUPSUnsupportedProxiableUUID'', [(''slot'', ''Slot'', TFix 32)])]"

lemma base_error_cases_table: "base_error_cases = map table_decoder base_error_table"
  by (simp add: base_error_cases_def base_error_table_def table_decoder_def base_decoder_defs)

interpretation base_errors: error_dispatch base_error_table base_UnpackError
  by unfold_locales (simp_all add: base_UnpackError_def base_error_cases_table)

section \<open>Events\<close>

definition base_DecodeActiveProtocolAdapterCleared :: "env \<Rightarrow> codec \<Rightarrow> evm_log option \<Rightarrow> gstruct outcome" where
  "base_DecodeActiveProtocolAdapterCleared E c lg =
     decode_event E c [(''Adapter'', GAddr 0)]
       ''ActiveProtocolAdapterCleared'' lg"

definition base_ActiveProtocolAdapterClearedLogHash :: "codec \<Rightarrow> byte list" where
  "base_ActiveProtocolAdapterClearedLogHash c = abi_EventID (codec_abi c) ''ActiveProtocolAdapterCleared''"

definition base_DecodeActiveProtocolAdapterSet :: "env \<Rightarrow> codec \<Rightarrow> evm_log option \<Rightarrow> gstruct outcome" where
  "base_DecodeActiveProtocolAdapterSet E c lg =
     decode_event E c [(''ProtocolId'', GFix (replicate 32 0)), (''Adapter'', GAddr 0)]
       ''ActiveProtocolAdapterSet'' lg"

definition base_ActiveProtocolAdapterSetLogHash :: "codec \<Rightarrow> byte list" where
  "base_ActiveProtocolAdapterSetLogHash c = abi_EventID (codec_abi c) ''ActiveProtocolAdapterSet''"

definition base_DecodeCCIPBridged :: "env \<Rightarrow> codec \<Rightarrow> evm_log option \<Rightarrow> gstruct outcome" where
  "base_DecodeCCIPBridged E c lg =
     decode_event E c [(''CcipMessageId'', GFix (replicate 32 0)), (''DestinationChainSelector'', GU64 0),
       (''CcipTxType'', GU8 0)]
       ''CCIPBridged'' lg"

definition base_CCIPBridgedLogHash :: "codec \<Rightarrow> byte list" where
  "base_CCIPBridgedLogHash c = abi_EventID (codec_abi c) ''CCIPBridged''"

definition base_DecodeCCIPReceived :: "env \<Rightarrow> codec \<Rightarrow> evm_log option \<Rightarrow> gstruct outcome" where
  "base_DecodeCCIPReceived E c lg =
     decode_event E c [(''CcipMessageId'', GFix (replicate 32 0)), (''SourceChainSelector'', GU64 0),
       (''CcipTxType'', GU8 0)]
       ''CCIPReceived'' lg"

definition base_CCIPReceivedLogHash :: "codec \<Rightarrow> byte list" where
  "base_CCIPReceivedLogHash c = abi_EventID (codec_abi c) ''CCIPReceived''"

definition base_DecodeCcipGasLimitSet :: "env \<Rightarrow> codec \<Rightarrow> evm_log option \<Rightarrow> gstruct outcome" where
  "base_DecodeCcipGasLimitSet E c lg =
     decode_event E c [(''ChainSelector'', GU64 0), (''GasLimit'', GBig None)]
       ''CcipGasLimitSet'' lg"

definition base_CcipGasLimitSetLogHash :: "codec \<Rightarrow> byte list" where
  "base_CcipGasLimitSetLogHash c = abi_EventID (codec_abi c) ''CcipGasLimitSet''"

definition base_DecodeCrosschainVaultSet :: "env \<Rightarrow> codec \<Rightarrow> evm_log option \<Rightarrow> gstruct outcome" where
  "base_DecodeCrosschainVaultSet E c lg =
     decode_event E c [(''ChainSelector'', GU64 0), (''Vault'', GAddr 0)]
       ''CrosschainVaultSet'' lg"

definition base_CrosschainVaultSetLogHash :: "codec \<Rightarrow> byte list" where
  "base_CrosschainVaultSetLogHash c = abi_EventID (codec_abi c) ''CrosschainVaultSet''"

definition base_DecodeDefaultAdminDelayChangeCanceled :: "env \<Rightarrow> codec \<Rightarrow> evm_log option \<Rightarrow> gstruct outcome" where
  "base_DecodeDefaultAdminDelayChangeCanceled E c lg =
     decode_event E c []
       ''DefaultAdminDelayChangeCanceled'' lg"

definition base_DefaultAdminDelayChangeCanceledLogHash :: "codec \<Rightarrow> byte list" where
  "base_DefaultAdminDelayChangeCanceledLogHash c = abi_EventID (codec_abi c) ''DefaultAdminDelayChangeCanceled''"

definition base_DecodeDefaultAdminDelayChangeScheduled :: "env \<Rightarrow> codec \<Rightarrow> evm_log option \<Rightarrow> gstruct outcome" where
  "base_DecodeDefaultAdminDelayChangeScheduled E c lg =
     decode_event E c [(''NewDelay'', GBig None), (''EffectSchedule'', GBig None)]
       ''DefaultAdminDelayChangeScheduled'' lg"

definition base_DefaultAdminDelayChangeScheduledLogHash :: "codec \<Rightarrow> byte list" where
  "base_DefaultAdminDelayChangeScheduledLogHash c = abi_EventID (codec_abi c) ''DefaultAdminDelayChangeScheduled''"

definition base_DecodeDefaultAdminTransferCanceled :: "env \<Rightarrow> codec \<Rightarrow> evm_log option \<Rightarrow> gstruct outcome" where
  "base_DecodeDefaultAdminTransferCanceled E c lg =
     decode_event E c []
       ''DefaultAdminTransferCanceled'' lg"

definition base_DefaultAdminTransferCanceledLogHash :: "codec \<Rightarrow> byte list" where
  "base_DefaultAdminTransferCanceledLogHash c = abi_EventID (codec_abi c) ''DefaultAdminTransferCanceled''"

definition base_DecodeDefaultAdminTransferScheduled :: "env \<Rightarrow> codec \<Rightarrow> evm_log option \<Rightarrow> gstruct outcome" where
  "base_DecodeDefaultAdminTransferScheduled E c lg =
     decode_event E c [(''NewAdmin'', GAddr 0), (''AcceptSchedule'', GBig None)]
       ''DefaultAdminTransferScheduled'' lg"

definition base_DefaultAdminTransferScheduledLogHash :: "codec \<Rightarrow> byte list" where
  "base_DefaultAdminTransferScheduledLogHash c = abi_EventID (codec_abi c) ''DefaultAdminTransferScheduled''"

definition base_DecodeDefaultCcipGasLimitSet :: "env \<Rightarrow> codec \<Rightarrow> evm_log option \<Rightarrow> gstruct outcome" where
  "base_DecodeDefaultCcipGasLimitSet E c lg =
     decode_event E c [(''GasLimit'', GBig None)]
       ''DefaultCcipGasLimitSet'' lg"

definition base_DefaultCcipGasLimitSetLogHash :: "codec \<Rightarrow> byte list" where
  "base_DefaultCcipGasLimitSetLogHash c = abi_EventID (codec_abi c) ''DefaultCcipGasLimitSet''"

definition base_DecodeEpochDepositToStrategySuccess :: "env \<Rightarrow> codec \<Rightarrow> evm_log option \<Rightarrow> gstruct outcome" where
  "base_DecodeEpochDepositToStrategySuccess E c lg =
     decode_event E c [(''EpochNonce'', GBig None), (''Amount'', GBig None)]
       ''EpochDepositToStrategySuccess'' lg"

definition base_EpochDepositToStrategySuccessLogHash :: "codec \<Rightarrow> byte list" where
  "base_EpochDepositToStrategySuccessLogHash c = abi_EventID (codec_abi c) ''EpochDepositToStrategySuccess''"

definition base_DecodeEpochWithdrawFromStrategySuccess :: "env \<Rightarrow> codec \<Rightarrow> evm_log option \<Rightarrow> gstruct outcome" where
  "base_DecodeEpochWithdrawFromStrategySuccess E c lg =
     decode_event E c [(''EpochNonce'', GBig None), (''Amount'', GBig None)]
       ''EpochWithdrawFromStrategySuccess'' lg"

definition base_EpochWithdrawFromStrategySuccessLogHash :: "codec \<Rightarrow> byte list" where
  "base_EpochWithdrawFromStrategySuccessLogHash c = abi_EventID (codec_abi c) ''EpochWithdrawFromStrategySuccess''"

definition base_DecodeInitialized :: "env \<Rightarrow> codec \<Rightarrow> evm_log option \<Rightarrow> gstruct outcome" where
  "base_DecodeInitialized E c lg =
     decode_event E c [(''Version'', GU64 0)]
       ''Initialized'' lg"

definition base_InitializedLogHash :: "codec \<Rightarrow> byte list" where
  "base_InitializedLogHash c = abi_EventID (codec_abi c) ''Initialized''"

definition base_DecodeLinkWithdrawn :: "env \<Rightarrow> codec \<Rightarrow> evm_log option \<Rightarrow> gstruct outcome" where
  "base_DecodeLinkWithdrawn E c lg =
     decode_event E c [(''Operator'', GAddr 0), (''Amount'', GBig None)]
       ''LinkWithdrawn'' lg"

definition base_LinkWithdrawnLogHash :: "codec \<Rightarrow> byte list" where
  "base_LinkWithdrawnLogHash c = abi_EventID (codec_abi c) ''LinkWithdrawn''"

definition base_DecodePaused :: "env \<Rightarrow> codec \<Rightarrow> evm_log option \<Rightarrow> gstruct outcome" where
  "base_DecodePaused E c lg =
     decode_event E c [(''Account'', GAddr 0)]
       ''Paused'' lg"

definition base_PausedLogHash :: "codec \<Rightarrow> byte list" where
  "base_PausedLogHash c = abi_EventID (codec_abi c) ''Paused''"

definition base_DecodeRebalanceDepositFailure :: "env \<Rightarrow> codec \<Rightarrow> evm_log option \<Rightarrow> gstruct outcome" where
  "base_DecodeRebalanceDepositFailure E c lg =
     decode_event E c [(''RebalanceNonce'', GBig None), (''Amount'', GBig None)]
       ''RebalanceDepositFailure'' lg"

definition base_RebalanceDepositFailureLogHash :: "codec \<Rightarrow> byte list" where
  "base_RebalanceDepositFailureLogHash c = abi_EventID (codec_abi c) ''RebalanceDepositFailure''"

definition base_DecodeRebalanceDepositRecoveryCleared :: "env \<Rightarrow> codec \<Rightarrow> evm_log option \<Rightarrow> gstruct outcome" where
  "base_DecodeRebalanceDepositRecoveryCleared E c lg =
     decode_event E c [(''RebalanceNonce'', GBig None)]
       ''RebalanceDepositRecoveryCleared'' lg"

definition base_RebalanceDepositRecoveryClearedLogHash :: "codec \<Rightarrow> byte list" where
  "base_RebalanceDepositRecoveryClearedLogHash c = abi_EventID (codec_abi c) ''RebalanceDepositRecoveryCleared''"

definition base_DecodeRebalanceDepositRecoveryStored :: "env \<Rightarrow> codec \<Rightarrow> evm_log option \<Rightarrow> gstruct outcome" where
  "base_DecodeRebalanceDepositRecoveryStored E c lg =
     decode_event E c [(''RebalanceNonce'', GBig None), (''Amount'', GBig None)]
       ''RebalanceDepositRecoveryStored'' lg"

definition base_RebalanceDepositRecoveryStoredLogHash :: "codec \<Rightarrow> byte list" where
  "base_RebalanceDepositRecoveryStoredLogHash c = abi_EventID (codec_abi c) ''RebalanceDepositRecoveryStored''"

definition base_DecodeRebalanceDepositSuccess :: "env \<Rightarrow> codec \<Rightarrow> evm_log option \<Rightarrow> gstruct outcome" where
  "base_DecodeRebalanceDepositSuccess E c lg =
     decode_event E c [(''RebalanceNonce'', GBig None), (''Amount'', GBig None)]
       ''RebalanceDepositSuccess'' lg"

definition base_RebalanceDepositSuccessLogHash :: "codec \<Rightarrow> byte list" where
  "base_RebalanceDepositSuccessLogHash c = abi_EventID (codec_abi c) ''RebalanceDepositSuccess''"

definition base_DecodeRebalanceWithdrawSuccess :: "env \<Rightarrow> codec \<Rightarrow> evm_log option \<Rightarrow> gstruct outcome" where
  "base_DecodeRebalanceWithdrawSuccess E c lg =
     decode_event E c [(''RebalanceNonce'', GBig None), (''Amount'', GBig None)]
       ''RebalanceWithdrawSuccess'' lg"

definition base_RebalanceWithdrawSuccessLogHash :: "codec \<Rightarrow> byte list" where
  "base_RebalanceWithdrawSuccessLogHash c = abi_EventID (codec_abi c) ''RebalanceWithdrawSuccess''"

definition base_DecodeRoleAdminChanged :: "env \<Rightarrow> codec \<Rightarrow> evm_log option \<Rightarrow> gstruct outcome" where
  "base_DecodeRoleAdminChanged E c lg =
     decode_event E c [(''Role'', GFix (replicate 32 0)), (''PreviousAdminRole'', GFix (replicate 32 0)),
       (''NewAdminRole'', GFix (replicate 32 0))]
       ''RoleAdminChanged'' lg"

definition base_RoleAdminChangedLogHash :: "codec \<Rightarrow> byte list" where
  "base_RoleAdminChangedLogHash c = abi_EventID (codec_abi c) ''RoleAdminChanged''"

definition base_DecodeRoleGranted :: "env \<Rightarrow> codec \<Rightarrow> evm_log option \<Rightarrow> gstruct outcome" where
  "base_DecodeRoleGranted E c lg =
     decode_event E c [(''Role'', GFix (replicate 32 0)), (''Account'', GAddr 0), (''Sender'', GAddr 0)]
       ''RoleGranted'' lg"

definition base_RoleGrantedLogHash :: "codec \<Rightarrow> byte list" where
  "base_RoleGrantedLogHash c = abi_EventID (codec_abi c) ''RoleGranted''"

definition base_DecodeRoleRevoked :: "env \<Rightarrow> codec \<Rightarrow> evm_log option \<Rightarrow> gstruct outcome" where
  "base_DecodeRoleRevoked E c lg =
     decode_event E c [(''Role'', GFix (replicate 32 0)), (''Account'', GAddr 0), (''Sender'', GAddr 0)]
       ''RoleRevoked'' lg"

definition base_RoleRevokedLogHash :: "codec \<Rightarrow> byte list" where
  "base_RoleRevokedLogHash c = abi_EventID (codec_abi c) ''RoleRevoked''"

definition base_DecodeUnpaused :: "env \<Rightarrow> codec \<Rightarrow> evm_log option \<Rightarrow> gstruct outcome" where
  "base_DecodeUnpaused E c lg =
     decode_event E c [(''Account'', GAddr 0)]
       ''Unpaused'' lg"

definition base_UnpausedLogHash :: "codec \<Rightarrow> byte list" where
  "base_UnpausedLogHash c = abi_EventID (codec_abi c) ''Unpaused''"

definition base_DecodeUpgraded :: "env \<Rightarrow> codec \<Rightarrow> evm_log option \<Rightarrow> gstruct outcome" where
  "base_DecodeUpgraded E c lg =
     decode_event E c [(''Implementation'', GAddr 0)]
       ''Upgraded'' lg"

definition base_UpgradedLogHash :: "codec \<Rightarrow> byte list" where
  "base_UpgradedLogHash c = abi_EventID (codec_abi c) ''Upgraded''"

lemmas base_event_decoder_defs =
  base_DecodeActiveProtocolAdapterCleared_def
  base_DecodeActiveProtocolAdapterSet_def
  base_DecodeCCIPBridged_def
  base_DecodeCCIPReceived_def
  base_DecodeCcipGasLimitSet_def
  base_DecodeCrosschainVaultSet_def
  base_DecodeDefaultAdminDelayChangeCanceled_def
  base_DecodeDefaultAdminDelayChangeScheduled_def
  base_DecodeDefaultAdminTransferCanceled_def
  base_DecodeDefaultAdminTransferScheduled_def
  base_DecodeDefaultCcipGasLimitSet_def
  base_DecodeEpochDepositToStrategySuccess_def
  base_DecodeEpochWithdrawFromStrategySuccess_def
  base_DecodeInitialized_def
  base_DecodeLinkWithdrawn_def
  base_DecodePaused_def
  base_DecodeRebalanceDepositFailure_def
  base_DecodeRebalanceDepositRecoveryCleared_def
  base_DecodeRebalanceDepositRecoveryStored_def
  base_DecodeRebalanceDepositSuccess_def
  base_DecodeRebalanceWithdrawSuccess_def
  base_DecodeRoleAdminChanged_def
  base_DecodeRoleGranted_def
  base_DecodeRoleRevoked_def
  base_DecodeUnpaused_def
  base_DecodeUpgraded_def

definition base_event_decoders :: "(string \<times> (env \<Rightarrow> codec \<Rightarrow> evm_log option \<Rightarrow> gstruct outcome)) list" where
  "base_event_decoders =
     [(''ActiveProtocolAdapterCleared'', base_DecodeActiveProtocolAdapterCleared),
      (''ActiveProtocolAdapterSet'', base_DecodeActiveProtocolAdapterSet),
      (''CCIPBridged'', base_DecodeCCIPBridged),
      (''CCIPReceived'', base_DecodeCCIPReceived),
      (''CcipGasLimitSet'', base_DecodeCcipGasLimitSet),
      (''CrosschainVaultSet'', base_DecodeCrosschainVaultSet),
      (''DefaultAdminDelayChangeCanceled'', base_DecodeDefaultAdminDelayChangeCanceled),
      (''DefaultAdminDelayChangeScheduled'', base_DecodeDefaultAdminDelayChangeScheduled),
      (''DefaultAdminTransferCanceled'', base_DecodeDefaultAdminTransferCanceled),
      (''DefaultAdminTransferScheduled'', base_DecodeDefaultAdminTransferScheduled),
      (''DefaultCcipGasLimitSet'', base_DecodeDefaultCcipGasLimitSet),
      (''EpochDepositToStrategySuccess'', base_DecodeEpochDepositToStrategySuccess),
      (''EpochWithdrawFromStrategySuccess'', base_DecodeEpochWithdrawFromStrategySuccess),
      (''Initialized'', base_DecodeInitialized),
      (''LinkWithdrawn'', base_DecodeLinkWithdrawn),
      (''Paused'', base_DecodePaused),
      (''RebalanceDepositFailure'', base_DecodeRebalanceDepositFailure),
      (''RebalanceDepositRecoveryCleared'', base_DecodeRebalanceDepositRecoveryCleared),
      (''RebalanceDepositRecoveryStored'', base_DecodeRebalanceDepositRecoveryStored),
      (''RebalanceDepositSuccess'', base_DecodeRebalanceDepositSuccess),
      (''RebalanceWithdrawSuccess'', base_DecodeRebalanceWithdrawSuccess),
      (''RoleAdminChanged'', base_DecodeRoleAdminChanged),
      (''RoleGranted'', base_DecodeRoleGranted),
      (''RoleRevoked'', base_DecodeRoleRevoked),
      (''Unpaused'', base_DecodeUnpaused),
      (''Upgraded'', base_DecodeUpgraded)]"

lemma base_event_decoders_ok: "list_all decodes_event base_event_decoders"
  by (auto simp: base_event_decoders_def decodes_event_def base_event_decoder_defs fun_eq_iff)

end
