(* ===== verification/Router_Decoders.thy ===== *)
theory Router_Decoders
  imports Revert_Errors Vault_Events
begin

text \<open>
  The revert data and the events of the generated WorkflowRouter package (\<open>cre/contracts/evm/generated/workflow_router/WorkflowRouter.go\<close>):
  one decoder per custom error with the dispatch over them, and the decoder and signature hash of each event. The steps are
  \<open>decode_error\<close> and \<open>decode_event\<close>. Names that other packages have too carry the prefix \<open>router_\<close>.
\<close>

section \<open>Errors\<close>

definition router_DecodeAccessControlBadConfirmationError :: "abi \<Rightarrow> byte list \<Rightarrow> go_struct outcome" where
  "router_DecodeAccessControlBadConfirmationError =
     decode_error ''AccessControlBadConfirmation'' ''AccessControlBadConfirmation''
       []"

definition router_DecodeAccessControlEnforcedDefaultAdminDelayError :: "abi \<Rightarrow> byte list \<Rightarrow> go_struct outcome" where
  "router_DecodeAccessControlEnforcedDefaultAdminDelayError =
     decode_error ''AccessControlEnforcedDefaultAdminDelay'' ''AccessControlEnforcedDefaultAdminDelay''
       [(''schedule'', ''Schedule'', TBig)]"

definition router_DecodeAccessControlEnforcedDefaultAdminRulesError :: "abi \<Rightarrow> byte list \<Rightarrow> go_struct outcome" where
  "router_DecodeAccessControlEnforcedDefaultAdminRulesError =
     decode_error ''AccessControlEnforcedDefaultAdminRules'' ''AccessControlEnforcedDefaultAdminRules''
       []"

definition router_DecodeAccessControlInvalidDefaultAdminError :: "abi \<Rightarrow> byte list \<Rightarrow> go_struct outcome" where
  "router_DecodeAccessControlInvalidDefaultAdminError =
     decode_error ''AccessControlInvalidDefaultAdmin'' ''AccessControlInvalidDefaultAdmin''
       [(''defaultAdmin'', ''DefaultAdmin'', TAddr)]"

definition router_DecodeAccessControlUnauthorizedAccountError :: "abi \<Rightarrow> byte list \<Rightarrow> go_struct outcome" where
  "router_DecodeAccessControlUnauthorizedAccountError =
     decode_error ''AccessControlUnauthorizedAccount'' ''AccessControlUnauthorizedAccount''
       [(''account'', ''Account'', TAddr), (''neededRole'', ''NeededRole'', TFix 32)]"

definition router_DecodeEnforcedPauseError :: "abi \<Rightarrow> byte list \<Rightarrow> go_struct outcome" where
  "router_DecodeEnforcedPauseError =
     decode_error ''EnforcedPause'' ''EnforcedPause''
       []"

definition router_DecodeExpectedPauseError :: "abi \<Rightarrow> byte list \<Rightarrow> go_struct outcome" where
  "router_DecodeExpectedPauseError =
     decode_error ''ExpectedPause'' ''ExpectedPause''
       []"

definition router_DecodeSafeCastOverflowedUintDowncastError :: "abi \<Rightarrow> byte list \<Rightarrow> go_struct outcome" where
  "router_DecodeSafeCastOverflowedUintDowncastError =
     decode_error ''SafeCastOverflowedUintDowncast'' ''SafeCastOverflowedUintDowncast''
       [(''bits'', ''Bits'', TU8), (''value'', ''Value'', TBig)]"

definition router_DecodeWorkflowRouterCallFailedError :: "abi \<Rightarrow> byte list \<Rightarrow> go_struct outcome" where
  "router_DecodeWorkflowRouterCallFailedError =
     decode_error ''WorkflowRouter__CallFailed'' ''WorkflowRouterCallFailed''
       [(''returnData'', ''ReturnData'', TBytes)]"

definition router_DecodeWorkflowRouterInvalidMetadataLengthError :: "abi \<Rightarrow> byte list \<Rightarrow> go_struct outcome" where
  "router_DecodeWorkflowRouterInvalidMetadataLengthError =
     decode_error ''WorkflowRouter__InvalidMetadataLength'' ''WorkflowRouterInvalidMetadataLength''
       [(''metadataLength'', ''MetadataLength'', TBig)]"

definition router_DecodeWorkflowRouterInvalidReportDomainError :: "abi \<Rightarrow> byte list \<Rightarrow> go_struct outcome" where
  "router_DecodeWorkflowRouterInvalidReportDomainError =
     decode_error ''WorkflowRouter__InvalidReportDomain'' ''WorkflowRouterInvalidReportDomain''
       [(''targetChainSelector'', ''TargetChainSelector'', TU64), (''targetRouter'', ''TargetRouter'', TAddr)]"

definition router_DecodeWorkflowRouterMetadataMismatchError :: "abi \<Rightarrow> byte list \<Rightarrow> go_struct outcome" where
  "router_DecodeWorkflowRouterMetadataMismatchError =
     decode_error ''WorkflowRouter__MetadataMismatch'' ''WorkflowRouterMetadataMismatch''
       [(''workflowId'', ''WorkflowId'', TFix 32), (''workflowName'', ''WorkflowName'', TFix 10),
       (''workflowOwner'', ''WorkflowOwner'', TAddr)]"

definition router_DecodeWorkflowRouterMetadataUnchangedError :: "abi \<Rightarrow> byte list \<Rightarrow> go_struct outcome" where
  "router_DecodeWorkflowRouterMetadataUnchangedError =
     decode_error ''WorkflowRouter__MetadataUnchanged'' ''WorkflowRouterMetadataUnchanged''
       [(''workflowId'', ''WorkflowId'', TFix 32), (''name'', ''Name'', TFix 10), (''owner'', ''Owner'', TAddr)]"

definition router_DecodeWorkflowRouterMetadataZeroError :: "abi \<Rightarrow> byte list \<Rightarrow> go_struct outcome" where
  "router_DecodeWorkflowRouterMetadataZeroError =
     decode_error ''WorkflowRouter__MetadataZero'' ''WorkflowRouterMetadataZero''
       [(''workflowId'', ''WorkflowId'', TFix 32), (''workflowName'', ''WorkflowName'', TFix 10),
       (''workflowOwner'', ''WorkflowOwner'', TAddr)]"

definition router_DecodeWorkflowRouterNoSelectorsError :: "abi \<Rightarrow> byte list \<Rightarrow> go_struct outcome" where
  "router_DecodeWorkflowRouterNoSelectorsError =
     decode_error ''WorkflowRouter__NoSelectors'' ''WorkflowRouterNoSelectors''
       []"

definition router_DecodeWorkflowRouterNoZeroAddressError :: "abi \<Rightarrow> byte list \<Rightarrow> go_struct outcome" where
  "router_DecodeWorkflowRouterNoZeroAddressError =
     decode_error ''WorkflowRouter__NoZeroAddress'' ''WorkflowRouterNoZeroAddress''
       []"

definition router_DecodeWorkflowRouterNoZeroChainSelectorError :: "abi \<Rightarrow> byte list \<Rightarrow> go_struct outcome" where
  "router_DecodeWorkflowRouterNoZeroChainSelectorError =
     decode_error ''WorkflowRouter__NoZeroChainSelector'' ''WorkflowRouterNoZeroChainSelector''
       []"

definition router_DecodeWorkflowRouterNoZeroWorkflowIdError :: "abi \<Rightarrow> byte list \<Rightarrow> go_struct outcome" where
  "router_DecodeWorkflowRouterNoZeroWorkflowIdError =
     decode_error ''WorkflowRouter__NoZeroWorkflowId'' ''WorkflowRouterNoZeroWorkflowId''
       []"

definition router_DecodeWorkflowRouterReportExpiredError :: "abi \<Rightarrow> byte list \<Rightarrow> go_struct outcome" where
  "router_DecodeWorkflowRouterReportExpiredError =
     decode_error ''WorkflowRouter__ReportExpired'' ''WorkflowRouterReportExpired''
       [(''observedAt'', ''ObservedAt'', TBig), (''timestamp'', ''Timestamp'', TBig)]"

definition router_DecodeWorkflowRouterReportFromFutureError :: "abi \<Rightarrow> byte list \<Rightarrow> go_struct outcome" where
  "router_DecodeWorkflowRouterReportFromFutureError =
     decode_error ''WorkflowRouter__ReportFromFuture'' ''WorkflowRouterReportFromFuture''
       [(''observedAt'', ''ObservedAt'', TBig), (''timestamp'', ''Timestamp'', TBig)]"

definition router_DecodeWorkflowRouterReportTooShortError :: "abi \<Rightarrow> byte list \<Rightarrow> go_struct outcome" where
  "router_DecodeWorkflowRouterReportTooShortError =
     decode_error ''WorkflowRouter__ReportTooShort'' ''WorkflowRouterReportTooShort''
       [(''reportLength'', ''ReportLength'', TBig)]"

definition router_DecodeWorkflowRouterSelectorNotAllowlistedError :: "abi \<Rightarrow> byte list \<Rightarrow> go_struct outcome" where
  "router_DecodeWorkflowRouterSelectorNotAllowlistedError =
     decode_error ''WorkflowRouter__SelectorNotAllowlisted'' ''WorkflowRouterSelectorNotAllowlisted''
       [(''workflowId'', ''WorkflowId'', TFix 32), (''selector'', ''Selector'', TFix 4)]"

definition router_DecodeWorkflowRouterWorkflowNotRegisteredError :: "abi \<Rightarrow> byte list \<Rightarrow> go_struct outcome" where
  "router_DecodeWorkflowRouterWorkflowNotRegisteredError =
     decode_error ''WorkflowRouter__WorkflowNotRegistered'' ''WorkflowRouterWorkflowNotRegistered''
       [(''workflowId'', ''WorkflowId'', TFix 32)]"

lemmas router_decoder_defs =
  router_DecodeAccessControlBadConfirmationError_def
  router_DecodeAccessControlEnforcedDefaultAdminDelayError_def
  router_DecodeAccessControlEnforcedDefaultAdminRulesError_def
  router_DecodeAccessControlInvalidDefaultAdminError_def
  router_DecodeAccessControlUnauthorizedAccountError_def
  router_DecodeEnforcedPauseError_def
  router_DecodeExpectedPauseError_def
  router_DecodeSafeCastOverflowedUintDowncastError_def
  router_DecodeWorkflowRouterCallFailedError_def
  router_DecodeWorkflowRouterInvalidMetadataLengthError_def
  router_DecodeWorkflowRouterInvalidReportDomainError_def
  router_DecodeWorkflowRouterMetadataMismatchError_def
  router_DecodeWorkflowRouterMetadataUnchangedError_def
  router_DecodeWorkflowRouterMetadataZeroError_def
  router_DecodeWorkflowRouterNoSelectorsError_def
  router_DecodeWorkflowRouterNoZeroAddressError_def
  router_DecodeWorkflowRouterNoZeroChainSelectorError_def
  router_DecodeWorkflowRouterNoZeroWorkflowIdError_def
  router_DecodeWorkflowRouterReportExpiredError_def
  router_DecodeWorkflowRouterReportFromFutureError_def
  router_DecodeWorkflowRouterReportTooShortError_def
  router_DecodeWorkflowRouterSelectorNotAllowlistedError_def
  router_DecodeWorkflowRouterWorkflowNotRegisteredError_def

text \<open>The cases of the switch in \<open>UnpackError\<close>, in the source's order.\<close>

definition router_error_cases :: "(string \<times> (abi \<Rightarrow> byte list \<Rightarrow> go_struct outcome)) list" where
  "router_error_cases =
     [(''AccessControlBadConfirmation'', router_DecodeAccessControlBadConfirmationError),
      (''AccessControlEnforcedDefaultAdminDelay'', router_DecodeAccessControlEnforcedDefaultAdminDelayError),
      (''AccessControlEnforcedDefaultAdminRules'', router_DecodeAccessControlEnforcedDefaultAdminRulesError),
      (''AccessControlInvalidDefaultAdmin'', router_DecodeAccessControlInvalidDefaultAdminError),
      (''AccessControlUnauthorizedAccount'', router_DecodeAccessControlUnauthorizedAccountError),
      (''EnforcedPause'', router_DecodeEnforcedPauseError),
      (''ExpectedPause'', router_DecodeExpectedPauseError),
      (''SafeCastOverflowedUintDowncast'', router_DecodeSafeCastOverflowedUintDowncastError),
      (''WorkflowRouter__CallFailed'', router_DecodeWorkflowRouterCallFailedError),
      (''WorkflowRouter__InvalidMetadataLength'', router_DecodeWorkflowRouterInvalidMetadataLengthError),
      (''WorkflowRouter__InvalidReportDomain'', router_DecodeWorkflowRouterInvalidReportDomainError),
      (''WorkflowRouter__MetadataMismatch'', router_DecodeWorkflowRouterMetadataMismatchError),
      (''WorkflowRouter__MetadataUnchanged'', router_DecodeWorkflowRouterMetadataUnchangedError),
      (''WorkflowRouter__MetadataZero'', router_DecodeWorkflowRouterMetadataZeroError),
      (''WorkflowRouter__NoSelectors'', router_DecodeWorkflowRouterNoSelectorsError),
      (''WorkflowRouter__NoZeroAddress'', router_DecodeWorkflowRouterNoZeroAddressError),
      (''WorkflowRouter__NoZeroChainSelector'', router_DecodeWorkflowRouterNoZeroChainSelectorError),
      (''WorkflowRouter__NoZeroWorkflowId'', router_DecodeWorkflowRouterNoZeroWorkflowIdError),
      (''WorkflowRouter__ReportExpired'', router_DecodeWorkflowRouterReportExpiredError),
      (''WorkflowRouter__ReportFromFuture'', router_DecodeWorkflowRouterReportFromFutureError),
      (''WorkflowRouter__ReportTooShort'', router_DecodeWorkflowRouterReportTooShortError),
      (''WorkflowRouter__SelectorNotAllowlisted'', router_DecodeWorkflowRouterSelectorNotAllowlistedError),
      (''WorkflowRouter__WorkflowNotRegistered'', router_DecodeWorkflowRouterWorkflowNotRegisteredError)]"

definition router_UnpackError :: "abi \<Rightarrow> byte list \<Rightarrow> go_struct outcome" where
  "router_UnpackError c data =
     (if length data < 4 then Panic ''slice bounds out of range'' else switch_error c data router_error_cases)"

definition router_error_table :: "(string \<times> string \<times> error_field list) list" where
  "router_error_table =
     [(''AccessControlBadConfirmation'', ''AccessControlBadConfirmation'', []),
      (''AccessControlEnforcedDefaultAdminDelay'', ''AccessControlEnforcedDefaultAdminDelay'', [(''schedule'',
        ''Schedule'', TBig)]),
      (''AccessControlEnforcedDefaultAdminRules'', ''AccessControlEnforcedDefaultAdminRules'', []),
      (''AccessControlInvalidDefaultAdmin'', ''AccessControlInvalidDefaultAdmin'', [(''defaultAdmin'', ''DefaultAdmin'',
        TAddr)]),
      (''AccessControlUnauthorizedAccount'', ''AccessControlUnauthorizedAccount'', [(''account'', ''Account'', TAddr),
        (''neededRole'', ''NeededRole'', TFix 32)]),
      (''EnforcedPause'', ''EnforcedPause'', []),
      (''ExpectedPause'', ''ExpectedPause'', []),
      (''SafeCastOverflowedUintDowncast'', ''SafeCastOverflowedUintDowncast'', [(''bits'', ''Bits'', TU8),
        (''value'', ''Value'', TBig)]),
      (''WorkflowRouter__CallFailed'', ''WorkflowRouterCallFailed'', [(''returnData'', ''ReturnData'', TBytes)]),
      (''WorkflowRouter__InvalidMetadataLength'', ''WorkflowRouterInvalidMetadataLength'', [(''metadataLength'',
        ''MetadataLength'', TBig)]),
      (''WorkflowRouter__InvalidReportDomain'', ''WorkflowRouterInvalidReportDomain'', [(''targetChainSelector'',
        ''TargetChainSelector'', TU64), (''targetRouter'', ''TargetRouter'', TAddr)]),
      (''WorkflowRouter__MetadataMismatch'', ''WorkflowRouterMetadataMismatch'', [(''workflowId'', ''WorkflowId'',
        TFix 32), (''workflowName'', ''WorkflowName'', TFix 10), (''workflowOwner'', ''WorkflowOwner'', TAddr)]),
      (''WorkflowRouter__MetadataUnchanged'', ''WorkflowRouterMetadataUnchanged'', [(''workflowId'', ''WorkflowId'',
        TFix 32), (''name'', ''Name'', TFix 10), (''owner'', ''Owner'', TAddr)]),
      (''WorkflowRouter__MetadataZero'', ''WorkflowRouterMetadataZero'', [(''workflowId'', ''WorkflowId'', TFix 32),
        (''workflowName'', ''WorkflowName'', TFix 10), (''workflowOwner'', ''WorkflowOwner'', TAddr)]),
      (''WorkflowRouter__NoSelectors'', ''WorkflowRouterNoSelectors'', []),
      (''WorkflowRouter__NoZeroAddress'', ''WorkflowRouterNoZeroAddress'', []),
      (''WorkflowRouter__NoZeroChainSelector'', ''WorkflowRouterNoZeroChainSelector'', []),
      (''WorkflowRouter__NoZeroWorkflowId'', ''WorkflowRouterNoZeroWorkflowId'', []),
      (''WorkflowRouter__ReportExpired'', ''WorkflowRouterReportExpired'', [(''observedAt'', ''ObservedAt'', TBig),
        (''timestamp'', ''Timestamp'', TBig)]),
      (''WorkflowRouter__ReportFromFuture'', ''WorkflowRouterReportFromFuture'', [(''observedAt'', ''ObservedAt'', TBig),
        (''timestamp'', ''Timestamp'', TBig)]),
      (''WorkflowRouter__ReportTooShort'', ''WorkflowRouterReportTooShort'', [(''reportLength'', ''ReportLength'', TBig)]),
      (''WorkflowRouter__SelectorNotAllowlisted'', ''WorkflowRouterSelectorNotAllowlisted'', [(''workflowId'',
        ''WorkflowId'', TFix 32), (''selector'', ''Selector'', TFix 4)]),
      (''WorkflowRouter__WorkflowNotRegistered'', ''WorkflowRouterWorkflowNotRegistered'', [(''workflowId'',
        ''WorkflowId'', TFix 32)])]"

lemma router_error_cases_table: "router_error_cases = map table_decoder router_error_table"
  by (simp add: router_error_cases_def router_error_table_def table_decoder_def router_decoder_defs)

interpretation router_errors: error_dispatch router_error_table router_UnpackError
  by unfold_locales (simp_all add: router_UnpackError_def router_error_cases_table)

section \<open>Events\<close>

definition router_DecodeDefaultAdminDelayChangeCanceled :: "env \<Rightarrow> codec \<Rightarrow> evm_log option \<Rightarrow> gstruct outcome" where
  "router_DecodeDefaultAdminDelayChangeCanceled E c lg =
     decode_event E c []
       ''DefaultAdminDelayChangeCanceled'' lg"

definition router_DefaultAdminDelayChangeCanceledLogHash :: "codec \<Rightarrow> byte list" where
  "router_DefaultAdminDelayChangeCanceledLogHash c = abi_EventID (codec_abi c) ''DefaultAdminDelayChangeCanceled''"

definition router_DecodeDefaultAdminDelayChangeScheduled :: "env \<Rightarrow> codec \<Rightarrow> evm_log option \<Rightarrow> gstruct outcome" where
  "router_DecodeDefaultAdminDelayChangeScheduled E c lg =
     decode_event E c [(''NewDelay'', GBig None), (''EffectSchedule'', GBig None)]
       ''DefaultAdminDelayChangeScheduled'' lg"

definition router_DefaultAdminDelayChangeScheduledLogHash :: "codec \<Rightarrow> byte list" where
  "router_DefaultAdminDelayChangeScheduledLogHash c = abi_EventID (codec_abi c) ''DefaultAdminDelayChangeScheduled''"

definition router_DecodeDefaultAdminTransferCanceled :: "env \<Rightarrow> codec \<Rightarrow> evm_log option \<Rightarrow> gstruct outcome" where
  "router_DecodeDefaultAdminTransferCanceled E c lg =
     decode_event E c []
       ''DefaultAdminTransferCanceled'' lg"

definition router_DefaultAdminTransferCanceledLogHash :: "codec \<Rightarrow> byte list" where
  "router_DefaultAdminTransferCanceledLogHash c = abi_EventID (codec_abi c) ''DefaultAdminTransferCanceled''"

definition router_DecodeDefaultAdminTransferScheduled :: "env \<Rightarrow> codec \<Rightarrow> evm_log option \<Rightarrow> gstruct outcome" where
  "router_DecodeDefaultAdminTransferScheduled E c lg =
     decode_event E c [(''NewAdmin'', GAddr 0), (''AcceptSchedule'', GBig None)]
       ''DefaultAdminTransferScheduled'' lg"

definition router_DefaultAdminTransferScheduledLogHash :: "codec \<Rightarrow> byte list" where
  "router_DefaultAdminTransferScheduledLogHash c = abi_EventID (codec_abi c) ''DefaultAdminTransferScheduled''"

definition router_DecodePaused :: "env \<Rightarrow> codec \<Rightarrow> evm_log option \<Rightarrow> gstruct outcome" where
  "router_DecodePaused E c lg =
     decode_event E c [(''Account'', GAddr 0)]
       ''Paused'' lg"

definition router_PausedLogHash :: "codec \<Rightarrow> byte list" where
  "router_PausedLogHash c = abi_EventID (codec_abi c) ''Paused''"

definition router_DecodeRoleAdminChanged :: "env \<Rightarrow> codec \<Rightarrow> evm_log option \<Rightarrow> gstruct outcome" where
  "router_DecodeRoleAdminChanged E c lg =
     decode_event E c [(''Role'', GFix (replicate 32 0)), (''PreviousAdminRole'', GFix (replicate 32 0)),
       (''NewAdminRole'', GFix (replicate 32 0))]
       ''RoleAdminChanged'' lg"

definition router_RoleAdminChangedLogHash :: "codec \<Rightarrow> byte list" where
  "router_RoleAdminChangedLogHash c = abi_EventID (codec_abi c) ''RoleAdminChanged''"

definition router_DecodeRoleGranted :: "env \<Rightarrow> codec \<Rightarrow> evm_log option \<Rightarrow> gstruct outcome" where
  "router_DecodeRoleGranted E c lg =
     decode_event E c [(''Role'', GFix (replicate 32 0)), (''Account'', GAddr 0), (''Sender'', GAddr 0)]
       ''RoleGranted'' lg"

definition router_RoleGrantedLogHash :: "codec \<Rightarrow> byte list" where
  "router_RoleGrantedLogHash c = abi_EventID (codec_abi c) ''RoleGranted''"

definition router_DecodeRoleRevoked :: "env \<Rightarrow> codec \<Rightarrow> evm_log option \<Rightarrow> gstruct outcome" where
  "router_DecodeRoleRevoked E c lg =
     decode_event E c [(''Role'', GFix (replicate 32 0)), (''Account'', GAddr 0), (''Sender'', GAddr 0)]
       ''RoleRevoked'' lg"

definition router_RoleRevokedLogHash :: "codec \<Rightarrow> byte list" where
  "router_RoleRevokedLogHash c = abi_EventID (codec_abi c) ''RoleRevoked''"

definition router_DecodeUnpaused :: "env \<Rightarrow> codec \<Rightarrow> evm_log option \<Rightarrow> gstruct outcome" where
  "router_DecodeUnpaused E c lg =
     decode_event E c [(''Account'', GAddr 0)]
       ''Unpaused'' lg"

definition router_UnpausedLogHash :: "codec \<Rightarrow> byte list" where
  "router_UnpausedLogHash c = abi_EventID (codec_abi c) ''Unpaused''"

definition router_DecodeWorkflowMetadataSet :: "env \<Rightarrow> codec \<Rightarrow> evm_log option \<Rightarrow> gstruct outcome" where
  "router_DecodeWorkflowMetadataSet E c lg =
     decode_event E c [(''WorkflowId'', GFix (replicate 32 0)), (''Name'', GFix (replicate 10 0)),
       (''Owner'', GAddr 0)]
       ''WorkflowMetadataSet'' lg"

definition router_WorkflowMetadataSetLogHash :: "codec \<Rightarrow> byte list" where
  "router_WorkflowMetadataSetLogHash c = abi_EventID (codec_abi c) ''WorkflowMetadataSet''"

definition router_DecodeWorkflowSelectorSet :: "env \<Rightarrow> codec \<Rightarrow> evm_log option \<Rightarrow> gstruct outcome" where
  "router_DecodeWorkflowSelectorSet E c lg =
     decode_event E c [(''WorkflowId'', GFix (replicate 32 0)), (''Selector'', GFix (replicate 4 0)),
       (''IsAllowlisted'', GBool False)]
       ''WorkflowSelectorSet'' lg"

definition router_WorkflowSelectorSetLogHash :: "codec \<Rightarrow> byte list" where
  "router_WorkflowSelectorSetLogHash c = abi_EventID (codec_abi c) ''WorkflowSelectorSet''"

lemmas router_event_decoder_defs =
  router_DecodeDefaultAdminDelayChangeCanceled_def
  router_DecodeDefaultAdminDelayChangeScheduled_def
  router_DecodeDefaultAdminTransferCanceled_def
  router_DecodeDefaultAdminTransferScheduled_def
  router_DecodePaused_def
  router_DecodeRoleAdminChanged_def
  router_DecodeRoleGranted_def
  router_DecodeRoleRevoked_def
  router_DecodeUnpaused_def
  router_DecodeWorkflowMetadataSet_def
  router_DecodeWorkflowSelectorSet_def

definition router_event_decoders :: "(string \<times> (env \<Rightarrow> codec \<Rightarrow> evm_log option \<Rightarrow> gstruct outcome)) list" where
  "router_event_decoders =
     [(''DefaultAdminDelayChangeCanceled'', router_DecodeDefaultAdminDelayChangeCanceled),
      (''DefaultAdminDelayChangeScheduled'', router_DecodeDefaultAdminDelayChangeScheduled),
      (''DefaultAdminTransferCanceled'', router_DecodeDefaultAdminTransferCanceled),
      (''DefaultAdminTransferScheduled'', router_DecodeDefaultAdminTransferScheduled),
      (''Paused'', router_DecodePaused),
      (''RoleAdminChanged'', router_DecodeRoleAdminChanged),
      (''RoleGranted'', router_DecodeRoleGranted),
      (''RoleRevoked'', router_DecodeRoleRevoked),
      (''Unpaused'', router_DecodeUnpaused),
      (''WorkflowMetadataSet'', router_DecodeWorkflowMetadataSet),
      (''WorkflowSelectorSet'', router_DecodeWorkflowSelectorSet)]"

lemma router_event_decoders_ok: "list_all decodes_event router_event_decoders"
  by (auto simp: router_event_decoders_def decodes_event_def router_event_decoder_defs fun_eq_iff)

end
