(* ===== verification/Binding_Properties.thy ===== *)
theory Binding_Properties
  imports Child_Decoders Base_Decoders Router_Decoders Example_Deployment
begin

text \<open>
  The properties of the decoders of the four generated contract packages: their custom errors and their events.
\<close>

section \<open>Custom errors\<close>

definition error_packages :: "((string \<times> string \<times> error_field list) list \<times> (abi \<Rightarrow> byte list \<Rightarrow> go_struct outcome)) set" where
  "error_packages = {(parent_error_table, UnpackError), (child_error_table, child_UnpackError),
     (base_error_table, base_UnpackError), (router_error_table, router_UnpackError)}"

lemma package_errors: "(ts, unpack) \<in> error_packages \<Longrightarrow> error_dispatch ts unpack"
  unfolding error_packages_def
  using parent_errors.error_dispatch_axioms child_errors.error_dispatch_axioms base_errors.error_dispatch_axioms
    router_errors.error_dispatch_axioms by auto

lemma ex_error_package: "(parent_error_table, UnpackError) \<in> error_packages"
  by (simp add: error_packages_def)

text \<open>
  C35: Revert data survives the error decoder. For each of the 183 custom errors of the four packages (75 of
  the parent vault, 45 of the child, 40 of the base vault, 23 of the router), with selectors that differ, \<open>UnpackError\<close> of the selector followed by the encoded arguments
  returns the Go struct of that error with those arguments as its fields, in order.
\<close>

theorem revert_roundtrip:
  assumes "(ts, unpack) \<in> error_packages"
    and "selectors_distinct ts c" "(abiName, goName, flds) \<in> set ts" "length (error_selector c abiName) = 4"
    and "abi_ErrorUnpack c abiName args = Ok vs" "typed_fields flds vs"
  shows "unpack c (error_selector c abiName @ args) = Ok \<lparr>gs_Type = goName, gs_Fields = zip (field_names flds) vs\<rparr>"
  by (rule error_dispatch.roundtrip [OF package_errors [OF assms(1)] assms(2-6)])

definition ex_error_abi :: abi where
  "ex_error_abi = ex_abi\<lparr>abi_ErrorID := (\<lambda>name. be_bytes 4 (length (takeWhile (\<lambda>t. fst t \<noteq> name) parent_error_table)))\<rparr>"

text \<open>The table is in strict alphabetical order, so its names are distinct.\<close>

lemma error_names_distinct: "distinct (map fst parent_error_table)"
proof -
  have "successively (<) (map fst parent_error_table)" by code_simp
  then have "sorted_wrt (<) (map fst parent_error_table)" by (simp add: successively_conv_sorted_wrt transp_on_less)
  then show ?thesis by (simp only: strict_sorted_iff)
qed

lemma length_parent_error_table: "length parent_error_table = 75"
  by (simp add: parent_error_table_def)

lemma takeWhile_key:
  assumes "distinct (map f xs)" "i < length xs"
  shows "length (takeWhile (\<lambda>x. f x \<noteq> f (xs ! i)) xs) = i"
  using assms
proof (induction xs arbitrary: i)
  case (Cons x xs)
  then show ?case by (cases i) (auto simp: image_iff)
qed simp

lemma ex_error_selector:
  "be_nat (error_selector ex_error_abi name) = length (takeWhile (\<lambda>t. fst t \<noteq> name) parent_error_table)"
proof -
  have "length (takeWhile (\<lambda>t. fst t \<noteq> name) parent_error_table) \<le> 75"
    using length_takeWhile_le [of "\<lambda>t. fst t \<noteq> name" parent_error_table] by (simp only: length_parent_error_table)
  then show ?thesis by (simp add: error_selector_def ex_error_abi_def be_nat_be_bytes del: be_bytes.simps)
qed

lemma ex_error_selectors: "selectors_distinct parent_error_table ex_error_abi"
proof -
  have "map (\<lambda>t. be_nat (error_selector ex_error_abi (fst t))) parent_error_table = [0..<length parent_error_table]"
    by (rule nth_equalityI) (simp_all add: ex_error_selector takeWhile_key [OF error_names_distinct])
  then have "distinct (map be_nat (map (\<lambda>t. error_selector ex_error_abi (fst t)) parent_error_table))"
    by (simp add: comp_def)
  then show ?thesis unfolding selectors_distinct_def distinct_map by blast
qed

lemma ex_error_open:
  "(''ParentVault__EpochNotOpen'', ''ParentVaultEpochNotOpen'', [(''epochNonce'', ''EpochNonce'', TBig)]) \<in> set parent_error_table"
  "length (error_selector ex_error_abi ''ParentVault__EpochNotOpen'') = 4"
  "abi_ErrorUnpack ex_error_abi ''ParentVault__EpochNotOpen'' (be_bytes 32 7) = Ok [GBig (Some 7)]"
proof -
  show "(''ParentVault__EpochNotOpen'', ''ParentVaultEpochNotOpen'', [(''epochNonce'', ''EpochNonce'', TBig)]) \<in> set parent_error_table"
    by code_simp
  show "length (error_selector ex_error_abi ''ParentVault__EpochNotOpen'') = 4" by (simp add: error_selector_def ex_error_abi_def)
  have "be_nat (be_bytes 32 7) = 7" by (simp only: be_nat_be_bytes) simp
  then show "abi_ErrorUnpack ex_error_abi ''ParentVault__EpochNotOpen'' (be_bytes 32 7) = Ok [GBig (Some 7)]"
    by (simp add: ex_error_abi_def ex_abi_def)
qed

theorem revert_roundtrip_witness:
  "UnpackError ex_error_abi (error_selector ex_error_abi ''ParentVault__EpochNotOpen'' @ be_bytes 32 7) =
     Ok \<lparr>gs_Type = ''ParentVaultEpochNotOpen'', gs_Fields = [(''EpochNonce'', GBig (Some 7))]\<rparr>"
  using revert_roundtrip [OF ex_error_package ex_error_selectors ex_error_open] by (simp add: typed_fields_def field_names_def)

text \<open>
  C36: A decoded error is one of the contract's. When \<open>UnpackError\<close> of a package returns a value, it is the struct
  of the custom error whose selector the data starts with, and every field has the declared Go type.
\<close>

theorem revert_decoded_typed:
  assumes "(ts, unpack) \<in> error_packages" "unpack c data = Ok e"
  shows "\<exists>abiName flds vs. (abiName, gs_Type e, flds) \<in> set ts \<and> take 4 data = error_selector c abiName \<and>
    list_all2 (\<lambda>f v. has_type (snd (snd f)) v) flds vs \<and> gs_Fields e = zip (field_names flds) vs"
  using error_dispatch.typed [OF package_errors [OF assms(1)] assms(2)] unfolding typed_fields_def .

theorem revert_decoded_typed_witness:
  "\<exists>e abiName flds. UnpackError ex_error_abi (error_selector ex_error_abi ''ParentVault__EpochNotOpen'' @ be_bytes 32 7) = Ok e \<and>
     (abiName, gs_Type e, flds) \<in> set parent_error_table"
proof -
  have "UnpackError ex_error_abi (error_selector ex_error_abi ''ParentVault__EpochNotOpen'' @ be_bytes 32 7) =
      Ok \<lparr>gs_Type = ''ParentVaultEpochNotOpen'', gs_Fields = zip (field_names [(''epochNonce'', ''EpochNonce'', TBig)]) [GBig (Some 7)]\<rparr>"
    by (rule parent_errors.roundtrip [OF ex_error_selectors ex_error_open]) (simp add: typed_fields_def)
  with revert_decoded_typed [OF ex_error_package this] show ?thesis by blast
qed

text \<open>
  C37: What \<open>UnpackError\<close> does with data it cannot place. An unknown selector is reported as an error; data shorter
  than a selector is not: it panics, as every single error decoder does.
\<close>

theorem revert_unplaced:
  assumes "(ts, unpack) \<in> error_packages"
  shows "(length data < 4 \<longrightarrow> is_panic (unpack c data) \<and> is_panic (decode_error abiName goName flds c data)) \<and>
    (4 \<le> length data \<and> (\<forall>t\<in>set ts. take 4 data \<noteq> error_selector c (fst t)) \<longrightarrow>
      unpack c data = Err (Errorf ''unknown error selector'' []))"
  using error_dispatch.short [OF package_errors [OF assms]] error_dispatch.unplaced [OF package_errors [OF assms]]
  by (auto simp: decode_error_def)

theorem revert_unplaced_witness:
  "is_panic (UnpackError ex_error_abi [1, 2, 3]) \<and>
   UnpackError ex_error_abi [1, 2, 3, 4] = Err (Errorf ''unknown error selector'' [])"
proof -
  have large: "75 < be_nat [1, 2, 3, 4]" by (simp add: be_nat_def)
  have small: "be_nat (error_selector ex_error_abi name) \<le> 75" for name
    unfolding ex_error_selector using length_takeWhile_le [of "\<lambda>t. fst t \<noteq> name" parent_error_table]
    by (simp only: length_parent_error_table)
  have "[1, 2, 3, 4] \<noteq> error_selector ex_error_abi name" for name
  proof
    assume e: "[1, 2, 3, 4] = error_selector ex_error_abi name"
    from small [of name] large show False unfolding e [symmetric] by linarith
  qed
  then show ?thesis
    using revert_unplaced [OF ex_error_package, of "[1, 2, 3]" ex_error_abi] revert_unplaced [OF ex_error_package, of "[1, 2, 3, 4]" ex_error_abi] by auto
qed

section \<open>Events\<close>


end
