(* ===== verification/Binding_Contracts.thy ===== *)
theory Binding_Contracts
  imports Binding_Shapes
begin

text \<open>
  What a generated package promises, stated once for all four. The ABI literal of a package gives the Solidity types of
  its methods and events. The lemmas show that a value of a declared Go type that fits its Solidity type survives the
  JSON hop of the output decoders; the interface \<open>contract_binding\<close> derives that calls carry their arguments and that
  reads return what the contract answers, and \<open>event_binding\<close> that subscriptions and queries select the package's own events.
\<close>

section \<open>Base64\<close>

lemma of_char_base64:
  "n < 64 \<Longrightarrow> (of_char (base64_char n) :: nat) =
     (if n < 26 then 65 + n else if n < 52 then 71 + n else if n < 62 then n - 4 else if n = 62 then 43 else 47)"
  by (simp add: base64_char_def)

lemma base64_val_char: "n < 64 \<Longrightarrow> base64_val (base64_char n) = Some n"
  unfolding base64_val_def of_char_base64 Let_def by auto

lemma base64_char_pad: "n < 64 \<Longrightarrow> base64_char n \<noteq> CHR ''=''"
  using of_char_base64 [of n] by (auto split: if_splits)

lemma byte_lt: "unat (b :: byte) < 256"
  using unsigned_less [of b] by simp

lemma byte_parts: "unat (b :: byte) div 4 < 64" "unat b div 16 < 16" "unat b div 64 < 4"
  using byte_lt [of b] by (simp_all add: less_mult_imp_div_less)

lemma byte_join:
  "n = unat (b :: byte) \<Longrightarrow> of_nat n = b"
  by simp

lemma base64_roundtrip: "base64_decode (base64_encode bs) = Some bs"
proof (induction bs rule: base64_encode.induct)
  case (2 a)
  have q: "unat a mod 4 * 16 < 64" using mod_less_divisor [of 4 "unat a"] by simp
  have "of_nat (unat a div 4 * 4 + unat a mod 4 * 16 div 16) = a" by (rule byte_join) simp
  then show ?case by (simp add: base64_val_char byte_parts q)
next
  case (3 a b)
  note p = byte_parts(1) [of a] byte_parts(2) [of b]
  have q: "unat a mod 4 * 16 + unat b div 16 < 64" "unat b mod 16 * 4 < 64"
    using mod_less_divisor [of 4 "unat a"] mod_less_divisor [of 16 "unat b"] p by linarith+
  have "of_nat (unat a div 4 * 4 + (unat a mod 4 * 16 + unat b div 16) div 16) = a"
    by (rule byte_join) (use p in simp)
  moreover have "of_nat ((unat a mod 4 * 16 + unat b div 16) mod 16 * 16 + unat b mod 16 * 4 div 4) = b"
    by (rule byte_join) (use p in simp)
  ultimately show ?case by (simp add: base64_val_char base64_char_pad p q)
next
  case (4 a b c bs)
  note p = byte_parts(1) [of a] byte_parts(2) [of b] byte_parts(3) [of c]
  have q: "unat a mod 4 * 16 + unat b div 16 < 64" "unat b mod 16 * 4 + unat c div 64 < 64" "unat c mod 64 < 64"
    using mod_less_divisor [of 4 "unat a"] mod_less_divisor [of 16 "unat b"] p by (linarith, linarith, simp)
  have "of_nat (unat a div 4 * 4 + (unat a mod 4 * 16 + unat b div 16) div 16) = a"
    by (rule byte_join) (use p in simp)
  moreover have "of_nat ((unat a mod 4 * 16 + unat b div 16) mod 16 * 16 + (unat b mod 16 * 4 + unat c div 64) div 4) = b"
    by (rule byte_join) (use p in simp)
  moreover have "of_nat ((unat b mod 16 * 4 + unat c div 64) mod 4 * 64 + unat c mod 64) = c"
    by (rule byte_join) (use p in simp)
  ultimately show ?case using 4 by (simp add: base64_val_char base64_char_pad p q)
qed simp

section \<open>Lower case on bits\<close>

text \<open>For evaluation: an upper case letter has its sixth bit clear, and setting it gives the lower case letter.\<close>

lemma lower_char_bits [code]:
  "lower_char (Char b0 b1 b2 b3 b4 b5 b6 b7) =
     Char b0 b1 b2 b3 b4
       (b5 \<or> \<not> b7 \<and> b6 \<and> (b0 \<or> b1 \<or> b2 \<or> b3 \<or> b4) \<and> \<not> (b4 \<and> b3 \<and> (b2 \<or> b1 \<and> b0))) b6 b7"
  by (cases b0; cases b1; cases b2; cases b3; cases b4; cases b5; cases b6; cases b7; simp add: lower_char_def char_of_def bit_iff_odd)

section \<open>The ABI literal\<close>

datatype sol_ty = SUint nat | SAddress | SBool | SFixed nat | SBytes | SString
  | STuple "(string \<times> sol_ty) list" | SArray sol_ty

record abi_method =
  am_Name :: string
  am_Inputs :: "(string \<times> sol_ty) list"
  am_Outputs :: "(string \<times> sol_ty) list"

type_synonym event_literal = "string \<times> (string \<times> bool \<times> sol_ty) list"

fun sol_text :: "sol_ty \<Rightarrow> string" where
  "sol_text (SUint n) = ''uint'' @ show_nat n"
| "sol_text SAddress = ''address''"
| "sol_text SBool = ''bool''"
| "sol_text (SFixed n) = ''bytes'' @ show_nat n"
| "sol_text SBytes = ''bytes''"
| "sol_text SString = ''string''"
| "sol_text (STuple ts) = ''tuple''"
| "sol_text (SArray t) = sol_text t @ ''[]''"

definition event_arg :: "string \<times> bool \<times> sol_ty \<Rightarrow> abi_arg" where
  "event_arg = (\<lambda>(name, indexed, t). \<lparr>arg_name = name, arg_indexed = indexed,
     arg_type = (case t of STuple _ \<Rightarrow> TupleTy | SBytes \<Rightarrow> BytesTy | _ \<Rightarrow> ElementaryTy (sol_text t))\<rparr>)"

section \<open>Values and types\<close>

text \<open>
  The Go type for a Solidity type, as the ABI library documents it: \<open>uint8\<close> and \<open>uint64\<close> have a Go type of their width,
  the other unsigned integers of the literals are \<open>*big.Int\<close>, and a tuple is a struct with the same fields up to case.
\<close>

fun conforms :: "sol_ty \<Rightarrow> gotype \<Rightarrow> bool" where
  "conforms (SUint n) g \<longleftrightarrow> n \<noteq> 16 \<and> n \<noteq> 32 \<and> g = (if n = 8 then TU8 else if n = 64 then TU64 else TBig)"
| "conforms SAddress g \<longleftrightarrow> g = TAddr"
| "conforms SBool g \<longleftrightarrow> g = TBool"
| "conforms (SFixed n) g \<longleftrightarrow> g = TFix n"
| "conforms SBytes g \<longleftrightarrow> g = TBytes"
| "conforms SString g \<longleftrightarrow> g = TStr"
| "conforms (STuple ts) g \<longleftrightarrow>
     (case g of TStruct fs \<Rightarrow> same_names (map fst ts) (map fst fs) \<and> list_all2 (\<lambda>t f. conforms (snd t) (snd f)) ts fs
      | _ \<Rightarrow> False)"
| "conforms (SArray t) g \<longleftrightarrow> (case g of TList g' \<Rightarrow> conforms t g' | _ \<Rightarrow> False)"

text \<open>The Go values that a Solidity type can carry.\<close>

fun abi_value :: "sol_ty \<Rightarrow> gval \<Rightarrow> bool" where
  "abi_value (SUint n) v =
     (case v of
        GU8 _ \<Rightarrow> n = 8
      | GU64 _ \<Rightarrow> n = 64
      | GBig (Some i) \<Rightarrow> n \<noteq> 8 \<and> n \<noteq> 16 \<and> n \<noteq> 32 \<and> n \<noteq> 64 \<and> 0 \<le> i \<and> i < 2 ^ n
      | _ \<Rightarrow> False)"
| "abi_value SAddress v = (case v of GAddr _ \<Rightarrow> True | _ \<Rightarrow> False)"
| "abi_value SBool v = (case v of GBool _ \<Rightarrow> True | _ \<Rightarrow> False)"
| "abi_value (SFixed n) v = (case v of GFix bs \<Rightarrow> length bs = n | _ \<Rightarrow> False)"
| "abi_value SBytes v = (case v of GBytes _ \<Rightarrow> True | _ \<Rightarrow> False)"
| "abi_value SString v = (case v of GStr _ \<Rightarrow> True | _ \<Rightarrow> False)"
| "abi_value (STuple ts) v =
     (case v of GStruct fs \<Rightarrow> list_all2 (\<lambda>t. abi_value (snd t)) ts (map snd fs) | _ \<Rightarrow> False)"
| "abi_value (SArray t) v = (case v of GList vs \<Rightarrow> list_all (abi_value t) vs | _ \<Rightarrow> False)"

text \<open>What unpacking gives for a value that was packed: structs come back under the literal's field names.\<close>

fun abi_form :: "sol_ty \<Rightarrow> gval \<Rightarrow> gval" and abi_forms :: "(string \<times> sol_ty) list \<Rightarrow> gval list \<Rightarrow> gstruct" where
  "abi_form (STuple ts) v = (case v of GStruct fs \<Rightarrow> GStruct (abi_forms ts (map snd fs)) | _ \<Rightarrow> v)"
| "abi_form (SArray t) v = (case v of GList vs \<Rightarrow> GList (map (abi_form t) vs) | _ \<Rightarrow> v)"
| "abi_form _ v = v"
| "abi_forms (t # ts) (v # vs) = (fst t, abi_form (snd t) v) # abi_forms ts vs"
| "abi_forms _ _ = []"

lemma abi_forms_eq: "abi_forms ts vs = zip (map fst ts) (map2 (\<lambda>t. abi_form (snd t)) ts vs)"
proof (induction ts arbitrary: vs)
  case (Cons t ts)
  then show ?case by (cases vs) auto
qed simp

definition address_text_doc :: "env \<Rightarrow> bool" where
  "address_text_doc E \<longleftrightarrow> (\<forall>a. ParseAddressText E (AddressText E a) = Some a)"

lemma json_hop_list:
  assumes "\<And>v. v \<in> set vs \<Longrightarrow> unmarshal E g (marshal E (f v)) = Ok v"
  shows "unmarshal E (TList g) (marshal E (GList (map f vs))) = Ok (GList vs)"
proof -
  have "sequenceO (map (\<lambda>v. unmarshal E g (marshal E (f v))) vs) = Ok (map (\<lambda>v. v) vs)"
    by (rule sequenceO_Ok) (rule assms)
  then show ?thesis by (simp add: comp_def)
qed

lemma json_hop_struct:
  assumes names: "same_names (map fst ts) (map fst gs)" "map fst fs = map fst gs" "length ts = length gs"
    and hop: "\<And>i. i < length ts \<Longrightarrow> unmarshal E (snd (gs ! i)) (marshal E (abi_form (snd (ts ! i)) (snd (fs ! i)))) = Ok (snd (fs ! i))"
  shows "unmarshal E (TStruct gs) (marshal E (abi_form (STuple ts) (GStruct fs))) = Ok (GStruct fs)"
proof -
  have len: "length fs = length gs" using names(2) map_eq_imp_length_eq by blast
  let ?ws = "abi_forms ts (map snd fs)"
  have ws: "length ?ws = length gs" "map fst ?ws = map fst ts"
    using len names(3) by (simp_all add: abi_forms_eq)
  have at: "snd (?ws ! i) = abi_form (snd (ts ! i)) (snd (fs ! i))" if "i < length gs" for i
    using that len names(3) by (simp add: abi_forms_eq)
  have "unmarshal E (TStruct gs) (marshal E (GStruct ?ws)) = Ok (GStruct (zip (map fst gs) (map snd fs)))"
  proof (rule struct_roundtrip)
    show "list_all2 (\<lambda>f (w, g). unmarshal E (snd f) (marshal E (snd w)) = Ok g) gs (zip ?ws (map snd fs))"
      using ws(1) len at hop names(3) by (simp add: list_all2_conv_all_nth)
  qed (use ws names len in simp_all)
  then show ?thesis unfolding names(2) [symmetric] by (simp add: zip_map_fst_snd)
qed

lemma json_hop_basic:
  "address_text_doc E \<Longrightarrow> unmarshal E TAddr (marshal E (GAddr a)) = Ok (GAddr a)"
  "unmarshal E TBytes (marshal E (GBytes bs)) = Ok (GBytes bs)" "unmarshal E TStr (marshal E (GStr s)) = Ok (GStr s)"
  by (simp_all add: address_text_doc_def base64_roundtrip)

lemma json_hop:
  assumes "address_text_doc E"
  shows "conforms s g \<Longrightarrow> abi_value s v \<Longrightarrow> has_type g v \<Longrightarrow> unmarshal E g (marshal E (abi_form s v)) = Ok v"
proof (induction s g arbitrary: v rule: conforms.induct)
  case (7 ts g)
  then obtain gs fs where g: "g = TStruct gs" and v: "v = GStruct fs"
    by (auto split: gotype.splits gval.splits)
  note 7 = 7 [unfolded g v]
  have ty: "map fst fs = map fst gs" "list_all2 (\<lambda>f. has_type (snd f)) gs (map snd fs)"
    "list_all2 (\<lambda>t. abi_value (snd t)) ts (map snd fs)" "list_all2 (\<lambda>t f. conforms (snd t) (snd f)) ts gs"
    "same_names (map fst ts) (map fst gs)"
    using 7 by simp_all
  have "unmarshal E (snd (gs ! i)) (marshal E (abi_form (snd (ts ! i)) (snd (fs ! i)))) = Ok (snd (fs ! i))" if "i < length ts" for i
    by (rule 7(1) [OF refl]) (use ty that in \<open>auto simp: list_all2_conv_all_nth\<close>)
  then show ?case unfolding g v by (intro json_hop_struct) (use ty in \<open>auto dest: list_all2_lengthD\<close>)
next
  case (8 t g)
  then obtain g' vs where "g = TList g'" "v = GList vs" by (auto split: gotype.splits gval.splits)
  with 8 show ?case by (simp add: json_hop_list list_all_iff del: unmarshal.simps marshal.simps)
qed (use assms in \<open>auto simp: json_hop_basic split: gval.splits option.splits if_splits
      simp del: unmarshal.simps marshal.simps\<close>)

section \<open>Calls\<close>

text \<open>A method's encoder: the method and the fields of its input struct, in the order they are packed.\<close>

type_synonym call_spec = "string \<times> (string \<times> gotype) list"
type_synonym call_encoder = "codec \<Rightarrow> gstruct \<Rightarrow> byte list outcome"

definition table_call :: "call_spec \<Rightarrow> call_encoder" where
  "table_call s = (\<lambda>c inp. abi_Pack (codec_abi c) (fst s) (map (\<lambda>f. fld inp (fst f)) (snd s)))"

definition call_ok :: "call_spec \<Rightarrow> call_encoder \<Rightarrow> bool" where
  "call_ok s enc \<longleftrightarrow> (\<forall>c inp. has_type (TStruct (snd s)) (GStruct inp) \<longrightarrow>
     enc c inp = abi_Pack (codec_abi c) (fst s) (map snd inp))"

lemma fld_map:
  assumes "distinct (map fst inp)" "map fst inp = fs"
  shows "map (fld inp) fs = map snd inp"
proof -
  have "fld inp (fst p) = snd p" if "p \<in> set inp" for p
    using that assms(1) by (simp add: fld_def map_of_is_SomeI [of inp "fst p" "snd p"])
  then show ?thesis using assms(2) [symmetric] by simp
qed

lemma has_type_iff:
  "has_type TBig v \<longleftrightarrow> (\<exists>p. v = GBig p)" "has_type TU64 v \<longleftrightarrow> (\<exists>w. v = GU64 w)"
  "has_type (TFix n) v \<longleftrightarrow> (\<exists>bs. v = GFix bs \<and> length bs = n)"
  "has_type (TStruct fs) v \<longleftrightarrow> (\<exists>gs. v = GStruct gs \<and> map fst gs = map fst fs \<and> list_all2 (\<lambda>f. has_type (snd f)) fs (map snd gs))"
  by (cases v; simp)+

lemma table_call_ok: "distinct (map fst (snd s)) \<Longrightarrow> call_ok s (table_call s)"
proof -
  assume d: "distinct (map fst (snd s))"
  have "map (\<lambda>f. fld inp (fst f)) (snd s) = map snd inp" if "map fst inp = map fst (snd s)" for inp
    using fld_map [of inp "map fst (snd s)"] that d by (simp add: comp_def)
  then show ?thesis by (auto simp: call_ok_def table_call_def)
qed

lemma call_ok_update:
  assumes "list_all2 call_ok ts es" "i < length ts" "call_ok (ts ! i) f"
  shows "list_all2 call_ok ts (es[i := f])"
  using assms list_all2_update_cong [of call_ok ts es "ts ! i" f i] by simp

lemma table_calls_ok:
  "list_all (\<lambda>s. distinct (map fst (snd s))) ts \<Longrightarrow> list_all2 call_ok ts (map table_call ts)"
  by (simp add: list_all2_map2 list_all_iff list_all2_same table_call_ok)

definition find_method :: "abi_method list \<Rightarrow> string \<Rightarrow> abi_method option" where
  "find_method ms name = find (\<lambda>m. am_Name m = name) ms"

definition inputs_fit :: "abi_method \<Rightarrow> call_spec \<Rightarrow> bool" where
  "inputs_fit m s = list_all2 (\<lambda>i f. conforms (snd i) (snd f)) (am_Inputs m) (snd s)"

definition inputs_conform :: "abi_method list \<Rightarrow> call_spec \<Rightarrow> bool" where
  "inputs_conform ms s = (case find_method ms (fst s) of None \<Rightarrow> False | Some m \<Rightarrow> inputs_fit m s)"

text \<open>The tables are in the order of the literal, so one pass over both finds the method of every entry.\<close>

fun aligned :: "(abi_method \<Rightarrow> 'a \<Rightarrow> bool) \<Rightarrow> ('a \<Rightarrow> string) \<Rightarrow> abi_method list \<Rightarrow> 'a list \<Rightarrow> bool" where
  "aligned ok name ms [] = True"
| "aligned ok name [] (s # ss) = False"
| "aligned ok name (m # ms) (s # ss) =
     (if am_Name m = name s then ok m s \<and> aligned ok name ms ss else aligned ok name ms (s # ss))"

lemma aligned_finds:
  "aligned ok name ms ss \<Longrightarrow> distinct (map am_Name ms) \<Longrightarrow> s \<in> set ss \<Longrightarrow> \<exists>m. find_method ms (name s) = Some m \<and> ok m s"
proof (induction ok name ms ss rule: aligned.induct)
  case (3 ok name m ms s' ss)
  have later: "find_method (m # ms) (name s) = find_method ms (name s)" if "find_method ms (name s) = Some x" for x
  proof -
    have "x \<in> set ms" "am_Name x = name s" using that by (auto simp: find_method_def find_Some_iff)
    then have "am_Name m \<noteq> name s" using "3.prems"(2) by (metis distinct.simps(2) image_eqI list.set_map list.simps(9))
    then show ?thesis by (simp add: find_method_def)
  qed
  have here: "find_method (m # ms) (name s') = Some m" if "am_Name m = name s'"
    using that by (simp add: find_method_def)
  show ?case
  proof (cases "am_Name m = name s'")
    case True
    then have "s = s' \<or> (\<exists>x. find_method ms (name s) = Some x \<and> ok x s)" using 3 by auto
    then show ?thesis using here [OF True] later 3 True by auto
  next
    case False
    then obtain x where "find_method ms (name s) = Some x" "ok x s" using 3 by auto
    with later show ?thesis by auto
  qed
qed simp_all

lemma inputs_conformI:
  "aligned inputs_fit fst ms ts \<Longrightarrow> distinct (map am_Name ms) \<Longrightarrow> list_all (inputs_conform ms) ts"
  by (auto simp: list_all_iff inputs_conform_def dest: aligned_finds)

lemma subset_take_drop: "set xs \<subseteq> set (take n xs @ ys @ drop n xs)"
  by (subst (1) append_take_drop_id [of n xs, symmetric]) (auto simp del: append_take_drop_id)

lemma names_distinct: "successively (<) (map f xs) \<Longrightarrow> distinct (map f xs)" for f :: "'a \<Rightarrow> string"
  by (simp add: successively_conv_sorted_wrt strict_sorted_iff)

definition in_range :: "(string \<times> sol_ty) list \<Rightarrow> gval list \<Rightarrow> bool" where
  "in_range ts vs = list_all2 (\<lambda>t. abi_value (snd t)) ts vs"

text \<open>
  What the ABI library documents of packing: a call is the method's selector followed by its encoded arguments, which
  unpack to the arguments that were packed; the same for a method's outputs. Values must be of the Go types
  that belong to the literal's types.
\<close>

definition pack_doc :: "abi \<Rightarrow> abi_method \<Rightarrow> gval list \<Rightarrow> bool" where
  "pack_doc a m vs \<longleftrightarrow> (in_range (am_Inputs m) vs \<longrightarrow>
     length (take 4 (abi_MethodID a (am_Name m))) = 4 \<and>
     (\<exists>payload. abi_Pack a (am_Name m) vs = Ok (take 4 (abi_MethodID a (am_Name m)) @ payload) \<and>
        abi_InputsUnpack a (am_Name m) payload = Ok (map2 (\<lambda>i. abi_form (snd i)) (am_Inputs m) vs)))"

definition unpack_doc :: "abi \<Rightarrow> abi_method \<Rightarrow> gval list \<Rightarrow> bool" where
  "unpack_doc a m rs \<longleftrightarrow> (in_range (am_Outputs m) rs \<longrightarrow>
     (\<exists>data. abi_OutputsPack a (am_Name m) rs = Ok data \<and>
        abi_OutputsUnpack a (am_Name m) data = Ok (map2 (\<lambda>i. abi_form (snd i)) (am_Outputs m) rs)))"

section \<open>Reads\<close>

datatype out_spec = OneOutput gotype string | StructOutput "(string \<times> gotype \<times> string) list"

record read_spec =
  rs_Go :: string
  rs_Name :: string
  rs_Inputs :: "(string \<times> gotype) list"
  rs_Outputs :: out_spec

type_synonym contract_read = "env \<Rightarrow> vault_binding \<Rightarrow> gstruct \<Rightarrow> bigptr \<Rightarrow> gval prog"

fun decode_result :: "env \<Rightarrow> codec \<Rightarrow> string \<Rightarrow> out_spec \<Rightarrow> byte list \<Rightarrow> gval outcome" where
  "decode_result E c m (OneOutput t n) = decode_output E c m t n"
| "decode_result E c m (StructOutput outs) = decode_outputs E c m outs"

definition table_read :: "read_spec \<Rightarrow> contract_read" where
  "table_read s = (\<lambda>E v inp block. read_contract E v (table_call (rs_Name s, rs_Inputs s) (vb_Codec v) inp) block
     (decode_result E (vb_Codec v) (rs_Name s) (rs_Outputs s)))"

fun mock_result_of :: "out_spec \<Rightarrow> mock_result" where
  "mock_result_of (OneOutput t n) = PackResult"
| "mock_result_of (StructOutput outs) = PackFields (map fst outs)"

definition table_mock :: "abi \<Rightarrow> mock \<Rightarrow> read_spec \<Rightarrow> byte list \<times> (byte list \<Rightarrow> byte list outcome)" where
  "table_mock c k s = (take 4 (abi_MethodID c (rs_Name s)),
     mock_call c k (rs_Name s) (rs_Go s) (rs_Inputs s) (mock_result_of (rs_Outputs s)))"

text \<open>The type of a read's result, and the outputs that make it up.\<close>

fun out_type :: "out_spec \<Rightarrow> gotype" where
  "out_type (OneOutput t n) = t"
| "out_type (StructOutput outs) = TStruct (map (\<lambda>x. (fst x, fst (snd x))) outs)"

fun out_values :: "out_spec \<Rightarrow> gval \<Rightarrow> gval list" where
  "out_values (OneOutput t n) r = [r]"
| "out_values (StructOutput outs) r = (case r of GStruct fs \<Rightarrow> map snd fs | _ \<Rightarrow> [])"

fun outputs_conform :: "(string \<times> sol_ty) list \<Rightarrow> out_spec \<Rightarrow> bool" where
  "outputs_conform os (OneOutput t n) = (case os of [x] \<Rightarrow> conforms (snd x) t | _ \<Rightarrow> False)"
| "outputs_conform os (StructOutput outs) =
     (list_all2 (\<lambda>x y. conforms (snd x) (fst (snd y))) os outs \<and> distinct (map fst outs))"

fun elementary :: "sol_ty \<Rightarrow> bool" where
  "elementary (STuple ts) = False"
| "elementary (SArray t) = False"
| "elementary _ = True"

definition read_fits :: "abi_method \<Rightarrow> read_spec \<Rightarrow> bool" where
  "read_fits m s =
     (list_all2 (\<lambda>i f. conforms (snd i) (snd f)) (am_Inputs m) (rs_Inputs s) \<and>
      list_all (\<lambda>i. elementary (snd i)) (am_Inputs m) \<and> distinct (map fst (rs_Inputs s)) \<and>
      outputs_conform (am_Outputs m) (rs_Outputs s))"

definition read_conforms :: "abi_method list \<Rightarrow> read_spec \<Rightarrow> bool" where
  "read_conforms ms s = (case find_method ms (rs_Name s) of None \<Rightarrow> False | Some m \<Rightarrow> read_fits m s)"

lemma read_conformsI:
  "aligned read_fits rs_Name ms ts \<Longrightarrow> distinct (map am_Name ms) \<Longrightarrow> list_all (read_conforms ms) ts"
  by (auto simp: list_all_iff read_conforms_def dest: aligned_finds)

text \<open>
  What the SDK documents of a mocked contract: a call to its address goes to the function registered for the call's
  first four bytes, with the remaining bytes, and the caller gets the bytes it returns, or an error when it fails.
\<close>

definition mock_doc :: "env \<Rightarrow> vault_binding \<Rightarrow> func_map \<Rightarrow> bool" where
  "mock_doc E v fm \<longleftrightarrow> (\<forall>tr cq f. cq_To cq = address_Bytes (vb_Address v) \<longrightarrow> map_of fm (take 4 (cq_Data cq)) = Some f \<longrightarrow>
     (case f (drop 4 (cq_Data cq)) of
        Ok d \<Rightarrow> host_CallContract E tr (vb_ChainSelector v) cq = Ok (Some d)
      | Err e \<Rightarrow> \<exists>e'. host_CallContract E tr (vb_ChainSelector v) cq = Err e'
      | Panic p \<Rightarrow> True))"

lemma map2_abi_form_elementary:
  "list_all (\<lambda>i. elementary (snd i)) ts \<Longrightarrow> length vs = length ts \<Longrightarrow> map2 (\<lambda>i. abi_form (snd i)) ts vs = vs"
proof (induction ts arbitrary: vs)
  case (Cons t ts)
  have "abi_form (snd t) v = v" for v using Cons.prems(1) by (cases "snd t") auto
  with Cons show ?case by (cases vs) auto
qed simp

lemma sequence_decode_fields:
  assumes "\<And>i. i < length outs \<Longrightarrow> unmarshal E (fst (snd (outs ! i))) (marshal E (vs ! i)) = Ok (snd (fs ! i))"
    and "length vs = length outs" "map fst fs = map fst outs"
  shows "sequenceO (map2 (decode_field E) outs vs) = Ok fs"
proof -
  have len: "length fs = length outs" using assms(3) map_eq_imp_length_eq by blast
  have "map2 (decode_field E) outs vs = map Ok fs"
  proof (rule nth_equalityI)
    fix i
    assume "i < length (map2 (decode_field E) outs vs)"
    then have i: "i < length outs" by simp
    have "fst (fs ! i) = fst (outs ! i)" using arg_cong [OF assms(3), of "\<lambda>xs. xs ! i"] i len by simp
    then show "map2 (decode_field E) outs vs ! i = map Ok fs ! i"
      using i len assms(1) [OF i] assms(2) by (simp add: decode_field_def case_prod_beta prod_eq_iff)
  qed (use len assms(2) in simp)
  moreover have "sequenceO (map Ok xs) = Ok xs" for xs :: gstruct by (induction xs) auto
  ultimately show ?thesis by simp
qed

lemma decode_result_of_packed:
  assumes "address_text_doc E" "outputs_conform (am_Outputs m) outs" "has_type (out_type outs) r"
    and "in_range (am_Outputs m) (out_values outs r)"
    and "abi_OutputsUnpack (codec_abi c) name data = Ok (map2 (\<lambda>i. abi_form (snd i)) (am_Outputs m) (out_values outs r))"
  shows "decode_result E c name outs data = Ok r"
proof (cases outs)
  case (OneOutput t n)
  then obtain x where x: "am_Outputs m = [x]" "conforms (snd x) t"
    using assms(2) by (auto split: list.splits)
  then have "unmarshal E t (marshal E (abi_form (snd x) r)) = Ok r"
    using json_hop [OF assms(1) x(2)] assms(3,4) OneOutput by (simp add: in_range_def)
  then show ?thesis using assms(5) x(1) OneOutput by (simp add: decode_output_def)
next
  case (StructOutput os)
  then obtain fs where r: "r = GStruct fs" and fs: "map fst fs = map fst os" "list_all2 (\<lambda>f. has_type (snd f)) (map (\<lambda>x. (fst x, fst (snd x))) os) (map snd fs)"
    using assms(3) by (auto split: gval.splits simp: comp_def)
  have c: "list_all2 (\<lambda>x y. conforms (snd x) (fst (snd y))) (am_Outputs m) os" using assms(2) StructOutput by simp
  have v: "list_all2 (\<lambda>t. abi_value (snd t)) (am_Outputs m) (map snd fs)" using assms(4) StructOutput r by (simp add: in_range_def)
  have len: "length (am_Outputs m) = length os" "length fs = length os"
    using list_all2_lengthD [OF c] list_all2_lengthD [OF v] by simp_all
  have "sequenceO (map2 (decode_field E) os (map2 (\<lambda>i. abi_form (snd i)) (am_Outputs m) (map snd fs))) = Ok fs"
  proof (rule sequence_decode_fields)
    fix i
    assume "i < length os"
    then show "unmarshal E (fst (snd (os ! i))) (marshal E (map2 (\<lambda>i. abi_form (snd i)) (am_Outputs m) (map snd fs) ! i)) = Ok (snd (fs ! i))"
      using json_hop [OF assms(1), of "snd (am_Outputs m ! i)" "fst (snd (os ! i))" "snd (fs ! i)"] c v fs(2) len
      by (simp add: list_all2_conv_all_nth)
  qed (use len fs in simp_all)
  then show ?thesis using assms(5) StructOutput r len by (simp add: decode_outputs_def)
qed

section \<open>The interface of a contract package\<close>

text \<open>
  A package: the methods of its ABI literal, its call encoders, its reads with the specification of each, and the
  functions of its test double. Every encoder packs the fields of its struct in order, every read and mock function has
  the common shape, and the declared Go types fit the literal.
\<close>

locale contract_binding =
  fixes ms :: "abi_method list"
    and open_binding :: "env \<Rightarrow> uint64 \<Rightarrow> address \<Rightarrow> vault_binding outcome"
    and call_table :: "call_spec list" and calls :: "call_encoder list"
    and read_table :: "read_spec list" and reads :: "contract_read list"
    and mock_table :: "read_spec list" and funcs :: "mock \<Rightarrow> abi \<Rightarrow> func_map"
  assumes opened: "open_binding E chain addr = Ok v \<Longrightarrow>
      vb_Address v = addr \<and> vb_ChainSelector v = chain \<and> vb_ABI v = codec_abi (vb_Codec v)"
    and encoders: "list_all2 call_ok call_table calls"
    and readers: "reads = map table_read read_table"
    and mocked: "funcs k c = map (table_mock c k) mock_table"
    and covered: "set read_table \<subseteq> set mock_table"
    and calls_conform: "list_all (inputs_conform ms) call_table"
    and reads_conform: "list_all (read_conforms ms) read_table"
begin

lemma call_carries:
  assumes "(s, enc) \<in> set (zip call_table calls)" "find_method ms (fst s) = Some m"
    and "has_type (TStruct (snd s)) (GStruct inp)" "in_range (am_Inputs m) (map snd inp)"
    and "pack_doc (codec_abi c) m (map snd inp)"
  shows "\<exists>payload. enc c inp = Ok (take 4 (abi_MethodID (codec_abi c) (fst s)) @ payload) \<and>
    abi_InputsUnpack (codec_abi c) (fst s) payload = Ok (map2 (\<lambda>i. abi_form (snd i)) (am_Inputs m) (map snd inp))"
proof -
  have "call_ok s enc" using encoders assms(1) by (auto simp: list_all2_iff)
  then have "enc c inp = abi_Pack (codec_abi c) (fst s) (map snd inp)" using assms(3) by (simp add: call_ok_def)
  moreover have "am_Name m = fst s" using assms(2) by (auto simp: find_method_def find_Some_iff)
  ultimately show ?thesis using assms(4,5) by (auto simp: pack_doc_def)
qed

lemma call_has_method:
  assumes "s \<in> set call_table"
  shows "\<exists>m. find_method ms (fst s) = Some m \<and> list_all2 (\<lambda>i f. conforms (snd i) (snd f)) (am_Inputs m) (snd s)"
  using calls_conform assms by (auto simp: list_all_iff inputs_conform_def inputs_fit_def split: option.splits)

lemma read_spec_fits:
  assumes "s \<in> set read_table" "find_method ms (rs_Name s) = Some m"
  shows "list_all (\<lambda>i. elementary (snd i)) (am_Inputs m)" "distinct (map fst (rs_Inputs s))"
    "outputs_conform (am_Outputs m) (rs_Outputs s)" "length (am_Inputs m) = length (rs_Inputs s)" "am_Name m = rs_Name s"
proof -
  have "read_conforms ms s" using reads_conform assms(1) by (simp add: list_all_iff)
  then show "list_all (\<lambda>i. elementary (snd i)) (am_Inputs m)" "distinct (map fst (rs_Inputs s))"
    "outputs_conform (am_Outputs m) (rs_Outputs s)" "length (am_Inputs m) = length (rs_Inputs s)"
    using assms(2) by (auto simp: read_conforms_def read_fits_def dest: list_all2_lengthD)
  show "am_Name m = rs_Name s" using assms(2) by (auto simp: find_method_def find_Some_iff)
qed

lemma mock_found:
  assumes "s \<in> set read_table" "distinct (map (\<lambda>s. take 4 (abi_MethodID c (rs_Name s))) mock_table)"
  shows "map_of (funcs k c) (take 4 (abi_MethodID c (rs_Name s))) =
    Some (mock_call c k (rs_Name s) (rs_Go s) (rs_Inputs s) (mock_result_of (rs_Outputs s)))"
proof (rule map_of_is_SomeI)
  show "distinct (map fst (funcs k c))" using assms(2) by (simp add: mocked table_mock_def comp_def)
  show "(take 4 (abi_MethodID c (rs_Name s)), mock_call c k (rs_Name s) (rs_Go s) (rs_Inputs s) (mock_result_of (rs_Outputs s)))
      \<in> set (funcs k c)"
    using assms(1) covered by (auto simp: mocked table_mock_def)
qed

lemma packed_outputs:
  assumes "s \<in> set read_table" "find_method ms (rs_Name s) = Some m" "has_type (out_type (rs_Outputs s)) r"
  shows "packed_result (mock_result_of (rs_Outputs s)) r = out_values (rs_Outputs s) r"
proof (cases "rs_Outputs s")
  case (StructOutput outs)
  then obtain fs where r: "r = GStruct fs" "map fst fs = map fst outs"
    using assms(3) by (auto split: gval.splits simp: comp_def)
  have "distinct (map fst outs)" using read_spec_fits(3) [OF assms(1,2)] StructOutput by simp
  then show ?thesis using fld_map [of fs "map fst outs"] r StructOutput by simp
qed simp

text \<open>A read of a mocked contract makes one call, and returns what the mock's function returns for the call's arguments.\<close>

lemma read_through_mock:
  assumes "(s, read) \<in> set (zip read_table reads)" "find_method ms (rs_Name s) = Some m"
    and "has_type (TStruct (rs_Inputs s)) (GStruct inp)" "in_range (am_Inputs m) (map snd inp)"
    and "k (rs_Go s) = Some f"
    and "\<And>r. f inp = Ok r \<Longrightarrow> has_type (out_type (rs_Outputs s)) r \<and>
      in_range (am_Outputs m) (out_values (rs_Outputs s) r) \<and> unpack_doc c m (out_values (rs_Outputs s) r)"
    and "distinct (map (\<lambda>s. take 4 (abi_MethodID c (rs_Name s))) mock_table)" "c = codec_abi (vb_Codec v)"
    and "pack_doc c m (map snd inp)" "address_text_doc E" "mock_doc E v (funcs k c)" "\<not> is_panic (f inp)"
  shows "\<exists>res cq. read E v inp block tr = (res, tr @ [HCallContract (vb_ChainSelector v) cq]) \<and>
    cq_To cq = address_Bytes (vb_Address v) \<and>
    cq_BlockNumber cq = (case block of None \<Rightarrow> FinalizedBlockNumber E | Some b \<Rightarrow> b) \<and>
    (case f inp of Ok r \<Rightarrow> res = Ok r | _ \<Rightarrow> \<exists>e. res = Err e)"
proof -
  have s: "s \<in> set read_table" and rd: "read = table_read s"
    using assms(1) by (auto simp: readers zip_map2 in_set_zip)
  note fit = read_spec_fits [OF s assms(2)]
  have len: "length inp = length (rs_Inputs s)" and names: "map fst inp = map fst (rs_Inputs s)"
    using assms(3) by (auto dest: map_eq_imp_length_eq)
  have pk: "table_call (rs_Name s, rs_Inputs s) (vb_Codec v) inp = abi_Pack c (rs_Name s) (map snd inp)"
    using table_call_ok [of "(rs_Name s, rs_Inputs s)"] fit(2) assms(3,8) by (simp add: call_ok_def)
  let ?sel = "take 4 (abi_MethodID c (rs_Name s))"
  from assms(4,9) obtain payload where pay: "length ?sel = 4" "abi_Pack c (rs_Name s) (map snd inp) = Ok (?sel @ payload)"
    "abi_InputsUnpack c (rs_Name s) payload = Ok (map snd inp)"
    using map2_abi_form_elementary [OF fit(1), of "map snd inp"] len fit(4,5) by (auto simp: pack_doc_def)
  have args: "mock_args c (rs_Name s) (rs_Inputs s) payload = Ok inp"
  proof -
    have "zip (map fst (rs_Inputs s)) (map snd inp) = inp" unfolding names [symmetric] by (rule zip_map_fst_snd)
    moreover have "list_all2 (\<lambda>f. has_type (snd f)) (rs_Inputs s) (map snd inp)" using assms(3) by simp
    ultimately show ?thesis using pay(3) len by (auto simp: mock_args_def)
  qed
  let ?cq = "\<lparr>cq_To = address_Bytes (vb_Address v), cq_Data = ?sel @ payload,
     cq_BlockNumber = (case block of None \<Rightarrow> FinalizedBlockNumber E | Some b \<Rightarrow> b)\<rparr>"
  let ?call = "mock_call c k (rs_Name s) (rs_Go s) (rs_Inputs s) (mock_result_of (rs_Outputs s))"
  have sel: "take 4 (?sel @ payload) = ?sel" "drop 4 (?sel @ payload) = payload" using pay(1) by simp_all
  have found: "map_of (funcs k c) (take 4 (cq_Data ?cq)) = Some ?call"
    using mock_found [OF s assms(7)] sel by (simp del: take_append)
  have host: "case ?call payload of
        Ok d \<Rightarrow> host_CallContract E tr (vb_ChainSelector v) ?cq = Ok (Some d)
      | Err e \<Rightarrow> \<exists>e'. host_CallContract E tr (vb_ChainSelector v) ?cq = Err e'
      | Panic p \<Rightarrow> True"
    using assms(11) [unfolded mock_doc_def, rule_format, of ?cq ?call tr] found sel by (simp del: take_append drop_append)
  have run: "read E v inp block tr = bindI (client_CallContract E (vb_ChainSelector v) ?cq) (\<lambda>response. liftO (case response of
        None \<Rightarrow> Panic ''nil pointer dereference'' | Some data \<Rightarrow> decode_result E (vb_Codec v) (rs_Name s) (rs_Outputs s) data)) tr"
    unfolding rd table_read_def read_contract_def pk pay(2) by simp
  show ?thesis
  proof (cases "f inp")
    case (Ok r)
    note ty = assms(6) [OF Ok]
    obtain data where data: "abi_OutputsPack c (rs_Name s) (out_values (rs_Outputs s) r) = Ok data"
      "abi_OutputsUnpack c (rs_Name s) data = Ok (map2 (\<lambda>i. abi_form (snd i)) (am_Outputs m) (out_values (rs_Outputs s) r))"
      using ty fit(5) by (auto simp: unpack_doc_def)
    have "?call payload = Ok data"
      using args Ok assms(5) data(1) packed_outputs [OF s assms(2)] ty by (simp add: mock_call_def)
    then have h: "host_CallContract E tr (vb_ChainSelector v) ?cq = Ok (Some data)" using host by simp
    have "decode_result E (vb_Codec v) (rs_Name s) (rs_Outputs s) data = Ok r"
      using decode_result_of_packed [OF assms(10) fit(3)] ty data(2) assms(8) by simp
    then show ?thesis unfolding run using h Ok
      by (intro exI [of _ "Ok r"] exI [of _ ?cq]) (simp add: client_CallContract_def io_defs)
  next
    case (Err e)
    then have "?call payload = Err e" using args assms(5) by (simp add: mock_call_def)
    then obtain e' where h: "host_CallContract E tr (vb_ChainSelector v) ?cq = Err e'" using host by auto
    then show ?thesis unfolding run using Err
      by (intro exI [of _ "Err e'"] exI [of _ ?cq]) (simp add: client_CallContract_def io_defs)
  next
    case (Panic p)
    with assms(12) show ?thesis by simp
  qed
qed

end

section \<open>The interface of a package's events\<close>

record event_spec =
  es_Go :: string
  es_Name :: string
  es_Topics :: "(nat \<times> string \<times> gotype) list"

type_synonym trigger_fun = "env \<Rightarrow> vault_binding \<Rightarrow> uint64 \<Rightarrow> int \<Rightarrow> gstruct list \<Rightarrow> event_trigger outcome"
type_synonym query_fun = "env \<Rightarrow> vault_binding \<Rightarrow> filter_options option \<Rightarrow> evm_log list option prog"

definition table_topics :: "event_spec \<Rightarrow> env \<Rightarrow> abi_event \<Rightarrow> gstruct list \<Rightarrow> byte list list list outcome" where
  "table_topics s E evt values = encode_topics E evt (map (\<lambda>(i, f, t). (i, f)) (es_Topics s)) values"

definition table_subscription :: "event_spec \<Rightarrow> trigger_fun \<times> query_fun" where
  "table_subscription s =
     (\<lambda>E v chain confidence filters. log_trigger v (es_Name s) (es_Go s) (table_topics s E) chain confidence filters,
      \<lambda>E v options. filter_logs E v (abi_EventID (codec_abi (vb_Codec v)) (es_Name s)) options)"

text \<open>The topic fields are the literal's indexed arguments: same order, names up to case, and fitting types.\<close>

definition topics_fit :: "(string \<times> bool \<times> sol_ty) list \<Rightarrow> (nat \<times> string \<times> gotype) list \<Rightarrow> bool" where
  "topics_fit as ts =
     (let n = length ts
      in n \<le> length as \<and> map fst ts = [0..<n] \<and>
         list_all (\<lambda>a. fst (snd a)) (take n as) \<and> list_all (\<lambda>a. \<not> fst (snd a)) (drop n as) \<and>
         same_names (map fst (take n as)) (map (\<lambda>x. fst (snd x)) ts) \<and>
         list_all2 (\<lambda>a x. conforms (snd (snd a)) (snd (snd x))) (take n as) ts)"

definition event_conforms :: "event_literal list \<Rightarrow> event_spec \<Rightarrow> bool" where
  "event_conforms evs s = (case map_of evs (es_Name s) of None \<Rightarrow> False | Some as \<Rightarrow> topics_fit as (es_Topics s))"

lemma event_conformsI:
  assumes "list_all2 (\<lambda>e s. fst e = es_Name s \<and> topics_fit (snd e) (es_Topics s)) evs ts" "distinct (map fst evs)"
  shows "list_all (event_conforms evs) ts"
proof -
  have "event_conforms evs s" if "s \<in> set ts" for s
  proof -
    from that obtain i where "i < length ts" "s = ts ! i" by (auto simp: in_set_conv_nth)
    with assms(1) have e: "evs ! i \<in> set evs" "fst (evs ! i) = es_Name s" "topics_fit (snd (evs ! i)) (es_Topics s)"
      by (auto simp: list_all2_conv_all_nth)
    then have "map_of evs (es_Name s) = Some (snd (evs ! i))"
      using map_of_is_SomeI [OF assms(2), of "es_Name s" "snd (evs ! i)"] by (metis prod.collapse)
    with e(3) show ?thesis by (simp add: event_conforms_def)
  qed
  then show ?thesis by (simp add: list_all_iff)
qed

lemma sequenceO_Ok_iff: "sequenceO (map f xs) = Ok ys \<longleftrightarrow> list_all2 (\<lambda>x y. f x = Ok y) xs ys"
proof (induction xs arbitrary: ys)
  case (Cons x xs)
  then show ?case by (cases ys) (auto simp: bindO_Ok_iff)
qed auto

text \<open>The rule a filter's field gives for an argument.\<close>

definition rule_for :: "env \<Rightarrow> abi_arg \<Rightarrow> gval \<Rightarrow> topic_rule \<Rightarrow> bool" where
  "rule_for E arg v r \<longleftrightarrow> (if is_zero v then r = RuleHash (replicate 32 0) else PrepareTopicArg E arg v = Ok r)"

definition rules_for :: "env \<Rightarrow> abi_arg list \<Rightarrow> string list \<Rightarrow> gstruct list \<Rightarrow> topic_rule list list \<Rightarrow> bool" where
  "rules_for E as fs filters rules \<longleftrightarrow>
     list_all2 (\<lambda>(arg, f) rule. list_all2 (\<lambda>flt. rule_for E arg (fld flt f)) filters rule) (zip as fs) rules"

lemma encode_topics_Ok:
  assumes "encode_topics E evt (zip [0..<length fs] fs) values = Ok topics" "length fs \<le> length (ev_Inputs evt)"
  shows "\<exists>rules raw. rules_for E (take (length fs) (ev_Inputs evt)) fs values rules \<and> MakeTopics E rules = Ok raw \<and>
    topics = PrepareTopics E raw (ev_ID evt)"
proof -
  from assms(1) obtain rules raw where r: "MakeTopics E rules = Ok raw" "topics = PrepareTopics E raw (ev_ID evt)"
    "list_all2 (\<lambda>x. list_all2 (\<lambda>v r. topic_rule_of E evt (fst x) (fld v (snd x)) = Ok r) values) (zip [0..<length fs] fs) rules"
    by (auto simp: encode_topics_def bindO_Ok_iff sequenceO_Ok_iff case_prod_beta)
  have "rules_for E (take (length fs) (ev_Inputs evt)) fs values rules"
    unfolding rules_for_def
  proof (rule list_all2_all_nthI)
    show "length (zip (take (length fs) (ev_Inputs evt)) fs) = length rules"
      using list_all2_lengthD [OF r(3)] assms(2) by simp
    fix i
    assume i: "i < length (zip (take (length fs) (ev_Inputs evt)) fs)"
    then have "list_all2 (\<lambda>v r. topic_rule_of E evt i (fld v (fs ! i)) = Ok r) values (rules ! i)"
      using list_all2_nthD [OF r(3), of i] assms(2) by simp
    then have "list_all2 (\<lambda>v. rule_for E (ev_Inputs evt ! i) (fld v (fs ! i))) values (rules ! i)"
      by (rule list_all2_mono) (use i assms(2) in \<open>auto simp: topic_rule_of_def rule_for_def split: if_splits\<close>)
    then show "(case zip (take (length fs) (ev_Inputs evt)) fs ! i of
        (arg, f) \<Rightarrow> \<lambda>rule. list_all2 (\<lambda>flt. rule_for E arg (fld flt f)) values rule) (rules ! i)"
      using i assms(2) by simp
  qed
  with r(1,2) show ?thesis by blast
qed

locale event_binding =
  fixes evs :: "event_literal list" and event_table :: "event_spec list" and subs :: "(trigger_fun \<times> query_fun) list"
  assumes subscriptions: "subs = map table_subscription event_table"
    and events_conform: "list_all (event_conforms evs) event_table"
begin

lemma subscription_at:
  assumes "(s, sub) \<in> set (zip event_table subs)"
  shows "s \<in> set event_table \<and> sub = table_subscription s"
  using assms by (auto simp: subscriptions in_set_zip)

lemma indexed_first:
  assumes "s \<in> set event_table" "map_of evs (es_Name s) = Some args"
  shows "take (length (es_Topics s)) (map event_arg args) = filter arg_indexed (map event_arg args)"
    "map (\<lambda>(i, f, t). (i, f)) (es_Topics s) = zip [0..<length (es_Topics s)] (map (\<lambda>x. fst (snd x)) (es_Topics s))"
    "length (es_Topics s) \<le> length args"
proof -
  let ?n = "length (es_Topics s)"
  have conf: "event_conforms evs s" using events_conform assms(1) by (simp add: list_all_iff)
  have c: "?n \<le> length args" "map fst (es_Topics s) = [0..<?n]" "list_all (\<lambda>a. fst (snd a)) (take ?n args)"
    "list_all (\<lambda>a. \<not> fst (snd a)) (drop ?n args)"
    using conf assms(2) by (auto simp: event_conforms_def topics_fit_def Let_def)
  have ix: "arg_indexed (event_arg a) = fst (snd a)" for a by (simp add: event_arg_def case_prod_beta)
  have "filter arg_indexed (map event_arg (take ?n args @ drop ?n args)) = map event_arg (take ?n args)"
    using c(3,4) by (simp add: filter_id_conv filter_empty_conv list_all_iff ix del: append_take_drop_id)
  then show "take ?n (map event_arg args) = filter arg_indexed (map event_arg args)" by (simp add: take_map)
  show "map (\<lambda>(i, f, t). (i, f)) (es_Topics s) = zip [0..<?n] (map (\<lambda>x. fst (snd x)) (es_Topics s))"
    unfolding c(2) [symmetric] by (simp add: zip_map_map case_prod_beta zip_same_conv_map)
  show "?n \<le> length args" by (rule c(1))
qed

lemma trigger_selects:
  assumes "(s, trigger, query) \<in> set (zip event_table subs)" "map_of evs (es_Name s) = Some args"
    and "abi_EventInputs (vb_ABI v) (es_Name s) = map event_arg args" "trigger E v chain confidence filters = Ok t"
  shows "\<exists>rules raw. rules_for E (filter arg_indexed (map event_arg args)) (map (\<lambda>x. fst (snd x)) (es_Topics s)) filters rules \<and>
    MakeTopics E rules = Ok raw \<and> et_contract t = v \<and>
    et_Trigger t = \<lparr>lt_ChainSelector = chain, lt_Addresses = [address_Bytes (vb_Address v)],
      lt_Topics = PrepareTopics E raw (abi_EventID (vb_ABI v) (es_Name s)), lt_Confidence = confidence\<rparr>"
proof -
  have s: "s \<in> set event_table" and tr: "trigger = fst (table_subscription s)"
    using subscription_at [OF assms(1)] by (simp_all add: prod_eq_iff)
  note ix = indexed_first [OF s assms(2)]
  let ?evt = "\<lparr>ev_ID = abi_EventID (vb_ABI v) (es_Name s), ev_Inputs = abi_EventInputs (vb_ABI v) (es_Name s)\<rparr>"
  from assms(4) obtain topics where t: "table_topics s E ?evt filters = Ok topics"
    "t = \<lparr>et_Trigger = \<lparr>lt_ChainSelector = chain, lt_Addresses = [address_Bytes (vb_Address v)], lt_Topics = topics,
       lt_Confidence = confidence\<rparr>, et_contract = v\<rparr>"
    by (auto simp: tr table_subscription_def log_trigger_def bindO_Ok_iff)
  then have "\<exists>rules raw. rules_for E (take (length (es_Topics s)) (map event_arg args)) (map (\<lambda>x. fst (snd x)) (es_Topics s)) filters rules \<and>
      MakeTopics E rules = Ok raw \<and> topics = PrepareTopics E raw (abi_EventID (vb_ABI v) (es_Name s))"
    using encode_topics_Ok [of E ?evt "map (\<lambda>x. fst (snd x)) (es_Topics s)" filters topics] ix(2,3) assms(3)
    by (simp add: table_topics_def)
  then show ?thesis unfolding ix(1) t(2) by auto
qed

lemma query_selects:
  assumes "(s, trigger, query) \<in> set (zip event_table subs)"
  shows "query E v None tr = (Err (Errorf ''FilterLogs options are required.'' []), tr)"
    "\<exists>fq. snd (query E v (Some opts) tr) = tr @ [HFilterLogs (vb_ChainSelector v) fq] \<and>
       fq = \<lparr>fq_Addresses = [address_Bytes (vb_Address v)], fq_Topics = [[abi_EventID (codec_abi (vb_Codec v)) (es_Name s)]],
         fq_BlockHash = fo_BlockHash opts, fq_FromBlock = fo_FromBlock opts, fq_ToBlock = fo_ToBlock opts\<rparr> \<and>
       fst (query E v (Some opts) tr) = host_FilterLogs E tr (vb_ChainSelector v) fq"
proof -
  have q: "query = snd (table_subscription s)" using subscription_at [OF assms] by (simp add: prod_eq_iff)
  show "query E v None tr = (Err (Errorf ''FilterLogs options are required.'' []), tr)"
    by (simp add: q table_subscription_def filter_logs_def io_defs)
  show "\<exists>fq. snd (query E v (Some opts) tr) = tr @ [HFilterLogs (vb_ChainSelector v) fq] \<and>
       fq = \<lparr>fq_Addresses = [address_Bytes (vb_Address v)], fq_Topics = [[abi_EventID (codec_abi (vb_Codec v)) (es_Name s)]],
         fq_BlockHash = fo_BlockHash opts, fq_FromBlock = fo_FromBlock opts, fq_ToBlock = fo_ToBlock opts\<rparr> \<and>
       fst (query E v (Some opts) tr) = host_FilterLogs E tr (vb_ChainSelector v) fq"
    by (simp add: q table_subscription_def filter_logs_def client_FilterLogs_def io_defs)
qed

end

section \<open>Reports\<close>

text \<open>A report of a struct: nothing without an encoding, else one report signed, and one write of it to the contract.\<close>

lemma write_report_from_spec:
  "spec_io (write_report_from E v encoded gas) (\<lambda>r cs.
     (cs = [] \<and> (\<forall>payload. encoded \<noteq> Ok payload) \<and> (\<forall>a. r \<noteq> Ok a)) \<or>
     (\<exists>payload rq. encoded = Ok payload \<and> rq_EncodedPayload rq = payload \<and>
        (cs = [HGenerateReport rq] \<and> (\<forall>a. r \<noteq> Ok a) \<or>
         (\<exists>report. cs = [HGenerateReport rq, HWriteReport (vb_ChainSelector v)
            \<lparr>wq_Receiver = address_Bytes (vb_Address v), wq_Report = report, wq_GasConfig = gas\<rparr>]))))"
  by (cases encoded)
    (auto simp: spec_io_def write_report_from_def write_report_def GenerateReport_def client_WriteReport_def io_defs
      split: outcome.splits)

end
