(* ===== verification/Parent_Calls.thy ===== *)
theory Parent_Calls
  imports Binding_Contracts
begin

text \<open>
  The calls of the generated ParentVault package (\<open>cre/contracts/evm/generated/parent_vault/ParentVault.go\<close>): the methods of
  its ABI literal, the input structs, the call encoders and output decoders, the contract reads, the struct encoders with
  their report writers, and the functions of its test double. Each is an instance of a shape of \<open>Binding_Shapes\<close>; the
  interpretation at the end checks the package against its ABI literal.
\<close>

section \<open>The ABI literal\<close>

definition parent_methods :: "abi_method list" where
  "parent_methods =
     [\<lparr>am_Name = ''DEFAULT_ADMIN_ROLE'', am_Inputs = [], am_Outputs = [('''', SFixed 32)]\<rparr>,
      \<lparr>am_Name = ''UPGRADE_INTERFACE_VERSION'', am_Inputs = [], am_Outputs = [('''', SString)]\<rparr>,
      \<lparr>am_Name = ''acceptDefaultAdminTransfer'', am_Inputs = [], am_Outputs = []\<rparr>,
      \<lparr>am_Name = ''beginDefaultAdminTransfer'', am_Inputs = [(''newAdmin'', SAddress)], am_Outputs = []\<rparr>,
      \<lparr>am_Name = ''cancelDefaultAdminTransfer'', am_Inputs = [], am_Outputs = []\<rparr>,
      \<lparr>am_Name = ''cancelDeposit'', am_Inputs = [], am_Outputs = []\<rparr>,
      \<lparr>am_Name = ''cancelWithdraw'', am_Inputs = [], am_Outputs = []\<rparr>,
      \<lparr>am_Name = ''ccipReceive'', am_Inputs = [(''message'', STuple [(''messageId'', SFixed 32),
        (''sourceChainSelector'', SUint 64), (''sender'', SBytes), (''data'', SBytes),
        (''destTokenAmounts'', SArray (STuple [(''token'', SAddress),
        (''amount'', SUint 256)]))])], am_Outputs = []\<rparr>,
      \<lparr>am_Name = ''changeDefaultAdminDelay'', am_Inputs = [(''newDelay'', SUint 48)], am_Outputs = []\<rparr>,
      \<lparr>am_Name = ''claimAsset'', am_Inputs = [(''epochNonce'', SUint 256)], am_Outputs = [(''withdrawAmount'',
        SUint 256)]\<rparr>,
      \<lparr>am_Name = ''claimAssetFor'', am_Inputs = [(''user'', SAddress),
        (''epochNonce'', SUint 256)], am_Outputs = [(''withdrawAmount'', SUint 256)]\<rparr>,
      \<lparr>am_Name = ''claimShares'', am_Inputs = [(''epochNonce'', SUint 256)], am_Outputs = [(''shareMintAmount'',
        SUint 256)]\<rparr>,
      \<lparr>am_Name = ''claimSharesFor'', am_Inputs = [(''user'', SAddress),
        (''epochNonce'', SUint 256)], am_Outputs = [(''shareMintAmount'', SUint 256)]\<rparr>,
      \<lparr>am_Name = ''closeEpoch'', am_Inputs = [(''expectedEpochNonce'', SUint 256),
        (''tvl'', SUint 256)], am_Outputs = []\<rparr>,
      \<lparr>am_Name = ''completeEpochDeposit'', am_Inputs = [(''expectedEpochNonce'', SUint 256),
        (''actualDepositAmount'', SUint 256)], am_Outputs = []\<rparr>,
      \<lparr>am_Name = ''completeRebalance'', am_Inputs = [(''expectedRebalanceNonce'', SUint 256)],
        am_Outputs = []\<rparr>,
      \<lparr>am_Name = ''defaultAdmin'', am_Inputs = [], am_Outputs = [('''', SAddress)]\<rparr>,
      \<lparr>am_Name = ''defaultAdminDelay'', am_Inputs = [], am_Outputs = [('''', SUint 48)]\<rparr>,
      \<lparr>am_Name = ''defaultAdminDelayIncreaseWait'', am_Inputs = [], am_Outputs = [('''', SUint 48)]\<rparr>,
      \<lparr>am_Name = ''deposit'', am_Inputs = [(''amount'', SUint 256)], am_Outputs = [(''epochNonce'',
        SUint 256)]\<rparr>,
      \<lparr>am_Name = ''depositFor'', am_Inputs = [(''beneficiary'', SAddress),
        (''amount'', SUint 256)], am_Outputs = [(''epochNonce'', SUint 256)]\<rparr>,
      \<lparr>am_Name = ''executeRecovery'', am_Inputs = [], am_Outputs = []\<rparr>,
      \<lparr>am_Name = ''forceCancelDeposit'', am_Inputs = [(''user'', SAddress)], am_Outputs = []\<rparr>,
      \<lparr>am_Name = ''getActiveProtocolAdapter'', am_Inputs = [], am_Outputs = [(''activeProtocolAdapter'',
        SAddress)]\<rparr>,
      \<lparr>am_Name = ''getAdapterRegistry'', am_Inputs = [], am_Outputs = [(''adapterRegistry'', SAddress)]\<rparr>,
      \<lparr>am_Name = ''getAllowlistEnabled'', am_Inputs = [], am_Outputs = [(''allowlistEnabled'', SBool)]\<rparr>,
      \<lparr>am_Name = ''getAllowlistedUser'', am_Inputs = [(''user'', SAddress)], am_Outputs = [(''allowlisted'',
        SBool)]\<rparr>,
      \<lparr>am_Name = ''getAsset'', am_Inputs = [], am_Outputs = [(''asset'', SAddress)]\<rparr>,
      \<lparr>am_Name = ''getAssetPrecision'', am_Inputs = [], am_Outputs = [(''assetPrecision'', SUint 256)]\<rparr>,
      \<lparr>am_Name = ''getCCVsAndFinalityConfig'', am_Inputs = [('''', SUint 64),
        ('''', SBytes)], am_Outputs = [(''requiredCCVs'', SArray SAddress), (''optionalCCVs'', SArray SAddress),
        (''optionalThreshold'', SUint 8), (''allowedFinalityConfig'', SFixed 4)]\<rparr>,
      \<lparr>am_Name = ''getCcipGasLimit'', am_Inputs = [(''chainSelector'', SUint 64)], am_Outputs = [(''gasLimit'',
        SUint 256)]\<rparr>,
      \<lparr>am_Name = ''getCrosschainVault'', am_Inputs = [(''chainSelector'', SUint 64)], am_Outputs = [(''vault'',
        SAddress)]\<rparr>,
      \<lparr>am_Name = ''getDefaultCcipGasLimit'', am_Inputs = [], am_Outputs = [(''defaultCcipGasLimit'',
        SUint 256)]\<rparr>,
      \<lparr>am_Name = ''getDepositAmount'', am_Inputs = [(''user'', SAddress),
        (''epochNonce'', SUint 256)], am_Outputs = [(''amount'', SUint 256)]\<rparr>,
      \<lparr>am_Name = ''getEpoch'', am_Inputs = [(''epochNonce'', SUint 256)], am_Outputs = [(''epoch'',
        STuple [(''totalDepositAmount'', SUint 256), (''totalShareBurnAmount'', SUint 256),
        (''totalWithdrawClaimAmount'', SUint 256), (''remainingDepositClaimAmount'', SUint 256),
        (''remainingShareMintAmount'', SUint 256), (''remainingShareBurnAmount'', SUint 256),
        (''remainingWithdrawClaimAmount'', SUint 256), (''openedAtTimestamp'', SUint 256),
        (''status'', SUint 8)])]\<rparr>,
      \<lparr>am_Name = ''getEpochNonce'', am_Inputs = [], am_Outputs = [(''epochNonce'', SUint 256)]\<rparr>,
      \<lparr>am_Name = ''getInitialActiveProtocolAdapterSet'', am_Inputs = [],
        am_Outputs = [(''initialActiveProtocolAdapterSet'', SBool)]\<rparr>,
      \<lparr>am_Name = ''getLink'', am_Inputs = [], am_Outputs = [(''link'', SAddress)]\<rparr>,
      \<lparr>am_Name = ''getMinAssetAmount'', am_Inputs = [], am_Outputs = [(''minAssetAmount'', SUint 256)]\<rparr>,
      \<lparr>am_Name = ''getParentOperationalState'', am_Inputs = [], am_Outputs = [(''state'', STuple [(''paused'',
        SBool), (''recoveryMode'', SUint 8), (''currentEpochNonce'', SUint 256),
        (''currentEpoch'', STuple [(''totalDepositAmount'', SUint 256), (''totalShareBurnAmount'', SUint 256),
        (''totalWithdrawClaimAmount'', SUint 256), (''remainingDepositClaimAmount'', SUint 256),
        (''remainingShareMintAmount'', SUint 256), (''remainingShareBurnAmount'', SUint 256),
        (''remainingWithdrawClaimAmount'', SUint 256), (''openedAtTimestamp'', SUint 256),
        (''status'', SUint 8)]), (''previousEpoch'', STuple [(''totalDepositAmount'', SUint 256),
        (''totalShareBurnAmount'', SUint 256), (''totalWithdrawClaimAmount'', SUint 256),
        (''remainingDepositClaimAmount'', SUint 256), (''remainingShareMintAmount'', SUint 256),
        (''remainingShareBurnAmount'', SUint 256), (''remainingWithdrawClaimAmount'', SUint 256),
        (''openedAtTimestamp'', SUint 256), (''status'', SUint 8)]),
        (''rebalance'', STuple [(''nonce'', SUint 256), (''state'', SUint 8),
        (''activeStrategy'', STuple [(''protocolId'', SFixed 32), (''chainSelector'', SUint 64)]),
        (''pendingStrategy'', STuple [(''protocolId'', SFixed 32), (''chainSelector'', SUint 64)]),
        (''lastRebalanceCompletedTimestamp'', SUint 256)]), (''totalShares'', SUint 256),
        (''tvl'', SUint 256)])]\<rparr>,
      \<lparr>am_Name = ''getRebalance'', am_Inputs = [], am_Outputs = [(''rebalance'', STuple [(''nonce'', SUint 256),
        (''state'', SUint 8), (''activeStrategy'', STuple [(''protocolId'', SFixed 32),
        (''chainSelector'', SUint 64)]), (''pendingStrategy'', STuple [(''protocolId'', SFixed 32),
        (''chainSelector'', SUint 64)]), (''lastRebalanceCompletedTimestamp'', SUint 256)])]\<rparr>,
      \<lparr>am_Name = ''getRebalanceDepositRecovery'', am_Inputs = [], am_Outputs = [(''recovery'',
        STuple [(''rebalanceNonce'', SUint 256), (''amount'', SUint 256)])]\<rparr>,
      \<lparr>am_Name = ''getRecoveryMode'', am_Inputs = [], am_Outputs = [(''recoveryMode'', SUint 8)]\<rparr>,
      \<lparr>am_Name = ''getRoleAdmin'', am_Inputs = [(''role'', SFixed 32)], am_Outputs = [('''', SFixed 32)]\<rparr>,
      \<lparr>am_Name = ''getRouter'', am_Inputs = [], am_Outputs = [('''', SAddress)]\<rparr>,
      \<lparr>am_Name = ''getShare'', am_Inputs = [], am_Outputs = [(''share'', SAddress)]\<rparr>,
      \<lparr>am_Name = ''getSharePrecision'', am_Inputs = [], am_Outputs = [(''sharePrecision'', SUint 256)]\<rparr>,
      \<lparr>am_Name = ''getSupportedProtocol'', am_Inputs = [(''protocolId'', SFixed 32)],
        am_Outputs = [(''isSupported'', SBool)]\<rparr>,
      \<lparr>am_Name = ''getTVL'', am_Inputs = [], am_Outputs = [(''tvl'', SUint 256)]\<rparr>,
      \<lparr>am_Name = ''getThisChainSelector'', am_Inputs = [], am_Outputs = [(''thisChainSelector'', SUint 64)]\<rparr>,
      \<lparr>am_Name = ''getTotalShares'', am_Inputs = [], am_Outputs = [(''totalShares'', SUint 256)]\<rparr>,
      \<lparr>am_Name = ''getTreasury'', am_Inputs = [], am_Outputs = [(''treasury'', SAddress)]\<rparr>,
      \<lparr>am_Name = ''getWithdrawShareBurnAmount'', am_Inputs = [(''user'', SAddress),
        (''epochNonce'', SUint 256)], am_Outputs = [(''shareBurnAmount'', SUint 256)]\<rparr>,
      \<lparr>am_Name = ''grantRole'', am_Inputs = [(''role'', SFixed 32),
        (''account'', SAddress)], am_Outputs = []\<rparr>,
      \<lparr>am_Name = ''hasRole'', am_Inputs = [(''role'', SFixed 32),
        (''account'', SAddress)], am_Outputs = [('''', SBool)]\<rparr>,
      \<lparr>am_Name = ''initialize'', am_Inputs = [(''params'', STuple [(''defaultAdmin'', SAddress),
        (''pauser'', SAddress), (''unpauser'', SAddress), (''configOperator'', SAddress),
        (''initialDefaultCcipGasLimit'', SUint 256), (''upgrader'', SAddress)]), (''treasury'', SAddress),
        (''cancelDepositOperator'', SAddress), (''allowlistOperator'', SAddress),
        (''allowlistEnabled'', SBool)], am_Outputs = []\<rparr>,
      \<lparr>am_Name = ''initiateRebalance'', am_Inputs = [(''expectedRebalanceNonce'', SUint 256),
        (''newStrategy'', STuple [(''protocolId'', SFixed 32),
        (''chainSelector'', SUint 64)])], am_Outputs = []\<rparr>,
      \<lparr>am_Name = ''owner'', am_Inputs = [], am_Outputs = [('''', SAddress)]\<rparr>,
      \<lparr>am_Name = ''pause'', am_Inputs = [], am_Outputs = []\<rparr>,
      \<lparr>am_Name = ''paused'', am_Inputs = [], am_Outputs = [('''', SBool)]\<rparr>,
      \<lparr>am_Name = ''pendingDefaultAdmin'', am_Inputs = [], am_Outputs = [(''newAdmin'', SAddress),
        (''schedule'', SUint 48)]\<rparr>,
      \<lparr>am_Name = ''pendingDefaultAdminDelay'', am_Inputs = [], am_Outputs = [(''newDelay'', SUint 48),
        (''schedule'', SUint 48)]\<rparr>,
      \<lparr>am_Name = ''proxiableUUID'', am_Inputs = [], am_Outputs = [('''', SFixed 32)]\<rparr>,
      \<lparr>am_Name = ''renounceRole'', am_Inputs = [(''role'', SFixed 32),
        (''account'', SAddress)], am_Outputs = []\<rparr>,
      \<lparr>am_Name = ''revokeRole'', am_Inputs = [(''role'', SFixed 32),
        (''account'', SAddress)], am_Outputs = []\<rparr>,
      \<lparr>am_Name = ''rollbackDefaultAdminDelay'', am_Inputs = [], am_Outputs = []\<rparr>,
      \<lparr>am_Name = ''setAllowlistEnabled'', am_Inputs = [(''enabled'', SBool)], am_Outputs = []\<rparr>,
      \<lparr>am_Name = ''setAllowlistedUsers'', am_Inputs = [(''users'', SArray SAddress),
        (''allowed'', SBool)], am_Outputs = []\<rparr>,
      \<lparr>am_Name = ''setCcipGasLimit'', am_Inputs = [(''chainSelector'', SUint 64),
        (''gasLimit'', SUint 256)], am_Outputs = []\<rparr>,
      \<lparr>am_Name = ''setCrosschainVaults'', am_Inputs = [(''chainSelectors'', SArray (SUint 64)),
        (''vaults'', SArray SAddress)], am_Outputs = []\<rparr>,
      \<lparr>am_Name = ''setDefaultCcipGasLimit'', am_Inputs = [(''gasLimit'', SUint 256)], am_Outputs = []\<rparr>,
      \<lparr>am_Name = ''setInitialActiveProtocolAdapter'', am_Inputs = [(''protocolId'', SFixed 32)],
        am_Outputs = []\<rparr>,
      \<lparr>am_Name = ''setSupportedProtocol'', am_Inputs = [(''protocolId'', SFixed 32),
        (''isSupported'', SBool)], am_Outputs = []\<rparr>,
      \<lparr>am_Name = ''setTreasury'', am_Inputs = [(''treasury'', SAddress)], am_Outputs = []\<rparr>,
      \<lparr>am_Name = ''supportsInterface'', am_Inputs = [(''interfaceId'', SFixed 4)], am_Outputs = [(''isSupported'',
        SBool)]\<rparr>,
      \<lparr>am_Name = ''tryDepositToAdapter'', am_Inputs = [(''adapter'', SAddress),
        (''amount'', SUint 256)], am_Outputs = []\<rparr>,
      \<lparr>am_Name = ''unpause'', am_Inputs = [], am_Outputs = []\<rparr>,
      \<lparr>am_Name = ''upgradeToAndCall'', am_Inputs = [(''newImplementation'', SAddress),
        (''data'', SBytes)], am_Outputs = []\<rparr>,
      \<lparr>am_Name = ''withdraw'', am_Inputs = [(''shareBurnAmount'', SUint 256)], am_Outputs = [(''epochNonce'',
        SUint 256)]\<rparr>,
      \<lparr>am_Name = ''withdrawFor'', am_Inputs = [(''beneficiary'', SAddress),
        (''shareBurnAmount'', SUint 256)], am_Outputs = [(''epochNonce'', SUint 256)]\<rparr>,
      \<lparr>am_Name = ''withdrawLink'', am_Inputs = [(''amount'', SUint 256)], am_Outputs = []\<rparr>]"

section \<open>Structs\<close>

definition BeginDefaultAdminTransferInput :: "struct_type" where
  "BeginDefaultAdminTransferInput = [(''NewAdmin'', TAddr)]"

definition ClientEVMTokenAmount :: "struct_type" where
  "ClientEVMTokenAmount = [(''Token'', TAddr), (''Amount'', TBig)]"

definition ClientAny2EVMMessage :: "struct_type" where
  "ClientAny2EVMMessage = [(''MessageId'', TFix 32), (''SourceChainSelector'', TU64), (''Sender'', TBytes),
       (''Data'', TBytes), (''DestTokenAmounts'', TList (TStruct ClientEVMTokenAmount))]"

definition CcipReceiveInput :: "struct_type" where
  "CcipReceiveInput = [(''Message'', TStruct ClientAny2EVMMessage)]"

definition ChangeDefaultAdminDelayInput :: "struct_type" where
  "ChangeDefaultAdminDelayInput = [(''NewDelay'', TBig)]"

definition ClaimAssetInput :: "struct_type" where
  "ClaimAssetInput = [(''EpochNonce'', TBig)]"

definition ClaimAssetForInput :: "struct_type" where
  "ClaimAssetForInput = [(''User'', TAddr), (''EpochNonce'', TBig)]"

definition ClaimSharesInput :: "struct_type" where
  "ClaimSharesInput = [(''EpochNonce'', TBig)]"

definition ClaimSharesForInput :: "struct_type" where
  "ClaimSharesForInput = [(''User'', TAddr), (''EpochNonce'', TBig)]"

definition DepositInput :: "struct_type" where
  "DepositInput = [(''Amount'', TBig)]"

definition DepositForInput :: "struct_type" where
  "DepositForInput = [(''Beneficiary'', TAddr), (''Amount'', TBig)]"

definition ForceCancelDepositInput :: "struct_type" where
  "ForceCancelDepositInput = [(''User'', TAddr)]"

definition GetAllowlistedUserInput :: "struct_type" where
  "GetAllowlistedUserInput = [(''User'', TAddr)]"

definition GetCCVsAndFinalityConfigInput :: "struct_type" where
  "GetCCVsAndFinalityConfigInput = [(''Arg0'', TU64), (''Arg1'', TBytes)]"

definition GetCcipGasLimitInput :: "struct_type" where
  "GetCcipGasLimitInput = [(''ChainSelector'', TU64)]"

definition GetCrosschainVaultInput :: "struct_type" where
  "GetCrosschainVaultInput = [(''ChainSelector'', TU64)]"

definition GetDepositAmountInput :: "struct_type" where
  "GetDepositAmountInput = [(''User'', TAddr), (''EpochNonce'', TBig)]"

definition GetEpochInput :: "struct_type" where
  "GetEpochInput = [(''EpochNonce'', TBig)]"

definition GetRoleAdminInput :: "struct_type" where
  "GetRoleAdminInput = [(''Role'', TFix 32)]"

definition GetSupportedProtocolInput :: "struct_type" where
  "GetSupportedProtocolInput = [(''ProtocolId'', TFix 32)]"

definition GetWithdrawShareBurnAmountInput :: "struct_type" where
  "GetWithdrawShareBurnAmountInput = [(''User'', TAddr), (''EpochNonce'', TBig)]"

definition GrantRoleInput :: "struct_type" where
  "GrantRoleInput = [(''Role'', TFix 32), (''Account'', TAddr)]"

definition HasRoleInput :: "struct_type" where
  "HasRoleInput = [(''Role'', TFix 32), (''Account'', TAddr)]"

definition BaseVaultInitParams :: "struct_type" where
  "BaseVaultInitParams = [(''DefaultAdmin'', TAddr), (''Pauser'', TAddr), (''Unpauser'', TAddr),
       (''ConfigOperator'', TAddr), (''InitialDefaultCcipGasLimit'', TBig), (''Upgrader'', TAddr)]"

definition InitializeInput :: "struct_type" where
  "InitializeInput = [(''Params'', TStruct BaseVaultInitParams), (''Treasury'', TAddr),
       (''CancelDepositOperator'', TAddr), (''AllowlistOperator'', TAddr), (''AllowlistEnabled'', TBool)]"

definition RenounceRoleInput :: "struct_type" where
  "RenounceRoleInput = [(''Role'', TFix 32), (''Account'', TAddr)]"

definition RevokeRoleInput :: "struct_type" where
  "RevokeRoleInput = [(''Role'', TFix 32), (''Account'', TAddr)]"

definition SetAllowlistEnabledInput :: "struct_type" where
  "SetAllowlistEnabledInput = [(''Enabled'', TBool)]"

definition SetAllowlistedUsersInput :: "struct_type" where
  "SetAllowlistedUsersInput = [(''Users'', TList TAddr), (''Allowed'', TBool)]"

definition SetCcipGasLimitInput :: "struct_type" where
  "SetCcipGasLimitInput = [(''ChainSelector'', TU64), (''GasLimit'', TBig)]"

definition SetCrosschainVaultsInput :: "struct_type" where
  "SetCrosschainVaultsInput = [(''ChainSelectors'', TList TU64), (''Vaults'', TList TAddr)]"

definition SetDefaultCcipGasLimitInput :: "struct_type" where
  "SetDefaultCcipGasLimitInput = [(''GasLimit'', TBig)]"

definition SetInitialActiveProtocolAdapterInput :: "struct_type" where
  "SetInitialActiveProtocolAdapterInput = [(''ProtocolId'', TFix 32)]"

definition SetSupportedProtocolInput :: "struct_type" where
  "SetSupportedProtocolInput = [(''ProtocolId'', TFix 32), (''IsSupported'', TBool)]"

definition SetTreasuryInput :: "struct_type" where
  "SetTreasuryInput = [(''Treasury'', TAddr)]"

definition SupportsInterfaceInput :: "struct_type" where
  "SupportsInterfaceInput = [(''InterfaceId'', TFix 4)]"

definition TryDepositToAdapterInput :: "struct_type" where
  "TryDepositToAdapterInput = [(''Adapter'', TAddr), (''Amount'', TBig)]"

definition UpgradeToAndCallInput :: "struct_type" where
  "UpgradeToAndCallInput = [(''NewImplementation'', TAddr), (''Data'', TBytes)]"

definition WithdrawInput :: "struct_type" where
  "WithdrawInput = [(''ShareBurnAmount'', TBig)]"

definition WithdrawForInput :: "struct_type" where
  "WithdrawForInput = [(''Beneficiary'', TAddr), (''ShareBurnAmount'', TBig)]"

definition WithdrawLinkInput :: "struct_type" where
  "WithdrawLinkInput = [(''Amount'', TBig)]"

definition TypesRebalanceDepositRecovery :: "struct_type" where
  "TypesRebalanceDepositRecovery = [(''RebalanceNonce'', TBig), (''Amount'', TBig)]"

definition BaseVaultConstructorParams :: "struct_type" where
  "BaseVaultConstructorParams = [(''Link'', TAddr), (''Asset'', TAddr), (''CcipRouter'', TAddr),
       (''AdapterRegistry'', TAddr), (''ThisChainSelector'', TU64)]"

section \<open>Call encoders\<close>

definition EncodeDEFAULTADMINROLEMethodCall :: "codec \<Rightarrow> byte list outcome" where
  "EncodeDEFAULTADMINROLEMethodCall c = abi_Pack (codec_abi c) ''DEFAULT_ADMIN_ROLE'' []"

definition EncodeUPGRADEINTERFACEVERSIONMethodCall :: "codec \<Rightarrow> byte list outcome" where
  "EncodeUPGRADEINTERFACEVERSIONMethodCall c = abi_Pack (codec_abi c) ''UPGRADE_INTERFACE_VERSION'' []"

definition EncodeAcceptDefaultAdminTransferMethodCall :: "codec \<Rightarrow> byte list outcome" where
  "EncodeAcceptDefaultAdminTransferMethodCall c = abi_Pack (codec_abi c) ''acceptDefaultAdminTransfer'' []"

definition EncodeBeginDefaultAdminTransferMethodCall :: "codec \<Rightarrow> gstruct \<Rightarrow> byte list outcome" where
  "EncodeBeginDefaultAdminTransferMethodCall c inp =
     abi_Pack (codec_abi c) ''beginDefaultAdminTransfer'' [fld inp ''NewAdmin'']"

definition EncodeCancelDefaultAdminTransferMethodCall :: "codec \<Rightarrow> byte list outcome" where
  "EncodeCancelDefaultAdminTransferMethodCall c = abi_Pack (codec_abi c) ''cancelDefaultAdminTransfer'' []"

definition EncodeCancelDepositMethodCall :: "codec \<Rightarrow> byte list outcome" where
  "EncodeCancelDepositMethodCall c = abi_Pack (codec_abi c) ''cancelDeposit'' []"

definition EncodeCancelWithdrawMethodCall :: "codec \<Rightarrow> byte list outcome" where
  "EncodeCancelWithdrawMethodCall c = abi_Pack (codec_abi c) ''cancelWithdraw'' []"

definition EncodeCcipReceiveMethodCall :: "codec \<Rightarrow> gstruct \<Rightarrow> byte list outcome" where
  "EncodeCcipReceiveMethodCall c inp =
     abi_Pack (codec_abi c) ''ccipReceive'' [fld inp ''Message'']"

definition EncodeChangeDefaultAdminDelayMethodCall :: "codec \<Rightarrow> gstruct \<Rightarrow> byte list outcome" where
  "EncodeChangeDefaultAdminDelayMethodCall c inp =
     abi_Pack (codec_abi c) ''changeDefaultAdminDelay'' [fld inp ''NewDelay'']"

definition EncodeClaimAssetMethodCall :: "codec \<Rightarrow> gstruct \<Rightarrow> byte list outcome" where
  "EncodeClaimAssetMethodCall c inp =
     abi_Pack (codec_abi c) ''claimAsset'' [fld inp ''EpochNonce'']"

definition EncodeClaimAssetForMethodCall :: "codec \<Rightarrow> gstruct \<Rightarrow> byte list outcome" where
  "EncodeClaimAssetForMethodCall c inp =
     abi_Pack (codec_abi c) ''claimAssetFor'' [fld inp ''User'', fld inp ''EpochNonce'']"

definition EncodeClaimSharesMethodCall :: "codec \<Rightarrow> gstruct \<Rightarrow> byte list outcome" where
  "EncodeClaimSharesMethodCall c inp =
     abi_Pack (codec_abi c) ''claimShares'' [fld inp ''EpochNonce'']"

definition EncodeClaimSharesForMethodCall :: "codec \<Rightarrow> gstruct \<Rightarrow> byte list outcome" where
  "EncodeClaimSharesForMethodCall c inp =
     abi_Pack (codec_abi c) ''claimSharesFor'' [fld inp ''User'', fld inp ''EpochNonce'']"

definition EncodeDefaultAdminMethodCall :: "codec \<Rightarrow> byte list outcome" where
  "EncodeDefaultAdminMethodCall c = abi_Pack (codec_abi c) ''defaultAdmin'' []"

definition EncodeDefaultAdminDelayMethodCall :: "codec \<Rightarrow> byte list outcome" where
  "EncodeDefaultAdminDelayMethodCall c = abi_Pack (codec_abi c) ''defaultAdminDelay'' []"

definition EncodeDefaultAdminDelayIncreaseWaitMethodCall :: "codec \<Rightarrow> byte list outcome" where
  "EncodeDefaultAdminDelayIncreaseWaitMethodCall c = abi_Pack (codec_abi c) ''defaultAdminDelayIncreaseWait'' []"

definition EncodeDepositMethodCall :: "codec \<Rightarrow> gstruct \<Rightarrow> byte list outcome" where
  "EncodeDepositMethodCall c inp =
     abi_Pack (codec_abi c) ''deposit'' [fld inp ''Amount'']"

definition EncodeDepositForMethodCall :: "codec \<Rightarrow> gstruct \<Rightarrow> byte list outcome" where
  "EncodeDepositForMethodCall c inp =
     abi_Pack (codec_abi c) ''depositFor'' [fld inp ''Beneficiary'', fld inp ''Amount'']"

definition EncodeExecuteRecoveryMethodCall :: "codec \<Rightarrow> byte list outcome" where
  "EncodeExecuteRecoveryMethodCall c = abi_Pack (codec_abi c) ''executeRecovery'' []"

definition EncodeForceCancelDepositMethodCall :: "codec \<Rightarrow> gstruct \<Rightarrow> byte list outcome" where
  "EncodeForceCancelDepositMethodCall c inp =
     abi_Pack (codec_abi c) ''forceCancelDeposit'' [fld inp ''User'']"

definition EncodeGetActiveProtocolAdapterMethodCall :: "codec \<Rightarrow> byte list outcome" where
  "EncodeGetActiveProtocolAdapterMethodCall c = abi_Pack (codec_abi c) ''getActiveProtocolAdapter'' []"

definition EncodeGetAdapterRegistryMethodCall :: "codec \<Rightarrow> byte list outcome" where
  "EncodeGetAdapterRegistryMethodCall c = abi_Pack (codec_abi c) ''getAdapterRegistry'' []"

definition EncodeGetAllowlistEnabledMethodCall :: "codec \<Rightarrow> byte list outcome" where
  "EncodeGetAllowlistEnabledMethodCall c = abi_Pack (codec_abi c) ''getAllowlistEnabled'' []"

definition EncodeGetAllowlistedUserMethodCall :: "codec \<Rightarrow> gstruct \<Rightarrow> byte list outcome" where
  "EncodeGetAllowlistedUserMethodCall c inp =
     abi_Pack (codec_abi c) ''getAllowlistedUser'' [fld inp ''User'']"

definition EncodeGetAssetMethodCall :: "codec \<Rightarrow> byte list outcome" where
  "EncodeGetAssetMethodCall c = abi_Pack (codec_abi c) ''getAsset'' []"

definition EncodeGetAssetPrecisionMethodCall :: "codec \<Rightarrow> byte list outcome" where
  "EncodeGetAssetPrecisionMethodCall c = abi_Pack (codec_abi c) ''getAssetPrecision'' []"

definition EncodeGetCCVsAndFinalityConfigMethodCall :: "codec \<Rightarrow> gstruct \<Rightarrow> byte list outcome" where
  "EncodeGetCCVsAndFinalityConfigMethodCall c inp =
     abi_Pack (codec_abi c) ''getCCVsAndFinalityConfig'' [fld inp ''Arg0'', fld inp ''Arg1'']"

definition EncodeGetCcipGasLimitMethodCall :: "codec \<Rightarrow> gstruct \<Rightarrow> byte list outcome" where
  "EncodeGetCcipGasLimitMethodCall c inp =
     abi_Pack (codec_abi c) ''getCcipGasLimit'' [fld inp ''ChainSelector'']"

definition EncodeGetCrosschainVaultMethodCall :: "codec \<Rightarrow> gstruct \<Rightarrow> byte list outcome" where
  "EncodeGetCrosschainVaultMethodCall c inp =
     abi_Pack (codec_abi c) ''getCrosschainVault'' [fld inp ''ChainSelector'']"

definition EncodeGetDefaultCcipGasLimitMethodCall :: "codec \<Rightarrow> byte list outcome" where
  "EncodeGetDefaultCcipGasLimitMethodCall c = abi_Pack (codec_abi c) ''getDefaultCcipGasLimit'' []"

definition EncodeGetDepositAmountMethodCall :: "codec \<Rightarrow> gstruct \<Rightarrow> byte list outcome" where
  "EncodeGetDepositAmountMethodCall c inp =
     abi_Pack (codec_abi c) ''getDepositAmount'' [fld inp ''User'', fld inp ''EpochNonce'']"

definition EncodeGetEpochMethodCall :: "codec \<Rightarrow> gstruct \<Rightarrow> byte list outcome" where
  "EncodeGetEpochMethodCall c inp =
     abi_Pack (codec_abi c) ''getEpoch'' [fld inp ''EpochNonce'']"

definition EncodeGetEpochNonceMethodCall :: "codec \<Rightarrow> byte list outcome" where
  "EncodeGetEpochNonceMethodCall c = abi_Pack (codec_abi c) ''getEpochNonce'' []"

definition EncodeGetInitialActiveProtocolAdapterSetMethodCall :: "codec \<Rightarrow> byte list outcome" where
  "EncodeGetInitialActiveProtocolAdapterSetMethodCall c = abi_Pack (codec_abi c) ''getInitialActiveProtocolAdapterSet'' []"

definition EncodeGetLinkMethodCall :: "codec \<Rightarrow> byte list outcome" where
  "EncodeGetLinkMethodCall c = abi_Pack (codec_abi c) ''getLink'' []"

definition EncodeGetMinAssetAmountMethodCall :: "codec \<Rightarrow> byte list outcome" where
  "EncodeGetMinAssetAmountMethodCall c = abi_Pack (codec_abi c) ''getMinAssetAmount'' []"

definition EncodeGetRebalanceMethodCall :: "codec \<Rightarrow> byte list outcome" where
  "EncodeGetRebalanceMethodCall c = abi_Pack (codec_abi c) ''getRebalance'' []"

definition EncodeGetRebalanceDepositRecoveryMethodCall :: "codec \<Rightarrow> byte list outcome" where
  "EncodeGetRebalanceDepositRecoveryMethodCall c = abi_Pack (codec_abi c) ''getRebalanceDepositRecovery'' []"

definition EncodeGetRecoveryModeMethodCall :: "codec \<Rightarrow> byte list outcome" where
  "EncodeGetRecoveryModeMethodCall c = abi_Pack (codec_abi c) ''getRecoveryMode'' []"

definition EncodeGetRoleAdminMethodCall :: "codec \<Rightarrow> gstruct \<Rightarrow> byte list outcome" where
  "EncodeGetRoleAdminMethodCall c inp =
     abi_Pack (codec_abi c) ''getRoleAdmin'' [fld inp ''Role'']"

definition EncodeGetRouterMethodCall :: "codec \<Rightarrow> byte list outcome" where
  "EncodeGetRouterMethodCall c = abi_Pack (codec_abi c) ''getRouter'' []"

definition EncodeGetShareMethodCall :: "codec \<Rightarrow> byte list outcome" where
  "EncodeGetShareMethodCall c = abi_Pack (codec_abi c) ''getShare'' []"

definition EncodeGetSharePrecisionMethodCall :: "codec \<Rightarrow> byte list outcome" where
  "EncodeGetSharePrecisionMethodCall c = abi_Pack (codec_abi c) ''getSharePrecision'' []"

definition EncodeGetSupportedProtocolMethodCall :: "codec \<Rightarrow> gstruct \<Rightarrow> byte list outcome" where
  "EncodeGetSupportedProtocolMethodCall c inp =
     abi_Pack (codec_abi c) ''getSupportedProtocol'' [fld inp ''ProtocolId'']"

definition EncodeGetTVLMethodCall :: "codec \<Rightarrow> byte list outcome" where
  "EncodeGetTVLMethodCall c = abi_Pack (codec_abi c) ''getTVL'' []"

definition EncodeGetThisChainSelectorMethodCall :: "codec \<Rightarrow> byte list outcome" where
  "EncodeGetThisChainSelectorMethodCall c = abi_Pack (codec_abi c) ''getThisChainSelector'' []"

definition EncodeGetTotalSharesMethodCall :: "codec \<Rightarrow> byte list outcome" where
  "EncodeGetTotalSharesMethodCall c = abi_Pack (codec_abi c) ''getTotalShares'' []"

definition EncodeGetTreasuryMethodCall :: "codec \<Rightarrow> byte list outcome" where
  "EncodeGetTreasuryMethodCall c = abi_Pack (codec_abi c) ''getTreasury'' []"

definition EncodeGetWithdrawShareBurnAmountMethodCall :: "codec \<Rightarrow> gstruct \<Rightarrow> byte list outcome" where
  "EncodeGetWithdrawShareBurnAmountMethodCall c inp =
     abi_Pack (codec_abi c) ''getWithdrawShareBurnAmount'' [fld inp ''User'', fld inp ''EpochNonce'']"

definition EncodeGrantRoleMethodCall :: "codec \<Rightarrow> gstruct \<Rightarrow> byte list outcome" where
  "EncodeGrantRoleMethodCall c inp =
     abi_Pack (codec_abi c) ''grantRole'' [fld inp ''Role'', fld inp ''Account'']"

definition EncodeHasRoleMethodCall :: "codec \<Rightarrow> gstruct \<Rightarrow> byte list outcome" where
  "EncodeHasRoleMethodCall c inp =
     abi_Pack (codec_abi c) ''hasRole'' [fld inp ''Role'', fld inp ''Account'']"

definition EncodeInitializeMethodCall :: "codec \<Rightarrow> gstruct \<Rightarrow> byte list outcome" where
  "EncodeInitializeMethodCall c inp =
     abi_Pack (codec_abi c) ''initialize'' [fld inp ''Params'', fld inp ''Treasury'',
       fld inp ''CancelDepositOperator'', fld inp ''AllowlistOperator'', fld inp ''AllowlistEnabled'']"

definition EncodeOwnerMethodCall :: "codec \<Rightarrow> byte list outcome" where
  "EncodeOwnerMethodCall c = abi_Pack (codec_abi c) ''owner'' []"

definition EncodePauseMethodCall :: "codec \<Rightarrow> byte list outcome" where
  "EncodePauseMethodCall c = abi_Pack (codec_abi c) ''pause'' []"

definition EncodePausedMethodCall :: "codec \<Rightarrow> byte list outcome" where
  "EncodePausedMethodCall c = abi_Pack (codec_abi c) ''paused'' []"

definition EncodePendingDefaultAdminMethodCall :: "codec \<Rightarrow> byte list outcome" where
  "EncodePendingDefaultAdminMethodCall c = abi_Pack (codec_abi c) ''pendingDefaultAdmin'' []"

definition EncodePendingDefaultAdminDelayMethodCall :: "codec \<Rightarrow> byte list outcome" where
  "EncodePendingDefaultAdminDelayMethodCall c = abi_Pack (codec_abi c) ''pendingDefaultAdminDelay'' []"

definition EncodeProxiableUUIDMethodCall :: "codec \<Rightarrow> byte list outcome" where
  "EncodeProxiableUUIDMethodCall c = abi_Pack (codec_abi c) ''proxiableUUID'' []"

definition EncodeRenounceRoleMethodCall :: "codec \<Rightarrow> gstruct \<Rightarrow> byte list outcome" where
  "EncodeRenounceRoleMethodCall c inp =
     abi_Pack (codec_abi c) ''renounceRole'' [fld inp ''Role'', fld inp ''Account'']"

definition EncodeRevokeRoleMethodCall :: "codec \<Rightarrow> gstruct \<Rightarrow> byte list outcome" where
  "EncodeRevokeRoleMethodCall c inp =
     abi_Pack (codec_abi c) ''revokeRole'' [fld inp ''Role'', fld inp ''Account'']"

definition EncodeRollbackDefaultAdminDelayMethodCall :: "codec \<Rightarrow> byte list outcome" where
  "EncodeRollbackDefaultAdminDelayMethodCall c = abi_Pack (codec_abi c) ''rollbackDefaultAdminDelay'' []"

definition EncodeSetAllowlistEnabledMethodCall :: "codec \<Rightarrow> gstruct \<Rightarrow> byte list outcome" where
  "EncodeSetAllowlistEnabledMethodCall c inp =
     abi_Pack (codec_abi c) ''setAllowlistEnabled'' [fld inp ''Enabled'']"

definition EncodeSetAllowlistedUsersMethodCall :: "codec \<Rightarrow> gstruct \<Rightarrow> byte list outcome" where
  "EncodeSetAllowlistedUsersMethodCall c inp =
     abi_Pack (codec_abi c) ''setAllowlistedUsers'' [fld inp ''Users'', fld inp ''Allowed'']"

definition EncodeSetCcipGasLimitMethodCall :: "codec \<Rightarrow> gstruct \<Rightarrow> byte list outcome" where
  "EncodeSetCcipGasLimitMethodCall c inp =
     abi_Pack (codec_abi c) ''setCcipGasLimit'' [fld inp ''ChainSelector'', fld inp ''GasLimit'']"

definition EncodeSetCrosschainVaultsMethodCall :: "codec \<Rightarrow> gstruct \<Rightarrow> byte list outcome" where
  "EncodeSetCrosschainVaultsMethodCall c inp =
     abi_Pack (codec_abi c) ''setCrosschainVaults'' [fld inp ''ChainSelectors'', fld inp ''Vaults'']"

definition EncodeSetDefaultCcipGasLimitMethodCall :: "codec \<Rightarrow> gstruct \<Rightarrow> byte list outcome" where
  "EncodeSetDefaultCcipGasLimitMethodCall c inp =
     abi_Pack (codec_abi c) ''setDefaultCcipGasLimit'' [fld inp ''GasLimit'']"

definition EncodeSetInitialActiveProtocolAdapterMethodCall :: "codec \<Rightarrow> gstruct \<Rightarrow> byte list outcome" where
  "EncodeSetInitialActiveProtocolAdapterMethodCall c inp =
     abi_Pack (codec_abi c) ''setInitialActiveProtocolAdapter'' [fld inp ''ProtocolId'']"

definition EncodeSetSupportedProtocolMethodCall :: "codec \<Rightarrow> gstruct \<Rightarrow> byte list outcome" where
  "EncodeSetSupportedProtocolMethodCall c inp =
     abi_Pack (codec_abi c) ''setSupportedProtocol'' [fld inp ''ProtocolId'', fld inp ''IsSupported'']"

definition EncodeSetTreasuryMethodCall :: "codec \<Rightarrow> gstruct \<Rightarrow> byte list outcome" where
  "EncodeSetTreasuryMethodCall c inp =
     abi_Pack (codec_abi c) ''setTreasury'' [fld inp ''Treasury'']"

definition EncodeSupportsInterfaceMethodCall :: "codec \<Rightarrow> gstruct \<Rightarrow> byte list outcome" where
  "EncodeSupportsInterfaceMethodCall c inp =
     abi_Pack (codec_abi c) ''supportsInterface'' [fld inp ''InterfaceId'']"

definition EncodeTryDepositToAdapterMethodCall :: "codec \<Rightarrow> gstruct \<Rightarrow> byte list outcome" where
  "EncodeTryDepositToAdapterMethodCall c inp =
     abi_Pack (codec_abi c) ''tryDepositToAdapter'' [fld inp ''Adapter'', fld inp ''Amount'']"

definition EncodeUnpauseMethodCall :: "codec \<Rightarrow> byte list outcome" where
  "EncodeUnpauseMethodCall c = abi_Pack (codec_abi c) ''unpause'' []"

definition EncodeUpgradeToAndCallMethodCall :: "codec \<Rightarrow> gstruct \<Rightarrow> byte list outcome" where
  "EncodeUpgradeToAndCallMethodCall c inp =
     abi_Pack (codec_abi c) ''upgradeToAndCall'' [fld inp ''NewImplementation'', fld inp ''Data'']"

definition EncodeWithdrawMethodCall :: "codec \<Rightarrow> gstruct \<Rightarrow> byte list outcome" where
  "EncodeWithdrawMethodCall c inp =
     abi_Pack (codec_abi c) ''withdraw'' [fld inp ''ShareBurnAmount'']"

definition EncodeWithdrawForMethodCall :: "codec \<Rightarrow> gstruct \<Rightarrow> byte list outcome" where
  "EncodeWithdrawForMethodCall c inp =
     abi_Pack (codec_abi c) ''withdrawFor'' [fld inp ''Beneficiary'', fld inp ''ShareBurnAmount'']"

definition EncodeWithdrawLinkMethodCall :: "codec \<Rightarrow> gstruct \<Rightarrow> byte list outcome" where
  "EncodeWithdrawLinkMethodCall c inp =
     abi_Pack (codec_abi c) ''withdrawLink'' [fld inp ''Amount'']"

section \<open>Output decoders\<close>

definition DecodeDEFAULTADMINROLEMethodOutput :: "env \<Rightarrow> codec \<Rightarrow> byte list \<Rightarrow> gval outcome" where
  "DecodeDEFAULTADMINROLEMethodOutput E c =
     decode_output E c ''DEFAULT_ADMIN_ROLE'' (TFix 32) ''[32]byte''"

definition DecodeUPGRADEINTERFACEVERSIONMethodOutput :: "env \<Rightarrow> codec \<Rightarrow> byte list \<Rightarrow> gval outcome" where
  "DecodeUPGRADEINTERFACEVERSIONMethodOutput E c =
     decode_output E c ''UPGRADE_INTERFACE_VERSION'' TStr ''string''"

definition DecodeClaimAssetMethodOutput :: "env \<Rightarrow> codec \<Rightarrow> byte list \<Rightarrow> gval outcome" where
  "DecodeClaimAssetMethodOutput E c =
     decode_output E c ''claimAsset'' TBig ''*big.Int''"

definition DecodeClaimAssetForMethodOutput :: "env \<Rightarrow> codec \<Rightarrow> byte list \<Rightarrow> gval outcome" where
  "DecodeClaimAssetForMethodOutput E c =
     decode_output E c ''claimAssetFor'' TBig ''*big.Int''"

definition DecodeClaimSharesMethodOutput :: "env \<Rightarrow> codec \<Rightarrow> byte list \<Rightarrow> gval outcome" where
  "DecodeClaimSharesMethodOutput E c =
     decode_output E c ''claimShares'' TBig ''*big.Int''"

definition DecodeClaimSharesForMethodOutput :: "env \<Rightarrow> codec \<Rightarrow> byte list \<Rightarrow> gval outcome" where
  "DecodeClaimSharesForMethodOutput E c =
     decode_output E c ''claimSharesFor'' TBig ''*big.Int''"

definition DecodeDefaultAdminMethodOutput :: "env \<Rightarrow> codec \<Rightarrow> byte list \<Rightarrow> gval outcome" where
  "DecodeDefaultAdminMethodOutput E c =
     decode_output E c ''defaultAdmin'' TAddr ''common.Address''"

definition DecodeDefaultAdminDelayMethodOutput :: "env \<Rightarrow> codec \<Rightarrow> byte list \<Rightarrow> gval outcome" where
  "DecodeDefaultAdminDelayMethodOutput E c =
     decode_output E c ''defaultAdminDelay'' TBig ''*big.Int''"

definition DecodeDefaultAdminDelayIncreaseWaitMethodOutput :: "env \<Rightarrow> codec \<Rightarrow> byte list \<Rightarrow> gval outcome" where
  "DecodeDefaultAdminDelayIncreaseWaitMethodOutput E c =
     decode_output E c ''defaultAdminDelayIncreaseWait'' TBig ''*big.Int''"

definition DecodeDepositMethodOutput :: "env \<Rightarrow> codec \<Rightarrow> byte list \<Rightarrow> gval outcome" where
  "DecodeDepositMethodOutput E c =
     decode_output E c ''deposit'' TBig ''*big.Int''"

definition DecodeDepositForMethodOutput :: "env \<Rightarrow> codec \<Rightarrow> byte list \<Rightarrow> gval outcome" where
  "DecodeDepositForMethodOutput E c =
     decode_output E c ''depositFor'' TBig ''*big.Int''"

definition DecodeGetActiveProtocolAdapterMethodOutput :: "env \<Rightarrow> codec \<Rightarrow> byte list \<Rightarrow> gval outcome" where
  "DecodeGetActiveProtocolAdapterMethodOutput E c =
     decode_output E c ''getActiveProtocolAdapter'' TAddr ''common.Address''"

definition DecodeGetAdapterRegistryMethodOutput :: "env \<Rightarrow> codec \<Rightarrow> byte list \<Rightarrow> gval outcome" where
  "DecodeGetAdapterRegistryMethodOutput E c =
     decode_output E c ''getAdapterRegistry'' TAddr ''common.Address''"

definition DecodeGetAllowlistEnabledMethodOutput :: "env \<Rightarrow> codec \<Rightarrow> byte list \<Rightarrow> gval outcome" where
  "DecodeGetAllowlistEnabledMethodOutput E c =
     decode_output E c ''getAllowlistEnabled'' TBool ''bool''"

definition DecodeGetAllowlistedUserMethodOutput :: "env \<Rightarrow> codec \<Rightarrow> byte list \<Rightarrow> gval outcome" where
  "DecodeGetAllowlistedUserMethodOutput E c =
     decode_output E c ''getAllowlistedUser'' TBool ''bool''"

definition DecodeGetAssetMethodOutput :: "env \<Rightarrow> codec \<Rightarrow> byte list \<Rightarrow> gval outcome" where
  "DecodeGetAssetMethodOutput E c =
     decode_output E c ''getAsset'' TAddr ''common.Address''"

definition DecodeGetAssetPrecisionMethodOutput :: "env \<Rightarrow> codec \<Rightarrow> byte list \<Rightarrow> gval outcome" where
  "DecodeGetAssetPrecisionMethodOutput E c =
     decode_output E c ''getAssetPrecision'' TBig ''*big.Int''"

definition DecodeGetCCVsAndFinalityConfigMethodOutput :: "env \<Rightarrow> codec \<Rightarrow> byte list \<Rightarrow> gval outcome" where
  "DecodeGetCCVsAndFinalityConfigMethodOutput E c =
     decode_outputs E c ''getCCVsAndFinalityConfig''
       [(''RequiredCCVs'', TList TAddr, ''[]common.Address''),
       (''OptionalCCVs'', TList TAddr, ''[]common.Address''), (''OptionalThreshold'', TU8, ''uint8''),
       (''AllowedFinalityConfig'', TFix 4, ''[4]byte'')]"

definition DecodeGetCcipGasLimitMethodOutput :: "env \<Rightarrow> codec \<Rightarrow> byte list \<Rightarrow> gval outcome" where
  "DecodeGetCcipGasLimitMethodOutput E c =
     decode_output E c ''getCcipGasLimit'' TBig ''*big.Int''"

definition DecodeGetCrosschainVaultMethodOutput :: "env \<Rightarrow> codec \<Rightarrow> byte list \<Rightarrow> gval outcome" where
  "DecodeGetCrosschainVaultMethodOutput E c =
     decode_output E c ''getCrosschainVault'' TAddr ''common.Address''"

definition DecodeGetDefaultCcipGasLimitMethodOutput :: "env \<Rightarrow> codec \<Rightarrow> byte list \<Rightarrow> gval outcome" where
  "DecodeGetDefaultCcipGasLimitMethodOutput E c =
     decode_output E c ''getDefaultCcipGasLimit'' TBig ''*big.Int''"

definition DecodeGetDepositAmountMethodOutput :: "env \<Rightarrow> codec \<Rightarrow> byte list \<Rightarrow> gval outcome" where
  "DecodeGetDepositAmountMethodOutput E c =
     decode_output E c ''getDepositAmount'' TBig ''*big.Int''"

definition DecodeGetEpochMethodOutput :: "env \<Rightarrow> codec \<Rightarrow> byte list \<Rightarrow> gval outcome" where
  "DecodeGetEpochMethodOutput E c =
     decode_output E c ''getEpoch'' epoch_type ''TypesEpoch''"

definition DecodeGetEpochNonceMethodOutput :: "env \<Rightarrow> codec \<Rightarrow> byte list \<Rightarrow> gval outcome" where
  "DecodeGetEpochNonceMethodOutput E c =
     decode_output E c ''getEpochNonce'' TBig ''*big.Int''"

definition DecodeGetInitialActiveProtocolAdapterSetMethodOutput :: "env \<Rightarrow> codec \<Rightarrow> byte list \<Rightarrow> gval outcome" where
  "DecodeGetInitialActiveProtocolAdapterSetMethodOutput E c =
     decode_output E c ''getInitialActiveProtocolAdapterSet'' TBool ''bool''"

definition DecodeGetLinkMethodOutput :: "env \<Rightarrow> codec \<Rightarrow> byte list \<Rightarrow> gval outcome" where
  "DecodeGetLinkMethodOutput E c =
     decode_output E c ''getLink'' TAddr ''common.Address''"

definition DecodeGetMinAssetAmountMethodOutput :: "env \<Rightarrow> codec \<Rightarrow> byte list \<Rightarrow> gval outcome" where
  "DecodeGetMinAssetAmountMethodOutput E c =
     decode_output E c ''getMinAssetAmount'' TBig ''*big.Int''"

definition DecodeGetRebalanceMethodOutput :: "env \<Rightarrow> codec \<Rightarrow> byte list \<Rightarrow> gval outcome" where
  "DecodeGetRebalanceMethodOutput E c =
     decode_output E c ''getRebalance'' rebalance_type ''TypesRebalance''"

definition DecodeGetRebalanceDepositRecoveryMethodOutput :: "env \<Rightarrow> codec \<Rightarrow> byte list \<Rightarrow> gval outcome" where
  "DecodeGetRebalanceDepositRecoveryMethodOutput E c =
     decode_output E c ''getRebalanceDepositRecovery'' (TStruct TypesRebalanceDepositRecovery) ''TypesRebalanceDepositRecovery''"

definition DecodeGetRecoveryModeMethodOutput :: "env \<Rightarrow> codec \<Rightarrow> byte list \<Rightarrow> gval outcome" where
  "DecodeGetRecoveryModeMethodOutput E c =
     decode_output E c ''getRecoveryMode'' TU8 ''uint8''"

definition DecodeGetRoleAdminMethodOutput :: "env \<Rightarrow> codec \<Rightarrow> byte list \<Rightarrow> gval outcome" where
  "DecodeGetRoleAdminMethodOutput E c =
     decode_output E c ''getRoleAdmin'' (TFix 32) ''[32]byte''"

definition DecodeGetRouterMethodOutput :: "env \<Rightarrow> codec \<Rightarrow> byte list \<Rightarrow> gval outcome" where
  "DecodeGetRouterMethodOutput E c =
     decode_output E c ''getRouter'' TAddr ''common.Address''"

definition DecodeGetShareMethodOutput :: "env \<Rightarrow> codec \<Rightarrow> byte list \<Rightarrow> gval outcome" where
  "DecodeGetShareMethodOutput E c =
     decode_output E c ''getShare'' TAddr ''common.Address''"

definition DecodeGetSharePrecisionMethodOutput :: "env \<Rightarrow> codec \<Rightarrow> byte list \<Rightarrow> gval outcome" where
  "DecodeGetSharePrecisionMethodOutput E c =
     decode_output E c ''getSharePrecision'' TBig ''*big.Int''"

definition DecodeGetSupportedProtocolMethodOutput :: "env \<Rightarrow> codec \<Rightarrow> byte list \<Rightarrow> gval outcome" where
  "DecodeGetSupportedProtocolMethodOutput E c =
     decode_output E c ''getSupportedProtocol'' TBool ''bool''"

definition DecodeGetTVLMethodOutput :: "env \<Rightarrow> codec \<Rightarrow> byte list \<Rightarrow> gval outcome" where
  "DecodeGetTVLMethodOutput E c =
     decode_output E c ''getTVL'' TBig ''*big.Int''"

definition DecodeGetThisChainSelectorMethodOutput :: "env \<Rightarrow> codec \<Rightarrow> byte list \<Rightarrow> gval outcome" where
  "DecodeGetThisChainSelectorMethodOutput E c =
     decode_output E c ''getThisChainSelector'' TU64 ''uint64''"

definition DecodeGetTotalSharesMethodOutput :: "env \<Rightarrow> codec \<Rightarrow> byte list \<Rightarrow> gval outcome" where
  "DecodeGetTotalSharesMethodOutput E c =
     decode_output E c ''getTotalShares'' TBig ''*big.Int''"

definition DecodeGetTreasuryMethodOutput :: "env \<Rightarrow> codec \<Rightarrow> byte list \<Rightarrow> gval outcome" where
  "DecodeGetTreasuryMethodOutput E c =
     decode_output E c ''getTreasury'' TAddr ''common.Address''"

definition DecodeGetWithdrawShareBurnAmountMethodOutput :: "env \<Rightarrow> codec \<Rightarrow> byte list \<Rightarrow> gval outcome" where
  "DecodeGetWithdrawShareBurnAmountMethodOutput E c =
     decode_output E c ''getWithdrawShareBurnAmount'' TBig ''*big.Int''"

definition DecodeHasRoleMethodOutput :: "env \<Rightarrow> codec \<Rightarrow> byte list \<Rightarrow> gval outcome" where
  "DecodeHasRoleMethodOutput E c =
     decode_output E c ''hasRole'' TBool ''bool''"

definition DecodeOwnerMethodOutput :: "env \<Rightarrow> codec \<Rightarrow> byte list \<Rightarrow> gval outcome" where
  "DecodeOwnerMethodOutput E c =
     decode_output E c ''owner'' TAddr ''common.Address''"

definition DecodePausedMethodOutput :: "env \<Rightarrow> codec \<Rightarrow> byte list \<Rightarrow> gval outcome" where
  "DecodePausedMethodOutput E c =
     decode_output E c ''paused'' TBool ''bool''"

definition DecodePendingDefaultAdminMethodOutput :: "env \<Rightarrow> codec \<Rightarrow> byte list \<Rightarrow> gval outcome" where
  "DecodePendingDefaultAdminMethodOutput E c =
     decode_outputs E c ''pendingDefaultAdmin''
       [(''NewAdmin'', TAddr, ''common.Address''), (''Schedule'', TBig, ''*big.Int'')]"

definition DecodePendingDefaultAdminDelayMethodOutput :: "env \<Rightarrow> codec \<Rightarrow> byte list \<Rightarrow> gval outcome" where
  "DecodePendingDefaultAdminDelayMethodOutput E c =
     decode_outputs E c ''pendingDefaultAdminDelay''
       [(''NewDelay'', TBig, ''*big.Int''), (''Schedule'', TBig, ''*big.Int'')]"

definition DecodeProxiableUUIDMethodOutput :: "env \<Rightarrow> codec \<Rightarrow> byte list \<Rightarrow> gval outcome" where
  "DecodeProxiableUUIDMethodOutput E c =
     decode_output E c ''proxiableUUID'' (TFix 32) ''[32]byte''"

definition DecodeSupportsInterfaceMethodOutput :: "env \<Rightarrow> codec \<Rightarrow> byte list \<Rightarrow> gval outcome" where
  "DecodeSupportsInterfaceMethodOutput E c =
     decode_output E c ''supportsInterface'' TBool ''bool''"

definition DecodeWithdrawMethodOutput :: "env \<Rightarrow> codec \<Rightarrow> byte list \<Rightarrow> gval outcome" where
  "DecodeWithdrawMethodOutput E c =
     decode_output E c ''withdraw'' TBig ''*big.Int''"

definition DecodeWithdrawForMethodOutput :: "env \<Rightarrow> codec \<Rightarrow> byte list \<Rightarrow> gval outcome" where
  "DecodeWithdrawForMethodOutput E c =
     decode_output E c ''withdrawFor'' TBig ''*big.Int''"

section \<open>Reads\<close>

definition DEFAULTADMINROLE :: "env \<Rightarrow> vault_binding \<Rightarrow> bigptr \<Rightarrow> gval prog" where
  "DEFAULTADMINROLE E v block =
     read_contract E v (EncodeDEFAULTADMINROLEMethodCall (vb_Codec v)) block
       (DecodeDEFAULTADMINROLEMethodOutput E (vb_Codec v))"

definition UPGRADEINTERFACEVERSION :: "env \<Rightarrow> vault_binding \<Rightarrow> bigptr \<Rightarrow> gval prog" where
  "UPGRADEINTERFACEVERSION E v block =
     read_contract E v (EncodeUPGRADEINTERFACEVERSIONMethodCall (vb_Codec v)) block
       (DecodeUPGRADEINTERFACEVERSIONMethodOutput E (vb_Codec v))"

definition DefaultAdmin :: "env \<Rightarrow> vault_binding \<Rightarrow> bigptr \<Rightarrow> gval prog" where
  "DefaultAdmin E v block =
     read_contract E v (EncodeDefaultAdminMethodCall (vb_Codec v)) block
       (DecodeDefaultAdminMethodOutput E (vb_Codec v))"

definition DefaultAdminDelay :: "env \<Rightarrow> vault_binding \<Rightarrow> bigptr \<Rightarrow> gval prog" where
  "DefaultAdminDelay E v block =
     read_contract E v (EncodeDefaultAdminDelayMethodCall (vb_Codec v)) block
       (DecodeDefaultAdminDelayMethodOutput E (vb_Codec v))"

definition DefaultAdminDelayIncreaseWait :: "env \<Rightarrow> vault_binding \<Rightarrow> bigptr \<Rightarrow> gval prog" where
  "DefaultAdminDelayIncreaseWait E v block =
     read_contract E v (EncodeDefaultAdminDelayIncreaseWaitMethodCall (vb_Codec v)) block
       (DecodeDefaultAdminDelayIncreaseWaitMethodOutput E (vb_Codec v))"

definition GetActiveProtocolAdapter :: "env \<Rightarrow> vault_binding \<Rightarrow> bigptr \<Rightarrow> gval prog" where
  "GetActiveProtocolAdapter E v block =
     read_contract E v (EncodeGetActiveProtocolAdapterMethodCall (vb_Codec v)) block
       (DecodeGetActiveProtocolAdapterMethodOutput E (vb_Codec v))"

definition GetAdapterRegistry :: "env \<Rightarrow> vault_binding \<Rightarrow> bigptr \<Rightarrow> gval prog" where
  "GetAdapterRegistry E v block =
     read_contract E v (EncodeGetAdapterRegistryMethodCall (vb_Codec v)) block
       (DecodeGetAdapterRegistryMethodOutput E (vb_Codec v))"

definition GetAllowlistEnabled :: "env \<Rightarrow> vault_binding \<Rightarrow> bigptr \<Rightarrow> gval prog" where
  "GetAllowlistEnabled E v block =
     read_contract E v (EncodeGetAllowlistEnabledMethodCall (vb_Codec v)) block
       (DecodeGetAllowlistEnabledMethodOutput E (vb_Codec v))"

definition GetAllowlistedUser :: "env \<Rightarrow> vault_binding \<Rightarrow> gstruct \<Rightarrow> bigptr \<Rightarrow> gval prog" where
  "GetAllowlistedUser E v inp block =
     read_contract E v (EncodeGetAllowlistedUserMethodCall (vb_Codec v) inp) block
       (DecodeGetAllowlistedUserMethodOutput E (vb_Codec v))"

definition GetAsset :: "env \<Rightarrow> vault_binding \<Rightarrow> bigptr \<Rightarrow> gval prog" where
  "GetAsset E v block =
     read_contract E v (EncodeGetAssetMethodCall (vb_Codec v)) block
       (DecodeGetAssetMethodOutput E (vb_Codec v))"

definition GetAssetPrecision :: "env \<Rightarrow> vault_binding \<Rightarrow> bigptr \<Rightarrow> gval prog" where
  "GetAssetPrecision E v block =
     read_contract E v (EncodeGetAssetPrecisionMethodCall (vb_Codec v)) block
       (DecodeGetAssetPrecisionMethodOutput E (vb_Codec v))"

definition GetCCVsAndFinalityConfig :: "env \<Rightarrow> vault_binding \<Rightarrow> gstruct \<Rightarrow> bigptr \<Rightarrow> gval prog" where
  "GetCCVsAndFinalityConfig E v inp block =
     read_contract E v (EncodeGetCCVsAndFinalityConfigMethodCall (vb_Codec v) inp) block
       (DecodeGetCCVsAndFinalityConfigMethodOutput E (vb_Codec v))"

definition GetCcipGasLimit :: "env \<Rightarrow> vault_binding \<Rightarrow> gstruct \<Rightarrow> bigptr \<Rightarrow> gval prog" where
  "GetCcipGasLimit E v inp block =
     read_contract E v (EncodeGetCcipGasLimitMethodCall (vb_Codec v) inp) block
       (DecodeGetCcipGasLimitMethodOutput E (vb_Codec v))"

definition GetCrosschainVault :: "env \<Rightarrow> vault_binding \<Rightarrow> gstruct \<Rightarrow> bigptr \<Rightarrow> gval prog" where
  "GetCrosschainVault E v inp block =
     read_contract E v (EncodeGetCrosschainVaultMethodCall (vb_Codec v) inp) block
       (DecodeGetCrosschainVaultMethodOutput E (vb_Codec v))"

definition GetDefaultCcipGasLimit :: "env \<Rightarrow> vault_binding \<Rightarrow> bigptr \<Rightarrow> gval prog" where
  "GetDefaultCcipGasLimit E v block =
     read_contract E v (EncodeGetDefaultCcipGasLimitMethodCall (vb_Codec v)) block
       (DecodeGetDefaultCcipGasLimitMethodOutput E (vb_Codec v))"

definition GetDepositAmount :: "env \<Rightarrow> vault_binding \<Rightarrow> gstruct \<Rightarrow> bigptr \<Rightarrow> gval prog" where
  "GetDepositAmount E v inp block =
     read_contract E v (EncodeGetDepositAmountMethodCall (vb_Codec v) inp) block
       (DecodeGetDepositAmountMethodOutput E (vb_Codec v))"

definition GetEpoch :: "env \<Rightarrow> vault_binding \<Rightarrow> gstruct \<Rightarrow> bigptr \<Rightarrow> gval prog" where
  "GetEpoch E v inp block =
     read_contract E v (EncodeGetEpochMethodCall (vb_Codec v) inp) block
       (DecodeGetEpochMethodOutput E (vb_Codec v))"

definition GetEpochNonce :: "env \<Rightarrow> vault_binding \<Rightarrow> bigptr \<Rightarrow> gval prog" where
  "GetEpochNonce E v block =
     read_contract E v (EncodeGetEpochNonceMethodCall (vb_Codec v)) block
       (DecodeGetEpochNonceMethodOutput E (vb_Codec v))"

definition GetInitialActiveProtocolAdapterSet :: "env \<Rightarrow> vault_binding \<Rightarrow> bigptr \<Rightarrow> gval prog" where
  "GetInitialActiveProtocolAdapterSet E v block =
     read_contract E v (EncodeGetInitialActiveProtocolAdapterSetMethodCall (vb_Codec v)) block
       (DecodeGetInitialActiveProtocolAdapterSetMethodOutput E (vb_Codec v))"

definition GetLink :: "env \<Rightarrow> vault_binding \<Rightarrow> bigptr \<Rightarrow> gval prog" where
  "GetLink E v block =
     read_contract E v (EncodeGetLinkMethodCall (vb_Codec v)) block
       (DecodeGetLinkMethodOutput E (vb_Codec v))"

definition GetMinAssetAmount :: "env \<Rightarrow> vault_binding \<Rightarrow> bigptr \<Rightarrow> gval prog" where
  "GetMinAssetAmount E v block =
     read_contract E v (EncodeGetMinAssetAmountMethodCall (vb_Codec v)) block
       (DecodeGetMinAssetAmountMethodOutput E (vb_Codec v))"

definition GetRebalance :: "env \<Rightarrow> vault_binding \<Rightarrow> bigptr \<Rightarrow> gval prog" where
  "GetRebalance E v block =
     read_contract E v (EncodeGetRebalanceMethodCall (vb_Codec v)) block
       (DecodeGetRebalanceMethodOutput E (vb_Codec v))"

definition GetRebalanceDepositRecovery :: "env \<Rightarrow> vault_binding \<Rightarrow> bigptr \<Rightarrow> gval prog" where
  "GetRebalanceDepositRecovery E v block =
     read_contract E v (EncodeGetRebalanceDepositRecoveryMethodCall (vb_Codec v)) block
       (DecodeGetRebalanceDepositRecoveryMethodOutput E (vb_Codec v))"

definition GetRecoveryMode :: "env \<Rightarrow> vault_binding \<Rightarrow> bigptr \<Rightarrow> gval prog" where
  "GetRecoveryMode E v block =
     read_contract E v (EncodeGetRecoveryModeMethodCall (vb_Codec v)) block
       (DecodeGetRecoveryModeMethodOutput E (vb_Codec v))"

definition GetRoleAdmin :: "env \<Rightarrow> vault_binding \<Rightarrow> gstruct \<Rightarrow> bigptr \<Rightarrow> gval prog" where
  "GetRoleAdmin E v inp block =
     read_contract E v (EncodeGetRoleAdminMethodCall (vb_Codec v) inp) block
       (DecodeGetRoleAdminMethodOutput E (vb_Codec v))"

definition GetRouter :: "env \<Rightarrow> vault_binding \<Rightarrow> bigptr \<Rightarrow> gval prog" where
  "GetRouter E v block =
     read_contract E v (EncodeGetRouterMethodCall (vb_Codec v)) block
       (DecodeGetRouterMethodOutput E (vb_Codec v))"

definition GetShare :: "env \<Rightarrow> vault_binding \<Rightarrow> bigptr \<Rightarrow> gval prog" where
  "GetShare E v block =
     read_contract E v (EncodeGetShareMethodCall (vb_Codec v)) block
       (DecodeGetShareMethodOutput E (vb_Codec v))"

definition GetSupportedProtocol :: "env \<Rightarrow> vault_binding \<Rightarrow> gstruct \<Rightarrow> bigptr \<Rightarrow> gval prog" where
  "GetSupportedProtocol E v inp block =
     read_contract E v (EncodeGetSupportedProtocolMethodCall (vb_Codec v) inp) block
       (DecodeGetSupportedProtocolMethodOutput E (vb_Codec v))"

definition GetTVL :: "env \<Rightarrow> vault_binding \<Rightarrow> bigptr \<Rightarrow> gval prog" where
  "GetTVL E v block =
     read_contract E v (EncodeGetTVLMethodCall (vb_Codec v)) block
       (DecodeGetTVLMethodOutput E (vb_Codec v))"

definition GetThisChainSelector :: "env \<Rightarrow> vault_binding \<Rightarrow> bigptr \<Rightarrow> gval prog" where
  "GetThisChainSelector E v block =
     read_contract E v (EncodeGetThisChainSelectorMethodCall (vb_Codec v)) block
       (DecodeGetThisChainSelectorMethodOutput E (vb_Codec v))"

definition GetTotalShares :: "env \<Rightarrow> vault_binding \<Rightarrow> bigptr \<Rightarrow> gval prog" where
  "GetTotalShares E v block =
     read_contract E v (EncodeGetTotalSharesMethodCall (vb_Codec v)) block
       (DecodeGetTotalSharesMethodOutput E (vb_Codec v))"

definition GetTreasury :: "env \<Rightarrow> vault_binding \<Rightarrow> bigptr \<Rightarrow> gval prog" where
  "GetTreasury E v block =
     read_contract E v (EncodeGetTreasuryMethodCall (vb_Codec v)) block
       (DecodeGetTreasuryMethodOutput E (vb_Codec v))"

definition GetWithdrawShareBurnAmount :: "env \<Rightarrow> vault_binding \<Rightarrow> gstruct \<Rightarrow> bigptr \<Rightarrow> gval prog" where
  "GetWithdrawShareBurnAmount E v inp block =
     read_contract E v (EncodeGetWithdrawShareBurnAmountMethodCall (vb_Codec v) inp) block
       (DecodeGetWithdrawShareBurnAmountMethodOutput E (vb_Codec v))"

definition HasRole :: "env \<Rightarrow> vault_binding \<Rightarrow> gstruct \<Rightarrow> bigptr \<Rightarrow> gval prog" where
  "HasRole E v inp block =
     read_contract E v (EncodeHasRoleMethodCall (vb_Codec v) inp) block
       (DecodeHasRoleMethodOutput E (vb_Codec v))"

definition Owner :: "env \<Rightarrow> vault_binding \<Rightarrow> bigptr \<Rightarrow> gval prog" where
  "Owner E v block =
     read_contract E v (EncodeOwnerMethodCall (vb_Codec v)) block
       (DecodeOwnerMethodOutput E (vb_Codec v))"

definition Paused :: "env \<Rightarrow> vault_binding \<Rightarrow> bigptr \<Rightarrow> gval prog" where
  "Paused E v block =
     read_contract E v (EncodePausedMethodCall (vb_Codec v)) block
       (DecodePausedMethodOutput E (vb_Codec v))"

definition PendingDefaultAdmin :: "env \<Rightarrow> vault_binding \<Rightarrow> bigptr \<Rightarrow> gval prog" where
  "PendingDefaultAdmin E v block =
     read_contract E v (EncodePendingDefaultAdminMethodCall (vb_Codec v)) block
       (DecodePendingDefaultAdminMethodOutput E (vb_Codec v))"

definition PendingDefaultAdminDelay :: "env \<Rightarrow> vault_binding \<Rightarrow> bigptr \<Rightarrow> gval prog" where
  "PendingDefaultAdminDelay E v block =
     read_contract E v (EncodePendingDefaultAdminDelayMethodCall (vb_Codec v)) block
       (DecodePendingDefaultAdminDelayMethodOutput E (vb_Codec v))"

definition ProxiableUUID :: "env \<Rightarrow> vault_binding \<Rightarrow> bigptr \<Rightarrow> gval prog" where
  "ProxiableUUID E v block =
     read_contract E v (EncodeProxiableUUIDMethodCall (vb_Codec v)) block
       (DecodeProxiableUUIDMethodOutput E (vb_Codec v))"

section \<open>Structs as reports\<close>

definition EncodeBaseVaultConstructorParamsStruct :: "env \<Rightarrow> gval \<Rightarrow> byte list outcome" where
  "EncodeBaseVaultConstructorParamsStruct E inp =
     encode_struct E ''BaseVaultConstructorParams'' ''baseVaultConstructorParams''
       [(''link'', ''address''), (''asset'', ''address''), (''ccipRouter'', ''address''),
       (''adapterRegistry'', ''address''), (''thisChainSelector'', ''uint64'')] inp"

definition WriteReportFromBaseVaultConstructorParams :: "env \<Rightarrow> vault_binding \<Rightarrow> gval \<Rightarrow> uint64 option \<Rightarrow> write_reply option prog" where
  "WriteReportFromBaseVaultConstructorParams E v inp gasConfig =
     write_report_from E v (EncodeBaseVaultConstructorParamsStruct E inp) gasConfig"

definition EncodeBaseVaultInitParamsStruct :: "env \<Rightarrow> gval \<Rightarrow> byte list outcome" where
  "EncodeBaseVaultInitParamsStruct E inp =
     encode_struct E ''BaseVaultInitParams'' ''baseVaultInitParams''
       [(''defaultAdmin'', ''address''), (''pauser'', ''address''), (''unpauser'', ''address''),
       (''configOperator'', ''address''), (''initialDefaultCcipGasLimit'', ''uint256''),
       (''upgrader'', ''address'')] inp"

definition WriteReportFromBaseVaultInitParams :: "env \<Rightarrow> vault_binding \<Rightarrow> gval \<Rightarrow> uint64 option \<Rightarrow> write_reply option prog" where
  "WriteReportFromBaseVaultInitParams E v inp gasConfig =
     write_report_from E v (EncodeBaseVaultInitParamsStruct E inp) gasConfig"

definition EncodeClientAny2EVMMessageStruct :: "env \<Rightarrow> gval \<Rightarrow> byte list outcome" where
  "EncodeClientAny2EVMMessageStruct E inp =
     encode_struct E ''ClientAny2EVMMessage'' ''clientAny2EVMMessage''
       [(''messageId'', ''bytes32''), (''sourceChainSelector'', ''uint64''), (''sender'', ''bytes''),
       (''data'', ''bytes''), (''destTokenAmounts'', ''(address,uint256)[]'')] inp"

definition WriteReportFromClientAny2EVMMessage :: "env \<Rightarrow> vault_binding \<Rightarrow> gval \<Rightarrow> uint64 option \<Rightarrow> write_reply option prog" where
  "WriteReportFromClientAny2EVMMessage E v inp gasConfig =
     write_report_from E v (EncodeClientAny2EVMMessageStruct E inp) gasConfig"

definition EncodeClientEVMTokenAmountStruct :: "env \<Rightarrow> gval \<Rightarrow> byte list outcome" where
  "EncodeClientEVMTokenAmountStruct E inp =
     encode_struct E ''ClientEVMTokenAmount'' ''clientEVMTokenAmount''
       [(''token'', ''address''), (''amount'', ''uint256'')] inp"

definition WriteReportFromClientEVMTokenAmount :: "env \<Rightarrow> vault_binding \<Rightarrow> gval \<Rightarrow> uint64 option \<Rightarrow> write_reply option prog" where
  "WriteReportFromClientEVMTokenAmount E v inp gasConfig =
     write_report_from E v (EncodeClientEVMTokenAmountStruct E inp) gasConfig"

definition EncodeTypesEpochStruct :: "env \<Rightarrow> gval \<Rightarrow> byte list outcome" where
  "EncodeTypesEpochStruct E inp =
     encode_struct E ''TypesEpoch'' ''typesEpoch''
       [(''totalDepositAmount'', ''uint256''), (''totalShareBurnAmount'', ''uint256''),
       (''totalWithdrawClaimAmount'', ''uint256''), (''remainingDepositClaimAmount'', ''uint256''),
       (''remainingShareMintAmount'', ''uint256''), (''remainingShareBurnAmount'', ''uint256''),
       (''remainingWithdrawClaimAmount'', ''uint256''), (''openedAtTimestamp'', ''uint256''),
       (''status'', ''uint8'')] inp"

definition WriteReportFromTypesEpoch :: "env \<Rightarrow> vault_binding \<Rightarrow> gval \<Rightarrow> uint64 option \<Rightarrow> write_reply option prog" where
  "WriteReportFromTypesEpoch E v inp gasConfig =
     write_report_from E v (EncodeTypesEpochStruct E inp) gasConfig"

definition EncodeTypesParentOperationalStateStruct :: "env \<Rightarrow> gval \<Rightarrow> byte list outcome" where
  "EncodeTypesParentOperationalStateStruct E inp =
     encode_struct E ''TypesParentOperationalState'' ''typesParentOperationalState''
       [(''paused'', ''bool''), (''recoveryMode'', ''uint8''), (''currentEpochNonce'', ''uint256''),
       (''currentEpoch'', ''(uint256,uint256,uint256,uint256,uint256,uint256,uint256,uint256,uint8)''),
       (''previousEpoch'', ''(uint256,uint256,uint256,uint256,uint256,uint256,uint256,uint256,uint8)''),
       (''rebalance'', ''(uint256,uint8,(bytes32,uint64),(bytes32,uint64),uint256)''),
       (''totalShares'', ''uint256''), (''tvl'', ''uint256'')] inp"

definition WriteReportFromTypesParentOperationalState :: "env \<Rightarrow> vault_binding \<Rightarrow> gval \<Rightarrow> uint64 option \<Rightarrow> write_reply option prog" where
  "WriteReportFromTypesParentOperationalState E v inp gasConfig =
     write_report_from E v (EncodeTypesParentOperationalStateStruct E inp) gasConfig"

definition EncodeTypesRebalanceStruct :: "env \<Rightarrow> gval \<Rightarrow> byte list outcome" where
  "EncodeTypesRebalanceStruct E inp =
     encode_struct E ''TypesRebalance'' ''typesRebalance''
       [(''nonce'', ''uint256''), (''state'', ''uint8''), (''activeStrategy'', ''(bytes32,uint64)''),
       (''pendingStrategy'', ''(bytes32,uint64)''), (''lastRebalanceCompletedTimestamp'', ''uint256'')] inp"

definition WriteReportFromTypesRebalance :: "env \<Rightarrow> vault_binding \<Rightarrow> gval \<Rightarrow> uint64 option \<Rightarrow> write_reply option prog" where
  "WriteReportFromTypesRebalance E v inp gasConfig =
     write_report_from E v (EncodeTypesRebalanceStruct E inp) gasConfig"

definition EncodeTypesRebalanceDepositRecoveryStruct :: "env \<Rightarrow> gval \<Rightarrow> byte list outcome" where
  "EncodeTypesRebalanceDepositRecoveryStruct E inp =
     encode_struct E ''TypesRebalanceDepositRecovery'' ''typesRebalanceDepositRecovery''
       [(''rebalanceNonce'', ''uint256''), (''amount'', ''uint256'')] inp"

definition WriteReportFromTypesRebalanceDepositRecovery :: "env \<Rightarrow> vault_binding \<Rightarrow> gval \<Rightarrow> uint64 option \<Rightarrow> write_reply option prog" where
  "WriteReportFromTypesRebalanceDepositRecovery E v inp gasConfig =
     write_report_from E v (EncodeTypesRebalanceDepositRecoveryStruct E inp) gasConfig"

definition EncodeTypesStrategyStruct :: "env \<Rightarrow> gval \<Rightarrow> byte list outcome" where
  "EncodeTypesStrategyStruct E inp =
     encode_struct E ''TypesStrategy'' ''typesStrategy''
       [(''protocolId'', ''bytes32''), (''chainSelector'', ''uint64'')] inp"

definition WriteReportFromTypesStrategy :: "env \<Rightarrow> vault_binding \<Rightarrow> gval \<Rightarrow> uint64 option \<Rightarrow> write_reply option prog" where
  "WriteReportFromTypesStrategy E v inp gasConfig =
     write_report_from E v (EncodeTypesStrategyStruct E inp) gasConfig"

definition parent_WriteReport :: "env \<Rightarrow> vault_binding \<Rightarrow> report_handle option \<Rightarrow> uint64 option \<Rightarrow> write_reply option prog" where
  "parent_WriteReport E v report gasConfig = write_report E v report gasConfig"

section \<open>The test double\<close>

definition parent_mock_DEFAULT_ADMIN_ROLE :: "abi \<Rightarrow> mock \<Rightarrow> byte list \<Rightarrow> byte list outcome" where
  "parent_mock_DEFAULT_ADMIN_ROLE c k =
     mock_call c k ''DEFAULT_ADMIN_ROLE'' ''DEFAULTADMINROLE'' [] PackResult"

definition parent_mock_UPGRADE_INTERFACE_VERSION :: "abi \<Rightarrow> mock \<Rightarrow> byte list \<Rightarrow> byte list outcome" where
  "parent_mock_UPGRADE_INTERFACE_VERSION c k =
     mock_call c k ''UPGRADE_INTERFACE_VERSION'' ''UPGRADEINTERFACEVERSION'' [] PackResult"

definition parent_mock_defaultAdmin :: "abi \<Rightarrow> mock \<Rightarrow> byte list \<Rightarrow> byte list outcome" where
  "parent_mock_defaultAdmin c k =
     mock_call c k ''defaultAdmin'' ''DefaultAdmin'' [] PackResult"

definition parent_mock_defaultAdminDelay :: "abi \<Rightarrow> mock \<Rightarrow> byte list \<Rightarrow> byte list outcome" where
  "parent_mock_defaultAdminDelay c k =
     mock_call c k ''defaultAdminDelay'' ''DefaultAdminDelay'' [] PackResult"

definition parent_mock_defaultAdminDelayIncreaseWait :: "abi \<Rightarrow> mock \<Rightarrow> byte list \<Rightarrow> byte list outcome" where
  "parent_mock_defaultAdminDelayIncreaseWait c k =
     mock_call c k ''defaultAdminDelayIncreaseWait'' ''DefaultAdminDelayIncreaseWait'' [] PackResult"

definition parent_mock_getActiveProtocolAdapter :: "abi \<Rightarrow> mock \<Rightarrow> byte list \<Rightarrow> byte list outcome" where
  "parent_mock_getActiveProtocolAdapter c k =
     mock_call c k ''getActiveProtocolAdapter'' ''GetActiveProtocolAdapter'' [] PackResult"

definition parent_mock_getAdapterRegistry :: "abi \<Rightarrow> mock \<Rightarrow> byte list \<Rightarrow> byte list outcome" where
  "parent_mock_getAdapterRegistry c k =
     mock_call c k ''getAdapterRegistry'' ''GetAdapterRegistry'' [] PackResult"

definition parent_mock_getAllowlistEnabled :: "abi \<Rightarrow> mock \<Rightarrow> byte list \<Rightarrow> byte list outcome" where
  "parent_mock_getAllowlistEnabled c k =
     mock_call c k ''getAllowlistEnabled'' ''GetAllowlistEnabled'' [] PackResult"

definition parent_mock_getAllowlistedUser :: "abi \<Rightarrow> mock \<Rightarrow> byte list \<Rightarrow> byte list outcome" where
  "parent_mock_getAllowlistedUser c k =
     mock_call c k ''getAllowlistedUser'' ''GetAllowlistedUser'' GetAllowlistedUserInput PackResult"

definition parent_mock_getAsset :: "abi \<Rightarrow> mock \<Rightarrow> byte list \<Rightarrow> byte list outcome" where
  "parent_mock_getAsset c k =
     mock_call c k ''getAsset'' ''GetAsset'' [] PackResult"

definition parent_mock_getAssetPrecision :: "abi \<Rightarrow> mock \<Rightarrow> byte list \<Rightarrow> byte list outcome" where
  "parent_mock_getAssetPrecision c k =
     mock_call c k ''getAssetPrecision'' ''GetAssetPrecision'' [] PackResult"

definition parent_mock_getCCVsAndFinalityConfig :: "abi \<Rightarrow> mock \<Rightarrow> byte list \<Rightarrow> byte list outcome" where
  "parent_mock_getCCVsAndFinalityConfig c k =
     mock_call c k ''getCCVsAndFinalityConfig'' ''GetCCVsAndFinalityConfig'' GetCCVsAndFinalityConfigInput (PackFields [''RequiredCCVs'', ''OptionalCCVs'', ''OptionalThreshold'', ''AllowedFinalityConfig''])"

definition parent_mock_getCcipGasLimit :: "abi \<Rightarrow> mock \<Rightarrow> byte list \<Rightarrow> byte list outcome" where
  "parent_mock_getCcipGasLimit c k =
     mock_call c k ''getCcipGasLimit'' ''GetCcipGasLimit'' GetCcipGasLimitInput PackResult"

definition parent_mock_getCrosschainVault :: "abi \<Rightarrow> mock \<Rightarrow> byte list \<Rightarrow> byte list outcome" where
  "parent_mock_getCrosschainVault c k =
     mock_call c k ''getCrosschainVault'' ''GetCrosschainVault'' GetCrosschainVaultInput PackResult"

definition parent_mock_getDefaultCcipGasLimit :: "abi \<Rightarrow> mock \<Rightarrow> byte list \<Rightarrow> byte list outcome" where
  "parent_mock_getDefaultCcipGasLimit c k =
     mock_call c k ''getDefaultCcipGasLimit'' ''GetDefaultCcipGasLimit'' [] PackResult"

definition parent_mock_getDepositAmount :: "abi \<Rightarrow> mock \<Rightarrow> byte list \<Rightarrow> byte list outcome" where
  "parent_mock_getDepositAmount c k =
     mock_call c k ''getDepositAmount'' ''GetDepositAmount'' GetDepositAmountInput PackResult"

definition parent_mock_getEpoch :: "abi \<Rightarrow> mock \<Rightarrow> byte list \<Rightarrow> byte list outcome" where
  "parent_mock_getEpoch c k =
     mock_call c k ''getEpoch'' ''GetEpoch'' GetEpochInput PackResult"

definition parent_mock_getEpochNonce :: "abi \<Rightarrow> mock \<Rightarrow> byte list \<Rightarrow> byte list outcome" where
  "parent_mock_getEpochNonce c k =
     mock_call c k ''getEpochNonce'' ''GetEpochNonce'' [] PackResult"

definition parent_mock_getInitialActiveProtocolAdapterSet :: "abi \<Rightarrow> mock \<Rightarrow> byte list \<Rightarrow> byte list outcome" where
  "parent_mock_getInitialActiveProtocolAdapterSet c k =
     mock_call c k ''getInitialActiveProtocolAdapterSet'' ''GetInitialActiveProtocolAdapterSet'' [] PackResult"

definition parent_mock_getLink :: "abi \<Rightarrow> mock \<Rightarrow> byte list \<Rightarrow> byte list outcome" where
  "parent_mock_getLink c k =
     mock_call c k ''getLink'' ''GetLink'' [] PackResult"

definition parent_mock_getMinAssetAmount :: "abi \<Rightarrow> mock \<Rightarrow> byte list \<Rightarrow> byte list outcome" where
  "parent_mock_getMinAssetAmount c k =
     mock_call c k ''getMinAssetAmount'' ''GetMinAssetAmount'' [] PackResult"

definition parent_mock_getParentOperationalState :: "abi \<Rightarrow> mock \<Rightarrow> byte list \<Rightarrow> byte list outcome" where
  "parent_mock_getParentOperationalState c k =
     mock_call c k ''getParentOperationalState'' ''GetParentOperationalState'' [] PackResult"

definition parent_mock_getRebalance :: "abi \<Rightarrow> mock \<Rightarrow> byte list \<Rightarrow> byte list outcome" where
  "parent_mock_getRebalance c k =
     mock_call c k ''getRebalance'' ''GetRebalance'' [] PackResult"

definition parent_mock_getRebalanceDepositRecovery :: "abi \<Rightarrow> mock \<Rightarrow> byte list \<Rightarrow> byte list outcome" where
  "parent_mock_getRebalanceDepositRecovery c k =
     mock_call c k ''getRebalanceDepositRecovery'' ''GetRebalanceDepositRecovery'' [] PackResult"

definition parent_mock_getRecoveryMode :: "abi \<Rightarrow> mock \<Rightarrow> byte list \<Rightarrow> byte list outcome" where
  "parent_mock_getRecoveryMode c k =
     mock_call c k ''getRecoveryMode'' ''GetRecoveryMode'' [] PackResult"

definition parent_mock_getRoleAdmin :: "abi \<Rightarrow> mock \<Rightarrow> byte list \<Rightarrow> byte list outcome" where
  "parent_mock_getRoleAdmin c k =
     mock_call c k ''getRoleAdmin'' ''GetRoleAdmin'' GetRoleAdminInput PackResult"

definition parent_mock_getRouter :: "abi \<Rightarrow> mock \<Rightarrow> byte list \<Rightarrow> byte list outcome" where
  "parent_mock_getRouter c k =
     mock_call c k ''getRouter'' ''GetRouter'' [] PackResult"

definition parent_mock_getShare :: "abi \<Rightarrow> mock \<Rightarrow> byte list \<Rightarrow> byte list outcome" where
  "parent_mock_getShare c k =
     mock_call c k ''getShare'' ''GetShare'' [] PackResult"

definition parent_mock_getSupportedProtocol :: "abi \<Rightarrow> mock \<Rightarrow> byte list \<Rightarrow> byte list outcome" where
  "parent_mock_getSupportedProtocol c k =
     mock_call c k ''getSupportedProtocol'' ''GetSupportedProtocol'' GetSupportedProtocolInput PackResult"

definition parent_mock_getTVL :: "abi \<Rightarrow> mock \<Rightarrow> byte list \<Rightarrow> byte list outcome" where
  "parent_mock_getTVL c k =
     mock_call c k ''getTVL'' ''GetTVL'' [] PackResult"

definition parent_mock_getThisChainSelector :: "abi \<Rightarrow> mock \<Rightarrow> byte list \<Rightarrow> byte list outcome" where
  "parent_mock_getThisChainSelector c k =
     mock_call c k ''getThisChainSelector'' ''GetThisChainSelector'' [] PackResult"

definition parent_mock_getTotalShares :: "abi \<Rightarrow> mock \<Rightarrow> byte list \<Rightarrow> byte list outcome" where
  "parent_mock_getTotalShares c k =
     mock_call c k ''getTotalShares'' ''GetTotalShares'' [] PackResult"

definition parent_mock_getTreasury :: "abi \<Rightarrow> mock \<Rightarrow> byte list \<Rightarrow> byte list outcome" where
  "parent_mock_getTreasury c k =
     mock_call c k ''getTreasury'' ''GetTreasury'' [] PackResult"

definition parent_mock_getWithdrawShareBurnAmount :: "abi \<Rightarrow> mock \<Rightarrow> byte list \<Rightarrow> byte list outcome" where
  "parent_mock_getWithdrawShareBurnAmount c k =
     mock_call c k ''getWithdrawShareBurnAmount'' ''GetWithdrawShareBurnAmount'' GetWithdrawShareBurnAmountInput PackResult"

definition parent_mock_hasRole :: "abi \<Rightarrow> mock \<Rightarrow> byte list \<Rightarrow> byte list outcome" where
  "parent_mock_hasRole c k =
     mock_call c k ''hasRole'' ''HasRole'' HasRoleInput PackResult"

definition parent_mock_owner :: "abi \<Rightarrow> mock \<Rightarrow> byte list \<Rightarrow> byte list outcome" where
  "parent_mock_owner c k =
     mock_call c k ''owner'' ''Owner'' [] PackResult"

definition parent_mock_paused :: "abi \<Rightarrow> mock \<Rightarrow> byte list \<Rightarrow> byte list outcome" where
  "parent_mock_paused c k =
     mock_call c k ''paused'' ''Paused'' [] PackResult"

definition parent_mock_pendingDefaultAdmin :: "abi \<Rightarrow> mock \<Rightarrow> byte list \<Rightarrow> byte list outcome" where
  "parent_mock_pendingDefaultAdmin c k =
     mock_call c k ''pendingDefaultAdmin'' ''PendingDefaultAdmin'' [] (PackFields [''NewAdmin'', ''Schedule''])"

definition parent_mock_pendingDefaultAdminDelay :: "abi \<Rightarrow> mock \<Rightarrow> byte list \<Rightarrow> byte list outcome" where
  "parent_mock_pendingDefaultAdminDelay c k =
     mock_call c k ''pendingDefaultAdminDelay'' ''PendingDefaultAdminDelay'' [] (PackFields [''NewDelay'',
       ''Schedule''])"

definition parent_mock_proxiableUUID :: "abi \<Rightarrow> mock \<Rightarrow> byte list \<Rightarrow> byte list outcome" where
  "parent_mock_proxiableUUID c k =
     mock_call c k ''proxiableUUID'' ''ProxiableUUID'' [] PackResult"

definition parent_funcMap :: "mock \<Rightarrow> abi \<Rightarrow> func_map" where
  "parent_funcMap k c =
     [(take 4 (abi_MethodID c ''DEFAULT_ADMIN_ROLE''), parent_mock_DEFAULT_ADMIN_ROLE c k),
      (take 4 (abi_MethodID c ''UPGRADE_INTERFACE_VERSION''), parent_mock_UPGRADE_INTERFACE_VERSION c k),
      (take 4 (abi_MethodID c ''defaultAdmin''), parent_mock_defaultAdmin c k),
      (take 4 (abi_MethodID c ''defaultAdminDelay''), parent_mock_defaultAdminDelay c k),
      (take 4 (abi_MethodID c ''defaultAdminDelayIncreaseWait''), parent_mock_defaultAdminDelayIncreaseWait c k),
      (take 4 (abi_MethodID c ''getActiveProtocolAdapter''), parent_mock_getActiveProtocolAdapter c k),
      (take 4 (abi_MethodID c ''getAdapterRegistry''), parent_mock_getAdapterRegistry c k),
      (take 4 (abi_MethodID c ''getAllowlistEnabled''), parent_mock_getAllowlistEnabled c k),
      (take 4 (abi_MethodID c ''getAllowlistedUser''), parent_mock_getAllowlistedUser c k),
      (take 4 (abi_MethodID c ''getAsset''), parent_mock_getAsset c k),
      (take 4 (abi_MethodID c ''getAssetPrecision''), parent_mock_getAssetPrecision c k),
      (take 4 (abi_MethodID c ''getCCVsAndFinalityConfig''), parent_mock_getCCVsAndFinalityConfig c k),
      (take 4 (abi_MethodID c ''getCcipGasLimit''), parent_mock_getCcipGasLimit c k),
      (take 4 (abi_MethodID c ''getCrosschainVault''), parent_mock_getCrosschainVault c k),
      (take 4 (abi_MethodID c ''getDefaultCcipGasLimit''), parent_mock_getDefaultCcipGasLimit c k),
      (take 4 (abi_MethodID c ''getDepositAmount''), parent_mock_getDepositAmount c k),
      (take 4 (abi_MethodID c ''getEpoch''), parent_mock_getEpoch c k),
      (take 4 (abi_MethodID c ''getEpochNonce''), parent_mock_getEpochNonce c k),
      (take 4 (abi_MethodID c ''getInitialActiveProtocolAdapterSet''),
       parent_mock_getInitialActiveProtocolAdapterSet c k),
      (take 4 (abi_MethodID c ''getLink''), parent_mock_getLink c k),
      (take 4 (abi_MethodID c ''getMinAssetAmount''), parent_mock_getMinAssetAmount c k),
      (take 4 (abi_MethodID c ''getParentOperationalState''), parent_mock_getParentOperationalState c k),
      (take 4 (abi_MethodID c ''getRebalance''), parent_mock_getRebalance c k),
      (take 4 (abi_MethodID c ''getRebalanceDepositRecovery''), parent_mock_getRebalanceDepositRecovery c k),
      (take 4 (abi_MethodID c ''getRecoveryMode''), parent_mock_getRecoveryMode c k),
      (take 4 (abi_MethodID c ''getRoleAdmin''), parent_mock_getRoleAdmin c k),
      (take 4 (abi_MethodID c ''getRouter''), parent_mock_getRouter c k),
      (take 4 (abi_MethodID c ''getShare''), parent_mock_getShare c k),
      (take 4 (abi_MethodID c ''getSupportedProtocol''), parent_mock_getSupportedProtocol c k),
      (take 4 (abi_MethodID c ''getTVL''), parent_mock_getTVL c k),
      (take 4 (abi_MethodID c ''getThisChainSelector''), parent_mock_getThisChainSelector c k),
      (take 4 (abi_MethodID c ''getTotalShares''), parent_mock_getTotalShares c k),
      (take 4 (abi_MethodID c ''getTreasury''), parent_mock_getTreasury c k),
      (take 4 (abi_MethodID c ''getWithdrawShareBurnAmount''), parent_mock_getWithdrawShareBurnAmount c k),
      (take 4 (abi_MethodID c ''hasRole''), parent_mock_hasRole c k),
      (take 4 (abi_MethodID c ''owner''), parent_mock_owner c k),
      (take 4 (abi_MethodID c ''paused''), parent_mock_paused c k),
      (take 4 (abi_MethodID c ''pendingDefaultAdmin''), parent_mock_pendingDefaultAdmin c k),
      (take 4 (abi_MethodID c ''pendingDefaultAdminDelay''), parent_mock_pendingDefaultAdminDelay c k),
      (take 4 (abi_MethodID c ''proxiableUUID''), parent_mock_proxiableUUID c k)]"

definition NewParentVaultMock :: "env \<Rightarrow> mock \<Rightarrow> func_map outcome" where
  "NewParentVaultMock E k = new_mock (parent_NewCodec E) (parent_funcMap k)"

section \<open>The package against its interface\<close>

text \<open>The tables: what each encoder packs, and the shape of each read and of each mock function.\<close>

definition parent_call_table :: "call_spec list" where
  "parent_call_table =
     [(''DEFAULT_ADMIN_ROLE'', []),
      (''UPGRADE_INTERFACE_VERSION'', []),
      (''acceptDefaultAdminTransfer'', []),
      (''beginDefaultAdminTransfer'', BeginDefaultAdminTransferInput),
      (''cancelDefaultAdminTransfer'', []),
      (''cancelDeposit'', []),
      (''cancelWithdraw'', []),
      (''ccipReceive'', CcipReceiveInput),
      (''changeDefaultAdminDelay'', ChangeDefaultAdminDelayInput),
      (''claimAsset'', ClaimAssetInput),
      (''claimAssetFor'', ClaimAssetForInput),
      (''claimShares'', ClaimSharesInput),
      (''claimSharesFor'', ClaimSharesForInput),
      (''closeEpoch'', [(''ExpectedEpochNonce'', TBig), (''Tvl'', TBig)]),
      (''completeEpochDeposit'', [(''ExpectedEpochNonce'', TBig), (''ActualDepositAmount'', TBig)]),
      (''completeRebalance'', [(''ExpectedRebalanceNonce'', TBig)]),
      (''defaultAdmin'', []),
      (''defaultAdminDelay'', []),
      (''defaultAdminDelayIncreaseWait'', []),
      (''deposit'', DepositInput),
      (''depositFor'', DepositForInput),
      (''executeRecovery'', []),
      (''forceCancelDeposit'', ForceCancelDepositInput),
      (''getActiveProtocolAdapter'', []),
      (''getAdapterRegistry'', []),
      (''getAllowlistEnabled'', []),
      (''getAllowlistedUser'', GetAllowlistedUserInput),
      (''getAsset'', []),
      (''getAssetPrecision'', []),
      (''getCCVsAndFinalityConfig'', GetCCVsAndFinalityConfigInput),
      (''getCcipGasLimit'', GetCcipGasLimitInput),
      (''getCrosschainVault'', GetCrosschainVaultInput),
      (''getDefaultCcipGasLimit'', []),
      (''getDepositAmount'', GetDepositAmountInput),
      (''getEpoch'', GetEpochInput),
      (''getEpochNonce'', []),
      (''getInitialActiveProtocolAdapterSet'', []),
      (''getLink'', []),
      (''getMinAssetAmount'', []),
      (''getParentOperationalState'', []),
      (''getRebalance'', []),
      (''getRebalanceDepositRecovery'', []),
      (''getRecoveryMode'', []),
      (''getRoleAdmin'', GetRoleAdminInput),
      (''getRouter'', []),
      (''getShare'', []),
      (''getSharePrecision'', []),
      (''getSupportedProtocol'', GetSupportedProtocolInput),
      (''getTVL'', []),
      (''getThisChainSelector'', []),
      (''getTotalShares'', []),
      (''getTreasury'', []),
      (''getWithdrawShareBurnAmount'', GetWithdrawShareBurnAmountInput),
      (''grantRole'', GrantRoleInput),
      (''hasRole'', HasRoleInput),
      (''initialize'', InitializeInput),
      (''initiateRebalance'', [(''ExpectedRebalanceNonce'', TBig), (''NewStrategy'', strategy_type)]),
      (''owner'', []),
      (''pause'', []),
      (''paused'', []),
      (''pendingDefaultAdmin'', []),
      (''pendingDefaultAdminDelay'', []),
      (''proxiableUUID'', []),
      (''renounceRole'', RenounceRoleInput),
      (''revokeRole'', RevokeRoleInput),
      (''rollbackDefaultAdminDelay'', []),
      (''setAllowlistEnabled'', SetAllowlistEnabledInput),
      (''setAllowlistedUsers'', SetAllowlistedUsersInput),
      (''setCcipGasLimit'', SetCcipGasLimitInput),
      (''setCrosschainVaults'', SetCrosschainVaultsInput),
      (''setDefaultCcipGasLimit'', SetDefaultCcipGasLimitInput),
      (''setInitialActiveProtocolAdapter'', SetInitialActiveProtocolAdapterInput),
      (''setSupportedProtocol'', SetSupportedProtocolInput),
      (''setTreasury'', SetTreasuryInput),
      (''supportsInterface'', SupportsInterfaceInput),
      (''tryDepositToAdapter'', TryDepositToAdapterInput),
      (''unpause'', []),
      (''upgradeToAndCall'', UpgradeToAndCallInput),
      (''withdraw'', WithdrawInput),
      (''withdrawFor'', WithdrawForInput),
      (''withdrawLink'', WithdrawLinkInput)]"

definition parent_calls :: "call_encoder list" where
  "parent_calls =
     [\<lambda>c _. EncodeDEFAULTADMINROLEMethodCall c,
      \<lambda>c _. EncodeUPGRADEINTERFACEVERSIONMethodCall c,
      \<lambda>c _. EncodeAcceptDefaultAdminTransferMethodCall c,
      EncodeBeginDefaultAdminTransferMethodCall,
      \<lambda>c _. EncodeCancelDefaultAdminTransferMethodCall c,
      \<lambda>c _. EncodeCancelDepositMethodCall c,
      \<lambda>c _. EncodeCancelWithdrawMethodCall c,
      EncodeCcipReceiveMethodCall,
      EncodeChangeDefaultAdminDelayMethodCall,
      EncodeClaimAssetMethodCall,
      EncodeClaimAssetForMethodCall,
      EncodeClaimSharesMethodCall,
      EncodeClaimSharesForMethodCall,
      \<lambda>c inp. EncodeCloseEpochMethodCall c \<lparr>ce_ExpectedEpochNonce = as_big (map_of inp ''ExpectedEpochNonce''), ce_Tvl = as_big (map_of inp ''Tvl'')\<rparr>,
      \<lambda>c inp. EncodeCompleteEpochDepositMethodCall c \<lparr>cd_ExpectedEpochNonce = as_big (map_of inp ''ExpectedEpochNonce''), cd_ActualDepositAmount = as_big (map_of inp ''ActualDepositAmount'')\<rparr>,
      \<lambda>c inp. EncodeCompleteRebalanceMethodCall c \<lparr>cr_ExpectedRebalanceNonce = as_big (map_of inp ''ExpectedRebalanceNonce'')\<rparr>,
      \<lambda>c _. EncodeDefaultAdminMethodCall c,
      \<lambda>c _. EncodeDefaultAdminDelayMethodCall c,
      \<lambda>c _. EncodeDefaultAdminDelayIncreaseWaitMethodCall c,
      EncodeDepositMethodCall,
      EncodeDepositForMethodCall,
      \<lambda>c _. EncodeExecuteRecoveryMethodCall c,
      EncodeForceCancelDepositMethodCall,
      \<lambda>c _. EncodeGetActiveProtocolAdapterMethodCall c,
      \<lambda>c _. EncodeGetAdapterRegistryMethodCall c,
      \<lambda>c _. EncodeGetAllowlistEnabledMethodCall c,
      EncodeGetAllowlistedUserMethodCall,
      \<lambda>c _. EncodeGetAssetMethodCall c,
      \<lambda>c _. EncodeGetAssetPrecisionMethodCall c,
      EncodeGetCCVsAndFinalityConfigMethodCall,
      EncodeGetCcipGasLimitMethodCall,
      EncodeGetCrosschainVaultMethodCall,
      \<lambda>c _. EncodeGetDefaultCcipGasLimitMethodCall c,
      EncodeGetDepositAmountMethodCall,
      EncodeGetEpochMethodCall,
      \<lambda>c _. EncodeGetEpochNonceMethodCall c,
      \<lambda>c _. EncodeGetInitialActiveProtocolAdapterSetMethodCall c,
      \<lambda>c _. EncodeGetLinkMethodCall c,
      \<lambda>c _. EncodeGetMinAssetAmountMethodCall c,
      \<lambda>c _. EncodeGetParentOperationalStateMethodCall c,
      \<lambda>c _. EncodeGetRebalanceMethodCall c,
      \<lambda>c _. EncodeGetRebalanceDepositRecoveryMethodCall c,
      \<lambda>c _. EncodeGetRecoveryModeMethodCall c,
      EncodeGetRoleAdminMethodCall,
      \<lambda>c _. EncodeGetRouterMethodCall c,
      \<lambda>c _. EncodeGetShareMethodCall c,
      \<lambda>c _. EncodeGetSharePrecisionMethodCall c,
      EncodeGetSupportedProtocolMethodCall,
      \<lambda>c _. EncodeGetTVLMethodCall c,
      \<lambda>c _. EncodeGetThisChainSelectorMethodCall c,
      \<lambda>c _. EncodeGetTotalSharesMethodCall c,
      \<lambda>c _. EncodeGetTreasuryMethodCall c,
      EncodeGetWithdrawShareBurnAmountMethodCall,
      EncodeGrantRoleMethodCall,
      EncodeHasRoleMethodCall,
      EncodeInitializeMethodCall,
      \<lambda>c inp. EncodeInitiateRebalanceMethodCall c \<lparr>ir_ExpectedRebalanceNonce = as_big (map_of inp ''ExpectedRebalanceNonce''), ir_NewStrategy = strategy_of (as_struct (map_of inp ''NewStrategy''))\<rparr>,
      \<lambda>c _. EncodeOwnerMethodCall c,
      \<lambda>c _. EncodePauseMethodCall c,
      \<lambda>c _. EncodePausedMethodCall c,
      \<lambda>c _. EncodePendingDefaultAdminMethodCall c,
      \<lambda>c _. EncodePendingDefaultAdminDelayMethodCall c,
      \<lambda>c _. EncodeProxiableUUIDMethodCall c,
      EncodeRenounceRoleMethodCall,
      EncodeRevokeRoleMethodCall,
      \<lambda>c _. EncodeRollbackDefaultAdminDelayMethodCall c,
      EncodeSetAllowlistEnabledMethodCall,
      EncodeSetAllowlistedUsersMethodCall,
      EncodeSetCcipGasLimitMethodCall,
      EncodeSetCrosschainVaultsMethodCall,
      EncodeSetDefaultCcipGasLimitMethodCall,
      EncodeSetInitialActiveProtocolAdapterMethodCall,
      EncodeSetSupportedProtocolMethodCall,
      EncodeSetTreasuryMethodCall,
      EncodeSupportsInterfaceMethodCall,
      EncodeTryDepositToAdapterMethodCall,
      \<lambda>c _. EncodeUnpauseMethodCall c,
      EncodeUpgradeToAndCallMethodCall,
      EncodeWithdrawMethodCall,
      EncodeWithdrawForMethodCall,
      EncodeWithdrawLinkMethodCall]"

definition parent_read_table :: "read_spec list" where
  "parent_read_table =
     [\<lparr>rs_Go = ''DEFAULTADMINROLE'', rs_Name = ''DEFAULT_ADMIN_ROLE'', rs_Inputs = [],
        rs_Outputs = OneOutput (TFix 32) ''[32]byte''\<rparr>,
      \<lparr>rs_Go = ''UPGRADEINTERFACEVERSION'', rs_Name = ''UPGRADE_INTERFACE_VERSION'', rs_Inputs = [],
        rs_Outputs = OneOutput TStr ''string''\<rparr>,
      \<lparr>rs_Go = ''DefaultAdmin'', rs_Name = ''defaultAdmin'', rs_Inputs = [],
        rs_Outputs = OneOutput TAddr ''common.Address''\<rparr>,
      \<lparr>rs_Go = ''DefaultAdminDelay'', rs_Name = ''defaultAdminDelay'', rs_Inputs = [],
        rs_Outputs = OneOutput TBig ''*big.Int''\<rparr>,
      \<lparr>rs_Go = ''DefaultAdminDelayIncreaseWait'', rs_Name = ''defaultAdminDelayIncreaseWait'', rs_Inputs = [],
        rs_Outputs = OneOutput TBig ''*big.Int''\<rparr>,
      \<lparr>rs_Go = ''GetActiveProtocolAdapter'', rs_Name = ''getActiveProtocolAdapter'', rs_Inputs = [],
        rs_Outputs = OneOutput TAddr ''common.Address''\<rparr>,
      \<lparr>rs_Go = ''GetAdapterRegistry'', rs_Name = ''getAdapterRegistry'', rs_Inputs = [],
        rs_Outputs = OneOutput TAddr ''common.Address''\<rparr>,
      \<lparr>rs_Go = ''GetAllowlistEnabled'', rs_Name = ''getAllowlistEnabled'', rs_Inputs = [],
        rs_Outputs = OneOutput TBool ''bool''\<rparr>,
      \<lparr>rs_Go = ''GetAllowlistedUser'', rs_Name = ''getAllowlistedUser'', rs_Inputs = GetAllowlistedUserInput,
        rs_Outputs = OneOutput TBool ''bool''\<rparr>,
      \<lparr>rs_Go = ''GetAsset'', rs_Name = ''getAsset'', rs_Inputs = [],
        rs_Outputs = OneOutput TAddr ''common.Address''\<rparr>,
      \<lparr>rs_Go = ''GetAssetPrecision'', rs_Name = ''getAssetPrecision'', rs_Inputs = [],
        rs_Outputs = OneOutput TBig ''*big.Int''\<rparr>,
      \<lparr>rs_Go = ''GetCCVsAndFinalityConfig'', rs_Name = ''getCCVsAndFinalityConfig'',
        rs_Inputs = GetCCVsAndFinalityConfigInput, rs_Outputs = StructOutput [(''RequiredCCVs'', TList TAddr,
        ''[]common.Address''), (''OptionalCCVs'', TList TAddr, ''[]common.Address''),
        (''OptionalThreshold'', TU8, ''uint8''), (''AllowedFinalityConfig'', TFix 4, ''[4]byte'')]\<rparr>,
      \<lparr>rs_Go = ''GetCcipGasLimit'', rs_Name = ''getCcipGasLimit'', rs_Inputs = GetCcipGasLimitInput,
        rs_Outputs = OneOutput TBig ''*big.Int''\<rparr>,
      \<lparr>rs_Go = ''GetCrosschainVault'', rs_Name = ''getCrosschainVault'', rs_Inputs = GetCrosschainVaultInput,
        rs_Outputs = OneOutput TAddr ''common.Address''\<rparr>,
      \<lparr>rs_Go = ''GetDefaultCcipGasLimit'', rs_Name = ''getDefaultCcipGasLimit'', rs_Inputs = [],
        rs_Outputs = OneOutput TBig ''*big.Int''\<rparr>,
      \<lparr>rs_Go = ''GetDepositAmount'', rs_Name = ''getDepositAmount'', rs_Inputs = GetDepositAmountInput,
        rs_Outputs = OneOutput TBig ''*big.Int''\<rparr>,
      \<lparr>rs_Go = ''GetEpoch'', rs_Name = ''getEpoch'', rs_Inputs = GetEpochInput,
        rs_Outputs = OneOutput epoch_type ''TypesEpoch''\<rparr>,
      \<lparr>rs_Go = ''GetEpochNonce'', rs_Name = ''getEpochNonce'', rs_Inputs = [],
        rs_Outputs = OneOutput TBig ''*big.Int''\<rparr>,
      \<lparr>rs_Go = ''GetInitialActiveProtocolAdapterSet'', rs_Name = ''getInitialActiveProtocolAdapterSet'',
        rs_Inputs = [], rs_Outputs = OneOutput TBool ''bool''\<rparr>,
      \<lparr>rs_Go = ''GetLink'', rs_Name = ''getLink'', rs_Inputs = [],
        rs_Outputs = OneOutput TAddr ''common.Address''\<rparr>,
      \<lparr>rs_Go = ''GetMinAssetAmount'', rs_Name = ''getMinAssetAmount'', rs_Inputs = [],
        rs_Outputs = OneOutput TBig ''*big.Int''\<rparr>,
      \<lparr>rs_Go = ''GetRebalance'', rs_Name = ''getRebalance'', rs_Inputs = [],
        rs_Outputs = OneOutput rebalance_type ''TypesRebalance''\<rparr>,
      \<lparr>rs_Go = ''GetRebalanceDepositRecovery'', rs_Name = ''getRebalanceDepositRecovery'', rs_Inputs = [],
        rs_Outputs = OneOutput (TStruct TypesRebalanceDepositRecovery) ''TypesRebalanceDepositRecovery''\<rparr>,
      \<lparr>rs_Go = ''GetRecoveryMode'', rs_Name = ''getRecoveryMode'', rs_Inputs = [],
        rs_Outputs = OneOutput TU8 ''uint8''\<rparr>,
      \<lparr>rs_Go = ''GetRoleAdmin'', rs_Name = ''getRoleAdmin'', rs_Inputs = GetRoleAdminInput,
        rs_Outputs = OneOutput (TFix 32) ''[32]byte''\<rparr>,
      \<lparr>rs_Go = ''GetRouter'', rs_Name = ''getRouter'', rs_Inputs = [],
        rs_Outputs = OneOutput TAddr ''common.Address''\<rparr>,
      \<lparr>rs_Go = ''GetShare'', rs_Name = ''getShare'', rs_Inputs = [],
        rs_Outputs = OneOutput TAddr ''common.Address''\<rparr>,
      \<lparr>rs_Go = ''GetSupportedProtocol'', rs_Name = ''getSupportedProtocol'',
        rs_Inputs = GetSupportedProtocolInput, rs_Outputs = OneOutput TBool ''bool''\<rparr>,
      \<lparr>rs_Go = ''GetTVL'', rs_Name = ''getTVL'', rs_Inputs = [], rs_Outputs = OneOutput TBig ''*big.Int''\<rparr>,
      \<lparr>rs_Go = ''GetThisChainSelector'', rs_Name = ''getThisChainSelector'', rs_Inputs = [],
        rs_Outputs = OneOutput TU64 ''uint64''\<rparr>,
      \<lparr>rs_Go = ''GetTotalShares'', rs_Name = ''getTotalShares'', rs_Inputs = [],
        rs_Outputs = OneOutput TBig ''*big.Int''\<rparr>,
      \<lparr>rs_Go = ''GetTreasury'', rs_Name = ''getTreasury'', rs_Inputs = [],
        rs_Outputs = OneOutput TAddr ''common.Address''\<rparr>,
      \<lparr>rs_Go = ''GetWithdrawShareBurnAmount'', rs_Name = ''getWithdrawShareBurnAmount'',
        rs_Inputs = GetWithdrawShareBurnAmountInput, rs_Outputs = OneOutput TBig ''*big.Int''\<rparr>,
      \<lparr>rs_Go = ''HasRole'', rs_Name = ''hasRole'', rs_Inputs = HasRoleInput,
        rs_Outputs = OneOutput TBool ''bool''\<rparr>,
      \<lparr>rs_Go = ''Owner'', rs_Name = ''owner'', rs_Inputs = [],
        rs_Outputs = OneOutput TAddr ''common.Address''\<rparr>,
      \<lparr>rs_Go = ''Paused'', rs_Name = ''paused'', rs_Inputs = [], rs_Outputs = OneOutput TBool ''bool''\<rparr>,
      \<lparr>rs_Go = ''PendingDefaultAdmin'', rs_Name = ''pendingDefaultAdmin'', rs_Inputs = [],
        rs_Outputs = StructOutput [(''NewAdmin'', TAddr, ''common.Address''),
        (''Schedule'', TBig, ''*big.Int'')]\<rparr>,
      \<lparr>rs_Go = ''PendingDefaultAdminDelay'', rs_Name = ''pendingDefaultAdminDelay'', rs_Inputs = [],
        rs_Outputs = StructOutput [(''NewDelay'', TBig, ''*big.Int''), (''Schedule'', TBig, ''*big.Int'')]\<rparr>,
      \<lparr>rs_Go = ''ProxiableUUID'', rs_Name = ''proxiableUUID'', rs_Inputs = [],
        rs_Outputs = OneOutput (TFix 32) ''[32]byte''\<rparr>]"

definition parent_reads :: "contract_read list" where
  "parent_reads =
     [\<lambda>E v _. DEFAULTADMINROLE E v,
      \<lambda>E v _. UPGRADEINTERFACEVERSION E v,
      \<lambda>E v _. DefaultAdmin E v,
      \<lambda>E v _. DefaultAdminDelay E v,
      \<lambda>E v _. DefaultAdminDelayIncreaseWait E v,
      \<lambda>E v _. GetActiveProtocolAdapter E v,
      \<lambda>E v _. GetAdapterRegistry E v,
      \<lambda>E v _. GetAllowlistEnabled E v,
      GetAllowlistedUser,
      \<lambda>E v _. GetAsset E v,
      \<lambda>E v _. GetAssetPrecision E v,
      GetCCVsAndFinalityConfig,
      GetCcipGasLimit,
      GetCrosschainVault,
      \<lambda>E v _. GetDefaultCcipGasLimit E v,
      GetDepositAmount,
      GetEpoch,
      \<lambda>E v _. GetEpochNonce E v,
      \<lambda>E v _. GetInitialActiveProtocolAdapterSet E v,
      \<lambda>E v _. GetLink E v,
      \<lambda>E v _. GetMinAssetAmount E v,
      \<lambda>E v _. GetRebalance E v,
      \<lambda>E v _. GetRebalanceDepositRecovery E v,
      \<lambda>E v _. GetRecoveryMode E v,
      GetRoleAdmin,
      \<lambda>E v _. GetRouter E v,
      \<lambda>E v _. GetShare E v,
      GetSupportedProtocol,
      \<lambda>E v _. GetTVL E v,
      \<lambda>E v _. GetThisChainSelector E v,
      \<lambda>E v _. GetTotalShares E v,
      \<lambda>E v _. GetTreasury E v,
      GetWithdrawShareBurnAmount,
      HasRole,
      \<lambda>E v _. Owner E v,
      \<lambda>E v _. Paused E v,
      \<lambda>E v _. PendingDefaultAdmin E v,
      \<lambda>E v _. PendingDefaultAdminDelay E v,
      \<lambda>E v _. ProxiableUUID E v]"

definition parent_mock_table :: "read_spec list" where
  "parent_mock_table = take 21 parent_read_table @
     [\<lparr>rs_Go = ''GetParentOperationalState'', rs_Name = ''getParentOperationalState'', rs_Inputs = [],
        rs_Outputs = OneOutput parent_state_type ''TypesParentOperationalState''\<rparr>] @
     drop 21 parent_read_table"

definition parent_struct_reports :: "((env \<Rightarrow> gval \<Rightarrow> byte list outcome) \<times> (env \<Rightarrow> vault_binding \<Rightarrow> gval \<Rightarrow> uint64 option \<Rightarrow> write_reply option prog)) list" where
  "parent_struct_reports =
     [(EncodeBaseVaultConstructorParamsStruct, WriteReportFromBaseVaultConstructorParams),
      (EncodeBaseVaultInitParamsStruct, WriteReportFromBaseVaultInitParams),
      (EncodeClientAny2EVMMessageStruct, WriteReportFromClientAny2EVMMessage),
      (EncodeClientEVMTokenAmountStruct, WriteReportFromClientEVMTokenAmount),
      (EncodeTypesEpochStruct, WriteReportFromTypesEpoch),
      (EncodeTypesParentOperationalStateStruct, WriteReportFromTypesParentOperationalState),
      (EncodeTypesRebalanceStruct, WriteReportFromTypesRebalance),
      (EncodeTypesRebalanceDepositRecoveryStruct, WriteReportFromTypesRebalanceDepositRecovery),
      (EncodeTypesStrategyStruct, WriteReportFromTypesStrategy)]"

lemmas parent_struct_defs =
  BeginDefaultAdminTransferInput_def
  ClientEVMTokenAmount_def
  ClientAny2EVMMessage_def
  CcipReceiveInput_def
  ChangeDefaultAdminDelayInput_def
  ClaimAssetInput_def
  ClaimAssetForInput_def
  ClaimSharesInput_def
  ClaimSharesForInput_def
  DepositInput_def
  DepositForInput_def
  ForceCancelDepositInput_def
  GetAllowlistedUserInput_def
  GetCCVsAndFinalityConfigInput_def
  GetCcipGasLimitInput_def
  GetCrosschainVaultInput_def
  GetDepositAmountInput_def
  GetEpochInput_def
  GetRoleAdminInput_def
  GetSupportedProtocolInput_def
  GetWithdrawShareBurnAmountInput_def
  GrantRoleInput_def
  HasRoleInput_def
  BaseVaultInitParams_def
  InitializeInput_def
  RenounceRoleInput_def
  RevokeRoleInput_def
  SetAllowlistEnabledInput_def
  SetAllowlistedUsersInput_def
  SetCcipGasLimitInput_def
  SetCrosschainVaultsInput_def
  SetDefaultCcipGasLimitInput_def
  SetInitialActiveProtocolAdapterInput_def
  SetSupportedProtocolInput_def
  SetTreasuryInput_def
  SupportsInterfaceInput_def
  TryDepositToAdapterInput_def
  UpgradeToAndCallInput_def
  WithdrawInput_def
  WithdrawForInput_def
  WithdrawLinkInput_def
  TypesRebalanceDepositRecovery_def
  BaseVaultConstructorParams_def

lemmas parent_encoder_defs =
  EncodeDEFAULTADMINROLEMethodCall_def
  EncodeUPGRADEINTERFACEVERSIONMethodCall_def
  EncodeAcceptDefaultAdminTransferMethodCall_def
  EncodeBeginDefaultAdminTransferMethodCall_def
  EncodeCancelDefaultAdminTransferMethodCall_def
  EncodeCancelDepositMethodCall_def
  EncodeCancelWithdrawMethodCall_def
  EncodeCcipReceiveMethodCall_def
  EncodeChangeDefaultAdminDelayMethodCall_def
  EncodeClaimAssetMethodCall_def
  EncodeClaimAssetForMethodCall_def
  EncodeClaimSharesMethodCall_def
  EncodeClaimSharesForMethodCall_def
  EncodeDefaultAdminMethodCall_def
  EncodeDefaultAdminDelayMethodCall_def
  EncodeDefaultAdminDelayIncreaseWaitMethodCall_def
  EncodeDepositMethodCall_def
  EncodeDepositForMethodCall_def
  EncodeExecuteRecoveryMethodCall_def
  EncodeForceCancelDepositMethodCall_def
  EncodeGetActiveProtocolAdapterMethodCall_def
  EncodeGetAdapterRegistryMethodCall_def
  EncodeGetAllowlistEnabledMethodCall_def
  EncodeGetAllowlistedUserMethodCall_def
  EncodeGetAssetMethodCall_def
  EncodeGetAssetPrecisionMethodCall_def
  EncodeGetCCVsAndFinalityConfigMethodCall_def
  EncodeGetCcipGasLimitMethodCall_def
  EncodeGetCrosschainVaultMethodCall_def
  EncodeGetDefaultCcipGasLimitMethodCall_def
  EncodeGetDepositAmountMethodCall_def
  EncodeGetEpochMethodCall_def
  EncodeGetEpochNonceMethodCall_def
  EncodeGetInitialActiveProtocolAdapterSetMethodCall_def
  EncodeGetLinkMethodCall_def
  EncodeGetMinAssetAmountMethodCall_def
  EncodeGetParentOperationalStateMethodCall_def
  EncodeGetRebalanceMethodCall_def
  EncodeGetRebalanceDepositRecoveryMethodCall_def
  EncodeGetRecoveryModeMethodCall_def
  EncodeGetRoleAdminMethodCall_def
  EncodeGetRouterMethodCall_def
  EncodeGetShareMethodCall_def
  EncodeGetSharePrecisionMethodCall_def
  EncodeGetSupportedProtocolMethodCall_def
  EncodeGetTVLMethodCall_def
  EncodeGetThisChainSelectorMethodCall_def
  EncodeGetTotalSharesMethodCall_def
  EncodeGetTreasuryMethodCall_def
  EncodeGetWithdrawShareBurnAmountMethodCall_def
  EncodeGrantRoleMethodCall_def
  EncodeHasRoleMethodCall_def
  EncodeInitializeMethodCall_def
  EncodeOwnerMethodCall_def
  EncodePauseMethodCall_def
  EncodePausedMethodCall_def
  EncodePendingDefaultAdminMethodCall_def
  EncodePendingDefaultAdminDelayMethodCall_def
  EncodeProxiableUUIDMethodCall_def
  EncodeRenounceRoleMethodCall_def
  EncodeRevokeRoleMethodCall_def
  EncodeRollbackDefaultAdminDelayMethodCall_def
  EncodeSetAllowlistEnabledMethodCall_def
  EncodeSetAllowlistedUsersMethodCall_def
  EncodeSetCcipGasLimitMethodCall_def
  EncodeSetCrosschainVaultsMethodCall_def
  EncodeSetDefaultCcipGasLimitMethodCall_def
  EncodeSetInitialActiveProtocolAdapterMethodCall_def
  EncodeSetSupportedProtocolMethodCall_def
  EncodeSetTreasuryMethodCall_def
  EncodeSupportsInterfaceMethodCall_def
  EncodeTryDepositToAdapterMethodCall_def
  EncodeUnpauseMethodCall_def
  EncodeUpgradeToAndCallMethodCall_def
  EncodeWithdrawMethodCall_def
  EncodeWithdrawForMethodCall_def
  EncodeWithdrawLinkMethodCall_def

lemmas parent_read_defs =
  DEFAULTADMINROLE_def
  UPGRADEINTERFACEVERSION_def
  DefaultAdmin_def
  DefaultAdminDelay_def
  DefaultAdminDelayIncreaseWait_def
  GetActiveProtocolAdapter_def
  GetAdapterRegistry_def
  GetAllowlistEnabled_def
  GetAllowlistedUser_def
  GetAsset_def
  GetAssetPrecision_def
  GetCCVsAndFinalityConfig_def
  GetCcipGasLimit_def
  GetCrosschainVault_def
  GetDefaultCcipGasLimit_def
  GetDepositAmount_def
  GetEpoch_def
  GetEpochNonce_def
  GetInitialActiveProtocolAdapterSet_def
  GetLink_def
  GetMinAssetAmount_def
  GetRebalance_def
  GetRebalanceDepositRecovery_def
  GetRecoveryMode_def
  GetRoleAdmin_def
  GetRouter_def
  GetShare_def
  GetSupportedProtocol_def
  GetTVL_def
  GetThisChainSelector_def
  GetTotalShares_def
  GetTreasury_def
  GetWithdrawShareBurnAmount_def
  HasRole_def
  Owner_def
  Paused_def
  PendingDefaultAdmin_def
  PendingDefaultAdminDelay_def
  ProxiableUUID_def
  DecodeDEFAULTADMINROLEMethodOutput_def
  DecodeUPGRADEINTERFACEVERSIONMethodOutput_def
  DecodeClaimAssetMethodOutput_def
  DecodeClaimAssetForMethodOutput_def
  DecodeClaimSharesMethodOutput_def
  DecodeClaimSharesForMethodOutput_def
  DecodeDefaultAdminMethodOutput_def
  DecodeDefaultAdminDelayMethodOutput_def
  DecodeDefaultAdminDelayIncreaseWaitMethodOutput_def
  DecodeDepositMethodOutput_def
  DecodeDepositForMethodOutput_def
  DecodeGetActiveProtocolAdapterMethodOutput_def
  DecodeGetAdapterRegistryMethodOutput_def
  DecodeGetAllowlistEnabledMethodOutput_def
  DecodeGetAllowlistedUserMethodOutput_def
  DecodeGetAssetMethodOutput_def
  DecodeGetAssetPrecisionMethodOutput_def
  DecodeGetCCVsAndFinalityConfigMethodOutput_def
  DecodeGetCcipGasLimitMethodOutput_def
  DecodeGetCrosschainVaultMethodOutput_def
  DecodeGetDefaultCcipGasLimitMethodOutput_def
  DecodeGetDepositAmountMethodOutput_def
  DecodeGetEpochMethodOutput_def
  DecodeGetEpochNonceMethodOutput_def
  DecodeGetInitialActiveProtocolAdapterSetMethodOutput_def
  DecodeGetLinkMethodOutput_def
  DecodeGetMinAssetAmountMethodOutput_def
  DecodeGetRebalanceMethodOutput_def
  DecodeGetRebalanceDepositRecoveryMethodOutput_def
  DecodeGetRecoveryModeMethodOutput_def
  DecodeGetRoleAdminMethodOutput_def
  DecodeGetRouterMethodOutput_def
  DecodeGetShareMethodOutput_def
  DecodeGetSharePrecisionMethodOutput_def
  DecodeGetSupportedProtocolMethodOutput_def
  DecodeGetTVLMethodOutput_def
  DecodeGetThisChainSelectorMethodOutput_def
  DecodeGetTotalSharesMethodOutput_def
  DecodeGetTreasuryMethodOutput_def
  DecodeGetWithdrawShareBurnAmountMethodOutput_def
  DecodeHasRoleMethodOutput_def
  DecodeOwnerMethodOutput_def
  DecodePausedMethodOutput_def
  DecodePendingDefaultAdminMethodOutput_def
  DecodePendingDefaultAdminDelayMethodOutput_def
  DecodeProxiableUUIDMethodOutput_def
  DecodeSupportsInterfaceMethodOutput_def
  DecodeWithdrawMethodOutput_def
  DecodeWithdrawForMethodOutput_def

lemmas parent_mock_defs =
  parent_mock_DEFAULT_ADMIN_ROLE_def
  parent_mock_UPGRADE_INTERFACE_VERSION_def
  parent_mock_defaultAdmin_def
  parent_mock_defaultAdminDelay_def
  parent_mock_defaultAdminDelayIncreaseWait_def
  parent_mock_getActiveProtocolAdapter_def
  parent_mock_getAdapterRegistry_def
  parent_mock_getAllowlistEnabled_def
  parent_mock_getAllowlistedUser_def
  parent_mock_getAsset_def
  parent_mock_getAssetPrecision_def
  parent_mock_getCCVsAndFinalityConfig_def
  parent_mock_getCcipGasLimit_def
  parent_mock_getCrosschainVault_def
  parent_mock_getDefaultCcipGasLimit_def
  parent_mock_getDepositAmount_def
  parent_mock_getEpoch_def
  parent_mock_getEpochNonce_def
  parent_mock_getInitialActiveProtocolAdapterSet_def
  parent_mock_getLink_def
  parent_mock_getMinAssetAmount_def
  parent_mock_getParentOperationalState_def
  parent_mock_getRebalance_def
  parent_mock_getRebalanceDepositRecovery_def
  parent_mock_getRecoveryMode_def
  parent_mock_getRoleAdmin_def
  parent_mock_getRouter_def
  parent_mock_getShare_def
  parent_mock_getSupportedProtocol_def
  parent_mock_getTVL_def
  parent_mock_getThisChainSelector_def
  parent_mock_getTotalShares_def
  parent_mock_getTreasury_def
  parent_mock_getWithdrawShareBurnAmount_def
  parent_mock_hasRole_def
  parent_mock_owner_def
  parent_mock_paused_def
  parent_mock_pendingDefaultAdmin_def
  parent_mock_pendingDefaultAdminDelay_def
  parent_mock_proxiableUUID_def

lemmas parent_report_defs =
  WriteReportFromBaseVaultConstructorParams_def
  WriteReportFromBaseVaultInitParams_def
  WriteReportFromClientAny2EVMMessage_def
  WriteReportFromClientEVMTokenAmount_def
  WriteReportFromTypesEpoch_def
  WriteReportFromTypesParentOperationalState_def
  WriteReportFromTypesRebalance_def
  WriteReportFromTypesRebalanceDepositRecovery_def
  WriteReportFromTypesStrategy_def

lemma parent_calls_eq: "parent_calls = (map table_call parent_call_table)[13 := \<lambda>c inp. EncodeCloseEpochMethodCall c \<lparr>ce_ExpectedEpochNonce = as_big (map_of inp ''ExpectedEpochNonce''), ce_Tvl = as_big (map_of inp ''Tvl'')\<rparr>,
    14 := \<lambda>c inp. EncodeCompleteEpochDepositMethodCall c \<lparr>cd_ExpectedEpochNonce = as_big (map_of inp ''ExpectedEpochNonce''), cd_ActualDepositAmount = as_big (map_of inp ''ActualDepositAmount'')\<rparr>,
    15 := \<lambda>c inp. EncodeCompleteRebalanceMethodCall c \<lparr>cr_ExpectedRebalanceNonce = as_big (map_of inp ''ExpectedRebalanceNonce'')\<rparr>,
    56 := \<lambda>c inp. EncodeInitiateRebalanceMethodCall c \<lparr>ir_ExpectedRebalanceNonce = as_big (map_of inp ''ExpectedRebalanceNonce''), ir_NewStrategy = strategy_of (as_struct (map_of inp ''NewStrategy''))\<rparr>]"
  by (simp add: parent_calls_def parent_call_table_def table_call_def parent_encoder_defs parent_struct_defs fun_eq_iff)

lemma parent_call_fields: "list_all (\<lambda>s. distinct (map fst (snd s))) parent_call_table"
  by (simp add: parent_call_table_def parent_struct_defs)

text \<open>The calls the workflow makes have encoders that take records.\<close>

lemma parent_workflow_calls_ok:
  "call_ok (''closeEpoch'', [(''ExpectedEpochNonce'', TBig), (''Tvl'', TBig)])
     (\<lambda>c inp. EncodeCloseEpochMethodCall c \<lparr>ce_ExpectedEpochNonce = as_big (map_of inp ''ExpectedEpochNonce''), ce_Tvl = as_big (map_of inp ''Tvl'')\<rparr>)"
  "call_ok (''completeEpochDeposit'', [(''ExpectedEpochNonce'', TBig), (''ActualDepositAmount'', TBig)])
     (\<lambda>c inp. EncodeCompleteEpochDepositMethodCall c \<lparr>cd_ExpectedEpochNonce = as_big (map_of inp ''ExpectedEpochNonce''), cd_ActualDepositAmount = as_big (map_of inp ''ActualDepositAmount'')\<rparr>)"
  "call_ok (''completeRebalance'', [(''ExpectedRebalanceNonce'', TBig)])
     (\<lambda>c inp. EncodeCompleteRebalanceMethodCall c \<lparr>cr_ExpectedRebalanceNonce = as_big (map_of inp ''ExpectedRebalanceNonce'')\<rparr>)"
  "call_ok (''initiateRebalance'', [(''ExpectedRebalanceNonce'', TBig), (''NewStrategy'', strategy_type)])
     (\<lambda>c inp. EncodeInitiateRebalanceMethodCall c \<lparr>ir_ExpectedRebalanceNonce = as_big (map_of inp ''ExpectedRebalanceNonce''), ir_NewStrategy = strategy_of (as_struct (map_of inp ''NewStrategy''))\<rparr>)"
  by (auto simp: call_ok_def strategy_type_def has_type_iff map_eq_Cons_conv list_all2_Cons1 strategy_arg_def strategy_of_def
      EncodeCloseEpochMethodCall_def EncodeCompleteEpochDepositMethodCall_def EncodeCompleteRebalanceMethodCall_def EncodeInitiateRebalanceMethodCall_def simp del: has_type.simps)

lemma parent_call_table_at:
  "parent_call_table ! 13 = (''closeEpoch'', [(''ExpectedEpochNonce'', TBig), (''Tvl'', TBig)])"
  "parent_call_table ! 14 = (''completeEpochDeposit'', [(''ExpectedEpochNonce'', TBig), (''ActualDepositAmount'', TBig)])"
  "parent_call_table ! 15 = (''completeRebalance'', [(''ExpectedRebalanceNonce'', TBig)])"
  "parent_call_table ! 56 = (''initiateRebalance'', [(''ExpectedRebalanceNonce'', TBig), (''NewStrategy'', strategy_type)])"
  "length parent_call_table = 81"
  by (simp_all add: parent_call_table_def)

lemma parent_calls_ok: "list_all2 call_ok parent_call_table parent_calls"
  unfolding parent_calls_eq
  by (intro call_ok_update table_calls_ok parent_call_fields) (simp_all add: parent_call_table_at parent_workflow_calls_ok)

lemma parent_reads_eq: "parent_reads = map table_read parent_read_table"
  by (simp add: parent_reads_def parent_read_table_def table_read_def table_call_def parent_read_defs parent_encoder_defs parent_struct_defs fun_eq_iff)

lemma parent_funcMap_eq: "parent_funcMap k c = map (table_mock c k) parent_mock_table"
  by (simp add: parent_funcMap_def parent_mock_table_def parent_read_table_def table_mock_def parent_mock_defs)

lemma parent_names: "distinct (map am_Name parent_methods)"
  by (rule names_distinct) code_simp

lemma parent_calls_conform: "list_all (inputs_conform parent_methods) parent_call_table"
proof (rule inputs_conformI)
  show "aligned inputs_fit fst parent_methods parent_call_table" by code_simp
qed (rule parent_names)

lemma parent_reads_conform: "list_all (read_conforms parent_methods) parent_read_table"
proof (rule read_conformsI)
  show "aligned read_fits rs_Name parent_methods parent_read_table" by code_simp
qed (rule parent_names)

interpretation parent_contract: contract_binding parent_methods NewParentVault parent_call_table parent_calls
  parent_read_table parent_reads parent_mock_table parent_funcMap
proof unfold_locales
  show "set parent_read_table \<subseteq> set parent_mock_table"
    unfolding parent_mock_table_def by (rule subset_take_drop)
qed (use parent_calls_ok parent_calls_conform parent_reads_conform in \<open>auto simp: NewParentVault_def parent_NewCodec_def bindO_Ok_iff parent_reads_eq parent_funcMap_eq\<close>)

lemma parent_struct_reports_ok: "list_all (\<lambda>(enc, write). \<forall>E v inp gas. write E v inp gas = write_report_from E v (enc E inp) gas) parent_struct_reports"
  by (simp add: parent_struct_reports_def parent_report_defs)

end
