(* ===== verification/Child_Calls.thy ===== *)
theory Child_Calls
  imports Binding_Contracts
begin

text \<open>
  The calls of the generated ChildVault package (\<open>cre/contracts/evm/generated/child_vault/ChildVault.go\<close>): the methods of
  its ABI literal, the input structs, the call encoders and output decoders, the contract reads, the struct encoders with
  their report writers, and the functions of its test double. Each is an instance of a shape of \<open>Binding_Shapes\<close>; the
  interpretation at the end checks the package against its ABI literal.
\<close>

section \<open>The ABI literal\<close>

definition child_methods :: "abi_method list" where
  "child_methods =
     [\<lparr>am_Name = ''DEFAULT_ADMIN_ROLE'', am_Inputs = [], am_Outputs = [('''', SFixed 32)]\<rparr>,
      \<lparr>am_Name = ''UPGRADE_INTERFACE_VERSION'', am_Inputs = [], am_Outputs = [('''', SString)]\<rparr>,
      \<lparr>am_Name = ''acceptDefaultAdminTransfer'', am_Inputs = [], am_Outputs = []\<rparr>,
      \<lparr>am_Name = ''beginDefaultAdminTransfer'', am_Inputs = [(''newAdmin'', SAddress)], am_Outputs = []\<rparr>,
      \<lparr>am_Name = ''cancelDefaultAdminTransfer'', am_Inputs = [], am_Outputs = []\<rparr>,
      \<lparr>am_Name = ''ccipReceive'', am_Inputs = [(''message'', STuple [(''messageId'', SFixed 32),
        (''sourceChainSelector'', SUint 64), (''sender'', SBytes), (''data'', SBytes),
        (''destTokenAmounts'', SArray (STuple [(''token'', SAddress),
        (''amount'', SUint 256)]))])], am_Outputs = []\<rparr>,
      \<lparr>am_Name = ''changeDefaultAdminDelay'', am_Inputs = [(''newDelay'', SUint 48)], am_Outputs = []\<rparr>,
      \<lparr>am_Name = ''defaultAdmin'', am_Inputs = [], am_Outputs = [('''', SAddress)]\<rparr>,
      \<lparr>am_Name = ''defaultAdminDelay'', am_Inputs = [], am_Outputs = [('''', SUint 48)]\<rparr>,
      \<lparr>am_Name = ''defaultAdminDelayIncreaseWait'', am_Inputs = [], am_Outputs = [('''', SUint 48)]\<rparr>,
      \<lparr>am_Name = ''executeEpochWithdraw'', am_Inputs = [(''epochNonce'', SUint 256),
        (''amount'', SUint 256)], am_Outputs = []\<rparr>,
      \<lparr>am_Name = ''executeRebalance'', am_Inputs = [(''rebalanceNonce'', SUint 256),
        (''newStrategy'', STuple [(''protocolId'', SFixed 32),
        (''chainSelector'', SUint 64)])], am_Outputs = []\<rparr>,
      \<lparr>am_Name = ''executeRecovery'', am_Inputs = [], am_Outputs = []\<rparr>,
      \<lparr>am_Name = ''getActiveProtocolAdapter'', am_Inputs = [], am_Outputs = [(''activeProtocolAdapter'',
        SAddress)]\<rparr>,
      \<lparr>am_Name = ''getAdapterRegistry'', am_Inputs = [], am_Outputs = [(''adapterRegistry'', SAddress)]\<rparr>,
      \<lparr>am_Name = ''getAsset'', am_Inputs = [], am_Outputs = [(''asset'', SAddress)]\<rparr>,
      \<lparr>am_Name = ''getAssetPrecision'', am_Inputs = [], am_Outputs = [(''assetPrecision'', SUint 256)]\<rparr>,
      \<lparr>am_Name = ''getCCVsAndFinalityConfig'', am_Inputs = [('''', SUint 64),
        ('''', SBytes)], am_Outputs = [(''requiredCCVs'', SArray SAddress), (''optionalCCVs'', SArray SAddress),
        (''optionalThreshold'', SUint 8), (''allowedFinalityConfig'', SFixed 4)]\<rparr>,
      \<lparr>am_Name = ''getCcipGasLimit'', am_Inputs = [(''chainSelector'', SUint 64)], am_Outputs = [(''gasLimit'',
        SUint 256)]\<rparr>,
      \<lparr>am_Name = ''getCcipSendRecovery'', am_Inputs = [], am_Outputs = [(''recovery'', STuple [(''amount'',
        SUint 256), (''nonce'', SUint 256), (''protocolId'', SFixed 32), (''destinationChainSelector'', SUint 64),
        (''ccipTxType'', SUint 8)])]\<rparr>,
      \<lparr>am_Name = ''getChildOperationalState'', am_Inputs = [], am_Outputs = [(''state'', STuple [(''paused'',
        SBool), (''recoveryMode'', SUint 8), (''lastHandledEpochNonce'', SUint 256),
        (''lastHandledRebalanceNonce'', SUint 256), (''tvl'', SUint 256)])]\<rparr>,
      \<lparr>am_Name = ''getCrosschainVault'', am_Inputs = [(''chainSelector'', SUint 64)], am_Outputs = [(''vault'',
        SAddress)]\<rparr>,
      \<lparr>am_Name = ''getDefaultCcipGasLimit'', am_Inputs = [], am_Outputs = [(''defaultCcipGasLimit'',
        SUint 256)]\<rparr>,
      \<lparr>am_Name = ''getEpochDepositRecovery'', am_Inputs = [], am_Outputs = [(''recovery'',
        STuple [(''epochNonce'', SUint 256), (''amount'', SUint 256)])]\<rparr>,
      \<lparr>am_Name = ''getEpochWithdrawRecovery'', am_Inputs = [], am_Outputs = [(''recovery'',
        STuple [(''epochNonce'', SUint 256), (''amount'', SUint 256)])]\<rparr>,
      \<lparr>am_Name = ''getLastHandledEpochNonce'', am_Inputs = [], am_Outputs = [(''lastHandledEpochNonce'',
        SUint 256)]\<rparr>,
      \<lparr>am_Name = ''getLastHandledRebalanceNonce'', am_Inputs = [], am_Outputs = [(''lastHandledRebalanceNonce'',
        SUint 256)]\<rparr>,
      \<lparr>am_Name = ''getLink'', am_Inputs = [], am_Outputs = [(''link'', SAddress)]\<rparr>,
      \<lparr>am_Name = ''getParentChainSelector'', am_Inputs = [], am_Outputs = [(''parentChainSelector'',
        SUint 64)]\<rparr>,
      \<lparr>am_Name = ''getRebalanceDepositRecovery'', am_Inputs = [], am_Outputs = [(''recovery'',
        STuple [(''rebalanceNonce'', SUint 256), (''amount'', SUint 256)])]\<rparr>,
      \<lparr>am_Name = ''getRebalanceWithdrawRecovery'', am_Inputs = [], am_Outputs = [(''recovery'',
        STuple [(''rebalanceNonce'', SUint 256), (''strategy'', STuple [(''protocolId'', SFixed 32),
        (''chainSelector'', SUint 64)])])]\<rparr>,
      \<lparr>am_Name = ''getRecoveryMode'', am_Inputs = [], am_Outputs = [(''recoveryMode'', SUint 8)]\<rparr>,
      \<lparr>am_Name = ''getRoleAdmin'', am_Inputs = [(''role'', SFixed 32)], am_Outputs = [('''', SFixed 32)]\<rparr>,
      \<lparr>am_Name = ''getRouter'', am_Inputs = [], am_Outputs = [('''', SAddress)]\<rparr>,
      \<lparr>am_Name = ''getTVL'', am_Inputs = [], am_Outputs = [(''tvl'', SUint 256)]\<rparr>,
      \<lparr>am_Name = ''getThisChainSelector'', am_Inputs = [], am_Outputs = [(''thisChainSelector'', SUint 64)]\<rparr>,
      \<lparr>am_Name = ''grantRole'', am_Inputs = [(''role'', SFixed 32),
        (''account'', SAddress)], am_Outputs = []\<rparr>,
      \<lparr>am_Name = ''hasRole'', am_Inputs = [(''role'', SFixed 32),
        (''account'', SAddress)], am_Outputs = [('''', SBool)]\<rparr>,
      \<lparr>am_Name = ''initialize'', am_Inputs = [(''params'', STuple [(''defaultAdmin'', SAddress),
        (''pauser'', SAddress), (''unpauser'', SAddress), (''configOperator'', SAddress),
        (''initialDefaultCcipGasLimit'', SUint 256), (''upgrader'', SAddress)])], am_Outputs = []\<rparr>,
      \<lparr>am_Name = ''owner'', am_Inputs = [], am_Outputs = [('''', SAddress)]\<rparr>,
      \<lparr>am_Name = ''pause'', am_Inputs = [], am_Outputs = []\<rparr>,
      \<lparr>am_Name = ''paused'', am_Inputs = [], am_Outputs = [('''', SBool)]\<rparr>,
      \<lparr>am_Name = ''pendingDefaultAdmin'', am_Inputs = [], am_Outputs = [(''newAdmin'', SAddress),
        (''schedule'', SUint 48)]\<rparr>,
      \<lparr>am_Name = ''pendingDefaultAdminDelay'', am_Inputs = [], am_Outputs = [(''newDelay'', SUint 48),
        (''schedule'', SUint 48)]\<rparr>,
      \<lparr>am_Name = ''proxiableUUID'', am_Inputs = [], am_Outputs = [('''', SFixed 32)]\<rparr>,
      \<lparr>am_Name = ''renounceRole'', am_Inputs = [(''role'', SFixed 32),
        (''account'', SAddress)], am_Outputs = []\<rparr>,
      \<lparr>am_Name = ''revokeRole'', am_Inputs = [(''role'', SFixed 32),
        (''account'', SAddress)], am_Outputs = []\<rparr>,
      \<lparr>am_Name = ''rollbackDefaultAdminDelay'', am_Inputs = [], am_Outputs = []\<rparr>,
      \<lparr>am_Name = ''setCcipGasLimit'', am_Inputs = [(''chainSelector'', SUint 64),
        (''gasLimit'', SUint 256)], am_Outputs = []\<rparr>,
      \<lparr>am_Name = ''setCrosschainVaults'', am_Inputs = [(''chainSelectors'', SArray (SUint 64)),
        (''vaults'', SArray SAddress)], am_Outputs = []\<rparr>,
      \<lparr>am_Name = ''setDefaultCcipGasLimit'', am_Inputs = [(''gasLimit'', SUint 256)], am_Outputs = []\<rparr>,
      \<lparr>am_Name = ''supportsInterface'', am_Inputs = [(''interfaceId'', SFixed 4)], am_Outputs = [(''isSupported'',
        SBool)]\<rparr>,
      \<lparr>am_Name = ''tryCcipSend'', am_Inputs = [(''bridgeAmount'', SUint 256),
        (''destinationChainSelector'', SUint 64), (''ccipTxType'', SUint 8), (''nonce'', SUint 256),
        (''protocolId'', SFixed 32)], am_Outputs = []\<rparr>,
      \<lparr>am_Name = ''tryDepositToAdapter'', am_Inputs = [(''adapter'', SAddress),
        (''amount'', SUint 256)], am_Outputs = []\<rparr>,
      \<lparr>am_Name = ''unpause'', am_Inputs = [], am_Outputs = []\<rparr>,
      \<lparr>am_Name = ''upgradeToAndCall'', am_Inputs = [(''newImplementation'', SAddress),
        (''data'', SBytes)], am_Outputs = []\<rparr>,
      \<lparr>am_Name = ''withdrawLink'', am_Inputs = [(''amount'', SUint 256)], am_Outputs = []\<rparr>]"

section \<open>Structs\<close>

definition child_BeginDefaultAdminTransferInput :: "struct_type" where
  "child_BeginDefaultAdminTransferInput = [(''NewAdmin'', TAddr)]"

definition child_ClientEVMTokenAmount :: "struct_type" where
  "child_ClientEVMTokenAmount = [(''Token'', TAddr), (''Amount'', TBig)]"

definition child_ClientAny2EVMMessage :: "struct_type" where
  "child_ClientAny2EVMMessage = [(''MessageId'', TFix 32), (''SourceChainSelector'', TU64), (''Sender'', TBytes),
       (''Data'', TBytes), (''DestTokenAmounts'', TList (TStruct child_ClientEVMTokenAmount))]"

definition child_CcipReceiveInput :: "struct_type" where
  "child_CcipReceiveInput = [(''Message'', TStruct child_ClientAny2EVMMessage)]"

definition child_ChangeDefaultAdminDelayInput :: "struct_type" where
  "child_ChangeDefaultAdminDelayInput = [(''NewDelay'', TBig)]"

definition child_GetCCVsAndFinalityConfigInput :: "struct_type" where
  "child_GetCCVsAndFinalityConfigInput = [(''Arg0'', TU64), (''Arg1'', TBytes)]"

definition child_GetCcipGasLimitInput :: "struct_type" where
  "child_GetCcipGasLimitInput = [(''ChainSelector'', TU64)]"

definition child_GetCrosschainVaultInput :: "struct_type" where
  "child_GetCrosschainVaultInput = [(''ChainSelector'', TU64)]"

definition child_GetRoleAdminInput :: "struct_type" where
  "child_GetRoleAdminInput = [(''Role'', TFix 32)]"

definition child_GrantRoleInput :: "struct_type" where
  "child_GrantRoleInput = [(''Role'', TFix 32), (''Account'', TAddr)]"

definition child_HasRoleInput :: "struct_type" where
  "child_HasRoleInput = [(''Role'', TFix 32), (''Account'', TAddr)]"

definition child_BaseVaultInitParams :: "struct_type" where
  "child_BaseVaultInitParams = [(''DefaultAdmin'', TAddr), (''Pauser'', TAddr), (''Unpauser'', TAddr),
       (''ConfigOperator'', TAddr), (''InitialDefaultCcipGasLimit'', TBig), (''Upgrader'', TAddr)]"

definition child_InitializeInput :: "struct_type" where
  "child_InitializeInput = [(''Params'', TStruct child_BaseVaultInitParams)]"

definition child_RenounceRoleInput :: "struct_type" where
  "child_RenounceRoleInput = [(''Role'', TFix 32), (''Account'', TAddr)]"

definition child_RevokeRoleInput :: "struct_type" where
  "child_RevokeRoleInput = [(''Role'', TFix 32), (''Account'', TAddr)]"

definition child_SetCcipGasLimitInput :: "struct_type" where
  "child_SetCcipGasLimitInput = [(''ChainSelector'', TU64), (''GasLimit'', TBig)]"

definition child_SetCrosschainVaultsInput :: "struct_type" where
  "child_SetCrosschainVaultsInput = [(''ChainSelectors'', TList TU64), (''Vaults'', TList TAddr)]"

definition child_SetDefaultCcipGasLimitInput :: "struct_type" where
  "child_SetDefaultCcipGasLimitInput = [(''GasLimit'', TBig)]"

definition child_SupportsInterfaceInput :: "struct_type" where
  "child_SupportsInterfaceInput = [(''InterfaceId'', TFix 4)]"

definition child_TryCcipSendInput :: "struct_type" where
  "child_TryCcipSendInput = [(''BridgeAmount'', TBig), (''DestinationChainSelector'', TU64),
       (''CcipTxType'', TU8), (''Nonce'', TBig), (''ProtocolId'', TFix 32)]"

definition child_TryDepositToAdapterInput :: "struct_type" where
  "child_TryDepositToAdapterInput = [(''Adapter'', TAddr), (''Amount'', TBig)]"

definition child_UpgradeToAndCallInput :: "struct_type" where
  "child_UpgradeToAndCallInput = [(''NewImplementation'', TAddr), (''Data'', TBytes)]"

definition child_WithdrawLinkInput :: "struct_type" where
  "child_WithdrawLinkInput = [(''Amount'', TBig)]"

definition child_TypesCcipSendRecovery :: "struct_type" where
  "child_TypesCcipSendRecovery = [(''Amount'', TBig), (''Nonce'', TBig), (''ProtocolId'', TFix 32),
       (''DestinationChainSelector'', TU64), (''CcipTxType'', TU8)]"

definition child_TypesEpochRecovery :: "struct_type" where
  "child_TypesEpochRecovery = [(''EpochNonce'', TBig), (''Amount'', TBig)]"

definition child_TypesRebalanceDepositRecovery :: "struct_type" where
  "child_TypesRebalanceDepositRecovery = [(''RebalanceNonce'', TBig), (''Amount'', TBig)]"

definition child_TypesRebalanceWithdrawRecovery :: "struct_type" where
  "child_TypesRebalanceWithdrawRecovery = [(''RebalanceNonce'', TBig), (''Strategy'', strategy_type)]"

definition child_BaseVaultConstructorParams :: "struct_type" where
  "child_BaseVaultConstructorParams = [(''Link'', TAddr), (''Asset'', TAddr), (''CcipRouter'', TAddr),
       (''AdapterRegistry'', TAddr), (''ThisChainSelector'', TU64)]"

section \<open>Call encoders\<close>

definition child_EncodeDEFAULTADMINROLEMethodCall :: "codec \<Rightarrow> byte list outcome" where
  "child_EncodeDEFAULTADMINROLEMethodCall c = abi_Pack (codec_abi c) ''DEFAULT_ADMIN_ROLE'' []"

definition child_EncodeUPGRADEINTERFACEVERSIONMethodCall :: "codec \<Rightarrow> byte list outcome" where
  "child_EncodeUPGRADEINTERFACEVERSIONMethodCall c = abi_Pack (codec_abi c) ''UPGRADE_INTERFACE_VERSION'' []"

definition child_EncodeAcceptDefaultAdminTransferMethodCall :: "codec \<Rightarrow> byte list outcome" where
  "child_EncodeAcceptDefaultAdminTransferMethodCall c = abi_Pack (codec_abi c) ''acceptDefaultAdminTransfer'' []"

definition child_EncodeBeginDefaultAdminTransferMethodCall :: "codec \<Rightarrow> gstruct \<Rightarrow> byte list outcome" where
  "child_EncodeBeginDefaultAdminTransferMethodCall c inp =
     abi_Pack (codec_abi c) ''beginDefaultAdminTransfer'' [fld inp ''NewAdmin'']"

definition child_EncodeCancelDefaultAdminTransferMethodCall :: "codec \<Rightarrow> byte list outcome" where
  "child_EncodeCancelDefaultAdminTransferMethodCall c = abi_Pack (codec_abi c) ''cancelDefaultAdminTransfer'' []"

definition child_EncodeCcipReceiveMethodCall :: "codec \<Rightarrow> gstruct \<Rightarrow> byte list outcome" where
  "child_EncodeCcipReceiveMethodCall c inp =
     abi_Pack (codec_abi c) ''ccipReceive'' [fld inp ''Message'']"

definition child_EncodeChangeDefaultAdminDelayMethodCall :: "codec \<Rightarrow> gstruct \<Rightarrow> byte list outcome" where
  "child_EncodeChangeDefaultAdminDelayMethodCall c inp =
     abi_Pack (codec_abi c) ''changeDefaultAdminDelay'' [fld inp ''NewDelay'']"

definition child_EncodeDefaultAdminMethodCall :: "codec \<Rightarrow> byte list outcome" where
  "child_EncodeDefaultAdminMethodCall c = abi_Pack (codec_abi c) ''defaultAdmin'' []"

definition child_EncodeDefaultAdminDelayMethodCall :: "codec \<Rightarrow> byte list outcome" where
  "child_EncodeDefaultAdminDelayMethodCall c = abi_Pack (codec_abi c) ''defaultAdminDelay'' []"

definition child_EncodeDefaultAdminDelayIncreaseWaitMethodCall :: "codec \<Rightarrow> byte list outcome" where
  "child_EncodeDefaultAdminDelayIncreaseWaitMethodCall c = abi_Pack (codec_abi c) ''defaultAdminDelayIncreaseWait'' []"

definition child_EncodeExecuteRecoveryMethodCall :: "codec \<Rightarrow> byte list outcome" where
  "child_EncodeExecuteRecoveryMethodCall c = abi_Pack (codec_abi c) ''executeRecovery'' []"

definition child_EncodeGetActiveProtocolAdapterMethodCall :: "codec \<Rightarrow> byte list outcome" where
  "child_EncodeGetActiveProtocolAdapterMethodCall c = abi_Pack (codec_abi c) ''getActiveProtocolAdapter'' []"

definition child_EncodeGetAdapterRegistryMethodCall :: "codec \<Rightarrow> byte list outcome" where
  "child_EncodeGetAdapterRegistryMethodCall c = abi_Pack (codec_abi c) ''getAdapterRegistry'' []"

definition child_EncodeGetAssetMethodCall :: "codec \<Rightarrow> byte list outcome" where
  "child_EncodeGetAssetMethodCall c = abi_Pack (codec_abi c) ''getAsset'' []"

definition child_EncodeGetAssetPrecisionMethodCall :: "codec \<Rightarrow> byte list outcome" where
  "child_EncodeGetAssetPrecisionMethodCall c = abi_Pack (codec_abi c) ''getAssetPrecision'' []"

definition child_EncodeGetCCVsAndFinalityConfigMethodCall :: "codec \<Rightarrow> gstruct \<Rightarrow> byte list outcome" where
  "child_EncodeGetCCVsAndFinalityConfigMethodCall c inp =
     abi_Pack (codec_abi c) ''getCCVsAndFinalityConfig'' [fld inp ''Arg0'', fld inp ''Arg1'']"

definition child_EncodeGetCcipGasLimitMethodCall :: "codec \<Rightarrow> gstruct \<Rightarrow> byte list outcome" where
  "child_EncodeGetCcipGasLimitMethodCall c inp =
     abi_Pack (codec_abi c) ''getCcipGasLimit'' [fld inp ''ChainSelector'']"

definition child_EncodeGetCcipSendRecoveryMethodCall :: "codec \<Rightarrow> byte list outcome" where
  "child_EncodeGetCcipSendRecoveryMethodCall c = abi_Pack (codec_abi c) ''getCcipSendRecovery'' []"

definition child_EncodeGetCrosschainVaultMethodCall :: "codec \<Rightarrow> gstruct \<Rightarrow> byte list outcome" where
  "child_EncodeGetCrosschainVaultMethodCall c inp =
     abi_Pack (codec_abi c) ''getCrosschainVault'' [fld inp ''ChainSelector'']"

definition child_EncodeGetDefaultCcipGasLimitMethodCall :: "codec \<Rightarrow> byte list outcome" where
  "child_EncodeGetDefaultCcipGasLimitMethodCall c = abi_Pack (codec_abi c) ''getDefaultCcipGasLimit'' []"

definition child_EncodeGetEpochDepositRecoveryMethodCall :: "codec \<Rightarrow> byte list outcome" where
  "child_EncodeGetEpochDepositRecoveryMethodCall c = abi_Pack (codec_abi c) ''getEpochDepositRecovery'' []"

definition child_EncodeGetEpochWithdrawRecoveryMethodCall :: "codec \<Rightarrow> byte list outcome" where
  "child_EncodeGetEpochWithdrawRecoveryMethodCall c = abi_Pack (codec_abi c) ''getEpochWithdrawRecovery'' []"

definition child_EncodeGetLastHandledEpochNonceMethodCall :: "codec \<Rightarrow> byte list outcome" where
  "child_EncodeGetLastHandledEpochNonceMethodCall c = abi_Pack (codec_abi c) ''getLastHandledEpochNonce'' []"

definition child_EncodeGetLastHandledRebalanceNonceMethodCall :: "codec \<Rightarrow> byte list outcome" where
  "child_EncodeGetLastHandledRebalanceNonceMethodCall c = abi_Pack (codec_abi c) ''getLastHandledRebalanceNonce'' []"

definition child_EncodeGetLinkMethodCall :: "codec \<Rightarrow> byte list outcome" where
  "child_EncodeGetLinkMethodCall c = abi_Pack (codec_abi c) ''getLink'' []"

definition child_EncodeGetParentChainSelectorMethodCall :: "codec \<Rightarrow> byte list outcome" where
  "child_EncodeGetParentChainSelectorMethodCall c = abi_Pack (codec_abi c) ''getParentChainSelector'' []"

definition child_EncodeGetRebalanceDepositRecoveryMethodCall :: "codec \<Rightarrow> byte list outcome" where
  "child_EncodeGetRebalanceDepositRecoveryMethodCall c = abi_Pack (codec_abi c) ''getRebalanceDepositRecovery'' []"

definition child_EncodeGetRebalanceWithdrawRecoveryMethodCall :: "codec \<Rightarrow> byte list outcome" where
  "child_EncodeGetRebalanceWithdrawRecoveryMethodCall c = abi_Pack (codec_abi c) ''getRebalanceWithdrawRecovery'' []"

definition child_EncodeGetRecoveryModeMethodCall :: "codec \<Rightarrow> byte list outcome" where
  "child_EncodeGetRecoveryModeMethodCall c = abi_Pack (codec_abi c) ''getRecoveryMode'' []"

definition child_EncodeGetRoleAdminMethodCall :: "codec \<Rightarrow> gstruct \<Rightarrow> byte list outcome" where
  "child_EncodeGetRoleAdminMethodCall c inp =
     abi_Pack (codec_abi c) ''getRoleAdmin'' [fld inp ''Role'']"

definition child_EncodeGetRouterMethodCall :: "codec \<Rightarrow> byte list outcome" where
  "child_EncodeGetRouterMethodCall c = abi_Pack (codec_abi c) ''getRouter'' []"

definition child_EncodeGetTVLMethodCall :: "codec \<Rightarrow> byte list outcome" where
  "child_EncodeGetTVLMethodCall c = abi_Pack (codec_abi c) ''getTVL'' []"

definition child_EncodeGetThisChainSelectorMethodCall :: "codec \<Rightarrow> byte list outcome" where
  "child_EncodeGetThisChainSelectorMethodCall c = abi_Pack (codec_abi c) ''getThisChainSelector'' []"

definition child_EncodeGrantRoleMethodCall :: "codec \<Rightarrow> gstruct \<Rightarrow> byte list outcome" where
  "child_EncodeGrantRoleMethodCall c inp =
     abi_Pack (codec_abi c) ''grantRole'' [fld inp ''Role'', fld inp ''Account'']"

definition child_EncodeHasRoleMethodCall :: "codec \<Rightarrow> gstruct \<Rightarrow> byte list outcome" where
  "child_EncodeHasRoleMethodCall c inp =
     abi_Pack (codec_abi c) ''hasRole'' [fld inp ''Role'', fld inp ''Account'']"

definition child_EncodeInitializeMethodCall :: "codec \<Rightarrow> gstruct \<Rightarrow> byte list outcome" where
  "child_EncodeInitializeMethodCall c inp =
     abi_Pack (codec_abi c) ''initialize'' [fld inp ''Params'']"

definition child_EncodeOwnerMethodCall :: "codec \<Rightarrow> byte list outcome" where
  "child_EncodeOwnerMethodCall c = abi_Pack (codec_abi c) ''owner'' []"

definition child_EncodePauseMethodCall :: "codec \<Rightarrow> byte list outcome" where
  "child_EncodePauseMethodCall c = abi_Pack (codec_abi c) ''pause'' []"

definition child_EncodePausedMethodCall :: "codec \<Rightarrow> byte list outcome" where
  "child_EncodePausedMethodCall c = abi_Pack (codec_abi c) ''paused'' []"

definition child_EncodePendingDefaultAdminMethodCall :: "codec \<Rightarrow> byte list outcome" where
  "child_EncodePendingDefaultAdminMethodCall c = abi_Pack (codec_abi c) ''pendingDefaultAdmin'' []"

definition child_EncodePendingDefaultAdminDelayMethodCall :: "codec \<Rightarrow> byte list outcome" where
  "child_EncodePendingDefaultAdminDelayMethodCall c = abi_Pack (codec_abi c) ''pendingDefaultAdminDelay'' []"

definition child_EncodeProxiableUUIDMethodCall :: "codec \<Rightarrow> byte list outcome" where
  "child_EncodeProxiableUUIDMethodCall c = abi_Pack (codec_abi c) ''proxiableUUID'' []"

definition child_EncodeRenounceRoleMethodCall :: "codec \<Rightarrow> gstruct \<Rightarrow> byte list outcome" where
  "child_EncodeRenounceRoleMethodCall c inp =
     abi_Pack (codec_abi c) ''renounceRole'' [fld inp ''Role'', fld inp ''Account'']"

definition child_EncodeRevokeRoleMethodCall :: "codec \<Rightarrow> gstruct \<Rightarrow> byte list outcome" where
  "child_EncodeRevokeRoleMethodCall c inp =
     abi_Pack (codec_abi c) ''revokeRole'' [fld inp ''Role'', fld inp ''Account'']"

definition child_EncodeRollbackDefaultAdminDelayMethodCall :: "codec \<Rightarrow> byte list outcome" where
  "child_EncodeRollbackDefaultAdminDelayMethodCall c = abi_Pack (codec_abi c) ''rollbackDefaultAdminDelay'' []"

definition child_EncodeSetCcipGasLimitMethodCall :: "codec \<Rightarrow> gstruct \<Rightarrow> byte list outcome" where
  "child_EncodeSetCcipGasLimitMethodCall c inp =
     abi_Pack (codec_abi c) ''setCcipGasLimit'' [fld inp ''ChainSelector'', fld inp ''GasLimit'']"

definition child_EncodeSetCrosschainVaultsMethodCall :: "codec \<Rightarrow> gstruct \<Rightarrow> byte list outcome" where
  "child_EncodeSetCrosschainVaultsMethodCall c inp =
     abi_Pack (codec_abi c) ''setCrosschainVaults'' [fld inp ''ChainSelectors'', fld inp ''Vaults'']"

definition child_EncodeSetDefaultCcipGasLimitMethodCall :: "codec \<Rightarrow> gstruct \<Rightarrow> byte list outcome" where
  "child_EncodeSetDefaultCcipGasLimitMethodCall c inp =
     abi_Pack (codec_abi c) ''setDefaultCcipGasLimit'' [fld inp ''GasLimit'']"

definition child_EncodeSupportsInterfaceMethodCall :: "codec \<Rightarrow> gstruct \<Rightarrow> byte list outcome" where
  "child_EncodeSupportsInterfaceMethodCall c inp =
     abi_Pack (codec_abi c) ''supportsInterface'' [fld inp ''InterfaceId'']"

definition child_EncodeTryCcipSendMethodCall :: "codec \<Rightarrow> gstruct \<Rightarrow> byte list outcome" where
  "child_EncodeTryCcipSendMethodCall c inp =
     abi_Pack (codec_abi c) ''tryCcipSend'' [fld inp ''BridgeAmount'', fld inp ''DestinationChainSelector'',
       fld inp ''CcipTxType'', fld inp ''Nonce'', fld inp ''ProtocolId'']"

definition child_EncodeTryDepositToAdapterMethodCall :: "codec \<Rightarrow> gstruct \<Rightarrow> byte list outcome" where
  "child_EncodeTryDepositToAdapterMethodCall c inp =
     abi_Pack (codec_abi c) ''tryDepositToAdapter'' [fld inp ''Adapter'', fld inp ''Amount'']"

definition child_EncodeUnpauseMethodCall :: "codec \<Rightarrow> byte list outcome" where
  "child_EncodeUnpauseMethodCall c = abi_Pack (codec_abi c) ''unpause'' []"

definition child_EncodeUpgradeToAndCallMethodCall :: "codec \<Rightarrow> gstruct \<Rightarrow> byte list outcome" where
  "child_EncodeUpgradeToAndCallMethodCall c inp =
     abi_Pack (codec_abi c) ''upgradeToAndCall'' [fld inp ''NewImplementation'', fld inp ''Data'']"

definition child_EncodeWithdrawLinkMethodCall :: "codec \<Rightarrow> gstruct \<Rightarrow> byte list outcome" where
  "child_EncodeWithdrawLinkMethodCall c inp =
     abi_Pack (codec_abi c) ''withdrawLink'' [fld inp ''Amount'']"

section \<open>Output decoders\<close>

definition child_DecodeDEFAULTADMINROLEMethodOutput :: "env \<Rightarrow> codec \<Rightarrow> byte list \<Rightarrow> gval outcome" where
  "child_DecodeDEFAULTADMINROLEMethodOutput E c =
     decode_output E c ''DEFAULT_ADMIN_ROLE'' (TFix 32) ''[32]byte''"

definition child_DecodeUPGRADEINTERFACEVERSIONMethodOutput :: "env \<Rightarrow> codec \<Rightarrow> byte list \<Rightarrow> gval outcome" where
  "child_DecodeUPGRADEINTERFACEVERSIONMethodOutput E c =
     decode_output E c ''UPGRADE_INTERFACE_VERSION'' TStr ''string''"

definition child_DecodeDefaultAdminMethodOutput :: "env \<Rightarrow> codec \<Rightarrow> byte list \<Rightarrow> gval outcome" where
  "child_DecodeDefaultAdminMethodOutput E c =
     decode_output E c ''defaultAdmin'' TAddr ''common.Address''"

definition child_DecodeDefaultAdminDelayMethodOutput :: "env \<Rightarrow> codec \<Rightarrow> byte list \<Rightarrow> gval outcome" where
  "child_DecodeDefaultAdminDelayMethodOutput E c =
     decode_output E c ''defaultAdminDelay'' TBig ''*big.Int''"

definition child_DecodeDefaultAdminDelayIncreaseWaitMethodOutput :: "env \<Rightarrow> codec \<Rightarrow> byte list \<Rightarrow> gval outcome" where
  "child_DecodeDefaultAdminDelayIncreaseWaitMethodOutput E c =
     decode_output E c ''defaultAdminDelayIncreaseWait'' TBig ''*big.Int''"

definition child_DecodeGetActiveProtocolAdapterMethodOutput :: "env \<Rightarrow> codec \<Rightarrow> byte list \<Rightarrow> gval outcome" where
  "child_DecodeGetActiveProtocolAdapterMethodOutput E c =
     decode_output E c ''getActiveProtocolAdapter'' TAddr ''common.Address''"

definition child_DecodeGetAdapterRegistryMethodOutput :: "env \<Rightarrow> codec \<Rightarrow> byte list \<Rightarrow> gval outcome" where
  "child_DecodeGetAdapterRegistryMethodOutput E c =
     decode_output E c ''getAdapterRegistry'' TAddr ''common.Address''"

definition child_DecodeGetAssetMethodOutput :: "env \<Rightarrow> codec \<Rightarrow> byte list \<Rightarrow> gval outcome" where
  "child_DecodeGetAssetMethodOutput E c =
     decode_output E c ''getAsset'' TAddr ''common.Address''"

definition child_DecodeGetAssetPrecisionMethodOutput :: "env \<Rightarrow> codec \<Rightarrow> byte list \<Rightarrow> gval outcome" where
  "child_DecodeGetAssetPrecisionMethodOutput E c =
     decode_output E c ''getAssetPrecision'' TBig ''*big.Int''"

definition child_DecodeGetCCVsAndFinalityConfigMethodOutput :: "env \<Rightarrow> codec \<Rightarrow> byte list \<Rightarrow> gval outcome" where
  "child_DecodeGetCCVsAndFinalityConfigMethodOutput E c =
     decode_outputs E c ''getCCVsAndFinalityConfig''
       [(''RequiredCCVs'', TList TAddr, ''[]common.Address''),
       (''OptionalCCVs'', TList TAddr, ''[]common.Address''), (''OptionalThreshold'', TU8, ''uint8''),
       (''AllowedFinalityConfig'', TFix 4, ''[4]byte'')]"

definition child_DecodeGetCcipGasLimitMethodOutput :: "env \<Rightarrow> codec \<Rightarrow> byte list \<Rightarrow> gval outcome" where
  "child_DecodeGetCcipGasLimitMethodOutput E c =
     decode_output E c ''getCcipGasLimit'' TBig ''*big.Int''"

definition child_DecodeGetCcipSendRecoveryMethodOutput :: "env \<Rightarrow> codec \<Rightarrow> byte list \<Rightarrow> gval outcome" where
  "child_DecodeGetCcipSendRecoveryMethodOutput E c =
     decode_output E c ''getCcipSendRecovery'' (TStruct child_TypesCcipSendRecovery) ''TypesCcipSendRecovery''"

definition child_DecodeGetCrosschainVaultMethodOutput :: "env \<Rightarrow> codec \<Rightarrow> byte list \<Rightarrow> gval outcome" where
  "child_DecodeGetCrosschainVaultMethodOutput E c =
     decode_output E c ''getCrosschainVault'' TAddr ''common.Address''"

definition child_DecodeGetDefaultCcipGasLimitMethodOutput :: "env \<Rightarrow> codec \<Rightarrow> byte list \<Rightarrow> gval outcome" where
  "child_DecodeGetDefaultCcipGasLimitMethodOutput E c =
     decode_output E c ''getDefaultCcipGasLimit'' TBig ''*big.Int''"

definition child_DecodeGetEpochDepositRecoveryMethodOutput :: "env \<Rightarrow> codec \<Rightarrow> byte list \<Rightarrow> gval outcome" where
  "child_DecodeGetEpochDepositRecoveryMethodOutput E c =
     decode_output E c ''getEpochDepositRecovery'' (TStruct child_TypesEpochRecovery) ''TypesEpochRecovery''"

definition child_DecodeGetEpochWithdrawRecoveryMethodOutput :: "env \<Rightarrow> codec \<Rightarrow> byte list \<Rightarrow> gval outcome" where
  "child_DecodeGetEpochWithdrawRecoveryMethodOutput E c =
     decode_output E c ''getEpochWithdrawRecovery'' (TStruct child_TypesEpochRecovery) ''TypesEpochRecovery''"

definition child_DecodeGetLastHandledEpochNonceMethodOutput :: "env \<Rightarrow> codec \<Rightarrow> byte list \<Rightarrow> gval outcome" where
  "child_DecodeGetLastHandledEpochNonceMethodOutput E c =
     decode_output E c ''getLastHandledEpochNonce'' TBig ''*big.Int''"

definition child_DecodeGetLastHandledRebalanceNonceMethodOutput :: "env \<Rightarrow> codec \<Rightarrow> byte list \<Rightarrow> gval outcome" where
  "child_DecodeGetLastHandledRebalanceNonceMethodOutput E c =
     decode_output E c ''getLastHandledRebalanceNonce'' TBig ''*big.Int''"

definition child_DecodeGetLinkMethodOutput :: "env \<Rightarrow> codec \<Rightarrow> byte list \<Rightarrow> gval outcome" where
  "child_DecodeGetLinkMethodOutput E c =
     decode_output E c ''getLink'' TAddr ''common.Address''"

definition child_DecodeGetParentChainSelectorMethodOutput :: "env \<Rightarrow> codec \<Rightarrow> byte list \<Rightarrow> gval outcome" where
  "child_DecodeGetParentChainSelectorMethodOutput E c =
     decode_output E c ''getParentChainSelector'' TU64 ''uint64''"

definition child_DecodeGetRebalanceDepositRecoveryMethodOutput :: "env \<Rightarrow> codec \<Rightarrow> byte list \<Rightarrow> gval outcome" where
  "child_DecodeGetRebalanceDepositRecoveryMethodOutput E c =
     decode_output E c ''getRebalanceDepositRecovery'' (TStruct child_TypesRebalanceDepositRecovery) ''TypesRebalanceDepositRecovery''"

definition child_DecodeGetRebalanceWithdrawRecoveryMethodOutput :: "env \<Rightarrow> codec \<Rightarrow> byte list \<Rightarrow> gval outcome" where
  "child_DecodeGetRebalanceWithdrawRecoveryMethodOutput E c =
     decode_output E c ''getRebalanceWithdrawRecovery'' (TStruct child_TypesRebalanceWithdrawRecovery) ''TypesRebalanceWithdrawRecovery''"

definition child_DecodeGetRecoveryModeMethodOutput :: "env \<Rightarrow> codec \<Rightarrow> byte list \<Rightarrow> gval outcome" where
  "child_DecodeGetRecoveryModeMethodOutput E c =
     decode_output E c ''getRecoveryMode'' TU8 ''uint8''"

definition child_DecodeGetRoleAdminMethodOutput :: "env \<Rightarrow> codec \<Rightarrow> byte list \<Rightarrow> gval outcome" where
  "child_DecodeGetRoleAdminMethodOutput E c =
     decode_output E c ''getRoleAdmin'' (TFix 32) ''[32]byte''"

definition child_DecodeGetRouterMethodOutput :: "env \<Rightarrow> codec \<Rightarrow> byte list \<Rightarrow> gval outcome" where
  "child_DecodeGetRouterMethodOutput E c =
     decode_output E c ''getRouter'' TAddr ''common.Address''"

definition child_DecodeGetTVLMethodOutput :: "env \<Rightarrow> codec \<Rightarrow> byte list \<Rightarrow> gval outcome" where
  "child_DecodeGetTVLMethodOutput E c =
     decode_output E c ''getTVL'' TBig ''*big.Int''"

definition child_DecodeGetThisChainSelectorMethodOutput :: "env \<Rightarrow> codec \<Rightarrow> byte list \<Rightarrow> gval outcome" where
  "child_DecodeGetThisChainSelectorMethodOutput E c =
     decode_output E c ''getThisChainSelector'' TU64 ''uint64''"

definition child_DecodeHasRoleMethodOutput :: "env \<Rightarrow> codec \<Rightarrow> byte list \<Rightarrow> gval outcome" where
  "child_DecodeHasRoleMethodOutput E c =
     decode_output E c ''hasRole'' TBool ''bool''"

definition child_DecodeOwnerMethodOutput :: "env \<Rightarrow> codec \<Rightarrow> byte list \<Rightarrow> gval outcome" where
  "child_DecodeOwnerMethodOutput E c =
     decode_output E c ''owner'' TAddr ''common.Address''"

definition child_DecodePausedMethodOutput :: "env \<Rightarrow> codec \<Rightarrow> byte list \<Rightarrow> gval outcome" where
  "child_DecodePausedMethodOutput E c =
     decode_output E c ''paused'' TBool ''bool''"

definition child_DecodePendingDefaultAdminMethodOutput :: "env \<Rightarrow> codec \<Rightarrow> byte list \<Rightarrow> gval outcome" where
  "child_DecodePendingDefaultAdminMethodOutput E c =
     decode_outputs E c ''pendingDefaultAdmin''
       [(''NewAdmin'', TAddr, ''common.Address''), (''Schedule'', TBig, ''*big.Int'')]"

definition child_DecodePendingDefaultAdminDelayMethodOutput :: "env \<Rightarrow> codec \<Rightarrow> byte list \<Rightarrow> gval outcome" where
  "child_DecodePendingDefaultAdminDelayMethodOutput E c =
     decode_outputs E c ''pendingDefaultAdminDelay''
       [(''NewDelay'', TBig, ''*big.Int''), (''Schedule'', TBig, ''*big.Int'')]"

definition child_DecodeProxiableUUIDMethodOutput :: "env \<Rightarrow> codec \<Rightarrow> byte list \<Rightarrow> gval outcome" where
  "child_DecodeProxiableUUIDMethodOutput E c =
     decode_output E c ''proxiableUUID'' (TFix 32) ''[32]byte''"

definition child_DecodeSupportsInterfaceMethodOutput :: "env \<Rightarrow> codec \<Rightarrow> byte list \<Rightarrow> gval outcome" where
  "child_DecodeSupportsInterfaceMethodOutput E c =
     decode_output E c ''supportsInterface'' TBool ''bool''"

section \<open>Reads\<close>

definition child_DEFAULTADMINROLE :: "env \<Rightarrow> vault_binding \<Rightarrow> bigptr \<Rightarrow> gval prog" where
  "child_DEFAULTADMINROLE E v block =
     read_contract E v (child_EncodeDEFAULTADMINROLEMethodCall (vb_Codec v)) block
       (child_DecodeDEFAULTADMINROLEMethodOutput E (vb_Codec v))"

definition child_UPGRADEINTERFACEVERSION :: "env \<Rightarrow> vault_binding \<Rightarrow> bigptr \<Rightarrow> gval prog" where
  "child_UPGRADEINTERFACEVERSION E v block =
     read_contract E v (child_EncodeUPGRADEINTERFACEVERSIONMethodCall (vb_Codec v)) block
       (child_DecodeUPGRADEINTERFACEVERSIONMethodOutput E (vb_Codec v))"

definition child_DefaultAdmin :: "env \<Rightarrow> vault_binding \<Rightarrow> bigptr \<Rightarrow> gval prog" where
  "child_DefaultAdmin E v block =
     read_contract E v (child_EncodeDefaultAdminMethodCall (vb_Codec v)) block
       (child_DecodeDefaultAdminMethodOutput E (vb_Codec v))"

definition child_DefaultAdminDelay :: "env \<Rightarrow> vault_binding \<Rightarrow> bigptr \<Rightarrow> gval prog" where
  "child_DefaultAdminDelay E v block =
     read_contract E v (child_EncodeDefaultAdminDelayMethodCall (vb_Codec v)) block
       (child_DecodeDefaultAdminDelayMethodOutput E (vb_Codec v))"

definition child_DefaultAdminDelayIncreaseWait :: "env \<Rightarrow> vault_binding \<Rightarrow> bigptr \<Rightarrow> gval prog" where
  "child_DefaultAdminDelayIncreaseWait E v block =
     read_contract E v (child_EncodeDefaultAdminDelayIncreaseWaitMethodCall (vb_Codec v)) block
       (child_DecodeDefaultAdminDelayIncreaseWaitMethodOutput E (vb_Codec v))"

definition child_GetActiveProtocolAdapter :: "env \<Rightarrow> vault_binding \<Rightarrow> bigptr \<Rightarrow> gval prog" where
  "child_GetActiveProtocolAdapter E v block =
     read_contract E v (child_EncodeGetActiveProtocolAdapterMethodCall (vb_Codec v)) block
       (child_DecodeGetActiveProtocolAdapterMethodOutput E (vb_Codec v))"

definition child_GetAdapterRegistry :: "env \<Rightarrow> vault_binding \<Rightarrow> bigptr \<Rightarrow> gval prog" where
  "child_GetAdapterRegistry E v block =
     read_contract E v (child_EncodeGetAdapterRegistryMethodCall (vb_Codec v)) block
       (child_DecodeGetAdapterRegistryMethodOutput E (vb_Codec v))"

definition child_GetAsset :: "env \<Rightarrow> vault_binding \<Rightarrow> bigptr \<Rightarrow> gval prog" where
  "child_GetAsset E v block =
     read_contract E v (child_EncodeGetAssetMethodCall (vb_Codec v)) block
       (child_DecodeGetAssetMethodOutput E (vb_Codec v))"

definition child_GetAssetPrecision :: "env \<Rightarrow> vault_binding \<Rightarrow> bigptr \<Rightarrow> gval prog" where
  "child_GetAssetPrecision E v block =
     read_contract E v (child_EncodeGetAssetPrecisionMethodCall (vb_Codec v)) block
       (child_DecodeGetAssetPrecisionMethodOutput E (vb_Codec v))"

definition child_GetCCVsAndFinalityConfig :: "env \<Rightarrow> vault_binding \<Rightarrow> gstruct \<Rightarrow> bigptr \<Rightarrow> gval prog" where
  "child_GetCCVsAndFinalityConfig E v inp block =
     read_contract E v (child_EncodeGetCCVsAndFinalityConfigMethodCall (vb_Codec v) inp) block
       (child_DecodeGetCCVsAndFinalityConfigMethodOutput E (vb_Codec v))"

definition child_GetCcipGasLimit :: "env \<Rightarrow> vault_binding \<Rightarrow> gstruct \<Rightarrow> bigptr \<Rightarrow> gval prog" where
  "child_GetCcipGasLimit E v inp block =
     read_contract E v (child_EncodeGetCcipGasLimitMethodCall (vb_Codec v) inp) block
       (child_DecodeGetCcipGasLimitMethodOutput E (vb_Codec v))"

definition child_GetCcipSendRecovery :: "env \<Rightarrow> vault_binding \<Rightarrow> bigptr \<Rightarrow> gval prog" where
  "child_GetCcipSendRecovery E v block =
     read_contract E v (child_EncodeGetCcipSendRecoveryMethodCall (vb_Codec v)) block
       (child_DecodeGetCcipSendRecoveryMethodOutput E (vb_Codec v))"

definition child_GetCrosschainVault :: "env \<Rightarrow> vault_binding \<Rightarrow> gstruct \<Rightarrow> bigptr \<Rightarrow> gval prog" where
  "child_GetCrosschainVault E v inp block =
     read_contract E v (child_EncodeGetCrosschainVaultMethodCall (vb_Codec v) inp) block
       (child_DecodeGetCrosschainVaultMethodOutput E (vb_Codec v))"

definition child_GetDefaultCcipGasLimit :: "env \<Rightarrow> vault_binding \<Rightarrow> bigptr \<Rightarrow> gval prog" where
  "child_GetDefaultCcipGasLimit E v block =
     read_contract E v (child_EncodeGetDefaultCcipGasLimitMethodCall (vb_Codec v)) block
       (child_DecodeGetDefaultCcipGasLimitMethodOutput E (vb_Codec v))"

definition child_GetEpochDepositRecovery :: "env \<Rightarrow> vault_binding \<Rightarrow> bigptr \<Rightarrow> gval prog" where
  "child_GetEpochDepositRecovery E v block =
     read_contract E v (child_EncodeGetEpochDepositRecoveryMethodCall (vb_Codec v)) block
       (child_DecodeGetEpochDepositRecoveryMethodOutput E (vb_Codec v))"

definition child_GetEpochWithdrawRecovery :: "env \<Rightarrow> vault_binding \<Rightarrow> bigptr \<Rightarrow> gval prog" where
  "child_GetEpochWithdrawRecovery E v block =
     read_contract E v (child_EncodeGetEpochWithdrawRecoveryMethodCall (vb_Codec v)) block
       (child_DecodeGetEpochWithdrawRecoveryMethodOutput E (vb_Codec v))"

definition child_GetLastHandledEpochNonce :: "env \<Rightarrow> vault_binding \<Rightarrow> bigptr \<Rightarrow> gval prog" where
  "child_GetLastHandledEpochNonce E v block =
     read_contract E v (child_EncodeGetLastHandledEpochNonceMethodCall (vb_Codec v)) block
       (child_DecodeGetLastHandledEpochNonceMethodOutput E (vb_Codec v))"

definition child_GetLastHandledRebalanceNonce :: "env \<Rightarrow> vault_binding \<Rightarrow> bigptr \<Rightarrow> gval prog" where
  "child_GetLastHandledRebalanceNonce E v block =
     read_contract E v (child_EncodeGetLastHandledRebalanceNonceMethodCall (vb_Codec v)) block
       (child_DecodeGetLastHandledRebalanceNonceMethodOutput E (vb_Codec v))"

definition child_GetLink :: "env \<Rightarrow> vault_binding \<Rightarrow> bigptr \<Rightarrow> gval prog" where
  "child_GetLink E v block =
     read_contract E v (child_EncodeGetLinkMethodCall (vb_Codec v)) block
       (child_DecodeGetLinkMethodOutput E (vb_Codec v))"

definition child_GetParentChainSelector :: "env \<Rightarrow> vault_binding \<Rightarrow> bigptr \<Rightarrow> gval prog" where
  "child_GetParentChainSelector E v block =
     read_contract E v (child_EncodeGetParentChainSelectorMethodCall (vb_Codec v)) block
       (child_DecodeGetParentChainSelectorMethodOutput E (vb_Codec v))"

definition child_GetRebalanceDepositRecovery :: "env \<Rightarrow> vault_binding \<Rightarrow> bigptr \<Rightarrow> gval prog" where
  "child_GetRebalanceDepositRecovery E v block =
     read_contract E v (child_EncodeGetRebalanceDepositRecoveryMethodCall (vb_Codec v)) block
       (child_DecodeGetRebalanceDepositRecoveryMethodOutput E (vb_Codec v))"

definition child_GetRebalanceWithdrawRecovery :: "env \<Rightarrow> vault_binding \<Rightarrow> bigptr \<Rightarrow> gval prog" where
  "child_GetRebalanceWithdrawRecovery E v block =
     read_contract E v (child_EncodeGetRebalanceWithdrawRecoveryMethodCall (vb_Codec v)) block
       (child_DecodeGetRebalanceWithdrawRecoveryMethodOutput E (vb_Codec v))"

definition child_GetRecoveryMode :: "env \<Rightarrow> vault_binding \<Rightarrow> bigptr \<Rightarrow> gval prog" where
  "child_GetRecoveryMode E v block =
     read_contract E v (child_EncodeGetRecoveryModeMethodCall (vb_Codec v)) block
       (child_DecodeGetRecoveryModeMethodOutput E (vb_Codec v))"

definition child_GetRoleAdmin :: "env \<Rightarrow> vault_binding \<Rightarrow> gstruct \<Rightarrow> bigptr \<Rightarrow> gval prog" where
  "child_GetRoleAdmin E v inp block =
     read_contract E v (child_EncodeGetRoleAdminMethodCall (vb_Codec v) inp) block
       (child_DecodeGetRoleAdminMethodOutput E (vb_Codec v))"

definition child_GetRouter :: "env \<Rightarrow> vault_binding \<Rightarrow> bigptr \<Rightarrow> gval prog" where
  "child_GetRouter E v block =
     read_contract E v (child_EncodeGetRouterMethodCall (vb_Codec v)) block
       (child_DecodeGetRouterMethodOutput E (vb_Codec v))"

definition child_GetTVL :: "env \<Rightarrow> vault_binding \<Rightarrow> bigptr \<Rightarrow> gval prog" where
  "child_GetTVL E v block =
     read_contract E v (child_EncodeGetTVLMethodCall (vb_Codec v)) block
       (child_DecodeGetTVLMethodOutput E (vb_Codec v))"

definition child_GetThisChainSelector :: "env \<Rightarrow> vault_binding \<Rightarrow> bigptr \<Rightarrow> gval prog" where
  "child_GetThisChainSelector E v block =
     read_contract E v (child_EncodeGetThisChainSelectorMethodCall (vb_Codec v)) block
       (child_DecodeGetThisChainSelectorMethodOutput E (vb_Codec v))"

definition child_HasRole :: "env \<Rightarrow> vault_binding \<Rightarrow> gstruct \<Rightarrow> bigptr \<Rightarrow> gval prog" where
  "child_HasRole E v inp block =
     read_contract E v (child_EncodeHasRoleMethodCall (vb_Codec v) inp) block
       (child_DecodeHasRoleMethodOutput E (vb_Codec v))"

definition child_Owner :: "env \<Rightarrow> vault_binding \<Rightarrow> bigptr \<Rightarrow> gval prog" where
  "child_Owner E v block =
     read_contract E v (child_EncodeOwnerMethodCall (vb_Codec v)) block
       (child_DecodeOwnerMethodOutput E (vb_Codec v))"

definition child_Paused :: "env \<Rightarrow> vault_binding \<Rightarrow> bigptr \<Rightarrow> gval prog" where
  "child_Paused E v block =
     read_contract E v (child_EncodePausedMethodCall (vb_Codec v)) block
       (child_DecodePausedMethodOutput E (vb_Codec v))"

definition child_PendingDefaultAdmin :: "env \<Rightarrow> vault_binding \<Rightarrow> bigptr \<Rightarrow> gval prog" where
  "child_PendingDefaultAdmin E v block =
     read_contract E v (child_EncodePendingDefaultAdminMethodCall (vb_Codec v)) block
       (child_DecodePendingDefaultAdminMethodOutput E (vb_Codec v))"

definition child_PendingDefaultAdminDelay :: "env \<Rightarrow> vault_binding \<Rightarrow> bigptr \<Rightarrow> gval prog" where
  "child_PendingDefaultAdminDelay E v block =
     read_contract E v (child_EncodePendingDefaultAdminDelayMethodCall (vb_Codec v)) block
       (child_DecodePendingDefaultAdminDelayMethodOutput E (vb_Codec v))"

definition child_ProxiableUUID :: "env \<Rightarrow> vault_binding \<Rightarrow> bigptr \<Rightarrow> gval prog" where
  "child_ProxiableUUID E v block =
     read_contract E v (child_EncodeProxiableUUIDMethodCall (vb_Codec v)) block
       (child_DecodeProxiableUUIDMethodOutput E (vb_Codec v))"

section \<open>Structs as reports\<close>

definition child_EncodeBaseVaultConstructorParamsStruct :: "env \<Rightarrow> gval \<Rightarrow> byte list outcome" where
  "child_EncodeBaseVaultConstructorParamsStruct E inp =
     encode_struct E ''BaseVaultConstructorParams'' ''baseVaultConstructorParams''
       [(''link'', ''address''), (''asset'', ''address''), (''ccipRouter'', ''address''),
       (''adapterRegistry'', ''address''), (''thisChainSelector'', ''uint64'')] inp"

definition child_WriteReportFromBaseVaultConstructorParams :: "env \<Rightarrow> vault_binding \<Rightarrow> gval \<Rightarrow> uint64 option \<Rightarrow> write_reply option prog" where
  "child_WriteReportFromBaseVaultConstructorParams E v inp gasConfig =
     write_report_from E v (child_EncodeBaseVaultConstructorParamsStruct E inp) gasConfig"

definition child_EncodeBaseVaultInitParamsStruct :: "env \<Rightarrow> gval \<Rightarrow> byte list outcome" where
  "child_EncodeBaseVaultInitParamsStruct E inp =
     encode_struct E ''BaseVaultInitParams'' ''baseVaultInitParams''
       [(''defaultAdmin'', ''address''), (''pauser'', ''address''), (''unpauser'', ''address''),
       (''configOperator'', ''address''), (''initialDefaultCcipGasLimit'', ''uint256''),
       (''upgrader'', ''address'')] inp"

definition child_WriteReportFromBaseVaultInitParams :: "env \<Rightarrow> vault_binding \<Rightarrow> gval \<Rightarrow> uint64 option \<Rightarrow> write_reply option prog" where
  "child_WriteReportFromBaseVaultInitParams E v inp gasConfig =
     write_report_from E v (child_EncodeBaseVaultInitParamsStruct E inp) gasConfig"

definition child_EncodeClientAny2EVMMessageStruct :: "env \<Rightarrow> gval \<Rightarrow> byte list outcome" where
  "child_EncodeClientAny2EVMMessageStruct E inp =
     encode_struct E ''ClientAny2EVMMessage'' ''clientAny2EVMMessage''
       [(''messageId'', ''bytes32''), (''sourceChainSelector'', ''uint64''), (''sender'', ''bytes''),
       (''data'', ''bytes''), (''destTokenAmounts'', ''(address,uint256)[]'')] inp"

definition child_WriteReportFromClientAny2EVMMessage :: "env \<Rightarrow> vault_binding \<Rightarrow> gval \<Rightarrow> uint64 option \<Rightarrow> write_reply option prog" where
  "child_WriteReportFromClientAny2EVMMessage E v inp gasConfig =
     write_report_from E v (child_EncodeClientAny2EVMMessageStruct E inp) gasConfig"

definition child_EncodeClientEVMTokenAmountStruct :: "env \<Rightarrow> gval \<Rightarrow> byte list outcome" where
  "child_EncodeClientEVMTokenAmountStruct E inp =
     encode_struct E ''ClientEVMTokenAmount'' ''clientEVMTokenAmount''
       [(''token'', ''address''), (''amount'', ''uint256'')] inp"

definition child_WriteReportFromClientEVMTokenAmount :: "env \<Rightarrow> vault_binding \<Rightarrow> gval \<Rightarrow> uint64 option \<Rightarrow> write_reply option prog" where
  "child_WriteReportFromClientEVMTokenAmount E v inp gasConfig =
     write_report_from E v (child_EncodeClientEVMTokenAmountStruct E inp) gasConfig"

definition child_EncodeTypesCcipSendRecoveryStruct :: "env \<Rightarrow> gval \<Rightarrow> byte list outcome" where
  "child_EncodeTypesCcipSendRecoveryStruct E inp =
     encode_struct E ''TypesCcipSendRecovery'' ''typesCcipSendRecovery''
       [(''amount'', ''uint256''), (''nonce'', ''uint256''), (''protocolId'', ''bytes32''),
       (''destinationChainSelector'', ''uint64''), (''ccipTxType'', ''uint8'')] inp"

definition child_WriteReportFromTypesCcipSendRecovery :: "env \<Rightarrow> vault_binding \<Rightarrow> gval \<Rightarrow> uint64 option \<Rightarrow> write_reply option prog" where
  "child_WriteReportFromTypesCcipSendRecovery E v inp gasConfig =
     write_report_from E v (child_EncodeTypesCcipSendRecoveryStruct E inp) gasConfig"

definition child_EncodeTypesChildOperationalStateStruct :: "env \<Rightarrow> gval \<Rightarrow> byte list outcome" where
  "child_EncodeTypesChildOperationalStateStruct E inp =
     encode_struct E ''TypesChildOperationalState'' ''typesChildOperationalState''
       [(''paused'', ''bool''), (''recoveryMode'', ''uint8''), (''lastHandledEpochNonce'', ''uint256''),
       (''lastHandledRebalanceNonce'', ''uint256''), (''tvl'', ''uint256'')] inp"

definition child_WriteReportFromTypesChildOperationalState :: "env \<Rightarrow> vault_binding \<Rightarrow> gval \<Rightarrow> uint64 option \<Rightarrow> write_reply option prog" where
  "child_WriteReportFromTypesChildOperationalState E v inp gasConfig =
     write_report_from E v (child_EncodeTypesChildOperationalStateStruct E inp) gasConfig"

definition child_EncodeTypesEpochRecoveryStruct :: "env \<Rightarrow> gval \<Rightarrow> byte list outcome" where
  "child_EncodeTypesEpochRecoveryStruct E inp =
     encode_struct E ''TypesEpochRecovery'' ''typesEpochRecovery''
       [(''epochNonce'', ''uint256''), (''amount'', ''uint256'')] inp"

definition child_WriteReportFromTypesEpochRecovery :: "env \<Rightarrow> vault_binding \<Rightarrow> gval \<Rightarrow> uint64 option \<Rightarrow> write_reply option prog" where
  "child_WriteReportFromTypesEpochRecovery E v inp gasConfig =
     write_report_from E v (child_EncodeTypesEpochRecoveryStruct E inp) gasConfig"

definition child_EncodeTypesRebalanceDepositRecoveryStruct :: "env \<Rightarrow> gval \<Rightarrow> byte list outcome" where
  "child_EncodeTypesRebalanceDepositRecoveryStruct E inp =
     encode_struct E ''TypesRebalanceDepositRecovery'' ''typesRebalanceDepositRecovery''
       [(''rebalanceNonce'', ''uint256''), (''amount'', ''uint256'')] inp"

definition child_WriteReportFromTypesRebalanceDepositRecovery :: "env \<Rightarrow> vault_binding \<Rightarrow> gval \<Rightarrow> uint64 option \<Rightarrow> write_reply option prog" where
  "child_WriteReportFromTypesRebalanceDepositRecovery E v inp gasConfig =
     write_report_from E v (child_EncodeTypesRebalanceDepositRecoveryStruct E inp) gasConfig"

definition child_EncodeTypesRebalanceWithdrawRecoveryStruct :: "env \<Rightarrow> gval \<Rightarrow> byte list outcome" where
  "child_EncodeTypesRebalanceWithdrawRecoveryStruct E inp =
     encode_struct E ''TypesRebalanceWithdrawRecovery'' ''typesRebalanceWithdrawRecovery''
       [(''rebalanceNonce'', ''uint256''), (''strategy'', ''(bytes32,uint64)'')] inp"

definition child_WriteReportFromTypesRebalanceWithdrawRecovery :: "env \<Rightarrow> vault_binding \<Rightarrow> gval \<Rightarrow> uint64 option \<Rightarrow> write_reply option prog" where
  "child_WriteReportFromTypesRebalanceWithdrawRecovery E v inp gasConfig =
     write_report_from E v (child_EncodeTypesRebalanceWithdrawRecoveryStruct E inp) gasConfig"

definition child_EncodeTypesStrategyStruct :: "env \<Rightarrow> gval \<Rightarrow> byte list outcome" where
  "child_EncodeTypesStrategyStruct E inp =
     encode_struct E ''TypesStrategy'' ''typesStrategy''
       [(''protocolId'', ''bytes32''), (''chainSelector'', ''uint64'')] inp"

definition child_WriteReportFromTypesStrategy :: "env \<Rightarrow> vault_binding \<Rightarrow> gval \<Rightarrow> uint64 option \<Rightarrow> write_reply option prog" where
  "child_WriteReportFromTypesStrategy E v inp gasConfig =
     write_report_from E v (child_EncodeTypesStrategyStruct E inp) gasConfig"

definition child_WriteReport :: "env \<Rightarrow> vault_binding \<Rightarrow> report_handle option \<Rightarrow> uint64 option \<Rightarrow> write_reply option prog" where
  "child_WriteReport E v report gasConfig = write_report E v report gasConfig"

section \<open>The test double\<close>

definition child_mock_DEFAULT_ADMIN_ROLE :: "abi \<Rightarrow> mock \<Rightarrow> byte list \<Rightarrow> byte list outcome" where
  "child_mock_DEFAULT_ADMIN_ROLE c k =
     mock_call c k ''DEFAULT_ADMIN_ROLE'' ''DEFAULTADMINROLE'' [] PackResult"

definition child_mock_UPGRADE_INTERFACE_VERSION :: "abi \<Rightarrow> mock \<Rightarrow> byte list \<Rightarrow> byte list outcome" where
  "child_mock_UPGRADE_INTERFACE_VERSION c k =
     mock_call c k ''UPGRADE_INTERFACE_VERSION'' ''UPGRADEINTERFACEVERSION'' [] PackResult"

definition child_mock_defaultAdmin :: "abi \<Rightarrow> mock \<Rightarrow> byte list \<Rightarrow> byte list outcome" where
  "child_mock_defaultAdmin c k =
     mock_call c k ''defaultAdmin'' ''DefaultAdmin'' [] PackResult"

definition child_mock_defaultAdminDelay :: "abi \<Rightarrow> mock \<Rightarrow> byte list \<Rightarrow> byte list outcome" where
  "child_mock_defaultAdminDelay c k =
     mock_call c k ''defaultAdminDelay'' ''DefaultAdminDelay'' [] PackResult"

definition child_mock_defaultAdminDelayIncreaseWait :: "abi \<Rightarrow> mock \<Rightarrow> byte list \<Rightarrow> byte list outcome" where
  "child_mock_defaultAdminDelayIncreaseWait c k =
     mock_call c k ''defaultAdminDelayIncreaseWait'' ''DefaultAdminDelayIncreaseWait'' [] PackResult"

definition child_mock_getActiveProtocolAdapter :: "abi \<Rightarrow> mock \<Rightarrow> byte list \<Rightarrow> byte list outcome" where
  "child_mock_getActiveProtocolAdapter c k =
     mock_call c k ''getActiveProtocolAdapter'' ''GetActiveProtocolAdapter'' [] PackResult"

definition child_mock_getAdapterRegistry :: "abi \<Rightarrow> mock \<Rightarrow> byte list \<Rightarrow> byte list outcome" where
  "child_mock_getAdapterRegistry c k =
     mock_call c k ''getAdapterRegistry'' ''GetAdapterRegistry'' [] PackResult"

definition child_mock_getAsset :: "abi \<Rightarrow> mock \<Rightarrow> byte list \<Rightarrow> byte list outcome" where
  "child_mock_getAsset c k =
     mock_call c k ''getAsset'' ''GetAsset'' [] PackResult"

definition child_mock_getAssetPrecision :: "abi \<Rightarrow> mock \<Rightarrow> byte list \<Rightarrow> byte list outcome" where
  "child_mock_getAssetPrecision c k =
     mock_call c k ''getAssetPrecision'' ''GetAssetPrecision'' [] PackResult"

definition child_mock_getCCVsAndFinalityConfig :: "abi \<Rightarrow> mock \<Rightarrow> byte list \<Rightarrow> byte list outcome" where
  "child_mock_getCCVsAndFinalityConfig c k =
     mock_call c k ''getCCVsAndFinalityConfig'' ''GetCCVsAndFinalityConfig'' child_GetCCVsAndFinalityConfigInput (PackFields [''RequiredCCVs'', ''OptionalCCVs'', ''OptionalThreshold'', ''AllowedFinalityConfig''])"

definition child_mock_getCcipGasLimit :: "abi \<Rightarrow> mock \<Rightarrow> byte list \<Rightarrow> byte list outcome" where
  "child_mock_getCcipGasLimit c k =
     mock_call c k ''getCcipGasLimit'' ''GetCcipGasLimit'' child_GetCcipGasLimitInput PackResult"

definition child_mock_getCcipSendRecovery :: "abi \<Rightarrow> mock \<Rightarrow> byte list \<Rightarrow> byte list outcome" where
  "child_mock_getCcipSendRecovery c k =
     mock_call c k ''getCcipSendRecovery'' ''GetCcipSendRecovery'' [] PackResult"

definition child_mock_getChildOperationalState :: "abi \<Rightarrow> mock \<Rightarrow> byte list \<Rightarrow> byte list outcome" where
  "child_mock_getChildOperationalState c k =
     mock_call c k ''getChildOperationalState'' ''GetChildOperationalState'' [] PackResult"

definition child_mock_getCrosschainVault :: "abi \<Rightarrow> mock \<Rightarrow> byte list \<Rightarrow> byte list outcome" where
  "child_mock_getCrosschainVault c k =
     mock_call c k ''getCrosschainVault'' ''GetCrosschainVault'' child_GetCrosschainVaultInput PackResult"

definition child_mock_getDefaultCcipGasLimit :: "abi \<Rightarrow> mock \<Rightarrow> byte list \<Rightarrow> byte list outcome" where
  "child_mock_getDefaultCcipGasLimit c k =
     mock_call c k ''getDefaultCcipGasLimit'' ''GetDefaultCcipGasLimit'' [] PackResult"

definition child_mock_getEpochDepositRecovery :: "abi \<Rightarrow> mock \<Rightarrow> byte list \<Rightarrow> byte list outcome" where
  "child_mock_getEpochDepositRecovery c k =
     mock_call c k ''getEpochDepositRecovery'' ''GetEpochDepositRecovery'' [] PackResult"

definition child_mock_getEpochWithdrawRecovery :: "abi \<Rightarrow> mock \<Rightarrow> byte list \<Rightarrow> byte list outcome" where
  "child_mock_getEpochWithdrawRecovery c k =
     mock_call c k ''getEpochWithdrawRecovery'' ''GetEpochWithdrawRecovery'' [] PackResult"

definition child_mock_getLastHandledEpochNonce :: "abi \<Rightarrow> mock \<Rightarrow> byte list \<Rightarrow> byte list outcome" where
  "child_mock_getLastHandledEpochNonce c k =
     mock_call c k ''getLastHandledEpochNonce'' ''GetLastHandledEpochNonce'' [] PackResult"

definition child_mock_getLastHandledRebalanceNonce :: "abi \<Rightarrow> mock \<Rightarrow> byte list \<Rightarrow> byte list outcome" where
  "child_mock_getLastHandledRebalanceNonce c k =
     mock_call c k ''getLastHandledRebalanceNonce'' ''GetLastHandledRebalanceNonce'' [] PackResult"

definition child_mock_getLink :: "abi \<Rightarrow> mock \<Rightarrow> byte list \<Rightarrow> byte list outcome" where
  "child_mock_getLink c k =
     mock_call c k ''getLink'' ''GetLink'' [] PackResult"

definition child_mock_getParentChainSelector :: "abi \<Rightarrow> mock \<Rightarrow> byte list \<Rightarrow> byte list outcome" where
  "child_mock_getParentChainSelector c k =
     mock_call c k ''getParentChainSelector'' ''GetParentChainSelector'' [] PackResult"

definition child_mock_getRebalanceDepositRecovery :: "abi \<Rightarrow> mock \<Rightarrow> byte list \<Rightarrow> byte list outcome" where
  "child_mock_getRebalanceDepositRecovery c k =
     mock_call c k ''getRebalanceDepositRecovery'' ''GetRebalanceDepositRecovery'' [] PackResult"

definition child_mock_getRebalanceWithdrawRecovery :: "abi \<Rightarrow> mock \<Rightarrow> byte list \<Rightarrow> byte list outcome" where
  "child_mock_getRebalanceWithdrawRecovery c k =
     mock_call c k ''getRebalanceWithdrawRecovery'' ''GetRebalanceWithdrawRecovery'' [] PackResult"

definition child_mock_getRecoveryMode :: "abi \<Rightarrow> mock \<Rightarrow> byte list \<Rightarrow> byte list outcome" where
  "child_mock_getRecoveryMode c k =
     mock_call c k ''getRecoveryMode'' ''GetRecoveryMode'' [] PackResult"

definition child_mock_getRoleAdmin :: "abi \<Rightarrow> mock \<Rightarrow> byte list \<Rightarrow> byte list outcome" where
  "child_mock_getRoleAdmin c k =
     mock_call c k ''getRoleAdmin'' ''GetRoleAdmin'' child_GetRoleAdminInput PackResult"

definition child_mock_getRouter :: "abi \<Rightarrow> mock \<Rightarrow> byte list \<Rightarrow> byte list outcome" where
  "child_mock_getRouter c k =
     mock_call c k ''getRouter'' ''GetRouter'' [] PackResult"

definition child_mock_getTVL :: "abi \<Rightarrow> mock \<Rightarrow> byte list \<Rightarrow> byte list outcome" where
  "child_mock_getTVL c k =
     mock_call c k ''getTVL'' ''GetTVL'' [] PackResult"

definition child_mock_getThisChainSelector :: "abi \<Rightarrow> mock \<Rightarrow> byte list \<Rightarrow> byte list outcome" where
  "child_mock_getThisChainSelector c k =
     mock_call c k ''getThisChainSelector'' ''GetThisChainSelector'' [] PackResult"

definition child_mock_hasRole :: "abi \<Rightarrow> mock \<Rightarrow> byte list \<Rightarrow> byte list outcome" where
  "child_mock_hasRole c k =
     mock_call c k ''hasRole'' ''HasRole'' child_HasRoleInput PackResult"

definition child_mock_owner :: "abi \<Rightarrow> mock \<Rightarrow> byte list \<Rightarrow> byte list outcome" where
  "child_mock_owner c k =
     mock_call c k ''owner'' ''Owner'' [] PackResult"

definition child_mock_paused :: "abi \<Rightarrow> mock \<Rightarrow> byte list \<Rightarrow> byte list outcome" where
  "child_mock_paused c k =
     mock_call c k ''paused'' ''Paused'' [] PackResult"

definition child_mock_pendingDefaultAdmin :: "abi \<Rightarrow> mock \<Rightarrow> byte list \<Rightarrow> byte list outcome" where
  "child_mock_pendingDefaultAdmin c k =
     mock_call c k ''pendingDefaultAdmin'' ''PendingDefaultAdmin'' [] (PackFields [''NewAdmin'', ''Schedule''])"

definition child_mock_pendingDefaultAdminDelay :: "abi \<Rightarrow> mock \<Rightarrow> byte list \<Rightarrow> byte list outcome" where
  "child_mock_pendingDefaultAdminDelay c k =
     mock_call c k ''pendingDefaultAdminDelay'' ''PendingDefaultAdminDelay'' [] (PackFields [''NewDelay'',
       ''Schedule''])"

definition child_mock_proxiableUUID :: "abi \<Rightarrow> mock \<Rightarrow> byte list \<Rightarrow> byte list outcome" where
  "child_mock_proxiableUUID c k =
     mock_call c k ''proxiableUUID'' ''ProxiableUUID'' [] PackResult"

definition child_funcMap :: "mock \<Rightarrow> abi \<Rightarrow> func_map" where
  "child_funcMap k c =
     [(take 4 (abi_MethodID c ''DEFAULT_ADMIN_ROLE''), child_mock_DEFAULT_ADMIN_ROLE c k),
      (take 4 (abi_MethodID c ''UPGRADE_INTERFACE_VERSION''), child_mock_UPGRADE_INTERFACE_VERSION c k),
      (take 4 (abi_MethodID c ''defaultAdmin''), child_mock_defaultAdmin c k),
      (take 4 (abi_MethodID c ''defaultAdminDelay''), child_mock_defaultAdminDelay c k),
      (take 4 (abi_MethodID c ''defaultAdminDelayIncreaseWait''), child_mock_defaultAdminDelayIncreaseWait c k),
      (take 4 (abi_MethodID c ''getActiveProtocolAdapter''), child_mock_getActiveProtocolAdapter c k),
      (take 4 (abi_MethodID c ''getAdapterRegistry''), child_mock_getAdapterRegistry c k),
      (take 4 (abi_MethodID c ''getAsset''), child_mock_getAsset c k),
      (take 4 (abi_MethodID c ''getAssetPrecision''), child_mock_getAssetPrecision c k),
      (take 4 (abi_MethodID c ''getCCVsAndFinalityConfig''), child_mock_getCCVsAndFinalityConfig c k),
      (take 4 (abi_MethodID c ''getCcipGasLimit''), child_mock_getCcipGasLimit c k),
      (take 4 (abi_MethodID c ''getCcipSendRecovery''), child_mock_getCcipSendRecovery c k),
      (take 4 (abi_MethodID c ''getChildOperationalState''), child_mock_getChildOperationalState c k),
      (take 4 (abi_MethodID c ''getCrosschainVault''), child_mock_getCrosschainVault c k),
      (take 4 (abi_MethodID c ''getDefaultCcipGasLimit''), child_mock_getDefaultCcipGasLimit c k),
      (take 4 (abi_MethodID c ''getEpochDepositRecovery''), child_mock_getEpochDepositRecovery c k),
      (take 4 (abi_MethodID c ''getEpochWithdrawRecovery''), child_mock_getEpochWithdrawRecovery c k),
      (take 4 (abi_MethodID c ''getLastHandledEpochNonce''), child_mock_getLastHandledEpochNonce c k),
      (take 4 (abi_MethodID c ''getLastHandledRebalanceNonce''), child_mock_getLastHandledRebalanceNonce c k),
      (take 4 (abi_MethodID c ''getLink''), child_mock_getLink c k),
      (take 4 (abi_MethodID c ''getParentChainSelector''), child_mock_getParentChainSelector c k),
      (take 4 (abi_MethodID c ''getRebalanceDepositRecovery''), child_mock_getRebalanceDepositRecovery c k),
      (take 4 (abi_MethodID c ''getRebalanceWithdrawRecovery''), child_mock_getRebalanceWithdrawRecovery c k),
      (take 4 (abi_MethodID c ''getRecoveryMode''), child_mock_getRecoveryMode c k),
      (take 4 (abi_MethodID c ''getRoleAdmin''), child_mock_getRoleAdmin c k),
      (take 4 (abi_MethodID c ''getRouter''), child_mock_getRouter c k),
      (take 4 (abi_MethodID c ''getTVL''), child_mock_getTVL c k),
      (take 4 (abi_MethodID c ''getThisChainSelector''), child_mock_getThisChainSelector c k),
      (take 4 (abi_MethodID c ''hasRole''), child_mock_hasRole c k),
      (take 4 (abi_MethodID c ''owner''), child_mock_owner c k),
      (take 4 (abi_MethodID c ''paused''), child_mock_paused c k),
      (take 4 (abi_MethodID c ''pendingDefaultAdmin''), child_mock_pendingDefaultAdmin c k),
      (take 4 (abi_MethodID c ''pendingDefaultAdminDelay''), child_mock_pendingDefaultAdminDelay c k),
      (take 4 (abi_MethodID c ''proxiableUUID''), child_mock_proxiableUUID c k)]"

definition NewChildVaultMock :: "env \<Rightarrow> mock \<Rightarrow> func_map outcome" where
  "NewChildVaultMock E k = new_mock (child_NewCodec E) (child_funcMap k)"

section \<open>The package against its interface\<close>

text \<open>The tables: what each encoder packs, and the shape of each read and of each mock function.\<close>

definition child_call_table :: "call_spec list" where
  "child_call_table =
     [(''DEFAULT_ADMIN_ROLE'', []),
      (''UPGRADE_INTERFACE_VERSION'', []),
      (''acceptDefaultAdminTransfer'', []),
      (''beginDefaultAdminTransfer'', child_BeginDefaultAdminTransferInput),
      (''cancelDefaultAdminTransfer'', []),
      (''ccipReceive'', child_CcipReceiveInput),
      (''changeDefaultAdminDelay'', child_ChangeDefaultAdminDelayInput),
      (''defaultAdmin'', []),
      (''defaultAdminDelay'', []),
      (''defaultAdminDelayIncreaseWait'', []),
      (''executeEpochWithdraw'', [(''EpochNonce'', TBig), (''Amount'', TBig)]),
      (''executeRebalance'', [(''RebalanceNonce'', TBig), (''NewStrategy'', strategy_type)]),
      (''executeRecovery'', []),
      (''getActiveProtocolAdapter'', []),
      (''getAdapterRegistry'', []),
      (''getAsset'', []),
      (''getAssetPrecision'', []),
      (''getCCVsAndFinalityConfig'', child_GetCCVsAndFinalityConfigInput),
      (''getCcipGasLimit'', child_GetCcipGasLimitInput),
      (''getCcipSendRecovery'', []),
      (''getChildOperationalState'', []),
      (''getCrosschainVault'', child_GetCrosschainVaultInput),
      (''getDefaultCcipGasLimit'', []),
      (''getEpochDepositRecovery'', []),
      (''getEpochWithdrawRecovery'', []),
      (''getLastHandledEpochNonce'', []),
      (''getLastHandledRebalanceNonce'', []),
      (''getLink'', []),
      (''getParentChainSelector'', []),
      (''getRebalanceDepositRecovery'', []),
      (''getRebalanceWithdrawRecovery'', []),
      (''getRecoveryMode'', []),
      (''getRoleAdmin'', child_GetRoleAdminInput),
      (''getRouter'', []),
      (''getTVL'', []),
      (''getThisChainSelector'', []),
      (''grantRole'', child_GrantRoleInput),
      (''hasRole'', child_HasRoleInput),
      (''initialize'', child_InitializeInput),
      (''owner'', []),
      (''pause'', []),
      (''paused'', []),
      (''pendingDefaultAdmin'', []),
      (''pendingDefaultAdminDelay'', []),
      (''proxiableUUID'', []),
      (''renounceRole'', child_RenounceRoleInput),
      (''revokeRole'', child_RevokeRoleInput),
      (''rollbackDefaultAdminDelay'', []),
      (''setCcipGasLimit'', child_SetCcipGasLimitInput),
      (''setCrosschainVaults'', child_SetCrosschainVaultsInput),
      (''setDefaultCcipGasLimit'', child_SetDefaultCcipGasLimitInput),
      (''supportsInterface'', child_SupportsInterfaceInput),
      (''tryCcipSend'', child_TryCcipSendInput),
      (''tryDepositToAdapter'', child_TryDepositToAdapterInput),
      (''unpause'', []),
      (''upgradeToAndCall'', child_UpgradeToAndCallInput),
      (''withdrawLink'', child_WithdrawLinkInput)]"

definition child_calls :: "call_encoder list" where
  "child_calls =
     [\<lambda>c _. child_EncodeDEFAULTADMINROLEMethodCall c,
      \<lambda>c _. child_EncodeUPGRADEINTERFACEVERSIONMethodCall c,
      \<lambda>c _. child_EncodeAcceptDefaultAdminTransferMethodCall c,
      child_EncodeBeginDefaultAdminTransferMethodCall,
      \<lambda>c _. child_EncodeCancelDefaultAdminTransferMethodCall c,
      child_EncodeCcipReceiveMethodCall,
      child_EncodeChangeDefaultAdminDelayMethodCall,
      \<lambda>c _. child_EncodeDefaultAdminMethodCall c,
      \<lambda>c _. child_EncodeDefaultAdminDelayMethodCall c,
      \<lambda>c _. child_EncodeDefaultAdminDelayIncreaseWaitMethodCall c,
      \<lambda>c inp. EncodeExecuteEpochWithdrawMethodCall c \<lparr>ew_EpochNonce = as_big (map_of inp ''EpochNonce''),
        ew_Amount = as_big (map_of inp ''Amount'')\<rparr>,
      \<lambda>c inp. EncodeExecuteRebalanceMethodCall c \<lparr>er_RebalanceNonce = as_big (map_of inp ''RebalanceNonce''), er_NewStrategy = strategy_of (as_struct (map_of inp ''NewStrategy''))\<rparr>,
      \<lambda>c _. child_EncodeExecuteRecoveryMethodCall c,
      \<lambda>c _. child_EncodeGetActiveProtocolAdapterMethodCall c,
      \<lambda>c _. child_EncodeGetAdapterRegistryMethodCall c,
      \<lambda>c _. child_EncodeGetAssetMethodCall c,
      \<lambda>c _. child_EncodeGetAssetPrecisionMethodCall c,
      child_EncodeGetCCVsAndFinalityConfigMethodCall,
      child_EncodeGetCcipGasLimitMethodCall,
      \<lambda>c _. child_EncodeGetCcipSendRecoveryMethodCall c,
      \<lambda>c _. EncodeGetChildOperationalStateMethodCall c,
      child_EncodeGetCrosschainVaultMethodCall,
      \<lambda>c _. child_EncodeGetDefaultCcipGasLimitMethodCall c,
      \<lambda>c _. child_EncodeGetEpochDepositRecoveryMethodCall c,
      \<lambda>c _. child_EncodeGetEpochWithdrawRecoveryMethodCall c,
      \<lambda>c _. child_EncodeGetLastHandledEpochNonceMethodCall c,
      \<lambda>c _. child_EncodeGetLastHandledRebalanceNonceMethodCall c,
      \<lambda>c _. child_EncodeGetLinkMethodCall c,
      \<lambda>c _. child_EncodeGetParentChainSelectorMethodCall c,
      \<lambda>c _. child_EncodeGetRebalanceDepositRecoveryMethodCall c,
      \<lambda>c _. child_EncodeGetRebalanceWithdrawRecoveryMethodCall c,
      \<lambda>c _. child_EncodeGetRecoveryModeMethodCall c,
      child_EncodeGetRoleAdminMethodCall,
      \<lambda>c _. child_EncodeGetRouterMethodCall c,
      \<lambda>c _. child_EncodeGetTVLMethodCall c,
      \<lambda>c _. child_EncodeGetThisChainSelectorMethodCall c,
      child_EncodeGrantRoleMethodCall,
      child_EncodeHasRoleMethodCall,
      child_EncodeInitializeMethodCall,
      \<lambda>c _. child_EncodeOwnerMethodCall c,
      \<lambda>c _. child_EncodePauseMethodCall c,
      \<lambda>c _. child_EncodePausedMethodCall c,
      \<lambda>c _. child_EncodePendingDefaultAdminMethodCall c,
      \<lambda>c _. child_EncodePendingDefaultAdminDelayMethodCall c,
      \<lambda>c _. child_EncodeProxiableUUIDMethodCall c,
      child_EncodeRenounceRoleMethodCall,
      child_EncodeRevokeRoleMethodCall,
      \<lambda>c _. child_EncodeRollbackDefaultAdminDelayMethodCall c,
      child_EncodeSetCcipGasLimitMethodCall,
      child_EncodeSetCrosschainVaultsMethodCall,
      child_EncodeSetDefaultCcipGasLimitMethodCall,
      child_EncodeSupportsInterfaceMethodCall,
      child_EncodeTryCcipSendMethodCall,
      child_EncodeTryDepositToAdapterMethodCall,
      \<lambda>c _. child_EncodeUnpauseMethodCall c,
      child_EncodeUpgradeToAndCallMethodCall,
      child_EncodeWithdrawLinkMethodCall]"

definition child_read_table :: "read_spec list" where
  "child_read_table =
     [\<lparr>rs_Go = ''DEFAULTADMINROLE'', rs_Name = ''DEFAULT_ADMIN_ROLE'', rs_Inputs = [],
        rs_Outputs = OneOutput (TFix 32) ''[32]byte''\<rparr>,
      \<lparr>rs_Go = ''UPGRADEINTERFACEVERSION'', rs_Name = ''UPGRADE_INTERFACE_VERSION'', rs_Inputs = [],
        rs_Outputs = OneOutput TStr ''string''\<rparr>,
      \<lparr>rs_Go = ''DefaultAdmin'', rs_Name = ''defaultAdmin'', rs_Inputs = [],
        rs_Outputs = OneOutput TAddr ''common.Address''\<rparr>,
      \<lparr>rs_Go = ''DefaultAdminDelay'', rs_Name = ''defaultAdminDelay'', rs_Inputs = [],
        rs_Outputs = OneOutput TBig ''*big.Int''\<rparr>,
      \<lparr>rs_Go = ''DefaultAdminDelayIncreaseWait'', rs_Name = ''defaultAdminDelayIncreaseWait'', rs_Inputs = [],
        rs_Outputs = OneOutput TBig ''*big.Int''\<rparr>,
      \<lparr>rs_Go = ''GetActiveProtocolAdapter'', rs_Name = ''getActiveProtocolAdapter'', rs_Inputs = [],
        rs_Outputs = OneOutput TAddr ''common.Address''\<rparr>,
      \<lparr>rs_Go = ''GetAdapterRegistry'', rs_Name = ''getAdapterRegistry'', rs_Inputs = [],
        rs_Outputs = OneOutput TAddr ''common.Address''\<rparr>,
      \<lparr>rs_Go = ''GetAsset'', rs_Name = ''getAsset'', rs_Inputs = [],
        rs_Outputs = OneOutput TAddr ''common.Address''\<rparr>,
      \<lparr>rs_Go = ''GetAssetPrecision'', rs_Name = ''getAssetPrecision'', rs_Inputs = [],
        rs_Outputs = OneOutput TBig ''*big.Int''\<rparr>,
      \<lparr>rs_Go = ''GetCCVsAndFinalityConfig'', rs_Name = ''getCCVsAndFinalityConfig'',
        rs_Inputs = child_GetCCVsAndFinalityConfigInput, rs_Outputs = StructOutput [(''RequiredCCVs'', TList TAddr,
        ''[]common.Address''), (''OptionalCCVs'', TList TAddr, ''[]common.Address''),
        (''OptionalThreshold'', TU8, ''uint8''), (''AllowedFinalityConfig'', TFix 4, ''[4]byte'')]\<rparr>,
      \<lparr>rs_Go = ''GetCcipGasLimit'', rs_Name = ''getCcipGasLimit'', rs_Inputs = child_GetCcipGasLimitInput,
        rs_Outputs = OneOutput TBig ''*big.Int''\<rparr>,
      \<lparr>rs_Go = ''GetCcipSendRecovery'', rs_Name = ''getCcipSendRecovery'', rs_Inputs = [],
        rs_Outputs = OneOutput (TStruct child_TypesCcipSendRecovery) ''TypesCcipSendRecovery''\<rparr>,
      \<lparr>rs_Go = ''GetCrosschainVault'', rs_Name = ''getCrosschainVault'',
        rs_Inputs = child_GetCrosschainVaultInput, rs_Outputs = OneOutput TAddr ''common.Address''\<rparr>,
      \<lparr>rs_Go = ''GetDefaultCcipGasLimit'', rs_Name = ''getDefaultCcipGasLimit'', rs_Inputs = [],
        rs_Outputs = OneOutput TBig ''*big.Int''\<rparr>,
      \<lparr>rs_Go = ''GetEpochDepositRecovery'', rs_Name = ''getEpochDepositRecovery'', rs_Inputs = [],
        rs_Outputs = OneOutput (TStruct child_TypesEpochRecovery) ''TypesEpochRecovery''\<rparr>,
      \<lparr>rs_Go = ''GetEpochWithdrawRecovery'', rs_Name = ''getEpochWithdrawRecovery'', rs_Inputs = [],
        rs_Outputs = OneOutput (TStruct child_TypesEpochRecovery) ''TypesEpochRecovery''\<rparr>,
      \<lparr>rs_Go = ''GetLastHandledEpochNonce'', rs_Name = ''getLastHandledEpochNonce'', rs_Inputs = [],
        rs_Outputs = OneOutput TBig ''*big.Int''\<rparr>,
      \<lparr>rs_Go = ''GetLastHandledRebalanceNonce'', rs_Name = ''getLastHandledRebalanceNonce'', rs_Inputs = [],
        rs_Outputs = OneOutput TBig ''*big.Int''\<rparr>,
      \<lparr>rs_Go = ''GetLink'', rs_Name = ''getLink'', rs_Inputs = [],
        rs_Outputs = OneOutput TAddr ''common.Address''\<rparr>,
      \<lparr>rs_Go = ''GetParentChainSelector'', rs_Name = ''getParentChainSelector'', rs_Inputs = [],
        rs_Outputs = OneOutput TU64 ''uint64''\<rparr>,
      \<lparr>rs_Go = ''GetRebalanceDepositRecovery'', rs_Name = ''getRebalanceDepositRecovery'', rs_Inputs = [],
        rs_Outputs = OneOutput (TStruct child_TypesRebalanceDepositRecovery) ''TypesRebalanceDepositRecovery''\<rparr>,
      \<lparr>rs_Go = ''GetRebalanceWithdrawRecovery'', rs_Name = ''getRebalanceWithdrawRecovery'', rs_Inputs = [],
        rs_Outputs = OneOutput (TStruct child_TypesRebalanceWithdrawRecovery) ''TypesRebalanceWithdrawRecovery''\<rparr>,
      \<lparr>rs_Go = ''GetRecoveryMode'', rs_Name = ''getRecoveryMode'', rs_Inputs = [],
        rs_Outputs = OneOutput TU8 ''uint8''\<rparr>,
      \<lparr>rs_Go = ''GetRoleAdmin'', rs_Name = ''getRoleAdmin'', rs_Inputs = child_GetRoleAdminInput,
        rs_Outputs = OneOutput (TFix 32) ''[32]byte''\<rparr>,
      \<lparr>rs_Go = ''GetRouter'', rs_Name = ''getRouter'', rs_Inputs = [],
        rs_Outputs = OneOutput TAddr ''common.Address''\<rparr>,
      \<lparr>rs_Go = ''GetTVL'', rs_Name = ''getTVL'', rs_Inputs = [], rs_Outputs = OneOutput TBig ''*big.Int''\<rparr>,
      \<lparr>rs_Go = ''GetThisChainSelector'', rs_Name = ''getThisChainSelector'', rs_Inputs = [],
        rs_Outputs = OneOutput TU64 ''uint64''\<rparr>,
      \<lparr>rs_Go = ''HasRole'', rs_Name = ''hasRole'', rs_Inputs = child_HasRoleInput,
        rs_Outputs = OneOutput TBool ''bool''\<rparr>,
      \<lparr>rs_Go = ''Owner'', rs_Name = ''owner'', rs_Inputs = [],
        rs_Outputs = OneOutput TAddr ''common.Address''\<rparr>,
      \<lparr>rs_Go = ''Paused'', rs_Name = ''paused'', rs_Inputs = [], rs_Outputs = OneOutput TBool ''bool''\<rparr>,
      \<lparr>rs_Go = ''PendingDefaultAdmin'', rs_Name = ''pendingDefaultAdmin'', rs_Inputs = [],
        rs_Outputs = StructOutput [(''NewAdmin'', TAddr, ''common.Address''),
        (''Schedule'', TBig, ''*big.Int'')]\<rparr>,
      \<lparr>rs_Go = ''PendingDefaultAdminDelay'', rs_Name = ''pendingDefaultAdminDelay'', rs_Inputs = [],
        rs_Outputs = StructOutput [(''NewDelay'', TBig, ''*big.Int''), (''Schedule'', TBig, ''*big.Int'')]\<rparr>,
      \<lparr>rs_Go = ''ProxiableUUID'', rs_Name = ''proxiableUUID'', rs_Inputs = [],
        rs_Outputs = OneOutput (TFix 32) ''[32]byte''\<rparr>]"

definition child_reads :: "contract_read list" where
  "child_reads =
     [\<lambda>E v _. child_DEFAULTADMINROLE E v,
      \<lambda>E v _. child_UPGRADEINTERFACEVERSION E v,
      \<lambda>E v _. child_DefaultAdmin E v,
      \<lambda>E v _. child_DefaultAdminDelay E v,
      \<lambda>E v _. child_DefaultAdminDelayIncreaseWait E v,
      \<lambda>E v _. child_GetActiveProtocolAdapter E v,
      \<lambda>E v _. child_GetAdapterRegistry E v,
      \<lambda>E v _. child_GetAsset E v,
      \<lambda>E v _. child_GetAssetPrecision E v,
      child_GetCCVsAndFinalityConfig,
      child_GetCcipGasLimit,
      \<lambda>E v _. child_GetCcipSendRecovery E v,
      child_GetCrosschainVault,
      \<lambda>E v _. child_GetDefaultCcipGasLimit E v,
      \<lambda>E v _. child_GetEpochDepositRecovery E v,
      \<lambda>E v _. child_GetEpochWithdrawRecovery E v,
      \<lambda>E v _. child_GetLastHandledEpochNonce E v,
      \<lambda>E v _. child_GetLastHandledRebalanceNonce E v,
      \<lambda>E v _. child_GetLink E v,
      \<lambda>E v _. child_GetParentChainSelector E v,
      \<lambda>E v _. child_GetRebalanceDepositRecovery E v,
      \<lambda>E v _. child_GetRebalanceWithdrawRecovery E v,
      \<lambda>E v _. child_GetRecoveryMode E v,
      child_GetRoleAdmin,
      \<lambda>E v _. child_GetRouter E v,
      \<lambda>E v _. child_GetTVL E v,
      \<lambda>E v _. child_GetThisChainSelector E v,
      child_HasRole,
      \<lambda>E v _. child_Owner E v,
      \<lambda>E v _. child_Paused E v,
      \<lambda>E v _. child_PendingDefaultAdmin E v,
      \<lambda>E v _. child_PendingDefaultAdminDelay E v,
      \<lambda>E v _. child_ProxiableUUID E v]"

definition child_mock_table :: "read_spec list" where
  "child_mock_table = take 12 child_read_table @
     [\<lparr>rs_Go = ''GetChildOperationalState'', rs_Name = ''getChildOperationalState'', rs_Inputs = [],
        rs_Outputs = OneOutput child_state_type ''TypesChildOperationalState''\<rparr>] @
     drop 12 child_read_table"

definition child_struct_reports :: "((env \<Rightarrow> gval \<Rightarrow> byte list outcome) \<times> (env \<Rightarrow> vault_binding \<Rightarrow> gval \<Rightarrow> uint64 option \<Rightarrow> write_reply option prog)) list" where
  "child_struct_reports =
     [(child_EncodeBaseVaultConstructorParamsStruct, child_WriteReportFromBaseVaultConstructorParams),
      (child_EncodeBaseVaultInitParamsStruct, child_WriteReportFromBaseVaultInitParams),
      (child_EncodeClientAny2EVMMessageStruct, child_WriteReportFromClientAny2EVMMessage),
      (child_EncodeClientEVMTokenAmountStruct, child_WriteReportFromClientEVMTokenAmount),
      (child_EncodeTypesCcipSendRecoveryStruct, child_WriteReportFromTypesCcipSendRecovery),
      (child_EncodeTypesChildOperationalStateStruct, child_WriteReportFromTypesChildOperationalState),
      (child_EncodeTypesEpochRecoveryStruct, child_WriteReportFromTypesEpochRecovery),
      (child_EncodeTypesRebalanceDepositRecoveryStruct, child_WriteReportFromTypesRebalanceDepositRecovery),
      (child_EncodeTypesRebalanceWithdrawRecoveryStruct, child_WriteReportFromTypesRebalanceWithdrawRecovery),
      (child_EncodeTypesStrategyStruct, child_WriteReportFromTypesStrategy)]"

lemmas child_struct_defs =
  child_BeginDefaultAdminTransferInput_def
  child_ClientEVMTokenAmount_def
  child_ClientAny2EVMMessage_def
  child_CcipReceiveInput_def
  child_ChangeDefaultAdminDelayInput_def
  child_GetCCVsAndFinalityConfigInput_def
  child_GetCcipGasLimitInput_def
  child_GetCrosschainVaultInput_def
  child_GetRoleAdminInput_def
  child_GrantRoleInput_def
  child_HasRoleInput_def
  child_BaseVaultInitParams_def
  child_InitializeInput_def
  child_RenounceRoleInput_def
  child_RevokeRoleInput_def
  child_SetCcipGasLimitInput_def
  child_SetCrosschainVaultsInput_def
  child_SetDefaultCcipGasLimitInput_def
  child_SupportsInterfaceInput_def
  child_TryCcipSendInput_def
  child_TryDepositToAdapterInput_def
  child_UpgradeToAndCallInput_def
  child_WithdrawLinkInput_def
  child_TypesCcipSendRecovery_def
  child_TypesEpochRecovery_def
  child_TypesRebalanceDepositRecovery_def
  child_TypesRebalanceWithdrawRecovery_def
  child_BaseVaultConstructorParams_def

lemmas child_encoder_defs =
  child_EncodeDEFAULTADMINROLEMethodCall_def
  child_EncodeUPGRADEINTERFACEVERSIONMethodCall_def
  child_EncodeAcceptDefaultAdminTransferMethodCall_def
  child_EncodeBeginDefaultAdminTransferMethodCall_def
  child_EncodeCancelDefaultAdminTransferMethodCall_def
  child_EncodeCcipReceiveMethodCall_def
  child_EncodeChangeDefaultAdminDelayMethodCall_def
  child_EncodeDefaultAdminMethodCall_def
  child_EncodeDefaultAdminDelayMethodCall_def
  child_EncodeDefaultAdminDelayIncreaseWaitMethodCall_def
  child_EncodeExecuteRecoveryMethodCall_def
  child_EncodeGetActiveProtocolAdapterMethodCall_def
  child_EncodeGetAdapterRegistryMethodCall_def
  child_EncodeGetAssetMethodCall_def
  child_EncodeGetAssetPrecisionMethodCall_def
  child_EncodeGetCCVsAndFinalityConfigMethodCall_def
  child_EncodeGetCcipGasLimitMethodCall_def
  child_EncodeGetCcipSendRecoveryMethodCall_def
  EncodeGetChildOperationalStateMethodCall_def
  child_EncodeGetCrosschainVaultMethodCall_def
  child_EncodeGetDefaultCcipGasLimitMethodCall_def
  child_EncodeGetEpochDepositRecoveryMethodCall_def
  child_EncodeGetEpochWithdrawRecoveryMethodCall_def
  child_EncodeGetLastHandledEpochNonceMethodCall_def
  child_EncodeGetLastHandledRebalanceNonceMethodCall_def
  child_EncodeGetLinkMethodCall_def
  child_EncodeGetParentChainSelectorMethodCall_def
  child_EncodeGetRebalanceDepositRecoveryMethodCall_def
  child_EncodeGetRebalanceWithdrawRecoveryMethodCall_def
  child_EncodeGetRecoveryModeMethodCall_def
  child_EncodeGetRoleAdminMethodCall_def
  child_EncodeGetRouterMethodCall_def
  child_EncodeGetTVLMethodCall_def
  child_EncodeGetThisChainSelectorMethodCall_def
  child_EncodeGrantRoleMethodCall_def
  child_EncodeHasRoleMethodCall_def
  child_EncodeInitializeMethodCall_def
  child_EncodeOwnerMethodCall_def
  child_EncodePauseMethodCall_def
  child_EncodePausedMethodCall_def
  child_EncodePendingDefaultAdminMethodCall_def
  child_EncodePendingDefaultAdminDelayMethodCall_def
  child_EncodeProxiableUUIDMethodCall_def
  child_EncodeRenounceRoleMethodCall_def
  child_EncodeRevokeRoleMethodCall_def
  child_EncodeRollbackDefaultAdminDelayMethodCall_def
  child_EncodeSetCcipGasLimitMethodCall_def
  child_EncodeSetCrosschainVaultsMethodCall_def
  child_EncodeSetDefaultCcipGasLimitMethodCall_def
  child_EncodeSupportsInterfaceMethodCall_def
  child_EncodeTryCcipSendMethodCall_def
  child_EncodeTryDepositToAdapterMethodCall_def
  child_EncodeUnpauseMethodCall_def
  child_EncodeUpgradeToAndCallMethodCall_def
  child_EncodeWithdrawLinkMethodCall_def

lemmas child_read_defs =
  child_DEFAULTADMINROLE_def
  child_UPGRADEINTERFACEVERSION_def
  child_DefaultAdmin_def
  child_DefaultAdminDelay_def
  child_DefaultAdminDelayIncreaseWait_def
  child_GetActiveProtocolAdapter_def
  child_GetAdapterRegistry_def
  child_GetAsset_def
  child_GetAssetPrecision_def
  child_GetCCVsAndFinalityConfig_def
  child_GetCcipGasLimit_def
  child_GetCcipSendRecovery_def
  child_GetCrosschainVault_def
  child_GetDefaultCcipGasLimit_def
  child_GetEpochDepositRecovery_def
  child_GetEpochWithdrawRecovery_def
  child_GetLastHandledEpochNonce_def
  child_GetLastHandledRebalanceNonce_def
  child_GetLink_def
  child_GetParentChainSelector_def
  child_GetRebalanceDepositRecovery_def
  child_GetRebalanceWithdrawRecovery_def
  child_GetRecoveryMode_def
  child_GetRoleAdmin_def
  child_GetRouter_def
  child_GetTVL_def
  child_GetThisChainSelector_def
  child_HasRole_def
  child_Owner_def
  child_Paused_def
  child_PendingDefaultAdmin_def
  child_PendingDefaultAdminDelay_def
  child_ProxiableUUID_def
  child_DecodeDEFAULTADMINROLEMethodOutput_def
  child_DecodeUPGRADEINTERFACEVERSIONMethodOutput_def
  child_DecodeDefaultAdminMethodOutput_def
  child_DecodeDefaultAdminDelayMethodOutput_def
  child_DecodeDefaultAdminDelayIncreaseWaitMethodOutput_def
  child_DecodeGetActiveProtocolAdapterMethodOutput_def
  child_DecodeGetAdapterRegistryMethodOutput_def
  child_DecodeGetAssetMethodOutput_def
  child_DecodeGetAssetPrecisionMethodOutput_def
  child_DecodeGetCCVsAndFinalityConfigMethodOutput_def
  child_DecodeGetCcipGasLimitMethodOutput_def
  child_DecodeGetCcipSendRecoveryMethodOutput_def
  child_DecodeGetCrosschainVaultMethodOutput_def
  child_DecodeGetDefaultCcipGasLimitMethodOutput_def
  child_DecodeGetEpochDepositRecoveryMethodOutput_def
  child_DecodeGetEpochWithdrawRecoveryMethodOutput_def
  child_DecodeGetLastHandledEpochNonceMethodOutput_def
  child_DecodeGetLastHandledRebalanceNonceMethodOutput_def
  child_DecodeGetLinkMethodOutput_def
  child_DecodeGetParentChainSelectorMethodOutput_def
  child_DecodeGetRebalanceDepositRecoveryMethodOutput_def
  child_DecodeGetRebalanceWithdrawRecoveryMethodOutput_def
  child_DecodeGetRecoveryModeMethodOutput_def
  child_DecodeGetRoleAdminMethodOutput_def
  child_DecodeGetRouterMethodOutput_def
  child_DecodeGetTVLMethodOutput_def
  child_DecodeGetThisChainSelectorMethodOutput_def
  child_DecodeHasRoleMethodOutput_def
  child_DecodeOwnerMethodOutput_def
  child_DecodePausedMethodOutput_def
  child_DecodePendingDefaultAdminMethodOutput_def
  child_DecodePendingDefaultAdminDelayMethodOutput_def
  child_DecodeProxiableUUIDMethodOutput_def
  child_DecodeSupportsInterfaceMethodOutput_def

lemmas child_mock_defs =
  child_mock_DEFAULT_ADMIN_ROLE_def
  child_mock_UPGRADE_INTERFACE_VERSION_def
  child_mock_defaultAdmin_def
  child_mock_defaultAdminDelay_def
  child_mock_defaultAdminDelayIncreaseWait_def
  child_mock_getActiveProtocolAdapter_def
  child_mock_getAdapterRegistry_def
  child_mock_getAsset_def
  child_mock_getAssetPrecision_def
  child_mock_getCCVsAndFinalityConfig_def
  child_mock_getCcipGasLimit_def
  child_mock_getCcipSendRecovery_def
  child_mock_getChildOperationalState_def
  child_mock_getCrosschainVault_def
  child_mock_getDefaultCcipGasLimit_def
  child_mock_getEpochDepositRecovery_def
  child_mock_getEpochWithdrawRecovery_def
  child_mock_getLastHandledEpochNonce_def
  child_mock_getLastHandledRebalanceNonce_def
  child_mock_getLink_def
  child_mock_getParentChainSelector_def
  child_mock_getRebalanceDepositRecovery_def
  child_mock_getRebalanceWithdrawRecovery_def
  child_mock_getRecoveryMode_def
  child_mock_getRoleAdmin_def
  child_mock_getRouter_def
  child_mock_getTVL_def
  child_mock_getThisChainSelector_def
  child_mock_hasRole_def
  child_mock_owner_def
  child_mock_paused_def
  child_mock_pendingDefaultAdmin_def
  child_mock_pendingDefaultAdminDelay_def
  child_mock_proxiableUUID_def

lemmas child_report_defs =
  child_WriteReportFromBaseVaultConstructorParams_def
  child_WriteReportFromBaseVaultInitParams_def
  child_WriteReportFromClientAny2EVMMessage_def
  child_WriteReportFromClientEVMTokenAmount_def
  child_WriteReportFromTypesCcipSendRecovery_def
  child_WriteReportFromTypesChildOperationalState_def
  child_WriteReportFromTypesEpochRecovery_def
  child_WriteReportFromTypesRebalanceDepositRecovery_def
  child_WriteReportFromTypesRebalanceWithdrawRecovery_def
  child_WriteReportFromTypesStrategy_def

lemma child_calls_eq: "child_calls = (map table_call child_call_table)[10 := \<lambda>c inp. EncodeExecuteEpochWithdrawMethodCall c \<lparr>ew_EpochNonce = as_big (map_of inp ''EpochNonce''), ew_Amount = as_big (map_of inp ''Amount'')\<rparr>,
    11 := \<lambda>c inp. EncodeExecuteRebalanceMethodCall c \<lparr>er_RebalanceNonce = as_big (map_of inp ''RebalanceNonce''), er_NewStrategy = strategy_of (as_struct (map_of inp ''NewStrategy''))\<rparr>]"
  by (simp add: child_calls_def child_call_table_def table_call_def child_encoder_defs child_struct_defs fun_eq_iff)

lemma child_call_fields: "list_all (\<lambda>s. distinct (map fst (snd s))) child_call_table"
  by (simp add: child_call_table_def child_struct_defs)

text \<open>The calls the workflow makes have encoders that take records.\<close>

lemma child_workflow_calls_ok:
  "call_ok (''executeEpochWithdraw'', [(''EpochNonce'', TBig), (''Amount'', TBig)])
     (\<lambda>c inp. EncodeExecuteEpochWithdrawMethodCall c \<lparr>ew_EpochNonce = as_big (map_of inp ''EpochNonce''), ew_Amount = as_big (map_of inp ''Amount'')\<rparr>)"
  "call_ok (''executeRebalance'', [(''RebalanceNonce'', TBig), (''NewStrategy'', strategy_type)])
     (\<lambda>c inp. EncodeExecuteRebalanceMethodCall c \<lparr>er_RebalanceNonce = as_big (map_of inp ''RebalanceNonce''), er_NewStrategy = strategy_of (as_struct (map_of inp ''NewStrategy''))\<rparr>)"
  by (auto simp: call_ok_def strategy_type_def has_type_iff map_eq_Cons_conv list_all2_Cons1 strategy_arg_def strategy_of_def
      EncodeExecuteEpochWithdrawMethodCall_def EncodeExecuteRebalanceMethodCall_def simp del: has_type.simps)

lemma child_call_table_at:
  "child_call_table ! 10 = (''executeEpochWithdraw'', [(''EpochNonce'', TBig), (''Amount'', TBig)])"
  "child_call_table ! 11 = (''executeRebalance'', [(''RebalanceNonce'', TBig), (''NewStrategy'', strategy_type)])"
  "length child_call_table = 57"
  by (simp_all add: child_call_table_def)

lemma child_calls_ok: "list_all2 call_ok child_call_table child_calls"
  unfolding child_calls_eq
  by (intro call_ok_update table_calls_ok child_call_fields) (simp_all add: child_call_table_at child_workflow_calls_ok)

lemma child_reads_eq: "child_reads = map table_read child_read_table"
  by (simp add: child_reads_def child_read_table_def table_read_def table_call_def child_read_defs child_encoder_defs child_struct_defs fun_eq_iff)

lemma child_funcMap_eq: "child_funcMap k c = map (table_mock c k) child_mock_table"
  by (simp add: child_funcMap_def child_mock_table_def child_read_table_def table_mock_def child_mock_defs)

lemma child_names: "distinct (map am_Name child_methods)"
  by (rule names_distinct) code_simp

lemma child_calls_conform: "list_all (inputs_conform child_methods) child_call_table"
proof (rule inputs_conformI)
  show "aligned inputs_fit fst child_methods child_call_table" by code_simp
qed (rule child_names)

lemma child_reads_conform: "list_all (read_conforms child_methods) child_read_table"
proof (rule read_conformsI)
  show "aligned read_fits rs_Name child_methods child_read_table" by code_simp
qed (rule child_names)

interpretation child_contract: contract_binding child_methods NewChildVault child_call_table child_calls
  child_read_table child_reads child_mock_table child_funcMap
proof unfold_locales
  show "set child_read_table \<subseteq> set child_mock_table"
    unfolding child_mock_table_def by (rule subset_take_drop)
qed (use child_calls_ok child_calls_conform child_reads_conform in \<open>auto simp: NewChildVault_def child_NewCodec_def bindO_Ok_iff child_reads_eq child_funcMap_eq\<close>)

lemma child_struct_reports_ok: "list_all (\<lambda>(enc, write). \<forall>E v inp gas. write E v inp gas = write_report_from E v (enc E inp) gas) child_struct_reports"
  by (simp add: child_struct_reports_def child_report_defs)

end
