(* ===== verification/Base_Calls.thy ===== *)
theory Base_Calls
  imports Binding_Contracts
begin

text \<open>
  The calls of the generated BaseVault package (\<open>cre/contracts/evm/generated/base_vault/BaseVault.go\<close>): the methods of
  its ABI literal, the input structs, the call encoders and output decoders, the contract reads, the struct encoders with
  their report writers, and the functions of its test double. Each is an instance of a shape of \<open>Binding_Shapes\<close>; the
  interpretation at the end checks the package against its ABI literal.
\<close>

section \<open>The ABI literal\<close>

definition base_methods :: "abi_method list" where
  "base_methods =
     [\<lparr>am_Name = ''DEFAULT_ADMIN_ROLE'', am_Inputs = [], am_Outputs = [('''', SFixed 32)]\<rparr>,
      \<lparr>am_Name = ''UPGRADE_INTERFACE_VERSION'', am_Inputs = [], am_Outputs = [('''', SString)]\<rparr>,
      \<lparr>am_Name = ''acceptDefaultAdminTransfer'', am_Inputs = [], am_Outputs = []\<rparr>,
      \<lparr>am_Name = ''beginDefaultAdminTransfer'', am_Inputs = [(''newAdmin'', SAddress)], am_Outputs = []\<rparr>,
      \<lparr>am_Name = ''cancelDefaultAdminTransfer'', am_Inputs = [], am_Outputs = []\<rparr>,
      \<lparr>am_Name = ''ccipReceive'', am_Inputs = [(''message'', STuple [(''messageId'', SFixed 32),
        (''sourceChainSelector'', SUint 64), (''sender'', SBytes), (''data'', SBytes),
        (''destTokenAmounts'', SArray (STuple [(''token'', SAddress),
        (''amount'', SUint 256)]))])], am_Outputs = []\<rparr>,
      \<lparr>am_Name = ''changeDefaultAdminDelay'', am_Inputs = [(''newDelay'', SUint 48)], am_Outputs = []\<rparr>,
      \<lparr>am_Name = ''defaultAdmin'', am_Inputs = [], am_Outputs = [('''', SAddress)]\<rparr>,
      \<lparr>am_Name = ''defaultAdminDelay'', am_Inputs = [], am_Outputs = [('''', SUint 48)]\<rparr>,
      \<lparr>am_Name = ''defaultAdminDelayIncreaseWait'', am_Inputs = [], am_Outputs = [('''', SUint 48)]\<rparr>,
      \<lparr>am_Name = ''executeRecovery'', am_Inputs = [], am_Outputs = []\<rparr>,
      \<lparr>am_Name = ''getActiveProtocolAdapter'', am_Inputs = [], am_Outputs = [(''activeProtocolAdapter'',
        SAddress)]\<rparr>,
      \<lparr>am_Name = ''getAdapterRegistry'', am_Inputs = [], am_Outputs = [(''adapterRegistry'', SAddress)]\<rparr>,
      \<lparr>am_Name = ''getAsset'', am_Inputs = [], am_Outputs = [(''asset'', SAddress)]\<rparr>,
      \<lparr>am_Name = ''getAssetPrecision'', am_Inputs = [], am_Outputs = [(''assetPrecision'', SUint 256)]\<rparr>,
      \<lparr>am_Name = ''getCCVsAndFinalityConfig'', am_Inputs = [('''', SUint 64),
        ('''', SBytes)], am_Outputs = [(''requiredCCVs'', SArray SAddress), (''optionalCCVs'', SArray SAddress),
        (''optionalThreshold'', SUint 8), (''allowedFinalityConfig'', SFixed 4)]\<rparr>,
      \<lparr>am_Name = ''getCcipGasLimit'', am_Inputs = [(''chainSelector'', SUint 64)], am_Outputs = [(''gasLimit'',
        SUint 256)]\<rparr>,
      \<lparr>am_Name = ''getCrosschainVault'', am_Inputs = [(''chainSelector'', SUint 64)], am_Outputs = [(''vault'',
        SAddress)]\<rparr>,
      \<lparr>am_Name = ''getDefaultCcipGasLimit'', am_Inputs = [], am_Outputs = [(''defaultCcipGasLimit'',
        SUint 256)]\<rparr>,
      \<lparr>am_Name = ''getLink'', am_Inputs = [], am_Outputs = [(''link'', SAddress)]\<rparr>,
      \<lparr>am_Name = ''getRebalanceDepositRecovery'', am_Inputs = [], am_Outputs = [(''recovery'',
        STuple [(''rebalanceNonce'', SUint 256), (''amount'', SUint 256)])]\<rparr>,
      \<lparr>am_Name = ''getRecoveryMode'', am_Inputs = [], am_Outputs = [(''recoveryMode'', SUint 8)]\<rparr>,
      \<lparr>am_Name = ''getRoleAdmin'', am_Inputs = [(''role'', SFixed 32)], am_Outputs = [('''', SFixed 32)]\<rparr>,
      \<lparr>am_Name = ''getRouter'', am_Inputs = [], am_Outputs = [('''', SAddress)]\<rparr>,
      \<lparr>am_Name = ''getTVL'', am_Inputs = [], am_Outputs = [(''tvl'', SUint 256)]\<rparr>,
      \<lparr>am_Name = ''getThisChainSelector'', am_Inputs = [], am_Outputs = [(''thisChainSelector'', SUint 64)]\<rparr>,
      \<lparr>am_Name = ''grantRole'', am_Inputs = [(''role'', SFixed 32),
        (''account'', SAddress)], am_Outputs = []\<rparr>,
      \<lparr>am_Name = ''hasRole'', am_Inputs = [(''role'', SFixed 32),
        (''account'', SAddress)], am_Outputs = [('''', SBool)]\<rparr>,
      \<lparr>am_Name = ''owner'', am_Inputs = [], am_Outputs = [('''', SAddress)]\<rparr>,
      \<lparr>am_Name = ''pause'', am_Inputs = [], am_Outputs = []\<rparr>,
      \<lparr>am_Name = ''paused'', am_Inputs = [], am_Outputs = [('''', SBool)]\<rparr>,
      \<lparr>am_Name = ''pendingDefaultAdmin'', am_Inputs = [], am_Outputs = [(''newAdmin'', SAddress),
        (''schedule'', SUint 48)]\<rparr>,
      \<lparr>am_Name = ''pendingDefaultAdminDelay'', am_Inputs = [], am_Outputs = [(''newDelay'', SUint 48),
        (''schedule'', SUint 48)]\<rparr>,
      \<lparr>am_Name = ''proxiableUUID'', am_Inputs = [], am_Outputs = [('''', SFixed 32)]\<rparr>,
      \<lparr>am_Name = ''renounceRole'', am_Inputs = [(''role'', SFixed 32),
        (''account'', SAddress)], am_Outputs = []\<rparr>,
      \<lparr>am_Name = ''revokeRole'', am_Inputs = [(''role'', SFixed 32),
        (''account'', SAddress)], am_Outputs = []\<rparr>,
      \<lparr>am_Name = ''rollbackDefaultAdminDelay'', am_Inputs = [], am_Outputs = []\<rparr>,
      \<lparr>am_Name = ''setCcipGasLimit'', am_Inputs = [(''chainSelector'', SUint 64),
        (''gasLimit'', SUint 256)], am_Outputs = []\<rparr>,
      \<lparr>am_Name = ''setCrosschainVaults'', am_Inputs = [(''chainSelectors'', SArray (SUint 64)),
        (''vaults'', SArray SAddress)], am_Outputs = []\<rparr>,
      \<lparr>am_Name = ''setDefaultCcipGasLimit'', am_Inputs = [(''gasLimit'', SUint 256)], am_Outputs = []\<rparr>,
      \<lparr>am_Name = ''supportsInterface'', am_Inputs = [(''interfaceId'', SFixed 4)], am_Outputs = [(''isSupported'',
        SBool)]\<rparr>,
      \<lparr>am_Name = ''tryDepositToAdapter'', am_Inputs = [(''adapter'', SAddress),
        (''amount'', SUint 256)], am_Outputs = []\<rparr>,
      \<lparr>am_Name = ''unpause'', am_Inputs = [], am_Outputs = []\<rparr>,
      \<lparr>am_Name = ''upgradeToAndCall'', am_Inputs = [(''newImplementation'', SAddress),
        (''data'', SBytes)], am_Outputs = []\<rparr>,
      \<lparr>am_Name = ''withdrawLink'', am_Inputs = [(''amount'', SUint 256)], am_Outputs = []\<rparr>]"

section \<open>Structs\<close>

definition base_BeginDefaultAdminTransferInput :: "struct_type" where
  "base_BeginDefaultAdminTransferInput = [(''NewAdmin'', TAddr)]"

definition base_ClientEVMTokenAmount :: "struct_type" where
  "base_ClientEVMTokenAmount = [(''Token'', TAddr), (''Amount'', TBig)]"

definition base_ClientAny2EVMMessage :: "struct_type" where
  "base_ClientAny2EVMMessage = [(''MessageId'', TFix 32), (''SourceChainSelector'', TU64), (''Sender'', TBytes),
       (''Data'', TBytes), (''DestTokenAmounts'', TList (TStruct base_ClientEVMTokenAmount))]"

definition base_CcipReceiveInput :: "struct_type" where
  "base_CcipReceiveInput = [(''Message'', TStruct base_ClientAny2EVMMessage)]"

definition base_ChangeDefaultAdminDelayInput :: "struct_type" where
  "base_ChangeDefaultAdminDelayInput = [(''NewDelay'', TBig)]"

definition base_GetCCVsAndFinalityConfigInput :: "struct_type" where
  "base_GetCCVsAndFinalityConfigInput = [(''Arg0'', TU64), (''Arg1'', TBytes)]"

definition base_GetCcipGasLimitInput :: "struct_type" where
  "base_GetCcipGasLimitInput = [(''ChainSelector'', TU64)]"

definition base_GetCrosschainVaultInput :: "struct_type" where
  "base_GetCrosschainVaultInput = [(''ChainSelector'', TU64)]"

definition base_GetRoleAdminInput :: "struct_type" where
  "base_GetRoleAdminInput = [(''Role'', TFix 32)]"

definition base_GrantRoleInput :: "struct_type" where
  "base_GrantRoleInput = [(''Role'', TFix 32), (''Account'', TAddr)]"

definition base_HasRoleInput :: "struct_type" where
  "base_HasRoleInput = [(''Role'', TFix 32), (''Account'', TAddr)]"

definition base_RenounceRoleInput :: "struct_type" where
  "base_RenounceRoleInput = [(''Role'', TFix 32), (''Account'', TAddr)]"

definition base_RevokeRoleInput :: "struct_type" where
  "base_RevokeRoleInput = [(''Role'', TFix 32), (''Account'', TAddr)]"

definition base_SetCcipGasLimitInput :: "struct_type" where
  "base_SetCcipGasLimitInput = [(''ChainSelector'', TU64), (''GasLimit'', TBig)]"

definition base_SetCrosschainVaultsInput :: "struct_type" where
  "base_SetCrosschainVaultsInput = [(''ChainSelectors'', TList TU64), (''Vaults'', TList TAddr)]"

definition base_SetDefaultCcipGasLimitInput :: "struct_type" where
  "base_SetDefaultCcipGasLimitInput = [(''GasLimit'', TBig)]"

definition base_SupportsInterfaceInput :: "struct_type" where
  "base_SupportsInterfaceInput = [(''InterfaceId'', TFix 4)]"

definition base_TryDepositToAdapterInput :: "struct_type" where
  "base_TryDepositToAdapterInput = [(''Adapter'', TAddr), (''Amount'', TBig)]"

definition base_UpgradeToAndCallInput :: "struct_type" where
  "base_UpgradeToAndCallInput = [(''NewImplementation'', TAddr), (''Data'', TBytes)]"

definition base_WithdrawLinkInput :: "struct_type" where
  "base_WithdrawLinkInput = [(''Amount'', TBig)]"

definition base_TypesRebalanceDepositRecovery :: "struct_type" where
  "base_TypesRebalanceDepositRecovery = [(''RebalanceNonce'', TBig), (''Amount'', TBig)]"

section \<open>Codec and contract\<close>

definition base_NewCodec :: "env \<Rightarrow> codec outcome" where
  "base_NewCodec E = bindO (abi_JSON E BaseVaultMetaData) (\<lambda>parsed. Ok \<lparr>codec_abi = parsed\<rparr>)"

definition NewBaseVault :: "env \<Rightarrow> uint64 \<Rightarrow> address \<Rightarrow> vault_binding outcome" where
  "NewBaseVault E chain addr =
     bindO (abi_JSON E BaseVaultMetaData) (\<lambda>parsed. bindO (base_NewCodec E) (\<lambda>c.
       Ok \<lparr>vb_Address = addr, vb_ABI = parsed, vb_ChainSelector = chain, vb_Codec = c\<rparr>))"

section \<open>Call encoders\<close>

definition base_EncodeDEFAULTADMINROLEMethodCall :: "codec \<Rightarrow> byte list outcome" where
  "base_EncodeDEFAULTADMINROLEMethodCall c = abi_Pack (codec_abi c) ''DEFAULT_ADMIN_ROLE'' []"

definition base_EncodeUPGRADEINTERFACEVERSIONMethodCall :: "codec \<Rightarrow> byte list outcome" where
  "base_EncodeUPGRADEINTERFACEVERSIONMethodCall c = abi_Pack (codec_abi c) ''UPGRADE_INTERFACE_VERSION'' []"

definition base_EncodeAcceptDefaultAdminTransferMethodCall :: "codec \<Rightarrow> byte list outcome" where
  "base_EncodeAcceptDefaultAdminTransferMethodCall c = abi_Pack (codec_abi c) ''acceptDefaultAdminTransfer'' []"

definition base_EncodeBeginDefaultAdminTransferMethodCall :: "codec \<Rightarrow> gstruct \<Rightarrow> byte list outcome" where
  "base_EncodeBeginDefaultAdminTransferMethodCall c inp =
     abi_Pack (codec_abi c) ''beginDefaultAdminTransfer'' [fld inp ''NewAdmin'']"

definition base_EncodeCancelDefaultAdminTransferMethodCall :: "codec \<Rightarrow> byte list outcome" where
  "base_EncodeCancelDefaultAdminTransferMethodCall c = abi_Pack (codec_abi c) ''cancelDefaultAdminTransfer'' []"

definition base_EncodeCcipReceiveMethodCall :: "codec \<Rightarrow> gstruct \<Rightarrow> byte list outcome" where
  "base_EncodeCcipReceiveMethodCall c inp =
     abi_Pack (codec_abi c) ''ccipReceive'' [fld inp ''Message'']"

definition base_EncodeChangeDefaultAdminDelayMethodCall :: "codec \<Rightarrow> gstruct \<Rightarrow> byte list outcome" where
  "base_EncodeChangeDefaultAdminDelayMethodCall c inp =
     abi_Pack (codec_abi c) ''changeDefaultAdminDelay'' [fld inp ''NewDelay'']"

definition base_EncodeDefaultAdminMethodCall :: "codec \<Rightarrow> byte list outcome" where
  "base_EncodeDefaultAdminMethodCall c = abi_Pack (codec_abi c) ''defaultAdmin'' []"

definition base_EncodeDefaultAdminDelayMethodCall :: "codec \<Rightarrow> byte list outcome" where
  "base_EncodeDefaultAdminDelayMethodCall c = abi_Pack (codec_abi c) ''defaultAdminDelay'' []"

definition base_EncodeDefaultAdminDelayIncreaseWaitMethodCall :: "codec \<Rightarrow> byte list outcome" where
  "base_EncodeDefaultAdminDelayIncreaseWaitMethodCall c = abi_Pack (codec_abi c) ''defaultAdminDelayIncreaseWait'' []"

definition base_EncodeExecuteRecoveryMethodCall :: "codec \<Rightarrow> byte list outcome" where
  "base_EncodeExecuteRecoveryMethodCall c = abi_Pack (codec_abi c) ''executeRecovery'' []"

definition base_EncodeGetActiveProtocolAdapterMethodCall :: "codec \<Rightarrow> byte list outcome" where
  "base_EncodeGetActiveProtocolAdapterMethodCall c = abi_Pack (codec_abi c) ''getActiveProtocolAdapter'' []"

definition base_EncodeGetAdapterRegistryMethodCall :: "codec \<Rightarrow> byte list outcome" where
  "base_EncodeGetAdapterRegistryMethodCall c = abi_Pack (codec_abi c) ''getAdapterRegistry'' []"

definition base_EncodeGetAssetMethodCall :: "codec \<Rightarrow> byte list outcome" where
  "base_EncodeGetAssetMethodCall c = abi_Pack (codec_abi c) ''getAsset'' []"

definition base_EncodeGetAssetPrecisionMethodCall :: "codec \<Rightarrow> byte list outcome" where
  "base_EncodeGetAssetPrecisionMethodCall c = abi_Pack (codec_abi c) ''getAssetPrecision'' []"

definition base_EncodeGetCCVsAndFinalityConfigMethodCall :: "codec \<Rightarrow> gstruct \<Rightarrow> byte list outcome" where
  "base_EncodeGetCCVsAndFinalityConfigMethodCall c inp =
     abi_Pack (codec_abi c) ''getCCVsAndFinalityConfig'' [fld inp ''Arg0'', fld inp ''Arg1'']"

definition base_EncodeGetCcipGasLimitMethodCall :: "codec \<Rightarrow> gstruct \<Rightarrow> byte list outcome" where
  "base_EncodeGetCcipGasLimitMethodCall c inp =
     abi_Pack (codec_abi c) ''getCcipGasLimit'' [fld inp ''ChainSelector'']"

definition base_EncodeGetCrosschainVaultMethodCall :: "codec \<Rightarrow> gstruct \<Rightarrow> byte list outcome" where
  "base_EncodeGetCrosschainVaultMethodCall c inp =
     abi_Pack (codec_abi c) ''getCrosschainVault'' [fld inp ''ChainSelector'']"

definition base_EncodeGetDefaultCcipGasLimitMethodCall :: "codec \<Rightarrow> byte list outcome" where
  "base_EncodeGetDefaultCcipGasLimitMethodCall c = abi_Pack (codec_abi c) ''getDefaultCcipGasLimit'' []"

definition base_EncodeGetLinkMethodCall :: "codec \<Rightarrow> byte list outcome" where
  "base_EncodeGetLinkMethodCall c = abi_Pack (codec_abi c) ''getLink'' []"

definition base_EncodeGetRebalanceDepositRecoveryMethodCall :: "codec \<Rightarrow> byte list outcome" where
  "base_EncodeGetRebalanceDepositRecoveryMethodCall c = abi_Pack (codec_abi c) ''getRebalanceDepositRecovery'' []"

definition base_EncodeGetRecoveryModeMethodCall :: "codec \<Rightarrow> byte list outcome" where
  "base_EncodeGetRecoveryModeMethodCall c = abi_Pack (codec_abi c) ''getRecoveryMode'' []"

definition base_EncodeGetRoleAdminMethodCall :: "codec \<Rightarrow> gstruct \<Rightarrow> byte list outcome" where
  "base_EncodeGetRoleAdminMethodCall c inp =
     abi_Pack (codec_abi c) ''getRoleAdmin'' [fld inp ''Role'']"

definition base_EncodeGetRouterMethodCall :: "codec \<Rightarrow> byte list outcome" where
  "base_EncodeGetRouterMethodCall c = abi_Pack (codec_abi c) ''getRouter'' []"

definition base_EncodeGetTVLMethodCall :: "codec \<Rightarrow> byte list outcome" where
  "base_EncodeGetTVLMethodCall c = abi_Pack (codec_abi c) ''getTVL'' []"

definition base_EncodeGetThisChainSelectorMethodCall :: "codec \<Rightarrow> byte list outcome" where
  "base_EncodeGetThisChainSelectorMethodCall c = abi_Pack (codec_abi c) ''getThisChainSelector'' []"

definition base_EncodeGrantRoleMethodCall :: "codec \<Rightarrow> gstruct \<Rightarrow> byte list outcome" where
  "base_EncodeGrantRoleMethodCall c inp =
     abi_Pack (codec_abi c) ''grantRole'' [fld inp ''Role'', fld inp ''Account'']"

definition base_EncodeHasRoleMethodCall :: "codec \<Rightarrow> gstruct \<Rightarrow> byte list outcome" where
  "base_EncodeHasRoleMethodCall c inp =
     abi_Pack (codec_abi c) ''hasRole'' [fld inp ''Role'', fld inp ''Account'']"

definition base_EncodeOwnerMethodCall :: "codec \<Rightarrow> byte list outcome" where
  "base_EncodeOwnerMethodCall c = abi_Pack (codec_abi c) ''owner'' []"

definition base_EncodePauseMethodCall :: "codec \<Rightarrow> byte list outcome" where
  "base_EncodePauseMethodCall c = abi_Pack (codec_abi c) ''pause'' []"

definition base_EncodePausedMethodCall :: "codec \<Rightarrow> byte list outcome" where
  "base_EncodePausedMethodCall c = abi_Pack (codec_abi c) ''paused'' []"

definition base_EncodePendingDefaultAdminMethodCall :: "codec \<Rightarrow> byte list outcome" where
  "base_EncodePendingDefaultAdminMethodCall c = abi_Pack (codec_abi c) ''pendingDefaultAdmin'' []"

definition base_EncodePendingDefaultAdminDelayMethodCall :: "codec \<Rightarrow> byte list outcome" where
  "base_EncodePendingDefaultAdminDelayMethodCall c = abi_Pack (codec_abi c) ''pendingDefaultAdminDelay'' []"

definition base_EncodeProxiableUUIDMethodCall :: "codec \<Rightarrow> byte list outcome" where
  "base_EncodeProxiableUUIDMethodCall c = abi_Pack (codec_abi c) ''proxiableUUID'' []"

definition base_EncodeRenounceRoleMethodCall :: "codec \<Rightarrow> gstruct \<Rightarrow> byte list outcome" where
  "base_EncodeRenounceRoleMethodCall c inp =
     abi_Pack (codec_abi c) ''renounceRole'' [fld inp ''Role'', fld inp ''Account'']"

definition base_EncodeRevokeRoleMethodCall :: "codec \<Rightarrow> gstruct \<Rightarrow> byte list outcome" where
  "base_EncodeRevokeRoleMethodCall c inp =
     abi_Pack (codec_abi c) ''revokeRole'' [fld inp ''Role'', fld inp ''Account'']"

definition base_EncodeRollbackDefaultAdminDelayMethodCall :: "codec \<Rightarrow> byte list outcome" where
  "base_EncodeRollbackDefaultAdminDelayMethodCall c = abi_Pack (codec_abi c) ''rollbackDefaultAdminDelay'' []"

definition base_EncodeSetCcipGasLimitMethodCall :: "codec \<Rightarrow> gstruct \<Rightarrow> byte list outcome" where
  "base_EncodeSetCcipGasLimitMethodCall c inp =
     abi_Pack (codec_abi c) ''setCcipGasLimit'' [fld inp ''ChainSelector'', fld inp ''GasLimit'']"

definition base_EncodeSetCrosschainVaultsMethodCall :: "codec \<Rightarrow> gstruct \<Rightarrow> byte list outcome" where
  "base_EncodeSetCrosschainVaultsMethodCall c inp =
     abi_Pack (codec_abi c) ''setCrosschainVaults'' [fld inp ''ChainSelectors'', fld inp ''Vaults'']"

definition base_EncodeSetDefaultCcipGasLimitMethodCall :: "codec \<Rightarrow> gstruct \<Rightarrow> byte list outcome" where
  "base_EncodeSetDefaultCcipGasLimitMethodCall c inp =
     abi_Pack (codec_abi c) ''setDefaultCcipGasLimit'' [fld inp ''GasLimit'']"

definition base_EncodeSupportsInterfaceMethodCall :: "codec \<Rightarrow> gstruct \<Rightarrow> byte list outcome" where
  "base_EncodeSupportsInterfaceMethodCall c inp =
     abi_Pack (codec_abi c) ''supportsInterface'' [fld inp ''InterfaceId'']"

definition base_EncodeTryDepositToAdapterMethodCall :: "codec \<Rightarrow> gstruct \<Rightarrow> byte list outcome" where
  "base_EncodeTryDepositToAdapterMethodCall c inp =
     abi_Pack (codec_abi c) ''tryDepositToAdapter'' [fld inp ''Adapter'', fld inp ''Amount'']"

definition base_EncodeUnpauseMethodCall :: "codec \<Rightarrow> byte list outcome" where
  "base_EncodeUnpauseMethodCall c = abi_Pack (codec_abi c) ''unpause'' []"

definition base_EncodeUpgradeToAndCallMethodCall :: "codec \<Rightarrow> gstruct \<Rightarrow> byte list outcome" where
  "base_EncodeUpgradeToAndCallMethodCall c inp =
     abi_Pack (codec_abi c) ''upgradeToAndCall'' [fld inp ''NewImplementation'', fld inp ''Data'']"

definition base_EncodeWithdrawLinkMethodCall :: "codec \<Rightarrow> gstruct \<Rightarrow> byte list outcome" where
  "base_EncodeWithdrawLinkMethodCall c inp =
     abi_Pack (codec_abi c) ''withdrawLink'' [fld inp ''Amount'']"

section \<open>Output decoders\<close>

definition base_DecodeDEFAULTADMINROLEMethodOutput :: "env \<Rightarrow> codec \<Rightarrow> byte list \<Rightarrow> gval outcome" where
  "base_DecodeDEFAULTADMINROLEMethodOutput E c =
     decode_output E c ''DEFAULT_ADMIN_ROLE'' (TFix 32) ''[32]byte''"

definition base_DecodeUPGRADEINTERFACEVERSIONMethodOutput :: "env \<Rightarrow> codec \<Rightarrow> byte list \<Rightarrow> gval outcome" where
  "base_DecodeUPGRADEINTERFACEVERSIONMethodOutput E c =
     decode_output E c ''UPGRADE_INTERFACE_VERSION'' TStr ''string''"

definition base_DecodeDefaultAdminMethodOutput :: "env \<Rightarrow> codec \<Rightarrow> byte list \<Rightarrow> gval outcome" where
  "base_DecodeDefaultAdminMethodOutput E c =
     decode_output E c ''defaultAdmin'' TAddr ''common.Address''"

definition base_DecodeDefaultAdminDelayMethodOutput :: "env \<Rightarrow> codec \<Rightarrow> byte list \<Rightarrow> gval outcome" where
  "base_DecodeDefaultAdminDelayMethodOutput E c =
     decode_output E c ''defaultAdminDelay'' TBig ''*big.Int''"

definition base_DecodeDefaultAdminDelayIncreaseWaitMethodOutput :: "env \<Rightarrow> codec \<Rightarrow> byte list \<Rightarrow> gval outcome" where
  "base_DecodeDefaultAdminDelayIncreaseWaitMethodOutput E c =
     decode_output E c ''defaultAdminDelayIncreaseWait'' TBig ''*big.Int''"

definition base_DecodeGetActiveProtocolAdapterMethodOutput :: "env \<Rightarrow> codec \<Rightarrow> byte list \<Rightarrow> gval outcome" where
  "base_DecodeGetActiveProtocolAdapterMethodOutput E c =
     decode_output E c ''getActiveProtocolAdapter'' TAddr ''common.Address''"

definition base_DecodeGetAdapterRegistryMethodOutput :: "env \<Rightarrow> codec \<Rightarrow> byte list \<Rightarrow> gval outcome" where
  "base_DecodeGetAdapterRegistryMethodOutput E c =
     decode_output E c ''getAdapterRegistry'' TAddr ''common.Address''"

definition base_DecodeGetAssetMethodOutput :: "env \<Rightarrow> codec \<Rightarrow> byte list \<Rightarrow> gval outcome" where
  "base_DecodeGetAssetMethodOutput E c =
     decode_output E c ''getAsset'' TAddr ''common.Address''"

definition base_DecodeGetAssetPrecisionMethodOutput :: "env \<Rightarrow> codec \<Rightarrow> byte list \<Rightarrow> gval outcome" where
  "base_DecodeGetAssetPrecisionMethodOutput E c =
     decode_output E c ''getAssetPrecision'' TBig ''*big.Int''"

definition base_DecodeGetCCVsAndFinalityConfigMethodOutput :: "env \<Rightarrow> codec \<Rightarrow> byte list \<Rightarrow> gval outcome" where
  "base_DecodeGetCCVsAndFinalityConfigMethodOutput E c =
     decode_outputs E c ''getCCVsAndFinalityConfig''
       [(''RequiredCCVs'', TList TAddr, ''[]common.Address''),
       (''OptionalCCVs'', TList TAddr, ''[]common.Address''), (''OptionalThreshold'', TU8, ''uint8''),
       (''AllowedFinalityConfig'', TFix 4, ''[4]byte'')]"

definition base_DecodeGetCcipGasLimitMethodOutput :: "env \<Rightarrow> codec \<Rightarrow> byte list \<Rightarrow> gval outcome" where
  "base_DecodeGetCcipGasLimitMethodOutput E c =
     decode_output E c ''getCcipGasLimit'' TBig ''*big.Int''"

definition base_DecodeGetCrosschainVaultMethodOutput :: "env \<Rightarrow> codec \<Rightarrow> byte list \<Rightarrow> gval outcome" where
  "base_DecodeGetCrosschainVaultMethodOutput E c =
     decode_output E c ''getCrosschainVault'' TAddr ''common.Address''"

definition base_DecodeGetDefaultCcipGasLimitMethodOutput :: "env \<Rightarrow> codec \<Rightarrow> byte list \<Rightarrow> gval outcome" where
  "base_DecodeGetDefaultCcipGasLimitMethodOutput E c =
     decode_output E c ''getDefaultCcipGasLimit'' TBig ''*big.Int''"

definition base_DecodeGetLinkMethodOutput :: "env \<Rightarrow> codec \<Rightarrow> byte list \<Rightarrow> gval outcome" where
  "base_DecodeGetLinkMethodOutput E c =
     decode_output E c ''getLink'' TAddr ''common.Address''"

definition base_DecodeGetRebalanceDepositRecoveryMethodOutput :: "env \<Rightarrow> codec \<Rightarrow> byte list \<Rightarrow> gval outcome" where
  "base_DecodeGetRebalanceDepositRecoveryMethodOutput E c =
     decode_output E c ''getRebalanceDepositRecovery'' (TStruct base_TypesRebalanceDepositRecovery) ''TypesRebalanceDepositRecovery''"

definition base_DecodeGetRecoveryModeMethodOutput :: "env \<Rightarrow> codec \<Rightarrow> byte list \<Rightarrow> gval outcome" where
  "base_DecodeGetRecoveryModeMethodOutput E c =
     decode_output E c ''getRecoveryMode'' TU8 ''uint8''"

definition base_DecodeGetRoleAdminMethodOutput :: "env \<Rightarrow> codec \<Rightarrow> byte list \<Rightarrow> gval outcome" where
  "base_DecodeGetRoleAdminMethodOutput E c =
     decode_output E c ''getRoleAdmin'' (TFix 32) ''[32]byte''"

definition base_DecodeGetRouterMethodOutput :: "env \<Rightarrow> codec \<Rightarrow> byte list \<Rightarrow> gval outcome" where
  "base_DecodeGetRouterMethodOutput E c =
     decode_output E c ''getRouter'' TAddr ''common.Address''"

definition base_DecodeGetTVLMethodOutput :: "env \<Rightarrow> codec \<Rightarrow> byte list \<Rightarrow> gval outcome" where
  "base_DecodeGetTVLMethodOutput E c =
     decode_output E c ''getTVL'' TBig ''*big.Int''"

definition base_DecodeGetThisChainSelectorMethodOutput :: "env \<Rightarrow> codec \<Rightarrow> byte list \<Rightarrow> gval outcome" where
  "base_DecodeGetThisChainSelectorMethodOutput E c =
     decode_output E c ''getThisChainSelector'' TU64 ''uint64''"

definition base_DecodeHasRoleMethodOutput :: "env \<Rightarrow> codec \<Rightarrow> byte list \<Rightarrow> gval outcome" where
  "base_DecodeHasRoleMethodOutput E c =
     decode_output E c ''hasRole'' TBool ''bool''"

definition base_DecodeOwnerMethodOutput :: "env \<Rightarrow> codec \<Rightarrow> byte list \<Rightarrow> gval outcome" where
  "base_DecodeOwnerMethodOutput E c =
     decode_output E c ''owner'' TAddr ''common.Address''"

definition base_DecodePausedMethodOutput :: "env \<Rightarrow> codec \<Rightarrow> byte list \<Rightarrow> gval outcome" where
  "base_DecodePausedMethodOutput E c =
     decode_output E c ''paused'' TBool ''bool''"

definition base_DecodePendingDefaultAdminMethodOutput :: "env \<Rightarrow> codec \<Rightarrow> byte list \<Rightarrow> gval outcome" where
  "base_DecodePendingDefaultAdminMethodOutput E c =
     decode_outputs E c ''pendingDefaultAdmin''
       [(''NewAdmin'', TAddr, ''common.Address''), (''Schedule'', TBig, ''*big.Int'')]"

definition base_DecodePendingDefaultAdminDelayMethodOutput :: "env \<Rightarrow> codec \<Rightarrow> byte list \<Rightarrow> gval outcome" where
  "base_DecodePendingDefaultAdminDelayMethodOutput E c =
     decode_outputs E c ''pendingDefaultAdminDelay''
       [(''NewDelay'', TBig, ''*big.Int''), (''Schedule'', TBig, ''*big.Int'')]"

definition base_DecodeProxiableUUIDMethodOutput :: "env \<Rightarrow> codec \<Rightarrow> byte list \<Rightarrow> gval outcome" where
  "base_DecodeProxiableUUIDMethodOutput E c =
     decode_output E c ''proxiableUUID'' (TFix 32) ''[32]byte''"

definition base_DecodeSupportsInterfaceMethodOutput :: "env \<Rightarrow> codec \<Rightarrow> byte list \<Rightarrow> gval outcome" where
  "base_DecodeSupportsInterfaceMethodOutput E c =
     decode_output E c ''supportsInterface'' TBool ''bool''"

section \<open>Reads\<close>

definition base_DEFAULTADMINROLE :: "env \<Rightarrow> vault_binding \<Rightarrow> bigptr \<Rightarrow> gval prog" where
  "base_DEFAULTADMINROLE E v block =
     read_contract E v (base_EncodeDEFAULTADMINROLEMethodCall (vb_Codec v)) block
       (base_DecodeDEFAULTADMINROLEMethodOutput E (vb_Codec v))"

definition base_UPGRADEINTERFACEVERSION :: "env \<Rightarrow> vault_binding \<Rightarrow> bigptr \<Rightarrow> gval prog" where
  "base_UPGRADEINTERFACEVERSION E v block =
     read_contract E v (base_EncodeUPGRADEINTERFACEVERSIONMethodCall (vb_Codec v)) block
       (base_DecodeUPGRADEINTERFACEVERSIONMethodOutput E (vb_Codec v))"

definition base_DefaultAdmin :: "env \<Rightarrow> vault_binding \<Rightarrow> bigptr \<Rightarrow> gval prog" where
  "base_DefaultAdmin E v block =
     read_contract E v (base_EncodeDefaultAdminMethodCall (vb_Codec v)) block
       (base_DecodeDefaultAdminMethodOutput E (vb_Codec v))"

definition base_DefaultAdminDelay :: "env \<Rightarrow> vault_binding \<Rightarrow> bigptr \<Rightarrow> gval prog" where
  "base_DefaultAdminDelay E v block =
     read_contract E v (base_EncodeDefaultAdminDelayMethodCall (vb_Codec v)) block
       (base_DecodeDefaultAdminDelayMethodOutput E (vb_Codec v))"

definition base_DefaultAdminDelayIncreaseWait :: "env \<Rightarrow> vault_binding \<Rightarrow> bigptr \<Rightarrow> gval prog" where
  "base_DefaultAdminDelayIncreaseWait E v block =
     read_contract E v (base_EncodeDefaultAdminDelayIncreaseWaitMethodCall (vb_Codec v)) block
       (base_DecodeDefaultAdminDelayIncreaseWaitMethodOutput E (vb_Codec v))"

definition base_GetActiveProtocolAdapter :: "env \<Rightarrow> vault_binding \<Rightarrow> bigptr \<Rightarrow> gval prog" where
  "base_GetActiveProtocolAdapter E v block =
     read_contract E v (base_EncodeGetActiveProtocolAdapterMethodCall (vb_Codec v)) block
       (base_DecodeGetActiveProtocolAdapterMethodOutput E (vb_Codec v))"

definition base_GetAdapterRegistry :: "env \<Rightarrow> vault_binding \<Rightarrow> bigptr \<Rightarrow> gval prog" where
  "base_GetAdapterRegistry E v block =
     read_contract E v (base_EncodeGetAdapterRegistryMethodCall (vb_Codec v)) block
       (base_DecodeGetAdapterRegistryMethodOutput E (vb_Codec v))"

definition base_GetAsset :: "env \<Rightarrow> vault_binding \<Rightarrow> bigptr \<Rightarrow> gval prog" where
  "base_GetAsset E v block =
     read_contract E v (base_EncodeGetAssetMethodCall (vb_Codec v)) block
       (base_DecodeGetAssetMethodOutput E (vb_Codec v))"

definition base_GetAssetPrecision :: "env \<Rightarrow> vault_binding \<Rightarrow> bigptr \<Rightarrow> gval prog" where
  "base_GetAssetPrecision E v block =
     read_contract E v (base_EncodeGetAssetPrecisionMethodCall (vb_Codec v)) block
       (base_DecodeGetAssetPrecisionMethodOutput E (vb_Codec v))"

definition base_GetCCVsAndFinalityConfig :: "env \<Rightarrow> vault_binding \<Rightarrow> gstruct \<Rightarrow> bigptr \<Rightarrow> gval prog" where
  "base_GetCCVsAndFinalityConfig E v inp block =
     read_contract E v (base_EncodeGetCCVsAndFinalityConfigMethodCall (vb_Codec v) inp) block
       (base_DecodeGetCCVsAndFinalityConfigMethodOutput E (vb_Codec v))"

definition base_GetCcipGasLimit :: "env \<Rightarrow> vault_binding \<Rightarrow> gstruct \<Rightarrow> bigptr \<Rightarrow> gval prog" where
  "base_GetCcipGasLimit E v inp block =
     read_contract E v (base_EncodeGetCcipGasLimitMethodCall (vb_Codec v) inp) block
       (base_DecodeGetCcipGasLimitMethodOutput E (vb_Codec v))"

definition base_GetCrosschainVault :: "env \<Rightarrow> vault_binding \<Rightarrow> gstruct \<Rightarrow> bigptr \<Rightarrow> gval prog" where
  "base_GetCrosschainVault E v inp block =
     read_contract E v (base_EncodeGetCrosschainVaultMethodCall (vb_Codec v) inp) block
       (base_DecodeGetCrosschainVaultMethodOutput E (vb_Codec v))"

definition base_GetDefaultCcipGasLimit :: "env \<Rightarrow> vault_binding \<Rightarrow> bigptr \<Rightarrow> gval prog" where
  "base_GetDefaultCcipGasLimit E v block =
     read_contract E v (base_EncodeGetDefaultCcipGasLimitMethodCall (vb_Codec v)) block
       (base_DecodeGetDefaultCcipGasLimitMethodOutput E (vb_Codec v))"

definition base_GetLink :: "env \<Rightarrow> vault_binding \<Rightarrow> bigptr \<Rightarrow> gval prog" where
  "base_GetLink E v block =
     read_contract E v (base_EncodeGetLinkMethodCall (vb_Codec v)) block
       (base_DecodeGetLinkMethodOutput E (vb_Codec v))"

definition base_GetRebalanceDepositRecovery :: "env \<Rightarrow> vault_binding \<Rightarrow> bigptr \<Rightarrow> gval prog" where
  "base_GetRebalanceDepositRecovery E v block =
     read_contract E v (base_EncodeGetRebalanceDepositRecoveryMethodCall (vb_Codec v)) block
       (base_DecodeGetRebalanceDepositRecoveryMethodOutput E (vb_Codec v))"

definition base_GetRecoveryMode :: "env \<Rightarrow> vault_binding \<Rightarrow> bigptr \<Rightarrow> gval prog" where
  "base_GetRecoveryMode E v block =
     read_contract E v (base_EncodeGetRecoveryModeMethodCall (vb_Codec v)) block
       (base_DecodeGetRecoveryModeMethodOutput E (vb_Codec v))"

definition base_GetRoleAdmin :: "env \<Rightarrow> vault_binding \<Rightarrow> gstruct \<Rightarrow> bigptr \<Rightarrow> gval prog" where
  "base_GetRoleAdmin E v inp block =
     read_contract E v (base_EncodeGetRoleAdminMethodCall (vb_Codec v) inp) block
       (base_DecodeGetRoleAdminMethodOutput E (vb_Codec v))"

definition base_GetRouter :: "env \<Rightarrow> vault_binding \<Rightarrow> bigptr \<Rightarrow> gval prog" where
  "base_GetRouter E v block =
     read_contract E v (base_EncodeGetRouterMethodCall (vb_Codec v)) block
       (base_DecodeGetRouterMethodOutput E (vb_Codec v))"

definition base_GetTVL :: "env \<Rightarrow> vault_binding \<Rightarrow> bigptr \<Rightarrow> gval prog" where
  "base_GetTVL E v block =
     read_contract E v (base_EncodeGetTVLMethodCall (vb_Codec v)) block
       (base_DecodeGetTVLMethodOutput E (vb_Codec v))"

definition base_GetThisChainSelector :: "env \<Rightarrow> vault_binding \<Rightarrow> bigptr \<Rightarrow> gval prog" where
  "base_GetThisChainSelector E v block =
     read_contract E v (base_EncodeGetThisChainSelectorMethodCall (vb_Codec v)) block
       (base_DecodeGetThisChainSelectorMethodOutput E (vb_Codec v))"

definition base_HasRole :: "env \<Rightarrow> vault_binding \<Rightarrow> gstruct \<Rightarrow> bigptr \<Rightarrow> gval prog" where
  "base_HasRole E v inp block =
     read_contract E v (base_EncodeHasRoleMethodCall (vb_Codec v) inp) block
       (base_DecodeHasRoleMethodOutput E (vb_Codec v))"

definition base_Owner :: "env \<Rightarrow> vault_binding \<Rightarrow> bigptr \<Rightarrow> gval prog" where
  "base_Owner E v block =
     read_contract E v (base_EncodeOwnerMethodCall (vb_Codec v)) block
       (base_DecodeOwnerMethodOutput E (vb_Codec v))"

definition base_Paused :: "env \<Rightarrow> vault_binding \<Rightarrow> bigptr \<Rightarrow> gval prog" where
  "base_Paused E v block =
     read_contract E v (base_EncodePausedMethodCall (vb_Codec v)) block
       (base_DecodePausedMethodOutput E (vb_Codec v))"

definition base_PendingDefaultAdmin :: "env \<Rightarrow> vault_binding \<Rightarrow> bigptr \<Rightarrow> gval prog" where
  "base_PendingDefaultAdmin E v block =
     read_contract E v (base_EncodePendingDefaultAdminMethodCall (vb_Codec v)) block
       (base_DecodePendingDefaultAdminMethodOutput E (vb_Codec v))"

definition base_PendingDefaultAdminDelay :: "env \<Rightarrow> vault_binding \<Rightarrow> bigptr \<Rightarrow> gval prog" where
  "base_PendingDefaultAdminDelay E v block =
     read_contract E v (base_EncodePendingDefaultAdminDelayMethodCall (vb_Codec v)) block
       (base_DecodePendingDefaultAdminDelayMethodOutput E (vb_Codec v))"

definition base_ProxiableUUID :: "env \<Rightarrow> vault_binding \<Rightarrow> bigptr \<Rightarrow> gval prog" where
  "base_ProxiableUUID E v block =
     read_contract E v (base_EncodeProxiableUUIDMethodCall (vb_Codec v)) block
       (base_DecodeProxiableUUIDMethodOutput E (vb_Codec v))"

section \<open>Structs as reports\<close>

definition base_EncodeClientAny2EVMMessageStruct :: "env \<Rightarrow> gval \<Rightarrow> byte list outcome" where
  "base_EncodeClientAny2EVMMessageStruct E inp =
     encode_struct E ''ClientAny2EVMMessage'' ''clientAny2EVMMessage''
       [(''messageId'', ''bytes32''), (''sourceChainSelector'', ''uint64''), (''sender'', ''bytes''),
       (''data'', ''bytes''), (''destTokenAmounts'', ''(address,uint256)[]'')] inp"

definition base_WriteReportFromClientAny2EVMMessage :: "env \<Rightarrow> vault_binding \<Rightarrow> gval \<Rightarrow> uint64 option \<Rightarrow> write_reply option prog" where
  "base_WriteReportFromClientAny2EVMMessage E v inp gasConfig =
     write_report_from E v (base_EncodeClientAny2EVMMessageStruct E inp) gasConfig"

definition base_EncodeClientEVMTokenAmountStruct :: "env \<Rightarrow> gval \<Rightarrow> byte list outcome" where
  "base_EncodeClientEVMTokenAmountStruct E inp =
     encode_struct E ''ClientEVMTokenAmount'' ''clientEVMTokenAmount''
       [(''token'', ''address''), (''amount'', ''uint256'')] inp"

definition base_WriteReportFromClientEVMTokenAmount :: "env \<Rightarrow> vault_binding \<Rightarrow> gval \<Rightarrow> uint64 option \<Rightarrow> write_reply option prog" where
  "base_WriteReportFromClientEVMTokenAmount E v inp gasConfig =
     write_report_from E v (base_EncodeClientEVMTokenAmountStruct E inp) gasConfig"

definition base_EncodeTypesRebalanceDepositRecoveryStruct :: "env \<Rightarrow> gval \<Rightarrow> byte list outcome" where
  "base_EncodeTypesRebalanceDepositRecoveryStruct E inp =
     encode_struct E ''TypesRebalanceDepositRecovery'' ''typesRebalanceDepositRecovery''
       [(''rebalanceNonce'', ''uint256''), (''amount'', ''uint256'')] inp"

definition base_WriteReportFromTypesRebalanceDepositRecovery :: "env \<Rightarrow> vault_binding \<Rightarrow> gval \<Rightarrow> uint64 option \<Rightarrow> write_reply option prog" where
  "base_WriteReportFromTypesRebalanceDepositRecovery E v inp gasConfig =
     write_report_from E v (base_EncodeTypesRebalanceDepositRecoveryStruct E inp) gasConfig"

definition base_WriteReport :: "env \<Rightarrow> vault_binding \<Rightarrow> report_handle option \<Rightarrow> uint64 option \<Rightarrow> write_reply option prog" where
  "base_WriteReport E v report gasConfig = write_report E v report gasConfig"

section \<open>The test double\<close>

definition base_mock_DEFAULT_ADMIN_ROLE :: "abi \<Rightarrow> mock \<Rightarrow> byte list \<Rightarrow> byte list outcome" where
  "base_mock_DEFAULT_ADMIN_ROLE c k =
     mock_call c k ''DEFAULT_ADMIN_ROLE'' ''DEFAULTADMINROLE'' [] PackResult"

definition base_mock_UPGRADE_INTERFACE_VERSION :: "abi \<Rightarrow> mock \<Rightarrow> byte list \<Rightarrow> byte list outcome" where
  "base_mock_UPGRADE_INTERFACE_VERSION c k =
     mock_call c k ''UPGRADE_INTERFACE_VERSION'' ''UPGRADEINTERFACEVERSION'' [] PackResult"

definition base_mock_defaultAdmin :: "abi \<Rightarrow> mock \<Rightarrow> byte list \<Rightarrow> byte list outcome" where
  "base_mock_defaultAdmin c k =
     mock_call c k ''defaultAdmin'' ''DefaultAdmin'' [] PackResult"

definition base_mock_defaultAdminDelay :: "abi \<Rightarrow> mock \<Rightarrow> byte list \<Rightarrow> byte list outcome" where
  "base_mock_defaultAdminDelay c k =
     mock_call c k ''defaultAdminDelay'' ''DefaultAdminDelay'' [] PackResult"

definition base_mock_defaultAdminDelayIncreaseWait :: "abi \<Rightarrow> mock \<Rightarrow> byte list \<Rightarrow> byte list outcome" where
  "base_mock_defaultAdminDelayIncreaseWait c k =
     mock_call c k ''defaultAdminDelayIncreaseWait'' ''DefaultAdminDelayIncreaseWait'' [] PackResult"

definition base_mock_getActiveProtocolAdapter :: "abi \<Rightarrow> mock \<Rightarrow> byte list \<Rightarrow> byte list outcome" where
  "base_mock_getActiveProtocolAdapter c k =
     mock_call c k ''getActiveProtocolAdapter'' ''GetActiveProtocolAdapter'' [] PackResult"

definition base_mock_getAdapterRegistry :: "abi \<Rightarrow> mock \<Rightarrow> byte list \<Rightarrow> byte list outcome" where
  "base_mock_getAdapterRegistry c k =
     mock_call c k ''getAdapterRegistry'' ''GetAdapterRegistry'' [] PackResult"

definition base_mock_getAsset :: "abi \<Rightarrow> mock \<Rightarrow> byte list \<Rightarrow> byte list outcome" where
  "base_mock_getAsset c k =
     mock_call c k ''getAsset'' ''GetAsset'' [] PackResult"

definition base_mock_getAssetPrecision :: "abi \<Rightarrow> mock \<Rightarrow> byte list \<Rightarrow> byte list outcome" where
  "base_mock_getAssetPrecision c k =
     mock_call c k ''getAssetPrecision'' ''GetAssetPrecision'' [] PackResult"

definition base_mock_getCCVsAndFinalityConfig :: "abi \<Rightarrow> mock \<Rightarrow> byte list \<Rightarrow> byte list outcome" where
  "base_mock_getCCVsAndFinalityConfig c k =
     mock_call c k ''getCCVsAndFinalityConfig'' ''GetCCVsAndFinalityConfig'' base_GetCCVsAndFinalityConfigInput (PackFields [''RequiredCCVs'', ''OptionalCCVs'', ''OptionalThreshold'', ''AllowedFinalityConfig''])"

definition base_mock_getCcipGasLimit :: "abi \<Rightarrow> mock \<Rightarrow> byte list \<Rightarrow> byte list outcome" where
  "base_mock_getCcipGasLimit c k =
     mock_call c k ''getCcipGasLimit'' ''GetCcipGasLimit'' base_GetCcipGasLimitInput PackResult"

definition base_mock_getCrosschainVault :: "abi \<Rightarrow> mock \<Rightarrow> byte list \<Rightarrow> byte list outcome" where
  "base_mock_getCrosschainVault c k =
     mock_call c k ''getCrosschainVault'' ''GetCrosschainVault'' base_GetCrosschainVaultInput PackResult"

definition base_mock_getDefaultCcipGasLimit :: "abi \<Rightarrow> mock \<Rightarrow> byte list \<Rightarrow> byte list outcome" where
  "base_mock_getDefaultCcipGasLimit c k =
     mock_call c k ''getDefaultCcipGasLimit'' ''GetDefaultCcipGasLimit'' [] PackResult"

definition base_mock_getLink :: "abi \<Rightarrow> mock \<Rightarrow> byte list \<Rightarrow> byte list outcome" where
  "base_mock_getLink c k =
     mock_call c k ''getLink'' ''GetLink'' [] PackResult"

definition base_mock_getRebalanceDepositRecovery :: "abi \<Rightarrow> mock \<Rightarrow> byte list \<Rightarrow> byte list outcome" where
  "base_mock_getRebalanceDepositRecovery c k =
     mock_call c k ''getRebalanceDepositRecovery'' ''GetRebalanceDepositRecovery'' [] PackResult"

definition base_mock_getRecoveryMode :: "abi \<Rightarrow> mock \<Rightarrow> byte list \<Rightarrow> byte list outcome" where
  "base_mock_getRecoveryMode c k =
     mock_call c k ''getRecoveryMode'' ''GetRecoveryMode'' [] PackResult"

definition base_mock_getRoleAdmin :: "abi \<Rightarrow> mock \<Rightarrow> byte list \<Rightarrow> byte list outcome" where
  "base_mock_getRoleAdmin c k =
     mock_call c k ''getRoleAdmin'' ''GetRoleAdmin'' base_GetRoleAdminInput PackResult"

definition base_mock_getRouter :: "abi \<Rightarrow> mock \<Rightarrow> byte list \<Rightarrow> byte list outcome" where
  "base_mock_getRouter c k =
     mock_call c k ''getRouter'' ''GetRouter'' [] PackResult"

definition base_mock_getTVL :: "abi \<Rightarrow> mock \<Rightarrow> byte list \<Rightarrow> byte list outcome" where
  "base_mock_getTVL c k =
     mock_call c k ''getTVL'' ''GetTVL'' [] PackResult"

definition base_mock_getThisChainSelector :: "abi \<Rightarrow> mock \<Rightarrow> byte list \<Rightarrow> byte list outcome" where
  "base_mock_getThisChainSelector c k =
     mock_call c k ''getThisChainSelector'' ''GetThisChainSelector'' [] PackResult"

definition base_mock_hasRole :: "abi \<Rightarrow> mock \<Rightarrow> byte list \<Rightarrow> byte list outcome" where
  "base_mock_hasRole c k =
     mock_call c k ''hasRole'' ''HasRole'' base_HasRoleInput PackResult"

definition base_mock_owner :: "abi \<Rightarrow> mock \<Rightarrow> byte list \<Rightarrow> byte list outcome" where
  "base_mock_owner c k =
     mock_call c k ''owner'' ''Owner'' [] PackResult"

definition base_mock_paused :: "abi \<Rightarrow> mock \<Rightarrow> byte list \<Rightarrow> byte list outcome" where
  "base_mock_paused c k =
     mock_call c k ''paused'' ''Paused'' [] PackResult"

definition base_mock_pendingDefaultAdmin :: "abi \<Rightarrow> mock \<Rightarrow> byte list \<Rightarrow> byte list outcome" where
  "base_mock_pendingDefaultAdmin c k =
     mock_call c k ''pendingDefaultAdmin'' ''PendingDefaultAdmin'' [] (PackFields [''NewAdmin'', ''Schedule''])"

definition base_mock_pendingDefaultAdminDelay :: "abi \<Rightarrow> mock \<Rightarrow> byte list \<Rightarrow> byte list outcome" where
  "base_mock_pendingDefaultAdminDelay c k =
     mock_call c k ''pendingDefaultAdminDelay'' ''PendingDefaultAdminDelay'' [] (PackFields [''NewDelay'',
       ''Schedule''])"

definition base_mock_proxiableUUID :: "abi \<Rightarrow> mock \<Rightarrow> byte list \<Rightarrow> byte list outcome" where
  "base_mock_proxiableUUID c k =
     mock_call c k ''proxiableUUID'' ''ProxiableUUID'' [] PackResult"

definition base_funcMap :: "mock \<Rightarrow> abi \<Rightarrow> func_map" where
  "base_funcMap k c =
     [(take 4 (abi_MethodID c ''DEFAULT_ADMIN_ROLE''), base_mock_DEFAULT_ADMIN_ROLE c k),
      (take 4 (abi_MethodID c ''UPGRADE_INTERFACE_VERSION''), base_mock_UPGRADE_INTERFACE_VERSION c k),
      (take 4 (abi_MethodID c ''defaultAdmin''), base_mock_defaultAdmin c k),
      (take 4 (abi_MethodID c ''defaultAdminDelay''), base_mock_defaultAdminDelay c k),
      (take 4 (abi_MethodID c ''defaultAdminDelayIncreaseWait''), base_mock_defaultAdminDelayIncreaseWait c k),
      (take 4 (abi_MethodID c ''getActiveProtocolAdapter''), base_mock_getActiveProtocolAdapter c k),
      (take 4 (abi_MethodID c ''getAdapterRegistry''), base_mock_getAdapterRegistry c k),
      (take 4 (abi_MethodID c ''getAsset''), base_mock_getAsset c k),
      (take 4 (abi_MethodID c ''getAssetPrecision''), base_mock_getAssetPrecision c k),
      (take 4 (abi_MethodID c ''getCCVsAndFinalityConfig''), base_mock_getCCVsAndFinalityConfig c k),
      (take 4 (abi_MethodID c ''getCcipGasLimit''), base_mock_getCcipGasLimit c k),
      (take 4 (abi_MethodID c ''getCrosschainVault''), base_mock_getCrosschainVault c k),
      (take 4 (abi_MethodID c ''getDefaultCcipGasLimit''), base_mock_getDefaultCcipGasLimit c k),
      (take 4 (abi_MethodID c ''getLink''), base_mock_getLink c k),
      (take 4 (abi_MethodID c ''getRebalanceDepositRecovery''), base_mock_getRebalanceDepositRecovery c k),
      (take 4 (abi_MethodID c ''getRecoveryMode''), base_mock_getRecoveryMode c k),
      (take 4 (abi_MethodID c ''getRoleAdmin''), base_mock_getRoleAdmin c k),
      (take 4 (abi_MethodID c ''getRouter''), base_mock_getRouter c k),
      (take 4 (abi_MethodID c ''getTVL''), base_mock_getTVL c k),
      (take 4 (abi_MethodID c ''getThisChainSelector''), base_mock_getThisChainSelector c k),
      (take 4 (abi_MethodID c ''hasRole''), base_mock_hasRole c k),
      (take 4 (abi_MethodID c ''owner''), base_mock_owner c k),
      (take 4 (abi_MethodID c ''paused''), base_mock_paused c k),
      (take 4 (abi_MethodID c ''pendingDefaultAdmin''), base_mock_pendingDefaultAdmin c k),
      (take 4 (abi_MethodID c ''pendingDefaultAdminDelay''), base_mock_pendingDefaultAdminDelay c k),
      (take 4 (abi_MethodID c ''proxiableUUID''), base_mock_proxiableUUID c k)]"

definition NewBaseVaultMock :: "env \<Rightarrow> mock \<Rightarrow> func_map outcome" where
  "NewBaseVaultMock E k = new_mock (base_NewCodec E) (base_funcMap k)"

section \<open>The package against its interface\<close>

text \<open>The tables: what each encoder packs, and the shape of each read and of each mock function.\<close>

definition base_call_table :: "call_spec list" where
  "base_call_table =
     [(''DEFAULT_ADMIN_ROLE'', []),
      (''UPGRADE_INTERFACE_VERSION'', []),
      (''acceptDefaultAdminTransfer'', []),
      (''beginDefaultAdminTransfer'', base_BeginDefaultAdminTransferInput),
      (''cancelDefaultAdminTransfer'', []),
      (''ccipReceive'', base_CcipReceiveInput),
      (''changeDefaultAdminDelay'', base_ChangeDefaultAdminDelayInput),
      (''defaultAdmin'', []),
      (''defaultAdminDelay'', []),
      (''defaultAdminDelayIncreaseWait'', []),
      (''executeRecovery'', []),
      (''getActiveProtocolAdapter'', []),
      (''getAdapterRegistry'', []),
      (''getAsset'', []),
      (''getAssetPrecision'', []),
      (''getCCVsAndFinalityConfig'', base_GetCCVsAndFinalityConfigInput),
      (''getCcipGasLimit'', base_GetCcipGasLimitInput),
      (''getCrosschainVault'', base_GetCrosschainVaultInput),
      (''getDefaultCcipGasLimit'', []),
      (''getLink'', []),
      (''getRebalanceDepositRecovery'', []),
      (''getRecoveryMode'', []),
      (''getRoleAdmin'', base_GetRoleAdminInput),
      (''getRouter'', []),
      (''getTVL'', []),
      (''getThisChainSelector'', []),
      (''grantRole'', base_GrantRoleInput),
      (''hasRole'', base_HasRoleInput),
      (''owner'', []),
      (''pause'', []),
      (''paused'', []),
      (''pendingDefaultAdmin'', []),
      (''pendingDefaultAdminDelay'', []),
      (''proxiableUUID'', []),
      (''renounceRole'', base_RenounceRoleInput),
      (''revokeRole'', base_RevokeRoleInput),
      (''rollbackDefaultAdminDelay'', []),
      (''setCcipGasLimit'', base_SetCcipGasLimitInput),
      (''setCrosschainVaults'', base_SetCrosschainVaultsInput),
      (''setDefaultCcipGasLimit'', base_SetDefaultCcipGasLimitInput),
      (''supportsInterface'', base_SupportsInterfaceInput),
      (''tryDepositToAdapter'', base_TryDepositToAdapterInput),
      (''unpause'', []),
      (''upgradeToAndCall'', base_UpgradeToAndCallInput),
      (''withdrawLink'', base_WithdrawLinkInput)]"

definition base_calls :: "call_encoder list" where
  "base_calls =
     [\<lambda>c _. base_EncodeDEFAULTADMINROLEMethodCall c,
      \<lambda>c _. base_EncodeUPGRADEINTERFACEVERSIONMethodCall c,
      \<lambda>c _. base_EncodeAcceptDefaultAdminTransferMethodCall c,
      base_EncodeBeginDefaultAdminTransferMethodCall,
      \<lambda>c _. base_EncodeCancelDefaultAdminTransferMethodCall c,
      base_EncodeCcipReceiveMethodCall,
      base_EncodeChangeDefaultAdminDelayMethodCall,
      \<lambda>c _. base_EncodeDefaultAdminMethodCall c,
      \<lambda>c _. base_EncodeDefaultAdminDelayMethodCall c,
      \<lambda>c _. base_EncodeDefaultAdminDelayIncreaseWaitMethodCall c,
      \<lambda>c _. base_EncodeExecuteRecoveryMethodCall c,
      \<lambda>c _. base_EncodeGetActiveProtocolAdapterMethodCall c,
      \<lambda>c _. base_EncodeGetAdapterRegistryMethodCall c,
      \<lambda>c _. base_EncodeGetAssetMethodCall c,
      \<lambda>c _. base_EncodeGetAssetPrecisionMethodCall c,
      base_EncodeGetCCVsAndFinalityConfigMethodCall,
      base_EncodeGetCcipGasLimitMethodCall,
      base_EncodeGetCrosschainVaultMethodCall,
      \<lambda>c _. base_EncodeGetDefaultCcipGasLimitMethodCall c,
      \<lambda>c _. base_EncodeGetLinkMethodCall c,
      \<lambda>c _. base_EncodeGetRebalanceDepositRecoveryMethodCall c,
      \<lambda>c _. base_EncodeGetRecoveryModeMethodCall c,
      base_EncodeGetRoleAdminMethodCall,
      \<lambda>c _. base_EncodeGetRouterMethodCall c,
      \<lambda>c _. base_EncodeGetTVLMethodCall c,
      \<lambda>c _. base_EncodeGetThisChainSelectorMethodCall c,
      base_EncodeGrantRoleMethodCall,
      base_EncodeHasRoleMethodCall,
      \<lambda>c _. base_EncodeOwnerMethodCall c,
      \<lambda>c _. base_EncodePauseMethodCall c,
      \<lambda>c _. base_EncodePausedMethodCall c,
      \<lambda>c _. base_EncodePendingDefaultAdminMethodCall c,
      \<lambda>c _. base_EncodePendingDefaultAdminDelayMethodCall c,
      \<lambda>c _. base_EncodeProxiableUUIDMethodCall c,
      base_EncodeRenounceRoleMethodCall,
      base_EncodeRevokeRoleMethodCall,
      \<lambda>c _. base_EncodeRollbackDefaultAdminDelayMethodCall c,
      base_EncodeSetCcipGasLimitMethodCall,
      base_EncodeSetCrosschainVaultsMethodCall,
      base_EncodeSetDefaultCcipGasLimitMethodCall,
      base_EncodeSupportsInterfaceMethodCall,
      base_EncodeTryDepositToAdapterMethodCall,
      \<lambda>c _. base_EncodeUnpauseMethodCall c,
      base_EncodeUpgradeToAndCallMethodCall,
      base_EncodeWithdrawLinkMethodCall]"

definition base_read_table :: "read_spec list" where
  "base_read_table =
     [\<lparr>rs_Go = ''DEFAULTADMINROLE'', rs_Name = ''DEFAULT_ADMIN_ROLE'', rs_Inputs = [],
        rs_Outputs = OneOutput (TFix 32) ''[32]byte''\<rparr>,
      \<lparr>rs_Go = ''UPGRADEINTERFACEVERSION'', rs_Name = ''UPGRADE_INTERFACE_VERSION'', rs_Inputs = [],
        rs_Outputs = OneOutput TStr ''string''\<rparr>,
      \<lparr>rs_Go = ''DefaultAdmin'', rs_Name = ''defaultAdmin'', rs_Inputs = [],
        rs_Outputs = OneOutput TAddr ''common.Address''\<rparr>,
      \<lparr>rs_Go = ''DefaultAdminDelay'', rs_Name = ''defaultAdminDelay'', rs_Inputs = [],
        rs_Outputs = OneOutput TBig ''*big.Int''\<rparr>,
      \<lparr>rs_Go = ''DefaultAdminDelayIncreaseWait'', rs_Name = ''defaultAdminDelayIncreaseWait'', rs_Inputs = [],
        rs_Outputs = OneOutput TBig ''*big.Int''\<rparr>,
      \<lparr>rs_Go = ''GetActiveProtocolAdapter'', rs_Name = ''getActiveProtocolAdapter'', rs_Inputs = [],
        rs_Outputs = OneOutput TAddr ''common.Address''\<rparr>,
      \<lparr>rs_Go = ''GetAdapterRegistry'', rs_Name = ''getAdapterRegistry'', rs_Inputs = [],
        rs_Outputs = OneOutput TAddr ''common.Address''\<rparr>,
      \<lparr>rs_Go = ''GetAsset'', rs_Name = ''getAsset'', rs_Inputs = [],
        rs_Outputs = OneOutput TAddr ''common.Address''\<rparr>,
      \<lparr>rs_Go = ''GetAssetPrecision'', rs_Name = ''getAssetPrecision'', rs_Inputs = [],
        rs_Outputs = OneOutput TBig ''*big.Int''\<rparr>,
      \<lparr>rs_Go = ''GetCCVsAndFinalityConfig'', rs_Name = ''getCCVsAndFinalityConfig'',
        rs_Inputs = base_GetCCVsAndFinalityConfigInput, rs_Outputs = StructOutput [(''RequiredCCVs'', TList TAddr,
        ''[]common.Address''), (''OptionalCCVs'', TList TAddr, ''[]common.Address''),
        (''OptionalThreshold'', TU8, ''uint8''), (''AllowedFinalityConfig'', TFix 4, ''[4]byte'')]\<rparr>,
      \<lparr>rs_Go = ''GetCcipGasLimit'', rs_Name = ''getCcipGasLimit'', rs_Inputs = base_GetCcipGasLimitInput,
        rs_Outputs = OneOutput TBig ''*big.Int''\<rparr>,
      \<lparr>rs_Go = ''GetCrosschainVault'', rs_Name = ''getCrosschainVault'', rs_Inputs = base_GetCrosschainVaultInput,
        rs_Outputs = OneOutput TAddr ''common.Address''\<rparr>,
      \<lparr>rs_Go = ''GetDefaultCcipGasLimit'', rs_Name = ''getDefaultCcipGasLimit'', rs_Inputs = [],
        rs_Outputs = OneOutput TBig ''*big.Int''\<rparr>,
      \<lparr>rs_Go = ''GetLink'', rs_Name = ''getLink'', rs_Inputs = [],
        rs_Outputs = OneOutput TAddr ''common.Address''\<rparr>,
      \<lparr>rs_Go = ''GetRebalanceDepositRecovery'', rs_Name = ''getRebalanceDepositRecovery'', rs_Inputs = [],
        rs_Outputs = OneOutput (TStruct base_TypesRebalanceDepositRecovery) ''TypesRebalanceDepositRecovery''\<rparr>,
      \<lparr>rs_Go = ''GetRecoveryMode'', rs_Name = ''getRecoveryMode'', rs_Inputs = [],
        rs_Outputs = OneOutput TU8 ''uint8''\<rparr>,
      \<lparr>rs_Go = ''GetRoleAdmin'', rs_Name = ''getRoleAdmin'', rs_Inputs = base_GetRoleAdminInput,
        rs_Outputs = OneOutput (TFix 32) ''[32]byte''\<rparr>,
      \<lparr>rs_Go = ''GetRouter'', rs_Name = ''getRouter'', rs_Inputs = [],
        rs_Outputs = OneOutput TAddr ''common.Address''\<rparr>,
      \<lparr>rs_Go = ''GetTVL'', rs_Name = ''getTVL'', rs_Inputs = [], rs_Outputs = OneOutput TBig ''*big.Int''\<rparr>,
      \<lparr>rs_Go = ''GetThisChainSelector'', rs_Name = ''getThisChainSelector'', rs_Inputs = [],
        rs_Outputs = OneOutput TU64 ''uint64''\<rparr>,
      \<lparr>rs_Go = ''HasRole'', rs_Name = ''hasRole'', rs_Inputs = base_HasRoleInput,
        rs_Outputs = OneOutput TBool ''bool''\<rparr>,
      \<lparr>rs_Go = ''Owner'', rs_Name = ''owner'', rs_Inputs = [],
        rs_Outputs = OneOutput TAddr ''common.Address''\<rparr>,
      \<lparr>rs_Go = ''Paused'', rs_Name = ''paused'', rs_Inputs = [], rs_Outputs = OneOutput TBool ''bool''\<rparr>,
      \<lparr>rs_Go = ''PendingDefaultAdmin'', rs_Name = ''pendingDefaultAdmin'', rs_Inputs = [],
        rs_Outputs = StructOutput [(''NewAdmin'', TAddr, ''common.Address''),
        (''Schedule'', TBig, ''*big.Int'')]\<rparr>,
      \<lparr>rs_Go = ''PendingDefaultAdminDelay'', rs_Name = ''pendingDefaultAdminDelay'', rs_Inputs = [],
        rs_Outputs = StructOutput [(''NewDelay'', TBig, ''*big.Int''), (''Schedule'', TBig, ''*big.Int'')]\<rparr>,
      \<lparr>rs_Go = ''ProxiableUUID'', rs_Name = ''proxiableUUID'', rs_Inputs = [],
        rs_Outputs = OneOutput (TFix 32) ''[32]byte''\<rparr>]"

definition base_reads :: "contract_read list" where
  "base_reads =
     [\<lambda>E v _. base_DEFAULTADMINROLE E v,
      \<lambda>E v _. base_UPGRADEINTERFACEVERSION E v,
      \<lambda>E v _. base_DefaultAdmin E v,
      \<lambda>E v _. base_DefaultAdminDelay E v,
      \<lambda>E v _. base_DefaultAdminDelayIncreaseWait E v,
      \<lambda>E v _. base_GetActiveProtocolAdapter E v,
      \<lambda>E v _. base_GetAdapterRegistry E v,
      \<lambda>E v _. base_GetAsset E v,
      \<lambda>E v _. base_GetAssetPrecision E v,
      base_GetCCVsAndFinalityConfig,
      base_GetCcipGasLimit,
      base_GetCrosschainVault,
      \<lambda>E v _. base_GetDefaultCcipGasLimit E v,
      \<lambda>E v _. base_GetLink E v,
      \<lambda>E v _. base_GetRebalanceDepositRecovery E v,
      \<lambda>E v _. base_GetRecoveryMode E v,
      base_GetRoleAdmin,
      \<lambda>E v _. base_GetRouter E v,
      \<lambda>E v _. base_GetTVL E v,
      \<lambda>E v _. base_GetThisChainSelector E v,
      base_HasRole,
      \<lambda>E v _. base_Owner E v,
      \<lambda>E v _. base_Paused E v,
      \<lambda>E v _. base_PendingDefaultAdmin E v,
      \<lambda>E v _. base_PendingDefaultAdminDelay E v,
      \<lambda>E v _. base_ProxiableUUID E v]"

definition base_mock_table :: "read_spec list" where
  "base_mock_table = base_read_table"

definition base_struct_reports :: "((env \<Rightarrow> gval \<Rightarrow> byte list outcome) \<times> (env \<Rightarrow> vault_binding \<Rightarrow> gval \<Rightarrow> uint64 option \<Rightarrow> write_reply option prog)) list" where
  "base_struct_reports =
     [(base_EncodeClientAny2EVMMessageStruct, base_WriteReportFromClientAny2EVMMessage),
      (base_EncodeClientEVMTokenAmountStruct, base_WriteReportFromClientEVMTokenAmount),
      (base_EncodeTypesRebalanceDepositRecoveryStruct, base_WriteReportFromTypesRebalanceDepositRecovery)]"

lemmas base_struct_defs =
  base_BeginDefaultAdminTransferInput_def
  base_ClientEVMTokenAmount_def
  base_ClientAny2EVMMessage_def
  base_CcipReceiveInput_def
  base_ChangeDefaultAdminDelayInput_def
  base_GetCCVsAndFinalityConfigInput_def
  base_GetCcipGasLimitInput_def
  base_GetCrosschainVaultInput_def
  base_GetRoleAdminInput_def
  base_GrantRoleInput_def
  base_HasRoleInput_def
  base_RenounceRoleInput_def
  base_RevokeRoleInput_def
  base_SetCcipGasLimitInput_def
  base_SetCrosschainVaultsInput_def
  base_SetDefaultCcipGasLimitInput_def
  base_SupportsInterfaceInput_def
  base_TryDepositToAdapterInput_def
  base_UpgradeToAndCallInput_def
  base_WithdrawLinkInput_def
  base_TypesRebalanceDepositRecovery_def

lemmas base_encoder_defs =
  base_EncodeDEFAULTADMINROLEMethodCall_def
  base_EncodeUPGRADEINTERFACEVERSIONMethodCall_def
  base_EncodeAcceptDefaultAdminTransferMethodCall_def
  base_EncodeBeginDefaultAdminTransferMethodCall_def
  base_EncodeCancelDefaultAdminTransferMethodCall_def
  base_EncodeCcipReceiveMethodCall_def
  base_EncodeChangeDefaultAdminDelayMethodCall_def
  base_EncodeDefaultAdminMethodCall_def
  base_EncodeDefaultAdminDelayMethodCall_def
  base_EncodeDefaultAdminDelayIncreaseWaitMethodCall_def
  base_EncodeExecuteRecoveryMethodCall_def
  base_EncodeGetActiveProtocolAdapterMethodCall_def
  base_EncodeGetAdapterRegistryMethodCall_def
  base_EncodeGetAssetMethodCall_def
  base_EncodeGetAssetPrecisionMethodCall_def
  base_EncodeGetCCVsAndFinalityConfigMethodCall_def
  base_EncodeGetCcipGasLimitMethodCall_def
  base_EncodeGetCrosschainVaultMethodCall_def
  base_EncodeGetDefaultCcipGasLimitMethodCall_def
  base_EncodeGetLinkMethodCall_def
  base_EncodeGetRebalanceDepositRecoveryMethodCall_def
  base_EncodeGetRecoveryModeMethodCall_def
  base_EncodeGetRoleAdminMethodCall_def
  base_EncodeGetRouterMethodCall_def
  base_EncodeGetTVLMethodCall_def
  base_EncodeGetThisChainSelectorMethodCall_def
  base_EncodeGrantRoleMethodCall_def
  base_EncodeHasRoleMethodCall_def
  base_EncodeOwnerMethodCall_def
  base_EncodePauseMethodCall_def
  base_EncodePausedMethodCall_def
  base_EncodePendingDefaultAdminMethodCall_def
  base_EncodePendingDefaultAdminDelayMethodCall_def
  base_EncodeProxiableUUIDMethodCall_def
  base_EncodeRenounceRoleMethodCall_def
  base_EncodeRevokeRoleMethodCall_def
  base_EncodeRollbackDefaultAdminDelayMethodCall_def
  base_EncodeSetCcipGasLimitMethodCall_def
  base_EncodeSetCrosschainVaultsMethodCall_def
  base_EncodeSetDefaultCcipGasLimitMethodCall_def
  base_EncodeSupportsInterfaceMethodCall_def
  base_EncodeTryDepositToAdapterMethodCall_def
  base_EncodeUnpauseMethodCall_def
  base_EncodeUpgradeToAndCallMethodCall_def
  base_EncodeWithdrawLinkMethodCall_def

lemmas base_read_defs =
  base_DEFAULTADMINROLE_def
  base_UPGRADEINTERFACEVERSION_def
  base_DefaultAdmin_def
  base_DefaultAdminDelay_def
  base_DefaultAdminDelayIncreaseWait_def
  base_GetActiveProtocolAdapter_def
  base_GetAdapterRegistry_def
  base_GetAsset_def
  base_GetAssetPrecision_def
  base_GetCCVsAndFinalityConfig_def
  base_GetCcipGasLimit_def
  base_GetCrosschainVault_def
  base_GetDefaultCcipGasLimit_def
  base_GetLink_def
  base_GetRebalanceDepositRecovery_def
  base_GetRecoveryMode_def
  base_GetRoleAdmin_def
  base_GetRouter_def
  base_GetTVL_def
  base_GetThisChainSelector_def
  base_HasRole_def
  base_Owner_def
  base_Paused_def
  base_PendingDefaultAdmin_def
  base_PendingDefaultAdminDelay_def
  base_ProxiableUUID_def
  base_DecodeDEFAULTADMINROLEMethodOutput_def
  base_DecodeUPGRADEINTERFACEVERSIONMethodOutput_def
  base_DecodeDefaultAdminMethodOutput_def
  base_DecodeDefaultAdminDelayMethodOutput_def
  base_DecodeDefaultAdminDelayIncreaseWaitMethodOutput_def
  base_DecodeGetActiveProtocolAdapterMethodOutput_def
  base_DecodeGetAdapterRegistryMethodOutput_def
  base_DecodeGetAssetMethodOutput_def
  base_DecodeGetAssetPrecisionMethodOutput_def
  base_DecodeGetCCVsAndFinalityConfigMethodOutput_def
  base_DecodeGetCcipGasLimitMethodOutput_def
  base_DecodeGetCrosschainVaultMethodOutput_def
  base_DecodeGetDefaultCcipGasLimitMethodOutput_def
  base_DecodeGetLinkMethodOutput_def
  base_DecodeGetRebalanceDepositRecoveryMethodOutput_def
  base_DecodeGetRecoveryModeMethodOutput_def
  base_DecodeGetRoleAdminMethodOutput_def
  base_DecodeGetRouterMethodOutput_def
  base_DecodeGetTVLMethodOutput_def
  base_DecodeGetThisChainSelectorMethodOutput_def
  base_DecodeHasRoleMethodOutput_def
  base_DecodeOwnerMethodOutput_def
  base_DecodePausedMethodOutput_def
  base_DecodePendingDefaultAdminMethodOutput_def
  base_DecodePendingDefaultAdminDelayMethodOutput_def
  base_DecodeProxiableUUIDMethodOutput_def
  base_DecodeSupportsInterfaceMethodOutput_def

lemmas base_mock_defs =
  base_mock_DEFAULT_ADMIN_ROLE_def
  base_mock_UPGRADE_INTERFACE_VERSION_def
  base_mock_defaultAdmin_def
  base_mock_defaultAdminDelay_def
  base_mock_defaultAdminDelayIncreaseWait_def
  base_mock_getActiveProtocolAdapter_def
  base_mock_getAdapterRegistry_def
  base_mock_getAsset_def
  base_mock_getAssetPrecision_def
  base_mock_getCCVsAndFinalityConfig_def
  base_mock_getCcipGasLimit_def
  base_mock_getCrosschainVault_def
  base_mock_getDefaultCcipGasLimit_def
  base_mock_getLink_def
  base_mock_getRebalanceDepositRecovery_def
  base_mock_getRecoveryMode_def
  base_mock_getRoleAdmin_def
  base_mock_getRouter_def
  base_mock_getTVL_def
  base_mock_getThisChainSelector_def
  base_mock_hasRole_def
  base_mock_owner_def
  base_mock_paused_def
  base_mock_pendingDefaultAdmin_def
  base_mock_pendingDefaultAdminDelay_def
  base_mock_proxiableUUID_def

lemmas base_report_defs =
  base_WriteReportFromClientAny2EVMMessage_def
  base_WriteReportFromClientEVMTokenAmount_def
  base_WriteReportFromTypesRebalanceDepositRecovery_def

lemma base_calls_eq: "base_calls = map table_call base_call_table"
  by (simp add: base_calls_def base_call_table_def table_call_def base_encoder_defs base_struct_defs fun_eq_iff)

lemma base_call_fields: "list_all (\<lambda>s. distinct (map fst (snd s))) base_call_table"
  by (simp add: base_call_table_def base_struct_defs)

lemma base_calls_ok: "list_all2 call_ok base_call_table base_calls"
  unfolding base_calls_eq by (rule table_calls_ok [OF base_call_fields])

lemma base_reads_eq: "base_reads = map table_read base_read_table"
  by (simp add: base_reads_def base_read_table_def table_read_def table_call_def base_read_defs base_encoder_defs base_struct_defs fun_eq_iff)

lemma base_funcMap_eq: "base_funcMap k c = map (table_mock c k) base_mock_table"
  by (simp add: base_funcMap_def base_mock_table_def base_read_table_def table_mock_def base_mock_defs)

lemma base_names: "distinct (map am_Name base_methods)"
  by (rule names_distinct) code_simp

lemma base_calls_conform: "list_all (inputs_conform base_methods) base_call_table"
proof (rule inputs_conformI)
  show "aligned inputs_fit fst base_methods base_call_table" by code_simp
qed (rule base_names)

lemma base_reads_conform: "list_all (read_conforms base_methods) base_read_table"
proof (rule read_conformsI)
  show "aligned read_fits rs_Name base_methods base_read_table" by code_simp
qed (rule base_names)

interpretation base_contract: contract_binding base_methods NewBaseVault base_call_table base_calls
  base_read_table base_reads base_mock_table base_funcMap
proof unfold_locales
  show "set base_read_table \<subseteq> set base_mock_table"
    by (simp add: base_mock_table_def)
qed (use base_calls_ok base_calls_conform base_reads_conform in \<open>auto simp: NewBaseVault_def base_NewCodec_def bindO_Ok_iff base_reads_eq base_funcMap_eq\<close>)

lemma base_struct_reports_ok: "list_all (\<lambda>(enc, write). \<forall>E v inp gas. write E v inp gas = write_report_from E v (enc E inp) gas) base_struct_reports"
  by (simp add: base_struct_reports_def base_report_defs)

end
