(* ===== verification/Router_Calls.thy ===== *)
theory Router_Calls
  imports Binding_Contracts
begin

text \<open>
  The calls of the generated WorkflowRouter package (\<open>cre/contracts/evm/generated/workflow_router/WorkflowRouter.go\<close>): the methods of
  its ABI literal, the input structs, the call encoders and output decoders, the contract reads, the struct encoders with
  their report writers, and the functions of its test double. Each is an instance of a shape of \<open>Binding_Shapes\<close>; the
  interpretation at the end checks the package against its ABI literal.
\<close>

section \<open>The ABI literal\<close>

definition router_methods :: "abi_method list" where
  "router_methods =
     [\<lparr>am_Name = ''DEFAULT_ADMIN_ROLE'', am_Inputs = [], am_Outputs = [('''', SFixed 32)]\<rparr>,
      \<lparr>am_Name = ''acceptDefaultAdminTransfer'', am_Inputs = [], am_Outputs = []\<rparr>,
      \<lparr>am_Name = ''beginDefaultAdminTransfer'', am_Inputs = [(''newAdmin'', SAddress)], am_Outputs = []\<rparr>,
      \<lparr>am_Name = ''cancelDefaultAdminTransfer'', am_Inputs = [], am_Outputs = []\<rparr>,
      \<lparr>am_Name = ''changeDefaultAdminDelay'', am_Inputs = [(''newDelay'', SUint 48)], am_Outputs = []\<rparr>,
      \<lparr>am_Name = ''defaultAdmin'', am_Inputs = [], am_Outputs = [('''', SAddress)]\<rparr>,
      \<lparr>am_Name = ''defaultAdminDelay'', am_Inputs = [], am_Outputs = [('''', SUint 48)]\<rparr>,
      \<lparr>am_Name = ''defaultAdminDelayIncreaseWait'', am_Inputs = [], am_Outputs = [('''', SUint 48)]\<rparr>,
      \<lparr>am_Name = ''getAllowlistedWorkflowSelector'', am_Inputs = [(''workflowId'', SFixed 32),
        (''selector'', SFixed 4)], am_Outputs = [(''isAllowlisted'', SBool)]\<rparr>,
      \<lparr>am_Name = ''getRoleAdmin'', am_Inputs = [(''role'', SFixed 32)], am_Outputs = [('''', SFixed 32)]\<rparr>,
      \<lparr>am_Name = ''getThisChainSelector'', am_Inputs = [], am_Outputs = [(''chainSelector'', SUint 64)]\<rparr>,
      \<lparr>am_Name = ''getVault'', am_Inputs = [], am_Outputs = [(''vault'', SAddress)]\<rparr>,
      \<lparr>am_Name = ''getWorkflowGeneration'', am_Inputs = [(''workflowId'', SFixed 32)],
        am_Outputs = [(''generation'', SUint 256)]\<rparr>,
      \<lparr>am_Name = ''getWorkflowMetadata'', am_Inputs = [(''workflowId'', SFixed 32)], am_Outputs = [(''metadata'',
        STuple [(''owner'', SAddress), (''name'', SFixed 10)])]\<rparr>,
      \<lparr>am_Name = ''grantRole'', am_Inputs = [(''role'', SFixed 32),
        (''account'', SAddress)], am_Outputs = []\<rparr>,
      \<lparr>am_Name = ''hasRole'', am_Inputs = [(''role'', SFixed 32),
        (''account'', SAddress)], am_Outputs = [('''', SBool)]\<rparr>,
      \<lparr>am_Name = ''onReport'', am_Inputs = [(''metadata'', SBytes), (''report'', SBytes)], am_Outputs = []\<rparr>,
      \<lparr>am_Name = ''owner'', am_Inputs = [], am_Outputs = [('''', SAddress)]\<rparr>,
      \<lparr>am_Name = ''pause'', am_Inputs = [], am_Outputs = []\<rparr>,
      \<lparr>am_Name = ''paused'', am_Inputs = [], am_Outputs = [('''', SBool)]\<rparr>,
      \<lparr>am_Name = ''pendingDefaultAdmin'', am_Inputs = [], am_Outputs = [(''newAdmin'', SAddress),
        (''schedule'', SUint 48)]\<rparr>,
      \<lparr>am_Name = ''pendingDefaultAdminDelay'', am_Inputs = [], am_Outputs = [(''newDelay'', SUint 48),
        (''schedule'', SUint 48)]\<rparr>,
      \<lparr>am_Name = ''renounceRole'', am_Inputs = [(''role'', SFixed 32),
        (''account'', SAddress)], am_Outputs = []\<rparr>,
      \<lparr>am_Name = ''revokeRole'', am_Inputs = [(''role'', SFixed 32),
        (''account'', SAddress)], am_Outputs = []\<rparr>,
      \<lparr>am_Name = ''rollbackDefaultAdminDelay'', am_Inputs = [], am_Outputs = []\<rparr>,
      \<lparr>am_Name = ''setWorkflowMetadata'', am_Inputs = [(''workflowId'', SFixed 32), (''name'', SFixed 10),
        (''owner'', SAddress)], am_Outputs = []\<rparr>,
      \<lparr>am_Name = ''setWorkflowSelectors'', am_Inputs = [(''workflowId'', SFixed 32),
        (''selectors'', SArray (SFixed 4)), (''isAllowlisted'', SBool)], am_Outputs = []\<rparr>,
      \<lparr>am_Name = ''supportsInterface'', am_Inputs = [(''interfaceId'', SFixed 4)], am_Outputs = [('''',
        SBool)]\<rparr>,
      \<lparr>am_Name = ''unpause'', am_Inputs = [], am_Outputs = []\<rparr>]"

section \<open>Structs\<close>

definition router_BeginDefaultAdminTransferInput :: "struct_type" where
  "router_BeginDefaultAdminTransferInput = [(''NewAdmin'', TAddr)]"

definition router_ChangeDefaultAdminDelayInput :: "struct_type" where
  "router_ChangeDefaultAdminDelayInput = [(''NewDelay'', TBig)]"

definition router_GetAllowlistedWorkflowSelectorInput :: "struct_type" where
  "router_GetAllowlistedWorkflowSelectorInput = [(''WorkflowId'', TFix 32), (''Selector'', TFix 4)]"

definition router_GetRoleAdminInput :: "struct_type" where
  "router_GetRoleAdminInput = [(''Role'', TFix 32)]"

definition router_GetWorkflowGenerationInput :: "struct_type" where
  "router_GetWorkflowGenerationInput = [(''WorkflowId'', TFix 32)]"

definition router_GetWorkflowMetadataInput :: "struct_type" where
  "router_GetWorkflowMetadataInput = [(''WorkflowId'', TFix 32)]"

definition router_GrantRoleInput :: "struct_type" where
  "router_GrantRoleInput = [(''Role'', TFix 32), (''Account'', TAddr)]"

definition router_HasRoleInput :: "struct_type" where
  "router_HasRoleInput = [(''Role'', TFix 32), (''Account'', TAddr)]"

definition router_OnReportInput :: "struct_type" where
  "router_OnReportInput = [(''Metadata'', TBytes), (''Report'', TBytes)]"

definition router_RenounceRoleInput :: "struct_type" where
  "router_RenounceRoleInput = [(''Role'', TFix 32), (''Account'', TAddr)]"

definition router_RevokeRoleInput :: "struct_type" where
  "router_RevokeRoleInput = [(''Role'', TFix 32), (''Account'', TAddr)]"

definition router_SetWorkflowMetadataInput :: "struct_type" where
  "router_SetWorkflowMetadataInput = [(''WorkflowId'', TFix 32), (''Name'', TFix 10), (''Owner'', TAddr)]"

definition router_SetWorkflowSelectorsInput :: "struct_type" where
  "router_SetWorkflowSelectorsInput = [(''WorkflowId'', TFix 32), (''Selectors'', TList (TFix 4)),
       (''IsAllowlisted'', TBool)]"

definition router_SupportsInterfaceInput :: "struct_type" where
  "router_SupportsInterfaceInput = [(''InterfaceId'', TFix 4)]"

definition router_IWorkflowRouterWorkflowMetadata :: "struct_type" where
  "router_IWorkflowRouterWorkflowMetadata = [(''Owner'', TAddr), (''Name'', TFix 10)]"

definition router_ConstructorParams :: "struct_type" where
  "router_ConstructorParams = [(''InitialDelay'', TBig), (''DefaultAdmin'', TAddr), (''Pauser'', TAddr),
       (''Unpauser'', TAddr), (''ConfigOperator'', TAddr), (''KeystoneForwarder'', TAddr), (''Vault'', TAddr)]"

section \<open>Codec and contract\<close>

definition router_NewCodec :: "env \<Rightarrow> codec outcome" where
  "router_NewCodec E = bindO (abi_JSON E WorkflowRouterMetaData) (\<lambda>parsed. Ok \<lparr>codec_abi = parsed\<rparr>)"

definition NewWorkflowRouter :: "env \<Rightarrow> uint64 \<Rightarrow> address \<Rightarrow> vault_binding outcome" where
  "NewWorkflowRouter E chain addr =
     bindO (abi_JSON E WorkflowRouterMetaData) (\<lambda>parsed. bindO (router_NewCodec E) (\<lambda>c.
       Ok \<lparr>vb_Address = addr, vb_ABI = parsed, vb_ChainSelector = chain, vb_Codec = c\<rparr>))"

section \<open>Call encoders\<close>

definition router_EncodeDEFAULTADMINROLEMethodCall :: "codec \<Rightarrow> byte list outcome" where
  "router_EncodeDEFAULTADMINROLEMethodCall c = abi_Pack (codec_abi c) ''DEFAULT_ADMIN_ROLE'' []"

definition router_EncodeAcceptDefaultAdminTransferMethodCall :: "codec \<Rightarrow> byte list outcome" where
  "router_EncodeAcceptDefaultAdminTransferMethodCall c = abi_Pack (codec_abi c) ''acceptDefaultAdminTransfer'' []"

definition router_EncodeBeginDefaultAdminTransferMethodCall :: "codec \<Rightarrow> gstruct \<Rightarrow> byte list outcome" where
  "router_EncodeBeginDefaultAdminTransferMethodCall c inp =
     abi_Pack (codec_abi c) ''beginDefaultAdminTransfer'' [fld inp ''NewAdmin'']"

definition router_EncodeCancelDefaultAdminTransferMethodCall :: "codec \<Rightarrow> byte list outcome" where
  "router_EncodeCancelDefaultAdminTransferMethodCall c = abi_Pack (codec_abi c) ''cancelDefaultAdminTransfer'' []"

definition router_EncodeChangeDefaultAdminDelayMethodCall :: "codec \<Rightarrow> gstruct \<Rightarrow> byte list outcome" where
  "router_EncodeChangeDefaultAdminDelayMethodCall c inp =
     abi_Pack (codec_abi c) ''changeDefaultAdminDelay'' [fld inp ''NewDelay'']"

definition router_EncodeDefaultAdminMethodCall :: "codec \<Rightarrow> byte list outcome" where
  "router_EncodeDefaultAdminMethodCall c = abi_Pack (codec_abi c) ''defaultAdmin'' []"

definition router_EncodeDefaultAdminDelayMethodCall :: "codec \<Rightarrow> byte list outcome" where
  "router_EncodeDefaultAdminDelayMethodCall c = abi_Pack (codec_abi c) ''defaultAdminDelay'' []"

definition router_EncodeDefaultAdminDelayIncreaseWaitMethodCall :: "codec \<Rightarrow> byte list outcome" where
  "router_EncodeDefaultAdminDelayIncreaseWaitMethodCall c = abi_Pack (codec_abi c) ''defaultAdminDelayIncreaseWait'' []"

definition router_EncodeGetAllowlistedWorkflowSelectorMethodCall :: "codec \<Rightarrow> gstruct \<Rightarrow> byte list outcome" where
  "router_EncodeGetAllowlistedWorkflowSelectorMethodCall c inp =
     abi_Pack (codec_abi c) ''getAllowlistedWorkflowSelector'' [fld inp ''WorkflowId'', fld inp ''Selector'']"

definition router_EncodeGetRoleAdminMethodCall :: "codec \<Rightarrow> gstruct \<Rightarrow> byte list outcome" where
  "router_EncodeGetRoleAdminMethodCall c inp =
     abi_Pack (codec_abi c) ''getRoleAdmin'' [fld inp ''Role'']"

definition router_EncodeGetThisChainSelectorMethodCall :: "codec \<Rightarrow> byte list outcome" where
  "router_EncodeGetThisChainSelectorMethodCall c = abi_Pack (codec_abi c) ''getThisChainSelector'' []"

definition router_EncodeGetVaultMethodCall :: "codec \<Rightarrow> byte list outcome" where
  "router_EncodeGetVaultMethodCall c = abi_Pack (codec_abi c) ''getVault'' []"

definition router_EncodeGetWorkflowGenerationMethodCall :: "codec \<Rightarrow> gstruct \<Rightarrow> byte list outcome" where
  "router_EncodeGetWorkflowGenerationMethodCall c inp =
     abi_Pack (codec_abi c) ''getWorkflowGeneration'' [fld inp ''WorkflowId'']"

definition router_EncodeGetWorkflowMetadataMethodCall :: "codec \<Rightarrow> gstruct \<Rightarrow> byte list outcome" where
  "router_EncodeGetWorkflowMetadataMethodCall c inp =
     abi_Pack (codec_abi c) ''getWorkflowMetadata'' [fld inp ''WorkflowId'']"

definition router_EncodeGrantRoleMethodCall :: "codec \<Rightarrow> gstruct \<Rightarrow> byte list outcome" where
  "router_EncodeGrantRoleMethodCall c inp =
     abi_Pack (codec_abi c) ''grantRole'' [fld inp ''Role'', fld inp ''Account'']"

definition router_EncodeHasRoleMethodCall :: "codec \<Rightarrow> gstruct \<Rightarrow> byte list outcome" where
  "router_EncodeHasRoleMethodCall c inp =
     abi_Pack (codec_abi c) ''hasRole'' [fld inp ''Role'', fld inp ''Account'']"

definition router_EncodeOnReportMethodCall :: "codec \<Rightarrow> gstruct \<Rightarrow> byte list outcome" where
  "router_EncodeOnReportMethodCall c inp =
     abi_Pack (codec_abi c) ''onReport'' [fld inp ''Metadata'', fld inp ''Report'']"

definition router_EncodeOwnerMethodCall :: "codec \<Rightarrow> byte list outcome" where
  "router_EncodeOwnerMethodCall c = abi_Pack (codec_abi c) ''owner'' []"

definition router_EncodePauseMethodCall :: "codec \<Rightarrow> byte list outcome" where
  "router_EncodePauseMethodCall c = abi_Pack (codec_abi c) ''pause'' []"

definition router_EncodePausedMethodCall :: "codec \<Rightarrow> byte list outcome" where
  "router_EncodePausedMethodCall c = abi_Pack (codec_abi c) ''paused'' []"

definition router_EncodePendingDefaultAdminMethodCall :: "codec \<Rightarrow> byte list outcome" where
  "router_EncodePendingDefaultAdminMethodCall c = abi_Pack (codec_abi c) ''pendingDefaultAdmin'' []"

definition router_EncodePendingDefaultAdminDelayMethodCall :: "codec \<Rightarrow> byte list outcome" where
  "router_EncodePendingDefaultAdminDelayMethodCall c = abi_Pack (codec_abi c) ''pendingDefaultAdminDelay'' []"

definition router_EncodeRenounceRoleMethodCall :: "codec \<Rightarrow> gstruct \<Rightarrow> byte list outcome" where
  "router_EncodeRenounceRoleMethodCall c inp =
     abi_Pack (codec_abi c) ''renounceRole'' [fld inp ''Role'', fld inp ''Account'']"

definition router_EncodeRevokeRoleMethodCall :: "codec \<Rightarrow> gstruct \<Rightarrow> byte list outcome" where
  "router_EncodeRevokeRoleMethodCall c inp =
     abi_Pack (codec_abi c) ''revokeRole'' [fld inp ''Role'', fld inp ''Account'']"

definition router_EncodeRollbackDefaultAdminDelayMethodCall :: "codec \<Rightarrow> byte list outcome" where
  "router_EncodeRollbackDefaultAdminDelayMethodCall c = abi_Pack (codec_abi c) ''rollbackDefaultAdminDelay'' []"

definition router_EncodeSetWorkflowMetadataMethodCall :: "codec \<Rightarrow> gstruct \<Rightarrow> byte list outcome" where
  "router_EncodeSetWorkflowMetadataMethodCall c inp =
     abi_Pack (codec_abi c) ''setWorkflowMetadata'' [fld inp ''WorkflowId'', fld inp ''Name'', fld inp ''Owner'']"

definition router_EncodeSetWorkflowSelectorsMethodCall :: "codec \<Rightarrow> gstruct \<Rightarrow> byte list outcome" where
  "router_EncodeSetWorkflowSelectorsMethodCall c inp =
     abi_Pack (codec_abi c) ''setWorkflowSelectors'' [fld inp ''WorkflowId'', fld inp ''Selectors'',
       fld inp ''IsAllowlisted'']"

definition router_EncodeSupportsInterfaceMethodCall :: "codec \<Rightarrow> gstruct \<Rightarrow> byte list outcome" where
  "router_EncodeSupportsInterfaceMethodCall c inp =
     abi_Pack (codec_abi c) ''supportsInterface'' [fld inp ''InterfaceId'']"

definition router_EncodeUnpauseMethodCall :: "codec \<Rightarrow> byte list outcome" where
  "router_EncodeUnpauseMethodCall c = abi_Pack (codec_abi c) ''unpause'' []"

section \<open>Output decoders\<close>

definition router_DecodeDEFAULTADMINROLEMethodOutput :: "env \<Rightarrow> codec \<Rightarrow> byte list \<Rightarrow> gval outcome" where
  "router_DecodeDEFAULTADMINROLEMethodOutput E c =
     decode_output E c ''DEFAULT_ADMIN_ROLE'' (TFix 32) ''[32]byte''"

definition router_DecodeDefaultAdminMethodOutput :: "env \<Rightarrow> codec \<Rightarrow> byte list \<Rightarrow> gval outcome" where
  "router_DecodeDefaultAdminMethodOutput E c =
     decode_output E c ''defaultAdmin'' TAddr ''common.Address''"

definition router_DecodeDefaultAdminDelayMethodOutput :: "env \<Rightarrow> codec \<Rightarrow> byte list \<Rightarrow> gval outcome" where
  "router_DecodeDefaultAdminDelayMethodOutput E c =
     decode_output E c ''defaultAdminDelay'' TBig ''*big.Int''"

definition router_DecodeDefaultAdminDelayIncreaseWaitMethodOutput :: "env \<Rightarrow> codec \<Rightarrow> byte list \<Rightarrow> gval outcome" where
  "router_DecodeDefaultAdminDelayIncreaseWaitMethodOutput E c =
     decode_output E c ''defaultAdminDelayIncreaseWait'' TBig ''*big.Int''"

definition router_DecodeGetAllowlistedWorkflowSelectorMethodOutput :: "env \<Rightarrow> codec \<Rightarrow> byte list \<Rightarrow> gval outcome" where
  "router_DecodeGetAllowlistedWorkflowSelectorMethodOutput E c =
     decode_output E c ''getAllowlistedWorkflowSelector'' TBool ''bool''"

definition router_DecodeGetRoleAdminMethodOutput :: "env \<Rightarrow> codec \<Rightarrow> byte list \<Rightarrow> gval outcome" where
  "router_DecodeGetRoleAdminMethodOutput E c =
     decode_output E c ''getRoleAdmin'' (TFix 32) ''[32]byte''"

definition router_DecodeGetThisChainSelectorMethodOutput :: "env \<Rightarrow> codec \<Rightarrow> byte list \<Rightarrow> gval outcome" where
  "router_DecodeGetThisChainSelectorMethodOutput E c =
     decode_output E c ''getThisChainSelector'' TU64 ''uint64''"

definition router_DecodeGetVaultMethodOutput :: "env \<Rightarrow> codec \<Rightarrow> byte list \<Rightarrow> gval outcome" where
  "router_DecodeGetVaultMethodOutput E c =
     decode_output E c ''getVault'' TAddr ''common.Address''"

definition router_DecodeGetWorkflowGenerationMethodOutput :: "env \<Rightarrow> codec \<Rightarrow> byte list \<Rightarrow> gval outcome" where
  "router_DecodeGetWorkflowGenerationMethodOutput E c =
     decode_output E c ''getWorkflowGeneration'' TBig ''*big.Int''"

definition router_DecodeGetWorkflowMetadataMethodOutput :: "env \<Rightarrow> codec \<Rightarrow> byte list \<Rightarrow> gval outcome" where
  "router_DecodeGetWorkflowMetadataMethodOutput E c =
     decode_output E c ''getWorkflowMetadata'' (TStruct router_IWorkflowRouterWorkflowMetadata) ''IWorkflowRouterWorkflowMetadata''"

definition router_DecodeHasRoleMethodOutput :: "env \<Rightarrow> codec \<Rightarrow> byte list \<Rightarrow> gval outcome" where
  "router_DecodeHasRoleMethodOutput E c =
     decode_output E c ''hasRole'' TBool ''bool''"

definition router_DecodeOwnerMethodOutput :: "env \<Rightarrow> codec \<Rightarrow> byte list \<Rightarrow> gval outcome" where
  "router_DecodeOwnerMethodOutput E c =
     decode_output E c ''owner'' TAddr ''common.Address''"

definition router_DecodePausedMethodOutput :: "env \<Rightarrow> codec \<Rightarrow> byte list \<Rightarrow> gval outcome" where
  "router_DecodePausedMethodOutput E c =
     decode_output E c ''paused'' TBool ''bool''"

definition router_DecodePendingDefaultAdminMethodOutput :: "env \<Rightarrow> codec \<Rightarrow> byte list \<Rightarrow> gval outcome" where
  "router_DecodePendingDefaultAdminMethodOutput E c =
     decode_outputs E c ''pendingDefaultAdmin''
       [(''NewAdmin'', TAddr, ''common.Address''), (''Schedule'', TBig, ''*big.Int'')]"

definition router_DecodePendingDefaultAdminDelayMethodOutput :: "env \<Rightarrow> codec \<Rightarrow> byte list \<Rightarrow> gval outcome" where
  "router_DecodePendingDefaultAdminDelayMethodOutput E c =
     decode_outputs E c ''pendingDefaultAdminDelay''
       [(''NewDelay'', TBig, ''*big.Int''), (''Schedule'', TBig, ''*big.Int'')]"

definition router_DecodeSupportsInterfaceMethodOutput :: "env \<Rightarrow> codec \<Rightarrow> byte list \<Rightarrow> gval outcome" where
  "router_DecodeSupportsInterfaceMethodOutput E c =
     decode_output E c ''supportsInterface'' TBool ''bool''"

section \<open>Reads\<close>

definition router_DEFAULTADMINROLE :: "env \<Rightarrow> vault_binding \<Rightarrow> bigptr \<Rightarrow> gval prog" where
  "router_DEFAULTADMINROLE E v block =
     read_contract E v (router_EncodeDEFAULTADMINROLEMethodCall (vb_Codec v)) block
       (router_DecodeDEFAULTADMINROLEMethodOutput E (vb_Codec v))"

definition router_DefaultAdmin :: "env \<Rightarrow> vault_binding \<Rightarrow> bigptr \<Rightarrow> gval prog" where
  "router_DefaultAdmin E v block =
     read_contract E v (router_EncodeDefaultAdminMethodCall (vb_Codec v)) block
       (router_DecodeDefaultAdminMethodOutput E (vb_Codec v))"

definition router_DefaultAdminDelay :: "env \<Rightarrow> vault_binding \<Rightarrow> bigptr \<Rightarrow> gval prog" where
  "router_DefaultAdminDelay E v block =
     read_contract E v (router_EncodeDefaultAdminDelayMethodCall (vb_Codec v)) block
       (router_DecodeDefaultAdminDelayMethodOutput E (vb_Codec v))"

definition router_DefaultAdminDelayIncreaseWait :: "env \<Rightarrow> vault_binding \<Rightarrow> bigptr \<Rightarrow> gval prog" where
  "router_DefaultAdminDelayIncreaseWait E v block =
     read_contract E v (router_EncodeDefaultAdminDelayIncreaseWaitMethodCall (vb_Codec v)) block
       (router_DecodeDefaultAdminDelayIncreaseWaitMethodOutput E (vb_Codec v))"

definition router_GetAllowlistedWorkflowSelector :: "env \<Rightarrow> vault_binding \<Rightarrow> gstruct \<Rightarrow> bigptr \<Rightarrow> gval prog" where
  "router_GetAllowlistedWorkflowSelector E v inp block =
     read_contract E v (router_EncodeGetAllowlistedWorkflowSelectorMethodCall (vb_Codec v) inp) block
       (router_DecodeGetAllowlistedWorkflowSelectorMethodOutput E (vb_Codec v))"

definition router_GetRoleAdmin :: "env \<Rightarrow> vault_binding \<Rightarrow> gstruct \<Rightarrow> bigptr \<Rightarrow> gval prog" where
  "router_GetRoleAdmin E v inp block =
     read_contract E v (router_EncodeGetRoleAdminMethodCall (vb_Codec v) inp) block
       (router_DecodeGetRoleAdminMethodOutput E (vb_Codec v))"

definition router_GetThisChainSelector :: "env \<Rightarrow> vault_binding \<Rightarrow> bigptr \<Rightarrow> gval prog" where
  "router_GetThisChainSelector E v block =
     read_contract E v (router_EncodeGetThisChainSelectorMethodCall (vb_Codec v)) block
       (router_DecodeGetThisChainSelectorMethodOutput E (vb_Codec v))"

definition router_GetVault :: "env \<Rightarrow> vault_binding \<Rightarrow> bigptr \<Rightarrow> gval prog" where
  "router_GetVault E v block =
     read_contract E v (router_EncodeGetVaultMethodCall (vb_Codec v)) block
       (router_DecodeGetVaultMethodOutput E (vb_Codec v))"

definition router_GetWorkflowGeneration :: "env \<Rightarrow> vault_binding \<Rightarrow> gstruct \<Rightarrow> bigptr \<Rightarrow> gval prog" where
  "router_GetWorkflowGeneration E v inp block =
     read_contract E v (router_EncodeGetWorkflowGenerationMethodCall (vb_Codec v) inp) block
       (router_DecodeGetWorkflowGenerationMethodOutput E (vb_Codec v))"

definition router_GetWorkflowMetadata :: "env \<Rightarrow> vault_binding \<Rightarrow> gstruct \<Rightarrow> bigptr \<Rightarrow> gval prog" where
  "router_GetWorkflowMetadata E v inp block =
     read_contract E v (router_EncodeGetWorkflowMetadataMethodCall (vb_Codec v) inp) block
       (router_DecodeGetWorkflowMetadataMethodOutput E (vb_Codec v))"

definition router_HasRole :: "env \<Rightarrow> vault_binding \<Rightarrow> gstruct \<Rightarrow> bigptr \<Rightarrow> gval prog" where
  "router_HasRole E v inp block =
     read_contract E v (router_EncodeHasRoleMethodCall (vb_Codec v) inp) block
       (router_DecodeHasRoleMethodOutput E (vb_Codec v))"

definition router_Owner :: "env \<Rightarrow> vault_binding \<Rightarrow> bigptr \<Rightarrow> gval prog" where
  "router_Owner E v block =
     read_contract E v (router_EncodeOwnerMethodCall (vb_Codec v)) block
       (router_DecodeOwnerMethodOutput E (vb_Codec v))"

definition router_Paused :: "env \<Rightarrow> vault_binding \<Rightarrow> bigptr \<Rightarrow> gval prog" where
  "router_Paused E v block =
     read_contract E v (router_EncodePausedMethodCall (vb_Codec v)) block
       (router_DecodePausedMethodOutput E (vb_Codec v))"

definition router_PendingDefaultAdmin :: "env \<Rightarrow> vault_binding \<Rightarrow> bigptr \<Rightarrow> gval prog" where
  "router_PendingDefaultAdmin E v block =
     read_contract E v (router_EncodePendingDefaultAdminMethodCall (vb_Codec v)) block
       (router_DecodePendingDefaultAdminMethodOutput E (vb_Codec v))"

definition router_PendingDefaultAdminDelay :: "env \<Rightarrow> vault_binding \<Rightarrow> bigptr \<Rightarrow> gval prog" where
  "router_PendingDefaultAdminDelay E v block =
     read_contract E v (router_EncodePendingDefaultAdminDelayMethodCall (vb_Codec v)) block
       (router_DecodePendingDefaultAdminDelayMethodOutput E (vb_Codec v))"

definition router_SupportsInterface :: "env \<Rightarrow> vault_binding \<Rightarrow> gstruct \<Rightarrow> bigptr \<Rightarrow> gval prog" where
  "router_SupportsInterface E v inp block =
     read_contract E v (router_EncodeSupportsInterfaceMethodCall (vb_Codec v) inp) block
       (router_DecodeSupportsInterfaceMethodOutput E (vb_Codec v))"

section \<open>Structs as reports\<close>

definition router_EncodeIWorkflowRouterWorkflowMetadataStruct :: "env \<Rightarrow> gval \<Rightarrow> byte list outcome" where
  "router_EncodeIWorkflowRouterWorkflowMetadataStruct E inp =
     encode_struct E ''IWorkflowRouterWorkflowMetadata'' ''iWorkflowRouterWorkflowMetadata''
       [(''owner'', ''address''), (''name'', ''bytes10'')] inp"

definition router_WriteReportFromIWorkflowRouterWorkflowMetadata :: "env \<Rightarrow> vault_binding \<Rightarrow> gval \<Rightarrow> uint64 option \<Rightarrow> write_reply option prog" where
  "router_WriteReportFromIWorkflowRouterWorkflowMetadata E v inp gasConfig =
     write_report_from E v (router_EncodeIWorkflowRouterWorkflowMetadataStruct E inp) gasConfig"

definition router_EncodeConstructorParamsStruct :: "env \<Rightarrow> gval \<Rightarrow> byte list outcome" where
  "router_EncodeConstructorParamsStruct E inp =
     encode_struct E ''ConstructorParams'' ''constructorParams''
       [(''initialDelay'', ''uint48''), (''defaultAdmin'', ''address''), (''pauser'', ''address''),
       (''unpauser'', ''address''), (''configOperator'', ''address''), (''keystoneForwarder'', ''address''),
       (''vault'', ''address'')] inp"

definition router_WriteReportFromConstructorParams :: "env \<Rightarrow> vault_binding \<Rightarrow> gval \<Rightarrow> uint64 option \<Rightarrow> write_reply option prog" where
  "router_WriteReportFromConstructorParams E v inp gasConfig =
     write_report_from E v (router_EncodeConstructorParamsStruct E inp) gasConfig"

definition router_WriteReport :: "env \<Rightarrow> vault_binding \<Rightarrow> report_handle option \<Rightarrow> uint64 option \<Rightarrow> write_reply option prog" where
  "router_WriteReport E v report gasConfig = write_report E v report gasConfig"

section \<open>The test double\<close>

definition router_mock_DEFAULT_ADMIN_ROLE :: "abi \<Rightarrow> mock \<Rightarrow> byte list \<Rightarrow> byte list outcome" where
  "router_mock_DEFAULT_ADMIN_ROLE c k =
     mock_call c k ''DEFAULT_ADMIN_ROLE'' ''DEFAULTADMINROLE'' [] PackResult"

definition router_mock_defaultAdmin :: "abi \<Rightarrow> mock \<Rightarrow> byte list \<Rightarrow> byte list outcome" where
  "router_mock_defaultAdmin c k =
     mock_call c k ''defaultAdmin'' ''DefaultAdmin'' [] PackResult"

definition router_mock_defaultAdminDelay :: "abi \<Rightarrow> mock \<Rightarrow> byte list \<Rightarrow> byte list outcome" where
  "router_mock_defaultAdminDelay c k =
     mock_call c k ''defaultAdminDelay'' ''DefaultAdminDelay'' [] PackResult"

definition router_mock_defaultAdminDelayIncreaseWait :: "abi \<Rightarrow> mock \<Rightarrow> byte list \<Rightarrow> byte list outcome" where
  "router_mock_defaultAdminDelayIncreaseWait c k =
     mock_call c k ''defaultAdminDelayIncreaseWait'' ''DefaultAdminDelayIncreaseWait'' [] PackResult"

definition router_mock_getAllowlistedWorkflowSelector :: "abi \<Rightarrow> mock \<Rightarrow> byte list \<Rightarrow> byte list outcome" where
  "router_mock_getAllowlistedWorkflowSelector c k =
     mock_call c k ''getAllowlistedWorkflowSelector'' ''GetAllowlistedWorkflowSelector'' router_GetAllowlistedWorkflowSelectorInput PackResult"

definition router_mock_getRoleAdmin :: "abi \<Rightarrow> mock \<Rightarrow> byte list \<Rightarrow> byte list outcome" where
  "router_mock_getRoleAdmin c k =
     mock_call c k ''getRoleAdmin'' ''GetRoleAdmin'' router_GetRoleAdminInput PackResult"

definition router_mock_getThisChainSelector :: "abi \<Rightarrow> mock \<Rightarrow> byte list \<Rightarrow> byte list outcome" where
  "router_mock_getThisChainSelector c k =
     mock_call c k ''getThisChainSelector'' ''GetThisChainSelector'' [] PackResult"

definition router_mock_getVault :: "abi \<Rightarrow> mock \<Rightarrow> byte list \<Rightarrow> byte list outcome" where
  "router_mock_getVault c k =
     mock_call c k ''getVault'' ''GetVault'' [] PackResult"

definition router_mock_getWorkflowGeneration :: "abi \<Rightarrow> mock \<Rightarrow> byte list \<Rightarrow> byte list outcome" where
  "router_mock_getWorkflowGeneration c k =
     mock_call c k ''getWorkflowGeneration'' ''GetWorkflowGeneration'' router_GetWorkflowGenerationInput PackResult"

definition router_mock_getWorkflowMetadata :: "abi \<Rightarrow> mock \<Rightarrow> byte list \<Rightarrow> byte list outcome" where
  "router_mock_getWorkflowMetadata c k =
     mock_call c k ''getWorkflowMetadata'' ''GetWorkflowMetadata'' router_GetWorkflowMetadataInput PackResult"

definition router_mock_hasRole :: "abi \<Rightarrow> mock \<Rightarrow> byte list \<Rightarrow> byte list outcome" where
  "router_mock_hasRole c k =
     mock_call c k ''hasRole'' ''HasRole'' router_HasRoleInput PackResult"

definition router_mock_owner :: "abi \<Rightarrow> mock \<Rightarrow> byte list \<Rightarrow> byte list outcome" where
  "router_mock_owner c k =
     mock_call c k ''owner'' ''Owner'' [] PackResult"

definition router_mock_paused :: "abi \<Rightarrow> mock \<Rightarrow> byte list \<Rightarrow> byte list outcome" where
  "router_mock_paused c k =
     mock_call c k ''paused'' ''Paused'' [] PackResult"

definition router_mock_pendingDefaultAdmin :: "abi \<Rightarrow> mock \<Rightarrow> byte list \<Rightarrow> byte list outcome" where
  "router_mock_pendingDefaultAdmin c k =
     mock_call c k ''pendingDefaultAdmin'' ''PendingDefaultAdmin'' [] (PackFields [''NewAdmin'', ''Schedule''])"

definition router_mock_pendingDefaultAdminDelay :: "abi \<Rightarrow> mock \<Rightarrow> byte list \<Rightarrow> byte list outcome" where
  "router_mock_pendingDefaultAdminDelay c k =
     mock_call c k ''pendingDefaultAdminDelay'' ''PendingDefaultAdminDelay'' [] (PackFields [''NewDelay'',
       ''Schedule''])"

definition router_mock_supportsInterface :: "abi \<Rightarrow> mock \<Rightarrow> byte list \<Rightarrow> byte list outcome" where
  "router_mock_supportsInterface c k =
     mock_call c k ''supportsInterface'' ''SupportsInterface'' router_SupportsInterfaceInput PackResult"

definition router_funcMap :: "mock \<Rightarrow> abi \<Rightarrow> func_map" where
  "router_funcMap k c =
     [(take 4 (abi_MethodID c ''DEFAULT_ADMIN_ROLE''), router_mock_DEFAULT_ADMIN_ROLE c k),
      (take 4 (abi_MethodID c ''defaultAdmin''), router_mock_defaultAdmin c k),
      (take 4 (abi_MethodID c ''defaultAdminDelay''), router_mock_defaultAdminDelay c k),
      (take 4 (abi_MethodID c ''defaultAdminDelayIncreaseWait''), router_mock_defaultAdminDelayIncreaseWait c k),
      (take 4 (abi_MethodID c ''getAllowlistedWorkflowSelector''), router_mock_getAllowlistedWorkflowSelector c k),
      (take 4 (abi_MethodID c ''getRoleAdmin''), router_mock_getRoleAdmin c k),
      (take 4 (abi_MethodID c ''getThisChainSelector''), router_mock_getThisChainSelector c k),
      (take 4 (abi_MethodID c ''getVault''), router_mock_getVault c k),
      (take 4 (abi_MethodID c ''getWorkflowGeneration''), router_mock_getWorkflowGeneration c k),
      (take 4 (abi_MethodID c ''getWorkflowMetadata''), router_mock_getWorkflowMetadata c k),
      (take 4 (abi_MethodID c ''hasRole''), router_mock_hasRole c k),
      (take 4 (abi_MethodID c ''owner''), router_mock_owner c k),
      (take 4 (abi_MethodID c ''paused''), router_mock_paused c k),
      (take 4 (abi_MethodID c ''pendingDefaultAdmin''), router_mock_pendingDefaultAdmin c k),
      (take 4 (abi_MethodID c ''pendingDefaultAdminDelay''), router_mock_pendingDefaultAdminDelay c k),
      (take 4 (abi_MethodID c ''supportsInterface''), router_mock_supportsInterface c k)]"

definition NewWorkflowRouterMock :: "env \<Rightarrow> mock \<Rightarrow> func_map outcome" where
  "NewWorkflowRouterMock E k = new_mock (router_NewCodec E) (router_funcMap k)"

section \<open>The package against its interface\<close>

text \<open>The tables: what each encoder packs, and the shape of each read and of each mock function.\<close>

definition router_call_table :: "call_spec list" where
  "router_call_table =
     [(''DEFAULT_ADMIN_ROLE'', []),
      (''acceptDefaultAdminTransfer'', []),
      (''beginDefaultAdminTransfer'', router_BeginDefaultAdminTransferInput),
      (''cancelDefaultAdminTransfer'', []),
      (''changeDefaultAdminDelay'', router_ChangeDefaultAdminDelayInput),
      (''defaultAdmin'', []),
      (''defaultAdminDelay'', []),
      (''defaultAdminDelayIncreaseWait'', []),
      (''getAllowlistedWorkflowSelector'', router_GetAllowlistedWorkflowSelectorInput),
      (''getRoleAdmin'', router_GetRoleAdminInput),
      (''getThisChainSelector'', []),
      (''getVault'', []),
      (''getWorkflowGeneration'', router_GetWorkflowGenerationInput),
      (''getWorkflowMetadata'', router_GetWorkflowMetadataInput),
      (''grantRole'', router_GrantRoleInput),
      (''hasRole'', router_HasRoleInput),
      (''onReport'', router_OnReportInput),
      (''owner'', []),
      (''pause'', []),
      (''paused'', []),
      (''pendingDefaultAdmin'', []),
      (''pendingDefaultAdminDelay'', []),
      (''renounceRole'', router_RenounceRoleInput),
      (''revokeRole'', router_RevokeRoleInput),
      (''rollbackDefaultAdminDelay'', []),
      (''setWorkflowMetadata'', router_SetWorkflowMetadataInput),
      (''setWorkflowSelectors'', router_SetWorkflowSelectorsInput),
      (''supportsInterface'', router_SupportsInterfaceInput),
      (''unpause'', [])]"

definition router_calls :: "call_encoder list" where
  "router_calls =
     [\<lambda>c _. router_EncodeDEFAULTADMINROLEMethodCall c,
      \<lambda>c _. router_EncodeAcceptDefaultAdminTransferMethodCall c,
      router_EncodeBeginDefaultAdminTransferMethodCall,
      \<lambda>c _. router_EncodeCancelDefaultAdminTransferMethodCall c,
      router_EncodeChangeDefaultAdminDelayMethodCall,
      \<lambda>c _. router_EncodeDefaultAdminMethodCall c,
      \<lambda>c _. router_EncodeDefaultAdminDelayMethodCall c,
      \<lambda>c _. router_EncodeDefaultAdminDelayIncreaseWaitMethodCall c,
      router_EncodeGetAllowlistedWorkflowSelectorMethodCall,
      router_EncodeGetRoleAdminMethodCall,
      \<lambda>c _. router_EncodeGetThisChainSelectorMethodCall c,
      \<lambda>c _. router_EncodeGetVaultMethodCall c,
      router_EncodeGetWorkflowGenerationMethodCall,
      router_EncodeGetWorkflowMetadataMethodCall,
      router_EncodeGrantRoleMethodCall,
      router_EncodeHasRoleMethodCall,
      router_EncodeOnReportMethodCall,
      \<lambda>c _. router_EncodeOwnerMethodCall c,
      \<lambda>c _. router_EncodePauseMethodCall c,
      \<lambda>c _. router_EncodePausedMethodCall c,
      \<lambda>c _. router_EncodePendingDefaultAdminMethodCall c,
      \<lambda>c _. router_EncodePendingDefaultAdminDelayMethodCall c,
      router_EncodeRenounceRoleMethodCall,
      router_EncodeRevokeRoleMethodCall,
      \<lambda>c _. router_EncodeRollbackDefaultAdminDelayMethodCall c,
      router_EncodeSetWorkflowMetadataMethodCall,
      router_EncodeSetWorkflowSelectorsMethodCall,
      router_EncodeSupportsInterfaceMethodCall,
      \<lambda>c _. router_EncodeUnpauseMethodCall c]"

definition router_read_table :: "read_spec list" where
  "router_read_table =
     [\<lparr>rs_Go = ''DEFAULTADMINROLE'', rs_Name = ''DEFAULT_ADMIN_ROLE'', rs_Inputs = [],
        rs_Outputs = OneOutput (TFix 32) ''[32]byte''\<rparr>,
      \<lparr>rs_Go = ''DefaultAdmin'', rs_Name = ''defaultAdmin'', rs_Inputs = [],
        rs_Outputs = OneOutput TAddr ''common.Address''\<rparr>,
      \<lparr>rs_Go = ''DefaultAdminDelay'', rs_Name = ''defaultAdminDelay'', rs_Inputs = [],
        rs_Outputs = OneOutput TBig ''*big.Int''\<rparr>,
      \<lparr>rs_Go = ''DefaultAdminDelayIncreaseWait'', rs_Name = ''defaultAdminDelayIncreaseWait'', rs_Inputs = [],
        rs_Outputs = OneOutput TBig ''*big.Int''\<rparr>,
      \<lparr>rs_Go = ''GetAllowlistedWorkflowSelector'', rs_Name = ''getAllowlistedWorkflowSelector'',
        rs_Inputs = router_GetAllowlistedWorkflowSelectorInput, rs_Outputs = OneOutput TBool ''bool''\<rparr>,
      \<lparr>rs_Go = ''GetRoleAdmin'', rs_Name = ''getRoleAdmin'', rs_Inputs = router_GetRoleAdminInput,
        rs_Outputs = OneOutput (TFix 32) ''[32]byte''\<rparr>,
      \<lparr>rs_Go = ''GetThisChainSelector'', rs_Name = ''getThisChainSelector'', rs_Inputs = [],
        rs_Outputs = OneOutput TU64 ''uint64''\<rparr>,
      \<lparr>rs_Go = ''GetVault'', rs_Name = ''getVault'', rs_Inputs = [],
        rs_Outputs = OneOutput TAddr ''common.Address''\<rparr>,
      \<lparr>rs_Go = ''GetWorkflowGeneration'', rs_Name = ''getWorkflowGeneration'',
        rs_Inputs = router_GetWorkflowGenerationInput, rs_Outputs = OneOutput TBig ''*big.Int''\<rparr>,
      \<lparr>rs_Go = ''GetWorkflowMetadata'', rs_Name = ''getWorkflowMetadata'',
        rs_Inputs = router_GetWorkflowMetadataInput,
        rs_Outputs = OneOutput (TStruct router_IWorkflowRouterWorkflowMetadata) ''IWorkflowRouterWorkflowMetadata''\<rparr>,
      \<lparr>rs_Go = ''HasRole'', rs_Name = ''hasRole'', rs_Inputs = router_HasRoleInput,
        rs_Outputs = OneOutput TBool ''bool''\<rparr>,
      \<lparr>rs_Go = ''Owner'', rs_Name = ''owner'', rs_Inputs = [],
        rs_Outputs = OneOutput TAddr ''common.Address''\<rparr>,
      \<lparr>rs_Go = ''Paused'', rs_Name = ''paused'', rs_Inputs = [], rs_Outputs = OneOutput TBool ''bool''\<rparr>,
      \<lparr>rs_Go = ''PendingDefaultAdmin'', rs_Name = ''pendingDefaultAdmin'', rs_Inputs = [],
        rs_Outputs = StructOutput [(''NewAdmin'', TAddr, ''common.Address''),
        (''Schedule'', TBig, ''*big.Int'')]\<rparr>,
      \<lparr>rs_Go = ''PendingDefaultAdminDelay'', rs_Name = ''pendingDefaultAdminDelay'', rs_Inputs = [],
        rs_Outputs = StructOutput [(''NewDelay'', TBig, ''*big.Int''), (''Schedule'', TBig, ''*big.Int'')]\<rparr>,
      \<lparr>rs_Go = ''SupportsInterface'', rs_Name = ''supportsInterface'', rs_Inputs = router_SupportsInterfaceInput,
        rs_Outputs = OneOutput TBool ''bool''\<rparr>]"

definition router_reads :: "contract_read list" where
  "router_reads =
     [\<lambda>E v _. router_DEFAULTADMINROLE E v,
      \<lambda>E v _. router_DefaultAdmin E v,
      \<lambda>E v _. router_DefaultAdminDelay E v,
      \<lambda>E v _. router_DefaultAdminDelayIncreaseWait E v,
      router_GetAllowlistedWorkflowSelector,
      router_GetRoleAdmin,
      \<lambda>E v _. router_GetThisChainSelector E v,
      \<lambda>E v _. router_GetVault E v,
      router_GetWorkflowGeneration,
      router_GetWorkflowMetadata,
      router_HasRole,
      \<lambda>E v _. router_Owner E v,
      \<lambda>E v _. router_Paused E v,
      \<lambda>E v _. router_PendingDefaultAdmin E v,
      \<lambda>E v _. router_PendingDefaultAdminDelay E v,
      router_SupportsInterface]"

definition router_mock_table :: "read_spec list" where
  "router_mock_table = router_read_table"

definition router_struct_reports :: "((env \<Rightarrow> gval \<Rightarrow> byte list outcome) \<times> (env \<Rightarrow> vault_binding \<Rightarrow> gval \<Rightarrow> uint64 option \<Rightarrow> write_reply option prog)) list" where
  "router_struct_reports =
     [(router_EncodeIWorkflowRouterWorkflowMetadataStruct, router_WriteReportFromIWorkflowRouterWorkflowMetadata),
      (router_EncodeConstructorParamsStruct, router_WriteReportFromConstructorParams)]"

lemmas router_struct_defs =
  router_BeginDefaultAdminTransferInput_def
  router_ChangeDefaultAdminDelayInput_def
  router_GetAllowlistedWorkflowSelectorInput_def
  router_GetRoleAdminInput_def
  router_GetWorkflowGenerationInput_def
  router_GetWorkflowMetadataInput_def
  router_GrantRoleInput_def
  router_HasRoleInput_def
  router_OnReportInput_def
  router_RenounceRoleInput_def
  router_RevokeRoleInput_def
  router_SetWorkflowMetadataInput_def
  router_SetWorkflowSelectorsInput_def
  router_SupportsInterfaceInput_def
  router_IWorkflowRouterWorkflowMetadata_def
  router_ConstructorParams_def

lemmas router_encoder_defs =
  router_EncodeDEFAULTADMINROLEMethodCall_def
  router_EncodeAcceptDefaultAdminTransferMethodCall_def
  router_EncodeBeginDefaultAdminTransferMethodCall_def
  router_EncodeCancelDefaultAdminTransferMethodCall_def
  router_EncodeChangeDefaultAdminDelayMethodCall_def
  router_EncodeDefaultAdminMethodCall_def
  router_EncodeDefaultAdminDelayMethodCall_def
  router_EncodeDefaultAdminDelayIncreaseWaitMethodCall_def
  router_EncodeGetAllowlistedWorkflowSelectorMethodCall_def
  router_EncodeGetRoleAdminMethodCall_def
  router_EncodeGetThisChainSelectorMethodCall_def
  router_EncodeGetVaultMethodCall_def
  router_EncodeGetWorkflowGenerationMethodCall_def
  router_EncodeGetWorkflowMetadataMethodCall_def
  router_EncodeGrantRoleMethodCall_def
  router_EncodeHasRoleMethodCall_def
  router_EncodeOnReportMethodCall_def
  router_EncodeOwnerMethodCall_def
  router_EncodePauseMethodCall_def
  router_EncodePausedMethodCall_def
  router_EncodePendingDefaultAdminMethodCall_def
  router_EncodePendingDefaultAdminDelayMethodCall_def
  router_EncodeRenounceRoleMethodCall_def
  router_EncodeRevokeRoleMethodCall_def
  router_EncodeRollbackDefaultAdminDelayMethodCall_def
  router_EncodeSetWorkflowMetadataMethodCall_def
  router_EncodeSetWorkflowSelectorsMethodCall_def
  router_EncodeSupportsInterfaceMethodCall_def
  router_EncodeUnpauseMethodCall_def

lemmas router_read_defs =
  router_DEFAULTADMINROLE_def
  router_DefaultAdmin_def
  router_DefaultAdminDelay_def
  router_DefaultAdminDelayIncreaseWait_def
  router_GetAllowlistedWorkflowSelector_def
  router_GetRoleAdmin_def
  router_GetThisChainSelector_def
  router_GetVault_def
  router_GetWorkflowGeneration_def
  router_GetWorkflowMetadata_def
  router_HasRole_def
  router_Owner_def
  router_Paused_def
  router_PendingDefaultAdmin_def
  router_PendingDefaultAdminDelay_def
  router_SupportsInterface_def
  router_DecodeDEFAULTADMINROLEMethodOutput_def
  router_DecodeDefaultAdminMethodOutput_def
  router_DecodeDefaultAdminDelayMethodOutput_def
  router_DecodeDefaultAdminDelayIncreaseWaitMethodOutput_def
  router_DecodeGetAllowlistedWorkflowSelectorMethodOutput_def
  router_DecodeGetRoleAdminMethodOutput_def
  router_DecodeGetThisChainSelectorMethodOutput_def
  router_DecodeGetVaultMethodOutput_def
  router_DecodeGetWorkflowGenerationMethodOutput_def
  router_DecodeGetWorkflowMetadataMethodOutput_def
  router_DecodeHasRoleMethodOutput_def
  router_DecodeOwnerMethodOutput_def
  router_DecodePausedMethodOutput_def
  router_DecodePendingDefaultAdminMethodOutput_def
  router_DecodePendingDefaultAdminDelayMethodOutput_def
  router_DecodeSupportsInterfaceMethodOutput_def

lemmas router_mock_defs =
  router_mock_DEFAULT_ADMIN_ROLE_def
  router_mock_defaultAdmin_def
  router_mock_defaultAdminDelay_def
  router_mock_defaultAdminDelayIncreaseWait_def
  router_mock_getAllowlistedWorkflowSelector_def
  router_mock_getRoleAdmin_def
  router_mock_getThisChainSelector_def
  router_mock_getVault_def
  router_mock_getWorkflowGeneration_def
  router_mock_getWorkflowMetadata_def
  router_mock_hasRole_def
  router_mock_owner_def
  router_mock_paused_def
  router_mock_pendingDefaultAdmin_def
  router_mock_pendingDefaultAdminDelay_def
  router_mock_supportsInterface_def

lemmas router_report_defs =
  router_WriteReportFromIWorkflowRouterWorkflowMetadata_def
  router_WriteReportFromConstructorParams_def

lemma router_calls_eq: "router_calls = map table_call router_call_table"
  by (simp add: router_calls_def router_call_table_def table_call_def router_encoder_defs router_struct_defs fun_eq_iff)

lemma router_call_fields: "list_all (\<lambda>s. distinct (map fst (snd s))) router_call_table"
  by (simp add: router_call_table_def router_struct_defs)

lemma router_calls_ok: "list_all2 call_ok router_call_table router_calls"
  unfolding router_calls_eq by (rule table_calls_ok [OF router_call_fields])

lemma router_reads_eq: "router_reads = map table_read router_read_table"
  by (simp add: router_reads_def router_read_table_def table_read_def table_call_def router_read_defs router_encoder_defs router_struct_defs fun_eq_iff)

lemma router_funcMap_eq: "router_funcMap k c = map (table_mock c k) router_mock_table"
  by (simp add: router_funcMap_def router_mock_table_def router_read_table_def table_mock_def router_mock_defs)

lemma router_names: "distinct (map am_Name router_methods)"
  by (rule names_distinct) code_simp

lemma router_calls_conform: "list_all (inputs_conform router_methods) router_call_table"
proof (rule inputs_conformI)
  show "aligned inputs_fit fst router_methods router_call_table" by code_simp
qed (rule router_names)

lemma router_reads_conform: "list_all (read_conforms router_methods) router_read_table"
proof (rule read_conformsI)
  show "aligned read_fits rs_Name router_methods router_read_table" by code_simp
qed (rule router_names)

interpretation router_contract: contract_binding router_methods NewWorkflowRouter router_call_table router_calls
  router_read_table router_reads router_mock_table router_funcMap
proof unfold_locales
  show "set router_read_table \<subseteq> set router_mock_table"
    by (simp add: router_mock_table_def)
qed (use router_calls_ok router_calls_conform router_reads_conform in \<open>auto simp: NewWorkflowRouter_def router_NewCodec_def bindO_Ok_iff router_reads_eq router_funcMap_eq\<close>)

lemma router_struct_reports_ok: "list_all (\<lambda>(enc, write). \<forall>E v inp gas. write E v inp gas = write_report_from E v (enc E inp) gas) router_struct_reports"
  by (simp add: router_struct_reports_def router_report_defs)

end
