(* ===== verification/Parent_Logs.thy ===== *)
theory Parent_Logs
  imports Binding_Contracts
begin

text \<open>
  The logs of the generated ParentVault package (\<open>cre/contracts/evm/generated/parent_vault/ParentVault.go\<close>): the events of its
  ABI literal, and for each event the topics of a filter, the log trigger with its decoding of a delivered log, and the log
  query. The interpretation at the end checks the topics against the literal.
\<close>

section \<open>The events of the ABI literal\<close>

definition parent_events :: "event_literal list" where
  "parent_events =
     [(''ActiveProtocolAdapterCleared'', [(''adapter'', True, SAddress)]),
      (''ActiveProtocolAdapterSet'', [(''protocolId'', True, SFixed 32), (''adapter'', True, SAddress)]),
      (''AllowlistEnabledSet'', [(''enabled'', True, SBool)]),
      (''AllowlistedUserSet'', [(''user'', True, SAddress), (''allowed'', True, SBool)]),
      (''CCIPBridged'', [(''ccipMessageId'', True, SFixed 32), (''destinationChainSelector'', True, SUint 64),
        (''ccipTxType'', True, SUint 8)]),
      (''CCIPReceived'', [(''ccipMessageId'', True, SFixed 32), (''sourceChainSelector'', True, SUint 64),
        (''ccipTxType'', True, SUint 8)]),
      (''CcipGasLimitSet'', [(''chainSelector'', True, SUint 64), (''gasLimit'', True, SUint 256)]),
      (''CrosschainVaultSet'', [(''chainSelector'', True, SUint 64), (''vault'', True, SAddress)]),
      (''DefaultAdminDelayChangeCanceled'', []),
      (''DefaultAdminDelayChangeScheduled'', [(''newDelay'', False, SUint 48), (''effectSchedule'', False, SUint 48)]),
      (''DefaultAdminTransferCanceled'', []),
      (''DefaultAdminTransferScheduled'', [(''newAdmin'', True, SAddress), (''acceptSchedule'', False, SUint 48)]),
      (''DefaultCcipGasLimitSet'', [(''gasLimit'', True, SUint 256)]),
      (''DepositCancelled'', [(''epochNonce'', True, SUint 256), (''depositor'', True, SAddress),
        (''amount'', True, SUint 256)]),
      (''DepositClaimed'', [(''epochNonce'', True, SUint 256), (''depositor'', True, SAddress),
        (''shareMintAmount'', True, SUint 256)]),
      (''DepositForceCancelled'', [(''epochNonce'', True, SUint 256), (''depositor'', True, SAddress),
        (''amount'', True, SUint 256)]),
      (''DepositSubmitted'', [(''epochNonce'', True, SUint 256), (''depositor'', True, SAddress),
        (''amount'', True, SUint 256)]),
      (''EpochClaimable'', [(''epochNonce'', True, SUint 256)]),
      (''EpochDepositExecuting'', [(''epochNonce'', True, SUint 256), (''amount'', True, SUint 256)]),
      (''EpochDepositReconciled'', [(''epochNonce'', True, SUint 256), (''actualDepositAmount'', True, SUint 256),
        (''shareReduction'', True, SUint 256)]),
      (''EpochDepositToStrategySuccess'', [(''epochNonce'', True, SUint 256), (''amount'', True, SUint 256)]),
      (''EpochOpen'', [(''epochNonce'', True, SUint 256)]),
      (''EpochWithdrawAmountShort'', [(''epochNonce'', True, SUint 256), (''expectedAmount'', True, SUint 256),
        (''actualAmount'', True, SUint 256)]),
      (''EpochWithdrawExecuting'', [(''epochNonce'', True, SUint 256), (''amount'', True, SUint 256)]),
      (''EpochWithdrawFromStrategySuccess'', [(''epochNonce'', True, SUint 256), (''amount'', True, SUint 256)]),
      (''InitialActiveProtocolAdapterSet'', [(''protocolId'', True, SFixed 32), (''adapter'', True, SAddress)]),
      (''Initialized'', [(''version'', False, SUint 64)]),
      (''LinkWithdrawn'', [(''operator'', True, SAddress), (''amount'', True, SUint 256)]),
      (''ManagementFeeCollected'', [(''rebalanceNonce'', True, SUint 256), (''feeShares'', True, SUint 256)]),
      (''Paused'', [(''account'', False, SAddress)]),
      (''RebalanceCompleted'', [(''rebalanceNonce'', True, SUint 256), (''newProtocolId'', True, SFixed 32),
        (''newChainSelector'', True, SUint 64)]),
      (''RebalanceDepositFailure'', [(''rebalanceNonce'', True, SUint 256), (''amount'', True, SUint 256)]),
      (''RebalanceDepositRecoveryCleared'', [(''rebalanceNonce'', True, SUint 256)]),
      (''RebalanceDepositRecoveryStored'', [(''rebalanceNonce'', True, SUint 256), (''amount'', True, SUint 256)]),
      (''RebalanceDepositSuccess'', [(''rebalanceNonce'', True, SUint 256), (''amount'', True, SUint 256)]),
      (''RebalanceInitiated'', [(''rebalanceNonce'', True, SUint 256), (''protocolId'', True, SFixed 32),
        (''chainSelector'', True, SUint 64)]),
      (''RebalanceWithdrawSuccess'', [(''rebalanceNonce'', True, SUint 256), (''amount'', True, SUint 256)]),
      (''RoleAdminChanged'', [(''role'', True, SFixed 32), (''previousAdminRole'', True, SFixed 32),
        (''newAdminRole'', True, SFixed 32)]),
      (''RoleGranted'', [(''role'', True, SFixed 32), (''account'', True, SAddress), (''sender'', True, SAddress)]),
      (''RoleRevoked'', [(''role'', True, SFixed 32), (''account'', True, SAddress), (''sender'', True, SAddress)]),
      (''SupportedProtocolSet'', [(''protocolId'', True, SFixed 32), (''isSupported'', True, SBool)]),
      (''TreasurySet'', [(''treasury'', True, SAddress)]),
      (''Unpaused'', [(''account'', False, SAddress)]),
      (''Upgraded'', [(''implementation'', True, SAddress)]),
      (''WithdrawCancelled'', [(''epochNonce'', True, SUint 256), (''withdrawer'', True, SAddress),
        (''shareBurnAmount'', True, SUint 256)]),
      (''WithdrawClaimed'', [(''epochNonce'', True, SUint 256), (''withdrawer'', True, SAddress),
        (''amount'', True, SUint 256)]),
      (''WithdrawSubmitted'', [(''epochNonce'', True, SUint 256), (''withdrawer'', True, SAddress),
        (''shareBurnAmount'', True, SUint 256)])]"

section \<open>Topics, triggers and queries\<close>

definition EncodeActiveProtocolAdapterClearedTopics :: "env \<Rightarrow> abi_event \<Rightarrow> gstruct list \<Rightarrow> byte list list list outcome" where
  "EncodeActiveProtocolAdapterClearedTopics E evt values =
     encode_topics E evt [(0, ''Adapter'')] values"

definition AdaptActiveProtocolAdapterCleared :: "env \<Rightarrow> event_trigger \<Rightarrow> evm_log option \<Rightarrow> gstruct decoded_log outcome" where
  "AdaptActiveProtocolAdapterCleared E t = adapt_log ''ActiveProtocolAdapterCleared'' (DecodeActiveProtocolAdapterCleared E (vb_Codec (et_contract t)))"

definition LogTriggerActiveProtocolAdapterClearedLog :: "trigger_fun" where
  "LogTriggerActiveProtocolAdapterClearedLog E v chainSelector confidence filters =
     log_trigger v ''ActiveProtocolAdapterCleared'' ''ActiveProtocolAdapterCleared'' (EncodeActiveProtocolAdapterClearedTopics E) chainSelector confidence filters"

definition FilterLogsActiveProtocolAdapterCleared :: "query_fun" where
  "FilterLogsActiveProtocolAdapterCleared E v options = filter_logs E v (ActiveProtocolAdapterClearedLogHash (vb_Codec v)) options"

definition EncodeActiveProtocolAdapterSetTopics :: "env \<Rightarrow> abi_event \<Rightarrow> gstruct list \<Rightarrow> byte list list list outcome" where
  "EncodeActiveProtocolAdapterSetTopics E evt values =
     encode_topics E evt [(0, ''ProtocolId''), (1, ''Adapter'')] values"

definition AdaptActiveProtocolAdapterSet :: "env \<Rightarrow> event_trigger \<Rightarrow> evm_log option \<Rightarrow> gstruct decoded_log outcome" where
  "AdaptActiveProtocolAdapterSet E t = adapt_log ''ActiveProtocolAdapterSet'' (DecodeActiveProtocolAdapterSet E (vb_Codec (et_contract t)))"

definition LogTriggerActiveProtocolAdapterSetLog :: "trigger_fun" where
  "LogTriggerActiveProtocolAdapterSetLog E v chainSelector confidence filters =
     log_trigger v ''ActiveProtocolAdapterSet'' ''ActiveProtocolAdapterSet'' (EncodeActiveProtocolAdapterSetTopics E) chainSelector confidence filters"

definition FilterLogsActiveProtocolAdapterSet :: "query_fun" where
  "FilterLogsActiveProtocolAdapterSet E v options = filter_logs E v (ActiveProtocolAdapterSetLogHash (vb_Codec v)) options"

definition EncodeAllowlistEnabledSetTopics :: "env \<Rightarrow> abi_event \<Rightarrow> gstruct list \<Rightarrow> byte list list list outcome" where
  "EncodeAllowlistEnabledSetTopics E evt values =
     encode_topics E evt [(0, ''Enabled'')] values"

definition AdaptAllowlistEnabledSet :: "env \<Rightarrow> event_trigger \<Rightarrow> evm_log option \<Rightarrow> gstruct decoded_log outcome" where
  "AdaptAllowlistEnabledSet E t = adapt_log ''AllowlistEnabledSet'' (DecodeAllowlistEnabledSet E (vb_Codec (et_contract t)))"

definition LogTriggerAllowlistEnabledSetLog :: "trigger_fun" where
  "LogTriggerAllowlistEnabledSetLog E v chainSelector confidence filters =
     log_trigger v ''AllowlistEnabledSet'' ''AllowlistEnabledSet'' (EncodeAllowlistEnabledSetTopics E) chainSelector confidence filters"

definition FilterLogsAllowlistEnabledSet :: "query_fun" where
  "FilterLogsAllowlistEnabledSet E v options = filter_logs E v (AllowlistEnabledSetLogHash (vb_Codec v)) options"

definition EncodeAllowlistedUserSetTopics :: "env \<Rightarrow> abi_event \<Rightarrow> gstruct list \<Rightarrow> byte list list list outcome" where
  "EncodeAllowlistedUserSetTopics E evt values =
     encode_topics E evt [(0, ''User''), (1, ''Allowed'')] values"

definition AdaptAllowlistedUserSet :: "env \<Rightarrow> event_trigger \<Rightarrow> evm_log option \<Rightarrow> gstruct decoded_log outcome" where
  "AdaptAllowlistedUserSet E t = adapt_log ''AllowlistedUserSet'' (DecodeAllowlistedUserSet E (vb_Codec (et_contract t)))"

definition LogTriggerAllowlistedUserSetLog :: "trigger_fun" where
  "LogTriggerAllowlistedUserSetLog E v chainSelector confidence filters =
     log_trigger v ''AllowlistedUserSet'' ''AllowlistedUserSet'' (EncodeAllowlistedUserSetTopics E) chainSelector confidence filters"

definition FilterLogsAllowlistedUserSet :: "query_fun" where
  "FilterLogsAllowlistedUserSet E v options = filter_logs E v (AllowlistedUserSetLogHash (vb_Codec v)) options"

definition EncodeCCIPBridgedTopics :: "env \<Rightarrow> abi_event \<Rightarrow> gstruct list \<Rightarrow> byte list list list outcome" where
  "EncodeCCIPBridgedTopics E evt values =
     encode_topics E evt [(0, ''CcipMessageId''), (1, ''DestinationChainSelector''), (2, ''CcipTxType'')] values"

definition AdaptCCIPBridged :: "env \<Rightarrow> event_trigger \<Rightarrow> evm_log option \<Rightarrow> gstruct decoded_log outcome" where
  "AdaptCCIPBridged E t = adapt_log ''CCIPBridged'' (DecodeCCIPBridged E (vb_Codec (et_contract t)))"

definition LogTriggerCCIPBridgedLog :: "trigger_fun" where
  "LogTriggerCCIPBridgedLog E v chainSelector confidence filters =
     log_trigger v ''CCIPBridged'' ''CCIPBridged'' (EncodeCCIPBridgedTopics E) chainSelector confidence filters"

definition FilterLogsCCIPBridged :: "query_fun" where
  "FilterLogsCCIPBridged E v options = filter_logs E v (CCIPBridgedLogHash (vb_Codec v)) options"

definition EncodeCCIPReceivedTopics :: "env \<Rightarrow> abi_event \<Rightarrow> gstruct list \<Rightarrow> byte list list list outcome" where
  "EncodeCCIPReceivedTopics E evt values =
     encode_topics E evt [(0, ''CcipMessageId''), (1, ''SourceChainSelector''), (2, ''CcipTxType'')] values"

definition AdaptCCIPReceived :: "env \<Rightarrow> event_trigger \<Rightarrow> evm_log option \<Rightarrow> gstruct decoded_log outcome" where
  "AdaptCCIPReceived E t = adapt_log ''CCIPReceived'' (DecodeCCIPReceived E (vb_Codec (et_contract t)))"

definition LogTriggerCCIPReceivedLog :: "trigger_fun" where
  "LogTriggerCCIPReceivedLog E v chainSelector confidence filters =
     log_trigger v ''CCIPReceived'' ''CCIPReceived'' (EncodeCCIPReceivedTopics E) chainSelector confidence filters"

definition FilterLogsCCIPReceived :: "query_fun" where
  "FilterLogsCCIPReceived E v options = filter_logs E v (CCIPReceivedLogHash (vb_Codec v)) options"

definition EncodeCcipGasLimitSetTopics :: "env \<Rightarrow> abi_event \<Rightarrow> gstruct list \<Rightarrow> byte list list list outcome" where
  "EncodeCcipGasLimitSetTopics E evt values =
     encode_topics E evt [(0, ''ChainSelector''), (1, ''GasLimit'')] values"

definition AdaptCcipGasLimitSet :: "env \<Rightarrow> event_trigger \<Rightarrow> evm_log option \<Rightarrow> gstruct decoded_log outcome" where
  "AdaptCcipGasLimitSet E t = adapt_log ''CcipGasLimitSet'' (DecodeCcipGasLimitSet E (vb_Codec (et_contract t)))"

definition LogTriggerCcipGasLimitSetLog :: "trigger_fun" where
  "LogTriggerCcipGasLimitSetLog E v chainSelector confidence filters =
     log_trigger v ''CcipGasLimitSet'' ''CcipGasLimitSet'' (EncodeCcipGasLimitSetTopics E) chainSelector confidence filters"

definition FilterLogsCcipGasLimitSet :: "query_fun" where
  "FilterLogsCcipGasLimitSet E v options = filter_logs E v (CcipGasLimitSetLogHash (vb_Codec v)) options"

definition EncodeCrosschainVaultSetTopics :: "env \<Rightarrow> abi_event \<Rightarrow> gstruct list \<Rightarrow> byte list list list outcome" where
  "EncodeCrosschainVaultSetTopics E evt values =
     encode_topics E evt [(0, ''ChainSelector''), (1, ''Vault'')] values"

definition AdaptCrosschainVaultSet :: "env \<Rightarrow> event_trigger \<Rightarrow> evm_log option \<Rightarrow> gstruct decoded_log outcome" where
  "AdaptCrosschainVaultSet E t = adapt_log ''CrosschainVaultSet'' (DecodeCrosschainVaultSet E (vb_Codec (et_contract t)))"

definition LogTriggerCrosschainVaultSetLog :: "trigger_fun" where
  "LogTriggerCrosschainVaultSetLog E v chainSelector confidence filters =
     log_trigger v ''CrosschainVaultSet'' ''CrosschainVaultSet'' (EncodeCrosschainVaultSetTopics E) chainSelector confidence filters"

definition FilterLogsCrosschainVaultSet :: "query_fun" where
  "FilterLogsCrosschainVaultSet E v options = filter_logs E v (CrosschainVaultSetLogHash (vb_Codec v)) options"

definition EncodeDefaultAdminDelayChangeCanceledTopics :: "env \<Rightarrow> abi_event \<Rightarrow> gstruct list \<Rightarrow> byte list list list outcome" where
  "EncodeDefaultAdminDelayChangeCanceledTopics E evt values =
     encode_topics E evt [] values"

definition AdaptDefaultAdminDelayChangeCanceled :: "env \<Rightarrow> event_trigger \<Rightarrow> evm_log option \<Rightarrow> gstruct decoded_log outcome" where
  "AdaptDefaultAdminDelayChangeCanceled E t = adapt_log ''DefaultAdminDelayChangeCanceled'' (DecodeDefaultAdminDelayChangeCanceled E (vb_Codec (et_contract t)))"

definition LogTriggerDefaultAdminDelayChangeCanceledLog :: "trigger_fun" where
  "LogTriggerDefaultAdminDelayChangeCanceledLog E v chainSelector confidence filters =
     log_trigger v ''DefaultAdminDelayChangeCanceled'' ''DefaultAdminDelayChangeCanceled'' (EncodeDefaultAdminDelayChangeCanceledTopics E) chainSelector confidence filters"

definition FilterLogsDefaultAdminDelayChangeCanceled :: "query_fun" where
  "FilterLogsDefaultAdminDelayChangeCanceled E v options = filter_logs E v (DefaultAdminDelayChangeCanceledLogHash (vb_Codec v)) options"

definition EncodeDefaultAdminDelayChangeScheduledTopics :: "env \<Rightarrow> abi_event \<Rightarrow> gstruct list \<Rightarrow> byte list list list outcome" where
  "EncodeDefaultAdminDelayChangeScheduledTopics E evt values =
     encode_topics E evt [] values"

definition AdaptDefaultAdminDelayChangeScheduled :: "env \<Rightarrow> event_trigger \<Rightarrow> evm_log option \<Rightarrow> gstruct decoded_log outcome" where
  "AdaptDefaultAdminDelayChangeScheduled E t = adapt_log ''DefaultAdminDelayChangeScheduled'' (DecodeDefaultAdminDelayChangeScheduled E (vb_Codec (et_contract t)))"

definition LogTriggerDefaultAdminDelayChangeScheduledLog :: "trigger_fun" where
  "LogTriggerDefaultAdminDelayChangeScheduledLog E v chainSelector confidence filters =
     log_trigger v ''DefaultAdminDelayChangeScheduled'' ''DefaultAdminDelayChangeScheduled'' (EncodeDefaultAdminDelayChangeScheduledTopics E) chainSelector confidence filters"

definition FilterLogsDefaultAdminDelayChangeScheduled :: "query_fun" where
  "FilterLogsDefaultAdminDelayChangeScheduled E v options = filter_logs E v (DefaultAdminDelayChangeScheduledLogHash (vb_Codec v)) options"

definition EncodeDefaultAdminTransferCanceledTopics :: "env \<Rightarrow> abi_event \<Rightarrow> gstruct list \<Rightarrow> byte list list list outcome" where
  "EncodeDefaultAdminTransferCanceledTopics E evt values =
     encode_topics E evt [] values"

definition AdaptDefaultAdminTransferCanceled :: "env \<Rightarrow> event_trigger \<Rightarrow> evm_log option \<Rightarrow> gstruct decoded_log outcome" where
  "AdaptDefaultAdminTransferCanceled E t = adapt_log ''DefaultAdminTransferCanceled'' (DecodeDefaultAdminTransferCanceled E (vb_Codec (et_contract t)))"

definition LogTriggerDefaultAdminTransferCanceledLog :: "trigger_fun" where
  "LogTriggerDefaultAdminTransferCanceledLog E v chainSelector confidence filters =
     log_trigger v ''DefaultAdminTransferCanceled'' ''DefaultAdminTransferCanceled'' (EncodeDefaultAdminTransferCanceledTopics E) chainSelector confidence filters"

definition FilterLogsDefaultAdminTransferCanceled :: "query_fun" where
  "FilterLogsDefaultAdminTransferCanceled E v options = filter_logs E v (DefaultAdminTransferCanceledLogHash (vb_Codec v)) options"

definition EncodeDefaultAdminTransferScheduledTopics :: "env \<Rightarrow> abi_event \<Rightarrow> gstruct list \<Rightarrow> byte list list list outcome" where
  "EncodeDefaultAdminTransferScheduledTopics E evt values =
     encode_topics E evt [(0, ''NewAdmin'')] values"

definition AdaptDefaultAdminTransferScheduled :: "env \<Rightarrow> event_trigger \<Rightarrow> evm_log option \<Rightarrow> gstruct decoded_log outcome" where
  "AdaptDefaultAdminTransferScheduled E t = adapt_log ''DefaultAdminTransferScheduled'' (DecodeDefaultAdminTransferScheduled E (vb_Codec (et_contract t)))"

definition LogTriggerDefaultAdminTransferScheduledLog :: "trigger_fun" where
  "LogTriggerDefaultAdminTransferScheduledLog E v chainSelector confidence filters =
     log_trigger v ''DefaultAdminTransferScheduled'' ''DefaultAdminTransferScheduled'' (EncodeDefaultAdminTransferScheduledTopics E) chainSelector confidence filters"

definition FilterLogsDefaultAdminTransferScheduled :: "query_fun" where
  "FilterLogsDefaultAdminTransferScheduled E v options = filter_logs E v (DefaultAdminTransferScheduledLogHash (vb_Codec v)) options"

definition EncodeDefaultCcipGasLimitSetTopics :: "env \<Rightarrow> abi_event \<Rightarrow> gstruct list \<Rightarrow> byte list list list outcome" where
  "EncodeDefaultCcipGasLimitSetTopics E evt values =
     encode_topics E evt [(0, ''GasLimit'')] values"

definition AdaptDefaultCcipGasLimitSet :: "env \<Rightarrow> event_trigger \<Rightarrow> evm_log option \<Rightarrow> gstruct decoded_log outcome" where
  "AdaptDefaultCcipGasLimitSet E t = adapt_log ''DefaultCcipGasLimitSet'' (DecodeDefaultCcipGasLimitSet E (vb_Codec (et_contract t)))"

definition LogTriggerDefaultCcipGasLimitSetLog :: "trigger_fun" where
  "LogTriggerDefaultCcipGasLimitSetLog E v chainSelector confidence filters =
     log_trigger v ''DefaultCcipGasLimitSet'' ''DefaultCcipGasLimitSet'' (EncodeDefaultCcipGasLimitSetTopics E) chainSelector confidence filters"

definition FilterLogsDefaultCcipGasLimitSet :: "query_fun" where
  "FilterLogsDefaultCcipGasLimitSet E v options = filter_logs E v (DefaultCcipGasLimitSetLogHash (vb_Codec v)) options"

definition EncodeDepositCancelledTopics :: "env \<Rightarrow> abi_event \<Rightarrow> gstruct list \<Rightarrow> byte list list list outcome" where
  "EncodeDepositCancelledTopics E evt values =
     encode_topics E evt [(0, ''EpochNonce''), (1, ''Depositor''), (2, ''Amount'')] values"

definition AdaptDepositCancelled :: "env \<Rightarrow> event_trigger \<Rightarrow> evm_log option \<Rightarrow> gstruct decoded_log outcome" where
  "AdaptDepositCancelled E t = adapt_log ''DepositCancelled'' (DecodeDepositCancelled E (vb_Codec (et_contract t)))"

definition LogTriggerDepositCancelledLog :: "trigger_fun" where
  "LogTriggerDepositCancelledLog E v chainSelector confidence filters =
     log_trigger v ''DepositCancelled'' ''DepositCancelled'' (EncodeDepositCancelledTopics E) chainSelector confidence filters"

definition FilterLogsDepositCancelled :: "query_fun" where
  "FilterLogsDepositCancelled E v options = filter_logs E v (DepositCancelledLogHash (vb_Codec v)) options"

definition EncodeDepositClaimedTopics :: "env \<Rightarrow> abi_event \<Rightarrow> gstruct list \<Rightarrow> byte list list list outcome" where
  "EncodeDepositClaimedTopics E evt values =
     encode_topics E evt [(0, ''EpochNonce''), (1, ''Depositor''), (2, ''ShareMintAmount'')] values"

definition AdaptDepositClaimed :: "env \<Rightarrow> event_trigger \<Rightarrow> evm_log option \<Rightarrow> gstruct decoded_log outcome" where
  "AdaptDepositClaimed E t = adapt_log ''DepositClaimed'' (DecodeDepositClaimed E (vb_Codec (et_contract t)))"

definition LogTriggerDepositClaimedLog :: "trigger_fun" where
  "LogTriggerDepositClaimedLog E v chainSelector confidence filters =
     log_trigger v ''DepositClaimed'' ''DepositClaimed'' (EncodeDepositClaimedTopics E) chainSelector confidence filters"

definition FilterLogsDepositClaimed :: "query_fun" where
  "FilterLogsDepositClaimed E v options = filter_logs E v (DepositClaimedLogHash (vb_Codec v)) options"

definition EncodeDepositForceCancelledTopics :: "env \<Rightarrow> abi_event \<Rightarrow> gstruct list \<Rightarrow> byte list list list outcome" where
  "EncodeDepositForceCancelledTopics E evt values =
     encode_topics E evt [(0, ''EpochNonce''), (1, ''Depositor''), (2, ''Amount'')] values"

definition AdaptDepositForceCancelled :: "env \<Rightarrow> event_trigger \<Rightarrow> evm_log option \<Rightarrow> gstruct decoded_log outcome" where
  "AdaptDepositForceCancelled E t = adapt_log ''DepositForceCancelled'' (DecodeDepositForceCancelled E (vb_Codec (et_contract t)))"

definition LogTriggerDepositForceCancelledLog :: "trigger_fun" where
  "LogTriggerDepositForceCancelledLog E v chainSelector confidence filters =
     log_trigger v ''DepositForceCancelled'' ''DepositForceCancelled'' (EncodeDepositForceCancelledTopics E) chainSelector confidence filters"

definition FilterLogsDepositForceCancelled :: "query_fun" where
  "FilterLogsDepositForceCancelled E v options = filter_logs E v (DepositForceCancelledLogHash (vb_Codec v)) options"

definition EncodeDepositSubmittedTopics :: "env \<Rightarrow> abi_event \<Rightarrow> gstruct list \<Rightarrow> byte list list list outcome" where
  "EncodeDepositSubmittedTopics E evt values =
     encode_topics E evt [(0, ''EpochNonce''), (1, ''Depositor''), (2, ''Amount'')] values"

definition AdaptDepositSubmitted :: "env \<Rightarrow> event_trigger \<Rightarrow> evm_log option \<Rightarrow> gstruct decoded_log outcome" where
  "AdaptDepositSubmitted E t = adapt_log ''DepositSubmitted'' (DecodeDepositSubmitted E (vb_Codec (et_contract t)))"

definition LogTriggerDepositSubmittedLog :: "trigger_fun" where
  "LogTriggerDepositSubmittedLog E v chainSelector confidence filters =
     log_trigger v ''DepositSubmitted'' ''DepositSubmitted'' (EncodeDepositSubmittedTopics E) chainSelector confidence filters"

definition FilterLogsDepositSubmitted :: "query_fun" where
  "FilterLogsDepositSubmitted E v options = filter_logs E v (DepositSubmittedLogHash (vb_Codec v)) options"

definition EncodeEpochClaimableTopics :: "env \<Rightarrow> abi_event \<Rightarrow> gstruct list \<Rightarrow> byte list list list outcome" where
  "EncodeEpochClaimableTopics E evt values =
     encode_topics E evt [(0, ''EpochNonce'')] values"

definition AdaptEpochClaimable :: "env \<Rightarrow> event_trigger \<Rightarrow> evm_log option \<Rightarrow> gstruct decoded_log outcome" where
  "AdaptEpochClaimable E t = adapt_log ''EpochClaimable'' (DecodeEpochClaimable E (vb_Codec (et_contract t)))"

definition LogTriggerEpochClaimableLog :: "trigger_fun" where
  "LogTriggerEpochClaimableLog E v chainSelector confidence filters =
     log_trigger v ''EpochClaimable'' ''EpochClaimable'' (EncodeEpochClaimableTopics E) chainSelector confidence filters"

definition FilterLogsEpochClaimable :: "query_fun" where
  "FilterLogsEpochClaimable E v options = filter_logs E v (EpochClaimableLogHash (vb_Codec v)) options"

definition EncodeEpochDepositExecutingTopics :: "env \<Rightarrow> abi_event \<Rightarrow> gstruct list \<Rightarrow> byte list list list outcome" where
  "EncodeEpochDepositExecutingTopics E evt values =
     encode_topics E evt [(0, ''EpochNonce''), (1, ''Amount'')] values"

definition AdaptEpochDepositExecuting :: "env \<Rightarrow> event_trigger \<Rightarrow> evm_log option \<Rightarrow> gstruct decoded_log outcome" where
  "AdaptEpochDepositExecuting E t = adapt_log ''EpochDepositExecuting'' (DecodeEpochDepositExecuting E (vb_Codec (et_contract t)))"

definition LogTriggerEpochDepositExecutingLog :: "trigger_fun" where
  "LogTriggerEpochDepositExecutingLog E v chainSelector confidence filters =
     log_trigger v ''EpochDepositExecuting'' ''EpochDepositExecuting'' (EncodeEpochDepositExecutingTopics E) chainSelector confidence filters"

definition FilterLogsEpochDepositExecuting :: "query_fun" where
  "FilterLogsEpochDepositExecuting E v options = filter_logs E v (EpochDepositExecutingLogHash (vb_Codec v)) options"

definition EncodeEpochDepositReconciledTopics :: "env \<Rightarrow> abi_event \<Rightarrow> gstruct list \<Rightarrow> byte list list list outcome" where
  "EncodeEpochDepositReconciledTopics E evt values =
     encode_topics E evt [(0, ''EpochNonce''), (1, ''ActualDepositAmount''), (2, ''ShareReduction'')] values"

definition AdaptEpochDepositReconciled :: "env \<Rightarrow> event_trigger \<Rightarrow> evm_log option \<Rightarrow> gstruct decoded_log outcome" where
  "AdaptEpochDepositReconciled E t = adapt_log ''EpochDepositReconciled'' (DecodeEpochDepositReconciled E (vb_Codec (et_contract t)))"

definition LogTriggerEpochDepositReconciledLog :: "trigger_fun" where
  "LogTriggerEpochDepositReconciledLog E v chainSelector confidence filters =
     log_trigger v ''EpochDepositReconciled'' ''EpochDepositReconciled'' (EncodeEpochDepositReconciledTopics E) chainSelector confidence filters"

definition FilterLogsEpochDepositReconciled :: "query_fun" where
  "FilterLogsEpochDepositReconciled E v options = filter_logs E v (EpochDepositReconciledLogHash (vb_Codec v)) options"

definition EncodeEpochDepositToStrategySuccessTopics :: "env \<Rightarrow> abi_event \<Rightarrow> gstruct list \<Rightarrow> byte list list list outcome" where
  "EncodeEpochDepositToStrategySuccessTopics E evt values =
     encode_topics E evt [(0, ''EpochNonce''), (1, ''Amount'')] values"

definition AdaptEpochDepositToStrategySuccess :: "env \<Rightarrow> event_trigger \<Rightarrow> evm_log option \<Rightarrow> EpochDepositToStrategySuccessDecoded decoded_log outcome" where
  "AdaptEpochDepositToStrategySuccess E t = adapt_log ''EpochDepositToStrategySuccess'' (DecodeEpochDepositToStrategySuccess E (vb_Codec (et_contract t)))"

definition LogTriggerEpochDepositToStrategySuccessLog :: "trigger_fun" where
  "LogTriggerEpochDepositToStrategySuccessLog E v chainSelector confidence filters =
     log_trigger v ''EpochDepositToStrategySuccess'' ''EpochDepositToStrategySuccess'' (EncodeEpochDepositToStrategySuccessTopics E) chainSelector confidence filters"

definition FilterLogsEpochDepositToStrategySuccess :: "query_fun" where
  "FilterLogsEpochDepositToStrategySuccess E v options = filter_logs E v (EpochDepositToStrategySuccessLogHash (vb_Codec v)) options"

definition EncodeEpochOpenTopics :: "env \<Rightarrow> abi_event \<Rightarrow> gstruct list \<Rightarrow> byte list list list outcome" where
  "EncodeEpochOpenTopics E evt values =
     encode_topics E evt [(0, ''EpochNonce'')] values"

definition AdaptEpochOpen :: "env \<Rightarrow> event_trigger \<Rightarrow> evm_log option \<Rightarrow> gstruct decoded_log outcome" where
  "AdaptEpochOpen E t = adapt_log ''EpochOpen'' (DecodeEpochOpen E (vb_Codec (et_contract t)))"

definition LogTriggerEpochOpenLog :: "trigger_fun" where
  "LogTriggerEpochOpenLog E v chainSelector confidence filters =
     log_trigger v ''EpochOpen'' ''EpochOpen'' (EncodeEpochOpenTopics E) chainSelector confidence filters"

definition FilterLogsEpochOpen :: "query_fun" where
  "FilterLogsEpochOpen E v options = filter_logs E v (EpochOpenLogHash (vb_Codec v)) options"

definition EncodeEpochWithdrawAmountShortTopics :: "env \<Rightarrow> abi_event \<Rightarrow> gstruct list \<Rightarrow> byte list list list outcome" where
  "EncodeEpochWithdrawAmountShortTopics E evt values =
     encode_topics E evt [(0, ''EpochNonce''), (1, ''ExpectedAmount''), (2, ''ActualAmount'')] values"

definition AdaptEpochWithdrawAmountShort :: "env \<Rightarrow> event_trigger \<Rightarrow> evm_log option \<Rightarrow> gstruct decoded_log outcome" where
  "AdaptEpochWithdrawAmountShort E t = adapt_log ''EpochWithdrawAmountShort'' (DecodeEpochWithdrawAmountShort E (vb_Codec (et_contract t)))"

definition LogTriggerEpochWithdrawAmountShortLog :: "trigger_fun" where
  "LogTriggerEpochWithdrawAmountShortLog E v chainSelector confidence filters =
     log_trigger v ''EpochWithdrawAmountShort'' ''EpochWithdrawAmountShort'' (EncodeEpochWithdrawAmountShortTopics E) chainSelector confidence filters"

definition FilterLogsEpochWithdrawAmountShort :: "query_fun" where
  "FilterLogsEpochWithdrawAmountShort E v options = filter_logs E v (EpochWithdrawAmountShortLogHash (vb_Codec v)) options"

definition EncodeEpochWithdrawExecutingTopics :: "env \<Rightarrow> abi_event \<Rightarrow> gstruct list \<Rightarrow> byte list list list outcome" where
  "EncodeEpochWithdrawExecutingTopics E evt values =
     encode_topics E evt [(0, ''EpochNonce''), (1, ''Amount'')] values"

definition AdaptEpochWithdrawExecuting :: "env \<Rightarrow> event_trigger \<Rightarrow> evm_log option \<Rightarrow> EpochWithdrawExecutingDecoded decoded_log outcome" where
  "AdaptEpochWithdrawExecuting E t = adapt_log ''EpochWithdrawExecuting'' (DecodeEpochWithdrawExecuting E (vb_Codec (et_contract t)))"

definition LogTriggerEpochWithdrawExecutingLog :: "trigger_fun" where
  "LogTriggerEpochWithdrawExecutingLog E v chainSelector confidence filters =
     log_trigger v ''EpochWithdrawExecuting'' ''EpochWithdrawExecuting'' (EncodeEpochWithdrawExecutingTopics E) chainSelector confidence filters"

definition FilterLogsEpochWithdrawExecuting :: "query_fun" where
  "FilterLogsEpochWithdrawExecuting E v options = filter_logs E v (EpochWithdrawExecutingLogHash (vb_Codec v)) options"

definition EncodeEpochWithdrawFromStrategySuccessTopics :: "env \<Rightarrow> abi_event \<Rightarrow> gstruct list \<Rightarrow> byte list list list outcome" where
  "EncodeEpochWithdrawFromStrategySuccessTopics E evt values =
     encode_topics E evt [(0, ''EpochNonce''), (1, ''Amount'')] values"

definition AdaptEpochWithdrawFromStrategySuccess :: "env \<Rightarrow> event_trigger \<Rightarrow> evm_log option \<Rightarrow> gstruct decoded_log outcome" where
  "AdaptEpochWithdrawFromStrategySuccess E t = adapt_log ''EpochWithdrawFromStrategySuccess'' (DecodeEpochWithdrawFromStrategySuccess E (vb_Codec (et_contract t)))"

definition LogTriggerEpochWithdrawFromStrategySuccessLog :: "trigger_fun" where
  "LogTriggerEpochWithdrawFromStrategySuccessLog E v chainSelector confidence filters =
     log_trigger v ''EpochWithdrawFromStrategySuccess'' ''EpochWithdrawFromStrategySuccess'' (EncodeEpochWithdrawFromStrategySuccessTopics E) chainSelector confidence filters"

definition FilterLogsEpochWithdrawFromStrategySuccess :: "query_fun" where
  "FilterLogsEpochWithdrawFromStrategySuccess E v options = filter_logs E v (EpochWithdrawFromStrategySuccessLogHash (vb_Codec v)) options"

definition EncodeInitialActiveProtocolAdapterSetTopics :: "env \<Rightarrow> abi_event \<Rightarrow> gstruct list \<Rightarrow> byte list list list outcome" where
  "EncodeInitialActiveProtocolAdapterSetTopics E evt values =
     encode_topics E evt [(0, ''ProtocolId''), (1, ''Adapter'')] values"

definition AdaptInitialActiveProtocolAdapterSet :: "env \<Rightarrow> event_trigger \<Rightarrow> evm_log option \<Rightarrow> gstruct decoded_log outcome" where
  "AdaptInitialActiveProtocolAdapterSet E t = adapt_log ''InitialActiveProtocolAdapterSet'' (DecodeInitialActiveProtocolAdapterSet E (vb_Codec (et_contract t)))"

definition LogTriggerInitialActiveProtocolAdapterSetLog :: "trigger_fun" where
  "LogTriggerInitialActiveProtocolAdapterSetLog E v chainSelector confidence filters =
     log_trigger v ''InitialActiveProtocolAdapterSet'' ''InitialActiveProtocolAdapterSet'' (EncodeInitialActiveProtocolAdapterSetTopics E) chainSelector confidence filters"

definition FilterLogsInitialActiveProtocolAdapterSet :: "query_fun" where
  "FilterLogsInitialActiveProtocolAdapterSet E v options = filter_logs E v (InitialActiveProtocolAdapterSetLogHash (vb_Codec v)) options"

definition EncodeInitializedTopics :: "env \<Rightarrow> abi_event \<Rightarrow> gstruct list \<Rightarrow> byte list list list outcome" where
  "EncodeInitializedTopics E evt values =
     encode_topics E evt [] values"

definition AdaptInitialized :: "env \<Rightarrow> event_trigger \<Rightarrow> evm_log option \<Rightarrow> gstruct decoded_log outcome" where
  "AdaptInitialized E t = adapt_log ''Initialized'' (DecodeInitialized E (vb_Codec (et_contract t)))"

definition LogTriggerInitializedLog :: "trigger_fun" where
  "LogTriggerInitializedLog E v chainSelector confidence filters =
     log_trigger v ''Initialized'' ''Initialized'' (EncodeInitializedTopics E) chainSelector confidence filters"

definition FilterLogsInitialized :: "query_fun" where
  "FilterLogsInitialized E v options = filter_logs E v (InitializedLogHash (vb_Codec v)) options"

definition EncodeLinkWithdrawnTopics :: "env \<Rightarrow> abi_event \<Rightarrow> gstruct list \<Rightarrow> byte list list list outcome" where
  "EncodeLinkWithdrawnTopics E evt values =
     encode_topics E evt [(0, ''Operator''), (1, ''Amount'')] values"

definition AdaptLinkWithdrawn :: "env \<Rightarrow> event_trigger \<Rightarrow> evm_log option \<Rightarrow> gstruct decoded_log outcome" where
  "AdaptLinkWithdrawn E t = adapt_log ''LinkWithdrawn'' (DecodeLinkWithdrawn E (vb_Codec (et_contract t)))"

definition LogTriggerLinkWithdrawnLog :: "trigger_fun" where
  "LogTriggerLinkWithdrawnLog E v chainSelector confidence filters =
     log_trigger v ''LinkWithdrawn'' ''LinkWithdrawn'' (EncodeLinkWithdrawnTopics E) chainSelector confidence filters"

definition FilterLogsLinkWithdrawn :: "query_fun" where
  "FilterLogsLinkWithdrawn E v options = filter_logs E v (LinkWithdrawnLogHash (vb_Codec v)) options"

definition EncodeManagementFeeCollectedTopics :: "env \<Rightarrow> abi_event \<Rightarrow> gstruct list \<Rightarrow> byte list list list outcome" where
  "EncodeManagementFeeCollectedTopics E evt values =
     encode_topics E evt [(0, ''RebalanceNonce''), (1, ''FeeShares'')] values"

definition AdaptManagementFeeCollected :: "env \<Rightarrow> event_trigger \<Rightarrow> evm_log option \<Rightarrow> gstruct decoded_log outcome" where
  "AdaptManagementFeeCollected E t = adapt_log ''ManagementFeeCollected'' (DecodeManagementFeeCollected E (vb_Codec (et_contract t)))"

definition LogTriggerManagementFeeCollectedLog :: "trigger_fun" where
  "LogTriggerManagementFeeCollectedLog E v chainSelector confidence filters =
     log_trigger v ''ManagementFeeCollected'' ''ManagementFeeCollected'' (EncodeManagementFeeCollectedTopics E) chainSelector confidence filters"

definition FilterLogsManagementFeeCollected :: "query_fun" where
  "FilterLogsManagementFeeCollected E v options = filter_logs E v (ManagementFeeCollectedLogHash (vb_Codec v)) options"

definition EncodePausedTopics :: "env \<Rightarrow> abi_event \<Rightarrow> gstruct list \<Rightarrow> byte list list list outcome" where
  "EncodePausedTopics E evt values =
     encode_topics E evt [] values"

definition AdaptPaused :: "env \<Rightarrow> event_trigger \<Rightarrow> evm_log option \<Rightarrow> gstruct decoded_log outcome" where
  "AdaptPaused E t = adapt_log ''Paused'' (DecodePaused E (vb_Codec (et_contract t)))"

definition LogTriggerPausedLog :: "trigger_fun" where
  "LogTriggerPausedLog E v chainSelector confidence filters =
     log_trigger v ''Paused'' ''Paused'' (EncodePausedTopics E) chainSelector confidence filters"

definition FilterLogsPaused :: "query_fun" where
  "FilterLogsPaused E v options = filter_logs E v (PausedLogHash (vb_Codec v)) options"

definition EncodeRebalanceCompletedTopics :: "env \<Rightarrow> abi_event \<Rightarrow> gstruct list \<Rightarrow> byte list list list outcome" where
  "EncodeRebalanceCompletedTopics E evt values =
     encode_topics E evt [(0, ''RebalanceNonce''), (1, ''NewProtocolId''), (2, ''NewChainSelector'')] values"

definition AdaptRebalanceCompleted :: "env \<Rightarrow> event_trigger \<Rightarrow> evm_log option \<Rightarrow> gstruct decoded_log outcome" where
  "AdaptRebalanceCompleted E t = adapt_log ''RebalanceCompleted'' (DecodeRebalanceCompleted E (vb_Codec (et_contract t)))"

definition LogTriggerRebalanceCompletedLog :: "trigger_fun" where
  "LogTriggerRebalanceCompletedLog E v chainSelector confidence filters =
     log_trigger v ''RebalanceCompleted'' ''RebalanceCompleted'' (EncodeRebalanceCompletedTopics E) chainSelector confidence filters"

definition FilterLogsRebalanceCompleted :: "query_fun" where
  "FilterLogsRebalanceCompleted E v options = filter_logs E v (RebalanceCompletedLogHash (vb_Codec v)) options"

definition EncodeRebalanceDepositFailureTopics :: "env \<Rightarrow> abi_event \<Rightarrow> gstruct list \<Rightarrow> byte list list list outcome" where
  "EncodeRebalanceDepositFailureTopics E evt values =
     encode_topics E evt [(0, ''RebalanceNonce''), (1, ''Amount'')] values"

definition AdaptRebalanceDepositFailure :: "env \<Rightarrow> event_trigger \<Rightarrow> evm_log option \<Rightarrow> gstruct decoded_log outcome" where
  "AdaptRebalanceDepositFailure E t = adapt_log ''RebalanceDepositFailure'' (DecodeRebalanceDepositFailure E (vb_Codec (et_contract t)))"

definition LogTriggerRebalanceDepositFailureLog :: "trigger_fun" where
  "LogTriggerRebalanceDepositFailureLog E v chainSelector confidence filters =
     log_trigger v ''RebalanceDepositFailure'' ''RebalanceDepositFailure'' (EncodeRebalanceDepositFailureTopics E) chainSelector confidence filters"

definition FilterLogsRebalanceDepositFailure :: "query_fun" where
  "FilterLogsRebalanceDepositFailure E v options = filter_logs E v (RebalanceDepositFailureLogHash (vb_Codec v)) options"

definition EncodeRebalanceDepositRecoveryClearedTopics :: "env \<Rightarrow> abi_event \<Rightarrow> gstruct list \<Rightarrow> byte list list list outcome" where
  "EncodeRebalanceDepositRecoveryClearedTopics E evt values =
     encode_topics E evt [(0, ''RebalanceNonce'')] values"

definition AdaptRebalanceDepositRecoveryCleared :: "env \<Rightarrow> event_trigger \<Rightarrow> evm_log option \<Rightarrow> gstruct decoded_log outcome" where
  "AdaptRebalanceDepositRecoveryCleared E t = adapt_log ''RebalanceDepositRecoveryCleared'' (DecodeRebalanceDepositRecoveryCleared E (vb_Codec (et_contract t)))"

definition LogTriggerRebalanceDepositRecoveryClearedLog :: "trigger_fun" where
  "LogTriggerRebalanceDepositRecoveryClearedLog E v chainSelector confidence filters =
     log_trigger v ''RebalanceDepositRecoveryCleared'' ''RebalanceDepositRecoveryCleared'' (EncodeRebalanceDepositRecoveryClearedTopics E) chainSelector confidence filters"

definition FilterLogsRebalanceDepositRecoveryCleared :: "query_fun" where
  "FilterLogsRebalanceDepositRecoveryCleared E v options = filter_logs E v (RebalanceDepositRecoveryClearedLogHash (vb_Codec v)) options"

definition EncodeRebalanceDepositRecoveryStoredTopics :: "env \<Rightarrow> abi_event \<Rightarrow> gstruct list \<Rightarrow> byte list list list outcome" where
  "EncodeRebalanceDepositRecoveryStoredTopics E evt values =
     encode_topics E evt [(0, ''RebalanceNonce''), (1, ''Amount'')] values"

definition AdaptRebalanceDepositRecoveryStored :: "env \<Rightarrow> event_trigger \<Rightarrow> evm_log option \<Rightarrow> gstruct decoded_log outcome" where
  "AdaptRebalanceDepositRecoveryStored E t = adapt_log ''RebalanceDepositRecoveryStored'' (DecodeRebalanceDepositRecoveryStored E (vb_Codec (et_contract t)))"

definition LogTriggerRebalanceDepositRecoveryStoredLog :: "trigger_fun" where
  "LogTriggerRebalanceDepositRecoveryStoredLog E v chainSelector confidence filters =
     log_trigger v ''RebalanceDepositRecoveryStored'' ''RebalanceDepositRecoveryStored'' (EncodeRebalanceDepositRecoveryStoredTopics E) chainSelector confidence filters"

definition FilterLogsRebalanceDepositRecoveryStored :: "query_fun" where
  "FilterLogsRebalanceDepositRecoveryStored E v options = filter_logs E v (RebalanceDepositRecoveryStoredLogHash (vb_Codec v)) options"

definition EncodeRebalanceDepositSuccessTopics :: "env \<Rightarrow> abi_event \<Rightarrow> gstruct list \<Rightarrow> byte list list list outcome" where
  "EncodeRebalanceDepositSuccessTopics E evt values =
     encode_topics E evt [(0, ''RebalanceNonce''), (1, ''Amount'')] values"

definition AdaptRebalanceDepositSuccess :: "env \<Rightarrow> event_trigger \<Rightarrow> evm_log option \<Rightarrow> RebalanceDepositSuccessDecoded decoded_log outcome" where
  "AdaptRebalanceDepositSuccess E t = adapt_log ''RebalanceDepositSuccess'' (DecodeRebalanceDepositSuccess E (vb_Codec (et_contract t)))"

definition LogTriggerRebalanceDepositSuccessLog :: "trigger_fun" where
  "LogTriggerRebalanceDepositSuccessLog E v chainSelector confidence filters =
     log_trigger v ''RebalanceDepositSuccess'' ''RebalanceDepositSuccess'' (EncodeRebalanceDepositSuccessTopics E) chainSelector confidence filters"

definition FilterLogsRebalanceDepositSuccess :: "query_fun" where
  "FilterLogsRebalanceDepositSuccess E v options = filter_logs E v (RebalanceDepositSuccessLogHash (vb_Codec v)) options"

definition EncodeRebalanceInitiatedTopics :: "env \<Rightarrow> abi_event \<Rightarrow> gstruct list \<Rightarrow> byte list list list outcome" where
  "EncodeRebalanceInitiatedTopics E evt values =
     encode_topics E evt [(0, ''RebalanceNonce''), (1, ''ProtocolId''), (2, ''ChainSelector'')] values"

definition AdaptRebalanceInitiated :: "env \<Rightarrow> event_trigger \<Rightarrow> evm_log option \<Rightarrow> RebalanceInitiatedDecoded decoded_log outcome" where
  "AdaptRebalanceInitiated E t = adapt_log ''RebalanceInitiated'' (DecodeRebalanceInitiated E (vb_Codec (et_contract t)))"

definition LogTriggerRebalanceInitiatedLog :: "trigger_fun" where
  "LogTriggerRebalanceInitiatedLog E v chainSelector confidence filters =
     log_trigger v ''RebalanceInitiated'' ''RebalanceInitiated'' (EncodeRebalanceInitiatedTopics E) chainSelector confidence filters"

definition FilterLogsRebalanceInitiated :: "query_fun" where
  "FilterLogsRebalanceInitiated E v options = filter_logs E v (RebalanceInitiatedLogHash (vb_Codec v)) options"

definition EncodeRebalanceWithdrawSuccessTopics :: "env \<Rightarrow> abi_event \<Rightarrow> gstruct list \<Rightarrow> byte list list list outcome" where
  "EncodeRebalanceWithdrawSuccessTopics E evt values =
     encode_topics E evt [(0, ''RebalanceNonce''), (1, ''Amount'')] values"

definition AdaptRebalanceWithdrawSuccess :: "env \<Rightarrow> event_trigger \<Rightarrow> evm_log option \<Rightarrow> gstruct decoded_log outcome" where
  "AdaptRebalanceWithdrawSuccess E t = adapt_log ''RebalanceWithdrawSuccess'' (DecodeRebalanceWithdrawSuccess E (vb_Codec (et_contract t)))"

definition LogTriggerRebalanceWithdrawSuccessLog :: "trigger_fun" where
  "LogTriggerRebalanceWithdrawSuccessLog E v chainSelector confidence filters =
     log_trigger v ''RebalanceWithdrawSuccess'' ''RebalanceWithdrawSuccess'' (EncodeRebalanceWithdrawSuccessTopics E) chainSelector confidence filters"

definition FilterLogsRebalanceWithdrawSuccess :: "query_fun" where
  "FilterLogsRebalanceWithdrawSuccess E v options = filter_logs E v (RebalanceWithdrawSuccessLogHash (vb_Codec v)) options"

definition EncodeRoleAdminChangedTopics :: "env \<Rightarrow> abi_event \<Rightarrow> gstruct list \<Rightarrow> byte list list list outcome" where
  "EncodeRoleAdminChangedTopics E evt values =
     encode_topics E evt [(0, ''Role''), (1, ''PreviousAdminRole''), (2, ''NewAdminRole'')] values"

definition AdaptRoleAdminChanged :: "env \<Rightarrow> event_trigger \<Rightarrow> evm_log option \<Rightarrow> gstruct decoded_log outcome" where
  "AdaptRoleAdminChanged E t = adapt_log ''RoleAdminChanged'' (DecodeRoleAdminChanged E (vb_Codec (et_contract t)))"

definition LogTriggerRoleAdminChangedLog :: "trigger_fun" where
  "LogTriggerRoleAdminChangedLog E v chainSelector confidence filters =
     log_trigger v ''RoleAdminChanged'' ''RoleAdminChanged'' (EncodeRoleAdminChangedTopics E) chainSelector confidence filters"

definition FilterLogsRoleAdminChanged :: "query_fun" where
  "FilterLogsRoleAdminChanged E v options = filter_logs E v (RoleAdminChangedLogHash (vb_Codec v)) options"

definition EncodeRoleGrantedTopics :: "env \<Rightarrow> abi_event \<Rightarrow> gstruct list \<Rightarrow> byte list list list outcome" where
  "EncodeRoleGrantedTopics E evt values =
     encode_topics E evt [(0, ''Role''), (1, ''Account''), (2, ''Sender'')] values"

definition AdaptRoleGranted :: "env \<Rightarrow> event_trigger \<Rightarrow> evm_log option \<Rightarrow> gstruct decoded_log outcome" where
  "AdaptRoleGranted E t = adapt_log ''RoleGranted'' (DecodeRoleGranted E (vb_Codec (et_contract t)))"

definition LogTriggerRoleGrantedLog :: "trigger_fun" where
  "LogTriggerRoleGrantedLog E v chainSelector confidence filters =
     log_trigger v ''RoleGranted'' ''RoleGranted'' (EncodeRoleGrantedTopics E) chainSelector confidence filters"

definition FilterLogsRoleGranted :: "query_fun" where
  "FilterLogsRoleGranted E v options = filter_logs E v (RoleGrantedLogHash (vb_Codec v)) options"

definition EncodeRoleRevokedTopics :: "env \<Rightarrow> abi_event \<Rightarrow> gstruct list \<Rightarrow> byte list list list outcome" where
  "EncodeRoleRevokedTopics E evt values =
     encode_topics E evt [(0, ''Role''), (1, ''Account''), (2, ''Sender'')] values"

definition AdaptRoleRevoked :: "env \<Rightarrow> event_trigger \<Rightarrow> evm_log option \<Rightarrow> gstruct decoded_log outcome" where
  "AdaptRoleRevoked E t = adapt_log ''RoleRevoked'' (DecodeRoleRevoked E (vb_Codec (et_contract t)))"

definition LogTriggerRoleRevokedLog :: "trigger_fun" where
  "LogTriggerRoleRevokedLog E v chainSelector confidence filters =
     log_trigger v ''RoleRevoked'' ''RoleRevoked'' (EncodeRoleRevokedTopics E) chainSelector confidence filters"

definition FilterLogsRoleRevoked :: "query_fun" where
  "FilterLogsRoleRevoked E v options = filter_logs E v (RoleRevokedLogHash (vb_Codec v)) options"

definition EncodeSupportedProtocolSetTopics :: "env \<Rightarrow> abi_event \<Rightarrow> gstruct list \<Rightarrow> byte list list list outcome" where
  "EncodeSupportedProtocolSetTopics E evt values =
     encode_topics E evt [(0, ''ProtocolId''), (1, ''IsSupported'')] values"

definition AdaptSupportedProtocolSet :: "env \<Rightarrow> event_trigger \<Rightarrow> evm_log option \<Rightarrow> gstruct decoded_log outcome" where
  "AdaptSupportedProtocolSet E t = adapt_log ''SupportedProtocolSet'' (DecodeSupportedProtocolSet E (vb_Codec (et_contract t)))"

definition LogTriggerSupportedProtocolSetLog :: "trigger_fun" where
  "LogTriggerSupportedProtocolSetLog E v chainSelector confidence filters =
     log_trigger v ''SupportedProtocolSet'' ''SupportedProtocolSet'' (EncodeSupportedProtocolSetTopics E) chainSelector confidence filters"

definition FilterLogsSupportedProtocolSet :: "query_fun" where
  "FilterLogsSupportedProtocolSet E v options = filter_logs E v (SupportedProtocolSetLogHash (vb_Codec v)) options"

definition EncodeTreasurySetTopics :: "env \<Rightarrow> abi_event \<Rightarrow> gstruct list \<Rightarrow> byte list list list outcome" where
  "EncodeTreasurySetTopics E evt values =
     encode_topics E evt [(0, ''Treasury'')] values"

definition AdaptTreasurySet :: "env \<Rightarrow> event_trigger \<Rightarrow> evm_log option \<Rightarrow> gstruct decoded_log outcome" where
  "AdaptTreasurySet E t = adapt_log ''TreasurySet'' (DecodeTreasurySet E (vb_Codec (et_contract t)))"

definition LogTriggerTreasurySetLog :: "trigger_fun" where
  "LogTriggerTreasurySetLog E v chainSelector confidence filters =
     log_trigger v ''TreasurySet'' ''TreasurySet'' (EncodeTreasurySetTopics E) chainSelector confidence filters"

definition FilterLogsTreasurySet :: "query_fun" where
  "FilterLogsTreasurySet E v options = filter_logs E v (TreasurySetLogHash (vb_Codec v)) options"

definition EncodeUnpausedTopics :: "env \<Rightarrow> abi_event \<Rightarrow> gstruct list \<Rightarrow> byte list list list outcome" where
  "EncodeUnpausedTopics E evt values =
     encode_topics E evt [] values"

definition AdaptUnpaused :: "env \<Rightarrow> event_trigger \<Rightarrow> evm_log option \<Rightarrow> gstruct decoded_log outcome" where
  "AdaptUnpaused E t = adapt_log ''Unpaused'' (DecodeUnpaused E (vb_Codec (et_contract t)))"

definition LogTriggerUnpausedLog :: "trigger_fun" where
  "LogTriggerUnpausedLog E v chainSelector confidence filters =
     log_trigger v ''Unpaused'' ''Unpaused'' (EncodeUnpausedTopics E) chainSelector confidence filters"

definition FilterLogsUnpaused :: "query_fun" where
  "FilterLogsUnpaused E v options = filter_logs E v (UnpausedLogHash (vb_Codec v)) options"

definition EncodeUpgradedTopics :: "env \<Rightarrow> abi_event \<Rightarrow> gstruct list \<Rightarrow> byte list list list outcome" where
  "EncodeUpgradedTopics E evt values =
     encode_topics E evt [(0, ''Implementation'')] values"

definition AdaptUpgraded :: "env \<Rightarrow> event_trigger \<Rightarrow> evm_log option \<Rightarrow> gstruct decoded_log outcome" where
  "AdaptUpgraded E t = adapt_log ''Upgraded'' (DecodeUpgraded E (vb_Codec (et_contract t)))"

definition LogTriggerUpgradedLog :: "trigger_fun" where
  "LogTriggerUpgradedLog E v chainSelector confidence filters =
     log_trigger v ''Upgraded'' ''Upgraded'' (EncodeUpgradedTopics E) chainSelector confidence filters"

definition FilterLogsUpgraded :: "query_fun" where
  "FilterLogsUpgraded E v options = filter_logs E v (UpgradedLogHash (vb_Codec v)) options"

definition EncodeWithdrawCancelledTopics :: "env \<Rightarrow> abi_event \<Rightarrow> gstruct list \<Rightarrow> byte list list list outcome" where
  "EncodeWithdrawCancelledTopics E evt values =
     encode_topics E evt [(0, ''EpochNonce''), (1, ''Withdrawer''), (2, ''ShareBurnAmount'')] values"

definition AdaptWithdrawCancelled :: "env \<Rightarrow> event_trigger \<Rightarrow> evm_log option \<Rightarrow> gstruct decoded_log outcome" where
  "AdaptWithdrawCancelled E t = adapt_log ''WithdrawCancelled'' (DecodeWithdrawCancelled E (vb_Codec (et_contract t)))"

definition LogTriggerWithdrawCancelledLog :: "trigger_fun" where
  "LogTriggerWithdrawCancelledLog E v chainSelector confidence filters =
     log_trigger v ''WithdrawCancelled'' ''WithdrawCancelled'' (EncodeWithdrawCancelledTopics E) chainSelector confidence filters"

definition FilterLogsWithdrawCancelled :: "query_fun" where
  "FilterLogsWithdrawCancelled E v options = filter_logs E v (WithdrawCancelledLogHash (vb_Codec v)) options"

definition EncodeWithdrawClaimedTopics :: "env \<Rightarrow> abi_event \<Rightarrow> gstruct list \<Rightarrow> byte list list list outcome" where
  "EncodeWithdrawClaimedTopics E evt values =
     encode_topics E evt [(0, ''EpochNonce''), (1, ''Withdrawer''), (2, ''Amount'')] values"

definition AdaptWithdrawClaimed :: "env \<Rightarrow> event_trigger \<Rightarrow> evm_log option \<Rightarrow> gstruct decoded_log outcome" where
  "AdaptWithdrawClaimed E t = adapt_log ''WithdrawClaimed'' (DecodeWithdrawClaimed E (vb_Codec (et_contract t)))"

definition LogTriggerWithdrawClaimedLog :: "trigger_fun" where
  "LogTriggerWithdrawClaimedLog E v chainSelector confidence filters =
     log_trigger v ''WithdrawClaimed'' ''WithdrawClaimed'' (EncodeWithdrawClaimedTopics E) chainSelector confidence filters"

definition FilterLogsWithdrawClaimed :: "query_fun" where
  "FilterLogsWithdrawClaimed E v options = filter_logs E v (WithdrawClaimedLogHash (vb_Codec v)) options"

definition EncodeWithdrawSubmittedTopics :: "env \<Rightarrow> abi_event \<Rightarrow> gstruct list \<Rightarrow> byte list list list outcome" where
  "EncodeWithdrawSubmittedTopics E evt values =
     encode_topics E evt [(0, ''EpochNonce''), (1, ''Withdrawer''), (2, ''ShareBurnAmount'')] values"

definition AdaptWithdrawSubmitted :: "env \<Rightarrow> event_trigger \<Rightarrow> evm_log option \<Rightarrow> gstruct decoded_log outcome" where
  "AdaptWithdrawSubmitted E t = adapt_log ''WithdrawSubmitted'' (DecodeWithdrawSubmitted E (vb_Codec (et_contract t)))"

definition LogTriggerWithdrawSubmittedLog :: "trigger_fun" where
  "LogTriggerWithdrawSubmittedLog E v chainSelector confidence filters =
     log_trigger v ''WithdrawSubmitted'' ''WithdrawSubmitted'' (EncodeWithdrawSubmittedTopics E) chainSelector confidence filters"

definition FilterLogsWithdrawSubmitted :: "query_fun" where
  "FilterLogsWithdrawSubmitted E v options = filter_logs E v (WithdrawSubmittedLogHash (vb_Codec v)) options"

section \<open>The events against their interface\<close>

definition parent_event_table :: "event_spec list" where
  "parent_event_table =
     [\<lparr>es_Go = ''ActiveProtocolAdapterCleared'', es_Name = ''ActiveProtocolAdapterCleared'', es_Topics = [(0,
        ''Adapter'', TAddr)]\<rparr>,
      \<lparr>es_Go = ''ActiveProtocolAdapterSet'', es_Name = ''ActiveProtocolAdapterSet'', es_Topics = [(0,
        ''ProtocolId'', TFix 32), (1, ''Adapter'', TAddr)]\<rparr>,
      \<lparr>es_Go = ''AllowlistEnabledSet'', es_Name = ''AllowlistEnabledSet'', es_Topics = [(0, ''Enabled'',
        TBool)]\<rparr>,
      \<lparr>es_Go = ''AllowlistedUserSet'', es_Name = ''AllowlistedUserSet'', es_Topics = [(0, ''User'', TAddr),
        (1, ''Allowed'', TBool)]\<rparr>,
      \<lparr>es_Go = ''CCIPBridged'', es_Name = ''CCIPBridged'', es_Topics = [(0, ''CcipMessageId'', TFix 32),
        (1, ''DestinationChainSelector'', TU64), (2, ''CcipTxType'', TU8)]\<rparr>,
      \<lparr>es_Go = ''CCIPReceived'', es_Name = ''CCIPReceived'', es_Topics = [(0, ''CcipMessageId'', TFix 32),
        (1, ''SourceChainSelector'', TU64), (2, ''CcipTxType'', TU8)]\<rparr>,
      \<lparr>es_Go = ''CcipGasLimitSet'', es_Name = ''CcipGasLimitSet'', es_Topics = [(0, ''ChainSelector'', TU64),
        (1, ''GasLimit'', TBig)]\<rparr>,
      \<lparr>es_Go = ''CrosschainVaultSet'', es_Name = ''CrosschainVaultSet'', es_Topics = [(0, ''ChainSelector'',
        TU64), (1, ''Vault'', TAddr)]\<rparr>,
      \<lparr>es_Go = ''DefaultAdminDelayChangeCanceled'', es_Name = ''DefaultAdminDelayChangeCanceled'',
        es_Topics = []\<rparr>,
      \<lparr>es_Go = ''DefaultAdminDelayChangeScheduled'', es_Name = ''DefaultAdminDelayChangeScheduled'',
        es_Topics = []\<rparr>,
      \<lparr>es_Go = ''DefaultAdminTransferCanceled'', es_Name = ''DefaultAdminTransferCanceled'', es_Topics = []\<rparr>,
      \<lparr>es_Go = ''DefaultAdminTransferScheduled'', es_Name = ''DefaultAdminTransferScheduled'', es_Topics = [(0,
        ''NewAdmin'', TAddr)]\<rparr>,
      \<lparr>es_Go = ''DefaultCcipGasLimitSet'', es_Name = ''DefaultCcipGasLimitSet'', es_Topics = [(0, ''GasLimit'',
        TBig)]\<rparr>,
      \<lparr>es_Go = ''DepositCancelled'', es_Name = ''DepositCancelled'', es_Topics = [(0, ''EpochNonce'', TBig),
        (1, ''Depositor'', TAddr), (2, ''Amount'', TBig)]\<rparr>,
      \<lparr>es_Go = ''DepositClaimed'', es_Name = ''DepositClaimed'', es_Topics = [(0, ''EpochNonce'', TBig),
        (1, ''Depositor'', TAddr), (2, ''ShareMintAmount'', TBig)]\<rparr>,
      \<lparr>es_Go = ''DepositForceCancelled'', es_Name = ''DepositForceCancelled'', es_Topics = [(0, ''EpochNonce'',
        TBig), (1, ''Depositor'', TAddr), (2, ''Amount'', TBig)]\<rparr>,
      \<lparr>es_Go = ''DepositSubmitted'', es_Name = ''DepositSubmitted'', es_Topics = [(0, ''EpochNonce'', TBig),
        (1, ''Depositor'', TAddr), (2, ''Amount'', TBig)]\<rparr>,
      \<lparr>es_Go = ''EpochClaimable'', es_Name = ''EpochClaimable'', es_Topics = [(0, ''EpochNonce'', TBig)]\<rparr>,
      \<lparr>es_Go = ''EpochDepositExecuting'', es_Name = ''EpochDepositExecuting'', es_Topics = [(0, ''EpochNonce'',
        TBig), (1, ''Amount'', TBig)]\<rparr>,
      \<lparr>es_Go = ''EpochDepositReconciled'', es_Name = ''EpochDepositReconciled'', es_Topics = [(0, ''EpochNonce'',
        TBig), (1, ''ActualDepositAmount'', TBig), (2, ''ShareReduction'', TBig)]\<rparr>,
      \<lparr>es_Go = ''EpochDepositToStrategySuccess'', es_Name = ''EpochDepositToStrategySuccess'', es_Topics = [(0,
        ''EpochNonce'', TBig), (1, ''Amount'', TBig)]\<rparr>,
      \<lparr>es_Go = ''EpochOpen'', es_Name = ''EpochOpen'', es_Topics = [(0, ''EpochNonce'', TBig)]\<rparr>,
      \<lparr>es_Go = ''EpochWithdrawAmountShort'', es_Name = ''EpochWithdrawAmountShort'', es_Topics = [(0,
        ''EpochNonce'', TBig), (1, ''ExpectedAmount'', TBig), (2, ''ActualAmount'', TBig)]\<rparr>,
      \<lparr>es_Go = ''EpochWithdrawExecuting'', es_Name = ''EpochWithdrawExecuting'', es_Topics = [(0, ''EpochNonce'',
        TBig), (1, ''Amount'', TBig)]\<rparr>,
      \<lparr>es_Go = ''EpochWithdrawFromStrategySuccess'', es_Name = ''EpochWithdrawFromStrategySuccess'',
        es_Topics = [(0, ''EpochNonce'', TBig), (1, ''Amount'', TBig)]\<rparr>,
      \<lparr>es_Go = ''InitialActiveProtocolAdapterSet'', es_Name = ''InitialActiveProtocolAdapterSet'',
        es_Topics = [(0, ''ProtocolId'', TFix 32), (1, ''Adapter'', TAddr)]\<rparr>,
      \<lparr>es_Go = ''Initialized'', es_Name = ''Initialized'', es_Topics = []\<rparr>,
      \<lparr>es_Go = ''LinkWithdrawn'', es_Name = ''LinkWithdrawn'', es_Topics = [(0, ''Operator'', TAddr),
        (1, ''Amount'', TBig)]\<rparr>,
      \<lparr>es_Go = ''ManagementFeeCollected'', es_Name = ''ManagementFeeCollected'', es_Topics = [(0,
        ''RebalanceNonce'', TBig), (1, ''FeeShares'', TBig)]\<rparr>,
      \<lparr>es_Go = ''Paused'', es_Name = ''Paused'', es_Topics = []\<rparr>,
      \<lparr>es_Go = ''RebalanceCompleted'', es_Name = ''RebalanceCompleted'', es_Topics = [(0, ''RebalanceNonce'',
        TBig), (1, ''NewProtocolId'', TFix 32), (2, ''NewChainSelector'', TU64)]\<rparr>,
      \<lparr>es_Go = ''RebalanceDepositFailure'', es_Name = ''RebalanceDepositFailure'', es_Topics = [(0,
        ''RebalanceNonce'', TBig), (1, ''Amount'', TBig)]\<rparr>,
      \<lparr>es_Go = ''RebalanceDepositRecoveryCleared'', es_Name = ''RebalanceDepositRecoveryCleared'',
        es_Topics = [(0, ''RebalanceNonce'', TBig)]\<rparr>,
      \<lparr>es_Go = ''RebalanceDepositRecoveryStored'', es_Name = ''RebalanceDepositRecoveryStored'', es_Topics = [(0,
        ''RebalanceNonce'', TBig), (1, ''Amount'', TBig)]\<rparr>,
      \<lparr>es_Go = ''RebalanceDepositSuccess'', es_Name = ''RebalanceDepositSuccess'', es_Topics = [(0,
        ''RebalanceNonce'', TBig), (1, ''Amount'', TBig)]\<rparr>,
      \<lparr>es_Go = ''RebalanceInitiated'', es_Name = ''RebalanceInitiated'', es_Topics = [(0, ''RebalanceNonce'',
        TBig), (1, ''ProtocolId'', TFix 32), (2, ''ChainSelector'', TU64)]\<rparr>,
      \<lparr>es_Go = ''RebalanceWithdrawSuccess'', es_Name = ''RebalanceWithdrawSuccess'', es_Topics = [(0,
        ''RebalanceNonce'', TBig), (1, ''Amount'', TBig)]\<rparr>,
      \<lparr>es_Go = ''RoleAdminChanged'', es_Name = ''RoleAdminChanged'', es_Topics = [(0, ''Role'', TFix 32),
        (1, ''PreviousAdminRole'', TFix 32), (2, ''NewAdminRole'', TFix 32)]\<rparr>,
      \<lparr>es_Go = ''RoleGranted'', es_Name = ''RoleGranted'', es_Topics = [(0, ''Role'', TFix 32),
        (1, ''Account'', TAddr), (2, ''Sender'', TAddr)]\<rparr>,
      \<lparr>es_Go = ''RoleRevoked'', es_Name = ''RoleRevoked'', es_Topics = [(0, ''Role'', TFix 32),
        (1, ''Account'', TAddr), (2, ''Sender'', TAddr)]\<rparr>,
      \<lparr>es_Go = ''SupportedProtocolSet'', es_Name = ''SupportedProtocolSet'', es_Topics = [(0, ''ProtocolId'',
        TFix 32), (1, ''IsSupported'', TBool)]\<rparr>,
      \<lparr>es_Go = ''TreasurySet'', es_Name = ''TreasurySet'', es_Topics = [(0, ''Treasury'', TAddr)]\<rparr>,
      \<lparr>es_Go = ''Unpaused'', es_Name = ''Unpaused'', es_Topics = []\<rparr>,
      \<lparr>es_Go = ''Upgraded'', es_Name = ''Upgraded'', es_Topics = [(0, ''Implementation'', TAddr)]\<rparr>,
      \<lparr>es_Go = ''WithdrawCancelled'', es_Name = ''WithdrawCancelled'', es_Topics = [(0, ''EpochNonce'', TBig),
        (1, ''Withdrawer'', TAddr), (2, ''ShareBurnAmount'', TBig)]\<rparr>,
      \<lparr>es_Go = ''WithdrawClaimed'', es_Name = ''WithdrawClaimed'', es_Topics = [(0, ''EpochNonce'', TBig),
        (1, ''Withdrawer'', TAddr), (2, ''Amount'', TBig)]\<rparr>,
      \<lparr>es_Go = ''WithdrawSubmitted'', es_Name = ''WithdrawSubmitted'', es_Topics = [(0, ''EpochNonce'', TBig),
        (1, ''Withdrawer'', TAddr), (2, ''ShareBurnAmount'', TBig)]\<rparr>]"

definition parent_subscriptions :: "(trigger_fun \<times> query_fun) list" where
  "parent_subscriptions =
     [(LogTriggerActiveProtocolAdapterClearedLog, FilterLogsActiveProtocolAdapterCleared),
      (LogTriggerActiveProtocolAdapterSetLog, FilterLogsActiveProtocolAdapterSet),
      (LogTriggerAllowlistEnabledSetLog, FilterLogsAllowlistEnabledSet),
      (LogTriggerAllowlistedUserSetLog, FilterLogsAllowlistedUserSet),
      (LogTriggerCCIPBridgedLog, FilterLogsCCIPBridged),
      (LogTriggerCCIPReceivedLog, FilterLogsCCIPReceived),
      (LogTriggerCcipGasLimitSetLog, FilterLogsCcipGasLimitSet),
      (LogTriggerCrosschainVaultSetLog, FilterLogsCrosschainVaultSet),
      (LogTriggerDefaultAdminDelayChangeCanceledLog, FilterLogsDefaultAdminDelayChangeCanceled),
      (LogTriggerDefaultAdminDelayChangeScheduledLog, FilterLogsDefaultAdminDelayChangeScheduled),
      (LogTriggerDefaultAdminTransferCanceledLog, FilterLogsDefaultAdminTransferCanceled),
      (LogTriggerDefaultAdminTransferScheduledLog, FilterLogsDefaultAdminTransferScheduled),
      (LogTriggerDefaultCcipGasLimitSetLog, FilterLogsDefaultCcipGasLimitSet),
      (LogTriggerDepositCancelledLog, FilterLogsDepositCancelled),
      (LogTriggerDepositClaimedLog, FilterLogsDepositClaimed),
      (LogTriggerDepositForceCancelledLog, FilterLogsDepositForceCancelled),
      (LogTriggerDepositSubmittedLog, FilterLogsDepositSubmitted),
      (LogTriggerEpochClaimableLog, FilterLogsEpochClaimable),
      (LogTriggerEpochDepositExecutingLog, FilterLogsEpochDepositExecuting),
      (LogTriggerEpochDepositReconciledLog, FilterLogsEpochDepositReconciled),
      (LogTriggerEpochDepositToStrategySuccessLog, FilterLogsEpochDepositToStrategySuccess),
      (LogTriggerEpochOpenLog, FilterLogsEpochOpen),
      (LogTriggerEpochWithdrawAmountShortLog, FilterLogsEpochWithdrawAmountShort),
      (LogTriggerEpochWithdrawExecutingLog, FilterLogsEpochWithdrawExecuting),
      (LogTriggerEpochWithdrawFromStrategySuccessLog, FilterLogsEpochWithdrawFromStrategySuccess),
      (LogTriggerInitialActiveProtocolAdapterSetLog, FilterLogsInitialActiveProtocolAdapterSet),
      (LogTriggerInitializedLog, FilterLogsInitialized),
      (LogTriggerLinkWithdrawnLog, FilterLogsLinkWithdrawn),
      (LogTriggerManagementFeeCollectedLog, FilterLogsManagementFeeCollected),
      (LogTriggerPausedLog, FilterLogsPaused),
      (LogTriggerRebalanceCompletedLog, FilterLogsRebalanceCompleted),
      (LogTriggerRebalanceDepositFailureLog, FilterLogsRebalanceDepositFailure),
      (LogTriggerRebalanceDepositRecoveryClearedLog, FilterLogsRebalanceDepositRecoveryCleared),
      (LogTriggerRebalanceDepositRecoveryStoredLog, FilterLogsRebalanceDepositRecoveryStored),
      (LogTriggerRebalanceDepositSuccessLog, FilterLogsRebalanceDepositSuccess),
      (LogTriggerRebalanceInitiatedLog, FilterLogsRebalanceInitiated),
      (LogTriggerRebalanceWithdrawSuccessLog, FilterLogsRebalanceWithdrawSuccess),
      (LogTriggerRoleAdminChangedLog, FilterLogsRoleAdminChanged),
      (LogTriggerRoleGrantedLog, FilterLogsRoleGranted),
      (LogTriggerRoleRevokedLog, FilterLogsRoleRevoked),
      (LogTriggerSupportedProtocolSetLog, FilterLogsSupportedProtocolSet),
      (LogTriggerTreasurySetLog, FilterLogsTreasurySet),
      (LogTriggerUnpausedLog, FilterLogsUnpaused),
      (LogTriggerUpgradedLog, FilterLogsUpgraded),
      (LogTriggerWithdrawCancelledLog, FilterLogsWithdrawCancelled),
      (LogTriggerWithdrawClaimedLog, FilterLogsWithdrawClaimed),
      (LogTriggerWithdrawSubmittedLog, FilterLogsWithdrawSubmitted)]"

lemmas parent_subscription_defs =
  EncodeActiveProtocolAdapterClearedTopics_def [abs_def]
  LogTriggerActiveProtocolAdapterClearedLog_def [abs_def]
  FilterLogsActiveProtocolAdapterCleared_def [abs_def]
  ActiveProtocolAdapterClearedLogHash_def [abs_def]
  EncodeActiveProtocolAdapterSetTopics_def [abs_def]
  LogTriggerActiveProtocolAdapterSetLog_def [abs_def]
  FilterLogsActiveProtocolAdapterSet_def [abs_def]
  ActiveProtocolAdapterSetLogHash_def [abs_def]
  EncodeAllowlistEnabledSetTopics_def [abs_def]
  LogTriggerAllowlistEnabledSetLog_def [abs_def]
  FilterLogsAllowlistEnabledSet_def [abs_def]
  AllowlistEnabledSetLogHash_def [abs_def]
  EncodeAllowlistedUserSetTopics_def [abs_def]
  LogTriggerAllowlistedUserSetLog_def [abs_def]
  FilterLogsAllowlistedUserSet_def [abs_def]
  AllowlistedUserSetLogHash_def [abs_def]
  EncodeCCIPBridgedTopics_def [abs_def]
  LogTriggerCCIPBridgedLog_def [abs_def]
  FilterLogsCCIPBridged_def [abs_def]
  CCIPBridgedLogHash_def [abs_def]
  EncodeCCIPReceivedTopics_def [abs_def]
  LogTriggerCCIPReceivedLog_def [abs_def]
  FilterLogsCCIPReceived_def [abs_def]
  CCIPReceivedLogHash_def [abs_def]
  EncodeCcipGasLimitSetTopics_def [abs_def]
  LogTriggerCcipGasLimitSetLog_def [abs_def]
  FilterLogsCcipGasLimitSet_def [abs_def]
  CcipGasLimitSetLogHash_def [abs_def]
  EncodeCrosschainVaultSetTopics_def [abs_def]
  LogTriggerCrosschainVaultSetLog_def [abs_def]
  FilterLogsCrosschainVaultSet_def [abs_def]
  CrosschainVaultSetLogHash_def [abs_def]
  EncodeDefaultAdminDelayChangeCanceledTopics_def [abs_def]
  LogTriggerDefaultAdminDelayChangeCanceledLog_def [abs_def]
  FilterLogsDefaultAdminDelayChangeCanceled_def [abs_def]
  DefaultAdminDelayChangeCanceledLogHash_def [abs_def]
  EncodeDefaultAdminDelayChangeScheduledTopics_def [abs_def]
  LogTriggerDefaultAdminDelayChangeScheduledLog_def [abs_def]
  FilterLogsDefaultAdminDelayChangeScheduled_def [abs_def]
  DefaultAdminDelayChangeScheduledLogHash_def [abs_def]
  EncodeDefaultAdminTransferCanceledTopics_def [abs_def]
  LogTriggerDefaultAdminTransferCanceledLog_def [abs_def]
  FilterLogsDefaultAdminTransferCanceled_def [abs_def]
  DefaultAdminTransferCanceledLogHash_def [abs_def]
  EncodeDefaultAdminTransferScheduledTopics_def [abs_def]
  LogTriggerDefaultAdminTransferScheduledLog_def [abs_def]
  FilterLogsDefaultAdminTransferScheduled_def [abs_def]
  DefaultAdminTransferScheduledLogHash_def [abs_def]
  EncodeDefaultCcipGasLimitSetTopics_def [abs_def]
  LogTriggerDefaultCcipGasLimitSetLog_def [abs_def]
  FilterLogsDefaultCcipGasLimitSet_def [abs_def]
  DefaultCcipGasLimitSetLogHash_def [abs_def]
  EncodeDepositCancelledTopics_def [abs_def]
  LogTriggerDepositCancelledLog_def [abs_def]
  FilterLogsDepositCancelled_def [abs_def]
  DepositCancelledLogHash_def [abs_def]
  EncodeDepositClaimedTopics_def [abs_def]
  LogTriggerDepositClaimedLog_def [abs_def]
  FilterLogsDepositClaimed_def [abs_def]
  DepositClaimedLogHash_def [abs_def]
  EncodeDepositForceCancelledTopics_def [abs_def]
  LogTriggerDepositForceCancelledLog_def [abs_def]
  FilterLogsDepositForceCancelled_def [abs_def]
  DepositForceCancelledLogHash_def [abs_def]
  EncodeDepositSubmittedTopics_def [abs_def]
  LogTriggerDepositSubmittedLog_def [abs_def]
  FilterLogsDepositSubmitted_def [abs_def]
  DepositSubmittedLogHash_def [abs_def]
  EncodeEpochClaimableTopics_def [abs_def]
  LogTriggerEpochClaimableLog_def [abs_def]
  FilterLogsEpochClaimable_def [abs_def]
  EpochClaimableLogHash_def [abs_def]
  EncodeEpochDepositExecutingTopics_def [abs_def]
  LogTriggerEpochDepositExecutingLog_def [abs_def]
  FilterLogsEpochDepositExecuting_def [abs_def]
  EpochDepositExecutingLogHash_def [abs_def]
  EncodeEpochDepositReconciledTopics_def [abs_def]
  LogTriggerEpochDepositReconciledLog_def [abs_def]
  FilterLogsEpochDepositReconciled_def [abs_def]
  EpochDepositReconciledLogHash_def [abs_def]
  EncodeEpochDepositToStrategySuccessTopics_def [abs_def]
  LogTriggerEpochDepositToStrategySuccessLog_def [abs_def]
  FilterLogsEpochDepositToStrategySuccess_def [abs_def]
  EpochDepositToStrategySuccessLogHash_def [abs_def]
  EncodeEpochOpenTopics_def [abs_def]
  LogTriggerEpochOpenLog_def [abs_def]
  FilterLogsEpochOpen_def [abs_def]
  EpochOpenLogHash_def [abs_def]
  EncodeEpochWithdrawAmountShortTopics_def [abs_def]
  LogTriggerEpochWithdrawAmountShortLog_def [abs_def]
  FilterLogsEpochWithdrawAmountShort_def [abs_def]
  EpochWithdrawAmountShortLogHash_def [abs_def]
  EncodeEpochWithdrawExecutingTopics_def [abs_def]
  LogTriggerEpochWithdrawExecutingLog_def [abs_def]
  FilterLogsEpochWithdrawExecuting_def [abs_def]
  EpochWithdrawExecutingLogHash_def [abs_def]
  EncodeEpochWithdrawFromStrategySuccessTopics_def [abs_def]
  LogTriggerEpochWithdrawFromStrategySuccessLog_def [abs_def]
  FilterLogsEpochWithdrawFromStrategySuccess_def [abs_def]
  EpochWithdrawFromStrategySuccessLogHash_def [abs_def]
  EncodeInitialActiveProtocolAdapterSetTopics_def [abs_def]
  LogTriggerInitialActiveProtocolAdapterSetLog_def [abs_def]
  FilterLogsInitialActiveProtocolAdapterSet_def [abs_def]
  InitialActiveProtocolAdapterSetLogHash_def [abs_def]
  EncodeInitializedTopics_def [abs_def]
  LogTriggerInitializedLog_def [abs_def]
  FilterLogsInitialized_def [abs_def]
  InitializedLogHash_def [abs_def]
  EncodeLinkWithdrawnTopics_def [abs_def]
  LogTriggerLinkWithdrawnLog_def [abs_def]
  FilterLogsLinkWithdrawn_def [abs_def]
  LinkWithdrawnLogHash_def [abs_def]
  EncodeManagementFeeCollectedTopics_def [abs_def]
  LogTriggerManagementFeeCollectedLog_def [abs_def]
  FilterLogsManagementFeeCollected_def [abs_def]
  ManagementFeeCollectedLogHash_def [abs_def]
  EncodePausedTopics_def [abs_def]
  LogTriggerPausedLog_def [abs_def]
  FilterLogsPaused_def [abs_def]
  PausedLogHash_def [abs_def]
  EncodeRebalanceCompletedTopics_def [abs_def]
  LogTriggerRebalanceCompletedLog_def [abs_def]
  FilterLogsRebalanceCompleted_def [abs_def]
  RebalanceCompletedLogHash_def [abs_def]
  EncodeRebalanceDepositFailureTopics_def [abs_def]
  LogTriggerRebalanceDepositFailureLog_def [abs_def]
  FilterLogsRebalanceDepositFailure_def [abs_def]
  RebalanceDepositFailureLogHash_def [abs_def]
  EncodeRebalanceDepositRecoveryClearedTopics_def [abs_def]
  LogTriggerRebalanceDepositRecoveryClearedLog_def [abs_def]
  FilterLogsRebalanceDepositRecoveryCleared_def [abs_def]
  RebalanceDepositRecoveryClearedLogHash_def [abs_def]
  EncodeRebalanceDepositRecoveryStoredTopics_def [abs_def]
  LogTriggerRebalanceDepositRecoveryStoredLog_def [abs_def]
  FilterLogsRebalanceDepositRecoveryStored_def [abs_def]
  RebalanceDepositRecoveryStoredLogHash_def [abs_def]
  EncodeRebalanceDepositSuccessTopics_def [abs_def]
  LogTriggerRebalanceDepositSuccessLog_def [abs_def]
  FilterLogsRebalanceDepositSuccess_def [abs_def]
  RebalanceDepositSuccessLogHash_def [abs_def]
  EncodeRebalanceInitiatedTopics_def [abs_def]
  LogTriggerRebalanceInitiatedLog_def [abs_def]
  FilterLogsRebalanceInitiated_def [abs_def]
  RebalanceInitiatedLogHash_def [abs_def]
  EncodeRebalanceWithdrawSuccessTopics_def [abs_def]
  LogTriggerRebalanceWithdrawSuccessLog_def [abs_def]
  FilterLogsRebalanceWithdrawSuccess_def [abs_def]
  RebalanceWithdrawSuccessLogHash_def [abs_def]
  EncodeRoleAdminChangedTopics_def [abs_def]
  LogTriggerRoleAdminChangedLog_def [abs_def]
  FilterLogsRoleAdminChanged_def [abs_def]
  RoleAdminChangedLogHash_def [abs_def]
  EncodeRoleGrantedTopics_def [abs_def]
  LogTriggerRoleGrantedLog_def [abs_def]
  FilterLogsRoleGranted_def [abs_def]
  RoleGrantedLogHash_def [abs_def]
  EncodeRoleRevokedTopics_def [abs_def]
  LogTriggerRoleRevokedLog_def [abs_def]
  FilterLogsRoleRevoked_def [abs_def]
  RoleRevokedLogHash_def [abs_def]
  EncodeSupportedProtocolSetTopics_def [abs_def]
  LogTriggerSupportedProtocolSetLog_def [abs_def]
  FilterLogsSupportedProtocolSet_def [abs_def]
  SupportedProtocolSetLogHash_def [abs_def]
  EncodeTreasurySetTopics_def [abs_def]
  LogTriggerTreasurySetLog_def [abs_def]
  FilterLogsTreasurySet_def [abs_def]
  TreasurySetLogHash_def [abs_def]
  EncodeUnpausedTopics_def [abs_def]
  LogTriggerUnpausedLog_def [abs_def]
  FilterLogsUnpaused_def [abs_def]
  UnpausedLogHash_def [abs_def]
  EncodeUpgradedTopics_def [abs_def]
  LogTriggerUpgradedLog_def [abs_def]
  FilterLogsUpgraded_def [abs_def]
  UpgradedLogHash_def [abs_def]
  EncodeWithdrawCancelledTopics_def [abs_def]
  LogTriggerWithdrawCancelledLog_def [abs_def]
  FilterLogsWithdrawCancelled_def [abs_def]
  WithdrawCancelledLogHash_def [abs_def]
  EncodeWithdrawClaimedTopics_def [abs_def]
  LogTriggerWithdrawClaimedLog_def [abs_def]
  FilterLogsWithdrawClaimed_def [abs_def]
  WithdrawClaimedLogHash_def [abs_def]
  EncodeWithdrawSubmittedTopics_def [abs_def]
  LogTriggerWithdrawSubmittedLog_def [abs_def]
  FilterLogsWithdrawSubmitted_def [abs_def]
  WithdrawSubmittedLogHash_def [abs_def]

lemma parent_subscriptions_eq: "parent_subscriptions = map table_subscription parent_event_table"
  by (simp add: parent_subscriptions_def parent_event_table_def table_subscription_def table_topics_def [abs_def] parent_subscription_defs)

lemma parent_event_names: "distinct (map fst parent_events)"
  by (rule names_distinct) code_simp

lemma parent_events_fit: "list_all2 (\<lambda>e s. fst e = es_Name s \<and> topics_fit (snd e) (es_Topics s)) parent_events parent_event_table"
  by code_simp

interpretation parent_logs: event_binding parent_events parent_event_table parent_subscriptions
  by unfold_locales (rule parent_subscriptions_eq, rule event_conformsI [OF parent_events_fit parent_event_names])

end
