(* ===== verification/Child_Logs.thy ===== *)
theory Child_Logs
  imports Binding_Contracts Child_Decoders
begin

text \<open>
  The logs of the generated ChildVault package (\<open>cre/contracts/evm/generated/child_vault/ChildVault.go\<close>): the events of its
  ABI literal, and for each event the topics of a filter, the log trigger with its decoding of a delivered log, and the log
  query. The interpretation at the end checks the topics against the literal.
\<close>

section \<open>The events of the ABI literal\<close>

definition child_events :: "event_literal list" where
  "child_events =
     [(''ActiveProtocolAdapterCleared'', [(''adapter'', True, SAddress)]),
      (''ActiveProtocolAdapterCleared0'', [(''adapter'', True, SAddress)]),
      (''ActiveProtocolAdapterSet'', [(''protocolId'', True, SFixed 32), (''adapter'', True, SAddress)]),
      (''ActiveProtocolAdapterSet0'', [(''protocolId'', True, SFixed 32), (''adapter'', True, SAddress)]),
      (''CCIPBridged'', [(''ccipMessageId'', True, SFixed 32), (''destinationChainSelector'', True, SUint 64),
        (''ccipTxType'', True, SUint 8)]),
      (''CCIPBridged0'', [(''ccipMessageId'', True, SFixed 32), (''destinationChainSelector'', True, SUint 64),
        (''ccipTxType'', True, SUint 8)]),
      (''CCIPReceived'', [(''ccipMessageId'', True, SFixed 32), (''sourceChainSelector'', True, SUint 64),
        (''ccipTxType'', True, SUint 8)]),
      (''CcipGasLimitSet'', [(''chainSelector'', True, SUint 64), (''gasLimit'', True, SUint 256)]),
      (''CcipGasLimitSet0'', [(''chainSelector'', True, SUint 64), (''gasLimit'', True, SUint 256)]),
      (''CcipSendRecoveryCleared'', [(''ccipTxType'', True, SUint 8), (''destinationChainSelector'', True, SUint 64),
        (''amount'', True, SUint 256)]),
      (''CcipSendRecoveryStored'', [(''ccipTxType'', True, SUint 8), (''destinationChainSelector'', True, SUint 64),
        (''amount'', True, SUint 256)]),
      (''CrosschainVaultSet'', [(''chainSelector'', True, SUint 64), (''vault'', True, SAddress)]),
      (''CrosschainVaultSet0'', [(''chainSelector'', True, SUint 64), (''vault'', True, SAddress)]),
      (''DefaultAdminDelayChangeCanceled'', []),
      (''DefaultAdminDelayChangeScheduled'', [(''newDelay'', False, SUint 48), (''effectSchedule'', False, SUint 48)]),
      (''DefaultAdminTransferCanceled'', []),
      (''DefaultAdminTransferScheduled'', [(''newAdmin'', True, SAddress), (''acceptSchedule'', False, SUint 48)]),
      (''DefaultCcipGasLimitSet'', [(''gasLimit'', True, SUint 256)]),
      (''DefaultCcipGasLimitSet0'', [(''gasLimit'', True, SUint 256)]),
      (''EpochDepositRecoveryCleared'', [(''epochNonce'', True, SUint 256)]),
      (''EpochDepositRecoveryStored'', [(''epochNonce'', True, SUint 256), (''amount'', True, SUint 256)]),
      (''EpochDepositToStrategyFailure'', [(''epochNonce'', True, SUint 256), (''amount'', True, SUint 256)]),
      (''EpochDepositToStrategySuccess'', [(''epochNonce'', True, SUint 256), (''amount'', True, SUint 256)]),
      (''EpochWithdrawFromStrategyFailure'', [(''epochNonce'', True, SUint 256), (''amount'', True, SUint 256)]),
      (''EpochWithdrawFromStrategySuccess'', [(''epochNonce'', True, SUint 256), (''amount'', True, SUint 256)]),
      (''EpochWithdrawRecoveryCleared'', [(''epochNonce'', True, SUint 256)]),
      (''EpochWithdrawRecoveryStored'', [(''epochNonce'', True, SUint 256), (''amount'', True, SUint 256)]),
      (''Initialized'', [(''version'', False, SUint 64)]),
      (''LinkWithdrawn'', [(''operator'', True, SAddress), (''amount'', True, SUint 256)]),
      (''Paused'', [(''account'', False, SAddress)]),
      (''RebalanceDepositFailure'', [(''rebalanceNonce'', True, SUint 256), (''amount'', True, SUint 256)]),
      (''RebalanceDepositRecoveryCleared'', [(''rebalanceNonce'', True, SUint 256)]),
      (''RebalanceDepositRecoveryStored'', [(''rebalanceNonce'', True, SUint 256), (''amount'', True, SUint 256)]),
      (''RebalanceDepositSuccess'', [(''rebalanceNonce'', True, SUint 256), (''amount'', True, SUint 256)]),
      (''RebalanceWithdrawFailure'', [(''rebalanceNonce'', True, SUint 256)]),
      (''RebalanceWithdrawRecoveryCleared'', [(''rebalanceNonce'', True, SUint 256)]),
      (''RebalanceWithdrawRecoveryStored'', [(''rebalanceNonce'', True, SUint 256), (''protocolId'', True, SFixed 32),
        (''chainSelector'', True, SUint 64)]),
      (''RebalanceWithdrawSuccess'', [(''rebalanceNonce'', True, SUint 256), (''amount'', True, SUint 256)]),
      (''RoleAdminChanged'', [(''role'', True, SFixed 32), (''previousAdminRole'', True, SFixed 32),
        (''newAdminRole'', True, SFixed 32)]),
      (''RoleGranted'', [(''role'', True, SFixed 32), (''account'', True, SAddress), (''sender'', True, SAddress)]),
      (''RoleRevoked'', [(''role'', True, SFixed 32), (''account'', True, SAddress), (''sender'', True, SAddress)]),
      (''Unpaused'', [(''account'', False, SAddress)]),
      (''Upgraded'', [(''implementation'', True, SAddress)])]"

section \<open>Topics, triggers and queries\<close>

definition child_EncodeActiveProtocolAdapterClearedTopics :: "env \<Rightarrow> abi_event \<Rightarrow> gstruct list \<Rightarrow> byte list list list outcome" where
  "child_EncodeActiveProtocolAdapterClearedTopics E evt values =
     encode_topics E evt [(0, ''Adapter'')] values"

definition child_AdaptActiveProtocolAdapterCleared :: "env \<Rightarrow> event_trigger \<Rightarrow> evm_log option \<Rightarrow> gstruct decoded_log outcome" where
  "child_AdaptActiveProtocolAdapterCleared E t = adapt_log ''ActiveProtocolAdapterCleared'' (child_DecodeActiveProtocolAdapterCleared E (vb_Codec (et_contract t)))"

definition child_LogTriggerActiveProtocolAdapterClearedLog :: "trigger_fun" where
  "child_LogTriggerActiveProtocolAdapterClearedLog E v chainSelector confidence filters =
     log_trigger v ''ActiveProtocolAdapterCleared'' ''ActiveProtocolAdapterCleared'' (child_EncodeActiveProtocolAdapterClearedTopics E) chainSelector confidence filters"

definition child_FilterLogsActiveProtocolAdapterCleared :: "query_fun" where
  "child_FilterLogsActiveProtocolAdapterCleared E v options = filter_logs E v (child_ActiveProtocolAdapterClearedLogHash (vb_Codec v)) options"

definition child_EncodeActiveProtocolAdapterCleared0Topics :: "env \<Rightarrow> abi_event \<Rightarrow> gstruct list \<Rightarrow> byte list list list outcome" where
  "child_EncodeActiveProtocolAdapterCleared0Topics E evt values =
     encode_topics E evt [(0, ''Adapter'')] values"

definition child_AdaptActiveProtocolAdapterCleared0 :: "env \<Rightarrow> event_trigger \<Rightarrow> evm_log option \<Rightarrow> gstruct decoded_log outcome" where
  "child_AdaptActiveProtocolAdapterCleared0 E t = adapt_log ''ActiveProtocolAdapterCleared0'' (child_DecodeActiveProtocolAdapterCleared0 E (vb_Codec (et_contract t)))"

definition child_LogTriggerActiveProtocolAdapterCleared0Log :: "trigger_fun" where
  "child_LogTriggerActiveProtocolAdapterCleared0Log E v chainSelector confidence filters =
     log_trigger v ''ActiveProtocolAdapterCleared0'' ''ActiveProtocolAdapterCleared0'' (child_EncodeActiveProtocolAdapterCleared0Topics E) chainSelector confidence filters"

definition child_FilterLogsActiveProtocolAdapterCleared0 :: "query_fun" where
  "child_FilterLogsActiveProtocolAdapterCleared0 E v options = filter_logs E v (child_ActiveProtocolAdapterCleared0LogHash (vb_Codec v)) options"

definition child_EncodeActiveProtocolAdapterSetTopics :: "env \<Rightarrow> abi_event \<Rightarrow> gstruct list \<Rightarrow> byte list list list outcome" where
  "child_EncodeActiveProtocolAdapterSetTopics E evt values =
     encode_topics E evt [(0, ''ProtocolId''), (1, ''Adapter'')] values"

definition child_AdaptActiveProtocolAdapterSet :: "env \<Rightarrow> event_trigger \<Rightarrow> evm_log option \<Rightarrow> gstruct decoded_log outcome" where
  "child_AdaptActiveProtocolAdapterSet E t = adapt_log ''ActiveProtocolAdapterSet'' (child_DecodeActiveProtocolAdapterSet E (vb_Codec (et_contract t)))"

definition child_LogTriggerActiveProtocolAdapterSetLog :: "trigger_fun" where
  "child_LogTriggerActiveProtocolAdapterSetLog E v chainSelector confidence filters =
     log_trigger v ''ActiveProtocolAdapterSet'' ''ActiveProtocolAdapterSet'' (child_EncodeActiveProtocolAdapterSetTopics E) chainSelector confidence filters"

definition child_FilterLogsActiveProtocolAdapterSet :: "query_fun" where
  "child_FilterLogsActiveProtocolAdapterSet E v options = filter_logs E v (child_ActiveProtocolAdapterSetLogHash (vb_Codec v)) options"

definition child_EncodeActiveProtocolAdapterSet0Topics :: "env \<Rightarrow> abi_event \<Rightarrow> gstruct list \<Rightarrow> byte list list list outcome" where
  "child_EncodeActiveProtocolAdapterSet0Topics E evt values =
     encode_topics E evt [(0, ''ProtocolId''), (1, ''Adapter'')] values"

definition child_AdaptActiveProtocolAdapterSet0 :: "env \<Rightarrow> event_trigger \<Rightarrow> evm_log option \<Rightarrow> gstruct decoded_log outcome" where
  "child_AdaptActiveProtocolAdapterSet0 E t = adapt_log ''ActiveProtocolAdapterSet0'' (child_DecodeActiveProtocolAdapterSet0 E (vb_Codec (et_contract t)))"

definition child_LogTriggerActiveProtocolAdapterSet0Log :: "trigger_fun" where
  "child_LogTriggerActiveProtocolAdapterSet0Log E v chainSelector confidence filters =
     log_trigger v ''ActiveProtocolAdapterSet0'' ''ActiveProtocolAdapterSet0'' (child_EncodeActiveProtocolAdapterSet0Topics E) chainSelector confidence filters"

definition child_FilterLogsActiveProtocolAdapterSet0 :: "query_fun" where
  "child_FilterLogsActiveProtocolAdapterSet0 E v options = filter_logs E v (child_ActiveProtocolAdapterSet0LogHash (vb_Codec v)) options"

definition child_EncodeCCIPBridgedTopics :: "env \<Rightarrow> abi_event \<Rightarrow> gstruct list \<Rightarrow> byte list list list outcome" where
  "child_EncodeCCIPBridgedTopics E evt values =
     encode_topics E evt [(0, ''CcipMessageId''), (1, ''DestinationChainSelector''), (2, ''CcipTxType'')] values"

definition child_AdaptCCIPBridged :: "env \<Rightarrow> event_trigger \<Rightarrow> evm_log option \<Rightarrow> gstruct decoded_log outcome" where
  "child_AdaptCCIPBridged E t = adapt_log ''CCIPBridged'' (child_DecodeCCIPBridged E (vb_Codec (et_contract t)))"

definition child_LogTriggerCCIPBridgedLog :: "trigger_fun" where
  "child_LogTriggerCCIPBridgedLog E v chainSelector confidence filters =
     log_trigger v ''CCIPBridged'' ''CCIPBridged'' (child_EncodeCCIPBridgedTopics E) chainSelector confidence filters"

definition child_FilterLogsCCIPBridged :: "query_fun" where
  "child_FilterLogsCCIPBridged E v options = filter_logs E v (child_CCIPBridgedLogHash (vb_Codec v)) options"

definition child_EncodeCCIPBridged0Topics :: "env \<Rightarrow> abi_event \<Rightarrow> gstruct list \<Rightarrow> byte list list list outcome" where
  "child_EncodeCCIPBridged0Topics E evt values =
     encode_topics E evt [(0, ''CcipMessageId''), (1, ''DestinationChainSelector''), (2, ''CcipTxType'')] values"

definition child_AdaptCCIPBridged0 :: "env \<Rightarrow> event_trigger \<Rightarrow> evm_log option \<Rightarrow> gstruct decoded_log outcome" where
  "child_AdaptCCIPBridged0 E t = adapt_log ''CCIPBridged0'' (child_DecodeCCIPBridged0 E (vb_Codec (et_contract t)))"

definition child_LogTriggerCCIPBridged0Log :: "trigger_fun" where
  "child_LogTriggerCCIPBridged0Log E v chainSelector confidence filters =
     log_trigger v ''CCIPBridged0'' ''CCIPBridged0'' (child_EncodeCCIPBridged0Topics E) chainSelector confidence filters"

definition child_FilterLogsCCIPBridged0 :: "query_fun" where
  "child_FilterLogsCCIPBridged0 E v options = filter_logs E v (child_CCIPBridged0LogHash (vb_Codec v)) options"

definition child_EncodeCCIPReceivedTopics :: "env \<Rightarrow> abi_event \<Rightarrow> gstruct list \<Rightarrow> byte list list list outcome" where
  "child_EncodeCCIPReceivedTopics E evt values =
     encode_topics E evt [(0, ''CcipMessageId''), (1, ''SourceChainSelector''), (2, ''CcipTxType'')] values"

definition child_AdaptCCIPReceived :: "env \<Rightarrow> event_trigger \<Rightarrow> evm_log option \<Rightarrow> gstruct decoded_log outcome" where
  "child_AdaptCCIPReceived E t = adapt_log ''CCIPReceived'' (child_DecodeCCIPReceived E (vb_Codec (et_contract t)))"

definition child_LogTriggerCCIPReceivedLog :: "trigger_fun" where
  "child_LogTriggerCCIPReceivedLog E v chainSelector confidence filters =
     log_trigger v ''CCIPReceived'' ''CCIPReceived'' (child_EncodeCCIPReceivedTopics E) chainSelector confidence filters"

definition child_FilterLogsCCIPReceived :: "query_fun" where
  "child_FilterLogsCCIPReceived E v options = filter_logs E v (child_CCIPReceivedLogHash (vb_Codec v)) options"

definition child_EncodeCcipGasLimitSetTopics :: "env \<Rightarrow> abi_event \<Rightarrow> gstruct list \<Rightarrow> byte list list list outcome" where
  "child_EncodeCcipGasLimitSetTopics E evt values =
     encode_topics E evt [(0, ''ChainSelector''), (1, ''GasLimit'')] values"

definition child_AdaptCcipGasLimitSet :: "env \<Rightarrow> event_trigger \<Rightarrow> evm_log option \<Rightarrow> gstruct decoded_log outcome" where
  "child_AdaptCcipGasLimitSet E t = adapt_log ''CcipGasLimitSet'' (child_DecodeCcipGasLimitSet E (vb_Codec (et_contract t)))"

definition child_LogTriggerCcipGasLimitSetLog :: "trigger_fun" where
  "child_LogTriggerCcipGasLimitSetLog E v chainSelector confidence filters =
     log_trigger v ''CcipGasLimitSet'' ''CcipGasLimitSet'' (child_EncodeCcipGasLimitSetTopics E) chainSelector confidence filters"

definition child_FilterLogsCcipGasLimitSet :: "query_fun" where
  "child_FilterLogsCcipGasLimitSet E v options = filter_logs E v (child_CcipGasLimitSetLogHash (vb_Codec v)) options"

definition child_EncodeCcipGasLimitSet0Topics :: "env \<Rightarrow> abi_event \<Rightarrow> gstruct list \<Rightarrow> byte list list list outcome" where
  "child_EncodeCcipGasLimitSet0Topics E evt values =
     encode_topics E evt [(0, ''ChainSelector''), (1, ''GasLimit'')] values"

definition child_AdaptCcipGasLimitSet0 :: "env \<Rightarrow> event_trigger \<Rightarrow> evm_log option \<Rightarrow> gstruct decoded_log outcome" where
  "child_AdaptCcipGasLimitSet0 E t = adapt_log ''CcipGasLimitSet0'' (child_DecodeCcipGasLimitSet0 E (vb_Codec (et_contract t)))"

definition child_LogTriggerCcipGasLimitSet0Log :: "trigger_fun" where
  "child_LogTriggerCcipGasLimitSet0Log E v chainSelector confidence filters =
     log_trigger v ''CcipGasLimitSet0'' ''CcipGasLimitSet0'' (child_EncodeCcipGasLimitSet0Topics E) chainSelector confidence filters"

definition child_FilterLogsCcipGasLimitSet0 :: "query_fun" where
  "child_FilterLogsCcipGasLimitSet0 E v options = filter_logs E v (child_CcipGasLimitSet0LogHash (vb_Codec v)) options"

definition child_EncodeCcipSendRecoveryClearedTopics :: "env \<Rightarrow> abi_event \<Rightarrow> gstruct list \<Rightarrow> byte list list list outcome" where
  "child_EncodeCcipSendRecoveryClearedTopics E evt values =
     encode_topics E evt [(0, ''CcipTxType''), (1, ''DestinationChainSelector''), (2, ''Amount'')] values"

definition child_AdaptCcipSendRecoveryCleared :: "env \<Rightarrow> event_trigger \<Rightarrow> evm_log option \<Rightarrow> gstruct decoded_log outcome" where
  "child_AdaptCcipSendRecoveryCleared E t = adapt_log ''CcipSendRecoveryCleared'' (child_DecodeCcipSendRecoveryCleared E (vb_Codec (et_contract t)))"

definition child_LogTriggerCcipSendRecoveryClearedLog :: "trigger_fun" where
  "child_LogTriggerCcipSendRecoveryClearedLog E v chainSelector confidence filters =
     log_trigger v ''CcipSendRecoveryCleared'' ''CcipSendRecoveryCleared'' (child_EncodeCcipSendRecoveryClearedTopics E) chainSelector confidence filters"

definition child_FilterLogsCcipSendRecoveryCleared :: "query_fun" where
  "child_FilterLogsCcipSendRecoveryCleared E v options = filter_logs E v (child_CcipSendRecoveryClearedLogHash (vb_Codec v)) options"

definition child_EncodeCcipSendRecoveryStoredTopics :: "env \<Rightarrow> abi_event \<Rightarrow> gstruct list \<Rightarrow> byte list list list outcome" where
  "child_EncodeCcipSendRecoveryStoredTopics E evt values =
     encode_topics E evt [(0, ''CcipTxType''), (1, ''DestinationChainSelector''), (2, ''Amount'')] values"

definition child_AdaptCcipSendRecoveryStored :: "env \<Rightarrow> event_trigger \<Rightarrow> evm_log option \<Rightarrow> gstruct decoded_log outcome" where
  "child_AdaptCcipSendRecoveryStored E t = adapt_log ''CcipSendRecoveryStored'' (child_DecodeCcipSendRecoveryStored E (vb_Codec (et_contract t)))"

definition child_LogTriggerCcipSendRecoveryStoredLog :: "trigger_fun" where
  "child_LogTriggerCcipSendRecoveryStoredLog E v chainSelector confidence filters =
     log_trigger v ''CcipSendRecoveryStored'' ''CcipSendRecoveryStored'' (child_EncodeCcipSendRecoveryStoredTopics E) chainSelector confidence filters"

definition child_FilterLogsCcipSendRecoveryStored :: "query_fun" where
  "child_FilterLogsCcipSendRecoveryStored E v options = filter_logs E v (child_CcipSendRecoveryStoredLogHash (vb_Codec v)) options"

definition child_EncodeCrosschainVaultSetTopics :: "env \<Rightarrow> abi_event \<Rightarrow> gstruct list \<Rightarrow> byte list list list outcome" where
  "child_EncodeCrosschainVaultSetTopics E evt values =
     encode_topics E evt [(0, ''ChainSelector''), (1, ''Vault'')] values"

definition child_AdaptCrosschainVaultSet :: "env \<Rightarrow> event_trigger \<Rightarrow> evm_log option \<Rightarrow> gstruct decoded_log outcome" where
  "child_AdaptCrosschainVaultSet E t = adapt_log ''CrosschainVaultSet'' (child_DecodeCrosschainVaultSet E (vb_Codec (et_contract t)))"

definition child_LogTriggerCrosschainVaultSetLog :: "trigger_fun" where
  "child_LogTriggerCrosschainVaultSetLog E v chainSelector confidence filters =
     log_trigger v ''CrosschainVaultSet'' ''CrosschainVaultSet'' (child_EncodeCrosschainVaultSetTopics E) chainSelector confidence filters"

definition child_FilterLogsCrosschainVaultSet :: "query_fun" where
  "child_FilterLogsCrosschainVaultSet E v options = filter_logs E v (child_CrosschainVaultSetLogHash (vb_Codec v)) options"

definition child_EncodeCrosschainVaultSet0Topics :: "env \<Rightarrow> abi_event \<Rightarrow> gstruct list \<Rightarrow> byte list list list outcome" where
  "child_EncodeCrosschainVaultSet0Topics E evt values =
     encode_topics E evt [(0, ''ChainSelector''), (1, ''Vault'')] values"

definition child_AdaptCrosschainVaultSet0 :: "env \<Rightarrow> event_trigger \<Rightarrow> evm_log option \<Rightarrow> gstruct decoded_log outcome" where
  "child_AdaptCrosschainVaultSet0 E t = adapt_log ''CrosschainVaultSet0'' (child_DecodeCrosschainVaultSet0 E (vb_Codec (et_contract t)))"

definition child_LogTriggerCrosschainVaultSet0Log :: "trigger_fun" where
  "child_LogTriggerCrosschainVaultSet0Log E v chainSelector confidence filters =
     log_trigger v ''CrosschainVaultSet0'' ''CrosschainVaultSet0'' (child_EncodeCrosschainVaultSet0Topics E) chainSelector confidence filters"

definition child_FilterLogsCrosschainVaultSet0 :: "query_fun" where
  "child_FilterLogsCrosschainVaultSet0 E v options = filter_logs E v (child_CrosschainVaultSet0LogHash (vb_Codec v)) options"

definition child_EncodeDefaultAdminDelayChangeCanceledTopics :: "env \<Rightarrow> abi_event \<Rightarrow> gstruct list \<Rightarrow> byte list list list outcome" where
  "child_EncodeDefaultAdminDelayChangeCanceledTopics E evt values =
     encode_topics E evt [] values"

definition child_AdaptDefaultAdminDelayChangeCanceled :: "env \<Rightarrow> event_trigger \<Rightarrow> evm_log option \<Rightarrow> gstruct decoded_log outcome" where
  "child_AdaptDefaultAdminDelayChangeCanceled E t = adapt_log ''DefaultAdminDelayChangeCanceled'' (child_DecodeDefaultAdminDelayChangeCanceled E (vb_Codec (et_contract t)))"

definition child_LogTriggerDefaultAdminDelayChangeCanceledLog :: "trigger_fun" where
  "child_LogTriggerDefaultAdminDelayChangeCanceledLog E v chainSelector confidence filters =
     log_trigger v ''DefaultAdminDelayChangeCanceled'' ''DefaultAdminDelayChangeCanceled'' (child_EncodeDefaultAdminDelayChangeCanceledTopics E) chainSelector confidence filters"

definition child_FilterLogsDefaultAdminDelayChangeCanceled :: "query_fun" where
  "child_FilterLogsDefaultAdminDelayChangeCanceled E v options = filter_logs E v (child_DefaultAdminDelayChangeCanceledLogHash (vb_Codec v)) options"

definition child_EncodeDefaultAdminDelayChangeScheduledTopics :: "env \<Rightarrow> abi_event \<Rightarrow> gstruct list \<Rightarrow> byte list list list outcome" where
  "child_EncodeDefaultAdminDelayChangeScheduledTopics E evt values =
     encode_topics E evt [] values"

definition child_AdaptDefaultAdminDelayChangeScheduled :: "env \<Rightarrow> event_trigger \<Rightarrow> evm_log option \<Rightarrow> gstruct decoded_log outcome" where
  "child_AdaptDefaultAdminDelayChangeScheduled E t = adapt_log ''DefaultAdminDelayChangeScheduled'' (child_DecodeDefaultAdminDelayChangeScheduled E (vb_Codec (et_contract t)))"

definition child_LogTriggerDefaultAdminDelayChangeScheduledLog :: "trigger_fun" where
  "child_LogTriggerDefaultAdminDelayChangeScheduledLog E v chainSelector confidence filters =
     log_trigger v ''DefaultAdminDelayChangeScheduled'' ''DefaultAdminDelayChangeScheduled'' (child_EncodeDefaultAdminDelayChangeScheduledTopics E) chainSelector confidence filters"

definition child_FilterLogsDefaultAdminDelayChangeScheduled :: "query_fun" where
  "child_FilterLogsDefaultAdminDelayChangeScheduled E v options = filter_logs E v (child_DefaultAdminDelayChangeScheduledLogHash (vb_Codec v)) options"

definition child_EncodeDefaultAdminTransferCanceledTopics :: "env \<Rightarrow> abi_event \<Rightarrow> gstruct list \<Rightarrow> byte list list list outcome" where
  "child_EncodeDefaultAdminTransferCanceledTopics E evt values =
     encode_topics E evt [] values"

definition child_AdaptDefaultAdminTransferCanceled :: "env \<Rightarrow> event_trigger \<Rightarrow> evm_log option \<Rightarrow> gstruct decoded_log outcome" where
  "child_AdaptDefaultAdminTransferCanceled E t = adapt_log ''DefaultAdminTransferCanceled'' (child_DecodeDefaultAdminTransferCanceled E (vb_Codec (et_contract t)))"

definition child_LogTriggerDefaultAdminTransferCanceledLog :: "trigger_fun" where
  "child_LogTriggerDefaultAdminTransferCanceledLog E v chainSelector confidence filters =
     log_trigger v ''DefaultAdminTransferCanceled'' ''DefaultAdminTransferCanceled'' (child_EncodeDefaultAdminTransferCanceledTopics E) chainSelector confidence filters"

definition child_FilterLogsDefaultAdminTransferCanceled :: "query_fun" where
  "child_FilterLogsDefaultAdminTransferCanceled E v options = filter_logs E v (child_DefaultAdminTransferCanceledLogHash (vb_Codec v)) options"

definition child_EncodeDefaultAdminTransferScheduledTopics :: "env \<Rightarrow> abi_event \<Rightarrow> gstruct list \<Rightarrow> byte list list list outcome" where
  "child_EncodeDefaultAdminTransferScheduledTopics E evt values =
     encode_topics E evt [(0, ''NewAdmin'')] values"

definition child_AdaptDefaultAdminTransferScheduled :: "env \<Rightarrow> event_trigger \<Rightarrow> evm_log option \<Rightarrow> gstruct decoded_log outcome" where
  "child_AdaptDefaultAdminTransferScheduled E t = adapt_log ''DefaultAdminTransferScheduled'' (child_DecodeDefaultAdminTransferScheduled E (vb_Codec (et_contract t)))"

definition child_LogTriggerDefaultAdminTransferScheduledLog :: "trigger_fun" where
  "child_LogTriggerDefaultAdminTransferScheduledLog E v chainSelector confidence filters =
     log_trigger v ''DefaultAdminTransferScheduled'' ''DefaultAdminTransferScheduled'' (child_EncodeDefaultAdminTransferScheduledTopics E) chainSelector confidence filters"

definition child_FilterLogsDefaultAdminTransferScheduled :: "query_fun" where
  "child_FilterLogsDefaultAdminTransferScheduled E v options = filter_logs E v (child_DefaultAdminTransferScheduledLogHash (vb_Codec v)) options"

definition child_EncodeDefaultCcipGasLimitSetTopics :: "env \<Rightarrow> abi_event \<Rightarrow> gstruct list \<Rightarrow> byte list list list outcome" where
  "child_EncodeDefaultCcipGasLimitSetTopics E evt values =
     encode_topics E evt [(0, ''GasLimit'')] values"

definition child_AdaptDefaultCcipGasLimitSet :: "env \<Rightarrow> event_trigger \<Rightarrow> evm_log option \<Rightarrow> gstruct decoded_log outcome" where
  "child_AdaptDefaultCcipGasLimitSet E t = adapt_log ''DefaultCcipGasLimitSet'' (child_DecodeDefaultCcipGasLimitSet E (vb_Codec (et_contract t)))"

definition child_LogTriggerDefaultCcipGasLimitSetLog :: "trigger_fun" where
  "child_LogTriggerDefaultCcipGasLimitSetLog E v chainSelector confidence filters =
     log_trigger v ''DefaultCcipGasLimitSet'' ''DefaultCcipGasLimitSet'' (child_EncodeDefaultCcipGasLimitSetTopics E) chainSelector confidence filters"

definition child_FilterLogsDefaultCcipGasLimitSet :: "query_fun" where
  "child_FilterLogsDefaultCcipGasLimitSet E v options = filter_logs E v (child_DefaultCcipGasLimitSetLogHash (vb_Codec v)) options"

definition child_EncodeDefaultCcipGasLimitSet0Topics :: "env \<Rightarrow> abi_event \<Rightarrow> gstruct list \<Rightarrow> byte list list list outcome" where
  "child_EncodeDefaultCcipGasLimitSet0Topics E evt values =
     encode_topics E evt [(0, ''GasLimit'')] values"

definition child_AdaptDefaultCcipGasLimitSet0 :: "env \<Rightarrow> event_trigger \<Rightarrow> evm_log option \<Rightarrow> gstruct decoded_log outcome" where
  "child_AdaptDefaultCcipGasLimitSet0 E t = adapt_log ''DefaultCcipGasLimitSet0'' (child_DecodeDefaultCcipGasLimitSet0 E (vb_Codec (et_contract t)))"

definition child_LogTriggerDefaultCcipGasLimitSet0Log :: "trigger_fun" where
  "child_LogTriggerDefaultCcipGasLimitSet0Log E v chainSelector confidence filters =
     log_trigger v ''DefaultCcipGasLimitSet0'' ''DefaultCcipGasLimitSet0'' (child_EncodeDefaultCcipGasLimitSet0Topics E) chainSelector confidence filters"

definition child_FilterLogsDefaultCcipGasLimitSet0 :: "query_fun" where
  "child_FilterLogsDefaultCcipGasLimitSet0 E v options = filter_logs E v (child_DefaultCcipGasLimitSet0LogHash (vb_Codec v)) options"

definition child_EncodeEpochDepositRecoveryClearedTopics :: "env \<Rightarrow> abi_event \<Rightarrow> gstruct list \<Rightarrow> byte list list list outcome" where
  "child_EncodeEpochDepositRecoveryClearedTopics E evt values =
     encode_topics E evt [(0, ''EpochNonce'')] values"

definition child_AdaptEpochDepositRecoveryCleared :: "env \<Rightarrow> event_trigger \<Rightarrow> evm_log option \<Rightarrow> gstruct decoded_log outcome" where
  "child_AdaptEpochDepositRecoveryCleared E t = adapt_log ''EpochDepositRecoveryCleared'' (child_DecodeEpochDepositRecoveryCleared E (vb_Codec (et_contract t)))"

definition child_LogTriggerEpochDepositRecoveryClearedLog :: "trigger_fun" where
  "child_LogTriggerEpochDepositRecoveryClearedLog E v chainSelector confidence filters =
     log_trigger v ''EpochDepositRecoveryCleared'' ''EpochDepositRecoveryCleared'' (child_EncodeEpochDepositRecoveryClearedTopics E) chainSelector confidence filters"

definition child_FilterLogsEpochDepositRecoveryCleared :: "query_fun" where
  "child_FilterLogsEpochDepositRecoveryCleared E v options = filter_logs E v (child_EpochDepositRecoveryClearedLogHash (vb_Codec v)) options"

definition child_EncodeEpochDepositRecoveryStoredTopics :: "env \<Rightarrow> abi_event \<Rightarrow> gstruct list \<Rightarrow> byte list list list outcome" where
  "child_EncodeEpochDepositRecoveryStoredTopics E evt values =
     encode_topics E evt [(0, ''EpochNonce''), (1, ''Amount'')] values"

definition child_AdaptEpochDepositRecoveryStored :: "env \<Rightarrow> event_trigger \<Rightarrow> evm_log option \<Rightarrow> gstruct decoded_log outcome" where
  "child_AdaptEpochDepositRecoveryStored E t = adapt_log ''EpochDepositRecoveryStored'' (child_DecodeEpochDepositRecoveryStored E (vb_Codec (et_contract t)))"

definition child_LogTriggerEpochDepositRecoveryStoredLog :: "trigger_fun" where
  "child_LogTriggerEpochDepositRecoveryStoredLog E v chainSelector confidence filters =
     log_trigger v ''EpochDepositRecoveryStored'' ''EpochDepositRecoveryStored'' (child_EncodeEpochDepositRecoveryStoredTopics E) chainSelector confidence filters"

definition child_FilterLogsEpochDepositRecoveryStored :: "query_fun" where
  "child_FilterLogsEpochDepositRecoveryStored E v options = filter_logs E v (child_EpochDepositRecoveryStoredLogHash (vb_Codec v)) options"

definition child_EncodeEpochDepositToStrategyFailureTopics :: "env \<Rightarrow> abi_event \<Rightarrow> gstruct list \<Rightarrow> byte list list list outcome" where
  "child_EncodeEpochDepositToStrategyFailureTopics E evt values =
     encode_topics E evt [(0, ''EpochNonce''), (1, ''Amount'')] values"

definition child_AdaptEpochDepositToStrategyFailure :: "env \<Rightarrow> event_trigger \<Rightarrow> evm_log option \<Rightarrow> gstruct decoded_log outcome" where
  "child_AdaptEpochDepositToStrategyFailure E t = adapt_log ''EpochDepositToStrategyFailure'' (child_DecodeEpochDepositToStrategyFailure E (vb_Codec (et_contract t)))"

definition child_LogTriggerEpochDepositToStrategyFailureLog :: "trigger_fun" where
  "child_LogTriggerEpochDepositToStrategyFailureLog E v chainSelector confidence filters =
     log_trigger v ''EpochDepositToStrategyFailure'' ''EpochDepositToStrategyFailure'' (child_EncodeEpochDepositToStrategyFailureTopics E) chainSelector confidence filters"

definition child_FilterLogsEpochDepositToStrategyFailure :: "query_fun" where
  "child_FilterLogsEpochDepositToStrategyFailure E v options = filter_logs E v (child_EpochDepositToStrategyFailureLogHash (vb_Codec v)) options"

definition child_EncodeEpochDepositToStrategySuccessTopics :: "env \<Rightarrow> abi_event \<Rightarrow> gstruct list \<Rightarrow> byte list list list outcome" where
  "child_EncodeEpochDepositToStrategySuccessTopics E evt values =
     encode_topics E evt [(0, ''EpochNonce''), (1, ''Amount'')] values"

definition child_AdaptEpochDepositToStrategySuccess :: "env \<Rightarrow> event_trigger \<Rightarrow> evm_log option \<Rightarrow> EpochDepositToStrategySuccessDecoded decoded_log outcome" where
  "child_AdaptEpochDepositToStrategySuccess E t = adapt_log ''EpochDepositToStrategySuccess'' (DecodeEpochDepositToStrategySuccess E (vb_Codec (et_contract t)))"

definition child_LogTriggerEpochDepositToStrategySuccessLog :: "trigger_fun" where
  "child_LogTriggerEpochDepositToStrategySuccessLog E v chainSelector confidence filters =
     log_trigger v ''EpochDepositToStrategySuccess'' ''EpochDepositToStrategySuccess'' (child_EncodeEpochDepositToStrategySuccessTopics E) chainSelector confidence filters"

definition child_FilterLogsEpochDepositToStrategySuccess :: "query_fun" where
  "child_FilterLogsEpochDepositToStrategySuccess E v options = filter_logs E v (EpochDepositToStrategySuccessLogHash (vb_Codec v)) options"

definition child_EncodeEpochWithdrawFromStrategyFailureTopics :: "env \<Rightarrow> abi_event \<Rightarrow> gstruct list \<Rightarrow> byte list list list outcome" where
  "child_EncodeEpochWithdrawFromStrategyFailureTopics E evt values =
     encode_topics E evt [(0, ''EpochNonce''), (1, ''Amount'')] values"

definition child_AdaptEpochWithdrawFromStrategyFailure :: "env \<Rightarrow> event_trigger \<Rightarrow> evm_log option \<Rightarrow> gstruct decoded_log outcome" where
  "child_AdaptEpochWithdrawFromStrategyFailure E t = adapt_log ''EpochWithdrawFromStrategyFailure'' (child_DecodeEpochWithdrawFromStrategyFailure E (vb_Codec (et_contract t)))"

definition child_LogTriggerEpochWithdrawFromStrategyFailureLog :: "trigger_fun" where
  "child_LogTriggerEpochWithdrawFromStrategyFailureLog E v chainSelector confidence filters =
     log_trigger v ''EpochWithdrawFromStrategyFailure'' ''EpochWithdrawFromStrategyFailure'' (child_EncodeEpochWithdrawFromStrategyFailureTopics E) chainSelector confidence filters"

definition child_FilterLogsEpochWithdrawFromStrategyFailure :: "query_fun" where
  "child_FilterLogsEpochWithdrawFromStrategyFailure E v options = filter_logs E v (child_EpochWithdrawFromStrategyFailureLogHash (vb_Codec v)) options"

definition child_EncodeEpochWithdrawFromStrategySuccessTopics :: "env \<Rightarrow> abi_event \<Rightarrow> gstruct list \<Rightarrow> byte list list list outcome" where
  "child_EncodeEpochWithdrawFromStrategySuccessTopics E evt values =
     encode_topics E evt [(0, ''EpochNonce''), (1, ''Amount'')] values"

definition child_AdaptEpochWithdrawFromStrategySuccess :: "env \<Rightarrow> event_trigger \<Rightarrow> evm_log option \<Rightarrow> gstruct decoded_log outcome" where
  "child_AdaptEpochWithdrawFromStrategySuccess E t = adapt_log ''EpochWithdrawFromStrategySuccess'' (child_DecodeEpochWithdrawFromStrategySuccess E (vb_Codec (et_contract t)))"

definition child_LogTriggerEpochWithdrawFromStrategySuccessLog :: "trigger_fun" where
  "child_LogTriggerEpochWithdrawFromStrategySuccessLog E v chainSelector confidence filters =
     log_trigger v ''EpochWithdrawFromStrategySuccess'' ''EpochWithdrawFromStrategySuccess'' (child_EncodeEpochWithdrawFromStrategySuccessTopics E) chainSelector confidence filters"

definition child_FilterLogsEpochWithdrawFromStrategySuccess :: "query_fun" where
  "child_FilterLogsEpochWithdrawFromStrategySuccess E v options = filter_logs E v (child_EpochWithdrawFromStrategySuccessLogHash (vb_Codec v)) options"

definition child_EncodeEpochWithdrawRecoveryClearedTopics :: "env \<Rightarrow> abi_event \<Rightarrow> gstruct list \<Rightarrow> byte list list list outcome" where
  "child_EncodeEpochWithdrawRecoveryClearedTopics E evt values =
     encode_topics E evt [(0, ''EpochNonce'')] values"

definition child_AdaptEpochWithdrawRecoveryCleared :: "env \<Rightarrow> event_trigger \<Rightarrow> evm_log option \<Rightarrow> gstruct decoded_log outcome" where
  "child_AdaptEpochWithdrawRecoveryCleared E t = adapt_log ''EpochWithdrawRecoveryCleared'' (child_DecodeEpochWithdrawRecoveryCleared E (vb_Codec (et_contract t)))"

definition child_LogTriggerEpochWithdrawRecoveryClearedLog :: "trigger_fun" where
  "child_LogTriggerEpochWithdrawRecoveryClearedLog E v chainSelector confidence filters =
     log_trigger v ''EpochWithdrawRecoveryCleared'' ''EpochWithdrawRecoveryCleared'' (child_EncodeEpochWithdrawRecoveryClearedTopics E) chainSelector confidence filters"

definition child_FilterLogsEpochWithdrawRecoveryCleared :: "query_fun" where
  "child_FilterLogsEpochWithdrawRecoveryCleared E v options = filter_logs E v (child_EpochWithdrawRecoveryClearedLogHash (vb_Codec v)) options"

definition child_EncodeEpochWithdrawRecoveryStoredTopics :: "env \<Rightarrow> abi_event \<Rightarrow> gstruct list \<Rightarrow> byte list list list outcome" where
  "child_EncodeEpochWithdrawRecoveryStoredTopics E evt values =
     encode_topics E evt [(0, ''EpochNonce''), (1, ''Amount'')] values"

definition child_AdaptEpochWithdrawRecoveryStored :: "env \<Rightarrow> event_trigger \<Rightarrow> evm_log option \<Rightarrow> gstruct decoded_log outcome" where
  "child_AdaptEpochWithdrawRecoveryStored E t = adapt_log ''EpochWithdrawRecoveryStored'' (child_DecodeEpochWithdrawRecoveryStored E (vb_Codec (et_contract t)))"

definition child_LogTriggerEpochWithdrawRecoveryStoredLog :: "trigger_fun" where
  "child_LogTriggerEpochWithdrawRecoveryStoredLog E v chainSelector confidence filters =
     log_trigger v ''EpochWithdrawRecoveryStored'' ''EpochWithdrawRecoveryStored'' (child_EncodeEpochWithdrawRecoveryStoredTopics E) chainSelector confidence filters"

definition child_FilterLogsEpochWithdrawRecoveryStored :: "query_fun" where
  "child_FilterLogsEpochWithdrawRecoveryStored E v options = filter_logs E v (child_EpochWithdrawRecoveryStoredLogHash (vb_Codec v)) options"

definition child_EncodeInitializedTopics :: "env \<Rightarrow> abi_event \<Rightarrow> gstruct list \<Rightarrow> byte list list list outcome" where
  "child_EncodeInitializedTopics E evt values =
     encode_topics E evt [] values"

definition child_AdaptInitialized :: "env \<Rightarrow> event_trigger \<Rightarrow> evm_log option \<Rightarrow> gstruct decoded_log outcome" where
  "child_AdaptInitialized E t = adapt_log ''Initialized'' (child_DecodeInitialized E (vb_Codec (et_contract t)))"

definition child_LogTriggerInitializedLog :: "trigger_fun" where
  "child_LogTriggerInitializedLog E v chainSelector confidence filters =
     log_trigger v ''Initialized'' ''Initialized'' (child_EncodeInitializedTopics E) chainSelector confidence filters"

definition child_FilterLogsInitialized :: "query_fun" where
  "child_FilterLogsInitialized E v options = filter_logs E v (child_InitializedLogHash (vb_Codec v)) options"

definition child_EncodeLinkWithdrawnTopics :: "env \<Rightarrow> abi_event \<Rightarrow> gstruct list \<Rightarrow> byte list list list outcome" where
  "child_EncodeLinkWithdrawnTopics E evt values =
     encode_topics E evt [(0, ''Operator''), (1, ''Amount'')] values"

definition child_AdaptLinkWithdrawn :: "env \<Rightarrow> event_trigger \<Rightarrow> evm_log option \<Rightarrow> gstruct decoded_log outcome" where
  "child_AdaptLinkWithdrawn E t = adapt_log ''LinkWithdrawn'' (child_DecodeLinkWithdrawn E (vb_Codec (et_contract t)))"

definition child_LogTriggerLinkWithdrawnLog :: "trigger_fun" where
  "child_LogTriggerLinkWithdrawnLog E v chainSelector confidence filters =
     log_trigger v ''LinkWithdrawn'' ''LinkWithdrawn'' (child_EncodeLinkWithdrawnTopics E) chainSelector confidence filters"

definition child_FilterLogsLinkWithdrawn :: "query_fun" where
  "child_FilterLogsLinkWithdrawn E v options = filter_logs E v (child_LinkWithdrawnLogHash (vb_Codec v)) options"

definition child_EncodePausedTopics :: "env \<Rightarrow> abi_event \<Rightarrow> gstruct list \<Rightarrow> byte list list list outcome" where
  "child_EncodePausedTopics E evt values =
     encode_topics E evt [] values"

definition child_AdaptPaused :: "env \<Rightarrow> event_trigger \<Rightarrow> evm_log option \<Rightarrow> gstruct decoded_log outcome" where
  "child_AdaptPaused E t = adapt_log ''Paused'' (child_DecodePaused E (vb_Codec (et_contract t)))"

definition child_LogTriggerPausedLog :: "trigger_fun" where
  "child_LogTriggerPausedLog E v chainSelector confidence filters =
     log_trigger v ''Paused'' ''Paused'' (child_EncodePausedTopics E) chainSelector confidence filters"

definition child_FilterLogsPaused :: "query_fun" where
  "child_FilterLogsPaused E v options = filter_logs E v (child_PausedLogHash (vb_Codec v)) options"

definition child_EncodeRebalanceDepositFailureTopics :: "env \<Rightarrow> abi_event \<Rightarrow> gstruct list \<Rightarrow> byte list list list outcome" where
  "child_EncodeRebalanceDepositFailureTopics E evt values =
     encode_topics E evt [(0, ''RebalanceNonce''), (1, ''Amount'')] values"

definition child_AdaptRebalanceDepositFailure :: "env \<Rightarrow> event_trigger \<Rightarrow> evm_log option \<Rightarrow> gstruct decoded_log outcome" where
  "child_AdaptRebalanceDepositFailure E t = adapt_log ''RebalanceDepositFailure'' (child_DecodeRebalanceDepositFailure E (vb_Codec (et_contract t)))"

definition child_LogTriggerRebalanceDepositFailureLog :: "trigger_fun" where
  "child_LogTriggerRebalanceDepositFailureLog E v chainSelector confidence filters =
     log_trigger v ''RebalanceDepositFailure'' ''RebalanceDepositFailure'' (child_EncodeRebalanceDepositFailureTopics E) chainSelector confidence filters"

definition child_FilterLogsRebalanceDepositFailure :: "query_fun" where
  "child_FilterLogsRebalanceDepositFailure E v options = filter_logs E v (child_RebalanceDepositFailureLogHash (vb_Codec v)) options"

definition child_EncodeRebalanceDepositRecoveryClearedTopics :: "env \<Rightarrow> abi_event \<Rightarrow> gstruct list \<Rightarrow> byte list list list outcome" where
  "child_EncodeRebalanceDepositRecoveryClearedTopics E evt values =
     encode_topics E evt [(0, ''RebalanceNonce'')] values"

definition child_AdaptRebalanceDepositRecoveryCleared :: "env \<Rightarrow> event_trigger \<Rightarrow> evm_log option \<Rightarrow> gstruct decoded_log outcome" where
  "child_AdaptRebalanceDepositRecoveryCleared E t = adapt_log ''RebalanceDepositRecoveryCleared'' (child_DecodeRebalanceDepositRecoveryCleared E (vb_Codec (et_contract t)))"

definition child_LogTriggerRebalanceDepositRecoveryClearedLog :: "trigger_fun" where
  "child_LogTriggerRebalanceDepositRecoveryClearedLog E v chainSelector confidence filters =
     log_trigger v ''RebalanceDepositRecoveryCleared'' ''RebalanceDepositRecoveryCleared'' (child_EncodeRebalanceDepositRecoveryClearedTopics E) chainSelector confidence filters"

definition child_FilterLogsRebalanceDepositRecoveryCleared :: "query_fun" where
  "child_FilterLogsRebalanceDepositRecoveryCleared E v options = filter_logs E v (child_RebalanceDepositRecoveryClearedLogHash (vb_Codec v)) options"

definition child_EncodeRebalanceDepositRecoveryStoredTopics :: "env \<Rightarrow> abi_event \<Rightarrow> gstruct list \<Rightarrow> byte list list list outcome" where
  "child_EncodeRebalanceDepositRecoveryStoredTopics E evt values =
     encode_topics E evt [(0, ''RebalanceNonce''), (1, ''Amount'')] values"

definition child_AdaptRebalanceDepositRecoveryStored :: "env \<Rightarrow> event_trigger \<Rightarrow> evm_log option \<Rightarrow> gstruct decoded_log outcome" where
  "child_AdaptRebalanceDepositRecoveryStored E t = adapt_log ''RebalanceDepositRecoveryStored'' (child_DecodeRebalanceDepositRecoveryStored E (vb_Codec (et_contract t)))"

definition child_LogTriggerRebalanceDepositRecoveryStoredLog :: "trigger_fun" where
  "child_LogTriggerRebalanceDepositRecoveryStoredLog E v chainSelector confidence filters =
     log_trigger v ''RebalanceDepositRecoveryStored'' ''RebalanceDepositRecoveryStored'' (child_EncodeRebalanceDepositRecoveryStoredTopics E) chainSelector confidence filters"

definition child_FilterLogsRebalanceDepositRecoveryStored :: "query_fun" where
  "child_FilterLogsRebalanceDepositRecoveryStored E v options = filter_logs E v (child_RebalanceDepositRecoveryStoredLogHash (vb_Codec v)) options"

definition child_EncodeRebalanceDepositSuccessTopics :: "env \<Rightarrow> abi_event \<Rightarrow> gstruct list \<Rightarrow> byte list list list outcome" where
  "child_EncodeRebalanceDepositSuccessTopics E evt values =
     encode_topics E evt [(0, ''RebalanceNonce''), (1, ''Amount'')] values"

definition child_AdaptRebalanceDepositSuccess :: "env \<Rightarrow> event_trigger \<Rightarrow> evm_log option \<Rightarrow> gstruct decoded_log outcome" where
  "child_AdaptRebalanceDepositSuccess E t = adapt_log ''RebalanceDepositSuccess'' (child_DecodeRebalanceDepositSuccess E (vb_Codec (et_contract t)))"

definition child_LogTriggerRebalanceDepositSuccessLog :: "trigger_fun" where
  "child_LogTriggerRebalanceDepositSuccessLog E v chainSelector confidence filters =
     log_trigger v ''RebalanceDepositSuccess'' ''RebalanceDepositSuccess'' (child_EncodeRebalanceDepositSuccessTopics E) chainSelector confidence filters"

definition child_FilterLogsRebalanceDepositSuccess :: "query_fun" where
  "child_FilterLogsRebalanceDepositSuccess E v options = filter_logs E v (RebalanceDepositSuccessLogHash (vb_Codec v)) options"

definition child_EncodeRebalanceWithdrawFailureTopics :: "env \<Rightarrow> abi_event \<Rightarrow> gstruct list \<Rightarrow> byte list list list outcome" where
  "child_EncodeRebalanceWithdrawFailureTopics E evt values =
     encode_topics E evt [(0, ''RebalanceNonce'')] values"

definition child_AdaptRebalanceWithdrawFailure :: "env \<Rightarrow> event_trigger \<Rightarrow> evm_log option \<Rightarrow> gstruct decoded_log outcome" where
  "child_AdaptRebalanceWithdrawFailure E t = adapt_log ''RebalanceWithdrawFailure'' (child_DecodeRebalanceWithdrawFailure E (vb_Codec (et_contract t)))"

definition child_LogTriggerRebalanceWithdrawFailureLog :: "trigger_fun" where
  "child_LogTriggerRebalanceWithdrawFailureLog E v chainSelector confidence filters =
     log_trigger v ''RebalanceWithdrawFailure'' ''RebalanceWithdrawFailure'' (child_EncodeRebalanceWithdrawFailureTopics E) chainSelector confidence filters"

definition child_FilterLogsRebalanceWithdrawFailure :: "query_fun" where
  "child_FilterLogsRebalanceWithdrawFailure E v options = filter_logs E v (child_RebalanceWithdrawFailureLogHash (vb_Codec v)) options"

definition child_EncodeRebalanceWithdrawRecoveryClearedTopics :: "env \<Rightarrow> abi_event \<Rightarrow> gstruct list \<Rightarrow> byte list list list outcome" where
  "child_EncodeRebalanceWithdrawRecoveryClearedTopics E evt values =
     encode_topics E evt [(0, ''RebalanceNonce'')] values"

definition child_AdaptRebalanceWithdrawRecoveryCleared :: "env \<Rightarrow> event_trigger \<Rightarrow> evm_log option \<Rightarrow> gstruct decoded_log outcome" where
  "child_AdaptRebalanceWithdrawRecoveryCleared E t = adapt_log ''RebalanceWithdrawRecoveryCleared'' (child_DecodeRebalanceWithdrawRecoveryCleared E (vb_Codec (et_contract t)))"

definition child_LogTriggerRebalanceWithdrawRecoveryClearedLog :: "trigger_fun" where
  "child_LogTriggerRebalanceWithdrawRecoveryClearedLog E v chainSelector confidence filters =
     log_trigger v ''RebalanceWithdrawRecoveryCleared'' ''RebalanceWithdrawRecoveryCleared'' (child_EncodeRebalanceWithdrawRecoveryClearedTopics E) chainSelector confidence filters"

definition child_FilterLogsRebalanceWithdrawRecoveryCleared :: "query_fun" where
  "child_FilterLogsRebalanceWithdrawRecoveryCleared E v options = filter_logs E v (child_RebalanceWithdrawRecoveryClearedLogHash (vb_Codec v)) options"

definition child_EncodeRebalanceWithdrawRecoveryStoredTopics :: "env \<Rightarrow> abi_event \<Rightarrow> gstruct list \<Rightarrow> byte list list list outcome" where
  "child_EncodeRebalanceWithdrawRecoveryStoredTopics E evt values =
     encode_topics E evt [(0, ''RebalanceNonce''), (1, ''ProtocolId''), (2, ''ChainSelector'')] values"

definition child_AdaptRebalanceWithdrawRecoveryStored :: "env \<Rightarrow> event_trigger \<Rightarrow> evm_log option \<Rightarrow> gstruct decoded_log outcome" where
  "child_AdaptRebalanceWithdrawRecoveryStored E t = adapt_log ''RebalanceWithdrawRecoveryStored'' (child_DecodeRebalanceWithdrawRecoveryStored E (vb_Codec (et_contract t)))"

definition child_LogTriggerRebalanceWithdrawRecoveryStoredLog :: "trigger_fun" where
  "child_LogTriggerRebalanceWithdrawRecoveryStoredLog E v chainSelector confidence filters =
     log_trigger v ''RebalanceWithdrawRecoveryStored'' ''RebalanceWithdrawRecoveryStored'' (child_EncodeRebalanceWithdrawRecoveryStoredTopics E) chainSelector confidence filters"

definition child_FilterLogsRebalanceWithdrawRecoveryStored :: "query_fun" where
  "child_FilterLogsRebalanceWithdrawRecoveryStored E v options = filter_logs E v (child_RebalanceWithdrawRecoveryStoredLogHash (vb_Codec v)) options"

definition child_EncodeRebalanceWithdrawSuccessTopics :: "env \<Rightarrow> abi_event \<Rightarrow> gstruct list \<Rightarrow> byte list list list outcome" where
  "child_EncodeRebalanceWithdrawSuccessTopics E evt values =
     encode_topics E evt [(0, ''RebalanceNonce''), (1, ''Amount'')] values"

definition child_AdaptRebalanceWithdrawSuccess :: "env \<Rightarrow> event_trigger \<Rightarrow> evm_log option \<Rightarrow> gstruct decoded_log outcome" where
  "child_AdaptRebalanceWithdrawSuccess E t = adapt_log ''RebalanceWithdrawSuccess'' (child_DecodeRebalanceWithdrawSuccess E (vb_Codec (et_contract t)))"

definition child_LogTriggerRebalanceWithdrawSuccessLog :: "trigger_fun" where
  "child_LogTriggerRebalanceWithdrawSuccessLog E v chainSelector confidence filters =
     log_trigger v ''RebalanceWithdrawSuccess'' ''RebalanceWithdrawSuccess'' (child_EncodeRebalanceWithdrawSuccessTopics E) chainSelector confidence filters"

definition child_FilterLogsRebalanceWithdrawSuccess :: "query_fun" where
  "child_FilterLogsRebalanceWithdrawSuccess E v options = filter_logs E v (child_RebalanceWithdrawSuccessLogHash (vb_Codec v)) options"

definition child_EncodeRoleAdminChangedTopics :: "env \<Rightarrow> abi_event \<Rightarrow> gstruct list \<Rightarrow> byte list list list outcome" where
  "child_EncodeRoleAdminChangedTopics E evt values =
     encode_topics E evt [(0, ''Role''), (1, ''PreviousAdminRole''), (2, ''NewAdminRole'')] values"

definition child_AdaptRoleAdminChanged :: "env \<Rightarrow> event_trigger \<Rightarrow> evm_log option \<Rightarrow> gstruct decoded_log outcome" where
  "child_AdaptRoleAdminChanged E t = adapt_log ''RoleAdminChanged'' (child_DecodeRoleAdminChanged E (vb_Codec (et_contract t)))"

definition child_LogTriggerRoleAdminChangedLog :: "trigger_fun" where
  "child_LogTriggerRoleAdminChangedLog E v chainSelector confidence filters =
     log_trigger v ''RoleAdminChanged'' ''RoleAdminChanged'' (child_EncodeRoleAdminChangedTopics E) chainSelector confidence filters"

definition child_FilterLogsRoleAdminChanged :: "query_fun" where
  "child_FilterLogsRoleAdminChanged E v options = filter_logs E v (child_RoleAdminChangedLogHash (vb_Codec v)) options"

definition child_EncodeRoleGrantedTopics :: "env \<Rightarrow> abi_event \<Rightarrow> gstruct list \<Rightarrow> byte list list list outcome" where
  "child_EncodeRoleGrantedTopics E evt values =
     encode_topics E evt [(0, ''Role''), (1, ''Account''), (2, ''Sender'')] values"

definition child_AdaptRoleGranted :: "env \<Rightarrow> event_trigger \<Rightarrow> evm_log option \<Rightarrow> gstruct decoded_log outcome" where
  "child_AdaptRoleGranted E t = adapt_log ''RoleGranted'' (child_DecodeRoleGranted E (vb_Codec (et_contract t)))"

definition child_LogTriggerRoleGrantedLog :: "trigger_fun" where
  "child_LogTriggerRoleGrantedLog E v chainSelector confidence filters =
     log_trigger v ''RoleGranted'' ''RoleGranted'' (child_EncodeRoleGrantedTopics E) chainSelector confidence filters"

definition child_FilterLogsRoleGranted :: "query_fun" where
  "child_FilterLogsRoleGranted E v options = filter_logs E v (child_RoleGrantedLogHash (vb_Codec v)) options"

definition child_EncodeRoleRevokedTopics :: "env \<Rightarrow> abi_event \<Rightarrow> gstruct list \<Rightarrow> byte list list list outcome" where
  "child_EncodeRoleRevokedTopics E evt values =
     encode_topics E evt [(0, ''Role''), (1, ''Account''), (2, ''Sender'')] values"

definition child_AdaptRoleRevoked :: "env \<Rightarrow> event_trigger \<Rightarrow> evm_log option \<Rightarrow> gstruct decoded_log outcome" where
  "child_AdaptRoleRevoked E t = adapt_log ''RoleRevoked'' (child_DecodeRoleRevoked E (vb_Codec (et_contract t)))"

definition child_LogTriggerRoleRevokedLog :: "trigger_fun" where
  "child_LogTriggerRoleRevokedLog E v chainSelector confidence filters =
     log_trigger v ''RoleRevoked'' ''RoleRevoked'' (child_EncodeRoleRevokedTopics E) chainSelector confidence filters"

definition child_FilterLogsRoleRevoked :: "query_fun" where
  "child_FilterLogsRoleRevoked E v options = filter_logs E v (child_RoleRevokedLogHash (vb_Codec v)) options"

definition child_EncodeUnpausedTopics :: "env \<Rightarrow> abi_event \<Rightarrow> gstruct list \<Rightarrow> byte list list list outcome" where
  "child_EncodeUnpausedTopics E evt values =
     encode_topics E evt [] values"

definition child_AdaptUnpaused :: "env \<Rightarrow> event_trigger \<Rightarrow> evm_log option \<Rightarrow> gstruct decoded_log outcome" where
  "child_AdaptUnpaused E t = adapt_log ''Unpaused'' (child_DecodeUnpaused E (vb_Codec (et_contract t)))"

definition child_LogTriggerUnpausedLog :: "trigger_fun" where
  "child_LogTriggerUnpausedLog E v chainSelector confidence filters =
     log_trigger v ''Unpaused'' ''Unpaused'' (child_EncodeUnpausedTopics E) chainSelector confidence filters"

definition child_FilterLogsUnpaused :: "query_fun" where
  "child_FilterLogsUnpaused E v options = filter_logs E v (child_UnpausedLogHash (vb_Codec v)) options"

definition child_EncodeUpgradedTopics :: "env \<Rightarrow> abi_event \<Rightarrow> gstruct list \<Rightarrow> byte list list list outcome" where
  "child_EncodeUpgradedTopics E evt values =
     encode_topics E evt [(0, ''Implementation'')] values"

definition child_AdaptUpgraded :: "env \<Rightarrow> event_trigger \<Rightarrow> evm_log option \<Rightarrow> gstruct decoded_log outcome" where
  "child_AdaptUpgraded E t = adapt_log ''Upgraded'' (child_DecodeUpgraded E (vb_Codec (et_contract t)))"

definition child_LogTriggerUpgradedLog :: "trigger_fun" where
  "child_LogTriggerUpgradedLog E v chainSelector confidence filters =
     log_trigger v ''Upgraded'' ''Upgraded'' (child_EncodeUpgradedTopics E) chainSelector confidence filters"

definition child_FilterLogsUpgraded :: "query_fun" where
  "child_FilterLogsUpgraded E v options = filter_logs E v (child_UpgradedLogHash (vb_Codec v)) options"

section \<open>The events against their interface\<close>

definition child_event_table :: "event_spec list" where
  "child_event_table =
     [\<lparr>es_Go = ''ActiveProtocolAdapterCleared'', es_Name = ''ActiveProtocolAdapterCleared'', es_Topics = [(0,
        ''Adapter'', TAddr)]\<rparr>,
      \<lparr>es_Go = ''ActiveProtocolAdapterCleared0'', es_Name = ''ActiveProtocolAdapterCleared0'', es_Topics = [(0,
        ''Adapter'', TAddr)]\<rparr>,
      \<lparr>es_Go = ''ActiveProtocolAdapterSet'', es_Name = ''ActiveProtocolAdapterSet'', es_Topics = [(0,
        ''ProtocolId'', TFix 32), (1, ''Adapter'', TAddr)]\<rparr>,
      \<lparr>es_Go = ''ActiveProtocolAdapterSet0'', es_Name = ''ActiveProtocolAdapterSet0'', es_Topics = [(0,
        ''ProtocolId'', TFix 32), (1, ''Adapter'', TAddr)]\<rparr>,
      \<lparr>es_Go = ''CCIPBridged'', es_Name = ''CCIPBridged'', es_Topics = [(0, ''CcipMessageId'', TFix 32),
        (1, ''DestinationChainSelector'', TU64), (2, ''CcipTxType'', TU8)]\<rparr>,
      \<lparr>es_Go = ''CCIPBridged0'', es_Name = ''CCIPBridged0'', es_Topics = [(0, ''CcipMessageId'', TFix 32),
        (1, ''DestinationChainSelector'', TU64), (2, ''CcipTxType'', TU8)]\<rparr>,
      \<lparr>es_Go = ''CCIPReceived'', es_Name = ''CCIPReceived'', es_Topics = [(0, ''CcipMessageId'', TFix 32),
        (1, ''SourceChainSelector'', TU64), (2, ''CcipTxType'', TU8)]\<rparr>,
      \<lparr>es_Go = ''CcipGasLimitSet'', es_Name = ''CcipGasLimitSet'', es_Topics = [(0, ''ChainSelector'', TU64),
        (1, ''GasLimit'', TBig)]\<rparr>,
      \<lparr>es_Go = ''CcipGasLimitSet0'', es_Name = ''CcipGasLimitSet0'', es_Topics = [(0, ''ChainSelector'', TU64),
        (1, ''GasLimit'', TBig)]\<rparr>,
      \<lparr>es_Go = ''CcipSendRecoveryCleared'', es_Name = ''CcipSendRecoveryCleared'', es_Topics = [(0,
        ''CcipTxType'', TU8), (1, ''DestinationChainSelector'', TU64), (2, ''Amount'', TBig)]\<rparr>,
      \<lparr>es_Go = ''CcipSendRecoveryStored'', es_Name = ''CcipSendRecoveryStored'', es_Topics = [(0, ''CcipTxType'',
        TU8), (1, ''DestinationChainSelector'', TU64), (2, ''Amount'', TBig)]\<rparr>,
      \<lparr>es_Go = ''CrosschainVaultSet'', es_Name = ''CrosschainVaultSet'', es_Topics = [(0, ''ChainSelector'',
        TU64), (1, ''Vault'', TAddr)]\<rparr>,
      \<lparr>es_Go = ''CrosschainVaultSet0'', es_Name = ''CrosschainVaultSet0'', es_Topics = [(0, ''ChainSelector'',
        TU64), (1, ''Vault'', TAddr)]\<rparr>,
      \<lparr>es_Go = ''DefaultAdminDelayChangeCanceled'', es_Name = ''DefaultAdminDelayChangeCanceled'',
        es_Topics = []\<rparr>,
      \<lparr>es_Go = ''DefaultAdminDelayChangeScheduled'', es_Name = ''DefaultAdminDelayChangeScheduled'',
        es_Topics = []\<rparr>,
      \<lparr>es_Go = ''DefaultAdminTransferCanceled'', es_Name = ''DefaultAdminTransferCanceled'', es_Topics = []\<rparr>,
      \<lparr>es_Go = ''DefaultAdminTransferScheduled'', es_Name = ''DefaultAdminTransferScheduled'', es_Topics = [(0,
        ''NewAdmin'', TAddr)]\<rparr>,
      \<lparr>es_Go = ''DefaultCcipGasLimitSet'', es_Name = ''DefaultCcipGasLimitSet'', es_Topics = [(0, ''GasLimit'',
        TBig)]\<rparr>,
      \<lparr>es_Go = ''DefaultCcipGasLimitSet0'', es_Name = ''DefaultCcipGasLimitSet0'', es_Topics = [(0, ''GasLimit'',
        TBig)]\<rparr>,
      \<lparr>es_Go = ''EpochDepositRecoveryCleared'', es_Name = ''EpochDepositRecoveryCleared'', es_Topics = [(0,
        ''EpochNonce'', TBig)]\<rparr>,
      \<lparr>es_Go = ''EpochDepositRecoveryStored'', es_Name = ''EpochDepositRecoveryStored'', es_Topics = [(0,
        ''EpochNonce'', TBig), (1, ''Amount'', TBig)]\<rparr>,
      \<lparr>es_Go = ''EpochDepositToStrategyFailure'', es_Name = ''EpochDepositToStrategyFailure'', es_Topics = [(0,
        ''EpochNonce'', TBig), (1, ''Amount'', TBig)]\<rparr>,
      \<lparr>es_Go = ''EpochDepositToStrategySuccess'', es_Name = ''EpochDepositToStrategySuccess'', es_Topics = [(0,
        ''EpochNonce'', TBig), (1, ''Amount'', TBig)]\<rparr>,
      \<lparr>es_Go = ''EpochWithdrawFromStrategyFailure'', es_Name = ''EpochWithdrawFromStrategyFailure'',
        es_Topics = [(0, ''EpochNonce'', TBig), (1, ''Amount'', TBig)]\<rparr>,
      \<lparr>es_Go = ''EpochWithdrawFromStrategySuccess'', es_Name = ''EpochWithdrawFromStrategySuccess'',
        es_Topics = [(0, ''EpochNonce'', TBig), (1, ''Amount'', TBig)]\<rparr>,
      \<lparr>es_Go = ''EpochWithdrawRecoveryCleared'', es_Name = ''EpochWithdrawRecoveryCleared'', es_Topics = [(0,
        ''EpochNonce'', TBig)]\<rparr>,
      \<lparr>es_Go = ''EpochWithdrawRecoveryStored'', es_Name = ''EpochWithdrawRecoveryStored'', es_Topics = [(0,
        ''EpochNonce'', TBig), (1, ''Amount'', TBig)]\<rparr>,
      \<lparr>es_Go = ''Initialized'', es_Name = ''Initialized'', es_Topics = []\<rparr>,
      \<lparr>es_Go = ''LinkWithdrawn'', es_Name = ''LinkWithdrawn'', es_Topics = [(0, ''Operator'', TAddr),
        (1, ''Amount'', TBig)]\<rparr>,
      \<lparr>es_Go = ''Paused'', es_Name = ''Paused'', es_Topics = []\<rparr>,
      \<lparr>es_Go = ''RebalanceDepositFailure'', es_Name = ''RebalanceDepositFailure'', es_Topics = [(0,
        ''RebalanceNonce'', TBig), (1, ''Amount'', TBig)]\<rparr>,
      \<lparr>es_Go = ''RebalanceDepositRecoveryCleared'', es_Name = ''RebalanceDepositRecoveryCleared'',
        es_Topics = [(0, ''RebalanceNonce'', TBig)]\<rparr>,
      \<lparr>es_Go = ''RebalanceDepositRecoveryStored'', es_Name = ''RebalanceDepositRecoveryStored'', es_Topics = [(0,
        ''RebalanceNonce'', TBig), (1, ''Amount'', TBig)]\<rparr>,
      \<lparr>es_Go = ''RebalanceDepositSuccess'', es_Name = ''RebalanceDepositSuccess'', es_Topics = [(0,
        ''RebalanceNonce'', TBig), (1, ''Amount'', TBig)]\<rparr>,
      \<lparr>es_Go = ''RebalanceWithdrawFailure'', es_Name = ''RebalanceWithdrawFailure'', es_Topics = [(0,
        ''RebalanceNonce'', TBig)]\<rparr>,
      \<lparr>es_Go = ''RebalanceWithdrawRecoveryCleared'', es_Name = ''RebalanceWithdrawRecoveryCleared'',
        es_Topics = [(0, ''RebalanceNonce'', TBig)]\<rparr>,
      \<lparr>es_Go = ''RebalanceWithdrawRecoveryStored'', es_Name = ''RebalanceWithdrawRecoveryStored'',
        es_Topics = [(0, ''RebalanceNonce'', TBig), (1, ''ProtocolId'', TFix 32),
        (2, ''ChainSelector'', TU64)]\<rparr>,
      \<lparr>es_Go = ''RebalanceWithdrawSuccess'', es_Name = ''RebalanceWithdrawSuccess'', es_Topics = [(0,
        ''RebalanceNonce'', TBig), (1, ''Amount'', TBig)]\<rparr>,
      \<lparr>es_Go = ''RoleAdminChanged'', es_Name = ''RoleAdminChanged'', es_Topics = [(0, ''Role'', TFix 32),
        (1, ''PreviousAdminRole'', TFix 32), (2, ''NewAdminRole'', TFix 32)]\<rparr>,
      \<lparr>es_Go = ''RoleGranted'', es_Name = ''RoleGranted'', es_Topics = [(0, ''Role'', TFix 32),
        (1, ''Account'', TAddr), (2, ''Sender'', TAddr)]\<rparr>,
      \<lparr>es_Go = ''RoleRevoked'', es_Name = ''RoleRevoked'', es_Topics = [(0, ''Role'', TFix 32),
        (1, ''Account'', TAddr), (2, ''Sender'', TAddr)]\<rparr>,
      \<lparr>es_Go = ''Unpaused'', es_Name = ''Unpaused'', es_Topics = []\<rparr>,
      \<lparr>es_Go = ''Upgraded'', es_Name = ''Upgraded'', es_Topics = [(0, ''Implementation'', TAddr)]\<rparr>]"

definition child_subscriptions :: "(trigger_fun \<times> query_fun) list" where
  "child_subscriptions =
     [(child_LogTriggerActiveProtocolAdapterClearedLog, child_FilterLogsActiveProtocolAdapterCleared),
      (child_LogTriggerActiveProtocolAdapterCleared0Log, child_FilterLogsActiveProtocolAdapterCleared0),
      (child_LogTriggerActiveProtocolAdapterSetLog, child_FilterLogsActiveProtocolAdapterSet),
      (child_LogTriggerActiveProtocolAdapterSet0Log, child_FilterLogsActiveProtocolAdapterSet0),
      (child_LogTriggerCCIPBridgedLog, child_FilterLogsCCIPBridged),
      (child_LogTriggerCCIPBridged0Log, child_FilterLogsCCIPBridged0),
      (child_LogTriggerCCIPReceivedLog, child_FilterLogsCCIPReceived),
      (child_LogTriggerCcipGasLimitSetLog, child_FilterLogsCcipGasLimitSet),
      (child_LogTriggerCcipGasLimitSet0Log, child_FilterLogsCcipGasLimitSet0),
      (child_LogTriggerCcipSendRecoveryClearedLog, child_FilterLogsCcipSendRecoveryCleared),
      (child_LogTriggerCcipSendRecoveryStoredLog, child_FilterLogsCcipSendRecoveryStored),
      (child_LogTriggerCrosschainVaultSetLog, child_FilterLogsCrosschainVaultSet),
      (child_LogTriggerCrosschainVaultSet0Log, child_FilterLogsCrosschainVaultSet0),
      (child_LogTriggerDefaultAdminDelayChangeCanceledLog, child_FilterLogsDefaultAdminDelayChangeCanceled),
      (child_LogTriggerDefaultAdminDelayChangeScheduledLog, child_FilterLogsDefaultAdminDelayChangeScheduled),
      (child_LogTriggerDefaultAdminTransferCanceledLog, child_FilterLogsDefaultAdminTransferCanceled),
      (child_LogTriggerDefaultAdminTransferScheduledLog, child_FilterLogsDefaultAdminTransferScheduled),
      (child_LogTriggerDefaultCcipGasLimitSetLog, child_FilterLogsDefaultCcipGasLimitSet),
      (child_LogTriggerDefaultCcipGasLimitSet0Log, child_FilterLogsDefaultCcipGasLimitSet0),
      (child_LogTriggerEpochDepositRecoveryClearedLog, child_FilterLogsEpochDepositRecoveryCleared),
      (child_LogTriggerEpochDepositRecoveryStoredLog, child_FilterLogsEpochDepositRecoveryStored),
      (child_LogTriggerEpochDepositToStrategyFailureLog, child_FilterLogsEpochDepositToStrategyFailure),
      (child_LogTriggerEpochDepositToStrategySuccessLog, child_FilterLogsEpochDepositToStrategySuccess),
      (child_LogTriggerEpochWithdrawFromStrategyFailureLog, child_FilterLogsEpochWithdrawFromStrategyFailure),
      (child_LogTriggerEpochWithdrawFromStrategySuccessLog, child_FilterLogsEpochWithdrawFromStrategySuccess),
      (child_LogTriggerEpochWithdrawRecoveryClearedLog, child_FilterLogsEpochWithdrawRecoveryCleared),
      (child_LogTriggerEpochWithdrawRecoveryStoredLog, child_FilterLogsEpochWithdrawRecoveryStored),
      (child_LogTriggerInitializedLog, child_FilterLogsInitialized),
      (child_LogTriggerLinkWithdrawnLog, child_FilterLogsLinkWithdrawn),
      (child_LogTriggerPausedLog, child_FilterLogsPaused),
      (child_LogTriggerRebalanceDepositFailureLog, child_FilterLogsRebalanceDepositFailure),
      (child_LogTriggerRebalanceDepositRecoveryClearedLog, child_FilterLogsRebalanceDepositRecoveryCleared),
      (child_LogTriggerRebalanceDepositRecoveryStoredLog, child_FilterLogsRebalanceDepositRecoveryStored),
      (child_LogTriggerRebalanceDepositSuccessLog, child_FilterLogsRebalanceDepositSuccess),
      (child_LogTriggerRebalanceWithdrawFailureLog, child_FilterLogsRebalanceWithdrawFailure),
      (child_LogTriggerRebalanceWithdrawRecoveryClearedLog, child_FilterLogsRebalanceWithdrawRecoveryCleared),
      (child_LogTriggerRebalanceWithdrawRecoveryStoredLog, child_FilterLogsRebalanceWithdrawRecoveryStored),
      (child_LogTriggerRebalanceWithdrawSuccessLog, child_FilterLogsRebalanceWithdrawSuccess),
      (child_LogTriggerRoleAdminChangedLog, child_FilterLogsRoleAdminChanged),
      (child_LogTriggerRoleGrantedLog, child_FilterLogsRoleGranted),
      (child_LogTriggerRoleRevokedLog, child_FilterLogsRoleRevoked),
      (child_LogTriggerUnpausedLog, child_FilterLogsUnpaused),
      (child_LogTriggerUpgradedLog, child_FilterLogsUpgraded)]"

lemmas child_subscription_defs =
  child_EncodeActiveProtocolAdapterClearedTopics_def [abs_def]
  child_LogTriggerActiveProtocolAdapterClearedLog_def [abs_def]
  child_FilterLogsActiveProtocolAdapterCleared_def [abs_def]
  child_ActiveProtocolAdapterClearedLogHash_def [abs_def]
  child_EncodeActiveProtocolAdapterCleared0Topics_def [abs_def]
  child_LogTriggerActiveProtocolAdapterCleared0Log_def [abs_def]
  child_FilterLogsActiveProtocolAdapterCleared0_def [abs_def]
  child_ActiveProtocolAdapterCleared0LogHash_def [abs_def]
  child_EncodeActiveProtocolAdapterSetTopics_def [abs_def]
  child_LogTriggerActiveProtocolAdapterSetLog_def [abs_def]
  child_FilterLogsActiveProtocolAdapterSet_def [abs_def]
  child_ActiveProtocolAdapterSetLogHash_def [abs_def]
  child_EncodeActiveProtocolAdapterSet0Topics_def [abs_def]
  child_LogTriggerActiveProtocolAdapterSet0Log_def [abs_def]
  child_FilterLogsActiveProtocolAdapterSet0_def [abs_def]
  child_ActiveProtocolAdapterSet0LogHash_def [abs_def]
  child_EncodeCCIPBridgedTopics_def [abs_def]
  child_LogTriggerCCIPBridgedLog_def [abs_def]
  child_FilterLogsCCIPBridged_def [abs_def]
  child_CCIPBridgedLogHash_def [abs_def]
  child_EncodeCCIPBridged0Topics_def [abs_def]
  child_LogTriggerCCIPBridged0Log_def [abs_def]
  child_FilterLogsCCIPBridged0_def [abs_def]
  child_CCIPBridged0LogHash_def [abs_def]
  child_EncodeCCIPReceivedTopics_def [abs_def]
  child_LogTriggerCCIPReceivedLog_def [abs_def]
  child_FilterLogsCCIPReceived_def [abs_def]
  child_CCIPReceivedLogHash_def [abs_def]
  child_EncodeCcipGasLimitSetTopics_def [abs_def]
  child_LogTriggerCcipGasLimitSetLog_def [abs_def]
  child_FilterLogsCcipGasLimitSet_def [abs_def]
  child_CcipGasLimitSetLogHash_def [abs_def]
  child_EncodeCcipGasLimitSet0Topics_def [abs_def]
  child_LogTriggerCcipGasLimitSet0Log_def [abs_def]
  child_FilterLogsCcipGasLimitSet0_def [abs_def]
  child_CcipGasLimitSet0LogHash_def [abs_def]
  child_EncodeCcipSendRecoveryClearedTopics_def [abs_def]
  child_LogTriggerCcipSendRecoveryClearedLog_def [abs_def]
  child_FilterLogsCcipSendRecoveryCleared_def [abs_def]
  child_CcipSendRecoveryClearedLogHash_def [abs_def]
  child_EncodeCcipSendRecoveryStoredTopics_def [abs_def]
  child_LogTriggerCcipSendRecoveryStoredLog_def [abs_def]
  child_FilterLogsCcipSendRecoveryStored_def [abs_def]
  child_CcipSendRecoveryStoredLogHash_def [abs_def]
  child_EncodeCrosschainVaultSetTopics_def [abs_def]
  child_LogTriggerCrosschainVaultSetLog_def [abs_def]
  child_FilterLogsCrosschainVaultSet_def [abs_def]
  child_CrosschainVaultSetLogHash_def [abs_def]
  child_EncodeCrosschainVaultSet0Topics_def [abs_def]
  child_LogTriggerCrosschainVaultSet0Log_def [abs_def]
  child_FilterLogsCrosschainVaultSet0_def [abs_def]
  child_CrosschainVaultSet0LogHash_def [abs_def]
  child_EncodeDefaultAdminDelayChangeCanceledTopics_def [abs_def]
  child_LogTriggerDefaultAdminDelayChangeCanceledLog_def [abs_def]
  child_FilterLogsDefaultAdminDelayChangeCanceled_def [abs_def]
  child_DefaultAdminDelayChangeCanceledLogHash_def [abs_def]
  child_EncodeDefaultAdminDelayChangeScheduledTopics_def [abs_def]
  child_LogTriggerDefaultAdminDelayChangeScheduledLog_def [abs_def]
  child_FilterLogsDefaultAdminDelayChangeScheduled_def [abs_def]
  child_DefaultAdminDelayChangeScheduledLogHash_def [abs_def]
  child_EncodeDefaultAdminTransferCanceledTopics_def [abs_def]
  child_LogTriggerDefaultAdminTransferCanceledLog_def [abs_def]
  child_FilterLogsDefaultAdminTransferCanceled_def [abs_def]
  child_DefaultAdminTransferCanceledLogHash_def [abs_def]
  child_EncodeDefaultAdminTransferScheduledTopics_def [abs_def]
  child_LogTriggerDefaultAdminTransferScheduledLog_def [abs_def]
  child_FilterLogsDefaultAdminTransferScheduled_def [abs_def]
  child_DefaultAdminTransferScheduledLogHash_def [abs_def]
  child_EncodeDefaultCcipGasLimitSetTopics_def [abs_def]
  child_LogTriggerDefaultCcipGasLimitSetLog_def [abs_def]
  child_FilterLogsDefaultCcipGasLimitSet_def [abs_def]
  child_DefaultCcipGasLimitSetLogHash_def [abs_def]
  child_EncodeDefaultCcipGasLimitSet0Topics_def [abs_def]
  child_LogTriggerDefaultCcipGasLimitSet0Log_def [abs_def]
  child_FilterLogsDefaultCcipGasLimitSet0_def [abs_def]
  child_DefaultCcipGasLimitSet0LogHash_def [abs_def]
  child_EncodeEpochDepositRecoveryClearedTopics_def [abs_def]
  child_LogTriggerEpochDepositRecoveryClearedLog_def [abs_def]
  child_FilterLogsEpochDepositRecoveryCleared_def [abs_def]
  child_EpochDepositRecoveryClearedLogHash_def [abs_def]
  child_EncodeEpochDepositRecoveryStoredTopics_def [abs_def]
  child_LogTriggerEpochDepositRecoveryStoredLog_def [abs_def]
  child_FilterLogsEpochDepositRecoveryStored_def [abs_def]
  child_EpochDepositRecoveryStoredLogHash_def [abs_def]
  child_EncodeEpochDepositToStrategyFailureTopics_def [abs_def]
  child_LogTriggerEpochDepositToStrategyFailureLog_def [abs_def]
  child_FilterLogsEpochDepositToStrategyFailure_def [abs_def]
  child_EpochDepositToStrategyFailureLogHash_def [abs_def]
  child_EncodeEpochDepositToStrategySuccessTopics_def [abs_def]
  child_LogTriggerEpochDepositToStrategySuccessLog_def [abs_def]
  child_FilterLogsEpochDepositToStrategySuccess_def [abs_def]
  EpochDepositToStrategySuccessLogHash_def [abs_def]
  child_EncodeEpochWithdrawFromStrategyFailureTopics_def [abs_def]
  child_LogTriggerEpochWithdrawFromStrategyFailureLog_def [abs_def]
  child_FilterLogsEpochWithdrawFromStrategyFailure_def [abs_def]
  child_EpochWithdrawFromStrategyFailureLogHash_def [abs_def]
  child_EncodeEpochWithdrawFromStrategySuccessTopics_def [abs_def]
  child_LogTriggerEpochWithdrawFromStrategySuccessLog_def [abs_def]
  child_FilterLogsEpochWithdrawFromStrategySuccess_def [abs_def]
  child_EpochWithdrawFromStrategySuccessLogHash_def [abs_def]
  child_EncodeEpochWithdrawRecoveryClearedTopics_def [abs_def]
  child_LogTriggerEpochWithdrawRecoveryClearedLog_def [abs_def]
  child_FilterLogsEpochWithdrawRecoveryCleared_def [abs_def]
  child_EpochWithdrawRecoveryClearedLogHash_def [abs_def]
  child_EncodeEpochWithdrawRecoveryStoredTopics_def [abs_def]
  child_LogTriggerEpochWithdrawRecoveryStoredLog_def [abs_def]
  child_FilterLogsEpochWithdrawRecoveryStored_def [abs_def]
  child_EpochWithdrawRecoveryStoredLogHash_def [abs_def]
  child_EncodeInitializedTopics_def [abs_def]
  child_LogTriggerInitializedLog_def [abs_def]
  child_FilterLogsInitialized_def [abs_def]
  child_InitializedLogHash_def [abs_def]
  child_EncodeLinkWithdrawnTopics_def [abs_def]
  child_LogTriggerLinkWithdrawnLog_def [abs_def]
  child_FilterLogsLinkWithdrawn_def [abs_def]
  child_LinkWithdrawnLogHash_def [abs_def]
  child_EncodePausedTopics_def [abs_def]
  child_LogTriggerPausedLog_def [abs_def]
  child_FilterLogsPaused_def [abs_def]
  child_PausedLogHash_def [abs_def]
  child_EncodeRebalanceDepositFailureTopics_def [abs_def]
  child_LogTriggerRebalanceDepositFailureLog_def [abs_def]
  child_FilterLogsRebalanceDepositFailure_def [abs_def]
  child_RebalanceDepositFailureLogHash_def [abs_def]
  child_EncodeRebalanceDepositRecoveryClearedTopics_def [abs_def]
  child_LogTriggerRebalanceDepositRecoveryClearedLog_def [abs_def]
  child_FilterLogsRebalanceDepositRecoveryCleared_def [abs_def]
  child_RebalanceDepositRecoveryClearedLogHash_def [abs_def]
  child_EncodeRebalanceDepositRecoveryStoredTopics_def [abs_def]
  child_LogTriggerRebalanceDepositRecoveryStoredLog_def [abs_def]
  child_FilterLogsRebalanceDepositRecoveryStored_def [abs_def]
  child_RebalanceDepositRecoveryStoredLogHash_def [abs_def]
  child_EncodeRebalanceDepositSuccessTopics_def [abs_def]
  child_LogTriggerRebalanceDepositSuccessLog_def [abs_def]
  child_FilterLogsRebalanceDepositSuccess_def [abs_def]
  RebalanceDepositSuccessLogHash_def [abs_def]
  child_EncodeRebalanceWithdrawFailureTopics_def [abs_def]
  child_LogTriggerRebalanceWithdrawFailureLog_def [abs_def]
  child_FilterLogsRebalanceWithdrawFailure_def [abs_def]
  child_RebalanceWithdrawFailureLogHash_def [abs_def]
  child_EncodeRebalanceWithdrawRecoveryClearedTopics_def [abs_def]
  child_LogTriggerRebalanceWithdrawRecoveryClearedLog_def [abs_def]
  child_FilterLogsRebalanceWithdrawRecoveryCleared_def [abs_def]
  child_RebalanceWithdrawRecoveryClearedLogHash_def [abs_def]
  child_EncodeRebalanceWithdrawRecoveryStoredTopics_def [abs_def]
  child_LogTriggerRebalanceWithdrawRecoveryStoredLog_def [abs_def]
  child_FilterLogsRebalanceWithdrawRecoveryStored_def [abs_def]
  child_RebalanceWithdrawRecoveryStoredLogHash_def [abs_def]
  child_EncodeRebalanceWithdrawSuccessTopics_def [abs_def]
  child_LogTriggerRebalanceWithdrawSuccessLog_def [abs_def]
  child_FilterLogsRebalanceWithdrawSuccess_def [abs_def]
  child_RebalanceWithdrawSuccessLogHash_def [abs_def]
  child_EncodeRoleAdminChangedTopics_def [abs_def]
  child_LogTriggerRoleAdminChangedLog_def [abs_def]
  child_FilterLogsRoleAdminChanged_def [abs_def]
  child_RoleAdminChangedLogHash_def [abs_def]
  child_EncodeRoleGrantedTopics_def [abs_def]
  child_LogTriggerRoleGrantedLog_def [abs_def]
  child_FilterLogsRoleGranted_def [abs_def]
  child_RoleGrantedLogHash_def [abs_def]
  child_EncodeRoleRevokedTopics_def [abs_def]
  child_LogTriggerRoleRevokedLog_def [abs_def]
  child_FilterLogsRoleRevoked_def [abs_def]
  child_RoleRevokedLogHash_def [abs_def]
  child_EncodeUnpausedTopics_def [abs_def]
  child_LogTriggerUnpausedLog_def [abs_def]
  child_FilterLogsUnpaused_def [abs_def]
  child_UnpausedLogHash_def [abs_def]
  child_EncodeUpgradedTopics_def [abs_def]
  child_LogTriggerUpgradedLog_def [abs_def]
  child_FilterLogsUpgraded_def [abs_def]
  child_UpgradedLogHash_def [abs_def]

lemma child_subscriptions_eq: "child_subscriptions = map table_subscription child_event_table"
  by (simp add: child_subscriptions_def child_event_table_def table_subscription_def table_topics_def [abs_def] child_subscription_defs)

lemma child_event_names: "distinct (map fst child_events)"
  by (rule names_distinct) code_simp

lemma child_events_fit: "list_all2 (\<lambda>e s. fst e = es_Name s \<and> topics_fit (snd e) (es_Topics s)) child_events child_event_table"
  by code_simp

interpretation child_logs: event_binding child_events child_event_table child_subscriptions
  by unfold_locales (rule child_subscriptions_eq, rule event_conformsI [OF child_events_fit child_event_names])

end
