(* ===== verification/Base_Logs.thy ===== *)
theory Base_Logs
  imports Binding_Contracts Base_Decoders
begin

text \<open>
  The logs of the generated BaseVault package (\<open>cre/contracts/evm/generated/base_vault/BaseVault.go\<close>): the events of its
  ABI literal, and for each event the topics of a filter, the log trigger with its decoding of a delivered log, and the log
  query. The interpretation at the end checks the topics against the literal.
\<close>

section \<open>The events of the ABI literal\<close>

definition base_events :: "event_literal list" where
  "base_events =
     [(''ActiveProtocolAdapterCleared'', [(''adapter'', True, SAddress)]),
      (''ActiveProtocolAdapterSet'', [(''protocolId'', True, SFixed 32), (''adapter'', True, SAddress)]),
      (''CCIPBridged'', [(''ccipMessageId'', True, SFixed 32), (''destinationChainSelector'', True, SUint 64),
        (''ccipTxType'', True, SUint 8)]),
      (''CCIPReceived'', [(''ccipMessageId'', True, SFixed 32), (''sourceChainSelector'', True, SUint 64),
        (''ccipTxType'', True, SUint 8)]),
      (''CcipGasLimitSet'', [(''chainSelector'', True, SUint 64), (''gasLimit'', True, SUint 256)]),
      (''CrosschainVaultSet'', [(''chainSelector'', True, SUint 64), (''vault'', True, SAddress)]),
      (''DefaultAdminDelayChangeCanceled'', []),
      (''DefaultAdminDelayChangeScheduled'', [(''newDelay'', False, SUint 48), (''effectSchedule'', False, SUint 48)]),
      (''DefaultAdminTransferCanceled'', []),
      (''DefaultAdminTransferScheduled'', [(''newAdmin'', True, SAddress), (''acceptSchedule'', False, SUint 48)]),
      (''DefaultCcipGasLimitSet'', [(''gasLimit'', True, SUint 256)]),
      (''EpochDepositToStrategySuccess'', [(''epochNonce'', True, SUint 256), (''amount'', True, SUint 256)]),
      (''EpochWithdrawFromStrategySuccess'', [(''epochNonce'', True, SUint 256), (''amount'', True, SUint 256)]),
      (''Initialized'', [(''version'', False, SUint 64)]),
      (''LinkWithdrawn'', [(''operator'', True, SAddress), (''amount'', True, SUint 256)]),
      (''Paused'', [(''account'', False, SAddress)]),
      (''RebalanceDepositFailure'', [(''rebalanceNonce'', True, SUint 256), (''amount'', True, SUint 256)]),
      (''RebalanceDepositRecoveryCleared'', [(''rebalanceNonce'', True, SUint 256)]),
      (''RebalanceDepositRecoveryStored'', [(''rebalanceNonce'', True, SUint 256), (''amount'', True, SUint 256)]),
      (''RebalanceDepositSuccess'', [(''rebalanceNonce'', True, SUint 256), (''amount'', True, SUint 256)]),
      (''RebalanceWithdrawSuccess'', [(''rebalanceNonce'', True, SUint 256), (''amount'', True, SUint 256)]),
      (''RoleAdminChanged'', [(''role'', True, SFixed 32), (''previousAdminRole'', True, SFixed 32),
        (''newAdminRole'', True, SFixed 32)]),
      (''RoleGranted'', [(''role'', True, SFixed 32), (''account'', True, SAddress), (''sender'', True, SAddress)]),
      (''RoleRevoked'', [(''role'', True, SFixed 32), (''account'', True, SAddress), (''sender'', True, SAddress)]),
      (''Unpaused'', [(''account'', False, SAddress)]),
      (''Upgraded'', [(''implementation'', True, SAddress)])]"

section \<open>Topics, triggers and queries\<close>

definition base_EncodeActiveProtocolAdapterClearedTopics :: "env \<Rightarrow> abi_event \<Rightarrow> gstruct list \<Rightarrow> byte list list list outcome" where
  "base_EncodeActiveProtocolAdapterClearedTopics E evt values =
     encode_topics E evt [(0, ''Adapter'')] values"

definition base_AdaptActiveProtocolAdapterCleared :: "env \<Rightarrow> event_trigger \<Rightarrow> evm_log option \<Rightarrow> gstruct decoded_log outcome" where
  "base_AdaptActiveProtocolAdapterCleared E t = adapt_log ''ActiveProtocolAdapterCleared'' (base_DecodeActiveProtocolAdapterCleared E (vb_Codec (et_contract t)))"

definition base_LogTriggerActiveProtocolAdapterClearedLog :: "trigger_fun" where
  "base_LogTriggerActiveProtocolAdapterClearedLog E v chainSelector confidence filters =
     log_trigger v ''ActiveProtocolAdapterCleared'' ''ActiveProtocolAdapterCleared'' (base_EncodeActiveProtocolAdapterClearedTopics E) chainSelector confidence filters"

definition base_FilterLogsActiveProtocolAdapterCleared :: "query_fun" where
  "base_FilterLogsActiveProtocolAdapterCleared E v options = filter_logs E v (base_ActiveProtocolAdapterClearedLogHash (vb_Codec v)) options"

definition base_EncodeActiveProtocolAdapterSetTopics :: "env \<Rightarrow> abi_event \<Rightarrow> gstruct list \<Rightarrow> byte list list list outcome" where
  "base_EncodeActiveProtocolAdapterSetTopics E evt values =
     encode_topics E evt [(0, ''ProtocolId''), (1, ''Adapter'')] values"

definition base_AdaptActiveProtocolAdapterSet :: "env \<Rightarrow> event_trigger \<Rightarrow> evm_log option \<Rightarrow> gstruct decoded_log outcome" where
  "base_AdaptActiveProtocolAdapterSet E t = adapt_log ''ActiveProtocolAdapterSet'' (base_DecodeActiveProtocolAdapterSet E (vb_Codec (et_contract t)))"

definition base_LogTriggerActiveProtocolAdapterSetLog :: "trigger_fun" where
  "base_LogTriggerActiveProtocolAdapterSetLog E v chainSelector confidence filters =
     log_trigger v ''ActiveProtocolAdapterSet'' ''ActiveProtocolAdapterSet'' (base_EncodeActiveProtocolAdapterSetTopics E) chainSelector confidence filters"

definition base_FilterLogsActiveProtocolAdapterSet :: "query_fun" where
  "base_FilterLogsActiveProtocolAdapterSet E v options = filter_logs E v (base_ActiveProtocolAdapterSetLogHash (vb_Codec v)) options"

definition base_EncodeCCIPBridgedTopics :: "env \<Rightarrow> abi_event \<Rightarrow> gstruct list \<Rightarrow> byte list list list outcome" where
  "base_EncodeCCIPBridgedTopics E evt values =
     encode_topics E evt [(0, ''CcipMessageId''), (1, ''DestinationChainSelector''), (2, ''CcipTxType'')] values"

definition base_AdaptCCIPBridged :: "env \<Rightarrow> event_trigger \<Rightarrow> evm_log option \<Rightarrow> gstruct decoded_log outcome" where
  "base_AdaptCCIPBridged E t = adapt_log ''CCIPBridged'' (base_DecodeCCIPBridged E (vb_Codec (et_contract t)))"

definition base_LogTriggerCCIPBridgedLog :: "trigger_fun" where
  "base_LogTriggerCCIPBridgedLog E v chainSelector confidence filters =
     log_trigger v ''CCIPBridged'' ''CCIPBridged'' (base_EncodeCCIPBridgedTopics E) chainSelector confidence filters"

definition base_FilterLogsCCIPBridged :: "query_fun" where
  "base_FilterLogsCCIPBridged E v options = filter_logs E v (base_CCIPBridgedLogHash (vb_Codec v)) options"

definition base_EncodeCCIPReceivedTopics :: "env \<Rightarrow> abi_event \<Rightarrow> gstruct list \<Rightarrow> byte list list list outcome" where
  "base_EncodeCCIPReceivedTopics E evt values =
     encode_topics E evt [(0, ''CcipMessageId''), (1, ''SourceChainSelector''), (2, ''CcipTxType'')] values"

definition base_AdaptCCIPReceived :: "env \<Rightarrow> event_trigger \<Rightarrow> evm_log option \<Rightarrow> gstruct decoded_log outcome" where
  "base_AdaptCCIPReceived E t = adapt_log ''CCIPReceived'' (base_DecodeCCIPReceived E (vb_Codec (et_contract t)))"

definition base_LogTriggerCCIPReceivedLog :: "trigger_fun" where
  "base_LogTriggerCCIPReceivedLog E v chainSelector confidence filters =
     log_trigger v ''CCIPReceived'' ''CCIPReceived'' (base_EncodeCCIPReceivedTopics E) chainSelector confidence filters"

definition base_FilterLogsCCIPReceived :: "query_fun" where
  "base_FilterLogsCCIPReceived E v options = filter_logs E v (base_CCIPReceivedLogHash (vb_Codec v)) options"

definition base_EncodeCcipGasLimitSetTopics :: "env \<Rightarrow> abi_event \<Rightarrow> gstruct list \<Rightarrow> byte list list list outcome" where
  "base_EncodeCcipGasLimitSetTopics E evt values =
     encode_topics E evt [(0, ''ChainSelector''), (1, ''GasLimit'')] values"

definition base_AdaptCcipGasLimitSet :: "env \<Rightarrow> event_trigger \<Rightarrow> evm_log option \<Rightarrow> gstruct decoded_log outcome" where
  "base_AdaptCcipGasLimitSet E t = adapt_log ''CcipGasLimitSet'' (base_DecodeCcipGasLimitSet E (vb_Codec (et_contract t)))"

definition base_LogTriggerCcipGasLimitSetLog :: "trigger_fun" where
  "base_LogTriggerCcipGasLimitSetLog E v chainSelector confidence filters =
     log_trigger v ''CcipGasLimitSet'' ''CcipGasLimitSet'' (base_EncodeCcipGasLimitSetTopics E) chainSelector confidence filters"

definition base_FilterLogsCcipGasLimitSet :: "query_fun" where
  "base_FilterLogsCcipGasLimitSet E v options = filter_logs E v (base_CcipGasLimitSetLogHash (vb_Codec v)) options"

definition base_EncodeCrosschainVaultSetTopics :: "env \<Rightarrow> abi_event \<Rightarrow> gstruct list \<Rightarrow> byte list list list outcome" where
  "base_EncodeCrosschainVaultSetTopics E evt values =
     encode_topics E evt [(0, ''ChainSelector''), (1, ''Vault'')] values"

definition base_AdaptCrosschainVaultSet :: "env \<Rightarrow> event_trigger \<Rightarrow> evm_log option \<Rightarrow> gstruct decoded_log outcome" where
  "base_AdaptCrosschainVaultSet E t = adapt_log ''CrosschainVaultSet'' (base_DecodeCrosschainVaultSet E (vb_Codec (et_contract t)))"

definition base_LogTriggerCrosschainVaultSetLog :: "trigger_fun" where
  "base_LogTriggerCrosschainVaultSetLog E v chainSelector confidence filters =
     log_trigger v ''CrosschainVaultSet'' ''CrosschainVaultSet'' (base_EncodeCrosschainVaultSetTopics E) chainSelector confidence filters"

definition base_FilterLogsCrosschainVaultSet :: "query_fun" where
  "base_FilterLogsCrosschainVaultSet E v options = filter_logs E v (base_CrosschainVaultSetLogHash (vb_Codec v)) options"

definition base_EncodeDefaultAdminDelayChangeCanceledTopics :: "env \<Rightarrow> abi_event \<Rightarrow> gstruct list \<Rightarrow> byte list list list outcome" where
  "base_EncodeDefaultAdminDelayChangeCanceledTopics E evt values =
     encode_topics E evt [] values"

definition base_AdaptDefaultAdminDelayChangeCanceled :: "env \<Rightarrow> event_trigger \<Rightarrow> evm_log option \<Rightarrow> gstruct decoded_log outcome" where
  "base_AdaptDefaultAdminDelayChangeCanceled E t = adapt_log ''DefaultAdminDelayChangeCanceled'' (base_DecodeDefaultAdminDelayChangeCanceled E (vb_Codec (et_contract t)))"

definition base_LogTriggerDefaultAdminDelayChangeCanceledLog :: "trigger_fun" where
  "base_LogTriggerDefaultAdminDelayChangeCanceledLog E v chainSelector confidence filters =
     log_trigger v ''DefaultAdminDelayChangeCanceled'' ''DefaultAdminDelayChangeCanceled'' (base_EncodeDefaultAdminDelayChangeCanceledTopics E) chainSelector confidence filters"

definition base_FilterLogsDefaultAdminDelayChangeCanceled :: "query_fun" where
  "base_FilterLogsDefaultAdminDelayChangeCanceled E v options = filter_logs E v (base_DefaultAdminDelayChangeCanceledLogHash (vb_Codec v)) options"

definition base_EncodeDefaultAdminDelayChangeScheduledTopics :: "env \<Rightarrow> abi_event \<Rightarrow> gstruct list \<Rightarrow> byte list list list outcome" where
  "base_EncodeDefaultAdminDelayChangeScheduledTopics E evt values =
     encode_topics E evt [] values"

definition base_AdaptDefaultAdminDelayChangeScheduled :: "env \<Rightarrow> event_trigger \<Rightarrow> evm_log option \<Rightarrow> gstruct decoded_log outcome" where
  "base_AdaptDefaultAdminDelayChangeScheduled E t = adapt_log ''DefaultAdminDelayChangeScheduled'' (base_DecodeDefaultAdminDelayChangeScheduled E (vb_Codec (et_contract t)))"

definition base_LogTriggerDefaultAdminDelayChangeScheduledLog :: "trigger_fun" where
  "base_LogTriggerDefaultAdminDelayChangeScheduledLog E v chainSelector confidence filters =
     log_trigger v ''DefaultAdminDelayChangeScheduled'' ''DefaultAdminDelayChangeScheduled'' (base_EncodeDefaultAdminDelayChangeScheduledTopics E) chainSelector confidence filters"

definition base_FilterLogsDefaultAdminDelayChangeScheduled :: "query_fun" where
  "base_FilterLogsDefaultAdminDelayChangeScheduled E v options = filter_logs E v (base_DefaultAdminDelayChangeScheduledLogHash (vb_Codec v)) options"

definition base_EncodeDefaultAdminTransferCanceledTopics :: "env \<Rightarrow> abi_event \<Rightarrow> gstruct list \<Rightarrow> byte list list list outcome" where
  "base_EncodeDefaultAdminTransferCanceledTopics E evt values =
     encode_topics E evt [] values"

definition base_AdaptDefaultAdminTransferCanceled :: "env \<Rightarrow> event_trigger \<Rightarrow> evm_log option \<Rightarrow> gstruct decoded_log outcome" where
  "base_AdaptDefaultAdminTransferCanceled E t = adapt_log ''DefaultAdminTransferCanceled'' (base_DecodeDefaultAdminTransferCanceled E (vb_Codec (et_contract t)))"

definition base_LogTriggerDefaultAdminTransferCanceledLog :: "trigger_fun" where
  "base_LogTriggerDefaultAdminTransferCanceledLog E v chainSelector confidence filters =
     log_trigger v ''DefaultAdminTransferCanceled'' ''DefaultAdminTransferCanceled'' (base_EncodeDefaultAdminTransferCanceledTopics E) chainSelector confidence filters"

definition base_FilterLogsDefaultAdminTransferCanceled :: "query_fun" where
  "base_FilterLogsDefaultAdminTransferCanceled E v options = filter_logs E v (base_DefaultAdminTransferCanceledLogHash (vb_Codec v)) options"

definition base_EncodeDefaultAdminTransferScheduledTopics :: "env \<Rightarrow> abi_event \<Rightarrow> gstruct list \<Rightarrow> byte list list list outcome" where
  "base_EncodeDefaultAdminTransferScheduledTopics E evt values =
     encode_topics E evt [(0, ''NewAdmin'')] values"

definition base_AdaptDefaultAdminTransferScheduled :: "env \<Rightarrow> event_trigger \<Rightarrow> evm_log option \<Rightarrow> gstruct decoded_log outcome" where
  "base_AdaptDefaultAdminTransferScheduled E t = adapt_log ''DefaultAdminTransferScheduled'' (base_DecodeDefaultAdminTransferScheduled E (vb_Codec (et_contract t)))"

definition base_LogTriggerDefaultAdminTransferScheduledLog :: "trigger_fun" where
  "base_LogTriggerDefaultAdminTransferScheduledLog E v chainSelector confidence filters =
     log_trigger v ''DefaultAdminTransferScheduled'' ''DefaultAdminTransferScheduled'' (base_EncodeDefaultAdminTransferScheduledTopics E) chainSelector confidence filters"

definition base_FilterLogsDefaultAdminTransferScheduled :: "query_fun" where
  "base_FilterLogsDefaultAdminTransferScheduled E v options = filter_logs E v (base_DefaultAdminTransferScheduledLogHash (vb_Codec v)) options"

definition base_EncodeDefaultCcipGasLimitSetTopics :: "env \<Rightarrow> abi_event \<Rightarrow> gstruct list \<Rightarrow> byte list list list outcome" where
  "base_EncodeDefaultCcipGasLimitSetTopics E evt values =
     encode_topics E evt [(0, ''GasLimit'')] values"

definition base_AdaptDefaultCcipGasLimitSet :: "env \<Rightarrow> event_trigger \<Rightarrow> evm_log option \<Rightarrow> gstruct decoded_log outcome" where
  "base_AdaptDefaultCcipGasLimitSet E t = adapt_log ''DefaultCcipGasLimitSet'' (base_DecodeDefaultCcipGasLimitSet E (vb_Codec (et_contract t)))"

definition base_LogTriggerDefaultCcipGasLimitSetLog :: "trigger_fun" where
  "base_LogTriggerDefaultCcipGasLimitSetLog E v chainSelector confidence filters =
     log_trigger v ''DefaultCcipGasLimitSet'' ''DefaultCcipGasLimitSet'' (base_EncodeDefaultCcipGasLimitSetTopics E) chainSelector confidence filters"

definition base_FilterLogsDefaultCcipGasLimitSet :: "query_fun" where
  "base_FilterLogsDefaultCcipGasLimitSet E v options = filter_logs E v (base_DefaultCcipGasLimitSetLogHash (vb_Codec v)) options"

definition base_EncodeEpochDepositToStrategySuccessTopics :: "env \<Rightarrow> abi_event \<Rightarrow> gstruct list \<Rightarrow> byte list list list outcome" where
  "base_EncodeEpochDepositToStrategySuccessTopics E evt values =
     encode_topics E evt [(0, ''EpochNonce''), (1, ''Amount'')] values"

definition base_AdaptEpochDepositToStrategySuccess :: "env \<Rightarrow> event_trigger \<Rightarrow> evm_log option \<Rightarrow> gstruct decoded_log outcome" where
  "base_AdaptEpochDepositToStrategySuccess E t = adapt_log ''EpochDepositToStrategySuccess'' (base_DecodeEpochDepositToStrategySuccess E (vb_Codec (et_contract t)))"

definition base_LogTriggerEpochDepositToStrategySuccessLog :: "trigger_fun" where
  "base_LogTriggerEpochDepositToStrategySuccessLog E v chainSelector confidence filters =
     log_trigger v ''EpochDepositToStrategySuccess'' ''EpochDepositToStrategySuccess'' (base_EncodeEpochDepositToStrategySuccessTopics E) chainSelector confidence filters"

definition base_FilterLogsEpochDepositToStrategySuccess :: "query_fun" where
  "base_FilterLogsEpochDepositToStrategySuccess E v options = filter_logs E v (base_EpochDepositToStrategySuccessLogHash (vb_Codec v)) options"

definition base_EncodeEpochWithdrawFromStrategySuccessTopics :: "env \<Rightarrow> abi_event \<Rightarrow> gstruct list \<Rightarrow> byte list list list outcome" where
  "base_EncodeEpochWithdrawFromStrategySuccessTopics E evt values =
     encode_topics E evt [(0, ''EpochNonce''), (1, ''Amount'')] values"

definition base_AdaptEpochWithdrawFromStrategySuccess :: "env \<Rightarrow> event_trigger \<Rightarrow> evm_log option \<Rightarrow> gstruct decoded_log outcome" where
  "base_AdaptEpochWithdrawFromStrategySuccess E t = adapt_log ''EpochWithdrawFromStrategySuccess'' (base_DecodeEpochWithdrawFromStrategySuccess E (vb_Codec (et_contract t)))"

definition base_LogTriggerEpochWithdrawFromStrategySuccessLog :: "trigger_fun" where
  "base_LogTriggerEpochWithdrawFromStrategySuccessLog E v chainSelector confidence filters =
     log_trigger v ''EpochWithdrawFromStrategySuccess'' ''EpochWithdrawFromStrategySuccess'' (base_EncodeEpochWithdrawFromStrategySuccessTopics E) chainSelector confidence filters"

definition base_FilterLogsEpochWithdrawFromStrategySuccess :: "query_fun" where
  "base_FilterLogsEpochWithdrawFromStrategySuccess E v options = filter_logs E v (base_EpochWithdrawFromStrategySuccessLogHash (vb_Codec v)) options"

definition base_EncodeInitializedTopics :: "env \<Rightarrow> abi_event \<Rightarrow> gstruct list \<Rightarrow> byte list list list outcome" where
  "base_EncodeInitializedTopics E evt values =
     encode_topics E evt [] values"

definition base_AdaptInitialized :: "env \<Rightarrow> event_trigger \<Rightarrow> evm_log option \<Rightarrow> gstruct decoded_log outcome" where
  "base_AdaptInitialized E t = adapt_log ''Initialized'' (base_DecodeInitialized E (vb_Codec (et_contract t)))"

definition base_LogTriggerInitializedLog :: "trigger_fun" where
  "base_LogTriggerInitializedLog E v chainSelector confidence filters =
     log_trigger v ''Initialized'' ''Initialized'' (base_EncodeInitializedTopics E) chainSelector confidence filters"

definition base_FilterLogsInitialized :: "query_fun" where
  "base_FilterLogsInitialized E v options = filter_logs E v (base_InitializedLogHash (vb_Codec v)) options"

definition base_EncodeLinkWithdrawnTopics :: "env \<Rightarrow> abi_event \<Rightarrow> gstruct list \<Rightarrow> byte list list list outcome" where
  "base_EncodeLinkWithdrawnTopics E evt values =
     encode_topics E evt [(0, ''Operator''), (1, ''Amount'')] values"

definition base_AdaptLinkWithdrawn :: "env \<Rightarrow> event_trigger \<Rightarrow> evm_log option \<Rightarrow> gstruct decoded_log outcome" where
  "base_AdaptLinkWithdrawn E t = adapt_log ''LinkWithdrawn'' (base_DecodeLinkWithdrawn E (vb_Codec (et_contract t)))"

definition base_LogTriggerLinkWithdrawnLog :: "trigger_fun" where
  "base_LogTriggerLinkWithdrawnLog E v chainSelector confidence filters =
     log_trigger v ''LinkWithdrawn'' ''LinkWithdrawn'' (base_EncodeLinkWithdrawnTopics E) chainSelector confidence filters"

definition base_FilterLogsLinkWithdrawn :: "query_fun" where
  "base_FilterLogsLinkWithdrawn E v options = filter_logs E v (base_LinkWithdrawnLogHash (vb_Codec v)) options"

definition base_EncodePausedTopics :: "env \<Rightarrow> abi_event \<Rightarrow> gstruct list \<Rightarrow> byte list list list outcome" where
  "base_EncodePausedTopics E evt values =
     encode_topics E evt [] values"

definition base_AdaptPaused :: "env \<Rightarrow> event_trigger \<Rightarrow> evm_log option \<Rightarrow> gstruct decoded_log outcome" where
  "base_AdaptPaused E t = adapt_log ''Paused'' (base_DecodePaused E (vb_Codec (et_contract t)))"

definition base_LogTriggerPausedLog :: "trigger_fun" where
  "base_LogTriggerPausedLog E v chainSelector confidence filters =
     log_trigger v ''Paused'' ''Paused'' (base_EncodePausedTopics E) chainSelector confidence filters"

definition base_FilterLogsPaused :: "query_fun" where
  "base_FilterLogsPaused E v options = filter_logs E v (base_PausedLogHash (vb_Codec v)) options"

definition base_EncodeRebalanceDepositFailureTopics :: "env \<Rightarrow> abi_event \<Rightarrow> gstruct list \<Rightarrow> byte list list list outcome" where
  "base_EncodeRebalanceDepositFailureTopics E evt values =
     encode_topics E evt [(0, ''RebalanceNonce''), (1, ''Amount'')] values"

definition base_AdaptRebalanceDepositFailure :: "env \<Rightarrow> event_trigger \<Rightarrow> evm_log option \<Rightarrow> gstruct decoded_log outcome" where
  "base_AdaptRebalanceDepositFailure E t = adapt_log ''RebalanceDepositFailure'' (base_DecodeRebalanceDepositFailure E (vb_Codec (et_contract t)))"

definition base_LogTriggerRebalanceDepositFailureLog :: "trigger_fun" where
  "base_LogTriggerRebalanceDepositFailureLog E v chainSelector confidence filters =
     log_trigger v ''RebalanceDepositFailure'' ''RebalanceDepositFailure'' (base_EncodeRebalanceDepositFailureTopics E) chainSelector confidence filters"

definition base_FilterLogsRebalanceDepositFailure :: "query_fun" where
  "base_FilterLogsRebalanceDepositFailure E v options = filter_logs E v (base_RebalanceDepositFailureLogHash (vb_Codec v)) options"

definition base_EncodeRebalanceDepositRecoveryClearedTopics :: "env \<Rightarrow> abi_event \<Rightarrow> gstruct list \<Rightarrow> byte list list list outcome" where
  "base_EncodeRebalanceDepositRecoveryClearedTopics E evt values =
     encode_topics E evt [(0, ''RebalanceNonce'')] values"

definition base_AdaptRebalanceDepositRecoveryCleared :: "env \<Rightarrow> event_trigger \<Rightarrow> evm_log option \<Rightarrow> gstruct decoded_log outcome" where
  "base_AdaptRebalanceDepositRecoveryCleared E t = adapt_log ''RebalanceDepositRecoveryCleared'' (base_DecodeRebalanceDepositRecoveryCleared E (vb_Codec (et_contract t)))"

definition base_LogTriggerRebalanceDepositRecoveryClearedLog :: "trigger_fun" where
  "base_LogTriggerRebalanceDepositRecoveryClearedLog E v chainSelector confidence filters =
     log_trigger v ''RebalanceDepositRecoveryCleared'' ''RebalanceDepositRecoveryCleared'' (base_EncodeRebalanceDepositRecoveryClearedTopics E) chainSelector confidence filters"

definition base_FilterLogsRebalanceDepositRecoveryCleared :: "query_fun" where
  "base_FilterLogsRebalanceDepositRecoveryCleared E v options = filter_logs E v (base_RebalanceDepositRecoveryClearedLogHash (vb_Codec v)) options"

definition base_EncodeRebalanceDepositRecoveryStoredTopics :: "env \<Rightarrow> abi_event \<Rightarrow> gstruct list \<Rightarrow> byte list list list outcome" where
  "base_EncodeRebalanceDepositRecoveryStoredTopics E evt values =
     encode_topics E evt [(0, ''RebalanceNonce''), (1, ''Amount'')] values"

definition base_AdaptRebalanceDepositRecoveryStored :: "env \<Rightarrow> event_trigger \<Rightarrow> evm_log option \<Rightarrow> gstruct decoded_log outcome" where
  "base_AdaptRebalanceDepositRecoveryStored E t = adapt_log ''RebalanceDepositRecoveryStored'' (base_DecodeRebalanceDepositRecoveryStored E (vb_Codec (et_contract t)))"

definition base_LogTriggerRebalanceDepositRecoveryStoredLog :: "trigger_fun" where
  "base_LogTriggerRebalanceDepositRecoveryStoredLog E v chainSelector confidence filters =
     log_trigger v ''RebalanceDepositRecoveryStored'' ''RebalanceDepositRecoveryStored'' (base_EncodeRebalanceDepositRecoveryStoredTopics E) chainSelector confidence filters"

definition base_FilterLogsRebalanceDepositRecoveryStored :: "query_fun" where
  "base_FilterLogsRebalanceDepositRecoveryStored E v options = filter_logs E v (base_RebalanceDepositRecoveryStoredLogHash (vb_Codec v)) options"

definition base_EncodeRebalanceDepositSuccessTopics :: "env \<Rightarrow> abi_event \<Rightarrow> gstruct list \<Rightarrow> byte list list list outcome" where
  "base_EncodeRebalanceDepositSuccessTopics E evt values =
     encode_topics E evt [(0, ''RebalanceNonce''), (1, ''Amount'')] values"

definition base_AdaptRebalanceDepositSuccess :: "env \<Rightarrow> event_trigger \<Rightarrow> evm_log option \<Rightarrow> gstruct decoded_log outcome" where
  "base_AdaptRebalanceDepositSuccess E t = adapt_log ''RebalanceDepositSuccess'' (base_DecodeRebalanceDepositSuccess E (vb_Codec (et_contract t)))"

definition base_LogTriggerRebalanceDepositSuccessLog :: "trigger_fun" where
  "base_LogTriggerRebalanceDepositSuccessLog E v chainSelector confidence filters =
     log_trigger v ''RebalanceDepositSuccess'' ''RebalanceDepositSuccess'' (base_EncodeRebalanceDepositSuccessTopics E) chainSelector confidence filters"

definition base_FilterLogsRebalanceDepositSuccess :: "query_fun" where
  "base_FilterLogsRebalanceDepositSuccess E v options = filter_logs E v (base_RebalanceDepositSuccessLogHash (vb_Codec v)) options"

definition base_EncodeRebalanceWithdrawSuccessTopics :: "env \<Rightarrow> abi_event \<Rightarrow> gstruct list \<Rightarrow> byte list list list outcome" where
  "base_EncodeRebalanceWithdrawSuccessTopics E evt values =
     encode_topics E evt [(0, ''RebalanceNonce''), (1, ''Amount'')] values"

definition base_AdaptRebalanceWithdrawSuccess :: "env \<Rightarrow> event_trigger \<Rightarrow> evm_log option \<Rightarrow> gstruct decoded_log outcome" where
  "base_AdaptRebalanceWithdrawSuccess E t = adapt_log ''RebalanceWithdrawSuccess'' (base_DecodeRebalanceWithdrawSuccess E (vb_Codec (et_contract t)))"

definition base_LogTriggerRebalanceWithdrawSuccessLog :: "trigger_fun" where
  "base_LogTriggerRebalanceWithdrawSuccessLog E v chainSelector confidence filters =
     log_trigger v ''RebalanceWithdrawSuccess'' ''RebalanceWithdrawSuccess'' (base_EncodeRebalanceWithdrawSuccessTopics E) chainSelector confidence filters"

definition base_FilterLogsRebalanceWithdrawSuccess :: "query_fun" where
  "base_FilterLogsRebalanceWithdrawSuccess E v options = filter_logs E v (base_RebalanceWithdrawSuccessLogHash (vb_Codec v)) options"

definition base_EncodeRoleAdminChangedTopics :: "env \<Rightarrow> abi_event \<Rightarrow> gstruct list \<Rightarrow> byte list list list outcome" where
  "base_EncodeRoleAdminChangedTopics E evt values =
     encode_topics E evt [(0, ''Role''), (1, ''PreviousAdminRole''), (2, ''NewAdminRole'')] values"

definition base_AdaptRoleAdminChanged :: "env \<Rightarrow> event_trigger \<Rightarrow> evm_log option \<Rightarrow> gstruct decoded_log outcome" where
  "base_AdaptRoleAdminChanged E t = adapt_log ''RoleAdminChanged'' (base_DecodeRoleAdminChanged E (vb_Codec (et_contract t)))"

definition base_LogTriggerRoleAdminChangedLog :: "trigger_fun" where
  "base_LogTriggerRoleAdminChangedLog E v chainSelector confidence filters =
     log_trigger v ''RoleAdminChanged'' ''RoleAdminChanged'' (base_EncodeRoleAdminChangedTopics E) chainSelector confidence filters"

definition base_FilterLogsRoleAdminChanged :: "query_fun" where
  "base_FilterLogsRoleAdminChanged E v options = filter_logs E v (base_RoleAdminChangedLogHash (vb_Codec v)) options"

definition base_EncodeRoleGrantedTopics :: "env \<Rightarrow> abi_event \<Rightarrow> gstruct list \<Rightarrow> byte list list list outcome" where
  "base_EncodeRoleGrantedTopics E evt values =
     encode_topics E evt [(0, ''Role''), (1, ''Account''), (2, ''Sender'')] values"

definition base_AdaptRoleGranted :: "env \<Rightarrow> event_trigger \<Rightarrow> evm_log option \<Rightarrow> gstruct decoded_log outcome" where
  "base_AdaptRoleGranted E t = adapt_log ''RoleGranted'' (base_DecodeRoleGranted E (vb_Codec (et_contract t)))"

definition base_LogTriggerRoleGrantedLog :: "trigger_fun" where
  "base_LogTriggerRoleGrantedLog E v chainSelector confidence filters =
     log_trigger v ''RoleGranted'' ''RoleGranted'' (base_EncodeRoleGrantedTopics E) chainSelector confidence filters"

definition base_FilterLogsRoleGranted :: "query_fun" where
  "base_FilterLogsRoleGranted E v options = filter_logs E v (base_RoleGrantedLogHash (vb_Codec v)) options"

definition base_EncodeRoleRevokedTopics :: "env \<Rightarrow> abi_event \<Rightarrow> gstruct list \<Rightarrow> byte list list list outcome" where
  "base_EncodeRoleRevokedTopics E evt values =
     encode_topics E evt [(0, ''Role''), (1, ''Account''), (2, ''Sender'')] values"

definition base_AdaptRoleRevoked :: "env \<Rightarrow> event_trigger \<Rightarrow> evm_log option \<Rightarrow> gstruct decoded_log outcome" where
  "base_AdaptRoleRevoked E t = adapt_log ''RoleRevoked'' (base_DecodeRoleRevoked E (vb_Codec (et_contract t)))"

definition base_LogTriggerRoleRevokedLog :: "trigger_fun" where
  "base_LogTriggerRoleRevokedLog E v chainSelector confidence filters =
     log_trigger v ''RoleRevoked'' ''RoleRevoked'' (base_EncodeRoleRevokedTopics E) chainSelector confidence filters"

definition base_FilterLogsRoleRevoked :: "query_fun" where
  "base_FilterLogsRoleRevoked E v options = filter_logs E v (base_RoleRevokedLogHash (vb_Codec v)) options"

definition base_EncodeUnpausedTopics :: "env \<Rightarrow> abi_event \<Rightarrow> gstruct list \<Rightarrow> byte list list list outcome" where
  "base_EncodeUnpausedTopics E evt values =
     encode_topics E evt [] values"

definition base_AdaptUnpaused :: "env \<Rightarrow> event_trigger \<Rightarrow> evm_log option \<Rightarrow> gstruct decoded_log outcome" where
  "base_AdaptUnpaused E t = adapt_log ''Unpaused'' (base_DecodeUnpaused E (vb_Codec (et_contract t)))"

definition base_LogTriggerUnpausedLog :: "trigger_fun" where
  "base_LogTriggerUnpausedLog E v chainSelector confidence filters =
     log_trigger v ''Unpaused'' ''Unpaused'' (base_EncodeUnpausedTopics E) chainSelector confidence filters"

definition base_FilterLogsUnpaused :: "query_fun" where
  "base_FilterLogsUnpaused E v options = filter_logs E v (base_UnpausedLogHash (vb_Codec v)) options"

definition base_EncodeUpgradedTopics :: "env \<Rightarrow> abi_event \<Rightarrow> gstruct list \<Rightarrow> byte list list list outcome" where
  "base_EncodeUpgradedTopics E evt values =
     encode_topics E evt [(0, ''Implementation'')] values"

definition base_AdaptUpgraded :: "env \<Rightarrow> event_trigger \<Rightarrow> evm_log option \<Rightarrow> gstruct decoded_log outcome" where
  "base_AdaptUpgraded E t = adapt_log ''Upgraded'' (base_DecodeUpgraded E (vb_Codec (et_contract t)))"

definition base_LogTriggerUpgradedLog :: "trigger_fun" where
  "base_LogTriggerUpgradedLog E v chainSelector confidence filters =
     log_trigger v ''Upgraded'' ''Upgraded'' (base_EncodeUpgradedTopics E) chainSelector confidence filters"

definition base_FilterLogsUpgraded :: "query_fun" where
  "base_FilterLogsUpgraded E v options = filter_logs E v (base_UpgradedLogHash (vb_Codec v)) options"

section \<open>The events against their interface\<close>

definition base_event_table :: "event_spec list" where
  "base_event_table =
     [\<lparr>es_Go = ''ActiveProtocolAdapterCleared'', es_Name = ''ActiveProtocolAdapterCleared'', es_Topics = [(0,
        ''Adapter'', TAddr)]\<rparr>,
      \<lparr>es_Go = ''ActiveProtocolAdapterSet'', es_Name = ''ActiveProtocolAdapterSet'', es_Topics = [(0,
        ''ProtocolId'', TFix 32), (1, ''Adapter'', TAddr)]\<rparr>,
      \<lparr>es_Go = ''CCIPBridged'', es_Name = ''CCIPBridged'', es_Topics = [(0, ''CcipMessageId'', TFix 32),
        (1, ''DestinationChainSelector'', TU64), (2, ''CcipTxType'', TU8)]\<rparr>,
      \<lparr>es_Go = ''CCIPReceived'', es_Name = ''CCIPReceived'', es_Topics = [(0, ''CcipMessageId'', TFix 32),
        (1, ''SourceChainSelector'', TU64), (2, ''CcipTxType'', TU8)]\<rparr>,
      \<lparr>es_Go = ''CcipGasLimitSet'', es_Name = ''CcipGasLimitSet'', es_Topics = [(0, ''ChainSelector'', TU64),
        (1, ''GasLimit'', TBig)]\<rparr>,
      \<lparr>es_Go = ''CrosschainVaultSet'', es_Name = ''CrosschainVaultSet'', es_Topics = [(0, ''ChainSelector'',
        TU64), (1, ''Vault'', TAddr)]\<rparr>,
      \<lparr>es_Go = ''DefaultAdminDelayChangeCanceled'', es_Name = ''DefaultAdminDelayChangeCanceled'',
        es_Topics = []\<rparr>,
      \<lparr>es_Go = ''DefaultAdminDelayChangeScheduled'', es_Name = ''DefaultAdminDelayChangeScheduled'',
        es_Topics = []\<rparr>,
      \<lparr>es_Go = ''DefaultAdminTransferCanceled'', es_Name = ''DefaultAdminTransferCanceled'', es_Topics = []\<rparr>,
      \<lparr>es_Go = ''DefaultAdminTransferScheduled'', es_Name = ''DefaultAdminTransferScheduled'', es_Topics = [(0,
        ''NewAdmin'', TAddr)]\<rparr>,
      \<lparr>es_Go = ''DefaultCcipGasLimitSet'', es_Name = ''DefaultCcipGasLimitSet'', es_Topics = [(0, ''GasLimit'',
        TBig)]\<rparr>,
      \<lparr>es_Go = ''EpochDepositToStrategySuccess'', es_Name = ''EpochDepositToStrategySuccess'', es_Topics = [(0,
        ''EpochNonce'', TBig), (1, ''Amount'', TBig)]\<rparr>,
      \<lparr>es_Go = ''EpochWithdrawFromStrategySuccess'', es_Name = ''EpochWithdrawFromStrategySuccess'',
        es_Topics = [(0, ''EpochNonce'', TBig), (1, ''Amount'', TBig)]\<rparr>,
      \<lparr>es_Go = ''Initialized'', es_Name = ''Initialized'', es_Topics = []\<rparr>,
      \<lparr>es_Go = ''LinkWithdrawn'', es_Name = ''LinkWithdrawn'', es_Topics = [(0, ''Operator'', TAddr),
        (1, ''Amount'', TBig)]\<rparr>,
      \<lparr>es_Go = ''Paused'', es_Name = ''Paused'', es_Topics = []\<rparr>,
      \<lparr>es_Go = ''RebalanceDepositFailure'', es_Name = ''RebalanceDepositFailure'', es_Topics = [(0,
        ''RebalanceNonce'', TBig), (1, ''Amount'', TBig)]\<rparr>,
      \<lparr>es_Go = ''RebalanceDepositRecoveryCleared'', es_Name = ''RebalanceDepositRecoveryCleared'',
        es_Topics = [(0, ''RebalanceNonce'', TBig)]\<rparr>,
      \<lparr>es_Go = ''RebalanceDepositRecoveryStored'', es_Name = ''RebalanceDepositRecoveryStored'', es_Topics = [(0,
        ''RebalanceNonce'', TBig), (1, ''Amount'', TBig)]\<rparr>,
      \<lparr>es_Go = ''RebalanceDepositSuccess'', es_Name = ''RebalanceDepositSuccess'', es_Topics = [(0,
        ''RebalanceNonce'', TBig), (1, ''Amount'', TBig)]\<rparr>,
      \<lparr>es_Go = ''RebalanceWithdrawSuccess'', es_Name = ''RebalanceWithdrawSuccess'', es_Topics = [(0,
        ''RebalanceNonce'', TBig), (1, ''Amount'', TBig)]\<rparr>,
      \<lparr>es_Go = ''RoleAdminChanged'', es_Name = ''RoleAdminChanged'', es_Topics = [(0, ''Role'', TFix 32),
        (1, ''PreviousAdminRole'', TFix 32), (2, ''NewAdminRole'', TFix 32)]\<rparr>,
      \<lparr>es_Go = ''RoleGranted'', es_Name = ''RoleGranted'', es_Topics = [(0, ''Role'', TFix 32),
        (1, ''Account'', TAddr), (2, ''Sender'', TAddr)]\<rparr>,
      \<lparr>es_Go = ''RoleRevoked'', es_Name = ''RoleRevoked'', es_Topics = [(0, ''Role'', TFix 32),
        (1, ''Account'', TAddr), (2, ''Sender'', TAddr)]\<rparr>,
      \<lparr>es_Go = ''Unpaused'', es_Name = ''Unpaused'', es_Topics = []\<rparr>,
      \<lparr>es_Go = ''Upgraded'', es_Name = ''Upgraded'', es_Topics = [(0, ''Implementation'', TAddr)]\<rparr>]"

definition base_subscriptions :: "(trigger_fun \<times> query_fun) list" where
  "base_subscriptions =
     [(base_LogTriggerActiveProtocolAdapterClearedLog, base_FilterLogsActiveProtocolAdapterCleared),
      (base_LogTriggerActiveProtocolAdapterSetLog, base_FilterLogsActiveProtocolAdapterSet),
      (base_LogTriggerCCIPBridgedLog, base_FilterLogsCCIPBridged),
      (base_LogTriggerCCIPReceivedLog, base_FilterLogsCCIPReceived),
      (base_LogTriggerCcipGasLimitSetLog, base_FilterLogsCcipGasLimitSet),
      (base_LogTriggerCrosschainVaultSetLog, base_FilterLogsCrosschainVaultSet),
      (base_LogTriggerDefaultAdminDelayChangeCanceledLog, base_FilterLogsDefaultAdminDelayChangeCanceled),
      (base_LogTriggerDefaultAdminDelayChangeScheduledLog, base_FilterLogsDefaultAdminDelayChangeScheduled),
      (base_LogTriggerDefaultAdminTransferCanceledLog, base_FilterLogsDefaultAdminTransferCanceled),
      (base_LogTriggerDefaultAdminTransferScheduledLog, base_FilterLogsDefaultAdminTransferScheduled),
      (base_LogTriggerDefaultCcipGasLimitSetLog, base_FilterLogsDefaultCcipGasLimitSet),
      (base_LogTriggerEpochDepositToStrategySuccessLog, base_FilterLogsEpochDepositToStrategySuccess),
      (base_LogTriggerEpochWithdrawFromStrategySuccessLog, base_FilterLogsEpochWithdrawFromStrategySuccess),
      (base_LogTriggerInitializedLog, base_FilterLogsInitialized),
      (base_LogTriggerLinkWithdrawnLog, base_FilterLogsLinkWithdrawn),
      (base_LogTriggerPausedLog, base_FilterLogsPaused),
      (base_LogTriggerRebalanceDepositFailureLog, base_FilterLogsRebalanceDepositFailure),
      (base_LogTriggerRebalanceDepositRecoveryClearedLog, base_FilterLogsRebalanceDepositRecoveryCleared),
      (base_LogTriggerRebalanceDepositRecoveryStoredLog, base_FilterLogsRebalanceDepositRecoveryStored),
      (base_LogTriggerRebalanceDepositSuccessLog, base_FilterLogsRebalanceDepositSuccess),
      (base_LogTriggerRebalanceWithdrawSuccessLog, base_FilterLogsRebalanceWithdrawSuccess),
      (base_LogTriggerRoleAdminChangedLog, base_FilterLogsRoleAdminChanged),
      (base_LogTriggerRoleGrantedLog, base_FilterLogsRoleGranted),
      (base_LogTriggerRoleRevokedLog, base_FilterLogsRoleRevoked),
      (base_LogTriggerUnpausedLog, base_FilterLogsUnpaused),
      (base_LogTriggerUpgradedLog, base_FilterLogsUpgraded)]"

lemmas base_subscription_defs =
  base_EncodeActiveProtocolAdapterClearedTopics_def [abs_def]
  base_LogTriggerActiveProtocolAdapterClearedLog_def [abs_def]
  base_FilterLogsActiveProtocolAdapterCleared_def [abs_def]
  base_ActiveProtocolAdapterClearedLogHash_def [abs_def]
  base_EncodeActiveProtocolAdapterSetTopics_def [abs_def]
  base_LogTriggerActiveProtocolAdapterSetLog_def [abs_def]
  base_FilterLogsActiveProtocolAdapterSet_def [abs_def]
  base_ActiveProtocolAdapterSetLogHash_def [abs_def]
  base_EncodeCCIPBridgedTopics_def [abs_def]
  base_LogTriggerCCIPBridgedLog_def [abs_def]
  base_FilterLogsCCIPBridged_def [abs_def]
  base_CCIPBridgedLogHash_def [abs_def]
  base_EncodeCCIPReceivedTopics_def [abs_def]
  base_LogTriggerCCIPReceivedLog_def [abs_def]
  base_FilterLogsCCIPReceived_def [abs_def]
  base_CCIPReceivedLogHash_def [abs_def]
  base_EncodeCcipGasLimitSetTopics_def [abs_def]
  base_LogTriggerCcipGasLimitSetLog_def [abs_def]
  base_FilterLogsCcipGasLimitSet_def [abs_def]
  base_CcipGasLimitSetLogHash_def [abs_def]
  base_EncodeCrosschainVaultSetTopics_def [abs_def]
  base_LogTriggerCrosschainVaultSetLog_def [abs_def]
  base_FilterLogsCrosschainVaultSet_def [abs_def]
  base_CrosschainVaultSetLogHash_def [abs_def]
  base_EncodeDefaultAdminDelayChangeCanceledTopics_def [abs_def]
  base_LogTriggerDefaultAdminDelayChangeCanceledLog_def [abs_def]
  base_FilterLogsDefaultAdminDelayChangeCanceled_def [abs_def]
  base_DefaultAdminDelayChangeCanceledLogHash_def [abs_def]
  base_EncodeDefaultAdminDelayChangeScheduledTopics_def [abs_def]
  base_LogTriggerDefaultAdminDelayChangeScheduledLog_def [abs_def]
  base_FilterLogsDefaultAdminDelayChangeScheduled_def [abs_def]
  base_DefaultAdminDelayChangeScheduledLogHash_def [abs_def]
  base_EncodeDefaultAdminTransferCanceledTopics_def [abs_def]
  base_LogTriggerDefaultAdminTransferCanceledLog_def [abs_def]
  base_FilterLogsDefaultAdminTransferCanceled_def [abs_def]
  base_DefaultAdminTransferCanceledLogHash_def [abs_def]
  base_EncodeDefaultAdminTransferScheduledTopics_def [abs_def]
  base_LogTriggerDefaultAdminTransferScheduledLog_def [abs_def]
  base_FilterLogsDefaultAdminTransferScheduled_def [abs_def]
  base_DefaultAdminTransferScheduledLogHash_def [abs_def]
  base_EncodeDefaultCcipGasLimitSetTopics_def [abs_def]
  base_LogTriggerDefaultCcipGasLimitSetLog_def [abs_def]
  base_FilterLogsDefaultCcipGasLimitSet_def [abs_def]
  base_DefaultCcipGasLimitSetLogHash_def [abs_def]
  base_EncodeEpochDepositToStrategySuccessTopics_def [abs_def]
  base_LogTriggerEpochDepositToStrategySuccessLog_def [abs_def]
  base_FilterLogsEpochDepositToStrategySuccess_def [abs_def]
  base_EpochDepositToStrategySuccessLogHash_def [abs_def]
  base_EncodeEpochWithdrawFromStrategySuccessTopics_def [abs_def]
  base_LogTriggerEpochWithdrawFromStrategySuccessLog_def [abs_def]
  base_FilterLogsEpochWithdrawFromStrategySuccess_def [abs_def]
  base_EpochWithdrawFromStrategySuccessLogHash_def [abs_def]
  base_EncodeInitializedTopics_def [abs_def]
  base_LogTriggerInitializedLog_def [abs_def]
  base_FilterLogsInitialized_def [abs_def]
  base_InitializedLogHash_def [abs_def]
  base_EncodeLinkWithdrawnTopics_def [abs_def]
  base_LogTriggerLinkWithdrawnLog_def [abs_def]
  base_FilterLogsLinkWithdrawn_def [abs_def]
  base_LinkWithdrawnLogHash_def [abs_def]
  base_EncodePausedTopics_def [abs_def]
  base_LogTriggerPausedLog_def [abs_def]
  base_FilterLogsPaused_def [abs_def]
  base_PausedLogHash_def [abs_def]
  base_EncodeRebalanceDepositFailureTopics_def [abs_def]
  base_LogTriggerRebalanceDepositFailureLog_def [abs_def]
  base_FilterLogsRebalanceDepositFailure_def [abs_def]
  base_RebalanceDepositFailureLogHash_def [abs_def]
  base_EncodeRebalanceDepositRecoveryClearedTopics_def [abs_def]
  base_LogTriggerRebalanceDepositRecoveryClearedLog_def [abs_def]
  base_FilterLogsRebalanceDepositRecoveryCleared_def [abs_def]
  base_RebalanceDepositRecoveryClearedLogHash_def [abs_def]
  base_EncodeRebalanceDepositRecoveryStoredTopics_def [abs_def]
  base_LogTriggerRebalanceDepositRecoveryStoredLog_def [abs_def]
  base_FilterLogsRebalanceDepositRecoveryStored_def [abs_def]
  base_RebalanceDepositRecoveryStoredLogHash_def [abs_def]
  base_EncodeRebalanceDepositSuccessTopics_def [abs_def]
  base_LogTriggerRebalanceDepositSuccessLog_def [abs_def]
  base_FilterLogsRebalanceDepositSuccess_def [abs_def]
  base_RebalanceDepositSuccessLogHash_def [abs_def]
  base_EncodeRebalanceWithdrawSuccessTopics_def [abs_def]
  base_LogTriggerRebalanceWithdrawSuccessLog_def [abs_def]
  base_FilterLogsRebalanceWithdrawSuccess_def [abs_def]
  base_RebalanceWithdrawSuccessLogHash_def [abs_def]
  base_EncodeRoleAdminChangedTopics_def [abs_def]
  base_LogTriggerRoleAdminChangedLog_def [abs_def]
  base_FilterLogsRoleAdminChanged_def [abs_def]
  base_RoleAdminChangedLogHash_def [abs_def]
  base_EncodeRoleGrantedTopics_def [abs_def]
  base_LogTriggerRoleGrantedLog_def [abs_def]
  base_FilterLogsRoleGranted_def [abs_def]
  base_RoleGrantedLogHash_def [abs_def]
  base_EncodeRoleRevokedTopics_def [abs_def]
  base_LogTriggerRoleRevokedLog_def [abs_def]
  base_FilterLogsRoleRevoked_def [abs_def]
  base_RoleRevokedLogHash_def [abs_def]
  base_EncodeUnpausedTopics_def [abs_def]
  base_LogTriggerUnpausedLog_def [abs_def]
  base_FilterLogsUnpaused_def [abs_def]
  base_UnpausedLogHash_def [abs_def]
  base_EncodeUpgradedTopics_def [abs_def]
  base_LogTriggerUpgradedLog_def [abs_def]
  base_FilterLogsUpgraded_def [abs_def]
  base_UpgradedLogHash_def [abs_def]

lemma base_subscriptions_eq: "base_subscriptions = map table_subscription base_event_table"
  by (simp add: base_subscriptions_def base_event_table_def table_subscription_def table_topics_def [abs_def] base_subscription_defs)

lemma base_event_names: "distinct (map fst base_events)"
  by (rule names_distinct) code_simp

lemma base_events_fit: "list_all2 (\<lambda>e s. fst e = es_Name s \<and> topics_fit (snd e) (es_Topics s)) base_events base_event_table"
  by code_simp

interpretation base_logs: event_binding base_events base_event_table base_subscriptions
  by unfold_locales (rule base_subscriptions_eq, rule event_conformsI [OF base_events_fit base_event_names])

end
