(* ===== verification/Router_Logs.thy ===== *)
theory Router_Logs
  imports Binding_Contracts Router_Decoders
begin

text \<open>
  The logs of the generated WorkflowRouter package (\<open>cre/contracts/evm/generated/workflow_router/WorkflowRouter.go\<close>): the events of its
  ABI literal, and for each event the topics of a filter, the log trigger with its decoding of a delivered log, and the log
  query. The interpretation at the end checks the topics against the literal.
\<close>

section \<open>The events of the ABI literal\<close>

definition router_events :: "event_literal list" where
  "router_events =
     [(''DefaultAdminDelayChangeCanceled'', []),
      (''DefaultAdminDelayChangeScheduled'', [(''newDelay'', False, SUint 48), (''effectSchedule'', False, SUint 48)]),
      (''DefaultAdminTransferCanceled'', []),
      (''DefaultAdminTransferScheduled'', [(''newAdmin'', True, SAddress), (''acceptSchedule'', False, SUint 48)]),
      (''Paused'', [(''account'', False, SAddress)]),
      (''RoleAdminChanged'', [(''role'', True, SFixed 32), (''previousAdminRole'', True, SFixed 32),
        (''newAdminRole'', True, SFixed 32)]),
      (''RoleGranted'', [(''role'', True, SFixed 32), (''account'', True, SAddress), (''sender'', True, SAddress)]),
      (''RoleRevoked'', [(''role'', True, SFixed 32), (''account'', True, SAddress), (''sender'', True, SAddress)]),
      (''Unpaused'', [(''account'', False, SAddress)]),
      (''WorkflowMetadataSet'', [(''workflowId'', True, SFixed 32), (''name'', True, SFixed 10),
        (''owner'', True, SAddress)]),
      (''WorkflowSelectorSet'', [(''workflowId'', True, SFixed 32), (''selector'', True, SFixed 4),
        (''isAllowlisted'', True, SBool)])]"

section \<open>Topics, triggers and queries\<close>

definition router_EncodeDefaultAdminDelayChangeCanceledTopics :: "env \<Rightarrow> abi_event \<Rightarrow> gstruct list \<Rightarrow> byte list list list outcome" where
  "router_EncodeDefaultAdminDelayChangeCanceledTopics E evt values =
     encode_topics E evt [] values"

definition router_AdaptDefaultAdminDelayChangeCanceled :: "env \<Rightarrow> event_trigger \<Rightarrow> evm_log option \<Rightarrow> gstruct decoded_log outcome" where
  "router_AdaptDefaultAdminDelayChangeCanceled E t = adapt_log ''DefaultAdminDelayChangeCanceled'' (router_DecodeDefaultAdminDelayChangeCanceled E (vb_Codec (et_contract t)))"

definition router_LogTriggerDefaultAdminDelayChangeCanceledLog :: "trigger_fun" where
  "router_LogTriggerDefaultAdminDelayChangeCanceledLog E v chainSelector confidence filters =
     log_trigger v ''DefaultAdminDelayChangeCanceled'' ''DefaultAdminDelayChangeCanceled'' (router_EncodeDefaultAdminDelayChangeCanceledTopics E) chainSelector confidence filters"

definition router_FilterLogsDefaultAdminDelayChangeCanceled :: "query_fun" where
  "router_FilterLogsDefaultAdminDelayChangeCanceled E v options = filter_logs E v (router_DefaultAdminDelayChangeCanceledLogHash (vb_Codec v)) options"

definition router_EncodeDefaultAdminDelayChangeScheduledTopics :: "env \<Rightarrow> abi_event \<Rightarrow> gstruct list \<Rightarrow> byte list list list outcome" where
  "router_EncodeDefaultAdminDelayChangeScheduledTopics E evt values =
     encode_topics E evt [] values"

definition router_AdaptDefaultAdminDelayChangeScheduled :: "env \<Rightarrow> event_trigger \<Rightarrow> evm_log option \<Rightarrow> gstruct decoded_log outcome" where
  "router_AdaptDefaultAdminDelayChangeScheduled E t = adapt_log ''DefaultAdminDelayChangeScheduled'' (router_DecodeDefaultAdminDelayChangeScheduled E (vb_Codec (et_contract t)))"

definition router_LogTriggerDefaultAdminDelayChangeScheduledLog :: "trigger_fun" where
  "router_LogTriggerDefaultAdminDelayChangeScheduledLog E v chainSelector confidence filters =
     log_trigger v ''DefaultAdminDelayChangeScheduled'' ''DefaultAdminDelayChangeScheduled'' (router_EncodeDefaultAdminDelayChangeScheduledTopics E) chainSelector confidence filters"

definition router_FilterLogsDefaultAdminDelayChangeScheduled :: "query_fun" where
  "router_FilterLogsDefaultAdminDelayChangeScheduled E v options = filter_logs E v (router_DefaultAdminDelayChangeScheduledLogHash (vb_Codec v)) options"

definition router_EncodeDefaultAdminTransferCanceledTopics :: "env \<Rightarrow> abi_event \<Rightarrow> gstruct list \<Rightarrow> byte list list list outcome" where
  "router_EncodeDefaultAdminTransferCanceledTopics E evt values =
     encode_topics E evt [] values"

definition router_AdaptDefaultAdminTransferCanceled :: "env \<Rightarrow> event_trigger \<Rightarrow> evm_log option \<Rightarrow> gstruct decoded_log outcome" where
  "router_AdaptDefaultAdminTransferCanceled E t = adapt_log ''DefaultAdminTransferCanceled'' (router_DecodeDefaultAdminTransferCanceled E (vb_Codec (et_contract t)))"

definition router_LogTriggerDefaultAdminTransferCanceledLog :: "trigger_fun" where
  "router_LogTriggerDefaultAdminTransferCanceledLog E v chainSelector confidence filters =
     log_trigger v ''DefaultAdminTransferCanceled'' ''DefaultAdminTransferCanceled'' (router_EncodeDefaultAdminTransferCanceledTopics E) chainSelector confidence filters"

definition router_FilterLogsDefaultAdminTransferCanceled :: "query_fun" where
  "router_FilterLogsDefaultAdminTransferCanceled E v options = filter_logs E v (router_DefaultAdminTransferCanceledLogHash (vb_Codec v)) options"

definition router_EncodeDefaultAdminTransferScheduledTopics :: "env \<Rightarrow> abi_event \<Rightarrow> gstruct list \<Rightarrow> byte list list list outcome" where
  "router_EncodeDefaultAdminTransferScheduledTopics E evt values =
     encode_topics E evt [(0, ''NewAdmin'')] values"

definition router_AdaptDefaultAdminTransferScheduled :: "env \<Rightarrow> event_trigger \<Rightarrow> evm_log option \<Rightarrow> gstruct decoded_log outcome" where
  "router_AdaptDefaultAdminTransferScheduled E t = adapt_log ''DefaultAdminTransferScheduled'' (router_DecodeDefaultAdminTransferScheduled E (vb_Codec (et_contract t)))"

definition router_LogTriggerDefaultAdminTransferScheduledLog :: "trigger_fun" where
  "router_LogTriggerDefaultAdminTransferScheduledLog E v chainSelector confidence filters =
     log_trigger v ''DefaultAdminTransferScheduled'' ''DefaultAdminTransferScheduled'' (router_EncodeDefaultAdminTransferScheduledTopics E) chainSelector confidence filters"

definition router_FilterLogsDefaultAdminTransferScheduled :: "query_fun" where
  "router_FilterLogsDefaultAdminTransferScheduled E v options = filter_logs E v (router_DefaultAdminTransferScheduledLogHash (vb_Codec v)) options"

definition router_EncodePausedTopics :: "env \<Rightarrow> abi_event \<Rightarrow> gstruct list \<Rightarrow> byte list list list outcome" where
  "router_EncodePausedTopics E evt values =
     encode_topics E evt [] values"

definition router_AdaptPaused :: "env \<Rightarrow> event_trigger \<Rightarrow> evm_log option \<Rightarrow> gstruct decoded_log outcome" where
  "router_AdaptPaused E t = adapt_log ''Paused'' (router_DecodePaused E (vb_Codec (et_contract t)))"

definition router_LogTriggerPausedLog :: "trigger_fun" where
  "router_LogTriggerPausedLog E v chainSelector confidence filters =
     log_trigger v ''Paused'' ''Paused'' (router_EncodePausedTopics E) chainSelector confidence filters"

definition router_FilterLogsPaused :: "query_fun" where
  "router_FilterLogsPaused E v options = filter_logs E v (router_PausedLogHash (vb_Codec v)) options"

definition router_EncodeRoleAdminChangedTopics :: "env \<Rightarrow> abi_event \<Rightarrow> gstruct list \<Rightarrow> byte list list list outcome" where
  "router_EncodeRoleAdminChangedTopics E evt values =
     encode_topics E evt [(0, ''Role''), (1, ''PreviousAdminRole''), (2, ''NewAdminRole'')] values"

definition router_AdaptRoleAdminChanged :: "env \<Rightarrow> event_trigger \<Rightarrow> evm_log option \<Rightarrow> gstruct decoded_log outcome" where
  "router_AdaptRoleAdminChanged E t = adapt_log ''RoleAdminChanged'' (router_DecodeRoleAdminChanged E (vb_Codec (et_contract t)))"

definition router_LogTriggerRoleAdminChangedLog :: "trigger_fun" where
  "router_LogTriggerRoleAdminChangedLog E v chainSelector confidence filters =
     log_trigger v ''RoleAdminChanged'' ''RoleAdminChanged'' (router_EncodeRoleAdminChangedTopics E) chainSelector confidence filters"

definition router_FilterLogsRoleAdminChanged :: "query_fun" where
  "router_FilterLogsRoleAdminChanged E v options = filter_logs E v (router_RoleAdminChangedLogHash (vb_Codec v)) options"

definition router_EncodeRoleGrantedTopics :: "env \<Rightarrow> abi_event \<Rightarrow> gstruct list \<Rightarrow> byte list list list outcome" where
  "router_EncodeRoleGrantedTopics E evt values =
     encode_topics E evt [(0, ''Role''), (1, ''Account''), (2, ''Sender'')] values"

definition router_AdaptRoleGranted :: "env \<Rightarrow> event_trigger \<Rightarrow> evm_log option \<Rightarrow> gstruct decoded_log outcome" where
  "router_AdaptRoleGranted E t = adapt_log ''RoleGranted'' (router_DecodeRoleGranted E (vb_Codec (et_contract t)))"

definition router_LogTriggerRoleGrantedLog :: "trigger_fun" where
  "router_LogTriggerRoleGrantedLog E v chainSelector confidence filters =
     log_trigger v ''RoleGranted'' ''RoleGranted'' (router_EncodeRoleGrantedTopics E) chainSelector confidence filters"

definition router_FilterLogsRoleGranted :: "query_fun" where
  "router_FilterLogsRoleGranted E v options = filter_logs E v (router_RoleGrantedLogHash (vb_Codec v)) options"

definition router_EncodeRoleRevokedTopics :: "env \<Rightarrow> abi_event \<Rightarrow> gstruct list \<Rightarrow> byte list list list outcome" where
  "router_EncodeRoleRevokedTopics E evt values =
     encode_topics E evt [(0, ''Role''), (1, ''Account''), (2, ''Sender'')] values"

definition router_AdaptRoleRevoked :: "env \<Rightarrow> event_trigger \<Rightarrow> evm_log option \<Rightarrow> gstruct decoded_log outcome" where
  "router_AdaptRoleRevoked E t = adapt_log ''RoleRevoked'' (router_DecodeRoleRevoked E (vb_Codec (et_contract t)))"

definition router_LogTriggerRoleRevokedLog :: "trigger_fun" where
  "router_LogTriggerRoleRevokedLog E v chainSelector confidence filters =
     log_trigger v ''RoleRevoked'' ''RoleRevoked'' (router_EncodeRoleRevokedTopics E) chainSelector confidence filters"

definition router_FilterLogsRoleRevoked :: "query_fun" where
  "router_FilterLogsRoleRevoked E v options = filter_logs E v (router_RoleRevokedLogHash (vb_Codec v)) options"

definition router_EncodeUnpausedTopics :: "env \<Rightarrow> abi_event \<Rightarrow> gstruct list \<Rightarrow> byte list list list outcome" where
  "router_EncodeUnpausedTopics E evt values =
     encode_topics E evt [] values"

definition router_AdaptUnpaused :: "env \<Rightarrow> event_trigger \<Rightarrow> evm_log option \<Rightarrow> gstruct decoded_log outcome" where
  "router_AdaptUnpaused E t = adapt_log ''Unpaused'' (router_DecodeUnpaused E (vb_Codec (et_contract t)))"

definition router_LogTriggerUnpausedLog :: "trigger_fun" where
  "router_LogTriggerUnpausedLog E v chainSelector confidence filters =
     log_trigger v ''Unpaused'' ''Unpaused'' (router_EncodeUnpausedTopics E) chainSelector confidence filters"

definition router_FilterLogsUnpaused :: "query_fun" where
  "router_FilterLogsUnpaused E v options = filter_logs E v (router_UnpausedLogHash (vb_Codec v)) options"

definition router_EncodeWorkflowMetadataSetTopics :: "env \<Rightarrow> abi_event \<Rightarrow> gstruct list \<Rightarrow> byte list list list outcome" where
  "router_EncodeWorkflowMetadataSetTopics E evt values =
     encode_topics E evt [(0, ''WorkflowId''), (1, ''Name''), (2, ''Owner'')] values"

definition router_AdaptWorkflowMetadataSet :: "env \<Rightarrow> event_trigger \<Rightarrow> evm_log option \<Rightarrow> gstruct decoded_log outcome" where
  "router_AdaptWorkflowMetadataSet E t = adapt_log ''WorkflowMetadataSet'' (router_DecodeWorkflowMetadataSet E (vb_Codec (et_contract t)))"

definition router_LogTriggerWorkflowMetadataSetLog :: "trigger_fun" where
  "router_LogTriggerWorkflowMetadataSetLog E v chainSelector confidence filters =
     log_trigger v ''WorkflowMetadataSet'' ''WorkflowMetadataSet'' (router_EncodeWorkflowMetadataSetTopics E) chainSelector confidence filters"

definition router_FilterLogsWorkflowMetadataSet :: "query_fun" where
  "router_FilterLogsWorkflowMetadataSet E v options = filter_logs E v (router_WorkflowMetadataSetLogHash (vb_Codec v)) options"

definition router_EncodeWorkflowSelectorSetTopics :: "env \<Rightarrow> abi_event \<Rightarrow> gstruct list \<Rightarrow> byte list list list outcome" where
  "router_EncodeWorkflowSelectorSetTopics E evt values =
     encode_topics E evt [(0, ''WorkflowId''), (1, ''Selector''), (2, ''IsAllowlisted'')] values"

definition router_AdaptWorkflowSelectorSet :: "env \<Rightarrow> event_trigger \<Rightarrow> evm_log option \<Rightarrow> gstruct decoded_log outcome" where
  "router_AdaptWorkflowSelectorSet E t = adapt_log ''WorkflowSelectorSet'' (router_DecodeWorkflowSelectorSet E (vb_Codec (et_contract t)))"

definition router_LogTriggerWorkflowSelectorSetLog :: "trigger_fun" where
  "router_LogTriggerWorkflowSelectorSetLog E v chainSelector confidence filters =
     log_trigger v ''WorkflowSelectorSet'' ''WorkflowSelectorSet'' (router_EncodeWorkflowSelectorSetTopics E) chainSelector confidence filters"

definition router_FilterLogsWorkflowSelectorSet :: "query_fun" where
  "router_FilterLogsWorkflowSelectorSet E v options = filter_logs E v (router_WorkflowSelectorSetLogHash (vb_Codec v)) options"

section \<open>The events against their interface\<close>

definition router_event_table :: "event_spec list" where
  "router_event_table =
     [\<lparr>es_Go = ''DefaultAdminDelayChangeCanceled'', es_Name = ''DefaultAdminDelayChangeCanceled'',
        es_Topics = []\<rparr>,
      \<lparr>es_Go = ''DefaultAdminDelayChangeScheduled'', es_Name = ''DefaultAdminDelayChangeScheduled'',
        es_Topics = []\<rparr>,
      \<lparr>es_Go = ''DefaultAdminTransferCanceled'', es_Name = ''DefaultAdminTransferCanceled'', es_Topics = []\<rparr>,
      \<lparr>es_Go = ''DefaultAdminTransferScheduled'', es_Name = ''DefaultAdminTransferScheduled'', es_Topics = [(0,
        ''NewAdmin'', TAddr)]\<rparr>,
      \<lparr>es_Go = ''Paused'', es_Name = ''Paused'', es_Topics = []\<rparr>,
      \<lparr>es_Go = ''RoleAdminChanged'', es_Name = ''RoleAdminChanged'', es_Topics = [(0, ''Role'', TFix 32),
        (1, ''PreviousAdminRole'', TFix 32), (2, ''NewAdminRole'', TFix 32)]\<rparr>,
      \<lparr>es_Go = ''RoleGranted'', es_Name = ''RoleGranted'', es_Topics = [(0, ''Role'', TFix 32),
        (1, ''Account'', TAddr), (2, ''Sender'', TAddr)]\<rparr>,
      \<lparr>es_Go = ''RoleRevoked'', es_Name = ''RoleRevoked'', es_Topics = [(0, ''Role'', TFix 32),
        (1, ''Account'', TAddr), (2, ''Sender'', TAddr)]\<rparr>,
      \<lparr>es_Go = ''Unpaused'', es_Name = ''Unpaused'', es_Topics = []\<rparr>,
      \<lparr>es_Go = ''WorkflowMetadataSet'', es_Name = ''WorkflowMetadataSet'', es_Topics = [(0, ''WorkflowId'',
        TFix 32), (1, ''Name'', TFix 10), (2, ''Owner'', TAddr)]\<rparr>,
      \<lparr>es_Go = ''WorkflowSelectorSet'', es_Name = ''WorkflowSelectorSet'', es_Topics = [(0, ''WorkflowId'',
        TFix 32), (1, ''Selector'', TFix 4), (2, ''IsAllowlisted'', TBool)]\<rparr>]"

definition router_subscriptions :: "(trigger_fun \<times> query_fun) list" where
  "router_subscriptions =
     [(router_LogTriggerDefaultAdminDelayChangeCanceledLog, router_FilterLogsDefaultAdminDelayChangeCanceled),
      (router_LogTriggerDefaultAdminDelayChangeScheduledLog, router_FilterLogsDefaultAdminDelayChangeScheduled),
      (router_LogTriggerDefaultAdminTransferCanceledLog, router_FilterLogsDefaultAdminTransferCanceled),
      (router_LogTriggerDefaultAdminTransferScheduledLog, router_FilterLogsDefaultAdminTransferScheduled),
      (router_LogTriggerPausedLog, router_FilterLogsPaused),
      (router_LogTriggerRoleAdminChangedLog, router_FilterLogsRoleAdminChanged),
      (router_LogTriggerRoleGrantedLog, router_FilterLogsRoleGranted),
      (router_LogTriggerRoleRevokedLog, router_FilterLogsRoleRevoked),
      (router_LogTriggerUnpausedLog, router_FilterLogsUnpaused),
      (router_LogTriggerWorkflowMetadataSetLog, router_FilterLogsWorkflowMetadataSet),
      (router_LogTriggerWorkflowSelectorSetLog, router_FilterLogsWorkflowSelectorSet)]"

lemmas router_subscription_defs =
  router_EncodeDefaultAdminDelayChangeCanceledTopics_def [abs_def]
  router_LogTriggerDefaultAdminDelayChangeCanceledLog_def [abs_def]
  router_FilterLogsDefaultAdminDelayChangeCanceled_def [abs_def]
  router_DefaultAdminDelayChangeCanceledLogHash_def [abs_def]
  router_EncodeDefaultAdminDelayChangeScheduledTopics_def [abs_def]
  router_LogTriggerDefaultAdminDelayChangeScheduledLog_def [abs_def]
  router_FilterLogsDefaultAdminDelayChangeScheduled_def [abs_def]
  router_DefaultAdminDelayChangeScheduledLogHash_def [abs_def]
  router_EncodeDefaultAdminTransferCanceledTopics_def [abs_def]
  router_LogTriggerDefaultAdminTransferCanceledLog_def [abs_def]
  router_FilterLogsDefaultAdminTransferCanceled_def [abs_def]
  router_DefaultAdminTransferCanceledLogHash_def [abs_def]
  router_EncodeDefaultAdminTransferScheduledTopics_def [abs_def]
  router_LogTriggerDefaultAdminTransferScheduledLog_def [abs_def]
  router_FilterLogsDefaultAdminTransferScheduled_def [abs_def]
  router_DefaultAdminTransferScheduledLogHash_def [abs_def]
  router_EncodePausedTopics_def [abs_def]
  router_LogTriggerPausedLog_def [abs_def]
  router_FilterLogsPaused_def [abs_def]
  router_PausedLogHash_def [abs_def]
  router_EncodeRoleAdminChangedTopics_def [abs_def]
  router_LogTriggerRoleAdminChangedLog_def [abs_def]
  router_FilterLogsRoleAdminChanged_def [abs_def]
  router_RoleAdminChangedLogHash_def [abs_def]
  router_EncodeRoleGrantedTopics_def [abs_def]
  router_LogTriggerRoleGrantedLog_def [abs_def]
  router_FilterLogsRoleGranted_def [abs_def]
  router_RoleGrantedLogHash_def [abs_def]
  router_EncodeRoleRevokedTopics_def [abs_def]
  router_LogTriggerRoleRevokedLog_def [abs_def]
  router_FilterLogsRoleRevoked_def [abs_def]
  router_RoleRevokedLogHash_def [abs_def]
  router_EncodeUnpausedTopics_def [abs_def]
  router_LogTriggerUnpausedLog_def [abs_def]
  router_FilterLogsUnpaused_def [abs_def]
  router_UnpausedLogHash_def [abs_def]
  router_EncodeWorkflowMetadataSetTopics_def [abs_def]
  router_LogTriggerWorkflowMetadataSetLog_def [abs_def]
  router_FilterLogsWorkflowMetadataSet_def [abs_def]
  router_WorkflowMetadataSetLogHash_def [abs_def]
  router_EncodeWorkflowSelectorSetTopics_def [abs_def]
  router_LogTriggerWorkflowSelectorSetLog_def [abs_def]
  router_FilterLogsWorkflowSelectorSet_def [abs_def]
  router_WorkflowSelectorSetLogHash_def [abs_def]

lemma router_subscriptions_eq: "router_subscriptions = map table_subscription router_event_table"
  by (simp add: router_subscriptions_def router_event_table_def table_subscription_def table_topics_def [abs_def] router_subscription_defs)

lemma router_event_names: "distinct (map fst router_events)"
  by (rule names_distinct) code_simp

lemma router_events_fit: "list_all2 (\<lambda>e s. fst e = es_Name s \<and> topics_fit (snd e) (es_Topics s)) router_events router_event_table"
  by code_simp

interpretation router_logs: event_binding router_events router_event_table router_subscriptions
  by unfold_locales (rule router_subscriptions_eq, rule event_conformsI [OF router_events_fit router_event_names])

end
