(* ===== verification/Package_Properties.thy ===== *)
theory Package_Properties
  imports Binding_Properties Parent_Calls Child_Calls Base_Calls Router_Calls Parent_Logs Child_Logs Base_Logs Router_Logs
begin

text \<open>
  The properties of the four generated contract packages as a whole: calls, reads, event subscriptions and reports. They
  rest on the interpretations of \<open>contract_binding\<close> and \<open>event_binding\<close> on each package's own functions.
\<close>

section \<open>The packages\<close>

definition contract_packages where
  "contract_packages =
     {(parent_methods, NewParentVault, parent_call_table, parent_calls, parent_read_table, parent_reads, parent_mock_table, parent_funcMap),
      (child_methods, NewChildVault, child_call_table, child_calls, child_read_table, child_reads, child_mock_table, child_funcMap),
      (base_methods, NewBaseVault, base_call_table, base_calls, base_read_table, base_reads, base_mock_table, base_funcMap),
      (router_methods, NewWorkflowRouter, router_call_table, router_calls, router_read_table, router_reads, router_mock_table, router_funcMap)}"

definition event_packages where
  "event_packages =
     {(parent_events, parent_event_table, parent_subscriptions), (child_events, child_event_table, child_subscriptions),
      (base_events, base_event_table, base_subscriptions), (router_events, router_event_table, router_subscriptions)}"

lemma package_binding:
  "(ms, new, ts, encs, rt, rds, mt, funcs) \<in> contract_packages \<Longrightarrow> contract_binding ms new ts encs rt rds mt funcs"
  unfolding contract_packages_def
  using parent_contract.contract_binding_axioms child_contract.contract_binding_axioms base_contract.contract_binding_axioms
    router_contract.contract_binding_axioms by auto

lemma package_events: "(evs, ets, subs) \<in> event_packages \<Longrightarrow> event_binding evs ets subs"
  unfolding event_packages_def
  using parent_logs.event_binding_axioms child_logs.event_binding_axioms base_logs.event_binding_axioms
    router_logs.event_binding_axioms by auto

section \<open>Calls\<close>

text \<open>
  C32: Each of the 212 call encoders of the four packages belongs to a method of the package's ABI literal, and the Go types
  of its input struct are those of the method's inputs, in order. For an input whose values are in range, the encoded
  call is the method's selector followed by bytes that unpack to the struct's fields, in order.
\<close>

theorem calls_carry_arguments:
  assumes "(ms, new, ts, encs, rt, rds, mt, funcs) \<in> contract_packages" "(s, enc) \<in> set (zip ts encs)"
  shows "\<exists>m. find_method ms (fst s) = Some m \<and> list_all2 (\<lambda>i f. conforms (snd i) (snd f)) (am_Inputs m) (snd s) \<and>
    (\<forall>c inp. has_type (TStruct (snd s)) (GStruct inp) \<and> in_range (am_Inputs m) (map snd inp) \<and>
       pack_doc (codec_abi c) m (map snd inp) \<longrightarrow>
       (\<exists>payload. enc c inp = Ok (take 4 (abi_MethodID (codec_abi c) (fst s)) @ payload) \<and>
          abi_InputsUnpack (codec_abi c) (fst s) payload = Ok (map2 (\<lambda>i. abi_form (snd i)) (am_Inputs m) (map snd inp))))"
proof -
  note pkg = package_binding [OF assms(1)]
  from contract_binding.call_has_method [OF pkg set_zip_leftD [OF assms(2)]] obtain m where
    m: "find_method ms (fst s) = Some m" "list_all2 (\<lambda>i f. conforms (snd i) (snd f)) (am_Inputs m) (snd s)" by blast
  with contract_binding.call_carries [OF pkg assms(2) m(1)] show ?thesis by blast
qed

definition ex_call_abi :: abi where
  "ex_call_abi = ex_abi\<lparr>abi_MethodID := (\<lambda>name. [1, 2, 3, 4]), abi_Pack := (\<lambda>name vs. Ok ([1, 2, 3, 4] @ replicate 64 7)),
     abi_InputsUnpack := (\<lambda>name data. Ok [GBig (Some 3), GBig (Some 100)])\<rparr>"

lemma ex_close_call:
  "((''closeEpoch'', [(''ExpectedEpochNonce'', TBig), (''Tvl'', TBig)]),
    \<lambda>c inp. EncodeCloseEpochMethodCall c \<lparr>ce_ExpectedEpochNonce = as_big (map_of inp ''ExpectedEpochNonce''),
        ce_Tvl = as_big (map_of inp ''Tvl'')\<rparr>) \<in> set (zip parent_call_table parent_calls)"
  by (simp add: in_set_zip) (rule exI [of _ 13], simp add: parent_call_table_at parent_calls_def)

lemma ex_close_method:
  "find_method parent_methods ''closeEpoch'' = Some \<lparr>am_Name = ''closeEpoch'',
     am_Inputs = [(''expectedEpochNonce'', SUint 256), (''tvl'', SUint 256)], am_Outputs = []\<rparr>"
  by (simp add: find_method_def parent_methods_def)

lemma ex_parent_package:
  "(parent_methods, NewParentVault, parent_call_table, parent_calls, parent_read_table, parent_reads, parent_mock_table, parent_funcMap)
     \<in> contract_packages"
  by (simp add: contract_packages_def)

theorem calls_carry_arguments_witness:
  "EncodeCloseEpochMethodCall \<lparr>codec_abi = ex_call_abi\<rparr> \<lparr>ce_ExpectedEpochNonce = Some 3, ce_Tvl = Some 100\<rparr> =
     Ok ([1, 2, 3, 4] @ replicate 64 7) \<and>
   (\<exists>payload. EncodeCloseEpochMethodCall \<lparr>codec_abi = ex_call_abi\<rparr> \<lparr>ce_ExpectedEpochNonce = Some 3, ce_Tvl = Some 100\<rparr> =
     Ok ([1, 2, 3, 4] @ payload) \<and> abi_InputsUnpack ex_call_abi ''closeEpoch'' payload = Ok [GBig (Some 3), GBig (Some 100)])"
proof -
  let ?inp = "[(''ExpectedEpochNonce'', GBig (Some 3)), (''Tvl'', GBig (Some 100))]"
  have doc: "pack_doc ex_call_abi \<lparr>am_Name = ''closeEpoch'', am_Inputs = [(''expectedEpochNonce'', SUint 256), (''tvl'', SUint 256)],
      am_Outputs = []\<rparr> (map snd ?inp)"
    by (simp add: pack_doc_def ex_call_abi_def)
  show ?thesis
    using calls_carry_arguments [OF ex_parent_package ex_close_call] doc
    by (auto simp: ex_close_method in_range_def ex_call_abi_def EncodeCloseEpochMethodCall_def
        dest!: spec [where x = "\<lparr>codec_abi = ex_call_abi\<rparr>"] spec [where x = ?inp])
qed

section \<open>Reads\<close>

















section \<open>Events\<close>

text \<open>
  C34: Each of the 127 events of the four packages can be subscribed to and queried, and both select that event of that
  contract. A trigger listens at the contract's address; its topics are made from one rule per indexed argument
  of the event and per filter, in the literal's order, a zero field standing for the zero hash, together with the event's
  signature. A query without options is refused without a call; one with options asks once for the logs with that
  signature at that address in the given range.
\<close>

theorem subscriptions_select_event:
  assumes "(evs, ets, subs) \<in> event_packages" "(s, trigger, query) \<in> set (zip ets subs)" "map_of evs (es_Name s) = Some args"
    and "abi_EventInputs (vb_ABI v) (es_Name s) = map event_arg args" "vb_ABI v = codec_abi (vb_Codec v)"
    and "trigger E v chain confidence filters = Ok t"
  shows "(\<exists>rules raw. rules_for E (filter arg_indexed (map event_arg args)) (map (\<lambda>x. fst (snd x)) (es_Topics s)) filters rules \<and>
       MakeTopics E rules = Ok raw \<and> et_contract t = v \<and>
       et_Trigger t = \<lparr>lt_ChainSelector = chain, lt_Addresses = [address_Bytes (vb_Address v)],
         lt_Topics = PrepareTopics E raw (abi_EventID (vb_ABI v) (es_Name s)), lt_Confidence = confidence\<rparr>) \<and>
    query E v None tr = (Err (Errorf ''FilterLogs options are required.'' []), tr) \<and>
    (\<exists>fq. snd (query E v (Some opts) tr) = tr @ [HFilterLogs (vb_ChainSelector v) fq] \<and>
       fq_Addresses fq = [address_Bytes (vb_Address v)] \<and> fq_Topics fq = [[abi_EventID (vb_ABI v) (es_Name s)]] \<and>
       fq_BlockHash fq = fo_BlockHash opts \<and> fq_FromBlock fq = fo_FromBlock opts \<and> fq_ToBlock fq = fo_ToBlock opts)"
proof -
  note pkg = package_events [OF assms(1)]
  from event_binding.query_selects(2) [OF pkg assms(2), of E v opts tr] have
    "\<exists>fq. snd (query E v (Some opts) tr) = tr @ [HFilterLogs (vb_ChainSelector v) fq] \<and>
       fq_Addresses fq = [address_Bytes (vb_Address v)] \<and> fq_Topics fq = [[abi_EventID (vb_ABI v) (es_Name s)]] \<and>
       fq_BlockHash fq = fo_BlockHash opts \<and> fq_FromBlock fq = fo_FromBlock opts \<and> fq_ToBlock fq = fo_ToBlock opts"
    unfolding assms(5) by (elim exE conjE, intro exI conjI) (assumption, simp_all)
  with event_binding.trigger_selects [OF pkg assms(2,3,4,6)] event_binding.query_selects(1) [OF pkg assms(2)] show ?thesis by blast
qed

definition ex_log_abi :: abi where
  "ex_log_abi = ex_abi\<lparr>abi_EventInputs := (\<lambda>name. map event_arg
     [(''rebalanceNonce'', True, SUint 256), (''protocolId'', True, SFixed 32), (''chainSelector'', True, SUint 64)])\<rparr>"

definition ex_log_vault :: vault_binding where
  "ex_log_vault = \<lparr>vb_Address = 5, vb_ABI = ex_log_abi, vb_ChainSelector = 7, vb_Codec = \<lparr>codec_abi = ex_log_abi\<rparr>\<rparr>"

theorem subscriptions_select_event_witness:
  "\<exists>t rules. LogTriggerRebalanceInitiatedLog ex_env ex_log_vault 7 2 [[(''RebalanceNonce'', GBig (Some 4)),
        (''ProtocolId'', GFix (replicate 32 0)), (''ChainSelector'', GU64 0)]] = Ok t \<and>
     rules_for ex_env (map event_arg [(''rebalanceNonce'', True, SUint 256), (''protocolId'', True, SFixed 32), (''chainSelector'', True, SUint 64)])
       [''RebalanceNonce'', ''ProtocolId'', ''ChainSelector''] [[(''RebalanceNonce'', GBig (Some 4)),
        (''ProtocolId'', GFix (replicate 32 0)), (''ChainSelector'', GU64 0)]] rules \<and>
     lt_Addresses (et_Trigger t) = [address_Bytes 5]"
proof -
  let ?flt = "[[(''RebalanceNonce'', GBig (Some 4)), (''ProtocolId'', GFix (replicate 32 0)), (''ChainSelector'', GU64 0)]]"
  let ?args = "[(''rebalanceNonce'', True, SUint 256), (''protocolId'', True, SFixed 32), (''chainSelector'', True, SUint 64)]"
  let ?s = "\<lparr>es_Go = ''RebalanceInitiated'', es_Name = ''RebalanceInitiated'',
      es_Topics = [(0, ''RebalanceNonce'', TBig), (1, ''ProtocolId'', TFix 32), (2, ''ChainSelector'', TU64)]\<rparr>"
  have pkg: "(parent_events, parent_event_table, parent_subscriptions) \<in> event_packages" by (simp add: event_packages_def)
  have at: "(?s, LogTriggerRebalanceInitiatedLog, FilterLogsRebalanceInitiated) \<in> set (zip parent_event_table parent_subscriptions)"
    by (simp add: in_set_zip) (rule exI [of _ 35], simp add: parent_event_table_def parent_subscriptions_def)
  have args: "map_of parent_events (es_Name ?s) = Some ?args" by (simp add: parent_events_def)
  have inp: "abi_EventInputs (vb_ABI ex_log_vault) (es_Name ?s) = map event_arg ?args" "vb_ABI ex_log_vault = codec_abi (vb_Codec ex_log_vault)"
    by (simp_all add: ex_log_vault_def ex_log_abi_def)
  obtain t where t: "LogTriggerRebalanceInitiatedLog ex_env ex_log_vault 7 2 ?flt = Ok t"
    by (simp add: LogTriggerRebalanceInitiatedLog_def log_trigger_def EncodeRebalanceInitiatedTopics_def encode_topics_def
        topic_rule_of_def fld_def ex_env_def ex_log_vault_def ex_log_abi_def)
  have ix: "filter arg_indexed (map event_arg ?args) = map event_arg ?args" by (simp add: event_arg_def)
  from subscriptions_select_event [OF pkg at args inp t] obtain rules raw where
    "rules_for ex_env (filter arg_indexed (map event_arg ?args)) (map (\<lambda>x. fst (snd x)) (es_Topics ?s)) ?flt rules"
    "et_Trigger t = \<lparr>lt_ChainSelector = 7, lt_Addresses = [address_Bytes (vb_Address ex_log_vault)],
      lt_Topics = PrepareTopics ex_env raw (abi_EventID (vb_ABI ex_log_vault) (es_Name ?s)), lt_Confidence = 2\<rparr>" by blast
  with t show ?thesis unfolding ix by (intro exI [of _ t] exI [of _ rules]) (simp add: ex_log_vault_def)
qed

section \<open>Reports\<close>

text \<open>
  Each of the 24 functions that report a struct signs at most one report and writes at most once. Without an encoding
  of the struct it calls nothing and fails; otherwise it has the host sign exactly that encoding, and only when the host
  has signed it writes the host's report to the contract's own address with the given gas limit.
\<close>

theorem struct_reports_written_once:
  assumes "wrs \<in> {parent_struct_reports, child_struct_reports, base_struct_reports, router_struct_reports}"
    and "(enc, write) \<in> set wrs" "write E v inp gas tr = (r, tr')"
  shows "\<exists>cs. tr' = tr @ cs \<and>
    ((\<forall>payload. enc E inp \<noteq> Ok payload) \<and> cs = [] \<and> (\<forall>a. r \<noteq> Ok a) \<or>
     (\<exists>payload rq. enc E inp = Ok payload \<and> rq_EncodedPayload rq = payload \<and>
        (cs = [HGenerateReport rq] \<and> (\<forall>a. r \<noteq> Ok a) \<or>
         (\<exists>report. host_GenerateReport E tr rq = Ok report \<and> cs = [HGenerateReport rq, HWriteReport (vb_ChainSelector v)
            \<lparr>wq_Receiver = address_Bytes (vb_Address v), wq_Report = report, wq_GasConfig = gas\<rparr>]))))"
proof -
  have "\<forall>E v inp gas. write E v inp gas = write_report_from E v (enc E inp) gas"
    using assms(1,2) parent_struct_reports_ok child_struct_reports_ok base_struct_reports_ok router_struct_reports_ok
    by (auto simp: list_all_iff)
  then have run: "write_report_from E v (enc E inp) gas tr = (r, tr')" using assms(3) by simp
  then show ?thesis
    by (cases "enc E inp") (auto simp: write_report_from_def write_report_def GenerateReport_def client_WriteReport_def io_defs
      split: outcome.splits)
qed

theorem struct_reports_written_once_witness:
  "\<exists>r tr' cs. WriteReportFromTypesStrategy ex_env ex_log_vault (GStruct []) (Some 9) [] = (r, tr') \<and> tr' = [] @ cs \<and> length (writes cs) \<le> 1"
proof -
  obtain r tr' where run: "WriteReportFromTypesStrategy ex_env ex_log_vault (GStruct []) (Some 9) [] = (r, tr')" by fastforce
  have "(EncodeTypesStrategyStruct, WriteReportFromTypesStrategy) \<in> set parent_struct_reports"
    by (simp add: parent_struct_reports_def)
  from struct_reports_written_once [OF _ this run] run show ?thesis by auto
qed

end
