(* ===== verification/Bridge_Message.thy ===== *)
theory Bridge_Message
  imports Epoch_Accounting
begin

text \<open>
  The messages that carry assets between the vaults: the transaction types of \<open>evm/src/libraries/Types.sol\<close>,
  the byte strings that \<open>BaseVaultCcipLib._sendPacked\<close> builds with \<open>abi.encode\<close>, and the checks of
  \<open>abi.decode\<close> with which \<open>ChildVault._ccipReceive\<close> and \<open>ParentVault._ccipReceive\<close> take them apart. A failed
  decoding is \<open>None\<close>; the contract reverts.
\<close>

section \<open>Types\<close>

datatype CcipTx = EPOCH_NET_DEPOSIT | EPOCH_NET_WITHDRAW | REBALANCE

fun ccip_tx_code :: "CcipTx \<Rightarrow> int" where
  "ccip_tx_code EPOCH_NET_DEPOSIT = 0"
| "ccip_tx_code EPOCH_NET_WITHDRAW = 1"
| "ccip_tx_code REBALANCE = 2"

definition ccip_tx_of :: "int \<Rightarrow> CcipTx" where
  "ccip_tx_of c = (if c = 0 then EPOCH_NET_DEPOSIT else if c = 1 then EPOCH_NET_WITHDRAW else REBALANCE)"

text \<open>\<open>Client.EVM2AnyMessage\<close> and \<open>Client.Any2EVMMessage\<close>.\<close>

record evm2any =
  e2a_receiver :: "byte list"
  e2a_data :: "byte list"
  e2a_tokenAmounts :: "(address \<times> int) list"
  e2a_feeToken :: address
  e2a_extraArgs :: "byte list"

record any2evm =
  a2e_messageId :: bytes32
  a2e_sourceChainSelector :: uint64
  a2e_sender :: "byte list"
  a2e_data :: "byte list"
  a2e_destTokenAmounts :: "(address \<times> int) list"

section \<open>ABI encoding\<close>

definition abi_word :: "int \<Rightarrow> byte list" where
  "abi_word v = be_bytes 32 (nat v)"

definition abi_pad :: "byte list \<Rightarrow> byte list" where
  "abi_pad bs = bs @ replicate ((32 - length bs mod 32) mod 32) 0"

definition abi_encode_address :: "address \<Rightarrow> byte list" where
  "abi_encode_address a = abi_word (uint a)"

definition ccip_tx_data :: "CcipTx \<Rightarrow> int \<Rightarrow> bytes32 \<Rightarrow> byte list" where
  "ccip_tx_data tx nonce protocolId = (if tx = REBALANCE then abi_word nonce @ protocolId else abi_word nonce)"

definition ccip_data :: "CcipTx \<Rightarrow> int \<Rightarrow> bytes32 \<Rightarrow> byte list" where
  "ccip_data tx nonce protocolId =
     (let txData = ccip_tx_data tx nonce protocolId
      in abi_word (ccip_tx_code tx) @ abi_word 64 @ abi_word (int (length txData)) @ abi_pad txData)"

section \<open>ABI decoding\<close>

definition abi_uint :: "byte list \<Rightarrow> nat \<Rightarrow> int" where
  "abi_uint bs i = int (be_nat (take 32 (drop i bs)))"

definition abi_decode_uint256 :: "byte list \<Rightarrow> int option" where
  "abi_decode_uint256 data = (if length data < 32 then None else Some (abi_uint data 0))"

definition abi_decode_uint256_bytes32 :: "byte list \<Rightarrow> (int \<times> bytes32) option" where
  "abi_decode_uint256_bytes32 data =
     (if length data < 64 then None else Some (abi_uint data 0, take 32 (drop 32 data)))"

definition abi_decode_address :: "byte list \<Rightarrow> address option" where
  "abi_decode_address data =
     (if length data < 32 \<or> 2 ^ 160 \<le> abi_uint data 0 then None else Some (of_int (abi_uint data 0)))"

text \<open>\<open>abi.decode(data, (Types.CcipTx, bytes))\<close>: the enum is range checked, the offset and the length are bounds checked.\<close>

definition abi_decode_ccip :: "byte list \<Rightarrow> (CcipTx \<times> byte list) option" where
  "abi_decode_ccip data =
     (if length data < 64 \<or> 3 \<le> abi_uint data 0 \<or> 2 ^ 64 \<le> abi_uint data 32 then None
      else let offset = nat (abi_uint data 32)
      in if length data \<le> offset + 31 then None
         else let n = nat (abi_uint data offset)
         in if 2 ^ 64 \<le> n \<or> length data < offset + 32 + n then None
            else Some (ccip_tx_of (abi_uint data 0), take n (drop (offset + 32) data)))"

section \<open>Round trips\<close>

lemma length_abi_word [simp]: "length (abi_word v) = 32"
  by (simp add: abi_word_def)

lemma be_nat_abi_word: "u256 v \<Longrightarrow> int (be_nat (abi_word v)) = v"
  by (simp add: abi_word_def be_nat_be_bytes nat_less_iff)

lemma abi_uint_word: "u256 v \<Longrightarrow> length pre = i \<Longrightarrow> abi_uint (pre @ abi_word v @ rest) i = v"
  by (simp add: abi_uint_def be_nat_abi_word)

lemma abi_uint_bounded: "u256 (abi_uint bs i)"
proof -
  have "be_nat xs < 256 ^ length xs" for xs :: "byte list"
  proof (induction xs rule: rev_induct)
    case Nil then show ?case by (simp add: be_nat_def)
  next
    case (snoc x xs)
    have "unat x < 256" using unsigned_less [of x] by simp
    with snoc show ?case by simp
  qed
  moreover have "(256::nat) ^ length (take 32 (drop i bs)) \<le> 256 ^ 32" by (intro power_increasing) simp_all
  ultimately have "be_nat (take 32 (drop i bs)) < 256 ^ 32" by (meson order_less_le_trans)
  then have "int (be_nat (take 32 (drop i bs))) < int (256 ^ 32)" by (simp only: of_nat_less_iff)
  then show ?thesis unfolding abi_uint_def by simp
qed

lemma length_ccip_tx_data: "length pid = 32 \<Longrightarrow> length (ccip_tx_data tx n pid) = (if tx = REBALANCE then 64 else 32)"
  by (simp add: ccip_tx_data_def)

lemma abi_pad_tx_data: "length pid = 32 \<Longrightarrow> abi_pad (ccip_tx_data tx n pid) = ccip_tx_data tx n pid"
  by (simp add: abi_pad_def length_ccip_tx_data)

lemma ccip_tx_of_code [simp]: "ccip_tx_of (ccip_tx_code tx) = tx"
  by (cases tx) (simp_all add: ccip_tx_of_def)

lemma ccip_tx_code_bounds: "0 \<le> ccip_tx_code tx \<and> ccip_tx_code tx < 3"
  by (cases tx) simp_all

lemma abi_decode_ccip_data:
  assumes "length pid = 32"
  shows "abi_decode_ccip (ccip_data tx n pid) = Some (tx, ccip_tx_data tx n pid)"
proof -
  let ?d = "ccip_tx_data tx n pid" let ?all = "ccip_data tx n pid"
  have len: "length ?d \<le> 64" using length_ccip_tx_data [OF assms, of tx n] by simp
  have all: "?all = abi_word (ccip_tx_code tx) @ abi_word 64 @ abi_word (int (length ?d)) @ ?d"
    by (simp add: ccip_data_def Let_def abi_pad_tx_data [OF assms])
  have "u256 (ccip_tx_code tx)" using ccip_tx_code_bounds [of tx] by simp
  then have w0: "abi_uint ?all 0 = ccip_tx_code tx" unfolding all using abi_uint_word [of "ccip_tx_code tx" "[]"] by simp
  have w1: "abi_uint ?all 32 = 64" unfolding all by (rule abi_uint_word) simp_all
  have "u256 (int (length ?d))" using len by simp
  then have w2: "abi_uint ?all 64 = int (length ?d)"
    unfolding all append_assoc [symmetric, of "abi_word (ccip_tx_code tx)"] by (rule abi_uint_word) simp
  have "length ?all = 96 + length ?d" "take (length ?d) (drop 96 ?all) = ?d" by (simp_all add: all)
  then show ?thesis using w0 w1 w2 len ccip_tx_code_bounds [of tx] by (simp add: abi_decode_ccip_def Let_def)
qed

lemma abi_decode_nonce:
  "u256 n \<Longrightarrow> tx \<noteq> REBALANCE \<Longrightarrow> abi_decode_uint256 (ccip_tx_data tx n pid) = Some n"
  by (simp add: abi_decode_uint256_def ccip_tx_data_def abi_uint_def be_nat_abi_word)

lemma abi_decode_rebalance:
  "u256 n \<Longrightarrow> length pid = 32 \<Longrightarrow> abi_decode_uint256_bytes32 (ccip_tx_data REBALANCE n pid) = Some (n, pid)"
  by (simp add: abi_decode_uint256_bytes32_def ccip_tx_data_def abi_uint_def be_nat_abi_word)

lemma abi_decode_encode_address [simp]: "abi_decode_address (abi_encode_address a) = Some a"
proof -
  have "uint a < 2 ^ 160" using uint_bounded [of a] by simp
  moreover have "u256 (uint a)" using calculation by simp
  ultimately show ?thesis
    by (simp add: abi_decode_address_def abi_encode_address_def abi_uint_def be_nat_abi_word)
qed

end
