(* ===== verification/Base_Vault.thy ===== *)
theory Base_Vault
  imports Bridge_Message Vault_Lifecycle
begin

text \<open>
  What the two vaults share (\<open>evm/src/vaults/BaseVault.sol\<close> and the libraries \<open>BaseVaultCcipLib\<close>,
  \<open>BaseVaultStrategyLib\<close> and \<open>BaseVaultConfigLib\<close>): the base storage struct, the guards, the calls to strategies and to the
  bridge, the recovery of a failed rebalance deposit and the configuration. A transaction takes the storage and the trace of
  effects and returns both, or the revert; a revert undoes everything, and \<open>try\<close> undoes the attempt only. The storage of
  the vault that inherits is a type parameter. The contracts that are called (adapters, registry, tokens, bridge router) and the
  inherited role and pause state are the argument \<open>vault_world\<close>, which may differ from one transaction to the next. Entry
  points are not reentered while they run.
\<close>

named_theorems base_defs \<open>definitions of the shared vault functions\<close>
named_theorems child_spec \<open>what a transaction does, computed backwards\<close>

section \<open>Storage\<close>

datatype RecoveryMode = NO_RECOVERY | REBALANCE_DEPOSIT | REBALANCE_WITHDRAW | EPOCH_DEPOSIT | EPOCH_WITHDRAW | CCIP_SEND

fun recovery_mode_code :: "RecoveryMode \<Rightarrow> uint8" where
  "recovery_mode_code NO_RECOVERY = 0"
| "recovery_mode_code REBALANCE_DEPOSIT = 1"
| "recovery_mode_code REBALANCE_WITHDRAW = 2"
| "recovery_mode_code EPOCH_DEPOSIT = 3"
| "recovery_mode_code EPOCH_WITHDRAW = 4"
| "recovery_mode_code CCIP_SEND = 5"

record RebalanceDepositRecovery =
  rdr_rebalanceNonce :: int
  rdr_amount :: int

record BaseVaultStorage =
  bv_defaultCcipGasLimit :: int
  bv_ccipGasLimits :: "uint64 \<Rightarrow> int"
  bv_crosschainVaults :: "uint64 \<Rightarrow> address"
  bv_activeProtocolAdapter :: address
  bv_recoveryMode :: RecoveryMode
  bv_rebalanceDepositRecovery :: RebalanceDepositRecovery

text \<open>The values of deleted or never written slots.\<close>

definition zero_bytes32 :: bytes32 where
  "zero_bytes32 = replicate 32 0"

definition zero_rebalance_deposit :: RebalanceDepositRecovery where
  "zero_rebalance_deposit = \<lparr>rdr_rebalanceNonce = 0, rdr_amount = 0\<rparr>"

section \<open>Errors, events and effects\<close>

datatype vault_role = DEFAULT_ADMIN_ROLE | EPOCH_OPERATOR_ROLE | REBALANCE_OPERATOR_ROLE | CONFIG_OPERATOR_ROLE
  | CANCEL_DEPOSIT_OPERATOR_ROLE | ALLOWLIST_OPERATOR_ROLE

text \<open>The custom errors of the vaults; \<open>Lib\<close> is one of the parent vault's libraries, \<open>Bubbled\<close> is raw revert data of an external call, \<open>AbiDecoding\<close> a failed \<open>abi.decode\<close>.\<close>

datatype vault_revert =
    EnforcedPause | UnauthorizedAccount address vault_role | InvalidRouter address | InvalidSender address uint64
  | RecoveryAlreadyPending | NoPendingRecovery | ZeroRecoveryAmount | BaseNoZeroAmount | BaseNoZeroAddress | BaseNoZeroChainSelector
  | InvalidChildEpochNonce int int | InvalidChildRebalanceNonce int int
  | NoActiveAdapter | DepositFailed int | WithdrawFailed int | NoAdapterRegistered bytes32 | InvalidAdapterVault address address address
  | InvalidDestinationChainSelector uint64 | DestinationVaultNotSet uint64 | InvalidSourceChainSelector uint64 uint64
  | InvalidTokenAmountsLength nat | InvalidReceivedToken address address | InvalidTxType CcipTx
  | InvalidRecoveryStrategy | InvalidParentChainSelector | EmptyInput | InvalidInputLengths
  | UserNotAllowlisted address | InvalidBeneficiary | AbiDecoding | CheckedArithmetic | Lib vault_error | Bubbled "byte list"

datatype vault_event =
    Ev_CCIPReceived bytes32 uint64 CcipTx | Ev_CCIPBridged bytes32 uint64 CcipTx
  | Ev_EpochDepositToStrategySuccess int int | Ev_EpochDepositToStrategyFailure int int
  | Ev_EpochDepositRecoveryStored int int | Ev_EpochDepositRecoveryCleared int
  | Ev_EpochWithdrawFromStrategySuccess int int | Ev_EpochWithdrawFromStrategyFailure int int
  | Ev_EpochWithdrawRecoveryStored int int | Ev_EpochWithdrawRecoveryCleared int
  | Ev_RebalanceWithdrawSuccess int int | Ev_RebalanceWithdrawFailure int
  | Ev_RebalanceWithdrawRecoveryStored int bytes32 uint64 | Ev_RebalanceWithdrawRecoveryCleared int
  | Ev_RebalanceDepositSuccess int int | Ev_RebalanceDepositFailure int int
  | Ev_RebalanceDepositRecoveryStored int int | Ev_RebalanceDepositRecoveryCleared int
  | Ev_CcipSendRecoveryStored CcipTx uint64 int | Ev_CcipSendRecoveryCleared CcipTx uint64 int
  | Ev_ActiveProtocolAdapterSet bytes32 address | Ev_ActiveProtocolAdapterCleared address
  | Ev_CrosschainVaultSet uint64 address | Ev_CcipGasLimitSet uint64 int | Ev_DefaultCcipGasLimitSet int
  | Ev_InitialActiveProtocolAdapterSet bytes32 address
  | Ev_DepositSubmitted int address int | Ev_WithdrawSubmitted int address int | Ev_DepositClaimed int address int
  | Ev_WithdrawClaimed int address int | Ev_DepositCancelled int address int | Ev_WithdrawCancelled int address int
  | Ev_DepositForceCancelled int address int | Ev_EpochOpen int | Ev_EpochClaimable int | Ev_EpochDepositExecuting int int
  | Ev_EpochWithdrawExecuting int int | Ev_EpochDepositReconciled int int int | Ev_EpochWithdrawAmountShort int int int
  | Ev_RebalanceInitiated int bytes32 uint64 | Ev_RebalanceCompleted int bytes32 uint64 | Ev_ManagementFeeCollected int int
  | Ev_TreasurySet address | Ev_SupportedProtocolSet bytes32 bool | Ev_AllowlistEnabledSet bool | Ev_AllowlistedUserSet address bool

text \<open>
  What a successful transaction leaves outside the storage: tokens delivered with a message, deposits into and withdrawals
  from adapters (requested and paid), messages handed to the router, transfers of the asset and of the share token from and to
  users, shares minted and burned, and events.
\<close>

datatype vault_act = Delivered address int | Deposited address int | Withdrew address int int
  | Sent uint64 evm2any | AssetIn address int | AssetOut address int | ShareIn address int | ShareOut address int
  | Minted address int | Burned int | Emitted vault_event

record 'v chain_state =
  ch_base :: BaseVaultStorage
  ch_vault :: 'v
  ch_trace :: "vault_act list"

section \<open>Immutables and world\<close>

record base_params =
  cp_link :: address
  cp_asset :: address
  cp_ccipRouter :: address
  cp_adapterRegistry :: address
  cp_thisChainSelector :: uint64
  cp_this :: address

text \<open>
  The answers of the world during one transaction; the transfers are those of the asset and of the share token. \<open>None\<close> and \<open>Inl\<close> are reverts of the called contract, the latter with
  its revert data.
\<close>

record vault_world =
  cw_paused :: bool
  cw_hasRole :: "vault_role \<Rightarrow> address \<Rightarrow> bool"
  cw_getAdapter :: "bytes32 \<Rightarrow> address"
  cw_getVault :: "address \<Rightarrow> address"
  cw_safeTransfer :: "address \<Rightarrow> int \<Rightarrow> unit option"
  cw_safeTransferFrom :: "address \<Rightarrow> int \<Rightarrow> unit option"
  cw_shareTransfer :: "address \<Rightarrow> int \<Rightarrow> unit option"
  cw_shareTransferFrom :: "address \<Rightarrow> int \<Rightarrow> unit option"
  cw_mint :: "address \<Rightarrow> int \<Rightarrow> unit option"
  cw_burn :: "int \<Rightarrow> unit option"
  cw_deposit :: "address \<Rightarrow> int \<Rightarrow> unit option"
  cw_withdraw :: "address \<Rightarrow> int \<Rightarrow> int option"
  cw_getTVL :: "address \<Rightarrow> int"
  cw_argsToBytes :: "int \<Rightarrow> bool \<Rightarrow> byte list"
  cw_getFee :: "uint64 \<Rightarrow> evm2any \<Rightarrow> byte list + int"
  cw_forceApprove :: "address \<Rightarrow> address \<Rightarrow> int \<Rightarrow> byte list + unit"
  cw_ccipSend :: "uint64 \<Rightarrow> evm2any \<Rightarrow> byte list + bytes32"

text \<open>The amounts that adapters report are words.\<close>

definition wf_world :: "vault_world \<Rightarrow> bool" where
  "wf_world W \<longleftrightarrow> (\<forall>adapter amount out. cw_withdraw W adapter amount = Some out \<longrightarrow> u256 out)"

section \<open>Transactions\<close>

type_synonym ('v, 'a) vault_m = "'v chain_state \<Rightarrow> vault_revert + ('a \<times> 'v chain_state)"

definition retC :: "'a \<Rightarrow> ('v, 'a) vault_m" where
  "retC a = (\<lambda>c. Inr (a, c))"

definition revertC :: "vault_revert \<Rightarrow> ('v, 'a) vault_m" where
  "revertC e = (\<lambda>c. Inl e)"

definition bindC :: "('v, 'a) vault_m \<Rightarrow> ('a \<Rightarrow> ('v, 'b) vault_m) \<Rightarrow> ('v, 'b) vault_m" where
  "bindC m f = (\<lambda>c. case m c of Inl e \<Rightarrow> Inl e | Inr (a, c') \<Rightarrow> f a c')"

definition tryC :: "('v, 'a) vault_m \<Rightarrow> (vault_revert \<Rightarrow> ('v, 'a) vault_m) \<Rightarrow> ('v, 'a) vault_m" where
  "tryC m h = (\<lambda>c. case m c of Inl e \<Rightarrow> h e c | Inr r \<Rightarrow> Inr r)"

definition requireC :: "bool \<Rightarrow> vault_revert \<Rightarrow> ('v, unit) vault_m" where
  "requireC b e = (if b then retC () else revertC e)"

definition decodeC :: "'a option \<Rightarrow> ('v, 'a) vault_m" where
  "decodeC x = (case x of None \<Rightarrow> revertC AbiDecoding | Some a \<Rightarrow> retC a)"

definition callC :: "byte list + 'a \<Rightarrow> ('v, 'a) vault_m" where
  "callC r = (case r of Inl err \<Rightarrow> revertC (Bubbled err) | Inr a \<Rightarrow> retC a)"

definition readBase :: "(BaseVaultStorage \<Rightarrow> 'a) \<Rightarrow> ('v, 'a) vault_m" where
  "readBase f = (\<lambda>c. Inr (f (ch_base c), c))"

definition readVault :: "('v \<Rightarrow> 'a) \<Rightarrow> ('v, 'a) vault_m" where
  "readVault f = (\<lambda>c. Inr (f (ch_vault c), c))"

definition writeBase :: "(BaseVaultStorage \<Rightarrow> BaseVaultStorage) \<Rightarrow> ('v, unit) vault_m" where
  "writeBase f = (\<lambda>c. Inr ((), c\<lparr>ch_base := f (ch_base c)\<rparr>))"

definition writeVault :: "('v \<Rightarrow> 'v) \<Rightarrow> ('v, unit) vault_m" where
  "writeVault f = (\<lambda>c. Inr ((), c\<lparr>ch_vault := f (ch_vault c)\<rparr>))"

definition actC :: "vault_act \<Rightarrow> ('v, unit) vault_m" where
  "actC a = (\<lambda>c. Inr ((), c\<lparr>ch_trace := ch_trace c @ [a]\<rparr>))"

definition emitC :: "vault_event \<Rightarrow> ('v, unit) vault_m" where
  "emitC e = actC (Emitted e)"

text \<open>A token call that fails reverts; one that succeeds is an effect.\<close>

definition tokenC :: "unit option \<Rightarrow> vault_act \<Rightarrow> ('v, unit) vault_m" where
  "tokenC r a = (if r = None then revertC (Bubbled []) else actC a)"

definition seqC :: "('v, unit) vault_m list \<Rightarrow> ('v, unit) vault_m" where
  "seqC ms = foldr (\<lambda>m k. bindC m (\<lambda>_. k)) ms (retC ())"

record InitParams =
  ip_defaultAdmin :: address
  ip_pauser :: address
  ip_unpauser :: address
  ip_configOperator :: address
  ip_initialDefaultCcipGasLimit :: int
  ip_upgrader :: address

section \<open>Guards\<close>

definition whenNotPaused :: "vault_world \<Rightarrow> ('v, unit) vault_m" where [base_defs]:
  "whenNotPaused W = requireC (\<not> cw_paused W) EnforcedPause"

definition onlyRole :: "vault_world \<Rightarrow> vault_role \<Rightarrow> address \<Rightarrow> ('v, unit) vault_m" where [base_defs]:
  "onlyRole W role caller = requireC (cw_hasRole W role caller) (UnauthorizedAccount caller role)"

definition revertIfZeroAddress :: "address \<Rightarrow> ('v, unit) vault_m" where [base_defs]:
  "revertIfZeroAddress v = requireC (v \<noteq> 0) BaseNoZeroAddress"

definition revertIfZeroAmount :: "int \<Rightarrow> ('v, unit) vault_m" where [base_defs]:
  "revertIfZeroAmount v = requireC (v \<noteq> 0) BaseNoZeroAmount"

definition requireNoRecovery :: "('v, unit) vault_m" where [base_defs]:
  "requireNoRecovery = bindC (readBase bv_recoveryMode) (\<lambda>mode. requireC (mode = NO_RECOVERY) RecoveryAlreadyPending)"

section \<open>Strategy interactions\<close>

definition max_uint256 :: int where
  "max_uint256 = 2 ^ 256 - 1"

definition tryDepositToAdapter :: "vault_world \<Rightarrow> address \<Rightarrow> int \<Rightarrow> ('v, unit) vault_m" where [base_defs]:
  "tryDepositToAdapter W adapter amount =
     (if cw_safeTransfer W adapter amount = None \<or> cw_deposit W adapter amount = None then revertC (Bubbled [])
      else actC (Deposited adapter amount))"

definition executeDeposit :: "vault_world \<Rightarrow> int \<Rightarrow> bool \<Rightarrow> address \<Rightarrow> ('v, bool) vault_m" where [base_defs]:
  "executeDeposit W amount revertOnFailure activeAdapter =
     bindC (requireC (activeAdapter \<noteq> 0) NoActiveAdapter) (\<lambda>_.
       tryC (bindC (tryDepositToAdapter W activeAdapter amount) (\<lambda>_. retC True))
         (\<lambda>_. if revertOnFailure then revertC (DepositFailed amount) else retC False))"

definition executeWithdraw :: "vault_world \<Rightarrow> int \<Rightarrow> bool \<Rightarrow> address \<Rightarrow> ('v, (bool \<times> int)) vault_m" where [base_defs]:
  "executeWithdraw W amount revertOnFailure activeAdapter =
     bindC (requireC (activeAdapter \<noteq> 0) NoActiveAdapter) (\<lambda>_.
       (case cw_withdraw W activeAdapter amount of
          Some actual \<Rightarrow> bindC (actC (Withdrew activeAdapter amount actual)) (\<lambda>_. retC (True, actual))
        | None \<Rightarrow> if revertOnFailure then revertC (WithdrawFailed amount) else retC (False, 0)))"

definition setActiveAdapter :: "'p base_params_scheme \<Rightarrow> vault_world \<Rightarrow> bytes32 \<Rightarrow> ('v, address) vault_m" where [base_defs]:
  "setActiveAdapter P W protocolId =
     (let adapter = cw_getAdapter W protocolId
      in bindC (requireC (adapter \<noteq> 0) (NoAdapterRegistered protocolId)) (\<lambda>_.
           bindC (requireC (cw_getVault W adapter = cp_this P) (InvalidAdapterVault adapter (cw_getVault W adapter) (cp_this P))) (\<lambda>_.
             bindC (writeBase (\<lambda>s. s\<lparr>bv_activeProtocolAdapter := adapter\<rparr>)) (\<lambda>_.
               bindC (emitC (Ev_ActiveProtocolAdapterSet protocolId adapter)) (\<lambda>_. retC adapter)))))"

definition clearActiveAdapter :: "address \<Rightarrow> ('v, unit) vault_m" where [base_defs]:
  "clearActiveAdapter adapter =
     bindC (writeBase (\<lambda>s. s\<lparr>bv_activeProtocolAdapter := 0\<rparr>)) (\<lambda>_. emitC (Ev_ActiveProtocolAdapterCleared adapter))"

section \<open>Recovery of a failed rebalance deposit\<close>

definition storeRebalanceDepositRecovery :: "int \<Rightarrow> int \<Rightarrow> ('v, unit) vault_m" where [base_defs]:
  "storeRebalanceDepositRecovery rebalanceNonce amount =
     seqC [writeBase (\<lambda>s. s\<lparr>bv_rebalanceDepositRecovery := \<lparr>rdr_rebalanceNonce = rebalanceNonce, rdr_amount = amount\<rparr>\<rparr>),
           writeBase (\<lambda>s. s\<lparr>bv_recoveryMode := REBALANCE_DEPOSIT\<rparr>), emitC (Ev_RebalanceDepositRecoveryStored rebalanceNonce amount)]"

definition clearRebalanceDepositRecovery :: "int \<Rightarrow> ('v, unit) vault_m" where [base_defs]:
  "clearRebalanceDepositRecovery rebalanceNonce =
     seqC [writeBase (\<lambda>s. s\<lparr>bv_rebalanceDepositRecovery := zero_rebalance_deposit\<rparr>),
           writeBase (\<lambda>s. s\<lparr>bv_recoveryMode := NO_RECOVERY\<rparr>), emitC (Ev_RebalanceDepositRecoveryCleared rebalanceNonce)]"

definition recoverFailedRebalanceDeposit :: "vault_world \<Rightarrow> ('v, unit) vault_m" where [base_defs]:
  "recoverFailedRebalanceDeposit W =
     bindC (readBase bv_rebalanceDepositRecovery) (\<lambda>recovery.
     bindC (readBase bv_activeProtocolAdapter) (\<lambda>adapter.
     bindC (executeDeposit W (rdr_amount recovery) True adapter) (\<lambda>_.
       seqC [clearRebalanceDepositRecovery (rdr_rebalanceNonce recovery),
             emitC (Ev_RebalanceDepositSuccess (rdr_rebalanceNonce recovery) (rdr_amount recovery))])))"

section \<open>Bridge messages\<close>

definition onlyAllowedSender :: "address \<Rightarrow> uint64 \<Rightarrow> ('v, unit) vault_m" where [base_defs]:
  "onlyAllowedSender sender srcChainSelector =
     bindC (readBase (\<lambda>s. bv_crosschainVaults s srcChainSelector)) (\<lambda>registeredVault.
       requireC (registeredVault \<noteq> 0 \<and> sender = registeredVault) (InvalidSender sender srcChainSelector))"

definition validateReceivedTokenAndGetAmount :: "any2evm \<Rightarrow> address \<Rightarrow> ('v, int) vault_m" where [base_defs]:
  "validateReceivedTokenAndGetAmount message asset =
     (case a2e_destTokenAmounts message of
        [(token, amount)] \<Rightarrow>
          bindC (requireC (token = asset) (InvalidReceivedToken token asset)) (\<lambda>_.
            bindC (requireC (amount \<noteq> 0) BaseNoZeroAmount) (\<lambda>_. retC amount))
      | tokenAmounts \<Rightarrow> revertC (InvalidTokenAmountsLength (length tokenAmounts)))"

definition validateCcipSend :: "int \<Rightarrow> uint64 \<Rightarrow> uint64 \<Rightarrow> ('v, address) vault_m" where [base_defs]:
  "validateCcipSend bridgeAmount destinationChainSelector thisChainSelector =
     bindC (requireC (bridgeAmount \<noteq> 0) BaseNoZeroAmount) (\<lambda>_.
       bindC (requireC (destinationChainSelector \<noteq> 0 \<and> destinationChainSelector \<noteq> thisChainSelector)
                (InvalidDestinationChainSelector destinationChainSelector)) (\<lambda>_.
         bindC (readBase (\<lambda>s. bv_crosschainVaults s destinationChainSelector)) (\<lambda>vault.
           bindC (requireC (vault \<noteq> 0) (DestinationVaultNotSet destinationChainSelector)) (\<lambda>_. retC vault))))"

definition getCcipGasLimit :: "uint64 \<Rightarrow> BaseVaultStorage \<Rightarrow> int" where
  "getCcipGasLimit chainSelector s =
     (if bv_ccipGasLimits s chainSelector = 0 then bv_defaultCcipGasLimit s else bv_ccipGasLimits s chainSelector)"

definition ccip_message ::
    "'p base_params_scheme \<Rightarrow> vault_world \<Rightarrow> address \<Rightarrow> int \<Rightarrow> int \<Rightarrow> CcipTx \<Rightarrow> int \<Rightarrow> bytes32 \<Rightarrow> evm2any" where
  "ccip_message P W vault gasLimit bridgeAmount ccipTxType nonce protocolId =
     \<lparr>e2a_receiver = abi_encode_address vault, e2a_data = ccip_data ccipTxType nonce protocolId,
      e2a_tokenAmounts = [(cp_asset P, bridgeAmount)], e2a_feeToken = cp_link P, e2a_extraArgs = cw_argsToBytes W gasLimit True\<rparr>"

definition ccipLibSend ::
    "'p base_params_scheme \<Rightarrow> vault_world \<Rightarrow> int \<Rightarrow> uint64 \<Rightarrow> CcipTx \<Rightarrow> int \<Rightarrow> bytes32 \<Rightarrow> ('v, unit) vault_m" where [base_defs]:
  "ccipLibSend P W bridgeAmount destinationChainSelector ccipTxType nonce protocolId =
     bindC (validateCcipSend bridgeAmount destinationChainSelector (cp_thisChainSelector P)) (\<lambda>vault.
       bindC (readBase (getCcipGasLimit destinationChainSelector)) (\<lambda>gasLimit.
         let message = ccip_message P W vault gasLimit bridgeAmount ccipTxType nonce protocolId
         in bindC (callC (cw_getFee W destinationChainSelector message)) (\<lambda>fee.
            bindC (callC (cw_forceApprove W (cp_link P) (cp_ccipRouter P) fee)) (\<lambda>_.
            bindC (callC (cw_forceApprove W (cp_asset P) (cp_ccipRouter P) bridgeAmount)) (\<lambda>_.
            bindC (callC (cw_ccipSend W destinationChainSelector message)) (\<lambda>ccipMessageId.
              seqC [actC (Sent destinationChainSelector message),
                    emitC (Ev_CCIPBridged ccipMessageId destinationChainSelector ccipTxType)]))))))"

text \<open>The deposit of a rebalanced position into an adapter of this chain, after a message or after a local withdrawal.\<close>

definition handleRebalanceDeposit :: "vault_world \<Rightarrow> int \<Rightarrow> int \<Rightarrow> address \<Rightarrow> ('v, bool) vault_m" where [base_defs]:
  "handleRebalanceDeposit W rebalanceNonce amount adapter =
     bindC (executeDeposit W amount False adapter) (\<lambda>success.
       bindC (if success then emitC (Ev_RebalanceDepositSuccess rebalanceNonce amount)
              else seqC [storeRebalanceDepositRecovery rebalanceNonce amount, emitC (Ev_RebalanceDepositFailure rebalanceNonce amount)])
         (\<lambda>_. retC success))"

definition handleCCIPRebalance :: "'p base_params_scheme \<Rightarrow> vault_world \<Rightarrow> int \<Rightarrow> bytes32 \<Rightarrow> int \<Rightarrow> ('v, bool) vault_m" where [base_defs]:
  "handleCCIPRebalance P W rebalanceNonce protocolId amount =
     bindC (setActiveAdapter P W protocolId) (handleRebalanceDeposit W rebalanceNonce amount)"

section \<open>Configuration\<close>

fun setVaults :: "(uint64 \<times> address) list \<Rightarrow> ('v, unit) vault_m" where
  "setVaults [] = retC ()"
| "setVaults ((chainSelector, vault) # rest) =
     bindC (requireC (chainSelector \<noteq> 0) BaseNoZeroChainSelector) (\<lambda>_.
     bindC (writeBase (\<lambda>s. s\<lparr>bv_crosschainVaults := (bv_crosschainVaults s)(chainSelector := vault)\<rparr>)) (\<lambda>_.
     bindC (emitC (Ev_CrosschainVaultSet chainSelector vault)) (\<lambda>_. setVaults rest)))"

definition setCrosschainVaults :: "vault_world \<Rightarrow> address \<Rightarrow> uint64 list \<Rightarrow> address list \<Rightarrow> ('v, unit) vault_m" where [base_defs]:
  "setCrosschainVaults W caller chainSelectors vaults =
     bindC (onlyRole W CONFIG_OPERATOR_ROLE caller) (\<lambda>_.
     bindC (requireC (chainSelectors \<noteq> []) EmptyInput) (\<lambda>_.
     bindC (requireC (length chainSelectors = length vaults) InvalidInputLengths) (\<lambda>_. setVaults (zip chainSelectors vaults))))"

definition setCcipGasLimit :: "vault_world \<Rightarrow> address \<Rightarrow> uint64 \<Rightarrow> int \<Rightarrow> ('v, unit) vault_m" where [base_defs]:
  "setCcipGasLimit W caller chainSelector gasLimit =
     bindC (onlyRole W CONFIG_OPERATOR_ROLE caller) (\<lambda>_.
     bindC (requireC (chainSelector \<noteq> 0) BaseNoZeroChainSelector) (\<lambda>_.
     bindC (writeBase (\<lambda>s. s\<lparr>bv_ccipGasLimits := (bv_ccipGasLimits s)(chainSelector := gasLimit)\<rparr>)) (\<lambda>_.
       emitC (Ev_CcipGasLimitSet chainSelector gasLimit))))"

definition setDefaultCcipGasLimit :: "vault_world \<Rightarrow> address \<Rightarrow> int \<Rightarrow> ('v, unit) vault_m" where [base_defs]:
  "setDefaultCcipGasLimit W caller gasLimit =
     bindC (onlyRole W CONFIG_OPERATOR_ROLE caller) (\<lambda>_.
     bindC (requireC (gasLimit \<noteq> 0) BaseNoZeroAmount) (\<lambda>_.
     bindC (writeBase (\<lambda>s. s\<lparr>bv_defaultCcipGasLimit := gasLimit\<rparr>)) (\<lambda>_.
       emitC (Ev_DefaultCcipGasLimitSet gasLimit))))"

section \<open>Delivered tokens and held assets\<close>

text \<open>The bridge hands over a message's tokens in the transaction that delivers it.\<close>

definition deliverTokens :: "any2evm \<Rightarrow> ('v, unit) vault_m" where
  "deliverTokens message = seqC (map (\<lambda>(token, amount). actC (Delivered token amount)) (a2e_destTokenAmounts message))"

text \<open>The underlying asset the vault holds after a trace; a transfer to itself changes nothing.\<close>

fun act_value :: "'p base_params_scheme \<Rightarrow> vault_act \<Rightarrow> int" where
  "act_value P (Delivered token amount) = (if token = cp_asset P then amount else 0)"
| "act_value P (Withdrew adapter requested amount) = amount"
| "act_value P (Deposited adapter amount) = - amount"
| "act_value P (Sent chain m) = - (\<Sum>(token, amount)\<leftarrow>e2a_tokenAmounts m. if token = cp_asset P then amount else 0)"
| "act_value P (AssetIn user amount) = (if user = cp_this P then 0 else amount)"
| "act_value P (AssetOut user amount) = (if user = cp_this P then 0 else - amount)"
| "act_value P _ = 0"

definition assets :: "'p base_params_scheme \<Rightarrow> vault_act list \<Rightarrow> int" where
  "assets P tr = (\<Sum>a\<leftarrow>tr. act_value P a)"

lemma assets_simps [simp]: "assets P [] = 0" "assets P (tr @ [a]) = assets P tr + act_value P a"
  by (simp_all add: assets_def)

section \<open>Computing the effect of a transaction\<close>

definition specC :: "('v, 'a) vault_m \<Rightarrow> (vault_revert \<Rightarrow> bool) \<Rightarrow> ('a \<Rightarrow> 'v chain_state \<Rightarrow> bool) \<Rightarrow> 'v chain_state \<Rightarrow> bool" where
  "specC m E Q c = (case m c of Inl e \<Rightarrow> E e | Inr (a, c') \<Rightarrow> Q a c')"

lemma specC_basic [child_spec]:
  "specC (retC a) E Q c = Q a c"
  "specC (revertC e) E Q c = E e"
  "specC (tryC m h) E Q c = specC m (\<lambda>e. specC (h e) E Q c) Q c"
  "specC (decodeC x) E Q c = (case x of None \<Rightarrow> E AbiDecoding | Some a \<Rightarrow> Q a c)"
  "specC (callC r) E Q c = (case r of Inl err \<Rightarrow> E (Bubbled err) | Inr a \<Rightarrow> Q a c)"
  "specC (readBase f) E Q c = Q (f (ch_base c)) c"
  "specC (readVault g) E Q c = Q (g (ch_vault c)) c"
  by (simp_all add: specC_def retC_def revertC_def tryC_def decodeC_def callC_def readBase_def readVault_def
      split: sum.split option.split)

lemma specC_bind [child_spec]: "specC (bindC m f) E Q = specC m E (\<lambda>a. specC (f a) E Q)"
  by (rule ext) (simp add: specC_def bindC_def split: sum.split)

lemma specC_ret [child_spec]: "specC (retC a) E Q = Q a"
  by (rule ext) (simp add: specC_basic)

lemma specC_unit [child_spec]:
  "specC (requireC b e) E Q c = (if b then Q () c else E e)"
  "specC (writeBase f) E Q c = Q () (c\<lparr>ch_base := f (ch_base c)\<rparr>)"
  "specC (writeVault g) E Q c = Q () (c\<lparr>ch_vault := g (ch_vault c)\<rparr>)"
  "specC (actC act) E Q c = Q () (c\<lparr>ch_trace := ch_trace c @ [act]\<rparr>)"
  "specC (emitC ev) E Q c = Q () (c\<lparr>ch_trace := ch_trace c @ [Emitted ev]\<rparr>)"
  "specC (tokenC r act) E Q c = (if r = None then E (Bubbled []) else Q () (c\<lparr>ch_trace := ch_trace c @ [act]\<rparr>))"
  by (simp_all add: tokenC_def specC_def requireC_def retC_def revertC_def writeBase_def writeVault_def actC_def emitC_def)

lemma specC_seqC [child_spec]:
  "specC (seqC []) E Q c = Q () c"
  "specC (seqC (m # ms)) E Q c = specC m E (\<lambda>_. specC (seqC ms) E Q) c"
  by (simp_all add: seqC_def child_spec)

lemma specC_cases [child_spec]:
  "specC (if b then m else n) E Q c = (if b then specC m E Q c else specC n E Q c)"
  "specC (case p of (x, y) \<Rightarrow> f x y) E Q c = (case p of (x, y) \<Rightarrow> specC (f x y) E Q c)"
  "specC (case z of None \<Rightarrow> m | Some v \<Rightarrow> g v) E Q c = (case z of None \<Rightarrow> specC m E Q c | Some v \<Rightarrow> specC (g v) E Q c)"
  by (simp_all split: prod.split option.split)

lemma specC_mono:
  assumes "specC m E Q c" "\<And>e. E e \<Longrightarrow> E' e" "\<And>a c'. Q a c' \<Longrightarrow> Q' a c'"
  shows "specC m E' Q' c"
  using assms by (auto simp: specC_def split: sum.splits)

lemma specC_bindI:
  assumes "specC m E R c" "\<And>a c'. R a c' \<Longrightarrow> specC (f a) E Q c'"
  shows "specC (bindC m f) E Q c"
  unfolding specC_bind by (rule specC_mono [OF assms(1)]) (use assms(2) in auto)

lemma specC_Inr: "specC m E Q c \<Longrightarrow> m c = Inr (a, c') \<Longrightarrow> Q a c'"
  by (simp add: specC_def)

lemma specC_False: "specC m (\<lambda>_. False) Q c \<longleftrightarrow> (\<exists>a c'. m c = Inr (a, c') \<and> Q a c')"
  by (auto simp: specC_def split: sum.split)

end
