(* ===== verification/Parent_Vault.thy ===== *)
theory Parent_Vault
  imports Base_Vault
begin

text \<open>
  The parent vault as a contract (\<open>evm/src/vaults/ParentVault.sol\<close> on \<open>BaseVault.sol\<close>, with \<open>modules/Allowlist.sol\<close>): every function
  that changes its state, with roles, pause, allowlist, recovery mode, token transfers, adapters, bridge messages and events. The
  accounting of the libraries is that of \<open>Vault_Lifecycle\<close>, which works on the storage struct.
\<close>

named_theorems parent_defs \<open>definitions of the parent vault's functions\<close>

section \<open>Storage\<close>

text \<open>The storage struct, its treasury field, and the storage of the allowlist module.\<close>

record parent_vault =
  pt_storage :: parent_storage
  pt_treasury :: address
  pt_allowlistEnabled :: bool
  pt_allowlistedUser :: "address \<Rightarrow> bool"

type_synonym parent_chain = "parent_vault chain_state"
type_synonym 'a parent_m = "(parent_vault, 'a) vault_m"

record parent_params = base_params +
  pp_share :: address
  pp_assetDecimals :: uint8
  pp_fullMulDiv :: "int \<Rightarrow> int \<Rightarrow> int \<Rightarrow> int option"
  pp_fullMulDivUp :: "int \<Rightarrow> int \<Rightarrow> int \<Rightarrow> int option"
  pp_toInt256 :: "int \<Rightarrow> int option"

definition lib_params :: "parent_params \<Rightarrow> vault_params" where
  "lib_params P = \<lparr>vp_fullMulDiv = pp_fullMulDiv P, vp_fullMulDivUp = pp_fullMulDivUp P, vp_toInt256 = pp_toInt256 P,
     vp_assetDecimals = pp_assetDecimals P, vp_thisChainSelector = cp_thisChainSelector P\<rparr>"

definition parentConstructor :: "parent_params \<Rightarrow> vault_revert + unit" where
  "parentConstructor P =
     (if cp_link P = 0 \<or> cp_asset P = 0 \<or> cp_ccipRouter P = 0 \<or> cp_adapterRegistry P = 0 then Inl BaseNoZeroAddress
      else if cp_thisChainSelector P = 0 then Inl BaseNoZeroChainSelector
      else if pp_share P = 0 then Inl BaseNoZeroAddress
      else Inr ())"

definition parentInitialize :: "InitParams \<Rightarrow> address \<Rightarrow> address \<Rightarrow> address \<Rightarrow> bool \<Rightarrow> int \<Rightarrow> vault_revert + parent_chain" where
  "parentInitialize p treasury cancelDepositOperator allowlistOperator allowlistEnabled timestamp =
     (if treasury = 0 \<or> cancelDepositOperator = 0 \<or> allowlistOperator = 0 then Inl BaseNoZeroAddress
      else if ip_defaultAdmin p = 0 \<or> ip_pauser p = 0 \<or> ip_unpauser p = 0 \<or> ip_configOperator p = 0 \<or> ip_upgrader p = 0
      then Inl BaseNoZeroAddress
      else if ip_initialDefaultCcipGasLimit p = 0 then Inl BaseNoZeroAmount
      else Inr \<lparr>ch_base = \<lparr>bv_defaultCcipGasLimit = ip_initialDefaultCcipGasLimit p, bv_ccipGasLimits = (\<lambda>_. 0),
                 bv_crosschainVaults = (\<lambda>_. 0), bv_activeProtocolAdapter = 0, bv_recoveryMode = NO_RECOVERY,
                 bv_rebalanceDepositRecovery = zero_rebalance_deposit\<rparr>,
               ch_vault = \<lparr>pt_storage = sol_initialize timestamp, pt_treasury = treasury, pt_allowlistEnabled = allowlistEnabled,
                 pt_allowlistedUser = (\<lambda>_. False)\<rparr>,
               ch_trace = [Emitted (Ev_AllowlistEnabledSet allowlistEnabled)]\<rparr>)"

section \<open>Library calls\<close>

definition libC :: "(parent_storage \<Rightarrow> vault_error + (parent_storage \<times> 'a)) \<Rightarrow> 'a parent_m" where
  "libC f = bindC (readVault pt_storage) (\<lambda>s.
     (case f s of Inl e \<Rightarrow> revertC (Lib e) | Inr (s', a) \<Rightarrow> bindC (writeVault (\<lambda>v. v\<lparr>pt_storage := s'\<rparr>)) (\<lambda>_. retC a)))"

definition libU :: "(parent_storage \<Rightarrow> vault_error + parent_storage) \<Rightarrow> unit parent_m" where
  "libU f = libC (\<lambda>s. map_sum id (\<lambda>s'. (s', ())) (f s))"

definition readStorage :: "(parent_storage \<Rightarrow> 'a) \<Rightarrow> 'a parent_m" where
  "readStorage f = readVault (\<lambda>v. f (pt_storage v))"

abbreviation "epoch_nonce_of \<equiv> (\<lambda>s. vs_epochNonce (pv_store s))"

section \<open>Guards\<close>

definition validateAllowlist :: "address \<Rightarrow> address \<Rightarrow> unit parent_m" where [parent_defs]:
  "validateAllowlist caller beneficiary =
     bindC (readVault pt_allowlistEnabled) (\<lambda>enabled. bindC (readVault pt_allowlistedUser) (\<lambda>allowed.
       if enabled then
         bindC (requireC (allowed caller) (UserNotAllowlisted caller)) (\<lambda>_.
           requireC (beneficiary = caller \<or> allowed beneficiary) (UserNotAllowlisted beneficiary))
       else retC ()))"

definition revertIfInvalidBeneficiary :: "parent_params \<Rightarrow> address \<Rightarrow> unit parent_m" where [parent_defs]:
  "revertIfInvalidBeneficiary P beneficiary = requireC (beneficiary \<noteq> cp_this P) InvalidBeneficiary"

section \<open>User functions\<close>

definition libDeposit :: "parent_params \<Rightarrow> vault_world \<Rightarrow> address \<Rightarrow> address \<Rightarrow> int \<Rightarrow> int parent_m" where [parent_defs]:
  "libDeposit P W payer beneficiary amount =
     bindC (libU (sol_deposit (asset_precision (pp_assetDecimals P)) beneficiary amount)) (\<lambda>_.
     bindC (readStorage epoch_nonce_of) (\<lambda>epochNonce.
     bindC (seqC [tokenC (cw_safeTransferFrom W payer amount) (AssetIn payer amount),
                  emitC (Ev_DepositSubmitted epochNonce beneficiary amount)]) (\<lambda>_. retC epochNonce)))"

definition deposit :: "parent_params \<Rightarrow> vault_world \<Rightarrow> address \<Rightarrow> int \<Rightarrow> int parent_m" where [parent_defs]:
  "deposit P W caller amount =
     bindC (whenNotPaused W) (\<lambda>_. bindC (validateAllowlist caller caller) (\<lambda>_. libDeposit P W caller caller amount))"

definition depositFor :: "parent_params \<Rightarrow> vault_world \<Rightarrow> address \<Rightarrow> address \<Rightarrow> int \<Rightarrow> int parent_m" where [parent_defs]:
  "depositFor P W caller beneficiary amount =
     bindC (whenNotPaused W) (\<lambda>_. bindC (revertIfZeroAddress beneficiary) (\<lambda>_. bindC (revertIfInvalidBeneficiary P beneficiary) (\<lambda>_.
     bindC (validateAllowlist caller beneficiary) (\<lambda>_. libDeposit P W caller beneficiary amount))))"

definition libWithdraw :: "vault_world \<Rightarrow> address \<Rightarrow> address \<Rightarrow> int \<Rightarrow> int parent_m" where [parent_defs]:
  "libWithdraw W payer beneficiary shareBurnAmount =
     bindC (libU (sol_withdraw beneficiary shareBurnAmount)) (\<lambda>_.
     bindC (readStorage epoch_nonce_of) (\<lambda>epochNonce.
     bindC (seqC [tokenC (cw_shareTransferFrom W payer shareBurnAmount) (ShareIn payer shareBurnAmount),
                  emitC (Ev_WithdrawSubmitted epochNonce beneficiary shareBurnAmount)]) (\<lambda>_. retC epochNonce)))"

definition withdraw :: "vault_world \<Rightarrow> address \<Rightarrow> int \<Rightarrow> int parent_m" where [parent_defs]:
  "withdraw W caller shareBurnAmount = bindC (whenNotPaused W) (\<lambda>_. libWithdraw W caller caller shareBurnAmount)"

definition withdrawFor :: "parent_params \<Rightarrow> vault_world \<Rightarrow> address \<Rightarrow> address \<Rightarrow> int \<Rightarrow> int parent_m" where [parent_defs]:
  "withdrawFor P W caller beneficiary shareBurnAmount =
     bindC (whenNotPaused W) (\<lambda>_. bindC (revertIfZeroAddress beneficiary) (\<lambda>_. bindC (revertIfInvalidBeneficiary P beneficiary) (\<lambda>_.
       libWithdraw W caller beneficiary shareBurnAmount)))"

definition libClaimShares :: "parent_params \<Rightarrow> vault_world \<Rightarrow> address \<Rightarrow> int \<Rightarrow> int parent_m" where [parent_defs]:
  "libClaimShares P W user epochNonce =
     bindC (libC (sol_claimShares (lib_params P) user epochNonce)) (\<lambda>shareMintAmount.
     bindC (seqC [tokenC (cw_mint W user shareMintAmount) (Minted user shareMintAmount),
                  emitC (Ev_DepositClaimed epochNonce user shareMintAmount)]) (\<lambda>_. retC shareMintAmount))"

definition claimShares :: "parent_params \<Rightarrow> vault_world \<Rightarrow> address \<Rightarrow> int \<Rightarrow> int parent_m" where [parent_defs]:
  "claimShares P W caller epochNonce = bindC (whenNotPaused W) (\<lambda>_. libClaimShares P W caller epochNonce)"

definition claimSharesFor :: "parent_params \<Rightarrow> vault_world \<Rightarrow> address \<Rightarrow> int \<Rightarrow> int parent_m" where [parent_defs]:
  "claimSharesFor P W user epochNonce =
     bindC (whenNotPaused W) (\<lambda>_. bindC (revertIfZeroAddress user) (\<lambda>_. libClaimShares P W user epochNonce))"

definition libClaimAsset :: "parent_params \<Rightarrow> vault_world \<Rightarrow> address \<Rightarrow> int \<Rightarrow> int parent_m" where [parent_defs]:
  "libClaimAsset P W user epochNonce =
     bindC (readStorage (\<lambda>s. pv_withdraws s user epochNonce)) (\<lambda>shareBurnAmount.
     bindC (libC (sol_claimAsset (lib_params P) user epochNonce)) (\<lambda>withdrawAmount.
     bindC (seqC [tokenC (cw_burn W shareBurnAmount) (Burned shareBurnAmount),
                  emitC (Ev_WithdrawClaimed epochNonce user withdrawAmount),
                  if withdrawAmount \<noteq> 0 then tokenC (cw_safeTransfer W user withdrawAmount) (AssetOut user withdrawAmount)
                  else retC ()]) (\<lambda>_. retC withdrawAmount)))"

definition claimAsset :: "parent_params \<Rightarrow> vault_world \<Rightarrow> address \<Rightarrow> int \<Rightarrow> int parent_m" where [parent_defs]:
  "claimAsset P W caller epochNonce = bindC (whenNotPaused W) (\<lambda>_. libClaimAsset P W caller epochNonce)"

definition claimAssetFor :: "parent_params \<Rightarrow> vault_world \<Rightarrow> address \<Rightarrow> int \<Rightarrow> int parent_m" where [parent_defs]:
  "claimAssetFor P W user epochNonce =
     bindC (whenNotPaused W) (\<lambda>_. bindC (revertIfZeroAddress user) (\<lambda>_. libClaimAsset P W user epochNonce))"

definition cancelDepositCore :: "vault_world \<Rightarrow> address \<Rightarrow> (int \<times> int) parent_m" where [parent_defs]:
  "cancelDepositCore W user =
     bindC (readStorage epoch_nonce_of) (\<lambda>epochNonce.
     bindC (readStorage (\<lambda>s. pv_deposits s user epochNonce)) (\<lambda>depositAmount.
     bindC (libU (sol_cancelDeposit user)) (\<lambda>_.
     bindC (tokenC (cw_safeTransfer W user depositAmount) (AssetOut user depositAmount)) (\<lambda>_. retC (epochNonce, depositAmount)))))"

definition cancelDeposit :: "vault_world \<Rightarrow> address \<Rightarrow> unit parent_m" where [parent_defs]:
  "cancelDeposit W caller =
     bindC (whenNotPaused W) (\<lambda>_. bindC (cancelDepositCore W caller) (\<lambda>(epochNonce, depositAmount).
       emitC (Ev_DepositCancelled epochNonce caller depositAmount)))"

definition forceCancelDeposit :: "vault_world \<Rightarrow> address \<Rightarrow> address \<Rightarrow> unit parent_m" where [parent_defs]:
  "forceCancelDeposit W caller user =
     bindC (onlyRole W CANCEL_DEPOSIT_OPERATOR_ROLE caller) (\<lambda>_. bindC (cancelDepositCore W user) (\<lambda>(epochNonce, depositAmount).
       emitC (Ev_DepositForceCancelled epochNonce user depositAmount)))"

definition cancelWithdraw :: "vault_world \<Rightarrow> address \<Rightarrow> unit parent_m" where [parent_defs]:
  "cancelWithdraw W caller =
     bindC (whenNotPaused W) (\<lambda>_.
     bindC (readStorage epoch_nonce_of) (\<lambda>epochNonce.
     bindC (readStorage (\<lambda>s. pv_withdraws s caller epochNonce)) (\<lambda>shareBurnAmount.
     bindC (libU (sol_cancelWithdraw caller)) (\<lambda>_.
       seqC [tokenC (cw_shareTransfer W caller shareBurnAmount) (ShareOut caller shareBurnAmount),
             emitC (Ev_WithdrawCancelled epochNonce caller shareBurnAmount)]))))"

section \<open>Epochs\<close>

text \<open>The settlement, with the event that announces its outcome.\<close>

definition libCloseEpoch :: "parent_params \<Rightarrow> int \<Rightarrow> int \<Rightarrow> int \<Rightarrow> bool \<Rightarrow> close_action parent_m" where [parent_defs]:
  "libCloseEpoch P timestamp expectedEpochNonce tvl isLocalStrategy =
     bindC (libC (\<lambda>s. bindS (checked (sol_closeEpoch (pp_fullMulDiv P) (pp_toInt256 P) sharePrecision
         (asset_precision (pp_assetDecimals P)) (asset_precision (pp_assetDecimals P)) (pv_store s) timestamp expectedEpochNonce tvl
         isLocalStrategy)) (\<lambda>(store, action). Inr (s\<lparr>pv_store := store\<rparr>, action)))) (\<lambda>action.
     bindC (case ca_action action of
         NONE \<Rightarrow> emitC (Ev_EpochClaimable (ca_epochNonce action))
       | DEPOSIT_TO_LOCAL_STRATEGY \<Rightarrow> emitC (Ev_EpochClaimable (ca_epochNonce action))
       | SEND_DEPOSIT_TO_REMOTE_STRATEGY \<Rightarrow> emitC (Ev_EpochDepositExecuting (ca_epochNonce action) (ca_amount action))
       | WITHDRAW_FROM_LOCAL_STRATEGY \<Rightarrow> retC ()
       | WAIT_FOR_REMOTE_WITHDRAW \<Rightarrow> emitC (Ev_EpochWithdrawExecuting (ca_epochNonce action) (ca_amount action))) (\<lambda>_. retC action))"

definition closeEpochAction :: "parent_params \<Rightarrow> vault_world \<Rightarrow> address \<Rightarrow> close_action \<Rightarrow> unit parent_m" where [parent_defs]:
  "closeEpochAction P W activeAdapter action =
     (case ca_action action of
        DEPOSIT_TO_LOCAL_STRATEGY \<Rightarrow>
          bindC (executeDeposit W (ca_amount action) True activeAdapter) (\<lambda>_.
            emitC (Ev_EpochDepositToStrategySuccess (ca_epochNonce action) (ca_amount action)))
      | SEND_DEPOSIT_TO_REMOTE_STRATEGY \<Rightarrow>
          bindC (readStorage (\<lambda>s. st_ChainSelector (sr_activeStrategy (pv_rebalance s)))) (\<lambda>chainSelector.
            ccipLibSend P W (ca_amount action) chainSelector EPOCH_NET_DEPOSIT (ca_epochNonce action) zero_bytes32)
      | WITHDRAW_FROM_LOCAL_STRATEGY \<Rightarrow>
          bindC (executeWithdraw W (ca_amount action) True activeAdapter) (\<lambda>(_, amountOut).
            seqC [emitC (Ev_EpochWithdrawFromStrategySuccess (ca_epochNonce action) amountOut),
                  libU (sol_finalizeLocalNetWithdraw (ca_epochNonce action) (ca_totalDepositAmount action) amountOut),
                  emitC (Ev_EpochClaimable (ca_epochNonce action))])
      | _ \<Rightarrow> retC ())"

definition libOpenNextEpoch :: "int \<Rightarrow> int \<Rightarrow> unit parent_m" where [parent_defs]:
  "libOpenNextEpoch timestamp epochNonce =
     seqC [libU (sol_openNextEpoch timestamp epochNonce), emitC (Ev_EpochOpen (epochNonce + 1))]"

definition closeEpoch :: "parent_params \<Rightarrow> vault_world \<Rightarrow> int \<Rightarrow> address \<Rightarrow> int \<Rightarrow> int \<Rightarrow> unit parent_m" where [parent_defs]:
  "closeEpoch P W timestamp caller expectedEpochNonce tvl =
     bindC (whenNotPaused W) (\<lambda>_. bindC (onlyRole W EPOCH_OPERATOR_ROLE caller) (\<lambda>_. bindC requireNoRecovery (\<lambda>_.
     bindC (readBase bv_activeProtocolAdapter) (\<lambda>activeAdapter.
     bindC (libCloseEpoch P timestamp expectedEpochNonce tvl (activeAdapter \<noteq> 0)) (\<lambda>action.
     bindC (closeEpochAction P W activeAdapter action) (\<lambda>_. libOpenNextEpoch timestamp (ca_epochNonce action)))))))"

definition completeEpochDeposit :: "parent_params \<Rightarrow> vault_world \<Rightarrow> address \<Rightarrow> int \<Rightarrow> int \<Rightarrow> unit parent_m" where [parent_defs]:
  "completeEpochDeposit P W caller expectedEpochNonce actualDepositAmount =
     bindC (whenNotPaused W) (\<lambda>_. bindC (onlyRole W EPOCH_OPERATOR_ROLE caller) (\<lambda>_.
     bindC (readStorage (\<lambda>s. vs_totalShares (pv_store s))) (\<lambda>before.
     bindC (libU (sol_vaultCompleteEpochDeposit (lib_params P) expectedEpochNonce actualDepositAmount)) (\<lambda>_.
     bindC (readStorage (\<lambda>s. vs_totalShares (pv_store s))) (\<lambda>after.
       seqC [emitC (Ev_EpochDepositReconciled expectedEpochNonce actualDepositAmount (before - after)),
             emitC (Ev_EpochClaimable expectedEpochNonce)])))))"

section \<open>Rebalances\<close>

text \<open>The end of a rebalance; the shares that the management fee adds to the supply are minted to the treasury.\<close>

definition finalizeRebalance :: "parent_params \<Rightarrow> vault_world \<Rightarrow> int \<Rightarrow> int \<Rightarrow> TypesStrategy \<Rightarrow> bool \<Rightarrow> unit parent_m" where [parent_defs]:
  "finalizeRebalance P W timestamp rebalanceNonce newStrategy isLocalToLocal =
     bindC (readStorage (\<lambda>s. vs_totalShares (pv_store s))) (\<lambda>before.
     bindC (libU (sol_finalizeRebalance (lib_params P) timestamp rebalanceNonce newStrategy isLocalToLocal)) (\<lambda>_.
     bindC (emitC (Ev_RebalanceCompleted rebalanceNonce (st_ProtocolId newStrategy) (st_ChainSelector newStrategy))) (\<lambda>_.
     bindC (readStorage (\<lambda>s. vs_totalShares (pv_store s))) (\<lambda>after.
     bindC (readVault pt_treasury) (\<lambda>treasury.
       if after = before then retC ()
       else seqC [tokenC (cw_mint W treasury (after - before)) (Minted treasury (after - before)),
                  emitC (Ev_ManagementFeeCollected rebalanceNonce (after - before))])))))"

definition rebalanceAction ::
    "parent_params \<Rightarrow> vault_world \<Rightarrow> int \<Rightarrow> int \<Rightarrow> TypesStrategy \<Rightarrow> rebalance_action \<Rightarrow> unit parent_m" where [parent_defs]:
  "rebalanceAction P W timestamp rebalanceNonce newStrategy action =
     bindC (readBase bv_activeProtocolAdapter) (\<lambda>activeAdapter.
     bindC (executeWithdraw W max_uint256 True activeAdapter) (\<lambda>(_, amountOut).
     bindC (revertIfZeroAmount amountOut) (\<lambda>_.
     bindC (emitC (Ev_RebalanceWithdrawSuccess rebalanceNonce amountOut)) (\<lambda>_.
       if action = WITHDRAW_LOCAL_TO_LOCAL then
         bindC (setActiveAdapter P W (st_ProtocolId newStrategy)) (\<lambda>newAdapter.
         bindC (executeDeposit W amountOut True newAdapter) (\<lambda>_.
         bindC (emitC (Ev_RebalanceDepositSuccess rebalanceNonce amountOut)) (\<lambda>_.
           finalizeRebalance P W timestamp rebalanceNonce newStrategy True)))
       else bindC (clearActiveAdapter activeAdapter) (\<lambda>_.
         ccipLibSend P W amountOut (st_ChainSelector newStrategy) REBALANCE rebalanceNonce (st_ProtocolId newStrategy))))))"

definition initiateRebalance :: "parent_params \<Rightarrow> vault_world \<Rightarrow> int \<Rightarrow> address \<Rightarrow> int \<Rightarrow> TypesStrategy \<Rightarrow> unit parent_m" where [parent_defs]:
  "initiateRebalance P W timestamp caller expectedRebalanceNonce newStrategy =
     bindC (whenNotPaused W) (\<lambda>_. bindC (onlyRole W REBALANCE_OPERATOR_ROLE caller) (\<lambda>_. bindC requireNoRecovery (\<lambda>_.
     bindC (readBase (\<lambda>s. bv_crosschainVaults s (st_ChainSelector newStrategy))) (\<lambda>vault.
     bindC (libC (sol_initiateRebalance (lib_params P) timestamp expectedRebalanceNonce newStrategy
         (st_ChainSelector newStrategy = cp_thisChainSelector P \<or> vault \<noteq> 0))) (\<lambda>action.
     bindC (emitC (Ev_RebalanceInitiated expectedRebalanceNonce (st_ProtocolId newStrategy) (st_ChainSelector newStrategy))) (\<lambda>_.
       if action = RB_NONE then retC ()
       else rebalanceAction P W timestamp expectedRebalanceNonce newStrategy action))))))"

definition completeRebalance :: "parent_params \<Rightarrow> vault_world \<Rightarrow> int \<Rightarrow> address \<Rightarrow> int \<Rightarrow> unit parent_m" where [parent_defs]:
  "completeRebalance P W timestamp caller expectedRebalanceNonce =
     bindC (whenNotPaused W) (\<lambda>_. bindC (onlyRole W REBALANCE_OPERATOR_ROLE caller) (\<lambda>_. bindC requireNoRecovery (\<lambda>_.
     bindC (readStorage (\<lambda>s. sr_pendingStrategy (pv_rebalance s))) (\<lambda>pending.
     bindC (requireC (st_ChainSelector pending \<noteq> cp_thisChainSelector P) (Lib CannotCompleteLocalRebalance)) (\<lambda>_.
       finalizeRebalance P W timestamp expectedRebalanceNonce pending False)))))"

section \<open>Bridge messages\<close>

definition libHandleEpochNetWithdraw :: "int \<Rightarrow> int \<Rightarrow> unit parent_m" where [parent_defs]:
  "libHandleEpochNetWithdraw epochNonce receivedAmount =
     bindC (readStorage (\<lambda>s. vs_epochs (pv_store s) epochNonce)) (\<lambda>epoch.
     bindC (libU (sol_handleEpochNetWithdraw epochNonce receivedAmount)) (\<lambda>_.
       let expectedWithdraw = se_totalWithdrawClaimAmount epoch - se_totalDepositAmount epoch
       in seqC [if receivedAmount < expectedWithdraw then emitC (Ev_EpochWithdrawAmountShort epochNonce expectedWithdraw receivedAmount)
                else retC (),
                emitC (Ev_EpochClaimable epochNonce)]))"

definition validateRebalance :: "byte list \<Rightarrow> (int \<times> bytes32) parent_m" where [parent_defs]:
  "validateRebalance data =
     bindC (readStorage id) (\<lambda>s.
     bindC (requireC (vs_rebalanceState (pv_store s) = Rebalancing) (Lib NoRebalanceInProgress)) (\<lambda>_.
     bindC (decodeC (abi_decode_uint256_bytes32 data)) (\<lambda>(rebalanceNonce, protocolId).
     bindC (requireC (sr_nonce (pv_rebalance s) = rebalanceNonce) (Lib (InvalidRebalanceNonce rebalanceNonce))) (\<lambda>_.
     bindC (requireC (st_ProtocolId (sr_pendingStrategy (pv_rebalance s)) = protocolId) (Lib (InvalidPendingProtocolId protocolId)))
       (\<lambda>_. retC (rebalanceNonce, protocolId))))))"

definition receiveCcip :: "CcipTx \<Rightarrow> byte list \<Rightarrow> int \<Rightarrow> (int \<times> bytes32) parent_m" where [parent_defs]:
  "receiveCcip ccipTxType data receivedAmount =
     (case ccipTxType of
        EPOCH_NET_WITHDRAW \<Rightarrow>
          bindC (decodeC (abi_decode_uint256 data)) (\<lambda>epochNonce.
          bindC (libHandleEpochNetWithdraw epochNonce receivedAmount) (\<lambda>_. retC (0, zero_bytes32)))
      | REBALANCE \<Rightarrow> validateRebalance data
      | EPOCH_NET_DEPOSIT \<Rightarrow> revertC (InvalidTxType ccipTxType))"

definition parentCcipReceive :: "parent_params \<Rightarrow> vault_world \<Rightarrow> int \<Rightarrow> address \<Rightarrow> any2evm \<Rightarrow> unit parent_m" where [parent_defs]:
  "parentCcipReceive P W timestamp caller message =
     bindC (requireC (caller = cp_ccipRouter P) (InvalidRouter caller)) (\<lambda>_.
     bindC (whenNotPaused W) (\<lambda>_.
     bindC (decodeC (abi_decode_address (a2e_sender message))) (\<lambda>sender.
     bindC (onlyAllowedSender sender (a2e_sourceChainSelector message)) (\<lambda>_.
     bindC (readStorage (\<lambda>s. st_ChainSelector (sr_activeStrategy (pv_rebalance s)))) (\<lambda>active.
     bindC (requireC (a2e_sourceChainSelector message = active) (InvalidSourceChainSelector (a2e_sourceChainSelector message) active)) (\<lambda>_.
     bindC requireNoRecovery (\<lambda>_.
     bindC (validateReceivedTokenAndGetAmount message (cp_asset P)) (\<lambda>receivedAmount.
     bindC (decodeC (abi_decode_ccip (a2e_data message))) (\<lambda>(ccipTxType, data).
     bindC (receiveCcip ccipTxType data receivedAmount) (\<lambda>(rebalanceNonce, protocolId).
     bindC (if rebalanceNonce \<noteq> 0 then
              bindC (handleCCIPRebalance P W rebalanceNonce protocolId receivedAmount) (\<lambda>success.
                if success then finalizeRebalance P W timestamp rebalanceNonce
                  \<lparr>st_ProtocolId = protocolId, st_ChainSelector = cp_thisChainSelector P\<rparr> False
                else retC ())
            else retC ()) (\<lambda>_.
     emitC (Ev_CCIPReceived (a2e_messageId message) (a2e_sourceChainSelector message) ccipTxType))))))))))))"

section \<open>Recovery\<close>

definition parentExecuteRecovery :: "parent_params \<Rightarrow> vault_world \<Rightarrow> int \<Rightarrow> unit parent_m" where [parent_defs]:
  "parentExecuteRecovery P W timestamp =
     bindC (whenNotPaused W) (\<lambda>_.
     bindC (readBase bv_recoveryMode) (\<lambda>mode.
     bindC (requireC (mode = REBALANCE_DEPOSIT) NoPendingRecovery) (\<lambda>_.
     bindC (recoverFailedRebalanceDeposit W) (\<lambda>_.
     bindC (readStorage pv_rebalance) (\<lambda>rebalance.
       finalizeRebalance P W timestamp (sr_nonce rebalance) (sr_pendingStrategy rebalance) False)))))"

section \<open>Configuration\<close>

definition setInitialActiveProtocolAdapter :: "parent_params \<Rightarrow> vault_world \<Rightarrow> address \<Rightarrow> bytes32 \<Rightarrow> unit parent_m" where [parent_defs]:
  "setInitialActiveProtocolAdapter P W caller protocolId =
     bindC (onlyRole W DEFAULT_ADMIN_ROLE caller) (\<lambda>_.
     bindC (readStorage pv_initialActiveProtocolAdapterSet) (\<lambda>done.
     bindC (requireC (\<not> done) (Lib InitialActiveProtocolAdapterAlreadySet)) (\<lambda>_.
     bindC (setActiveAdapter P W protocolId) (\<lambda>adapter.
       seqC [libU (sol_setInitialActiveProtocolAdapter (lib_params P) protocolId),
             emitC (Ev_InitialActiveProtocolAdapterSet protocolId adapter)]))))"

definition setSupportedProtocol :: "vault_world \<Rightarrow> address \<Rightarrow> bytes32 \<Rightarrow> bool \<Rightarrow> unit parent_m" where [parent_defs]:
  "setSupportedProtocol W caller protocolId isSupported =
     bindC (onlyRole W CONFIG_OPERATOR_ROLE caller) (\<lambda>_.
       seqC [libU (sol_setSupportedProtocol protocolId isSupported), emitC (Ev_SupportedProtocolSet protocolId isSupported)])"

definition setTreasury :: "vault_world \<Rightarrow> address \<Rightarrow> address \<Rightarrow> unit parent_m" where [parent_defs]:
  "setTreasury W caller treasury =
     bindC (onlyRole W CONFIG_OPERATOR_ROLE caller) (\<lambda>_. bindC (revertIfZeroAddress treasury) (\<lambda>_.
       seqC [writeVault (\<lambda>v. v\<lparr>pt_treasury := treasury\<rparr>), emitC (Ev_TreasurySet treasury)]))"

definition setAllowlistEnabled :: "vault_world \<Rightarrow> address \<Rightarrow> bool \<Rightarrow> unit parent_m" where [parent_defs]:
  "setAllowlistEnabled W caller enabled =
     bindC (onlyRole W ALLOWLIST_OPERATOR_ROLE caller) (\<lambda>_.
       seqC [writeVault (\<lambda>v. v\<lparr>pt_allowlistEnabled := enabled\<rparr>), emitC (Ev_AllowlistEnabledSet enabled)])"

fun allowUsers :: "address list \<Rightarrow> bool \<Rightarrow> unit parent_m" where
  "allowUsers [] allowed = retC ()"
| "allowUsers (user # users) allowed =
     bindC (writeVault (\<lambda>v. v\<lparr>pt_allowlistedUser := (pt_allowlistedUser v)(user := allowed)\<rparr>)) (\<lambda>_.
     bindC (emitC (Ev_AllowlistedUserSet user allowed)) (\<lambda>_. allowUsers users allowed))"

definition setAllowlistedUsers :: "vault_world \<Rightarrow> address \<Rightarrow> address list \<Rightarrow> bool \<Rightarrow> unit parent_m" where [parent_defs]:
  "setAllowlistedUsers W caller users allowed =
     bindC (onlyRole W ALLOWLIST_OPERATOR_ROLE caller) (\<lambda>_. allowUsers users allowed)"

section \<open>Getters\<close>

definition parentTVL :: "vault_world \<Rightarrow> parent_chain \<Rightarrow> vault_revert + int" where
  "parentTVL W c =
     (let activeAdapter = bv_activeProtocolAdapter (ch_base c)
      in if activeAdapter \<noteq> 0 then
           let tvl = cw_getTVL W activeAdapter + rdr_amount (bv_rebalanceDepositRecovery (ch_base c))
           in if 2 ^ 256 \<le> tvl then Inl CheckedArithmetic else Inr tvl
         else Inr 0)"

definition parentOperationalState :: "vault_world \<Rightarrow> parent_chain \<Rightarrow> vault_revert + TypesParentOperationalState" where
  "parentOperationalState W c =
     (let s = pt_storage (ch_vault c); r = pv_rebalance s
      in bindS (parentTVL W c) (\<lambda>tvl.
           Inr (sol_getParentOperationalState (cw_paused W) (recovery_mode_code (bv_recoveryMode (ch_base c)))
             \<lparr>rb_Nonce = Some (sr_nonce r), rb_State = vs_rebalanceState (pv_store s), rb_ActiveStrategy = sr_activeStrategy r,
              rb_PendingStrategy = sr_pendingStrategy r, rb_LastRebalanceCompletedTimestamp = Some (sr_lastRebalanceCompletedTimestamp r)\<rparr>
             tvl (pv_store s))))"

section \<open>Computing the effect of a transaction\<close>

lemma specC_lib [child_spec]:
  "specC (libC f) E Q c = (case f (pt_storage (ch_vault c)) of Inl e \<Rightarrow> E (Lib e)
     | Inr (s, a) \<Rightarrow> Q a (c\<lparr>ch_vault := (ch_vault c)\<lparr>pt_storage := s\<rparr>\<rparr>))"
  "specC (readStorage h) E Q c = Q (h (pt_storage (ch_vault c))) c"
  by (simp_all add: libC_def readStorage_def child_spec split: sum.split prod.split)

lemma specC_libU [child_spec]:
  "specC (libU g) E Q c = (case g (pt_storage (ch_vault c)) of Inl e \<Rightarrow> E (Lib e)
     | Inr s \<Rightarrow> Q () (c\<lparr>ch_vault := (ch_vault c)\<lparr>pt_storage := s\<rparr>\<rparr>))"
  by (simp add: libU_def specC_lib split: sum.split)

end
