(* ===== verification/Parent_Books.thy ===== *)
theory Parent_Books
  imports Lifecycle_Invariant
begin

text \<open>
  What the parent vault owes in underlying assets, computed from its storage, and how each operation changes it: the deposits of the
  open epoch can be cancelled, those of an epoch that waits for a withdrawal from another chain stay here until it
  is settled, and a settled epoch owes what is still to be claimed.
\<close>

definition owed_epoch :: "sol_epoch \<Rightarrow> int" where
  "owed_epoch e =
     (if se_status e = EpochOpen then se_totalDepositAmount e
      else if se_status e = EpochExecuting \<and> se_totalDepositAmount e < se_totalWithdrawClaimAmount e then se_totalDepositAmount e
      else se_remainingWithdrawClaimAmount e)"

definition owed :: "parent_storage \<Rightarrow> int" where
  "owed s = (\<Sum>n\<in>{1..vs_epochNonce (pv_store s)}. owed_epoch (vs_epochs (pv_store s) n))"

text \<open>No position belongs to the vault itself.\<close>

definition no_self :: "address \<Rightarrow> parent_storage \<Rightarrow> bool" where
  "no_self this s \<longleftrightarrow> (\<forall>n. pv_deposits s this n = 0 \<and> pv_withdraws s this n = 0)"

section \<open>Sums over epochs\<close>

lemma owed_cong: "pv_store s = pv_store t \<Longrightarrow> owed s = owed t"
  by (simp add: owed_def)

lemma owed_irrelevant [simp]:
  "owed (s\<lparr>pv_deposits := d\<rparr>) = owed s" "owed (s\<lparr>pv_withdraws := w\<rparr>) = owed s" "owed (s\<lparr>pv_rebalance := r\<rparr>) = owed s"
  "owed (s\<lparr>pv_supportedProtocol := p\<rparr>) = owed s" "owed (s\<lparr>pv_initialActiveProtocolAdapterSet := b\<rparr>) = owed s"
  by (simp_all add: owed_def)

lemma owed_store [simp]:
  "owed (s\<lparr>pv_store := (pv_store s)\<lparr>vs_totalShares := n\<rparr>\<rparr>) = owed s"
  "owed (s\<lparr>pv_store := (pv_store s)\<lparr>vs_rebalanceState := r\<rparr>\<rparr>) = owed s"
  by (simp_all add: owed_def)

lemma sum_upd:
  fixes n cur :: int and g :: "'a \<Rightarrow> int"
  assumes "n \<in> {1..cur}"
  shows "(\<Sum>m\<in>{1..cur}. g ((h(n := e)) m)) = (\<Sum>m\<in>{1..cur}. g (h m)) + g e - g (h n)"
proof -
  have "(\<Sum>m\<in>{1..cur}. k m) = k n + (\<Sum>m\<in>{1..cur} - {n}. k m)" for k :: "int \<Rightarrow> int"
    using assms by (intro sum.remove) simp_all
  moreover have "(\<Sum>m\<in>{1..cur} - {n}. g ((h(n := e)) m)) = (\<Sum>m\<in>{1..cur} - {n}. g (h m))" by (rule sum.cong) auto
  ultimately show ?thesis by simp
qed

lemma owed_put:
  assumes "1 \<le> n" "n \<le> vs_epochNonce (pv_store s)"
  shows "owed (put_epoch s n e) = owed s + owed_epoch e - owed_epoch (vs_epochs (pv_store s) n)"
  using sum_upd [of n "vs_epochNonce (pv_store s)" owed_epoch "vs_epochs (pv_store s)" e] assms by (simp add: owed_def put_epoch_def)

lemma owed_next:
  assumes "1 \<le> vs_epochNonce st"
  shows "(\<Sum>m\<in>{1..vs_epochNonce st + 1}. owed_epoch (((vs_epochs st)(vs_epochNonce st := e, vs_epochNonce st + 1 := e')) m)) =
    (\<Sum>m\<in>{1..vs_epochNonce st}. owed_epoch (vs_epochs st m)) - owed_epoch (vs_epochs st (vs_epochNonce st)) + owed_epoch e + owed_epoch e'"
proof -
  let ?cur = "vs_epochNonce st"
  have "{1..?cur + 1} = insert (?cur + 1) {1..?cur}" using assms by auto
  moreover have "(\<Sum>m\<in>{1..?cur}. owed_epoch (((vs_epochs st)(?cur := e, ?cur + 1 := e')) m)) =
      (\<Sum>m\<in>{1..?cur}. owed_epoch (((vs_epochs st)(?cur := e)) m))"
    by (rule sum.cong) auto
  ultimately show ?thesis using sum_upd [of ?cur ?cur owed_epoch "vs_epochs st" e] assms by simp
qed

section \<open>What the operations do to it\<close>

text \<open>An operation that leaves the rebalance alone and gives the vault itself no position.\<close>

definition aside :: "address \<Rightarrow> parent_storage \<Rightarrow> parent_storage \<Rightarrow> bool" where
  "aside this s s' \<longleftrightarrow> pv_rebalance s' = pv_rebalance s \<and> vs_rebalanceState (pv_store s') = vs_rebalanceState (pv_store s) \<and>
     (no_self this s \<longrightarrow> no_self this s')"

lemma put_epoch_fields [simp]:
  "pv_rebalance (put_epoch s n e) = pv_rebalance s" "pv_deposits (put_epoch s n e) = pv_deposits s"
  "pv_withdraws (put_epoch s n e) = pv_withdraws s" "vs_rebalanceState (pv_store (put_epoch s n e)) = vs_rebalanceState (pv_store s)"
  "vs_epochs (pv_store (put_epoch s n e)) n = e"
  by (simp_all add: put_epoch_def)

lemmas books_simps = Let_def bindS_Inr_iff checked_arith owed_put owed_epoch_def aside_def no_self_def set_entry_def

lemma current_range: "lifecycle_ok s \<Longrightarrow> 1 \<le> vs_epochNonce (pv_store s)"
  by (simp add: lifecycle_ok_def)

lemma deposit_owed:
  assumes "lifecycle_ok s" "sol_deposit minimum user amount s = Inr s'" "user \<noteq> this"
  shows "owed s' = owed s + amount" "aside this s s'"
  using assms current_range [OF assms(1)] by (auto simp: sol_deposit_def books_simps split: if_splits)

lemma cancelDeposit_owed:
  assumes "lifecycle_ok s" "sol_cancelDeposit user s = Inr s'"
  shows "owed s' = owed s - pv_deposits s user (vs_epochNonce (pv_store s))" "aside this s s'" "no_self this s \<Longrightarrow> user \<noteq> this"
  using assms current_range [OF assms(1)] by (auto simp: sol_cancelDeposit_def books_simps split: if_splits)

lemma withdraw_owed:
  assumes "lifecycle_ok s" "sol_withdraw user amount s = Inr s'" "user \<noteq> this"
  shows "owed s' = owed s" "aside this s s'"
  using assms current_range [OF assms(1)] by (auto simp: sol_withdraw_def books_simps split: if_splits)

lemma cancelWithdraw_owed:
  assumes "lifecycle_ok s" "sol_cancelWithdraw user s = Inr s'"
  shows "owed s' = owed s" "aside this s s'"
  using assms current_range [OF assms(1)] by (auto simp: sol_cancelWithdraw_def books_simps split: if_splits)

lemma claimShares_owed:
  assumes "lifecycle_ok s" "sol_claimShares P user n s = Inr (s', minted)"
  shows "owed s' = owed s" "aside this s s'"
proof -
  have "1 \<le> n" "n \<le> vs_epochNonce (pv_store s)"
    using settled_epoch(1,2) [OF assms(1), of n] assms(2) by (auto simp: sol_claimShares_def Let_def split: if_splits)
  then show "owed s' = owed s" "aside this s s'" using assms(2) by (auto simp: sol_claimShares_def books_simps split: if_splits)
qed

lemma claimAsset_owed:
  assumes "lifecycle_ok s" "sol_claimAsset P user n s = Inr (s', paid)"
  shows "owed s' = owed s - paid" "aside this s s'" "no_self this s \<Longrightarrow> user \<noteq> this"
proof -
  have "1 \<le> n" "n \<le> vs_epochNonce (pv_store s)"
    using settled_epoch(1,2) [OF assms(1), of n] assms(2) by (auto simp: sol_claimAsset_def Let_def split: if_splits)
  then show "owed s' = owed s - paid" "aside this s s'" "no_self this s \<Longrightarrow> user \<noteq> this"
    using assms(2) by (auto simp: sol_claimAsset_def books_simps split: if_splits)
qed

lemma netWithdraw_owed:
  assumes "lifecycle_ok s" "sol_handleEpochNetWithdraw n received s = Inr s'"
  shows "owed s' = owed s + received" "aside this s s'"
proof -
  have "1 \<le> n" "n \<le> vs_epochNonce (pv_store s)"
    using settled_epoch(1,2) [OF assms(1), of n] assms(2)
    by (auto simp: sol_handleEpochNetWithdraw_def Let_def bindS_Inr_iff split: if_splits)
  then show "owed s' = owed s + received" "aside this s s'"
    using assms(2) by (auto simp: sol_handleEpochNetWithdraw_def books_simps split: if_splits)
qed

lemma completeDeposit_owed:
  assumes "lifecycle_ok s" "sol_vaultCompleteEpochDeposit P n actual s = Inr s'"
  shows "owed s' = owed s" "aside this s s'"
proof -
  let ?n = "vs_epochNonce (pv_store s) - 1" let ?e = "vs_epochs (pv_store s) ?n"
  from assms(2) obtain store where run: "sol_completeEpochDeposit (vp_fullMulDiv P) (pv_store s) n actual = Inr store"
      and s1: "s' = s\<lparr>pv_store := store\<rparr>"
    by (auto simp: sol_vaultCompleteEpochDeposit_def bindS_Inr_iff)
  let ?e' = "vs_epochs store ?n"
  have e': "owed_epoch ?e' = owed_epoch ?e" and st: "se_status ?e = EpochExecuting"
      and "store = (pv_store s)\<lparr>vs_totalShares := vs_totalShares store, vs_epochs := (vs_epochs (pv_store s))(?n := ?e')\<rparr>"
    using run by (auto simp: sol_completeEpochDeposit_def Let_def bindS_Inr_iff checked_arith sub256_def owed_epoch_def split: if_splits)
  then have s': "s' = s\<lparr>pv_store := (pv_store s)\<lparr>vs_totalShares := vs_totalShares store, vs_epochs := (vs_epochs (pv_store s))(?n := ?e')\<rparr>\<rparr>"
    using s1 by metis
  have "owed s' = owed (put_epoch s ?n ?e')" by (simp add: s' owed_def put_epoch_def)
  also have "\<dots> = owed s" using e' settled_epoch(1,2) [OF assms(1), of ?n] st by (subst owed_put) auto
  finally show "owed s' = owed s" .
  show "aside this s s'" by (simp add: s' aside_def no_self_def)
qed

lemma close_owed:
  assumes doc: "params_doc P" and ok: "lifecycle_ok s" and tvl: "u256 tvl"
    and close: "sol_closeEpoch (vp_fullMulDiv P) (vp_toInt256 P) sharePrecision (asset_precision (vp_assetDecimals P))
      (asset_precision (vp_assetDecimals P)) (pv_store s) ts nonce tvl isLocal = Inr (store, act)"
    and run: "sol_vaultCloseEpoch P ts nonce tvl isLocal amountOut s = Inr s'"
  shows "owed s' = owed s + (case ca_action act of DEPOSIT_TO_LOCAL_STRATEGY \<Rightarrow> - ca_amount act
      | SEND_DEPOSIT_TO_REMOTE_STRATEGY \<Rightarrow> - ca_amount act | WITHDRAW_FROM_LOCAL_STRATEGY \<Rightarrow> amountOut | _ \<Rightarrow> 0)"
    and "aside this s s'" and "ca_epochNonce act = vs_epochNonce (pv_store s)" and "pv_rebalance s' = pv_rebalance s"
proof -
  let ?cur = "vs_epochNonce (pv_store s)" let ?e = "vs_epochs (pv_store s) ?cur"
  have blank: "vs_epochs (pv_store s) (?cur + 1) = blank_epoch" using ok by (simp add: lifecycle_ok_def epoch_ok_def)
  have docs: "fullMulDiv_doc (vp_fullMulDiv P)" "toInt256_doc (vp_toInt256 P)" "vp_assetDecimals P \<le> 77"
    using doc by (simp_all add: params_doc_def)
  have wf: "wf_store (pv_store s)" by (rule lifecycle_wf_store [OF ok])
  from close_Inr [OF doc wf tvl blank refl refl run] obtain w n where
    am: "close_amounts (se_totalDepositAmount ?e) (se_totalShareBurnAmount ?e) (vs_totalShares (pv_store s)) tvl
      (asset_precision (vp_assetDecimals P)) = Ok (w, n)" and
    s': "s' = s\<lparr>pv_store := (pv_store s)\<lparr>vs_totalShares := vs_totalShares (pv_store s) + n - se_totalShareBurnAmount ?e,
      vs_epochNonce := ?cur + 1, vs_epochs := (vs_epochs (pv_store s))(?cur := closed_epoch ?e w n isLocal amountOut,
        ?cur + 1 := blank_epoch\<lparr>se_status := EpochOpen, se_openedAtTimestamp := ts\<rparr>)\<rparr>\<rparr>" by blast
  from close [unfolded sol_closeEpoch_Inr [OF docs(1,2) wf tvl docs(3)] preflight_close_Ok [OF wf tvl docs(3)]] am
  have act: "act = snd (settle (pv_store s) ?cur isLocal w n (se_totalDepositAmount ?e - w)
      (vs_totalShares (pv_store s) + n - se_totalShareBurnAmount ?e))"
    by (auto simp: close_accounting_def settled_def dest: arg_cong [where f = snd])
  have o: "se_status ?e = EpochOpen" using current_epoch(1) [OF ok] by (simp add: open_epoch_def)
  have "owed s' = owed s - owed_epoch ?e + owed_epoch (closed_epoch ?e w n isLocal amountOut)"
    using owed_next [OF current_range [OF ok]] by (simp add: s' owed_def) (simp add: owed_epoch_def blank_epoch_def)
  then show "owed s' = owed s + (case ca_action act of DEPOSIT_TO_LOCAL_STRATEGY \<Rightarrow> - ca_amount act
      | SEND_DEPOSIT_TO_REMOTE_STRATEGY \<Rightarrow> - ca_amount act | WITHDRAW_FROM_LOCAL_STRATEGY \<Rightarrow> amountOut | _ \<Rightarrow> 0)"
    using o by (auto simp: act settle_def closed_epoch_def Let_def owed_epoch_def)
  show "aside this s s'" "pv_rebalance s' = pv_rebalance s" by (simp_all add: s' aside_def no_self_def)
  show "ca_epochNonce act = ?cur" by (simp add: act settle_def Let_def)
qed

section \<open>Rebalances\<close>

lemma fee_aside:
  assumes "sol_collectManagementFee P ts last0 s = Inr s'"
  shows "owed s' = owed s" "pv_rebalance s' = pv_rebalance s" "vs_rebalanceState (pv_store s') = vs_rebalanceState (pv_store s)"
    "no_self this s' = no_self this s"
  using assms by (auto simp: sol_collectManagementFee_def bindS_Inr_iff Let_def no_self_def split: if_splits)

lemma finalize_owed:
  assumes "sol_finalizeRebalance P ts n new isLocal s = Inr s'"
  shows "owed s' = owed s" "sr_nonce (pv_rebalance s') = sr_nonce (pv_rebalance s) + 1" "no_self this s' = no_self this s"
    "n = sr_nonce (pv_rebalance s)"
proof -
  let ?r = "\<lparr>sr_nonce = sr_nonce (pv_rebalance s) + 1, sr_activeStrategy = new,
    sr_pendingStrategy = (if isLocal then sr_pendingStrategy (pv_rebalance s) else no_strategy), sr_lastRebalanceCompletedTimestamp = ts\<rparr>"
  let ?s = "s\<lparr>pv_store := (if isLocal then pv_store s else (pv_store s)\<lparr>vs_rebalanceState := RebalanceNone\<rparr>), pv_rebalance := ?r\<rparr>"
  have fee: "sol_collectManagementFee P ts (sr_lastRebalanceCompletedTimestamp (pv_rebalance s)) ?s = Inr s'"
    and "n = sr_nonce (pv_rebalance s)"
    using assms by (simp_all add: sol_finalizeRebalance_def Let_def bindS_Inr_iff checked_arith split: if_split_asm)
  then show "n = sr_nonce (pv_rebalance s)" "owed s' = owed s" "sr_nonce (pv_rebalance s') = sr_nonce (pv_rebalance s) + 1"
    "no_self this s' = no_self this s"
    using fee_aside [OF fee] by (auto simp: owed_def no_self_def)
qed

lemma initiate_owed:
  assumes "sol_initiateRebalance P ts n new supported s = Inr (s', act)"
  shows "owed s' = owed s" "sr_nonce (pv_rebalance s') = sr_nonce (pv_rebalance s)" "no_self this s' = no_self this s"
    "n = sr_nonce (pv_rebalance s)"
  using assms by (auto simp: sol_initiateRebalance_def Let_def bindS_Inr_iff no_self_def owed_def split: if_splits)

lemma config_owed:
  "sol_setSupportedProtocol pid b s = Inr s' \<Longrightarrow> owed s' = owed s \<and> aside this s s'"
  "sol_setInitialActiveProtocolAdapter P pid s = Inr s' \<Longrightarrow> owed s' = owed s \<and> sr_nonce (pv_rebalance s') = sr_nonce (pv_rebalance s) \<and>
     vs_rebalanceState (pv_store s') = vs_rebalanceState (pv_store s) \<and> no_self this s' = no_self this s"
  by (auto simp: sol_setSupportedProtocol_def sol_setInitialActiveProtocolAdapter_def aside_def no_self_def split: if_splits)

end
