(* ===== verification/Parent_Invariant.thy ===== *)
theory Parent_Invariant
  imports Parent_Vault Parent_Books
begin

text \<open>
  The parent vault's contract as a state machine: its functions in any order, each in a world and at a time of its own. Every
  transaction is a step of the accounting in \<open>Vault_Lifecycle\<close>, so that what is proved there holds of the contract, and the
  vault holds exactly what it owes.
\<close>

section \<open>The state machine\<close>

datatype parent_op = Do_deposit address int | Do_depositFor address address int | Do_withdraw address int | Do_withdrawFor address address int
  | Do_claimShares address int | Do_claimSharesFor address int | Do_claimAsset address int | Do_claimAssetFor address int
  | Do_cancelDeposit address | Do_cancelWithdraw address | Do_forceCancelDeposit address address | Do_ccipReceive address any2evm
  | Do_closeEpoch address int int | Do_completeEpochDeposit address int int | Do_initiateRebalance address int TypesStrategy
  | Do_completeRebalance address int | Do_executeRecovery | Do_setInitialActiveProtocolAdapter address bytes32
  | Do_setSupportedProtocol address bytes32 bool | Do_setTreasury address address | Do_setAllowlistEnabled address bool
  | Do_setAllowlistedUsers address "address list" bool | Do_setCrosschainVaults address "uint64 list" "address list"
  | Do_setCcipGasLimit address uint64 int | Do_setDefaultCcipGasLimit address int

definition voidC :: "'a parent_m \<Rightarrow> unit parent_m" where
  "voidC m = bindC m (\<lambda>_. retC ())"

fun parent_exec :: "parent_params \<Rightarrow> vault_world \<Rightarrow> int \<Rightarrow> parent_op \<Rightarrow> unit parent_m" where
  "parent_exec P W ts (Do_deposit caller amount) = voidC (deposit P W caller amount)"
| "parent_exec P W ts (Do_depositFor caller beneficiary amount) = voidC (depositFor P W caller beneficiary amount)"
| "parent_exec P W ts (Do_withdraw caller amount) = voidC (withdraw W caller amount)"
| "parent_exec P W ts (Do_withdrawFor caller beneficiary amount) = voidC (withdrawFor P W caller beneficiary amount)"
| "parent_exec P W ts (Do_claimShares caller n) = voidC (claimShares P W caller n)"
| "parent_exec P W ts (Do_claimSharesFor user n) = voidC (claimSharesFor P W user n)"
| "parent_exec P W ts (Do_claimAsset caller n) = voidC (claimAsset P W caller n)"
| "parent_exec P W ts (Do_claimAssetFor user n) = voidC (claimAssetFor P W user n)"
| "parent_exec P W ts (Do_cancelDeposit caller) = cancelDeposit W caller"
| "parent_exec P W ts (Do_cancelWithdraw caller) = cancelWithdraw W caller"
| "parent_exec P W ts (Do_forceCancelDeposit caller user) = forceCancelDeposit W caller user"
| "parent_exec P W ts (Do_ccipReceive caller message) = bindC (deliverTokens message) (\<lambda>_. parentCcipReceive P W ts caller message)"
| "parent_exec P W ts (Do_closeEpoch caller n tvl) = closeEpoch P W ts caller n tvl"
| "parent_exec P W ts (Do_completeEpochDeposit caller n actual) = completeEpochDeposit P W caller n actual"
| "parent_exec P W ts (Do_initiateRebalance caller n strategy) = initiateRebalance P W ts caller n strategy"
| "parent_exec P W ts (Do_completeRebalance caller n) = completeRebalance P W ts caller n"
| "parent_exec P W ts Do_executeRecovery = parentExecuteRecovery P W ts"
| "parent_exec P W ts (Do_setInitialActiveProtocolAdapter caller pid) = setInitialActiveProtocolAdapter P W caller pid"
| "parent_exec P W ts (Do_setSupportedProtocol caller pid b) = setSupportedProtocol W caller pid b"
| "parent_exec P W ts (Do_setTreasury caller treasury) = setTreasury W caller treasury"
| "parent_exec P W ts (Do_setAllowlistEnabled caller b) = setAllowlistEnabled W caller b"
| "parent_exec P W ts (Do_setAllowlistedUsers caller users b) = setAllowlistedUsers W caller users b"
| "parent_exec P W ts (Do_setCrosschainVaults caller selectors vaults) = setCrosschainVaults W caller selectors vaults"
| "parent_exec P W ts (Do_setCcipGasLimit caller selector gasLimit) = setCcipGasLimit W caller selector gasLimit"
| "parent_exec P W ts (Do_setDefaultCcipGasLimit caller gasLimit) = setDefaultCcipGasLimit W caller gasLimit"

text \<open>Arguments are words of their types; the vault does not call its own deposit and withdraw functions.\<close>

fun wf_parent_op :: "parent_params \<Rightarrow> parent_op \<Rightarrow> bool" where
  "wf_parent_op P (Do_deposit caller amount) \<longleftrightarrow> caller \<noteq> cp_this P \<and> u256 amount"
| "wf_parent_op P (Do_depositFor caller beneficiary amount) \<longleftrightarrow> caller \<noteq> cp_this P \<and> u256 amount"
| "wf_parent_op P (Do_withdraw caller amount) \<longleftrightarrow> caller \<noteq> cp_this P \<and> u256 amount"
| "wf_parent_op P (Do_withdrawFor caller beneficiary amount) \<longleftrightarrow> caller \<noteq> cp_this P \<and> u256 amount"
| "wf_parent_op P (Do_claimShares caller n) \<longleftrightarrow> u256 n"
| "wf_parent_op P (Do_claimSharesFor user n) \<longleftrightarrow> u256 n"
| "wf_parent_op P (Do_claimAsset caller n) \<longleftrightarrow> u256 n"
| "wf_parent_op P (Do_claimAssetFor user n) \<longleftrightarrow> u256 n"
| "wf_parent_op P (Do_ccipReceive caller message) \<longleftrightarrow> (\<forall>(token, amount) \<in> set (a2e_destTokenAmounts message). u256 amount)"
| "wf_parent_op P (Do_closeEpoch caller n tvl) \<longleftrightarrow> u256 n \<and> u256 tvl"
| "wf_parent_op P (Do_completeEpochDeposit caller n actual) \<longleftrightarrow> u256 n \<and> u256 actual"
| "wf_parent_op P (Do_initiateRebalance caller n strategy) \<longleftrightarrow> u256 n"
| "wf_parent_op P (Do_completeRebalance caller n) \<longleftrightarrow> u256 n"
| "wf_parent_op P _ \<longleftrightarrow> True"

inductive parent_steps :: "parent_params \<Rightarrow> parent_chain \<Rightarrow> parent_chain \<Rightarrow> bool" for P where
  parent_refl: "parent_steps P c c"
| parent_step: "parent_steps P c d \<Longrightarrow> wf_parent_op P op \<Longrightarrow> wf_world W \<Longrightarrow> u256 ts \<Longrightarrow> parent_exec P W ts op d = Inr (u, d') \<Longrightarrow>
    parent_steps P c d'"

definition parent_reachable :: "parent_params \<Rightarrow> parent_chain \<Rightarrow> bool" where
  "parent_reachable P c \<longleftrightarrow> (\<exists>p treasury canceller allower enabled ts c0. parentConstructor P = Inr () \<and> u256 ts \<and>
     parentInitialize p treasury canceller allower enabled ts = Inr c0 \<and> parent_steps P c0 c)"

section \<open>The invariant\<close>

abbreviation "stored c \<equiv> pt_storage (ch_vault c)"
abbreviation "unplaced c \<equiv> rdr_amount (bv_rebalanceDepositRecovery (ch_base c))"

text \<open>The only recovery of the parent vault is a rebalance deposit, which belongs to the running rebalance.\<close>

definition recovery_ok :: "parent_chain \<Rightarrow> bool" where
  "recovery_ok c \<longleftrightarrow>
     (let mode = bv_recoveryMode (ch_base c); r = bv_rebalanceDepositRecovery (ch_base c)
      in mode = NO_RECOVERY \<and> r = zero_rebalance_deposit \<or>
         mode = REBALANCE_DEPOSIT \<and> 0 < rdr_amount r \<and> bv_activeProtocolAdapter (ch_base c) \<noteq> 0 \<and>
         rdr_rebalanceNonce r = sr_nonce (pv_rebalance (stored c)) \<and> vs_rebalanceState (pv_store (stored c)) = Rebalancing)"

text \<open>While \<open>h\<close> more of the asset is in the vault's hands than it owes or has to place; between transactions \<open>h\<close> is 0.\<close>

definition parent_inv :: "parent_params \<Rightarrow> int \<Rightarrow> parent_chain \<Rightarrow> bool" where
  "parent_inv P h c \<longleftrightarrow> lifecycle_ok (stored c) \<and> 0 < sr_nonce (pv_rebalance (stored c)) \<and> recovery_ok c \<and> no_self (cp_this P) (stored c) \<and>
     assets P (ch_trace c) = owed (stored c) + unplaced c + h"

text \<open>What a transaction promises: a step of the accounting, and balanced books.\<close>

definition kept :: "parent_params \<Rightarrow> parent_chain \<Rightarrow> parent_chain \<Rightarrow> bool" where
  "kept P c d \<longleftrightarrow> vault_steps (lib_params P) (stored c) (stored d) \<and> parent_inv P 0 d"

lemma assets_append [simp]: "assets P (tr @ acts) = assets P tr + (\<Sum>a\<leftarrow>acts. act_value P a)"
  by (simp add: assets_def)

lemma kept_exec:
  assumes doc: "params_doc (lib_params P)" and inv: "parent_inv P h c"
    and run: "wf_op op" "exec (lib_params P) op (stored c) = Inr (stored d)" and as: "aside (cp_this P) (stored c) (stored d)"
    and base: "ch_base d = ch_base c" and bal: "assets P (ch_trace d) + owed (stored c) + h = assets P (ch_trace c) + owed (stored d)"
  shows "kept P c d"
proof -
  have "lifecycle_ok (stored c)" using inv by (simp add: parent_inv_def)
  from exec_keeps [OF doc this run] steps_step [OF steps_refl run] inv as bal show ?thesis
    by (auto simp: kept_def parent_inv_def recovery_ok_def aside_def base Let_def)
qed

lemma kept_refl:
  assumes "parent_inv P 0 c" "stored d = stored c" "assets P (ch_trace d) = assets P (ch_trace c)"
    and "bv_recoveryMode (ch_base d) = bv_recoveryMode (ch_base c)" "bv_activeProtocolAdapter (ch_base d) = bv_activeProtocolAdapter (ch_base c)"
    and "bv_rebalanceDepositRecovery (ch_base d) = bv_rebalanceDepositRecovery (ch_base c)"
  shows "kept P c d"
  using assms by (auto simp: kept_def parent_inv_def recovery_ok_def Let_def intro: steps_refl)

lemma inv_facts:
  assumes "parent_inv P h c"
  shows "lifecycle_ok (stored c)" "no_self (cp_this P) (stored c)" "0 < sr_nonce (pv_rebalance (stored c))"
    and "bv_recoveryMode (ch_base c) = NO_RECOVERY \<Longrightarrow> bv_rebalanceDepositRecovery (ch_base c) = zero_rebalance_deposit"
  using assms by (auto simp: parent_inv_def recovery_ok_def Let_def)

section \<open>User functions\<close>

lemma specC_void [child_spec]: "specC (voidC m) E Q c = specC m E (\<lambda>_. Q ()) c"
  by (simp add: voidC_def specC_bind specC_ret)

lemma deposit_kept:
  assumes "params_doc (lib_params P)" "parent_inv P 0 c" "payer \<noteq> cp_this P" "beneficiary \<noteq> cp_this P" "u256 amount"
  shows "specC (libDeposit P W payer beneficiary amount) (\<lambda>_. True) (\<lambda>_. kept P c) c"
  using assms(3-5) deposit_owed [OF inv_facts(1) [OF assms(2)], of _ beneficiary]
  by (auto simp: libDeposit_def child_spec lib_params_def split: sum.split intro!: kept_exec [OF assms(1,2), of "Op_Deposit beneficiary amount"])

lemma withdraw_kept:
  assumes "params_doc (lib_params P)" "parent_inv P 0 c" "beneficiary \<noteq> cp_this P" "u256 amount"
  shows "specC (libWithdraw W payer beneficiary amount) (\<lambda>_. True) (\<lambda>_. kept P c) c"
  using assms(3-4) withdraw_owed [OF inv_facts(1) [OF assms(2)], of beneficiary]
  by (auto simp: libWithdraw_def child_spec split: sum.split intro!: kept_exec [OF assms(1,2), of "Op_Withdraw beneficiary amount"])

lemma claimShares_kept:
  assumes "params_doc (lib_params P)" "parent_inv P 0 c" "u256 n"
  shows "specC (libClaimShares P W user n) (\<lambda>_. True) (\<lambda>_. kept P c) c"
  using assms(3) claimShares_owed [OF inv_facts(1) [OF assms(2)], of "lib_params P" user n]
  by (auto simp: libClaimShares_def child_spec split: sum.split intro!: kept_exec [OF assms(1,2), of "Op_ClaimShares user n"])

lemma claimAsset_kept:
  assumes "params_doc (lib_params P)" "parent_inv P 0 c" "u256 n"
  shows "specC (libClaimAsset P W user n) (\<lambda>_. True) (\<lambda>_. kept P c) c"
  using assms(3) claimAsset_owed [OF inv_facts(1) [OF assms(2)], of "lib_params P" user n] inv_facts(2) [OF assms(2)]
  by (auto simp: libClaimAsset_def child_spec split: sum.split intro!: kept_exec [OF assms(1,2), of "Op_ClaimAsset user n"])

lemma cancelDeposit_kept:
  assumes "params_doc (lib_params P)" "parent_inv P 0 c"
  shows "specC (cancelDepositCore W user) (\<lambda>_. True) (\<lambda>_ d. \<forall>e. act_value P e = 0 \<longrightarrow> kept P c (d\<lparr>ch_trace := ch_trace d @ [e]\<rparr>)) c"
  using cancelDeposit_owed [OF inv_facts(1) [OF assms(2)], of user] inv_facts(2) [OF assms(2)]
  by (auto simp: cancelDepositCore_def child_spec split: sum.split intro!: kept_exec [OF assms, of "Op_CancelDeposit user"])

lemma cancelWithdraw_kept:
  assumes "params_doc (lib_params P)" "parent_inv P 0 c"
  shows "specC (cancelWithdraw W caller) (\<lambda>_. True) (\<lambda>_. kept P c) c"
  using cancelWithdraw_owed [OF inv_facts(1) [OF assms(2)], of caller]
  by (auto simp: cancelWithdraw_def whenNotPaused_def child_spec split: sum.split intro!: kept_exec [OF assms, of "Op_CancelWithdraw caller"])

section \<open>Epochs\<close>

lemma ccipLibSend_spends:
  "specC (ccipLibSend P W amount dst tx n pid) (\<lambda>_. True) (\<lambda>_ d. ch_base d = ch_base c \<and> ch_vault d = ch_vault c \<and>
     assets P (ch_trace d) = assets P (ch_trace c) - amount) c"
  by (auto simp: ccipLibSend_def validateCcipSend_def ccip_message_def child_spec Let_def split: sum.split)

lemma closeEpochAction_spec:
  assumes "wf_world W"
  shows "specC (closeEpochAction P W adapter act) (\<lambda>_. True) (\<lambda>_ d. \<exists>out. u256 out \<and> ch_base d = ch_base c \<and>
      (if ca_action act = WITHDRAW_FROM_LOCAL_STRATEGY
       then sol_finalizeLocalNetWithdraw (ca_epochNonce act) (ca_totalDepositAmount act) out (stored c) else Inr (stored c)) = Inr (stored d) \<and>
      assets P (ch_trace d) = assets P (ch_trace c) + (case ca_action act of DEPOSIT_TO_LOCAL_STRATEGY \<Rightarrow> - ca_amount act
      | SEND_DEPOSIT_TO_REMOTE_STRATEGY \<Rightarrow> - ca_amount act | WITHDRAW_FROM_LOCAL_STRATEGY \<Rightarrow> out | _ \<Rightarrow> 0)) c"
proof (cases "ca_action act")
  case SEND_DEPOSIT_TO_REMOTE_STRATEGY
  then show ?thesis
    by (auto simp: closeEpochAction_def specC_bind specC_lib intro!: specC_mono [OF ccipLibSend_spends] exI [of _ 0])
next
  case WITHDRAW_FROM_LOCAL_STRATEGY
  then show ?thesis
    using assms by (auto simp: closeEpochAction_def executeWithdraw_def child_spec wf_world_def split: option.split sum.split)
qed (auto simp: closeEpochAction_def executeDeposit_def tryDepositToAdapter_def child_spec intro: exI [of _ 0])

lemma closeEpoch_kept:
  assumes doc: "params_doc (lib_params P)" and inv: "parent_inv P 0 c" and W: "wf_world W" and u: "u256 ts" "u256 n" "u256 tvl"
  shows "specC (closeEpoch P W ts caller n tvl) (\<lambda>_. True) (\<lambda>_. kept P c) c"
proof -
  let ?local = "bv_activeProtocolAdapter (ch_base c) \<noteq> 0"
  let ?close = "sol_closeEpoch (pp_fullMulDiv P) (pp_toInt256 P) sharePrecision (asset_precision (pp_assetDecimals P))
    (asset_precision (pp_assetDecimals P)) (pv_store (stored c)) ts n tvl ?local"
  have kept: "kept P c (e\<lparr>ch_vault := (ch_vault e)\<lparr>pt_storage := s'\<rparr>, ch_trace := ch_trace e @ [Emitted ev]\<rparr>)"
    if close: "?close = Inr (store, act)" and out: "u256 out" and base: "ch_base e = ch_base c"
      and fin: "(if ca_action act = WITHDRAW_FROM_LOCAL_STRATEGY
        then sol_finalizeLocalNetWithdraw (ca_epochNonce act) (ca_totalDepositAmount act) out ((stored c)\<lparr>pv_store := store\<rparr>)
        else Inr ((stored c)\<lparr>pv_store := store\<rparr>)) = Inr (stored e)"
      and worth: "assets P (ch_trace e) = assets P (ch_trace c) + (case ca_action act of DEPOSIT_TO_LOCAL_STRATEGY \<Rightarrow> - ca_amount act
        | SEND_DEPOSIT_TO_REMOTE_STRATEGY \<Rightarrow> - ca_amount act | WITHDRAW_FROM_LOCAL_STRATEGY \<Rightarrow> out | _ \<Rightarrow> 0)"
      and next_open: "sol_openNextEpoch ts (ca_epochNonce act) (stored e) = Inr s'" for store act out e s' ev
  proof -
    have run: "sol_vaultCloseEpoch (lib_params P) ts n tvl ?local out (stored c) = Inr s'"
      using close fin next_open by (simp add: sol_vaultCloseEpoch_def lib_params_def)
    from close have close': "sol_closeEpoch (vp_fullMulDiv (lib_params P)) (vp_toInt256 (lib_params P)) sharePrecision
        (asset_precision (vp_assetDecimals (lib_params P))) (asset_precision (vp_assetDecimals (lib_params P))) (pv_store (stored c))
        ts n tvl ?local = Inr (store, act)" by (simp add: lib_params_def)
    note owed = close_owed [OF doc inv_facts(1) [OF inv] u(3) close' run]
    show ?thesis
      by (rule kept_exec [OF doc inv, of "Op_CloseEpoch ts n tvl ?local out"]) (use u out run owed base worth in simp_all)
  qed
  have libClose: "specC (libCloseEpoch P ts n tvl ?local) (\<lambda>_. True) (\<lambda>act d. \<exists>store. ?close = Inr (store, act) \<and>
      stored d = (stored c)\<lparr>pv_store := store\<rparr> \<and> ch_base d = ch_base c \<and> assets P (ch_trace d) = assets P (ch_trace c)) c"
    by (auto simp: libCloseEpoch_def child_spec bindS_Inr_iff split: sum.split external_action.split)
  have rest: "specC (bindC (closeEpochAction P W adapter act) (\<lambda>_. libOpenNextEpoch ts (ca_epochNonce act))) (\<lambda>_. True) (\<lambda>_. kept P c) d"
    if "?close = Inr (store, act)" "stored d = (stored c)\<lparr>pv_store := store\<rparr>" "ch_base d = ch_base c" "assets P (ch_trace d) = assets P (ch_trace c)"
    for store act adapter d
    by (rule specC_bindI [OF closeEpochAction_spec [OF W, where P = P]])
      (use that in \<open>auto simp: libOpenNextEpoch_def child_spec split: sum.split intro!: kept\<close>)
  show ?thesis
    by (auto simp: closeEpoch_def whenNotPaused_def onlyRole_def requireNoRecovery_def specC_bind [of "requireC _ _"] specC_bind [of "readBase _"]
        specC_bind [of "bindC (readBase _) _"] specC_unit specC_basic intro!: specC_bindI [OF libClose] rest)
qed

lemma completeEpochDeposit_kept:
  assumes "params_doc (lib_params P)" "parent_inv P 0 c" "u256 n" "u256 actual"
  shows "specC (completeEpochDeposit P W caller n actual) (\<lambda>_. True) (\<lambda>_. kept P c) c"
  using assms(3,4) completeDeposit_owed [OF inv_facts(1) [OF assms(2)], of "lib_params P" n actual]
  by (auto simp: completeEpochDeposit_def whenNotPaused_def onlyRole_def child_spec split: sum.split
      intro!: kept_exec [OF assms(1,2), of "Op_CompleteEpochDeposit n actual"])

section \<open>Rebalances\<close>

text \<open>A rebalance step of the accounting while no recovery is stored.\<close>

lemma kept_rebalance:
  assumes doc: "params_doc (lib_params P)" and inv: "parent_inv P h c" and run: "wf_op op" "exec (lib_params P) op (stored c) = Inr (stored d)"
    and nonce: "sr_nonce (pv_rebalance (stored c)) \<le> sr_nonce (pv_rebalance (stored d))" "no_self (cp_this P) (stored d)" "owed (stored d) = owed (stored c)"
    and rec: "recovery_ok d" and bal: "assets P (ch_trace d) = owed (stored c) + unplaced d"
  shows "kept P c d"
  using exec_keeps [OF doc inv_facts(1) [OF inv] run] steps_step [OF steps_refl run] inv_facts(3) [OF inv] nonce rec bal
  by (simp add: kept_def parent_inv_def)

lemma finalizeRebalance_spec:
  "specC (finalizeRebalance P W ts n new isLocal) (\<lambda>_. True) (\<lambda>_ d. sol_finalizeRebalance (lib_params P) ts n new isLocal (stored c) = Inr (stored d) \<and>
     ch_base d = ch_base c \<and> assets P (ch_trace d) = assets P (ch_trace c)) c"
  by (auto simp: finalizeRebalance_def child_spec split: sum.split)

lemma idle_recovery:
  assumes "parent_inv P h c" "bv_recoveryMode (ch_base c) = NO_RECOVERY"
  shows "unplaced c = 0" "assets P (ch_trace c) = owed (stored c) + h"
  using assms by (auto simp: parent_inv_def recovery_ok_def zero_rebalance_deposit_def Let_def)

lemma rebalanceAction_spec:
  "specC (rebalanceAction P W ts n new act) (\<lambda>_. True) (\<lambda>_ d.
      (if act = WITHDRAW_LOCAL_TO_LOCAL then sol_finalizeRebalance (lib_params P) ts n new True (stored c) else Inr (stored c)) = Inr (stored d) \<and>
      bv_recoveryMode (ch_base d) = bv_recoveryMode (ch_base c) \<and>
      bv_rebalanceDepositRecovery (ch_base d) = bv_rebalanceDepositRecovery (ch_base c) \<and> assets P (ch_trace d) = assets P (ch_trace c)) c"
  by (auto simp: rebalanceAction_def executeWithdraw_def executeDeposit_def tryDepositToAdapter_def revertIfZeroAmount_def setActiveAdapter_def
      clearActiveAdapter_def child_spec Let_def split: option.split
      intro!: specC_mono [OF finalizeRebalance_spec] specC_mono [OF ccipLibSend_spends [where P = P]])

lemma initiateRebalance_kept:
  assumes doc: "params_doc (lib_params P)" and inv: "parent_inv P 0 c" and u: "u256 ts" "u256 n"
  shows "specC (initiateRebalance P W ts caller n new) (\<lambda>_. True) (\<lambda>_. kept P c) c"
proof -
  let ?ok = "st_ChainSelector new = cp_thisChainSelector P \<or> bv_crosschainVaults (ch_base c) (st_ChainSelector new) \<noteq> 0"
  have kept: "kept P c d"
    if i: "sol_initiateRebalance (lib_params P) ts n new ?ok (stored c) = Inr (s, act)"
      and fin: "(if act = WITHDRAW_LOCAL_TO_LOCAL then sol_finalizeRebalance (lib_params P) ts n new True s else Inr s) = Inr (stored d)"
      and base: "bv_recoveryMode (ch_base c) = NO_RECOVERY" "bv_recoveryMode (ch_base d) = bv_recoveryMode (ch_base c)"
        "bv_rebalanceDepositRecovery (ch_base d) = bv_rebalanceDepositRecovery (ch_base c)"
      and worth: "assets P (ch_trace d) = assets P (ch_trace c)" for d s act
  proof -
    note io = initiate_owed [OF i]
    have run: "exec (lib_params P) (Op_InitiateRebalance ts n new ?ok 1) (stored c) = Inr (stored d)"
      using i fin io(4) by (auto simp: sol_vaultInitiateRebalance_def split: if_splits)
    have "owed (stored d) = owed s" "sr_nonce (pv_rebalance s) \<le> sr_nonce (pv_rebalance (stored d))"
        "no_self (cp_this P) (stored d) = no_self (cp_this P) s"
      using fin finalize_owed [of "lib_params P" ts n new True s "stored d"] by (auto split: if_splits)
    moreover have "recovery_ok d" using inv_facts(4) [OF inv base(1)] base by (simp add: recovery_ok_def)
    ultimately show ?thesis
      using io inv_facts(2) [OF inv] idle_recovery [OF inv base(1)] base worth u run
      by (intro kept_rebalance [OF doc inv _ run]) simp_all
  qed
  show ?thesis
    by (auto simp: initiateRebalance_def whenNotPaused_def onlyRole_def requireNoRecovery_def specC_bind specC_unit specC_basic specC_lib
        split: sum.split intro!: kept specC_mono [OF rebalanceAction_spec])
qed

lemma completeRebalance_kept:
  assumes doc: "params_doc (lib_params P)" and inv: "parent_inv P 0 c" and u: "u256 ts" "u256 n"
  shows "specC (completeRebalance P W ts caller n) (\<lambda>_. True) (\<lambda>_. kept P c) c"
proof -
  have kept: "kept P c d" if fin: "sol_finalizeRebalance (lib_params P) ts n (sr_pendingStrategy (pv_rebalance (stored c))) False (stored c) = Inr (stored d)"
    and base: "bv_recoveryMode (ch_base c) = NO_RECOVERY" "ch_base d = ch_base c" and worth: "assets P (ch_trace d) = assets P (ch_trace c)"
    and remote: "st_ChainSelector (sr_pendingStrategy (pv_rebalance (stored c))) \<noteq> cp_thisChainSelector P" for d
  proof -
    have run: "exec (lib_params P) (Op_CompleteRebalance ts n) (stored c) = Inr (stored d)"
      using fin remote by (simp add: sol_completeRebalance_def Let_def lib_params_def [of P])
    have "recovery_ok d" using inv_facts(4) [OF inv base(1)] base by (simp add: recovery_ok_def)
    then show ?thesis
      using finalize_owed [OF fin] inv_facts(2) [OF inv] idle_recovery [OF inv base(1)] base worth u
      by (intro kept_rebalance [OF doc inv _ run]) simp_all
  qed
  show ?thesis
    by (auto simp: completeRebalance_def whenNotPaused_def onlyRole_def requireNoRecovery_def specC_bind specC_unit specC_basic specC_lib
        intro!: kept specC_mono [OF finalizeRebalance_spec])
qed

section \<open>Bridge messages and recovery\<close>

lemma recovery_kept:
  assumes doc: "params_doc (lib_params P)" and inv: "parent_inv P 0 c" and u: "u256 ts"
  shows "specC (parentExecuteRecovery P W ts) (\<lambda>_. True) (\<lambda>_. kept P c) c"
proof -
  let ?r = "pv_rebalance (stored c)"
  have kept: "kept P c d"
    if fin: "sol_finalizeRebalance (lib_params P) ts (sr_nonce ?r) (sr_pendingStrategy ?r) False (stored c) = Inr (stored d)"
    and base: "bv_recoveryMode (ch_base d) = NO_RECOVERY" "bv_rebalanceDepositRecovery (ch_base d) = zero_rebalance_deposit"
    and worth: "assets P (ch_trace d) = assets P (ch_trace c) - unplaced c" for d
  proof -
    have run: "exec (lib_params P) (Op_FinishRecovery ts) (stored c) = Inr (stored d)" using fin by (simp add: sol_finishRecovery_def)
    have "assets P (ch_trace c) = owed (stored c) + unplaced c" using inv by (simp add: parent_inv_def)
    moreover have "unplaced d = 0" "recovery_ok d" using base by (simp_all add: recovery_ok_def zero_rebalance_deposit_def)
    ultimately show ?thesis
      using finalize_owed [OF fin] inv_facts(2) [OF inv] worth u by (intro kept_rebalance [OF doc inv _ run]) simp_all
  qed
  show ?thesis
    by (auto simp: parentExecuteRecovery_def whenNotPaused_def recoverFailedRebalanceDeposit_def executeDeposit_def tryDepositToAdapter_def
        clearRebalanceDepositRecovery_def specC_bind specC_unit specC_basic specC_lib specC_seqC specC_cases
        intro!: kept specC_mono [OF finalizeRebalance_spec])
qed

lemma netWithdraw_kept:
  assumes "params_doc (lib_params P)" "parent_inv P received c" "u256 n" "u256 received"
  shows "specC (libHandleEpochNetWithdraw n received) (\<lambda>_. True) (\<lambda>_ d. \<forall>ev. kept P c (d\<lparr>ch_trace := ch_trace d @ [Emitted ev]\<rparr>)) c"
  using assms(3,4) netWithdraw_owed [OF inv_facts(1) [OF assms(2)], of n received]
  by (auto simp: libHandleEpochNetWithdraw_def child_spec Let_def split: sum.split
      intro!: kept_exec [OF assms(1,2), of "Op_NetWithdrawArrived n received"])

text \<open>The position arrives: it is deposited and the rebalance finished, or kept for recovery.\<close>

lemma rebalance_arrives:
  assumes doc: "params_doc (lib_params P)" and inv: "parent_inv P received c" and idle: "bv_recoveryMode (ch_base c) = NO_RECOVERY"
    and u: "u256 ts" "u256 n" "0 < received"
    and running: "vs_rebalanceState (pv_store (stored c)) = Rebalancing" "sr_nonce (pv_rebalance (stored c)) = n"
      "st_ProtocolId (sr_pendingStrategy (pv_rebalance (stored c))) = pid"
  shows "specC (bindC (handleCCIPRebalance P W n pid received) (\<lambda>success. if success then finalizeRebalance P W ts n
      \<lparr>st_ProtocolId = pid, st_ChainSelector = cp_thisChainSelector P\<rparr> False else retC ())) (\<lambda>_. True)
    (\<lambda>_ d. \<forall>ev. kept P c (d\<lparr>ch_trace := ch_trace d @ [Emitted ev]\<rparr>)) c"
proof -
  let ?new = "\<lparr>st_ProtocolId = pid, st_ChainSelector = cp_thisChainSelector P\<rparr>"
  have n: "n \<noteq> 0" "0 < n" using inv_facts(3) [OF inv] running(2) by auto
  have placed: "kept P c (d\<lparr>ch_trace := ch_trace d @ [Emitted ev]\<rparr>)"
    if fin: "sol_finalizeRebalance (lib_params P) ts n ?new False (stored c) = Inr (stored d)"
      and base: "bv_recoveryMode (ch_base d) = NO_RECOVERY" "bv_rebalanceDepositRecovery (ch_base d) = bv_rebalanceDepositRecovery (ch_base c)"
      and worth: "assets P (ch_trace d) = assets P (ch_trace c) - received" for d ev
  proof -
    let ?d = "d\<lparr>ch_trace := ch_trace d @ [Emitted ev]\<rparr>"
    have run: "exec (lib_params P) (Op_RebalanceArrived ts n pid True) (stored c) = Inr (stored ?d)"
      using fin running n by (simp add: sol_receiveRebalance_def lib_params_def [of P])
    have "recovery_ok ?d" using inv_facts(4) [OF inv idle] base by (simp add: recovery_ok_def)
    then show ?thesis
      using finalize_owed [OF fin] inv_facts(2) [OF inv] idle_recovery [OF inv idle] base worth u
      by (intro kept_rebalance [OF doc inv _ run]) simp_all
  qed
  have stuck: "kept P c d"
    if same: "stored d = stored c" and base: "bv_recoveryMode (ch_base d) = REBALANCE_DEPOSIT" "bv_activeProtocolAdapter (ch_base d) \<noteq> 0"
        "bv_rebalanceDepositRecovery (ch_base d) = \<lparr>rdr_rebalanceNonce = n, rdr_amount = received\<rparr>"
      and worth: "assets P (ch_trace d) = assets P (ch_trace c)" for d
  proof -
    have run: "exec (lib_params P) (Op_RebalanceArrived ts n pid False) (stored c) = Inr (stored d)"
      using same running by (simp add: sol_receiveRebalance_def)
    have "recovery_ok d" using base running u same by (simp add: recovery_ok_def)
    then show ?thesis
      using inv_facts(2) [OF inv] idle_recovery [OF inv idle] base worth u same
      by (intro kept_rebalance [OF doc inv _ run]) simp_all
  qed
  show ?thesis
    using idle
    by (auto simp: handleCCIPRebalance_def setActiveAdapter_def handleRebalanceDeposit_def executeDeposit_def tryDepositToAdapter_def
        storeRebalanceDepositRecovery_def specC_bind specC_unit specC_basic specC_seqC specC_cases Let_def
        intro!: placed stuck specC_mono [OF finalizeRebalance_spec])
qed

lemma ccipReceive_kept:
  assumes doc: "params_doc (lib_params P)" and u: "u256 ts" "\<forall>(token, amount) \<in> set (a2e_destTokenAmounts message). u256 amount"
    and inv: "parent_inv P (\<Sum>(token, amount)\<leftarrow>a2e_destTokenAmounts message. if token = cp_asset P then amount else 0) c"
  shows "specC (parentCcipReceive P W ts caller message) (\<lambda>_. True) (\<lambda>_. kept P c) c"
proof (cases "\<exists>amount. a2e_destTokenAmounts message = [(cp_asset P, amount)] \<and> amount \<noteq> 0")
  case True
  then obtain amount where m: "a2e_destTokenAmounts message = [(cp_asset P, amount)]" "amount \<noteq> 0" by blast
  have amount: "u256 amount" "0 < amount" and inv': "parent_inv P amount c" using u(2) m inv by auto
  have data: "u256 n" if "abi_decode_uint256 d = Some n" for n d
    using that abi_uint_bounded by (auto simp: abi_decode_uint256_def split: if_splits)
  have data': "u256 n" if "abi_decode_uint256_bytes32 d = Some (n, pid)" for n d pid
    using that abi_uint_bounded by (auto simp: abi_decode_uint256_bytes32_def split: if_splits)
  note sent = netWithdraw_kept [OF doc inv' _ amount(1)] and arrived = rebalance_arrives [OF doc inv' _ u(1) _ amount(2)]
  show ?thesis
    using inv_facts(3) [OF inv'] m(2)
    by (auto simp: parentCcipReceive_def validateReceivedTokenAndGetAmount_def m(1) whenNotPaused_def onlyAllowedSender_def requireNoRecovery_def
        receiveCcip_def validateRebalance_def specC_bind specC_unit(1,5) specC_basic specC_lib specC_ret split: option.split CcipTx.split
        intro!: specC_mono [OF sent] specC_mono [OF arrived [unfolded specC_bind]] dest: data data' elim!: specC_mono)
next
  case False
  then show ?thesis
    by (auto simp: parentCcipReceive_def whenNotPaused_def onlyAllowedSender_def requireNoRecovery_def validateReceivedTokenAndGetAmount_def
        child_spec split: option.split list.split)
qed

lemma deliver_kept:
  assumes "parent_inv P h c"
  shows "specC (seqC (map (\<lambda>(token, amount). actC (Delivered token amount)) ts)) (\<lambda>_. False)
    (\<lambda>_ d. parent_inv P (h + (\<Sum>(token, amount)\<leftarrow>ts. if token = cp_asset P then amount else 0)) d \<and> stored d = stored c) c"
  using assms
proof (induction ts arbitrary: h c)
  case (Cons t ts)
  obtain token amount where t: "t = (token, amount)" by (cases t)
  let ?c = "c\<lparr>ch_trace := ch_trace c @ [Delivered token amount]\<rparr>"
  have "parent_inv P (h + (if token = cp_asset P then amount else 0)) ?c"
    using Cons.prems by (simp add: parent_inv_def recovery_ok_def)
  from Cons.IH [OF this] show ?case
    unfolding t list.map prod.case specC_seqC(2) specC_unit by (rule specC_mono) (auto simp: algebra_simps)
qed (simp add: child_spec)

section \<open>Configuration\<close>

lemma settings_kept:
  assumes "parent_inv P 0 c"
  shows "specC (setTreasury W caller treasury) (\<lambda>_. True) (\<lambda>_. kept P c) c"
    and "specC (setAllowlistEnabled W caller b) (\<lambda>_. True) (\<lambda>_. kept P c) c"
    and "specC (setAllowlistedUsers W caller users b) (\<lambda>_. True) (\<lambda>_. kept P c) c"
    and "specC (setCrosschainVaults W caller selectors vaults) (\<lambda>_. True) (\<lambda>_. kept P c) c"
    and "specC (setCcipGasLimit W caller selector gas) (\<lambda>_. True) (\<lambda>_. kept P c) c"
    and "specC (setDefaultCcipGasLimit W caller gas) (\<lambda>_. True) (\<lambda>_. kept P c) c"
proof -
  let ?same = "\<lambda>d. stored d = stored c \<and> assets P (ch_trace d) = assets P (ch_trace c) \<and> bv_recoveryMode (ch_base d) = bv_recoveryMode (ch_base c) \<and>
    bv_activeProtocolAdapter (ch_base d) = bv_activeProtocolAdapter (ch_base c) \<and>
    bv_rebalanceDepositRecovery (ch_base d) = bv_rebalanceDepositRecovery (ch_base c)"
  have users: "specC (allowUsers us b) (\<lambda>_. True) (\<lambda>_. ?same) d" if "?same d" for us b d
    using that by (induction us b arbitrary: d rule: allowUsers.induct) (auto simp: child_spec)
  have vaults: "specC (setVaults vs) (\<lambda>_. True) (\<lambda>_. ?same) d" if "?same d" for vs d
    using that by (induction vs arbitrary: d rule: setVaults.induct) (auto simp: child_spec)
  note keep = kept_refl [OF assms]
  show "specC (setTreasury W caller treasury) (\<lambda>_. True) (\<lambda>_. kept P c) c"
    "specC (setAllowlistEnabled W caller b) (\<lambda>_. True) (\<lambda>_. kept P c) c"
    "specC (setCcipGasLimit W caller selector gas) (\<lambda>_. True) (\<lambda>_. kept P c) c"
    "specC (setDefaultCcipGasLimit W caller gas) (\<lambda>_. True) (\<lambda>_. kept P c) c"
    by (auto simp: setTreasury_def setAllowlistEnabled_def setCcipGasLimit_def setDefaultCcipGasLimit_def onlyRole_def revertIfZeroAddress_def
        child_spec intro!: keep)
  show "specC (setAllowlistedUsers W caller users b) (\<lambda>_. True) (\<lambda>_. kept P c) c"
    "specC (setCrosschainVaults W caller selectors vaults) (\<lambda>_. True) (\<lambda>_. kept P c) c"
    by (auto simp: setAllowlistedUsers_def setCrosschainVaults_def onlyRole_def specC_bind specC_unit
        intro!: keep specC_mono [OF users] specC_mono [OF vaults])
qed

lemma setSupportedProtocol_kept:
  assumes "params_doc (lib_params P)" "parent_inv P 0 c"
  shows "specC (setSupportedProtocol W caller pid b) (\<lambda>_. True) (\<lambda>_. kept P c) c"
  using config_owed(1) [of pid b "stored c"]
  by (auto simp: setSupportedProtocol_def onlyRole_def child_spec split: sum.split
      intro!: kept_exec [OF assms, of "Op_SetSupportedProtocol pid b"])

lemma setInitialActiveProtocolAdapter_kept:
  assumes "params_doc (lib_params P)" "parent_inv P 0 c"
  shows "specC (setInitialActiveProtocolAdapter P W caller pid) (\<lambda>_. True) (\<lambda>_. kept P c) c"
proof -
  have kept: "kept P c d" if run: "sol_setInitialActiveProtocolAdapter (lib_params P) pid (stored c) = Inr (stored d)"
    and base: "bv_recoveryMode (ch_base d) = bv_recoveryMode (ch_base c)" "bv_activeProtocolAdapter (ch_base d) \<noteq> 0"
      "bv_rebalanceDepositRecovery (ch_base d) = bv_rebalanceDepositRecovery (ch_base c)"
    and worth: "assets P (ch_trace d) = assets P (ch_trace c)" for d
    using run config_owed(2) [OF run] base worth assms(2)
    by (intro kept_rebalance [OF assms, of "Op_SetInitialStrategy pid"]) (auto simp: parent_inv_def recovery_ok_def Let_def)
  show ?thesis
    by (auto simp: setInitialActiveProtocolAdapter_def onlyRole_def setActiveAdapter_def child_spec Let_def split: sum.split intro!: kept)
qed

section \<open>Every transaction\<close>

theorem parent_exec_kept:
  assumes doc: "params_doc (lib_params P)" and inv: "parent_inv P 0 c" and op: "wf_parent_op P op" and W: "wf_world W" and ts: "u256 ts"
  shows "specC (parent_exec P W ts op) (\<lambda>_. True) (\<lambda>_. kept P c) c"
proof -
  note guards = whenNotPaused_def onlyRole_def revertIfZeroAddress_def revertIfInvalidBeneficiary_def validateAllowlist_def
    specC_bind specC_unit specC_basic specC_void specC_ret specC_cases
  show ?thesis
  proof (cases op)
    case (Do_deposit caller amount)
    with op show ?thesis by (auto simp: deposit_def guards intro!: deposit_kept [OF doc inv])
  next
    case (Do_depositFor caller beneficiary amount)
    with op show ?thesis by (auto simp: depositFor_def guards intro!: deposit_kept [OF doc inv])
  next
    case (Do_withdraw caller amount)
    with op show ?thesis by (auto simp: withdraw_def guards intro!: withdraw_kept [OF doc inv])
  next
    case (Do_withdrawFor caller beneficiary amount)
    with op show ?thesis by (auto simp: withdrawFor_def guards intro!: withdraw_kept [OF doc inv])
  next
    case (Do_forceCancelDeposit caller user)
    then show ?thesis by (auto simp: forceCancelDeposit_def guards intro!: specC_mono [OF cancelDeposit_kept [OF doc inv]])
  next
    case (Do_cancelDeposit caller)
    then show ?thesis by (auto simp: cancelDeposit_def guards intro!: specC_mono [OF cancelDeposit_kept [OF doc inv]])
  next
    case (Do_ccipReceive caller message)
    have "specC (deliverTokens message) (\<lambda>_. True) (\<lambda>_ d. parent_inv P
        (\<Sum>(token, amount)\<leftarrow>a2e_destTokenAmounts message. if token = cp_asset P then amount else 0) d \<and> stored d = stored c) c"
      unfolding deliverTokens_def using deliver_kept [OF inv] by (rule specC_mono) simp_all
    then have "specC (bindC (deliverTokens message) (\<lambda>_. parentCcipReceive P W ts caller message)) (\<lambda>_. True) (\<lambda>_. kept P c) c"
      using op Do_ccipReceive ts by (elim specC_bindI) (auto simp: kept_def intro!: specC_mono [OF ccipReceive_kept [OF doc]])
    with Do_ccipReceive show ?thesis by simp
  qed (use op ts in \<open>auto simp: claimShares_def claimSharesFor_def claimAsset_def claimAssetFor_def guards
      intro!: claimShares_kept [OF doc inv] claimAsset_kept [OF doc inv] cancelWithdraw_kept [OF doc inv] closeEpoch_kept [OF doc inv W]
        completeEpochDeposit_kept [OF doc inv] initiateRebalance_kept [OF doc inv] completeRebalance_kept [OF doc inv]
        recovery_kept [OF doc inv] settings_kept [OF inv] setSupportedProtocol_kept [OF doc inv]
        setInitialActiveProtocolAdapter_kept [OF doc inv]\<close>)
qed

lemmas parent_exec_Inr = specC_Inr [OF parent_exec_kept]

lemma parent_initial:
  assumes "parentInitialize p treasury canceller allower enabled ts = Inr c" "u256 ts"
  shows "parent_inv P 0 c" "stored c = sol_initialize ts"
proof -
  show s: "stored c = sol_initialize ts" using assms(1) by (auto simp: parentInitialize_def split: if_splits)
  have "owed (sol_initialize ts) = 0" by (simp add: owed_def sol_initialize_def owed_epoch_def blank_epoch_def)
  with assms show "parent_inv P 0 c"
    using initialize_ok [OF assms(2)]
    by (auto simp: parentInitialize_def parent_inv_def recovery_ok_def no_self_def zero_rebalance_deposit_def assets_def split: if_splits)
      (simp_all add: sol_initialize_def)
qed

lemma parent_steps_kept:
  assumes "params_doc (lib_params P)" "parent_steps P c d" "parent_inv P 0 c"
  shows "kept P c d"
  using assms(2,3)
proof (induction rule: parent_steps.induct)
  case (parent_step c d op W ts u d')
  then have d: "parent_inv P 0 d" "vault_steps (lib_params P) (stored c) (stored d)" by (auto simp: kept_def)
  from parent_exec_Inr [OF assms(1) d(1) parent_step.hyps(2-5)] d(2) show ?case
    using steps_trans by (auto simp: kept_def)
qed (simp add: kept_def steps_refl)

lemma parent_reachable_kept:
  assumes "params_doc (lib_params P)" "parent_reachable P c"
  shows "parent_inv P 0 c" "vault_reachable (lib_params P) (stored c)"
  using assms(2) parent_steps_kept [OF assms(1) _ parent_initial(1)] parent_initial(2)
  by (fastforce simp: parent_reachable_def kept_def vault_reachable_def)+

lemma parent_reachable_step:
  "parent_reachable P c \<Longrightarrow> wf_parent_op P op \<Longrightarrow> wf_world W \<Longrightarrow> u256 ts \<Longrightarrow> parent_exec P W ts op c = Inr (u, d) \<Longrightarrow> parent_reachable P d"
  unfolding parent_reachable_def by (blast intro: parent_step)

end
