(* ===== verification/Child_Vault.thy ===== *)
theory Child_Vault
  imports Base_Vault
begin

text \<open>
  The child vault as a contract (\<open>evm/src/vaults/ChildVault.sol\<close> on \<open>BaseVault.sol\<close>): its storage struct with the
  recovery slots, every function that changes it, and the operational state the workflow reads.
\<close>

named_theorems child_defs \<open>definitions of the child vault's functions\<close>

section \<open>Storage\<close>

record EpochRecovery =
  epr_epochNonce :: int
  epr_amount :: int

record RebalanceWithdrawRecovery =
  rwr_rebalanceNonce :: int
  rwr_strategy :: TypesStrategy

record CcipSendRecovery =
  csr_amount :: int
  csr_nonce :: int
  csr_protocolId :: bytes32
  csr_destinationChainSelector :: uint64
  csr_ccipTxType :: CcipTx

record ChildVaultStorage =
  cv_lastHandledEpochNonce :: int
  cv_lastHandledRebalanceNonce :: int
  cv_rebalanceWithdrawRecovery :: RebalanceWithdrawRecovery
  cv_epochDepositRecovery :: EpochRecovery
  cv_epochWithdrawRecovery :: EpochRecovery
  cv_ccipSendRecovery :: CcipSendRecovery

definition zero_epoch_recovery :: EpochRecovery where
  "zero_epoch_recovery = \<lparr>epr_epochNonce = 0, epr_amount = 0\<rparr>"

definition zero_rebalance_withdraw :: RebalanceWithdrawRecovery where
  "zero_rebalance_withdraw =
     \<lparr>rwr_rebalanceNonce = 0, rwr_strategy = \<lparr>st_ProtocolId = zero_bytes32, st_ChainSelector = 0\<rparr>\<rparr>"

definition zero_ccip_send :: CcipSendRecovery where
  "zero_ccip_send = \<lparr>csr_amount = 0, csr_nonce = 0, csr_protocolId = zero_bytes32, csr_destinationChainSelector = 0,
     csr_ccipTxType = EPOCH_NET_DEPOSIT\<rparr>"

type_synonym child_chain = "ChildVaultStorage chain_state"
type_synonym 'a child_m = "(ChildVaultStorage, 'a) vault_m"

text \<open>The immutables: those of the base vault, the parent's chain, and the selector of the bridge's permanent capacity error.\<close>

record child_params = base_params +
  cp_parentChainSelector :: uint64
  cp_capacitySelector :: "byte list"

section \<open>Construction\<close>

definition childConstructor :: "child_params \<Rightarrow> vault_revert + unit" where
  "childConstructor P =
     (if cp_link P = 0 \<or> cp_asset P = 0 \<or> cp_ccipRouter P = 0 \<or> cp_adapterRegistry P = 0 then Inl BaseNoZeroAddress
      else if cp_thisChainSelector P = 0 then Inl BaseNoZeroChainSelector
      else if cp_parentChainSelector P = 0 then Inl BaseNoZeroChainSelector
      else if cp_parentChainSelector P = cp_thisChainSelector P then Inl InvalidParentChainSelector
      else Inr ())"

definition childInitialize :: "InitParams \<Rightarrow> vault_revert + child_chain" where
  "childInitialize p =
     (if ip_defaultAdmin p = 0 \<or> ip_pauser p = 0 \<or> ip_unpauser p = 0 \<or> ip_configOperator p = 0 \<or> ip_upgrader p = 0
      then Inl BaseNoZeroAddress
      else if ip_initialDefaultCcipGasLimit p = 0 then Inl BaseNoZeroAmount
      else Inr \<lparr>ch_base = \<lparr>bv_defaultCcipGasLimit = ip_initialDefaultCcipGasLimit p, bv_ccipGasLimits = (\<lambda>_. 0),
                 bv_crosschainVaults = (\<lambda>_. 0), bv_activeProtocolAdapter = 0, bv_recoveryMode = NO_RECOVERY,
                 bv_rebalanceDepositRecovery = zero_rebalance_deposit\<rparr>,
               ch_vault = \<lparr>cv_lastHandledEpochNonce = 0, cv_lastHandledRebalanceNonce = 0,
                 cv_rebalanceWithdrawRecovery = zero_rebalance_withdraw, cv_epochDepositRecovery = zero_epoch_recovery,
                 cv_epochWithdrawRecovery = zero_epoch_recovery, cv_ccipSendRecovery = zero_ccip_send\<rparr>,
               ch_trace = []\<rparr>)"

section \<open>Nonces\<close>

definition handleEpochNonce :: "int \<Rightarrow> unit child_m" where [child_defs]:
  "handleEpochNonce epochNonce =
     bindC (readVault cv_lastHandledEpochNonce) (\<lambda>lastHandledNonce.
       bindC (requireC (lastHandledNonce < epochNonce) (InvalidChildEpochNonce epochNonce lastHandledNonce)) (\<lambda>_.
         writeVault (\<lambda>s. s\<lparr>cv_lastHandledEpochNonce := epochNonce\<rparr>)))"

definition handleRebalanceNonce :: "int \<Rightarrow> unit child_m" where [child_defs]:
  "handleRebalanceNonce rebalanceNonce =
     bindC (readVault cv_lastHandledRebalanceNonce) (\<lambda>lastHandledNonce.
       bindC (requireC (lastHandledNonce < rebalanceNonce) (InvalidChildRebalanceNonce rebalanceNonce lastHandledNonce)) (\<lambda>_.
         writeVault (\<lambda>s. s\<lparr>cv_lastHandledRebalanceNonce := rebalanceNonce\<rparr>)))"

section \<open>Recovery slots\<close>

definition storeEpochDepositRecovery :: "int \<Rightarrow> int \<Rightarrow> unit child_m" where [child_defs]:
  "storeEpochDepositRecovery epochNonce amount =
     seqC [writeVault (\<lambda>s. s\<lparr>cv_epochDepositRecovery := \<lparr>epr_epochNonce = epochNonce, epr_amount = amount\<rparr>\<rparr>),
           writeBase (\<lambda>s. s\<lparr>bv_recoveryMode := EPOCH_DEPOSIT\<rparr>), emitC (Ev_EpochDepositRecoveryStored epochNonce amount)]"

definition clearEpochDepositRecovery :: "int \<Rightarrow> unit child_m" where [child_defs]:
  "clearEpochDepositRecovery epochNonce =
     seqC [writeVault (\<lambda>s. s\<lparr>cv_epochDepositRecovery := zero_epoch_recovery\<rparr>),
           writeBase (\<lambda>s. s\<lparr>bv_recoveryMode := NO_RECOVERY\<rparr>), emitC (Ev_EpochDepositRecoveryCleared epochNonce)]"

definition storeEpochWithdrawRecovery :: "int \<Rightarrow> int \<Rightarrow> unit child_m" where [child_defs]:
  "storeEpochWithdrawRecovery epochNonce amount =
     seqC [writeVault (\<lambda>s. s\<lparr>cv_epochWithdrawRecovery := \<lparr>epr_epochNonce = epochNonce, epr_amount = amount\<rparr>\<rparr>),
           writeBase (\<lambda>s. s\<lparr>bv_recoveryMode := EPOCH_WITHDRAW\<rparr>), emitC (Ev_EpochWithdrawRecoveryStored epochNonce amount)]"

definition clearEpochWithdrawRecovery :: "int \<Rightarrow> unit child_m" where [child_defs]:
  "clearEpochWithdrawRecovery epochNonce =
     seqC [writeVault (\<lambda>s. s\<lparr>cv_epochWithdrawRecovery := zero_epoch_recovery\<rparr>),
           writeBase (\<lambda>s. s\<lparr>bv_recoveryMode := NO_RECOVERY\<rparr>), emitC (Ev_EpochWithdrawRecoveryCleared epochNonce)]"

definition storeRebalanceWithdrawRecovery :: "int \<Rightarrow> TypesStrategy \<Rightarrow> unit child_m" where [child_defs]:
  "storeRebalanceWithdrawRecovery rebalanceNonce strategy =
     seqC [requireC (st_ChainSelector strategy \<noteq> 0) InvalidRecoveryStrategy,
           writeVault (\<lambda>s. s\<lparr>cv_rebalanceWithdrawRecovery := \<lparr>rwr_rebalanceNonce = rebalanceNonce, rwr_strategy = strategy\<rparr>\<rparr>),
           writeBase (\<lambda>s. s\<lparr>bv_recoveryMode := REBALANCE_WITHDRAW\<rparr>),
           emitC (Ev_RebalanceWithdrawRecoveryStored rebalanceNonce (st_ProtocolId strategy) (st_ChainSelector strategy))]"

definition clearRebalanceWithdrawRecovery :: "int \<Rightarrow> unit child_m" where [child_defs]:
  "clearRebalanceWithdrawRecovery rebalanceNonce =
     seqC [writeVault (\<lambda>s. s\<lparr>cv_rebalanceWithdrawRecovery := zero_rebalance_withdraw\<rparr>),
           writeBase (\<lambda>s. s\<lparr>bv_recoveryMode := NO_RECOVERY\<rparr>), emitC (Ev_RebalanceWithdrawRecoveryCleared rebalanceNonce)]"

definition storeCcipSendRecovery :: "int \<Rightarrow> uint64 \<Rightarrow> CcipTx \<Rightarrow> int \<Rightarrow> bytes32 \<Rightarrow> unit child_m" where [child_defs]:
  "storeCcipSendRecovery bridgeAmount destinationChainSelector ccipTxType nonce protocolId =
     seqC [writeVault (\<lambda>s. s\<lparr>cv_ccipSendRecovery := \<lparr>csr_amount = bridgeAmount, csr_nonce = nonce, csr_protocolId = protocolId,
             csr_destinationChainSelector = destinationChainSelector, csr_ccipTxType = ccipTxType\<rparr>\<rparr>),
           writeBase (\<lambda>s. s\<lparr>bv_recoveryMode := CCIP_SEND\<rparr>),
           emitC (Ev_CcipSendRecoveryStored ccipTxType destinationChainSelector bridgeAmount)]"

definition clearCcipSendRecovery :: "CcipSendRecovery child_m" where [child_defs]:
  "clearCcipSendRecovery =
     bindC (readVault cv_ccipSendRecovery) (\<lambda>recovery.
       bindC (seqC [writeVault (\<lambda>s. s\<lparr>cv_ccipSendRecovery := zero_ccip_send\<rparr>), writeBase (\<lambda>s. s\<lparr>bv_recoveryMode := NO_RECOVERY\<rparr>),
                emitC (Ev_CcipSendRecoveryCleared (csr_ccipTxType recovery) (csr_destinationChainSelector recovery) (csr_amount recovery))])
         (\<lambda>_. retC recovery))"

section \<open>Sending\<close>

definition capacity_exceeded :: "child_params \<Rightarrow> vault_revert \<Rightarrow> bool" where
  "capacity_exceeded P e =
     (case e of Bubbled err \<Rightarrow> take 4 (err @ replicate 4 0) = cp_capacitySelector P | _ \<Rightarrow> False)"

definition childCcipSend ::
    "child_params \<Rightarrow> vault_world \<Rightarrow> int \<Rightarrow> uint64 \<Rightarrow> CcipTx \<Rightarrow> int \<Rightarrow> bytes32 \<Rightarrow> unit child_m" where [child_defs]:
  "childCcipSend P W bridgeAmount destinationChainSelector ccipTxType nonce protocolId =
     bindC requireNoRecovery (\<lambda>_.
       bindC (validateCcipSend bridgeAmount destinationChainSelector (cp_thisChainSelector P)) (\<lambda>_.
         tryC (ccipLibSend P W bridgeAmount destinationChainSelector ccipTxType nonce protocolId)
           (\<lambda>err. if capacity_exceeded P err then revertC err
                  else storeCcipSendRecovery bridgeAmount destinationChainSelector ccipTxType nonce protocolId)))"

section \<open>Inbound messages\<close>

definition handleCCIPDeposit :: "vault_world \<Rightarrow> int \<Rightarrow> int \<Rightarrow> unit child_m" where [child_defs]:
  "handleCCIPDeposit W epochNonce amount =
     bindC (readBase bv_activeProtocolAdapter) (\<lambda>adapter.
       bindC (executeDeposit W amount False adapter) (\<lambda>success.
         if success then emitC (Ev_EpochDepositToStrategySuccess epochNonce amount)
         else seqC [storeEpochDepositRecovery epochNonce amount, emitC (Ev_EpochDepositToStrategyFailure epochNonce amount)]))"

definition ccipReceive :: "child_params \<Rightarrow> vault_world \<Rightarrow> address \<Rightarrow> any2evm \<Rightarrow> unit child_m" where [child_defs]:
  "ccipReceive P W caller message =
     bindC (requireC (caller = cp_ccipRouter P) (InvalidRouter caller)) (\<lambda>_.
     bindC (whenNotPaused W) (\<lambda>_.
     bindC (decodeC (abi_decode_address (a2e_sender message))) (\<lambda>sender.
     bindC (onlyAllowedSender sender (a2e_sourceChainSelector message)) (\<lambda>_.
     bindC requireNoRecovery (\<lambda>_.
     bindC (validateReceivedTokenAndGetAmount message (cp_asset P)) (\<lambda>receivedAmount.
     bindC (decodeC (abi_decode_ccip (a2e_data message))) (\<lambda>(ccipTxType, data).
     bindC (case ccipTxType of
         EPOCH_NET_DEPOSIT \<Rightarrow>
           bindC (requireC (a2e_sourceChainSelector message = cp_parentChainSelector P)
             (InvalidSourceChainSelector (a2e_sourceChainSelector message) (cp_parentChainSelector P))) (\<lambda>_.
           bindC (decodeC (abi_decode_uint256 data)) (\<lambda>epochNonce.
           bindC (handleEpochNonce epochNonce) (\<lambda>_. handleCCIPDeposit W epochNonce receivedAmount)))
       | REBALANCE \<Rightarrow>
           bindC (decodeC (abi_decode_uint256_bytes32 data)) (\<lambda>(rebalanceNonce, protocolId).
           bindC (handleRebalanceNonce rebalanceNonce) (\<lambda>_.
           bindC (handleCCIPRebalance P W rebalanceNonce protocolId receivedAmount) (\<lambda>_. retC ())))
       | EPOCH_NET_WITHDRAW \<Rightarrow> revertC (InvalidTxType ccipTxType)) (\<lambda>_.
     emitC (Ev_CCIPReceived (a2e_messageId message) (a2e_sourceChainSelector message) ccipTxType)))))))))"

section \<open>Workflow calls\<close>

definition executeEpochWithdraw :: "child_params \<Rightarrow> vault_world \<Rightarrow> address \<Rightarrow> int \<Rightarrow> int \<Rightarrow> unit child_m" where [child_defs]:
  "executeEpochWithdraw P W caller epochNonce amount =
     bindC (whenNotPaused W) (\<lambda>_.
     bindC (onlyRole W EPOCH_OPERATOR_ROLE caller) (\<lambda>_.
     bindC requireNoRecovery (\<lambda>_.
     bindC (revertIfZeroAmount amount) (\<lambda>_.
     bindC (handleEpochNonce epochNonce) (\<lambda>_.
     bindC (readBase bv_activeProtocolAdapter) (\<lambda>adapter.
     bindC (executeWithdraw W amount False adapter) (\<lambda>(success, amountOut).
       if success then
         bindC (revertIfZeroAmount amountOut) (\<lambda>_.
         bindC (emitC (Ev_EpochWithdrawFromStrategySuccess epochNonce amountOut)) (\<lambda>_.
           childCcipSend P W amountOut (cp_parentChainSelector P) EPOCH_NET_WITHDRAW epochNonce zero_bytes32))
       else seqC [storeEpochWithdrawRecovery epochNonce amount, emitC (Ev_EpochWithdrawFromStrategyFailure epochNonce amount)])))))))"

definition rebalanceToNewStrategy ::
    "child_params \<Rightarrow> vault_world \<Rightarrow> int \<Rightarrow> int \<Rightarrow> TypesStrategy \<Rightarrow> address \<Rightarrow> unit child_m" where [child_defs]:
  "rebalanceToNewStrategy P W rebalanceNonce tvlToRebalance newStrategy oldAdapter =
     (if st_ChainSelector newStrategy = cp_thisChainSelector P then
        bindC (setActiveAdapter P W (st_ProtocolId newStrategy)) (\<lambda>newAdapter.
          bindC (handleRebalanceDeposit W rebalanceNonce tvlToRebalance newAdapter) (\<lambda>_. retC ()))
      else bindC (clearActiveAdapter oldAdapter) (\<lambda>_.
        childCcipSend P W tvlToRebalance (st_ChainSelector newStrategy) REBALANCE rebalanceNonce (st_ProtocolId newStrategy)))"

definition executeRebalance :: "child_params \<Rightarrow> vault_world \<Rightarrow> address \<Rightarrow> int \<Rightarrow> TypesStrategy \<Rightarrow> unit child_m" where [child_defs]:
  "executeRebalance P W caller rebalanceNonce newStrategy =
     bindC (whenNotPaused W) (\<lambda>_.
     bindC (onlyRole W REBALANCE_OPERATOR_ROLE caller) (\<lambda>_.
     bindC requireNoRecovery (\<lambda>_.
     bindC (handleRebalanceNonce rebalanceNonce) (\<lambda>_.
     bindC (readBase bv_activeProtocolAdapter) (\<lambda>activeAdapter.
     bindC (executeWithdraw W max_uint256 False activeAdapter) (\<lambda>(success, amountRebalanced).
       if success then
         bindC (revertIfZeroAmount amountRebalanced) (\<lambda>_.
         bindC (emitC (Ev_RebalanceWithdrawSuccess rebalanceNonce amountRebalanced)) (\<lambda>_.
           rebalanceToNewStrategy P W rebalanceNonce amountRebalanced newStrategy activeAdapter))
       else seqC [emitC (Ev_RebalanceWithdrawFailure rebalanceNonce),
                  storeRebalanceWithdrawRecovery rebalanceNonce newStrategy]))))))"

section \<open>Recovery\<close>

definition recoverFailedEpochDeposit :: "vault_world \<Rightarrow> unit child_m" where [child_defs]:
  "recoverFailedEpochDeposit W =
     bindC (readVault cv_epochDepositRecovery) (\<lambda>recovery.
     bindC (readBase bv_activeProtocolAdapter) (\<lambda>adapter.
     bindC (executeDeposit W (epr_amount recovery) True adapter) (\<lambda>_.
       seqC [clearEpochDepositRecovery (epr_epochNonce recovery),
             emitC (Ev_EpochDepositToStrategySuccess (epr_epochNonce recovery) (epr_amount recovery))])))"

definition recoverFailedEpochWithdraw :: "child_params \<Rightarrow> vault_world \<Rightarrow> unit child_m" where [child_defs]:
  "recoverFailedEpochWithdraw P W =
     bindC (readVault cv_epochWithdrawRecovery) (\<lambda>recovery.
     bindC (readBase bv_activeProtocolAdapter) (\<lambda>adapter.
     bindC (executeWithdraw W (epr_amount recovery) True adapter) (\<lambda>(_, amountOut).
     bindC (requireC (amountOut \<noteq> 0) ZeroRecoveryAmount) (\<lambda>_.
       seqC [clearEpochWithdrawRecovery (epr_epochNonce recovery),
             emitC (Ev_EpochWithdrawFromStrategySuccess (epr_epochNonce recovery) amountOut),
             childCcipSend P W amountOut (cp_parentChainSelector P) EPOCH_NET_WITHDRAW (epr_epochNonce recovery) zero_bytes32]))))"

definition recoverFailedRebalanceWithdraw :: "child_params \<Rightarrow> vault_world \<Rightarrow> unit child_m" where [child_defs]:
  "recoverFailedRebalanceWithdraw P W =
     bindC (readVault cv_rebalanceWithdrawRecovery) (\<lambda>recovery.
     bindC (readBase bv_activeProtocolAdapter) (\<lambda>activeAdapter.
     bindC (executeWithdraw W max_uint256 True activeAdapter) (\<lambda>(_, amountRebalanced).
     bindC (requireC (amountRebalanced \<noteq> 0) ZeroRecoveryAmount) (\<lambda>_.
       seqC [clearRebalanceWithdrawRecovery (rwr_rebalanceNonce recovery),
             emitC (Ev_RebalanceWithdrawSuccess (rwr_rebalanceNonce recovery) amountRebalanced),
             rebalanceToNewStrategy P W (rwr_rebalanceNonce recovery) amountRebalanced (rwr_strategy recovery) activeAdapter]))))"

definition recoverFailedCcipSend :: "child_params \<Rightarrow> vault_world \<Rightarrow> unit child_m" where [child_defs]:
  "recoverFailedCcipSend P W =
     bindC clearCcipSendRecovery (\<lambda>recovery.
       ccipLibSend P W (csr_amount recovery) (csr_destinationChainSelector recovery) (csr_ccipTxType recovery)
         (csr_nonce recovery) (csr_protocolId recovery))"

definition executeRecovery :: "child_params \<Rightarrow> vault_world \<Rightarrow> unit child_m" where [child_defs]:
  "executeRecovery P W =
     bindC (whenNotPaused W) (\<lambda>_.
     bindC (readBase bv_recoveryMode) (\<lambda>mode.
       (case mode of
          NO_RECOVERY \<Rightarrow> revertC NoPendingRecovery
        | REBALANCE_DEPOSIT \<Rightarrow> recoverFailedRebalanceDeposit W
        | EPOCH_DEPOSIT \<Rightarrow> recoverFailedEpochDeposit W
        | EPOCH_WITHDRAW \<Rightarrow> recoverFailedEpochWithdraw P W
        | REBALANCE_WITHDRAW \<Rightarrow> recoverFailedRebalanceWithdraw P W
        | CCIP_SEND \<Rightarrow> recoverFailedCcipSend P W)))"

section \<open>Getters\<close>

definition childTVL :: "vault_world \<Rightarrow> child_chain \<Rightarrow> vault_revert + int" where
  "childTVL W c =
     (let base = ch_base c; ccipSendRecovery = cv_ccipSendRecovery (ch_vault c);
          accountedCcipSendRecoveryAmount = (if csr_ccipTxType ccipSendRecovery = REBALANCE then csr_amount ccipSendRecovery else 0);
          adapter = bv_activeProtocolAdapter base
      in if adapter \<noteq> 0 then
           let tvl = cw_getTVL W adapter + epr_amount (cv_epochDepositRecovery (ch_vault c)) +
                 rdr_amount (bv_rebalanceDepositRecovery base) + accountedCcipSendRecoveryAmount
           in if 2 ^ 256 \<le> tvl then Inl CheckedArithmetic else Inr tvl
         else Inr accountedCcipSendRecoveryAmount)"

definition sol_getChildOperationalState :: "vault_world \<Rightarrow> child_chain \<Rightarrow> vault_revert + TypesChildOperationalState" where
  "sol_getChildOperationalState W c =
     bindS (childTVL W c) (\<lambda>tvl.
       Inr \<lparr>cs_Paused = cw_paused W, cs_RecoveryMode = recovery_mode_code (bv_recoveryMode (ch_base c)),
            cs_LastHandledEpochNonce = Some (cv_lastHandledEpochNonce (ch_vault c)),
            cs_LastHandledRebalanceNonce = Some (cv_lastHandledRebalanceNonce (ch_vault c)), cs_Tvl = Some tvl\<rparr>)"

end
