(* ===== verification/Child_Invariant.thy ===== *)
theory Child_Invariant
  imports Child_Vault
begin

text \<open>
  The child vault as a state machine: its operations in any order, each in a world of its own, and what
  holds in every state they reach. The unit of work is a job, an epoch or a rebalance that the vault has accepted. A job
  is complete when its assets have left the vault, either into a strategy or in a message; until then
  the vault keeps it in exactly one recovery slot. The proofs follow a job through the functions it passes.
\<close>

section \<open>The state machine\<close>

datatype child_op = Call_executeEpochWithdraw address int int | Call_executeRebalance address int TypesStrategy
  | Call_executeRecovery | Call_ccipReceive address any2evm | Call_setCrosschainVaults address "uint64 list" "address list"
  | Call_setCcipGasLimit address uint64 int | Call_setDefaultCcipGasLimit address int

fun child_exec :: "child_params \<Rightarrow> vault_world \<Rightarrow> child_op \<Rightarrow> unit child_m" where
  "child_exec P W (Call_executeEpochWithdraw caller n amount) = executeEpochWithdraw P W caller n amount"
| "child_exec P W (Call_executeRebalance caller n strategy) = executeRebalance P W caller n strategy"
| "child_exec P W Call_executeRecovery = executeRecovery P W"
| "child_exec P W (Call_ccipReceive caller message) = bindC (deliverTokens message) (\<lambda>_. ccipReceive P W caller message)"
| "child_exec P W (Call_setCrosschainVaults caller selectors vaults) = setCrosschainVaults W caller selectors vaults"
| "child_exec P W (Call_setCcipGasLimit caller selector gasLimit) = setCcipGasLimit W caller selector gasLimit"
| "child_exec P W (Call_setDefaultCcipGasLimit caller gasLimit) = setDefaultCcipGasLimit W caller gasLimit"

text \<open>Arguments are words of their types.\<close>

fun wf_child_op :: "child_op \<Rightarrow> bool" where
  "wf_child_op (Call_executeEpochWithdraw caller n amount) \<longleftrightarrow> u256 n \<and> u256 amount"
| "wf_child_op (Call_executeRebalance caller n strategy) \<longleftrightarrow> u256 n \<and> length (st_ProtocolId strategy) = 32"
| "wf_child_op (Call_ccipReceive caller message) \<longleftrightarrow> (\<forall>(token, amount) \<in> set (a2e_destTokenAmounts message). u256 amount)"
| "wf_child_op _ \<longleftrightarrow> True"

inductive child_steps :: "child_params \<Rightarrow> child_chain \<Rightarrow> child_chain \<Rightarrow> bool" for P where
  child_refl: "child_steps P c c"
| child_step: "child_steps P c d \<Longrightarrow> wf_child_op op \<Longrightarrow> wf_world W \<Longrightarrow> child_exec P W op d = Inr (u, d') \<Longrightarrow> child_steps P c d'"

definition child_reachable :: "child_params \<Rightarrow> child_chain \<Rightarrow> bool" where
  "child_reachable P c \<longleftrightarrow> (\<exists>p c0. childConstructor P = Inr () \<and> childInitialize p = Inr c0 \<and> child_steps P c0 c)"

section \<open>Jobs and assets\<close>

datatype job = EpochJob int | RebalanceJob int

definition data_job :: "byte list \<Rightarrow> job option" where
  "data_job data =
     (case abi_decode_ccip data of
        None \<Rightarrow> None
      | Some (tx, d) \<Rightarrow>
          if tx = REBALANCE then map_option (\<lambda>(n, _). RebalanceJob n) (abi_decode_uint256_bytes32 d)
          else map_option EpochJob (abi_decode_uint256 d))"

fun act_job :: "vault_act \<Rightarrow> job option" where
  "act_job (Sent chain m) = data_job (e2a_data m)"
| "act_job (Emitted (Ev_EpochDepositToStrategySuccess n amount)) = Some (EpochJob n)"
| "act_job (Emitted (Ev_RebalanceDepositSuccess n amount)) = Some (RebalanceJob n)"
| "act_job _ = None"

definition completions :: "vault_act list \<Rightarrow> job list" where
  "completions tr = List.map_filter act_job tr"

definition tx_job :: "CcipTx \<Rightarrow> int \<Rightarrow> job" where
  "tx_job tx n = (if tx = REBALANCE then RebalanceJob n else EpochJob n)"

definition pending_job :: "child_chain \<Rightarrow> job option" where
  "pending_job c =
     (case bv_recoveryMode (ch_base c) of
        NO_RECOVERY \<Rightarrow> None
      | REBALANCE_DEPOSIT \<Rightarrow> Some (RebalanceJob (rdr_rebalanceNonce (bv_rebalanceDepositRecovery (ch_base c))))
      | REBALANCE_WITHDRAW \<Rightarrow> Some (RebalanceJob (rwr_rebalanceNonce (cv_rebalanceWithdrawRecovery (ch_vault c))))
      | EPOCH_DEPOSIT \<Rightarrow> Some (EpochJob (epr_epochNonce (cv_epochDepositRecovery (ch_vault c))))
      | EPOCH_WITHDRAW \<Rightarrow> Some (EpochJob (epr_epochNonce (cv_epochWithdrawRecovery (ch_vault c))))
      | CCIP_SEND \<Rightarrow> Some (tx_job (csr_ccipTxType (cv_ccipSendRecovery (ch_vault c))) (csr_nonce (cv_ccipSendRecovery (ch_vault c)))))"

definition tracked :: "child_chain \<Rightarrow> job set" where
  "tracked c = set (completions (ch_trace c)) \<union> set_option (pending_job c)"

text \<open>The part of the vault's assets that its recovery slots account for.\<close>

definition pending_assets :: "child_chain \<Rightarrow> int" where
  "pending_assets c = rdr_amount (bv_rebalanceDepositRecovery (ch_base c)) + epr_amount (cv_epochDepositRecovery (ch_vault c)) +
     csr_amount (cv_ccipSendRecovery (ch_vault c))"

text \<open>The job an operation asks for.\<close>

fun op_job :: "child_op \<Rightarrow> job option" where
  "op_job (Call_executeEpochWithdraw caller n amount) = Some (EpochJob n)"
| "op_job (Call_executeRebalance caller n strategy) = Some (RebalanceJob n)"
| "op_job (Call_ccipReceive caller message) = data_job (a2e_data message)"
| "op_job _ = None"

section \<open>The invariant\<close>

definition slots_ok :: "child_params \<Rightarrow> child_chain \<Rightarrow> bool" where
  "slots_ok P c \<longleftrightarrow>
     (let base = ch_base c; child = ch_vault c; mode = bv_recoveryMode base; adapter = bv_activeProtocolAdapter base;
          send = cv_ccipSendRecovery child
      in (mode \<noteq> REBALANCE_DEPOSIT \<longrightarrow> bv_rebalanceDepositRecovery base = zero_rebalance_deposit) \<and>
         (mode \<noteq> REBALANCE_WITHDRAW \<longrightarrow> cv_rebalanceWithdrawRecovery child = zero_rebalance_withdraw) \<and>
         (mode \<noteq> EPOCH_DEPOSIT \<longrightarrow> cv_epochDepositRecovery child = zero_epoch_recovery) \<and>
         (mode \<noteq> EPOCH_WITHDRAW \<longrightarrow> cv_epochWithdrawRecovery child = zero_epoch_recovery) \<and>
         (mode \<noteq> CCIP_SEND \<longrightarrow> send = zero_ccip_send) \<and>
         (mode = REBALANCE_DEPOSIT \<longrightarrow> 0 < rdr_amount (bv_rebalanceDepositRecovery base) \<and> adapter \<noteq> 0) \<and>
         (mode = REBALANCE_WITHDRAW \<longrightarrow> st_ChainSelector (rwr_strategy (cv_rebalanceWithdrawRecovery child)) \<noteq> 0 \<and>
            length (st_ProtocolId (rwr_strategy (cv_rebalanceWithdrawRecovery child))) = 32 \<and> adapter \<noteq> 0) \<and>
         (mode = EPOCH_DEPOSIT \<longrightarrow> 0 < epr_amount (cv_epochDepositRecovery child) \<and> adapter \<noteq> 0) \<and>
         (mode = EPOCH_WITHDRAW \<longrightarrow> 0 < epr_amount (cv_epochWithdrawRecovery child) \<and> adapter \<noteq> 0) \<and>
         (mode = CCIP_SEND \<longrightarrow> 0 < csr_amount send \<and> csr_destinationChainSelector send \<noteq> 0 \<and>
            csr_destinationChainSelector send \<noteq> cp_thisChainSelector P \<and> length (csr_protocolId send) = 32 \<and>
            (csr_ccipTxType send = EPOCH_NET_WITHDRAW \<and> csr_destinationChainSelector send = cp_parentChainSelector P \<or>
             csr_ccipTxType send = REBALANCE \<and> adapter = 0)))"

definition last_nonces :: "child_chain \<Rightarrow> int \<times> int" where
  "last_nonces c = (cv_lastHandledEpochNonce (ch_vault c), cv_lastHandledRebalanceNonce (ch_vault c))"

fun handled :: "int \<times> int \<Rightarrow> job \<Rightarrow> bool" where
  "handled (e, r) (EpochJob n) \<longleftrightarrow> 0 < n \<and> n \<le> e"
| "handled (e, r) (RebalanceJob n) \<longleftrightarrow> 0 < n \<and> n \<le> r"

fun current :: "int \<times> int \<Rightarrow> job \<Rightarrow> bool" where
  "current (e, r) (EpochJob n) \<longleftrightarrow> 0 < n \<and> n = e"
| "current (e, r) (RebalanceJob n) \<longleftrightarrow> 0 < n \<and> n = r"

text \<open>The jobs \<open>X\<close> have been handled, and the last one of each kind is among them.\<close>

definition nonces_ok :: "int \<times> int \<Rightarrow> job set \<Rightarrow> bool" where
  "nonces_ok lasts X \<longleftrightarrow> u256 (fst lasts) \<and> u256 (snd lasts) \<and> (\<forall>j \<in> X. handled lasts j) \<and> (\<forall>j. current lasts j \<longrightarrow> j \<in> X)"

text \<open>The invariant, while \<open>h\<close> more of the asset is in the vault's hands than the slots account for; between transactions \<open>h\<close> is 0.\<close>

definition child_inv :: "child_params \<Rightarrow> int \<Rightarrow> child_chain \<Rightarrow> bool" where
  "child_inv P h c \<longleftrightarrow> slots_ok P c \<and> distinct (completions (ch_trace c)) \<and> nonces_ok (last_nonces c) (tracked c) \<and>
     (\<forall>j. pending_job c = Some j \<longrightarrow> current (last_nonces c) j \<and> j \<notin> set (completions (ch_trace c))) \<and>
     assets P (ch_trace c) = pending_assets c + h"

definition child_ok :: "child_params \<Rightarrow> child_chain \<Rightarrow> bool" where
  "child_ok P c \<longleftrightarrow> child_inv P 0 c"

text \<open>
  A transaction at work on the job \<open>j\<close>: no recovery is stored, \<open>h\<close> of the asset is in the vault's hands, and \<open>X\<close> are
  the jobs completed before.
\<close>

definition working :: "child_params \<Rightarrow> job \<Rightarrow> int \<Rightarrow> job set \<Rightarrow> child_chain \<Rightarrow> bool" where
  "working P j h X c \<longleftrightarrow> slots_ok P c \<and> bv_recoveryMode (ch_base c) = NO_RECOVERY \<and> distinct (completions (ch_trace c)) \<and>
     set (completions (ch_trace c)) = X \<and> j \<notin> X \<and> current (last_nonces c) j \<and> nonces_ok (last_nonces c) (insert j X) \<and> assets P (ch_trace c) = h"

text \<open>It ends with the job complete or kept.\<close>

definition job_settled :: "child_params \<Rightarrow> job \<Rightarrow> job set \<Rightarrow> child_chain \<Rightarrow> bool" where
  "job_settled P j X c \<longleftrightarrow> child_ok P c \<and> tracked c = insert j X"

section \<open>Elementary facts\<close>

lemma completions_simps [simp]:
  "completions [] = []"
  "completions (tr @ [a]) = completions tr @ (case act_job a of None \<Rightarrow> [] | Some j \<Rightarrow> [j])"
  by (simp_all add: completions_def map_filter_def split: option.split)

lemma data_job_ccip: "length pid = 32 \<Longrightarrow> u256 n \<Longrightarrow> data_job (ccip_data tx n pid) = Some (tx_job tx n)"
  by (simp add: data_job_def abi_decode_ccip_data abi_decode_nonce abi_decode_rebalance tx_job_def)

lemma length_zero_bytes32 [simp]: "length zero_bytes32 = 32"
  by (simp add: zero_bytes32_def)

lemma zero_amounts [simp]:
  "epr_amount zero_epoch_recovery = 0" "rdr_amount zero_rebalance_deposit = 0" "csr_amount zero_ccip_send = 0"
  by (simp_all add: zero_epoch_recovery_def zero_rebalance_deposit_def zero_ccip_send_def)

lemmas working_unfold = working_def slots_ok_def last_nonces_def Let_def
lemmas child_inv_unfold = child_inv_def slots_ok_def last_nonces_def tracked_def pending_job_def pending_assets_def Let_def

lemma trace_irrelevant [simp]:
  "slots_ok P (c\<lparr>ch_trace := tr\<rparr>) = slots_ok P c"
  "pending_job (c\<lparr>ch_trace := tr\<rparr>) = pending_job c"
  "pending_assets (c\<lparr>ch_trace := tr\<rparr>) = pending_assets c"
  "last_nonces (c\<lparr>ch_trace := tr\<rparr>) = last_nonces c"
  by (simp_all add: slots_ok_def pending_job_def pending_assets_def last_nonces_def split: RecoveryMode.split)

lemma child_inv_act:
  "act_job a = None \<Longrightarrow> child_inv P h c \<Longrightarrow> child_inv P (h + act_value P a) (c\<lparr>ch_trace := ch_trace c @ [a]\<rparr>)"
  by (simp add: child_inv_def tracked_def)

lemma working_act:
  "act_job a = None \<Longrightarrow> working P j h X c \<Longrightarrow> working P j (h + act_value P a) X (c\<lparr>ch_trace := ch_trace c @ [a]\<rparr>)"
  by (simp add: working_def)

lemma settled_act:
  "act_job a = None \<Longrightarrow> act_value P a = 0 \<Longrightarrow> job_settled P j X c \<Longrightarrow> job_settled P j X (c\<lparr>ch_trace := ch_trace c @ [a]\<rparr>)"
  using child_inv_act [of a P 0 c] by (simp add: job_settled_def child_ok_def tracked_def)

lemma working_completes:
  assumes "act_job a = Some j" "h + act_value P a = 0" "working P j h X c"
  shows "job_settled P j X (c\<lparr>ch_trace := ch_trace c @ [a]\<rparr>)"
  using assms by (auto simp: working_def job_settled_def child_ok_def child_inv_def tracked_def pending_job_def pending_assets_def slots_ok_def Let_def)

section \<open>Accepting a job\<close>

lemma idle_pending: "bv_recoveryMode (ch_base c) = NO_RECOVERY \<Longrightarrow> pending_job c = None"
  by (simp add: pending_job_def)

lemma idle_assets: "child_inv P h c \<Longrightarrow> bv_recoveryMode (ch_base c) = NO_RECOVERY \<Longrightarrow> assets P (ch_trace c) = h"
  by (simp add: child_inv_unfold)

lemma handleEpochNonce_spec:
  assumes "child_inv P h c" "bv_recoveryMode (ch_base c) = NO_RECOVERY" "u256 n"
  shows "specC (handleEpochNonce n) (\<lambda>_. True) (\<lambda>_ d. working P (EpochJob n) h (tracked c) d \<and> ch_base d = ch_base c) c"
proof -
  have "handled (n, r) j \<and> j \<noteq> EpochJob n" if "handled (e, r) j" "e < n" for e r j using that by (cases j) auto
  moreover have "current (n, r) j \<Longrightarrow> j = EpochJob n \<or> current (e, r) j" for e r j by (cases j) auto
  ultimately show ?thesis
    using assms idle_assets [OF assms(1,2)] idle_pending [OF assms(2)]
    by (fastforce simp: base_defs child_defs child_spec working_unfold child_inv_def nonces_ok_def tracked_def)
qed

lemma handleRebalanceNonce_spec:
  assumes "child_inv P h c" "bv_recoveryMode (ch_base c) = NO_RECOVERY" "u256 n"
  shows "specC (handleRebalanceNonce n) (\<lambda>_. True) (\<lambda>_ d. working P (RebalanceJob n) h (tracked c) d \<and> ch_base d = ch_base c) c"
proof -
  have "handled (e, n) j \<and> j \<noteq> RebalanceJob n" if "handled (e, r) j" "r < n" for e r j using that by (cases j) auto
  moreover have "current (e, n) j \<Longrightarrow> j = RebalanceJob n \<or> current (e, r) j" for e r j by (cases j) auto
  ultimately show ?thesis
    using assms idle_assets [OF assms(1,2)] idle_pending [OF assms(2)]
    by (fastforce simp: base_defs child_defs child_spec working_unfold child_inv_def nonces_ok_def tracked_def)
qed

section \<open>Keeping a job\<close>

lemmas settle_unfold = base_defs child_defs child_spec working_def job_settled_def child_ok_def child_inv_def tracked_def pending_job_def
  pending_assets_def slots_ok_def last_nonces_def Let_def

abbreviation adapter_of :: "child_chain \<Rightarrow> address" where
  "adapter_of c \<equiv> bv_activeProtocolAdapter (ch_base c)"

lemma storeEpochDepositRecovery_spec:
  "working P (EpochJob n) h X c \<Longrightarrow> 0 < h \<Longrightarrow> adapter_of c \<noteq> 0 \<Longrightarrow>
     specC (storeEpochDepositRecovery n h) E (\<lambda>_. job_settled P (EpochJob n) X) c"
  by (auto simp: settle_unfold)

lemma storeEpochWithdrawRecovery_spec:
  "working P (EpochJob n) 0 X c \<Longrightarrow> 0 < amount \<Longrightarrow> adapter_of c \<noteq> 0 \<Longrightarrow>
     specC (storeEpochWithdrawRecovery n amount) E (\<lambda>_. job_settled P (EpochJob n) X) c"
  by (auto simp: settle_unfold)

lemma storeRebalanceDepositRecovery_spec:
  "working P (RebalanceJob n) h X c \<Longrightarrow> 0 < h \<Longrightarrow> adapter_of c \<noteq> 0 \<Longrightarrow>
     specC (storeRebalanceDepositRecovery n h) E (\<lambda>_. job_settled P (RebalanceJob n) X) c"
  by (auto simp: settle_unfold)

lemma storeRebalanceWithdrawRecovery_spec:
  "working P (RebalanceJob n) 0 X c \<Longrightarrow> length (st_ProtocolId strategy) = 32 \<Longrightarrow> adapter_of c \<noteq> 0 \<Longrightarrow>
     specC (storeRebalanceWithdrawRecovery n strategy) (\<lambda>_. True) (\<lambda>_. job_settled P (RebalanceJob n) X) c"
  by (auto simp: settle_unfold)

definition sendable :: "child_params \<Rightarrow> CcipTx \<Rightarrow> uint64 \<Rightarrow> bytes32 \<Rightarrow> child_chain \<Rightarrow> bool" where
  "sendable P tx dst pid c \<longleftrightarrow> length pid = 32 \<and>
     (tx = EPOCH_NET_WITHDRAW \<and> dst = cp_parentChainSelector P \<or> tx = REBALANCE \<and> adapter_of c = 0)"

lemma storeCcipSendRecovery_spec:
  "working P (tx_job tx n) h X c \<Longrightarrow> 0 < h \<Longrightarrow> dst \<noteq> 0 \<Longrightarrow> dst \<noteq> cp_thisChainSelector P \<Longrightarrow> sendable P tx dst pid c \<Longrightarrow>
     specC (storeCcipSendRecovery h dst tx n pid) E (\<lambda>_. job_settled P (tx_job tx n) X) c"
  by (auto simp: settle_unfold sendable_def)

section \<open>Completing a job\<close>

lemma working_nonce: "working P (tx_job tx n) h X c \<Longrightarrow> u256 n \<and> 0 < n"
  by (auto simp: working_def last_nonces_def nonces_ok_def tx_job_def split: if_splits)

lemma ccipLibSend_spec:
  assumes "working P (tx_job tx n) h X c" "length pid = 32" "\<And>e. E e"
  shows "specC (ccipLibSend P W h dst tx n pid) E (\<lambda>_. job_settled P (tx_job tx n) X) c"
proof -
  have "job_settled P (tx_job tx n) X (c\<lparr>ch_trace := ch_trace c @ [Sent dst (ccip_message P W vault gas h tx n pid), Emitted (Ev_CCIPBridged mid dst tx)]\<rparr>)"
    for vault gas mid
  proof -
    let ?m = "ccip_message P W vault gas h tx n pid"
    have "act_job (Sent dst ?m) = Some (tx_job tx n)"
      using working_nonce [OF assms(1)] assms(2) by (simp add: data_job_ccip ccip_message_def)
    then have "job_settled P (tx_job tx n) X (c\<lparr>ch_trace := ch_trace c @ [Sent dst ?m]\<rparr>)"
      by (rule working_completes [OF _ _ assms(1)]) (simp add: ccip_message_def)
    from settled_act [OF _ _ this, of "Emitted (Ev_CCIPBridged mid dst tx)"] show ?thesis by simp
  qed
  then show ?thesis using assms(3) by (auto simp: base_defs child_defs child_spec Let_def split: sum.split)
qed

lemma childCcipSend_spec:
  assumes "working P (tx_job tx n) h X c" "0 < h" "sendable P tx dst pid c"
  shows "specC (childCcipSend P W h dst tx n pid) (\<lambda>_. True) (\<lambda>_. job_settled P (tx_job tx n) X) c"
proof -
  have "length pid = 32" using assms(3) by (simp add: sendable_def)
  then have "specC (ccipLibSend P W h dst tx n pid)
      (\<lambda>e. specC (if capacity_exceeded P e then revertC e else storeCcipSendRecovery h dst tx n pid) (\<lambda>_. True)
         (\<lambda>_. job_settled P (tx_job tx n) X) c) (\<lambda>_. job_settled P (tx_job tx n) X) c"
    if "dst \<noteq> 0" "dst \<noteq> cp_thisChainSelector P"
    by (rule ccipLibSend_spec [OF assms(1)])
      (use that storeCcipSendRecovery_spec [OF assms(1,2) that assms(3)] in \<open>simp add: specC_cases specC_basic\<close>)
  then show ?thesis
    unfolding childCcipSend_def validateCcipSend_def requireNoRecovery_def by (simp add: child_spec)
qed

lemma executeDeposit_spec:
  assumes "working P j h X c"
  shows "specC (executeDeposit W h strict adapter) (\<lambda>_. True)
    (\<lambda>ok d. adapter \<noteq> 0 \<and> ch_base d = ch_base c \<and> (if ok then working P j 0 X d else d = c)) c"
  using working_act [OF _ assms, of "Deposited adapter h"] by (simp add: base_defs child_defs child_spec)

lemma working_event_settles:
  "act_job (Emitted e) = Some j \<Longrightarrow> working P j 0 X c \<Longrightarrow> job_settled P j X (c\<lparr>ch_trace := ch_trace c @ [Emitted e]\<rparr>)"
  by (rule working_completes) simp_all

lemma store_emit:
  "specC m E (\<lambda>_. job_settled P j X) c \<Longrightarrow> act_job (Emitted e) = None \<Longrightarrow> specC (seqC [m, emitC e]) E (\<lambda>_. job_settled P j X) c"
  unfolding specC_seqC specC_unit by (erule specC_mono) (simp_all add: settled_act)

lemma handleCCIPDeposit_spec:
  assumes "working P (EpochJob n) h X c" "0 < h"
  shows "specC (handleCCIPDeposit W n h) (\<lambda>_. True) (\<lambda>_. job_settled P (EpochJob n) X) c"
  unfolding handleCCIPDeposit_def specC_bind specC_basic
  by (rule specC_mono [OF executeDeposit_spec [OF assms(1)]])
    (auto simp: specC_cases specC_unit intro!: working_event_settles store_emit storeEpochDepositRecovery_spec [OF assms])

lemma handleRebalanceDeposit_spec:
  assumes "working P (RebalanceJob n) h X c" "0 < h" "adapter = adapter_of c"
  shows "specC (handleRebalanceDeposit W n h adapter) (\<lambda>_. True) (\<lambda>_. job_settled P (RebalanceJob n) X) c"
  unfolding handleRebalanceDeposit_def specC_bind specC_ret
  by (rule specC_mono [OF executeDeposit_spec [OF assms(1)]])
    (use assms(3) in \<open>auto simp: specC_cases specC_unit intro!: working_event_settles store_emit
      storeRebalanceDepositRecovery_spec [OF assms(1,2)]\<close>)

lemma setActiveAdapter_spec:
  assumes "working P j h X c"
  shows "specC (setActiveAdapter P W pid) (\<lambda>_. True) (\<lambda>adapter d. working P j h X d \<and> adapter = adapter_of d) c"
  using assms by (simp add: settle_unfold)

lemma clearActiveAdapter_spec:
  assumes "working P j h X c"
  shows "specC (clearActiveAdapter old) (\<lambda>_. True) (\<lambda>_ d. working P j h X d \<and> adapter_of d = 0) c"
  using assms by (simp add: settle_unfold)

lemma handleCCIPRebalance_spec:
  assumes "working P (RebalanceJob n) h X c" "0 < h"
  shows "specC (handleCCIPRebalance P W n pid h) (\<lambda>_. True) (\<lambda>_. job_settled P (RebalanceJob n) X) c"
  unfolding handleCCIPRebalance_def
  by (rule specC_bindI [OF setActiveAdapter_spec [OF assms(1)]]) (blast intro: handleRebalanceDeposit_spec assms(2))

lemma rebalanceToNewStrategy_spec:
  assumes "working P (RebalanceJob n) h X c" "0 < h" "length (st_ProtocolId strategy) = 32"
  shows "specC (rebalanceToNewStrategy P W n h strategy old) (\<lambda>_. True) (\<lambda>_. job_settled P (RebalanceJob n) X) c"
proof (cases "st_ChainSelector strategy = cp_thisChainSelector P")
  case True
  then show ?thesis
    unfolding rebalanceToNewStrategy_def using handleCCIPRebalance_spec [OF assms(1,2)]
    by (simp add: handleCCIPRebalance_def specC_bind specC_ret)
next
  case False
  have "specC (childCcipSend P W h dst REBALANCE n (st_ProtocolId strategy)) (\<lambda>_. True) (\<lambda>_. job_settled P (RebalanceJob n) X) d"
    if "working P (RebalanceJob n) h X d" "adapter_of d = 0" for d dst
    using childCcipSend_spec [of P REBALANCE n h X d] that assms(2,3) by (simp add: tx_job_def sendable_def)
  with False show ?thesis
    unfolding rebalanceToNewStrategy_def by (auto intro!: specC_bindI [OF clearActiveAdapter_spec [OF assms(1)]])
qed

section \<open>The operations\<close>

lemma executeWithdraw_spec:
  assumes "working P j 0 X c" "wf_world W"
  shows "specC (executeWithdraw W a False adapter) (\<lambda>_. True)
    (\<lambda>(ok, out) d. adapter \<noteq> 0 \<and> ch_base d = ch_base c \<and> 0 \<le> out \<and> (if ok then working P j out X d else d = c)) c"
  using working_act [OF _ assms(1), of "Withdrew adapter a out" for out] assms(2)
  by (auto simp: executeWithdraw_def child_spec wf_world_def split: option.split)

lemma sendWithdrawn_spec:
  assumes "working P (EpochJob n) out X c" "0 < out"
  shows "specC (childCcipSend P W out (cp_parentChainSelector P) EPOCH_NET_WITHDRAW n zero_bytes32) (\<lambda>_. True)
    (\<lambda>_. job_settled P (EpochJob n) X) c"
  using childCcipSend_spec [of P EPOCH_NET_WITHDRAW n out X c] assms by (simp add: sendable_def tx_job_def)

lemma working_emit: "act_job (Emitted e) = None \<Longrightarrow> working P j h X c \<Longrightarrow> working P j h X (c\<lparr>ch_trace := ch_trace c @ [Emitted e]\<rparr>)"
  using working_act [of "Emitted e"] by simp

lemma executeEpochWithdraw_spec:
  assumes "child_ok P c" "wf_world W" "u256 n" "u256 amount"
  shows "specC (executeEpochWithdraw P W caller n amount) (\<lambda>_. True) (\<lambda>_. job_settled P (EpochJob n) (tracked c)) c"
proof -
  note start = handleEpochNonce_spec [OF assms(1) [unfolded child_ok_def] _ assms(3)]
  have "specC (seqC [storeEpochWithdrawRecovery n amount, emitC (Ev_EpochWithdrawFromStrategyFailure n amount)]) (\<lambda>_. True)
      (\<lambda>_. job_settled P (EpochJob n) (tracked c)) d"
    if "working P (EpochJob n) 0 (tracked c) d" "amount \<noteq> 0" "adapter_of d \<noteq> 0" for d
    using that assms(4) by (intro store_emit storeEpochWithdrawRecovery_spec) auto
  then show ?thesis
    unfolding executeEpochWithdraw_def whenNotPaused_def onlyRole_def requireNoRecovery_def revertIfZeroAmount_def
    by (auto simp: specC_bind specC_unit specC_basic specC_cases
        intro!: specC_mono [OF start] specC_mono [OF executeWithdraw_spec [OF _ assms(2)]] sendWithdrawn_spec working_emit
        split: if_splits)
qed

lemma executeRebalance_spec:
  assumes "child_ok P c" "wf_world W" "u256 n" "length (st_ProtocolId strategy) = 32"
  shows "specC (executeRebalance P W caller n strategy) (\<lambda>_. True) (\<lambda>_. job_settled P (RebalanceJob n) (tracked c)) c"
proof -
  note start = handleRebalanceNonce_spec [OF assms(1) [unfolded child_ok_def] _ assms(3)]
  have "specC (seqC [emitC (Ev_RebalanceWithdrawFailure n), storeRebalanceWithdrawRecovery n strategy]) (\<lambda>_. True)
      (\<lambda>_. job_settled P (RebalanceJob n) (tracked c)) d"
    if "working P (RebalanceJob n) 0 (tracked c) d" "adapter_of d \<noteq> 0" for d
    unfolding specC_seqC specC_unit
    by (rule specC_mono [OF storeRebalanceWithdrawRecovery_spec]) (use that assms(4) in \<open>auto intro: working_emit\<close>)
  then show ?thesis
    unfolding executeRebalance_def whenNotPaused_def onlyRole_def requireNoRecovery_def revertIfZeroAmount_def
    by (auto simp: specC_bind specC_unit specC_basic specC_cases
        intro!: specC_mono [OF start] specC_mono [OF executeWithdraw_spec [OF _ assms(2)]]
          rebalanceToNewStrategy_spec [OF _ _ assms(4)] working_emit
        split: if_splits)
qed

lemma ccipReceive_spec:
  assumes "child_inv P h c" "h = (\<Sum>(token, amount)\<leftarrow>a2e_destTokenAmounts message. if token = cp_asset P then amount else 0)"
    "\<And>token amount. (token, amount) \<in> set (a2e_destTokenAmounts message) \<Longrightarrow> 0 \<le> amount"
  shows "specC (ccipReceive P W caller message) (\<lambda>_. True)
    (\<lambda>_ d. \<exists>j. data_job (a2e_data message) = Some j \<and> job_settled P j (tracked c) d) c"
proof (cases "\<exists>amount. a2e_destTokenAmounts message = [(cp_asset P, amount)] \<and> amount \<noteq> 0 \<and> bv_recoveryMode (ch_base c) = NO_RECOVERY")
  case False
  then show ?thesis
    by (auto simp: ccipReceive_def whenNotPaused_def onlyAllowedSender_def requireNoRecovery_def validateReceivedTokenAndGetAmount_def
        child_spec split: option.split list.split)
next
  case True
  then have h: "a2e_destTokenAmounts message = [(cp_asset P, h)]" "0 < h" and idle: "bv_recoveryMode (ch_base c) = NO_RECOVERY"
    using assms(2,3) by (auto simp: order_less_le)
  have final: "specC (emitC (Ev_CCIPReceived mid src tx)) (\<lambda>_. True) (\<lambda>_. job_settled P j (tracked c)) d"
    if "job_settled P j (tracked c) d" for j d mid src tx
    using settled_act [OF _ _ that] by (simp add: specC_unit)
  have deposit: "specC (handleEpochNonce n) (\<lambda>_. True) (\<lambda>_. specC (handleCCIPDeposit W n h) (\<lambda>_. True)
      (\<lambda>_. specC (emitC (Ev_CCIPReceived mid src tx)) (\<lambda>_. True) (\<lambda>_. job_settled P (EpochJob n) (tracked c)))) c"
    if "u256 n" for n mid src tx
    by (rule specC_mono [OF handleEpochNonce_spec [OF assms(1) idle that]])
      (auto intro!: specC_mono [OF handleCCIPDeposit_spec [OF _ h(2)]] final)
  have rebalance: "specC (handleRebalanceNonce n) (\<lambda>_. True) (\<lambda>_. specC (handleCCIPRebalance P W n pid h) (\<lambda>_. True)
      (\<lambda>_. specC (emitC (Ev_CCIPReceived mid src tx)) (\<lambda>_. True) (\<lambda>_. job_settled P (RebalanceJob n) (tracked c)))) c"
    if "u256 n" for n pid mid src tx
    by (rule specC_mono [OF handleRebalanceNonce_spec [OF assms(1) idle that]])
      (auto intro!: specC_mono [OF handleCCIPRebalance_spec [OF _ h(2)]] final)
  show ?thesis
    using h idle
    by (auto simp: ccipReceive_def whenNotPaused_def onlyAllowedSender_def requireNoRecovery_def validateReceivedTokenAndGetAmount_def
        specC_bind specC_unit(1) specC_basic specC_ret specC_cases abi_decode_uint256_def abi_decode_uint256_bytes32_def data_job_def
        split: option.split CcipTx.split intro!: deposit [OF abi_uint_bounded] rebalance [OF abi_uint_bounded])
qed

section \<open>Recovery\<close>

abbreviation recovers :: "child_params \<Rightarrow> child_chain \<Rightarrow> unit \<Rightarrow> child_chain \<Rightarrow> bool" where
  "recovers P c u d \<equiv> \<exists>j. pending_job c = Some j \<and> job_settled P j (set (completions (ch_trace c))) d"

text \<open>Clearing a slot puts its job back to work, with what the slot kept in hand.\<close>

lemma clearEpochDepositRecovery_spec:
  assumes "child_inv P h c" "bv_recoveryMode (ch_base c) = EPOCH_DEPOSIT"
  shows "specC (clearEpochDepositRecovery n) E (\<lambda>_. working P (EpochJob (epr_epochNonce (cv_epochDepositRecovery (ch_vault c))))
    (h + epr_amount (cv_epochDepositRecovery (ch_vault c))) (set (completions (ch_trace c)))) c"
  using assms by (auto simp: settle_unfold)

lemma clearEpochWithdrawRecovery_spec:
  assumes "child_inv P h c" "bv_recoveryMode (ch_base c) = EPOCH_WITHDRAW"
  shows "specC (clearEpochWithdrawRecovery n) E (\<lambda>_. working P (EpochJob (epr_epochNonce (cv_epochWithdrawRecovery (ch_vault c))))
    h (set (completions (ch_trace c)))) c"
  using assms by (auto simp: settle_unfold)

lemma clearRebalanceDepositRecovery_spec:
  assumes "child_inv P h c" "bv_recoveryMode (ch_base c) = REBALANCE_DEPOSIT"
  shows "specC (clearRebalanceDepositRecovery n) E
    (\<lambda>_. working P (RebalanceJob (rdr_rebalanceNonce (bv_rebalanceDepositRecovery (ch_base c))))
      (h + rdr_amount (bv_rebalanceDepositRecovery (ch_base c))) (set (completions (ch_trace c)))) c"
  using assms by (auto simp: settle_unfold)

lemma clearRebalanceWithdrawRecovery_spec:
  assumes "child_inv P h c" "bv_recoveryMode (ch_base c) = REBALANCE_WITHDRAW"
  shows "specC (clearRebalanceWithdrawRecovery n) E
    (\<lambda>_. working P (RebalanceJob (rwr_rebalanceNonce (cv_rebalanceWithdrawRecovery (ch_vault c)))) h (set (completions (ch_trace c)))) c"
  using assms by (auto simp: settle_unfold)

lemma clearCcipSendRecovery_spec:
  assumes "child_inv P h c" "bv_recoveryMode (ch_base c) = CCIP_SEND"
  shows "specC clearCcipSendRecovery E (\<lambda>r d. r = cv_ccipSendRecovery (ch_vault c) \<and>
    working P (tx_job (csr_ccipTxType r) (csr_nonce r)) (h + csr_amount r) (set (completions (ch_trace c))) d) c"
  using assms by (auto simp: settle_unfold)

lemma recoverFailedRebalanceDeposit_spec:
  assumes "child_ok P c" "bv_recoveryMode (ch_base c) = REBALANCE_DEPOSIT"
  shows "specC (recoverFailedRebalanceDeposit W) (\<lambda>_. True) (recovers P c) c"
proof -
  let ?r = "bv_rebalanceDepositRecovery (ch_base c)" let ?act = "Deposited (adapter_of c) (rdr_amount ?r)"
  let ?d = "c\<lparr>ch_trace := ch_trace c @ [?act]\<rparr>"
  have "child_inv P (- rdr_amount ?r) ?d" using child_inv_act [of ?act P 0 c] assms(1) by (simp add: child_ok_def)
  from clearRebalanceDepositRecovery_spec [OF this] assms(2)
  have "specC (clearRebalanceDepositRecovery (rdr_rebalanceNonce ?r)) (\<lambda>_. True)
      (\<lambda>_. working P (RebalanceJob (rdr_rebalanceNonce ?r)) 0 (set (completions (ch_trace c)))) ?d" by simp
  then have "specC (seqC [clearRebalanceDepositRecovery (rdr_rebalanceNonce ?r),
      emitC (Ev_RebalanceDepositSuccess (rdr_rebalanceNonce ?r) (rdr_amount ?r))]) (\<lambda>_. True)
      (\<lambda>_. job_settled P (RebalanceJob (rdr_rebalanceNonce ?r)) (set (completions (ch_trace c)))) ?d"
    unfolding specC_seqC specC_unit by (rule specC_mono) (auto intro: working_event_settles)
  then show ?thesis
    using assms(2) by (simp add: recoverFailedRebalanceDeposit_def executeDeposit_def tryDepositToAdapter_def specC_bind specC_unit(1,4)
        specC_basic specC_cases pending_job_def)
qed

lemma recoverFailedEpochDeposit_spec:
  assumes "child_ok P c" "bv_recoveryMode (ch_base c) = EPOCH_DEPOSIT"
  shows "specC (recoverFailedEpochDeposit W) (\<lambda>_. True) (recovers P c) c"
proof -
  let ?r = "cv_epochDepositRecovery (ch_vault c)" let ?act = "Deposited (adapter_of c) (epr_amount ?r)"
  let ?d = "c\<lparr>ch_trace := ch_trace c @ [?act]\<rparr>"
  have "child_inv P (- epr_amount ?r) ?d" using child_inv_act [of ?act P 0 c] assms(1) by (simp add: child_ok_def)
  from clearEpochDepositRecovery_spec [OF this] assms(2)
  have "specC (clearEpochDepositRecovery (epr_epochNonce ?r)) (\<lambda>_. True)
      (\<lambda>_. working P (EpochJob (epr_epochNonce ?r)) 0 (set (completions (ch_trace c)))) ?d" by simp
  then have "specC (seqC [clearEpochDepositRecovery (epr_epochNonce ?r),
      emitC (Ev_EpochDepositToStrategySuccess (epr_epochNonce ?r) (epr_amount ?r))]) (\<lambda>_. True)
      (\<lambda>_. job_settled P (EpochJob (epr_epochNonce ?r)) (set (completions (ch_trace c)))) ?d"
    unfolding specC_seqC specC_unit by (rule specC_mono) (auto intro: working_event_settles)
  then show ?thesis
    using assms(2) by (simp add: recoverFailedEpochDeposit_def executeDeposit_def tryDepositToAdapter_def specC_bind specC_unit(1,4)
        specC_basic specC_cases pending_job_def)
qed

lemma recoverFailedEpochWithdraw_spec:
  assumes "child_ok P c" "bv_recoveryMode (ch_base c) = EPOCH_WITHDRAW" "wf_world W"
  shows "specC (recoverFailedEpochWithdraw P W) (\<lambda>_. True) (recovers P c) c"
proof -
  let ?r = "cv_epochWithdrawRecovery (ch_vault c)" let ?n = "epr_epochNonce ?r"
  let ?done = "\<lambda>_. job_settled P (EpochJob ?n) (set (completions (ch_trace c)))"
  have "specC (seqC [clearEpochWithdrawRecovery ?n, emitC (Ev_EpochWithdrawFromStrategySuccess ?n out),
      childCcipSend P W out (cp_parentChainSelector P) EPOCH_NET_WITHDRAW ?n zero_bytes32]) (\<lambda>_. True) ?done
      (c\<lparr>ch_trace := ch_trace c @ [Withdrew (adapter_of c) (epr_amount ?r) out]\<rparr>)" if "0 < out" for out
  proof -
    let ?d = "c\<lparr>ch_trace := ch_trace c @ [Withdrew (adapter_of c) (epr_amount ?r) out]\<rparr>"
    have "child_inv P out ?d" using child_inv_act [of "Withdrew (adapter_of c) (epr_amount ?r) out" P 0 c] assms(1) by (simp add: child_ok_def)
    from clearEpochWithdrawRecovery_spec [OF this] assms(2)
    have "specC (clearEpochWithdrawRecovery ?n) (\<lambda>_. True) (\<lambda>_. working P (EpochJob ?n) out (set (completions (ch_trace c)))) ?d" by simp
    then show ?thesis
      unfolding specC_seqC specC_unit by (rule specC_mono) (auto intro!: sendWithdrawn_spec working_emit that)
  qed
  then show ?thesis
    using assms(2,3) by (auto simp: recoverFailedEpochWithdraw_def executeWithdraw_def specC_bind specC_unit(1,4)
        specC_basic specC_cases pending_job_def wf_world_def order_less_le split: option.split)
qed

lemma recoverFailedRebalanceWithdraw_spec:
  assumes "child_ok P c" "bv_recoveryMode (ch_base c) = REBALANCE_WITHDRAW" "wf_world W"
  shows "specC (recoverFailedRebalanceWithdraw P W) (\<lambda>_. True) (recovers P c) c"
proof -
  let ?r = "cv_rebalanceWithdrawRecovery (ch_vault c)" let ?n = "rwr_rebalanceNonce ?r"
  let ?done = "\<lambda>_. job_settled P (RebalanceJob ?n) (set (completions (ch_trace c)))"
  have pid: "length (st_ProtocolId (rwr_strategy ?r)) = 32"
    using assms(1,2) by (simp add: child_ok_def child_inv_def slots_ok_def Let_def)
  have "specC (seqC [clearRebalanceWithdrawRecovery ?n, emitC (Ev_RebalanceWithdrawSuccess ?n out),
      rebalanceToNewStrategy P W ?n out (rwr_strategy ?r) (adapter_of c)]) (\<lambda>_. True) ?done
      (c\<lparr>ch_trace := ch_trace c @ [Withdrew (adapter_of c) max_uint256 out]\<rparr>)" if "0 < out" for out
  proof -
    let ?d = "c\<lparr>ch_trace := ch_trace c @ [Withdrew (adapter_of c) max_uint256 out]\<rparr>"
    have "child_inv P out ?d" using child_inv_act [of "Withdrew (adapter_of c) max_uint256 out" P 0 c] assms(1) by (simp add: child_ok_def)
    from clearRebalanceWithdrawRecovery_spec [OF this] assms(2)
    have "specC (clearRebalanceWithdrawRecovery ?n) (\<lambda>_. True) (\<lambda>_. working P (RebalanceJob ?n) out (set (completions (ch_trace c)))) ?d" by simp
    then show ?thesis
      unfolding specC_seqC specC_unit by (rule specC_mono) (auto intro!: rebalanceToNewStrategy_spec pid working_emit that)
  qed
  then show ?thesis
    using assms(2,3) by (auto simp: recoverFailedRebalanceWithdraw_def executeWithdraw_def specC_bind specC_unit(1,4)
        specC_basic specC_cases pending_job_def wf_world_def order_less_le split: option.split)
qed

lemma recoverFailedCcipSend_spec:
  assumes "child_ok P c" "bv_recoveryMode (ch_base c) = CCIP_SEND"
  shows "specC (recoverFailedCcipSend P W) (\<lambda>_. True) (recovers P c) c"
proof -
  have pid: "length (csr_protocolId (cv_ccipSendRecovery (ch_vault c))) = 32"
    using assms by (simp add: child_ok_def child_inv_def slots_ok_def Let_def)
  show ?thesis
    unfolding recoverFailedCcipSend_def
    by (rule specC_bindI [OF clearCcipSendRecovery_spec [OF assms(1) [unfolded child_ok_def] assms(2)]])
      (use assms(2) pid in \<open>auto simp: pending_job_def intro!: ccipLibSend_spec\<close>)
qed

lemma tracked_pending: "pending_job c = Some j \<Longrightarrow> tracked c = insert j (set (completions (ch_trace c)))"
  by (simp add: tracked_def)

lemma executeRecovery_spec:
  assumes "child_ok P c" "wf_world W"
  shows "specC (executeRecovery P W) (\<lambda>_. True) (\<lambda>_ d. child_ok P d \<and> tracked d = tracked c) c"
proof -
  note recover = recoverFailedRebalanceDeposit_spec [OF assms(1)] recoverFailedEpochDeposit_spec [OF assms(1)]
    recoverFailedEpochWithdraw_spec [OF assms(1) _ assms(2)] recoverFailedRebalanceWithdraw_spec [OF assms(1) _ assms(2)]
    recoverFailedCcipSend_spec [OF assms(1)]
  show ?thesis
    by (cases "bv_recoveryMode (ch_base c)")
      (auto simp: executeRecovery_def whenNotPaused_def specC_bind specC_unit(1) specC_basic job_settled_def tracked_pending
        intro!: specC_mono [OF recover(1)] specC_mono [OF recover(2)] specC_mono [OF recover(3)] specC_mono [OF recover(4)]
          specC_mono [OF recover(5)])
qed

section \<open>Every operation keeps the invariant\<close>

definition unworked :: "child_chain \<Rightarrow> child_chain \<Rightarrow> bool" where
  "unworked c d \<longleftrightarrow> ch_vault d = ch_vault c \<and> completions (ch_trace d) = completions (ch_trace c) \<and>
     (\<forall>P :: child_params. assets P (ch_trace d) = assets P (ch_trace c)) \<and> bv_recoveryMode (ch_base d) = bv_recoveryMode (ch_base c) \<and>
     bv_rebalanceDepositRecovery (ch_base d) = bv_rebalanceDepositRecovery (ch_base c) \<and> adapter_of d = adapter_of c"

lemma unworked_ok:
  assumes "unworked c d" "child_ok P c"
  shows "child_ok P d \<and> tracked d = tracked c"
proof -
  have "pending_job d = pending_job c" "pending_assets d = pending_assets c" "last_nonces d = last_nonces c" "slots_ok P d = slots_ok P c"
    using assms(1) by (simp_all add: unworked_def pending_job_def pending_assets_def last_nonces_def slots_ok_def Let_def split: RecoveryMode.split)
  with assms show ?thesis by (simp add: unworked_def child_ok_def child_inv_def tracked_def)
qed

lemma setVaults_spec: "specC (setVaults vs) (\<lambda>_. True) (\<lambda>_. unworked c) c"
proof -
  have "specC (setVaults vs) (\<lambda>_. True) (\<lambda>_. unworked c) d" if "unworked c d" for d
    using that by (induction vs arbitrary: d rule: setVaults.induct) (auto simp: child_spec unworked_def)
  then show ?thesis by (simp add: unworked_def)
qed

lemma config_specs:
  "specC (setCrosschainVaults W caller selectors vaults) (\<lambda>_. True) (\<lambda>_. unworked c) c"
  "specC (setCcipGasLimit W caller selector gas) (\<lambda>_. True) (\<lambda>_. unworked c) c"
  "specC (setDefaultCcipGasLimit W caller gas) (\<lambda>_. True) (\<lambda>_. unworked c) c"
  by (simp_all add: setCrosschainVaults_def setCcipGasLimit_def setDefaultCcipGasLimit_def onlyRole_def child_spec setVaults_spec)
    (simp_all add: unworked_def)

lemma deliver_inv:
  assumes "child_inv P h c"
  shows "specC (seqC (map (\<lambda>(token, amount). actC (Delivered token amount)) ts)) (\<lambda>_. False)
    (\<lambda>_ d. child_inv P (h + (\<Sum>(token, amount)\<leftarrow>ts. if token = cp_asset P then amount else 0)) d \<and> tracked d = tracked c) c"
  using assms
proof (induction ts arbitrary: h c)
  case (Cons t ts)
  obtain token amount where t: "t = (token, amount)" by (cases t)
  let ?c = "c\<lparr>ch_trace := ch_trace c @ [Delivered token amount]\<rparr>"
  have "child_inv P (h + act_value P (Delivered token amount)) ?c" by (rule child_inv_act [OF _ Cons.prems]) simp
  from Cons.IH [OF this] show ?case
    unfolding t list.map prod.case specC_seqC(2) specC_unit
    by (rule specC_mono) (auto simp: tracked_def algebra_simps)
qed (simp add: child_spec)

theorem child_exec_ok:
  assumes "child_ok P c" "wf_child_op op" "wf_world W"
  shows "specC (child_exec P W op) (\<lambda>_. True) (\<lambda>_ d. child_ok P d \<and> tracked d = tracked c \<union> set_option (op_job op)) c"
proof (cases op)
  case (Call_ccipReceive caller message)
  have "specC (deliverTokens message) (\<lambda>_. True) (\<lambda>_ d. child_inv P
      (\<Sum>(token, amount)\<leftarrow>a2e_destTokenAmounts message. if token = cp_asset P then amount else 0) d \<and> tracked d = tracked c) c"
    unfolding deliverTokens_def using deliver_inv [OF assms(1) [unfolded child_ok_def]] by (rule specC_mono) simp_all
  then have "specC (bindC (deliverTokens message) (\<lambda>_. ccipReceive P W caller message)) (\<lambda>_. True)
      (\<lambda>_ d. child_ok P d \<and> tracked d = tracked c \<union> set_option (op_job op)) c"
    using assms(2) Call_ccipReceive
    by (elim specC_bindI) (auto simp: job_settled_def intro!: specC_mono [OF ccipReceive_spec [OF _ refl]])
  with Call_ccipReceive show ?thesis by simp
next
  case (Call_executeEpochWithdraw caller n amount)
  then show ?thesis using assms by (auto simp: job_settled_def intro!: specC_mono [OF executeEpochWithdraw_spec])
next
  case (Call_executeRebalance caller n strategy)
  then show ?thesis using assms by (auto simp: job_settled_def intro!: specC_mono [OF executeRebalance_spec])
next
  case Call_executeRecovery
  then show ?thesis by (auto intro!: specC_mono [OF executeRecovery_spec [OF assms(1,3)]])
qed (use unworked_ok [OF _ assms(1)] in \<open>auto intro!: specC_mono [OF config_specs(1)] specC_mono [OF config_specs(2)]
    specC_mono [OF config_specs(3)]\<close>)

lemmas child_exec_Inr = specC_Inr [OF child_exec_ok]

lemma child_initial: "childInitialize p = Inr c \<Longrightarrow> child_ok P c"
  by (auto simp: childInitialize_def child_ok_def child_inv_unfold nonces_ok_def elim: current.elims split: if_splits)

lemma child_steps_ok:
  assumes "child_steps P c d" "child_ok P c"
  shows "child_ok P d \<and> tracked c \<subseteq> tracked d"
  using assms
proof (induction rule: child_steps.induct)
  case (child_step c d op W u d')
  then have "child_ok P d" "tracked c \<subseteq> tracked d" by auto
  with child_exec_Inr [OF _ child_step.hyps(2,3,4)] show ?case by blast
qed simp

lemma child_reachable_ok: "child_reachable P c \<Longrightarrow> child_ok P c"
  using child_initial child_steps_ok by (auto simp: child_reachable_def)

lemma child_reachable_step:
  "child_reachable P c \<Longrightarrow> wf_child_op op \<Longrightarrow> wf_world W \<Longrightarrow> child_exec P W op c = Inr (u, d) \<Longrightarrow> child_reachable P d"
  unfolding child_reachable_def by (blast intro: child_step)

end
