(* ===== verification/Child_Progress.thy ===== *)
theory Child_Progress
  imports Child_Invariant
begin

text \<open>
  What the child vault can always do, and what it never does again: a stored recovery succeeds as soon as the world lets
  it, a workflow call whose guards hold is accepted whether or not the strategy and the bridge work, and an operation that
  asks for a job already handled reverts.
\<close>

section \<open>A cooperating world\<close>

definition router_up :: "vault_world \<Rightarrow> bool" where
  "router_up W \<longleftrightarrow> (\<forall>dst m. \<exists>fee mid. cw_getFee W dst m = Inr fee \<and> cw_ccipSend W dst m = Inr mid) \<and>
     (\<forall>token spender amount. cw_forceApprove W token spender amount = Inr ())"

definition cooperative :: "child_params \<Rightarrow> vault_world \<Rightarrow> bool" where
  "cooperative P W \<longleftrightarrow> \<not> cw_paused W \<and> router_up W \<and>
     (\<forall>adapter amount. cw_safeTransfer W adapter amount \<noteq> None \<and> cw_deposit W adapter amount \<noteq> None) \<and>
     (\<forall>adapter amount. \<exists>out. cw_withdraw W adapter amount = Some out \<and> 0 < out \<and> out < 2 ^ 256) \<and>
     (\<forall>pid. cw_getAdapter W pid \<noteq> 0 \<and> cw_getVault W (cw_getAdapter W pid) = cp_this P)"

text \<open>The chain a stored recovery still has to send to has a registered vault.\<close>

definition destination_known :: "child_params \<Rightarrow> child_chain \<Rightarrow> bool" where
  "destination_known P c \<longleftrightarrow>
     (let known = (\<lambda>dst. bv_crosschainVaults (ch_base c) dst \<noteq> 0);
          target = st_ChainSelector (rwr_strategy (cv_rebalanceWithdrawRecovery (ch_vault c)))
      in (bv_recoveryMode (ch_base c) = EPOCH_WITHDRAW \<longrightarrow> known (cp_parentChainSelector P)) \<and>
         (bv_recoveryMode (ch_base c) = REBALANCE_WITHDRAW \<longrightarrow> target = cp_thisChainSelector P \<or> known target) \<and>
         (bv_recoveryMode (ch_base c) = CCIP_SEND \<longrightarrow> known (csr_destinationChainSelector (cv_ccipSendRecovery (ch_vault c)))))"

lemma cooperative_wf: "cooperative P W \<Longrightarrow> wf_world W"
  unfolding cooperative_def wf_world_def by (metis option.inject order_less_imp_le)

lemma router_up_send:
  assumes "router_up W" "h \<noteq> 0" "dst \<noteq> 0" "dst \<noteq> cp_thisChainSelector P" "bv_crosschainVaults (ch_base c) dst \<noteq> 0"
    and "bv_recoveryMode (ch_base c) = NO_RECOVERY"
  shows "specC (ccipLibSend P W h dst tx n pid) E (\<lambda>_ d. ch_base d = ch_base c) c"
    and "specC (childCcipSend P W h dst tx n pid) E (\<lambda>_ d. ch_base d = ch_base c) c"
proof -
  have up: "cw_getFee W dst m \<noteq> Inl e" "cw_ccipSend W dst m \<noteq> Inl e" "cw_forceApprove W token spender amount = Inr ()"
    for m e token spender amount using assms(1) unfolding router_up_def by (metis sum.distinct(1))+
  show lib: "specC (ccipLibSend P W h dst tx n pid) E (\<lambda>_ d. ch_base d = ch_base c) c" for E
    using assms(2-5) up by (auto simp: ccipLibSend_def validateCcipSend_def child_spec Let_def split: sum.split)
  show "specC (childCcipSend P W h dst tx n pid) E (\<lambda>_ d. ch_base d = ch_base c) c"
    using assms(2-6) lib by (simp add: childCcipSend_def validateCcipSend_def requireNoRecovery_def child_spec)
qed

lemma cooperative_deposit: "cooperative P W \<Longrightarrow> adapter \<noteq> 0 \<Longrightarrow>
    specC (executeDeposit W amount strict adapter) E (\<lambda>ok d. ok \<and> d = c\<lparr>ch_trace := ch_trace c @ [Deposited adapter amount]\<rparr>) c"
  by (simp add: cooperative_def executeDeposit_def tryDepositToAdapter_def child_spec)

lemma cooperative_withdraw:
  assumes "cooperative P W" "adapter \<noteq> 0"
  shows "specC (executeWithdraw W amount strict adapter) E
    (\<lambda>(ok, out) d. ok \<and> 0 < out \<and> d = c\<lparr>ch_trace := ch_trace c @ [Withdrew adapter amount out]\<rparr>) c"
proof -
  obtain out where "cw_withdraw W adapter amount = Some out" "0 < out" using assms(1) unfolding cooperative_def by metis
  with assms(2) show ?thesis by (simp add: executeWithdraw_def child_spec)
qed

section \<open>A stored recovery succeeds\<close>

abbreviation "idle_base \<equiv> \<lambda>d. bv_recoveryMode (ch_base d) = NO_RECOVERY"

lemma cooperative_rebalance:
  assumes "cooperative P W" "idle_base c" "h \<noteq> 0" "st_ChainSelector strategy \<noteq> 0"
    and "st_ChainSelector strategy = cp_thisChainSelector P \<or> bv_crosschainVaults (ch_base c) (st_ChainSelector strategy) \<noteq> 0"
  shows "specC (rebalanceToNewStrategy P W n h strategy old) E (\<lambda>_. idle_base) c"
proof (cases "st_ChainSelector strategy = cp_thisChainSelector P")
  case True
  have "cw_getAdapter W (st_ProtocolId strategy) \<noteq> 0" "cw_getVault W (cw_getAdapter W (st_ProtocolId strategy)) = cp_this P"
    using assms(1) by (simp_all add: cooperative_def)
  with True show ?thesis
    using assms(2) by (auto simp: rebalanceToNewStrategy_def setActiveAdapter_def handleRebalanceDeposit_def child_spec Let_def
        intro!: specC_mono [OF cooperative_deposit [OF assms(1)]])
next
  case False
  have "router_up W" using assms(1) by (simp add: cooperative_def)
  from False assms(2,5) show ?thesis
    by (auto simp: rebalanceToNewStrategy_def clearActiveAdapter_def child_spec
        intro!: specC_mono [OF router_up_send(2) [OF \<open>router_up W\<close> assms(3,4) False]])
qed

lemma recovery_succeeds:
  assumes ok: "child_ok P c" and new: "childConstructor P = Inr ()" and W: "cooperative P W" "destination_known P c"
    and busy: "bv_recoveryMode (ch_base c) \<noteq> NO_RECOVERY"
  shows "specC (executeRecovery P W) (\<lambda>_. False) (\<lambda>_. idle_base) c"
proof -
  have up: "router_up W" "\<not> cw_paused W" using W(1) by (simp_all add: cooperative_def)
  have slots: "slots_ok P c" using ok by (simp add: child_ok_def child_inv_def)
  have parent: "cp_parentChainSelector P \<noteq> 0" "cp_parentChainSelector P \<noteq> cp_thisChainSelector P"
    using new by (auto simp: childConstructor_def split: if_splits)
  note start = executeRecovery_def whenNotPaused_def up(2)
  note simps = specC_bind specC_unit specC_basic specC_seqC specC_cases
  show ?thesis
  proof (cases "bv_recoveryMode (ch_base c)")
    case REBALANCE_DEPOSIT
    then have "adapter_of c \<noteq> 0" using slots by (simp add: slots_ok_def Let_def)
    with REBALANCE_DEPOSIT show ?thesis
      by (auto simp: start recoverFailedRebalanceDeposit_def clearRebalanceDepositRecovery_def simps
          intro!: specC_mono [OF cooperative_deposit [OF W(1)]])
  next
    case EPOCH_DEPOSIT
    then have "adapter_of c \<noteq> 0" using slots by (simp add: slots_ok_def Let_def)
    with EPOCH_DEPOSIT show ?thesis
      by (auto simp: start recoverFailedEpochDeposit_def clearEpochDepositRecovery_def simps
          intro!: specC_mono [OF cooperative_deposit [OF W(1)]])
  next
    case EPOCH_WITHDRAW
    then have "adapter_of c \<noteq> 0" "bv_crosschainVaults (ch_base c) (cp_parentChainSelector P) \<noteq> 0"
      using slots W(2) by (simp_all add: slots_ok_def destination_known_def Let_def)
    with EPOCH_WITHDRAW parent show ?thesis
      by (auto simp: start recoverFailedEpochWithdraw_def clearEpochWithdrawRecovery_def simps
          intro!: specC_mono [OF cooperative_withdraw [OF W(1)]] specC_mono [OF router_up_send(2) [OF up(1)]])
  next
    case REBALANCE_WITHDRAW
    let ?target = "st_ChainSelector (rwr_strategy (cv_rebalanceWithdrawRecovery (ch_vault c)))"
    have "adapter_of c \<noteq> 0" "?target \<noteq> 0" "?target = cp_thisChainSelector P \<or> bv_crosschainVaults (ch_base c) ?target \<noteq> 0"
      using REBALANCE_WITHDRAW slots W(2) by (simp_all add: slots_ok_def destination_known_def Let_def)
    with REBALANCE_WITHDRAW show ?thesis
      by (auto simp: start recoverFailedRebalanceWithdraw_def clearRebalanceWithdrawRecovery_def simps
          intro!: specC_mono [OF cooperative_withdraw [OF W(1)]] specC_mono [OF cooperative_rebalance [OF W(1)]])
  next
    case CCIP_SEND
    let ?r = "cv_ccipSendRecovery (ch_vault c)"
    have "csr_amount ?r \<noteq> 0" "csr_destinationChainSelector ?r \<noteq> 0" "csr_destinationChainSelector ?r \<noteq> cp_thisChainSelector P"
      "bv_crosschainVaults (ch_base c) (csr_destinationChainSelector ?r) \<noteq> 0"
      using CCIP_SEND slots W(2) by (auto simp: slots_ok_def destination_known_def Let_def)
    with CCIP_SEND show ?thesis
      by (auto simp: start recoverFailedCcipSend_def clearCcipSendRecovery_def simps
          intro!: specC_mono [OF router_up_send(1) [OF up(1)]])
  qed (use busy in simp)
qed

section \<open>A workflow call is accepted\<close>

text \<open>No failure of the bridge is the permanent one that makes the vault give up.\<close>

definition within_capacity :: "child_params \<Rightarrow> vault_world \<Rightarrow> bool" where
  "within_capacity P W \<longleftrightarrow>
     (\<forall>err. (\<exists>dst m. cw_getFee W dst m = Inl err \<or> cw_ccipSend W dst m = Inl err) \<or>
        (\<exists>token spender amount. cw_forceApprove W token spender amount = Inl err) \<longrightarrow> \<not> capacity_exceeded P (Bubbled err))"

lemma send_accepted:
  assumes "within_capacity P W" "idle_base c" "h \<noteq> 0" "dst \<noteq> 0" "dst \<noteq> cp_thisChainSelector P" "bv_crosschainVaults (ch_base c) dst \<noteq> 0"
  shows "specC (childCcipSend P W h dst tx n pid) (\<lambda>_. False) (\<lambda>_ _. True) c"
proof -
  have ok: "cw_getFee W d m = Inl err \<Longrightarrow> \<not> capacity_exceeded P (Bubbled err)" "cw_ccipSend W d m = Inl err \<Longrightarrow> \<not> capacity_exceeded P (Bubbled err)"
    "cw_forceApprove W t s a = Inl err \<Longrightarrow> \<not> capacity_exceeded P (Bubbled err)" for d m err t s a
    using assms(1) unfolding within_capacity_def by blast+
  show ?thesis
    using assms(2-)
    by (auto simp: childCcipSend_def ccipLibSend_def validateCcipSend_def requireNoRecovery_def storeCcipSendRecovery_def child_spec Let_def
        split: sum.split dest!: ok)
qed

definition accepting :: "vault_world \<Rightarrow> vault_role \<Rightarrow> address \<Rightarrow> child_chain \<Rightarrow> bool" where
  "accepting W role caller c \<longleftrightarrow> \<not> cw_paused W \<and> cw_hasRole W role caller \<and> idle_base c \<and> adapter_of c \<noteq> 0 \<and>
     (\<forall>amount. cw_withdraw W (adapter_of c) amount \<noteq> Some 0)"

lemma executeEpochWithdraw_accepted:
  assumes "accepting W EPOCH_OPERATOR_ROLE caller c" "within_capacity P W" "childConstructor P = Inr ()"
    and "bv_crosschainVaults (ch_base c) (cp_parentChainSelector P) \<noteq> 0"
    and "amount \<noteq> 0" "cv_lastHandledEpochNonce (ch_vault c) < n"
  shows "specC (executeEpochWithdraw P W caller n amount) (\<lambda>_. False) (\<lambda>_ _. True) c"
proof -
  have "cp_parentChainSelector P \<noteq> 0" "cp_parentChainSelector P \<noteq> cp_thisChainSelector P"
    using assms(3) by (auto simp: childConstructor_def split: if_splits)
  then show ?thesis
    using assms(1,4-6)
    by (auto simp: accepting_def executeEpochWithdraw_def whenNotPaused_def onlyRole_def requireNoRecovery_def revertIfZeroAmount_def
        handleEpochNonce_def executeWithdraw_def storeEpochWithdrawRecovery_def child_spec split: option.split
        intro!: send_accepted [OF assms(2)])
qed

lemma executeRebalance_accepted:
  assumes "accepting W REBALANCE_OPERATOR_ROLE caller c" "within_capacity P W"
    and "if st_ChainSelector dest = cp_thisChainSelector P
      then cw_getAdapter W (st_ProtocolId dest) \<noteq> 0 \<and> cw_getVault W (cw_getAdapter W (st_ProtocolId dest)) = cp_this P
      else bv_crosschainVaults (ch_base c) (st_ChainSelector dest) \<noteq> 0"
    and "st_ChainSelector dest \<noteq> 0" "cv_lastHandledRebalanceNonce (ch_vault c) < n"
  shows "specC (executeRebalance P W caller n dest) (\<lambda>_. False) (\<lambda>_ _. True) c"
  using assms(1,3-5)
  by (auto simp: accepting_def executeRebalance_def whenNotPaused_def onlyRole_def requireNoRecovery_def revertIfZeroAmount_def
      handleRebalanceNonce_def executeWithdraw_def storeRebalanceWithdrawRecovery_def rebalanceToNewStrategy_def setActiveAdapter_def
      clearActiveAdapter_def handleRebalanceDeposit_def executeDeposit_def tryDepositToAdapter_def storeRebalanceDepositRecovery_def
      child_spec Let_def split: option.split if_splits intro!: send_accepted [OF assms(2)])

section \<open>A handled job is refused\<close>

lemma handled_reverts:
  assumes "handled (last_nonces c) j" "op_job op = Some j"
  shows "\<exists>err. child_exec P W op c = Inl err"
proof -
  have epoch: "specC (handleEpochNonce n) (\<lambda>_. True) (\<lambda>_. Q) d" if "handled (last_nonces d) (EpochJob n)" for n Q d
    using that by (simp add: handleEpochNonce_def child_spec last_nonces_def)
  have rebal: "specC (handleRebalanceNonce n) (\<lambda>_. True) (\<lambda>_. Q) d" if "handled (last_nonces d) (RebalanceJob n)" for n Q d
    using that by (simp add: handleRebalanceNonce_def child_spec last_nonces_def)
  have "specC (child_exec P W op) (\<lambda>_. True) (\<lambda>_ _. False) c"
  proof (cases op)
    case (Call_ccipReceive caller message)
    have "specC (deliverTokens message) (\<lambda>_. True) (\<lambda>_ d. last_nonces d = last_nonces c) c"
    proof -
      have "specC (seqC (map (\<lambda>(token, amount). actC (Delivered token amount)) ts)) (\<lambda>_. True) (\<lambda>_ d. last_nonces d = last_nonces c) e"
        if "last_nonces e = last_nonces c" for ts e
        using that by (induction ts arbitrary: e) (auto simp: child_spec)
      then show ?thesis by (simp add: deliverTokens_def)
    qed
    moreover have "specC (ccipReceive P W caller message) (\<lambda>_. True) (\<lambda>_ _. False) d" if "last_nonces d = last_nonces c" for d
      using assms Call_ccipReceive that
      by (auto simp: ccipReceive_def whenNotPaused_def onlyAllowedSender_def requireNoRecovery_def validateReceivedTokenAndGetAmount_def
          specC_bind specC_unit(1) specC_basic specC_cases data_job_def split: option.split list.split CcipTx.split
          intro!: epoch rebal)
    ultimately show ?thesis using Call_ccipReceive by (auto intro: specC_bindI)
  qed (use assms in \<open>auto simp: executeEpochWithdraw_def executeRebalance_def whenNotPaused_def onlyRole_def requireNoRecovery_def
      revertIfZeroAmount_def [of "_ :: int"] specC_bind specC_unit(1) specC_basic intro!: epoch rebal\<close>)
  then show ?thesis by (auto simp: specC_def split: sum.splits)
qed

section \<open>Assets and the reported value\<close>

text \<open>What the vault holds for an epoch that has already been settled is not part of its value.\<close>

definition reserved :: "child_chain \<Rightarrow> int" where
  "reserved c = (let r = cv_ccipSendRecovery (ch_vault c) in if csr_ccipTxType r = EPOCH_NET_WITHDRAW then csr_amount r else 0)"

lemma childTVL_exact:
  assumes "child_ok P c" "childTVL W c = Inr tvl"
  shows "tvl = (if adapter_of c = 0 then 0 else cw_getTVL W (adapter_of c)) + assets P (ch_trace c) - reserved c"
  using assms
  by (cases "bv_recoveryMode (ch_base c)")
    (auto simp: childTVL_def Let_def reserved_def child_ok_def child_inv_def slots_ok_def pending_assets_def zero_ccip_send_def
      zero_epoch_recovery_def zero_rebalance_deposit_def split: if_splits)

end
