(* ===== verification/Child_Properties.thy ===== *)
theory Child_Properties
  imports Child_Progress Composition Lifecycle_Properties
begin

text \<open>
  The properties of the child vault, over every state that its operations reach in any order and in any worlds: what its recovery
  slots keep, that a job is accepted once and never lost, that a stored recovery can be finished, and that a report the
  workflow submits is carried out once.
\<close>

section \<open>A child that has been deployed and has received the position\<close>

definition ex_child_params :: child_params where
  "ex_child_params = \<lparr>cp_link = 1, cp_asset = 2, cp_ccipRouter = 3, cp_adapterRegistry = 4, cp_thisChainSelector = 4949039107694359620,
     cp_this = 7, cp_parentChainSelector = 15971525489660198786, cp_capacitySelector = [1, 2, 3, 4]\<rparr>"

text \<open>Worlds in which the strategy pays out what is asked for up to a limit, or refuses.\<close>

definition ex_world :: "bool \<Rightarrow> vault_world" where
  "ex_world up = \<lparr>cw_paused = False, cw_hasRole = (\<lambda>_ _. True), cw_getAdapter = (\<lambda>_. 9), cw_getVault = (\<lambda>_. 7),
     cw_safeTransfer = (\<lambda>_ _. Some ()), cw_safeTransferFrom = (\<lambda>_ _. Some ()), cw_shareTransfer = (\<lambda>_ _. Some ()),
     cw_shareTransferFrom = (\<lambda>_ _. Some ()), cw_mint = (\<lambda>_ _. Some ()), cw_burn = (\<lambda>_. Some ()), cw_deposit = (\<lambda>_ _. Some ()),
     cw_withdraw = (\<lambda>_ amount. if up then Some (max 1 (min amount 900000)) else None), cw_getTVL = (\<lambda>_. 1000000),
     cw_argsToBytes = (\<lambda>_ _. []), cw_getFee = (\<lambda>_ _. Inr 5), cw_forceApprove = (\<lambda>_ _ _. Inr ()),
     cw_ccipSend = (\<lambda>_ _. Inr (replicate 32 7))\<rparr>"

lemma ex_child_constructor: "childConstructor ex_child_params = Inr ()"
  by (simp add: childConstructor_def ex_child_params_def)

lemma ex_world_facts [simp]:
  "\<not> cw_paused (ex_world up)" "cw_hasRole (ex_world up) role caller" "cw_getAdapter (ex_world up) pid = 9"
  "cw_getVault (ex_world up) a = 7" "cw_safeTransfer (ex_world up) a v = Some ()" "cw_deposit (ex_world up) a v = Some ()"
  "cw_withdraw (ex_world True) a v = Some (max 1 (min v 900000))" "cw_withdraw (ex_world False) a v = None"
  "cw_getTVL (ex_world up) a = 1000000" "cw_getFee (ex_world up) dst m = Inr 5" "cw_ccipSend (ex_world up) dst m = Inr (replicate 32 7)"
  "cw_forceApprove (ex_world up) token spender v = Inr ()"
  by (simp_all add: ex_world_def)

lemma ex_worlds: "wf_world (ex_world up)" "within_capacity ex_child_params (ex_world up)" "cooperative ex_child_params (ex_world True)"
  by (auto simp: wf_world_def within_capacity_def cooperative_def router_up_def ex_child_params_def ex_world_def split: if_splits)

lemma ex_pays [simp]: "cw_withdraw (ex_world True) a v \<noteq> Some 0"
  by (simp add: max_def min_def)

definition ex_deployed :: child_chain where
  "ex_deployed = \<lparr>ch_base = \<lparr>bv_defaultCcipGasLimit = 300000, bv_ccipGasLimits = (\<lambda>_. 0), bv_crosschainVaults = (\<lambda>_. 0),
       bv_activeProtocolAdapter = 0, bv_recoveryMode = NO_RECOVERY, bv_rebalanceDepositRecovery = zero_rebalance_deposit\<rparr>,
     ch_vault = \<lparr>cv_lastHandledEpochNonce = 0, cv_lastHandledRebalanceNonce = 0, cv_rebalanceWithdrawRecovery = zero_rebalance_withdraw,
       cv_epochDepositRecovery = zero_epoch_recovery, cv_epochWithdrawRecovery = zero_epoch_recovery, cv_ccipSendRecovery = zero_ccip_send\<rparr>,
     ch_trace = []\<rparr>"

definition ex_linked :: child_chain where
  "ex_linked = ex_deployed\<lparr>ch_base := (ch_base ex_deployed)\<lparr>bv_crosschainVaults := (\<lambda>_. 0)(15971525489660198786 := 8)\<rparr>,
     ch_trace := [Emitted (Ev_CrosschainVaultSet 15971525489660198786 8)]\<rparr>"

text \<open>The position arrives from the parent in the first rebalance.\<close>

definition ex_message :: any2evm where
  "ex_message = \<lparr>a2e_messageId = replicate 32 1, a2e_sourceChainSelector = 15971525489660198786, a2e_sender = abi_encode_address 8,
     a2e_data = ccip_data REBALANCE 1 (replicate 32 1), a2e_destTokenAmounts = [(2, 1000000)]\<rparr>"

definition ex_funded :: child_chain where
  "ex_funded = ex_linked\<lparr>ch_base := (ch_base ex_linked)\<lparr>bv_activeProtocolAdapter := 9\<rparr>,
     ch_vault := (ch_vault ex_linked)\<lparr>cv_lastHandledRebalanceNonce := 1\<rparr>,
     ch_trace := ch_trace ex_linked @ [Delivered 2 1000000, Emitted (Ev_ActiveProtocolAdapterSet (replicate 32 1) 9), Deposited 9 1000000,
       Emitted (Ev_RebalanceDepositSuccess 1 1000000), Emitted (Ev_CCIPReceived (replicate 32 1) 15971525489660198786 REBALANCE)]\<rparr>"

text \<open>The strategy then refuses the withdrawal of the second epoch, which the vault keeps for recovery.\<close>

definition ex_stuck :: child_chain where
  "ex_stuck = ex_funded\<lparr>ch_base := (ch_base ex_funded)\<lparr>bv_recoveryMode := EPOCH_WITHDRAW\<rparr>,
     ch_vault := (ch_vault ex_funded)\<lparr>cv_lastHandledEpochNonce := 2,
       cv_epochWithdrawRecovery := \<lparr>epr_epochNonce = 2, epr_amount = 600000\<rparr>\<rparr>,
     ch_trace := ch_trace ex_funded @ [Emitted (Ev_EpochWithdrawRecoveryStored 2 600000),
       Emitted (Ev_EpochWithdrawFromStrategyFailure 2 600000)]\<rparr>"

lemmas ex_child_defs = ex_stuck_def ex_funded_def ex_linked_def ex_deployed_def

lemmas ex_run_defs = bindC_def requireC_def retC_def revertC_def readBase_def readVault_def writeBase_def writeVault_def
  emitC_def actC_def seqC_def tryC_def decodeC_def callC_def

lemma ex_link: "child_exec ex_child_params (ex_world True) (Call_setCrosschainVaults 5 [15971525489660198786] [8]) ex_deployed = Inr ((), ex_linked)"
  by (simp add: ex_run_defs setCrosschainVaults_def onlyRole_def ex_linked_def ex_deployed_def)

lemma ex_fund: "child_exec ex_child_params (ex_world True) (Call_ccipReceive 3 ex_message) ex_linked = Inr ((), ex_funded)"
  by (simp add: ex_run_defs deliverTokens_def ccipReceive_def whenNotPaused_def onlyAllowedSender_def requireNoRecovery_def
      validateReceivedTokenAndGetAmount_def handleRebalanceNonce_def handleCCIPRebalance_def setActiveAdapter_def handleRebalanceDeposit_def
      executeDeposit_def tryDepositToAdapter_def ex_message_def ex_child_params_def abi_decode_ccip_data abi_decode_rebalance ex_funded_def
      ex_linked_def ex_deployed_def Let_def)

lemma ex_stick: "child_exec ex_child_params (ex_world False) (Call_executeEpochWithdraw 5 2 600000) ex_funded = Inr ((), ex_stuck)"
  by (simp add: ex_run_defs executeEpochWithdraw_def whenNotPaused_def onlyRole_def requireNoRecovery_def revertIfZeroAmount_def
      handleEpochNonce_def executeWithdraw_def storeEpochWithdrawRecovery_def ex_child_defs)

lemma ex_funded_reachable: "child_reachable ex_child_params ex_funded"
proof -
  let ?p = "\<lparr>ip_defaultAdmin = 1, ip_pauser = 1, ip_unpauser = 1, ip_configOperator = 5, ip_initialDefaultCcipGasLimit = 300000, ip_upgrader = 1\<rparr>"
  have "childInitialize ?p = Inr ex_deployed" by (simp add: childInitialize_def ex_deployed_def)
  moreover have "child_steps ex_child_params ex_deployed ex_funded"
    by (intro child_step [OF _ _ _ ex_fund] child_step [OF _ _ _ ex_link] child_refl ex_worlds) (simp_all add: ex_message_def)
  ultimately show ?thesis using ex_child_constructor by (auto simp: child_reachable_def)
qed

lemma ex_stuck_reachable: "child_reachable ex_child_params ex_stuck"
  by (rule child_reachable_step [OF ex_funded_reachable _ ex_worlds(1) ex_stick]) simp

section \<open>What the recovery slots keep\<close>

text \<open>
  C13: In every reachable state of the child vault exactly the slot that the recovery mode names is filled, and usable. The
  vault holds exactly the assets its slots account for. The stored job is the latest of its kind, and no job
  has been completed twice. The value reported to the workflow is what the strategy holds plus what the vault holds, less what
  is on its way to a settled epoch.
\<close>

theorem child_recovery_invariant:
  assumes "child_reachable P c"
  shows "slots_ok P c \<and> assets P (ch_trace c) = pending_assets c \<and> distinct (completions (ch_trace c)) \<and>
    (\<forall>j. pending_job c = Some j \<longrightarrow> current (last_nonces c) j \<and> j \<notin> set (completions (ch_trace c))) \<and>
    (\<forall>W tvl. childTVL W c = Inr tvl \<longrightarrow>
       tvl = (if adapter_of c = 0 then 0 else cw_getTVL W (adapter_of c)) + assets P (ch_trace c) - reserved c)"
  using child_reachable_ok [OF assms] childTVL_exact [OF child_reachable_ok [OF assms]]
  by (simp add: child_ok_def child_inv_def)

theorem child_recovery_invariant_witness:
  "pending_job ex_stuck = Some (EpochJob 2) \<and> EpochJob 2 \<notin> set (completions (ch_trace ex_stuck)) \<and>
     assets ex_child_params (ch_trace ex_stuck) = 0 \<and> childTVL (ex_world True) ex_stuck = Inr 1000000"
proof -
  have job: "pending_job ex_stuck = Some (EpochJob 2)" by (simp add: pending_job_def ex_child_defs)
  have none: "pending_assets ex_stuck = 0" by (simp add: pending_assets_def ex_child_defs)
  have "childTVL (ex_world True) ex_stuck = Inr 1000000"
    by (simp add: childTVL_def ex_child_defs Let_def zero_ccip_send_def)
  with child_recovery_invariant [OF ex_stuck_reachable] job none show ?thesis by simp
qed

section \<open>Jobs\<close>

lemma tracked_handled: "child_ok P c \<Longrightarrow> j \<in> tracked c \<Longrightarrow> handled (last_nonces c) j"
  by (simp add: child_ok_def child_inv_def nonces_ok_def)

lemma job_accepted:
  assumes "child_reachable P c" "wf_child_op op" "wf_world W" "child_exec P W op c = Inr (u, d)" "op_job op = Some j"
  shows "j \<notin> tracked c" "child_reachable P d" "j \<in> tracked d"
    and "child_steps P d e \<Longrightarrow> child_ok P e \<and> j \<in> tracked e \<and> handled (last_nonces e) j"
proof -
  have ok: "child_ok P c" by (rule child_reachable_ok [OF assms(1)])
  show "j \<notin> tracked c" using handled_reverts [OF tracked_handled [OF ok] assms(5), of P W] assms(4) by force
  show "child_reachable P d" by (rule child_reachable_step [OF assms(1-4)])
  show d: "j \<in> tracked d" using child_exec_Inr [OF ok assms(2-4)] assms(5) by simp
  show "child_ok P e \<and> j \<in> tracked e \<and> handled (last_nonces e) j" if "child_steps P d e"
    using child_steps_ok [OF that] child_exec_Inr [OF ok assms(2-4)] d tracked_handled by blast
qed

text \<open>
  C12: An epoch or rebalance that the child accepts is new, and from then on it is either complete or kept for recovery, whatever
  happens. It is completed at most once, and every further message or call that asks for it reverts.
\<close>

theorem child_job_once:
  assumes "child_reachable P c" "wf_child_op op" "wf_world W" "child_exec P W op c = Inr (u, d)" "op_job op = Some j" "child_steps P d e"
  shows "j \<notin> tracked c \<and> j \<in> tracked e \<and> distinct (completions (ch_trace e)) \<and>
    (\<forall>W' op'. op_job op' = Some j \<longrightarrow> (\<exists>err. child_exec P W' op' e = Inl err))"
proof -
  note e = job_accepted(4) [OF assms(1-6)]
  have "\<exists>err. child_exec P W' op' e = Inl err" if "op_job op' = Some j" for W' op' using handled_reverts [OF _ that] e by blast
  with e job_accepted(1) [OF assms(1-5)] show ?thesis by (simp add: child_ok_def child_inv_def)
qed

theorem child_job_once_witness:
  "EpochJob 2 \<in> tracked ex_stuck \<and> (\<exists>err. child_exec ex_child_params (ex_world True) (Call_executeEpochWithdraw 5 2 1) ex_stuck = Inl err)"
proof -
  have job: "op_job (Call_executeEpochWithdraw caller 2 amount) = Some (EpochJob 2)" for caller amount by simp
  have "wf_child_op (Call_executeEpochWithdraw 5 2 600000)" by simp
  from child_job_once [OF ex_funded_reachable this ex_worlds(1) ex_stick job child_refl] job show ?thesis by blast
qed

text \<open>
  C14: A stored recovery can always be finished. When the vault is not paused, strategies and bridge answer, and the
  destination has a registered vault, \<open>executeRecovery\<close> succeeds from every reachable state with a stored recovery: the vault is
  free again, and all its jobs are complete.
\<close>

theorem child_recovery_progress:
  assumes "child_reachable P c" "cooperative P W" "destination_known P c" "bv_recoveryMode (ch_base c) \<noteq> NO_RECOVERY"
  shows "\<exists>d. executeRecovery P W c = Inr ((), d) \<and> child_reachable P d \<and> bv_recoveryMode (ch_base d) = NO_RECOVERY \<and>
    set (completions (ch_trace d)) = tracked c \<and> assets P (ch_trace d) = 0"
proof -
  have ok: "child_ok P c" and new: "childConstructor P = Inr ()"
    using child_reachable_ok [OF assms(1)] assms(1) by (auto simp: child_reachable_def)
  from recovery_succeeds [OF ok new assms(2-4)] obtain d where d: "executeRecovery P W c = Inr ((), d)" "idle_base d"
    by (auto simp: specC_False)
  have op: "wf_child_op Call_executeRecovery" "child_exec P W Call_executeRecovery c = Inr ((), d)" using d by simp_all
  have "child_ok P d" "tracked d = tracked c"
    using child_exec_Inr [OF ok op(1) cooperative_wf [OF assms(2)] op(2)] by simp_all
  with d child_reachable_step [OF assms(1) op(1) cooperative_wf [OF assms(2)] op(2)] show ?thesis
    using idle_pending [OF d(2)] idle_assets [OF _ d(2)] by (auto simp: tracked_def child_ok_def)
qed

theorem child_recovery_progress_witness:
  "\<exists>d. executeRecovery ex_child_params (ex_world True) ex_stuck = Inr ((), d) \<and> EpochJob 2 \<in> set (completions (ch_trace d))"
proof -
  have "destination_known ex_child_params ex_stuck" "bv_recoveryMode (ch_base ex_stuck) \<noteq> NO_RECOVERY"
    by (simp_all add: destination_known_def ex_child_defs ex_child_params_def)
  from child_recovery_progress [OF ex_stuck_reachable ex_worlds(3) this]
  show ?thesis by (auto simp: tracked_def pending_job_def ex_child_defs)
qed

section \<open>Reports of the workflow\<close>

text \<open>The snapshot shows the state that the child vault of this chain reports, and the position is here.\<close>

definition observes_child :: "Snapshot \<Rightarrow> child_params \<Rightarrow> child_chain \<Rightarrow> bool" where
  "observes_child s P c \<longleftrightarrow> st_ChainSelector (rb_ActiveStrategy (ps_Rebalance (sn_Parent s))) = cp_thisChainSelector P \<and>
     (\<exists>W st. sol_getChildOperationalState W c = Inr st \<and> sn_Children s (cp_thisChainSelector P) = Some st)"

lemma observes_child_fields:
  assumes "observes_child s P c"
  shows "cs_LastHandledEpochNonce (child_of s (cp_thisChainSelector P)) = Some (cv_lastHandledEpochNonce (ch_vault c))"
    and "cs_LastHandledRebalanceNonce (child_of s (cp_thisChainSelector P)) = Some (cv_lastHandledRebalanceNonce (ch_vault c))"
    and "cs_RecoveryMode (child_of s (cp_thisChainSelector P)) = recovery_mode_code (bv_recoveryMode (ch_base c))"
  using assms by (auto simp: observes_child_def child_of_def sol_getChildOperationalState_def bindS_Inr_iff)

lemma unblocked_child_idle:
  assumes "observes_child s P c" "BlockedReason s config = []" "t \<in> set (cf_Evms config)" "\<not> ec_IsParent t"
    "ec_ChainSelector t = cp_thisChainSelector P"
  shows "idle_base c"
  using assms observes_child_fields(3) [OF assms(1)]
  by (cases "bv_recoveryMode (ch_base c)") (auto simp: BlockedReason_empty vault_blocked_def)

lemma handled_nonces:
  "handled (last_nonces c) (EpochJob n) \<longleftrightarrow> 0 < n \<and> n \<le> cv_lastHandledEpochNonce (ch_vault c)"
  "handled (last_nonces c) (RebalanceJob n) \<longleftrightarrow> 0 < n \<and> n \<le> cv_lastHandledRebalanceNonce (ch_vault c)"
  by (simp_all add: last_nonces_def)

lemma idle_quiet: "idle m \<Longrightarrow> m tr = (r, tr') \<Longrightarrow> writes tr' = writes tr"
  using spec_ioD [OF idle_spec] by fastforce

lemma withdraw_quiet:
  assumes "ready E config s p" "parent_NewCodec E = Ok pc" "child_NewCodec E = Ok cc"
    and "DecodeEpochWithdrawExecuting E pc lg = Ok \<lparr>we_EpochNonce = Some n, we_Amount = Some amount\<rparr>"
    and "OnEpochWithdrawExecuting E config lg s src tr = (r, tr')"
  shows "(\<exists>t. withdraw_due E config p s lg src n amount t) \<or> writes tr' = writes tr"
  using idle_quiet [OF epoch_withdraw_not_due [OF assms(1-4)] assms(5) [unfolded OnEpochWithdrawExecuting_def]] by blast

lemma withdraw_due_child:
  assumes "ready E config s p" "observes_child s P c" "withdraw_due E config p s lg src n amount t"
  shows "t \<in> set (cf_Evms config) \<and> \<not> ec_IsParent t \<and> ec_ChainSelector t = cp_thisChainSelector P \<and> 0 < amount \<and>
    cv_lastHandledEpochNonce (ch_vault c) < n"
proof -
  have "FindEvmConfigByChainSelector (cf_Evms config) (cp_thisChainSelector P) = Ok t" "cp_thisChainSelector P \<noteq> ec_ChainSelector p"
    and n: "0 < amount" "cv_lastHandledEpochNonce (ch_vault c) < n"
    using assms(2,3) observes_child_fields(1) [OF assms(2)] by (auto simp: withdraw_due_def Let_def observes_child_def)
  from strategy_child [OF assms(1) this(1,2)] n show ?thesis by blast
qed

lemma execute_due_child:
  assumes "ready E config s p" "observes_child s P c" "execute_due E config p s lg src n dest t"
  shows "t \<in> set (cf_Evms config) \<and> \<not> ec_IsParent t \<and> ec_ChainSelector t = cp_thisChainSelector P \<and> st_ChainSelector dest \<noteq> 0 \<and>
    cv_lastHandledRebalanceNonce (ch_vault c) < n"
proof -
  have "FindEvmConfigByChainSelector (cf_Evms config) (cp_thisChainSelector P) = Ok t" "cp_thisChainSelector P \<noteq> ec_ChainSelector p"
    and n: "st_ChainSelector dest \<in> ec_ChainSelector ` set (cf_Evms config)" "cv_lastHandledRebalanceNonce (ch_vault c) < n"
    using assms(2,3) observes_child_fields(2) [OF assms(2)] by (auto simp: execute_due_def Let_def observes_child_def)
  moreover have "st_ChainSelector dest \<noteq> 0"
    using n(1) assms(1) by (auto simp: ready_def valid_config_def valid_chains_def valid_chain_def)
  ultimately show ?thesis using strategy_child [OF assms(1)] by blast
qed

text \<open>
  C15: A withdrawal that the workflow asks for is carried out once. When the snapshot shows a reachable child that is
  not blocked and the handler submits, the vault's transaction with the event's nonce and amount succeeds, provided
  the strategy pays anything at all and the bridge does not refuse for good: the epoch is new and is tracked from then on. In every later state of
  the vault a redelivered event causes no write, and the vault refuses the call.
\<close>

theorem submitted_withdraw_handled_once:
  assumes "child_reachable P c" "ready E config s p" "parent_NewCodec E = Ok pc" "child_NewCodec E = Ok cc"
    and "observes_child s P c" "BlockedReason s config = []"
    and "DecodeEpochWithdrawExecuting E pc lg = Ok \<lparr>we_EpochNonce = Some n, we_Amount = Some amount\<rparr>" "u256 n" "u256 amount"
    and "OnEpochWithdrawExecuting E config lg s src tr = (r, tr @ cs)" "writes cs \<noteq> []"
    and "wf_world W" "within_capacity P W" "\<not> cw_paused W" "cw_hasRole W EPOCH_OPERATOR_ROLE caller"
    and "adapter_of c \<noteq> 0" "\<forall>v. cw_withdraw W (adapter_of c) v \<noteq> Some 0" "bv_crosschainVaults (ch_base c) (cp_parentChainSelector P) \<noteq> 0"
  shows "\<exists>t d. ec_ChainSelector t = cp_thisChainSelector P \<and>
    sends E t (sn_ObservedAt s) (EncodeExecuteEpochWithdrawMethodCall cc \<lparr>ew_EpochNonce = Some n, ew_Amount = Some amount\<rparr>) cs \<and>
    executeEpochWithdraw P W caller n amount c = Inr ((), d) \<and> child_reachable P d \<and> EpochJob n \<notin> tracked c \<and> EpochJob n \<in> tracked d \<and>
    (\<forall>e s' tr' r' tr''. child_steps P d e \<and> ready E config s' p \<and> observes_child s' P e \<and>
       OnEpochWithdrawExecuting E config lg s' src tr' = (r', tr'') \<longrightarrow> writes tr'' = writes tr') \<and>
    (\<forall>e W' caller' amount'. child_steps P d e \<longrightarrow> (\<exists>err. executeEpochWithdraw P W' caller' n amount' e = Inl err))"
proof -
  let ?op = "Call_executeEpochWithdraw caller n amount"
  obtain t where due: "withdraw_due E config p s lg src n amount t"
    using withdraw_quiet [OF assms(2-4,7,10)] assms(11) by auto
  note t = withdraw_due_child [OF assms(2,5) due]
  have sent: "sends E t (sn_ObservedAt s) (EncodeExecuteEpochWithdrawMethodCall cc \<lparr>ew_EpochNonce = Some n, ew_Amount = Some amount\<rparr>) cs"
    using spec_io_run [OF report.report_call_sends assms(10) [unfolded OnEpochWithdrawExecuting_def
        epoch_withdraw_due [OF assms(2-4,7) due] withdraw_report_def]] assms(11) by blast
  have "accepting W EPOCH_OPERATOR_ROLE caller c"
    using unblocked_child_idle [OF assms(5,6), of t] t assms(14-17) by (simp add: accepting_def)
  from executeEpochWithdraw_accepted [OF this assms(13) _ assms(18), of amount n] t assms(1)
  obtain d where run: "executeEpochWithdraw P W caller n amount c = Inr ((), d)" by (auto simp: specC_False child_reachable_def)
  then have step: "child_exec P W ?op c = Inr ((), d)" "wf_child_op ?op" "op_job ?op = Some (EpochJob n)" using assms(8,9) by simp_all
  note job = job_accepted [OF assms(1) step(2) assms(12) step(1,3)]
  have "writes tr'' = writes tr'" if "child_steps P d e" "ready E config s' p" "observes_child s' P e"
    "OnEpochWithdrawExecuting E config lg s' src tr' = (r', tr'')" for e s' tr' r' tr''
    using withdraw_quiet [OF that(2) assms(3,4,7) that(4)] withdraw_due_child [OF that(2,3), of lg src n amount] job(4) [OF that(1)]
    by (force simp: handled_nonces)
  moreover have "\<exists>err. executeEpochWithdraw P W' caller' n amount' e = Inl err" if "child_steps P d e" for e W' caller' amount'
    using handled_reverts [of e "EpochJob n" "Call_executeEpochWithdraw caller' n amount'" P W'] job(4) [OF that] by simp
  ultimately show ?thesis using t sent run job(1-3) by blast
qed

text \<open>The child's own report in the example: its state after the position has arrived, and an executing withdrawal of the second epoch.\<close>

definition ex_funded_snapshot :: "vault_store \<Rightarrow> Snapshot" where
  "ex_funded_snapshot st = (ex_snapshot st 4949039107694359620 15971525489660198786)\<lparr>sn_Children :=
     [4949039107694359620 \<mapsto> \<lparr>cs_Paused = False, cs_RecoveryMode = 0, cs_LastHandledEpochNonce = Some 0,
        cs_LastHandledRebalanceNonce = Some 1, cs_Tvl = Some 1000000\<rparr>]\<rparr>"

lemma ex_funded_observed: "observes_child (ex_funded_snapshot st) ex_child_params ex_funded"
proof -
  have "sol_getChildOperationalState (ex_world True) ex_funded = Inr \<lparr>cs_Paused = False, cs_RecoveryMode = 0,
      cs_LastHandledEpochNonce = Some 0, cs_LastHandledRebalanceNonce = Some 1, cs_Tvl = Some 1000000\<rparr>"
    by (simp add: sol_getChildOperationalState_def childTVL_def Let_def ex_child_defs zero_ccip_send_def)
  then show ?thesis
    by (auto simp: observes_child_def ex_funded_snapshot_def ex_snapshot_defs ex_child_params_def)
qed

lemma ex_funded_ready:
  assumes "st \<in> {ex_due_store, ex_withdraw_store, ex_deposit_store, ex_rebalance_store}"
  shows "ready ex_env ex_config (ex_funded_snapshot st) ex_parent"
  using ex_snapshot_valid [OF assms, of 4949039107694359620 15971525489660198786]
  by (simp add: ready_def valid_snapshot_def ex_funded_snapshot_def) (simp add: valid_child_def)

lemma ex_funded_unblocked: "BlockedReason (ex_funded_snapshot st) ex_config = []"
  by (simp add: BlockedReason_empty vault_blocked_def ex_funded_snapshot_def ex_snapshot_defs child_of_def)

theorem submitted_withdraw_handled_once_witness:
  "\<exists>cs d. OnEpochWithdrawExecuting ex_env ex_config (Some (ex_log ex_parent ''EpochWithdrawExecuting''))
       (ex_funded_snapshot ex_withdraw_store) 15971525489660198786 [] = (Ok \<lparr>xr_Result = ''submitted executeEpochWithdraw''\<rparr>, cs) \<and>
     writes cs \<noteq> [] \<and> executeEpochWithdraw ex_child_params (ex_world True) 5 2 600000 ex_funded = Inr ((), d) \<and> EpochJob 2 \<in> tracked d"
proof -
  let ?s = "ex_funded_snapshot ex_withdraw_store" and ?lg = "Some (ex_log ex_parent ''EpochWithdrawExecuting'')"
  let ?cs = "ex_calls ex_child (ex_payload ex_child (replicate 8 20)) @ [HLog ''Submitted executeEpochWithdraw'']"
  have rd: "ready ex_env ex_config ?s ex_parent" by (rule ex_funded_ready) simp
  have src: "MatchSource ex_env ex_config ?lg 15971525489660198786 15971525489660198786"
    using ex_match_source [of ex_parent] by simp
  have due: "withdraw_due ex_env ex_config ex_parent ?s ?lg 15971525489660198786 2 600000 ex_child"
    using src by (simp add: withdraw_due_def Let_def executing_epoch_def ex_funded_snapshot_def ex_snapshot_defs ex_store_defs child_of_def)
  have at: "sn_ObservedAt ?s = 10000" by (simp add: ex_funded_snapshot_def ex_snapshot_def)
  have run: "OnEpochWithdrawExecuting ex_env ex_config ?lg ?s 15971525489660198786 [] =
      (Ok \<lparr>xr_Result = ''submitted executeEpochWithdraw''\<rparr>, [] @ ?cs)"
    unfolding OnEpochWithdrawExecuting_def epoch_withdraw_due [OF rd ex_codecs ex_decoders(1) due] withdraw_report_def at
    using ex_report [of ex_child "replicate 8 20"] by (simp add: EncodeExecuteEpochWithdrawMethodCall_def)
  have w: "writes ?cs \<noteq> []" by (rule ex_calls_writes)
  have c: "adapter_of ex_funded \<noteq> 0" "\<forall>v. cw_withdraw (ex_world True) (adapter_of ex_funded) v \<noteq> Some 0"
    "bv_crosschainVaults (ch_base ex_funded) (cp_parentChainSelector ex_child_params) \<noteq> 0"
    by (simp_all add: ex_child_defs ex_child_params_def del: ex_world_facts(7))
  have n: "u256 (2::int)" "u256 (600000::int)" by simp_all
  from submitted_withdraw_handled_once [OF ex_funded_reachable rd ex_codecs ex_funded_observed ex_funded_unblocked ex_decoders(1) n run w
      ex_worlds(1,2) ex_world_facts(1,2) c, of 5]
  show ?thesis using run w unfolding append_Nil by blast
qed

text \<open>
  C16: A rebalance that the workflow asks for is carried out once. When the snapshot shows a reachable child that is not blocked
  and the handler submits, the vault's transaction with the event's nonce and destination succeeds, provided the strategy
  pays anything at all, the destination is set up and the bridge does not refuse for good: the rebalance is new and is tracked from
  then on. In every later state of the vault a redelivered event causes no write, and the vault refuses the call.
\<close>

theorem submitted_rebalance_handled_once:
  assumes "child_reachable P c" "ready E config s p" "parent_NewCodec E = Ok pc" "child_NewCodec E = Ok cc"
    and "observes_child s P c" "BlockedReason s config = []"
    and "DecodeRebalanceInitiated E pc lg = Ok \<lparr>ri_RebalanceNonce = Some n, ri_ProtocolId = st_ProtocolId dest,
      ri_ChainSelector = st_ChainSelector dest\<rparr>" "u256 n" "length (st_ProtocolId dest) = 32"
    and "OnRebalanceInitiated E config lg s src tr = (r, tr @ cs)" "writes cs \<noteq> []"
    and "wf_world W" "within_capacity P W" "\<not> cw_paused W" "cw_hasRole W REBALANCE_OPERATOR_ROLE caller"
    and "adapter_of c \<noteq> 0" "\<forall>v. cw_withdraw W (adapter_of c) v \<noteq> Some 0"
    and "if st_ChainSelector dest = cp_thisChainSelector P
      then cw_getAdapter W (st_ProtocolId dest) \<noteq> 0 \<and> cw_getVault W (cw_getAdapter W (st_ProtocolId dest)) = cp_this P
      else bv_crosschainVaults (ch_base c) (st_ChainSelector dest) \<noteq> 0"
  shows "\<exists>t d. ec_ChainSelector t = cp_thisChainSelector P \<and>
    sends E t (sn_ObservedAt s) (EncodeExecuteRebalanceMethodCall cc \<lparr>er_RebalanceNonce = Some n, er_NewStrategy = dest\<rparr>) cs \<and>
    executeRebalance P W caller n dest c = Inr ((), d) \<and> child_reachable P d \<and> RebalanceJob n \<notin> tracked c \<and> RebalanceJob n \<in> tracked d \<and>
    (\<forall>e s' tr' r' tr''. child_steps P d e \<and> ready E config s' p \<and> observes_child s' P e \<and>
       OnRebalanceInitiated E config lg s' src tr' = (r', tr'') \<longrightarrow> writes tr'' = writes tr') \<and>
    (\<forall>e W' caller' dest'. child_steps P d e \<longrightarrow> (\<exists>err. executeRebalance P W' caller' n dest' e = Inl err))"
proof -
  let ?op = "Call_executeRebalance caller n dest"
  have quiet: "(\<exists>t. execute_due E config p s' lg src n dest t \<and>
      OnRebalanceInitiated E config lg s' src = execute_report cc t s' n dest (SubmitReport E)) \<or> writes tr'' = writes tr'"
    if "ready E config s' p" "OnRebalanceInitiated E config lg s' src tr' = (r', tr'')" for s' tr' r' tr''
    using rebalance_initiated_exact [OF that(1) assms(3,4,7), of src "SubmitReport E"] idle_quiet that(2)
    unfolding OnRebalanceInitiated_def by (metis (no_types, lifting))
  obtain t where due: "execute_due E config p s lg src n dest t"
      and report: "OnRebalanceInitiated E config lg s src = execute_report cc t s n dest (SubmitReport E)"
    using quiet [OF assms(2,10)] assms(11) by auto
  note t = execute_due_child [OF assms(2,5) due]
  have sent: "sends E t (sn_ObservedAt s) (EncodeExecuteRebalanceMethodCall cc \<lparr>er_RebalanceNonce = Some n, er_NewStrategy = dest\<rparr>) cs"
    using spec_io_run [OF report.report_call_sends assms(10) [unfolded report execute_report_def]] assms(11) by blast
  have "accepting W REBALANCE_OPERATOR_ROLE caller c"
    using unblocked_child_idle [OF assms(5,6), of t] t assms(14-17) by (simp add: accepting_def)
  from executeRebalance_accepted [OF this assms(13,18), of n] t obtain d where
    run: "executeRebalance P W caller n dest c = Inr ((), d)" by (auto simp: specC_False)
  then have step: "child_exec P W ?op c = Inr ((), d)" "wf_child_op ?op" "op_job ?op = Some (RebalanceJob n)" using assms(8,9) by simp_all
  note job = job_accepted [OF assms(1) step(2) assms(12) step(1,3)]
  have "writes tr'' = writes tr'" if "child_steps P d e" "ready E config s' p" "observes_child s' P e"
    "OnRebalanceInitiated E config lg s' src tr' = (r', tr'')" for e s' tr' r' tr''
    using quiet [OF that(2,4)] execute_due_child [OF that(2,3), of lg src n dest] job(4) [OF that(1)] by (force simp: handled_nonces)
  moreover have "\<exists>err. executeRebalance P W' caller' n dest' e = Inl err" if "child_steps P d e" for e W' caller' dest'
    using handled_reverts [of e "RebalanceJob n" "Call_executeRebalance caller' n dest'" P W'] job(4) [OF that] by simp
  ultimately show ?thesis using t sent run job(1-3) by blast
qed

theorem submitted_rebalance_handled_once_witness:
  "\<exists>cs d. OnRebalanceInitiated ex_env ex_config (Some (ex_log ex_parent ''RebalanceInitiated''))
       (ex_funded_snapshot ex_rebalance_store) 15971525489660198786 [] = (Ok \<lparr>xr_Result = ''submitted executeRebalance''\<rparr>, cs) \<and>
     writes cs \<noteq> [] \<and> executeRebalance ex_child_params (ex_world True) 5 4 (ex_strategy 15971525489660198786) ex_funded = Inr ((), d) \<and>
     RebalanceJob 4 \<in> tracked d"
proof -
  let ?s = "ex_funded_snapshot ex_rebalance_store" and ?lg = "Some (ex_log ex_parent ''RebalanceInitiated'')"
  let ?dest = "ex_strategy 15971525489660198786"
  let ?cs = "ex_calls ex_child (ex_payload ex_child (replicate 8 16)) @ [HLog ''Submitted executeRebalance'']"
  have rd: "ready ex_env ex_config ?s ex_parent" by (rule ex_funded_ready) simp
  have src: "MatchSource ex_env ex_config ?lg 15971525489660198786 15971525489660198786"
    using ex_match_source [of ex_parent] by simp
  have evt: "DecodeRebalanceInitiated ex_env \<lparr>codec_abi = ex_abi\<rparr> ?lg =
      Ok \<lparr>ri_RebalanceNonce = Some 4, ri_ProtocolId = st_ProtocolId ?dest, ri_ChainSelector = st_ChainSelector ?dest\<rparr>"
    by (simp add: ex_decoders ex_strategy_def)
  have due: "execute_due ex_env ex_config ex_parent ?s ?lg 15971525489660198786 4 ?dest t \<longleftrightarrow> t = ex_child" for t
    using src by (auto simp: execute_due_def Let_def ex_funded_snapshot_def ex_snapshot_defs ex_store_defs child_of_def)
  have at: "sn_ObservedAt ?s = 10000" by (simp add: ex_funded_snapshot_def ex_snapshot_def)
  have run: "OnRebalanceInitiated ex_env ex_config ?lg ?s 15971525489660198786 [] =
      (Ok \<lparr>xr_Result = ''submitted executeRebalance''\<rparr>, [] @ ?cs)"
    using rebalance_initiated_exact [OF rd ex_codecs evt, of 15971525489660198786 "SubmitReport ex_env"]
      ex_report [of ex_child "replicate 8 16"]
    by (simp add: due OnRebalanceInitiated_def execute_report_def at EncodeExecuteRebalanceMethodCall_def)
  have w: "writes ?cs \<noteq> []" by (rule ex_calls_writes)
  have c: "adapter_of ex_funded \<noteq> 0" "\<forall>v. cw_withdraw (ex_world True) (adapter_of ex_funded) v \<noteq> Some 0"
    "if st_ChainSelector ?dest = cp_thisChainSelector ex_child_params
      then cw_getAdapter (ex_world True) (st_ProtocolId ?dest) \<noteq> 0 \<and>
        cw_getVault (ex_world True) (cw_getAdapter (ex_world True) (st_ProtocolId ?dest)) = cp_this ex_child_params
      else bv_crosschainVaults (ch_base ex_funded) (st_ChainSelector ?dest) \<noteq> 0"
    by (simp_all add: ex_child_defs ex_child_params_def ex_strategy_def del: ex_world_facts(7))
  have n: "u256 (4::int)" "length (st_ProtocolId ?dest) = 32" by (simp_all add: ex_strategy_def)
  from submitted_rebalance_handled_once [OF ex_funded_reachable rd ex_codecs ex_funded_observed ex_funded_unblocked evt n run w
      ex_worlds(1,2) ex_world_facts(1,2) c, of 5]
  show ?thesis using run w unfolding append_Nil by blast
qed

end
