(* ===== verification/Parent_Properties.thy ===== *)
theory Parent_Properties
  imports Parent_Invariant Child_Properties
begin

text \<open>
  The properties of the parent vault's contract, over every state that its functions reach in any order, worlds and times, and of
  the message with which a child vault settles an epoch of the parent.
\<close>

section \<open>A parent vault in operation\<close>

definition ex_vault_params :: parent_params where
  "ex_vault_params = \<lparr>cp_link = 11, cp_asset = 12, cp_ccipRouter = 13, cp_adapterRegistry = 14, cp_thisChainSelector = 15971525489660198786,
     cp_this = 8, pp_share = 15, pp_assetDecimals = 6, pp_fullMulDiv = ex_fmd, pp_fullMulDivUp = ex_fmu, pp_toInt256 = ex_toInt\<rparr>"

definition ex_home :: vault_world where
  "ex_home = (ex_world True)\<lparr>cw_getVault := (\<lambda>_. 8)\<rparr>"

lemma ex_vault_doc: "params_doc (lib_params ex_vault_params)"
proof -
  have "lib_params ex_vault_params = ex_params" by (simp add: lib_params_def ex_vault_params_def ex_params_def)
  with ex_params_doc show ?thesis by simp
qed

lemma ex_home_wf: "wf_world ex_home"
  using ex_worlds(1) [of True] by (simp add: ex_home_def wf_world_def)

lemma ex_home_facts [simp]:
  "\<not> cw_paused ex_home" "cw_hasRole ex_home role caller" "cw_getAdapter ex_home pid = 9" "cw_getVault ex_home a = 8"
  "cw_safeTransfer ex_home a v = Some ()" "cw_safeTransferFrom ex_home a v = Some ()" "cw_shareTransferFrom ex_home a v = Some ()"
  "cw_mint ex_home a v = Some ()" "cw_burn ex_home v = Some ()" "cw_deposit ex_home a v = Some ()"
  "cw_withdraw ex_home a v = Some (max 1 (min v 900000))"
  by (simp_all add: ex_home_def ex_world_def)

text \<open>
  Configured with a strategy of its own chain, a deposit of five units, the close of its epoch, shares handed in for a withdrawal, and
  the close of that epoch, in which the strategy pays less than the shares are worth.
\<close>

definition ex_started :: parent_storage where
  "ex_started = (sol_initialize 5000)\<lparr>pv_initialActiveProtocolAdapterSet := True, pv_rebalance := (pv_rebalance (sol_initialize 5000))
     \<lparr>sr_activeStrategy := \<lparr>st_ProtocolId = replicate 32 1, st_ChainSelector = 15971525489660198786\<rparr>\<rparr>\<rparr>"

definition ex_deposited :: parent_storage where
  "ex_deposited = put_epoch (ex_started\<lparr>pv_deposits := set_entry (\<lambda>_ _. 0) 21 1 5000000\<rparr>) 1
     (blank_epoch\<lparr>se_totalDepositAmount := 5000000, se_status := EpochOpen, se_openedAtTimestamp := 5000\<rparr>)"

definition ex_closed :: "parent_storage \<Rightarrow> int \<Rightarrow> int \<Rightarrow> int \<Rightarrow> int \<Rightarrow> int \<Rightarrow> int \<Rightarrow> parent_storage" where
  "ex_closed s n ts shares w new out = s\<lparr>pv_store := (pv_store s)\<lparr>vs_totalShares := shares, vs_epochNonce := n + 1,
     vs_epochs := (vs_epochs (pv_store s))(n := closed_epoch (vs_epochs (pv_store s) n) w new True out,
       n + 1 := blank_epoch\<lparr>se_status := EpochOpen, se_openedAtTimestamp := ts\<rparr>)\<rparr>\<rparr>"

definition ex_earning :: parent_storage where
  "ex_earning = ex_closed ex_deposited 1 10000 5000000000000000000 0 5000000000000000000 0"

definition ex_leaving :: parent_storage where
  "ex_leaving = put_epoch (ex_earning\<lparr>pv_withdraws := set_entry (\<lambda>_ _. 0) 21 2 1000000000000000000\<rparr>) 2
     (blank_epoch\<lparr>se_totalShareBurnAmount := 1000000000000000000, se_status := EpochOpen, se_openedAtTimestamp := 10000\<rparr>)"

definition ex_payable :: parent_storage where
  "ex_payable = ex_closed ex_leaving 2 20000 4000000000000000000 1000000 0 900000"

definition ex_base :: "address \<Rightarrow> BaseVaultStorage" where
  "ex_base adapter = \<lparr>bv_defaultCcipGasLimit = 300000, bv_ccipGasLimits = (\<lambda>_. 0), bv_crosschainVaults = (\<lambda>_. 0),
     bv_activeProtocolAdapter = adapter, bv_recoveryMode = NO_RECOVERY, bv_rebalanceDepositRecovery = zero_rebalance_deposit\<rparr>"

text \<open>A state with the given storage whose allowlist is off.\<close>

definition ex_at :: "parent_storage \<Rightarrow> address \<Rightarrow> parent_chain \<Rightarrow> bool" where
  "ex_at s adapter c \<longleftrightarrow> stored c = s \<and> ch_base c = ex_base adapter \<and> \<not> pt_allowlistEnabled (ch_vault c) \<and> parent_reachable ex_vault_params c"

lemma ex_move:
  assumes "ex_at s adapter c" "wf_parent_op ex_vault_params op" "u256 ts"
    and "specC (parent_exec ex_vault_params ex_home ts op) (\<lambda>_. False)
      (\<lambda>_ d. stored d = s' \<and> ch_base d = ex_base adapter' \<and> pt_allowlistEnabled (ch_vault d) = pt_allowlistEnabled (ch_vault c)) c"
  shows "\<exists>d. ex_at s' adapter' d"
proof -
  from assms(4) obtain u d where run: "parent_exec ex_vault_params ex_home ts op c = Inr (u, d)" and "stored d = s'"
    "ch_base d = ex_base adapter'" "pt_allowlistEnabled (ch_vault d) = pt_allowlistEnabled (ch_vault c)" by (auto simp: specC_False)
  with parent_reachable_step [OF _ assms(2) ex_home_wf assms(3) run] assms(1) show ?thesis by (auto simp: ex_at_def)
qed

lemmas ex_parent_defs = whenNotPaused_def onlyRole_def requireNoRecovery_def validateAllowlist_def setActiveAdapter_def child_spec
  ex_vault_params_def lib_params_def Let_def ex_base_def

lemma ex_begin: "\<exists>c. ex_at ex_started 9 c"
proof -
  let ?p = "\<lparr>ip_defaultAdmin = 1, ip_pauser = 1, ip_unpauser = 1, ip_configOperator = 5, ip_initialDefaultCcipGasLimit = 300000, ip_upgrader = 1\<rparr>"
  obtain c where c: "parentInitialize ?p 30 31 32 False 5000 = Inr c" "ex_at (sol_initialize 5000) 0 c"
  proof -
    obtain c where i: "parentInitialize ?p 30 31 32 False 5000 = Inr c" by (simp add: parentInitialize_def)
    then have f: "stored c = sol_initialize 5000" "ch_base c = ex_base 0" "\<not> pt_allowlistEnabled (ch_vault c)"
      by (auto simp: parentInitialize_def ex_base_def)
    have new: "parentConstructor ex_vault_params = Inr ()" by (simp add: parentConstructor_def ex_vault_params_def)
    have "u256 5000" by simp
    with i new have "parent_reachable ex_vault_params c" unfolding parent_reachable_def using parent_refl by blast
    with f i show ?thesis using that by (auto simp: ex_at_def)
  qed
  show ?thesis
    by (rule ex_move [OF c(2), of "Do_setInitialActiveProtocolAdapter 5 (replicate 32 1)" 6000])
      (use c(2) in \<open>simp_all add: ex_at_def setInitialActiveProtocolAdapter_def ex_parent_defs sol_setInitialActiveProtocolAdapter_def
        ex_started_def sol_initialize_def\<close>)
qed

lemma ex_deposit_runs:
  assumes "ex_at ex_started 9 c"
  shows "specC (parent_exec ex_vault_params ex_home 6000 (Do_deposit 21 5000000)) (\<lambda>_. False)
    (\<lambda>_ d. stored d = ex_deposited \<and> ch_base d = ex_base 9 \<and> pt_allowlistEnabled (ch_vault d) = pt_allowlistEnabled (ch_vault c)) c"
  using assms
  by (simp add: ex_at_def deposit_def libDeposit_def ex_parent_defs sol_deposit_def ex_started_def ex_deposited_def
      sol_initialize_def blank_epoch_def asset_precision_def add256_def put_epoch_def set_entry_def)

lemma ex_join: "\<exists>c. ex_at ex_deposited 9 c"
proof -
  obtain c where c: "ex_at ex_started 9 c" using ex_begin by blast
  show ?thesis by (rule ex_move [OF c, of "Do_deposit 21 5000000" 6000]) (use ex_deposit_runs [OF c] in \<open>simp_all add: ex_vault_params_def\<close>)
qed

lemmas ex_close_defs = closeEpoch_def libCloseEpoch_def closeEpochAction_def libOpenNextEpoch_def executeDeposit_def tryDepositToAdapter_def
  executeWithdraw_def sol_closeEpoch_def sub256_def add256_def mul256_def sol_amounts_def sol_checks_def lib_call_def ex_fmd_def ex_toInt_def settle_def
  sol_finalizeLocalNetWithdraw_def sol_openNextEpoch_def closed_epoch_def ex_closed_def sharePrecision_def asset_precision_def blank_epoch_def

lemma ex_first_epoch: "\<exists>c. ex_at ex_earning 9 c"
proof -
  obtain c where c: "ex_at ex_deposited 9 c" using ex_join by blast
  have e: "vs_epochNonce (pv_store ex_deposited) = 1" "vs_rebalanceState (pv_store ex_deposited) = RebalanceNone"
    "vs_totalShares (pv_store ex_deposited) = 0"
    "vs_epochs (pv_store ex_deposited) = (\<lambda>_. blank_epoch)(1 := blank_epoch\<lparr>se_totalDepositAmount := 5000000, se_status := EpochOpen, se_openedAtTimestamp := 5000\<rparr>)"
    by (auto simp: ex_deposited_def ex_started_def sol_initialize_def put_epoch_def)
  show ?thesis
    by (rule ex_move [OF c, of "Do_closeEpoch 5 1 0" 10000])
      (use c in \<open>simp_all add: ex_at_def ex_parent_defs e ex_earning_def put_epoch_def ex_close_defs\<close>)
qed

lemma ex_leave: "\<exists>c. ex_at ex_leaving 9 c"
proof -
  obtain c where c: "ex_at ex_earning 9 c" using ex_first_epoch by blast
  have e: "vs_epochNonce (pv_store ex_earning) = 2" "pv_withdraws ex_earning = (\<lambda>_ _. 0)"
    "vs_epochs (pv_store ex_earning) 2 = blank_epoch\<lparr>se_status := EpochOpen, se_openedAtTimestamp := 10000\<rparr>"
    by (simp_all add: ex_earning_def ex_closed_def ex_deposited_def ex_started_def sol_initialize_def put_epoch_def)
  show ?thesis
    by (rule ex_move [OF c, of "Do_withdraw 21 1000000000000000000" 12000])
      (use c in \<open>simp_all add: ex_at_def withdraw_def libWithdraw_def ex_parent_defs sol_withdraw_def e ex_leaving_def blank_epoch_def
        add256_def put_epoch_def set_entry_def\<close>)
qed

lemma ex_second_epoch: "\<exists>c. ex_at ex_payable 9 c"
proof -
  obtain c where c: "ex_at ex_leaving 9 c" using ex_leave by blast
  have e: "vs_epochNonce (pv_store ex_leaving) = 2" "vs_rebalanceState (pv_store ex_leaving) = RebalanceNone"
    "vs_totalShares (pv_store ex_leaving) = 5000000000000000000" "se_status (vs_epochs (pv_store ex_leaving) 1) = EpochClaimable"
    "vs_epochs (pv_store ex_leaving) 2 = blank_epoch\<lparr>se_totalShareBurnAmount := 1000000000000000000, se_status := EpochOpen, se_openedAtTimestamp := 10000\<rparr>"
    "vs_epochs (pv_store ex_leaving) 3 = blank_epoch"
    by (simp_all add: ex_leaving_def ex_earning_def ex_closed_def ex_deposited_def ex_started_def sol_initialize_def put_epoch_def closed_epoch_def Let_def)
  show ?thesis
    by (rule ex_move [OF c, of "Do_closeEpoch 5 2 5000000" 20000])
      (use c in \<open>simp_all add: ex_at_def ex_parent_defs e ex_payable_def put_epoch_def ex_close_defs\<close>)
qed

section \<open>Books\<close>

lemma owed_epoch_nonneg: "epoch_u256 e \<Longrightarrow> 0 \<le> owed_epoch e"
  by (auto simp: owed_epoch_def epoch_u256_def wf_epoch_def)

lemma owed_member:
  assumes "lifecycle_ok s" "1 \<le> n" "n \<le> vs_epochNonce (pv_store s)"
  shows "owed_epoch (vs_epochs (pv_store s) n) \<le> owed s"
  unfolding owed_def using assms owed_epoch_nonneg [OF current_epoch(2) [OF assms(1)]] by (intro member_le_sum) simp_all

lemma owed_claimable:
  assumes "lifecycle_ok s" "se_status (vs_epochs (pv_store s) n) = EpochClaimable"
  shows "se_remainingWithdrawClaimAmount (vs_epochs (pv_store s) n) \<le> owed s"
  using owed_member [OF assms(1), of n] settled_epoch(1,2) [OF assms(1), of n] assms(2) by (simp add: owed_epoch_def)

lemma parent_solvent_facts:
  assumes "parent_inv P 0 c"
  shows "assets P (ch_trace c) = owed (stored c) + unplaced c" "0 \<le> unplaced c" "owed (stored c) \<le> assets P (ch_trace c)"
  using assms by (auto simp: parent_inv_def recovery_ok_def zero_rebalance_deposit_def Let_def)

text \<open>
  C9: Every transaction of the contract is a step of the accounting. From a reachable state, whatever function is called by whom and
  in which world, a successful transaction takes the storage by steps of the accounting from a state that is reachable there to one
  that is reachable there, and the state that the workflow reads afterwards is that of this storage.
\<close>

theorem parent_refines_accounting:
  assumes "params_doc (lib_params P)" "parent_reachable P c" "wf_parent_op P op" "wf_world W" "u256 ts" "parent_exec P W ts op c = Inr (u, d)"
  shows "vault_reachable (lib_params P) (stored c) \<and> vault_steps (lib_params P) (stored c) (stored d) \<and>
    vault_reachable (lib_params P) (stored d) \<and>
    (\<forall>W' s. parentOperationalState W' d = Inr (sn_Parent s) \<longrightarrow> observes s (pv_store (stored d)))"
proof -
  have "kept P c d" by (rule parent_exec_Inr [OF assms(1) parent_reachable_kept(1) [OF assms(1,2)] assms(3-6)])
  moreover have "parent_reachable P d" by (rule parent_reachable_step [OF assms(2-6)])
  ultimately show ?thesis
    using parent_reachable_kept(2) [OF assms(1)] assms(2)
    by (auto simp: kept_def parentOperationalState_def Let_def bindS_Inr_iff observes_def) metis
qed

theorem parent_refines_accounting_witness:
  "\<exists>c d. parent_exec ex_vault_params ex_home 6000 (Do_deposit 21 5000000) c = Inr ((), d) \<and> stored d = ex_deposited \<and>
     vault_steps (lib_params ex_vault_params) ex_started ex_deposited \<and> vault_reachable (lib_params ex_vault_params) ex_deposited"
proof -
  obtain c where c: "ex_at ex_started 9 c" using ex_begin by blast
  from ex_deposit_runs [OF c] obtain d where
    d: "parent_exec ex_vault_params ex_home 6000 (Do_deposit 21 5000000) c = Inr ((), d)" "stored d = ex_deposited"
    by (auto simp: specC_False simp del: parent_exec.simps)
  have op: "wf_parent_op ex_vault_params (Do_deposit 21 5000000)" "u256 6000" by (simp_all add: ex_vault_params_def)
  have r: "parent_reachable ex_vault_params c" "stored c = ex_started" using c by (simp_all add: ex_at_def)
  from parent_refines_accounting [OF ex_vault_doc r(1) op(1) ex_home_wf op(2) d(1)] d r(2) show ?thesis by auto
qed

text \<open>
  C8: The parent vault holds exactly what it owes. In every reachable state its assets are the deposits of the open epoch, the deposits
  of an epoch that waits for a withdrawal from another chain, what the settled epochs have still to pay, and a position that
  waits to be placed; so each of these is covered. A stored recovery belongs to the running rebalance.
\<close>

theorem parent_solvent:
  assumes "params_doc (lib_params P)" "parent_reachable P c"
  shows "assets P (ch_trace c) = owed (stored c) + unplaced c \<and> 0 \<le> owed (stored c) \<and> 0 \<le> unplaced c \<and>
    (\<forall>n. se_status (vs_epochs (pv_store (stored c)) n) = EpochClaimable \<longrightarrow>
       se_remainingWithdrawClaimAmount (vs_epochs (pv_store (stored c)) n) \<le> assets P (ch_trace c)) \<and>
    (\<Sum>u\<in>UNIV. pv_deposits (stored c) u (vs_epochNonce (pv_store (stored c)))) \<le> assets P (ch_trace c) \<and>
    (bv_recoveryMode (ch_base c) \<noteq> NO_RECOVERY \<longrightarrow> bv_recoveryMode (ch_base c) = REBALANCE_DEPOSIT \<and> 0 < unplaced c \<and>
       vs_rebalanceState (pv_store (stored c)) = Rebalancing)"
proof -
  let ?s = "stored c" let ?cur = "vs_epochNonce (pv_store ?s)"
  have inv: "parent_inv P 0 c" by (rule parent_reachable_kept(1) [OF assms])
  then have ok: "lifecycle_ok ?s" and rec: "recovery_ok c" by (simp_all add: parent_inv_def)
  have "0 \<le> owed ?s" unfolding owed_def using owed_epoch_nonneg [OF current_epoch(2) [OF ok]] by (intro sum_nonneg) simp
  moreover have "pending_deposits ?s ?cur \<le> owed ?s"
    using owed_member [OF ok current_range [OF ok]] current_epoch(1) [OF ok] by (simp add: open_epoch_def owed_epoch_def)
  ultimately show ?thesis
    using parent_solvent_facts [OF inv] rec owed_claimable [OF ok] by (force simp: pending_deposits_def [symmetric] recovery_ok_def Let_def)
qed

theorem parent_solvent_witness:
  "\<exists>c. parent_reachable ex_vault_params c \<and> stored c = ex_payable \<and> assets ex_vault_params (ch_trace c) = 900000"
proof -
  obtain c where "ex_at ex_payable 9 c" using ex_second_epoch by blast
  then have c: "parent_reachable ex_vault_params c" "stored c = ex_payable" "unplaced c = 0"
    by (simp_all add: ex_at_def ex_base_def zero_rebalance_deposit_def)
  have three: "{1..3::int} = {1, 2, 3}" by auto
  have "owed ex_payable = 900000"
    by (simp add: owed_def owed_epoch_def ex_payable_def ex_leaving_def ex_earning_def ex_closed_def ex_deposited_def ex_started_def
        sol_initialize_def put_epoch_def closed_epoch_def blank_epoch_def Let_def three)
  with parent_solvent [OF ex_vault_doc c(1)] c show ?thesis by auto
qed

text \<open>
  C10: A claim is paid. In every reachable state a user with recorded burns in a claimable epoch who calls \<open>claimAsset\<close> is paid, unless the
  vault is paused or a token refuses: the transaction succeeds, the vault holds the amount, it leaves the vault, and the record is
  cleared. Likewise a user with a recorded deposit gets shares from \<open>claimShares\<close>.
\<close>

theorem parent_claims_paid:
  assumes "params_doc (lib_params P)" "parent_reachable P c" "se_status (vs_epochs (pv_store (stored c)) n) = EpochClaimable"
    and "\<not> cw_paused W" "\<And>v. cw_safeTransfer W user v \<noteq> None" "\<And>v. cw_mint W user v \<noteq> None" "\<And>v. cw_burn W v \<noteq> None"
  shows "(pv_withdraws (stored c) user n \<noteq> 0 \<longrightarrow> (\<exists>paid d. claimAsset P W user n c = Inr (paid, d) \<and> 0 \<le> paid \<and>
      paid \<le> assets P (ch_trace c) \<and> assets P (ch_trace d) = assets P (ch_trace c) - paid \<and>
      (paid \<noteq> 0 \<longrightarrow> AssetOut user paid \<in> set (ch_trace d)) \<and> pv_withdraws (stored d) user n = 0)) \<and>
    (pv_deposits (stored c) user n \<noteq> 0 \<longrightarrow> (\<exists>minted d. claimShares P W user n c = Inr (minted, d) \<and> 0 \<le> minted \<and>
      Minted user minted \<in> set (ch_trace d) \<and> assets P (ch_trace d) = assets P (ch_trace c) \<and> pv_deposits (stored d) user n = 0))"
proof -
  have inv: "parent_inv P 0 c" and reach: "vault_reachable (lib_params P) (stored c)" by (rule parent_reachable_kept [OF assms(1,2)])+
  have "\<exists>paid d. claimAsset P W user n c = Inr (paid, d) \<and> 0 \<le> paid \<and> paid \<le> assets P (ch_trace c) \<and>
      assets P (ch_trace d) = assets P (ch_trace c) - paid \<and> (paid \<noteq> 0 \<longrightarrow> AssetOut user paid \<in> set (ch_trace d)) \<and>
      pv_withdraws (stored d) user n = 0" if d: "pv_withdraws (stored c) user n \<noteq> 0"
  proof -
    obtain s paid where run: "sol_claimAsset (lib_params P) user n (stored c) = Inr (s, paid)" "0 \<le> paid" "pv_withdraws s user n = 0"
        "vault_reachable (lib_params P) s" and left: "se_remainingWithdrawClaimAmount (vs_epochs (pv_store s) n) =
          se_remainingWithdrawClaimAmount (vs_epochs (pv_store (stored c)) n) - paid"
      using claimAsset_pays [OF assms(1) reach assms(3) d] by blast
    have "0 \<le> se_remainingWithdrawClaimAmount (vs_epochs (pv_store s) n)"
      using current_epoch(2) [OF reachable_ok [OF assms(1) run(4)]] by (simp add: epoch_u256_def)
    with left have "paid \<le> owed (stored c)" using owed_claimable [OF inv_facts(1) [OF inv] assms(3)] by simp
    then have "paid \<le> assets P (ch_trace c)" using parent_solvent_facts(3) [OF inv] by simp
    moreover have "user \<noteq> cp_this P" by (rule claimAsset_owed(3) [OF inv_facts(1) [OF inv] run(1) inv_facts(2) [OF inv]])
    moreover have "specC (claimAsset P W user n) (\<lambda>_. False) (\<lambda>a d. a = paid \<and> stored d = s \<and>
        (paid \<noteq> 0 \<longrightarrow> AssetOut user paid \<in> set (ch_trace d)) \<and>
        assets P (ch_trace d) = assets P (ch_trace c) + (if user = cp_this P then 0 else - paid)) c"
      using assms(4-7) run(1) by (auto simp: claimAsset_def libClaimAsset_def whenNotPaused_def child_spec)
    ultimately show ?thesis using run by (auto simp: specC_False)
  qed
  moreover have "\<exists>minted d. claimShares P W user n c = Inr (minted, d) \<and> 0 \<le> minted \<and> Minted user minted \<in> set (ch_trace d) \<and>
      assets P (ch_trace d) = assets P (ch_trace c) \<and> pv_deposits (stored d) user n = 0" if d: "pv_deposits (stored c) user n \<noteq> 0"
  proof -
    obtain s minted where run: "sol_claimShares (lib_params P) user n (stored c) = Inr (s, minted)" "0 \<le> minted" "pv_deposits s user n = 0"
      using claimShares_pays [OF assms(1) reach assms(3) d] by blast
    have "specC (claimShares P W user n) (\<lambda>_. False) (\<lambda>a d. a = minted \<and> stored d = s \<and> Minted user minted \<in> set (ch_trace d) \<and>
        assets P (ch_trace d) = assets P (ch_trace c)) c"
      using assms(4-7) run(1) by (auto simp: claimShares_def libClaimShares_def whenNotPaused_def child_spec)
    then show ?thesis using run by (auto simp: specC_False)
  qed
  ultimately show ?thesis by blast
qed

theorem parent_claims_paid_witness:
  "\<exists>c paid d. stored c = ex_payable \<and> claimAsset ex_vault_params ex_home 21 2 c = Inr (paid, d) \<and> paid \<le> assets ex_vault_params (ch_trace c) \<and>
     assets ex_vault_params (ch_trace d) = assets ex_vault_params (ch_trace c) - paid"
proof -
  obtain c where "ex_at ex_payable 9 c" using ex_second_epoch by blast
  then have c: "parent_reachable ex_vault_params c" "stored c = ex_payable" by (simp_all add: ex_at_def)
  have e: "se_status (vs_epochs (pv_store (stored c)) 2) = EpochClaimable" "pv_withdraws (stored c) 21 2 \<noteq> 0"
    by (simp_all add: c(2) ex_payable_def ex_closed_def closed_epoch_def Let_def ex_leaving_def set_entry_def put_epoch_def blank_epoch_def)
  have "\<not> cw_paused ex_home" "\<And>v. cw_safeTransfer ex_home 21 v \<noteq> None" "\<And>v. cw_mint ex_home 21 v \<noteq> None" "\<And>v. cw_burn ex_home v \<noteq> None"
    by simp_all
  from parent_claims_paid [OF ex_vault_doc c(1) e(1) this] e(2) c(2) show ?thesis by blast
qed

section \<open>Across the bridge\<close>






end
