(* ===== verification/Router_Registry.thy ===== *)
theory Router_Registry
  imports Report_Model
begin

text \<open>
  The rest of \<open>evm/src/modules/WorkflowRouter.sol\<close>: construction, registration of workflows, their selectors, and pausing. The
  contract indexes the allowed selectors by a generation that every registration advances, so that clearing them needs no
  loop. \<open>registry_of\<close> is the contract's promise, read off its event log: which workflows are registered and which calls each may
  make since its last registration. The storage implements it in every reachable state, and \<open>onReport\<close> forwards exactly
  what it authorises. Roles are granted and revoked by an inherited library; the state machine lets them change at will.
\<close>

section \<open>State\<close>

datatype router_event = WorkflowMetadataSet "byte list" "byte list" "byte list" | WorkflowSelectorSet "byte list" "byte list" bool
  | RouterPaused address | RouterUnpaused address

record router_state =
  rt_router :: router
  rt_pausers :: "address list"
  rt_unpausers :: "address list"
  rt_configOperators :: "address list"
  rt_events :: "router_event list"

record RouterConstructorParams =
  rp_initialDelay :: nat
  rp_defaultAdmin :: address
  rp_pauser :: address
  rp_unpauser :: address
  rp_configOperator :: address
  rp_keystoneForwarder :: address
  rp_vault :: address

text \<open>The constructor; \<open>chainSelector\<close> is the vault's answer and \<open>this\<close> the router's own address.\<close>

definition routerConstructor :: "(address \<Rightarrow> uint64) \<Rightarrow> address \<Rightarrow> RouterConstructorParams \<Rightarrow> router_error + router_state" where
  "routerConstructor getThisChainSelector this p =
     (if rp_defaultAdmin p = 0 then Inl (InvalidDefaultAdmin 0)
      else if rp_pauser p = 0 \<or> rp_unpauser p = 0 \<or> rp_configOperator p = 0 \<or> rp_keystoneForwarder p = 0 \<or> rp_vault p = 0
      then Inl RouterNoZeroAddress
      else let chainSelector = getThisChainSelector (rp_vault p)
           in if chainSelector = 0 then Inl RouterNoZeroChainSelector
              else Inr \<lparr>rt_router = \<lparr>ro_paused = False, ro_forwarders = [rp_keystoneForwarder p],
                  ro_metadata = (\<lambda>_. (replicate 10 0, replicate 20 0)), ro_generations = (\<lambda>_. 0), ro_selectors = (\<lambda>_ _ _. False),
                  ro_thisChainSelector = chainSelector, ro_address = this\<rparr>,
                rt_pausers = [rp_pauser p], rt_unpausers = [rp_unpauser p], rt_configOperators = [rp_configOperator p], rt_events = []\<rparr>)"

definition setWorkflowMetadata :: "address \<Rightarrow> byte list \<Rightarrow> byte list \<Rightarrow> byte list \<Rightarrow> router_state \<Rightarrow> router_error + router_state" where
  "setWorkflowMetadata caller workflowId name owner st =
     (let R = rt_router st; isRemoval = all_zero name \<and> all_zero owner
      in if caller \<notin> set (rt_configOperators st) then Inl (Unauthorized caller)
         else if all_zero workflowId then Inl NoZeroWorkflowId
         else if \<not> isRemoval \<and> (all_zero name \<or> all_zero owner) then Inl (MetadataZero workflowId name owner)
         else if ro_metadata R workflowId = (name, owner) then Inl (MetadataUnchanged workflowId name owner)
         else if ro_generations R workflowId + 1 \<ge> 2 ^ 256 then Inl RouterOverflow
         else Inr (st\<lparr>rt_router := R\<lparr>ro_generations := (ro_generations R)(workflowId := ro_generations R workflowId + 1),
                                    ro_metadata := (ro_metadata R)(workflowId := (name, owner))\<rparr>,
                      rt_events := rt_events st @ [WorkflowMetadataSet workflowId name owner]\<rparr>))"

text \<open>The loop of \<open>setWorkflowSelectors\<close>.\<close>

primrec set_selectors :: "byte list \<Rightarrow> nat \<Rightarrow> bool \<Rightarrow> byte list list \<Rightarrow> router_state \<Rightarrow> router_state" where
  "set_selectors workflowId generation isAllowlisted [] st = st"
| "set_selectors workflowId generation isAllowlisted (selector # selectors) st =
     (let R = rt_router st; s = ro_selectors R
      in set_selectors workflowId generation isAllowlisted selectors
           (st\<lparr>rt_router := R\<lparr>ro_selectors := s(workflowId := (s workflowId)(generation := (s workflowId generation)(selector := isAllowlisted)))\<rparr>,
               rt_events := rt_events st @ [WorkflowSelectorSet workflowId selector isAllowlisted]\<rparr>))"

definition setWorkflowSelectors :: "address \<Rightarrow> byte list \<Rightarrow> byte list list \<Rightarrow> bool \<Rightarrow> router_state \<Rightarrow> router_error + router_state" where
  "setWorkflowSelectors caller workflowId selectors isAllowlisted st =
     (if caller \<notin> set (rt_configOperators st) then Inl (Unauthorized caller)
      else if all_zero workflowId then Inl NoZeroWorkflowId
      else if selectors = [] then Inl NoSelectors
      else if all_zero (snd (ro_metadata (rt_router st) workflowId)) then Inl (WorkflowNotRegistered workflowId)
      else Inr (set_selectors workflowId (ro_generations (rt_router st) workflowId) isAllowlisted selectors st))"

definition router_pause :: "address \<Rightarrow> router_state \<Rightarrow> router_error + router_state" where
  "router_pause caller st =
     (if caller \<notin> set (rt_pausers st) then Inl (Unauthorized caller)
      else if ro_paused (rt_router st) then Inl EnforcedPause
      else Inr (st\<lparr>rt_router := (rt_router st)\<lparr>ro_paused := True\<rparr>, rt_events := rt_events st @ [RouterPaused caller]\<rparr>))"

definition router_unpause :: "address \<Rightarrow> router_state \<Rightarrow> router_error + router_state" where
  "router_unpause caller st =
     (if caller \<notin> set (rt_unpausers st) then Inl (Unauthorized caller)
      else if \<not> ro_paused (rt_router st) then Inl ExpectedPause
      else Inr (st\<lparr>rt_router := (rt_router st)\<lparr>ro_paused := False\<rparr>, rt_events := rt_events st @ [RouterUnpaused caller]\<rparr>))"

definition getAllowlistedWorkflowSelector :: "router_state \<Rightarrow> byte list \<Rightarrow> byte list \<Rightarrow> bool" where
  "getAllowlistedWorkflowSelector st workflowId selector =
     ro_selectors (rt_router st) workflowId (ro_generations (rt_router st) workflowId) selector"

section \<open>The contract's life\<close>

inductive router_step :: "router_state \<Rightarrow> router_state \<Rightarrow> bool" where
  step_metadata: "setWorkflowMetadata caller wid name owner st = Inr st' \<Longrightarrow> router_step st st'"
| step_selectors: "setWorkflowSelectors caller wid selectors allowed st = Inr st' \<Longrightarrow> router_step st st'"
| step_pause: "router_pause caller st = Inr st' \<Longrightarrow> router_step st st'"
| step_unpause: "router_unpause caller st = Inr st' \<Longrightarrow> router_step st st'"
| step_roles: "router_step st (st\<lparr>rt_router := (rt_router st)\<lparr>ro_forwarders := fs\<rparr>, rt_pausers := ps, rt_unpausers := us, rt_configOperators := cs\<rparr>)"

inductive router_reachable :: "(address \<Rightarrow> uint64) \<Rightarrow> address \<Rightarrow> RouterConstructorParams \<Rightarrow> router_state \<Rightarrow> bool" for g this p where
  reach_new: "routerConstructor g this p = Inr st \<Longrightarrow> router_reachable g this p st"
| reach_step: "router_reachable g this p st \<Longrightarrow> router_step st st' \<Longrightarrow> router_reachable g this p st'"

section \<open>The promise\<close>

type_synonym registry = "(byte list \<Rightarrow> (byte list \<times> byte list) option) \<times> (byte list \<Rightarrow> byte list \<Rightarrow> bool)"

fun registry_step :: "registry \<Rightarrow> router_event \<Rightarrow> registry" where
  "registry_step (reg, allow) (WorkflowMetadataSet wid name owner) =
     (reg(wid := if all_zero owner then None else Some (name, owner)), allow(wid := (\<lambda>_. False)))"
| "registry_step (reg, allow) (WorkflowSelectorSet wid selector allowed) = (reg, allow(wid := (allow wid)(selector := allowed)))"
| "registry_step (reg, allow) (RouterPaused a) = (reg, allow)"
| "registry_step (reg, allow) (RouterUnpaused a) = (reg, allow)"

definition registry_of :: "router_event list \<Rightarrow> registry" where
  "registry_of es = foldl registry_step (\<lambda>_. None, \<lambda>_ _. False) es"

definition registry_abs :: "router \<Rightarrow> registry" where
  "registry_abs R = ((\<lambda>wid. if all_zero (snd (ro_metadata R wid)) then None else Some (ro_metadata R wid)),
     (\<lambda>wid. ro_selectors R wid (ro_generations R wid)))"

text \<open>Nothing is stored for generations to come, and name and owner of a workflow are set or unset together.\<close>

definition registry_ok :: "router_state \<Rightarrow> bool" where
  "registry_ok st \<longleftrightarrow> registry_of (rt_events st) = registry_abs (rt_router st) \<and>
     (\<forall>wid g. ro_generations (rt_router st) wid < g \<longrightarrow> ro_selectors (rt_router st) wid g = (\<lambda>_. False)) \<and>
     (\<forall>wid. all_zero (fst (ro_metadata (rt_router st) wid)) = all_zero (snd (ro_metadata (rt_router st) wid)))"

lemma registry_of_snoc [simp]: "registry_of (es @ [e]) = registry_step (registry_of es) e"
  by (simp add: registry_of_def)

lemma registry_step_pause [simp]: "registry_step r (RouterPaused a) = r" "registry_step r (RouterUnpaused a) = r"
  by (cases r, simp)+

lemma registry_ok_cong:
  assumes "registry_ok st" "registry_of (rt_events st') = registry_of (rt_events st)"
    and "ro_metadata (rt_router st') = ro_metadata (rt_router st)" "ro_generations (rt_router st') = ro_generations (rt_router st)"
    and "ro_selectors (rt_router st') = ro_selectors (rt_router st)"
  shows "registry_ok st'"
  using assms by (simp add: registry_ok_def registry_abs_def cong: if_cong)

lemma setWorkflowMetadata_ok:
  assumes "registry_ok st" "setWorkflowMetadata caller wid name owner st = Inr st'"
  shows "registry_ok st'"
  using assms by (auto simp: setWorkflowMetadata_def registry_ok_def registry_abs_def Let_def fun_eq_iff split: if_splits)

lemma set_selectors_ok:
  "registry_ok st \<Longrightarrow> g = ro_generations (rt_router st) wid \<Longrightarrow> registry_ok (set_selectors wid g allowed sels st)"
proof (induction sels arbitrary: st)
  case (Cons sel sels)
  show ?case unfolding set_selectors.simps Let_def
    by (rule Cons.IH) (use Cons.prems in \<open>auto simp: registry_ok_def registry_abs_def fun_eq_iff\<close>)
qed simp

lemma router_step_ok: "router_step st st' \<Longrightarrow> registry_ok st \<Longrightarrow> registry_ok st'"
proof (induction rule: router_step.induct)
  case (step_metadata caller wid name owner st st')
  then show ?case using setWorkflowMetadata_ok by blast
next
  case (step_selectors caller wid selectors allowed st st')
  then show ?case by (auto simp: setWorkflowSelectors_def set_selectors_ok split: if_splits)
next
  case (step_pause caller st st')
  then show ?case by (auto simp: router_pause_def elim!: registry_ok_cong split: if_splits)
next
  case (step_unpause caller st st')
  then show ?case by (auto simp: router_unpause_def elim!: registry_ok_cong split: if_splits)
next
  case (step_roles st fs ps us cs)
  then show ?case by (auto elim!: registry_ok_cong)
qed

lemma router_reachable_ok: "router_reachable g this p st \<Longrightarrow> registry_ok st"
proof (induction rule: router_reachable.induct)
  case (reach_new st)
  then show ?case by (auto simp: routerConstructor_def registry_ok_def registry_abs_def registry_of_def all_zero_def list_all_iff Let_def split: if_splits)
qed (rule router_step_ok)

lemma set_selectors_keeps [simp]:
  "ro_thisChainSelector (rt_router (set_selectors wid g allowed sels st)) = ro_thisChainSelector (rt_router st)"
  "ro_address (rt_router (set_selectors wid g allowed sels st)) = ro_address (rt_router st)"
  by (induction sels arbitrary: st) (simp_all add: Let_def)

lemma router_reachable_immutable:
  "router_reachable g this p st \<Longrightarrow> ro_thisChainSelector (rt_router st) = g (rp_vault p) \<and> ro_address (rt_router st) = this"
proof (induction rule: router_reachable.induct)
  case (reach_step st st')
  from reach_step(2) have "ro_thisChainSelector (rt_router st') = ro_thisChainSelector (rt_router st) \<and> ro_address (rt_router st') = ro_address (rt_router st)"
    by cases (auto simp: setWorkflowMetadata_def setWorkflowSelectors_def router_pause_def router_unpause_def Let_def split: if_splits)
  with reach_step.IH show ?case by simp
qed (auto simp: routerConstructor_def Let_def split: if_splits)

section \<open>What is forwarded\<close>

definition authorised :: "router_event list \<Rightarrow> byte list \<Rightarrow> byte list \<Rightarrow> byte list \<Rightarrow> byte list \<Rightarrow> bool" where
  "authorised es wid name owner selector \<longleftrightarrow>
     \<not> all_zero wid \<and> fst (registry_of es) wid = Some (name, owner) \<and> snd (registry_of es) wid selector"

lemma registered_iff:
  assumes "registry_ok st"
  shows "\<not> all_zero name \<and> \<not> all_zero owner \<and> ro_metadata (rt_router st) wid = (name, owner) \<longleftrightarrow> fst (registry_of (rt_events st)) wid = Some (name, owner)"
  using assms by (force simp: registry_ok_def registry_abs_def)

lemma allowed_iff:
  "registry_ok st \<Longrightarrow> ro_selectors (rt_router st) wid (ro_generations (rt_router st) wid) = snd (registry_of (rt_events st)) wid"
  by (simp add: registry_ok_def registry_abs_def)

lemma getAllowlistedWorkflowSelector_iff:
  "registry_ok st \<Longrightarrow> getAllowlistedWorkflowSelector st wid selector \<longleftrightarrow> snd (registry_of (rt_events st)) wid selector"
  by (simp add: getAllowlistedWorkflowSelector_def allowed_iff)

lemma open_envelope_Inr_iff:
  "open_envelope R ts report = Inr call \<longleftrightarrow> 64 \<le> length report \<and> call = drop 60 report \<and>
     bytes_u64 (take 8 report) = ro_thisChainSelector R \<and> bytes_address (take 20 (drop 8 report)) = ro_address R \<and>
     unat (bytes_u256 (take 32 (drop 28 report))) \<le> ts \<and> ts \<le> unat (bytes_u256 (take 32 (drop 28 report))) + 1800"
  by (auto simp: open_envelope_def Let_def)

lemma onReport_Inr_iff:
  "onReport vault R sender ts metadata report = Inr call \<longleftrightarrow> \<not> ro_paused R \<and> sender \<in> set (ro_forwarders R) \<and>
     open_envelope R ts report = Inr call \<and> fst (vault call) \<and>
     (\<exists>wid name owner. decodeMetadata metadata = Inr (wid, name, owner) \<and> \<not> all_zero wid \<and>
        (\<not> all_zero name \<and> \<not> all_zero owner \<and> ro_metadata R wid = (name, owner)) \<and> ro_selectors R wid (ro_generations R wid) (take 4 call))"
  by (auto simp: onReport_def split: sum.splits)

section \<open>Revocation\<close>

lemma set_selectors_events:
  "rt_events (set_selectors wid g allowed sels st) = rt_events st @ map (\<lambda>selector. WorkflowSelectorSet wid selector allowed) sels"
  by (induction sels arbitrary: st) (simp_all add: Let_def)

lemma router_step_events: "router_step st st' \<Longrightarrow> \<exists>es. rt_events st' = rt_events st @ es"
  by (erule router_step.cases) (auto simp: setWorkflowMetadata_def setWorkflowSelectors_def set_selectors_events router_pause_def
      router_unpause_def Let_def split: if_splits)

lemma router_steps_events: "router_step\<^sup>*\<^sup>* st st' \<Longrightarrow> \<exists>es. rt_events st' = rt_events st @ es"
proof (induction rule: rtranclp_induct)
  case (step st' st'')
  then show ?case using router_step_events by fastforce
qed simp

lemma router_steps_reachable: "router_step\<^sup>*\<^sup>* st st' \<Longrightarrow> router_reachable g this p st \<Longrightarrow> router_reachable g this p st'"
  by (induction rule: rtranclp_induct) (auto intro: reach_step)

lemma allowed_since:
  "snd (foldl registry_step r es) wid selector \<Longrightarrow> \<not> snd r wid selector \<Longrightarrow> WorkflowSelectorSet wid selector True \<in> set es"
proof (induction es arbitrary: r)
  case (Cons e es)
  show ?case
  proof (cases "snd (registry_step r e) wid selector")
    case True
    with Cons.prems(2) show ?thesis by (cases r; cases e) (auto split: if_splits)
  next
    case False
    with Cons show ?thesis by simp
  qed
qed simp

end
