(* ===== verification/Router_Properties.thy ===== *)
theory Router_Properties
  imports Router_Registry Example_Deployment
begin

text \<open>
  What the router's registry promises: a report is forwarded exactly when the log of registrations authorises it, and a new
  registration takes back what an earlier one allowed. The example registers a workflow, changes its name and allows it
  one selector.
\<close>

section \<open>An example\<close>

definition ex_new :: router_state where
  "ex_new = \<lparr>rt_router = \<lparr>ro_paused = False, ro_forwarders = [5], ro_metadata = (\<lambda>_. (replicate 10 0, replicate 20 0)),
       ro_generations = (\<lambda>_. 0), ro_selectors = (\<lambda>_ _ _. False), ro_thisChainSelector = ec_ChainSelector ex_parent,
       ro_address = HexToAddress ex_env (ec_WorkflowRouterAddress ex_parent)\<rparr>,
     rt_pausers = [2], rt_unpausers = [3], rt_configOperators = [4], rt_events = []\<rparr>"

definition ex_router_new_params :: RouterConstructorParams where
  "ex_router_new_params = \<lparr>rp_initialDelay = 0, rp_defaultAdmin = 1, rp_pauser = 2, rp_unpauser = 3, rp_configOperator = 4,
     rp_keystoneForwarder = 5, rp_vault = 6\<rparr>"

definition register :: "byte list \<Rightarrow> router_state \<Rightarrow> router_state" where
  "register name st = st\<lparr>rt_router := (rt_router st)\<lparr>
       ro_generations := (ro_generations (rt_router st))(replicate 32 7 := ro_generations (rt_router st) (replicate 32 7) + 1),
       ro_metadata := (ro_metadata (rt_router st))(replicate 32 7 := (name, replicate 20 9))\<rparr>,
     rt_events := rt_events st @ [WorkflowMetadataSet (replicate 32 7) name (replicate 20 9)]\<rparr>"

definition ex_registered :: router_state where
  "ex_registered = register (replicate 10 8) ex_new"

definition ex_changed :: router_state where
  "ex_changed = register (replicate 10 6) ex_registered"

definition ex_allowed :: router_state where
  "ex_allowed = set_selectors (replicate 32 7) (Suc 1) True [replicate 4 10] ex_changed"

definition ex_wmeta :: "byte list" where
  "ex_wmeta = replicate 32 7 @ replicate 10 6 @ replicate 20 9 @ [0, 0]"

lemmas ex_registry_defs = ex_new_def ex_router_new_params_def register_def ex_registered_def ex_changed_def ex_allowed_def

lemma ex_wmeta_decodes: "decodeMetadata ex_wmeta = Inr (replicate 32 7, replicate 10 6, replicate 20 9)"
  by (simp add: decodeMetadata_def ex_wmeta_def)

lemma ex_new_reachable: "router_reachable (\<lambda>_. ec_ChainSelector ex_parent) (HexToAddress ex_env (ec_WorkflowRouterAddress ex_parent)) ex_router_new_params ex_new"
  by (rule reach_new) (simp add: routerConstructor_def ex_registry_defs ex_parent_def)

lemma all_zero_replicate: "all_zero (replicate n b) \<longleftrightarrow> n = 0 \<or> b = 0"
  by (auto simp: all_zero_def list_all_iff)

lemma replicate_same_eq: "replicate n a = replicate n b \<longleftrightarrow> n = 0 \<or> a = b"
  by (cases n) auto

lemma ex_registers: "setWorkflowMetadata 4 (replicate 32 7) (replicate 10 8) (replicate 20 9) ex_new = Inr ex_registered"
  by (simp add: setWorkflowMetadata_def ex_registry_defs all_zero_replicate replicate_same_eq del: replicate_Suc)

lemma ex_changes: "setWorkflowMetadata 4 (replicate 32 7) (replicate 10 6) (replicate 20 9) ex_registered = Inr ex_changed"
  by (simp add: setWorkflowMetadata_def ex_registry_defs all_zero_replicate replicate_same_eq del: replicate_Suc)

lemma ex_allow_step: "router_step ex_changed ex_allowed"
  by (rule step_selectors [of 4 "replicate 32 7" "[replicate 4 10]" True])
    (simp add: setWorkflowSelectors_def ex_registry_defs all_zero_replicate del: replicate_Suc)

lemmas ex_registered_reachable = reach_step [OF ex_new_reachable step_metadata [OF ex_registers]]

lemmas ex_allowed_reachable = reach_step [OF reach_step [OF ex_registered_reachable step_metadata [OF ex_changes]] ex_allow_step]

lemma ex_allowed_forwards:
  "onReport (\<lambda>call. (True, [])) (rt_router ex_allowed) 5 10100 ex_wmeta (ex_payload ex_parent (replicate 8 10)) = Inr (replicate 8 10)"
proof -
  have p: "EncodeReport ex_env ex_parent 10000 (replicate 8 10) = Ok (ex_payload ex_parent (replicate 8 10))" by (rule ex_encode) simp_all
  show ?thesis unfolding onReport_Inr_iff open_envelope_EncodeReport [OF p] ex_wmeta_decodes
    by (simp add: ex_registry_defs all_zero_replicate Let_def del: replicate_Suc)
qed

section \<open>Properties\<close>

text \<open>
  C24: The router forwards exactly what is authorised. In every reachable state, a report is forwarded if and only if the router is not paused, a
  keystone forwarder delivers it, it is addressed to this chain and this router and not older than thirty minutes, the vault
  accepts the call, and the contract's event log authorises it: the named workflow is registered
  with that name and owner, and has been allowed the selector since.
\<close>

theorem router_forwards_authorised:
  assumes "router_reachable getThisChainSelector this p st"
  shows "onReport vault (rt_router st) sender ts metadata report = Inr call \<longleftrightarrow>
    \<not> ro_paused (rt_router st) \<and> sender \<in> set (ro_forwarders (rt_router st)) \<and> 64 \<le> length report \<and> call = drop 60 report \<and>
    bytes_u64 (take 8 report) = getThisChainSelector (rp_vault p) \<and> bytes_address (take 20 (drop 8 report)) = this \<and>
    unat (bytes_u256 (take 32 (drop 28 report))) \<le> ts \<and> ts \<le> unat (bytes_u256 (take 32 (drop 28 report))) + 1800 \<and> fst (vault call) \<and>
    (\<exists>wid name owner. decodeMetadata metadata = Inr (wid, name, owner) \<and> authorised (rt_events st) wid name owner (take 4 call))"
  unfolding onReport_Inr_iff open_envelope_Inr_iff registered_iff [OF router_reachable_ok [OF assms]]
    allowed_iff [OF router_reachable_ok [OF assms]] authorised_def
  using router_reachable_immutable [OF assms] by auto

theorem router_forwards_authorised_witness:
  "onReport (\<lambda>call. (True, [])) (rt_router ex_allowed) 5 10100 ex_wmeta (ex_payload ex_parent (replicate 8 10)) = Inr (replicate 8 10) \<and>
     authorised (rt_events ex_allowed) (replicate 32 7) (replicate 10 6) (replicate 20 9) (replicate 4 10)"
  using router_forwards_authorised [OF ex_allowed_reachable, where vault = "\<lambda>call. (True, [])" and sender = 5 and ts = 10100
      and metadata = ex_wmeta and report = "ex_payload ex_parent (replicate 8 10)" and call = "replicate 8 10"] ex_allowed_forwards
    ex_wmeta_decodes by simp

text \<open>
  C25: A registration revokes what came before. When a workflow's metadata has been set, be it to register, change or
  remove the workflow, then in every later state of the router a report of that workflow is forwarded only
  when an operator has allowed its selector in the meantime, and only under the name and owner that are then registered.
\<close>

theorem registration_revokes:
  assumes "router_reachable getThisChainSelector this p st" "setWorkflowMetadata caller wid name owner st = Inr st'"
    and "router_step\<^sup>*\<^sup>* st' st''" "decodeMetadata metadata = Inr (wid, name', owner')"
    and "onReport vault (rt_router st'') sender ts metadata report = Inr call"
  shows "\<exists>es. rt_events st'' = rt_events st' @ es \<and> WorkflowSelectorSet wid (take 4 call) True \<in> set es \<and>
    fst (registry_of (rt_events st'')) wid = Some (name', owner')"
proof -
  have reach: "router_reachable getThisChainSelector this p st''"
    using router_steps_reachable [OF assms(3) reach_step [OF assms(1) step_metadata [OF assms(2)]]] .
  obtain es where es: "rt_events st'' = rt_events st' @ es" using router_steps_events [OF assms(3)] ..
  have "\<not> snd (registry_of (rt_events st')) wid (take 4 call)"
    using assms(2) by (cases "registry_of (rt_events st)") (auto simp: setWorkflowMetadata_def Let_def split: if_splits)
  moreover have "snd (foldl registry_step (registry_of (rt_events st')) es) wid (take 4 call)" "fst (registry_of (rt_events st'')) wid = Some (name', owner')"
    using assms(4,5) es registered_iff [OF router_reachable_ok [OF reach]] allowed_iff [OF router_reachable_ok [OF reach]]
    by (auto simp: onReport_Inr_iff registry_of_def)
  ultimately show ?thesis using es allowed_since by blast
qed

theorem registration_revokes_witness:
  "\<exists>es. rt_events ex_allowed = rt_events ex_changed @ es \<and> WorkflowSelectorSet (replicate 32 7) (replicate 4 10) True \<in> set es"
  using registration_revokes [OF ex_registered_reachable ex_changes r_into_rtranclp [of router_step, OF ex_allow_step] ex_wmeta_decodes ex_allowed_forwards]
  by auto

end
