(* ===== verification/Spec2Isabelle.thy ===== *)
theory Spec2Isabelle
  imports Lifecycle_Properties Epoch_Properties Rebalance_Properties State_Properties Package_Properties Parent_Properties Router_Properties
begin

text \<open>
  Yieldcoin v2 keeps one pooled position in the best approved lending market across several chains. A parent vault
  on one chain and a child vault on each other chain hold the funds; a Chainlink CRE workflow written in
  Go decides when to close an epoch of deposits and withdrawals and when to move the position, and tells the
  vaults by signed reports. This development models that workflow (\<open>src/cre/workflow\<close>), the generated
  contract bindings it stands on (\<open>src/cre/contracts/evm/src/generated\<close>), and the contracts that the workflow drives
  (\<open>src/evm/src\<close>): the parent vault, the child vault, the base they share, and the router that opens the reports.

  A run of the workflow. A cron schedule or a finalized vault log starts a handler. \<open>withOperationalGuard\<close> reads the
  operational state of every configured vault once, and stops when any is paused or in recovery. The
  handler then either skips with a reason, or fails, or encodes one vault call and submits it: \<open>EncodeReport\<close> prefixes
  target chain, router and time, the host signs, \<open>WriteReport\<close> sends it to the router of the target chain, and
  \<open>WorkflowRouter.onReport\<close> checks the envelope and forwards the call to the vault. The vaults carry the call out, move funds
  between each other by bridge messages, keep what could not be done for a later \<open>executeRecovery\<close>, and emit the
  events that start the next run.

  How code becomes definitions. A Go function that returns an error is a value of \<open>outcome\<close> (\<open>Ok\<close>, \<open>Err\<close>, \<open>Panic\<close>); nil
  dereferences and slices out of range are panics. A function that calls its host takes the trace of host calls
  made so far and returns its outcome with the longer trace, so that ordering and number of calls can be
  stated. \<open>*big.Int\<close> is \<open>int option\<close> (\<open>None\<close> is nil), fixed-width integers are words, \<open>float64\<close> is its value with correct
  rounding. Solidity functions return a revert or the new storage, with checked 256-bit arithmetic. The functions of the vault
  contracts are transactions \<open>'v chain_state \<Rightarrow> vault_revert + ('a \<times> 'v chain_state)\<close> over the two storages and a trace of what they did outside
  them (token transfers, strategy calls, messages, events); what other contracts answer during a transaction is an
  argument \<open>vault_world\<close>, chosen anew for each transaction. What is not in
  the repository is a parameter: go-ethereum's ABI and address functions, the CRE host, the node network and its
  consensus, Go's map order, Solady's \<open>fullMulDiv\<close>, \<open>fullMulDivUp\<close> and \<open>toInt256\<close>. Hypotheses named \<open>_doc\<close> state what their
  documentation promises, and \<open>Example_Deployment\<close> and \<open>Lifecycle_Properties\<close> give concrete functions that satisfy them.

  The theories, in the order they build on each other:

  \<^item> \<open>Yield_Prelude\<close>: outcomes, traces and their specification predicate, Go errors and formatting, big-endian bytes,
    ASCII strings. \<open>Go_Float\<close> and \<open>Go_Json\<close>: the parts of \<open>float64\<close>, \<open>strconv\<close> and \<open>encoding/json\<close> that the sources use.
    \<open>Host_Env\<close>: the parameters.
  \<^item> \<open>Vault_Bindings\<close>: the structs, codecs and reads of \<open>ParentVault.go\<close> and \<open>ChildVault.go\<close> that the workflow calls.
    \<open>Vault_Codec\<close> shows that the JSON hop of the output decoders loses nothing. \<open>Revert_Errors\<close>: the 75 error decoders of
    the parent binding and \<open>UnpackError\<close>. \<open>Vault_Events\<close>: its other event decoders and signature hashes.
    \<open>Child_Decoders\<close>, \<open>Base_Decoders\<close>, \<open>Router_Decoders\<close>: the error decoders, \<open>UnpackError\<close>, event decoders and hashes of the child vault,
    base vault and router bindings.
  \<^item> \<open>Binding_Shapes\<close>: the shapes the generated functions have in common. \<open>Binding_Contracts\<close>: the types of an ABI literal, their
    Go counterparts, and what a package promises. \<open>Parent_Calls\<close>, \<open>Child_Calls\<close>, \<open>Base_Calls\<close>, \<open>Router_Calls\<close>: the methods of the
    ABI literal, call encoders, output decoders, reads, struct reports and test doubles of the four packages.
    \<open>Parent_Logs\<close>, \<open>Child_Logs\<close>, \<open>Base_Logs\<close>, \<open>Router_Logs\<close>: their events, topic encoders, log triggers and log queries.
  \<^item> \<open>Config_Model\<close> (\<open>helper/config.go\<close>), \<open>Report_Model\<close> (\<open>onchain/report.go\<close> and \<open>onReport\<close> of \<open>WorkflowRouter.sol\<close>),
    \<open>Router_Registry\<close> (the rest of \<open>WorkflowRouter.sol\<close>),
    \<open>Onchain_State\<close> (\<open>onchain/state.go\<close>, \<open>bindings.go\<close>, \<open>interfaces.go\<close>, \<open>workflowtypes/result.go\<close>), \<open>Snapshot_World\<close> (what a
    snapshot holds when every vault answers), \<open>Handler_Contract\<close> (what every handler promises its caller).
  \<^item> \<open>Epoch_Accounting\<close> (\<open>epoch/accounting.go\<close> and \<open>ParentVaultEpochLib.sol\<close>), \<open>Epoch_Handlers\<close> (\<open>epoch/handlers.go\<close>).
  \<^item> \<open>Offchain_Pools\<close> and \<open>Pool_Feed\<close> (\<open>offchain/defillama.go\<close> and its meaning on JSON documents),
    \<open>Rebalance_Handlers\<close> (\<open>rebalance/policy.go\<close>, \<open>rebalance/handlers.go\<close>).
  \<^item> \<open>Workflow_Model\<close> (\<open>workflow.go\<close>) and \<open>Composition\<close>, which joins the handlers to the contract.
  \<^item> \<open>Vault_Lifecycle\<close>: the operations of the parent vault (\<open>ParentVault.sol\<close> and its libraries for users, epochs, bridge
    messages, rebalances, fees and configuration). \<open>Lifecycle_Invariant\<close>: the state machine they form, with
    its invariant by rule induction.
  \<^item> \<open>Bridge_Message\<close>: the types of messages and recoveries (\<open>Types.sol\<close>) and the ABI encoding of a message, with its round trip.
    \<open>Base_Vault\<close>: transactions and the code both vaults share (\<open>BaseVault.sol\<close> and its libraries). \<open>Child_Vault\<close> (\<open>ChildVault.sol\<close>),
    \<open>Child_Invariant\<close>: its reachable states, the jobs it has accepted and the slots that hold what failed. \<open>Child_Progress\<close>: when its
    calls and recoveries succeed. \<open>Child_Properties\<close> joins it to the workflow's handlers.
  \<^item> \<open>Parent_Vault\<close>: the functions of \<open>ParentVault.sol\<close> and \<open>Allowlist.sol\<close> as transactions over the operations of \<open>Vault_Lifecycle\<close>.
    \<open>Parent_Books\<close>: what the vault owes, and how each operation changes it. \<open>Parent_Invariant\<close>: every transaction keeps the books
    and is a run of the accounting. \<open>Parent_Properties\<close> states what follows, and joins the two vaults by the bridge.
  \<^item> \<open>Epoch_Properties\<close>, \<open>Lifecycle_Properties\<close>, \<open>Rebalance_Properties\<close>, \<open>Feed_Properties\<close>, \<open>State_Properties\<close>,
    \<open>Binding_Properties\<close>, \<open>Package_Properties\<close>, \<open>Router_Properties\<close> and this theory state the properties, with witnesses on \<open>Example_Deployment\<close>.

  Interfaces are locales: \<open>fixed_width_codec\<close> (the envelope's fields), \<open>submitter\<close> (what a submission may do), \<open>vault_reader\<close>
  (reading a vault), \<open>handler_contract\<close> (what a handler may do), \<open>rebalancer\<close> (the injected pool source), \<open>operational_guard\<close>
  (the wrapper of every handler), \<open>strict_linear_on\<close> (the pool order), \<open>error_dispatch\<close> (dispatch over a binding's errors),
  \<open>contract_binding\<close> (the calls and reads of a package) and \<open>event_binding\<close> (its events). Each is interpreted on the model's own
  definitions, and the properties rest on the interpreted facts.

  What the properties show. A run writes at most one report, only after reading every vault and with none blocked, and
  the router forwards exactly the encoded call within thirty minutes, if and only if its log of registrations authorises it;
  registering a workflow anew takes back what it was allowed before. The Go preflights of the epoch close and of
  the deposit completion accept exactly what the Solidity accounting accepts, with the same amounts; the share
  price of the remaining holders never falls; the amounts fit their types; the preflights never panic. The close
  handler submits exactly when the contract would settle, and the vault's transaction then succeeds; no epoch is
  closed twice; in every reachable state of the vault the books balance, an executing epoch and a rebalance exclude
  each other, and every claim can be paid. Withdrawal, deposit and rebalance events are acted on exactly under the
  stated conditions and not twice. Every transaction of the parent contract refines the accounting; its assets are at all times
  exactly what it owes, and a claim is paid out. A child accepts an epoch or rebalance once, completes it or keeps it for
  recovery, and a recovery can always be finished; a call that the workflow submits to it succeeds and is never repeated, and the
  message that carries a withdrawal settles the epoch at the parent. The pool feed's streaming parser computes what parsing the whole
  document would, independently of its order; a rebalance is started only towards a valid, fresh, better pool.
  Configuration validation accepts exactly the valid configurations. Of the four contract packages: encoded
  calls carry their arguments at the ABI's types, reads return what the contract answers, subscriptions and queries select
  their own event, revert and event decoders decode their own errors and events.

  Fuel. \<open>skipJSONValueDepth\<close> is the one recursion that is not structural; it takes fuel, started at twice the number of
  lexemes plus two. Each call consumes a lexeme or ends a loop, so this is enough on every input, and more fuel
  changes nothing (\<open>skip_terminates\<close>).

  Not modelled. \<open>main.go\<close> only starts the CRE runner. Of the generated bindings the \<open>Error()\<close> texts of the error
  structs are left out; the marshalling errors of the output decoders cannot occur at their types and are not branches. Log attributes are dropped from the trace. Strings are taken as valid
  UTF-8, and \<open>strings.ToLower\<close> and \<open>EqualFold\<close> as their ASCII part. Of the contracts, tokens, strategy adapters and their
  registry, the bridge and its router, and the storage of roles and pause are behind \<open>vault_world\<close>; reentrancy locks are left out, as
  a transaction of the model is not interrupted. Pausing, role grants, LINK withdrawal, upgrades and the
  getters of single values are not operations of the model. The asset is taken to transfer exactly the amount it is asked to.
\<close>

section \<open>The workflow as a whole\<close>





end
